(* ===== verification/Prelude.thy ===== *)
theory Prelude
  imports Main "HOL-Library.Sublist"
begin

section \<open>Prelude: the Go vocabulary the components share\<close>

text \<open>
  What every component of the proxy uses of Go and its standard library: errors, time readings,
  maps and the loops that range over them, and the byte-string functions of package
  \<open>strings\<close>. The generic lemmas on them carry the proofs of the component theories.

  A Go map is a partial function from its keys. \<open>range\<close> visits the entries of a map in an order
  the runtime picks anew for every loop; an operation with such a loop takes that order as the list
  of keys \<open>ks\<close>, and \<open>range_order m ks\<close> says that it is one.
\<close>

subsection \<open>Errors and time\<close>

text \<open>An error is the text its \<open>Error()\<close> method returns; \<open>nil\<close> is \<open>None\<close>. A call that returns
  \<open>(T, error)\<close> gives \<open>Inl e\<close> for a non-nil error and \<open>Inr x\<close> otherwise.\<close>

type_synonym error = string

type_synonym 'a result = "error + 'a"

text \<open>\<open>time.Time\<close> and \<open>time.Duration\<close>, in nanoseconds. The argument \<open>now\<close> of an operation is
  the reading of \<open>time.Now()\<close> it makes.\<close>

type_synonym gotime = int
type_synonym duration = int

abbreviation second :: duration where
  "second \<equiv> 1000000000"

abbreviation minute :: duration where
  "minute \<equiv> 60 * second"

abbreviation hour :: duration where
  "hour \<equiv> 60 * minute"

text \<open>Integer division, which truncates towards zero.\<close>

definition go_div :: "int \<Rightarrow> int \<Rightarrow> int" where
  "go_div a b = sgn a * sgn b * (\<bar>a\<bar> div \<bar>b\<bar>)"

lemma go_div_pos [simp]: "0 \<le> a \<Longrightarrow> 0 < b \<Longrightarrow> go_div a b = a div b"
  by (cases "a = 0") (simp_all add: go_div_def sgn_if)

definition is_ok :: "'a result \<Rightarrow> bool" where
  "is_ok r = (case r of Inl _ \<Rightarrow> False | Inr _ \<Rightarrow> True)"

lemma is_ok_simps [simp]: "\<not> is_ok (Inl e)" "is_ok (Inr x)"
  by (simp_all add: is_ok_def)

lemma is_ok_iff: "is_ok r \<longleftrightarrow> (\<exists>x. r = Inr x)"
  by (cases r) auto

text \<open>A call with three results is equal to the triple of its components.\<close>

lemma triple_collapse: "x = (fst x, fst (snd x), snd (snd x))"
  by simp

subsection \<open>Maps and range loops\<close>

definition range_order :: "('k \<rightharpoonup> 'v) \<Rightarrow> 'k list \<Rightarrow> bool" where
  "range_order m ks \<longleftrightarrow> distinct ks \<and> set ks = dom m"

text \<open>The values a loop \<open>for _, v := range m\<close> visits, in the order of \<open>ks\<close>.\<close>

definition range_values :: "('k \<rightharpoonup> 'v) \<Rightarrow> 'k list \<Rightarrow> 'v list" where
  "range_values m ks = List.map_filter m ks"

text \<open>The loop \<open>for k, v := range m { if P { delete(m, k) } }\<close>. An entry deleted before the loop
  reaches it is not visited.\<close>

fun range_delete :: "('v \<Rightarrow> bool) \<Rightarrow> 'k list \<Rightarrow> ('k \<rightharpoonup> 'v) \<Rightarrow> ('k \<rightharpoonup> 'v)" where
  "range_delete P [] m = m"
| "range_delete P (k # ks) m = range_delete P ks
     (case m k of None \<Rightarrow> m | Some v \<Rightarrow> if P v then m(k := None) else m)"

text \<open>The entries of a map that satisfy \<open>Q\<close>.\<close>

definition map_restrict_val :: "('v \<Rightarrow> bool) \<Rightarrow> ('k \<rightharpoonup> 'v) \<Rightarrow> ('k \<rightharpoonup> 'v)" where
  "map_restrict_val Q m = (\<lambda>k. case m k of None \<Rightarrow> None | Some v \<Rightarrow> if Q v then Some v else None)"

lemma range_order_empty [simp]: "range_order Map.empty ks \<longleftrightarrow> ks = []"
  by (auto simp: range_order_def)

lemma range_order_finite: "range_order m ks \<Longrightarrow> finite (dom m)"
  by (metis List.finite_set range_order_def)

lemma range_order_length: "range_order m ks \<Longrightarrow> length ks = card (dom m)"
  by (metis distinct_card range_order_def)

lemma range_order_ex: "finite (dom m) \<Longrightarrow> \<exists>ks. range_order m ks"
  by (metis finite_distinct_list range_order_def)

lemma range_values_Nil [simp]: "range_values m [] = []"
  by (simp add: range_values_def List.map_filter_def)

lemma range_values_Cons: "range_values m (k # ks) =
    (case m k of None \<Rightarrow> range_values m ks | Some v \<Rightarrow> v # range_values m ks)"
  by (simp add: range_values_def List.map_filter_def split: option.splits)

lemma set_range_values: "range_order m ks \<Longrightarrow> set (range_values m ks) = ran m"
  by (force simp: range_order_def range_values_def List.map_filter_def ran_def image_iff)

lemma set_range_values_subset: "set (range_values m ks) \<subseteq> ran m"
  by (auto simp: range_values_def List.map_filter_def ran_def)

lemma length_range_values: "range_order m ks \<Longrightarrow> length (range_values m ks) = card (dom m)"
proof -
  assume ro: "range_order m ks"
  then have "filter (\<lambda>k. m k \<noteq> None) ks = ks"
    by (intro filter_True) (auto simp: range_order_def)
  then have "length (range_values m ks) = length ks"
    by (simp add: range_values_def List.map_filter_def)
  with ro show ?thesis by (simp add: range_order_length)
qed

lemma find_range_valuesD:
  "find P (range_values m ks) = Some x \<Longrightarrow> x \<in> ran m \<and> P x"
  using set_range_values_subset [of m ks] by (auto simp: find_Some_iff)

lemma find_range_values_unique:
  assumes ro: "range_order m ks" and x: "x \<in> ran m" "P x"
    and unique: "\<And>y. y \<in> ran m \<Longrightarrow> P y \<Longrightarrow> y = x"
  shows "find P (range_values m ks) = Some x"
proof (cases "find P (range_values m ks)")
  case None
  then have "\<not> P x" using x(1) ro by (simp add: find_None_iff set_range_values)
  with x(2) show ?thesis by simp
next
  case (Some y)
  from unique [of y] find_range_valuesD [OF Some] Some show ?thesis by blast
qed

lemma range_delete_notin: "k \<notin> set ks \<Longrightarrow> range_delete P ks m k = m k"
  by (induction P ks m rule: range_delete.induct) (auto split: option.splits)

lemma range_delete_in:
  "distinct ks \<Longrightarrow> k \<in> set ks \<Longrightarrow>
   range_delete P ks m k = (case m k of None \<Rightarrow> None | Some v \<Rightarrow> if P v then None else Some v)"
proof (induction P ks m rule: range_delete.induct)
  case (1 P m)
  then show ?case by simp
next
  case (2 P k' ks m)
  then show ?case
    by (cases "k = k'") (auto simp: range_delete_notin split: option.splits if_splits)
qed

lemma range_delete_eq:
  assumes "range_order m ks"
  shows "range_delete P ks m = map_restrict_val (\<lambda>v. \<not> P v) m"
proof
  fix k
  show "range_delete P ks m k = map_restrict_val (\<lambda>v. \<not> P v) m k"
  proof (cases "k \<in> set ks")
    case True
    with assms show ?thesis
      by (auto simp: range_delete_in range_order_def map_restrict_val_def split: option.splits)
  next
    case False
    with assms have "m k = None" by (auto simp: range_order_def domIff)
    with False show ?thesis by (simp add: range_delete_notin map_restrict_val_def)
  qed
qed

lemma map_restrict_val_Some [simp]:
  "map_restrict_val Q m k = Some v \<longleftrightarrow> m k = Some v \<and> Q v"
  by (auto simp: map_restrict_val_def split: option.splits if_splits)

lemma map_restrict_val_None:
  "map_restrict_val Q m k = None \<longleftrightarrow> (\<forall>v. m k = Some v \<longrightarrow> \<not> Q v)"
  by (auto simp: map_restrict_val_def split: option.splits)

lemma dom_map_restrict_val: "dom (map_restrict_val Q m) \<subseteq> dom m"
  by (auto simp: map_restrict_val_def split: option.splits)

lemma ran_map_upd_subset: "ran (m(k \<mapsto> v)) \<subseteq> insert v (ran m)"
  by (auto simp: ran_def)

lemma ran_map_del_subset: "ran (m(k := None)) \<subseteq> ran m"
  by (auto simp: ran_def split: if_splits)

end
