(* ===== verification/GoStrings.thy ===== *)
theory GoStrings
  imports Prelude
begin

section \<open>Byte strings: what the code uses of package strings\<close>

text \<open>
  A Go string is a sequence of bytes, here the characters of HOL. \<open>ToLower\<close>, \<open>Title\<close> and \<open>TrimSpace\<close> are
  modelled on their ASCII range: a byte from 128 on is left as it is. \<open>Split\<close> is used with
  separators of one byte only.
\<close>

definition HasPrefix :: "string \<Rightarrow> string \<Rightarrow> bool" where
  "HasPrefix s p = prefix p s"

definition HasSuffix :: "string \<Rightarrow> string \<Rightarrow> bool" where
  "HasSuffix s p = suffix p s"

definition Contains :: "string \<Rightarrow> string \<Rightarrow> bool" where
  "Contains s sub = sublist sub s"

definition TrimSuffix :: "string \<Rightarrow> string \<Rightarrow> string" where
  "TrimSuffix s p = (if suffix p s then take (length s - length p) s else s)"

definition TrimPrefix :: "string \<Rightarrow> string \<Rightarrow> string" where
  "TrimPrefix s p = (if prefix p s then drop (length p) s else s)"

fun Split :: "string \<Rightarrow> char \<Rightarrow> string list" where
  "Split [] c = [[]]"
| "Split (x # xs) c =
     (if x = c then [] # Split xs c
      else case Split xs c of [] \<Rightarrow> [[x]] | y # ys \<Rightarrow> (x # y) # ys)"

text \<open>\<open>strings.SplitN(s, sep, 2)\<close>: at the first separator only.\<close>

fun SplitN2 :: "string \<Rightarrow> char \<Rightarrow> string list" where
  "SplitN2 [] c = [[]]"
| "SplitN2 (x # xs) c =
     (if x = c then [[], xs]
      else case SplitN2 xs c of [] \<Rightarrow> [[x]] | y # ys \<Rightarrow> (x # y) # ys)"

fun Join :: "string list \<Rightarrow> string \<Rightarrow> string" where
  "Join [] sep = []"
| "Join [s] sep = s"
| "Join (s # ss) sep = s @ sep @ Join ss sep"

definition lower_char :: "char \<Rightarrow> char" where
  "lower_char c = (let n = (of_char c :: nat) in if 65 \<le> n \<and> n \<le> 90 then char_of (n + 32) else c)"

definition ToLower :: "string \<Rightarrow> string" where
  "ToLower s = map lower_char s"

text \<open>\<open>strings.Title\<close> capitalizes the letters at the start of a word; a character that is no
  letter, digit or underscore separates words.\<close>

definition is_separator :: "char \<Rightarrow> bool" where
  "is_separator c = (let n = (of_char c :: nat) in
     \<not> (48 \<le> n \<and> n \<le> 57 \<or> 65 \<le> n \<and> n \<le> 90 \<or> 97 \<le> n \<and> n \<le> 122 \<or> n = 95 \<or> 128 \<le> n))"

definition upper_char :: "char \<Rightarrow> char" where
  "upper_char c = (let n = (of_char c :: nat) in if 97 \<le> n \<and> n \<le> 122 then char_of (n - 32) else c)"

fun title_after :: "char \<Rightarrow> string \<Rightarrow> string" where
  "title_after p [] = []"
| "title_after p (c # cs) = (if is_separator p then upper_char c else c) # title_after c cs"

definition Title :: "string \<Rightarrow> string" where
  "Title s = title_after CHR '' '' s"

definition is_space :: "char \<Rightarrow> bool" where
  "is_space c = (let n = (of_char c :: nat) in n = 32 \<or> (9 \<le> n \<and> n \<le> 13))"

definition TrimSpace :: "string \<Rightarrow> string" where
  "TrimSpace s = rev (dropWhile is_space (rev (dropWhile is_space s)))"

text \<open>The verb \<open>%d\<close> of package \<open>fmt\<close>.\<close>

fun show_nat :: "nat \<Rightarrow> string" where
  "show_nat n = (if n < 10 then [char_of (48 + n)] else show_nat (n div 10) @ [char_of (48 + n mod 10)])"

declare show_nat.simps [simp del]

definition show_int :: "int \<Rightarrow> string" where
  "show_int i = (if i < 0 then CHR ''-'' # show_nat (nat (- i)) else show_nat (nat i))"

subsection \<open>Lemmas\<close>

lemmas go_string_defs = HasPrefix_def HasSuffix_def Contains_def TrimSuffix_def TrimPrefix_def

lemma Split_nonempty [simp]: "Split s c \<noteq> []"
  by (induction s c rule: Split.induct) (auto split: list.splits)

lemma Split_notin: "c \<notin> set s \<Longrightarrow> Split s c = [s]"
  by (induction s c rule: Split.induct) auto

lemma Split_append: "c \<notin> set a \<Longrightarrow> Split (a @ c # b) c = a # Split b c"
  by (induction a) auto

lemma length_Split: "length (Split s c) = Suc (count_list s c)"
proof (induction s c rule: Split.induct)
  case (1 c)
  then show ?case by simp
next
  case (2 x xs c)
  then show ?case by (cases "Split xs c") auto
qed

lemma Join_head: "Join ((x # a) # ss) sep = x # Join (a # ss) sep"
  by (cases ss) simp_all

lemma Join_Split: "Join (Split s c) [c] = s"
proof (induction s c rule: Split.induct)
  case (2 x xs c)
  then show ?case by (cases "Split xs c") (auto simp: Join_head)
qed simp

text \<open>Two parts: exactly one separator, between them.\<close>

lemma Split_two_iff:
  "Split s c = [a, b] \<longleftrightarrow> s = a @ c # b \<and> c \<notin> set a \<and> c \<notin> set b"
proof
  assume sp: "Split s c = [a, b]"
  have "c \<in> set s"
  proof (rule ccontr)
    assume "c \<notin> set s"
    then have "Split s c = [s]" by (rule Split_notin)
    with sp show False by simp
  qed
  then obtain u v where s: "s = u @ c # v" and u: "c \<notin> set u"
    by (metis split_list_first)
  then have uv: "a = u" "Split v c = [b]" using sp by (simp_all add: Split_append)
  then have "count_list v c = 0" using length_Split [of v c] by simp
  then have "c \<notin> set v" by (simp add: count_list_0_iff)
  then have "v = b" using uv Split_notin by fastforce
  with s u uv \<open>c \<notin> set v\<close> show "s = a @ c # b \<and> c \<notin> set a \<and> c \<notin> set b" by simp
next
  assume "s = a @ c # b \<and> c \<notin> set a \<and> c \<notin> set b"
  then show "Split s c = [a, b]" by (simp add: Split_append Split_notin)
qed

lemma separator_inj:
  fixes c :: char
  assumes "c \<notin> set a" and "c \<notin> set a'"
  shows "a @ c # b = a' @ c # b' \<longleftrightarrow> a = a' \<and> b = b'"
proof
  assume eq: "a @ c # b = a' @ c # b'"
  then have "Split (a @ c # b) c = Split (a' @ c # b') c" by simp
  with assms have "a = a'" by (simp add: Split_append)
  with eq show "a = a' \<and> b = b'" by simp
qed simp

lemma TrimSuffix_append [simp]: "TrimSuffix (s @ p) p = s"
  by (simp add: TrimSuffix_def suffix_def)

lemma ToLower_append: "ToLower (a @ b) = ToLower a @ ToLower b"
  by (simp add: ToLower_def)

lemma ContainsI [intro]: "Contains (a @ sub @ b) sub"
  by (auto simp: Contains_def sublist_def)

definition read_nat :: "string \<Rightarrow> nat" where
  "read_nat s = foldl (\<lambda>n c. 10 * n + (of_char c - 48)) 0 s"

lemma read_show_nat [simp]: "read_nat (show_nat n) = n"
proof (induction n rule: show_nat.induct)
  case (1 n)
  show ?case
  proof (cases "n < 10")
    case True
    then show ?thesis by (simp add: show_nat.simps [of n] read_nat_def)
  next
    case False
    with 1 have "read_nat (show_nat (n div 10)) = n div 10" by simp
    with False show ?thesis
      by (simp add: show_nat.simps [of n] read_nat_def)
  qed
qed

lemma show_nat_inj [simp]: "show_nat m = show_nat n \<longleftrightarrow> m = n"
  by (metis read_show_nat)

subsection \<open>\<open>strings.ReplaceAll\<close>\<close>

text \<open>Of the occurrences of \<open>old\<close>, those found from the left without overlaps. The code never replaces the empty
  string; here that changes nothing.\<close>

function ReplaceAll :: "string \<Rightarrow> string \<Rightarrow> string \<Rightarrow> string" where
  "ReplaceAll [] old new = []"
| "ReplaceAll (c # cs) old new =
     (if old \<noteq> [] \<and> prefix old (c # cs) then new @ ReplaceAll (drop (length old) (c # cs)) old new
      else c # ReplaceAll cs old new)"
  by pat_completeness auto
termination
  by (relation "measure (\<lambda>(s, _). length s)") (auto simp: neq_Nil_conv)

lemma ReplaceAll_prefix:
  "old \<noteq> [] \<Longrightarrow> ReplaceAll (old @ s) old new = new @ ReplaceAll s old new"
  by (cases old) auto

text \<open>Where the first byte of \<open>old\<close> does not occur, nothing is replaced.\<close>

lemma ReplaceAll_skip:
  "x \<notin> set u \<Longrightarrow> ReplaceAll (u @ s) (x # old) new = u @ ReplaceAll s (x # old) new"
  by (induction u) auto

lemma while_until:
  "c \<notin> set v \<Longrightarrow> takeWhile (\<lambda>x. x \<noteq> c) (v @ c # s) = v"
  "c \<notin> set v \<Longrightarrow> dropWhile (\<lambda>x. x \<noteq> c) (v @ c # s) = c # s"
  by (induction v) auto

lemma prefix_until:
  assumes "c \<notin> set v" and "c \<notin> set w" and "prefix (v @ [c]) (w @ c # s)"
  shows "v = w"
  using assms
proof (induction v arbitrary: w)
  case Nil
  then show ?case by (cases w) auto
next
  case (Cons x v)
  then show ?case by (cases w) auto
qed

subsection \<open>\<open>strconv.Atoi\<close>\<close>

text \<open>An optional sign and decimal digits, within 64 bits. \<open>strconv.Quote\<close> is modelled on text without characters
  that it escapes.\<close>

definition is_digit :: "char \<Rightarrow> bool" where
  "is_digit c = (let n = (of_char c :: nat) in 48 \<le> n \<and> n \<le> 57)"

definition Quote :: "string \<Rightarrow> string" where
  "Quote s = [CHR 0x22] @ s @ [CHR 0x22]"

definition Atoi :: "string \<Rightarrow> int result" where
  "Atoi s =
     (let neg = HasPrefix s ''-''; ds = (if neg \<or> HasPrefix s ''+'' then drop 1 s else s);
          v = (if neg then - int (read_nat ds) else int (read_nat ds)) in
      if ds = [] \<or> \<not> list_all is_digit ds then Inl (''strconv.Atoi: parsing '' @ Quote s @ '': invalid syntax'')
      else if v < - (2 ^ 63) \<or> v \<ge> 2 ^ 63
      then Inl (''strconv.Atoi: parsing '' @ Quote s @ '': value out of range'')
      else Inr v)"

lemma show_nat_nonempty [simp]: "show_nat n \<noteq> []"
  by (simp add: show_nat.simps [of n])

lemma is_digit_char: "(d :: nat) < 10 \<Longrightarrow> is_digit (char_of (48 + d))"
  by (simp add: is_digit_def Let_def)

lemma digits_show_nat: "list_all is_digit (show_nat n)"
proof (induction n rule: show_nat.induct)
  case (1 n)
  then show ?case
    by (cases "n < 10") (simp_all add: show_nat.simps [of n] is_digit_char)
qed

lemma show_nat_chars: "c \<in> set (show_nat n) \<Longrightarrow> is_digit c"
  using digits_show_nat [of n] by (simp add: list_all_iff)

lemma not_in_show_nat: "\<not> is_digit c \<Longrightarrow> c \<notin> set (show_nat n)"
  using show_nat_chars by blast

lemma show_int_inj: "show_int i = show_int j \<longleftrightarrow> i = j"
proof -
  have "\<not> is_digit CHR ''-''" by (simp add: is_digit_def)
  then have minus: "CHR ''-'' # s \<noteq> show_nat n" for s n
    by (metis show_nat_chars list.set_intros(1))
  then have "show_nat n \<noteq> CHR ''-'' # s" for s n by metis
  with minus show ?thesis by (cases "i < 0"; cases "j < 0") (auto simp: show_int_def)
qed

lemma prefix_char_show_nat: "\<not> is_digit c \<Longrightarrow> \<not> prefix [c] (show_nat n)"
  using show_nat_chars [of c n] by (cases "show_nat n") auto

text \<open>Reading back a number that was printed.\<close>

lemma Atoi_show_nat: "n < 2 ^ 63 \<Longrightarrow> Atoi (show_nat n) = Inr (int n)"
proof -
  assume n: "n < 2 ^ 63"
  have "\<not> is_digit CHR ''-''" "\<not> is_digit CHR ''+''" by (simp_all add: is_digit_def)
  then have "\<not> HasPrefix (show_nat n) ''-''" "\<not> HasPrefix (show_nat n) ''+''"
    by (simp_all add: HasPrefix_def prefix_char_show_nat)
  with n show ?thesis by (simp add: Atoi_def digits_show_nat)
qed

text \<open>The printed digits.\<close>

lemma digit_chars:
  "char_of (48 :: nat) = CHR ''0''"
  "char_of (49 :: nat) = CHR ''1''"
  "char_of (50 :: nat) = CHR ''2''"
  "char_of (51 :: nat) = CHR ''3''"
  "char_of (52 :: nat) = CHR ''4''"
  "char_of (53 :: nat) = CHR ''5''"
  "char_of (54 :: nat) = CHR ''6''"
  "char_of (55 :: nat) = CHR ''7''"
  "char_of (56 :: nat) = CHR ''8''"
  "char_of (57 :: nat) = CHR ''9''"
  by code_simp+

subsection \<open>What is left after a replacement\<close>

text \<open>Neither of two texts begins with the other.\<close>

definition incompatible :: "string \<Rightarrow> string \<Rightarrow> bool" where
  "incompatible u v \<longleftrightarrow> \<not> prefix u v \<and> \<not> prefix v u"

lemma incompatible_append: "incompatible u v \<Longrightarrow> \<not> prefix u (v @ s)"
  by (metis incompatible_def prefix_append prefix_same_cases prefixI)

text \<open>If no rest of the new text begins like the old one, and the new text begins like no rest of the old one, then the
  old text does not occur in the result.\<close>

lemma ReplaceAll_no_prefix:
  assumes rest: "\<And>i. 0 < i \<Longrightarrow> i < length old \<Longrightarrow> incompatible (drop i old) new"
    and p: "prefix p (ReplaceAll s old new)" and i: "p = drop i old" "0 < i" "i \<le> length old"
  shows "prefix p s"
  using p i
proof (induction s arbitrary: p i)
  case Nil
  then show ?case by simp
next
  case (Cons c cs)
  show ?case
  proof (cases "p = []")
    case False
    then have i: "0 < i" "i < length old" using Cons.prems by auto
    show ?thesis
    proof (cases "old \<noteq> [] \<and> prefix old (c # cs)")
      case True
      then have "prefix p (new @ ReplaceAll (drop (length old) (c # cs)) old new)" using Cons.prems(1) by simp
      moreover have "incompatible p new" using rest [OF i] Cons.prems(2) by simp
      ultimately show ?thesis using incompatible_append by blast
    next
      case no: False
      then have "prefix p (c # ReplaceAll cs old new)" using Cons.prems(1) by (simp split: if_splits)
      then obtain p' where p': "p = c # p'" "prefix p' (ReplaceAll cs old new)" using False by (cases p) auto
      moreover have "p' = drop (Suc i) old" using p'(1) Cons.prems(2) by (metis drop_Suc list.sel(3) tl_drop)
      ultimately have "prefix p' cs" using Cons.IH [of p' "Suc i"] i by simp
      with p'(1) show ?thesis by simp
    qed
  qed simp
qed

lemma ReplaceAll_removes:
  assumes old: "old \<noteq> []"
    and rest: "\<And>i. 0 < i \<Longrightarrow> i < length old \<Longrightarrow> incompatible (drop i old) new"
    and new: "\<And>j. j < length new \<Longrightarrow> incompatible old (drop j new)"
  shows "\<not> sublist old (ReplaceAll s old new)"
proof (induction s rule: length_induct)
  case (1 s)
  have new_part: "\<not> sublist old (drop j new @ r)" if "\<not> sublist old r" for j r
  proof (induction "length new - j" arbitrary: j)
    case 0
    then show ?case using that by simp
  next
    case (Suc n)
    then have j: "j < length new" and next_j: "\<not> sublist old (drop (Suc j) new @ r)" by simp_all
    moreover have "drop j new @ r = new ! j # drop (Suc j) new @ r" using j by (simp add: Cons_nth_drop_Suc)
    moreover have "\<not> prefix old (drop j new @ r)" using new [OF j] incompatible_append by blast
    ultimately show ?case by (simp add: sublist_Cons_right)
  qed
  show ?case
  proof (cases s)
    case Nil
    then show ?thesis using old by simp
  next
    case (Cons c cs)
    show ?thesis
    proof (cases "prefix old s")
      case True
      moreover have "length (drop (length old) s) < length s" using old Cons by simp
      ultimately show ?thesis using 1 old new_part [of "ReplaceAll (drop (length old) s) old new" 0] Cons by simp
    next
      case False
      then have out: "ReplaceAll s old new = c # ReplaceAll cs old new" using Cons by simp
      have IH: "\<not> sublist old (ReplaceAll cs old new)" using 1 Cons by simp
      have "\<not> prefix old (c # ReplaceAll cs old new)"
      proof
        assume "prefix old (c # ReplaceAll cs old new)"
        then obtain p where p: "old = c # p" "prefix p (ReplaceAll cs old new)" using old by (cases old) auto
        moreover have "p = drop 1 old" using p(1) by simp
        ultimately have "prefix p cs" using ReplaceAll_no_prefix [OF rest p(2), of 1] by (cases old) auto
        with p(1) False Cons show False by simp
      qed
      with IH out show ?thesis by (simp add: sublist_Cons_right)
    qed
  qed
qed

end
