(* ===== verification/GoHttp.thy ===== *)
theory GoHttp
  imports GoStrings "HOL-Library.List_Lexorder" "HOL-Library.Char_ord"
begin

section \<open>What the code uses of \<open>net/http\<close>, \<open>net/url\<close> and \<open>encoding/base64\<close>\<close>

text \<open>
  Requests to other servers with their headers, cookies and query, and what they come to. The network is an argument
  of the code's models: a function from requests to outcomes. A URL is its text; only its query is taken apart.
\<close>

subsection \<open>Base64, in its URL alphabet\<close>

definition b64_char :: "nat \<Rightarrow> char" where
  "b64_char n = (if n < 26 then char_of (65 + n) else if n < 52 then char_of (71 + n)
     else if n < 62 then char_of (n - 4) else if n = 62 then CHR ''-'' else CHR ''_'')"

definition b64_digit :: "char \<Rightarrow> nat option" where
  "b64_digit c = (let n = (of_char c :: nat) in
     if 65 \<le> n \<and> n \<le> 90 then Some (n - 65) else if 97 \<le> n \<and> n \<le> 122 then Some (n - 71)
     else if 48 \<le> n \<and> n \<le> 57 then Some (n + 4) else if n = 45 then Some 62
     else if n = 95 then Some 63 else None)"

fun b64_encode :: "string \<Rightarrow> string" where
  "b64_encode [] = []"
| "b64_encode [a] = (let v = of_char a * 16 in [b64_char (v div 64), b64_char (v mod 64), CHR ''='', CHR ''=''])"
| "b64_encode [a, b] = (let v = (of_char a * 256 + of_char b) * 4 in
     [b64_char (v div 4096), b64_char (v div 64 mod 64), b64_char (v mod 64), CHR ''=''])"
| "b64_encode (a # b # c # s) = (let v = (of_char a * 256 + of_char b) * 256 + of_char c in
     [b64_char (v div 262144), b64_char (v div 4096 mod 64), b64_char (v div 64 mod 64), b64_char (v mod 64)]
     @ b64_encode s)"

text \<open>Decoding is not strict: the bits behind the last byte are ignored. (Line breaks, which the decoder skips, do
  not occur in a token.)\<close>

fun b64_decode :: "string \<Rightarrow> string option" where
  "b64_decode [] = Some []"
| "b64_decode (p # q # r # t # s) =
     (case (b64_digit p, b64_digit q) of
        (Some w, Some x) \<Rightarrow>
          if r = CHR ''='' \<and> t = CHR ''='' \<and> s = [] then Some [char_of ((w * 64 + x) div 16)]
          else (case b64_digit r of
            None \<Rightarrow> None
          | Some y \<Rightarrow>
              if t = CHR ''='' \<and> s = []
              then (let v = ((w * 64 + x) * 64 + y) div 4 in Some [char_of (v div 256), char_of (v mod 256)])
              else (case (b64_digit t, b64_decode s) of
                (Some z, Some rest) \<Rightarrow>
                  (let v = ((w * 64 + x) * 64 + y) * 64 + z in
                   Some ([char_of (v div 65536), char_of (v div 256 mod 256), char_of (v mod 256)] @ rest))
              | _ \<Rightarrow> None))
      | _ \<Rightarrow> None)"
| "b64_decode _ = None"

text \<open>The standard alphabet differs in two digits.\<close>

definition b64_std_encode :: "string \<Rightarrow> string" where
  "b64_std_encode s = map (\<lambda>c. if c = CHR ''-'' then CHR ''+'' else if c = CHR ''_'' then CHR ''/'' else c) (b64_encode s)"

subsection \<open>Requests and headers\<close>

text \<open>A response of another server: status, headers, and the bytes read from its body up to an error.\<close>

record proxied =
  PX_Status :: int
  PX_Header :: "string \<rightharpoonup> string list"
  PX_Body :: string
  PX_Error :: "error option"

text \<open>A request to another server.\<close>

record forwarded =
  FW_Method :: string
  FW_URL :: string
  FW_Header :: "string \<rightharpoonup> string list"
  FW_Body :: string

text \<open>\<open>send\<close> is what the request comes to: it cannot be made, fails, or is answered.\<close>

datatype sent = Bad_request error | Unreachable error | Answered proxied

text \<open>Header maps have canonical keys. \<open>Get\<close> is the first value of a key, \<open>Set\<close> replaces all its values.\<close>

definition header_Get :: "(string \<rightharpoonup> string list) \<Rightarrow> string \<Rightarrow> string" where
  "header_Get h k = (case h k of Some (v # _) \<Rightarrow> v | _ \<Rightarrow> [])"

definition header_default :: "string \<Rightarrow> string \<Rightarrow> (string \<rightharpoonup> string list) \<Rightarrow> (string \<rightharpoonup> string list)" where
  "header_default k v h = (if header_Get h k = [] then h(k \<mapsto> [v]) else h)"

text \<open>The canonical form of a key: upper case at the start and behind a hyphen, lower case elsewhere; a key with another
  byte than those of a token stays.\<close>

definition token_byte :: "char \<Rightarrow> bool" where
  "token_byte c = (let n = (of_char c :: nat) in
     48 \<le> n \<and> n \<le> 57 \<or> 65 \<le> n \<and> n \<le> 90 \<or> 97 \<le> n \<and> n \<le> 122 \<or> c \<in> set ''!#$%&*+-.^_`|~'' \<or> n = 39)"

fun canonical_from :: "bool \<Rightarrow> string \<Rightarrow> string" where
  "canonical_from upper [] = []"
| "canonical_from upper (c # cs) = (if upper then upper_char c else lower_char c) # canonical_from (c = CHR ''-'') cs"

definition CanonicalHeaderKey :: "string \<Rightarrow> string" where
  "CanonicalHeaderKey k = (if list_all token_byte k then canonical_from True k else k)"

definition header_Set :: "string \<Rightarrow> string \<Rightarrow> (string \<rightharpoonup> string list) \<Rightarrow> (string \<rightharpoonup> string list)" where
  "header_Set k v h = h(CanonicalHeaderKey k \<mapsto> [v])"

definition SetBasicAuth :: "string \<Rightarrow> string \<Rightarrow> (string \<rightharpoonup> string list) \<Rightarrow> (string \<rightharpoonup> string list)" where
  "SetBasicAuth username password h =
     header_Set ''Authorization'' (''Basic '' @ b64_std_encode (username @ '':'' @ password)) h"

definition cookie_byte :: "char \<Rightarrow> bool" where
  "cookie_byte c = (let n = (of_char c :: nat) in 32 \<le> n \<and> n < 127 \<and> n \<noteq> 34 \<and> n \<noteq> 59 \<and> n \<noteq> 92)"

definition cookie_text :: "string \<Rightarrow> string \<Rightarrow> string" where
  "cookie_text name v =
     (let n = map (\<lambda>c. if c = CHR 0x0A \<or> c = CHR 0x0D then CHR ''-'' else c) name;
          w = filter cookie_byte v
      in n @ ''='' @ (if CHR '' '' \<in> set w \<or> CHR '','' \<in> set w then [CHR 0x22] @ w @ [CHR 0x22] else w))"

definition AddCookie :: "string \<Rightarrow> string \<Rightarrow> (string \<rightharpoonup> string list) \<Rightarrow> (string \<rightharpoonup> string list)" where
  "AddCookie name v h =
     (let c = header_Get h ''Cookie'' in
      header_Set ''Cookie'' (if c \<noteq> [] then c @ ''; '' @ cookie_text name v else cookie_text name v) h)"

subsection \<open>Queries\<close>

definition hex_digit :: "nat \<Rightarrow> char" where
  "hex_digit n = (if n < 10 then char_of (48 + n) else char_of (55 + n))"

definition unhex :: "char \<Rightarrow> nat option" where
  "unhex c = (let n = (of_char c :: nat) in
     if 48 \<le> n \<and> n \<le> 57 then Some (n - 48) else if 97 \<le> n \<and> n \<le> 102 then Some (n - 87)
     else if 65 \<le> n \<and> n \<le> 70 then Some (n - 55) else None)"

definition unreserved :: "char \<Rightarrow> bool" where
  "unreserved c = (let n = (of_char c :: nat) in
     48 \<le> n \<and> n \<le> 57 \<or> 65 \<le> n \<and> n \<le> 90 \<or> 97 \<le> n \<and> n \<le> 122 \<or> c \<in> set ''-_.~'')"

definition escape_char :: "char \<Rightarrow> string" where
  "escape_char c = (if unreserved c then [c] else if c = CHR '' '' then ''+''
     else [CHR ''%'', hex_digit (of_char c div 16), hex_digit (of_char c mod 16)])"

definition QueryEscape :: "string \<Rightarrow> string" where
  "QueryEscape s = concat (map escape_char s)"

fun QueryUnescape :: "string \<Rightarrow> string option" where
  "QueryUnescape [] = Some []"
| "QueryUnescape (c # s) =
     (if c = CHR ''%'' then
        (case s of
           p # q # s' \<Rightarrow>
             (case (unhex p, unhex q, QueryUnescape s') of
                (Some m, Some n, Some r) \<Rightarrow> Some (char_of (16 * m + n) # r)
              | _ \<Rightarrow> None)
         | _ \<Rightarrow> None)
      else map_option ((#) (if c = CHR ''+'' then CHR '' '' else c)) (QueryUnescape s))"

text \<open>A query is the list of its pairs, in the order of the text; pairs that are not well-formed are skipped.\<close>

definition cut_at :: "char \<Rightarrow> string \<Rightarrow> string \<times> string" where
  "cut_at c s = (takeWhile (\<lambda>x. x \<noteq> c) s, drop 1 (dropWhile (\<lambda>x. x \<noteq> c) s))"

definition parse_pair :: "string \<Rightarrow> (string \<times> string) option" where
  "parse_pair s =
     (if CHR '';'' \<in> set s \<or> s = [] then None
      else let (k, v) = cut_at CHR ''='' s in
      case (QueryUnescape k, QueryUnescape v) of (Some k', Some v') \<Rightarrow> Some (k', v') | _ \<Rightarrow> None)"

definition ParseQuery :: "string \<Rightarrow> (string \<times> string) list" where
  "ParseQuery s = List.map_filter parse_pair (Split s CHR ''&'')"

definition query_Set :: "string \<Rightarrow> string \<Rightarrow> (string \<times> string) list \<Rightarrow> (string \<times> string) list" where
  "query_Set k v q = filter (\<lambda>p. fst p \<noteq> k) q @ [(k, v)]"

definition query_values :: "(string \<times> string) list \<Rightarrow> string \<Rightarrow> string list" where
  "query_values q k = map snd (filter (\<lambda>p. fst p = k) q)"

definition query_Encode :: "(string \<times> string) list \<Rightarrow> string" where
  "query_Encode q = Join (map (\<lambda>(k, v). QueryEscape k @ ''='' @ QueryEscape v) (sort_key fst q)) ''&''"

text \<open>The query of a URL is what is between the first question mark and the fragment.\<close>

definition url_query :: "string \<Rightarrow> string" where
  "url_query url = snd (cut_at CHR ''?'' (fst (cut_at CHR ''#'' url)))"

definition url_set_query :: "string \<Rightarrow> string \<Rightarrow> string" where
  "url_set_query url q =
     (let (u, fragment) = cut_at CHR ''#'' url in
      fst (cut_at CHR ''?'' u) @ (if q = [] then [] else CHR ''?'' # q) @ (if fragment = [] then [] else CHR ''#'' # fragment))"

subsection \<open>Lemmas\<close>

lemma b64_digit_char: "n < 64 \<Longrightarrow> b64_digit (b64_char n) = Some n"
  by (auto simp: b64_digit_def b64_char_def Let_def)

lemma b64_char_not_pad [simp]: "n < 64 \<Longrightarrow> b64_char n \<noteq> CHR ''=''"
  using b64_digit_char [of n] by (auto simp: b64_digit_def)

lemma of_char_less [simp]: "(of_char c :: nat) < 256"
  by (metis mod_less_divisor of_char_mod_256 zero_less_numeral)

lemma char_of_mod: "n mod 256 = of_char c \<Longrightarrow> char_of (n :: nat) = c"
  by (metis char_of_char char_of_mod_256)

lemma three_bytes:
  fixes a b c :: nat
  assumes "b < 256" and "c < 256"
  shows "((a * 256 + b) * 256 + c) div 65536 = a" "((a * 256 + b) * 256 + c) div 256 mod 256 = b"
    "((a * 256 + b) * 256 + c) mod 256 = c"
proof -
  have hi: "((a * 256 + b) * 256 + c) div 256 = a * 256 + b" using assms(2) by simp
  have "((a * 256 + b) * 256 + c) div 65536 = ((a * 256 + b) * 256 + c) div 256 div 256"
    by (simp flip: div_mult2_eq)
  then show "((a * 256 + b) * 256 + c) div 65536 = a" unfolding hi using assms(1) by simp
  show "((a * 256 + b) * 256 + c) div 256 mod 256 = b" unfolding hi using assms(1) by simp
  show "((a * 256 + b) * 256 + c) mod 256 = c" using assms(2) by (metis mod_less mod_mult_self3)
qed

text \<open>The digits of a number, joined again.\<close>

lemma b64_join: "n div (m * 64) * 64 + n div m mod 64 = (n div m :: nat)"
  by (simp add: div_mult2_eq)

text \<open>Decoding an encoded text gives it back.\<close>

lemma b64_decode_encode: "b64_decode (b64_encode s) = Some s"
proof (induction s rule: b64_encode.induct)
  case 1
  then show ?case by simp
next
  case (2 a)
  define n where "n = (of_char a :: nat)"
  have n: "n < 256" "char_of n = a" by (simp_all add: n_def)
  then have "n * 16 div 64 < 64" "n * 16 mod 64 < 64" "(n * 16 div 64 * 64 + n * 16 mod 64) div 16 = n"
    by (auto simp only: div_mult_mod_eq)
  then show ?case using n by (simp add: Let_def b64_digit_char flip: n_def)
next
  case (3 a b)
  define v where "v = (of_char a * 256 + of_char b :: nat)"
  have ab: "(of_char a :: nat) < 256" "(of_char b :: nat) < 256" by simp_all
  then have v: "v div 256 = of_char a" "v mod 256 = of_char b" by (simp_all add: v_def)
  have "v < 256 * 256" unfolding v_def using ab by linarith
  then have "v * 4 div 4096 < 64" by (simp add: div_less_iff_less_mult)
  note v = this v
  have "((v * 4 div 4096 * 64 + v * 4 div 64 mod 64) * 64 + v * 4 mod 64) div 4 = v"
    using b64_join [of "v * 4" 64] b64_join [of "v * 4" 1] by simp
  then show ?case using v char_of_mod [OF v(3)] by (simp add: Let_def b64_digit_char flip: v_def)
next
  case (4 a b c s)
  define v where "v = ((of_char a * 256 + of_char b) * 256 + of_char c :: nat)"
  have abc: "(of_char a :: nat) < 256" "(of_char b :: nat) < 256" "(of_char c :: nat) < 256" by simp_all
  then have v: "v div 65536 = of_char a" "v div 256 mod 256 = of_char b" "v mod 256 = of_char c"
    unfolding v_def by (intro three_bytes; simp)+
  have "v div 262144 = v div 65536 div 4" by (simp flip: div_mult2_eq)
  then have "v div 262144 < 64" using abc(1) by (simp only: v(1))
  note v = this v
  have "((v div 262144 * 64 + v div 4096 mod 64) * 64 + v div 64 mod 64) * 64 + v mod 64 = v"
    using b64_join [of v 4096] b64_join [of v 64] b64_join [of v 1] by simp
  moreover have "b64_encode (a # b # c # s) = [b64_char (v div 262144), b64_char (v div 4096 mod 64),
      b64_char (v div 64 mod 64), b64_char (v mod 64)] @ b64_encode s"
    by (simp only: v_def b64_encode.simps Let_def)
  ultimately show ?case
    using v 4 char_of_mod [OF v(3)] char_of_mod [OF v(4)]
    by (simp add: Let_def b64_digit_char del: b64_encode.simps)
qed

lemma unhex_digit: "n < 16 \<Longrightarrow> unhex (hex_digit n) = Some n"
  by (auto simp: unhex_def hex_digit_def Let_def)

lemma unreserved_plain: "unreserved c \<Longrightarrow> c \<noteq> CHR ''%'' \<and> c \<noteq> CHR ''+''"
  by (auto simp: unreserved_def Let_def)

lemma unescape_char: "QueryUnescape (escape_char c @ s) = map_option ((#) c) (QueryUnescape s)"
proof (cases "unreserved c")
  case True
  then show ?thesis using unreserved_plain by (simp add: escape_char_def)
next
  case False
  have "(of_char c :: nat) div 16 < 16" using of_char_less [of c] by (simp add: div_less_iff_less_mult)
  then have d: "unhex (hex_digit (of_char c div 16)) = Some (of_char c div 16)"
    "unhex (hex_digit (of_char c mod 16)) = Some (of_char c mod 16)"
    by (auto intro: unhex_digit)
  have "(char_of (16 * (of_char c div 16) + of_char c mod 16 :: nat) :: char) = c" by (simp add: mult_div_mod_eq)
  with False d show ?thesis by (simp add: escape_char_def split: option.splits)
qed

lemma QueryUnescape_Escape [simp]: "QueryUnescape (QueryEscape s) = Some s"
  by (induction s) (simp_all add: QueryEscape_def unescape_char)

lemma hex_digit_unreserved: "n < 16 \<Longrightarrow> unreserved (hex_digit n)"
  by (auto simp: unreserved_def hex_digit_def Let_def)

lemma QueryEscape_chars: "x \<in> set (QueryEscape s) \<Longrightarrow> unreserved x \<or> x = CHR ''+'' \<or> x = CHR ''%''"
proof -
  assume "x \<in> set (QueryEscape s)"
  then obtain c where c: "x \<in> set (escape_char c)" by (auto simp: QueryEscape_def)
  have "(of_char c :: nat) div 16 < 16" using of_char_less [of c] by (simp add: div_less_iff_less_mult)
  with c show ?thesis by (auto simp: escape_char_def intro: hex_digit_unreserved split: if_splits)
qed

lemma QueryEscape_delimiters [simp]:
  "CHR ''&'' \<notin> set (QueryEscape s)" "CHR ''='' \<notin> set (QueryEscape s)" "CHR '';'' \<notin> set (QueryEscape s)"
  "CHR ''#'' \<notin> set (QueryEscape s)"
  using QueryEscape_chars [of _ s] by (force simp: unreserved_def)+

lemma cut_at_append: "c \<notin> set a \<Longrightarrow> cut_at c (a @ c # b) = (a, b)"
  by (simp add: cut_at_def while_until)

lemma cut_at_notin: "c \<notin> set a \<Longrightarrow> cut_at c a = (a, [])"
  by (induction a) (auto simp: cut_at_def)

lemma parse_pair_escape: "parse_pair (QueryEscape k @ ''='' @ QueryEscape v) = Some (k, v)"
  using cut_at_append [of "CHR ''=''" "QueryEscape k" "QueryEscape v"] by (simp add: parse_pair_def)

lemma Split_Join: "\<forall>x \<in> set xs. c \<notin> set x \<Longrightarrow> xs \<noteq> [] \<Longrightarrow> Split (Join xs [c]) c = xs"
  by (induction xs rule: induct_list012) (simp_all add: Split_notin Split_append)

lemma parse_pairs: "List.map_filter parse_pair (map (\<lambda>(k, v). QueryEscape k @ ''='' @ QueryEscape v) ps) = ps"
  by (induction ps) (auto simp: List.map_filter_simps parse_pair_escape [simplified])

lemma ParseQuery_Join:
  "ps \<noteq> [] \<Longrightarrow> ParseQuery (Join (map (\<lambda>(k, v). QueryEscape k @ ''='' @ QueryEscape v) ps) ''&'') = ps"
  unfolding ParseQuery_def by (subst Split_Join) (auto simp: parse_pairs [simplified])

text \<open>What is encoded is read back, sorted by key.\<close>

lemma ParseQuery_Encode: "q \<noteq> [] \<Longrightarrow> ParseQuery (query_Encode q) = sort_key fst q"
  unfolding query_Encode_def by (rule ParseQuery_Join) (metis length_0_conv length_sort)

lemma filter_sort_key: "filter (\<lambda>p. fst p = k) (sort_key fst q) = filter (\<lambda>p. fst p = k) q"
  by (rule sort_key_stable)

lemma query_Encode_chars: "CHR ''#'' \<notin> set (query_Encode q)"
proof -
  have "CHR ''#'' \<notin> set (Join ss ''&'')" if "\<forall>s \<in> set ss. CHR ''#'' \<notin> set s" for ss
    using that by (induction ss rule: induct_list012) simp_all
  then show ?thesis unfolding query_Encode_def by fastforce
qed

lemma query_Encode_nonempty: "q \<noteq> [] \<Longrightarrow> query_Encode q \<noteq> []"
  using ParseQuery_Encode [of q] by (auto simp: ParseQuery_def parse_pair_def List.map_filter_simps dest: arg_cong [of _ _ length])

lemma cut_at_fst: "c \<notin> set (fst (cut_at c s))"
  by (auto simp: cut_at_def dest: set_takeWhileD)

lemma cut_at_fst_subset: "set (fst (cut_at c s)) \<subseteq> set s"
  by (auto simp: cut_at_def dest: set_takeWhileD)

text \<open>The query that is set is the query of the URL.\<close>

lemma url_query_set: "CHR ''#'' \<notin> set q \<Longrightarrow> q \<noteq> [] \<Longrightarrow> url_query (url_set_query url q) = q"
proof -
  assume q: "CHR ''#'' \<notin> set q" "q \<noteq> []"
  obtain u fragment where u: "cut_at CHR ''#'' url = (u, fragment)" by fastforce
  define b where "b = fst (cut_at CHR ''?'' u)"
  have "CHR ''#'' \<notin> set u" using cut_at_fst [of "CHR ''#''" url] u by simp
  then have b: "CHR ''#'' \<notin> set b" "CHR ''?'' \<notin> set b"
    using cut_at_fst [of "CHR ''?''" u] cut_at_fst_subset [of "CHR ''?''" u] by (auto simp: b_def)
  have "fst (cut_at CHR ''#'' (b @ CHR ''?'' # q @ (if fragment = [] then [] else CHR ''#'' # fragment))) = b @ CHR ''?'' # q"
    using cut_at_append [of "CHR ''#''" "b @ CHR ''?'' # q" fragment] cut_at_notin [of "CHR ''#''" "b @ CHR ''?'' # q"] b q
    by simp
  then show ?thesis using q b by (simp add: url_query_def url_set_query_def u b_def [symmetric] cut_at_append)
qed

end
