(* ===== verification/KeyedStore.thy ===== *)
theory KeyedStore
  imports Prelude
begin

section \<open>The contract of a keyed store\<close>

text \<open>
  Users, groups, adapters, group assignments and adapter tokens are kept in stores of one shape: a
  map from a key computed from the value, behind \<open>Create\<close>, \<open>Get\<close>, \<open>Update\<close> and \<open>Delete\<close>
  (\<open>pkg/clients\<close>). The services hold a store as an interface value and rely on this contract only.
  \<open>keyed_map\<close> says what the operations that change a store do to its contents; it holds of the
  stores in memory and of those kept in a file, whose operations change the contents in memory
  first and may then fail to write the file. \<open>keyed_store\<close> adds a lookup that returns what is
  there. \<open>reliable_map\<close> adds to \<open>keyed_map\<close> that an operation whose precondition holds does
  not fail, which is so in memory; \<open>reliable_store\<close> is both.

  An operation gets from the runtime its readings of the clock and, when it writes the file, the
  order in which it ranges over the map: the record \<open>env\<close>.
\<close>

record env =
  env_now :: gotime
  env_now' :: gotime
  env_order :: "string list"

locale keyed_map =
  fixes create :: "env \<Rightarrow> 'v \<Rightarrow> 's \<Rightarrow> 's \<times> error option"
    and update :: "env \<Rightarrow> 'v \<Rightarrow> 's \<Rightarrow> 's \<times> error option"
    and delete :: "env \<Rightarrow> 'd \<Rightarrow> 's \<Rightarrow> 's \<times> error option"
    and contents :: "'s \<Rightarrow> (string \<rightharpoonup> 'v)"
    and key :: "'v \<Rightarrow> string"
    and dkey :: "'d \<Rightarrow> string"
    and on_create :: "env \<Rightarrow> 'v \<Rightarrow> 'v"
    and on_update :: "env \<Rightarrow> 'v \<Rightarrow> 'v"
  assumes create_contents: "contents (fst (create e v s)) =
      (if key v \<in> dom (contents s) then contents s else (contents s)(key v \<mapsto> on_create e v))"
    and create_dup: "key v \<in> dom (contents s) \<Longrightarrow> snd (create e v s) \<noteq> None"
    and update_contents: "contents (fst (update e v s)) =
      (if key v \<in> dom (contents s) then (contents s)(key v \<mapsto> on_update e v) else contents s)"
    and update_absent: "key v \<notin> dom (contents s) \<Longrightarrow> snd (update e v s) \<noteq> None"
    and delete_contents: "contents (fst (delete e d s)) = (contents s)(dkey d := None)"
    and delete_absent: "dkey d \<notin> dom (contents s) \<Longrightarrow> snd (delete e d s) \<noteq> None"
    and key_on_create: "key (on_create e v) = key v"
    and key_on_update: "key (on_update e v) = key v"
begin

lemmas contents_simps = create_contents update_contents delete_contents

lemma create_ok_was_new: "snd (create e v s) = None \<Longrightarrow> key v \<notin> dom (contents s)"
  using create_dup by blast

lemma update_ok_was_there: "snd (update e v s) = None \<Longrightarrow> key v \<in> dom (contents s)"
  using update_absent by blast

text \<open>An operation on one key leaves the others alone.\<close>

lemma other_keys:
  "k \<noteq> key v \<Longrightarrow> contents (fst (create e v s)) k = contents s k"
  "k \<noteq> key v \<Longrightarrow> contents (fst (update e v s)) k = contents s k"
  "k \<noteq> dkey d \<Longrightarrow> contents (fst (delete e d s)) k = contents s k"
  by (simp_all add: contents_simps)

text \<open>The invariant of a keyed store: every value is filed under its own key.\<close>

definition keys_ok :: "'s \<Rightarrow> bool" where
  "keys_ok s \<longleftrightarrow> (\<forall>k v. contents s k = Some v \<longrightarrow> key v = k)"

lemma keys_okD: "keys_ok s \<Longrightarrow> contents s k = Some v \<Longrightarrow> key v = k"
  by (simp add: keys_ok_def)

lemma keys_ok_create: "keys_ok s \<Longrightarrow> keys_ok (fst (create e v s))"
  by (auto simp: keys_ok_def create_contents key_on_create split: if_splits)

lemma keys_ok_update: "keys_ok s \<Longrightarrow> keys_ok (fst (update e v s))"
  by (auto simp: keys_ok_def update_contents key_on_update split: if_splits)

lemma keys_ok_delete: "keys_ok s \<Longrightarrow> keys_ok (fst (delete e d s))"
  by (auto simp: keys_ok_def delete_contents split: if_splits)

lemmas keys_ok_ops = keys_ok_create keys_ok_update keys_ok_delete

lemma finite_ops:
  assumes "finite (dom (contents s))"
  shows "finite (dom (contents (fst (create e v s))))"
    and "finite (dom (contents (fst (update e v s))))"
    and "finite (dom (contents (fst (delete e d s))))"
  using assms by (simp_all add: contents_simps)

end

locale keyed_store = keyed_map create update delete contents key dkey on_create on_update
  for create :: "env \<Rightarrow> 'v \<Rightarrow> 's \<Rightarrow> 's \<times> error option"
    and update :: "env \<Rightarrow> 'v \<Rightarrow> 's \<Rightarrow> 's \<times> error option"
    and delete :: "env \<Rightarrow> 'd \<Rightarrow> 's \<Rightarrow> 's \<times> error option"
    and contents :: "'s \<Rightarrow> (string \<rightharpoonup> 'v)"
    and key :: "'v \<Rightarrow> string"
    and dkey :: "'d \<Rightarrow> string"
    and on_create :: "env \<Rightarrow> 'v \<Rightarrow> 'v"
    and on_update :: "env \<Rightarrow> 'v \<Rightarrow> 'v" +
  fixes get :: "'s \<Rightarrow> 'g \<Rightarrow> 'v result"
    and gkey :: "'g \<Rightarrow> string"
  assumes get_present: "contents s (gkey q) = Some v \<Longrightarrow> get s q = Inr v"
    and get_absent: "contents s (gkey q) = None \<Longrightarrow> \<not> is_ok (get s q)"
begin

lemma get_iff: "get s q = Inr v \<longleftrightarrow> contents s (gkey q) = Some v"
  by (cases "contents s (gkey q)") (auto dest: get_present get_absent)

lemma get_ok_iff: "is_ok (get s q) \<longleftrightarrow> gkey q \<in> dom (contents s)"
  by (auto simp: is_ok_iff get_iff)

lemma get_cases:
  obtains (absent) err where "contents s (gkey q) = None" "get s q = Inl err"
  | (present) v where "contents s (gkey q) = Some v" "get s q = Inr v"
  by (cases "get s q"; cases "contents s (gkey q)")
    (auto dest: get_present get_absent simp: get_iff)

text \<open>What a caller reads back after each operation.\<close>

lemma get_after_create:
  "gkey q = key v \<Longrightarrow> key v \<notin> dom (contents s) \<Longrightarrow>
   get (fst (create e v s)) q = Inr (on_create e v)"
  by (simp add: get_iff create_contents)

lemma get_after_update:
  "gkey q = key v \<Longrightarrow> key v \<in> dom (contents s) \<Longrightarrow>
   get (fst (update e v s)) q = Inr (on_update e v)"
  by (simp add: get_iff update_contents)

lemma get_after_delete: "gkey q = dkey d \<Longrightarrow> \<not> is_ok (get (fst (delete e d s)) q)"
  by (simp add: get_ok_iff delete_contents)

end

locale reliable_map = keyed_map +
  assumes create_new: "key v \<notin> dom (contents s) \<Longrightarrow> snd (create e v s) = None"
    and update_present: "key v \<in> dom (contents s) \<Longrightarrow> snd (update e v s) = None"
    and delete_present: "dkey d \<in> dom (contents s) \<Longrightarrow> snd (delete e d s) = None"
begin

text \<open>The error an operation returns says exactly whether its precondition failed.\<close>

lemma error_iff:
  "snd (create e v s) = None \<longleftrightarrow> key v \<notin> dom (contents s)"
  "snd (update e v s) = None \<longleftrightarrow> key v \<in> dom (contents s)"
  "snd (delete e d s) = None \<longleftrightarrow> dkey d \<in> dom (contents s)"
  using create_dup create_new update_absent update_present delete_absent delete_present by metis+

text \<open>An operation that returns an error has changed nothing.\<close>

lemma failed_unchanged:
  "snd (create e v s) \<noteq> None \<Longrightarrow> contents (fst (create e v s)) = contents s"
  "snd (update e v s) \<noteq> None \<Longrightarrow> contents (fst (update e v s)) = contents s"
  "snd (delete e d s) \<noteq> None \<Longrightarrow> contents (fst (delete e d s)) = contents s"
  by (auto simp: error_iff contents_simps domIff)

lemma create_then_delete:
  assumes "key v \<notin> dom (contents s)" and "dkey d = key v"
  shows "contents (fst (delete e' d (fst (create e v s)))) = contents s"
  using assms by (auto simp: contents_simps domIff)

end

locale reliable_store = keyed_store + reliable_map

end
