(* ===== verification/FileStore.thy ===== *)
theory FileStore
  imports GoStrings KeyedStore
begin

section \<open>Stores kept in a JSON file\<close>

text \<open>
  The file-based stores of \<open>pkg/clients\<close> share their persistence: \<open>loadFromFile\<close> reads the
  file once, \<open>saveToFile\<close> writes a temporary file and renames it over the old one after each
  change (\<open>user_group_store.go\<close>, \<open>adapter_store.go\<close>, \<open>adapter_group_assignment_store.go\<close>,
  \<open>user_adapter_token_store.go\<close>), optionally encrypting with \<open>StorageCrypto\<close>
  (\<open>crypto.go\<close>). The nouns of the error messages and the JSON image of an entry are arguments
  here (a noun that may be missing carries the space after it); each store supplies its own.

  A file's bytes are modelled by what they are to this code: nothing, the JSON text of a list of
  entries, that text sealed with AES-GCM under a key and written in base64, or bytes torn by a
  failed write. The disk says, for each system or library call the code makes, whether it fails
  now.
\<close>

subsection \<open>The encryption key\<close>

definition NewStorageCrypto :: "string \<Rightarrow> (string option) result" where
  "NewStorageCrypto keyString =
     (if keyString = [] then Inr None
      else if length keyString < 16 then Inl ''encryption key must be at least 16 characters long''
      else if length keyString > 32 then Inr (Some (take 32 keyString))
      else if length keyString < 32
      then Inr (Some (keyString @ replicate (32 - length keyString) (char_of (0::nat))))
      else Inr (Some keyString))"

lemma NewStorageCrypto_length:
  "NewStorageCrypto ks = Inr (Some k) \<Longrightarrow> length k = 32 \<and> 16 \<le> length ks"
  by (auto simp: NewStorageCrypto_def split: if_splits)

subsection \<open>Files and disks\<close>

datatype 'v file_content =
    Empty_file
  | Torn
  | Plain "'v list"
  | Sealed string "'v list"

record 'v disk =
  d_files :: "string \<rightharpoonup> 'v file_content"
  d_mkdir_err :: "error option"
  d_marshal_err :: "error option"
  d_rand_err :: "error option"
  d_write_err :: "error option"
  d_rename_err :: "error option"
  d_read_err :: "error option"

text \<open>A disk on which every call succeeds, with no file yet.\<close>

definition healthy_disk :: "'v disk" where
  "healthy_disk = \<lparr>d_files = Map.empty, d_mkdir_err = None, d_marshal_err = None,
     d_rand_err = None, d_write_err = None, d_rename_err = None, d_read_err = None\<rparr>"

definition Encrypt :: "string \<Rightarrow> 'v disk \<Rightarrow> 'v list \<Rightarrow> ('v file_content) result" where
  "Encrypt k d xs = (case d_rand_err d of Some err \<Rightarrow> Inl err | None \<Rightarrow> Inr (Sealed k xs))"

text \<open>JSON text is not base64 (it starts with a bracket), so \<open>Decrypt\<close> passes it on as it is.\<close>

fun Decrypt :: "string \<Rightarrow> 'v file_content \<Rightarrow> ('v file_content) result" where
  "Decrypt k (Sealed k' xs) =
     (if k = k' then Inr (Plain xs) else Inl ''cipher: message authentication failed'')"
| "Decrypt k Empty_file = Inl ''ciphertext too short''"
| "Decrypt k c = Inr c"

fun unmarshal :: "'v file_content \<Rightarrow> ('v list) result" where
  "unmarshal (Plain xs) = Inr xs"
| "unmarshal c = Inl ''invalid character''"

record 'v file_store =
  fs_filePath :: string
  fs_entries :: "string \<rightharpoonup> 'v"
  fs_crypto :: "string option"
  fs_disk :: "'v disk"

definition temp_path :: "'v file_store \<Rightarrow> string" where
  "temp_path s = fs_filePath s @ ''.tmp''"

subsection \<open>Loading\<close>

definition load_entries :: "('v \<Rightarrow> string) \<Rightarrow> 'v list \<Rightarrow> (string \<rightharpoonup> 'v) \<Rightarrow> (string \<rightharpoonup> 'v)" where
  "load_entries key vs m = foldl (\<lambda>m v. m(key v \<mapsto> v)) m vs"

definition loadFromFile ::
    "string \<Rightarrow> ('v \<Rightarrow> string) \<Rightarrow> 'v file_store \<Rightarrow> 'v file_store \<times> error option" where
  "loadFromFile noun key s =
     (case d_files (fs_disk s) (fs_filePath s) of
        None \<Rightarrow> (s, None)
      | Some data \<Rightarrow>
          (case d_read_err (fs_disk s) of
             Some err \<Rightarrow> (s, Some (''failed to read '' @ noun @ '' file: '' @ err))
           | None \<Rightarrow>
               if data = Empty_file then (s, None)
               else
                 (case (case fs_crypto s of None \<Rightarrow> Inr data | Some k \<Rightarrow> Decrypt k data) of
                    Inl err \<Rightarrow> (s, Some (''failed to decrypt '' @ noun @ '' file: '' @ err))
                  | Inr data' \<Rightarrow>
                      (case unmarshal data' of
                         Inl err \<Rightarrow> (s, Some (''failed to parse '' @ noun @ '' file: '' @ err))
                       | Inr vs \<Rightarrow> (s\<lparr>fs_entries := load_entries key vs (fs_entries s)\<rparr>, None)))))"

text \<open>The constructor prints a failure to load and goes on with what it has: an empty store.\<close>

definition NewFileStore ::
    "string \<Rightarrow> ('v \<Rightarrow> string) \<Rightarrow> string \<Rightarrow> string option \<Rightarrow> 'v disk \<Rightarrow> 'v file_store" where
  "NewFileStore noun key path crypto d =
     fst (loadFromFile noun key
       \<lparr>fs_filePath = path, fs_entries = Map.empty, fs_crypto = crypto, fs_disk = d\<rparr>)"

subsection \<open>Saving\<close>

definition saveToFile ::
    "string \<Rightarrow> string \<Rightarrow> string \<Rightarrow> ('v \<Rightarrow> 'v) \<Rightarrow> string list \<Rightarrow>
     'v file_store \<Rightarrow> 'v file_store \<times> error option" where
  "saveToFile noun enoun plural json ks s =
     (let d = fs_disk s; vs = map json (range_values (fs_entries s) ks) in
      case d_mkdir_err d of
        Some err \<Rightarrow> (s, Some (''failed to create '' @ noun @ ''directory: '' @ err))
      | None \<Rightarrow>
          (case d_marshal_err d of
             Some err \<Rightarrow> (s, Some (''failed to marshal '' @ plural @ '': '' @ err))
           | None \<Rightarrow>
               (case (case fs_crypto s of None \<Rightarrow> Inr (Plain vs) | Some k \<Rightarrow> Encrypt k d vs) of
                  Inl err \<Rightarrow> (s, Some (''failed to encrypt '' @ enoun @ '' file: '' @ err))
                | Inr data \<Rightarrow>
                    (case d_write_err d of
                       Some err \<Rightarrow>
                         (s\<lparr>fs_disk := d\<lparr>d_files := (d_files d)(temp_path s \<mapsto> Torn)\<rparr>\<rparr>,
                          Some (''failed to write temporary '' @ noun @ ''file: '' @ err))
                     | None \<Rightarrow>
                         (case d_rename_err d of
                            Some err \<Rightarrow>
                              (s\<lparr>fs_disk := d\<lparr>d_files := (d_files d)(temp_path s \<mapsto> data)\<rparr>\<rparr>,
                               Some (''failed to rename '' @ noun @ ''file: '' @ err))
                          | None \<Rightarrow>
                              (s\<lparr>fs_disk := d\<lparr>d_files :=
                                   (d_files d)(temp_path s := None, fs_filePath s \<mapsto> data)\<rparr>\<rparr>,
                               None))))))"

subsection \<open>What loading and saving do\<close>

lemma temp_path_neq [simp]: "temp_path s \<noteq> fs_filePath s" "fs_filePath s \<noteq> temp_path s"
  by (simp_all add: temp_path_def)

lemma saveToFile_keeps [simp]:
  "fs_entries (fst (saveToFile n en p j ks s)) = fs_entries s"
  "fs_filePath (fst (saveToFile n en p j ks s)) = fs_filePath s"
  "fs_crypto (fst (saveToFile n en p j ks s)) = fs_crypto s"
  by (simp_all add: saveToFile_def Let_def split: option.splits sum.splits)

definition file_on_disk :: "'v file_store \<Rightarrow> ('v file_content) option" where
  "file_on_disk s = d_files (fs_disk s) (fs_filePath s)"

definition saved_content :: "('v \<Rightarrow> 'v) \<Rightarrow> string list \<Rightarrow> 'v file_store \<Rightarrow> 'v file_content" where
  "saved_content json ks s =
     (let vs = map json (range_values (fs_entries s) ks) in
      case fs_crypto s of None \<Rightarrow> Plain vs | Some k \<Rightarrow> Sealed k vs)"

text \<open>The file is replaced as a whole or not touched at all, whichever call fails.\<close>

lemma saveToFile_file:
  "file_on_disk (fst (saveToFile n en p j ks s)) =
     (if snd (saveToFile n en p j ks s) = None then Some (saved_content j ks s) else file_on_disk s)"
  by (auto simp: saveToFile_def Let_def file_on_disk_def saved_content_def Encrypt_def
      split: option.splits sum.splits)

lemma saveToFile_ok:
  "snd (saveToFile n en p j ks s) = None \<longleftrightarrow>
     d_mkdir_err (fs_disk s) = None \<and> d_marshal_err (fs_disk s) = None \<and>
     (fs_crypto s = None \<or> d_rand_err (fs_disk s) = None) \<and>
     d_write_err (fs_disk s) = None \<and> d_rename_err (fs_disk s) = None"
  by (auto simp: saveToFile_def Let_def Encrypt_def split: option.splits sum.splits)

text \<open>Reading back what was saved gives the JSON images of the entries, under the same keys.\<close>

lemma load_entries_Cons [simp]: "load_entries key (v # vs) m = load_entries key vs (m(key v \<mapsto> v))"
  by (simp add: load_entries_def)

lemma load_entries_Nil [simp]: "load_entries key [] m = m"
  by (simp add: load_entries_def)

lemma load_entries_notin:
  "k \<notin> key ` set vs \<Longrightarrow> load_entries key vs m k = m k"
  by (induction vs arbitrary: m) auto

lemma load_entries_range:
  assumes "distinct ks" and "\<And>k v. k \<in> set ks \<Longrightarrow> m k = Some v \<Longrightarrow> key (f v) = k"
    and "set ks \<subseteq> dom m"
  shows "load_entries key (map f (range_values m ks)) m0 k =
    (if k \<in> set ks then map_option f (m k) else m0 k)"
  using assms
proof (induction ks arbitrary: m0)
  case Nil
  then show ?case by (simp add: range_values_def List.map_filter_def)
next
  case (Cons k' ks)
  then obtain v where v: "m k' = Some v" by auto
  then have vals: "range_values m (k' # ks) = v # range_values m ks"
    by (simp add: range_values_def List.map_filter_def)
  have "key (f v) = k'" using Cons.prems(2) v by simp
  with Cons v vals show ?case by auto
qed

lemma load_saved:
  assumes ro: "range_order (fs_entries s) ks"
    and keys: "\<And>k v. fs_entries s k = Some v \<Longrightarrow> key (json v) = k"
    and ok: "snd (saveToFile n en p json ks s) = None"
    and rd: "d_read_err d = None"
    and onfile: "d_files d path = Some (saved_content json ks s)"
  shows "fs_entries (NewFileStore n' key path (fs_crypto s) d) = map_option json \<circ> fs_entries s"
proof -
  let ?vs = "map json (range_values (fs_entries s) ks)"
  have "load_entries key ?vs Map.empty = map_option json \<circ> fs_entries s"
  proof
    fix k
    have "load_entries key ?vs Map.empty k = (if k \<in> set ks then map_option json (fs_entries s k) else None)"
      using ro keys by (intro load_entries_range) (auto simp: range_order_def)
    then show "load_entries key ?vs Map.empty k = (map_option json \<circ> fs_entries s) k"
      using ro by (auto simp: range_order_def domIff)
  qed
  then show ?thesis
    using onfile rd
    by (cases "fs_crypto s") (simp_all add: NewFileStore_def loadFromFile_def saved_content_def Let_def)
qed

text \<open>A file that cannot be read, decrypted or parsed leaves the new store empty.\<close>

lemma load_failed_empty:
  "snd (loadFromFile n key s) \<noteq> None \<Longrightarrow> fst (loadFromFile n key s) = s"
  by (auto simp: loadFromFile_def split: option.splits sum.splits if_splits)

end
