(* ===== verification/UserGroupStore.thy ===== *)
theory UserGroupStore
  imports FileStore
begin

section \<open>Users and groups and their stores\<close>

text \<open>
  \<open>pkg/clients/user_group_store.go\<close>: the interfaces \<open>UserStore\<close> and \<open>GroupStore\<close> (records of
  operations over the state of an implementation), the implementations in memory and those kept in
  a file, and the types \<open>User\<close> and \<open>Group\<close> of \<open>pkg/models/adapter.go\<close>. Password hashing is
  the package \<open>bcrypt\<close>: the comparison \<open>cmp hash password\<close> is an argument of \<open>Authenticate\<close>.
\<close>

record User =
  User_ID :: string
  User_Name :: string
  User_Email :: string
  User_Groups :: "string list"
  User_AuthProvider :: string
  User_ExternalID :: string
  User_ProviderGroups :: "string list"
  User_PasswordHash :: string
  User_PasswordChangedAt :: "gotime option"
  User_LastLoginAt :: "gotime option"
  User_CreatedAt :: gotime
  User_UpdatedAt :: gotime

record Group =
  Group_ID :: string
  Group_Name :: string
  Group_Description :: string
  Group_Members :: "string list"
  Group_Permissions :: "string list"
  Group_CreatedAt :: gotime
  Group_UpdatedAt :: gotime

record 's UserStore =
  us_Create :: "env \<Rightarrow> User \<Rightarrow> 's \<Rightarrow> 's \<times> error option"
  us_Get :: "'s \<Rightarrow> string \<Rightarrow> User result"
  us_List :: "string list \<Rightarrow> 's \<Rightarrow> (User list) result"
  us_Update :: "env \<Rightarrow> User \<Rightarrow> 's \<Rightarrow> 's \<times> error option"
  us_Delete :: "env \<Rightarrow> User \<Rightarrow> 's \<Rightarrow> 's \<times> error option"
  us_GetByEmail :: "string list \<Rightarrow> 's \<Rightarrow> string \<Rightarrow> User result"
  us_GetByExternalID :: "string list \<Rightarrow> 's \<Rightarrow> string \<Rightarrow> string \<Rightarrow> User result"
  us_Authenticate :: "(string \<Rightarrow> string \<Rightarrow> bool) \<Rightarrow> 's \<Rightarrow> string \<Rightarrow> string \<Rightarrow> User result"

record 's GroupStore =
  gs_Create :: "env \<Rightarrow> Group \<Rightarrow> 's \<Rightarrow> 's \<times> error option"
  gs_Get :: "'s \<Rightarrow> string \<Rightarrow> Group result"
  gs_List :: "string list \<Rightarrow> 's \<Rightarrow> (Group list) result"
  gs_Update :: "env \<Rightarrow> Group \<Rightarrow> 's \<Rightarrow> 's \<times> error option"
  gs_Delete :: "env \<Rightarrow> string \<Rightarrow> 's \<Rightarrow> 's \<times> error option"
  gs_AddMember :: "env \<Rightarrow> string \<Rightarrow> string \<Rightarrow> 's \<Rightarrow> 's \<times> error option"
  gs_RemoveMember :: "env \<Rightarrow> string \<Rightarrow> string \<Rightarrow> 's \<Rightarrow> 's \<times> error option"

text \<open>What an operation writes into the value it stores.\<close>

definition stamp_user_created :: "env \<Rightarrow> User \<Rightarrow> User" where
  "stamp_user_created e u = u\<lparr>User_CreatedAt := env_now e, User_UpdatedAt := env_now' e\<rparr>"

definition stamp_user_updated :: "env \<Rightarrow> User \<Rightarrow> User" where
  "stamp_user_updated e u = u\<lparr>User_UpdatedAt := env_now e\<rparr>"

definition stamp_group_created :: "env \<Rightarrow> Group \<Rightarrow> Group" where
  "stamp_group_created e g = g\<lparr>Group_CreatedAt := env_now e, Group_UpdatedAt := env_now' e\<rparr>"

definition stamp_group_updated :: "env \<Rightarrow> Group \<Rightarrow> Group" where
  "stamp_group_updated e g = g\<lparr>Group_UpdatedAt := env_now e\<rparr>"

lemmas stamp_defs [simp] = stamp_user_created_def stamp_user_updated_def
  stamp_group_created_def stamp_group_updated_def

subsection \<open>Users in memory\<close>

record InMemoryUserStore =
  imus_users :: "string \<rightharpoonup> User"

definition NewInMemoryUserStore :: InMemoryUserStore where
  "NewInMemoryUserStore = \<lparr>imus_users = Map.empty\<rparr>"

definition InMemoryUserStore_Create ::
    "env \<Rightarrow> User \<Rightarrow> InMemoryUserStore \<Rightarrow> InMemoryUserStore \<times> error option" where
  "InMemoryUserStore_Create e user s =
     (if imus_users s (User_ID user) \<noteq> None
      then (s, Some (''user with ID '' @ User_ID user @ '' already exists''))
      else (s\<lparr>imus_users := (imus_users s)(User_ID user \<mapsto> stamp_user_created e user)\<rparr>, None))"

definition InMemoryUserStore_Get :: "InMemoryUserStore \<Rightarrow> string \<Rightarrow> User result" where
  "InMemoryUserStore_Get s uid =
     (case imus_users s uid of
        None \<Rightarrow> Inl (''user with ID '' @ uid @ '' not found'') | Some user \<Rightarrow> Inr user)"

definition InMemoryUserStore_List :: "string list \<Rightarrow> InMemoryUserStore \<Rightarrow> (User list) result" where
  "InMemoryUserStore_List ks s = Inr (range_values (imus_users s) ks)"

definition InMemoryUserStore_Update ::
    "env \<Rightarrow> User \<Rightarrow> InMemoryUserStore \<Rightarrow> InMemoryUserStore \<times> error option" where
  "InMemoryUserStore_Update e user s =
     (if imus_users s (User_ID user) = None
      then (s, Some (''user with ID '' @ User_ID user @ '' not found''))
      else (s\<lparr>imus_users := (imus_users s)(User_ID user \<mapsto> stamp_user_updated e user)\<rparr>, None))"

definition InMemoryUserStore_Delete ::
    "env \<Rightarrow> User \<Rightarrow> InMemoryUserStore \<Rightarrow> InMemoryUserStore \<times> error option" where
  "InMemoryUserStore_Delete e user s =
     (if imus_users s (User_ID user) = None
      then (s, Some (''user with ID '' @ User_ID user @ '' not found''))
      else (s\<lparr>imus_users := (imus_users s)(User_ID user := None)\<rparr>, None))"

definition InMemoryUserStore_GetByEmail ::
    "string list \<Rightarrow> InMemoryUserStore \<Rightarrow> string \<Rightarrow> User result" where
  "InMemoryUserStore_GetByEmail ks s email =
     (case find (\<lambda>u. User_Email u = email) (range_values (imus_users s) ks) of
        Some user \<Rightarrow> Inr user
      | None \<Rightarrow> Inl (''user with email '' @ email @ '' not found''))"

definition InMemoryUserStore_GetByExternalID ::
    "string list \<Rightarrow> InMemoryUserStore \<Rightarrow> string \<Rightarrow> string \<Rightarrow> User result" where
  "InMemoryUserStore_GetByExternalID ks s provider externalID =
     (case find (\<lambda>u. User_AuthProvider u = provider \<and> User_ExternalID u = externalID)
        (range_values (imus_users s) ks) of
        Some user \<Rightarrow> Inr user
      | None \<Rightarrow> Inl (''user with external ID '' @ externalID @ '' not found for provider '' @ provider))"

definition InMemoryUserStore_Authenticate ::
    "(string \<Rightarrow> string \<Rightarrow> bool) \<Rightarrow> InMemoryUserStore \<Rightarrow> string \<Rightarrow> string \<Rightarrow> User result" where
  "InMemoryUserStore_Authenticate cmp s uid password =
     (case imus_users s uid of
        None \<Rightarrow> Inl ''user not found''
      | Some user \<Rightarrow>
          if User_AuthProvider user \<noteq> ''local'' then Inl ''user uses external authentication''
          else if User_PasswordHash user = [] then Inl ''password not set''
          else if \<not> cmp (User_PasswordHash user) password then Inl ''invalid password''
          else Inr user)"

definition InMemoryUserStore_ops :: "InMemoryUserStore UserStore" where
  "InMemoryUserStore_ops =
     \<lparr>us_Create = InMemoryUserStore_Create, us_Get = InMemoryUserStore_Get,
      us_List = InMemoryUserStore_List, us_Update = InMemoryUserStore_Update,
      us_Delete = InMemoryUserStore_Delete, us_GetByEmail = InMemoryUserStore_GetByEmail,
      us_GetByExternalID = InMemoryUserStore_GetByExternalID,
      us_Authenticate = InMemoryUserStore_Authenticate\<rparr>"

subsection \<open>Users in a file\<close>

type_synonym FileUserStore = "User file_store"

text \<open>The field \<open>PasswordHash\<close> carries the tag \<open>json:"-"\<close>: it is not written, and read as empty.\<close>

definition User_json :: "User \<Rightarrow> User" where
  "User_json u = u\<lparr>User_PasswordHash := []\<rparr>"

definition FileUserStore_loadFromFile :: "FileUserStore \<Rightarrow> FileUserStore \<times> error option" where
  "FileUserStore_loadFromFile = loadFromFile ''user'' User_ID"

definition NewFileUserStore :: "string \<Rightarrow> string option \<Rightarrow> User disk \<Rightarrow> FileUserStore" where
  "NewFileUserStore = NewFileStore ''user'' User_ID"

definition FileUserStore_saveToFile ::
    "string list \<Rightarrow> FileUserStore \<Rightarrow> FileUserStore \<times> error option" where
  "FileUserStore_saveToFile = saveToFile ''user '' ''user'' ''users'' User_json"

definition FileUserStore_Create ::
    "env \<Rightarrow> User \<Rightarrow> FileUserStore \<Rightarrow> FileUserStore \<times> error option" where
  "FileUserStore_Create e user s =
     (if fs_entries s (User_ID user) \<noteq> None
      then (s, Some (''user with ID '' @ User_ID user @ '' already exists''))
      else FileUserStore_saveToFile (env_order e)
        (s\<lparr>fs_entries := (fs_entries s)(User_ID user \<mapsto> stamp_user_created e user)\<rparr>))"

definition FileUserStore_Get :: "FileUserStore \<Rightarrow> string \<Rightarrow> User result" where
  "FileUserStore_Get s uid =
     (case fs_entries s uid of
        None \<Rightarrow> Inl (''user with ID '' @ uid @ '' not found'') | Some user \<Rightarrow> Inr user)"

definition FileUserStore_List :: "string list \<Rightarrow> FileUserStore \<Rightarrow> (User list) result" where
  "FileUserStore_List ks s = Inr (range_values (fs_entries s) ks)"

definition FileUserStore_Update ::
    "env \<Rightarrow> User \<Rightarrow> FileUserStore \<Rightarrow> FileUserStore \<times> error option" where
  "FileUserStore_Update e user s =
     (if fs_entries s (User_ID user) = None
      then (s, Some (''user with ID '' @ User_ID user @ '' not found''))
      else FileUserStore_saveToFile (env_order e)
        (s\<lparr>fs_entries := (fs_entries s)(User_ID user \<mapsto> stamp_user_updated e user)\<rparr>))"

definition FileUserStore_Delete ::
    "env \<Rightarrow> User \<Rightarrow> FileUserStore \<Rightarrow> FileUserStore \<times> error option" where
  "FileUserStore_Delete e user s =
     (if fs_entries s (User_ID user) = None
      then (s, Some (''user with ID '' @ User_ID user @ '' not found''))
      else FileUserStore_saveToFile (env_order e)
        (s\<lparr>fs_entries := (fs_entries s)(User_ID user := None)\<rparr>))"

definition FileUserStore_GetByEmail ::
    "string list \<Rightarrow> FileUserStore \<Rightarrow> string \<Rightarrow> User result" where
  "FileUserStore_GetByEmail ks s email =
     (case find (\<lambda>u. User_Email u = email) (range_values (fs_entries s) ks) of
        Some user \<Rightarrow> Inr user
      | None \<Rightarrow> Inl (''user with email '' @ email @ '' not found''))"

definition FileUserStore_GetByExternalID ::
    "string list \<Rightarrow> FileUserStore \<Rightarrow> string \<Rightarrow> string \<Rightarrow> User result" where
  "FileUserStore_GetByExternalID ks s provider externalID =
     (case find (\<lambda>u. User_AuthProvider u = provider \<and> User_ExternalID u = externalID)
        (range_values (fs_entries s) ks) of
        Some user \<Rightarrow> Inr user
      | None \<Rightarrow> Inl (''user with external ID '' @ externalID @ '' not found for provider '' @ provider))"

definition FileUserStore_Authenticate ::
    "(string \<Rightarrow> string \<Rightarrow> bool) \<Rightarrow> FileUserStore \<Rightarrow> string \<Rightarrow> string \<Rightarrow> User result" where
  "FileUserStore_Authenticate cmp s uid password =
     (case fs_entries s uid of
        None \<Rightarrow> Inl ''user not found''
      | Some user \<Rightarrow>
          if User_AuthProvider user \<noteq> ''local'' then Inl ''user uses external authentication''
          else if User_PasswordHash user = [] then Inl ''password not set''
          else if \<not> cmp (User_PasswordHash user) password then Inl ''invalid password''
          else Inr user)"

definition FileUserStore_ops :: "FileUserStore UserStore" where
  "FileUserStore_ops =
     \<lparr>us_Create = FileUserStore_Create, us_Get = FileUserStore_Get,
      us_List = FileUserStore_List, us_Update = FileUserStore_Update,
      us_Delete = FileUserStore_Delete, us_GetByEmail = FileUserStore_GetByEmail,
      us_GetByExternalID = FileUserStore_GetByExternalID,
      us_Authenticate = FileUserStore_Authenticate\<rparr>"

subsection \<open>Groups in memory\<close>

record InMemoryGroupStore =
  imgs_groups :: "string \<rightharpoonup> Group"

definition NewInMemoryGroupStore :: InMemoryGroupStore where
  "NewInMemoryGroupStore = \<lparr>imgs_groups = Map.empty\<rparr>"

definition InMemoryGroupStore_Create ::
    "env \<Rightarrow> Group \<Rightarrow> InMemoryGroupStore \<Rightarrow> InMemoryGroupStore \<times> error option" where
  "InMemoryGroupStore_Create e grp s =
     (if imgs_groups s (Group_ID grp) \<noteq> None
      then (s, Some (''group with ID '' @ Group_ID grp @ '' already exists''))
      else (s\<lparr>imgs_groups := (imgs_groups s)(Group_ID grp \<mapsto> stamp_group_created e grp)\<rparr>, None))"

definition InMemoryGroupStore_Get :: "InMemoryGroupStore \<Rightarrow> string \<Rightarrow> Group result" where
  "InMemoryGroupStore_Get s gid =
     (case imgs_groups s gid of
        None \<Rightarrow> Inl (''group with ID '' @ gid @ '' not found'') | Some grp \<Rightarrow> Inr grp)"

definition InMemoryGroupStore_List :: "string list \<Rightarrow> InMemoryGroupStore \<Rightarrow> (Group list) result" where
  "InMemoryGroupStore_List ks s = Inr (range_values (imgs_groups s) ks)"

definition InMemoryGroupStore_Update ::
    "env \<Rightarrow> Group \<Rightarrow> InMemoryGroupStore \<Rightarrow> InMemoryGroupStore \<times> error option" where
  "InMemoryGroupStore_Update e grp s =
     (if imgs_groups s (Group_ID grp) = None
      then (s, Some (''group with ID '' @ Group_ID grp @ '' not found''))
      else (s\<lparr>imgs_groups := (imgs_groups s)(Group_ID grp \<mapsto> stamp_group_updated e grp)\<rparr>, None))"

definition InMemoryGroupStore_Delete ::
    "env \<Rightarrow> string \<Rightarrow> InMemoryGroupStore \<Rightarrow> InMemoryGroupStore \<times> error option" where
  "InMemoryGroupStore_Delete e gid s =
     (if imgs_groups s gid = None then (s, Some (''group with ID '' @ gid @ '' not found''))
      else (s\<lparr>imgs_groups := (imgs_groups s)(gid := None)\<rparr>, None))"

definition InMemoryGroupStore_AddMember ::
    "env \<Rightarrow> string \<Rightarrow> string \<Rightarrow> InMemoryGroupStore \<Rightarrow> InMemoryGroupStore \<times> error option" where
  "InMemoryGroupStore_AddMember e groupID userID s =
     (case imgs_groups s groupID of
        None \<Rightarrow> (s, Some (''group with ID '' @ groupID @ '' not found''))
      | Some grp \<Rightarrow>
          if userID \<in> set (Group_Members grp)
          then (s, Some (''user '' @ userID @ '' is already a member of group '' @ groupID))
          else (s\<lparr>imgs_groups := (imgs_groups s)(groupID \<mapsto>
                    grp\<lparr>Group_Members := Group_Members grp @ [userID],
                          Group_UpdatedAt := env_now e\<rparr>)\<rparr>, None))"

text \<open>\<open>remove1\<close> drops the first occurrence, as the loop with its early return does.\<close>

definition InMemoryGroupStore_RemoveMember ::
    "env \<Rightarrow> string \<Rightarrow> string \<Rightarrow> InMemoryGroupStore \<Rightarrow> InMemoryGroupStore \<times> error option" where
  "InMemoryGroupStore_RemoveMember e groupID userID s =
     (case imgs_groups s groupID of
        None \<Rightarrow> (s, Some (''group with ID '' @ groupID @ '' not found''))
      | Some grp \<Rightarrow>
          if userID \<in> set (Group_Members grp)
          then (s\<lparr>imgs_groups := (imgs_groups s)(groupID \<mapsto>
                    grp\<lparr>Group_Members := remove1 userID (Group_Members grp),
                          Group_UpdatedAt := env_now e\<rparr>)\<rparr>, None)
          else (s, Some (''user '' @ userID @ '' is not a member of group '' @ groupID)))"

definition InMemoryGroupStore_ops :: "InMemoryGroupStore GroupStore" where
  "InMemoryGroupStore_ops =
     \<lparr>gs_Create = InMemoryGroupStore_Create, gs_Get = InMemoryGroupStore_Get,
      gs_List = InMemoryGroupStore_List, gs_Update = InMemoryGroupStore_Update,
      gs_Delete = InMemoryGroupStore_Delete, gs_AddMember = InMemoryGroupStore_AddMember,
      gs_RemoveMember = InMemoryGroupStore_RemoveMember\<rparr>"

subsection \<open>Groups in a file\<close>

type_synonym FileGroupStore = "Group file_store"

definition FileGroupStore_loadFromFile :: "FileGroupStore \<Rightarrow> FileGroupStore \<times> error option" where
  "FileGroupStore_loadFromFile = loadFromFile ''group'' Group_ID"

definition NewFileGroupStore :: "string \<Rightarrow> string option \<Rightarrow> Group disk \<Rightarrow> FileGroupStore" where
  "NewFileGroupStore = NewFileStore ''group'' Group_ID"

definition FileGroupStore_saveToFile ::
    "string list \<Rightarrow> FileGroupStore \<Rightarrow> FileGroupStore \<times> error option" where
  "FileGroupStore_saveToFile = saveToFile ''group '' ''group'' ''groups'' (\<lambda>g. g)"

definition FileGroupStore_Create ::
    "env \<Rightarrow> Group \<Rightarrow> FileGroupStore \<Rightarrow> FileGroupStore \<times> error option" where
  "FileGroupStore_Create e grp s =
     (if fs_entries s (Group_ID grp) \<noteq> None
      then (s, Some (''group with ID '' @ Group_ID grp @ '' already exists''))
      else FileGroupStore_saveToFile (env_order e)
        (s\<lparr>fs_entries := (fs_entries s)(Group_ID grp \<mapsto> stamp_group_created e grp)\<rparr>))"

definition FileGroupStore_Get :: "FileGroupStore \<Rightarrow> string \<Rightarrow> Group result" where
  "FileGroupStore_Get s gid =
     (case fs_entries s gid of
        None \<Rightarrow> Inl (''group with ID '' @ gid @ '' not found'') | Some grp \<Rightarrow> Inr grp)"

definition FileGroupStore_List :: "string list \<Rightarrow> FileGroupStore \<Rightarrow> (Group list) result" where
  "FileGroupStore_List ks s = Inr (range_values (fs_entries s) ks)"

definition FileGroupStore_Update ::
    "env \<Rightarrow> Group \<Rightarrow> FileGroupStore \<Rightarrow> FileGroupStore \<times> error option" where
  "FileGroupStore_Update e grp s =
     (if fs_entries s (Group_ID grp) = None
      then (s, Some (''group with ID '' @ Group_ID grp @ '' not found''))
      else FileGroupStore_saveToFile (env_order e)
        (s\<lparr>fs_entries := (fs_entries s)(Group_ID grp \<mapsto> stamp_group_updated e grp)\<rparr>))"

definition FileGroupStore_Delete ::
    "env \<Rightarrow> string \<Rightarrow> FileGroupStore \<Rightarrow> FileGroupStore \<times> error option" where
  "FileGroupStore_Delete e gid s =
     (if fs_entries s gid = None then (s, Some (''group with ID '' @ gid @ '' not found''))
      else FileGroupStore_saveToFile (env_order e) (s\<lparr>fs_entries := (fs_entries s)(gid := None)\<rparr>))"

definition FileGroupStore_AddMember ::
    "env \<Rightarrow> string \<Rightarrow> string \<Rightarrow> FileGroupStore \<Rightarrow> FileGroupStore \<times> error option" where
  "FileGroupStore_AddMember e groupID userID s =
     (case fs_entries s groupID of
        None \<Rightarrow> (s, Some (''group with ID '' @ groupID @ '' not found''))
      | Some grp \<Rightarrow>
          if userID \<in> set (Group_Members grp)
          then (s, Some (''user '' @ userID @ '' is already a member of group '' @ groupID))
          else FileGroupStore_saveToFile (env_order e)
            (s\<lparr>fs_entries := (fs_entries s)(groupID \<mapsto>
                 grp\<lparr>Group_Members := Group_Members grp @ [userID],
                       Group_UpdatedAt := env_now e\<rparr>)\<rparr>))"

definition FileGroupStore_RemoveMember ::
    "env \<Rightarrow> string \<Rightarrow> string \<Rightarrow> FileGroupStore \<Rightarrow> FileGroupStore \<times> error option" where
  "FileGroupStore_RemoveMember e groupID userID s =
     (case fs_entries s groupID of
        None \<Rightarrow> (s, Some (''group with ID '' @ groupID @ '' not found''))
      | Some grp \<Rightarrow>
          if userID \<in> set (Group_Members grp)
          then FileGroupStore_saveToFile (env_order e)
            (s\<lparr>fs_entries := (fs_entries s)(groupID \<mapsto>
                 grp\<lparr>Group_Members := remove1 userID (Group_Members grp),
                       Group_UpdatedAt := env_now e\<rparr>)\<rparr>)
          else (s, Some (''user '' @ userID @ '' is not a member of group '' @ groupID)))"

definition FileGroupStore_ops :: "FileGroupStore GroupStore" where
  "FileGroupStore_ops =
     \<lparr>gs_Create = FileGroupStore_Create, gs_Get = FileGroupStore_Get,
      gs_List = FileGroupStore_List, gs_Update = FileGroupStore_Update,
      gs_Delete = FileGroupStore_Delete, gs_AddMember = FileGroupStore_AddMember,
      gs_RemoveMember = FileGroupStore_RemoveMember\<rparr>"

subsection \<open>The stores satisfy their contracts\<close>

named_theorems user_store_defs
named_theorems group_store_defs

declare InMemoryUserStore_Create_def [user_store_defs] InMemoryUserStore_Get_def [user_store_defs]
  InMemoryUserStore_Update_def [user_store_defs] InMemoryUserStore_Delete_def [user_store_defs]
  FileUserStore_Create_def [user_store_defs] FileUserStore_Get_def [user_store_defs]
  FileUserStore_Update_def [user_store_defs] FileUserStore_Delete_def [user_store_defs]
  FileUserStore_saveToFile_def [user_store_defs]

declare InMemoryGroupStore_Create_def [group_store_defs] InMemoryGroupStore_Get_def [group_store_defs]
  InMemoryGroupStore_Update_def [group_store_defs] InMemoryGroupStore_Delete_def [group_store_defs]
  InMemoryGroupStore_AddMember_def [group_store_defs]
  InMemoryGroupStore_RemoveMember_def [group_store_defs]
  FileGroupStore_Create_def [group_store_defs] FileGroupStore_Get_def [group_store_defs]
  FileGroupStore_Update_def [group_store_defs] FileGroupStore_Delete_def [group_store_defs]
  FileGroupStore_AddMember_def [group_store_defs] FileGroupStore_RemoveMember_def [group_store_defs]
  FileGroupStore_saveToFile_def [group_store_defs]

interpretation mem_users: reliable_store
  InMemoryUserStore_Create InMemoryUserStore_Update InMemoryUserStore_Delete imus_users User_ID User_ID
  stamp_user_created stamp_user_updated InMemoryUserStore_Get "\<lambda>i. i"
  by unfold_locales (auto simp: user_store_defs)

interpretation file_users: keyed_store
  FileUserStore_Create FileUserStore_Update FileUserStore_Delete fs_entries User_ID User_ID
  stamp_user_created stamp_user_updated FileUserStore_Get "\<lambda>i. i"
  by unfold_locales (auto simp: user_store_defs)

text \<open>The contract of a group store: a keyed store whose groups have members.\<close>

locale group_store = keyed_store create update delete contents Group_ID "\<lambda>i. i"
    stamp_group_created stamp_group_updated get "\<lambda>i. i"
  for create :: "env \<Rightarrow> Group \<Rightarrow> 's \<Rightarrow> 's \<times> error option"
    and update :: "env \<Rightarrow> Group \<Rightarrow> 's \<Rightarrow> 's \<times> error option"
    and delete :: "env \<Rightarrow> string \<Rightarrow> 's \<Rightarrow> 's \<times> error option"
    and contents :: "'s \<Rightarrow> (string \<rightharpoonup> Group)"
    and get :: "'s \<Rightarrow> string \<Rightarrow> Group result" +
  fixes add_member :: "env \<Rightarrow> string \<Rightarrow> string \<Rightarrow> 's \<Rightarrow> 's \<times> error option"
    and remove_member :: "env \<Rightarrow> string \<Rightarrow> string \<Rightarrow> 's \<Rightarrow> 's \<times> error option"
  assumes add_member_contents: "contents (fst (add_member e g u s)) =
      (case contents s g of
         None \<Rightarrow> contents s
       | Some grp \<Rightarrow> if u \<in> set (Group_Members grp) then contents s
           else (contents s)(g \<mapsto> grp\<lparr>Group_Members := Group_Members grp @ [u],
                                       Group_UpdatedAt := env_now e\<rparr>))"
    and add_member_error: "(\<forall>grp. contents s g = Some grp \<longrightarrow> u \<in> set (Group_Members grp)) \<Longrightarrow>
      snd (add_member e g u s) \<noteq> None"
    and remove_member_contents: "contents (fst (remove_member e g u s)) =
      (case contents s g of
         None \<Rightarrow> contents s
       | Some grp \<Rightarrow> if u \<in> set (Group_Members grp)
           then (contents s)(g \<mapsto> grp\<lparr>Group_Members := remove1 u (Group_Members grp),
                                       Group_UpdatedAt := env_now e\<rparr>)
           else contents s)"
    and remove_member_error: "(\<forall>grp. contents s g = Some grp \<longrightarrow> u \<notin> set (Group_Members grp)) \<Longrightarrow>
      snd (remove_member e g u s) \<noteq> None"
begin

lemma add_member_okD:
  assumes "snd (add_member e g u s) = None"
  obtains grp where "contents s g = Some grp" "u \<notin> set (Group_Members grp)"
    "contents (fst (add_member e g u s)) = (contents s)(g \<mapsto>
       grp\<lparr>Group_Members := Group_Members grp @ [u], Group_UpdatedAt := env_now e\<rparr>)"
proof -
  from assms obtain grp where "contents s g = Some grp" "u \<notin> set (Group_Members grp)"
    using add_member_error by blast
  with that show ?thesis by (simp add: add_member_contents)
qed

lemma remove_member_okD:
  assumes "snd (remove_member e g u s) = None"
  obtains grp where "contents s g = Some grp" "u \<in> set (Group_Members grp)"
    "contents (fst (remove_member e g u s)) = (contents s)(g \<mapsto>
       grp\<lparr>Group_Members := remove1 u (Group_Members grp), Group_UpdatedAt := env_now e\<rparr>)"
proof -
  from assms obtain grp where "contents s g = Some grp" "u \<in> set (Group_Members grp)"
    using remove_member_error by blast
  with that show ?thesis by (simp add: remove_member_contents)
qed

text \<open>Taking back a member just added restores the members, in their order.\<close>

lemma add_then_remove:
  assumes ok: "snd (add_member e g u s) = None"
  shows "map_option Group_Members (contents (fst (remove_member e' g u (fst (add_member e g u s)))) k)
    = map_option Group_Members (contents s k)"
proof -
  from ok obtain grp where grp: "contents s g = Some grp" "u \<notin> set (Group_Members grp)"
    "contents (fst (add_member e g u s)) = (contents s)(g \<mapsto>
       grp\<lparr>Group_Members := Group_Members grp @ [u], Group_UpdatedAt := env_now e\<rparr>)"
    by (rule add_member_okD)
  then show ?thesis by (simp add: remove_member_contents remove1_append)
qed

lemma keys_ok_members:
  "keys_ok s \<Longrightarrow> keys_ok (fst (add_member e g u s))"
  "keys_ok s \<Longrightarrow> keys_ok (fst (remove_member e g u s))"
  by (auto simp: keys_ok_def add_member_contents remove_member_contents split: option.splits)

end

text \<open>In memory, adding and removing a member fail only on their own preconditions.\<close>

locale reliable_group_store = group_store +
  reliable_map create update delete contents Group_ID "\<lambda>i. i" stamp_group_created stamp_group_updated +
  assumes add_member_new: "contents s g = Some grp \<Longrightarrow> u \<notin> set (Group_Members grp) \<Longrightarrow>
      snd (add_member e g u s) = None"
    and remove_member_present: "contents s g = Some grp \<Longrightarrow> u \<in> set (Group_Members grp) \<Longrightarrow>
      snd (remove_member e g u s) = None"

interpretation mem_groups: reliable_group_store
  InMemoryGroupStore_Create InMemoryGroupStore_Update InMemoryGroupStore_Delete imgs_groups InMemoryGroupStore_Get
  InMemoryGroupStore_AddMember InMemoryGroupStore_RemoveMember
  by unfold_locales (auto simp: group_store_defs split: option.splits)

interpretation file_groups: group_store
  FileGroupStore_Create FileGroupStore_Update FileGroupStore_Delete fs_entries FileGroupStore_Get
  FileGroupStore_AddMember FileGroupStore_RemoveMember
  by unfold_locales (auto simp: group_store_defs split: option.splits)

subsection \<open>Properties\<close>

lemma User_json_simps [simp]:
  "User_ID (User_json u) = User_ID u" "User_PasswordHash (User_json u) = []"
  "User_AuthProvider (User_json u) = User_AuthProvider u"
  by (simp_all add: User_json_def)

text \<open>A file of users survives a restart except for the passwords: a store opened on the disk
  that a successful save left, with the same key, holds every user with every field but the
  password hash; so after a restart every local user is refused with \<open>password not set\<close>, whatever
  the password.\<close>

theorem FileUserStore_restart_loses_passwords:
  assumes keys: "\<And>k u. fs_entries s k = Some u \<Longrightarrow> User_ID u = k"
    and order: "range_order (fs_entries s) ks"
    and saved: "FileUserStore_saveToFile ks s = (s', None)"
    and readable: "d_read_err (fs_disk s') = None"
  shows "fs_entries (NewFileUserStore (fs_filePath s') (fs_crypto s') (fs_disk s')) =
      map_option User_json \<circ> fs_entries s \<and>
    (\<forall>k u cmp password. fs_entries s k = Some u \<longrightarrow> User_AuthProvider u = ''local'' \<longrightarrow>
      FileUserStore_Authenticate cmp
        (NewFileUserStore (fs_filePath s') (fs_crypto s') (fs_disk s')) k password =
      Inl ''password not set'')"
proof -
  have ok: "snd (FileUserStore_saveToFile ks s) = None" and s': "s' = fst (FileUserStore_saveToFile ks s)"
    using saved by simp_all
  have same: "fs_crypto s' = fs_crypto s" "fs_filePath s' = fs_filePath s"
    by (simp_all add: s' FileUserStore_saveToFile_def)
  have "file_on_disk s' = Some (saved_content User_json ks s)"
    using ok by (simp add: s' FileUserStore_saveToFile_def saveToFile_file)
  then have f: "d_files (fs_disk s') (fs_filePath s') = Some (saved_content User_json ks s)"
    by (simp add: file_on_disk_def)
  have all: "fs_entries (NewFileUserStore (fs_filePath s') (fs_crypto s') (fs_disk s')) =
      map_option User_json \<circ> fs_entries s"
    unfolding NewFileUserStore_def same(1)
    by (rule load_saved [OF order _ ok [unfolded FileUserStore_saveToFile_def] readable f])
      (simp add: keys)
  then show ?thesis
    by (simp add: FileUserStore_Authenticate_def)
qed

definition ex_local_user :: User where
  "ex_local_user = \<lparr>User_ID = ''ann'', User_Name = ''Ann'', User_Email = ''ann@x'', User_Groups = [''ops''],
     User_AuthProvider = ''local'', User_ExternalID = [], User_ProviderGroups = [],
     User_PasswordHash = ''$2a$10$x'', User_PasswordChangedAt = None, User_LastLoginAt = None,
     User_CreatedAt = 1, User_UpdatedAt = 1\<rparr>"

definition ex_user_file :: "string option \<Rightarrow> FileUserStore" where
  "ex_user_file crypto = \<lparr>fs_filePath = ''users.json'', fs_entries = [''ann'' \<mapsto> ex_local_user],
     fs_crypto = crypto, fs_disk = healthy_disk\<rparr>"

theorem FileUserStore_restart_loses_passwords_witness:
  "let s' = fst (FileUserStore_saveToFile [''ann''] (ex_user_file None)) in
   FileUserStore_Authenticate (\<lambda>h p. True)
     (NewFileUserStore (fs_filePath s') (fs_crypto s') (fs_disk s')) ''ann'' ''secret'' =
   Inl ''password not set''"
proof -
  let ?r = "FileUserStore_saveToFile [''ann''] (ex_user_file None)"
  have keys: "fs_entries (ex_user_file None) k = Some u \<Longrightarrow> User_ID u = k" for k u
    by (auto simp: ex_user_file_def ex_local_user_def split: if_splits)
  have order: "range_order (fs_entries (ex_user_file None)) [''ann'']"
    by (simp add: range_order_def ex_user_file_def)
  have "?r = (fst ?r, None)" "d_read_err (fs_disk (fst ?r)) = None"
    by (simp_all add: FileUserStore_saveToFile_def saveToFile_def ex_user_file_def healthy_disk_def Let_def)
  from FileUserStore_restart_loses_passwords [OF keys order this] show ?thesis
    by (simp add: Let_def ex_user_file_def ex_local_user_def)
qed

text \<open>The operations of the file store of users change memory before they write the file. A
  creation whose save fails returns an error although the user is there from then on: the file is
  untouched, the user can be fetched, and repeating the call fails because the user exists.\<close>

theorem FileUserStore_failed_create_took_effect:
  assumes new: "User_ID u \<notin> dom (fs_entries s)"
    and failed: "FileUserStore_Create e u s = (s', Some err)"
  shows "file_on_disk s' = file_on_disk s \<and>
    FileUserStore_Get s' (User_ID u) = Inr (stamp_user_created e u) \<and>
    FileUserStore_Create e' u s' =
      (s', Some (''user with ID '' @ User_ID u @ '' already exists''))"
proof -
  have s': "s' = fst (FileUserStore_Create e u s)" using failed by simp
  have there: "FileUserStore_Get s' (User_ID u) = Inr (stamp_user_created e u)"
    unfolding s' using new by (intro file_users.get_after_create) auto
  then have "fs_entries s' (User_ID u) \<noteq> None" by (auto simp: file_users.get_iff)
  moreover have "file_on_disk s' = file_on_disk s"
  proof -
    let ?t = "s\<lparr>fs_entries := (fs_entries s)(User_ID u \<mapsto> stamp_user_created e u)\<rparr>"
    have "FileUserStore_saveToFile (env_order e) ?t = (s', Some err)"
      using failed new by (simp add: FileUserStore_Create_def domIff)
    then have "snd (FileUserStore_saveToFile (env_order e) ?t) = Some err"
      and "s' = fst (FileUserStore_saveToFile (env_order e) ?t)" by simp_all
    then have "file_on_disk s' = file_on_disk ?t"
      by (simp add: FileUserStore_saveToFile_def saveToFile_file)
    then show ?thesis by (simp add: file_on_disk_def)
  qed
  ultimately show ?thesis using there by (simp add: FileUserStore_Create_def)
qed

theorem FileUserStore_failed_create_took_effect_witness:
  "let s = (ex_user_file None)\<lparr>fs_entries := Map.empty,
             fs_disk := healthy_disk\<lparr>d_rename_err := Some ''busy''\<rparr>\<rparr>
   in FileUserStore_Get (fst (FileUserStore_Create \<lparr>env_now = 3, env_now' = 4, env_order = [''ann'']\<rparr>
        ex_local_user s)) ''ann'' =
      Inr (ex_local_user\<lparr>User_CreatedAt := 3, User_UpdatedAt := 4\<rparr>)"
proof -
  let ?s = "(ex_user_file None)\<lparr>fs_entries := Map.empty,
             fs_disk := healthy_disk\<lparr>d_rename_err := Some ''busy''\<rparr>\<rparr>"
  let ?e = "\<lparr>env_now = 3, env_now' = 4, env_order = [''ann'']\<rparr> :: env"
  let ?r = "FileUserStore_Create ?e ex_local_user ?s"
  have "?r = (fst ?r, Some ''failed to rename user file: busy'')"
    by (simp add: FileUserStore_Create_def FileUserStore_saveToFile_def saveToFile_def
        ex_user_file_def healthy_disk_def Let_def)
  from FileUserStore_failed_create_took_effect [OF _ this] show ?thesis
    by (simp add: Let_def ex_local_user_def)
qed

text \<open>A store of users opened with the wrong key starts empty, silently, and the next change it
  saves replaces the whole file by that change: the users that were in it are gone.\<close>

theorem FileUserStore_wrong_key_overwrites:
  assumes sealed: "d_files d path = Some (Sealed k xs)"
    and key: "k' \<noteq> k"
    and created: "FileUserStore_Create e u (NewFileUserStore path (Some k') d) = (s', None)"
    and order: "env_order e = [User_ID u]"
  shows "fs_entries (NewFileUserStore path (Some k') d) = Map.empty \<and>
    file_on_disk s' = Some (Sealed k' [User_json (stamp_user_created e u)])"
proof -
  let ?s = "NewFileUserStore path (Some k') d"
  have s: "?s = \<lparr>fs_filePath = path, fs_entries = Map.empty, fs_crypto = Some k', fs_disk = d\<rparr>"
    using sealed key by (simp add: NewFileUserStore_def NewFileStore_def loadFromFile_def split: option.splits)
  let ?t = "?s\<lparr>fs_entries := [User_ID u \<mapsto> stamp_user_created e u]\<rparr>"
  have "FileUserStore_saveToFile [User_ID u] ?t = (s', None)"
    using created order by (simp add: FileUserStore_Create_def s)
  then have "snd (FileUserStore_saveToFile [User_ID u] ?t) = None"
    and "s' = fst (FileUserStore_saveToFile [User_ID u] ?t)" by simp_all
  then have "file_on_disk s' = Some (saved_content User_json [User_ID u] ?t)"
    by (simp add: FileUserStore_saveToFile_def saveToFile_file)
  also have "saved_content User_json [User_ID u] ?t = Sealed k' [User_json (stamp_user_created e u)]"
    by (simp add: saved_content_def s range_values_def List.map_filter_def)
  finally show ?thesis by (simp add: s)
qed

theorem FileUserStore_wrong_key_overwrites_witness:
  "file_on_disk (fst (FileUserStore_Create \<lparr>env_now = 3, env_now' = 4, env_order = [''ann'']\<rparr> ex_local_user
      (NewFileUserStore ''f'' (Some ''new'') (healthy_disk\<lparr>d_files := [''f'' \<mapsto> Sealed ''old'' [ex_local_user]]\<rparr>)))) =
   Some (Sealed ''new'' [User_json (ex_local_user\<lparr>User_CreatedAt := 3, User_UpdatedAt := 4\<rparr>)])"
proof -
  let ?d = "healthy_disk\<lparr>d_files := [''f'' \<mapsto> Sealed ''old'' [ex_local_user]]\<rparr>"
  let ?e = "\<lparr>env_now = 3, env_now' = 4, env_order = [''ann'']\<rparr> :: env"
  let ?r = "FileUserStore_Create ?e ex_local_user (NewFileUserStore ''f'' (Some ''new'') ?d)"
  have "?r = (fst ?r, None)"
    by (simp add: FileUserStore_Create_def FileUserStore_saveToFile_def saveToFile_def NewFileUserStore_def
        NewFileStore_def loadFromFile_def Encrypt_def healthy_disk_def Let_def)
  from FileUserStore_wrong_key_overwrites [OF _ _ this] show ?thesis
    by (simp add: ex_local_user_def)
qed

end
