(* ===== verification/PortManager.thy ===== *)
theory PortManager
  imports GoStrings
begin

section \<open>The port manager of the sidecar deployments\<close>

text \<open>
  \<open>pkg/proxy/port_manager.go\<close>: a port number for each deployed adapter, from the range
  \<open>minPort..maxPort\<close>. The invariant is that no two adapters hold the same port and that every port
  held lies in the range; allocation fails exactly when the range is exhausted.
\<close>

record PortManager =
  pm_minPort :: int
  pm_maxPort :: int
  pm_allocated :: "string \<rightharpoonup> int"

definition NewPortManager :: "int \<Rightarrow> int \<Rightarrow> PortManager" where
  "NewPortManager minPort maxPort =
     \<lparr>pm_minPort = minPort, pm_maxPort = maxPort, pm_allocated = Map.empty\<rparr>"

text \<open>\<open>isPortUsed\<close> ranges over the allocation map in the order \<open>ks\<close>.\<close>

definition isPortUsed :: "PortManager \<Rightarrow> string list \<Rightarrow> int \<Rightarrow> bool" where
  "isPortUsed pm ks port = (\<exists>p \<in> set (range_values (pm_allocated pm) ks). p = port)"

text \<open>The loop of \<open>AllocatePort\<close> from \<open>port\<close> on: the first port that is not used.\<close>

function first_free :: "PortManager \<Rightarrow> string list \<Rightarrow> int \<Rightarrow> int option" where
  "first_free pm ks port =
     (if port \<le> pm_maxPort pm
      then if \<not> isPortUsed pm ks port then Some port else first_free pm ks (port + 1)
      else None)"
  by pat_completeness auto
termination
  by (relation "measure (\<lambda>(pm, ks, port). nat (pm_maxPort pm + 1 - port))") auto

declare first_free.simps [simp del]

definition AllocatePort :: "string \<Rightarrow> string list \<Rightarrow> PortManager \<Rightarrow> PortManager \<times> int result" where
  "AllocatePort adapterID ks pm =
     (case pm_allocated pm adapterID of
        Some port \<Rightarrow> (pm, Inr port)
      | None \<Rightarrow>
          (case first_free pm ks (pm_minPort pm) of
             Some port \<Rightarrow> (pm\<lparr>pm_allocated := (pm_allocated pm)(adapterID \<mapsto> port)\<rparr>, Inr port)
           | None \<Rightarrow> (pm, Inl (''no available ports in range '' @ show_int (pm_minPort pm) @ ''-'' @
                                 show_int (pm_maxPort pm)))))"

definition ReleasePort :: "string \<Rightarrow> PortManager \<Rightarrow> PortManager" where
  "ReleasePort adapterID pm = pm\<lparr>pm_allocated := (pm_allocated pm)(adapterID := None)\<rparr>"

definition GetAllocatedPort :: "PortManager \<Rightarrow> string \<Rightarrow> int option" where
  "GetAllocatedPort pm adapterID = pm_allocated pm adapterID"

subsection \<open>The search for a free port\<close>

lemma isPortUsed_iff:
  "range_order (pm_allocated pm) ks \<Longrightarrow> isPortUsed pm ks port \<longleftrightarrow> port \<in> ran (pm_allocated pm)"
  by (auto simp: isPortUsed_def set_range_values)

lemma first_free_Some:
  "first_free pm ks port = Some p \<Longrightarrow>
   port \<le> p \<and> p \<le> pm_maxPort pm \<and> \<not> isPortUsed pm ks p \<and>
   (\<forall>q. port \<le> q \<and> q < p \<longrightarrow> isPortUsed pm ks q)"
proof (induction pm ks port rule: first_free.induct)
  case (1 pm ks port)
  show ?case
  proof (cases "port \<le> pm_maxPort pm \<and> isPortUsed pm ks port")
    case True
    then have "first_free pm ks (port + 1) = Some p"
      using "1.prems" by (simp add: first_free.simps [of pm ks port])
    with "1.IH" True have "port + 1 \<le> p \<and> p \<le> pm_maxPort pm \<and> \<not> isPortUsed pm ks p \<and>
        (\<forall>q. port + 1 \<le> q \<and> q < p \<longrightarrow> isPortUsed pm ks q)" by simp
    moreover have "\<forall>q. port \<le> q \<longrightarrow> q = port \<or> port + 1 \<le> q" by auto
    ultimately show ?thesis using True by (metis add_increasing2 dual_order.trans le_add_same_cancel1
          zero_le_one)
  next
    case False
    then show ?thesis
      using "1.prems" by (auto simp: first_free.simps [of pm ks port] split: if_splits)
  qed
qed

lemma first_free_None:
  "first_free pm ks port = None \<Longrightarrow> port \<le> q \<Longrightarrow> q \<le> pm_maxPort pm \<Longrightarrow> isPortUsed pm ks q"
proof (induction pm ks port rule: first_free.induct)
  case (1 pm ks port)
  then have le: "port \<le> pm_maxPort pm" by simp
  with "1.prems"(1) have used: "isPortUsed pm ks port"
    and rec: "first_free pm ks (port + 1) = None"
    by (auto simp: first_free.simps [of pm ks port] split: if_splits)
  show ?case
  proof (cases "q = port")
    case True
    with used show ?thesis by simp
  next
    case False
    with "1.prems"(2) have "port + 1 \<le> q" by simp
    with "1.IH" [OF le] used rec "1.prems"(3) show ?thesis by simp
  qed
qed

subsection \<open>The allocation invariant\<close>

definition pm_inv :: "PortManager \<Rightarrow> bool" where
  "pm_inv pm \<longleftrightarrow> inj_on (pm_allocated pm) (dom (pm_allocated pm)) \<and>
     ran (pm_allocated pm) \<subseteq> {pm_minPort pm .. pm_maxPort pm} \<and> finite (dom (pm_allocated pm))"

lemma pm_inv_New: "pm_inv (NewPortManager lo hi)"
  by (simp add: pm_inv_def NewPortManager_def)

lemma inj_on_map_upd:
  assumes "inj_on m (dom m)" and "v \<notin> ran m"
  shows "inj_on (m(k \<mapsto> v)) (dom (m(k \<mapsto> v)))"
proof (rule inj_onI)
  fix x y
  assume "x \<in> dom (m(k \<mapsto> v))" "y \<in> dom (m(k \<mapsto> v))" "(m(k \<mapsto> v)) x = (m(k \<mapsto> v)) y"
  with assms show "x = y"
    by (auto simp: ran_def inj_on_def dom_def split: if_splits)
qed

lemma pm_inv_AllocatePort:
  assumes inv: "pm_inv pm" and ro: "range_order (pm_allocated pm) ks"
  shows "pm_inv (fst (AllocatePort a ks pm))"
proof (cases "pm_allocated pm a")
  case (Some port)
  with inv show ?thesis by (simp add: AllocatePort_def)
next
  case none: None
  show ?thesis
  proof (cases "first_free pm ks (pm_minPort pm)")
    case None
    with none inv show ?thesis by (simp add: AllocatePort_def)
  next
    case (Some p)
    from first_free_Some [OF this] have p: "pm_minPort pm \<le> p" "p \<le> pm_maxPort pm"
      and fresh: "p \<notin> ran (pm_allocated pm)"
      by (auto simp: isPortUsed_iff [OF ro])
    from inv fresh have "inj_on ((pm_allocated pm)(a \<mapsto> p)) (dom ((pm_allocated pm)(a \<mapsto> p)))"
      by (intro inj_on_map_upd) (auto simp: pm_inv_def)
    moreover have "ran ((pm_allocated pm)(a \<mapsto> p)) \<subseteq> {pm_minPort pm .. pm_maxPort pm}"
      using inv p ran_map_upd_subset [of "pm_allocated pm" a p] by (auto simp: pm_inv_def)
    ultimately show ?thesis
      using inv none Some by (simp add: AllocatePort_def pm_inv_def)
  qed
qed

lemma pm_inv_ReleasePort: "pm_inv pm \<Longrightarrow> pm_inv (ReleasePort a pm)"
  using ran_map_del_subset [of "pm_allocated pm" a]
  by (auto simp: pm_inv_def ReleasePort_def inj_on_def)

subsection \<open>Every run of the port manager\<close>

inductive pm_reachable :: "int \<Rightarrow> int \<Rightarrow> PortManager \<Rightarrow> bool" for lo hi where
  new: "pm_reachable lo hi (NewPortManager lo hi)"
| allocate: "pm_reachable lo hi pm \<Longrightarrow> range_order (pm_allocated pm) ks \<Longrightarrow>
    pm_reachable lo hi (fst (AllocatePort a ks pm))"
| release: "pm_reachable lo hi pm \<Longrightarrow> pm_reachable lo hi (ReleasePort a pm)"

lemma AllocatePort_bounds [simp]:
  "pm_minPort (fst (AllocatePort a ks pm)) = pm_minPort pm"
  "pm_maxPort (fst (AllocatePort a ks pm)) = pm_maxPort pm"
  by (simp_all add: AllocatePort_def split: option.splits)

lemma ReleasePort_bounds [simp]:
  "pm_minPort (ReleasePort a pm) = pm_minPort pm" "pm_maxPort (ReleasePort a pm) = pm_maxPort pm"
  by (simp_all add: ReleasePort_def)

lemma NewPortManager_sel [simp]:
  "pm_minPort (NewPortManager lo hi) = lo" "pm_maxPort (NewPortManager lo hi) = hi"
  "pm_allocated (NewPortManager lo hi) = Map.empty"
  by (simp_all add: NewPortManager_def)

lemma pm_reachable_inv:
  "pm_reachable lo hi pm \<Longrightarrow> pm_inv pm \<and> pm_minPort pm = lo \<and> pm_maxPort pm = hi"
  by (induction rule: pm_reachable.induct)
    (simp_all add: pm_inv_New pm_inv_AllocatePort pm_inv_ReleasePort)

text \<open>C22. However adapters come and go, no two of them ever hold the same port, and every port held
  lies in the configured range.\<close>

theorem ports_never_shared:
  assumes "pm_reachable lo hi pm"
    and "GetAllocatedPort pm a = Some p" and "GetAllocatedPort pm b = Some q"
  shows "lo \<le> p \<and> p \<le> hi \<and> (p = q \<longleftrightarrow> a = b)"
proof -
  have inj: "inj_on (pm_allocated pm) (dom (pm_allocated pm))"
    and ran: "ran (pm_allocated pm) \<subseteq> {lo..hi}"
    using pm_reachable_inv [OF assms(1)] by (auto simp: pm_inv_def)
  have "pm_allocated pm a = Some p" "pm_allocated pm b = Some q"
    using assms(2,3) by (simp_all add: GetAllocatedPort_def)
  moreover from this ran have "p \<in> {lo..hi}" by (auto simp: ran_def)
  ultimately show ?thesis using inj by (auto simp: inj_on_def dom_def)
qed

text \<open>C23. \<open>AllocatePort\<close> gives an adapter the port it already holds; otherwise the lowest port of the
  range that no adapter holds; and it fails exactly when the adapter holds none and the whole range
  is taken. A failed call changes nothing.\<close>

theorem AllocatePort_lowest_free:
  assumes "range_order (pm_allocated pm) ks" and "AllocatePort a ks pm = (pm', r)"
  shows "case r of
      Inl err \<Rightarrow> pm' = pm \<and> pm_allocated pm a = None \<and>
        {pm_minPort pm .. pm_maxPort pm} \<subseteq> ran (pm_allocated pm)
    | Inr p \<Rightarrow> GetAllocatedPort pm' a = Some p \<and>
        (pm_allocated pm a = Some p \<and> pm' = pm \<or>
         pm_allocated pm a = None \<and>
         p \<in> {pm_minPort pm .. pm_maxPort pm} - ran (pm_allocated pm) \<and>
         (\<forall>q \<in> {pm_minPort pm .. pm_maxPort pm} - ran (pm_allocated pm). p \<le> q))"
proof (cases "pm_allocated pm a")
  case (Some port)
  with assms(2) have "pm' = pm" "r = Inr port" by (simp_all add: AllocatePort_def)
  with Some show ?thesis by (simp add: GetAllocatedPort_def)
next
  case none: None
  show ?thesis
  proof (cases "first_free pm ks (pm_minPort pm)")
    case None
    with first_free_None [OF None] none assms(2) isPortUsed_iff [OF assms(1)] show ?thesis
      by (auto simp: AllocatePort_def)
  next
    case (Some p)
    from first_free_Some [OF Some] isPortUsed_iff [OF assms(1)]
    have "p \<in> {pm_minPort pm .. pm_maxPort pm} - ran (pm_allocated pm)"
      and "\<forall>q. pm_minPort pm \<le> q \<and> q < p \<longrightarrow> q \<in> ran (pm_allocated pm)" by auto
    moreover have "\<forall>q \<in> {pm_minPort pm .. pm_maxPort pm} - ran (pm_allocated pm). p \<le> q"
      using calculation(2) by force
    moreover have "pm' = pm\<lparr>pm_allocated := (pm_allocated pm)(a \<mapsto> p)\<rparr> \<and> r = Inr p"
      using none Some assms(2) by (auto simp: AllocatePort_def)
    ultimately show ?thesis using none by (simp add: GetAllocatedPort_def)
  qed
qed

definition ex_ports :: PortManager where
  "ex_ports = \<lparr>pm_minPort = 8000, pm_maxPort = 8002, pm_allocated = [''a'' \<mapsto> 8000, ''b'' \<mapsto> 8001]\<rparr>"

lemmas eval_ports = AllocatePort_def first_free.simps isPortUsed_def range_values_def
  List.map_filter_def GetAllocatedPort_def

theorem AllocatePort_lowest_free_witness:
  "GetAllocatedPort (fst (AllocatePort ''c'' [''b'', ''a''] ex_ports)) ''c'' = Some 8002"
proof -
  have order: "range_order (pm_allocated ex_ports) [''b'', ''a'']"
    by (auto simp: range_order_def ex_ports_def)
  have "AllocatePort ''c'' [''b'', ''a''] ex_ports =
      (fst (AllocatePort ''c'' [''b'', ''a''] ex_ports), Inr 8002)"
    by (simp add: ex_ports_def eval_ports)
  from AllocatePort_lowest_free [OF order this] show ?thesis by simp
qed

theorem ports_never_shared_witness:
  "GetAllocatedPort (fst (AllocatePort ''b'' [''a''] (fst (AllocatePort ''a'' [] (NewPortManager 8000 8010))))) ''b''
     = Some 8001 \<and> (8000::int) \<noteq> 8001"
proof -
  let ?pm1 = "fst (AllocatePort ''a'' [] (NewPortManager 8000 8010))"
  let ?pm2 = "fst (AllocatePort ''b'' [''a''] ?pm1)"
  have pm1: "?pm1 = \<lparr>pm_minPort = 8000, pm_maxPort = 8010, pm_allocated = [''a'' \<mapsto> 8000]\<rparr>"
    by (simp add: NewPortManager_def eval_ports)
  have reach: "pm_reachable 8000 8010 ?pm2"
    by (intro pm_reachable.intros) (simp_all add: pm1 range_order_def)
  have a: "GetAllocatedPort ?pm2 ''a'' = Some 8000" and b: "GetAllocatedPort ?pm2 ''b'' = Some 8001"
    by (simp_all add: pm1 eval_ports)
  from ports_never_shared [OF reach a b] b show ?thesis by simp
qed

end
