(* ===== verification/Models.thy ===== *)
theory Models
  imports Complex_Main GoStrings
begin

section \<open>The data model\<close>

text \<open>
  The types of \<open>pkg/models/adapter.go\<close> and \<open>pkg/models/user_adapter_token.go\<close> that the
  stores and services exchange. A struct is a record with the struct's fields; an embedded struct is
  a record that extends another (\<open>AdapterResource\<close> embeds \<open>AdapterData\<close>). A pointer that is
  only followed is an option. \<open>string\<close> types with constants (\<open>ConnectionType\<close>,
  \<open>AdapterLifecycleStatus\<close>) stay strings, as any string can be stored in them, and their
  constants are abbreviations.

  \<open>any\<close> is the Go type \<open>interface{}\<close> as it holds decoded JSON or YAML: \<open>nil\<close>, a bool, a
  float64 (a rational here: every finite float64 is one), a string, a slice or a map; an int where
  the code itself stores one.
\<close>

datatype any =
    Nil_value
  | Bool_value bool
  | Float64 rat
  | Int_value int
  | String_value string
  | Slice "any list"
  | Object "string \<rightharpoonup> any"

text \<open>The type assertions the code makes, with their \<open>ok\<close> result as an option.\<close>

fun any_string :: "any \<Rightarrow> string option" where
  "any_string (String_value s) = Some s" | "any_string _ = None"

fun any_map :: "any \<Rightarrow> (string \<rightharpoonup> any) option" where
  "any_map (Object m) = Some m" | "any_map _ = None"

fun any_slice :: "any \<Rightarrow> (any list) option" where
  "any_slice (Slice xs) = Some xs" | "any_slice _ = None"

fun any_float :: "any \<Rightarrow> rat option" where
  "any_float (Float64 x) = Some x" | "any_float _ = None"

fun any_bool :: "any \<Rightarrow> bool option" where
  "any_bool (Bool_value b) = Some b" | "any_bool _ = None"

text \<open>\<open>int(x)\<close> of a float64 truncates towards zero.\<close>

definition int_of_float :: "rat \<Rightarrow> int" where
  "int_of_float x = (if 0 \<le> x then \<lfloor>x\<rfloor> else \<lceil>x\<rceil>)"

subsection \<open>Adapters\<close>

abbreviation ConnectionTypeSSE :: string where "ConnectionTypeSSE \<equiv> ''SSE''"
abbreviation ConnectionTypeStreamableHttp :: string where
  "ConnectionTypeStreamableHttp \<equiv> ''StreamableHttp''"
abbreviation ConnectionTypeRemoteHttp :: string where
  "ConnectionTypeRemoteHttp \<equiv> ''RemoteHttp''"
abbreviation ConnectionTypeLocalStdio :: string where
  "ConnectionTypeLocalStdio \<equiv> ''LocalStdio''"
abbreviation ConnectionTypeSidecarStdio :: string where
  "ConnectionTypeSidecarStdio \<equiv> ''SidecarStdio''"

abbreviation ServerProtocolMCP :: string where "ServerProtocolMCP \<equiv> ''MCP''"

abbreviation AdapterLifecycleStatusNotReady :: string where
  "AdapterLifecycleStatusNotReady \<equiv> ''not ready''"
abbreviation AdapterLifecycleStatusReady :: string where
  "AdapterLifecycleStatusReady \<equiv> ''ready''"
abbreviation AdapterLifecycleStatusError :: string where
  "AdapterLifecycleStatusError \<equiv> ''error''"

record SidecarConfig =
  SC_CommandType :: string
  SC_Command :: string
  SC_Args :: "string list"
  SC_Env :: "(string \<rightharpoonup> string) list"
  SC_Port :: int
  SC_Source :: string
  SC_LastUpdated :: string
  SC_ProjectURL :: string
  SC_ReleaseURL :: string

record MCPServerConfig =
  MSC_Command :: string
  MSC_Args :: "string list"
  MSC_Env :: "string \<rightharpoonup> string"
  MSC_URL :: string
  MSC_Headers :: "string \<rightharpoonup> string"

record MCPClientConfig =
  MCC_MCPServers :: "string \<rightharpoonup> MCPServerConfig"

record BearerTokenConfig =
  BT_Token :: string
  BT_Dynamic :: bool
  BT_ExpiresAt :: gotime

record OAuthConfig =
  OA_ClientID :: string
  OA_ClientSecret :: string
  OA_AuthURL :: string
  OA_TokenURL :: string
  OA_Scopes :: "string list"
  OA_RedirectURI :: string

record BasicAuthConfig =
  BA_Username :: string
  BA_Password :: string

record APIKeyConfig =
  AK_Key :: string
  AK_Location :: string
  AK_Name :: string

record AdapterAuthConfig =
  AAC_Required :: bool
  AAC_Type :: string
  AAC_BearerToken :: "BearerTokenConfig option"
  AAC_OAuth :: "OAuthConfig option"
  AAC_Basic :: "BasicAuthConfig option"
  AAC_APIKey :: "APIKeyConfig option"

record MCPTool =
  MT_Name :: string
  MT_Description :: string
  MT_InputSchema :: "string \<rightharpoonup> any"
  MT_SourceType :: string
  MT_Config :: "string \<rightharpoonup> any"

record MCPArgument =
  MA_Name :: string
  MA_Description :: string
  MA_Required :: bool

record MCPPrompt =
  MP_Name :: string
  MP_Description :: string
  MP_Arguments :: "MCPArgument list"

record MCPResource =
  MR_URI :: string
  MR_Name :: string
  MR_Description :: string
  MR_MimeType :: string

record MCPServerInfo =
  MSI_Name :: string
  MSI_Version :: string
  MSI_Protocol :: string
  MSI_Capabilities :: "string \<rightharpoonup> any"

record MCPFunctionality =
  MF_ServerInfo :: MCPServerInfo
  MF_Tools :: "MCPTool list"
  MF_Prompts :: "MCPPrompt list"
  MF_Resources :: "MCPResource list"
  MF_LastRefreshed :: gotime

record AdapterData =
  AD_Name :: string
  AD_ImageName :: string
  AD_ImageVersion :: string
  AD_Protocol :: string
  AD_ConnectionType :: string
  AD_Status :: string
  AD_EnvironmentVariables :: "string \<rightharpoonup> string"
  AD_ReplicaCount :: int
  AD_Description :: string
  AD_UseWorkloadIdentity :: bool
  AD_URL :: string
  AD_RemoteUrl :: string
  AD_ApiBaseUrl :: string
  AD_Tools :: "any list"
  AD_Command :: string
  AD_Args :: "string list"
  AD_MCPClientConfig :: MCPClientConfig
  AD_Authentication :: "AdapterAuthConfig option"
  AD_MCPFunctionality :: "MCPFunctionality option"
  AD_SidecarConfig :: "SidecarConfig option"

record AdapterResource = AdapterData +
  AR_ID :: string
  AR_CreatedBy :: string
  AR_CreatedAt :: gotime
  AR_LastUpdatedAt :: gotime

text \<open>The zero value of \<open>AdapterData\<close>, which a composite literal starts from.\<close>

definition zero_AdapterData :: AdapterData where
  "zero_AdapterData = \<lparr>AD_Name = [], AD_ImageName = [], AD_ImageVersion = [], AD_Protocol = [],
     AD_ConnectionType = [], AD_Status = [], AD_EnvironmentVariables = Map.empty,
     AD_ReplicaCount = 0, AD_Description = [], AD_UseWorkloadIdentity = False, AD_URL = [],
     AD_RemoteUrl = [], AD_ApiBaseUrl = [], AD_Tools = [], AD_Command = [], AD_Args = [],
     AD_MCPClientConfig = \<lparr>MCC_MCPServers = Map.empty\<rparr>, AD_Authentication = None,
     AD_MCPFunctionality = None, AD_SidecarConfig = None\<rparr>"

definition NewAdapterData :: "string \<Rightarrow> string \<Rightarrow> string \<Rightarrow> AdapterData" where
  "NewAdapterData name imageName imageVersion = zero_AdapterData
     \<lparr>AD_Name := name, AD_ImageName := imageName, AD_ImageVersion := imageVersion,
      AD_Protocol := ServerProtocolMCP, AD_ConnectionType := ConnectionTypeStreamableHttp,
      AD_Status := AdapterLifecycleStatusNotReady, AD_ReplicaCount := 1\<rparr>"

text \<open>\<open>ar.Create(data, createdBy, createdAt)\<close>. The loop over the configured servers merges the
  environment of the first one it meets: \<open>ks\<close> is the order in which it would visit them.\<close>

definition merge_first_env ::
    "string list \<Rightarrow> (string \<rightharpoonup> MCPServerConfig) \<Rightarrow> (string \<rightharpoonup> string) \<Rightarrow> (string \<rightharpoonup> string)" where
  "merge_first_env ks servers vars =
     (case range_values servers ks of [] \<Rightarrow> vars | sc # _ \<Rightarrow> vars ++ MSC_Env sc)"

definition AdapterResource_Create ::
    "gotime \<Rightarrow> string list \<Rightarrow> AdapterData \<Rightarrow> string \<Rightarrow> gotime \<Rightarrow> AdapterResource" where
  "AdapterResource_Create now ks data createdBy createdAt =
     AdapterData.extend
       (data\<lparr>AD_EnvironmentVariables :=
          merge_first_env ks (MCC_MCPServers (AD_MCPClientConfig data)) (AD_EnvironmentVariables data)\<rparr>)
       (AdapterResource.fields (AD_Name data) createdBy createdAt now)"

lemma AdapterResource_Create_simps [simp]:
  "AR_ID (AdapterResource_Create now ks d owner t0) = AD_Name d"
  "AR_CreatedBy (AdapterResource_Create now ks d owner t0) = owner"
  "AD_Status (AdapterResource_Create now ks d owner t0) = AD_Status d"
  "AD_ConnectionType (AdapterResource_Create now ks d owner t0) = AD_ConnectionType d"
  "AD_SidecarConfig (AdapterResource_Create now ks d owner t0) = AD_SidecarConfig d"
  "AD_MCPClientConfig (AdapterResource_Create now ks d owner t0) = AD_MCPClientConfig d"
  "AD_Authentication (AdapterResource_Create now ks d owner t0) = AD_Authentication d"
  "AD_RemoteUrl (AdapterResource_Create now ks d owner t0) = AD_RemoteUrl d"
  "AD_Name (AdapterResource_Create now ks d owner t0) = AD_Name d"
  by (simp_all add: AdapterResource_Create_def AdapterData.defs AdapterResource.defs)

subsection \<open>Servers of the registry\<close>

record Repository =
  Repo_URL :: string
  Repo_Source :: string

record Transport =
  Tr_Type :: string

record EnvironmentVariable =
  EV_Name :: string
  EV_Description :: string
  EV_Format :: string
  EV_IsSecret :: bool
  EV_Default :: string

record Package =
  Pkg_RegistryType :: string
  Pkg_Identifier :: string
  Pkg_Transport :: Transport
  Pkg_EnvironmentVariables :: "EnvironmentVariable list"

record GitHubConfig =
  GH_APIEndpoint :: string
  GH_Token :: string
  GH_Owner :: string
  GH_Repo :: string

record RouteAssignment =
  RA_ID :: string
  RA_ServerID :: string
  RA_UserIDs :: "string list"
  RA_GroupIDs :: "string list"
  RA_AutoSpawn :: bool
  RA_Permissions :: string
  RA_CreatedAt :: gotime
  RA_UpdatedAt :: gotime

record AutoSpawnConfig =
  AS_Enabled :: bool
  AS_ConnectionType :: string
  AS_Command :: string
  AS_Args :: "string list"
  AS_ImageName :: string
  AS_ImageVersion :: string
  AS_DefaultEnv :: "string \<rightharpoonup> string"
  AS_DeploymentMethod :: string

record MCPServer =
  Srv_ID :: string
  Srv_Name :: string
  Srv_Image :: string
  Srv_Description :: string
  Srv_Version :: string
  Srv_Repository :: Repository
  Srv_Packages :: "Package list"
  Srv_Tools :: "MCPTool list"
  Srv_ValidationStatus :: string
  Srv_DiscoveredAt :: gotime
  Srv_URL :: string
  Srv_Meta :: "string \<rightharpoonup> any"
  Srv_GitHubConfig :: "GitHubConfig option"
  Srv_RouteAssignments :: "RouteAssignment list"
  Srv_AutoSpawn :: "AutoSpawnConfig option"

subsection \<open>Discovered servers and scans\<close>

text \<open>A slice or map that the code compares with \<open>nil\<close> is an option.\<close>

record McpTool =
  McT_Name :: string
  McT_Description :: string
  McT_InputSchema :: "(string \<rightharpoonup> any) option"

record McpResource =
  McR_URI :: string
  McR_Name :: string
  McR_Description :: string
  McR_MimeType :: string

record McpArgument =
  McA_Name :: string
  McA_Description :: string
  McA_Required :: bool

record McpPrompt =
  McP_Name :: string
  McP_Description :: string
  McP_Arguments :: "McpArgument list"

record McpResourceTemplate =
  McRT_URITemplate :: string
  McRT_Name :: string
  McRT_Description :: string
  McRT_MimeType :: string

record McpCapabilities =
  McC_Tools :: bool
  McC_Prompts :: bool
  McC_Resources :: bool
  McC_Logging :: bool
  McC_Completions :: bool
  McC_Experimental :: bool

record AuthAnalysis =
  AA_Required :: bool
  AA_Type :: string
  AA_DetectedMechanisms :: "string list"
  AA_Vulnerabilities :: "string list"
  AA_Confidence :: string

record CapabilityValidation =
  CV_ToolsValid :: bool
  CV_ResourcesValid :: bool
  CV_PromptsValid :: bool
  CV_Issues :: "string list"

record DiscoveredServer =
  DS_ID :: string
  DS_Name :: string
  DS_Address :: string
  DS_Protocol :: string
  DS_Connection :: string
  DS_Status :: string
  DS_LastSeen :: gotime
  DS_Metadata :: "(string \<rightharpoonup> string) option"
  DS_VulnerabilityScore :: string
  DS_Capabilities :: "McpCapabilities option"
  DS_Tools :: "(McpTool list) option"
  DS_Resources :: "(McpResource list) option"
  DS_Prompts :: "(McpPrompt list) option"
  DS_ResourceTemplates :: "McpResourceTemplate list"
  DS_AuthInfo :: "AuthAnalysis option"
  DS_LastDeepScan :: "gotime option"
  DS_ServerVersion :: string
  DS_ProtocolVersion :: string

text \<open>A server with the fields of a first detection; the deep interrogation fills in the rest.\<close>

definition zero_DiscoveredServer :: DiscoveredServer where
  "zero_DiscoveredServer = \<lparr>DS_ID = [], DS_Name = [], DS_Address = [], DS_Protocol = [],
     DS_Connection = [], DS_Status = [], DS_LastSeen = 0, DS_Metadata = None,
     DS_VulnerabilityScore = [], DS_Capabilities = None, DS_Tools = None, DS_Resources = None,
     DS_Prompts = None, DS_ResourceTemplates = [], DS_AuthInfo = None, DS_LastDeepScan = None,
     DS_ServerVersion = [], DS_ProtocolVersion = []\<rparr>"

record ScanConfig =
  SCfg_ScanRanges :: "string list"
  SCfg_Ports :: "string list"
  SCfg_Timeout :: string
  SCfg_MaxConcurrent :: int
  SCfg_ExcludeProxy :: "bool option"
  SCfg_ExcludeAddresses :: "string list"

subsection \<open>Assignments and tokens\<close>

record AdapterGroupAssignment =
  AGA_ID :: string
  AGA_AdapterID :: string
  AGA_GroupID :: string
  AGA_Permission :: string
  AGA_CreatedAt :: gotime
  AGA_UpdatedAt :: gotime
  AGA_CreatedBy :: string

record UserAdapterToken =
  UAT_UserID :: string
  UAT_AdapterID :: string
  UAT_Token :: string
  UAT_CreatedAt :: gotime
  UAT_ExpiresAt :: "gotime option"
  UAT_LastUsedAt :: "gotime option"

definition IsExpired :: "gotime \<Rightarrow> UserAdapterToken \<Rightarrow> bool" where
  "IsExpired now tok = (case UAT_ExpiresAt tok of None \<Rightarrow> False | Some t \<Rightarrow> t < now)"

definition UpdateLastUsed :: "gotime \<Rightarrow> UserAdapterToken \<Rightarrow> UserAdapterToken" where
  "UpdateLastUsed now t = t\<lparr>UAT_LastUsedAt := Some now\<rparr>"

end
