(* ===== verification/AdapterStores.thy ===== *)
theory AdapterStores
  imports FileStore Models
begin

section \<open>Stores of adapters, group assignments, user tokens and registry servers\<close>

text \<open>
  \<open>pkg/clients/adapter_store.go\<close>, \<open>adapter_group_assignment_store.go\<close>,
  \<open>user_adapter_token_store.go\<close>, \<open>mcp_server_store.go\<close> and \<open>mcp_server_store_file.go\<close>: for
  each interface its record of operations, the implementation in memory, the one kept in a file,
  and the interpretations that show they keep the contract of \<open>KeyedStore\<close>. Assignments and
  tokens are filed under two identifiers joined by a colon.

  The registry stores hand out pointers to their entries; callers only read through them here, so
  an entry is a value.
\<close>

subsection \<open>The interfaces\<close>

record 's AdapterResourceStore =
  ars_Create :: "env \<Rightarrow> AdapterResource \<Rightarrow> 's \<Rightarrow> 's \<times> error option"
  ars_Get :: "'s \<Rightarrow> string \<Rightarrow> AdapterResource result"
  ars_List :: "string list \<Rightarrow> 's \<Rightarrow> string \<Rightarrow> (AdapterResource list) result"
  ars_ListAll :: "string list \<Rightarrow> 's \<Rightarrow> (AdapterResource list) result"
  ars_Update :: "env \<Rightarrow> AdapterResource \<Rightarrow> 's \<Rightarrow> 's \<times> error option"
  ars_Delete :: "env \<Rightarrow> string \<Rightarrow> 's \<Rightarrow> 's \<times> error option"
  ars_UpsertAsync :: "env \<Rightarrow> AdapterResource \<Rightarrow> 's \<Rightarrow> 's \<times> error option"

record 's AdapterGroupAssignmentStore =
  ags_CreateAssignment :: "env \<Rightarrow> AdapterGroupAssignment \<Rightarrow> 's \<Rightarrow> 's \<times> error option"
  ags_GetAssignment :: "'s \<Rightarrow> string \<times> string \<Rightarrow> AdapterGroupAssignment result"
  ags_UpdateAssignment :: "env \<Rightarrow> AdapterGroupAssignment \<Rightarrow> 's \<Rightarrow> 's \<times> error option"
  ags_DeleteAssignment :: "env \<Rightarrow> string \<times> string \<Rightarrow> 's \<Rightarrow> 's \<times> error option"
  ags_ListAssignments :: "string list \<Rightarrow> 's \<Rightarrow> (AdapterGroupAssignment list) result"
  ags_ListAssignmentsForAdapter ::
    "string list \<Rightarrow> 's \<Rightarrow> string \<Rightarrow> (AdapterGroupAssignment list) result"
  ags_ListAssignmentsForGroup ::
    "string list \<Rightarrow> 's \<Rightarrow> string \<Rightarrow> (AdapterGroupAssignment list) result"
  ags_HasAccess :: "'s \<Rightarrow> string \<Rightarrow> string \<Rightarrow> bool result"

record 's UserAdapterTokenStore =
  uts_CreateToken :: "env \<Rightarrow> UserAdapterToken \<Rightarrow> 's \<Rightarrow> 's \<times> error option"
  uts_GetToken :: "gotime \<Rightarrow> 's \<Rightarrow> string \<times> string \<Rightarrow> UserAdapterToken result"
  uts_GetTokenByValue :: "gotime \<Rightarrow> string list \<Rightarrow> 's \<Rightarrow> string \<Rightarrow> UserAdapterToken result"
  uts_DeleteToken :: "env \<Rightarrow> string \<times> string \<Rightarrow> 's \<Rightarrow> 's \<times> error option"
  uts_ListUserTokens :: "string list \<Rightarrow> 's \<Rightarrow> string \<Rightarrow> (UserAdapterToken list) result"
  uts_ListAdapterTokens :: "string list \<Rightarrow> 's \<Rightarrow> string \<Rightarrow> (UserAdapterToken list) result"
  uts_UpdateToken :: "env \<Rightarrow> UserAdapterToken \<Rightarrow> 's \<Rightarrow> 's \<times> error option"

record 's MCPServerStore =
  mss_CreateMCPServer :: "env \<Rightarrow> string \<Rightarrow> MCPServer \<Rightarrow> 's \<Rightarrow> 's \<times> MCPServer \<times> error option"
  mss_GetMCPServer :: "'s \<Rightarrow> string \<Rightarrow> MCPServer result"
  mss_UpdateMCPServer :: "env \<Rightarrow> string \<Rightarrow> MCPServer \<Rightarrow> 's \<Rightarrow> 's \<times> MCPServer \<times> error option"
  mss_DeleteMCPServer :: "env \<Rightarrow> string \<Rightarrow> 's \<Rightarrow> 's \<times> error option"
  mss_ListMCPServers :: "string list \<Rightarrow> 's \<Rightarrow> MCPServer list"

definition generateAssignmentID :: "string \<Rightarrow> string \<Rightarrow> string" where
  "generateAssignmentID adapterID groupID = adapterID @ '':'' @ groupID"

definition makeKey :: "string \<Rightarrow> string \<Rightarrow> string" where
  "makeKey userID adapterID = userID @ '':'' @ adapterID"

definition assignment_key :: "AdapterGroupAssignment \<Rightarrow> string" where
  "assignment_key a = generateAssignmentID (AGA_AdapterID a) (AGA_GroupID a)"

definition token_key :: "UserAdapterToken \<Rightarrow> string" where
  "token_key t = makeKey (UAT_UserID t) (UAT_AdapterID t)"

definition stamp_token :: "env \<Rightarrow> UserAdapterToken \<Rightarrow> UserAdapterToken" where
  "stamp_token e t = t\<lparr>UAT_CreatedAt := env_now e\<rparr>"

subsection \<open>Adapters\<close>

record InMemoryAdapterStore =
  imas_adapters :: "string \<rightharpoonup> AdapterResource"

definition NewInMemoryAdapterStore :: InMemoryAdapterStore where
  "NewInMemoryAdapterStore = \<lparr>imas_adapters = Map.empty\<rparr>"

definition InMemoryAdapterStore_Create ::
    "env \<Rightarrow> AdapterResource \<Rightarrow> InMemoryAdapterStore \<Rightarrow> InMemoryAdapterStore \<times> error option" where
  "InMemoryAdapterStore_Create e adapter s =
     (if imas_adapters s (AR_ID adapter) \<noteq> None
      then (s, Some (''adapter with ID '' @ AR_ID adapter @ '' already exists''))
      else (s\<lparr>imas_adapters := (imas_adapters s)(AR_ID adapter \<mapsto> adapter)\<rparr>, None))"

definition InMemoryAdapterStore_Get :: "InMemoryAdapterStore \<Rightarrow> string \<Rightarrow> AdapterResource result" where
  "InMemoryAdapterStore_Get s aid =
     (case imas_adapters s aid of
        None \<Rightarrow> Inl (''adapter with ID '' @ aid @ '' not found'') | Some adapter \<Rightarrow> Inr adapter)"

definition InMemoryAdapterStore_List ::
    "string list \<Rightarrow> InMemoryAdapterStore \<Rightarrow> string \<Rightarrow> (AdapterResource list) result" where
  "InMemoryAdapterStore_List ks s userID =
     Inr (filter (\<lambda>adapter. AR_CreatedBy adapter = userID) (range_values (imas_adapters s) ks))"

definition InMemoryAdapterStore_ListAll :: "string list \<Rightarrow> InMemoryAdapterStore \<Rightarrow> (AdapterResource list) result" where
  "InMemoryAdapterStore_ListAll ks s = Inr (range_values (imas_adapters s) ks)"

definition InMemoryAdapterStore_Update ::
    "env \<Rightarrow> AdapterResource \<Rightarrow> InMemoryAdapterStore \<Rightarrow> InMemoryAdapterStore \<times> error option" where
  "InMemoryAdapterStore_Update e adapter s =
     (if imas_adapters s (AR_ID adapter) = None
      then (s, Some (''adapter with ID '' @ AR_ID adapter @ '' not found''))
      else (s\<lparr>imas_adapters := (imas_adapters s)(AR_ID adapter \<mapsto> adapter)\<rparr>, None))"

definition InMemoryAdapterStore_Delete ::
    "env \<Rightarrow> string \<Rightarrow> InMemoryAdapterStore \<Rightarrow> InMemoryAdapterStore \<times> error option" where
  "InMemoryAdapterStore_Delete e aid s =
     (if imas_adapters s aid = None then (s, Some (''adapter with ID '' @ aid @ '' not found''))
      else (s\<lparr>imas_adapters := (imas_adapters s)(aid := None)\<rparr>, None))"

definition InMemoryAdapterStore_UpsertAsync ::
    "env \<Rightarrow> AdapterResource \<Rightarrow> InMemoryAdapterStore \<Rightarrow> InMemoryAdapterStore \<times> error option" where
  "InMemoryAdapterStore_UpsertAsync e adapter s = InMemoryAdapterStore_Create e adapter s"

definition InMemoryAdapterStore_ops :: "InMemoryAdapterStore AdapterResourceStore" where
  "InMemoryAdapterStore_ops =
     \<lparr>ars_Create = InMemoryAdapterStore_Create, ars_Get = InMemoryAdapterStore_Get,
      ars_List = InMemoryAdapterStore_List, ars_ListAll = InMemoryAdapterStore_ListAll,
      ars_Update = InMemoryAdapterStore_Update, ars_Delete = InMemoryAdapterStore_Delete,
      ars_UpsertAsync = InMemoryAdapterStore_UpsertAsync\<rparr>"

type_synonym FileAdapterStore = "AdapterResource file_store"

definition FileAdapterStore_loadFromFile ::
    "FileAdapterStore \<Rightarrow> FileAdapterStore \<times> error option" where
  "FileAdapterStore_loadFromFile = loadFromFile ''adapter'' AR_ID"

definition NewFileAdapterStore ::
    "string \<Rightarrow> string option \<Rightarrow> AdapterResource disk \<Rightarrow> FileAdapterStore" where
  "NewFileAdapterStore = NewFileStore ''adapter'' AR_ID"

definition FileAdapterStore_saveToFile ::
    "string list \<Rightarrow> FileAdapterStore \<Rightarrow> FileAdapterStore \<times> error option" where
  "FileAdapterStore_saveToFile =
     saveToFile ''adapter '' ''adapter'' ''adapters'' (\<lambda>x. x)"

definition FileAdapterStore_Create ::
    "env \<Rightarrow> AdapterResource \<Rightarrow> FileAdapterStore \<Rightarrow> FileAdapterStore \<times> error option" where
  "FileAdapterStore_Create e adapter s =
     (if fs_entries s (AR_ID adapter) \<noteq> None
      then (s, Some (''adapter with ID '' @ AR_ID adapter @ '' already exists''))
      else FileAdapterStore_saveToFile (env_order e)
        (s\<lparr>fs_entries := (fs_entries s)(AR_ID adapter \<mapsto> adapter)\<rparr>))"

definition FileAdapterStore_Get :: "FileAdapterStore \<Rightarrow> string \<Rightarrow> AdapterResource result" where
  "FileAdapterStore_Get s aid =
     (case fs_entries s aid of
        None \<Rightarrow> Inl (''adapter with ID '' @ aid @ '' not found'') | Some adapter \<Rightarrow> Inr adapter)"

definition FileAdapterStore_List ::
    "string list \<Rightarrow> FileAdapterStore \<Rightarrow> string \<Rightarrow> (AdapterResource list) result" where
  "FileAdapterStore_List ks s userID =
     Inr (filter (\<lambda>adapter. AR_CreatedBy adapter = userID) (range_values (fs_entries s) ks))"

definition FileAdapterStore_ListAll :: "string list \<Rightarrow> FileAdapterStore \<Rightarrow> (AdapterResource list) result" where
  "FileAdapterStore_ListAll ks s = Inr (range_values (fs_entries s) ks)"

definition FileAdapterStore_Update ::
    "env \<Rightarrow> AdapterResource \<Rightarrow> FileAdapterStore \<Rightarrow> FileAdapterStore \<times> error option" where
  "FileAdapterStore_Update e adapter s =
     (if fs_entries s (AR_ID adapter) = None
      then (s, Some (''adapter with ID '' @ AR_ID adapter @ '' not found''))
      else FileAdapterStore_saveToFile (env_order e)
        (s\<lparr>fs_entries := (fs_entries s)(AR_ID adapter \<mapsto> adapter)\<rparr>))"

definition FileAdapterStore_Delete ::
    "env \<Rightarrow> string \<Rightarrow> FileAdapterStore \<Rightarrow> FileAdapterStore \<times> error option" where
  "FileAdapterStore_Delete e aid s =
     (if fs_entries s aid = None then (s, Some (''adapter with ID '' @ aid @ '' not found''))
      else FileAdapterStore_saveToFile (env_order e)
        (s\<lparr>fs_entries := (fs_entries s)(aid := None)\<rparr>))"

definition FileAdapterStore_UpsertAsync ::
    "env \<Rightarrow> AdapterResource \<Rightarrow> FileAdapterStore \<Rightarrow> FileAdapterStore \<times> error option" where
  "FileAdapterStore_UpsertAsync e adapter s = FileAdapterStore_Create e adapter s"

definition FileAdapterStore_ops :: "FileAdapterStore AdapterResourceStore" where
  "FileAdapterStore_ops =
     \<lparr>ars_Create = FileAdapterStore_Create, ars_Get = FileAdapterStore_Get,
      ars_List = FileAdapterStore_List, ars_ListAll = FileAdapterStore_ListAll,
      ars_Update = FileAdapterStore_Update, ars_Delete = FileAdapterStore_Delete,
      ars_UpsertAsync = FileAdapterStore_UpsertAsync\<rparr>"

subsection \<open>Assignments of adapters to groups\<close>

record InMemoryAdapterGroupAssignmentStore =
  imgas_assignments :: "string \<rightharpoonup> AdapterGroupAssignment"

definition NewInMemoryAdapterGroupAssignmentStore :: InMemoryAdapterGroupAssignmentStore where
  "NewInMemoryAdapterGroupAssignmentStore = \<lparr>imgas_assignments = Map.empty\<rparr>"

definition InMemoryAdapterGroupAssignmentStore_CreateAssignment ::
    "env \<Rightarrow> AdapterGroupAssignment \<Rightarrow> InMemoryAdapterGroupAssignmentStore \<Rightarrow> InMemoryAdapterGroupAssignmentStore \<times> error option" where
  "InMemoryAdapterGroupAssignmentStore_CreateAssignment e assignment s =
     (let k = generateAssignmentID (AGA_AdapterID assignment) (AGA_GroupID assignment) in
      if imgas_assignments s k \<noteq> None
      then (s, Some (''assignment for adapter '' @ AGA_AdapterID assignment @ '' and group '' @
                     AGA_GroupID assignment @ '' already exists''))
      else (s\<lparr>imgas_assignments := (imgas_assignments s)(k \<mapsto> assignment)\<rparr>, None))"

definition InMemoryAdapterGroupAssignmentStore_GetAssignment ::
    "InMemoryAdapterGroupAssignmentStore \<Rightarrow> string \<times> string \<Rightarrow> AdapterGroupAssignment result" where
  "InMemoryAdapterGroupAssignmentStore_GetAssignment s = (\<lambda>(adapterID, groupID).
     case imgas_assignments s (generateAssignmentID adapterID groupID) of
       None \<Rightarrow> Inl (''assignment for adapter '' @ adapterID @ '' and group '' @ groupID @ '' not found'')
     | Some assignment \<Rightarrow> Inr assignment)"

definition InMemoryAdapterGroupAssignmentStore_UpdateAssignment ::
    "env \<Rightarrow> AdapterGroupAssignment \<Rightarrow> InMemoryAdapterGroupAssignmentStore \<Rightarrow> InMemoryAdapterGroupAssignmentStore \<times> error option" where
  "InMemoryAdapterGroupAssignmentStore_UpdateAssignment e assignment s =
     (let k = generateAssignmentID (AGA_AdapterID assignment) (AGA_GroupID assignment) in
      if imgas_assignments s k = None
      then (s, Some (''assignment for adapter '' @ AGA_AdapterID assignment @ '' and group '' @
                     AGA_GroupID assignment @ '' not found''))
      else (s\<lparr>imgas_assignments := (imgas_assignments s)(k \<mapsto> assignment)\<rparr>, None))"

definition InMemoryAdapterGroupAssignmentStore_DeleteAssignment ::
    "env \<Rightarrow> string \<times> string \<Rightarrow> InMemoryAdapterGroupAssignmentStore \<Rightarrow> InMemoryAdapterGroupAssignmentStore \<times> error option" where
  "InMemoryAdapterGroupAssignmentStore_DeleteAssignment e = (\<lambda>(adapterID, groupID) s.
     let k = generateAssignmentID adapterID groupID in
      if imgas_assignments s k = None
      then (s, Some (''assignment for adapter '' @ adapterID @ '' and group '' @ groupID @ '' not found''))
      else (s\<lparr>imgas_assignments := (imgas_assignments s)(k := None)\<rparr>, None))"

definition InMemoryAdapterGroupAssignmentStore_ListAssignments ::
    "string list \<Rightarrow> InMemoryAdapterGroupAssignmentStore \<Rightarrow> (AdapterGroupAssignment list) result" where
  "InMemoryAdapterGroupAssignmentStore_ListAssignments ks s = Inr (range_values (imgas_assignments s) ks)"

definition InMemoryAdapterGroupAssignmentStore_ListAssignmentsForAdapter ::
    "string list \<Rightarrow> InMemoryAdapterGroupAssignmentStore \<Rightarrow> string \<Rightarrow> (AdapterGroupAssignment list) result" where
  "InMemoryAdapterGroupAssignmentStore_ListAssignmentsForAdapter ks s adapterID =
     Inr (filter (\<lambda>a. AGA_AdapterID a = adapterID) (range_values (imgas_assignments s) ks))"

definition InMemoryAdapterGroupAssignmentStore_ListAssignmentsForGroup ::
    "string list \<Rightarrow> InMemoryAdapterGroupAssignmentStore \<Rightarrow> string \<Rightarrow> (AdapterGroupAssignment list) result" where
  "InMemoryAdapterGroupAssignmentStore_ListAssignmentsForGroup ks s groupID =
     Inr (filter (\<lambda>a. AGA_GroupID a = groupID) (range_values (imgas_assignments s) ks))"

definition InMemoryAdapterGroupAssignmentStore_HasAccess ::
    "InMemoryAdapterGroupAssignmentStore \<Rightarrow> string \<Rightarrow> string \<Rightarrow> bool result" where
  "InMemoryAdapterGroupAssignmentStore_HasAccess s adapterID groupID =
     (case imgas_assignments s (generateAssignmentID adapterID groupID) of
        None \<Rightarrow> Inr False
      | Some assignment \<Rightarrow> Inr (AGA_Permission assignment = ''read''))"

definition InMemoryAdapterGroupAssignmentStore_ops ::
    "InMemoryAdapterGroupAssignmentStore AdapterGroupAssignmentStore" where
  "InMemoryAdapterGroupAssignmentStore_ops =
     \<lparr>ags_CreateAssignment = InMemoryAdapterGroupAssignmentStore_CreateAssignment,
      ags_GetAssignment = InMemoryAdapterGroupAssignmentStore_GetAssignment,
      ags_UpdateAssignment = InMemoryAdapterGroupAssignmentStore_UpdateAssignment,
      ags_DeleteAssignment = InMemoryAdapterGroupAssignmentStore_DeleteAssignment,
      ags_ListAssignments = InMemoryAdapterGroupAssignmentStore_ListAssignments,
      ags_ListAssignmentsForAdapter = InMemoryAdapterGroupAssignmentStore_ListAssignmentsForAdapter,
      ags_ListAssignmentsForGroup = InMemoryAdapterGroupAssignmentStore_ListAssignmentsForGroup,
      ags_HasAccess = InMemoryAdapterGroupAssignmentStore_HasAccess\<rparr>"

type_synonym FileAdapterGroupAssignmentStore = "AdapterGroupAssignment file_store"

definition FileAdapterGroupAssignmentStore_loadFromFile ::
    "FileAdapterGroupAssignmentStore \<Rightarrow> FileAdapterGroupAssignmentStore \<times> error option" where
  "FileAdapterGroupAssignmentStore_loadFromFile = loadFromFile ''adapter group assignment'' assignment_key"

definition NewFileAdapterGroupAssignmentStore ::
    "string \<Rightarrow> string option \<Rightarrow> AdapterGroupAssignment disk \<Rightarrow> FileAdapterGroupAssignmentStore" where
  "NewFileAdapterGroupAssignmentStore = NewFileStore ''adapter group assignment'' assignment_key"

definition FileAdapterGroupAssignmentStore_saveToFile ::
    "string list \<Rightarrow> FileAdapterGroupAssignmentStore \<Rightarrow> FileAdapterGroupAssignmentStore \<times> error option" where
  "FileAdapterGroupAssignmentStore_saveToFile =
     saveToFile ''adapter group assignment '' ''adapter group assignment'' ''adapter group assignments'' (\<lambda>x. x)"

definition FileAdapterGroupAssignmentStore_CreateAssignment ::
    "env \<Rightarrow> AdapterGroupAssignment \<Rightarrow> FileAdapterGroupAssignmentStore \<Rightarrow> FileAdapterGroupAssignmentStore \<times> error option" where
  "FileAdapterGroupAssignmentStore_CreateAssignment e assignment s =
     (let k = generateAssignmentID (AGA_AdapterID assignment) (AGA_GroupID assignment) in
      if fs_entries s k \<noteq> None
      then (s, Some (''assignment for adapter '' @ AGA_AdapterID assignment @ '' and group '' @
                     AGA_GroupID assignment @ '' already exists''))
      else FileAdapterGroupAssignmentStore_saveToFile (env_order e)
          (s\<lparr>fs_entries := (fs_entries s)(k \<mapsto> assignment)\<rparr>))"

definition FileAdapterGroupAssignmentStore_GetAssignment ::
    "FileAdapterGroupAssignmentStore \<Rightarrow> string \<times> string \<Rightarrow> AdapterGroupAssignment result" where
  "FileAdapterGroupAssignmentStore_GetAssignment s = (\<lambda>(adapterID, groupID).
     case fs_entries s (generateAssignmentID adapterID groupID) of
       None \<Rightarrow> Inl (''assignment for adapter '' @ adapterID @ '' and group '' @ groupID @ '' not found'')
     | Some assignment \<Rightarrow> Inr assignment)"

definition FileAdapterGroupAssignmentStore_UpdateAssignment ::
    "env \<Rightarrow> AdapterGroupAssignment \<Rightarrow> FileAdapterGroupAssignmentStore \<Rightarrow> FileAdapterGroupAssignmentStore \<times> error option" where
  "FileAdapterGroupAssignmentStore_UpdateAssignment e assignment s =
     (let k = generateAssignmentID (AGA_AdapterID assignment) (AGA_GroupID assignment) in
      if fs_entries s k = None
      then (s, Some (''assignment for adapter '' @ AGA_AdapterID assignment @ '' and group '' @
                     AGA_GroupID assignment @ '' not found''))
      else FileAdapterGroupAssignmentStore_saveToFile (env_order e)
          (s\<lparr>fs_entries := (fs_entries s)(k \<mapsto> assignment)\<rparr>))"

definition FileAdapterGroupAssignmentStore_DeleteAssignment ::
    "env \<Rightarrow> string \<times> string \<Rightarrow> FileAdapterGroupAssignmentStore \<Rightarrow> FileAdapterGroupAssignmentStore \<times> error option" where
  "FileAdapterGroupAssignmentStore_DeleteAssignment e = (\<lambda>(adapterID, groupID) s.
     let k = generateAssignmentID adapterID groupID in
      if fs_entries s k = None
      then (s, Some (''assignment for adapter '' @ adapterID @ '' and group '' @ groupID @ '' not found''))
      else FileAdapterGroupAssignmentStore_saveToFile (env_order e)
          (s\<lparr>fs_entries := (fs_entries s)(k := None)\<rparr>))"

definition FileAdapterGroupAssignmentStore_ListAssignments ::
    "string list \<Rightarrow> FileAdapterGroupAssignmentStore \<Rightarrow> (AdapterGroupAssignment list) result" where
  "FileAdapterGroupAssignmentStore_ListAssignments ks s = Inr (range_values (fs_entries s) ks)"

definition FileAdapterGroupAssignmentStore_ListAssignmentsForAdapter ::
    "string list \<Rightarrow> FileAdapterGroupAssignmentStore \<Rightarrow> string \<Rightarrow> (AdapterGroupAssignment list) result" where
  "FileAdapterGroupAssignmentStore_ListAssignmentsForAdapter ks s adapterID =
     Inr (filter (\<lambda>a. AGA_AdapterID a = adapterID) (range_values (fs_entries s) ks))"

definition FileAdapterGroupAssignmentStore_ListAssignmentsForGroup ::
    "string list \<Rightarrow> FileAdapterGroupAssignmentStore \<Rightarrow> string \<Rightarrow> (AdapterGroupAssignment list) result" where
  "FileAdapterGroupAssignmentStore_ListAssignmentsForGroup ks s groupID =
     Inr (filter (\<lambda>a. AGA_GroupID a = groupID) (range_values (fs_entries s) ks))"

definition FileAdapterGroupAssignmentStore_HasAccess ::
    "FileAdapterGroupAssignmentStore \<Rightarrow> string \<Rightarrow> string \<Rightarrow> bool result" where
  "FileAdapterGroupAssignmentStore_HasAccess s adapterID groupID =
     (case fs_entries s (generateAssignmentID adapterID groupID) of
        None \<Rightarrow> Inr False
      | Some assignment \<Rightarrow> Inr (AGA_Permission assignment = ''read''))"

definition FileAdapterGroupAssignmentStore_ops ::
    "FileAdapterGroupAssignmentStore AdapterGroupAssignmentStore" where
  "FileAdapterGroupAssignmentStore_ops =
     \<lparr>ags_CreateAssignment = FileAdapterGroupAssignmentStore_CreateAssignment,
      ags_GetAssignment = FileAdapterGroupAssignmentStore_GetAssignment,
      ags_UpdateAssignment = FileAdapterGroupAssignmentStore_UpdateAssignment,
      ags_DeleteAssignment = FileAdapterGroupAssignmentStore_DeleteAssignment,
      ags_ListAssignments = FileAdapterGroupAssignmentStore_ListAssignments,
      ags_ListAssignmentsForAdapter = FileAdapterGroupAssignmentStore_ListAssignmentsForAdapter,
      ags_ListAssignmentsForGroup = FileAdapterGroupAssignmentStore_ListAssignmentsForGroup,
      ags_HasAccess = FileAdapterGroupAssignmentStore_HasAccess\<rparr>"

subsection \<open>Tokens of users for adapters\<close>

record InMemoryUserAdapterTokenStore =
  imuts_tokens :: "string \<rightharpoonup> UserAdapterToken"

definition NewInMemoryUserAdapterTokenStore :: InMemoryUserAdapterTokenStore where
  "NewInMemoryUserAdapterTokenStore = \<lparr>imuts_tokens = Map.empty\<rparr>"

definition InMemoryUserAdapterTokenStore_CreateToken ::
    "env \<Rightarrow> UserAdapterToken \<Rightarrow> InMemoryUserAdapterTokenStore \<Rightarrow> InMemoryUserAdapterTokenStore \<times> error option" where
  "InMemoryUserAdapterTokenStore_CreateToken e token s =
     (let k = makeKey (UAT_UserID token) (UAT_AdapterID token) in
      if imuts_tokens s k \<noteq> None
      then (s, Some (''token already exists for user '' @ UAT_UserID token @ '' and adapter '' @
                     UAT_AdapterID token))
      else (s\<lparr>imuts_tokens := (imuts_tokens s)(k \<mapsto> stamp_token e token)\<rparr>, None))"

definition InMemoryUserAdapterTokenStore_GetToken ::
    "gotime \<Rightarrow> InMemoryUserAdapterTokenStore \<Rightarrow> string \<times> string \<Rightarrow> UserAdapterToken result" where
  "InMemoryUserAdapterTokenStore_GetToken now s = (\<lambda>(userID, adapterID).
     case imuts_tokens s (makeKey userID adapterID) of
       None \<Rightarrow> Inl (''token not found for user '' @ userID @ '' and adapter '' @ adapterID)
     | Some token \<Rightarrow>
         if IsExpired now token
         then Inl (''token has expired for user '' @ userID @ '' and adapter '' @ adapterID)
         else Inr token)"

definition InMemoryUserAdapterTokenStore_GetTokenByValue ::
    "gotime \<Rightarrow> string list \<Rightarrow> InMemoryUserAdapterTokenStore \<Rightarrow> string \<Rightarrow> UserAdapterToken result" where
  "InMemoryUserAdapterTokenStore_GetTokenByValue now ks s tokenValue =
     (case find (\<lambda>t. UAT_Token t = tokenValue) (range_values (imuts_tokens s) ks) of
        None \<Rightarrow> Inl ''token not found''
      | Some token \<Rightarrow> if IsExpired now token then Inl ''token has expired'' else Inr token)"

definition InMemoryUserAdapterTokenStore_DeleteToken ::
    "env \<Rightarrow> string \<times> string \<Rightarrow> InMemoryUserAdapterTokenStore \<Rightarrow> InMemoryUserAdapterTokenStore \<times> error option" where
  "InMemoryUserAdapterTokenStore_DeleteToken e = (\<lambda>(userID, adapterID) s.
     let k = makeKey userID adapterID in
      if imuts_tokens s k = None
      then (s, Some (''token not found for user '' @ userID @ '' and adapter '' @ adapterID))
      else (s\<lparr>imuts_tokens := (imuts_tokens s)(k := None)\<rparr>, None))"

definition InMemoryUserAdapterTokenStore_ListUserTokens ::
    "string list \<Rightarrow> InMemoryUserAdapterTokenStore \<Rightarrow> string \<Rightarrow> (UserAdapterToken list) result" where
  "InMemoryUserAdapterTokenStore_ListUserTokens ks s userID =
     Inr (filter (\<lambda>t. UAT_UserID t = userID) (range_values (imuts_tokens s) ks))"

definition InMemoryUserAdapterTokenStore_ListAdapterTokens ::
    "string list \<Rightarrow> InMemoryUserAdapterTokenStore \<Rightarrow> string \<Rightarrow> (UserAdapterToken list) result" where
  "InMemoryUserAdapterTokenStore_ListAdapterTokens ks s adapterID =
     Inr (filter (\<lambda>t. UAT_AdapterID t = adapterID) (range_values (imuts_tokens s) ks))"

definition InMemoryUserAdapterTokenStore_UpdateToken ::
    "env \<Rightarrow> UserAdapterToken \<Rightarrow> InMemoryUserAdapterTokenStore \<Rightarrow> InMemoryUserAdapterTokenStore \<times> error option" where
  "InMemoryUserAdapterTokenStore_UpdateToken e token s =
     (let k = makeKey (UAT_UserID token) (UAT_AdapterID token) in
      if imuts_tokens s k = None
      then (s, Some (''token not found for user '' @ UAT_UserID token @ '' and adapter '' @
                     UAT_AdapterID token))
      else (s\<lparr>imuts_tokens := (imuts_tokens s)(k \<mapsto> token)\<rparr>, None))"

definition InMemoryUserAdapterTokenStore_ops :: "InMemoryUserAdapterTokenStore UserAdapterTokenStore" where
  "InMemoryUserAdapterTokenStore_ops =
     \<lparr>uts_CreateToken = InMemoryUserAdapterTokenStore_CreateToken,
      uts_GetToken = InMemoryUserAdapterTokenStore_GetToken,
      uts_GetTokenByValue = InMemoryUserAdapterTokenStore_GetTokenByValue,
      uts_DeleteToken = InMemoryUserAdapterTokenStore_DeleteToken,
      uts_ListUserTokens = InMemoryUserAdapterTokenStore_ListUserTokens,
      uts_ListAdapterTokens = InMemoryUserAdapterTokenStore_ListAdapterTokens,
      uts_UpdateToken = InMemoryUserAdapterTokenStore_UpdateToken\<rparr>"

type_synonym FileUserAdapterTokenStore = "UserAdapterToken file_store"

definition FileUserAdapterTokenStore_loadFromFile ::
    "FileUserAdapterTokenStore \<Rightarrow> FileUserAdapterTokenStore \<times> error option" where
  "FileUserAdapterTokenStore_loadFromFile = loadFromFile ''token'' token_key"

definition NewFileUserAdapterTokenStore :: "string \<Rightarrow> UserAdapterToken disk \<Rightarrow> FileUserAdapterTokenStore" where
  "NewFileUserAdapterTokenStore path = NewFileStore ''token'' token_key path None"

definition FileUserAdapterTokenStore_saveToFile ::
    "string list \<Rightarrow> FileUserAdapterTokenStore \<Rightarrow> FileUserAdapterTokenStore \<times> error option" where
  "FileUserAdapterTokenStore_saveToFile =
     saveToFile ''token '' ''token'' ''tokens'' (\<lambda>x. x)"

definition FileUserAdapterTokenStore_CreateToken ::
    "env \<Rightarrow> UserAdapterToken \<Rightarrow> FileUserAdapterTokenStore \<Rightarrow> FileUserAdapterTokenStore \<times> error option" where
  "FileUserAdapterTokenStore_CreateToken e token s =
     (let k = makeKey (UAT_UserID token) (UAT_AdapterID token) in
      if fs_entries s k \<noteq> None
      then (s, Some (''token already exists for user '' @ UAT_UserID token @ '' and adapter '' @
                     UAT_AdapterID token))
      else FileUserAdapterTokenStore_saveToFile (env_order e)
          (s\<lparr>fs_entries := (fs_entries s)(k \<mapsto> stamp_token e token)\<rparr>))"

definition FileUserAdapterTokenStore_GetToken ::
    "gotime \<Rightarrow> FileUserAdapterTokenStore \<Rightarrow> string \<times> string \<Rightarrow> UserAdapterToken result" where
  "FileUserAdapterTokenStore_GetToken now s = (\<lambda>(userID, adapterID).
     case fs_entries s (makeKey userID adapterID) of
       None \<Rightarrow> Inl (''token not found for user '' @ userID @ '' and adapter '' @ adapterID)
     | Some token \<Rightarrow>
         if IsExpired now token
         then Inl (''token has expired for user '' @ userID @ '' and adapter '' @ adapterID)
         else Inr token)"

definition FileUserAdapterTokenStore_GetTokenByValue ::
    "gotime \<Rightarrow> string list \<Rightarrow> FileUserAdapterTokenStore \<Rightarrow> string \<Rightarrow> UserAdapterToken result" where
  "FileUserAdapterTokenStore_GetTokenByValue now ks s tokenValue =
     (case find (\<lambda>t. UAT_Token t = tokenValue) (range_values (fs_entries s) ks) of
        None \<Rightarrow> Inl ''token not found''
      | Some token \<Rightarrow> if IsExpired now token then Inl ''token has expired'' else Inr token)"

definition FileUserAdapterTokenStore_DeleteToken ::
    "env \<Rightarrow> string \<times> string \<Rightarrow> FileUserAdapterTokenStore \<Rightarrow> FileUserAdapterTokenStore \<times> error option" where
  "FileUserAdapterTokenStore_DeleteToken e = (\<lambda>(userID, adapterID) s.
     let k = makeKey userID adapterID in
      if fs_entries s k = None
      then (s, Some (''token not found for user '' @ userID @ '' and adapter '' @ adapterID))
      else FileUserAdapterTokenStore_saveToFile (env_order e)
          (s\<lparr>fs_entries := (fs_entries s)(k := None)\<rparr>))"

definition FileUserAdapterTokenStore_ListUserTokens ::
    "string list \<Rightarrow> FileUserAdapterTokenStore \<Rightarrow> string \<Rightarrow> (UserAdapterToken list) result" where
  "FileUserAdapterTokenStore_ListUserTokens ks s userID =
     Inr (filter (\<lambda>t. UAT_UserID t = userID) (range_values (fs_entries s) ks))"

definition FileUserAdapterTokenStore_ListAdapterTokens ::
    "string list \<Rightarrow> FileUserAdapterTokenStore \<Rightarrow> string \<Rightarrow> (UserAdapterToken list) result" where
  "FileUserAdapterTokenStore_ListAdapterTokens ks s adapterID =
     Inr (filter (\<lambda>t. UAT_AdapterID t = adapterID) (range_values (fs_entries s) ks))"

definition FileUserAdapterTokenStore_UpdateToken ::
    "env \<Rightarrow> UserAdapterToken \<Rightarrow> FileUserAdapterTokenStore \<Rightarrow> FileUserAdapterTokenStore \<times> error option" where
  "FileUserAdapterTokenStore_UpdateToken e token s =
     (let k = makeKey (UAT_UserID token) (UAT_AdapterID token) in
      if fs_entries s k = None
      then (s, Some (''token not found for user '' @ UAT_UserID token @ '' and adapter '' @
                     UAT_AdapterID token))
      else FileUserAdapterTokenStore_saveToFile (env_order e)
          (s\<lparr>fs_entries := (fs_entries s)(k \<mapsto> token)\<rparr>))"

definition FileUserAdapterTokenStore_ops :: "FileUserAdapterTokenStore UserAdapterTokenStore" where
  "FileUserAdapterTokenStore_ops =
     \<lparr>uts_CreateToken = FileUserAdapterTokenStore_CreateToken,
      uts_GetToken = FileUserAdapterTokenStore_GetToken,
      uts_GetTokenByValue = FileUserAdapterTokenStore_GetTokenByValue,
      uts_DeleteToken = FileUserAdapterTokenStore_DeleteToken,
      uts_ListUserTokens = FileUserAdapterTokenStore_ListUserTokens,
      uts_ListAdapterTokens = FileUserAdapterTokenStore_ListAdapterTokens,
      uts_UpdateToken = FileUserAdapterTokenStore_UpdateToken\<rparr>"

subsection \<open>Servers of the registry\<close>

text \<open>\<open>CreateMCPServer\<close> writes an identifier into a server that has none (\<open>fresh\<close>, what
  \<open>generateID\<close> draws) and \<open>UpdateMCPServer\<close> the one it is given; both return the server as the
  caller then sees it through its pointer.\<close>

abbreviation ErrNotFound :: error where
  "ErrNotFound \<equiv> ''resource not found''"

record InMemoryMCPServerStore =
  imss_servers :: "string \<rightharpoonup> MCPServer"

definition NewInMemoryMCPServerStore :: InMemoryMCPServerStore where
  "NewInMemoryMCPServerStore = \<lparr>imss_servers = Map.empty\<rparr>"

definition InMemoryMCPServerStore_CreateMCPServer ::
    "env \<Rightarrow> string \<Rightarrow> MCPServer \<Rightarrow> InMemoryMCPServerStore \<Rightarrow> InMemoryMCPServerStore \<times> MCPServer \<times> error option" where
  "InMemoryMCPServerStore_CreateMCPServer e fresh server s =
     (let server' = (if Srv_ID server = [] then server\<lparr>Srv_ID := fresh\<rparr> else server)
      in (s\<lparr>imss_servers := (imss_servers s)(Srv_ID server' \<mapsto> server')\<rparr>, server', None))"

definition InMemoryMCPServerStore_GetMCPServer :: "InMemoryMCPServerStore \<Rightarrow> string \<Rightarrow> MCPServer result" where
  "InMemoryMCPServerStore_GetMCPServer s sid =
     (case imss_servers s sid of None \<Rightarrow> Inl ErrNotFound | Some server \<Rightarrow> Inr server)"

definition InMemoryMCPServerStore_UpdateMCPServer ::
    "env \<Rightarrow> string \<Rightarrow> MCPServer \<Rightarrow> InMemoryMCPServerStore \<Rightarrow> InMemoryMCPServerStore \<times> MCPServer \<times> error option" where
  "InMemoryMCPServerStore_UpdateMCPServer e sid updated s =
     (if imss_servers s sid = None then (s, updated, Some ErrNotFound)
      else let updated' = updated\<lparr>Srv_ID := sid\<rparr>
        in (s\<lparr>imss_servers := (imss_servers s)(sid \<mapsto> updated')\<rparr>, updated', None))"

definition InMemoryMCPServerStore_DeleteMCPServer ::
    "env \<Rightarrow> string \<Rightarrow> InMemoryMCPServerStore \<Rightarrow> InMemoryMCPServerStore \<times> error option" where
  "InMemoryMCPServerStore_DeleteMCPServer e sid s =
     (if imss_servers s sid = None then (s, Some ErrNotFound)
      else (s\<lparr>imss_servers := (imss_servers s)(sid := None)\<rparr>, None))"

definition InMemoryMCPServerStore_ListMCPServers :: "string list \<Rightarrow> InMemoryMCPServerStore \<Rightarrow> MCPServer list" where
  "InMemoryMCPServerStore_ListMCPServers ks s = range_values (imss_servers s) ks"

definition InMemoryMCPServerStore_ops :: "InMemoryMCPServerStore MCPServerStore" where
  "InMemoryMCPServerStore_ops =
     \<lparr>mss_CreateMCPServer = InMemoryMCPServerStore_CreateMCPServer,
      mss_GetMCPServer = InMemoryMCPServerStore_GetMCPServer,
      mss_UpdateMCPServer = InMemoryMCPServerStore_UpdateMCPServer,
      mss_DeleteMCPServer = InMemoryMCPServerStore_DeleteMCPServer,
      mss_ListMCPServers = InMemoryMCPServerStore_ListMCPServers\<rparr>"

type_synonym FileMCPServerStore = "MCPServer file_store"

definition FileMCPServerStore_loadFromFile ::
    "FileMCPServerStore \<Rightarrow> FileMCPServerStore \<times> error option" where
  "FileMCPServerStore_loadFromFile = loadFromFile ''MCP server'' Srv_ID"

definition NewFileMCPServerStore ::
    "string \<Rightarrow> string option \<Rightarrow> MCPServer disk \<Rightarrow> FileMCPServerStore" where
  "NewFileMCPServerStore = NewFileStore ''MCP server'' Srv_ID"

definition FileMCPServerStore_saveToFile ::
    "string list \<Rightarrow> FileMCPServerStore \<Rightarrow> FileMCPServerStore \<times> error option" where
  "FileMCPServerStore_saveToFile =
     saveToFile '''' ''MCP server'' ''servers'' (\<lambda>x. x)"

definition FileMCPServerStore_CreateMCPServer ::
    "env \<Rightarrow> string \<Rightarrow> MCPServer \<Rightarrow> FileMCPServerStore \<Rightarrow> FileMCPServerStore \<times> MCPServer \<times> error option" where
  "FileMCPServerStore_CreateMCPServer e fresh server s =
     (let server' = (if Srv_ID server = [] then server\<lparr>Srv_ID := fresh\<rparr> else server)
      in (case FileMCPServerStore_saveToFile (env_order e) (s\<lparr>fs_entries := (fs_entries s)(Srv_ID server' \<mapsto> server')\<rparr>) of
              (s', err) \<Rightarrow> (s', server', err)))"

definition FileMCPServerStore_GetMCPServer :: "FileMCPServerStore \<Rightarrow> string \<Rightarrow> MCPServer result" where
  "FileMCPServerStore_GetMCPServer s sid =
     (case fs_entries s sid of None \<Rightarrow> Inl ErrNotFound | Some server \<Rightarrow> Inr server)"

definition FileMCPServerStore_UpdateMCPServer ::
    "env \<Rightarrow> string \<Rightarrow> MCPServer \<Rightarrow> FileMCPServerStore \<Rightarrow> FileMCPServerStore \<times> MCPServer \<times> error option" where
  "FileMCPServerStore_UpdateMCPServer e sid updated s =
     (if fs_entries s sid = None then (s, updated, Some ErrNotFound)
      else let updated' = updated\<lparr>Srv_ID := sid\<rparr>
        in (case FileMCPServerStore_saveToFile (env_order e) (s\<lparr>fs_entries := (fs_entries s)(sid \<mapsto> updated')\<rparr>) of
              (s', err) \<Rightarrow> (s', updated', err)))"

definition FileMCPServerStore_DeleteMCPServer ::
    "env \<Rightarrow> string \<Rightarrow> FileMCPServerStore \<Rightarrow> FileMCPServerStore \<times> error option" where
  "FileMCPServerStore_DeleteMCPServer e sid s =
     (if fs_entries s sid = None then (s, Some ErrNotFound)
      else FileMCPServerStore_saveToFile (env_order e) (s\<lparr>fs_entries := (fs_entries s)(sid := None)\<rparr>))"

definition FileMCPServerStore_ListMCPServers :: "string list \<Rightarrow> FileMCPServerStore \<Rightarrow> MCPServer list" where
  "FileMCPServerStore_ListMCPServers ks s = range_values (fs_entries s) ks"

definition FileMCPServerStore_ops :: "FileMCPServerStore MCPServerStore" where
  "FileMCPServerStore_ops =
     \<lparr>mss_CreateMCPServer = FileMCPServerStore_CreateMCPServer,
      mss_GetMCPServer = FileMCPServerStore_GetMCPServer,
      mss_UpdateMCPServer = FileMCPServerStore_UpdateMCPServer,
      mss_DeleteMCPServer = FileMCPServerStore_DeleteMCPServer,
      mss_ListMCPServers = FileMCPServerStore_ListMCPServers\<rparr>"

subsection \<open>The stores satisfy their contracts\<close>

named_theorems adapter_store_defs

declare InMemoryAdapterStore_Create_def [adapter_store_defs]
  InMemoryAdapterStore_Get_def [adapter_store_defs]
  InMemoryAdapterStore_Update_def [adapter_store_defs]
  InMemoryAdapterStore_Delete_def [adapter_store_defs]
  FileAdapterStore_Create_def [adapter_store_defs]
  FileAdapterStore_Get_def [adapter_store_defs]
  FileAdapterStore_Update_def [adapter_store_defs]
  FileAdapterStore_Delete_def [adapter_store_defs]
  InMemoryAdapterGroupAssignmentStore_CreateAssignment_def [adapter_store_defs]
  InMemoryAdapterGroupAssignmentStore_GetAssignment_def [adapter_store_defs]
  InMemoryAdapterGroupAssignmentStore_UpdateAssignment_def [adapter_store_defs]
  InMemoryAdapterGroupAssignmentStore_DeleteAssignment_def [adapter_store_defs]
  FileAdapterGroupAssignmentStore_CreateAssignment_def [adapter_store_defs]
  FileAdapterGroupAssignmentStore_GetAssignment_def [adapter_store_defs]
  FileAdapterGroupAssignmentStore_UpdateAssignment_def [adapter_store_defs]
  FileAdapterGroupAssignmentStore_DeleteAssignment_def [adapter_store_defs]
  InMemoryUserAdapterTokenStore_CreateToken_def [adapter_store_defs]
  InMemoryUserAdapterTokenStore_GetToken_def [adapter_store_defs]
  InMemoryUserAdapterTokenStore_UpdateToken_def [adapter_store_defs]
  InMemoryUserAdapterTokenStore_DeleteToken_def [adapter_store_defs]
  FileUserAdapterTokenStore_CreateToken_def [adapter_store_defs]
  FileUserAdapterTokenStore_GetToken_def [adapter_store_defs]
  FileUserAdapterTokenStore_UpdateToken_def [adapter_store_defs]
  FileUserAdapterTokenStore_DeleteToken_def [adapter_store_defs]
  FileAdapterStore_saveToFile_def [adapter_store_defs]
  FileAdapterGroupAssignmentStore_saveToFile_def [adapter_store_defs]
  FileUserAdapterTokenStore_saveToFile_def [adapter_store_defs]

text \<open>Beyond the keyed store: what the listings and the access test read.\<close>

locale adapter_store = keyed_store create update delete contents AR_ID "\<lambda>i. i" "\<lambda>e a. a" "\<lambda>e a. a"
    get "\<lambda>i. i"
  for create :: "env \<Rightarrow> AdapterResource \<Rightarrow> 's \<Rightarrow> 's \<times> error option"
    and update :: "env \<Rightarrow> AdapterResource \<Rightarrow> 's \<Rightarrow> 's \<times> error option"
    and delete :: "env \<Rightarrow> string \<Rightarrow> 's \<Rightarrow> 's \<times> error option"
    and contents :: "'s \<Rightarrow> (string \<rightharpoonup> AdapterResource)"
    and get :: "'s \<Rightarrow> string \<Rightarrow> AdapterResource result" +
  fixes list_own :: "string list \<Rightarrow> 's \<Rightarrow> string \<Rightarrow> (AdapterResource list) result"
    and list_all :: "string list \<Rightarrow> 's \<Rightarrow> (AdapterResource list) result"
  assumes list_own_eq: "list_own ks s u =
      Inr (filter (\<lambda>a. AR_CreatedBy a = u) (range_values (contents s) ks))"
    and list_all_eq: "list_all ks s = Inr (range_values (contents s) ks)"

locale assignment_store = keyed_store create update delete contents assignment_key
    "\<lambda>(a, g). generateAssignmentID a g" "\<lambda>e a. a" "\<lambda>e a. a" get "\<lambda>(a, g). generateAssignmentID a g"
  for create :: "env \<Rightarrow> AdapterGroupAssignment \<Rightarrow> 's \<Rightarrow> 's \<times> error option"
    and update :: "env \<Rightarrow> AdapterGroupAssignment \<Rightarrow> 's \<Rightarrow> 's \<times> error option"
    and delete :: "env \<Rightarrow> string \<times> string \<Rightarrow> 's \<Rightarrow> 's \<times> error option"
    and contents :: "'s \<Rightarrow> (string \<rightharpoonup> AdapterGroupAssignment)"
    and get :: "'s \<Rightarrow> string \<times> string \<Rightarrow> AdapterGroupAssignment result" +
  fixes list_for_adapter :: "string list \<Rightarrow> 's \<Rightarrow> string \<Rightarrow> (AdapterGroupAssignment list) result"
    and list_for_group :: "string list \<Rightarrow> 's \<Rightarrow> string \<Rightarrow> (AdapterGroupAssignment list) result"
    and has_access :: "'s \<Rightarrow> string \<Rightarrow> string \<Rightarrow> bool result"
  assumes list_for_adapter_eq: "list_for_adapter ks s a =
      Inr (filter (\<lambda>x. AGA_AdapterID x = a) (range_values (contents s) ks))"
    and list_for_group_eq: "list_for_group ks s g =
      Inr (filter (\<lambda>x. AGA_GroupID x = g) (range_values (contents s) ks))"
    and has_access_eq: "has_access s a g =
      Inr (\<exists>x. contents s (generateAssignmentID a g) = Some x \<and> AGA_Permission x = ''read'')"
begin

text \<open>An assignment to read grants access to the adapter and group it names.\<close>

lemma assigned_has_access:
  assumes "keys_ok s" and "x \<in> ran (contents s)" and "AGA_Permission x = ''read''"
  shows "has_access s (AGA_AdapterID x) (AGA_GroupID x) = Inr True"
proof -
  from assms(2) obtain k where k: "contents s k = Some x" by (auto simp: ran_def)
  then have "assignment_key x = k" using assms(1) by (simp add: keys_okD)
  with k assms(3) show ?thesis by (auto simp: has_access_eq assignment_key_def)
qed

text \<open>The converse needs adapter names without a colon, so that the two names can be told apart.\<close>

lemma has_access_iff:
  assumes "keys_ok s" and "CHR '':'' \<notin> set a" and "\<And>x. x \<in> ran (contents s) \<Longrightarrow> CHR '':'' \<notin> set (AGA_AdapterID x)"
  shows "has_access s a g = Inr True \<longleftrightarrow>
    (\<exists>x\<in>ran (contents s). AGA_AdapterID x = a \<and> AGA_GroupID x = g \<and> AGA_Permission x = ''read'')"
proof
  assume "has_access s a g = Inr True"
  then obtain x where x: "contents s (generateAssignmentID a g) = Some x" "AGA_Permission x = ''read''"
    by (auto simp: has_access_eq)
  then have ran: "x \<in> ran (contents s)" by (auto simp: ran_def)
  from x(1) assms(1) have "assignment_key x = generateAssignmentID a g" by (simp add: keys_okD)
  then have "AGA_AdapterID x = a \<and> AGA_GroupID x = g"
    using separator_inj [OF assms(3) [OF ran] assms(2)] by (simp add: assignment_key_def generateAssignmentID_def)
  with x ran show "\<exists>x\<in>ran (contents s). AGA_AdapterID x = a \<and> AGA_GroupID x = g \<and> AGA_Permission x = ''read''"
    by blast
qed (use assigned_has_access [OF assms(1)] in blast)

end

text \<open>In memory an operation fails only on its own precondition.\<close>

locale reliable_adapter_store = adapter_store +
  reliable_map create update delete contents AR_ID "\<lambda>i. i" "\<lambda>e a. a" "\<lambda>e a. a"

locale reliable_assignment_store = assignment_store +
  reliable_map create update delete contents assignment_key "\<lambda>(a, g). generateAssignmentID a g"
    "\<lambda>e a. a" "\<lambda>e a. a"

interpretation mem_adapters: reliable_adapter_store
  InMemoryAdapterStore_Create InMemoryAdapterStore_Update InMemoryAdapterStore_Delete imas_adapters InMemoryAdapterStore_Get
  InMemoryAdapterStore_List InMemoryAdapterStore_ListAll
  by unfold_locales (auto simp: adapter_store_defs InMemoryAdapterStore_List_def InMemoryAdapterStore_ListAll_def)

interpretation file_adapters: adapter_store
  FileAdapterStore_Create FileAdapterStore_Update FileAdapterStore_Delete fs_entries FileAdapterStore_Get
  FileAdapterStore_List FileAdapterStore_ListAll
  by unfold_locales (auto simp: adapter_store_defs FileAdapterStore_List_def FileAdapterStore_ListAll_def)

interpretation mem_assignments: reliable_assignment_store
  InMemoryAdapterGroupAssignmentStore_CreateAssignment InMemoryAdapterGroupAssignmentStore_UpdateAssignment
  InMemoryAdapterGroupAssignmentStore_DeleteAssignment imgas_assignments InMemoryAdapterGroupAssignmentStore_GetAssignment
  InMemoryAdapterGroupAssignmentStore_ListAssignmentsForAdapter InMemoryAdapterGroupAssignmentStore_ListAssignmentsForGroup
  InMemoryAdapterGroupAssignmentStore_HasAccess
  by unfold_locales (auto simp: adapter_store_defs assignment_key_def Let_def
      InMemoryAdapterGroupAssignmentStore_ListAssignmentsForAdapter_def
      InMemoryAdapterGroupAssignmentStore_ListAssignmentsForGroup_def
      InMemoryAdapterGroupAssignmentStore_HasAccess_def split: prod.splits option.splits)

interpretation file_assignments: assignment_store
  FileAdapterGroupAssignmentStore_CreateAssignment FileAdapterGroupAssignmentStore_UpdateAssignment
  FileAdapterGroupAssignmentStore_DeleteAssignment fs_entries FileAdapterGroupAssignmentStore_GetAssignment
  FileAdapterGroupAssignmentStore_ListAssignmentsForAdapter FileAdapterGroupAssignmentStore_ListAssignmentsForGroup
  FileAdapterGroupAssignmentStore_HasAccess
  by unfold_locales (auto simp: adapter_store_defs assignment_key_def Let_def
      FileAdapterGroupAssignmentStore_ListAssignmentsForAdapter_def
      FileAdapterGroupAssignmentStore_ListAssignmentsForGroup_def
      FileAdapterGroupAssignmentStore_HasAccess_def split: prod.splits option.splits)

text \<open>A token store is a keyed map; its lookup hides a token whose time is over.\<close>

locale token_store = keyed_map create update delete contents token_key "\<lambda>(u, a). makeKey u a"
    stamp_token "\<lambda>e t. t"
  for create :: "env \<Rightarrow> UserAdapterToken \<Rightarrow> 's \<Rightarrow> 's \<times> error option"
    and update :: "env \<Rightarrow> UserAdapterToken \<Rightarrow> 's \<Rightarrow> 's \<times> error option"
    and delete :: "env \<Rightarrow> string \<times> string \<Rightarrow> 's \<Rightarrow> 's \<times> error option"
    and contents :: "'s \<Rightarrow> (string \<rightharpoonup> UserAdapterToken)" +
  fixes get_token :: "gotime \<Rightarrow> 's \<Rightarrow> string \<times> string \<Rightarrow> UserAdapterToken result"
    and by_value :: "gotime \<Rightarrow> string list \<Rightarrow> 's \<Rightarrow> string \<Rightarrow> UserAdapterToken result"
  assumes get_token_iff: "get_token now s (u, a) = Inr t \<longleftrightarrow>
      contents s (makeKey u a) = Some t \<and> \<not> IsExpired now t"
    and by_value_found: "by_value now ks s v = Inr t \<Longrightarrow>
      t \<in> ran (contents s) \<and> UAT_Token t = v \<and> \<not> IsExpired now t"
    and by_value_unique: "range_order (contents s) ks \<Longrightarrow> t \<in> ran (contents s) \<Longrightarrow> UAT_Token t = v \<Longrightarrow>
      (\<And>t'. t' \<in> ran (contents s) \<Longrightarrow> UAT_Token t' = v \<Longrightarrow> t' = t) \<Longrightarrow>
      \<not> IsExpired now t \<Longrightarrow> by_value now ks s v = Inr t"
begin

text \<open>A token is found by its value exactly when it is the live token of that value.\<close>

lemma by_value_iff:
  assumes "range_order (contents s) ks"
    and "\<And>t t'. t \<in> ran (contents s) \<Longrightarrow> t' \<in> ran (contents s) \<Longrightarrow> UAT_Token t = UAT_Token t' \<Longrightarrow> t = t'"
  shows "by_value now ks s v = Inr t \<longleftrightarrow>
    t \<in> ran (contents s) \<and> UAT_Token t = v \<and> \<not> IsExpired now t"
proof
  assume "t \<in> ran (contents s) \<and> UAT_Token t = v \<and> \<not> IsExpired now t"
  with assms show "by_value now ks s v = Inr t" by (intro by_value_unique) auto
qed (rule by_value_found)

lemma get_token_mono: "get_token now s (u, a) = Inr t \<Longrightarrow> now' \<le> now \<Longrightarrow> get_token now' s (u, a) = Inr t"
  by (auto simp: get_token_iff IsExpired_def split: option.splits)

end

interpretation mem_tokens: token_store
  InMemoryUserAdapterTokenStore_CreateToken InMemoryUserAdapterTokenStore_UpdateToken
  InMemoryUserAdapterTokenStore_DeleteToken imuts_tokens
  InMemoryUserAdapterTokenStore_GetToken InMemoryUserAdapterTokenStore_GetTokenByValue
proof unfold_locales
  fix now ks v t and s :: InMemoryUserAdapterTokenStore
  show "InMemoryUserAdapterTokenStore_GetTokenByValue now ks s v = Inr t \<Longrightarrow>
    t \<in> ran (imuts_tokens s) \<and> UAT_Token t = v \<and> \<not> IsExpired now t"
    by (auto simp: InMemoryUserAdapterTokenStore_GetTokenByValue_def split: option.splits if_splits
        dest!: find_range_valuesD)
next
  fix now ks v t and s :: InMemoryUserAdapterTokenStore
  assume t: "range_order (imuts_tokens s) ks" "t \<in> ran (imuts_tokens s)" "UAT_Token t = v"
    "\<And>t'. t' \<in> ran (imuts_tokens s) \<Longrightarrow> UAT_Token t' = v \<Longrightarrow> t' = t"
    and live: "\<not> IsExpired now t"
  from t have "find (\<lambda>t. UAT_Token t = v) (range_values (imuts_tokens s) ks) = Some t"
    by (rule find_range_values_unique)
  with live show "InMemoryUserAdapterTokenStore_GetTokenByValue now ks s v = Inr t"
    by (simp add: InMemoryUserAdapterTokenStore_GetTokenByValue_def)
qed (auto simp: adapter_store_defs token_key_def stamp_token_def Let_def split: prod.splits option.splits)

interpretation file_tokens: token_store
  FileUserAdapterTokenStore_CreateToken FileUserAdapterTokenStore_UpdateToken
  FileUserAdapterTokenStore_DeleteToken fs_entries
  FileUserAdapterTokenStore_GetToken FileUserAdapterTokenStore_GetTokenByValue
proof unfold_locales
  fix now ks v t and s :: FileUserAdapterTokenStore
  show "FileUserAdapterTokenStore_GetTokenByValue now ks s v = Inr t \<Longrightarrow>
    t \<in> ran (fs_entries s) \<and> UAT_Token t = v \<and> \<not> IsExpired now t"
    by (auto simp: FileUserAdapterTokenStore_GetTokenByValue_def split: option.splits if_splits
        dest!: find_range_valuesD)
next
  fix now ks v t and s :: FileUserAdapterTokenStore
  assume t: "range_order (fs_entries s) ks" "t \<in> ran (fs_entries s)" "UAT_Token t = v"
    "\<And>t'. t' \<in> ran (fs_entries s) \<Longrightarrow> UAT_Token t' = v \<Longrightarrow> t' = t"
    and live: "\<not> IsExpired now t"
  from t have "find (\<lambda>t. UAT_Token t = v) (range_values (fs_entries s) ks) = Some t"
    by (rule find_range_values_unique)
  with live show "FileUserAdapterTokenStore_GetTokenByValue now ks s v = Inr t"
    by (simp add: FileUserAdapterTokenStore_GetTokenByValue_def)
qed (auto simp: adapter_store_defs token_key_def stamp_token_def Let_def split: prod.splits option.splits)

subsection \<open>Properties\<close>

definition ex_assignment :: "string \<Rightarrow> string \<Rightarrow> string \<Rightarrow> AdapterGroupAssignment" where
  "ex_assignment a g p = \<lparr>AGA_ID = [], AGA_AdapterID = a, AGA_GroupID = g, AGA_Permission = p,
     AGA_CreatedAt = 0, AGA_UpdatedAt = 0, AGA_CreatedBy = ''system''\<rparr>"

definition ex_assign_env :: env where
  "ex_assign_env = \<lparr>env_now = 7, env_now' = 8, env_order = []\<rparr>"

text \<open>Access to an adapter through a group. In a store whose entries are filed under their own
  key, and as long as adapter names have no colon, \<open>HasAccess\<close> says yes exactly when the store
  holds an assignment of this adapter to this group with permission \<open>read\<close>.\<close>

theorem HasAccess_exact:
  assumes "\<And>k x. fs_entries s k = Some x \<Longrightarrow> assignment_key x = k"
    and "CHR '':'' \<notin> set adapterID"
    and "\<And>x. x \<in> ran (fs_entries s) \<Longrightarrow> CHR '':'' \<notin> set (AGA_AdapterID x)"
  shows "FileAdapterGroupAssignmentStore_HasAccess s adapterID groupID = Inr True \<longleftrightarrow>
    (\<exists>x\<in>ran (fs_entries s). AGA_AdapterID x = adapterID \<and> AGA_GroupID x = groupID \<and>
       AGA_Permission x = ''read'')"
  by (rule file_assignments.has_access_iff)
    (use assms in \<open>auto simp: file_assignments.keys_ok_def\<close>)

definition ex_assignment_file :: FileAdapterGroupAssignmentStore where
  "ex_assignment_file = \<lparr>fs_filePath = ''a.json'',
     fs_entries = [''w:ops'' \<mapsto> ex_assignment ''w'' ''ops'' ''read''], fs_crypto = None,
     fs_disk = healthy_disk\<rparr>"

theorem HasAccess_exact_witness:
  "FileAdapterGroupAssignmentStore_HasAccess ex_assignment_file ''w'' ''ops'' = Inr True \<and>
   FileAdapterGroupAssignmentStore_HasAccess ex_assignment_file ''w'' ''dev'' \<noteq> Inr True"
proof -
  have "fs_entries ex_assignment_file k = Some x \<Longrightarrow> assignment_key x = k" for k x
    by (auto simp: ex_assignment_file_def ex_assignment_def assignment_key_def
        generateAssignmentID_def split: if_splits)
  moreover have "x \<in> ran (fs_entries ex_assignment_file) \<Longrightarrow> CHR '':'' \<notin> set (AGA_AdapterID x)" for x
    by (auto simp: ex_assignment_file_def ex_assignment_def ran_def split: if_splits)
  ultimately show ?thesis
    using HasAccess_exact [of ex_assignment_file "''w''" "''ops''"]
      HasAccess_exact [of ex_assignment_file "''w''" "''dev''"]
    by (auto simp: ex_assignment_file_def ex_assignment_def)
qed

text \<open>With a colon in a name two pairs of adapter and group share a key: once adapter \<open>a\<close> is
  assigned to group \<open>b:c\<close>, group \<open>c\<close> has access to adapter \<open>a:b\<close>, which nobody assigned to it,
  and the assignment that would grant this is refused as a duplicate.\<close>

theorem assignment_keys_collide:
  "let s = fst (InMemoryAdapterGroupAssignmentStore_CreateAssignment ex_assign_env
             (ex_assignment ''a'' ''b:c'' ''read'') NewInMemoryAdapterGroupAssignmentStore)
   in InMemoryAdapterGroupAssignmentStore_HasAccess s ''a:b'' ''c'' = Inr True \<and>
      InMemoryAdapterGroupAssignmentStore_ListAssignmentsForGroup [''a:b:c''] s ''c'' = Inr [] \<and>
      snd (InMemoryAdapterGroupAssignmentStore_CreateAssignment ex_assign_env
             (ex_assignment ''a:b'' ''c'' ''read'') s) =
        Some ''assignment for adapter a:b and group c already exists''"
  by (simp add: Let_def adapter_store_defs generateAssignmentID_def ex_assignment_def
      NewInMemoryAdapterGroupAssignmentStore_def InMemoryAdapterGroupAssignmentStore_HasAccess_def
      InMemoryAdapterGroupAssignmentStore_ListAssignmentsForGroup_def range_values_def
      List.map_filter_def)

text \<open>The life of a token in memory. Once created, it is returned for its user and adapter at
  every time until its expiry and at no time after, with the time of its creation; the other pairs
  see no change; a second creation for the pair is refused, even when the first token has
  expired.\<close>

theorem token_life:
  assumes created: "InMemoryUserAdapterTokenStore_CreateToken e t s = (s', None)"
  shows "(\<forall>now. is_ok (InMemoryUserAdapterTokenStore_GetToken now s' (UAT_UserID t, UAT_AdapterID t)) \<longleftrightarrow>
          \<not> IsExpired now t) \<and>
    (\<forall>now x. InMemoryUserAdapterTokenStore_GetToken now s' (UAT_UserID t, UAT_AdapterID t) = Inr x \<longrightarrow>
          x = t\<lparr>UAT_CreatedAt := env_now e\<rparr>) \<and>
    (\<forall>now u a. makeKey u a \<noteq> token_key t \<longrightarrow>
          InMemoryUserAdapterTokenStore_GetToken now s' (u, a) =
          InMemoryUserAdapterTokenStore_GetToken now s (u, a)) \<and>
    snd (InMemoryUserAdapterTokenStore_CreateToken e' t s') \<noteq> None"
proof -
  let ?t = "t\<lparr>UAT_CreatedAt := env_now e\<rparr>"
  have exp: "IsExpired now ?t = IsExpired now t" for now by (simp add: IsExpired_def)
  have s': "imuts_tokens s' = (imuts_tokens s)(token_key t \<mapsto> ?t)"
    using created by (auto simp: adapter_store_defs Let_def token_key_def stamp_token_def split: if_splits)
  have key: "makeKey (UAT_UserID t) (UAT_AdapterID t) = token_key t" by (simp add: token_key_def)
  have get: "InMemoryUserAdapterTokenStore_GetToken now s' (UAT_UserID t, UAT_AdapterID t) = Inr x \<longleftrightarrow>
      x = ?t \<and> \<not> IsExpired now t" for now x
    by (auto simp: mem_tokens.get_token_iff key s' exp)
  have "snd (InMemoryUserAdapterTokenStore_CreateToken e' t s') \<noteq> None"
    by (rule mem_tokens.create_dup) (simp add: s')
  moreover have "InMemoryUserAdapterTokenStore_GetToken now s' (u, a) =
      InMemoryUserAdapterTokenStore_GetToken now s (u, a)" if "makeKey u a \<noteq> token_key t" for now u a
    using that by (simp add: InMemoryUserAdapterTokenStore_GetToken_def s')
  ultimately show ?thesis by (auto simp: is_ok_iff get)
qed

definition ex_token :: UserAdapterToken where
  "ex_token = \<lparr>UAT_UserID = ''ann'', UAT_AdapterID = ''w'', UAT_Token = ''uat-1'', UAT_CreatedAt = 0,
     UAT_ExpiresAt = Some 100, UAT_LastUsedAt = None\<rparr>"

theorem token_life_witness:
  "let s' = fst (InMemoryUserAdapterTokenStore_CreateToken ex_assign_env ex_token NewInMemoryUserAdapterTokenStore)
   in is_ok (InMemoryUserAdapterTokenStore_GetToken 100 s' (''ann'', ''w'')) \<and>
      \<not> is_ok (InMemoryUserAdapterTokenStore_GetToken 101 s' (''ann'', ''w''))"
proof -
  have "InMemoryUserAdapterTokenStore_CreateToken ex_assign_env ex_token NewInMemoryUserAdapterTokenStore =
    (fst (InMemoryUserAdapterTokenStore_CreateToken ex_assign_env ex_token NewInMemoryUserAdapterTokenStore), None)"
    by (simp add: adapter_store_defs Let_def NewInMemoryUserAdapterTokenStore_def)
  from token_life [OF this] show ?thesis by (simp add: Let_def ex_token_def IsExpired_def)
qed

end
