(* ===== verification/UserGroupService.thy ===== *)
theory UserGroupService
  imports UserGroupStore
begin

section \<open>The user and group service\<close>

text \<open>
  \<open>pkg/services/user_group.go\<close>. The service holds two stores behind their interfaces: \<open>U\<close> and
  \<open>G\<close> are the operations of the implementations it was given, the record \<open>UserGroupService\<close>
  their states. \<open>es i\<close> is what the runtime gives to the \<open>i\<close>-th call of a method that changes a
  store.
\<close>

record ('us, 'gs) UserGroupService =
  ugs_userStore :: 'us
  ugs_groupStore :: 'gs

definition NewUserGroupService :: "'us \<Rightarrow> 'gs \<Rightarrow> ('us, 'gs) UserGroupService" where
  "NewUserGroupService userStore groupStore =
     \<lparr>ugs_userStore = userStore, ugs_groupStore = groupStore\<rparr>"

abbreviation set_users :: "('us, 'gs) UserGroupService \<Rightarrow> 'us \<times> error option \<Rightarrow>
    ('us, 'gs) UserGroupService \<times> error option" where
  "set_users st r \<equiv> (st\<lparr>ugs_userStore := fst r\<rparr>, snd r)"

abbreviation set_groups :: "('us, 'gs) UserGroupService \<Rightarrow> 'gs \<times> error option \<Rightarrow>
    ('us, 'gs) UserGroupService \<times> error option" where
  "set_groups st r \<equiv> (st\<lparr>ugs_groupStore := fst r\<rparr>, snd r)"

subsection \<open>Users and groups\<close>

definition CreateUser :: "'us UserStore \<Rightarrow> env \<Rightarrow> User \<Rightarrow> ('us, 'gs) UserGroupService \<Rightarrow>
    ('us, 'gs) UserGroupService \<times> error option" where
  "CreateUser U e user st = set_users st (us_Create U e user (ugs_userStore st))"

definition GetUser :: "'us UserStore \<Rightarrow> ('us, 'gs) UserGroupService \<Rightarrow> string \<Rightarrow> User result" where
  "GetUser U st uid = us_Get U (ugs_userStore st) uid"

definition ListUsers :: "'us UserStore \<Rightarrow> string list \<Rightarrow> ('us, 'gs) UserGroupService \<Rightarrow>
    (User list) result" where
  "ListUsers U ks st = us_List U ks (ugs_userStore st)"

definition UpdateUser :: "'us UserStore \<Rightarrow> env \<Rightarrow> User \<Rightarrow> ('us, 'gs) UserGroupService \<Rightarrow>
    ('us, 'gs) UserGroupService \<times> error option" where
  "UpdateUser U e user st = set_users st (us_Update U e user (ugs_userStore st))"

definition DeleteUser :: "'us UserStore \<Rightarrow> env \<Rightarrow> string \<Rightarrow> ('us, 'gs) UserGroupService \<Rightarrow>
    ('us, 'gs) UserGroupService \<times> error option" where
  "DeleteUser U e uid st =
     (case us_Get U (ugs_userStore st) uid of
        Inl err \<Rightarrow> (st, Some err)
      | Inr user \<Rightarrow> set_users st (us_Delete U e user (ugs_userStore st)))"

definition GetUserByEmail :: "'us UserStore \<Rightarrow> string list \<Rightarrow> ('us, 'gs) UserGroupService \<Rightarrow>
    string \<Rightarrow> User result" where
  "GetUserByEmail U ks st email = us_GetByEmail U ks (ugs_userStore st) email"

definition CreateGroup :: "'gs GroupStore \<Rightarrow> env \<Rightarrow> Group \<Rightarrow> ('us, 'gs) UserGroupService \<Rightarrow>
    ('us, 'gs) UserGroupService \<times> error option" where
  "CreateGroup G e grp st = set_groups st (gs_Create G e grp (ugs_groupStore st))"

definition GetGroup :: "'gs GroupStore \<Rightarrow> ('us, 'gs) UserGroupService \<Rightarrow> string \<Rightarrow> Group result" where
  "GetGroup G st gid = gs_Get G (ugs_groupStore st) gid"

definition ListGroups :: "'gs GroupStore \<Rightarrow> string list \<Rightarrow> ('us, 'gs) UserGroupService \<Rightarrow>
    (Group list) result" where
  "ListGroups G ks st = gs_List G ks (ugs_groupStore st)"

definition UpdateGroup :: "'gs GroupStore \<Rightarrow> env \<Rightarrow> Group \<Rightarrow> ('us, 'gs) UserGroupService \<Rightarrow>
    ('us, 'gs) UserGroupService \<times> error option" where
  "UpdateGroup G e grp st = set_groups st (gs_Update G e grp (ugs_groupStore st))"

definition DeleteGroup :: "'gs GroupStore \<Rightarrow> env \<Rightarrow> string \<Rightarrow> ('us, 'gs) UserGroupService \<Rightarrow>
    ('us, 'gs) UserGroupService \<times> error option" where
  "DeleteGroup G e gid st = set_groups st (gs_Delete G e gid (ugs_groupStore st))"

definition ValidateUserID :: "'us UserStore \<Rightarrow> ('us, 'gs) UserGroupService \<Rightarrow> string \<Rightarrow> error option" where
  "ValidateUserID U st uid =
     (case us_Get U (ugs_userStore st) uid of Inl err \<Rightarrow> Some err | Inr _ \<Rightarrow> None)"

definition ValidateGroupID :: "'gs GroupStore \<Rightarrow> ('us, 'gs) UserGroupService \<Rightarrow> string \<Rightarrow> error option" where
  "ValidateGroupID G st gid =
     (case gs_Get G (ugs_groupStore st) gid of Inl err \<Rightarrow> Some err | Inr _ \<Rightarrow> None)"

subsection \<open>Membership\<close>

text \<open>Both directions of a membership are stored: in the group's members and in the user's groups.
  The code writes the group first and takes it back when the user cannot be written.\<close>

definition AddUserToGroup :: "'us UserStore \<Rightarrow> 'gs GroupStore \<Rightarrow> (nat \<Rightarrow> env) \<Rightarrow> string \<Rightarrow> string \<Rightarrow>
    ('us, 'gs) UserGroupService \<Rightarrow> ('us, 'gs) UserGroupService \<times> error option" where
  "AddUserToGroup U G es groupID userID st =
     (case gs_AddMember G (es 0) groupID userID (ugs_groupStore st) of
        (gs1, Some err) \<Rightarrow> (st\<lparr>ugs_groupStore := gs1\<rparr>, Some err)
      | (gs1, None) \<Rightarrow>
          (let st1 = st\<lparr>ugs_groupStore := gs1\<rparr> in
           case us_Get U (ugs_userStore st1) userID of
             Inl err \<Rightarrow>
               (st1\<lparr>ugs_groupStore := fst (gs_RemoveMember G (es 1) groupID userID gs1)\<rparr>,
                Some (''failed to get user for group update: '' @ err))
           | Inr user \<Rightarrow>
               if groupID \<in> set (User_Groups user) then (st1, None)
               else
                 (case us_Update U (es 1) (user\<lparr>User_Groups := User_Groups user @ [groupID]\<rparr>)
                         (ugs_userStore st1) of
                    (us1, Some err) \<Rightarrow>
                      (st1\<lparr>ugs_userStore := us1,
                           ugs_groupStore := fst (gs_RemoveMember G (es 2) groupID userID gs1)\<rparr>,
                       Some (''failed to update user groups: '' @ err))
                  | (us1, None) \<Rightarrow> (st1\<lparr>ugs_userStore := us1\<rparr>, None))))"

definition RemoveUserFromGroup :: "'us UserStore \<Rightarrow> 'gs GroupStore \<Rightarrow> (nat \<Rightarrow> env) \<Rightarrow> string \<Rightarrow> string \<Rightarrow>
    ('us, 'gs) UserGroupService \<Rightarrow> ('us, 'gs) UserGroupService \<times> error option" where
  "RemoveUserFromGroup U G es groupID userID st =
     (case gs_RemoveMember G (es 0) groupID userID (ugs_groupStore st) of
        (gs1, Some err) \<Rightarrow> (st\<lparr>ugs_groupStore := gs1\<rparr>, Some err)
      | (gs1, None) \<Rightarrow>
          (let st1 = st\<lparr>ugs_groupStore := gs1\<rparr> in
           case us_Get U (ugs_userStore st1) userID of
             Inl err \<Rightarrow> (st1, None)
           | Inr user \<Rightarrow>
               if groupID \<in> set (User_Groups user)
               then
                 (case us_Update U (es 1) (user\<lparr>User_Groups := remove1 groupID (User_Groups user)\<rparr>)
                         (ugs_userStore st1) of
                    (us1, Some err) \<Rightarrow>
                      (st1\<lparr>ugs_userStore := us1\<rparr>, Some (''failed to update user groups: '' @ err))
                  | (us1, None) \<Rightarrow> (st1\<lparr>ugs_userStore := us1\<rparr>, None))
               else (st1, None)))"

text \<open>The loops of the two listings skip what they cannot find.\<close>

definition GetUserGroups :: "'us UserStore \<Rightarrow> 'gs GroupStore \<Rightarrow> ('us, 'gs) UserGroupService \<Rightarrow>
    string \<Rightarrow> (Group list) result" where
  "GetUserGroups U G st userID =
     (case us_Get U (ugs_userStore st) userID of
        Inl err \<Rightarrow> Inl (''failed to get user: '' @ err)
      | Inr user \<Rightarrow>
          Inr (List.map_filter (\<lambda>groupID. case gs_Get G (ugs_groupStore st) groupID of
                 Inl _ \<Rightarrow> None | Inr grp \<Rightarrow> Some grp) (User_Groups user)))"

definition GetGroupMembers :: "'us UserStore \<Rightarrow> 'gs GroupStore \<Rightarrow> ('us, 'gs) UserGroupService \<Rightarrow>
    string \<Rightarrow> (User list) result" where
  "GetGroupMembers U G st groupID =
     (case gs_Get G (ugs_groupStore st) groupID of
        Inl err \<Rightarrow> Inl (''failed to get group: '' @ err)
      | Inr grp \<Rightarrow>
          Inr (List.map_filter (\<lambda>userID. case us_Get U (ugs_userStore st) userID of
                 Inl _ \<Rightarrow> None | Inr user \<Rightarrow> Some user) (Group_Members grp)))"

subsection \<open>Permissions\<close>

definition permissionMatches :: "string \<Rightarrow> string \<Rightarrow> bool" where
  "permissionMatches pattern required =
     (if pattern = required then True
      else if HasSuffix pattern '':*''
      then (let prefix = TrimSuffix pattern '':*'' in HasPrefix required (prefix @ '':''))
      else if Contains pattern ''*''
      then (let patternParts = Split pattern CHR ''*'' in
            if length patternParts = 2
            then HasPrefix required (patternParts ! 0) \<and> HasSuffix required (patternParts ! 1)
            else False)
      else False)"

fun HasPermission :: "'gs GroupStore \<Rightarrow> ('us, 'gs) UserGroupService \<Rightarrow> string list \<Rightarrow> string \<Rightarrow> bool" where
  "HasPermission G st [] permission = False"
| "HasPermission G st (groupID # userGroups) permission =
     (case gs_Get G (ugs_groupStore st) groupID of
        Inl _ \<Rightarrow> HasPermission G st userGroups permission
      | Inr grp \<Rightarrow>
          if list_ex (\<lambda>groupPerm. permissionMatches groupPerm permission) (Group_Permissions grp)
          then True else HasPermission G st userGroups permission)"

definition CheckGroupPermission ::
    "'gs GroupStore \<Rightarrow> ('us, 'gs) UserGroupService \<Rightarrow> string \<Rightarrow> string \<Rightarrow> bool result" where
  "CheckGroupPermission G st groupID permission =
     (case gs_Get G (ugs_groupStore st) groupID of
        Inl err \<Rightarrow> Inl err
      | Inr grp \<Rightarrow>
          Inr (list_ex (\<lambda>groupPerm. permissionMatches groupPerm permission) (Group_Permissions grp)))"

definition CanAccessServer :: "'us UserStore \<Rightarrow> 'gs GroupStore \<Rightarrow> ('us, 'gs) UserGroupService \<Rightarrow>
    string \<Rightarrow> string \<Rightarrow> bool result" where
  "CanAccessServer U G st userID serverID =
     (case us_Get U (ugs_userStore st) userID of
        Inl err \<Rightarrow> Inl (''failed to get user: '' @ err)
      | Inr user \<Rightarrow>
          if HasPermission G st (User_Groups user) ''server:*'' then Inr True
          else if HasPermission G st (User_Groups user) (''server:'' @ serverID @ '':*'') then Inr True
          else if HasPermission G st (User_Groups user) (''server:'' @ serverID @ '':read'')
          then Inr True
          else Inr False)"

definition CanManageUsers :: "'us UserStore \<Rightarrow> 'gs GroupStore \<Rightarrow> ('us, 'gs) UserGroupService \<Rightarrow>
    string \<Rightarrow> bool result" where
  "CanManageUsers U G st userID =
     (if userID = ''dev-admin'' then Inr True
      else case us_Get U (ugs_userStore st) userID of
        Inl err \<Rightarrow> Inl (''failed to get user: '' @ err)
      | Inr user \<Rightarrow> Inr (HasPermission G st (User_Groups user) ''user:manage''))"

definition CanManageGroups :: "'us UserStore \<Rightarrow> 'gs GroupStore \<Rightarrow> ('us, 'gs) UserGroupService \<Rightarrow>
    string \<Rightarrow> bool result" where
  "CanManageGroups U G st userID =
     (if userID = ''dev-admin'' then Inr True
      else case us_Get U (ugs_userStore st) userID of
        Inl err \<Rightarrow> Inl (''failed to get user: '' @ err)
      | Inr user \<Rightarrow> Inr (HasPermission G st (User_Groups user) ''group:manage''))"

definition CanCreateAdapters :: "'us UserStore \<Rightarrow> 'gs GroupStore \<Rightarrow> ('us, 'gs) UserGroupService \<Rightarrow>
    string \<Rightarrow> bool result" where
  "CanCreateAdapters U G st userID =
     (case us_Get U (ugs_userStore st) userID of
        Inl err \<Rightarrow> Inl (''failed to get user: '' @ err)
      | Inr user \<Rightarrow> Inr (HasPermission G st (User_Groups user) ''adapter:create''))"

subsection \<open>The default groups\<close>

definition zero_Group :: Group where
  "zero_Group = \<lparr>Group_ID = [], Group_Name = [], Group_Description = [], Group_Members = [],
     Group_Permissions = [], Group_CreatedAt = 0, Group_UpdatedAt = 0\<rparr>"

definition defaultGroups :: "Group list" where
  "defaultGroups =
    [zero_Group\<lparr>Group_ID := ''mcp-users'', Group_Name := ''MCP Users'',
       Group_Description := ''Users with access to MCP servers'',
       Group_Permissions := [''server:read'', ''adapter:create'']\<rparr>,
     zero_Group\<lparr>Group_ID := ''mcp-admins'', Group_Name := ''MCP Admins'',
       Group_Description := ''Administrators with full MCP access'',
       Group_Permissions := [''server:*'', ''user:manage'', ''group:manage'', ''adapter:*'']\<rparr>,
     zero_Group\<lparr>Group_ID := ''weather-users'', Group_Name := ''Weather API Users'',
       Group_Description := ''Users with access to weather MCP servers'',
       Group_Permissions := [''server:weather-*'']\<rparr>]"

fun create_missing_groups :: "'gs GroupStore \<Rightarrow> (nat \<Rightarrow> env) \<Rightarrow> nat \<Rightarrow> Group list \<Rightarrow>
    ('us, 'gs) UserGroupService \<Rightarrow> ('us, 'gs) UserGroupService \<times> error option" where
  "create_missing_groups G es i [] st = (st, None)"
| "create_missing_groups G es i (grp # grps) st =
     (case gs_Get G (ugs_groupStore st) (Group_ID grp) of
        Inr _ \<Rightarrow> create_missing_groups G es i grps st
      | Inl _ \<Rightarrow>
          (case gs_Create G (es i) grp (ugs_groupStore st) of
             (gs1, Some createErr) \<Rightarrow>
               (st\<lparr>ugs_groupStore := gs1\<rparr>,
                Some (''failed to create default group '' @ Group_ID grp @ '': '' @ createErr))
           | (gs1, None) \<Rightarrow>
               create_missing_groups G es (Suc i) grps (st\<lparr>ugs_groupStore := gs1\<rparr>)))"

definition InitializeDefaultGroups :: "'gs GroupStore \<Rightarrow> (nat \<Rightarrow> env) \<Rightarrow>
    ('us, 'gs) UserGroupService \<Rightarrow> ('us, 'gs) UserGroupService \<times> error option" where
  "InitializeDefaultGroups G es st = create_missing_groups G es 0 defaultGroups st"

subsection \<open>What a permission pattern matches\<close>

text \<open>The reference reading of a pattern: a star stands for any bytes.\<close>

fun glob :: "string \<Rightarrow> string \<Rightarrow> bool" where
  "glob [] s = (s = [])"
| "glob (p # ps) [] = (p = CHR ''*'' \<and> glob ps [])"
| "glob (p # ps) (c # s) =
     (if p = CHR ''*'' then glob ps (c # s) \<or> glob (p # ps) s else p = c \<and> glob ps s)"

lemma glob_no_star: "CHR ''*'' \<notin> set p \<Longrightarrow> glob p s \<longleftrightarrow> p = s"
  by (induction p s rule: glob.induct) auto

lemma glob_star: "CHR ''*'' \<notin> set q \<Longrightarrow> glob (CHR ''*'' # q) s \<longleftrightarrow> suffix q s"
proof (induction s)
  case Nil
  then show ?case by (simp add: glob_no_star)
next
  case (Cons c s)
  then show ?case by (auto simp: glob_no_star suffix_Cons)
qed

lemma glob_one_star:
  assumes "CHR ''*'' \<notin> set a" and "CHR ''*'' \<notin> set b"
  shows "glob (a @ CHR ''*'' # b) s \<longleftrightarrow> (\<exists>m. s = a @ m @ b)"
  using assms
proof (induction a arbitrary: s)
  case Nil
  then show ?case by (auto simp: glob_star suffix_def)
next
  case (Cons x a)
  then show ?case by (cases s) auto
qed

lemma prefix_suffix_split:
  assumes "prefix a s" and "suffix b s" and "length a + length b \<le> length s"
  shows "\<exists>m. s = a @ m @ b"
proof -
  from assms(1) obtain t where t: "s = a @ t" by (auto simp: prefix_def)
  with assms have "suffix b t"
    by (metis add_le_cancel_left length_append suffix_order.refl suffix_append suffix_length_suffix suffixI)
  then obtain m where "t = m @ b" by (auto simp: suffix_def)
  with t show ?thesis by blast
qed

lemma permissionMatches_one_star:
  assumes "CHR ''*'' \<notin> set a" and "CHR ''*'' \<notin> set b"
  shows "permissionMatches (a @ CHR ''*'' # b) r \<longleftrightarrow>
    r = a @ CHR ''*'' # b \<or> prefix a r \<and> suffix b r"
proof (cases "b = [] \<and> suffix '':'' a")
  case True
  then obtain a' where a: "a = a' @ '':''" and b: "b = []" by (auto simp: suffix_def)
  have "suffix '':*'' (a' @ '':*'')" by (simp add: suffix_def)
  then have "permissionMatches (a' @ '':*'') r \<longleftrightarrow> r = a' @ '':*'' \<or> prefix (a' @ '':'') r"
    by (auto simp: permissionMatches_def go_string_defs)
  with a b show ?thesis by simp
next
  case False
  have "\<not> suffix '':*'' (a @ CHR ''*'' # b)"
  proof
    assume "suffix '':*'' (a @ CHR ''*'' # b)"
    then obtain t where t: "a @ CHR ''*'' # b = t @ '':*''" by (auto simp: suffix_def)
    show False
    proof (cases b rule: rev_cases)
      case Nil
      with t have "a = t @ '':''" by (simp add: append_eq_append_conv2 Cons_eq_append_conv)
      with Nil False show False by (simp add: suffix_def)
    next
      case (snoc b' x)
      with t have "x = CHR ''*''" using last_append [of "a @ CHR ''*'' # b'" "[x]"]
        by (metis append.assoc append_Cons last.simps last_snoc list.distinct(1) append_Nil2 last_appendR)
      with snoc assms(2) show False by simp
    qed
  qed
  moreover have "Contains (a @ CHR ''*'' # b) ''*''"
    using ContainsI [of a "''*''" b] by simp
  moreover have "Split (a @ CHR ''*'' # b) CHR ''*'' = [a, b]"
    using assms by (simp add: Split_two_iff)
  ultimately show ?thesis
    by (auto simp: permissionMatches_def HasPrefix_def HasSuffix_def)
qed

lemma permissionMatches_no_star:
  assumes "CHR ''*'' \<notin> set p"
  shows "permissionMatches p r \<longleftrightarrow> p = r"
proof -
  have "\<not> sublist ''*'' p" using assms by (auto simp: sublist_def)
  moreover have "\<not> suffix '':*'' p" using assms by (auto simp: suffix_def)
  ultimately show ?thesis
    by (simp add: permissionMatches_def HasSuffix_def Contains_def)
qed

lemma count_one_split:
  assumes "count_list p c \<le> 1"
  obtains "c \<notin> set p" | a b where "p = a @ c # b" "c \<notin> set a" "c \<notin> set b"
proof (cases "c \<in> set p")
  case True
  then obtain a b where p: "p = a @ c # b" and a: "c \<notin> set a"
    by (metis split_list_first)
  with assms have "count_list b c = 0" by simp
  with p a that(2) show thesis by (simp add: count_list_0_iff)
qed (use that in simp)

subsection \<open>Permissions of a user\<close>

locale user_group_service =
  users: keyed_store "us_Create U" "us_Update U" "us_Delete U" ucont User_ID User_ID
    stamp_user_created stamp_user_updated "us_Get U" "\<lambda>i. i" +
  groups: group_store "gs_Create G" "gs_Update G" "gs_Delete G" gcont "gs_Get G"
    "gs_AddMember G" "gs_RemoveMember G"
  for U :: "'us UserStore" and G :: "'gs GroupStore"
    and ucont :: "'us \<Rightarrow> (string \<rightharpoonup> User)" and gcont :: "'gs \<Rightarrow> (string \<rightharpoonup> Group)"
begin

lemma HasPermission_iff:
  "HasPermission G st gs perm \<longleftrightarrow>
    (\<exists>g\<in>set gs. \<exists>grp. gcont (ugs_groupStore st) g = Some grp \<and>
      (\<exists>p\<in>set (Group_Permissions grp). permissionMatches p perm))"
  by (induction gs)
    (auto simp: list_ex_iff groups.get_iff split: sum.splits if_splits dest: groups.get_present)

lemma CanManageGroups_iff:
  "CanManageGroups U G st u = Inr True \<longleftrightarrow> u = ''dev-admin'' \<or>
    (\<exists>usr. ucont (ugs_userStore st) u = Some usr \<and> HasPermission G st (User_Groups usr) ''group:manage'')"
  by (cases rule: users.get_cases [of "ugs_userStore st" u])
    (auto simp: CanManageGroups_def)

lemma CanAccessServer_iff:
  "CanAccessServer U G st u sid = Inr True \<longleftrightarrow>
    (\<exists>usr. ucont (ugs_userStore st) u = Some usr \<and>
      (HasPermission G st (User_Groups usr) ''server:*'' \<or>
       HasPermission G st (User_Groups usr) (''server:'' @ sid @ '':*'') \<or>
       HasPermission G st (User_Groups usr) (''server:'' @ sid @ '':read'')))"
  by (cases rule: users.get_cases [of "ugs_userStore st" u])
    (auto simp: CanAccessServer_def)

text \<open>Permissions are read from the stores at every call: taking a user's groups away takes every
  permission away, and more groups never take one away.\<close>

lemma HasPermission_mono:
  "set gs \<subseteq> set gs' \<Longrightarrow> HasPermission G st gs perm \<Longrightarrow> HasPermission G st gs' perm"
  by (auto simp: HasPermission_iff)

lemma GetUserGroups_eq:
  "ucont (ugs_userStore st) u = Some usr \<Longrightarrow>
   GetUserGroups U G st u = Inr (List.map_filter (gcont (ugs_groupStore st)) (User_Groups usr))"
proof -
  assume "ucont (ugs_userStore st) u = Some usr"
  moreover have "(\<lambda>g. case gs_Get G (ugs_groupStore st) g of Inl _ \<Rightarrow> None | Inr grp \<Rightarrow> Some grp)
      = gcont (ugs_groupStore st)"
  proof
    fix g
    show "(case gs_Get G (ugs_groupStore st) g of Inl _ \<Rightarrow> None | Inr grp \<Rightarrow> Some grp)
        = gcont (ugs_groupStore st) g"
      by (cases rule: groups.get_cases [of "ugs_groupStore st" g]) auto
  qed
  ultimately show ?thesis by (simp add: GetUserGroups_def users.get_present)
qed

lemma GetGroupMembers_eq:
  "gcont (ugs_groupStore st) g = Some grp \<Longrightarrow>
   GetGroupMembers U G st g = Inr (List.map_filter (ucont (ugs_userStore st)) (Group_Members grp))"
proof -
  assume "gcont (ugs_groupStore st) g = Some grp"
  moreover have "(\<lambda>u. case us_Get U (ugs_userStore st) u of Inl _ \<Rightarrow> None | Inr user \<Rightarrow> Some user)
      = ucont (ugs_userStore st)"
  proof
    fix u
    show "(case us_Get U (ugs_userStore st) u of Inl _ \<Rightarrow> None | Inr user \<Rightarrow> Some user)
        = ucont (ugs_userStore st) u"
      by (cases rule: users.get_cases [of "ugs_userStore st" u]) auto
  qed
  ultimately show ?thesis by (simp add: GetGroupMembers_def groups.get_present)
qed

text \<open>A successful \<open>AddUserToGroup\<close> has recorded the membership on both sides, whatever the
  stores do with their files.\<close>

lemma AddUserToGroup_ok:
  assumes "AddUserToGroup U G es g u st = (st', None)"
  obtains grp usr grp' usr' where
    "gcont (ugs_groupStore st) g = Some grp" "u \<notin> set (Group_Members grp)"
    "ucont (ugs_userStore st) u = Some usr"
    "gcont (ugs_groupStore st') = (gcont (ugs_groupStore st))(g \<mapsto>
       grp\<lparr>Group_Members := Group_Members grp @ [u], Group_UpdatedAt := env_now (es 0)\<rparr>)"
    "g \<in> set (User_Groups usr) \<Longrightarrow> ugs_userStore st' = ugs_userStore st"
    "g \<notin> set (User_Groups usr) \<Longrightarrow> ucont (ugs_userStore st') = (ucont (ugs_userStore st))(User_ID usr \<mapsto>
       usr\<lparr>User_Groups := User_Groups usr @ [g], User_UpdatedAt := env_now (es 1)\<rparr>)"
proof -
  let ?r = "gs_AddMember G (es 0) g u (ugs_groupStore st)"
  have ok: "snd ?r = None"
    using assms by (auto simp: AddUserToGroup_def split: prod.splits option.splits)
  then obtain grp where grp: "gcont (ugs_groupStore st) g = Some grp" "u \<notin> set (Group_Members grp)"
    "gcont (fst ?r) = (gcont (ugs_groupStore st))(g \<mapsto>
       grp\<lparr>Group_Members := Group_Members grp @ [u], Group_UpdatedAt := env_now (es 0)\<rparr>)"
    by (rule groups.add_member_okD)
  obtain usr where usr: "us_Get U (ugs_userStore st) u = Inr usr"
    using assms ok by (auto simp: AddUserToGroup_def Let_def split: prod.splits sum.splits)
  then have ucont: "ucont (ugs_userStore st) u = Some usr" by (simp add: users.get_iff)
  show thesis
  proof (cases "g \<in> set (User_Groups usr)")
    case True
    then have "st' = st\<lparr>ugs_groupStore := fst ?r\<rparr>"
      using assms ok usr by (auto simp: AddUserToGroup_def Let_def split: prod.splits)
    with that [OF grp(1,2) ucont] grp(3) True show thesis by simp
  next
    case False
    let ?usr = "usr\<lparr>User_Groups := User_Groups usr @ [g]\<rparr>"
    let ?q = "us_Update U (es 1) ?usr (ugs_userStore st)"
    have "snd ?q = None" "st' = st\<lparr>ugs_groupStore := fst ?r, ugs_userStore := fst ?q\<rparr>"
      using assms ok usr False
      by (auto simp: AddUserToGroup_def Let_def split: prod.splits option.splits)
    moreover from this(1) have "User_ID usr \<in> dom (ucont (ugs_userStore st))"
      by (auto dest!: users.update_ok_was_there)
    ultimately show thesis
      using that [OF grp(1,2) ucont] grp(3) False by (simp add: users.update_contents)
  qed
qed

lemma RemoveUserFromGroup_ok:
  assumes "RemoveUserFromGroup U G es g u st = (st', None)"
  obtains grp where
    "gcont (ugs_groupStore st) g = Some grp" "u \<in> set (Group_Members grp)"
    "gcont (ugs_groupStore st') = (gcont (ugs_groupStore st))(g \<mapsto>
       grp\<lparr>Group_Members := remove1 u (Group_Members grp), Group_UpdatedAt := env_now (es 0)\<rparr>)"
    "ucont (ugs_userStore st') = (case ucont (ugs_userStore st) u of
       None \<Rightarrow> ucont (ugs_userStore st)
     | Some usr \<Rightarrow> if g \<in> set (User_Groups usr)
         then (ucont (ugs_userStore st))(User_ID usr \<mapsto>
           usr\<lparr>User_Groups := remove1 g (User_Groups usr), User_UpdatedAt := env_now (es 1)\<rparr>)
         else ucont (ugs_userStore st))"
proof -
  let ?r = "gs_RemoveMember G (es 0) g u (ugs_groupStore st)"
  have ok: "snd ?r = None"
    using assms by (auto simp: RemoveUserFromGroup_def split: prod.splits option.splits)
  then obtain grp where grp: "gcont (ugs_groupStore st) g = Some grp" "u \<in> set (Group_Members grp)"
    "gcont (fst ?r) = (gcont (ugs_groupStore st))(g \<mapsto>
       grp\<lparr>Group_Members := remove1 u (Group_Members grp), Group_UpdatedAt := env_now (es 0)\<rparr>)"
    by (rule groups.remove_member_okD)
  show thesis
  proof (cases "\<exists>usr. us_Get U (ugs_userStore st) u = Inr usr \<and> g \<in> set (User_Groups usr)")
    case False
    then have st': "st' = st\<lparr>ugs_groupStore := fst ?r\<rparr>"
      using assms ok by (auto simp: RemoveUserFromGroup_def Let_def split: prod.splits sum.splits)
    from False have "ucont (ugs_userStore st') = (case ucont (ugs_userStore st) u of
       None \<Rightarrow> ucont (ugs_userStore st)
     | Some usr \<Rightarrow> if g \<in> set (User_Groups usr)
         then (ucont (ugs_userStore st))(User_ID usr \<mapsto>
           usr\<lparr>User_Groups := remove1 g (User_Groups usr), User_UpdatedAt := env_now (es 1)\<rparr>)
         else ucont (ugs_userStore st))"
      by (auto simp: st' users.get_iff split: option.splits)
    with that [OF grp(1,2)] grp(3) st' show thesis by simp
  next
    case True
    then obtain usr where usr: "us_Get U (ugs_userStore st) u = Inr usr" "g \<in> set (User_Groups usr)"
      by blast
    let ?usr = "usr\<lparr>User_Groups := remove1 g (User_Groups usr)\<rparr>"
    let ?q = "us_Update U (es 1) ?usr (ugs_userStore st)"
    have q: "snd ?q = None" "st' = st\<lparr>ugs_groupStore := fst ?r, ugs_userStore := fst ?q\<rparr>"
      using assms ok usr
      by (auto simp: RemoveUserFromGroup_def Let_def split: prod.splits option.splits)
    from q(1) have "User_ID usr \<in> dom (ucont (ugs_userStore st))"
      by (auto dest!: users.update_ok_was_there)
    with q usr that [OF grp(1,2)] grp(3) show thesis
      by (simp add: users.update_contents users.get_iff)
  qed
qed

end

subsection \<open>Membership stays recorded on both sides\<close>

text \<open>For a user and a group that exist, the user is among the group's members exactly when the
  group is among the user's groups; neither list has duplicates.\<close>

definition memberships_ok :: "(string \<rightharpoonup> User) \<Rightarrow> (string \<rightharpoonup> Group) \<Rightarrow> bool" where
  "memberships_ok um gm \<longleftrightarrow>
     (\<forall>u usr. um u = Some usr \<longrightarrow> User_ID usr = u \<and> distinct (User_Groups usr)) \<and>
     (\<forall>g grp. gm g = Some grp \<longrightarrow> distinct (Group_Members grp)) \<and>
     (\<forall>u usr g grp. um u = Some usr \<longrightarrow> gm g = Some grp \<longrightarrow>
        (u \<in> set (Group_Members grp) \<longleftrightarrow> g \<in> set (User_Groups usr)))"

lemma memberships_okD:
  assumes "memberships_ok um gm"
  shows "um u = Some usr \<Longrightarrow> User_ID usr = u"
    and "um u = Some usr \<Longrightarrow> distinct (User_Groups usr)"
    and "gm g = Some grp \<Longrightarrow> distinct (Group_Members grp)"
    and "um u = Some usr \<Longrightarrow> gm g = Some grp \<Longrightarrow>
      u \<in> set (Group_Members grp) \<longleftrightarrow> g \<in> set (User_Groups usr)"
  using assms by (auto simp: memberships_ok_def)

definition same_members :: "(string \<rightharpoonup> Group) \<Rightarrow> (string \<rightharpoonup> Group) \<Rightarrow> bool" where
  "same_members gm gm' \<longleftrightarrow> (\<forall>g. map_option Group_Members (gm g) = map_option Group_Members (gm' g))"

lemma same_members_refl [simp]: "same_members gm gm"
  by (simp add: same_members_def)

lemma same_members_Some:
  assumes "same_members gm gm'" and "gm' g = Some grp'"
  obtains grp where "gm g = Some grp" "Group_Members grp = Group_Members grp'"
proof -
  from assms(1) have "map_option Group_Members (gm g) = map_option Group_Members (gm' g)"
    by (simp add: same_members_def)
  with assms(2) that show thesis by (auto simp: map_option_eq_Some)
qed

lemma memberships_ok_same:
  assumes ok: "memberships_ok um gm" and same: "same_members gm gm'"
  shows "memberships_ok um gm'"
  unfolding memberships_ok_def
proof (intro conjI allI impI)
  fix g grp' assume "gm' g = Some grp'"
  with same obtain grp where "gm g = Some grp" "Group_Members grp = Group_Members grp'"
    by (rule same_members_Some)
  with ok show "distinct (Group_Members grp')" by (metis memberships_okD(3))
next
  fix u usr g grp' assume usr: "um u = Some usr" and "gm' g = Some grp'"
  with same obtain grp where "gm g = Some grp" "Group_Members grp = Group_Members grp'"
    by (metis same_members_Some)
  with ok usr show "(u \<in> set (Group_Members grp')) = (g \<in> set (User_Groups usr))"
    by (metis memberships_okD(4))
qed (use ok in \<open>auto simp: memberships_ok_def\<close>)

lemma memberships_ok_add:
  assumes ok: "memberships_ok um gm" and grp: "gm g = Some grp" "u \<notin> set (Group_Members grp)"
    and usr: "um u = Some usr"
  shows "memberships_ok (um(u \<mapsto> usr\<lparr>User_Groups := User_Groups usr @ [g], User_UpdatedAt := t\<rparr>))
    (gm(g \<mapsto> grp\<lparr>Group_Members := Group_Members grp @ [u], Group_UpdatedAt := t'\<rparr>))"
proof -
  have new: "g \<notin> set (User_Groups usr)" using memberships_okD(4) [OF ok usr grp(1)] grp(2) by simp
  show ?thesis
    unfolding memberships_ok_def
    using memberships_okD [OF ok] grp usr new by (auto split: if_splits)
qed

lemma memberships_ok_remove:
  assumes ok: "memberships_ok um gm" and grp: "gm g = Some grp" and usr: "um u = Some usr"
  shows "memberships_ok (um(u \<mapsto> usr\<lparr>User_Groups := remove1 g (User_Groups usr), User_UpdatedAt := t\<rparr>))
    (gm(g \<mapsto> grp\<lparr>Group_Members := remove1 u (Group_Members grp), Group_UpdatedAt := t'\<rparr>))"
proof -
  have d: "distinct (User_Groups usr)" "distinct (Group_Members grp)"
    using memberships_okD(2,3) [OF ok] grp usr by auto
  show ?thesis
    unfolding memberships_ok_def
    using memberships_okD [OF ok] grp usr d
    by (auto simp: set_remove1_eq split: if_splits)
qed

lemma memberships_ok_remove_absent:
  assumes ok: "memberships_ok um gm" and grp: "gm g = Some grp" and usr: "um u = None"
  shows "memberships_ok um
    (gm(g \<mapsto> grp\<lparr>Group_Members := remove1 u (Group_Members grp), Group_UpdatedAt := t'\<rparr>))"
proof -
  have d: "distinct (Group_Members grp)" using memberships_okD(3) [OF ok] grp by auto
  show ?thesis
    unfolding memberships_ok_def
    using memberships_okD [OF ok] grp usr d
    by (auto simp: set_remove1_eq split: if_splits)
qed

context user_group_service
begin

lemma AddUserToGroup_success_keeps:
  assumes ok: "memberships_ok (ucont (ugs_userStore st)) (gcont (ugs_groupStore st))"
    and add: "AddUserToGroup U G es g u st = (st', None)"
  shows "memberships_ok (ucont (ugs_userStore st')) (gcont (ugs_groupStore st'))"
  using add
proof (rule AddUserToGroup_ok)
  fix grp usr
  assume grp: "gcont (ugs_groupStore st) g = Some grp" "u \<notin> set (Group_Members grp)"
    and usr: "ucont (ugs_userStore st) u = Some usr"
    and gs: "gcont (ugs_groupStore st') = (gcont (ugs_groupStore st))(g \<mapsto>
       grp\<lparr>Group_Members := Group_Members grp @ [u], Group_UpdatedAt := env_now (es 0)\<rparr>)"
    and us: "g \<notin> set (User_Groups usr) \<Longrightarrow> ucont (ugs_userStore st') =
      (ucont (ugs_userStore st))(User_ID usr \<mapsto>
       usr\<lparr>User_Groups := User_Groups usr @ [g], User_UpdatedAt := env_now (es 1)\<rparr>)"
  have "User_ID usr = u" "g \<notin> set (User_Groups usr)"
    using memberships_okD(1,4) [OF ok] grp usr by auto
  with memberships_ok_add [OF ok grp usr] gs us show ?thesis by simp
qed

lemma RemoveUserFromGroup_success_keeps:
  assumes ok: "memberships_ok (ucont (ugs_userStore st)) (gcont (ugs_groupStore st))"
    and rm: "RemoveUserFromGroup U G es g u st = (st', None)"
  shows "memberships_ok (ucont (ugs_userStore st')) (gcont (ugs_groupStore st'))"
  using rm
proof (rule RemoveUserFromGroup_ok)
  fix grp
  assume grp: "gcont (ugs_groupStore st) g = Some grp" "u \<in> set (Group_Members grp)"
    and gs: "gcont (ugs_groupStore st') = (gcont (ugs_groupStore st))(g \<mapsto>
       grp\<lparr>Group_Members := remove1 u (Group_Members grp), Group_UpdatedAt := env_now (es 0)\<rparr>)"
    and us: "ucont (ugs_userStore st') = (case ucont (ugs_userStore st) u of
       None \<Rightarrow> ucont (ugs_userStore st)
     | Some usr \<Rightarrow> if g \<in> set (User_Groups usr)
         then (ucont (ugs_userStore st))(User_ID usr \<mapsto>
           usr\<lparr>User_Groups := remove1 g (User_Groups usr), User_UpdatedAt := env_now (es 1)\<rparr>)
         else ucont (ugs_userStore st))"
  show ?thesis
  proof (cases "ucont (ugs_userStore st) u")
    case None
    with memberships_ok_remove_absent [OF ok grp(1)] gs us show ?thesis by simp
  next
    case (Some usr)
    then have "User_ID usr = u" "g \<in> set (User_Groups usr)"
      using memberships_okD(1,4) [OF ok] grp by auto
    with Some memberships_ok_remove [OF ok grp(1)] gs us show ?thesis by simp
  qed
qed

end

locale reliable_user_group_service = user_group_service +
  users: reliable_map "us_Create U" "us_Update U" "us_Delete U" ucont User_ID User_ID
    stamp_user_created stamp_user_updated +
  groups: reliable_group_store "gs_Create G" "gs_Update G" "gs_Delete G" gcont "gs_Get G"
    "gs_AddMember G" "gs_RemoveMember G"
begin

text \<open>When it fails, \<open>AddUserToGroup\<close> has left the users alone and restored the members.\<close>

lemma AddUserToGroup_failed:
  assumes keys: "\<And>u usr. ucont (ugs_userStore st) u = Some usr \<Longrightarrow> User_ID usr = u"
    and add: "AddUserToGroup U G es g u st = (st', Some err)"
  shows "ugs_userStore st' = ugs_userStore st"
    and "same_members (gcont (ugs_groupStore st)) (gcont (ugs_groupStore st'))"
proof -
  let ?r = "gs_AddMember G (es 0) g u (ugs_groupStore st)"
  have "ugs_userStore st' = ugs_userStore st \<and>
    same_members (gcont (ugs_groupStore st)) (gcont (ugs_groupStore st'))"
  proof (cases "snd ?r")
    case (Some e)
    then have st': "st' = st\<lparr>ugs_groupStore := fst ?r\<rparr>"
      using add by (auto simp: AddUserToGroup_def split: prod.splits)
    have "gcont (fst ?r) = gcont (ugs_groupStore st)"
      using Some groups.add_member_new [of "ugs_groupStore st" g]
      by (fastforce simp: groups.add_member_contents split: option.splits)
    with st' show ?thesis by simp
  next
    case None
    show ?thesis
    proof (cases "us_Get U (ugs_userStore st) u")
      case (Inl e)
      with None add have "st' = st\<lparr>ugs_groupStore := fst (gs_RemoveMember G (es 1) g u (fst ?r))\<rparr>"
        by (auto simp: AddUserToGroup_def Let_def split: prod.splits)
      with groups.add_then_remove [OF None, of "es 1"] show ?thesis
        by (simp add: same_members_def)
    next
      case (Inr usr)
      then have usr: "ucont (ugs_userStore st) u = Some usr" by (simp add: users.get_iff)
      have "snd (us_Update U (es 1) (usr\<lparr>User_Groups := User_Groups usr @ [g]\<rparr>)
          (ugs_userStore st)) = None"
        using usr keys [OF usr] by (intro users.update_present) auto
      with Inr None add show ?thesis
        by (auto simp: AddUserToGroup_def Let_def split: prod.splits if_splits)
    qed
  qed
  then show "ugs_userStore st' = ugs_userStore st"
    and "same_members (gcont (ugs_groupStore st)) (gcont (ugs_groupStore st'))" by simp_all
qed

lemma RemoveUserFromGroup_failed:
  assumes keys: "\<And>u usr. ucont (ugs_userStore st) u = Some usr \<Longrightarrow> User_ID usr = u"
    and rm: "RemoveUserFromGroup U G es g u st = (st', Some err)"
  shows "ugs_userStore st' = ugs_userStore st"
    and "gcont (ugs_groupStore st') = gcont (ugs_groupStore st)"
proof -
  let ?r = "gs_RemoveMember G (es 0) g u (ugs_groupStore st)"
  have "ugs_userStore st' = ugs_userStore st \<and> gcont (ugs_groupStore st') = gcont (ugs_groupStore st)"
  proof (cases "snd ?r")
    case (Some e)
    then have st': "st' = st\<lparr>ugs_groupStore := fst ?r\<rparr>"
      using rm by (auto simp: RemoveUserFromGroup_def split: prod.splits)
    have "gcont (fst ?r) = gcont (ugs_groupStore st)"
      using Some groups.remove_member_present [of "ugs_groupStore st" g]
      by (fastforce simp: groups.remove_member_contents split: option.splits)
    with st' show ?thesis by simp
  next
    case None
    then obtain usr where usr: "us_Get U (ugs_userStore st) u = Inr usr"
      and upd: "snd (us_Update U (es 1) (usr\<lparr>User_Groups := remove1 g (User_Groups usr)\<rparr>)
        (ugs_userStore st)) \<noteq> None"
      using rm by (auto simp: RemoveUserFromGroup_def Let_def split: prod.splits sum.splits if_splits option.splits)
    then have "ucont (ugs_userStore st) u = Some usr" by (simp add: users.get_iff)
    with keys [OF this] have "snd (us_Update U (es 1)
        (usr\<lparr>User_Groups := remove1 g (User_Groups usr)\<rparr>) (ugs_userStore st)) = None"
      by (intro users.update_present) auto
    with upd show ?thesis by simp
  qed
  then show "ugs_userStore st' = ugs_userStore st"
    and "gcont (ugs_groupStore st') = gcont (ugs_groupStore st)" by simp_all
qed

text \<open>So the two sides agree after any call, successful or not.\<close>

lemma AddUserToGroup_keeps:
  assumes "memberships_ok (ucont (ugs_userStore st)) (gcont (ugs_groupStore st))"
    and "AddUserToGroup U G es g u st = (st', r)"
  shows "memberships_ok (ucont (ugs_userStore st')) (gcont (ugs_groupStore st'))"
proof (cases r)
  case None
  with assms show ?thesis by (simp add: AddUserToGroup_success_keeps)
next
  case (Some err)
  with assms(2) have "AddUserToGroup U G es g u st = (st', Some err)" by simp
  from AddUserToGroup_failed [OF _ this] assms(1) show ?thesis
    by (metis memberships_okD(1) memberships_ok_same)
qed

lemma RemoveUserFromGroup_keeps:
  assumes "memberships_ok (ucont (ugs_userStore st)) (gcont (ugs_groupStore st))"
    and "RemoveUserFromGroup U G es g u st = (st', r)"
  shows "memberships_ok (ucont (ugs_userStore st')) (gcont (ugs_groupStore st'))"
proof (cases r)
  case None
  with assms show ?thesis by (simp add: RemoveUserFromGroup_success_keeps)
next
  case (Some err)
  with assms(2) have "RemoveUserFromGroup U G es g u st = (st', Some err)" by simp
  from RemoveUserFromGroup_failed [OF _ this] assms(1) show ?thesis
    by (metis memberships_okD(1))
qed

end

subsection \<open>The service on the stores of the program\<close>

lemmas user_vtables = InMemoryUserStore_ops_def FileUserStore_ops_def
lemmas group_vtables = InMemoryGroupStore_ops_def FileGroupStore_ops_def

interpretation mem_service: reliable_user_group_service
  InMemoryUserStore_ops InMemoryGroupStore_ops imus_users imgs_groups
  unfolding reliable_user_group_service_def user_group_service_def user_vtables group_vtables
    UserStore.simps GroupStore.simps
  by (intro conjI; unfold_locales)

interpretation file_service: user_group_service
  FileUserStore_ops FileGroupStore_ops fs_entries fs_entries
  unfolding user_group_service_def user_vtables group_vtables UserStore.simps GroupStore.simps
  by (intro conjI; unfold_locales)

subsection \<open>Properties\<close>

text \<open>The calls that change memberships, in any order, successful or not.\<close>

inductive membership_calls :: "'us UserStore \<Rightarrow> 'gs GroupStore \<Rightarrow>
    ('us, 'gs) UserGroupService \<Rightarrow> ('us, 'gs) UserGroupService \<Rightarrow> bool"
  for U G where
  none: "membership_calls U G st st"
| added: "membership_calls U G st st1 \<Longrightarrow> AddUserToGroup U G es g u st1 = (st2, r) \<Longrightarrow>
    membership_calls U G st st2"
| removed: "membership_calls U G st st1 \<Longrightarrow> RemoveUserFromGroup U G es g u st1 = (st2, r) \<Longrightarrow>
    membership_calls U G st st2"

text \<open>C1. On the stores in memory, whatever sequence of \<open>AddUserToGroup\<close> and
  \<open>RemoveUserFromGroup\<close> is made and whichever of these calls fail, a user stays among a group's
  members exactly when the group is among the user's groups.\<close>

theorem memberships_stay_consistent:
  assumes "membership_calls InMemoryUserStore_ops InMemoryGroupStore_ops st st'"
    and "memberships_ok (imus_users (ugs_userStore st)) (imgs_groups (ugs_groupStore st))"
  shows "memberships_ok (imus_users (ugs_userStore st')) (imgs_groups (ugs_groupStore st'))"
  using assms
  by (induction rule: membership_calls.induct)
    (blast intro: mem_service.AddUserToGroup_keeps mem_service.RemoveUserFromGroup_keeps)+

definition ex_env :: env where
  "ex_env = \<lparr>env_now = 7, env_now' = 8, env_order = []\<rparr>"

definition ex_user :: "string \<Rightarrow> string list \<Rightarrow> User" where
  "ex_user uid gs = \<lparr>User_ID = uid, User_Name = uid, User_Email = uid @ ''@x'', User_Groups = gs,
     User_AuthProvider = ''local'', User_ExternalID = [], User_ProviderGroups = [],
     User_PasswordHash = ''h'', User_PasswordChangedAt = None, User_LastLoginAt = None,
     User_CreatedAt = 0, User_UpdatedAt = 0\<rparr>"

definition ex_service :: "(InMemoryUserStore, InMemoryGroupStore) UserGroupService" where
  "ex_service = NewUserGroupService
     \<lparr>imus_users = [''ann'' \<mapsto> ex_user ''ann'' []]\<rparr>
     \<lparr>imgs_groups = [''ops'' \<mapsto> zero_Group\<lparr>Group_ID := ''ops'', Group_Permissions := [''group:manage'']\<rparr>]\<rparr>"

lemma ex_service_ok: "memberships_ok (imus_users (ugs_userStore ex_service))
    (imgs_groups (ugs_groupStore ex_service))"
  by (auto simp: memberships_ok_def ex_service_def NewUserGroupService_def ex_user_def zero_Group_def)

theorem memberships_stay_consistent_witness:
  "memberships_ok
     (imus_users (ugs_userStore (fst (AddUserToGroup InMemoryUserStore_ops InMemoryGroupStore_ops
        (\<lambda>_. ex_env) ''ops'' ''ann'' ex_service))))
     (imgs_groups (ugs_groupStore (fst (AddUserToGroup InMemoryUserStore_ops InMemoryGroupStore_ops
        (\<lambda>_. ex_env) ''ops'' ''ann'' ex_service))))"
  by (rule memberships_stay_consistent [OF _ ex_service_ok])
    (rule membership_calls.added [OF membership_calls.none prod.collapse [symmetric]])



text \<open>C3. Permissions are read as patterns with one star: as long as a pattern has at most one star
  and what is required is not so short that the two ends of the pattern overlap in it,
  \<open>permissionMatches\<close> holds exactly of what the pattern matches with the star standing for any
  bytes. (On shorter strings it accepts more: \<open>ab*ba\<close> matches \<open>aba\<close>.)\<close>

theorem permissionMatches_glob:
  assumes "count_list pattern CHR ''*'' \<le> 1"
  shows "permissionMatches pattern required \<and> length pattern \<le> Suc (length required) \<longleftrightarrow>
    glob pattern required"
  using assms
proof (rule count_one_split)
  assume "CHR ''*'' \<notin> set pattern"
  then show ?thesis by (auto simp: permissionMatches_no_star glob_no_star)
next
  fix a b assume p: "pattern = a @ CHR ''*'' # b" "CHR ''*'' \<notin> set a" "CHR ''*'' \<notin> set b"
  show ?thesis
    unfolding p(1) permissionMatches_one_star [OF p(2,3)] glob_one_star [OF p(2,3)]
  proof
    assume "(required = a @ CHR ''*'' # b \<or> prefix a required \<and> suffix b required) \<and>
      length (a @ CHR ''*'' # b) \<le> Suc (length required)"
    then show "\<exists>m. required = a @ m @ b"
      using prefix_suffix_split [of a required b] append_Cons [of "CHR ''*''" "[]" b] by auto
  qed (auto simp: prefix_def suffix_def)
qed

theorem permissionMatches_glob_witness:
  "glob ''server:weather-*'' ''server:weather-7:read'' \<and> permissionMatches ''ab*ba'' ''aba'' \<and>
    \<not> glob ''ab*ba'' ''aba''"
proof -
  have "permissionMatches ''server:weather-*'' ''server:weather-7:read''"
    and overlap: "permissionMatches ''ab*ba'' ''aba''" by code_simp+
  with permissionMatches_glob [of "''server:weather-*''" "''server:weather-7:read''"]
    permissionMatches_glob [of "''ab*ba''" "''aba''"]
  show ?thesis by simp
qed

context reliable_user_group_service
begin

abbreviation created where
  "created e x st \<equiv> st\<lparr>ugs_groupStore := fst (gs_Create G e x (ugs_groupStore st))\<rparr>"

lemma create_missing_groups_Cons:
  "create_missing_groups G es i (x # grps) st =
    (if gcont (ugs_groupStore st) (Group_ID x) = None
     then create_missing_groups G es (Suc i) grps (created (es i) x st)
     else create_missing_groups G es i grps st)"
proof (cases rule: groups.get_cases [of "ugs_groupStore st" "Group_ID x"])
  case (absent err)
  then have "snd (gs_Create G (es i) x (ugs_groupStore st)) = None"
    by (intro groups.create_new) auto
  with absent show ?thesis by (auto split: prod.splits)
qed auto

lemma created_contents:
  "gcont (ugs_groupStore st) (Group_ID x) = None \<Longrightarrow>
   gcont (ugs_groupStore (created e x st)) =
     (gcont (ugs_groupStore st))(Group_ID x \<mapsto> stamp_group_created e x)"
  by (auto simp: groups.create_contents domIff)

lemma create_missing_groups_no_error: "snd (create_missing_groups G es i grps st) = None"
  by (induction grps arbitrary: i st) (simp_all add: create_missing_groups_Cons del: create_missing_groups.simps(2))

lemma create_missing_groups_users:
  "ugs_userStore (fst (create_missing_groups G es i grps st)) = ugs_userStore st"
  by (induction grps arbitrary: i st) (simp_all add: create_missing_groups_Cons del: create_missing_groups.simps(2))

lemma create_missing_groups_keeps:
  "gcont (ugs_groupStore st) k = Some grp \<Longrightarrow>
   gcont (ugs_groupStore (fst (create_missing_groups G es i grps st))) k = Some grp"
proof (induction grps arbitrary: i st)
  case (Cons x grps)
  show ?case
  proof (cases "gcont (ugs_groupStore st) (Group_ID x)")
    case None
    with Cons.prems created_contents [OF None, of "es i"]
    have "gcont (ugs_groupStore (created (es i) x st)) k = Some grp" by auto
    from Cons.IH [OF this] None show ?thesis
      by (simp add: create_missing_groups_Cons del: create_missing_groups.simps(2))
  next
    case (Some v)
    with Cons show ?thesis
      by (simp add: create_missing_groups_Cons del: create_missing_groups.simps(2))
  qed
qed simp

lemma create_missing_groups_creates:
  "g \<in> set grps \<Longrightarrow> distinct (map Group_ID grps) \<Longrightarrow> gcont (ugs_groupStore st) (Group_ID g) = None \<Longrightarrow>
   \<exists>e. gcont (ugs_groupStore (fst (create_missing_groups G es i grps st))) (Group_ID g) =
     Some (stamp_group_created e g)"
proof (induction grps arbitrary: i st)
  case (Cons x grps)
  show ?case
  proof (cases "x = g")
    case True
    with Cons.prems have none: "gcont (ugs_groupStore st) (Group_ID x) = None" by simp
    have "gcont (ugs_groupStore (created (es i) x st)) (Group_ID g) = Some (stamp_group_created (es i) g)"
      using created_contents [OF none, of "es i"] True by simp
    from create_missing_groups_keeps [OF this, of es "Suc i" grps] none show ?thesis
      unfolding create_missing_groups_Cons True by auto
  next
    case False
    with Cons.prems have g: "g \<in> set grps" by simp
    then have "Group_ID g \<in> Group_ID ` set grps" by (rule imageI)
    with Cons.prems(2) have "Group_ID g \<noteq> Group_ID x" by auto
    then have "gcont (ugs_groupStore (created (es i) x st)) (Group_ID g) = None"
      if "gcont (ugs_groupStore st) (Group_ID x) = None"
      using Cons.prems created_contents [OF that, of "es i"] by simp
    with Cons.IH [OF g, of "created (es i) x st" "Suc i"] Cons.IH [OF g, of st i] Cons.prems
    show ?thesis
      unfolding create_missing_groups_Cons by (cases "gcont (ugs_groupStore st) (Group_ID x) = None") auto
  qed
qed simp

lemma create_missing_groups_only:
  "gcont (ugs_groupStore (fst (create_missing_groups G es i grps st))) k = Some grp \<Longrightarrow>
   k \<notin> Group_ID ` set grps \<Longrightarrow> gcont (ugs_groupStore st) k = Some grp"
proof (induction grps arbitrary: i st)
  case (Cons x grps)
  then have k: "k \<noteq> Group_ID x" "k \<notin> Group_ID ` set grps" by auto
  show ?case
  proof (cases "gcont (ugs_groupStore st) (Group_ID x)")
    case None
    with Cons.IH [of "Suc i" "created (es i) x st"] Cons.prems k created_contents [OF None, of "es i"]
    show ?thesis by (simp add: create_missing_groups_Cons del: create_missing_groups.simps(2))
  next
    case (Some v)
    with Cons.IH [of i st] Cons.prems k show ?thesis
      by (simp add: create_missing_groups_Cons del: create_missing_groups.simps(2))
  qed
qed simp

text \<open>A second run finds every group there and changes nothing.\<close>

lemma create_missing_groups_present:
  "(\<And>g. g \<in> set grps \<Longrightarrow> gcont (ugs_groupStore st) (Group_ID g) \<noteq> None) \<Longrightarrow>
   create_missing_groups G es i grps st = (st, None)"
proof (induction grps arbitrary: i)
  case (Cons x grps)
  from Cons.prems [of x] obtain v where "gcont (ugs_groupStore st) (Group_ID x) = Some v" by auto
  with Cons.IH Cons.prems show ?case
    by (simp add: create_missing_groups_Cons del: create_missing_groups.simps(2))
qed simp

end

lemma distinct_defaultGroups: "distinct (map Group_ID defaultGroups)"
  by (simp add: defaultGroups_def zero_Group_def)

text \<open>\<open>InitializeDefaultGroups\<close> on stores in memory never fails; afterwards the three default
  groups exist, every group that existed is as it was and no other has appeared, the users are
  untouched, and a second run changes nothing.\<close>

theorem InitializeDefaultGroups_ensures:
  assumes "InitializeDefaultGroups InMemoryGroupStore_ops es st = (st', r)"
  shows "r = None \<and>
    {''mcp-users'', ''mcp-admins'', ''weather-users''} \<subseteq> dom (imgs_groups (ugs_groupStore st')) \<and>
    imgs_groups (ugs_groupStore st) \<subseteq>\<^sub>m imgs_groups (ugs_groupStore st') \<and>
    dom (imgs_groups (ugs_groupStore st')) \<subseteq>
      dom (imgs_groups (ugs_groupStore st)) \<union> {''mcp-users'', ''mcp-admins'', ''weather-users''} \<and>
    ugs_userStore st' = ugs_userStore st \<and>
    InitializeDefaultGroups InMemoryGroupStore_ops es' st' = (st', None)"
proof -
  let ?m = "\<lambda>st. imgs_groups (ugs_groupStore st)"
  have ids: "Group_ID ` set defaultGroups = {''mcp-users'', ''mcp-admins'', ''weather-users''}"
    by (auto simp: defaultGroups_def zero_Group_def)
  have st': "st' = fst (create_missing_groups InMemoryGroupStore_ops es 0 defaultGroups st)"
    and r: "r = None"
    using assms mem_service.create_missing_groups_no_error [of es 0 defaultGroups st]
    by (simp_all add: InitializeDefaultGroups_def)
  have le: "?m st \<subseteq>\<^sub>m ?m st'"
    unfolding map_le_def st' by (metis domD mem_service.create_missing_groups_keeps)
  have ex: "?m st' (Group_ID g) \<noteq> None" if "g \<in> set defaultGroups" for g
    using mem_service.create_missing_groups_creates [OF that distinct_defaultGroups, of st es 0] le
    by (cases "?m st (Group_ID g)") (auto simp: st' map_le_def dom_def)
  then have "Group_ID ` set defaultGroups \<subseteq> dom (?m st')" by auto
  moreover have "dom (?m st') \<subseteq> dom (?m st) \<union> Group_ID ` set defaultGroups"
    unfolding st' by (auto dest: mem_service.create_missing_groups_only)
  moreover have "InitializeDefaultGroups InMemoryGroupStore_ops es' st' = (st', None)"
    unfolding InitializeDefaultGroups_def
    by (rule mem_service.create_missing_groups_present) (rule ex)
  ultimately show ?thesis
    using le r mem_service.create_missing_groups_users [of es 0 defaultGroups st]
    by (simp add: ids st')
qed

theorem InitializeDefaultGroups_ensures_witness:
  "''mcp-admins'' \<in> dom (imgs_groups (ugs_groupStore
     (fst (InitializeDefaultGroups InMemoryGroupStore_ops (\<lambda>_. ex_env) ex_service))))"
  using InitializeDefaultGroups_ensures [OF prod.collapse [symmetric], of "\<lambda>_. ex_env" ex_service]
  by blast

text \<open>What the default groups grant once they are installed on stores in memory. A user of
  \<open>mcp-admins\<close> alone may use every server, create adapters and manage users and groups; a user of
  \<open>weather-users\<close> alone may use exactly the servers whose name starts with \<open>weather-\<close>; a user
  of \<open>mcp-users\<close> alone may create adapters and use no server at all: the permission
  \<open>server:read\<close> of that group is none of those \<open>CanAccessServer\<close> asks for.\<close>

theorem default_groups_grants:
  assumes st: "st = fst (InitializeDefaultGroups InMemoryGroupStore_ops es
      (NewUserGroupService us NewInMemoryGroupStore))"
    and admin: "imus_users us admin = Some a" "User_Groups a = [''mcp-admins'']"
    and wuser: "imus_users us wuser = Some w" "User_Groups w = [''weather-users'']"
    and plain: "imus_users us plain = Some p" "User_Groups p = [''mcp-users'']"
  shows "CanAccessServer InMemoryUserStore_ops InMemoryGroupStore_ops st admin sid = Inr True \<and>
    CanManageUsers InMemoryUserStore_ops InMemoryGroupStore_ops st admin = Inr True \<and>
    CanManageGroups InMemoryUserStore_ops InMemoryGroupStore_ops st admin = Inr True \<and>
    CanCreateAdapters InMemoryUserStore_ops InMemoryGroupStore_ops st admin = Inr True \<and>
    CanAccessServer InMemoryUserStore_ops InMemoryGroupStore_ops st wuser sid =
      Inr (prefix ''weather-'' sid) \<and>
    CanCreateAdapters InMemoryUserStore_ops InMemoryGroupStore_ops st plain = Inr True \<and>
    CanAccessServer InMemoryUserStore_ops InMemoryGroupStore_ops st plain sid = Inr False"
proof -
  have groups: "\<exists>e. imgs_groups (ugs_groupStore st) (Group_ID g) = Some (stamp_group_created e g)"
    if "g \<in> set defaultGroups" for g
    unfolding st InitializeDefaultGroups_def
    by (rule mem_service.create_missing_groups_creates [OF that distinct_defaultGroups])
      (simp add: NewUserGroupService_def NewInMemoryGroupStore_def)
  have perms: "HasPermission InMemoryGroupStore_ops st [Group_ID g] perm \<longleftrightarrow>
      (\<exists>q\<in>set (Group_Permissions g). permissionMatches q perm)" if "g \<in> set defaultGroups" for g perm
    using groups [OF that] by (auto simp: mem_service.HasPermission_iff simp del: HasPermission.simps)
  have users: "us_Get InMemoryUserStore_ops (ugs_userStore st) u = Inr x"
    if "imus_users us u = Some x" for u x
    using that mem_service.create_missing_groups_users [of es 0 defaultGroups "NewUserGroupService us NewInMemoryGroupStore"]
    by (simp add: st InitializeDefaultGroups_def InMemoryUserStore_ops_def InMemoryUserStore_Get_def
        NewUserGroupService_def)
  have "HasPermission InMemoryGroupStore_ops st [''mcp-users''] perm \<longleftrightarrow>
      perm = ''server:read'' \<or> perm = ''adapter:create''"
    and "HasPermission InMemoryGroupStore_ops st [''weather-users''] perm \<longleftrightarrow>
      perm = ''server:weather-*'' \<or> prefix ''server:weather-'' perm"
    and "HasPermission InMemoryGroupStore_ops st [''mcp-admins''] perm \<longleftrightarrow>
      perm = ''server:*'' \<or> prefix ''server:'' perm \<or> perm = ''user:manage'' \<or>
      perm = ''group:manage'' \<or> perm = ''adapter:*'' \<or> prefix ''adapter:'' perm" for perm
    using perms [of "defaultGroups ! 0" perm] perms [of "defaultGroups ! 1" perm]
      perms [of "defaultGroups ! 2" perm]
      permissionMatches_one_star [of "''server:''" "[]" perm]
      permissionMatches_one_star [of "''adapter:''" "[]" perm]
      permissionMatches_one_star [of "''server:weather-''" "[]" perm]
    by (simp_all add: defaultGroups_def zero_Group_def permissionMatches_no_star eq_commute
        disj_assoc del: HasPermission.simps)
  note granted = this
  have weather: "prefix ''weather-'' (sid @ CHR '':'' # r) \<longleftrightarrow> prefix ''weather-'' sid" for r
  proof
    assume "prefix ''weather-'' (sid @ CHR '':'' # r)"
    then consider "prefix ''weather-'' sid"
      | t where "''weather-'' = sid @ t" "prefix t (CHR '':'' # r)"
      unfolding prefix_append by blast
    then show "prefix ''weather-'' sid"
    proof cases
      case 2
      have "CHR '':'' \<notin> set (sid @ t)" unfolding 2(1) [symmetric] by simp
      with 2(2) have "t = []" by (cases t) auto
      with 2(1) show ?thesis by simp
    qed
  next
    assume "prefix ''weather-'' sid"
    then show "prefix ''weather-'' (sid @ CHR '':'' # r)" by (rule prefix_prefix)
  qed
  have w: "\<not> HasPermission InMemoryGroupStore_ops st [''weather-users''] ''server:*''"
    "HasPermission InMemoryGroupStore_ops st [''weather-users''] (''server:'' @ sid @ '':*'')
      \<longleftrightarrow> prefix ''weather-'' sid"
    "HasPermission InMemoryGroupStore_ops st [''weather-users''] (''server:'' @ sid @ '':read'')
      \<longleftrightarrow> prefix ''weather-'' sid"
    unfolding granted(2) using weather [of "''*''"] weather [of "''read''"]
    by (auto dest: arg_cong [where f = last])
  have m: "\<not> HasPermission InMemoryGroupStore_ops st [''mcp-users''] ''server:*''"
    "\<not> HasPermission InMemoryGroupStore_ops st [''mcp-users''] (''server:'' @ sid @ '':*'')"
    "\<not> HasPermission InMemoryGroupStore_ops st [''mcp-users''] (''server:'' @ sid @ '':read'')"
    "HasPermission InMemoryGroupStore_ops st [''mcp-users''] ''adapter:create''"
    unfolding granted(1) by (auto dest: arg_cong [where f = length])
  have a: "HasPermission InMemoryGroupStore_ops st [''mcp-admins''] ''server:*''"
    "HasPermission InMemoryGroupStore_ops st [''mcp-admins''] ''user:manage''"
    "HasPermission InMemoryGroupStore_ops st [''mcp-admins''] ''group:manage''"
    "HasPermission InMemoryGroupStore_ops st [''mcp-admins''] ''adapter:create''"
    unfolding granted(3) by simp_all
  show ?thesis
    unfolding CanAccessServer_def CanManageUsers_def CanManageGroups_def CanCreateAdapters_def
      users [OF admin(1)] users [OF wuser(1)] users [OF plain(1)] sum.case
      admin(2) wuser(2) plain(2)
    by (simp add: w m a del: HasPermission.simps append_Cons)
qed

theorem default_groups_grants_witness:
  "CanAccessServer InMemoryUserStore_ops InMemoryGroupStore_ops
     (fst (InitializeDefaultGroups InMemoryGroupStore_ops (\<lambda>_. ex_env) (NewUserGroupService
        \<lparr>imus_users = [''a'' \<mapsto> ex_user ''a'' [''mcp-admins''], ''w'' \<mapsto> ex_user ''w'' [''weather-users''],
                       ''p'' \<mapsto> ex_user ''p'' [''mcp-users'']]\<rparr> NewInMemoryGroupStore)))
     ''p'' ''weather-1'' = Inr False"
  using default_groups_grants [OF refl, of
      "\<lparr>imus_users = [''a'' \<mapsto> ex_user ''a'' [''mcp-admins''], ''w'' \<mapsto> ex_user ''w'' [''weather-users''],
                     ''p'' \<mapsto> ex_user ''p'' [''mcp-users'']]\<rparr>"
      "''a''" "ex_user ''a'' [''mcp-admins'']" "''w''" "ex_user ''w'' [''weather-users'']"
      "''p''" "ex_user ''p'' [''mcp-users'']"]
  by (simp add: ex_user_def)

definition ex_file_service :: "(FileUserStore, FileGroupStore) UserGroupService" where
  "ex_file_service = NewUserGroupService
     \<lparr>fs_filePath = ''users.json'', fs_entries = [''eve'' \<mapsto> ex_user ''eve'' []], fs_crypto = None,
      fs_disk = healthy_disk\<lparr>d_write_err := Some ''no space left on device''\<rparr>\<rparr>
     \<lparr>fs_filePath = ''groups.json'',
      fs_entries = [''mcp-admins'' \<mapsto> zero_Group\<lparr>Group_ID := ''mcp-admins'',
        Group_Permissions := [''group:manage'']\<rparr>],
      fs_crypto = None, fs_disk = healthy_disk\<rparr>"

text \<open>On stores kept in files the rollback of \<open>AddUserToGroup\<close> is not complete: when the file
  of users cannot be written, the call returns an error and the group's members are restored, but
  the user's own list keeps the group in memory, and with it the user holds the permissions of the
  group.\<close>

theorem AddUserToGroup_rollback_keeps_permissions:
  "\<exists>st es st' err. 
     AddUserToGroup FileUserStore_ops FileGroupStore_ops es ''mcp-admins'' ''eve'' st = (st', Some err) \<and>
     map_option Group_Members (fs_entries (ugs_groupStore st') ''mcp-admins'') = Some [] \<and>
     CanManageGroups FileUserStore_ops FileGroupStore_ops st ''eve'' = Inr False \<and>
     CanManageGroups FileUserStore_ops FileGroupStore_ops st' ''eve'' = Inr True"
proof -
  let ?r = "AddUserToGroup FileUserStore_ops FileGroupStore_ops (\<lambda>_. ex_env) ''mcp-admins'' ''eve'' ex_file_service"
  note eval = AddUserToGroup_def CanManageGroups_def ex_file_service_def NewUserGroupService_def
    FileUserStore_ops_def FileGroupStore_ops_def group_store_defs user_store_defs saveToFile_def
    zero_Group_def ex_user_def healthy_disk_def permissionMatches_no_star Let_def
  have "\<exists>err. snd ?r = Some err"
    "map_option Group_Members (fs_entries (ugs_groupStore (fst ?r)) ''mcp-admins'') = Some []"
    "CanManageGroups FileUserStore_ops FileGroupStore_ops ex_file_service ''eve'' = Inr False"
    "CanManageGroups FileUserStore_ops FileGroupStore_ops (fst ?r) ''eve'' = Inr True"
    by (simp_all add: eval)
  then show ?thesis by (metis prod.collapse)
qed

end
