(* ===== verification/AdapterService.thy ===== *)
theory AdapterService
  imports AdapterStores UserGroupService
begin

section \<open>The adapter service: access, assignments and tokens\<close>

text \<open>
  \<open>pkg/services/adapters/service.go\<close>, without the creation of adapters (theory
  \<open>AdapterCreation\<close>). The service holds stores behind their interfaces: \<open>A\<close>, \<open>S\<close> and \<open>T\<close> are
  the operations of the adapter, assignment and token stores it was given. The user and group
  service is an argument of each method, possibly \<open>nil\<close>; \<open>U\<close> and \<open>G\<close> are the operations of its
  stores. A method that dereferences a \<open>nil\<close> service panics: its result is \<open>None\<close>.
\<close>

record ('a, 's, 't) AdapterService =
  as_store :: 'a
  as_assignments :: 's
  as_tokens :: "'t option"

definition SetUserAdapterTokenStore ::
    "'t \<Rightarrow> ('a, 's, 't) AdapterService \<Rightarrow> ('a, 's, 't) AdapterService" where
  "SetUserAdapterTokenStore store st = st\<lparr>as_tokens := Some store\<rparr>"

subsection \<open>Who may use an adapter\<close>

text \<open>The two tests the methods share: does one of the groups grant access to the adapter, and may
  the user manage groups.\<close>

definition groups_have_access ::
    "'s AdapterGroupAssignmentStore \<Rightarrow> 's \<Rightarrow> string \<Rightarrow> string list \<Rightarrow> bool" where
  "groups_have_access S s adapterID gs =
     list_ex (\<lambda>groupID. ags_HasAccess S s adapterID groupID = Inr True) gs"

definition may_manage_groups ::
    "'us UserStore \<Rightarrow> 'gs GroupStore \<Rightarrow> ('us, 'gs) UserGroupService \<Rightarrow> string \<Rightarrow> bool" where
  "may_manage_groups U G us userID = (CanManageGroups U G us userID = Inr True)"

definition GetAdapter ::
    "'a AdapterResourceStore \<Rightarrow> 's AdapterGroupAssignmentStore \<Rightarrow> 'us UserStore \<Rightarrow> 'gs GroupStore \<Rightarrow>
     ('us, 'gs) UserGroupService option \<Rightarrow> ('a, 's, 't) AdapterService \<Rightarrow> string \<Rightarrow> string \<Rightarrow>
     AdapterResource result" where
  "GetAdapter A S U G ugs st userID adapterID =
     (case ars_Get A (as_store st) adapterID of
        Inl err \<Rightarrow> Inl err
      | Inr adapter \<Rightarrow>
          if AR_CreatedBy adapter \<noteq> userID
          then (case ugs of
                  None \<Rightarrow> Inl ''adapter not found''
                | Some us \<Rightarrow>
                    if may_manage_groups U G us userID then Inr adapter
                    else (case GetUser U us userID of
                            Inl err \<Rightarrow> Inl ''adapter not found''
                          | Inr user \<Rightarrow>
                              if \<not> groups_have_access S (as_assignments st) adapterID (User_Groups user)
                              then Inl ''adapter not found'' else Inr adapter))
          else Inr adapter)"

text \<open>\<open>UpdateAdapter\<close> and \<open>DeleteAdapter\<close> decide by the same rules.\<close>

definition may_change_adapter ::
    "'s AdapterGroupAssignmentStore \<Rightarrow> 'us UserStore \<Rightarrow> 'gs GroupStore \<Rightarrow>
     ('us, 'gs) UserGroupService option \<Rightarrow> 's \<Rightarrow> string \<Rightarrow> AdapterResource \<Rightarrow> string \<Rightarrow> bool" where
  "may_change_adapter S U G ugs s userID existing adapterID =
     (if AR_CreatedBy existing \<noteq> userID
      then (case ugs of
              None \<Rightarrow> False
            | Some us \<Rightarrow>
                if may_manage_groups U G us userID then True
                else (case GetUser U us userID of
                        Inl err \<Rightarrow> False
                      | Inr user \<Rightarrow> groups_have_access S s adapterID (User_Groups user)))
      else True)"

definition UpdateAdapter ::
    "'a AdapterResourceStore \<Rightarrow> 's AdapterGroupAssignmentStore \<Rightarrow> 'us UserStore \<Rightarrow> 'gs GroupStore \<Rightarrow>
     ('us, 'gs) UserGroupService option \<Rightarrow> env \<Rightarrow> string \<Rightarrow> AdapterResource \<Rightarrow>
     ('a, 's, 't) AdapterService \<Rightarrow> ('a, 's, 't) AdapterService \<times> error option" where
  "UpdateAdapter A S U G ugs e userID adapter st =
     (case ars_Get A (as_store st) (AR_ID adapter) of
        Inl err \<Rightarrow> (st, Some err)
      | Inr existing \<Rightarrow>
          if \<not> may_change_adapter S U G ugs (as_assignments st) userID existing (AR_ID adapter)
          then (st, Some ''adapter not found'')
          else (let r = ars_Update A e (adapter\<lparr>AR_CreatedBy := userID\<rparr>) (as_store st)
                in (st\<lparr>as_store := fst r\<rparr>, snd r)))"

text \<open>The cleanup of a sidecar goes to the cluster; a failure is logged and does not stop the
  deletion, so it leaves no trace in the model.\<close>

definition DeleteAdapter ::
    "'a AdapterResourceStore \<Rightarrow> 's AdapterGroupAssignmentStore \<Rightarrow> 'us UserStore \<Rightarrow> 'gs GroupStore \<Rightarrow>
     ('us, 'gs) UserGroupService option \<Rightarrow> env \<Rightarrow> string \<Rightarrow> string \<Rightarrow>
     ('a, 's, 't) AdapterService \<Rightarrow> ('a, 's, 't) AdapterService \<times> error option" where
  "DeleteAdapter A S U G ugs e userID adapterID st =
     (case ars_Get A (as_store st) adapterID of
        Inl err \<Rightarrow> (st, Some err)
      | Inr adapter \<Rightarrow>
          if \<not> may_change_adapter S U G ugs (as_assignments st) userID adapter adapterID
          then (st, Some ''adapter not found'')
          else (case ars_Delete A e adapterID (as_store st) of
                  (a', Some err) \<Rightarrow>
                    (st\<lparr>as_store := a'\<rparr>, Some (''failed to delete adapter from store: '' @ err))
                | (a', None) \<Rightarrow> (st\<lparr>as_store := a'\<rparr>, None)))"

subsection \<open>Listing adapters\<close>

text \<open>The assignments that a user's groups with \<open>adapter:read\<close> grant; \<open>kss i\<close> is the order of the
  loop inside the \<open>i\<close>-th listing.\<close>

definition grant_assignments ::
    "AdapterGroupAssignment list \<Rightarrow> (string \<rightharpoonup> bool) \<Rightarrow> (string \<rightharpoonup> bool)" where
  "grant_assignments as m =
     foldl (\<lambda>m a. if AGA_Permission a = ''read'' then m(AGA_AdapterID a \<mapsto> True) else m) m as"

fun groupAdapterMap ::
    "'s AdapterGroupAssignmentStore \<Rightarrow> 'gs GroupStore \<Rightarrow> ('us, 'gs) UserGroupService \<Rightarrow> 's \<Rightarrow>
     (nat \<Rightarrow> string list) \<Rightarrow> nat \<Rightarrow> string list \<Rightarrow> (string \<rightharpoonup> bool) \<Rightarrow> (string \<rightharpoonup> bool)" where
  "groupAdapterMap S G us s kss i [] m = m"
| "groupAdapterMap S G us s kss i (groupID # gs) m =
     (case CheckGroupPermission G us groupID ''adapter:read'' of
        Inl err \<Rightarrow> groupAdapterMap S G us s kss (Suc i) gs m
      | Inr hasReadPerm \<Rightarrow>
          if \<not> hasReadPerm then groupAdapterMap S G us s kss (Suc i) gs m
          else (case ags_ListAssignmentsForGroup S (kss i) s groupID of
                  Inl err \<Rightarrow> groupAdapterMap S G us s kss (Suc i) gs m
                | Inr assignments \<Rightarrow>
                    groupAdapterMap S G us s kss (Suc i) gs (grant_assignments assignments m)))"

fun add_group_adapters ::
    "'a AdapterResourceStore \<Rightarrow> 'a \<Rightarrow> string list \<Rightarrow> AdapterResource list \<Rightarrow> (string \<rightharpoonup> bool) \<Rightarrow>
     AdapterResource list" where
  "add_group_adapters A a [] allAdapters seenAdapters = allAdapters"
| "add_group_adapters A a (adapterID # ids) allAdapters seenAdapters =
     (if seenAdapters adapterID \<noteq> Some True
      then (case ars_Get A a adapterID of
              Inl err \<Rightarrow> add_group_adapters A a ids allAdapters seenAdapters
            | Inr adapter \<Rightarrow>
                add_group_adapters A a ids (allAdapters @ [adapter]) (seenAdapters(adapterID \<mapsto> True)))
      else add_group_adapters A a ids allAdapters seenAdapters)"

definition ListAdapters ::
    "'a AdapterResourceStore \<Rightarrow> 's AdapterGroupAssignmentStore \<Rightarrow> 'us UserStore \<Rightarrow> 'gs GroupStore \<Rightarrow>
     ('us, 'gs) UserGroupService option \<Rightarrow> string list \<Rightarrow> (nat \<Rightarrow> string list) \<Rightarrow> string list \<Rightarrow>
     ('a, 's, 't) AdapterService \<Rightarrow> string \<Rightarrow> ((AdapterResource list) result) option" where
  "ListAdapters A S U G ugs ks kss ks' st userID =
     (if (case ugs of None \<Rightarrow> False | Some us \<Rightarrow> may_manage_groups U G us userID)
      then Some (ars_ListAll A ks (as_store st))
      else
        (case ars_List A ks (as_store st) userID of
           Inl err \<Rightarrow> Some (Inl err)
         | Inr userAdapters \<Rightarrow>
             (case ugs of
                None \<Rightarrow> None
              | Some us \<Rightarrow>
                  (case GetUser U us userID of
                     Inl err \<Rightarrow> Some (Inr userAdapters)
                   | Inr user \<Rightarrow>
                       (let m = groupAdapterMap S G us (as_assignments st) kss 0 (User_Groups user) Map.empty;
                            seen = foldl (\<lambda>seen a. seen(AR_ID a \<mapsto> True)) Map.empty userAdapters
                        in Some (Inr (add_group_adapters A (as_store st)
                             (filter (\<lambda>k. m k \<noteq> None) ks') userAdapters seen)))))))"

subsection \<open>Assignments\<close>

definition may_assign ::
    "'us UserStore \<Rightarrow> 'gs GroupStore \<Rightarrow> ('us, 'gs) UserGroupService option \<Rightarrow> string \<Rightarrow> bool" where
  "may_assign U G ugs userID =
     (case ugs of
        None \<Rightarrow> False
      | Some us \<Rightarrow>
          if may_manage_groups U G us userID then True
          else (case GetUser U us userID of
                  Inl err \<Rightarrow> False
                | Inr user \<Rightarrow> HasPermission G us (User_Groups user) ''adapter:assign''))"

text \<open>What is left of \<open>AssignAdapterToGroup\<close> once the user may assign.\<close>

definition create_assignment ::
    "'a AdapterResourceStore \<Rightarrow> 's AdapterGroupAssignmentStore \<Rightarrow> 'gs GroupStore \<Rightarrow>
     ('us, 'gs) UserGroupService option \<Rightarrow> env \<Rightarrow> string \<Rightarrow> string \<Rightarrow> string \<Rightarrow> string \<Rightarrow>
     ('a, 's, 't) AdapterService \<Rightarrow> ('a, 's, 't) AdapterService \<times> error option" where
  "create_assignment A S G ugs e userID adapterID groupID permission st =
     (case ars_Get A (as_store st) adapterID of
        Inl err \<Rightarrow> (st, Some err)
      | Inr _ \<Rightarrow>
          (case (case ugs of None \<Rightarrow> Inr True
                 | Some us \<Rightarrow> CheckGroupPermission G us groupID ''adapter:assign'') of
             Inl err \<Rightarrow> (st, Some err)
           | Inr hasAssignPermission \<Rightarrow>
               if \<not> hasAssignPermission
               then (st, Some (''insufficient permissions: group '' @ groupID @
                               '' does not have adapter:assign permission''))
               else (let r = ags_CreateAssignment S e
                        \<lparr>AGA_ID = [], AGA_AdapterID = adapterID, AGA_GroupID = groupID,
                         AGA_Permission = permission, AGA_CreatedAt = env_now e,
                         AGA_UpdatedAt = env_now' e, AGA_CreatedBy = userID\<rparr> (as_assignments st)
                     in (st\<lparr>as_assignments := fst r\<rparr>, snd r))))"

definition AssignAdapterToGroup ::
    "'a AdapterResourceStore \<Rightarrow> 's AdapterGroupAssignmentStore \<Rightarrow> 'us UserStore \<Rightarrow> 'gs GroupStore \<Rightarrow>
     ('us, 'gs) UserGroupService option \<Rightarrow> env \<Rightarrow> string \<Rightarrow> string \<Rightarrow> string \<Rightarrow> string \<Rightarrow>
     ('a, 's, 't) AdapterService \<Rightarrow> ('a, 's, 't) AdapterService \<times> error option" where
  "AssignAdapterToGroup A S U G ugs e userID adapterID groupID permission st =
     (if \<not> may_assign U G ugs userID
      then (case ars_Get A (as_store st) adapterID of
              Inl err \<Rightarrow> (st, Some err)
            | Inr adapter \<Rightarrow>
                if AR_CreatedBy adapter \<noteq> userID
                then (st, Some ''insufficient permissions to assign adapter'')
                else create_assignment A S G ugs e userID adapterID groupID permission st)
      else create_assignment A S G ugs e userID adapterID groupID permission st)"

definition RemoveAdapterFromGroup ::
    "'a AdapterResourceStore \<Rightarrow> 's AdapterGroupAssignmentStore \<Rightarrow> 'us UserStore \<Rightarrow> 'gs GroupStore \<Rightarrow>
     ('us, 'gs) UserGroupService option \<Rightarrow> env \<Rightarrow> string \<Rightarrow> string \<Rightarrow> string \<Rightarrow>
     ('a, 's, 't) AdapterService \<Rightarrow> ('a, 's, 't) AdapterService \<times> error option" where
  "RemoveAdapterFromGroup A S U G ugs e userID adapterID groupID st =
     (let delete = (let r = ags_DeleteAssignment S e (adapterID, groupID) (as_assignments st)
                    in (st\<lparr>as_assignments := fst r\<rparr>, snd r)) in
      if \<not> may_assign U G ugs userID
      then (case ars_Get A (as_store st) adapterID of
              Inl err \<Rightarrow> (st, Some err)
            | Inr adapter \<Rightarrow>
                if AR_CreatedBy adapter \<noteq> userID
                then (st, Some ''insufficient permissions to remove adapter assignment'')
                else delete)
      else delete)"

definition ListAdapterAssignments ::
    "'a AdapterResourceStore \<Rightarrow> 's AdapterGroupAssignmentStore \<Rightarrow> 'us UserStore \<Rightarrow> 'gs GroupStore \<Rightarrow>
     ('us, 'gs) UserGroupService option \<Rightarrow> string list \<Rightarrow> ('a, 's, 't) AdapterService \<Rightarrow>
     string \<Rightarrow> string \<Rightarrow> (AdapterGroupAssignment list) result" where
  "ListAdapterAssignments A S U G ugs ks st userID adapterID =
     (case ars_Get A (as_store st) adapterID of
        Inl err \<Rightarrow> Inl err
      | Inr adapter \<Rightarrow>
          let hasAccess =
            (if AR_CreatedBy adapter = userID then True
             else case ugs of
                    None \<Rightarrow> False
                  | Some us \<Rightarrow>
                      if may_manage_groups U G us userID then True
                      else (case GetUser U us userID of
                              Inl err \<Rightarrow> False
                            | Inr user \<Rightarrow>
                                if HasPermission G us (User_Groups user) ''adapter:assign'' then True
                                else groups_have_access S (as_assignments st) adapterID (User_Groups user)))
          in if \<not> hasAccess then Inl ''adapter not found or access denied''
             else ags_ListAssignmentsForAdapter S ks (as_assignments st) adapterID)"

definition ListGroupAdapters ::
    "'s AdapterGroupAssignmentStore \<Rightarrow> 'us UserStore \<Rightarrow> 'gs GroupStore \<Rightarrow>
     ('us, 'gs) UserGroupService option \<Rightarrow> string list \<Rightarrow> ('a, 's, 't) AdapterService \<Rightarrow>
     string \<Rightarrow> string \<Rightarrow> (AdapterGroupAssignment list) result" where
  "ListGroupAdapters S U G ugs ks st userID groupID =
     (case ugs of
        None \<Rightarrow> ags_ListAssignmentsForGroup S ks (as_assignments st) groupID
      | Some us \<Rightarrow>
          let canView =
            (if may_manage_groups U G us userID then True
             else case GetUser U us userID of
                    Inl err \<Rightarrow> False
                  | Inr user \<Rightarrow> groupID \<in> set (User_Groups user))
          in if \<not> canView then Inl ''access denied''
             else ags_ListAssignmentsForGroup S ks (as_assignments st) groupID)"

subsection \<open>Tokens\<close>

text \<open>\<open>generateSecureToken\<close> draws 32 random bytes and writes them in base64: what it draws,
  \<open>random\<close>, is an argument.\<close>

definition GenerateUserAdapterToken :: "string \<Rightarrow> string \<Rightarrow> string \<Rightarrow> string" where
  "GenerateUserAdapterToken random userID adapterID =
     ''uat-'' @ userID @ ''-'' @ adapterID @ ''-'' @ random"

text \<open>The readings of the clock: in the lookup, in the second test of the expiry and for the time of
  last use. Only the last is stored.\<close>

definition GetOrCreateUserAdapterToken ::
    "'a AdapterResourceStore \<Rightarrow> 't UserAdapterTokenStore \<Rightarrow> gotime \<Rightarrow> gotime \<Rightarrow> gotime \<Rightarrow> env \<Rightarrow> string \<Rightarrow>
     string \<Rightarrow> string \<Rightarrow> ('a, 's, 't) AdapterService \<Rightarrow> ('a, 's, 't) AdapterService \<times> string result" where
  "GetOrCreateUserAdapterToken A T now now' now'' e random userID adapterID st =
     (case as_tokens st of
        None \<Rightarrow>
          (case ars_Get A (as_store st) adapterID of
             Inl err \<Rightarrow> (st, Inl (''failed to get adapter for token fallback: '' @ err))
           | Inr adapter \<Rightarrow>
               (case AD_Authentication adapter of
                  None \<Rightarrow> (st, Inr random)
                | Some auth \<Rightarrow>
                    (case AAC_BearerToken auth of
                       None \<Rightarrow> (st, Inr random)
                     | Some bearer \<Rightarrow> (st, Inr (BT_Token bearer)))))
      | Some ts \<Rightarrow>
          (let create =
             (let tokenValue = GenerateUserAdapterToken random userID adapterID
              in case uts_CreateToken T e
                   \<lparr>UAT_UserID = userID, UAT_AdapterID = adapterID, UAT_Token = tokenValue,
                    UAT_CreatedAt = now', UAT_ExpiresAt = None, UAT_LastUsedAt = None\<rparr> ts of
                   (ts', Some err) \<Rightarrow>
                     (st\<lparr>as_tokens := Some ts'\<rparr>, Inl (''failed to create user adapter token: '' @ err))
                 | (ts', None) \<Rightarrow> (st\<lparr>as_tokens := Some ts'\<rparr>, Inr tokenValue))
           in case uts_GetToken T now ts (userID, adapterID) of
                Inr token \<Rightarrow>
                  if \<not> IsExpired now' token
                  then (st\<lparr>as_tokens := Some (fst (uts_UpdateToken T e (UpdateLastUsed now'' token) ts))\<rparr>,
                        Inr (UAT_Token token))
                  else create
              | Inl err \<Rightarrow> create))"

definition ValidateUserAdapterToken ::
    "'t UserAdapterTokenStore \<Rightarrow> gotime \<Rightarrow> gotime \<Rightarrow> gotime \<Rightarrow> env \<Rightarrow> string list \<Rightarrow> string \<Rightarrow>
     ('a, 's, 't) AdapterService \<Rightarrow> ('a, 's, 't) AdapterService \<times> (string \<times> string) result" where
  "ValidateUserAdapterToken T now now' now'' e ks token st =
     (case as_tokens st of
        None \<Rightarrow> (st, Inl ''no user adapter token store configured'')
      | Some ts \<Rightarrow>
          (case uts_GetTokenByValue T now ks ts token of
             Inl err \<Rightarrow> (st, Inl err)
           | Inr tokenData \<Rightarrow>
               if IsExpired now' tokenData then (st, Inl ''token has expired'')
               else (st\<lparr>as_tokens := Some (fst (uts_UpdateToken T e (UpdateLastUsed now'' tokenData) ts))\<rparr>,
                     Inr (UAT_UserID tokenData, UAT_AdapterID tokenData))))"

subsection \<open>The service over stores that keep their contracts\<close>

text \<open>The adapters that assignments \<open>m\<close> grant through groups \<open>gs\<close> with permission
  \<open>adapter:read\<close>, and the orders the runtime may pick for the loops of one listing: over the
  adapters, over the assignments at each group and over the adapters granted to the user.\<close>

definition granted ::
    "'gs GroupStore \<Rightarrow> ('us, 'gs) UserGroupService \<Rightarrow> (string \<rightharpoonup> AdapterGroupAssignment) \<Rightarrow>
     string list \<Rightarrow> string set" where
  "granted G us m gs = {AGA_AdapterID x |x. x \<in> ran m \<and> AGA_Permission x = ''read'' \<and>
     AGA_GroupID x \<in> set gs \<and> CheckGroupPermission G us (AGA_GroupID x) ''adapter:read'' = Inr True}"

definition listing_orders ::
    "'gs GroupStore \<Rightarrow> ('us, 'gs) UserGroupService option \<Rightarrow> User option \<Rightarrow>
     (string \<rightharpoonup> AdapterResource) \<Rightarrow> (string \<rightharpoonup> AdapterGroupAssignment) \<Rightarrow>
     string list \<Rightarrow> (nat \<Rightarrow> string list) \<Rightarrow> string list \<Rightarrow> bool" where
  "listing_orders G ugs user adapters assigned ks kss ks' \<longleftrightarrow>
     range_order adapters ks \<and> (\<forall>i. range_order assigned (kss i)) \<and>
     (\<forall>us usr. ugs = Some us \<longrightarrow> user = Some usr \<longrightarrow>
        set ks' = granted G us assigned (User_Groups usr) \<and> distinct ks')"

locale adapter_service =
  user_group_service U G ucont gcont +
  adapters: adapter_store "ars_Create A" "ars_Update A" "ars_Delete A" acont "ars_Get A"
    "ars_List A" "ars_ListAll A" +
  assignments: assignment_store "ags_CreateAssignment S" "ags_UpdateAssignment S"
    "ags_DeleteAssignment S" scont "ags_GetAssignment S" "ags_ListAssignmentsForAdapter S"
    "ags_ListAssignmentsForGroup S" "ags_HasAccess S"
  for U :: "'us UserStore" and G :: "'gs GroupStore"
    and ucont :: "'us \<Rightarrow> (string \<rightharpoonup> User)" and gcont :: "'gs \<Rightarrow> (string \<rightharpoonup> Group)"
    and A :: "'a AdapterResourceStore" and S :: "'s AdapterGroupAssignmentStore"
    and acont :: "'a \<Rightarrow> (string \<rightharpoonup> AdapterResource)"
    and scont :: "'s \<Rightarrow> (string \<rightharpoonup> AdapterGroupAssignment)"
begin

lemma groups_have_access_iff:
  "groups_have_access S s aid gs \<longleftrightarrow>
    (\<exists>g\<in>set gs. \<exists>x. scont s (generateAssignmentID aid g) = Some x \<and> AGA_Permission x = ''read'')"
  by (auto simp: groups_have_access_def list_ex_iff assignments.has_access_eq)

lemma GetUser_iff: "GetUser U us u = Inr usr \<longleftrightarrow> ucont (ugs_userStore us) u = Some usr"
  by (simp add: GetUser_def users.get_iff)

lemma case_GetUser:
  "(case GetUser U us u of Inl err \<Rightarrow> c | Inr x \<Rightarrow> f x) =
   (case ucont (ugs_userStore us) u of None \<Rightarrow> c | Some x \<Rightarrow> f x)"
  by (cases rule: users.get_cases [of "ugs_userStore us" u]) (simp_all add: GetUser_def)

text \<open>Fetching an adapter succeeds exactly for its owner, for who may manage groups and for a member
  of a group the adapter is assigned to, and gives the stored adapter.\<close>

lemma GetAdapter_iff:
  "GetAdapter A S U G ugs st u aid = Inr a \<longleftrightarrow>
    acont (as_store st) aid = Some a \<and>
    (AR_CreatedBy a = u \<or>
     (\<exists>us. ugs = Some us \<and>
       (may_manage_groups U G us u \<or>
        (\<exists>usr. ucont (ugs_userStore us) u = Some usr \<and>
          groups_have_access S (as_assignments st) aid (User_Groups usr)))))"
  by (cases rule: adapters.get_cases [of "as_store st" aid])
    (auto simp: GetAdapter_def case_GetUser split: option.splits)

lemma may_change_adapter_iff:
  "may_change_adapter S U G ugs s u a aid \<longleftrightarrow>
    AR_CreatedBy a = u \<or>
     (\<exists>us. ugs = Some us \<and>
       (may_manage_groups U G us u \<or>
        (\<exists>usr. ucont (ugs_userStore us) u = Some usr \<and> groups_have_access S s aid (User_Groups usr))))"
  by (auto simp: may_change_adapter_def case_GetUser split: option.splits)

lemma may_change_iff_GetAdapter:
  "acont (as_store st) aid = Some a \<Longrightarrow>
   may_change_adapter S U G ugs (as_assignments st) u a aid \<longleftrightarrow> GetAdapter A S U G ugs st u aid = Inr a"
  by (simp add: may_change_adapter_iff GetAdapter_iff)

subsubsection \<open>What a listing holds\<close>

lemma grant_assignments_dom:
  "dom (grant_assignments as m) = dom m \<union> {AGA_AdapterID a |a. a \<in> set as \<and> AGA_Permission a = ''read''}"
proof (induction as arbitrary: m)
  case Nil
  then show ?case by (simp add: grant_assignments_def)
next
  case (Cons x as)
  have "grant_assignments (x # as) m =
      grant_assignments as (if AGA_Permission x = ''read'' then m(AGA_AdapterID x \<mapsto> True) else m)"
    by (simp add: grant_assignments_def)
  with Cons.IH show ?case by auto
qed

lemma groupAdapterMap_dom:
  assumes "\<And>i. range_order (scont s) (kss i)"
  shows "dom (groupAdapterMap S G us s kss i gs m) = dom m \<union> granted G us (scont s) gs"
proof (induction gs arbitrary: i m)
  case Nil
  then show ?case by (simp add: granted_def)
next
  case (Cons g gs)
  let ?own = "{AGA_AdapterID x |x. x \<in> ran (scont s) \<and> AGA_Permission x = ''read'' \<and> AGA_GroupID x = g}"
  show ?case
  proof (cases "CheckGroupPermission G us g ''adapter:read'' = Inr True")
    case True
    have "granted G us (scont s) (g # gs) = ?own \<union> granted G us (scont s) gs"
      using True by (auto simp: granted_def)
    moreover have "groupAdapterMap S G us s kss i (g # gs) m = groupAdapterMap S G us s kss (Suc i) gs
        (grant_assignments (filter (\<lambda>x. AGA_GroupID x = g) (range_values (scont s) (kss i))) m)"
      using True by (simp add: assignments.list_for_group_eq)
    ultimately show ?thesis
      by (auto simp: Cons.IH grant_assignments_dom set_range_values [OF assms])
  next
    case False
    then have "granted G us (scont s) (g # gs) = granted G us (scont s) gs" by (auto simp: granted_def)
    moreover have "groupAdapterMap S G us s kss i (g # gs) m = groupAdapterMap S G us s kss (Suc i) gs m"
      using False by (auto split: sum.splits)
    ultimately show ?thesis by (simp add: Cons.IH del: groupAdapterMap.simps)
  qed
qed

lemma set_add_group_adapters:
  "set (add_group_adapters A a ids all seen) =
    set all \<union> {x. \<exists>i\<in>set ids. seen i \<noteq> Some True \<and> acont a i = Some x}"
proof (induction ids arbitrary: all seen)
  case (Cons i ids)
  show ?case
  proof (cases rule: adapters.get_cases [of a i])
    case (absent err)
    then show ?thesis by (auto simp: Cons.IH)
  next
    case (present v)
    have "insert v {x. \<exists>j\<in>set ids. (seen(i \<mapsto> True)) j \<noteq> Some True \<and> acont a j = Some x} =
        insert v {x. \<exists>j\<in>set ids. seen j \<noteq> Some True \<and> acont a j = Some x}"
      using present(1) by (auto split: if_splits) (metis option.inject)
    note new = this
    show ?thesis
    proof (cases "seen i = Some True")
      case True
      with present show ?thesis by (auto simp: Cons.IH)
    next
      case False
      with present have "set (add_group_adapters A a (i # ids) all seen) = set all \<union>
          insert v {x. \<exists>j\<in>set ids. (seen(i \<mapsto> True)) j \<noteq> Some True \<and> acont a j = Some x}"
        by (simp add: Cons.IH del: fun_upd_apply)
      also have "\<dots> = set all \<union> {x. \<exists>j\<in>set (i # ids). seen j \<noteq> Some True \<and> acont a j = Some x}"
        unfolding new using present False by auto
      finally show ?thesis .
    qed
  qed
qed simp

lemma distinct_add_group_adapters:
  assumes keys: "adapters.keys_ok a"
  shows "distinct (map AR_ID all) \<Longrightarrow> (\<And>x. x \<in> set all \<Longrightarrow> seen (AR_ID x) = Some True) \<Longrightarrow>
    distinct (map AR_ID (add_group_adapters A a ids all seen))"
proof (induction ids arbitrary: all seen)
  case (Cons i ids)
  show ?case
  proof (cases rule: adapters.get_cases [of a i])
    case (absent err)
    with Cons show ?thesis by simp
  next
    case (present v)
    have v: "AR_ID v = i" using keys present(1) by (rule adapters.keys_okD)
    show ?thesis
    proof (cases "seen i = Some True")
      case True
      with Cons show ?thesis by simp
    next
      case False
      then have "i \<notin> AR_ID ` set all" using Cons.prems(2) by auto
      with Cons.prems v have "distinct (map AR_ID (all @ [v]))"
        and "\<And>x. x \<in> set (all @ [v]) \<Longrightarrow> (seen(i \<mapsto> True)) (AR_ID x) = Some True" by auto
      from Cons.IH [of "all @ [v]" "seen(i \<mapsto> True)", OF this] present False show ?thesis
        by (simp del: fun_upd_apply)
    qed
  qed
qed simp

lemma seen_own: "foldl (\<lambda>m x. m(AR_ID x \<mapsto> True)) m xs i = Some True \<longleftrightarrow>
    m i = Some True \<or> i \<in> AR_ID ` set xs"
  by (induction xs arbitrary: m) auto

lemma distinct_ids_range_values:
  "adapters.keys_ok a \<Longrightarrow> distinct ks \<Longrightarrow> distinct (map AR_ID (range_values (acont a) ks))"
proof (induction ks)
  case (Cons k ks)
  have "AR_ID ` set (range_values (acont a) ks) \<subseteq> set ks"
    using Cons.prems(1) by (auto simp: range_values_def List.map_filter_def dest: adapters.keys_okD)
  with Cons show ?case
    by (cases "acont a k") (auto simp: range_values_Cons dest: adapters.keys_okD)
qed simp

lemma ListAdapters_manager:
  "may_manage_groups U G us u \<Longrightarrow>
   ListAdapters A S U G (Some us) ks kss ks' st u = Some (Inr (range_values (acont (as_store st)) ks))"
  by (simp add: ListAdapters_def adapters.list_all_eq)

lemma ListAdapters_user:
  assumes keys: "adapters.keys_ok (as_store st)"
    and orders: "listing_orders G (Some us) (ucont (ugs_userStore us) u) (acont (as_store st))
      (scont (as_assignments st)) ks kss ks'"
    and plain: "\<not> may_manage_groups U G us u"
    and usr: "ucont (ugs_userStore us) u = Some usr"
  obtains L where "ListAdapters A S U G (Some us) ks kss ks' st u = Some (Inr L)"
    and "distinct (map AR_ID L)"
    and "set L = {a \<in> ran (acont (as_store st)). AR_CreatedBy a = u} \<union>
      {a. \<exists>i\<in>granted G us (scont (as_assignments st)) (User_Groups usr). acont (as_store st) i = Some a}"
proof -
  let ?a = "as_store st"
  let ?own = "filter (\<lambda>x. AR_CreatedBy x = u) (range_values (acont ?a) ks)"
  let ?m = "groupAdapterMap S G us (as_assignments st) kss 0 (User_Groups usr) Map.empty"
  let ?seen = "foldl (\<lambda>seen x. seen(AR_ID x \<mapsto> True)) Map.empty ?own"
  let ?ids = "filter (\<lambda>k. ?m k \<noteq> None) ks'"
  let ?L = "add_group_adapters A ?a ?ids ?own ?seen"
  from orders usr have ro: "range_order (acont ?a) ks"
    and dom: "dom ?m = granted G us (scont (as_assignments st)) (User_Groups usr)"
    and ks': "set ks' = granted G us (scont (as_assignments st)) (User_Groups usr)"
    by (simp_all add: listing_orders_def groupAdapterMap_dom)
  then have ids: "set ?ids = granted G us (scont (as_assignments st)) (User_Groups usr)" by auto
  have own: "set ?own = {x \<in> ran (acont ?a). AR_CreatedBy x = u}"
    by (auto simp: set_range_values [OF ro])
  have L: "ListAdapters A S U G (Some us) ks kss ks' st u = Some (Inr ?L)"
    using plain usr by (simp add: ListAdapters_def adapters.list_own_eq case_GetUser Let_def)
  have "distinct (map AR_ID ?own)"
    using distinct_ids_range_values [OF keys, of ks] ro
    by (simp add: distinct_map_filter range_order_def)
  then have d: "distinct (map AR_ID ?L)"
    by (rule distinct_add_group_adapters [OF keys]) (auto simp: seen_own)
  have "x \<in> set ?own" if "?seen i = Some True" "acont ?a i = Some x" for i x
  proof -
    from that(1) obtain y where y: "y \<in> set ?own" "AR_ID y = i" by (auto simp: seen_own)
    with own have "y \<in> ran (acont ?a)" by blast
    then obtain k where k: "acont ?a k = Some y" by (auto simp: ran_def)
    with y(2) adapters.keys_okD [OF keys k] that(2) have "y = x" by simp
    with y show ?thesis by simp
  qed
  then have "set ?L = set ?own \<union>
      {x. \<exists>i\<in>granted G us (scont (as_assignments st)) (User_Groups usr). acont ?a i = Some x}"
    unfolding set_add_group_adapters ids by blast
  with that [OF L d] own show thesis by simp
qed

text \<open>A user sees in a listing only adapters that \<open>GetAdapter\<close> gives him.\<close>

lemma listed_can_be_fetched:
  assumes keys: "adapters.keys_ok (as_store st)" "assignments.keys_ok (as_assignments st)"
    and orders: "listing_orders G (Some us) (ucont (ugs_userStore us) u) (acont (as_store st))
      (scont (as_assignments st)) ks kss ks'"
    and listed: "ListAdapters A S U G (Some us) ks kss ks' st u = Some (Inr L)" "a \<in> set L"
  shows "GetAdapter A S U G (Some us) st u (AR_ID a) = Inr a"
proof -
  have fetch: "acont (as_store st) (AR_ID a) = Some a" if "a \<in> ran (acont (as_store st))"
    using that adapters.keys_okD [OF keys(1)] by (auto simp: ran_def)
  consider (manager) "may_manage_groups U G us u"
    | (unknown) "\<not> may_manage_groups U G us u" "ucont (ugs_userStore us) u = None"
    | (user) usr where "\<not> may_manage_groups U G us u" "ucont (ugs_userStore us) u = Some usr"
    by (cases "ucont (ugs_userStore us) u") auto
  then show ?thesis
  proof cases
    case manager
    then have "a \<in> ran (acont (as_store st))"
      using listed set_range_values_subset [of "acont (as_store st)" ks]
      by (auto simp: ListAdapters_manager)
    with manager fetch show ?thesis by (auto simp: GetAdapter_iff)
  next
    case unknown
    then have "a \<in> ran (acont (as_store st)) \<and> AR_CreatedBy a = u"
      using listed set_range_values_subset [of "acont (as_store st)" ks]
      by (auto simp: ListAdapters_def adapters.list_own_eq case_GetUser Let_def)
    with fetch show ?thesis by (auto simp: GetAdapter_iff)
  next
    case (user usr)
    from ListAdapters_user [OF keys(1) orders user] obtain L' where
      "ListAdapters A S U G (Some us) ks kss ks' st u = Some (Inr L')"
      and "set L' = {a \<in> ran (acont (as_store st)). AR_CreatedBy a = u} \<union>
        {a. \<exists>i\<in>granted G us (scont (as_assignments st)) (User_Groups usr). acont (as_store st) i = Some a}" .
    with listed have "a \<in> {a \<in> ran (acont (as_store st)). AR_CreatedBy a = u} \<union>
      {a. \<exists>i\<in>granted G us (scont (as_assignments st)) (User_Groups usr). acont (as_store st) i = Some a}"
      by simp
    then show ?thesis
    proof
      assume "a \<in> {a \<in> ran (acont (as_store st)). AR_CreatedBy a = u}"
      with fetch show ?thesis by (auto simp: GetAdapter_iff)
    next
      assume "a \<in> {a. \<exists>i\<in>granted G us (scont (as_assignments st)) (User_Groups usr). acont (as_store st) i = Some a}"
      then obtain x where x: "x \<in> ran (scont (as_assignments st))" "AGA_Permission x = ''read''"
        "AGA_GroupID x \<in> set (User_Groups usr)"
        and a: "acont (as_store st) (AGA_AdapterID x) = Some a"
        by (auto simp: granted_def)
      have "AR_ID a = AGA_AdapterID x" using adapters.keys_okD [OF keys(1) a] .
      moreover have "groups_have_access S (as_assignments st) (AGA_AdapterID x) (User_Groups usr)"
        using assignments.assigned_has_access [OF keys(2) x(1,2)] x(3)
        by (auto simp: groups_have_access_def list_ex_iff)
      ultimately show ?thesis using a user by (auto simp: GetAdapter_iff)
    qed
  qed
qed

end

subsection \<open>The service on the stores of the program\<close>

lemmas adapter_vtables = InMemoryAdapterStore_ops_def FileAdapterStore_ops_def
  InMemoryAdapterGroupAssignmentStore_ops_def FileAdapterGroupAssignmentStore_ops_def

interpretation mem_adapter_service: adapter_service
  InMemoryUserStore_ops InMemoryGroupStore_ops imus_users imgs_groups
  InMemoryAdapterStore_ops InMemoryAdapterGroupAssignmentStore_ops imas_adapters imgas_assignments
  unfolding adapter_service_def adapter_vtables
    AdapterResourceStore.simps AdapterGroupAssignmentStore.simps
  by (intro conjI; unfold_locales)

interpretation file_adapter_service: adapter_service
  FileUserStore_ops FileGroupStore_ops fs_entries fs_entries
  FileAdapterStore_ops FileAdapterGroupAssignmentStore_ops fs_entries fs_entries
  unfolding adapter_service_def adapter_vtables
    AdapterResourceStore.simps AdapterGroupAssignmentStore.simps
  by (intro conjI; unfold_locales)

subsection \<open>Properties\<close>

text \<open>C2. Who may fetch an adapter, on stores kept in files: exactly its owner, whoever may manage
  groups, and the members of a group for which the store of assignments holds an entry with
  permission \<open>read\<close>; and what they get is the stored adapter.\<close>

theorem GetAdapter_exact:
  "GetAdapter FileAdapterStore_ops FileAdapterGroupAssignmentStore_ops FileUserStore_ops FileGroupStore_ops
     ugs st u aid = Inr a \<longleftrightarrow>
   fs_entries (as_store st) aid = Some a \<and>
   (AR_CreatedBy a = u \<or>
    (\<exists>us. ugs = Some us \<and>
      (CanManageGroups FileUserStore_ops FileGroupStore_ops us u = Inr True \<or>
       (\<exists>usr. fs_entries (ugs_userStore us) u = Some usr \<and>
         (\<exists>g \<in> set (User_Groups usr). \<exists>x. fs_entries (as_assignments st) (generateAssignmentID aid g) = Some x \<and>
            AGA_Permission x = ''read'')))))"
  unfolding file_adapter_service.GetAdapter_iff may_manage_groups_def
    file_adapter_service.groups_have_access_iff by blast

text \<open>C5. Every adapter in a user's listing can be fetched by that user, and is what the fetch
  returns: on file stores whose entries are filed under their own keys, in whatever order the loops
  run.\<close>

theorem listed_adapters_can_be_fetched:
  assumes "\<And>k x. fs_entries (as_store st) k = Some x \<Longrightarrow> AR_ID x = k"
    and "\<And>k x. fs_entries (as_assignments st) k = Some x \<Longrightarrow> assignment_key x = k"
    and "listing_orders FileGroupStore_ops (Some us) (fs_entries (ugs_userStore us) u)
      (fs_entries (as_store st)) (fs_entries (as_assignments st)) ks kss ks'"
    and "ListAdapters FileAdapterStore_ops FileAdapterGroupAssignmentStore_ops FileUserStore_ops
      FileGroupStore_ops (Some us) ks kss ks' st u = Some (Inr L)" and "a \<in> set L"
  shows "GetAdapter FileAdapterStore_ops FileAdapterGroupAssignmentStore_ops FileUserStore_ops
      FileGroupStore_ops (Some us) st u (AR_ID a) = Inr a"
  by (rule file_adapter_service.listed_can_be_fetched [OF _ _ assms(3-5)])
    (use assms(1,2) in \<open>auto simp: file_adapters.keys_ok_def file_assignments.keys_ok_def\<close>)

definition ex_adapter :: "string \<Rightarrow> string \<Rightarrow> AdapterResource" where
  "ex_adapter aid owner = AdapterResource_Create 1 [] (zero_AdapterData\<lparr>AD_Name := aid\<rparr>) owner 1"

definition ex_adapter_file :: "(FileAdapterStore, FileAdapterGroupAssignmentStore, unit) AdapterService" where
  "ex_adapter_file =
     \<lparr>as_store = \<lparr>fs_filePath = ''ad.json'', fs_entries = [''w'' \<mapsto> ex_adapter ''w'' ''system''],
                  fs_crypto = None, fs_disk = healthy_disk\<rparr>,
      as_assignments = ex_assignment_file, as_tokens = None\<rparr>"

definition ex_users_file :: "(FileUserStore, FileGroupStore) UserGroupService" where
  "ex_users_file = NewUserGroupService
     \<lparr>fs_filePath = ''users.json'', fs_entries = [''ann'' \<mapsto> ex_user ''ann'' [''ops'']], fs_crypto = None,
      fs_disk = healthy_disk\<rparr>
     \<lparr>fs_filePath = ''groups.json'',
      fs_entries = [''ops'' \<mapsto> zero_Group\<lparr>Group_ID := ''ops'', Group_Permissions := [''adapter:read'']\<rparr>],
      fs_crypto = None, fs_disk = healthy_disk\<rparr>"

lemmas eval_adapters = ex_adapter_file_def ex_users_file_def NewUserGroupService_def ex_assignment_file_def
  ex_assignment_def ex_user_def zero_Group_def FileUserStore_ops_def FileGroupStore_ops_def
  FileAdapterStore_ops_def FileAdapterGroupAssignmentStore_ops_def permissionMatches_no_star
  CheckGroupPermission_def FileGroupStore_Get_def FileUserStore_Get_def GetUser_def
  CanManageGroups_def may_manage_groups_def

lemma ex_granted:
  "granted FileGroupStore_ops ex_users_file (fs_entries (as_assignments ex_adapter_file)) [''ops''] = {''w''}"
proof -
  have "ran (fs_entries (as_assignments ex_adapter_file)) = {ex_assignment ''w'' ''ops'' ''read''}"
    by (simp add: ex_adapter_file_def ex_assignment_file_def)
  moreover have "CheckGroupPermission FileGroupStore_ops ex_users_file ''ops'' ''adapter:read'' = Inr True"
    by (simp add: eval_adapters)
  ultimately show ?thesis by (simp add: granted_def ex_assignment_def)
qed

theorem listed_adapters_can_be_fetched_witness:
  "GetAdapter FileAdapterStore_ops FileAdapterGroupAssignmentStore_ops FileUserStore_ops FileGroupStore_ops
     (Some ex_users_file) ex_adapter_file ''ann'' (AR_ID (ex_adapter ''w'' ''system'')) =
   Inr (ex_adapter ''w'' ''system'')"
proof (rule listed_adapters_can_be_fetched [where L = "[ex_adapter ''w'' ''system'']"
      and ks = "[''w'']" and kss = "\<lambda>_. [''w:ops'']" and ks' = "[''w'']"])
  have "fs_entries (ugs_userStore ex_users_file) ''ann'' = Some (ex_user ''ann'' [''ops''])"
    by (simp add: eval_adapters)
  moreover have "User_Groups (ex_user ''ann'' [''ops'']) = [''ops'']" by (simp add: ex_user_def)
  ultimately show "listing_orders FileGroupStore_ops (Some ex_users_file)
      (fs_entries (ugs_userStore ex_users_file) ''ann'') (fs_entries (as_store ex_adapter_file))
      (fs_entries (as_assignments ex_adapter_file)) [''w''] (\<lambda>_. [''w:ops'']) [''w'']"
    using ex_granted
    by (simp add: listing_orders_def) (simp add: eval_adapters range_order_def)
  show "ListAdapters FileAdapterStore_ops FileAdapterGroupAssignmentStore_ops FileUserStore_ops
      FileGroupStore_ops (Some ex_users_file) [''w''] (\<lambda>_. [''w:ops'']) [''w''] ex_adapter_file ''ann'' =
    Some (Inr [ex_adapter ''w'' ''system''])"
    by (simp add: ListAdapters_def eval_adapters FileAdapterStore_List_def range_values_Cons ex_adapter_def
        FileAdapterGroupAssignmentStore_ListAssignmentsForGroup_def grant_assignments_def
        FileAdapterStore_Get_def Let_def ex_bool_eq)
qed (auto simp: eval_adapters ex_adapter_def zero_AdapterData_def assignment_key_def
    generateAssignmentID_def split: if_splits)

text \<open>On stores in memory deletion follows the rule for fetching: a user for whom \<open>GetAdapter\<close>
  succeeds removes this adapter and nothing else, without an error; any other user gets an error and
  changes nothing.\<close>

theorem DeleteAdapter_exact:
  assumes "DeleteAdapter InMemoryAdapterStore_ops InMemoryAdapterGroupAssignmentStore_ops
      InMemoryUserStore_ops InMemoryGroupStore_ops ugs e u aid st = (st', r)"
  shows "if is_ok (GetAdapter InMemoryAdapterStore_ops InMemoryAdapterGroupAssignmentStore_ops
          InMemoryUserStore_ops InMemoryGroupStore_ops ugs st u aid)
    then r = None \<and> imas_adapters (as_store st') = (imas_adapters (as_store st))(aid := None) \<and>
      as_assignments st' = as_assignments st \<and> as_tokens st' = as_tokens st
    else r \<noteq> None \<and> st' = st"
proof (cases rule: mem_adapters.get_cases [of "as_store st" aid])
  case (absent err)
  then have "\<not> is_ok (GetAdapter InMemoryAdapterStore_ops InMemoryAdapterGroupAssignmentStore_ops
      InMemoryUserStore_ops InMemoryGroupStore_ops ugs st u aid)"
    by (auto simp: is_ok_iff mem_adapter_service.GetAdapter_iff)
  with absent assms show ?thesis by (auto simp: DeleteAdapter_def InMemoryAdapterStore_ops_def)
next
  case (present a)
  let ?may = "may_change_adapter InMemoryAdapterGroupAssignmentStore_ops InMemoryUserStore_ops
      InMemoryGroupStore_ops ugs (as_assignments st) u a aid"
  have may: "is_ok (GetAdapter InMemoryAdapterStore_ops InMemoryAdapterGroupAssignmentStore_ops
      InMemoryUserStore_ops InMemoryGroupStore_ops ugs st u aid) \<longleftrightarrow> ?may"
    using mem_adapter_service.may_change_iff_GetAdapter [OF present(1), of ugs u] present(1)
    by (auto simp: is_ok_iff mem_adapter_service.GetAdapter_iff)
  have "aid \<in> dom (imas_adapters (as_store st))" using present(1) by auto
  then have "snd (InMemoryAdapterStore_Delete e aid (as_store st)) = None"
    and "imas_adapters (fst (InMemoryAdapterStore_Delete e aid (as_store st))) =
      (imas_adapters (as_store st))(aid := None)"
    by (simp_all add: mem_adapters.delete_present mem_adapters.delete_contents)
  with present assms may show ?thesis
    by (cases "InMemoryAdapterStore_Delete e aid (as_store st)")
      (auto simp: DeleteAdapter_def InMemoryAdapterStore_ops_def)
qed

definition ex_mem_adapters :: "(InMemoryAdapterStore, InMemoryAdapterGroupAssignmentStore,
    InMemoryUserAdapterTokenStore) AdapterService" where
  "ex_mem_adapters = \<lparr>as_store = \<lparr>imas_adapters = [''w'' \<mapsto> ex_adapter ''w'' ''bob'']\<rparr>,
     as_assignments = \<lparr>imgas_assignments = [''w:ops'' \<mapsto> ex_assignment ''w'' ''ops'' ''read'']\<rparr>,
     as_tokens = Some NewInMemoryUserAdapterTokenStore\<rparr>"

definition ex_mem_users :: "(InMemoryUserStore, InMemoryGroupStore) UserGroupService" where
  "ex_mem_users = NewUserGroupService
     \<lparr>imus_users = [''ann'' \<mapsto> ex_user ''ann'' [''ops''], ''bob'' \<mapsto> ex_user ''bob'' []]\<rparr>
     \<lparr>imgs_groups = [''ops'' \<mapsto> zero_Group\<lparr>Group_ID := ''ops''\<rparr>]\<rparr>"

lemmas eval_mem_adapters = ex_mem_adapters_def ex_mem_users_def NewUserGroupService_def ex_assignment_def
  ex_user_def zero_Group_def InMemoryUserStore_ops_def InMemoryGroupStore_ops_def
  InMemoryAdapterStore_ops_def InMemoryAdapterGroupAssignmentStore_ops_def
  InMemoryGroupStore_Get_def InMemoryUserStore_Get_def InMemoryAdapterStore_Get_def GetUser_def
  CanManageGroups_def may_manage_groups_def groups_have_access_def generateAssignmentID_def
  InMemoryAdapterGroupAssignmentStore_HasAccess_def

theorem DeleteAdapter_exact_witness:
  "imas_adapters (as_store (fst (DeleteAdapter InMemoryAdapterStore_ops
      InMemoryAdapterGroupAssignmentStore_ops InMemoryUserStore_ops InMemoryGroupStore_ops
      (Some ex_mem_users) ex_env ''ann'' ''w'' ex_mem_adapters))) = Map.empty"
proof -
  have "GetAdapter InMemoryAdapterStore_ops InMemoryAdapterGroupAssignmentStore_ops
      InMemoryUserStore_ops InMemoryGroupStore_ops (Some ex_mem_users) ex_mem_adapters ''ann'' ''w'' =
      Inr (ex_adapter ''w'' ''bob'')"
    by (simp add: GetAdapter_def eval_mem_adapters)
  with DeleteAdapter_exact [where ugs = "Some ex_mem_users" and e = ex_env and u = "''ann''"
      and aid = "''w''" and st = ex_mem_adapters, OF prod.collapse [symmetric]]
  show ?thesis by (simp add: ex_mem_adapters_def)
qed

text \<open>Updating an adapter takes it over: any member of a group with a mere \<open>read\<close> assignment may
  write a new version of another user's adapter, and becomes its owner; the former owner, if no group
  or right of his own gives him access, cannot fetch it any more.\<close>

theorem UpdateAdapter_takes_over:
  assumes "imas_adapters (as_store st) (AR_ID new) = Some old"
    and reader: "imus_users (ugs_userStore us) u = Some usr" "g \<in> set (User_Groups usr)"
      "imgas_assignments (as_assignments st) (generateAssignmentID (AR_ID new) g) = Some x"
      "AGA_Permission x = ''read''"
    and upd: "UpdateAdapter InMemoryAdapterStore_ops InMemoryAdapterGroupAssignmentStore_ops
      InMemoryUserStore_ops InMemoryGroupStore_ops (Some us) e u new st = (st', r)"
    and other: "w \<noteq> u"
      "CanManageGroups InMemoryUserStore_ops InMemoryGroupStore_ops us w \<noteq> Inr True"
      "\<And>usr. imus_users (ugs_userStore us) w = Some usr \<Longrightarrow> User_Groups usr = []"
  shows "r = None \<and>
    GetAdapter InMemoryAdapterStore_ops InMemoryAdapterGroupAssignmentStore_ops InMemoryUserStore_ops
      InMemoryGroupStore_ops (Some us) st' u (AR_ID new) = Inr (new\<lparr>AR_CreatedBy := u\<rparr>) \<and>
    \<not> is_ok (GetAdapter InMemoryAdapterStore_ops InMemoryAdapterGroupAssignmentStore_ops
      InMemoryUserStore_ops InMemoryGroupStore_ops (Some us) st' w (AR_ID new))"
proof -
  let ?s = "as_store st"
  have "groups_have_access InMemoryAdapterGroupAssignmentStore_ops (as_assignments st) (AR_ID new) (User_Groups usr)"
    using reader by (auto simp: mem_adapter_service.groups_have_access_iff)
  then have may: "may_change_adapter InMemoryAdapterGroupAssignmentStore_ops InMemoryUserStore_ops
      InMemoryGroupStore_ops (Some us) (as_assignments st) u old (AR_ID new)"
    using reader(1) by (auto simp: mem_adapter_service.may_change_adapter_iff)
  let ?up = "InMemoryAdapterStore_Update e (new\<lparr>AR_CreatedBy := u\<rparr>) ?s"
  have "ars_Get InMemoryAdapterStore_ops ?s (AR_ID new) = Inr old"
    using assms(1) by (simp add: mem_adapter_service.adapters.get_iff)
  then have "st' = st\<lparr>as_store := fst ?up\<rparr>" and "r = snd ?up"
    using upd may by (auto simp: UpdateAdapter_def Let_def InMemoryAdapterStore_ops_def)
  moreover have "snd ?up = None"
    using assms(1) by (intro mem_adapters.update_present) auto
  moreover have "imas_adapters (fst ?up) = (imas_adapters ?s)(AR_ID new \<mapsto> new\<lparr>AR_CreatedBy := u\<rparr>)"
    using assms(1) by (subst mem_adapters.update_contents) (simp add: domIff)
  ultimately show ?thesis
    using other by (auto simp: is_ok_iff mem_adapter_service.GetAdapter_iff may_manage_groups_def
        groups_have_access_def)
qed

theorem UpdateAdapter_takes_over_witness:
  "\<not> is_ok (GetAdapter InMemoryAdapterStore_ops InMemoryAdapterGroupAssignmentStore_ops
      InMemoryUserStore_ops InMemoryGroupStore_ops (Some ex_mem_users)
      (fst (UpdateAdapter InMemoryAdapterStore_ops InMemoryAdapterGroupAssignmentStore_ops
        InMemoryUserStore_ops InMemoryGroupStore_ops (Some ex_mem_users) ex_env ''ann''
        (ex_adapter ''w'' ''x'') ex_mem_adapters)) ''bob'' ''w'')"
proof -
  have "imas_adapters (as_store ex_mem_adapters) (AR_ID (ex_adapter ''w'' ''x'')) = Some (ex_adapter ''w'' ''bob'')"
    and "imus_users (ugs_userStore ex_mem_users) ''ann'' = Some (ex_user ''ann'' [''ops''])"
    and "''ops'' \<in> set (User_Groups (ex_user ''ann'' [''ops'']))"
    and "imgas_assignments (as_assignments ex_mem_adapters)
      (generateAssignmentID (AR_ID (ex_adapter ''w'' ''x'')) ''ops'') = Some (ex_assignment ''w'' ''ops'' ''read'')"
    and "AGA_Permission (ex_assignment ''w'' ''ops'' ''read'') = ''read''"
    by (simp_all add: eval_mem_adapters ex_adapter_def zero_AdapterData_def)
  note h = this
  from UpdateAdapter_takes_over [where w = "''bob''" and e = ex_env, OF h prod.collapse [symmetric]] show ?thesis
    by (simp add: eval_mem_adapters ex_adapter_def zero_AdapterData_def)
qed

text \<open>A token for a user and an adapter. On a store in memory with no token for the pair,
  \<open>GetOrCreateUserAdapterToken\<close> returns the token it has just made; from then on that token
  identifies the user and the adapter at any time and in whatever order the store is searched, and
  asking again returns the same token, provided the random part makes it new.\<close>

theorem token_identifies_user_and_adapter:
  assumes ts: "as_tokens st = Some ts"
    and none: "imuts_tokens ts (makeKey u a) = None"
    and fresh: "\<And>t. t \<in> ran (imuts_tokens ts) \<Longrightarrow> UAT_Token t \<noteq> GenerateUserAdapterToken random u a"
    and get: "GetOrCreateUserAdapterToken A InMemoryUserAdapterTokenStore_ops now now' now'' e random u a st = (st', r)"
  shows "r = Inr (GenerateUserAdapterToken random u a) \<and>
    (\<forall>n n' n'' e' ks. range_order (imuts_tokens (the (as_tokens st'))) ks \<longrightarrow>
       snd (ValidateUserAdapterToken InMemoryUserAdapterTokenStore_ops n n' n'' e' ks
         (GenerateUserAdapterToken random u a) st') = Inr (u, a)) \<and>
    (\<forall>n n' n'' e' random'.
       snd (GetOrCreateUserAdapterToken A InMemoryUserAdapterTokenStore_ops n n' n'' e' random' u a st') = r)"
proof -
  let ?v = "GenerateUserAdapterToken random u a"
  let ?t = "\<lparr>UAT_UserID = u, UAT_AdapterID = a, UAT_Token = ?v, UAT_CreatedAt = now', UAT_ExpiresAt = None,
    UAT_LastUsedAt = None\<rparr>"
  let ?t' = "stamp_token e ?t"
  define ts' where "ts' = ts\<lparr>imuts_tokens := (imuts_tokens ts)(makeKey u a \<mapsto> ?t')\<rparr>"
  have create: "InMemoryUserAdapterTokenStore_CreateToken e ?t ts = (ts', None)"
    using none by (simp add: InMemoryUserAdapterTokenStore_CreateToken_def Let_def ts'_def)
  have r: "r = Inr ?v" and st': "as_tokens st' = Some ts'"
    using get none ts create
    by (auto simp: GetOrCreateUserAdapterToken_def Let_def InMemoryUserAdapterTokenStore_ops_def
        InMemoryUserAdapterTokenStore_GetToken_def)
  have live: "\<not> IsExpired n ?t'" and tok: "UAT_Token ?t' = ?v" "UAT_UserID ?t' = u" "UAT_AdapterID ?t' = a" for n
    by (simp_all add: IsExpired_def stamp_token_def)
  have ran: "ran (imuts_tokens ts') \<subseteq> insert ?t' (ran (imuts_tokens ts))" and here: "?t' \<in> ran (imuts_tokens ts')"
    unfolding ts'_def using ran_map_upd_subset [of "imuts_tokens ts" "makeKey u a" ?t'] by (auto simp: ran_def)
  have "InMemoryUserAdapterTokenStore_GetTokenByValue n ks ts' ?v = Inr ?t'"
    if "range_order (imuts_tokens ts') ks" for n ks
    using that here tok(1) _ live
    by (rule mem_tokens.by_value_unique) (use ran fresh in blast)
  then have "snd (ValidateUserAdapterToken InMemoryUserAdapterTokenStore_ops n n' n'' e' ks ?v st') = Inr (u, a)"
    if "range_order (imuts_tokens ts') ks" for n n' n'' e' ks
    using that live [of n'] st' tok
    by (simp add: ValidateUserAdapterToken_def InMemoryUserAdapterTokenStore_ops_def)
  moreover have "InMemoryUserAdapterTokenStore_GetToken n ts' (u, a) = Inr ?t'" for n
    using live by (simp add: mem_tokens.get_token_iff ts'_def)
  then have "snd (GetOrCreateUserAdapterToken A InMemoryUserAdapterTokenStore_ops n n' n'' e' random' u a st') = r"
    for n n' n'' e' random'
    using live [of n'] st' tok r
    by (simp add: GetOrCreateUserAdapterToken_def InMemoryUserAdapterTokenStore_ops_def Let_def)
  ultimately show ?thesis using r st' by simp
qed

theorem token_identifies_user_and_adapter_witness:
  "snd (GetOrCreateUserAdapterToken InMemoryAdapterStore_ops InMemoryUserAdapterTokenStore_ops 1 2 3 ex_env
     ''r4nd'' ''ann'' ''w'' ex_mem_adapters) = Inr ''uat-ann-w-r4nd''"
  using token_identifies_user_and_adapter [where st = ex_mem_adapters and u = "''ann''" and a = "''w''"
      and ts = NewInMemoryUserAdapterTokenStore and random = "''r4nd''" and A = InMemoryAdapterStore_ops
      and now = 1 and now' = 2 and now'' = 3 and e = ex_env, OF _ _ _ prod.collapse [symmetric]]
  by (simp add: ex_mem_adapters_def NewInMemoryUserAdapterTokenStore_def GenerateUserAdapterToken_def)

text \<open>An expired token locks its user out: as long as the token stays in the store,
  \<open>GetOrCreateUserAdapterToken\<close> neither returns it nor replaces it, but fails because a token
  exists.\<close>

theorem expired_token_blocks_renewal:
  assumes "as_tokens st = Some ts" and "imuts_tokens ts (makeKey u a) = Some t" and "IsExpired now t"
  shows "GetOrCreateUserAdapterToken A InMemoryUserAdapterTokenStore_ops now now' now'' e random u a st =
    (st, Inl (''failed to create user adapter token: token already exists for user '' @ u @
              '' and adapter '' @ a))"
  using assms
  by (simp add: GetOrCreateUserAdapterToken_def InMemoryUserAdapterTokenStore_ops_def Let_def
      InMemoryUserAdapterTokenStore_GetToken_def InMemoryUserAdapterTokenStore_CreateToken_def)

theorem expired_token_blocks_renewal_witness:
  "\<not> is_ok (snd (GetOrCreateUserAdapterToken InMemoryAdapterStore_ops InMemoryUserAdapterTokenStore_ops
     101 102 103 ex_env ''r4nd'' ''ann'' ''w''
     (ex_mem_adapters\<lparr>as_tokens := Some \<lparr>imuts_tokens = [''ann:w'' \<mapsto> ex_token]\<rparr>\<rparr>)))"
  using expired_token_blocks_renewal [of
      "ex_mem_adapters\<lparr>as_tokens := Some \<lparr>imuts_tokens = [''ann:w'' \<mapsto> ex_token]\<rparr>\<rparr>"
      "\<lparr>imuts_tokens = [''ann:w'' \<mapsto> ex_token]\<rparr>" "''ann''" "''w''" ex_token 101]
  by (simp add: makeKey_def ex_token_def IsExpired_def)

end
