(* ===== verification/SessionStore.thy ===== *)
theory SessionStore
  imports Models
begin

section \<open>The session store\<close>

text \<open>
  \<open>pkg/session/store.go\<close>: the sessions of the proxy, with their adapter, activity, OAuth tokens and
  MCP data. The store keeps a pointer to the token of a session and \<open>RefreshToken\<close> writes through
  it, so tokens live in a heap: \<open>SD_TokenInfo\<close> is an address and \<open>iss_tokens\<close> what the addresses
  hold. \<open>SetTokenInfo\<close> stores the address it is given, shared or not. The other pointers are never
  written through and are options. Every operation takes the store's lock and is one step.
\<close>

record TokenInfo =
  TI_AccessToken :: string
  TI_RefreshToken :: string
  TI_ExpiresAt :: gotime
  TI_TokenType :: string
  TI_Scope :: string
  TI_IssuedAt :: gotime

record AuthorizationInfo =
  AI_Status :: string
  AI_AuthorizationURL :: string
  AI_ErrorMessage :: string
  AI_AuthorizedAt :: gotime
  AI_ExpiresAt :: gotime
  AI_AccessToken :: string
  AI_RefreshToken :: string
  AI_TokenType :: string
  AI_Scope :: string

record MCPClientInfo =
  MCI_Name :: string
  MCI_Version :: string

record SessionServerInfo =
  SSI_Name :: string
  SSI_Version :: string
  SSI_Protocol :: string

record SessionDetails =
  SD_SessionID :: string
  SD_AdapterName :: string
  SD_TargetAddress :: string
  SD_ConnectionType :: string
  SD_CreatedAt :: gotime
  SD_LastActivity :: gotime
  SD_Status :: string
  SD_TokenInfo :: "nat option"
  SD_AuthorizationInfo :: "AuthorizationInfo option"
  SD_MCPSessionID :: string
  SD_MCPCapabilities :: "string \<rightharpoonup> any"
  SD_MCPClientInfo :: "MCPClientInfo option"
  SD_MCPServerInfo :: "SessionServerInfo option"

record InMemorySessionStore =
  iss_sessions :: "string \<rightharpoonup> SessionDetails"
  iss_tokens :: "nat \<rightharpoonup> TokenInfo"

definition NewInMemorySessionStore :: InMemorySessionStore where
  "NewInMemorySessionStore = \<lparr>iss_sessions = Map.empty, iss_tokens = Map.empty\<rparr>"

definition session_not_found :: "string \<Rightarrow> error" where
  "session_not_found sid = ''session not found: '' @ sid"

text \<open>The pattern of every setter: look the session up, change a copy, store it back.\<close>

definition set_session :: "string \<Rightarrow> (SessionDetails \<Rightarrow> SessionDetails) \<Rightarrow>
    InMemorySessionStore \<Rightarrow> InMemorySessionStore \<times> error option" where
  "set_session sid f s =
     (case iss_sessions s sid of
        None \<Rightarrow> (s, Some (session_not_found sid))
      | Some session \<Rightarrow> (s\<lparr>iss_sessions := (iss_sessions s)(sid \<mapsto> f session)\<rparr>, None))"

definition get_session :: "string \<Rightarrow> (SessionDetails \<Rightarrow> 'a result) \<Rightarrow> InMemorySessionStore \<Rightarrow> 'a result" where
  "get_session sid f s =
     (case iss_sessions s sid of None \<Rightarrow> Inl (session_not_found sid) | Some session \<Rightarrow> f session)"

subsection \<open>Sessions\<close>

definition SetWithDetails :: "gotime \<Rightarrow> string \<Rightarrow> string \<Rightarrow> string \<Rightarrow> string \<Rightarrow>
    InMemorySessionStore \<Rightarrow> InMemorySessionStore \<times> error option" where
  "SetWithDetails now sid adapterName targetAddress connectionType s =
     (s\<lparr>iss_sessions := (iss_sessions s)(sid \<mapsto>
        \<lparr>SD_SessionID = sid, SD_AdapterName = adapterName, SD_TargetAddress = targetAddress,
         SD_ConnectionType = connectionType, SD_CreatedAt = now, SD_LastActivity = now,
         SD_Status = ''active'', SD_TokenInfo = None, SD_AuthorizationInfo = None,
         SD_MCPSessionID = [], SD_MCPCapabilities = Map.empty, SD_MCPClientInfo = None,
         SD_MCPServerInfo = None\<rparr>)\<rparr>, None)"

definition InMemorySessionStore_Set ::
    "gotime \<Rightarrow> string \<Rightarrow> string \<Rightarrow> InMemorySessionStore \<Rightarrow> InMemorySessionStore \<times> error option" where
  "InMemorySessionStore_Set now sid targetAddress s = SetWithDetails now sid [] targetAddress [] s"

definition InMemorySessionStore_Get :: "InMemorySessionStore \<Rightarrow> string \<Rightarrow> string \<times> bool" where
  "InMemorySessionStore_Get s sid =
     (case iss_sessions s sid of None \<Rightarrow> ([], False) | Some details \<Rightarrow> (SD_TargetAddress details, True))"

definition ListByAdapter ::
    "string list \<Rightarrow> InMemorySessionStore \<Rightarrow> string \<Rightarrow> (SessionDetails list) result" where
  "ListByAdapter ks s adapterName =
     Inr (filter (\<lambda>session. SD_AdapterName session = adapterName) (range_values (iss_sessions s) ks))"

definition GetDetails :: "InMemorySessionStore \<Rightarrow> string \<Rightarrow> SessionDetails result" where
  "GetDetails s sid = get_session sid Inr s"

definition InMemorySessionStore_Delete ::
    "string \<Rightarrow> InMemorySessionStore \<Rightarrow> InMemorySessionStore \<times> error option" where
  "InMemorySessionStore_Delete sid s =
     (if iss_sessions s sid = None then (s, Some (session_not_found sid))
      else (s\<lparr>iss_sessions := (iss_sessions s)(sid := None)\<rparr>, None))"

definition DeleteByAdapter ::
    "string list \<Rightarrow> string \<Rightarrow> InMemorySessionStore \<Rightarrow> InMemorySessionStore \<times> error option" where
  "DeleteByAdapter ks adapterName s =
     (s\<lparr>iss_sessions := range_delete (\<lambda>session. SD_AdapterName session = adapterName) ks
          (iss_sessions s)\<rparr>, None)"

definition UpdateActivity ::
    "gotime \<Rightarrow> string \<Rightarrow> InMemorySessionStore \<Rightarrow> InMemorySessionStore \<times> error option" where
  "UpdateActivity now sid s = set_session sid (\<lambda>session. session\<lparr>SD_LastActivity := now\<rparr>) s"

definition CleanupExpired ::
    "gotime \<Rightarrow> string list \<Rightarrow> duration \<Rightarrow> InMemorySessionStore \<Rightarrow> InMemorySessionStore \<times> error option" where
  "CleanupExpired now ks maxAge s =
     (let cutoff = now + - maxAge in
      (s\<lparr>iss_sessions := range_delete (\<lambda>session. SD_LastActivity session < cutoff) ks
           (iss_sessions s)\<rparr>, None))"

subsection \<open>Tokens\<close>

definition SetTokenInfo ::
    "string \<Rightarrow> nat option \<Rightarrow> InMemorySessionStore \<Rightarrow> InMemorySessionStore \<times> error option" where
  "SetTokenInfo sid tokenInfo s = set_session sid (\<lambda>session. session\<lparr>SD_TokenInfo := tokenInfo\<rparr>) s"

definition GetTokenInfo :: "InMemorySessionStore \<Rightarrow> string \<Rightarrow> nat result" where
  "GetTokenInfo s sid = get_session sid
     (\<lambda>session. case SD_TokenInfo session of
        None \<Rightarrow> Inl (''no token info for session: '' @ sid) | Some p \<Rightarrow> Inr p) s"

definition SetAuthorizationInfo :: "string \<Rightarrow> AuthorizationInfo option \<Rightarrow>
    InMemorySessionStore \<Rightarrow> InMemorySessionStore \<times> error option" where
  "SetAuthorizationInfo sid authInfo s =
     set_session sid (\<lambda>session. session\<lparr>SD_AuthorizationInfo := authInfo\<rparr>) s"

definition GetAuthorizationInfo :: "InMemorySessionStore \<Rightarrow> string \<Rightarrow> AuthorizationInfo result" where
  "GetAuthorizationInfo s sid = get_session sid
     (\<lambda>session. case SD_AuthorizationInfo session of
        None \<Rightarrow> Inl (''no authorization info for session: '' @ sid) | Some info \<Rightarrow> Inr info) s"

text \<open>Following a pointer that is not in the heap would be a fault of the model, not of the code:
  the invariant below excludes it.\<close>

definition token_at :: "InMemorySessionStore \<Rightarrow> nat \<Rightarrow> TokenInfo" where
  "token_at s p = the (iss_tokens s p)"

definition IsTokenValid :: "gotime \<Rightarrow> InMemorySessionStore \<Rightarrow> string \<Rightarrow> bool" where
  "IsTokenValid now s sid =
     (case iss_sessions s sid of
        None \<Rightarrow> False
      | Some session \<Rightarrow>
          (case SD_TokenInfo session of
             None \<Rightarrow> False
           | Some p \<Rightarrow> let buffer = 5 * minute in now + buffer < TI_ExpiresAt (token_at s p)))"

definition zero_TokenInfo :: TokenInfo where
  "zero_TokenInfo = \<lparr>TI_AccessToken = [], TI_RefreshToken = [], TI_ExpiresAt = 0, TI_TokenType = [],
     TI_Scope = [], TI_IssuedAt = 0\<rparr>"

text \<open>\<open>fresh\<close> is the address the allocation of a new \<open>TokenInfo\<close> returns.\<close>

definition RefreshToken :: "gotime \<Rightarrow> nat \<Rightarrow> string \<Rightarrow> string \<Rightarrow> gotime \<Rightarrow>
    InMemorySessionStore \<Rightarrow> InMemorySessionStore \<times> error option" where
  "RefreshToken now fresh sid newAccessToken expiresAt s =
     (case iss_sessions s sid of
        None \<Rightarrow> (s, Some (session_not_found sid))
      | Some session \<Rightarrow>
          (let (p, tok) = (case SD_TokenInfo session of
                             None \<Rightarrow> (fresh, zero_TokenInfo) | Some p \<Rightarrow> (p, token_at s p));
               tok' = tok\<lparr>TI_AccessToken := newAccessToken, TI_ExpiresAt := expiresAt, TI_IssuedAt := now\<rparr>
           in (s\<lparr>iss_tokens := (iss_tokens s)(p \<mapsto> tok'),
                 iss_sessions := (iss_sessions s)(sid \<mapsto> session\<lparr>SD_TokenInfo := Some p\<rparr>)\<rparr>, None)))"

subsection \<open>MCP data\<close>

definition SetMCPSessionID :: "string \<Rightarrow> string \<Rightarrow>
    InMemorySessionStore \<Rightarrow> InMemorySessionStore \<times> error option" where
  "SetMCPSessionID sid mcpSessionID s = set_session sid (\<lambda>session. session\<lparr>SD_MCPSessionID := mcpSessionID\<rparr>) s"

definition GetMCPSessionID :: "InMemorySessionStore \<Rightarrow> string \<Rightarrow> string result" where
  "GetMCPSessionID s sid = get_session sid (\<lambda>session. Inr (SD_MCPSessionID session)) s"

definition SetMCPCapabilities :: "string \<Rightarrow> (string \<rightharpoonup> any) \<Rightarrow>
    InMemorySessionStore \<Rightarrow> InMemorySessionStore \<times> error option" where
  "SetMCPCapabilities sid capabilities s = set_session sid (\<lambda>session. session\<lparr>SD_MCPCapabilities := capabilities\<rparr>) s"

definition GetMCPCapabilities :: "InMemorySessionStore \<Rightarrow> string \<Rightarrow> (string \<rightharpoonup> any) result" where
  "GetMCPCapabilities s sid = get_session sid (\<lambda>session. Inr (SD_MCPCapabilities session)) s"

definition SetMCPClientInfo :: "string \<Rightarrow> MCPClientInfo option \<Rightarrow>
    InMemorySessionStore \<Rightarrow> InMemorySessionStore \<times> error option" where
  "SetMCPClientInfo sid clientInfo s = set_session sid (\<lambda>session. session\<lparr>SD_MCPClientInfo := clientInfo\<rparr>) s"

definition GetMCPClientInfo :: "InMemorySessionStore \<Rightarrow> string \<Rightarrow> (MCPClientInfo option) result" where
  "GetMCPClientInfo s sid = get_session sid (\<lambda>session. Inr (SD_MCPClientInfo session)) s"

definition SetMCPServerInfo :: "string \<Rightarrow> SessionServerInfo option \<Rightarrow>
    InMemorySessionStore \<Rightarrow> InMemorySessionStore \<times> error option" where
  "SetMCPServerInfo sid serverInfo s = set_session sid (\<lambda>session. session\<lparr>SD_MCPServerInfo := serverInfo\<rparr>) s"

definition GetMCPServerInfo :: "InMemorySessionStore \<Rightarrow> string \<Rightarrow> (SessionServerInfo option) result" where
  "GetMCPServerInfo s sid = get_session sid (\<lambda>session. Inr (SD_MCPServerInfo session)) s"

definition FindByMCPSessionID ::
    "string list \<Rightarrow> InMemorySessionStore \<Rightarrow> string \<Rightarrow> SessionDetails result" where
  "FindByMCPSessionID ks s mcpSessionID =
     (case find (\<lambda>session. SD_MCPSessionID session = mcpSessionID) (range_values (iss_sessions s) ks) of
        Some session \<Rightarrow> Inr session
      | None \<Rightarrow> Inl (''no session found with MCP session ID: '' @ mcpSessionID))"

definition GetActiveMCPSessions ::
    "string list \<Rightarrow> InMemorySessionStore \<Rightarrow> (SessionDetails list) result" where
  "GetActiveMCPSessions ks s =
     Inr (filter (\<lambda>session. SD_MCPSessionID session \<noteq> [] \<and> SD_Status session = ''active'')
       (range_values (iss_sessions s) ks))"

subsection \<open>Every history of the store\<close>

named_theorems session_ops

declare SetWithDetails_def [session_ops] InMemorySessionStore_Set_def [session_ops]
  InMemorySessionStore_Delete_def [session_ops] DeleteByAdapter_def [session_ops]
  UpdateActivity_def [session_ops] CleanupExpired_def [session_ops] SetTokenInfo_def [session_ops]
  SetAuthorizationInfo_def [session_ops] RefreshToken_def [session_ops]
  SetMCPSessionID_def [session_ops] SetMCPCapabilities_def [session_ops]
  SetMCPClientInfo_def [session_ops] SetMCPServerInfo_def [session_ops] set_session_def [session_ops]

text \<open>One operation of the store. A caller that sets a token has built it: the step allocates it,
  and \<open>SetTokenInfo\<close> gets the address. \<open>update\<close> stands for the setters that leave the identity,
  the adapter and the token of a session alone.\<close>

inductive session_step :: "InMemorySessionStore \<Rightarrow> InMemorySessionStore \<Rightarrow> bool" where
  set: "session_step s (fst (SetWithDetails now sid a t c s))"
| delete: "session_step s (fst (InMemorySessionStore_Delete sid s))"
| delete_adapter: "range_order (iss_sessions s) ks \<Longrightarrow> session_step s (fst (DeleteByAdapter ks a s))"
| activity: "session_step s (fst (UpdateActivity now sid s))"
| cleanup: "range_order (iss_sessions s) ks \<Longrightarrow> session_step s (fst (CleanupExpired now ks maxAge s))"
| token: "p \<notin> dom (iss_tokens s) \<Longrightarrow>
    session_step s (fst (SetTokenInfo sid (Some p) (s\<lparr>iss_tokens := (iss_tokens s)(p \<mapsto> tok)\<rparr>)))"
| no_token: "session_step s (fst (SetTokenInfo sid None s))"
| refresh: "p \<notin> dom (iss_tokens s) \<Longrightarrow> session_step s (fst (RefreshToken now p sid tok t s))"
| auth: "session_step s (fst (SetAuthorizationInfo sid info s))"
| mcp_id: "session_step s (fst (SetMCPSessionID sid mid s))"
| mcp_caps: "session_step s (fst (SetMCPCapabilities sid caps s))"
| mcp_client: "session_step s (fst (SetMCPClientInfo sid ci s))"
| mcp_server: "session_step s (fst (SetMCPServerInfo sid si s))"

text \<open>The invariant: a session is filed under its identifier, its token pointer leads to a token, and
  no two sessions share one.\<close>

definition sessions_ok :: "InMemorySessionStore \<Rightarrow> bool" where
  "sessions_ok s \<longleftrightarrow>
     (\<forall>k d. iss_sessions s k = Some d \<longrightarrow> SD_SessionID d = k) \<and>
     (\<forall>k d p. iss_sessions s k = Some d \<longrightarrow> SD_TokenInfo d = Some p \<longrightarrow> p \<in> dom (iss_tokens s)) \<and>
     (\<forall>k d k' d' p. iss_sessions s k = Some d \<longrightarrow> iss_sessions s k' = Some d' \<longrightarrow>
        SD_TokenInfo d = Some p \<longrightarrow> SD_TokenInfo d' = Some p \<longrightarrow> k = k')"

lemma sessions_okD:
  assumes "sessions_ok s"
  shows "iss_sessions s k = Some d \<Longrightarrow> SD_SessionID d = k"
    and "iss_sessions s k = Some d \<Longrightarrow> SD_TokenInfo d = Some p \<Longrightarrow> p \<in> dom (iss_tokens s)"
    and "iss_sessions s k = Some d \<Longrightarrow> iss_sessions s k' = Some d' \<Longrightarrow>
      SD_TokenInfo d = Some p \<Longrightarrow> SD_TokenInfo d' = Some p \<Longrightarrow> k = k'"
  using assms by (auto simp: sessions_ok_def)

lemma sessions_ok_New: "sessions_ok NewInMemorySessionStore"
  by (simp add: sessions_ok_def NewInMemorySessionStore_def)

lemma sessions_ok_restrict:
  assumes "sessions_ok s" and "\<And>k d. m k = Some d \<Longrightarrow> iss_sessions s k = Some d"
  shows "sessions_ok (s\<lparr>iss_sessions := m\<rparr>)"
  using assms unfolding sessions_ok_def by simp blast

text \<open>Storing a session back with its identity and token, or with a token address nobody has.\<close>

lemma sessions_ok_store:
  assumes ok: "sessions_ok s" and id: "SD_SessionID d' = sid"
    and heap: "dom (iss_tokens s) \<subseteq> dom h"
    and tok: "SD_TokenInfo d' = None \<or>
      (\<exists>d. iss_sessions s sid = Some d \<and> SD_TokenInfo d' = SD_TokenInfo d) \<or>
      (\<exists>p. SD_TokenInfo d' = Some p \<and> p \<in> dom h \<and> p \<notin> dom (iss_tokens s))"
  shows "sessions_ok (s\<lparr>iss_tokens := h, iss_sessions := (iss_sessions s)(sid \<mapsto> d')\<rparr>)"
proof -
  have in_heap: "p \<in> dom h" if "SD_TokenInfo d' = Some p" for p
    using tok that heap sessions_okD(2) [OF ok] by fastforce
  have alone: False if "SD_TokenInfo d' = Some p" "iss_sessions s k = Some d" "k \<noteq> sid" "SD_TokenInfo d = Some p"
    for p k d
    using tok that sessions_okD(2,3) [OF ok] by fastforce
  have old: "p \<in> dom h" if "iss_sessions s k = Some d" "SD_TokenInfo d = Some p" for k d p
    using sessions_okD(2) [OF ok that] heap by blast
  have "SD_SessionID d = k" if "((iss_sessions s)(sid \<mapsto> d')) k = Some d" for k d
    using that id sessions_okD(1) [OF ok] by (auto split: if_splits)
  moreover have "p \<in> dom h" if "((iss_sessions s)(sid \<mapsto> d')) k = Some d" "SD_TokenInfo d = Some p" for k d p
    using that in_heap old by (metis fun_upd_apply option.inject)
  moreover have "k = k'" if "((iss_sessions s)(sid \<mapsto> d')) k = Some d" "((iss_sessions s)(sid \<mapsto> d')) k' = Some e"
    "SD_TokenInfo d = Some p" "SD_TokenInfo e = Some p" for k d k' e p
    using that alone sessions_okD(3) [OF ok] by (metis fun_upd_apply option.inject)
  ultimately show ?thesis by (simp add: sessions_ok_def del: fun_upd_apply)
qed

lemma sessions_ok_set_session:
  assumes "sessions_ok s" and "\<And>d. SD_SessionID (f d) = SD_SessionID d"
    and "\<And>d. SD_TokenInfo (f d) = SD_TokenInfo d"
  shows "sessions_ok (fst (set_session sid f s))"
proof (cases "iss_sessions s sid")
  case (Some d)
  with sessions_ok_store [OF assms(1), of "f d" sid "iss_tokens s"] assms(2,3) sessions_okD(1) [OF assms(1) Some]
  show ?thesis by (simp add: set_session_def)
qed (simp add: assms set_session_def)

lemma session_step_ok: "session_step s s' \<Longrightarrow> sessions_ok s \<Longrightarrow> sessions_ok s'"
proof (induction rule: session_step.induct)
  case (set s now sid a t c)
  then show ?case
    using sessions_ok_store [of s _ sid "iss_tokens s"] by (simp add: SetWithDetails_def)
next
  case (delete s sid)
  then show ?case
    by (auto simp: InMemorySessionStore_Delete_def intro!: sessions_ok_restrict split: if_splits)
next
  case (delete_adapter s ks a)
  then show ?case
    by (auto simp: DeleteByAdapter_def range_delete_eq intro!: sessions_ok_restrict)
next
  case (cleanup s ks now maxAge)
  then show ?case
    by (auto simp: CleanupExpired_def Let_def range_delete_eq intro!: sessions_ok_restrict)
next
  case (token p s sid tok)
  show ?case
  proof (cases "iss_sessions s sid")
    case None
    have "sessions_ok (s\<lparr>iss_tokens := (iss_tokens s)(p \<mapsto> tok)\<rparr>)"
      using token.prems by (auto simp: sessions_ok_def)
    with None show ?thesis by (simp add: SetTokenInfo_def set_session_def)
  next
    case (Some d)
    with sessions_ok_store [OF token.prems, of "d\<lparr>SD_TokenInfo := Some p\<rparr>" sid "(iss_tokens s)(p \<mapsto> tok)"]
      sessions_okD(1) [OF token.prems Some] token.hyps
    show ?thesis by (auto simp: SetTokenInfo_def set_session_def)
  qed
next
  case (no_token s sid)
  show ?case
  proof (cases "iss_sessions s sid")
    case (Some d)
    with sessions_ok_store [OF no_token, of "d\<lparr>SD_TokenInfo := None\<rparr>" sid "iss_tokens s"]
      sessions_okD(1) [OF no_token Some]
    show ?thesis by (simp add: SetTokenInfo_def set_session_def)
  qed (simp add: no_token SetTokenInfo_def set_session_def)
next
  case (refresh p s now sid tok t)
  show ?case
  proof (cases "iss_sessions s sid")
    case (Some d)
    let ?p = "case SD_TokenInfo d of None \<Rightarrow> p | Some q \<Rightarrow> q"
    have "sessions_ok (s\<lparr>iss_tokens := (iss_tokens s)(?p \<mapsto> v),
        iss_sessions := (iss_sessions s)(sid \<mapsto> d\<lparr>SD_TokenInfo := Some ?p\<rparr>)\<rparr>)" for v
      using sessions_okD(1,2) [OF refresh.prems Some] Some refresh.hyps
      by (intro sessions_ok_store [OF refresh.prems]) (auto split: option.splits)
    with Some show ?thesis by (auto simp: RefreshToken_def Let_def split: option.splits)
  qed (simp add: refresh RefreshToken_def)
qed (auto simp: UpdateActivity_def SetAuthorizationInfo_def SetMCPSessionID_def SetMCPCapabilities_def
    SetMCPClientInfo_def SetMCPServerInfo_def intro!: sessions_ok_set_session)

lemma sessions_ok_reachable: "session_step\<^sup>*\<^sup>* s s' \<Longrightarrow> sessions_ok s \<Longrightarrow> sessions_ok s'"
  by (induction rule: rtranclp_induct) (blast intro: session_step_ok)+

subsection \<open>Properties\<close>


definition ex_sessions :: InMemorySessionStore where
  "ex_sessions = fst (RefreshToken 10 0 ''s1'' ''tok'' (10 + hour)
     (fst (SetWithDetails 5 ''s1'' ''weather'' ''http://t'' ''SSE'' NewInMemorySessionStore)))"

lemma ex_sessions_reachable: "session_step\<^sup>*\<^sup>* NewInMemorySessionStore ex_sessions"
proof -
  let ?s1 = "fst (SetWithDetails 5 ''s1'' ''weather'' ''http://t'' ''SSE'' NewInMemorySessionStore)"
  have "session_step NewInMemorySessionStore ?s1" by (rule session_step.set)
  moreover have "session_step ?s1 ex_sessions"
    unfolding ex_sessions_def
    by (rule session_step.refresh) (simp add: SetWithDetails_def NewInMemorySessionStore_def)
  ultimately show ?thesis by simp
qed

lemma ex_sessions_details: "\<exists>d. GetDetails ex_sessions ''s1'' = Inr d \<and> SD_TokenInfo d = Some 0"
  by (simp add: ex_sessions_def GetDetails_def get_session_def RefreshToken_def SetWithDetails_def
      NewInMemorySessionStore_def)


text \<open>Refreshing the token of a session that exists: the session then holds the new access token,
  valid exactly until five minutes before its expiry, and no other session's token changes, although
  the store writes through a pointer.\<close>

theorem RefreshToken_local:
  assumes "session_step\<^sup>*\<^sup>* NewInMemorySessionStore s" and "p \<notin> dom (iss_tokens s)"
    and "RefreshToken now p sid tok expiry s = (s', None)"
  shows "(\<exists>q. GetTokenInfo s' sid = Inr q \<and> TI_AccessToken (token_at s' q) = tok) \<and>
    (\<forall>n. IsTokenValid n s' sid \<longleftrightarrow> n + 5 * minute < expiry) \<and>
    (\<forall>n sid'. sid' \<noteq> sid \<longrightarrow> IsTokenValid n s' sid' = IsTokenValid n s sid' \<and>
       GetDetails s' sid' = GetDetails s sid')"
proof -
  have ok: "sessions_ok s" using assms(1) sessions_ok_New by (rule sessions_ok_reachable)
  obtain d where d: "iss_sessions s sid = Some d"
    using assms(3) by (auto simp: RefreshToken_def split: option.splits)
  define q where "q = (case SD_TokenInfo d of None \<Rightarrow> p | Some q \<Rightarrow> q)"
  obtain t where s': "s' = s\<lparr>iss_tokens := (iss_tokens s)(q \<mapsto> t),
      iss_sessions := (iss_sessions s)(sid \<mapsto> d\<lparr>SD_TokenInfo := Some q\<rparr>)\<rparr>"
    and t: "TI_AccessToken t = tok" "TI_ExpiresAt t = expiry"
    using assms(3) d by (auto simp: RefreshToken_def Let_def q_def split: option.splits)
  have "SD_TokenInfo d' \<noteq> Some q" if "iss_sessions s sid' = Some d'" "sid' \<noteq> sid" for sid' d'
    using that assms(2) sessions_okD(2,3) [OF ok] d by (fastforce simp: q_def split: option.splits)
  then have "IsTokenValid n s' sid' = IsTokenValid n s sid'" if "sid' \<noteq> sid" for n sid'
    using that by (auto simp: s' IsTokenValid_def token_at_def split: option.splits)
  moreover have "IsTokenValid n s' sid \<longleftrightarrow> n + 5 * minute < expiry" for n
    by (simp add: s' IsTokenValid_def token_at_def t Let_def)
  ultimately show ?thesis
    by (simp add: s' GetTokenInfo_def GetDetails_def get_session_def token_at_def t)
qed

theorem RefreshToken_local_witness:
  "IsTokenValid 99 (fst (RefreshToken 20 1 ''s1'' ''new'' (100 + 5 * minute) ex_sessions)) ''s1'' \<and>
   \<not> IsTokenValid 100 (fst (RefreshToken 20 1 ''s1'' ''new'' (100 + 5 * minute) ex_sessions)) ''s1''"
proof -
  have "1 \<notin> dom (iss_tokens ex_sessions)"
    and "RefreshToken 20 1 ''s1'' ''new'' (100 + 5 * minute) ex_sessions =
      (fst (RefreshToken 20 1 ''s1'' ''new'' (100 + 5 * minute) ex_sessions), None)"
    by (simp_all add: ex_sessions_def RefreshToken_def SetWithDetails_def NewInMemorySessionStore_def)
  from RefreshToken_local [OF ex_sessions_reachable this] show ?thesis by simp
qed

text \<open>\<open>CleanupExpired\<close> removes exactly the sessions whose last activity is older than the maximal
  age, in whatever order the map is visited, and leaves the others, and all tokens, as they
  were.\<close>

theorem CleanupExpired_exact:
  assumes "range_order (iss_sessions s) ks" and "CleanupExpired now ks maxAge s = (s', r)"
  shows "r = None \<and>
    (\<forall>sid. GetDetails s' sid =
      (case iss_sessions s sid of
         None \<Rightarrow> GetDetails s sid
       | Some d \<Rightarrow> if SD_LastActivity d < now - maxAge then Inl (session_not_found sid)
                   else GetDetails s sid)) \<and>
    iss_tokens s' = iss_tokens s"
  using assms
  by (auto simp: CleanupExpired_def Let_def GetDetails_def get_session_def range_delete_eq
      map_restrict_val_def split: option.splits)

theorem CleanupExpired_exact_witness:
  "GetDetails (fst (CleanupExpired 100 [''s1''] 95 ex_sessions)) ''s1'' = GetDetails ex_sessions ''s1'' \<and>
   GetDetails (fst (CleanupExpired 100 [''s1''] 94 ex_sessions)) ''s1'' = Inl (session_not_found ''s1'')"
proof -
  have ro: "range_order (iss_sessions ex_sessions) [''s1'']"
    and d: "\<exists>d. iss_sessions ex_sessions ''s1'' = Some d \<and> SD_LastActivity d = 5"
    by (simp_all add: ex_sessions_def RefreshToken_def SetWithDetails_def NewInMemorySessionStore_def
        range_order_def)
  from d CleanupExpired_exact [OF ro prod.collapse [symmetric], of 100 95]
    CleanupExpired_exact [OF ro prod.collapse [symmetric], of 100 94]
  show ?thesis by auto
qed

end
