(* ===== verification/MCPCache.thy ===== *)
theory MCPCache
  imports Models
begin

section \<open>The response cache\<close>

text \<open>
  \<open>pkg/mcp/cache.go\<close>. A cached response is filed under the hexadecimal SHA-256 of the adapter's
  name, the method and the parameters in JSON. The digest \<open>sha\<close> and \<open>json.Marshal\<close>, \<open>mj\<close>, are
  arguments; the theorems that need it assume of the digest that it has 64 characters, and nothing
  about collisions. \<open>jsize\<close> is the length of an entry in JSON, \<open>None\<close> if it cannot be encoded.
  The goroutine that calls \<open>cleanup\<close> appears as steps of the cache.
\<close>

record CacheEntry =
  CE_Data :: any
  CE_Timestamp :: gotime
  CE_TTL :: duration
  CE_HitCount :: int
  CE_ETag :: string

definition CacheEntry_IsExpired :: "gotime \<Rightarrow> CacheEntry \<Rightarrow> bool" where
  "CacheEntry_IsExpired now e \<longleftrightarrow> now - CE_Timestamp e > CE_TTL e"

definition CacheEntry_IsValid :: "gotime \<Rightarrow> CacheEntry \<Rightarrow> bool" where
  "CacheEntry_IsValid now e \<longleftrightarrow> \<not> CacheEntry_IsExpired now e \<and>
     (case CE_Data e of Nil_value \<Rightarrow> False | _ \<Rightarrow> True)"

record CacheConfig =
  CC_CapabilitiesTTL :: duration
  CC_ToolsListTTL :: duration
  CC_PromptsListTTL :: duration
  CC_ResourcesListTTL :: duration
  CC_ResponseTTL :: duration
  CC_MaxEntries :: int
  CC_MaxMemoryUsage :: int
  CC_EnableCompression :: bool
  CC_EnableMetrics :: bool
  CC_CleanupInterval :: duration

definition DefaultCacheConfig :: CacheConfig where
  "DefaultCacheConfig = \<lparr>CC_CapabilitiesTTL = 5 * minute, CC_ToolsListTTL = 2 * minute,
     CC_PromptsListTTL = 2 * minute, CC_ResourcesListTTL = 2 * minute, CC_ResponseTTL = 30 * second,
     CC_MaxEntries = 1000, CC_MaxMemoryUsage = 100 * 1024 * 1024, CC_EnableCompression = False,
     CC_EnableMetrics = True, CC_CleanupInterval = 1 * minute\<rparr>"

record CacheMetrics =
  CM_Hits :: int
  CM_Misses :: int
  CM_Evictions :: int
  CM_Entries :: int
  CM_MemoryUsage :: int
  CM_TotalHitTime :: duration

definition IncrementHit :: "duration \<Rightarrow> CacheMetrics \<Rightarrow> CacheMetrics" where
  "IncrementHit d m = m\<lparr>CM_Hits := CM_Hits m + 1, CM_TotalHitTime := CM_TotalHitTime m + d\<rparr>"

definition IncrementMiss :: "CacheMetrics \<Rightarrow> CacheMetrics" where
  "IncrementMiss m = m\<lparr>CM_Misses := CM_Misses m + 1\<rparr>"

definition IncrementEvictions :: "CacheMetrics \<Rightarrow> CacheMetrics" where
  "IncrementEvictions m = m\<lparr>CM_Evictions := CM_Evictions m + 1\<rparr>"

definition UpdateEntries :: "int \<Rightarrow> int \<Rightarrow> CacheMetrics \<Rightarrow> CacheMetrics" where
  "UpdateEntries count memory m = m\<lparr>CM_Entries := count, CM_MemoryUsage := memory\<rparr>"

record MCPCache =
  mc_config :: CacheConfig
  mc_cache :: "string \<rightharpoonup> CacheEntry"
  mc_metrics :: CacheMetrics

definition NewMCPCache :: "CacheConfig option \<Rightarrow> MCPCache" where
  "NewMCPCache config =
     \<lparr>mc_config = (case config of None \<Rightarrow> DefaultCacheConfig | Some c \<Rightarrow> c), mc_cache = Map.empty,
      mc_metrics = \<lparr>CM_Hits = 0, CM_Misses = 0, CM_Evictions = 0, CM_Entries = 0, CM_MemoryUsage = 0,
                    CM_TotalHitTime = 0\<rparr>\<rparr>"

definition generateCacheKey :: "(string \<Rightarrow> string) \<Rightarrow> (any \<Rightarrow> string) \<Rightarrow> string \<Rightarrow> string \<Rightarrow> any \<Rightarrow> string" where
  "generateCacheKey sha mj adapterName method params =
     sha (adapterName @ '':'' @ method @
       (case params of Nil_value \<Rightarrow> [] | _ \<Rightarrow> '':'' @ mj params))"

definition getTTLForMethod :: "CacheConfig \<Rightarrow> string \<Rightarrow> duration" where
  "getTTLForMethod config method =
     (if method = ''initialize'' \<or> method = ''capabilities'' then CC_CapabilitiesTTL config
      else if method = ''tools/list'' then CC_ToolsListTTL config
      else if method = ''prompts/list'' then CC_PromptsListTTL config
      else if method = ''resources/list'' then CC_ResourcesListTTL config
      else CC_ResponseTTL config)"

text \<open>The number of entries, \<open>len(c.cache)\<close>, counted along an order of the map.\<close>

definition cache_len :: "string list \<Rightarrow> MCPCache \<Rightarrow> int" where
  "cache_len ks c = int (length (range_values (mc_cache c) ks))"

definition cache_updateMetrics :: "(CacheEntry \<Rightarrow> int option) \<Rightarrow> string list \<Rightarrow> MCPCache \<Rightarrow> MCPCache" where
  "cache_updateMetrics jsize ks c =
     (if \<not> CC_EnableMetrics (mc_config c) then c
      else (let memory = sum_list (map (\<lambda>e. case jsize e of None \<Rightarrow> 0 | Some n \<Rightarrow> n)
                  (range_values (mc_cache c) ks))
            in c\<lparr>mc_metrics := UpdateEntries (cache_len ks c) memory (mc_metrics c)\<rparr>))"

text \<open>\<open>Get\<close> counts a hit in a deferred call, whatever it returns.\<close>

definition MCPCache_Get ::
    "(string \<Rightarrow> string) \<Rightarrow> (any \<Rightarrow> string) \<Rightarrow> gotime \<Rightarrow> duration \<Rightarrow> string \<Rightarrow> string \<Rightarrow> any \<Rightarrow>
     MCPCache \<Rightarrow> MCPCache \<times> any \<times> bool" where
  "MCPCache_Get sha mj now elapsed adapterName method params c =
     (let metrics = CC_EnableMetrics (mc_config c);
          hit = (\<lambda>c. if metrics then c\<lparr>mc_metrics := IncrementHit elapsed (mc_metrics c)\<rparr> else c);
          key = generateCacheKey sha mj adapterName method params;
          miss = hit (if metrics then c\<lparr>mc_metrics := IncrementMiss (mc_metrics c)\<rparr> else c)
      in case mc_cache c key of
           None \<Rightarrow> (miss, Nil_value, False)
         | Some entry \<Rightarrow>
             if \<not> CacheEntry_IsValid now entry then (miss, Nil_value, False)
             else (hit (c\<lparr>mc_cache := (mc_cache c)(key \<mapsto> entry\<lparr>CE_HitCount := CE_HitCount entry + 1\<rparr>)\<rparr>),
                   CE_Data entry, True))"

text \<open>The loop of \<open>evictLRU\<close>, with its two variables.\<close>

fun least_hit :: "(string \<rightharpoonup> CacheEntry) \<Rightarrow> string list \<Rightarrow> string \<Rightarrow> int \<Rightarrow> string" where
  "least_hit m [] oldestKey lowestHitCount = oldestKey"
| "least_hit m (key # ks) oldestKey lowestHitCount =
     (case m key of
        None \<Rightarrow> least_hit m ks oldestKey lowestHitCount
      | Some entry \<Rightarrow>
          if lowestHitCount = -1 \<or> CE_HitCount entry < lowestHitCount
          then least_hit m ks key (CE_HitCount entry)
          else least_hit m ks oldestKey lowestHitCount)"

definition evictLRU :: "string list \<Rightarrow> MCPCache \<Rightarrow> MCPCache" where
  "evictLRU ks c =
     (if cache_len ks c = 0 then c
      else (let oldestKey = least_hit (mc_cache c) ks [] (-1) in
            if oldestKey \<noteq> []
            then (let c' = c\<lparr>mc_cache := (mc_cache c)(oldestKey := None)\<rparr> in
                  if CC_EnableMetrics (mc_config c)
                  then c'\<lparr>mc_metrics := IncrementEvictions (mc_metrics c')\<rparr> else c')
            else c))"

text \<open>\<open>ks\<close> is the order of the map before the call, for the eviction, \<open>ks'\<close> its order after.\<close>

definition MCPCache_Set ::
    "(string \<Rightarrow> string) \<Rightarrow> (any \<Rightarrow> string) \<Rightarrow> (CacheEntry \<Rightarrow> int option) \<Rightarrow> gotime \<Rightarrow> string list \<Rightarrow> string list \<Rightarrow>
     string \<Rightarrow> string \<Rightarrow> any \<Rightarrow> any \<Rightarrow> string list \<Rightarrow> MCPCache \<Rightarrow> MCPCache" where
  "MCPCache_Set sha mj jsize now ks ks' adapterName method params data etag c =
     (let key = generateCacheKey sha mj adapterName method params;
          entry = \<lparr>CE_Data = data, CE_Timestamp = now, CE_TTL = getTTLForMethod (mc_config c) method,
                   CE_HitCount = 0, CE_ETag = (case etag of [] \<Rightarrow> [] | t # _ \<Rightarrow> t)\<rparr>;
          c1 = (if cache_len ks c \<ge> CC_MaxEntries (mc_config c) then evictLRU ks c else c)
      in cache_updateMetrics jsize ks' (c1\<lparr>mc_cache := (mc_cache c1)(key \<mapsto> entry)\<rparr>))"

definition keyMatches :: "(string \<Rightarrow> string) \<Rightarrow> (any \<Rightarrow> string) \<Rightarrow> string \<Rightarrow> string \<Rightarrow> string \<Rightarrow> bool" where
  "keyMatches sha mj key adapterName method =
     (let expectedKey = generateCacheKey sha mj adapterName method Nil_value in key = expectedKey)"

definition keyMatchesAdapter :: "(string \<Rightarrow> string) \<Rightarrow> (any \<Rightarrow> string) \<Rightarrow> string \<Rightarrow> string \<Rightarrow> bool" where
  "keyMatchesAdapter sha mj key adapterName =
     (let testKey = generateCacheKey sha mj adapterName ''test'' Nil_value
      in length key \<ge> length testKey \<and> take (length testKey) key = take (length testKey) testKey)"

definition keyMatchesMethod :: "(string \<Rightarrow> string) \<Rightarrow> (any \<Rightarrow> string) \<Rightarrow> string \<Rightarrow> string \<Rightarrow> bool" where
  "keyMatchesMethod sha mj key method =
     (let testKey1 = generateCacheKey sha mj ''adapter1'' method Nil_value;
          n = length (generateCacheKey sha mj ''adapter1'' [] Nil_value)
      in if length key \<ge> length testKey1
         then (let suffix1 = drop n testKey1; suffix2 = drop n key
               in length suffix2 \<ge> length suffix1 \<and> take (length suffix1) suffix2 = suffix1)
         else False)"


text \<open>The loops \<open>for _, key := range keysToDelete { delete(c.cache, key) }\<close>.\<close>

definition delete_keys :: "string list \<Rightarrow> MCPCache \<Rightarrow> MCPCache" where
  "delete_keys keysToDelete c = c\<lparr>mc_cache := foldl (\<lambda>m k. m(k := None)) (mc_cache c) keysToDelete\<rparr>"

definition MCPCache_Invalidate ::
    "(string \<Rightarrow> string) \<Rightarrow> (any \<Rightarrow> string) \<Rightarrow> (CacheEntry \<Rightarrow> int option) \<Rightarrow> string list \<Rightarrow> string list \<Rightarrow>
     string \<Rightarrow> string \<Rightarrow> MCPCache \<Rightarrow> MCPCache" where
  "MCPCache_Invalidate sha mj jsize ks ks' adapterName method c =
     (let keysToDelete = filter (\<lambda>key.
            if adapterName \<noteq> [] \<and> method \<noteq> [] then keyMatches sha mj key adapterName method
            else if adapterName \<noteq> [] then keyMatchesAdapter sha mj key adapterName
            else if method \<noteq> [] then keyMatchesMethod sha mj key method
            else False) ks
      in cache_updateMetrics jsize ks' (delete_keys keysToDelete c))"

definition InvalidateAll :: "(CacheEntry \<Rightarrow> int option) \<Rightarrow> MCPCache \<Rightarrow> MCPCache" where
  "InvalidateAll jsize c = cache_updateMetrics jsize [] (c\<lparr>mc_cache := Map.empty\<rparr>)"

definition MCPCache_cleanup ::
    "(CacheEntry \<Rightarrow> int option) \<Rightarrow> gotime \<Rightarrow> string list \<Rightarrow> string list \<Rightarrow> MCPCache \<Rightarrow> MCPCache" where
  "MCPCache_cleanup jsize now ks ks' c =
     (let keysToDelete = filter (\<lambda>key. case mc_cache c key of None \<Rightarrow> False
            | Some entry \<Rightarrow> CacheEntry_IsExpired now entry) ks
      in cache_updateMetrics jsize ks' (delete_keys keysToDelete c))"

text \<open>The hit rate that \<open>CacheStats\<close> reports, before it is rounded and formatted.\<close>

definition CacheStats_hitRate :: "CacheMetrics \<Rightarrow> rat" where
  "CacheStats_hitRate m =
     (if CM_Hits m + CM_Misses m > 0
      then of_int (CM_Hits m) / of_int (CM_Hits m + CM_Misses m) * 100 else 0)"

definition IsCacheable :: "string \<Rightarrow> int \<Rightarrow> bool" where
  "IsCacheable method statusCode =
     (if statusCode \<ge> 200 \<and> statusCode < 300
      then method \<in> {''tools/list'', ''prompts/list'', ''resources/list'', ''capabilities''}
      else False)"

subsection \<open>What the operations do to the entries\<close>

lemma foldl_delete: "foldl (\<lambda>m k. m(k := None)) m ks = m |` (- set ks)"
  by (induction ks arbitrary: m) (auto simp: restrict_map_def fun_eq_iff)

lemma restrict_None: "m k = None \<Longrightarrow> (m |` A) k = None"
  by (simp add: restrict_map_def)

lemma cache_updateMetrics_simps [simp]:
  "mc_cache (cache_updateMetrics jsize ks c) = mc_cache c"
  "mc_config (cache_updateMetrics jsize ks c) = mc_config c"
  "CM_Hits (mc_metrics (cache_updateMetrics jsize ks c)) = CM_Hits (mc_metrics c)"
  "CM_Misses (mc_metrics (cache_updateMetrics jsize ks c)) = CM_Misses (mc_metrics c)"
  by (simp_all add: cache_updateMetrics_def UpdateEntries_def Let_def)

lemma delete_keys_simps [simp]:
  "mc_cache (delete_keys ks c) = mc_cache c |` (- set ks)"
  "mc_config (delete_keys ks c) = mc_config c"
  "mc_metrics (delete_keys ks c) = mc_metrics c"
  by (simp_all add: delete_keys_def foldl_delete)

lemma least_hit_from:
  assumes "\<forall>x e. m x = Some e \<longrightarrow> 0 \<le> CE_HitCount e" and "m k0 = Some e0"
  shows "\<exists>e. m (least_hit m ks k0 (CE_HitCount e0)) = Some e \<and> CE_HitCount e \<le> CE_HitCount e0 \<and>
     (\<forall>x \<in> set ks. \<forall>e'. m x = Some e' \<longrightarrow> CE_HitCount e \<le> CE_HitCount e')"
  using assms(2)
proof (induction ks arbitrary: k0 e0)
  case Nil
  then show ?case by simp
next
  case (Cons key ks)
  have "0 \<le> CE_HitCount e0" using assms(1) Cons.prems by blast
  then have h: "CE_HitCount e0 \<noteq> -1" by simp
  show ?case
  proof (cases "\<exists>e. m key = Some e \<and> CE_HitCount e < CE_HitCount e0")
    case True
    then obtain e where e: "m key = Some e" "CE_HitCount e < CE_HitCount e0" by blast
    from Cons.IH [OF e(1)] e h show ?thesis by (auto intro: order.trans less_imp_le)
  next
    case False
    with h have "least_hit m (key # ks) k0 (CE_HitCount e0) = least_hit m ks k0 (CE_HitCount e0)"
      by (auto split: option.splits)
    with Cons.IH [OF Cons.prems] False show ?thesis
      by (auto simp: not_less intro: order.trans)
  qed
qed

lemma least_hit_least:
  assumes "\<forall>x e. m x = Some e \<longrightarrow> 0 \<le> CE_HitCount e" and "range_order m ks" and "dom m \<noteq> {}"
  shows "\<exists>e. m (least_hit m ks k0 (-1)) = Some e \<and>
     (\<forall>x e'. m x = Some e' \<longrightarrow> CE_HitCount e \<le> CE_HitCount e')"
proof -
  obtain key ks' where ks: "ks = key # ks'"
    using assms(2,3) by (cases ks) (auto simp: range_order_def)
  then obtain e0 where e0: "m key = Some e0" using assms(2) by (auto simp: range_order_def)
  obtain e where e: "m (least_hit m ks' key (CE_HitCount e0)) = Some e"
      "CE_HitCount e \<le> CE_HitCount e0"
      "\<forall>x \<in> set ks'. \<forall>e'. m x = Some e' \<longrightarrow> CE_HitCount e \<le> CE_HitCount e'"
    using least_hit_from [OF assms(1) e0, of ks'] by blast
  have "CE_HitCount e \<le> CE_HitCount e'" if x: "m x = Some e'" for x e'
  proof -
    have "x = key \<or> x \<in> set ks'" using x assms(2) by (auto simp: ks range_order_def)
    then show ?thesis using e(2,3) e0 x by auto
  qed
  moreover have "least_hit m ks k0 (-1) = least_hit m ks' key (CE_HitCount e0)"
    by (simp add: ks e0)
  ultimately show ?thesis using e(1) by metis
qed

lemma cache_len: "range_order (mc_cache c) ks \<Longrightarrow> cache_len ks c = int (card (dom (mc_cache c)))"
  by (simp add: cache_len_def length_range_values)

lemma evictLRU_simps [simp]:
  "mc_config (evictLRU ks c) = mc_config c"
  "CM_Hits (mc_metrics (evictLRU ks c)) = CM_Hits (mc_metrics c)"
  "CM_Misses (mc_metrics (evictLRU ks c)) = CM_Misses (mc_metrics c)"
  by (simp_all add: evictLRU_def IncrementEvictions_def Let_def)

text \<open>What holds of a cache between two operations: its keys are digests, hits are counted up from
  nought and there is room for the entry to come.\<close>

definition cache_ok :: "MCPCache \<Rightarrow> bool" where
  "cache_ok c \<longleftrightarrow> finite (dom (mc_cache c)) \<and>
     (\<forall>k e. mc_cache c k = Some e \<longrightarrow> length k = 64 \<and> 0 \<le> CE_HitCount e) \<and>
     int (card (dom (mc_cache c))) \<le> max 1 (CC_MaxEntries (mc_config c)) \<and>
     0 \<le> CM_Misses (mc_metrics c) \<and> CM_Misses (mc_metrics c) \<le> CM_Hits (mc_metrics c)"

text \<open>Eviction removes one entry, one that was asked for no more often than any other.\<close>

lemma evictLRU_removes_least:
  assumes "cache_ok c" and "range_order (mc_cache c) ks" and "dom (mc_cache c) \<noteq> {}"
  shows "\<exists>k e. mc_cache c k = Some e \<and> mc_cache (evictLRU ks c) = (mc_cache c)(k := None) \<and>
     (\<forall>k' e'. mc_cache c k' = Some e' \<longrightarrow> CE_HitCount e \<le> CE_HitCount e')"
proof -
  have nonneg: "\<forall>k e. mc_cache c k = Some e \<longrightarrow> 0 \<le> CE_HitCount e"
    using assms(1) by (simp add: cache_ok_def)
  obtain e where e: "mc_cache c (least_hit (mc_cache c) ks [] (-1)) = Some e"
    "\<forall>k' e'. mc_cache c k' = Some e' \<longrightarrow> CE_HitCount e \<le> CE_HitCount e'"
    using least_hit_least [OF nonneg assms(2,3)] by blast
  have "least_hit (mc_cache c) ks [] (-1) \<noteq> []"
    using e(1) assms(1) by (force simp: cache_ok_def)
  moreover have "cache_len ks c \<noteq> 0"
    using assms by (simp add: cache_len cache_ok_def)
  ultimately have "mc_cache (evictLRU ks c) = (mc_cache c)(least_hit (mc_cache c) ks [] (-1) := None)"
    by (simp add: evictLRU_def Let_def)
  with e show ?thesis by blast
qed

subsection \<open>The cache as a transition system\<close>

text \<open>One step is one operation or one round of the cleanup routine, with any order of the map.\<close>

inductive cache_step ::
    "(string \<Rightarrow> string) \<Rightarrow> (any \<Rightarrow> string) \<Rightarrow> (CacheEntry \<Rightarrow> int option) \<Rightarrow> MCPCache \<Rightarrow> MCPCache \<Rightarrow> bool"
  for sha mj jsize where
  lookup: "cache_step sha mj jsize c (fst (MCPCache_Get sha mj now elapsed a m p c))"
| store: "range_order (mc_cache c) ks \<Longrightarrow>
    cache_step sha mj jsize c (MCPCache_Set sha mj jsize now ks ks' a m p data etag c)"
| invalidate: "range_order (mc_cache c) ks \<Longrightarrow>
    cache_step sha mj jsize c (MCPCache_Invalidate sha mj jsize ks ks' a m c)"
| invalidate_all: "cache_step sha mj jsize c (InvalidateAll jsize c)"
| cleanup: "range_order (mc_cache c) ks \<Longrightarrow>
    cache_step sha mj jsize c (MCPCache_cleanup jsize now ks ks' c)"

lemma cache_ok_New: "cache_ok (NewMCPCache config)"
  by (simp add: cache_ok_def NewMCPCache_def)

lemma cache_ok_subset:
  assumes "cache_ok c" and "\<And>k e. mc_cache c' k = Some e \<Longrightarrow> mc_cache c k = Some e"
    and "mc_config c' = mc_config c"
    and "CM_Hits (mc_metrics c') = CM_Hits (mc_metrics c)"
    and "CM_Misses (mc_metrics c') = CM_Misses (mc_metrics c)"
  shows "cache_ok c'"
proof -
  have sub: "dom (mc_cache c') \<subseteq> dom (mc_cache c)" using assms(2) by auto
  have "card (dom (mc_cache c')) \<le> card (dom (mc_cache c))"
    using assms(1) sub by (simp add: cache_ok_def card_mono)
  moreover have "finite (dom (mc_cache c'))"
    using assms(1) sub by (auto simp: cache_ok_def intro: finite_subset)
  ultimately show ?thesis using assms by (fastforce simp: cache_ok_def)
qed

lemma key_length: "\<forall>x. length (sha x) = 64 \<Longrightarrow> length (generateCacheKey sha mj a m p) = 64"
  by (simp add: generateCacheKey_def)

lemma cache_ok_Get:
  assumes "cache_ok c"
  shows "cache_ok (fst (MCPCache_Get sha mj now elapsed a m p c))"
proof -
  have "int (card (insert k (dom (mc_cache c)))) \<le> max 1 (CC_MaxEntries (mc_config c))"
    if "mc_cache c k = Some e" for k e
    using that assms by (simp add: cache_ok_def insert_absorb domI)
  with assms show ?thesis
    by (auto simp: cache_ok_def MCPCache_Get_def Let_def IncrementHit_def IncrementMiss_def
        split: option.splits)
qed

lemma cache_ok_insert:
  assumes ok: "cache_ok c" and "int (card (dom (mc_cache c))) < max 1 (CC_MaxEntries (mc_config c))"
    and "length key = 64" and "0 \<le> CE_HitCount e"
  shows "cache_ok (c\<lparr>mc_cache := (mc_cache c)(key \<mapsto> e)\<rparr>)"
proof -
  have "card (insert key (dom (mc_cache c))) \<le> Suc (card (dom (mc_cache c)))"
    using ok by (simp add: cache_ok_def card_insert_if)
  then have "int (card (insert key (dom (mc_cache c)))) \<le> max 1 (CC_MaxEntries (mc_config c))"
    using assms(2) by linarith
  with assms show ?thesis by (simp add: cache_ok_def)
qed

text \<open>The eviction that \<open>Set\<close> starts with leaves room for one entry.\<close>

lemma eviction_makes_room:
  assumes ok: "cache_ok c" and ro: "range_order (mc_cache c) ks"
    and c1: "c1 = (if cache_len ks c \<ge> CC_MaxEntries (mc_config c) then evictLRU ks c else c)"
  shows "int (card (dom (mc_cache c1))) < max 1 (CC_MaxEntries (mc_config c))"
    and "\<And>k e. mc_cache c1 k = Some e \<Longrightarrow> mc_cache c k = Some e"
proof -
  have "int (card (dom (mc_cache c1))) < max 1 (CC_MaxEntries (mc_config c)) \<and>
      (\<forall>k e. mc_cache c1 k = Some e \<longrightarrow> mc_cache c k = Some e)"
  proof (cases "cache_len ks c \<ge> CC_MaxEntries (mc_config c) \<and> dom (mc_cache c) \<noteq> {}")
    case True
    then obtain k e where k: "mc_cache c k = Some e" "mc_cache c1 = (mc_cache c)(k := None)"
      using evictLRU_removes_least [OF ok ro] by (auto simp: c1)
    have "dom (mc_cache c) - {k} \<subset> dom (mc_cache c)" using k(1) by blast
    with ok have "card (dom (mc_cache c1)) < card (dom (mc_cache c))"
      by (simp add: k(2) cache_ok_def psubset_card_mono)
    with ok k(2) show ?thesis by (simp add: cache_ok_def)
  next
    case False
    have "mc_cache c1 = mc_cache c"
      using False ro by (auto simp: c1 evictLRU_def cache_len)
    with False ro show ?thesis by (auto simp: cache_len)
  qed
  then show "int (card (dom (mc_cache c1))) < max 1 (CC_MaxEntries (mc_config c))"
    and "\<And>k e. mc_cache c1 k = Some e \<Longrightarrow> mc_cache c k = Some e" by auto
qed

lemma cache_ok_Set:
  assumes ok: "cache_ok c" and sha: "\<forall>x. length (sha x) = 64" and ro: "range_order (mc_cache c) ks"
  shows "cache_ok (MCPCache_Set sha mj jsize now ks ks' a m p data etag c)"
proof -
  define c1 where "c1 = (if cache_len ks c \<ge> CC_MaxEntries (mc_config c) then evictLRU ks c else c)"
  have ok1: "cache_ok c1" using ok
    by (rule cache_ok_subset) (simp_all add: eviction_makes_room(2) [OF ok ro c1_def], simp_all add: c1_def)
  have "int (card (dom (mc_cache c1))) < max 1 (CC_MaxEntries (mc_config c1))"
    using eviction_makes_room(1) [OF ok ro c1_def] by (simp add: c1_def split: if_splits)
  from cache_ok_insert [OF ok1 this key_length [OF sha]]
  have ins: "0 \<le> CE_HitCount e \<Longrightarrow>
      cache_ok (c1\<lparr>mc_cache := (mc_cache c1)(generateCacheKey sha mj a m p \<mapsto> e)\<rparr>)" for e .
  show ?thesis
    unfolding MCPCache_Set_def Let_def c1_def [symmetric]
    by (rule cache_ok_subset [OF ins]) (simp_all split: if_splits)
qed

lemma cache_ok_step:
  assumes sha: "\<forall>x. length (sha x) = 64" and step: "cache_step sha mj jsize c c'" and ok: "cache_ok c"
  shows "cache_ok c'"
  using step
proof cases
  case (lookup now elapsed a m p)
  with cache_ok_Get [OF ok] show ?thesis by simp
next
  case (store ks now ks' a m p data etag)
  with cache_ok_Set [OF ok sha] show ?thesis by simp
next
  case (invalidate ks ks' a m)
  then show ?thesis
    by (intro cache_ok_subset [OF ok]) (auto simp: MCPCache_Invalidate_def Let_def restrict_map_def split: if_splits)
next
  case invalidate_all
  then show ?thesis by (intro cache_ok_subset [OF ok]) (auto simp: InvalidateAll_def)
next
  case (cleanup ks now ks')
  then show ?thesis
    by (intro cache_ok_subset [OF ok]) (auto simp: MCPCache_cleanup_def Let_def restrict_map_def split: if_splits)
qed

lemma cache_ok_reachable:
  assumes "\<forall>x. length (sha x) = 64" and "(cache_step sha mj jsize)\<^sup>*\<^sup>* (NewMCPCache config) c"
  shows "cache_ok c"
  using assms(2) by (induction rule: rtranclp_induct) (auto intro: cache_ok_New cache_ok_step [OF assms(1)])

lemma config_step: "cache_step sha mj jsize c c' \<Longrightarrow> mc_config c' = mc_config c"
  by (induction rule: cache_step.induct)
    (auto simp: MCPCache_Get_def MCPCache_Set_def MCPCache_Invalidate_def InvalidateAll_def
      MCPCache_cleanup_def Let_def split: option.splits)

lemma config_reachable: "(cache_step sha mj jsize)\<^sup>*\<^sup>* c0 c \<Longrightarrow> mc_config c = mc_config c0"
  by (induction rule: rtranclp_induct) (auto dest: config_step)

subsection \<open>Properties\<close>

text \<open>C29. What \<open>Set\<close> stores, \<open>Get\<close> returns, for the same adapter, method and parameters, as long as
  the age of the entry does not exceed the time to live of the method; later it misses. Responses
  that are \<open>nil\<close> are never returned.\<close>

theorem cache_roundtrip:
  "\<exists>c'. MCPCache_Get sha mj t elapsed a m p (MCPCache_Set sha mj jsize now ks ks' a m p data etag c) =
     (c', if t - now \<le> getTTLForMethod (mc_config c) m \<and> data \<noteq> Nil_value
          then (data, True) else (Nil_value, False))"
  by (cases data)
    (simp_all add: MCPCache_Get_def MCPCache_Set_def Let_def CacheEntry_IsValid_def CacheEntry_IsExpired_def)

text \<open>C30. However the cache is used, it never holds more than the configured number of entries (one,
  if that number is not positive): an entry is evicted before the limit would be passed.\<close>

theorem cache_size_bound:
  assumes "\<forall>x. length (sha x) = 64" and "(cache_step sha mj jsize)\<^sup>*\<^sup>* (NewMCPCache (Some config)) c"
  shows "finite (dom (mc_cache c)) \<and> int (card (dom (mc_cache c))) \<le> max 1 (CC_MaxEntries config)"
  using cache_ok_reachable [OF assms] config_reachable [OF assms(2)]
  by (simp add: cache_ok_def NewMCPCache_def)

text \<open>What \<open>Invalidate\<close> removes. For an adapter and a method: the response without parameters, and
  no other. For an adapter alone: the response to the method \<open>test\<close>, so the adapter's other
  responses stay. For a method alone: every entry of every adapter.\<close>

theorem Invalidate_exact:
  assumes "\<forall>x. length (sha x) = 64" and "(cache_step sha mj jsize)\<^sup>*\<^sup>* (NewMCPCache config) c"
    and "range_order (mc_cache c) ks"
  shows "mc_cache (MCPCache_Invalidate sha mj jsize ks ks' a m c) =
    (if a \<noteq> [] \<and> m \<noteq> [] then (mc_cache c)(generateCacheKey sha mj a m Nil_value := None)
     else if a \<noteq> [] then (mc_cache c)(generateCacheKey sha mj a ''test'' Nil_value := None)
     else if m \<noteq> [] then Map.empty
     else mc_cache c)"
proof -
  have len: "length k = 64" if "k \<in> dom (mc_cache c)" for k
    using that cache_ok_reachable [OF assms(1,2)] by (auto simp: cache_ok_def)
  have ks: "k \<in> set ks \<longleftrightarrow> k \<in> dom (mc_cache c)" for k
    using assms(3) by (simp add: range_order_def)
  have "keyMatchesAdapter sha mj k a \<longleftrightarrow> k = generateCacheKey sha mj a ''test'' Nil_value"
    "keyMatchesMethod sha mj k m" if "k \<in> dom (mc_cache c)" for k
    using len [OF that] by (simp_all add: keyMatchesAdapter_def keyMatchesMethod_def key_length [OF assms(1)] Let_def)
  note matches = this
  show ?thesis
  proof
    fix k
    show "mc_cache (MCPCache_Invalidate sha mj jsize ks ks' a m c) k =
      (if a \<noteq> [] \<and> m \<noteq> [] then (mc_cache c)(generateCacheKey sha mj a m Nil_value := None)
       else if a \<noteq> [] then (mc_cache c)(generateCacheKey sha mj a ''test'' Nil_value := None)
       else if m \<noteq> [] then Map.empty else mc_cache c) k"
    proof (cases "k \<in> dom (mc_cache c)")
      case True
      with matches [OF True] show ?thesis
        by (cases "a = []"; cases "m = []")
          (simp_all add: MCPCache_Invalidate_def Let_def restrict_map_def ks keyMatches_def domIff)
    next
      case False
      then have "mc_cache c k = None" by (simp add: domIff)
      moreover from this have "mc_cache (MCPCache_Invalidate sha mj jsize ks ks' a m c) k = None"
        by (simp add: MCPCache_Invalidate_def Let_def restrict_None split del: if_split)
      ultimately show ?thesis
        by (cases "a = []"; cases "m = []") (simp_all add: fun_upd_apply)
    qed
  qed
qed

text \<open>\<open>Get\<close> counts a hit for every call, so a reachable cache never counts more misses than hits
  and the hit rate it reports is at least one half, even if nothing was ever found.\<close>

theorem hit_rate_at_least_half:
  assumes "\<forall>x. length (sha x) = 64" and "(cache_step sha mj jsize)\<^sup>*\<^sup>* (NewMCPCache config) c"
    and "0 < CM_Hits (mc_metrics c)"
  shows "50 \<le> CacheStats_hitRate (mc_metrics c)"
proof -
  let ?h = "CM_Hits (mc_metrics c)" and ?m = "CM_Misses (mc_metrics c)"
  from cache_ok_reachable [OF assms(1,2)] have m: "0 \<le> ?m" "?m \<le> ?h" by (simp_all add: cache_ok_def)
  then have "of_int ?m \<le> (of_int ?h :: rat)" by simp
  with m assms(3) show ?thesis
    by (simp add: CacheStats_hitRate_def field_simps flip: of_int_add)
qed

definition ex_sha :: "string \<Rightarrow> string" where
  "ex_sha x = take 64 (x @ replicate 64 CHR ''.'')"

definition ex_mj :: "any \<Rightarrow> string" where
  "ex_mj v = ''{}''"

definition ex_jsize :: "CacheEntry \<Rightarrow> int option" where
  "ex_jsize e = Some 1"

definition ex_key :: string where
  "ex_key = generateCacheKey ex_sha ex_mj ''weather'' ''tools/list'' Nil_value"

definition ex_cache :: MCPCache where
  "ex_cache = MCPCache_Set ex_sha ex_mj ex_jsize 0 [] [ex_key] ''weather'' ''tools/list'' Nil_value
     (Bool_value True) [] (fst (MCPCache_Get ex_sha ex_mj 0 1 ''weather'' ''tools/list'' Nil_value
       (NewMCPCache (Some DefaultCacheConfig))))"

lemma ex_sha_length: "\<forall>x. length (ex_sha x) = 64"
  by (auto simp: ex_sha_def min_def)

lemma ex_cache_reachable:
  "(cache_step ex_sha ex_mj ex_jsize)\<^sup>*\<^sup>* (NewMCPCache (Some DefaultCacheConfig)) ex_cache"
proof -
  let ?c0 = "NewMCPCache (Some DefaultCacheConfig)"
  let ?c1 = "fst (MCPCache_Get ex_sha ex_mj 0 1 ''weather'' ''tools/list'' Nil_value ?c0)"
  have "cache_step ex_sha ex_mj ex_jsize ?c0 ?c1" by (rule cache_step.lookup)
  moreover have "cache_step ex_sha ex_mj ex_jsize ?c1 ex_cache"
    unfolding ex_cache_def
    by (rule cache_step.store) (simp add: MCPCache_Get_def NewMCPCache_def Let_def)
  ultimately show ?thesis by simp
qed

lemma ex_cache_entries:
  "mc_cache ex_cache = [ex_key \<mapsto> \<lparr>CE_Data = Bool_value True, CE_Timestamp = 0, CE_TTL = 2 * minute,
     CE_HitCount = 0, CE_ETag = []\<rparr>]"
  "CM_Hits (mc_metrics ex_cache) = 1"
  by (simp_all add: ex_cache_def ex_key_def MCPCache_Set_def MCPCache_Get_def NewMCPCache_def Let_def
      cache_len_def DefaultCacheConfig_def getTTLForMethod_def IncrementHit_def IncrementMiss_def)

theorem cache_size_bound_witness: "finite (dom (mc_cache ex_cache)) \<and> card (dom (mc_cache ex_cache)) \<le> 1000"
  using cache_size_bound [OF ex_sha_length ex_cache_reachable] by (simp add: DefaultCacheConfig_def)

theorem Invalidate_exact_witness:
  "mc_cache (MCPCache_Invalidate ex_sha ex_mj ex_jsize [ex_key] [ex_key] ''weather'' [] ex_cache) ex_key \<noteq> None \<and>
   mc_cache (MCPCache_Invalidate ex_sha ex_mj ex_jsize [ex_key] [] [] ''initialize'' ex_cache) = Map.empty"
proof -
  have ro: "range_order (mc_cache ex_cache) [ex_key]" by (simp add: range_order_def ex_cache_entries)
  have "ex_key \<noteq> generateCacheKey ex_sha ex_mj ''weather'' ''test'' Nil_value" by code_simp
  then show ?thesis
    by (simp add: Invalidate_exact [OF ex_sha_length ex_cache_reachable ro] ex_cache_entries)
qed

theorem hit_rate_at_least_half_witness: "50 \<le> CacheStats_hitRate (mc_metrics ex_cache)"
  using hit_rate_at_least_half [OF ex_sha_length ex_cache_reachable] by (simp add: ex_cache_entries)

end
