(* ===== verification/ErrorHandler.thy ===== *)
theory ErrorHandler
  imports SessionStore
begin

section \<open>Errors of the protocol and what clients see of them\<close>

text \<open>
  \<open>pkg/mcp/error_handler.go\<close>, with the codes of \<open>protocol_handler.go\<close> and the constructors
  of \<open>types.go\<close>. A Go \<open>error\<close> is a text, or an \<open>*MCPError\<close> which a type assertion
  finds. Log lines are not modelled; \<open>now\<close> is the clock's reading.
\<close>

subsection \<open>Types and codes\<close>

abbreviation ErrorTypeProtocol :: string where "ErrorTypeProtocol \<equiv> ''protocol''"
abbreviation ErrorTypeTransport :: string where "ErrorTypeTransport \<equiv> ''transport''"
abbreviation ErrorTypeAuth :: string where "ErrorTypeAuth \<equiv> ''auth''"
abbreviation ErrorTypeValidation :: string where "ErrorTypeValidation \<equiv> ''validation''"
abbreviation ErrorTypeTimeout :: string where "ErrorTypeTimeout \<equiv> ''timeout''"
abbreviation ErrorTypeNetwork :: string where "ErrorTypeNetwork \<equiv> ''network''"
abbreviation ErrorTypeSession :: string where "ErrorTypeSession \<equiv> ''session''"

abbreviation ErrCodeParseError :: int where "ErrCodeParseError \<equiv> -32700"
abbreviation ErrCodeInvalidRequest :: int where "ErrCodeInvalidRequest \<equiv> -32600"
abbreviation ErrCodeMethodNotFound :: int where "ErrCodeMethodNotFound \<equiv> -32601"
abbreviation ErrCodeInvalidParams :: int where "ErrCodeInvalidParams \<equiv> -32602"
abbreviation ErrCodeInternalError :: int where "ErrCodeInternalError \<equiv> -32603"
abbreviation ErrCodeMCPUnauthorized :: int where "ErrCodeMCPUnauthorized \<equiv> -32001"
abbreviation ErrCodeMCPNotFound :: int where "ErrCodeMCPNotFound \<equiv> -32002"

abbreviation MCP_INTERNAL_ERROR :: int where "MCP_INTERNAL_ERROR \<equiv> -32603"
abbreviation MCP_TOOL_EXECUTION_DENIED :: int where "MCP_TOOL_EXECUTION_DENIED \<equiv> -32006"
abbreviation MCP_RESOURCE_ACCESS_DENIED :: int where "MCP_RESOURCE_ACCESS_DENIED \<equiv> -32007"

text \<open>\<open>Details\<close> is \<open>None\<close> for a nil map.\<close>

record MCPError =
  ME_Type :: string
  ME_Code :: int
  ME_Message :: string
  ME_Details :: "(string \<rightharpoonup> any) option"
  ME_Timestamp :: gotime
  ME_SessionID :: string
  ME_AdapterName :: string
  ME_Retryable :: bool
  ME_Suggestions :: "string list"

definition MCPError_Error :: "MCPError \<Rightarrow> string" where
  "MCPError_Error e = ''['' @ ME_Type e @ ''] '' @ show_int (ME_Code e) @ '': '' @ ME_Message e"

datatype go_error = Plain_error string | MCP_error MCPError

fun Error_text :: "go_error \<Rightarrow> string" where
  "Error_text (Plain_error s) = s"
| "Error_text (MCP_error e) = MCPError_Error e"

definition CreateMCPError :: "gotime \<Rightarrow> int \<Rightarrow> string \<Rightarrow> any \<Rightarrow> MCPError" where
  "CreateMCPError now code message data =
     \<lparr>ME_Type = [], ME_Code = code, ME_Message = message, ME_Details = Some [''data'' \<mapsto> data],
      ME_Timestamp = now, ME_SessionID = [], ME_AdapterName = [], ME_Retryable = False,
      ME_Suggestions = []\<rparr>"

fun HandleMCPError :: "gotime \<Rightarrow> go_error option \<Rightarrow> MCPError option" where
  "HandleMCPError now None = None"
| "HandleMCPError now (Some (MCP_error e)) = Some e"
| "HandleMCPError now (Some (Plain_error s)) = Some (CreateMCPError now MCP_INTERNAL_ERROR s Nil_value)"

subsection \<open>Classification of errors by their text\<close>

definition HandleProtocolError :: "gotime \<Rightarrow> go_error \<Rightarrow> string \<Rightarrow> string \<Rightarrow> MCPError" where
  "HandleProtocolError now err sessionID adapterName =
     (let mcpErr = \<lparr>ME_Type = ErrorTypeProtocol, ME_Code = 0, ME_Message = [],
            ME_Details = Some Map.empty, ME_Timestamp = now, ME_SessionID = sessionID,
            ME_AdapterName = adapterName, ME_Retryable = False, ME_Suggestions = []\<rparr>
      in if Contains (Error_text err) ''parse error'' then
           mcpErr\<lparr>ME_Code := ErrCodeParseError, ME_Message := ''Failed to parse MCP message'',
           ME_Details := Some [''originalError'' \<mapsto> String_value (Error_text err),
             ''suggestion'' \<mapsto> String_value ''Check message format and JSON syntax''],
           ME_Suggestions := [''Verify JSON-RPC 2.0 message format'',
             ''Check for proper UTF-8 encoding'',
             ''Ensure required fields are present'']\<rparr>
         else if Contains (Error_text err) ''invalid request'' then
           mcpErr\<lparr>ME_Code := ErrCodeInvalidRequest, ME_Message := ''Invalid MCP request'',
           ME_Details := Some [''originalError'' \<mapsto> String_value (Error_text err),
             ''suggestion'' \<mapsto> String_value ''Check request structure and parameters''],
           ME_Suggestions := [''Verify method name is correct'',
             ''Check parameter types and values'',
             ''Ensure protocol version is '' @ [CHR 0x27] @ ''2.0'' @ [CHR 0x27]]\<rparr>
         else if Contains (Error_text err) ''method not found'' then
           mcpErr\<lparr>ME_Code := ErrCodeMethodNotFound, ME_Message := ''MCP method not supported'',
           ME_Details := Some [''originalError'' \<mapsto> String_value (Error_text err),
             ''suggestion'' \<mapsto> String_value ''Check if method is supported by the target server''],
           ME_Suggestions := [''Verify method name spelling'',
             ''Check server capabilities'',
             ''Ensure server supports the requested method'']\<rparr>
         else if Contains (Error_text err) ''invalid params'' then
           mcpErr\<lparr>ME_Code := ErrCodeInvalidParams, ME_Message := ''Invalid method parameters'',
           ME_Details := Some [''originalError'' \<mapsto> String_value (Error_text err),
             ''suggestion'' \<mapsto> String_value ''Check parameter types and values''],
           ME_Suggestions := [''Verify parameter names'',
             ''Check parameter types'',
             ''Ensure required parameters are provided'']\<rparr>
         else
           mcpErr\<lparr>ME_Code := ErrCodeInternalError, ME_Message := ''Internal MCP protocol error'',
           ME_Details := Some [''originalError'' \<mapsto> String_value (Error_text err)],
           ME_Suggestions := [''Try the request again'',
             ''Contact support if the issue persists'']\<rparr>)"

definition HandleTransportError :: "gotime \<Rightarrow> go_error \<Rightarrow> string \<Rightarrow> string \<Rightarrow> MCPError" where
  "HandleTransportError now err sessionID adapterName =
     (let mcpErr = \<lparr>ME_Type = ErrorTypeTransport, ME_Code = 0, ME_Message = [],
            ME_Details = Some Map.empty, ME_Timestamp = now, ME_SessionID = sessionID,
            ME_AdapterName = adapterName, ME_Retryable = True, ME_Suggestions = []\<rparr>
      in if Contains (Error_text err) ''connection refused'' then
           mcpErr\<lparr>ME_Code := -32010, ME_Message := ''Connection to target server refused'',
           ME_Details := Some [''originalError'' \<mapsto> String_value (Error_text err),
             ''suggestion'' \<mapsto> String_value ''Check if target server is running''],
           ME_Suggestions := [''Verify target server is running'',
             ''Check network connectivity'',
             ''Ensure correct port and address'']\<rparr>
         else if Contains (Error_text err) ''timeout'' then
           mcpErr\<lparr>ME_Code := -32011, ME_Message := ''Request timeout'', ME_Type := ErrorTypeTimeout,
           ME_Details := Some [''originalError'' \<mapsto> String_value (Error_text err),
             ''suggestion'' \<mapsto> String_value ''Increase timeout or check server performance''],
           ME_Suggestions := [''Increase request timeout'',
             ''Check server performance'',
             ''Try again later'']\<rparr>
         else if Contains (Error_text err) ''network'' then
           mcpErr\<lparr>ME_Code := -32012, ME_Message := ''Network error'', ME_Type := ErrorTypeNetwork,
           ME_Details := Some [''originalError'' \<mapsto> String_value (Error_text err),
             ''suggestion'' \<mapsto> String_value ''Check network connectivity''],
           ME_Suggestions := [''Check network connection'',
             ''Verify DNS resolution'',
             ''Check firewall settings'']\<rparr>
         else
           mcpErr\<lparr>ME_Code := ErrCodeInternalError, ME_Message := ''Transport error'',
           ME_Details := Some [''originalError'' \<mapsto> String_value (Error_text err)],
           ME_Suggestions := [''Try the request again'',
             ''Check network connectivity'']\<rparr>)"

definition HandleAuthError :: "gotime \<Rightarrow> go_error \<Rightarrow> string \<Rightarrow> string \<Rightarrow> MCPError" where
  "HandleAuthError now err sessionID adapterName =
     (let mcpErr = \<lparr>ME_Type = ErrorTypeAuth, ME_Code = 0, ME_Message = [],
            ME_Details = Some Map.empty, ME_Timestamp = now, ME_SessionID = sessionID,
            ME_AdapterName = adapterName, ME_Retryable = False, ME_Suggestions = []\<rparr>
      in if Contains (Error_text err) ''unauthorized'' then
           mcpErr\<lparr>ME_Code := ErrCodeMCPUnauthorized, ME_Message := ''Authentication failed'',
           ME_Details := Some [''originalError'' \<mapsto> String_value (Error_text err),
             ''suggestion'' \<mapsto> String_value ''Check authentication credentials''],
           ME_Suggestions := [''Verify authentication token'',
             ''Check token expiration'',
             ''Refresh authentication token'']\<rparr>
         else if Contains (Error_text err) ''forbidden'' then
           mcpErr\<lparr>ME_Code := ErrCodeMCPNotFound, ME_Message := ''Access forbidden'',
           ME_Details := Some [''originalError'' \<mapsto> String_value (Error_text err),
             ''suggestion'' \<mapsto> String_value ''Check access permissions''],
           ME_Suggestions := [''Check access permissions'',
             ''Verify user roles'',
             ''Contact administrator'']\<rparr>
         else
           mcpErr\<lparr>ME_Code := ErrCodeInternalError, ME_Message := ''Authentication error'',
           ME_Details := Some [''originalError'' \<mapsto> String_value (Error_text err)],
           ME_Suggestions := [''Check authentication configuration'',
             ''Verify credentials'']\<rparr>)"

definition HandleSessionError :: "gotime \<Rightarrow> go_error \<Rightarrow> string \<Rightarrow> string \<Rightarrow> MCPError" where
  "HandleSessionError now err sessionID adapterName =
     (let mcpErr = \<lparr>ME_Type = ErrorTypeSession, ME_Code = 0, ME_Message = [],
            ME_Details = Some Map.empty, ME_Timestamp = now, ME_SessionID = sessionID,
            ME_AdapterName = adapterName, ME_Retryable = True, ME_Suggestions = []\<rparr>
      in if Contains (Error_text err) ''not found'' then
           mcpErr\<lparr>ME_Code := ErrCodeMCPNotFound, ME_Message := ''Session not found'',
           ME_Details := Some [''originalError'' \<mapsto> String_value (Error_text err),
             ''suggestion'' \<mapsto> String_value ''Session may have expired''],
           ME_Suggestions := [''Start a new session'',
             ''Check session ID'',
             ''Verify session is still active'']\<rparr>
         else if Contains (Error_text err) ''expired'' then
           mcpErr\<lparr>ME_Code := ErrCodeMCPUnauthorized, ME_Message := ''Session expired'',
           ME_Details := Some [''originalError'' \<mapsto> String_value (Error_text err),
             ''suggestion'' \<mapsto> String_value ''Session has expired, please reconnect''],
           ME_Suggestions := [''Start a new session'',
             ''Refresh session token'']\<rparr>
         else
           mcpErr\<lparr>ME_Code := ErrCodeInternalError, ME_Message := ''Session error'',
           ME_Details := Some [''originalError'' \<mapsto> String_value (Error_text err)],
           ME_Suggestions := [''Try the request again'',
             ''Restart session if needed'']\<rparr>)"

text \<open>The map of details is the caller's: \<open>originalError\<close> is added to it.\<close>

definition HandleValidationError ::
    "gotime \<Rightarrow> go_error option \<Rightarrow> string \<Rightarrow> string \<Rightarrow> (string \<rightharpoonup> any) option \<Rightarrow> MCPError" where
  "HandleValidationError now err sessionID adapterName validationDetails =
     (let mcpErr = \<lparr>ME_Type = ErrorTypeValidation, ME_Code = ErrCodeInvalidParams,
            ME_Message = ''Validation error'', ME_Details = validationDetails, ME_Timestamp = now,
            ME_SessionID = sessionID, ME_AdapterName = adapterName, ME_Retryable = False,
            ME_Suggestions = [''Check input parameters'', ''Verify data format'',
              ''Ensure required fields are provided'']\<rparr>
      in case err of
           None \<Rightarrow> mcpErr
         | Some e \<Rightarrow>
             let details = (case ME_Details mcpErr of None \<Rightarrow> Map.empty | Some d \<Rightarrow> d) in
             mcpErr\<lparr>ME_Details := Some (details(''originalError'' \<mapsto> String_value (Error_text e)))\<rparr>)"

subsection \<open>Responses\<close>

record JSONRPCError =
  JE_Code :: int
  JE_Message :: string
  JE_Data :: any

record JSONRPCMessage =
  JM_JSONRPC :: string
  JM_ID :: any
  JM_Method :: string
  JM_Params :: any
  JM_Result :: any
  JM_Error :: "JSONRPCError option"

definition ToJSONRPCResponse :: "any \<Rightarrow> MCPError \<Rightarrow> JSONRPCMessage" where
  "ToJSONRPCResponse i mcpErr =
     \<lparr>JM_JSONRPC = ''2.0'', JM_ID = i, JM_Method = [], JM_Params = Nil_value, JM_Result = Nil_value,
      JM_Error = Some \<lparr>JE_Code = ME_Code mcpErr, JE_Message = ME_Message mcpErr,
        JE_Data = Object (case ME_Details mcpErr of None \<Rightarrow> Map.empty | Some d \<Rightarrow> d)\<rparr>\<rparr>"

text \<open>The status and the error of the body.\<close>

definition ToHTTPResponse :: "MCPError \<Rightarrow> int \<times> MCPError" where
  "ToHTTPResponse mcpErr =
     (let code = ME_Code mcpErr;
          statusCode =
            (if code = ErrCodeParseError \<or> code = ErrCodeInvalidRequest \<or> code = ErrCodeInvalidParams then 400
             else if code = ErrCodeMethodNotFound then 404
             else if code = ErrCodeMCPUnauthorized then 401
             else if code = ErrCodeMCPNotFound then 404
             else if code = -32010 \<or> code = -32011 \<or> code = -32012 then 502
             else 500)
      in (statusCode, mcpErr))"

subsection \<open>Retries\<close>

definition retryableStrings :: "string list" where
  "retryableStrings = [''timeout'', ''connection refused'', ''network'', ''temporary'', ''retry'']"

fun IsRetryable :: "go_error \<Rightarrow> bool" where
  "IsRetryable (MCP_error e) = ME_Retryable e"
| "IsRetryable (Plain_error s) = list_ex (\<lambda>r. Contains (ToLower s) r) retryableStrings"

abbreviation millisecond :: duration where
  "millisecond \<equiv> 1000000"

fun GetRetryDelay :: "go_error \<Rightarrow> int \<Rightarrow> duration" where
  "GetRetryDelay (MCP_error e) attempt =
     (if ME_Type e = ErrorTypeTimeout then attempt * second
      else if ME_Type e = ErrorTypeNetwork then (attempt * 2) * second
      else if ME_Type e = ErrorTypeTransport then attempt * 500 * millisecond
      else second)"
| "GetRetryDelay (Plain_error s) attempt = attempt * second"

subsection \<open>Properties\<close>

text \<open>Every lookup of the session store that fails becomes, in \<open>HandleSessionError\<close>, the
  retryable error -32002 that carries the store's text, and the client sees status 404 and the
  same code in the JSON-RPC response.\<close>

theorem missing_session_reported:
  assumes "GetDetails s sid = Inl e"
  shows "(let mcpErr = HandleSessionError now (Plain_error e) sid a in
     ME_Code mcpErr = -32002 \<and> ME_Retryable mcpErr \<and> fst (ToHTTPResponse mcpErr) = 404 \<and>
     map_option JE_Code (JM_Error (ToJSONRPCResponse i mcpErr)) = Some (-32002) \<and>
     (\<exists>d. ME_Details mcpErr = Some d \<and> d ''originalError'' = Some (String_value e)))"
proof -
  have "e = ''session '' @ ''not found'' @ ('': '' @ sid)"
    using assms by (auto simp: GetDetails_def get_session_def session_not_found_def split: option.splits)
  then have "Contains e ''not found''" by blast
  then show ?thesis
    by (simp add: HandleSessionError_def ToHTTPResponse_def ToJSONRPCResponse_def Let_def)
qed

text \<open>A transport error is always retryable. Which delay and which status it gets is decided by
  the first of the texts \<open>connection refused\<close>, \<open>timeout\<close> and \<open>network\<close> it contains; the
  delay grows linearly with the attempt in every case.\<close>

theorem transport_errors:
  "(let mcpErr = HandleTransportError now err sid a; text = Error_text err in
     IsRetryable (MCP_error mcpErr) \<and>
     fst (ToHTTPResponse mcpErr) =
       (if Contains text ''connection refused'' \<or> Contains text ''timeout'' \<or> Contains text ''network''
        then 502 else 500) \<and>
     GetRetryDelay (MCP_error mcpErr) attempt =
       attempt * (if Contains text ''connection refused'' then 500 * millisecond
                  else if Contains text ''timeout'' then second
                  else if Contains text ''network'' then 2 * second
                  else 500 * millisecond))"
  by (simp add: HandleTransportError_def ToHTTPResponse_def Let_def)

text \<open>The statuses of authentication errors: 401 for a text with \<open>unauthorized\<close>, 404, and not 403,
  for one with \<open>forbidden\<close>, else 500; none of them is retryable.\<close>

theorem auth_errors:
  "(let mcpErr = HandleAuthError now err sid a; text = Error_text err in
     \<not> IsRetryable (MCP_error mcpErr) \<and>
     fst (ToHTTPResponse mcpErr) =
       (if Contains text ''unauthorized'' then 401 else if Contains text ''forbidden'' then 404 else 500))"
  by (simp add: HandleAuthError_def ToHTTPResponse_def Let_def)

theorem missing_session_reported_witness:
  "fst (ToHTTPResponse (HandleSessionError 0 (Plain_error (session_not_found ''s9'')) ''s9'' [])) = 404"
proof -
  have "GetDetails NewInMemorySessionStore ''s9'' = Inl (session_not_found ''s9'')"
    by (simp add: GetDetails_def get_session_def NewInMemorySessionStore_def)
  from missing_session_reported [OF this, of 0 "[]"] show ?thesis by (simp add: Let_def)
qed

end
