(* ===== verification/Security.thy ===== *)
theory Security
  imports ErrorHandler
begin

section \<open>The security service of the protocol layer\<close>

text \<open>
  \<open>pkg/mcp/security.go\<close>: the assessment of risks, consent, the validation of tool executions and
  resource accesses, and the audit log. The parameters of a tool are an optional map, \<open>ks\<close> the
  order in which its keys are visited; \<open>fmt_v\<close> is the verb \<open>%v\<close> of package \<open>fmt\<close> on such a
  map. \<open>now\<close>, \<open>now'\<close> and \<open>now''\<close> are the readings of the clock an operation makes, in this order.
\<close>

record UserConsentRequest =
  UCR_Type :: string
  UCR_Resource :: string
  UCR_Tool :: string
  UCR_Description :: string
  UCR_RequiredPermissions :: "string list"
  UCR_RiskLevel :: string

record UserConsentResponse =
  UCS_Approved :: bool
  UCS_GrantedPermissions :: "string list"
  UCS_ExpiresAt :: "gotime option"
  UCS_Conditions :: "(string \<rightharpoonup> any) option"

record AuditLog =
  AL_Timestamp :: gotime
  AL_SessionID :: string
  AL_AdapterName :: string
  AL_UserID :: string
  AL_Action :: string
  AL_Resource :: string
  AL_Success :: bool
  AL_ErrorMessage :: string
  AL_Metadata :: "string \<rightharpoonup> any"
  AL_RiskLevel :: string
  AL_ConsentID :: string

record MCPSecurityService =
  ss_auditLogs :: "AuditLog list"

definition NewMCPSecurityService :: MCPSecurityService where
  "NewMCPSecurityService = \<lparr>ss_auditLogs = []\<rparr>"

subsection \<open>The audit log\<close>

definition LogAuditEvent ::
    "gotime \<Rightarrow> string \<Rightarrow> string \<Rightarrow> string \<Rightarrow> string \<Rightarrow> bool \<Rightarrow> string \<Rightarrow> string \<Rightarrow> string \<Rightarrow>
     MCPSecurityService \<Rightarrow> MCPSecurityService" where
  "LogAuditEvent now sessionID adapterName action resource success errorMessage riskLevel consentID s =
     s\<lparr>ss_auditLogs := ss_auditLogs s @
       [\<lparr>AL_Timestamp = now, AL_SessionID = sessionID, AL_AdapterName = adapterName, AL_UserID = [],
         AL_Action = action, AL_Resource = resource, AL_Success = success,
         AL_ErrorMessage = errorMessage, AL_Metadata = Map.empty, AL_RiskLevel = riskLevel,
         AL_ConsentID = consentID\<rparr>]\<rparr>"

definition GetAuditLogs ::
    "string \<Rightarrow> string \<Rightarrow> string \<Rightarrow> int \<Rightarrow> MCPSecurityService \<Rightarrow> AuditLog list" where
  "GetAuditLogs sessionID adapterName action limit s =
     (let filtered = filter (\<lambda>l. \<not> (sessionID \<noteq> [] \<and> AL_SessionID l \<noteq> sessionID) \<and>
            \<not> (adapterName \<noteq> [] \<and> AL_AdapterName l \<noteq> adapterName) \<and>
            \<not> (action \<noteq> [] \<and> AL_Action l \<noteq> action)) (ss_auditLogs s)
      in if int (length filtered) > limit \<and> limit > 0
         then drop (nat (int (length filtered) - limit)) filtered
         else filtered)"

subsection \<open>Assessment of risks\<close>

definition highRiskTools :: "string list" where
  "highRiskTools = [''execute_shell'', ''run_command'', ''delete_file'', ''modify_system'',
     ''access_sensitive_data'']"

definition assessToolRisk :: "string list \<Rightarrow> string \<Rightarrow> (string \<rightharpoonup> any) option \<Rightarrow> string" where
  "assessToolRisk ks toolName parameters =
     (if list_ex (\<lambda>t. Contains (ToLower toolName) t) highRiskTools then ''high''
      else if parameters \<noteq> None \<and>
        list_ex (\<lambda>key. Contains (ToLower key) ''password'' \<or> Contains (ToLower key) ''secret'' \<or>
          Contains (ToLower key) ''token'') ks then ''high''
      else ''medium'')"

definition highRiskPatterns :: "string list" where
  "highRiskPatterns = [''/etc/'', ''/var/log'', ''/home/'', ''/root/'', ''password'', ''secret'', ''private'']"

definition assessResourceRisk :: "string \<Rightarrow> string \<Rightarrow> string" where
  "assessResourceRisk resourceURI accessType =
     (if list_ex (\<lambda>p. Contains (ToLower resourceURI) p) highRiskPatterns then ''high''
      else if accessType = ''write'' then ''medium'' else ''low'')"

definition assessRisk :: "UserConsentRequest \<Rightarrow> string" where
  "assessRisk request =
     (if UCR_Type request = ''tool_execution'' then assessToolRisk [] (UCR_Tool request) None
      else if UCR_Type request = ''resource_access'' then assessResourceRisk (UCR_Resource request) ''read''
      else if UCR_Type request = ''data_sharing'' then ''high''
      else if UCR_Type request = ''sampling_request'' then ''medium''
      else ''medium'')"

subsection \<open>Consent\<close>

definition RequestUserConsent ::
    "gotime \<Rightarrow> gotime \<Rightarrow> string \<Rightarrow> string \<Rightarrow> UserConsentRequest \<Rightarrow> MCPSecurityService \<Rightarrow>
     MCPSecurityService \<times> (go_error + UserConsentResponse)" where
  "RequestUserConsent now now' sessionID adapterName request0 s =
     (let request = (if UCR_RiskLevel request0 = [] then request0\<lparr>UCR_RiskLevel := assessRisk request0\<rparr>
                     else request0);
          risk = UCR_RiskLevel request
      in if risk = ''medium'' then
           (LogAuditEvent now' sessionID adapterName ''consent_granted'' [] True [] risk
              ''auto-approved-medium-risk'' s,
            Inr \<lparr>UCS_Approved = True, UCS_GrantedPermissions = UCR_RequiredPermissions request,
                 UCS_ExpiresAt = Some (now + 1 * hour),
                 UCS_Conditions = Some [''maxRequestsPerHour'' \<mapsto> Int_value 10,
                                        ''auditRequired'' \<mapsto> Bool_value True]\<rparr>)
         else
           (let approved = (risk = ''low'');
                action = (if approved then ''consent_granted'' else ''consent_denied'')
            in (LogAuditEvent now' sessionID adapterName action [] approved [] risk ''auto-decision'' s,
                Inr \<lparr>UCS_Approved = approved,
                     UCS_GrantedPermissions = (if approved then UCR_RequiredPermissions request else []),
                     UCS_ExpiresAt = None, UCS_Conditions = None\<rparr>)))"

subsection \<open>Validation\<close>

definition ValidateToolExecution ::
    "((string \<rightharpoonup> any) option \<Rightarrow> string) \<Rightarrow> gotime \<Rightarrow> gotime \<Rightarrow> gotime \<Rightarrow> string list \<Rightarrow> string \<Rightarrow> string \<Rightarrow>
     string \<Rightarrow> (string \<rightharpoonup> any) option \<Rightarrow> MCPSecurityService \<Rightarrow>
     MCPSecurityService \<times> bool \<times> go_error option" where
  "ValidateToolExecution fmt_v now now' now'' ks sessionID adapterName toolName parameters s =
     (let riskLevel = assessToolRisk ks toolName parameters in
      if riskLevel = ''high'' then
        (let (s1, consent) = RequestUserConsent now now' sessionID adapterName
               \<lparr>UCR_Type = ''tool_execution'', UCR_Resource = [], UCR_Tool = toolName,
                UCR_Description = ''Execute tool '' @ [CHR 0x27] @ toolName @ [CHR 0x27] @
                  '' with parameters: '' @ fmt_v parameters,
                UCR_RequiredPermissions = [''tool.execute''], UCR_RiskLevel = riskLevel\<rparr> s
         in case consent of
              Inl err \<Rightarrow>
                (LogAuditEvent now'' sessionID adapterName ''tool_validation_failed'' toolName False
                   (Error_text err) riskLevel [] s1, False, Some err)
            | Inr c \<Rightarrow>
                if \<not> UCS_Approved c then
                  (LogAuditEvent now'' sessionID adapterName ''tool_execution_denied'' toolName False
                     ''consent denied'' riskLevel [] s1, False,
                   Some (MCP_error (CreateMCPError now'' MCP_TOOL_EXECUTION_DENIED
                     ''Tool execution denied by user consent'' Nil_value)))
                else
                  (LogAuditEvent now'' sessionID adapterName ''tool_execution_allowed'' toolName True
                     [] riskLevel [] s1, True, None))
      else
        (LogAuditEvent now'' sessionID adapterName ''tool_execution_allowed'' toolName True
           [] riskLevel [] s, True, None))"

definition ValidateResourceAccess ::
    "gotime \<Rightarrow> gotime \<Rightarrow> gotime \<Rightarrow> string \<Rightarrow> string \<Rightarrow> string \<Rightarrow> string \<Rightarrow> MCPSecurityService \<Rightarrow>
     MCPSecurityService \<times> bool \<times> go_error option" where
  "ValidateResourceAccess now now' now'' sessionID adapterName resourceURI accessType s =
     (let riskLevel = assessResourceRisk resourceURI accessType in
      if riskLevel = ''high'' then
        (let (s1, consent) = RequestUserConsent now now' sessionID adapterName
               \<lparr>UCR_Type = ''resource_access'', UCR_Resource = resourceURI, UCR_Tool = [],
                UCR_Description = Title accessType @ '' access to resource '' @ [CHR 0x27] @
                  resourceURI @ [CHR 0x27],
                UCR_RequiredPermissions = [''resource.'' @ accessType], UCR_RiskLevel = riskLevel\<rparr> s
         in case consent of
              Inl err \<Rightarrow>
                (LogAuditEvent now'' sessionID adapterName ''resource_validation_failed'' resourceURI False
                   (Error_text err) riskLevel [] s1, False, Some err)
            | Inr c \<Rightarrow>
                if \<not> UCS_Approved c then
                  (LogAuditEvent now'' sessionID adapterName ''resource_access_denied'' resourceURI False
                     ''consent denied'' riskLevel [] s1, False,
                   Some (MCP_error (CreateMCPError now'' MCP_RESOURCE_ACCESS_DENIED
                     ''Resource access denied by user consent'' Nil_value)))
                else
                  (LogAuditEvent now'' sessionID adapterName ''resource_access_allowed'' resourceURI True
                     [] riskLevel [] s1, True, None))
      else
        (LogAuditEvent now'' sessionID adapterName ''resource_access_allowed'' resourceURI True
           [] riskLevel [] s, True, None))"

subsection \<open>The decisions\<close>

text \<open>What makes a key of the parameters sensitive.\<close>

definition sensitive_key :: "string \<Rightarrow> bool" where
  "sensitive_key key \<longleftrightarrow> Contains (ToLower key) ''password'' \<or> Contains (ToLower key) ''secret'' \<or>
     Contains (ToLower key) ''token''"

lemma assessToolRisk_high:
  assumes "\<forall>m. parameters = Some m \<longrightarrow> range_order m ks"
  shows "assessToolRisk ks toolName parameters = ''high'' \<longleftrightarrow>
    (\<exists>t \<in> set highRiskTools. Contains (ToLower toolName) t) \<or>
    (\<exists>m. parameters = Some m \<and> (\<exists>key \<in> dom m. sensitive_key key))"
proof (cases parameters)
  case None
  then show ?thesis by (auto simp: assessToolRisk_def list_ex_iff)
next
  case (Some m)
  then have "set ks = dom m" using assms by (simp add: range_order_def)
  with Some show ?thesis
    by (auto simp: assessToolRisk_def list_ex_iff sensitive_key_def simp flip: domIff)
qed

lemma assessResourceRisk_high:
  "assessResourceRisk uri a = ''high'' \<longleftrightarrow> (\<exists>p \<in> set highRiskPatterns. Contains (ToLower uri) p)"
  by (auto simp: assessResourceRisk_def list_ex_iff)

lemma ValidateToolExecution_cases:
  assumes "ValidateToolExecution fmt_v now now' now'' ks sid a tool ps s = (s', ok, err)"
  obtains (allowed) r where "assessToolRisk ks tool ps \<noteq> ''high''" "ok" "err = None"
      "s' = LogAuditEvent now'' sid a ''tool_execution_allowed'' tool True [] r [] s"
  | (denied) r where "assessToolRisk ks tool ps = ''high''" "\<not> ok"
      "err = Some (MCP_error (CreateMCPError now'' MCP_TOOL_EXECUTION_DENIED
         ''Tool execution denied by user consent'' Nil_value))"
      "s' = LogAuditEvent now'' sid a ''tool_execution_denied'' tool False ''consent denied'' r []
         (LogAuditEvent now' sid a ''consent_denied'' [] False [] r ''auto-decision'' s)"
  using assms by (auto simp: ValidateToolExecution_def RequestUserConsent_def Let_def split: if_splits)

lemma ValidateResourceAccess_cases:
  assumes "ValidateResourceAccess now now' now'' sid a uri acc s = (s', ok, err)"
  obtains (allowed) r where "assessResourceRisk uri acc \<noteq> ''high''" "ok" "err = None"
      "s' = LogAuditEvent now'' sid a ''resource_access_allowed'' uri True [] r [] s"
  | (denied) r where "assessResourceRisk uri acc = ''high''" "\<not> ok"
      "err = Some (MCP_error (CreateMCPError now'' MCP_RESOURCE_ACCESS_DENIED
         ''Resource access denied by user consent'' Nil_value))"
      "s' = LogAuditEvent now'' sid a ''resource_access_denied'' uri False ''consent denied'' r []
         (LogAuditEvent now' sid a ''consent_denied'' [] False [] r ''auto-decision'' s)"
  using assms by (auto simp: ValidateResourceAccess_def RequestUserConsent_def Let_def split: if_splits)

lemma ss_auditLogs_LogAuditEvent [simp]:
  "ss_auditLogs (LogAuditEvent now sid a act res b e r c s) = ss_auditLogs s @
     [\<lparr>AL_Timestamp = now, AL_SessionID = sid, AL_AdapterName = a, AL_UserID = [], AL_Action = act,
       AL_Resource = res, AL_Success = b, AL_ErrorMessage = e, AL_Metadata = Map.empty,
       AL_RiskLevel = r, AL_ConsentID = c\<rparr>]"
  by (simp add: LogAuditEvent_def)

text \<open>A query whose filters the last entry of the log passes returns that entry last.\<close>

lemma GetAuditLogs_last:
  assumes "ss_auditLogs s = l @ [e]" and "sid = [] \<or> AL_SessionID e = sid"
    and "a = [] \<or> AL_AdapterName e = a" and "act = [] \<or> AL_Action e = act"
  shows "GetAuditLogs sid a act limit s \<noteq> [] \<and> last (GetAuditLogs sid a act limit s) = e"
  using assms by (auto simp: GetAuditLogs_def Let_def)

subsection \<open>Properties\<close>

text \<open>A tool may be executed exactly if its name in lower case contains none of the five high-risk
  names and no key of its parameters contains \<open>password\<close>, \<open>secret\<close> or \<open>token\<close>, in whatever
  order the keys are visited; otherwise the answer is error -32006. The audit log only grows: by one
  entry for an execution that is allowed, by the denied consent and the denial otherwise.\<close>

theorem tool_validation:
  assumes "\<forall>m. parameters = Some m \<longrightarrow> range_order m ks"
    and "ValidateToolExecution fmt_v now now' now'' ks sid a tool parameters s = (s', ok, err)"
  shows "(ok \<longleftrightarrow> \<not> (\<exists>t \<in> set highRiskTools. Contains (ToLower tool) t) \<and>
            \<not> (\<exists>m. parameters = Some m \<and> (\<exists>key \<in> dom m. sensitive_key key))) \<and>
    (if ok then err = None else \<exists>e. err = Some (MCP_error e) \<and> ME_Code e = -32006) \<and>
    (\<exists>new. ss_auditLogs s' = ss_auditLogs s @ new \<and>
       map AL_Action new = (if ok then [''tool_execution_allowed'']
                            else [''consent_denied'', ''tool_execution_denied'']) \<and>
       (\<forall>e \<in> set new. AL_SessionID e = sid \<and> AL_AdapterName e = a \<and> AL_Success e = ok))"
  using assms(2)
proof (cases rule: ValidateToolExecution_cases)
  case (allowed r)
  then show ?thesis using assessToolRisk_high [OF assms(1), of tool] by auto
next
  case (denied r)
  then show ?thesis
    using assessToolRisk_high [OF assms(1), of tool] by (auto simp: CreateMCPError_def)
qed

text \<open>A resource may be accessed exactly if its URI in lower case contains none of the seven
  high-risk patterns, whatever the kind of access; otherwise the answer is error -32007, and the
  audit log records the decision as for tools.\<close>

theorem resource_validation:
  assumes "ValidateResourceAccess now now' now'' sid a uri acc s = (s', ok, err)"
  shows "(ok \<longleftrightarrow> \<not> (\<exists>p \<in> set highRiskPatterns. Contains (ToLower uri) p)) \<and>
    (if ok then err = None else \<exists>e. err = Some (MCP_error e) \<and> ME_Code e = -32007) \<and>
    (\<exists>new. ss_auditLogs s' = ss_auditLogs s @ new \<and>
       map AL_Action new = (if ok then [''resource_access_allowed'']
                            else [''consent_denied'', ''resource_access_denied'']) \<and>
       (\<forall>e \<in> set new. AL_SessionID e = sid \<and> AL_AdapterName e = a \<and> AL_Success e = ok))"
  using assms
proof (cases rule: ValidateResourceAccess_cases)
  case (allowed r)
  then show ?thesis using assessResourceRisk_high [of uri acc] by auto
next
  case (denied r)
  then show ?thesis using assessResourceRisk_high [of uri acc] by (auto simp: CreateMCPError_def)
qed

text \<open>A denial is found: right after a tool execution was denied, the query for the denials of the
  session and the adapter returns that denial as its last entry, for every limit, also if the
  session or the adapter has no name.\<close>

theorem denial_is_found:
  assumes "ValidateToolExecution fmt_v now now' now'' ks sid a tool parameters s = (s', False, err)"
  shows "GetAuditLogs sid a ''tool_execution_denied'' limit s' \<noteq> [] \<and>
    AL_Resource (last (GetAuditLogs sid a ''tool_execution_denied'' limit s')) = tool \<and>
    AL_Timestamp (last (GetAuditLogs sid a ''tool_execution_denied'' limit s')) = now''"
  using assms
proof (cases rule: ValidateToolExecution_cases)
  case (denied r)
  then obtain l e where "ss_auditLogs s' = l @ [e]" "AL_SessionID e = sid" "AL_AdapterName e = a"
    "AL_Action e = ''tool_execution_denied''" "AL_Resource e = tool" "AL_Timestamp e = now''"
    by auto
  with GetAuditLogs_last [of s' l e sid a "''tool_execution_denied''" limit] show ?thesis by simp
qed simp

text \<open>Executions for the witnesses: one that is allowed and one that is not.\<close>

definition ex_params :: "string \<rightharpoonup> any" where
  "ex_params = [''API_Token'' \<mapsto> String_value ''x'']"

abbreviation ex_denied :: "MCPSecurityService \<times> bool \<times> go_error option" where
  "ex_denied \<equiv> ValidateToolExecution (\<lambda>_. []) 1 2 3 [''API_Token''] ''s'' ''a'' ''forecast''
     (Some ex_params) NewMCPSecurityService"

abbreviation ex_allowed :: "MCPSecurityService \<times> bool \<times> go_error option" where
  "ex_allowed \<equiv> ValidateToolExecution (\<lambda>_. []) 1 2 3 [] ''s'' ''a'' ''forecast'' None
     NewMCPSecurityService"

lemma ex_params_order: "\<forall>m. Some ex_params = Some m \<longrightarrow> range_order m [''API_Token'']"
  by (simp add: ex_params_def range_order_def)

lemma ex_params_sensitive: "\<exists>m. Some ex_params = Some m \<and> (\<exists>key \<in> dom m. sensitive_key key)"
proof -
  have "sensitive_key ''API_Token''" by code_simp
  then show ?thesis by (simp add: ex_params_def)
qed

lemma ex_denied: "ex_denied = (fst ex_denied, False, snd (snd ex_denied))"
proof -
  have "assessToolRisk [''API_Token''] ''forecast'' (Some ex_params) = ''high''"
    using assessToolRisk_high [OF ex_params_order] ex_params_sensitive by blast
  moreover obtain s' ok err where e: "ex_denied = (s', ok, err)" by (rule prod_cases3)
  ultimately have "ok = False" by (cases rule: ValidateToolExecution_cases [OF e]) simp_all
  then show ?thesis by (simp only: e fst_conv snd_conv)
qed

theorem tool_validation_witness: "\<not> fst (snd ex_denied) \<and> fst (snd ex_allowed)"
proof -
  have "\<not> (\<exists>t \<in> set highRiskTools. Contains (ToLower ''forecast'') t)" by code_simp
  then show ?thesis
    using tool_validation [OF ex_params_order triple_collapse, THEN conjunct1]
      tool_validation [where parameters = None, OF _ triple_collapse, THEN conjunct1] ex_params_sensitive
    by blast
qed

theorem resource_validation_witness:
  "\<not> fst (snd (ValidateResourceAccess 1 2 3 ''s'' ''a'' ''file:///ETC/passwd'' ''read'' NewMCPSecurityService)) \<and>
   fst (snd (ValidateResourceAccess 1 2 3 ''s'' ''a'' ''file:///tmp/x'' ''write'' NewMCPSecurityService))"
proof -
  have "\<exists>p \<in> set highRiskPatterns. Contains (ToLower ''file:///ETC/passwd'') p"
    "\<not> (\<exists>p \<in> set highRiskPatterns. Contains (ToLower ''file:///tmp/x'') p)"
    by code_simp+
  then show ?thesis using resource_validation [OF triple_collapse] by blast
qed

theorem denial_is_found_witness:
  "AL_Resource (last (GetAuditLogs ''s'' ''a'' ''tool_execution_denied'' 1 (fst ex_denied))) = ''forecast''"
  using denial_is_found [OF ex_denied, of 1] by blast

end
