(* ===== verification/Monitoring.thy ===== *)
theory Monitoring
  imports Models
begin

section \<open>Monitoring\<close>

text \<open>
  \<open>pkg/mcp/monitoring.go\<close>: the bounded log and the metrics per operation, session and adapter. The
  error rate is the rational number of which the code stores the nearest float64. The output to the
  standard logger and the formatted statistics of \<open>GetStats\<close> and \<open>GetMetrics\<close> are not
  modelled. \<open>now\<close> is the clock's reading.
\<close>

abbreviation LogLevelDebug :: string where "LogLevelDebug \<equiv> ''debug''"
abbreviation LogLevelInfo :: string where "LogLevelInfo \<equiv> ''info''"
abbreviation LogLevelWarn :: string where "LogLevelWarn \<equiv> ''warn''"
abbreviation LogLevelError :: string where "LogLevelError \<equiv> ''error''"
abbreviation LogLevelFatal :: string where "LogLevelFatal \<equiv> ''fatal''"

record LogEntry =
  LE_Timestamp :: gotime
  LE_Level :: string
  LE_Message :: string
  LE_Component :: string
  LE_SessionID :: string
  LE_AdapterName :: string
  LE_Method :: string
  LE_Duration :: duration
  LE_Error :: string
  LE_Metadata :: "string \<rightharpoonup> any"

record OperationMetrics =
  OM_TotalRequests :: int
  OM_SuccessfulReqs :: int
  OM_FailedReqs :: int
  OM_AverageLatency :: duration
  OM_TotalLatency :: duration
  OM_MinLatency :: duration
  OM_MaxLatency :: duration
  OM_LastRequestTime :: gotime
  OM_ErrorRate :: rat

definition zero_OperationMetrics :: OperationMetrics where
  "zero_OperationMetrics = \<lparr>OM_TotalRequests = 0, OM_SuccessfulReqs = 0, OM_FailedReqs = 0,
     OM_AverageLatency = 0, OM_TotalLatency = 0, OM_MinLatency = 0, OM_MaxLatency = 0,
     OM_LastRequestTime = 0, OM_ErrorRate = 0\<rparr>"

definition UpdateMetrics :: "gotime \<Rightarrow> bool \<Rightarrow> duration \<Rightarrow> OperationMetrics \<Rightarrow> OperationMetrics" where
  "UpdateMetrics now success latency om0 =
     (let total = OM_TotalRequests om0 + 1;
          totalLatency = OM_TotalLatency om0 + latency;
          om1 = om0\<lparr>OM_TotalRequests := total, OM_TotalLatency := totalLatency,
                    OM_AverageLatency := go_div totalLatency total, OM_LastRequestTime := now\<rparr>;
          om2 = (if success then om1\<lparr>OM_SuccessfulReqs := OM_SuccessfulReqs om1 + 1\<rparr>
                 else om1\<lparr>OM_FailedReqs := OM_FailedReqs om1 + 1\<rparr>);
          om3 = (if OM_MinLatency om2 = 0 \<or> latency < OM_MinLatency om2
                 then om2\<lparr>OM_MinLatency := latency\<rparr> else om2);
          om4 = (if latency > OM_MaxLatency om3 then om3\<lparr>OM_MaxLatency := latency\<rparr> else om3)
      in if OM_TotalRequests om4 > 0
         then om4\<lparr>OM_ErrorRate := of_int (OM_FailedReqs om4) / of_int (OM_TotalRequests om4) * 100\<rparr>
         else om4)"

record MonitoringConfig =
  MO_EnableMetrics :: bool
  MO_EnableLogging :: bool
  MO_LogLevel :: string
  MO_MetricsInterval :: duration
  MO_MaxLogEntries :: int
  MO_EnablePerformance :: bool

definition DefaultMonitoringConfig :: MonitoringConfig where
  "DefaultMonitoringConfig = \<lparr>MO_EnableMetrics = True, MO_EnableLogging = True,
     MO_LogLevel = LogLevelInfo, MO_MetricsInterval = 30 * second, MO_MaxLogEntries = 10000,
     MO_EnablePerformance = True\<rparr>"

record MCPMonitor =
  mm_config :: MonitoringConfig
  mm_logEntries :: "LogEntry list"
  mm_operationMetrics :: "string \<rightharpoonup> OperationMetrics"
  mm_sessionMetrics :: "string \<rightharpoonup> OperationMetrics"
  mm_adapterMetrics :: "string \<rightharpoonup> OperationMetrics"

definition commonOperations :: "string list" where
  "commonOperations = [''tools/list'', ''tools/call'', ''resources/list'', ''resources/read'',
     ''resources/subscribe'', ''prompts/list'', ''prompts/get'', ''completion/complete'',
     ''initialize'', ''capabilities'']"

definition NewMCPMonitor :: "MonitoringConfig option \<Rightarrow> MCPMonitor" where
  "NewMCPMonitor config =
     \<lparr>mm_config = (case config of None \<Rightarrow> DefaultMonitoringConfig | Some c \<Rightarrow> c), mm_logEntries = [],
      mm_operationMetrics = foldl (\<lambda>m op. m(op \<mapsto> zero_OperationMetrics)) Map.empty commonOperations,
      mm_sessionMetrics = Map.empty, mm_adapterMetrics = Map.empty\<rparr>"

subsection \<open>The log\<close>

text \<open>A level that is not in the table has number 0.\<close>

definition log_level :: "string \<Rightarrow> int" where
  "log_level level =
     (if level = LogLevelDebug then 0 else if level = LogLevelInfo then 1
      else if level = LogLevelWarn then 2 else if level = LogLevelError then 3
      else if level = LogLevelFatal then 4 else 0)"

definition shouldLog :: "string \<Rightarrow> MCPMonitor \<Rightarrow> bool" where
  "shouldLog level m = (log_level level \<ge> log_level (MO_LogLevel (mm_config m)))"

definition LogOperation ::
    "gotime \<Rightarrow> string \<Rightarrow> string \<Rightarrow> string \<Rightarrow> string \<Rightarrow> string \<Rightarrow> string \<Rightarrow> duration \<Rightarrow> error option \<Rightarrow>
     (string \<rightharpoonup> any) \<Rightarrow> MCPMonitor \<Rightarrow> MCPMonitor" where
  "LogOperation now level component message sessionID adapterName method duration err metadata m =
     (if \<not> MO_EnableLogging (mm_config m) then m
      else if \<not> shouldLog level m then m
      else (let entry = \<lparr>LE_Timestamp = now, LE_Level = level, LE_Message = message,
                  LE_Component = component, LE_SessionID = sessionID, LE_AdapterName = adapterName,
                  LE_Method = method, LE_Duration = duration,
                  LE_Error = (case err of None \<Rightarrow> [] | Some e \<Rightarrow> e), LE_Metadata = metadata\<rparr>;
                m1 = m\<lparr>mm_logEntries := mm_logEntries m @ [entry]\<rparr>
            in if int (length (mm_logEntries m1)) > MO_MaxLogEntries (mm_config m1)
               then m1\<lparr>mm_logEntries := drop 1 (mm_logEntries m1)\<rparr> else m1))"

definition GetRecentLogs :: "int \<Rightarrow> MCPMonitor \<Rightarrow> LogEntry list" where
  "GetRecentLogs limit m =
     (let len = int (length (mm_logEntries m));
          limit' = (if limit \<le> 0 \<or> limit > len then len else limit);
          start = (if len - limit' < 0 then 0 else len - limit')
      in take (nat limit') (drop (nat start) (mm_logEntries m)))"

definition GetLogsByFilter ::
    "string \<Rightarrow> string \<Rightarrow> string \<Rightarrow> string \<Rightarrow> string \<Rightarrow> int \<Rightarrow> MCPMonitor \<Rightarrow> LogEntry list" where
  "GetLogsByFilter level component sessionID adapterName method limit m =
     (let filtered = filter (\<lambda>e. \<not> (level \<noteq> [] \<and> LE_Level e \<noteq> level) \<and>
            \<not> (component \<noteq> [] \<and> LE_Component e \<noteq> component) \<and>
            \<not> (sessionID \<noteq> [] \<and> LE_SessionID e \<noteq> sessionID) \<and>
            \<not> (adapterName \<noteq> [] \<and> LE_AdapterName e \<noteq> adapterName) \<and>
            \<not> (method \<noteq> [] \<and> LE_Method e \<noteq> method)) (mm_logEntries m)
      in if limit > 0 \<and> int (length filtered) > limit
         then drop (nat (int (length filtered) - limit)) filtered else filtered)"

definition ClearLogs :: "MCPMonitor \<Rightarrow> MCPMonitor" where
  "ClearLogs m = m\<lparr>mm_logEntries := []\<rparr>"

subsection \<open>The metrics\<close>

text \<open>\<open>if _, exists := t[k]; !exists { t[k] = &OperationMetrics{} }; t[k].UpdateMetrics(\<dots>)\<close>\<close>

definition record_in ::
    "gotime \<Rightarrow> string \<Rightarrow> bool \<Rightarrow> duration \<Rightarrow> (string \<rightharpoonup> OperationMetrics) \<Rightarrow> (string \<rightharpoonup> OperationMetrics)" where
  "record_in now k success latency t =
     (let om = (case t k of None \<Rightarrow> zero_OperationMetrics | Some om \<Rightarrow> om)
      in t(k \<mapsto> UpdateMetrics now success latency om))"

definition RecordOperation ::
    "gotime \<Rightarrow> string \<Rightarrow> string \<Rightarrow> string \<Rightarrow> bool \<Rightarrow> duration \<Rightarrow> MCPMonitor \<Rightarrow> MCPMonitor" where
  "RecordOperation now method sessionID adapterName success latency m =
     (if \<not> MO_EnableMetrics (mm_config m) then m
      else (let m1 = m\<lparr>mm_operationMetrics := record_in now method success latency (mm_operationMetrics m)\<rparr>;
                m2 = (if sessionID \<noteq> []
                      then m1\<lparr>mm_sessionMetrics := record_in now sessionID success latency (mm_sessionMetrics m1)\<rparr>
                      else m1)
            in if adapterName \<noteq> []
               then m2\<lparr>mm_adapterMetrics := record_in now adapterName success latency (mm_adapterMetrics m2)\<rparr>
               else m2))"

definition ResetMetrics :: "MCPMonitor \<Rightarrow> MCPMonitor" where
  "ResetMetrics m = m\<lparr>
     mm_operationMetrics := (\<lambda>k. map_option (\<lambda>_. zero_OperationMetrics) (mm_operationMetrics m k)),
     mm_sessionMetrics := Map.empty, mm_adapterMetrics := Map.empty\<rparr>"

subsection \<open>Timers\<close>

record OperationTimer =
  OT_startTime :: gotime
  OT_method :: string
  OT_sessionID :: string
  OT_adapterName :: string

definition NewOperationTimer :: "gotime \<Rightarrow> string \<Rightarrow> string \<Rightarrow> string \<Rightarrow> OperationTimer" where
  "NewOperationTimer now method sessionID adapterName =
     \<lparr>OT_startTime = now, OT_method = method, OT_sessionID = sessionID, OT_adapterName = adapterName\<rparr>"

definition OperationTimer_Finish ::
    "gotime \<Rightarrow> bool \<Rightarrow> OperationTimer \<Rightarrow> MCPMonitor option \<Rightarrow> MCPMonitor option" where
  "OperationTimer_Finish now success ot monitor =
     (let duration = now - OT_startTime ot in
      map_option (RecordOperation now (OT_method ot) (OT_sessionID ot) (OT_adapterName ot) success duration)
        monitor)"

text \<open>\<open>LogOperationWithTimer\<close> returns a closure over the timer; \<open>success\<close>, the clock and the monitor at the
  time of its call come after the timer's start \<open>now0\<close>.\<close>

definition LogOperationWithTimer ::
    "gotime \<Rightarrow> string \<Rightarrow> string \<Rightarrow> string \<Rightarrow> string \<Rightarrow> string \<Rightarrow> string \<Rightarrow> error option \<Rightarrow>
     (string \<rightharpoonup> any) \<Rightarrow> bool \<Rightarrow> gotime \<Rightarrow> MCPMonitor \<Rightarrow> MCPMonitor option" where
  "LogOperationWithTimer now0 level component message sessionID adapterName method err metadata success now m =
     (let timer = NewOperationTimer now0 method sessionID adapterName;
          duration = now - OT_startTime timer
      in OperationTimer_Finish now success timer
           (Some (LogOperation now level component message sessionID adapterName method duration err metadata m)))"

subsection \<open>Helpers\<close>

definition LogRequest :: "gotime \<Rightarrow> string \<Rightarrow> string \<Rightarrow> string \<Rightarrow> any \<Rightarrow> MCPMonitor \<Rightarrow> MCPMonitor" where
  "LogRequest now sessionID adapterName method params m =
     (let metadata = (case params of Nil_value \<Rightarrow> Map.empty | _ \<Rightarrow> [''params'' \<mapsto> params])
      in LogOperation now LogLevelInfo ''MessageRouter'' (''Processing '' @ method @ '' request'')
           sessionID adapterName method 0 None metadata m)"

text \<open>\<open>fmt_T\<close> is the verb \<open>%T\<close> of package \<open>fmt\<close>.\<close>

definition LogResponse ::
    "(any \<Rightarrow> string) \<Rightarrow> gotime \<Rightarrow> string \<Rightarrow> string \<Rightarrow> string \<Rightarrow> bool \<Rightarrow> duration \<Rightarrow> any \<Rightarrow>
     MCPMonitor \<Rightarrow> MCPMonitor" where
  "LogResponse fmt_T now sessionID adapterName method success duration result m =
     (let level = (if \<not> success then LogLevelError else LogLevelInfo);
          metadata = [''success'' \<mapsto> Bool_value success];
          metadata' = (case result of Nil_value \<Rightarrow> metadata
                       | _ \<Rightarrow> metadata(''result_type'' \<mapsto> String_value (fmt_T result)));
          message = ''Completed '' @ method @ '' request'' @
            (if success then '' successfully'' else '' with errors'')
      in LogOperation now level ''MessageRouter'' message sessionID adapterName method duration None metadata' m)"

definition LogCacheOperation ::
    "gotime \<Rightarrow> string \<Rightarrow> string \<Rightarrow> string \<Rightarrow> bool \<Rightarrow> duration \<Rightarrow> MCPMonitor \<Rightarrow> MCPMonitor" where
  "LogCacheOperation now operation adapterName method hit duration m =
     (let level = (if \<not> hit then LogLevelInfo else LogLevelDebug);
          metadata = [''operation'' \<mapsto> String_value operation, ''hit'' \<mapsto> Bool_value hit];
          message = ''Cache '' @ operation @ '' for '' @ method @ '' on '' @ adapterName @
            (if hit then '' (hit)'' else '' (miss)'')
      in LogOperation now level ''Cache'' message [] adapterName method duration None metadata m)"

definition LogSessionActivity ::
    "gotime \<Rightarrow> string \<Rightarrow> string \<Rightarrow> string \<Rightarrow> (string \<rightharpoonup> any) \<Rightarrow> MCPMonitor \<Rightarrow> MCPMonitor" where
  "LogSessionActivity now sessionID activity adapterName metadata m =
     LogOperation now LogLevelInfo ''SessionManager'' activity sessionID adapterName [] 0 None metadata m"

definition LogAdapterActivity ::
    "gotime \<Rightarrow> string \<Rightarrow> string \<Rightarrow> (string \<rightharpoonup> any) \<Rightarrow> MCPMonitor \<Rightarrow> MCPMonitor" where
  "LogAdapterActivity now adapterName activity metadata m =
     LogOperation now LogLevelInfo ''AdapterManager'' activity [] adapterName [] 0 None metadata m"

definition LogError ::
    "gotime \<Rightarrow> string \<Rightarrow> string \<Rightarrow> string \<Rightarrow> string \<Rightarrow> string \<Rightarrow> error option \<Rightarrow> (string \<rightharpoonup> any) \<Rightarrow>
     MCPMonitor \<Rightarrow> MCPMonitor" where
  "LogError now component message sessionID adapterName method err metadata m =
     LogOperation now LogLevelError component message sessionID adapterName method 0 err metadata m"

subsection \<open>The log keeps the most recent entries\<close>

text \<open>A sequence of calls of \<open>LogOperation\<close>, each given as the entry it asks for.\<close>

definition log_all :: "LogEntry list \<Rightarrow> MCPMonitor \<Rightarrow> MCPMonitor" where
  "log_all es m = foldl (\<lambda>m e. LogOperation (LE_Timestamp e) (LE_Level e) (LE_Component e) (LE_Message e)
     (LE_SessionID e) (LE_AdapterName e) (LE_Method e) (LE_Duration e) (Some (LE_Error e)) (LE_Metadata e) m) m es"

text \<open>The entries that pass the configuration.\<close>

definition accepted :: "MonitoringConfig \<Rightarrow> LogEntry list \<Rightarrow> LogEntry list" where
  "accepted config es = (if MO_EnableLogging config
     then filter (\<lambda>e. log_level (MO_LogLevel config) \<le> log_level (LE_Level e)) es else [])"

lemma accepted_snoc: "accepted config (es @ [e]) = accepted config es @ accepted config [e]"
  by (simp add: accepted_def)

lemma log_all_snoc: "log_all (es @ [e]) m = LogOperation (LE_Timestamp e) (LE_Level e) (LE_Component e)
    (LE_Message e) (LE_SessionID e) (LE_AdapterName e) (LE_Method e) (LE_Duration e) (Some (LE_Error e))
    (LE_Metadata e) (log_all es m)"
  by (simp add: log_all_def)

lemma LogOperation_config [simp]:
  "mm_config (LogOperation now l c msg sid a meth d err md m) = mm_config m"
  by (simp add: LogOperation_def Let_def)

lemma log_all_config [simp]: "mm_config (log_all es m) = mm_config m"
  by (induction es rule: rev_induct) (simp_all add: log_all_snoc, simp add: log_all_def)

lemma log_all_window:
  assumes "mm_logEntries m = []" and "mm_config m = config"
  shows "mm_logEntries (log_all es m) =
    drop (length (accepted config es) - nat (MO_MaxLogEntries config)) (accepted config es)"
proof (induction es rule: rev_induct)
  case Nil
  then show ?case by (simp add: log_all_def accepted_def assms)
next
  case (snoc e es)
  show ?case
  proof (cases "MO_EnableLogging config \<and> log_level (MO_LogLevel config) \<le> log_level (LE_Level e)")
    case True
    then have e: "accepted config (es @ [e]) = accepted config es @ [e]"
      by (simp add: accepted_def)
    have entries: "mm_logEntries (log_all (es @ [e]) m) =
        (let l = mm_logEntries (log_all es m) @ [e]
         in if int (length l) > MO_MaxLogEntries config then drop 1 l else l)"
      using True by (cases e) (simp add: log_all_snoc LogOperation_def shouldLog_def assms Let_def)
    show ?thesis
      unfolding entries e snoc.IH Let_def by (auto simp: nat_le_iff Suc_diff_le)
  next
    case False
    then have "log_all (es @ [e]) m = log_all es m" "accepted config (es @ [e]) = accepted config es"
      by (auto simp: log_all_snoc LogOperation_def shouldLog_def assms accepted_def)
    with snoc.IH show ?thesis by simp
  qed
qed

subsection \<open>The metrics summarize the requests\<close>

text \<open>A call of \<open>RecordOperation\<close>.\<close>

record Request =
  RQ_time :: gotime
  RQ_method :: string
  RQ_sessionID :: string
  RQ_adapterName :: string
  RQ_success :: bool
  RQ_latency :: duration

definition record_all :: "Request list \<Rightarrow> MCPMonitor \<Rightarrow> MCPMonitor" where
  "record_all rs m = foldl (\<lambda>m r. RecordOperation (RQ_time r) (RQ_method r) (RQ_sessionID r)
     (RQ_adapterName r) (RQ_success r) (RQ_latency r) m) m rs"

text \<open>What the metrics of the requests \<open>rs\<close> should be.\<close>

definition summarizes :: "Request list \<Rightarrow> OperationMetrics \<Rightarrow> bool" where
  "summarizes rs om \<longleftrightarrow>
     OM_TotalRequests om = int (length rs) \<and>
     OM_SuccessfulReqs om = int (length (filter RQ_success rs)) \<and>
     OM_FailedReqs om = int (length (filter (\<lambda>r. \<not> RQ_success r) rs)) \<and>
     OM_TotalLatency om = sum_list (map RQ_latency rs) \<and>
     OM_AverageLatency om = sum_list (map RQ_latency rs) div int (length rs) \<and>
     (rs \<noteq> [] \<longrightarrow> OM_MinLatency om = Min (RQ_latency ` set rs) \<and>
       OM_MaxLatency om = Max (RQ_latency ` set rs) \<and> OM_LastRequestTime om = RQ_time (last rs)) \<and>
     OM_ErrorRate om = of_int (OM_FailedReqs om) / of_int (OM_TotalRequests om) * 100"

definition metrics_of :: "Request list \<Rightarrow> OperationMetrics" where
  "metrics_of rs = foldl (\<lambda>om r. UpdateMetrics (RQ_time r) (RQ_success r) (RQ_latency r) om)
     zero_OperationMetrics rs"

lemma metrics_of_snoc:
  "metrics_of (rs @ [r]) = UpdateMetrics (RQ_time r) (RQ_success r) (RQ_latency r) (metrics_of rs)"
  by (simp add: metrics_of_def)

lemma metrics_of_Nil [simp]: "metrics_of [] = zero_OperationMetrics"
  by (simp add: metrics_of_def)

lemma Min_snoc: "rs \<noteq> [] \<Longrightarrow> Min (insert x (f ` set rs)) = min x (Min (f ` set rs))"
  and Max_snoc: "rs \<noteq> [] \<Longrightarrow> Max (insert x (f ` set rs)) = max x (Max (f ` set rs))"
  for f :: "'a \<Rightarrow> int"
  by simp_all

lemma sum_list_nonneg_latencies:
  "\<forall>r \<in> set rs. 0 < RQ_latency r \<Longrightarrow> 0 \<le> sum_list (map RQ_latency rs)"
  by (rule sum_list_nonneg) force

lemma metrics_of_summarizes:
  "\<forall>r \<in> set rs. 0 < RQ_latency r \<Longrightarrow> summarizes rs (metrics_of rs)"
proof (induction rs rule: rev_induct)
  case Nil
  then show ?case by (simp add: summarizes_def zero_OperationMetrics_def)
next
  case (snoc r rs)
  then have IH: "summarizes rs (metrics_of rs)" and r: "0 < RQ_latency r"
    and nonneg: "0 \<le> sum_list (map RQ_latency rs)"
    by (simp_all add: sum_list_nonneg_latencies)
  show ?case
  proof (cases "rs = []")
    case True
    with r show ?thesis
      by (simp add: metrics_of_def summarizes_def UpdateMetrics_def zero_OperationMetrics_def Let_def)
  next
    case False
    obtain mn mx where mn: "Min (RQ_latency ` set rs) = mn" and mx: "Max (RQ_latency ` set rs) = mx"
      by blast
    have "0 < mn" using False snoc.prems by (auto simp flip: mn)
    with IH False r nonneg show ?thesis
      by (auto simp: metrics_of_snoc summarizes_def UpdateMetrics_def Let_def mn mx add.commute)
  qed
qed

text \<open>What \<open>RecordOperation\<close> leaves under a name of one of the three tables.\<close>

lemma record_in_apply: "record_in now k b l t k' =
    (if k = k' then Some (UpdateMetrics now b l (case t k of None \<Rightarrow> zero_OperationMetrics | Some om \<Rightarrow> om))
     else t k')"
  by (simp add: record_in_def Let_def)

lemma record_all_snoc: "record_all (rs @ [r]) m = RecordOperation (RQ_time r) (RQ_method r)
    (RQ_sessionID r) (RQ_adapterName r) (RQ_success r) (RQ_latency r) (record_all rs m)"
  by (simp add: record_all_def)

lemma record_all_config [simp]: "mm_config (record_all rs m) = mm_config m"
proof (induction rs rule: rev_induct)
  case (snoc r rs)
  then show ?case by (simp add: record_all_snoc RecordOperation_def Let_def)
qed (simp add: record_all_def)

lemma table_of_records:
  assumes "t [] = t0" and "t0 = None \<or> t0 = Some zero_OperationMetrics"
    and "\<And>rs r. t (rs @ [r]) = (if key r = k
      then Some (UpdateMetrics (RQ_time r) (RQ_success r) (RQ_latency r)
        (case t rs of None \<Rightarrow> zero_OperationMetrics | Some om \<Rightarrow> om)) else t rs)"
  shows "t rs = (if filter (\<lambda>r. key r = k) rs = [] then t0 else Some (metrics_of (filter (\<lambda>r. key r = k) rs)))"
proof (induction rs rule: rev_induct)
  case Nil
  then show ?case by (simp add: assms)
next
  case (snoc r rs)
  show ?case
    using assms(2) by (auto simp: assms(3) snoc.IH metrics_of_snoc metrics_of_Nil filter_empty_conv
        simp flip: metrics_of_Nil split: if_splits)
qed

lemma tables_RecordOperation:
  assumes "MO_EnableMetrics (mm_config m)"
  shows "mm_operationMetrics (RecordOperation now me si ad b l m) = record_in now me b l (mm_operationMetrics m)"
    and "mm_sessionMetrics (RecordOperation now me si ad b l m) =
      (if si = [] then mm_sessionMetrics m else record_in now si b l (mm_sessionMetrics m))"
    and "mm_adapterMetrics (RecordOperation now me si ad b l m) =
      (if ad = [] then mm_adapterMetrics m else record_in now ad b l (mm_adapterMetrics m))"
  using assms by (simp_all add: RecordOperation_def Let_def)

lemma tables_of_records:
  assumes "MO_EnableMetrics config"
  defines "m \<equiv> \<lambda>rs. record_all rs (NewMCPMonitor (Some config))"
  shows "mm_operationMetrics (m rs) k =
      (let xs = filter (\<lambda>r. RQ_method r = k) rs in
       if xs = [] then if k \<in> set commonOperations then Some zero_OperationMetrics else None
       else Some (metrics_of xs))"
    and "k \<noteq> [] \<Longrightarrow> mm_sessionMetrics (m rs) k =
      (let xs = filter (\<lambda>r. RQ_sessionID r = k) rs in if xs = [] then None else Some (metrics_of xs))"
    and "k \<noteq> [] \<Longrightarrow> mm_adapterMetrics (m rs) k =
      (let xs = filter (\<lambda>r. RQ_adapterName r = k) rs in if xs = [] then None else Some (metrics_of xs))"
proof -
  have config: "MO_EnableMetrics (mm_config (m rs))" for rs
    using assms(1) by (simp add: m_def NewMCPMonitor_def)
  note step = tables_RecordOperation [OF config [unfolded m_def]]
  have start: "mm_operationMetrics (m []) k =
      (if k \<in> set commonOperations then Some zero_OperationMetrics else None)"
    "mm_sessionMetrics (m []) k = None" "mm_adapterMetrics (m []) k = None" for k
    by (simp_all add: m_def record_all_def NewMCPMonitor_def commonOperations_def)
  have "mm_operationMetrics (m (rs @ [r])) k = (if RQ_method r = k
      then Some (UpdateMetrics (RQ_time r) (RQ_success r) (RQ_latency r)
        (case mm_operationMetrics (m rs) k of None \<Rightarrow> zero_OperationMetrics | Some om \<Rightarrow> om))
      else mm_operationMetrics (m rs) k)" for rs r
    by (simp add: m_def record_all_snoc step record_in_apply)
  from table_of_records [of "\<lambda>rs. mm_operationMetrics (m rs) k", OF start(1) _ this, of rs]
  show "mm_operationMetrics (m rs) k =
      (let xs = filter (\<lambda>r. RQ_method r = k) rs in
       if xs = [] then if k \<in> set commonOperations then Some zero_OperationMetrics else None
       else Some (metrics_of xs))"
    by (simp add: Let_def)
  assume k: "k \<noteq> []"
  have "mm_sessionMetrics (m (rs @ [r])) k = (if RQ_sessionID r = k
      then Some (UpdateMetrics (RQ_time r) (RQ_success r) (RQ_latency r)
        (case mm_sessionMetrics (m rs) k of None \<Rightarrow> zero_OperationMetrics | Some om \<Rightarrow> om))
      else mm_sessionMetrics (m rs) k)" for rs r
    using k by (auto simp: m_def record_all_snoc step record_in_apply)
  from table_of_records [of "\<lambda>rs. mm_sessionMetrics (m rs) k", OF start(2) _ this, of rs]
  show "mm_sessionMetrics (m rs) k =
      (let xs = filter (\<lambda>r. RQ_sessionID r = k) rs in if xs = [] then None else Some (metrics_of xs))"
    by (simp add: Let_def)
  have "mm_adapterMetrics (m (rs @ [r])) k = (if RQ_adapterName r = k
      then Some (UpdateMetrics (RQ_time r) (RQ_success r) (RQ_latency r)
        (case mm_adapterMetrics (m rs) k of None \<Rightarrow> zero_OperationMetrics | Some om \<Rightarrow> om))
      else mm_adapterMetrics (m rs) k)" for rs r
    using k by (auto simp: m_def record_all_snoc step record_in_apply)
  from table_of_records [of "\<lambda>rs. mm_adapterMetrics (m rs) k", OF start(3) _ this, of rs]
  show "mm_adapterMetrics (m rs) k =
      (let xs = filter (\<lambda>r. RQ_adapterName r = k) rs in if xs = [] then None else Some (metrics_of xs))"
    by (simp add: Let_def)
qed

lemma UpdateMetrics_counts:
  "OM_TotalRequests (UpdateMetrics t b l om) = OM_TotalRequests om + 1"
  "OM_MinLatency (UpdateMetrics t b l om) =
     (if OM_MinLatency om = 0 \<or> l < OM_MinLatency om then l else OM_MinLatency om)"
  by (simp_all add: UpdateMetrics_def Let_def)

subsection \<open>Properties\<close>




text \<open>A latency of nought is taken for an unset minimum: the minimum reported after a request that took
  no measurable time and a longer one is the longer one's.\<close>

theorem zero_latency_forgotten:
  assumes "MO_EnableMetrics config" and "k \<noteq> []" and "RQ_adapterName r0 = k" and "RQ_adapterName r1 = k"
    and "RQ_latency r0 = 0"
  shows "\<exists>om. mm_adapterMetrics (record_all [r0, r1] (NewMCPMonitor (Some config))) k = Some om \<and>
    OM_TotalRequests om = 2 \<and> OM_MinLatency om = RQ_latency r1"
proof -
  have "mm_adapterMetrics (record_all [r0, r1] (NewMCPMonitor (Some config))) k = Some (metrics_of [r0, r1])"
    using tables_of_records(3) [OF assms(1,2), of "[r0, r1]"] by (simp add: assms(3,4))
  then show ?thesis
    using assms(5) by (simp add: metrics_of_def UpdateMetrics_counts zero_OperationMetrics_def)
qed

theorem zero_latency_forgotten_witness:
  "\<exists>om. mm_adapterMetrics (record_all
      [\<lparr>RQ_time = 1, RQ_method = ''m'', RQ_sessionID = [], RQ_adapterName = ''a'', RQ_success = True, RQ_latency = 0\<rparr>,
       \<lparr>RQ_time = 9, RQ_method = ''m'', RQ_sessionID = [], RQ_adapterName = ''a'', RQ_success = True, RQ_latency = 7\<rparr>]
     (NewMCPMonitor (Some DefaultMonitoringConfig))) ''a'' = Some om \<and> OM_MinLatency om = 7"
proof -
  have "MO_EnableMetrics DefaultMonitoringConfig" by (simp add: DefaultMonitoringConfig_def)
  from zero_latency_forgotten [OF this, of "''a''"
      "\<lparr>RQ_time = 1, RQ_method = ''m'', RQ_sessionID = [], RQ_adapterName = ''a'', RQ_success = True, RQ_latency = 0\<rparr>"
      "\<lparr>RQ_time = 9, RQ_method = ''m'', RQ_sessionID = [], RQ_adapterName = ''a'', RQ_success = True, RQ_latency = 7\<rparr>"]
  show ?thesis by auto
qed

end
