(* ===== verification/Templates.thy ===== *)
theory Templates
  imports Models
begin

section \<open>Templates in the commands of sidecars\<close>

text \<open>
  The part of \<open>pkg/services/adapters/service.go\<close> that reads a registry server's metadata: the
  sidecar configuration and the substitution of \<open>{{variable}}\<close> templates in its command. Debug
  output is not modelled. A nil \<open>Meta\<close> is the empty map, in which every lookup fails as well.
\<close>

subsection \<open>Finding templates\<close>

text \<open>The first submatches of \<open>\{\{([^}]+)\}\}\<close> that \<open>FindAllStringSubmatch\<close> finds, from the left and
  without overlaps. What the brackets match cannot hold a closing brace, so it reaches to the next.\<close>

function template_vars :: "string \<Rightarrow> string list" where
  "template_vars [] = []"
| "template_vars (c # cs) =
     (let body = takeWhile (\<lambda>x. x \<noteq> CHR ''}'') (drop 2 (c # cs));
          rest = dropWhile (\<lambda>x. x \<noteq> CHR ''}'') (drop 2 (c # cs))
      in if prefix ''{{'' (c # cs) \<and> body \<noteq> [] \<and> prefix ''}}'' rest
         then body # template_vars (drop 2 rest)
         else template_vars cs)"
  by pat_completeness auto
termination
proof (relation "measure length")
  fix c cs body rest
  assume "rest = dropWhile (\<lambda>x. x \<noteq> CHR ''}'') (drop 2 (c # cs))"
  then have "length rest \<le> length (drop 2 (c # cs))" by (simp only: length_dropWhile_le)
  then show "(drop 2 rest, c # cs) \<in> measure length" by simp
qed simp_all

subsection \<open>Looking variables up\<close>

text \<open>\<open>v, ok := m[k].(string)\<close>\<close>

definition string_field :: "(string \<rightharpoonup> any) \<Rightarrow> string \<Rightarrow> string option" where
  "string_field m k = (case m k of None \<Rightarrow> None | Some v \<Rightarrow> any_string v)"

text \<open>The loop over the secrets.\<close>

fun find_secret :: "any list \<Rightarrow> string \<Rightarrow> string" where
  "find_secret [] varName = []"
| "find_secret (secretRaw # secrets) varName =
     (case any_map secretRaw of
        None \<Rightarrow> find_secret secrets varName
      | Some secretMap \<Rightarrow>
          if string_field secretMap ''name'' \<noteq> Some varName then find_secret secrets varName
          else (case string_field secretMap ''env'' of None \<Rightarrow> [] | Some envName \<Rightarrow> envName))"

definition lookupTemplatedVariable :: "string \<Rightarrow> MCPServer \<Rightarrow> string" where
  "lookupTemplatedVariable varName server =
     (let secretsRaw = (case Srv_Meta server ''secrets'' of
            Some raw \<Rightarrow> Some raw
          | None \<Rightarrow>
              (case Srv_Meta server ''config'' of
                 None \<Rightarrow> None
               | Some configRaw \<Rightarrow>
                   (case any_map configRaw of None \<Rightarrow> None | Some configMap \<Rightarrow> configMap ''secrets'')))
      in case secretsRaw of
           None \<Rightarrow> []
         | Some raw \<Rightarrow> (case any_slice raw of None \<Rightarrow> [] | Some secrets \<Rightarrow> find_secret secrets varName))"

definition lookupTemplatedVariableGeneric :: "string \<Rightarrow> MCPServer \<Rightarrow> string" where
  "lookupTemplatedVariableGeneric varName server =
     (let secretsRaw = (case Srv_Meta server ''secrets'' of
            Some raw \<Rightarrow> Some raw
          | None \<Rightarrow>
              (case Srv_Meta server ''config'' of
                 None \<Rightarrow> None
               | Some configRaw \<Rightarrow>
                   (case any_map configRaw of None \<Rightarrow> None | Some configMap \<Rightarrow> configMap ''secrets'')))
      in case secretsRaw of
           None \<Rightarrow> []
         | Some raw \<Rightarrow> (case any_slice raw of None \<Rightarrow> [] | Some secrets \<Rightarrow> find_secret secrets varName))"

subsection \<open>Substitution\<close>

text \<open>One round of the loops of \<open>processTemplates\<close> and \<open>processTemplatesGeneric\<close>.\<close>

definition substitute_match ::
    "(string \<Rightarrow> string) \<Rightarrow> (string \<Rightarrow> string \<Rightarrow> string) \<Rightarrow> string \<Rightarrow> string \<Rightarrow> string" where
  "substitute_match lookup substituteFunc result m =
     (let varName = TrimSpace m;
          envName = lookup varName
      in if envName = [] then result
         else ReplaceAll result (''{{'' @ varName @ ''}}'') (substituteFunc varName envName))"

definition processTemplates :: "string \<Rightarrow> MCPServer \<Rightarrow> (string \<Rightarrow> string \<Rightarrow> string) \<Rightarrow> string" where
  "processTemplates command server substituteFunc =
     foldl (substitute_match (\<lambda>v. lookupTemplatedVariable v server) substituteFunc) command
       (template_vars command)"

definition processTemplatesGeneric :: "string \<Rightarrow> MCPServer \<Rightarrow> string" where
  "processTemplatesGeneric command server =
     foldl (substitute_match (\<lambda>v. lookupTemplatedVariableGeneric v server) (\<lambda>v envName. ''$'' @ envName))
       command (template_vars command)"

definition processDockerTemplates :: "string \<Rightarrow> MCPServer \<Rightarrow> string" where
  "processDockerTemplates command server =
     processTemplates command server (\<lambda>v envName. ''-e '' @ envName @ ''=$'' @ envName)"

definition processGenericTemplates :: "string \<Rightarrow> MCPServer \<Rightarrow> string" where
  "processGenericTemplates command server = processTemplatesGeneric command server"

text \<open>The callers pass a configuration, never \<open>nil\<close>.\<close>

definition processCommandTemplates :: "SidecarConfig \<Rightarrow> MCPServer \<Rightarrow> SidecarConfig" where
  "processCommandTemplates sidecarConfig server =
     (if SC_Command sidecarConfig = [] then sidecarConfig
      else if \<not> Contains (SC_Command sidecarConfig) ''{{'' then sidecarConfig
      else if SC_CommandType sidecarConfig = ''docker''
      then sidecarConfig\<lparr>SC_Command := processDockerTemplates (SC_Command sidecarConfig) server\<rparr>
      else if SC_CommandType sidecarConfig \<in> {''python'', ''npx'', ''go''}
      then sidecarConfig\<lparr>SC_Command := processGenericTemplates (SC_Command sidecarConfig) server\<rparr>
      else sidecarConfig)"

text \<open>\<open>substituteTemplates\<close> replaces the placeholders of the variables in the order \<open>ks\<close> in which it
  visits them.\<close>

definition substituteTemplates :: "string list \<Rightarrow> string \<Rightarrow> (string \<rightharpoonup> string) \<Rightarrow> string" where
  "substituteTemplates ks template envVars =
     foldl (\<lambda>result key. case envVars key of
         None \<Rightarrow> result
       | Some val \<Rightarrow>
           let templateKey = ToLower (ReplaceAll key ''_'' ''.'');
               placeholder = ''{{'' @ templateKey @ ''}}''
           in ReplaceAll result placeholder val) template ks"

subsection \<open>The sidecar configuration\<close>

definition hasStdioPackage :: "MCPServer \<Rightarrow> bool" where
  "hasStdioPackage server =
     list_ex (\<lambda>pkg. Pkg_RegistryType pkg = ''stdio'' \<or> Tr_Type (Pkg_Transport pkg) = ''stdio'')
       (Srv_Packages server)"

definition getSidecarConfig :: "MCPServer \<Rightarrow> SidecarConfig option" where
  "getSidecarConfig server =
     (case Srv_Meta server ''sidecarConfig'' of
        None \<Rightarrow> None
      | Some sidecarConfigRaw \<Rightarrow>
          (case any_map sidecarConfigRaw of
             None \<Rightarrow> None
           | Some configMap \<Rightarrow>
               (case (string_field configMap ''commandType'', string_field configMap ''command'') of
                  (Some commandType, Some command) \<Rightarrow>
                    if commandType = [] \<or> command = [] then None
                    else
                      (let port = (case configMap ''port'' of
                             None \<Rightarrow> 8000
                           | Some portRaw \<Rightarrow>
                               (case any_float portRaw of None \<Rightarrow> 8000 | Some x \<Rightarrow> int_of_float x));
                           text_of = (\<lambda>m k. case string_field m k of None \<Rightarrow> [] | Some s \<Rightarrow> s);
                           sourceMap = (case Srv_Meta server ''source_info'' of
                             None \<Rightarrow> Map.empty
                           | Some sourceInfo \<Rightarrow>
                               (case any_map sourceInfo of None \<Rightarrow> Map.empty | Some m \<Rightarrow> m))
                       in Some \<lparr>SC_CommandType = commandType, SC_Command = command, SC_Args = [],
                                SC_Env = [], SC_Port = port, SC_Source = text_of configMap ''source'',
                                SC_LastUpdated = text_of configMap ''lastUpdated'',
                                SC_ProjectURL = text_of sourceMap ''project'',
                                SC_ReleaseURL = text_of sourceMap ''release''\<rparr>)
                | _ \<Rightarrow> None)))"

record sidecarMeta =
  SM_CommandType :: string
  SM_BaseImage :: string
  SM_Command :: string
  SM_Args :: "string list"
  SM_DockerImage :: string
  SM_DockerCommand :: string
  SM_DockerEntrypoint :: string
  SM_Port :: int
  SM_Env :: "(string \<rightharpoonup> string) list"

text \<open>The loop that takes \<open>-e KEY=VALUE\<close> out of the arguments: the arguments that stay, and the
  variables in order.\<close>

fun split_env_flags :: "string list \<Rightarrow> string list \<times> (string \<rightharpoonup> string) list" where
  "split_env_flags [] = ([], [])"
| "split_env_flags [arg] = ([arg], [])"
| "split_env_flags (arg # envPair # args) =
     (if arg = ''-e'' then
        (let (kept, env) = split_env_flags args;
             key = takeWhile (\<lambda>x. x \<noteq> CHR ''='') envPair;
             rest = dropWhile (\<lambda>x. x \<noteq> CHR ''='') envPair
         in (kept, if key \<noteq> [] \<and> rest \<noteq> [] then [''name'' \<mapsto> key, ''value'' \<mapsto> tl rest] # env else env))
      else
        (let (kept, env) = split_env_flags (envPair # args) in (arg # kept, env)))"

text \<open>The entries of the \<open>env\<close> section that have a name and a value.\<close>

fun env_items :: "any list \<Rightarrow> (string \<rightharpoonup> string) list" where
  "env_items [] = []"
| "env_items (envItem # items) =
     (case any_map envItem of
        None \<Rightarrow> env_items items
      | Some envMap \<Rightarrow>
          (case (string_field envMap ''name'', string_field envMap ''value'') of
             (Some name, Some val) \<Rightarrow> [''name'' \<mapsto> name, ''value'' \<mapsto> val] # env_items items
           | _ \<Rightarrow> env_items items))"

definition getSidecarMeta :: "string list \<Rightarrow> MCPServer \<Rightarrow> (string \<rightharpoonup> string) \<Rightarrow> sidecarMeta option" where
  "getSidecarMeta ks server envVars =
     (case Srv_Meta server ''sidecarConfig'' of
        None \<Rightarrow> None
      | Some sidecarConfig \<Rightarrow>
          (case any_map sidecarConfig of
             None \<Rightarrow> None
           | Some configMap \<Rightarrow>
               (let text_of = (\<lambda>k. case string_field configMap k of None \<Rightarrow> [] | Some s \<Rightarrow> s);
                    slice_of = (\<lambda>k. case configMap k of None \<Rightarrow> []
                      | Some v \<Rightarrow> (case any_slice v of None \<Rightarrow> [] | Some xs \<Rightarrow> xs));
                    args = map (\<lambda>arg. substituteTemplates ks arg envVars)
                      (List.map_filter any_string (slice_of ''args''));
                    port = (case configMap ''port'' of None \<Rightarrow> 0
                      | Some v \<Rightarrow> (case any_float v of None \<Rightarrow> 0 | Some x \<Rightarrow> int_of_float x));
                    (parsedArgs, flags) = split_env_flags args
                in if text_of ''commandType'' = [] \<or> text_of ''command'' = [] then None
                   else Some \<lparr>SM_CommandType = text_of ''commandType'', SM_BaseImage = [],
                              SM_Command = text_of ''command'', SM_Args = parsedArgs,
                              SM_DockerImage = [], SM_DockerCommand = [], SM_DockerEntrypoint = [],
                              SM_Port = port, SM_Env = env_items (slice_of ''env'') @ flags\<rparr>)))"

subsection \<open>What substitution does, on parsed commands\<close>

text \<open>A command as a sequence of pieces: bytes that are no braces, and holes. \<open>render\<close> writes it.\<close>

datatype piece = Lit char | Hole string

fun render_piece :: "piece \<Rightarrow> string" where
  "render_piece (Lit c) = [c]"
| "render_piece (Hole v) = ''{{'' @ v @ ''}}''"

definition render :: "piece list \<Rightarrow> string" where
  "render ps = concat (map render_piece ps)"

definition no_braces :: "string \<Rightarrow> bool" where
  "no_braces s \<longleftrightarrow> CHR ''{'' \<notin> set s \<and> CHR ''}'' \<notin> set s"

fun plain_piece :: "piece \<Rightarrow> bool" where
  "plain_piece (Lit c) = no_braces [c]"
| "plain_piece (Hole v) = (v \<noteq> [] \<and> no_braces v)"

text \<open>The specification: a hole whose name has no spaces around it and is known is filled.\<close>

fun fill :: "(string \<Rightarrow> string) \<Rightarrow> (string \<Rightarrow> string \<Rightarrow> string) \<Rightarrow> piece \<Rightarrow> string" where
  "fill lookup f (Lit c) = [c]"
| "fill lookup f (Hole v) =
     (if TrimSpace v = v \<and> lookup v \<noteq> [] then f v (lookup v) else ''{{'' @ v @ ''}}'')"

lemma render_simps [simp]:
  "render [] = []" "render (p # ps) = render_piece p @ render ps"
  "render (ps @ qs) = render ps @ render qs"
  by (simp_all add: render_def)

lemma render_Lits [simp]: "render (map Lit s) = s"
  by (induction s) simp_all

lemma template_vars_render:
  "\<forall>p \<in> set ps. plain_piece p \<Longrightarrow>
   template_vars (render ps) = List.map_filter (\<lambda>p. case p of Lit c \<Rightarrow> None | Hole v \<Rightarrow> Some v) ps"
proof (induction ps)
  case Nil
  then show ?case by (simp add: List.map_filter_def)
next
  case (Cons p ps)
  show ?case
  proof (cases p)
    case (Lit c)
    with Cons show ?thesis by (simp add: no_braces_def List.map_filter_def)
  next
    case (Hole v)
    have v: "CHR ''}'' \<notin> set v" using Cons.prems Hole by (simp add: no_braces_def)
    note while_until [OF v]
    with Cons Hole show ?thesis by (simp add: List.map_filter_def)
  qed
qed

text \<open>Replacing one name fills the holes of that name and touches nothing else.\<close>

definition fill_one :: "string \<Rightarrow> string \<Rightarrow> piece \<Rightarrow> piece list" where
  "fill_one v s p = (if p = Hole v then map Lit s else [p])"

lemma ReplaceAll_render:
  assumes "no_braces v"
  shows "\<forall>p \<in> set ps. plain_piece p \<Longrightarrow>
    ReplaceAll (render ps) (''{{'' @ v @ ''}}'') s = render (concat (map (fill_one v s) ps))"
proof (induction ps)
  case Nil
  then show ?case by simp
next
  case (Cons p ps)
  let ?old = "''{{'' @ v @ ''}}''"
  show ?case
  proof (cases p)
    case (Lit c)
    with Cons show ?thesis by (simp add: no_braces_def fill_one_def)
  next
    case (Hole w)
    then have w: "w \<noteq> []" "no_braces w" using Cons.prems by simp_all
    show ?thesis
    proof (cases "v = w")
      case True
      have "ReplaceAll (?old @ render ps) ?old s = s @ ReplaceAll (render ps) ?old s"
        by (rule ReplaceAll_prefix) simp
      with True Hole Cons show ?thesis by (simp add: fill_one_def del: ReplaceAll.simps)
    next
      case False
      have no: "\<not> prefix (v @ ''}}'') (w @ ''}}'' @ render ps)"
      proof
        assume "prefix (v @ ''}}'') (w @ ''}}'' @ render ps)"
        then obtain t where "w @ ''}}'' @ render ps = (v @ ''}}'') @ t" by (rule prefixE)
        then have "w @ CHR ''}'' # (CHR ''}'' # render ps) = (v @ [CHR ''}'']) @ (CHR ''}'' # t)" by simp
        then have "prefix (v @ [CHR ''}'']) (w @ CHR ''}'' # (CHR ''}'' # render ps))" by (rule prefixI)
        then have "v = w" using assms w(2) by (intro prefix_until) (simp_all add: no_braces_def)
        with False show False by simp
      qed
      obtain x w' where x: "w = x # w'" "x \<noteq> CHR ''{''" using w by (cases w) (auto simp: no_braces_def)
      have skip: "ReplaceAll ((w @ ''}}'') @ render ps) ?old s = (w @ ''}}'') @ ReplaceAll (render ps) ?old s"
        using ReplaceAll_skip [of "CHR ''{''" "w @ ''}}''" "render ps"] w(2)
        by (simp add: no_braces_def del: ReplaceAll.simps)
      have "ReplaceAll (''{{'' @ (w @ ''}}'') @ render ps) ?old s =
          ''{{'' @ ReplaceAll ((w @ ''}}'') @ render ps) ?old s"
        using no x by simp
      with skip Cons Hole False show ?thesis by (simp add: fill_one_def del: ReplaceAll.simps)
    qed
  qed
qed

text \<open>The loop over all matches.\<close>

definition fill_names :: "(string \<Rightarrow> string) \<Rightarrow> (string \<Rightarrow> string \<Rightarrow> string) \<Rightarrow> string set \<Rightarrow> piece \<Rightarrow> piece list" where
  "fill_names lookup f V p =
     (case p of Lit c \<Rightarrow> [p]
      | Hole v \<Rightarrow> if v \<in> V \<and> lookup v \<noteq> [] then map Lit (f v (lookup v)) else [p])"

lemma fill_names_simps [simp]:
  "fill_names lookup f V (Lit c) = [Lit c]"
  "fill_names lookup f V (Hole v) = (if v \<in> V \<and> lookup v \<noteq> [] then map Lit (f v (lookup v)) else [Hole v])"
  by (simp_all add: fill_names_def)

lemma concat_map_Lits: "concat (map (fill_names lookup f V) (map Lit s)) = map Lit s"
  by (induction s) simp_all

lemma substitute_all:
  assumes braces: "\<And>v. lookup v \<noteq> [] \<Longrightarrow> no_braces (f v (lookup v))"
  shows "\<forall>p \<in> set ps. plain_piece p \<Longrightarrow> \<forall>m \<in> set ms. no_braces (TrimSpace m) \<Longrightarrow>
    foldl (substitute_match lookup f) (render ps) ms =
    render (concat (map (fill_names lookup f (TrimSpace ` set ms)) ps))"
proof (induction ms arbitrary: ps)
  case Nil
  have "fill_names lookup f {} = (\<lambda>p. [p])" by (auto simp: fill_names_def fun_eq_iff split: piece.splits)
  then show ?case by simp
next
  case (Cons m ms)
  let ?v = "TrimSpace m" and ?V = "TrimSpace ` set ms"
  have m: "no_braces ?v" using Cons.prems by simp
  show ?case
  proof (cases "lookup ?v = []")
    case True
    then have "fill_names lookup f (insert ?v ?V) = fill_names lookup f ?V"
      by (auto simp: fill_names_def fun_eq_iff split: piece.splits)
    with True Cons show ?thesis by (simp add: substitute_match_def)
  next
    case False
    let ?one = "concat (map (fill_one ?v (f ?v (lookup ?v))) ps)"
    have "substitute_match lookup f (render ps) m = render ?one"
      using False ReplaceAll_render [OF m Cons.prems(1)] by (simp add: substitute_match_def Let_def del: ReplaceAll.simps)
    moreover have "\<forall>p \<in> set ?one. plain_piece p"
      using Cons.prems(1) braces [OF False] by (auto simp: fill_one_def no_braces_def split: if_splits)
    moreover have "concat (map (fill_names lookup f ?V) ?one) =
        concat (map (fill_names lookup f (insert ?v ?V)) ps)"
    proof (induction ps)
      case (Cons p ps)
      then show ?case using False by (cases p) (auto simp: fill_one_def concat_map_Lits [simplified])
    qed simp
    ultimately show ?thesis using Cons by simp
  qed
qed

lemma render_fill_names:
  assumes "\<And>v. Hole v \<in> set ps \<Longrightarrow> v \<in> V \<longleftrightarrow> TrimSpace v = v"
  shows "render (concat (map (fill_names lookup f V) ps)) = concat (map (fill lookup f) ps)"
  using assms
proof (induction ps)
  case (Cons p ps)
  then show ?case by (cases p) auto
qed simp

lemma set_dropWhile_subset: "set (dropWhile P s) \<subseteq> set s"
  by (auto dest: set_dropWhileD)

lemma set_TrimSpace: "set (TrimSpace s) \<subseteq> set s"
  using set_dropWhile_subset [of is_space "rev (dropWhile is_space s)"] set_dropWhile_subset [of is_space s]
  by (auto simp: TrimSpace_def)

lemma TrimSpace_fixed_iff: "TrimSpace s = s \<longleftrightarrow>
    s = [] \<or> \<not> is_space (hd s) \<and> \<not> is_space (last s)"
proof (cases s)
  case (Cons c cs)
  show ?thesis
  proof (cases "is_space c")
    case True
    have "length (TrimSpace s) \<le> length (dropWhile is_space s)"
      by (simp add: TrimSpace_def length_dropWhile_le [THEN order_trans])
    also have "\<dots> \<le> length cs" using True Cons by (simp add: length_dropWhile_le)
    finally have "TrimSpace s \<noteq> s" using Cons by auto
    with True Cons show ?thesis by simp
  next
    case False
    have "TrimSpace s = rev (dropWhile is_space (rev s))" using False Cons by (simp add: TrimSpace_def)
    moreover have "dropWhile is_space (rev s) = rev s \<longleftrightarrow> \<not> is_space (last s)"
      using Cons by (simp add: dropWhile_eq_self_iff hd_rev)
    ultimately show ?thesis using False Cons by (metis list.discI list.sel(1) rev_rev_ident)
  qed
qed (simp add: TrimSpace_def)

lemma TrimSpace_idem: "TrimSpace (TrimSpace s) = TrimSpace s"
proof -
  define u where "u = dropWhile is_space s"
  define w where "w = dropWhile is_space (rev u)"
  have t: "TrimSpace s = rev w" by (simp add: TrimSpace_def u_def w_def)
  show ?thesis
  proof (cases "w = []")
    case False
    have "\<not> is_space (hd w)" using False unfolding w_def by (rule hd_dropWhile)
    moreover have "last w = hd u"
    proof -
      obtain v where "rev u = v @ w" unfolding w_def by (metis takeWhile_dropWhile_id)
      then have "u = rev w @ rev v" by (metis rev_append rev_rev_ident)
      with False show ?thesis by (simp add: hd_append hd_rev)
    qed
    moreover have "\<not> is_space (hd u)"
    proof -
      have "u \<noteq> []" using False by (auto simp: w_def)
      then show ?thesis unfolding u_def by (rule hd_dropWhile)
    qed
    ultimately have "\<not> is_space (hd (rev w)) \<and> \<not> is_space (last (rev w))"
      using False by (simp add: hd_rev last_rev)
    then show ?thesis unfolding t by (simp add: TrimSpace_fixed_iff)
  next
    case True
    then have "TrimSpace s = []" by (simp add: t)
    moreover have "TrimSpace [] = []" by (simp add: TrimSpace_def)
    ultimately show ?thesis by simp
  qed
qed

lemma substitute_spec:
  assumes plain: "\<forall>p \<in> set ps. plain_piece p"
    and braces: "\<And>v. lookup v \<noteq> [] \<Longrightarrow> no_braces (f v (lookup v))"
  shows "foldl (substitute_match lookup f) (render ps) (template_vars (render ps)) =
    concat (map (fill lookup f) ps)"
proof -
  let ?vars = "List.map_filter (\<lambda>p. case p of Lit c \<Rightarrow> None | Hole v \<Rightarrow> Some v) ps"
  have set_vars: "set ?vars = {v. Hole v \<in> set ps}"
    by (force simp: List.map_filter_def image_iff split: piece.splits)
  have "\<forall>m \<in> set ?vars. no_braces (TrimSpace m)"
    using plain set_TrimSpace by (force simp: set_vars no_braces_def)
  from substitute_all [of lookup f, OF braces plain this]
  have "foldl (substitute_match lookup f) (render ps) (template_vars (render ps)) =
      render (concat (map (fill_names lookup f (TrimSpace ` {v. Hole v \<in> set ps})) ps))"
    by (simp add: template_vars_render [OF plain] set_vars)
  also have "\<dots> = concat (map (fill lookup f) ps)"
  proof (rule render_fill_names)
    fix v
    assume "Hole v \<in> set ps"
    then show "v \<in> TrimSpace ` {v. Hole v \<in> set ps} \<longleftrightarrow> TrimSpace v = v"
      by (metis (no_types, lifting) TrimSpace_idem image_iff mem_Collect_eq)
  qed
  finally show ?thesis .
qed

subsection \<open>Properties\<close>


definition ex_server :: MCPServer where
  "ex_server = \<lparr>Srv_ID = ''w'', Srv_Name = ''weather'', Srv_Image = [], Srv_Description = [], Srv_Version = [],
     Srv_Repository = \<lparr>Repo_URL = [], Repo_Source = []\<rparr>, Srv_Packages = [], Srv_Tools = [],
     Srv_ValidationStatus = [], Srv_DiscoveredAt = 0, Srv_URL = [],
     Srv_Meta = [''secrets'' \<mapsto> Slice [Object [''name'' \<mapsto> String_value ''weather.key'',
                                               ''env'' \<mapsto> String_value ''WEATHER_KEY'']],
                 ''sidecarConfig'' \<mapsto> Object [''commandType'' \<mapsto> String_value ''docker'',
                                                ''command'' \<mapsto> String_value ''run {{weather.key}}'']],
     Srv_GitHubConfig = None, Srv_RouteAssignments = [], Srv_AutoSpawn = None\<rparr>"

lemma ex_server_lookup:
  "lookupTemplatedVariable v ex_server = (if v = ''weather.key'' then ''WEATHER_KEY'' else [])"
  by (simp add: lookupTemplatedVariable_def ex_server_def string_field_def)


text \<open>What \<open>getSidecarMeta\<close> makes of the arguments of a docker command: the \<open>-e KEY=VALUE\<close> pairs become
  variables, in order, and the other arguments stay, in order.\<close>

lemma split_env_flags_other:
  "a \<noteq> ''-e'' \<Longrightarrow> split_env_flags (a # args) = (a # fst (split_env_flags args), snd (split_env_flags args))"
  by (cases args) (simp_all add: split_beta)

lemma split_env_flags_flag:
  "CHR ''='' \<notin> set k \<Longrightarrow> k \<noteq> [] \<Longrightarrow> split_env_flags (''-e'' # (k @ ''='' @ v) # args) =
    (fst (split_env_flags args), [''name'' \<mapsto> k, ''value'' \<mapsto> v] # snd (split_env_flags args))"
  by (simp add: split_beta while_until)

datatype docker_arg = Env_flag string string | Other_arg string

fun docker_args :: "docker_arg list \<Rightarrow> string list" where
  "docker_args [] = []"
| "docker_args (Env_flag k v # as) = ''-e'' # (k @ ''='' @ v) # docker_args as"
| "docker_args (Other_arg a # as) = a # docker_args as"

text \<open>Parsing undoes writing: of a command line written from variables (with names that are not empty
  and hold no equals sign) and other arguments (none of them \<open>-e\<close>), the parser returns the arguments
  and the variables, each in their order, whatever characters the values hold.\<close>

theorem env_flags_roundtrip:
  assumes "\<forall>k v. Env_flag k v \<in> set as \<longrightarrow> k \<noteq> [] \<and> CHR ''='' \<notin> set k"
    and "\<forall>a. Other_arg a \<in> set as \<longrightarrow> a \<noteq> ''-e''"
  shows "split_env_flags (docker_args as) =
    (List.map_filter (\<lambda>x. case x of Other_arg a \<Rightarrow> Some a | _ \<Rightarrow> None) as,
     List.map_filter (\<lambda>x. case x of Env_flag k v \<Rightarrow> Some [''name'' \<mapsto> k, ''value'' \<mapsto> v] | _ \<Rightarrow> None) as)"
  using assms
proof (induction as rule: docker_args.induct)
  case (2 k v as)
  have kv: "k \<noteq> []" "CHR ''='' \<notin> set k" using "2.prems"(1) by auto
  have IH: "split_env_flags (docker_args as) =
    (List.map_filter (\<lambda>x. case x of Other_arg a \<Rightarrow> Some a | _ \<Rightarrow> None) as,
     List.map_filter (\<lambda>x. case x of Env_flag k v \<Rightarrow> Some [''name'' \<mapsto> k, ''value'' \<mapsto> v] | _ \<Rightarrow> None) as)"
    by (rule "2.IH") (use "2.prems" in auto)
  show ?case
    unfolding docker_args.simps split_env_flags_flag [OF kv(2,1)] IH by (simp add: map_filter_simps)
next
  case (3 a as)
  have a: "a \<noteq> ''-e''" using "3.prems"(2) by auto
  have IH: "split_env_flags (docker_args as) =
    (List.map_filter (\<lambda>x. case x of Other_arg a \<Rightarrow> Some a | _ \<Rightarrow> None) as,
     List.map_filter (\<lambda>x. case x of Env_flag k v \<Rightarrow> Some [''name'' \<mapsto> k, ''value'' \<mapsto> v] | _ \<Rightarrow> None) as)"
    by (rule "3.IH") (use "3.prems" in auto)
  show ?case
    unfolding docker_args.simps split_env_flags_other [OF a] IH by (simp add: map_filter_simps)
qed (simp add: map_filter_simps)

theorem env_flags_roundtrip_witness:
  "split_env_flags [''--rm'', ''-e'', ''URL=a=b'', ''img''] =
     ([''--rm'', ''img''], [[''name'' \<mapsto> ''URL'', ''value'' \<mapsto> ''a=b'']])"
  using env_flags_roundtrip [of "[Other_arg ''--rm'', Env_flag ''URL'' ''a=b'', Other_arg ''img'']"]
  by (simp add: map_filter_simps del: split_env_flags.simps)

end
