(* ===== verification/AdapterCreation.thy ===== *)
theory AdapterCreation
  imports AdapterService Templates
begin

section \<open>The adapter service: creating adapters\<close>

text \<open>
  The rest of \<open>pkg/services/adapters/service.go\<close>: the choice of an adapter's connection from the
  registry server, its deployment, the discovery of its capabilities
  (\<open>DiscoverCapabilities\<close> of \<open>pkg/mcp/capability_discovery.go\<close>), its health and its
  assignment to the administrators' groups.

  What the network and the cluster answer is in the record \<open>sidecar_env\<close>; the sidecar manager is an
  optional function, \<open>DeploySidecar\<close>. The registry is given by the operations \<open>R\<close> of its store
  and its state \<open>rs\<close>, which creation only reads. \<open>es\<close> numbers the writes to a store, \<open>now\<close> is
  the clock during the call and \<open>token\<close> what \<open>generateSecureToken\<close> draws. A panic is \<open>None\<close>.
\<close>

text \<open>\<open>InterrogateServer\<close> of the attempt with a number, \<open>Initialize\<close> of the simple client, and the
  status (or error) of a GET request.\<close>

record sidecar_env =
  se_InterrogateServer :: "string \<Rightarrow> nat \<Rightarrow> (MCPServerInfo \<times> McpTool list \<times> McpResource list \<times> McpPrompt list) result"
  se_get :: "string \<Rightarrow> int result"

subsection \<open>Discovery\<close>

definition DiscoverCapabilities ::
    "sidecar_env \<Rightarrow> gotime \<Rightarrow> string \<Rightarrow> nat \<Rightarrow> MCPFunctionality result" where
  "DiscoverCapabilities W now serverURL attempt =
     (case se_InterrogateServer W serverURL attempt of
        Inl err \<Rightarrow> Inr
          \<lparr>MF_ServerInfo = \<lparr>MSI_Name = ''MCP Server'', MSI_Version = ''1.0.0'', MSI_Protocol = [],
             MSI_Capabilities = Map.empty\<rparr>, MF_Tools = [], MF_Prompts = [], MF_Resources = [],
           MF_LastRefreshed = now\<rparr>
      | Inr (serverInfo, tools, resources, prompts) \<Rightarrow> Inr
          \<lparr>MF_ServerInfo = \<lparr>MSI_Name = MSI_Name serverInfo, MSI_Version = MSI_Version serverInfo,
             MSI_Protocol = [], MSI_Capabilities = Map.empty\<rparr>,
           MF_Tools = map (\<lambda>t. \<lparr>MT_Name = McT_Name t, MT_Description = McT_Description t,
             MT_InputSchema = (case McT_InputSchema t of None \<Rightarrow> Map.empty | Some m \<Rightarrow> m), MT_SourceType = [], MT_Config = Map.empty\<rparr>) tools,
           MF_Prompts = map (\<lambda>p. \<lparr>MP_Name = McP_Name p, MP_Description = McP_Description p,
             MP_Arguments = map (\<lambda>a. \<lparr>MA_Name = McA_Name a, MA_Description = McA_Description a,
               MA_Required = McA_Required a\<rparr>) (McP_Arguments p)\<rparr>) prompts,
           MF_Resources = map (\<lambda>r. \<lparr>MR_URI = McR_URI r, MR_Name = McR_Name r,
             MR_Description = McR_Description r, MR_MimeType = McR_MimeType r\<rparr>) resources,
           MF_LastRefreshed = now\<rparr>)"

text \<open>The loop over the attempts, of which there are at most three.\<close>

function discover_attempts ::
    "sidecar_env \<Rightarrow> gotime \<Rightarrow> string \<Rightarrow> nat \<Rightarrow> MCPFunctionality result" where
  "discover_attempts W now serverURL attempt =
     (if attempt < 3 then
        (case DiscoverCapabilities W now serverURL attempt of
           Inr capabilities \<Rightarrow> Inr capabilities
         | Inl err \<Rightarrow>
             if attempt = 2 then Inl err else discover_attempts W now serverURL (attempt + 1))
      else Inl ''capability discovery failed after 3 attempts'')"
  by pat_completeness auto
termination by (relation "measure (\<lambda>(W, now, serverURL, attempt). 3 - attempt)") auto

declare discover_attempts.simps [simp del]

definition discoverCapabilitiesWithRetry ::
    "sidecar_env \<Rightarrow> gotime \<Rightarrow> string \<Rightarrow> MCPFunctionality result" where
  "discoverCapabilitiesWithRetry W now serverURL = discover_attempts W now serverURL 0"

definition basic_functionality :: "gotime \<Rightarrow> MCPServerInfo \<Rightarrow> MCPFunctionality" where
  "basic_functionality now info =
     \<lparr>MF_ServerInfo = info, MF_Tools = [], MF_Prompts = [], MF_Resources = [], MF_LastRefreshed = now\<rparr>"

text \<open>\<open>Initialize\<close> succeeds if \<open>/health\<close> answers 200.\<close>

definition show_status_error :: "int \<Rightarrow> error" where
  "show_status_error code = ''server returned status '' @ show_int code"

definition MCPClient_Initialize :: "sidecar_env \<Rightarrow> string \<Rightarrow> error option" where
  "MCPClient_Initialize W serverURL =
     (case se_get W (serverURL @ ''/health'') of
        Inl err \<Rightarrow> Some err
      | Inr code \<Rightarrow> if code \<noteq> 200 then Some (show_status_error code) else None)"

definition getBasicServerInfo :: "sidecar_env \<Rightarrow> string \<Rightarrow> MCPServerInfo result" where
  "getBasicServerInfo W serverURL =
     (case MCPClient_Initialize W serverURL of
        Some err \<Rightarrow> Inl err
      | None \<Rightarrow> Inr \<lparr>MSI_Name = ''Remote MCP Server'', MSI_Version = ''1.0.0'', MSI_Protocol = [],
                    MSI_Capabilities = Map.empty\<rparr>)"

definition sidecarServiceURL :: "string \<Rightarrow> string" where
  "sidecarServiceURL adapterID = ''http://mcp-sidecar-'' @ adapterID @ ''.suseai.svc.cluster.local:8000''"

text \<open>If discovery fails and the basic information does not, the last log line follows the nil pointer
  \<open>capabilities\<close>.\<close>

definition discoverCapabilitiesFromSidecar ::
    "sidecar_env \<Rightarrow> gotime \<Rightarrow> AdapterResource \<Rightarrow> (AdapterResource \<times> error option) option" where
  "discoverCapabilitiesFromSidecar W now adapter =
     (let url = sidecarServiceURL (AR_ID adapter) in
      case discoverCapabilitiesWithRetry W now url of
        Inl err \<Rightarrow>
          (case getBasicServerInfo W url of
             Inl infoErr \<Rightarrow>
               Some (adapter\<lparr>AD_MCPFunctionality := Some (basic_functionality now
                       \<lparr>MSI_Name = AD_Name adapter, MSI_Version = ''1.0.0'', MSI_Protocol = [],
                        MSI_Capabilities = Map.empty\<rparr>)\<rparr>, None)
           | Inr serverInfo \<Rightarrow> None)
      | Inr capabilities \<Rightarrow> Some (adapter\<lparr>AD_MCPFunctionality := Some capabilities\<rparr>, None))"

definition discoverCapabilities :: "gotime \<Rightarrow> AdapterResource \<Rightarrow> AdapterResource \<times> error option" where
  "discoverCapabilities now adapterData =
     (adapterData\<lparr>AD_MCPFunctionality := Some (basic_functionality now
        \<lparr>MSI_Name = AD_Name adapterData, MSI_Version = ''1.0.0'', MSI_Protocol = [],
         MSI_Capabilities = Map.empty\<rparr>)\<rparr>, None)"

subsection \<open>Health\<close>

definition isSidecarHealthy :: "sidecar_env \<Rightarrow> string \<Rightarrow> bool result" where
  "isSidecarHealthy W serviceURL =
     (case se_get W (serviceURL @ ''/health'') of Inl err \<Rightarrow> Inl err | Inr code \<Rightarrow> Inr (code = 200))"

definition checkAndUpdateSidecarHealth ::
    "'a AdapterResourceStore \<Rightarrow> env \<Rightarrow> sidecar_env \<Rightarrow> (AdapterResource \<Rightarrow> error option) option \<Rightarrow>
     AdapterResource \<Rightarrow> 'a \<Rightarrow> 'a \<times> AdapterResource \<times> error option" where
  "checkAndUpdateSidecarHealth A e W sm adapter s =
     (if AD_SidecarConfig adapter = None \<or> AD_ConnectionType adapter \<noteq> ConnectionTypeStreamableHttp
      then (s, adapter, None)
      else if sm = None then (s, adapter, None)
      else (case isSidecarHealthy W (sidecarServiceURL (AR_ID adapter)) of
              Inl err \<Rightarrow> (s, adapter, None)
            | Inr healthy \<Rightarrow>
                (let oldStatus = AD_Status adapter;
                     adapter' =
                       (if healthy then
                          (if AD_Status adapter = AdapterLifecycleStatusError
                           then adapter\<lparr>AD_Status := AdapterLifecycleStatusReady\<rparr> else adapter)
                        else
                          (if AD_Status adapter = AdapterLifecycleStatusReady
                           then adapter\<lparr>AD_Status := AdapterLifecycleStatusError\<rparr> else adapter))
                 in if oldStatus \<noteq> AD_Status adapter'
                    then (let r = ars_Update A e adapter' s in (fst r, adapter', snd r))
                    else (s, adapter', None))))"

definition SyncAdapterCapabilities ::
    "'a AdapterResourceStore \<Rightarrow> 's AdapterGroupAssignmentStore \<Rightarrow> 'us UserStore \<Rightarrow> 'gs GroupStore \<Rightarrow>
     ('us, 'gs) UserGroupService option \<Rightarrow> env \<Rightarrow> gotime \<Rightarrow> string \<Rightarrow> string \<Rightarrow>
     ('a, 's, 't) AdapterService \<Rightarrow> ('a, 's, 't) AdapterService \<times> error option" where
  "SyncAdapterCapabilities A S U G ugs e now userID adapterID st =
     (case GetAdapter A S U G ugs st userID adapterID of
        Inl err \<Rightarrow> (st, Some err)
      | Inr adapter \<Rightarrow>
          (case discoverCapabilities now adapter of
             (adapter', Some err) \<Rightarrow> (st, Some (''failed to sync capabilities: '' @ err))
           | (adapter', None) \<Rightarrow>
               (let r = ars_Update A e adapter' (as_store st) in (st\<lparr>as_store := fst r\<rparr>, snd r))))"

definition CheckAdapterHealth ::
    "'a AdapterResourceStore \<Rightarrow> 's AdapterGroupAssignmentStore \<Rightarrow> 'us UserStore \<Rightarrow> 'gs GroupStore \<Rightarrow>
     ('us, 'gs) UserGroupService option \<Rightarrow> env \<Rightarrow> sidecar_env \<Rightarrow> (AdapterResource \<Rightarrow> error option) option \<Rightarrow>
     string \<Rightarrow> string \<Rightarrow> ('a, 's, 't) AdapterService \<Rightarrow> ('a, 's, 't) AdapterService \<times> error option" where
  "CheckAdapterHealth A S U G ugs e W sm userID adapterID st =
     (case GetAdapter A S U G ugs st userID adapterID of
        Inl err \<Rightarrow> (st, Some err)
      | Inr adapter \<Rightarrow>
          (case checkAndUpdateSidecarHealth A e W sm adapter (as_store st) of
             (s', _, None) \<Rightarrow> (st\<lparr>as_store := s'\<rparr>, None)
           | (s', _, Some err) \<Rightarrow> (st\<lparr>as_store := s'\<rparr>, Some (''failed to check adapter health: '' @ err))))"

subsection \<open>Creation\<close>

text \<open>The registry server, by its identifier or else by its name.\<close>

definition find_server :: "'r MCPServerStore \<Rightarrow> string list \<Rightarrow> 'r \<Rightarrow> string \<Rightarrow> MCPServer option" where
  "find_server R ks rs mcpServerID =
     (case mss_GetMCPServer R rs mcpServerID of
        Inr server \<Rightarrow> Some server
      | Inl err \<Rightarrow> find (\<lambda>s. Srv_Name s = mcpServerID) (mss_ListMCPServers R ks rs))"

text \<open>The connection type and the sidecar's configuration.\<close>

definition fallback_sidecar :: SidecarConfig where
  "fallback_sidecar = \<lparr>SC_CommandType = ''npx'', SC_Command = ''npx'',
     SC_Args = [''-y'', ''@modelcontextprotocol/server-everything''], SC_Env = [], SC_Port = 0,
     SC_Source = [], SC_LastUpdated = [], SC_ProjectURL = [], SC_ReleaseURL = []\<rparr>"

definition connection_config :: "MCPServer \<Rightarrow> (string \<times> SidecarConfig option) result" where
  "connection_config server =
     (if hasStdioPackage server \<or> Contains (Srv_Name server) ''uyuni'' \<or> Contains (Srv_Name server) ''bugzilla''
      then (case getSidecarConfig server of
              Some extractedConfig \<Rightarrow>
                (let sidecarConfig = processCommandTemplates extractedConfig server
                 in Inr (if SC_CommandType sidecarConfig = ''http'' then ConnectionTypeRemoteHttp
                         else ConnectionTypeStreamableHttp, Some sidecarConfig))
            | None \<Rightarrow> Inr (ConnectionTypeStreamableHttp, Some fallback_sidecar))
      else (let http = (case getSidecarConfig server of
                  Some c \<Rightarrow> if SC_CommandType c = ''http'' then Some c else None | None \<Rightarrow> None)
            in case http of
                 Some extractedConfig \<Rightarrow>
                   Inr (ConnectionTypeRemoteHttp, Some (processCommandTemplates extractedConfig server))
               | None \<Rightarrow>
                   if Srv_URL server \<noteq> [] then Inr (ConnectionTypeRemoteHttp, None)
                   else Inl (''server '' @ Srv_Name server @ '' has no URL for remote connection'')))"

definition adapter_url :: "string \<Rightarrow> string" where
  "adapter_url name = ''http://localhost:8911/api/v1/adapters/'' @ name @ ''/mcp''"

definition new_adapter_data ::
    "MCPServer \<Rightarrow> string \<Rightarrow> (string \<rightharpoonup> string) \<Rightarrow> string \<Rightarrow> string \<Rightarrow> SidecarConfig option \<Rightarrow> AdapterData" where
  "new_adapter_data server name envVars token connectionType sidecarConfig =
     (let remoteUrl = (case sidecarConfig of
            Some c \<Rightarrow> if connectionType = ConnectionTypeRemoteHttp then SC_Command c else Srv_URL server
          | None \<Rightarrow> Srv_URL server);
          initialStatus = (if connectionType = ConnectionTypeRemoteHttp
            then AdapterLifecycleStatusReady else AdapterLifecycleStatusNotReady);
          by_url = (\<lambda>url. \<lparr>MSC_Command = [], MSC_Args = [], MSC_Env = Map.empty, MSC_URL = url,
            MSC_Headers = [''Authorization'' \<mapsto> ''Bearer '' @ token]\<rparr>);
          server_config =
            (if connectionType = ConnectionTypeRemoteHttp then by_url remoteUrl
             else if connectionType = ConnectionTypeStreamableHttp then by_url (adapter_url name)
             else \<lparr>MSC_Command = ''remote'',
                   MSC_Args = [name, adapter_url name, ''--header'', ''Authorization: Bearer '' @ token],
                   MSC_Env = [''AUTH_TOKEN'' \<mapsto> token], MSC_URL = [], MSC_Headers = Map.empty\<rparr>)
      in zero_AdapterData
         \<lparr>AD_Name := name, AD_ConnectionType := connectionType, AD_Status := initialStatus,
          AD_EnvironmentVariables := envVars, AD_RemoteUrl := remoteUrl, AD_URL := adapter_url name,
          AD_SidecarConfig := sidecarConfig,
          AD_MCPClientConfig := \<lparr>MCC_MCPServers = [name \<mapsto> server_config]\<rparr>,
          AD_Authentication := Some \<lparr>AAC_Required = True, AAC_Type = ''bearer'',
            AAC_BearerToken = Some \<lparr>BT_Token = token, BT_Dynamic = False, BT_ExpiresAt = 0\<rparr>,
            AAC_OAuth = None, AAC_Basic = None, AAC_APIKey = None\<rparr>\<rparr>)"

text \<open>Deployment, discovery and health of an adapter that is in the store already; \<open>es 1\<close> to \<open>es 4\<close> are
  the writes after that of its creation. The result \<open>Inl\<close> stops the creation.\<close>

definition bring_up ::
    "'a AdapterResourceStore \<Rightarrow> (nat \<Rightarrow> env) \<Rightarrow> gotime \<Rightarrow> sidecar_env \<Rightarrow>
     (AdapterResource \<Rightarrow> error option) option \<Rightarrow> AdapterResource \<Rightarrow> 'a \<Rightarrow>
     ('a \<times> AdapterResource result) option" where
  "bring_up A es now W sm adapter s =
     (if AD_SidecarConfig adapter \<noteq> None \<and> AD_ConnectionType adapter = ConnectionTypeStreamableHttp then
        (case sm of
           None \<Rightarrow>
             (let r = ars_Delete A (es 1) (AR_ID adapter) s
              in Some (fst r, Inl ''sidecar manager not available for adapter deployment''))
         | Some DeploySidecar \<Rightarrow>
             (case DeploySidecar adapter of
                Some err \<Rightarrow>
                  (let s1 = fst (ars_Update A (es 1) (adapter\<lparr>AD_Status := AdapterLifecycleStatusError\<rparr>) s);
                       s2 = fst (ars_Delete A (es 2) (AR_ID adapter) s1)
                   in Some (s2, Inl (''failed to deploy sidecar: '' @ err)))
              | None \<Rightarrow>
                  (case discoverCapabilitiesFromSidecar W now adapter of
                     None \<Rightarrow> None
                   | Some (adapter1, derr) \<Rightarrow>
                       (let adapter2 = adapter1\<lparr>AD_Status :=
                              (if derr \<noteq> None then AdapterLifecycleStatusError
                               else AdapterLifecycleStatusReady)\<rparr>;
                            (s1, adapter3, herr) = checkAndUpdateSidecarHealth A (es 3) W sm adapter2 s
                        in case ars_Update A (es 4) adapter3 s1 of
                             (s2, Some err) \<Rightarrow> Some (s2, Inl (''failed to update adapter: '' @ err))
                           | (s2, None) \<Rightarrow> Some (s2, Inr adapter3)))))
      else
        (let adapter1 = adapter\<lparr>AD_Status := AdapterLifecycleStatusReady\<rparr> in
         case ars_Update A (es 1) adapter1 s of
           (s1, Some err) \<Rightarrow> Some (s1, Inl (''failed to update adapter: '' @ err))
         | (s1, None) \<Rightarrow> Some (s1, Inr adapter1)))"

text \<open>The assignment to every group with one of three permissions; a failure is logged only. \<open>ea i\<close> is
  what the \<open>i\<close>-th call gets from the runtime.\<close>

definition may_assign_adapters :: "Group \<Rightarrow> bool" where
  "may_assign_adapters g =
     list_ex (\<lambda>perm. perm = ''adapter:assign'' \<or> perm = ''adapter:*'' \<or> perm = ''*'') (Group_Permissions g)"

definition admin_assignment :: "env \<Rightarrow> string \<Rightarrow> string \<Rightarrow> AdapterGroupAssignment" where
  "admin_assignment e adapterID groupID =
     \<lparr>AGA_ID = [], AGA_AdapterID = adapterID, AGA_GroupID = groupID, AGA_Permission = ''read'',
      AGA_CreatedAt = env_now e, AGA_UpdatedAt = env_now' e, AGA_CreatedBy = ''system''\<rparr>"

fun assign_to_admin_groups ::
    "'s AdapterGroupAssignmentStore \<Rightarrow> (nat \<Rightarrow> env) \<Rightarrow> nat \<Rightarrow> string \<Rightarrow> Group list \<Rightarrow> 's \<Rightarrow> 's" where
  "assign_to_admin_groups S ea i adapterID [] s = s"
| "assign_to_admin_groups S ea i adapterID (grp # groups) s =
     (if may_assign_adapters grp
      then assign_to_admin_groups S ea (Suc i) adapterID groups
             (fst (ags_CreateAssignment S (ea i) (admin_assignment (ea i) adapterID (Group_ID grp)) s))
      else assign_to_admin_groups S ea (Suc i) adapterID groups s)"

text \<open>\<open>userID\<close> and \<open>auth\<close> are not used. \<open>ks\<close> and \<open>gks\<close> are the orders of the registry's and the groups'
  maps.\<close>

definition CreateAdapter ::
    "'a AdapterResourceStore \<Rightarrow> 's AdapterGroupAssignmentStore \<Rightarrow> 'r MCPServerStore \<Rightarrow> 'gs GroupStore \<Rightarrow>
     ('us, 'gs) UserGroupService option \<Rightarrow> (nat \<Rightarrow> env) \<Rightarrow> (nat \<Rightarrow> env) \<Rightarrow> gotime \<Rightarrow> gotime \<Rightarrow> string list \<Rightarrow>
     string list \<Rightarrow> string \<Rightarrow> sidecar_env \<Rightarrow> (AdapterResource \<Rightarrow> error option) option \<Rightarrow> 'r \<Rightarrow>
     string \<Rightarrow> string \<Rightarrow> string \<Rightarrow> (string \<rightharpoonup> string) \<Rightarrow> AdapterAuthConfig option \<Rightarrow>
     ('a, 's, 't) AdapterService \<Rightarrow> (('a, 's, 't) AdapterService \<times> AdapterResource result) option" where
  "CreateAdapter A S R G ugs es ea now now' ks gks token W sm rs userID mcpServerID name envVars auth st =
     (case find_server R ks rs mcpServerID of
        None \<Rightarrow> Some (st, Inl (''MCP server not found: '' @ mcpServerID))
      | Some server \<Rightarrow>
          (case connection_config server of
             Inl err \<Rightarrow> Some (st, Inl err)
           | Inr (connectionType, sidecarConfig) \<Rightarrow>
               (let adapterData = new_adapter_data server name envVars token connectionType sidecarConfig;
                    adapter = AdapterResource_Create now' [name] adapterData ''system'' now
                in case ars_Create A (es 0) adapter (as_store st) of
                     (s1, Some err) \<Rightarrow> Some (st\<lparr>as_store := s1\<rparr>, Inl (''failed to store adapter: '' @ err))
                   | (s1, None) \<Rightarrow>
                       (case bring_up A es now W sm adapter s1 of
                          None \<Rightarrow> None
                        | Some (s2, Inl err) \<Rightarrow> Some (st\<lparr>as_store := s2\<rparr>, Inl err)
                        | Some (s2, Inr adapter') \<Rightarrow>
                            (let assigned = (case ugs of
                                   None \<Rightarrow> as_assignments st
                                 | Some us \<Rightarrow>
                                     (case ListGroups G gks us of
                                        Inl err \<Rightarrow> as_assignments st
                                      | Inr groups \<Rightarrow>
                                          assign_to_admin_groups S ea 0 (AR_ID adapter') groups (as_assignments st)))
                             in Some (st\<lparr>as_store := s2, as_assignments := assigned\<rparr>, Inr adapter'))))))"

subsection \<open>Discovery never fails\<close>

lemma DiscoverCapabilities_ok: "\<exists>c. DiscoverCapabilities W now url attempt = Inr c"
  by (auto simp: DiscoverCapabilities_def split: sum.splits)

lemma retry_first: "discoverCapabilitiesWithRetry W now url = DiscoverCapabilities W now url 0"
proof -
  obtain c where "DiscoverCapabilities W now url 0 = Inr c" using DiscoverCapabilities_ok by blast
  then show ?thesis
    by (simp add: discoverCapabilitiesWithRetry_def discover_attempts.simps [of W now url 0])
qed

lemma discover_sidecar:
  obtains c where "discoverCapabilitiesFromSidecar W now adapter =
    Some (adapter\<lparr>AD_MCPFunctionality := Some c\<rparr>, None)"
proof -
  obtain c where "DiscoverCapabilities W now (sidecarServiceURL (AR_ID adapter)) 0 = Inr c"
    using DiscoverCapabilities_ok by blast
  with that show thesis by (simp add: discoverCapabilitiesFromSidecar_def retry_first Let_def)
qed

subsection \<open>Creation over any reliable adapter store\<close>

text \<open>The status that creation leaves: ready, unless a deployed sidecar answers the health check with
  something else than 200.\<close>

definition needs_sidecar :: "AdapterResource \<Rightarrow> bool" where
  "needs_sidecar a \<longleftrightarrow> AD_SidecarConfig a \<noteq> None \<and> AD_ConnectionType a = ConnectionTypeStreamableHttp"

definition sidecar_unhealthy :: "sidecar_env \<Rightarrow> string \<Rightarrow> bool" where
  "sidecar_unhealthy W aid \<longleftrightarrow> isSidecarHealthy W (sidecarServiceURL aid) = Inr False"

definition created_status :: "sidecar_env \<Rightarrow> AdapterResource \<Rightarrow> string" where
  "created_status W a = (if needs_sidecar a \<and> sidecar_unhealthy W (AR_ID a)
     then AdapterLifecycleStatusError else AdapterLifecycleStatusReady)"

text \<open>What bringing an adapter up may change of it: the capabilities and the status.\<close>

definition same_identity :: "AdapterResource \<Rightarrow> AdapterResource \<Rightarrow> bool" where
  "same_identity a b \<longleftrightarrow> AR_ID a = AR_ID b \<and> AR_CreatedBy a = AR_CreatedBy b \<and> AD_Name a = AD_Name b \<and>
     AD_SidecarConfig a = AD_SidecarConfig b \<and> AD_ConnectionType a = AD_ConnectionType b \<and>
     AD_Authentication a = AD_Authentication b \<and> AD_MCPClientConfig a = AD_MCPClientConfig b \<and>
     AD_RemoteUrl a = AD_RemoteUrl b"

locale adapter_creation =
  adapters: reliable_adapter_store "ars_Create A" "ars_Update A" "ars_Delete A" acont "ars_Get A"
    "ars_List A" "ars_ListAll A" +
  assignments: assignment_store "ags_CreateAssignment S" "ags_UpdateAssignment S"
    "ags_DeleteAssignment S" scont "ags_GetAssignment S" "ags_ListAssignmentsForAdapter S"
    "ags_ListAssignmentsForGroup S" "ags_HasAccess S"
  for A :: "'a AdapterResourceStore" and S :: "'s AdapterGroupAssignmentStore"
    and acont :: "'a \<Rightarrow> (string \<rightharpoonup> AdapterResource)"
    and scont :: "'s \<Rightarrow> (string \<rightharpoonup> AdapterGroupAssignment)"
begin

lemma health_check:
  assumes "acont s (AR_ID a) = Some x" and "AD_Status a = AdapterLifecycleStatusReady"
    and "checkAndUpdateSidecarHealth A e W (Some d) a s = (s', a', r)" and "needs_sidecar a"
  shows "a' = a\<lparr>AD_Status := created_status W a\<rparr> \<and> acont s' (AR_ID a) \<noteq> None \<and>
    (\<forall>k. k \<noteq> AR_ID a \<longrightarrow> acont s' k = acont s k)"
proof -
  have a: "a\<lparr>AD_Status := AdapterLifecycleStatusReady\<rparr> = a" using assms(2) by simp
  show ?thesis
    using assms by (auto simp: checkAndUpdateSidecarHealth_def created_status_def sidecar_unhealthy_def
        needs_sidecar_def Let_def a adapters.update_contents split: sum.splits if_splits)
qed

lemma bring_up_spec:
  assumes there: "acont s (AR_ID a) = Some x"
  obtains (failed) s' err where "bring_up A es now W sm a s = Some (s', Inl err)"
      "acont s' = (acont s)(AR_ID a := None)" "needs_sidecar a" "sm = None \<or> (\<exists>d. sm = Some d \<and> d a \<noteq> None)"
  | (up) s' a' where "bring_up A es now W sm a s = Some (s', Inr a')"
      "acont s' = (acont s)(AR_ID a \<mapsto> a')" "same_identity a' a" "AD_Status a' = created_status W a"
      "needs_sidecar a \<Longrightarrow> \<exists>d. sm = Some d \<and> d a = None"
proof (cases "needs_sidecar a")
  case False
  define a1 where "a1 = a\<lparr>AD_Status := AdapterLifecycleStatusReady\<rparr>"
  obtain s' where s': "ars_Update A (es 1) a1 s = (s', None)"
    using adapters.update_present [of a1 s "es 1"] there by (cases "ars_Update A (es 1) a1 s") (auto simp: a1_def)
  with adapters.update_contents [of "es 1" a1 s] there have "acont s' = (acont s)(AR_ID a \<mapsto> a1)"
    by (auto simp: a1_def)
  moreover have "bring_up A es now W sm a s = Some (s', Inr a1)"
    using False s' by (auto simp: bring_up_def needs_sidecar_def a1_def Let_def)
  ultimately show thesis
    using False by (intro up [of s' a1]) (auto simp: a1_def same_identity_def created_status_def)
next
  case True
  show thesis
  proof (cases sm)
    case None
    with True show thesis
      by (intro failed) (auto simp: bring_up_def needs_sidecar_def Let_def adapters.delete_contents)
  next
    case (Some d)
    show thesis
    proof (cases "d a")
      case err: (Some err)
      have "acont (fst (ars_Delete A (es 2) (AR_ID a) (fst (ars_Update A (es 1)
          (a\<lparr>AD_Status := AdapterLifecycleStatusError\<rparr>) s)))) = (acont s)(AR_ID a := None)"
        using there by (auto simp: adapters.delete_contents adapters.update_contents)
      with True Some err show thesis
        by (intro failed) (auto simp: bring_up_def needs_sidecar_def Let_def)
    next
      case None
      obtain c where c: "discoverCapabilitiesFromSidecar W now a =
          Some (a\<lparr>AD_MCPFunctionality := Some c\<rparr>, None)" by (rule discover_sidecar)
      define a2 where "a2 = a\<lparr>AD_MCPFunctionality := Some c, AD_Status := AdapterLifecycleStatusReady\<rparr>"
      have id2: "AR_ID a2 = AR_ID a" by (simp add: a2_def)
      obtain s1 a3 r where h: "checkAndUpdateSidecarHealth A (es 3) W (Some d) a2 s = (s1, a3, r)"
        by (rule prod_cases3)
      have "acont s (AR_ID a2) = Some x" "AD_Status a2 = AdapterLifecycleStatusReady" "needs_sidecar a2"
        using there True by (simp_all add: a2_def needs_sidecar_def)
      from health_check [OF this(1,2) h this(3)]
      have a3: "a3 = a2\<lparr>AD_Status := created_status W a2\<rparr>" and s1: "acont s1 (AR_ID a) \<noteq> None"
        and other: "\<And>k. k \<noteq> AR_ID a \<Longrightarrow> acont s1 k = acont s k" by (auto simp: id2)
      have id3: "AR_ID a3 = AR_ID a" by (simp add: a3 id2)
      obtain s' where s': "ars_Update A (es 4) a3 s1 = (s', None)"
        using adapters.update_present [of a3 s1 "es 4"] s1 id3
        by (cases "ars_Update A (es 4) a3 s1") (auto simp: domIff)
      with adapters.update_contents [of "es 4" a3 s1] s1 id3 have "acont s' = (acont s1)(AR_ID a \<mapsto> a3)"
        by (auto simp: domIff)
      with other have "acont s' = (acont s)(AR_ID a \<mapsto> a3)" by (auto simp: fun_eq_iff)
      moreover have "bring_up A es now W sm a s = Some (s', Inr a3)"
        using True Some None c h s' by (simp add: bring_up_def needs_sidecar_def Let_def a2_def)
      moreover have "same_identity a3 a" "AD_Status a3 = created_status W a"
        by (simp_all add: a3 a2_def same_identity_def created_status_def needs_sidecar_def)
      ultimately show thesis using Some None by (intro up [of s' a3]) auto
    qed
  qed
qed

lemma admin_assignment_key [simp]:
  "assignment_key (admin_assignment e aid g) = generateAssignmentID aid g"
  by (simp add: assignment_key_def admin_assignment_def)

lemma assign_to_admin_groups_spec:
  shows assign_keeps: "scont s k = Some x \<Longrightarrow> scont (assign_to_admin_groups S ea i aid gs s) k = Some x"
    and assign_adds: "scont s k = None \<Longrightarrow>
   (case scont (assign_to_admin_groups S ea i aid gs s) k of
      None \<Rightarrow> \<not> (\<exists>g \<in> set gs. may_assign_adapters g \<and> k = generateAssignmentID aid (Group_ID g))
    | Some x \<Rightarrow> AGA_Permission x = ''read'' \<and>
        (\<exists>g \<in> set gs. may_assign_adapters g \<and> k = generateAssignmentID aid (Group_ID g)))"
proof -
  have "(\<forall>x. scont s k = Some x \<longrightarrow> scont (assign_to_admin_groups S ea i aid gs s) k = Some x) \<and>
    (scont s k = None \<longrightarrow>
      (case scont (assign_to_admin_groups S ea i aid gs s) k of
        None \<Rightarrow> \<not> (\<exists>g \<in> set gs. may_assign_adapters g \<and> k = generateAssignmentID aid (Group_ID g))
      | Some x \<Rightarrow> AGA_Permission x = ''read'' \<and>
          (\<exists>g \<in> set gs. may_assign_adapters g \<and> k = generateAssignmentID aid (Group_ID g))))"
  proof (induction gs arbitrary: i s)
    case (Cons g gs)
    show ?case
    proof (cases "may_assign_adapters g")
      case False
      with Cons.IH [of s "Suc i"] show ?thesis by (auto split: option.splits)
    next
      case True
      let ?x = "admin_assignment (ea i) aid (Group_ID g)"
      let ?s1 = "fst (ags_CreateAssignment S (ea i) ?x s)"
      have s1: "scont ?s1 = (if generateAssignmentID aid (Group_ID g) \<in> dom (scont s) then scont s
          else (scont s)(generateAssignmentID aid (Group_ID g) \<mapsto> ?x))"
        using assignments.create_contents [of "ea i" ?x s] by simp
      have read: "AGA_Permission ?x = ''read''" by (simp add: admin_assignment_def)
      show ?thesis
      proof (cases "k = generateAssignmentID aid (Group_ID g) \<and> scont s k = None")
        case here: True
        then have "scont ?s1 k = Some ?x" unfolding s1 by (auto simp: domIff)
        with Cons.IH [of ?s1 "Suc i"] True here read show ?thesis by auto
      next
        case False
        then have "scont ?s1 k = scont s k" using s1 by auto
        with Cons.IH [of ?s1 "Suc i"] True False show ?thesis by (auto split: option.splits)
      qed
    qed
  qed simp
  then show "scont s k = Some x \<Longrightarrow> scont (assign_to_admin_groups S ea i aid gs s) k = Some x"
    and "scont s k = None \<Longrightarrow>
   (case scont (assign_to_admin_groups S ea i aid gs s) k of
      None \<Rightarrow> \<not> (\<exists>g \<in> set gs. may_assign_adapters g \<and> k = generateAssignmentID aid (Group_ID g))
    | Some x \<Rightarrow> AGA_Permission x = ''read'' \<and>
        (\<exists>g \<in> set gs. may_assign_adapters g \<and> k = generateAssignmentID aid (Group_ID g)))"
    by auto
qed

text \<open>Who has access after the assignment: who had it, and the groups that may assign adapters, unless
  another assignment was in the way.\<close>

lemma has_access_assigned:
  "ags_HasAccess S (assign_to_admin_groups S ea i aid gs s) aid g = Inr True \<longleftrightarrow>
    ags_HasAccess S s aid g = Inr True \<or>
    scont s (generateAssignmentID aid g) = None \<and>
      (\<exists>grp \<in> set gs. may_assign_adapters grp \<and>
        generateAssignmentID aid g = generateAssignmentID aid (Group_ID grp))"
  using assign_keeps [where s = s and k = "generateAssignmentID aid g" and ea = ea and i = i and aid = aid and gs = gs]
    assign_adds [where s = s and k = "generateAssignmentID aid g" and ea = ea and i = i and aid = aid and gs = gs]
  by (cases "scont s (generateAssignmentID aid g)") (auto simp: assignments.has_access_eq split: option.splits)

lemma same_assignment_key: "generateAssignmentID aid g = generateAssignmentID aid g' \<longleftrightarrow> g = g'"
  by (simp add: generateAssignmentID_def)

text \<open>Creation stores the adapter, whole and under the owner \<open>system\<close>, or changes nothing.\<close>

lemma CreateAdapter_cases:
  obtains (failed) err st' where
      "CreateAdapter A S R G ugs es ea now now' ks gks token W sm rs u sid name envVars auth st = Some (st', Inl err)"
      "acont (as_store st') = acont (as_store st)" "as_assignments st' = as_assignments st" "as_tokens st' = as_tokens st"
  | (created) a s' server ct sc where
      "CreateAdapter A S R G ugs es ea now now' ks gks token W sm rs u sid name envVars auth st =
        Some (st\<lparr>as_store := s', as_assignments := (case ugs of None \<Rightarrow> as_assignments st
           | Some us \<Rightarrow> (case ListGroups G gks us of Inl err \<Rightarrow> as_assignments st
              | Inr groups \<Rightarrow> assign_to_admin_groups S ea 0 name groups (as_assignments st)))\<rparr>, Inr a)"
      "acont s' = (acont (as_store st))(name \<mapsto> a)" "acont (as_store st) name = None"
      "find_server R ks rs sid = Some server" "connection_config server = Inr (ct, sc)"
      "same_identity a (AdapterResource_Create now' [name] (new_adapter_data server name envVars token ct sc) ''system'' now)"
      "AD_Status a = created_status W a" "needs_sidecar a \<Longrightarrow> sm \<noteq> None"
proof (cases "find_server R ks rs sid")
  case None
  with failed show thesis by (simp add: CreateAdapter_def)
next
  case server: (Some server)
  show thesis
  proof (cases "connection_config server")
    case (Inl err)
    with server failed show thesis by (simp add: CreateAdapter_def)
  next
    case (Inr p)
    then obtain ct sc where config: "connection_config server = Inr (ct, sc)" by (cases p) simp
    define a where "a = AdapterResource_Create now' [name] (new_adapter_data server name envVars token ct sc) ''system'' now"
    have id_a: "AR_ID a = name" by (simp add: a_def new_adapter_data_def Let_def)
    obtain s1 r where s1: "ars_Create A (es 0) a (as_store st) = (s1, r)" by (rule prod.exhaust)
    show thesis
    proof (cases r)
      case (Some err)
      then have "acont s1 = acont (as_store st)"
        using adapters.failed_unchanged(1) [of "es 0" a "as_store st"] s1 by simp
      with server config s1 Some failed show thesis by (simp add: CreateAdapter_def a_def Let_def)
    next
      case None
      have new: "acont (as_store st) name = None"
        using adapters.create_ok_was_new [of "es 0" a "as_store st"] s1 None id_a by (simp add: domIff)
      have cont1: "acont s1 = (acont (as_store st))(name \<mapsto> a)"
        using adapters.create_contents [of "es 0" a "as_store st"] s1 id_a new by (simp add: domIff)
      then have there: "acont s1 (AR_ID a) = Some a" by (simp add: id_a)
      show thesis
      proof (cases rule: bring_up_spec [OF there, of es now W sm])
        case f: (1 s' err)
        have "acont s' = acont (as_store st)" using f(2) cont1 id_a new by (auto simp: fun_eq_iff)
        with f(1) server config s1 None failed show thesis by (simp add: CreateAdapter_def a_def Let_def)
      next
        case up: (2 s' a')
        have id': "AR_ID a' = name" using up(3) id_a by (simp add: same_identity_def)
        have "acont s' = (acont (as_store st))(name \<mapsto> a')" using up(2) cont1 id_a by simp
        moreover have "AD_Status a' = created_status W a'"
          using up(3,4) by (simp add: created_status_def needs_sidecar_def same_identity_def)
        moreover have "needs_sidecar a' \<Longrightarrow> sm \<noteq> None"
          using up(3,5) by (auto simp: needs_sidecar_def same_identity_def)
        ultimately show thesis
          using up(1,3) server config s1 None new id'
          by (intro created [of s' a' server ct sc]) (auto simp: CreateAdapter_def a_def Let_def split: option.splits sum.splits)
      qed
    qed
  qed
qed

end

subsection \<open>Creation on the stores of the program\<close>

interpretation mem_creation: adapter_creation
  InMemoryAdapterStore_ops InMemoryAdapterGroupAssignmentStore_ops imas_adapters imgas_assignments
  unfolding adapter_creation_def adapter_vtables AdapterResourceStore.simps AdapterGroupAssignmentStore.simps
  by (intro conjI; unfold_locales)

abbreviation mem_CreateAdapter where
  "mem_CreateAdapter \<equiv> CreateAdapter InMemoryAdapterStore_ops InMemoryAdapterGroupAssignmentStore_ops
     InMemoryMCPServerStore_ops InMemoryGroupStore_ops"

abbreviation mem_GetAdapter where
  "mem_GetAdapter \<equiv> GetAdapter InMemoryAdapterStore_ops InMemoryAdapterGroupAssignmentStore_ops
     InMemoryUserStore_ops InMemoryGroupStore_ops"

lemma mem_ListGroups: "ListGroups InMemoryGroupStore_ops gks us =
    Inr (range_values (imgs_groups (ugs_groupStore us)) gks)"
  by (simp add: ListGroups_def InMemoryGroupStore_ops_def InMemoryGroupStore_List_def)

text \<open>What the service's store of assignments is after a creation that succeeded.\<close>

lemma mem_created_access:
  assumes "mem_CreateAdapter (Some us) es ea now now' ks gks token W sm rs u sid name envVars auth st =
      Some (st', Inr a)" and "range_order (imgs_groups (ugs_groupStore us)) gks"
  shows "InMemoryAdapterGroupAssignmentStore_HasAccess (as_assignments st') name g = Inr True \<longleftrightarrow>
      InMemoryAdapterGroupAssignmentStore_HasAccess (as_assignments st) name g = Inr True \<or>
      imgas_assignments (as_assignments st) (generateAssignmentID name g) = None \<and>
      (\<exists>grp \<in> ran (imgs_groups (ugs_groupStore us)). Group_ID grp = g \<and> may_assign_adapters grp)"
proof -
  obtain s' where "as_assignments st' = assign_to_admin_groups InMemoryAdapterGroupAssignmentStore_ops ea 0 name
      (range_values (imgs_groups (ugs_groupStore us)) gks) (as_assignments st)"
    using assms(1) by (cases rule: mem_creation.CreateAdapter_cases [of InMemoryMCPServerStore_ops
        InMemoryGroupStore_ops "Some us" es ea now now' ks gks token W sm rs u sid name envVars auth st])
      (auto simp: mem_ListGroups)
  then show ?thesis
    using mem_creation.has_access_assigned [of ea 0 name "range_values (imgs_groups (ugs_groupStore us)) gks"
        "as_assignments st" g]
    by (auto simp: mem_creation.same_assignment_key set_range_values [OF assms(2)]
        InMemoryAdapterGroupAssignmentStore_ops_def)
qed

subsection \<open>Properties\<close>



text \<open>Deleting an adapter leaves its group assignments behind: if another adapter is then created under
  the same name, every group that could read the old one can read the new one.\<close>

theorem recreated_adapter_keeps_grants:
  assumes "InMemoryAdapterGroupAssignmentStore_HasAccess (as_assignments st) name g = Inr True"
    and "DeleteAdapter InMemoryAdapterStore_ops InMemoryAdapterGroupAssignmentStore_ops InMemoryUserStore_ops
      InMemoryGroupStore_ops ugs e u name st = (st1, None)"
    and "mem_CreateAdapter (Some us) es ea now now' ks gks token W sm rs creator sid name envVars auth st1 =
      Some (st2, Inr a)"
    and "range_order (imgs_groups (ugs_groupStore us)) gks"
  shows "InMemoryAdapterGroupAssignmentStore_HasAccess (as_assignments st2) name g = Inr True"
proof -
  have "as_assignments st1 = as_assignments st"
    using assms(2) by (auto simp: DeleteAdapter_def split: sum.splits if_splits prod.splits option.splits)
  with assms(1) show ?thesis by (simp add: mem_created_access [OF assms(3,4)])
qed

text \<open>C35. Discovery cannot fail: its first attempt always yields capabilities, empty ones if the server could not
  be interrogated, so the later attempts, the fallbacks and the status \<open>error\<close> for a failed
  discovery are never reached, and the nil pointer of the last log line is never followed.\<close>

theorem discovery_never_fails:
  "\<exists>c. discoverCapabilitiesWithRetry W now url = Inr c \<and>
    discoverCapabilitiesWithRetry W now url = DiscoverCapabilities W now url 0 \<and>
    (\<forall>err. se_InterrogateServer W url 0 = Inl err \<longrightarrow> MF_Tools c = [] \<and> MF_Prompts c = [] \<and> MF_Resources c = []) \<and>
    (\<exists>c'. discoverCapabilitiesFromSidecar W now a = Some (a\<lparr>AD_MCPFunctionality := Some c'\<rparr>, None))"
proof -
  obtain c where "DiscoverCapabilities W now url 0 = Inr c" using DiscoverCapabilities_ok by blast
  moreover from this have "\<forall>err. se_InterrogateServer W url 0 = Inl err \<longrightarrow>
      MF_Tools c = [] \<and> MF_Prompts c = [] \<and> MF_Resources c = []"
    by (auto simp: DiscoverCapabilities_def)
  ultimately show ?thesis using discover_sidecar [of W now a] by (auto simp: retry_first)
qed

subsection \<open>A creation, for the witnesses\<close>

definition ex_net :: sidecar_env where
  "ex_net = \<lparr>se_InterrogateServer = (\<lambda>_ _. Inl ''connection refused''), se_get = (\<lambda>_. Inl ''no route'')\<rparr>"

definition ex_registry :: InMemoryMCPServerStore where
  "ex_registry = \<lparr>imss_servers = [''w'' \<mapsto> ex_server\<lparr>Srv_URL := ''http://weather''\<rparr>]\<rparr>"

definition ex_ops :: "(InMemoryUserStore, InMemoryGroupStore) UserGroupService" where
  "ex_ops = NewUserGroupService \<lparr>imus_users = [''ann'' \<mapsto> ex_user ''ann'' [''ops'']]\<rparr>
     \<lparr>imgs_groups = [''ops'' \<mapsto> zero_Group\<lparr>Group_ID := ''ops'', Group_Permissions := [''adapter:*'']\<rparr>]\<rparr>"

abbreviation ex_create where
  "ex_create name st \<equiv> mem_CreateAdapter (Some ex_ops) (\<lambda>_. ex_env) (\<lambda>_. ex_env) 5 6 [] [''ops''] ''tok''
     ex_net None ex_registry ''bob'' ''w'' name Map.empty None st"

lemma ex_connection:
  "connection_config (ex_server\<lparr>Srv_URL := ''http://weather''\<rparr>) = Inr (ConnectionTypeRemoteHttp, None)"
proof -
  have "\<not> Contains ''weather'' ''uyuni''" "\<not> Contains ''weather'' ''bugzilla''" by code_simp+
  then show ?thesis
    by (simp add: connection_config_def hasStdioPackage_def ex_server_def getSidecarConfig_def string_field_def Let_def)
qed

lemma ex_create_ok:
  assumes "imas_adapters (as_store st) name = None"
  shows "\<exists>st' a. ex_create name st = Some (st', Inr a)"
proof (cases rule: mem_creation.CreateAdapter_cases [of InMemoryMCPServerStore_ops InMemoryGroupStore_ops "Some ex_ops"
      "\<lambda>_. ex_env" "\<lambda>_. ex_env" 5 6 "[]" "[''ops'']" "''tok''" ex_net None ex_registry "''bob''" "''w''" name Map.empty None st])
  case (failed err st')
  have "find_server InMemoryMCPServerStore_ops [] ex_registry ''w'' = Some (ex_server\<lparr>Srv_URL := ''http://weather''\<rparr>)"
    by (simp add: find_server_def InMemoryMCPServerStore_ops_def InMemoryMCPServerStore_GetMCPServer_def ex_registry_def)
  with failed(1) assms show ?thesis
    by (simp add: CreateAdapter_def ex_connection bring_up_def new_adapter_data_def Let_def
        InMemoryAdapterStore_ops_def InMemoryAdapterStore_Create_def InMemoryAdapterStore_Update_def)
qed blast

lemma ex_ops_order: "range_order (imgs_groups (ugs_groupStore ex_ops)) [''ops'']"
  by (simp add: ex_ops_def NewUserGroupService_def range_order_def)


theorem recreated_adapter_keeps_grants_witness:
  "\<exists>st1 st2 a. DeleteAdapter InMemoryAdapterStore_ops InMemoryAdapterGroupAssignmentStore_ops InMemoryUserStore_ops
      InMemoryGroupStore_ops None ex_env ''bob'' ''w'' ex_mem_adapters = (st1, None) \<and>
    ex_create ''w'' st1 = Some (st2, Inr a) \<and>
    InMemoryAdapterGroupAssignmentStore_HasAccess (as_assignments st2) ''w'' ''ops'' = Inr True"
proof -
  have had: "InMemoryAdapterGroupAssignmentStore_HasAccess (as_assignments ex_mem_adapters) ''w'' ''ops'' = Inr True"
    by (simp add: ex_mem_adapters_def InMemoryAdapterGroupAssignmentStore_HasAccess_def generateAssignmentID_def
        ex_assignment_def)
  define st1 where "st1 = ex_mem_adapters\<lparr>as_store := \<lparr>imas_adapters = Map.empty\<rparr>\<rparr>"
  have d: "DeleteAdapter InMemoryAdapterStore_ops InMemoryAdapterGroupAssignmentStore_ops InMemoryUserStore_ops
      InMemoryGroupStore_ops None ex_env ''bob'' ''w'' ex_mem_adapters = (st1, None)"
    by (simp add: DeleteAdapter_def InMemoryAdapterStore_ops_def InMemoryAdapterStore_Get_def
        InMemoryAdapterStore_Delete_def ex_mem_adapters_def may_change_adapter_def ex_adapter_def st1_def)
  obtain st2 a where c: "ex_create ''w'' st1 = Some (st2, Inr a)"
    using ex_create_ok [of st1 "''w''"] by (auto simp: st1_def)
  from recreated_adapter_keeps_grants [OF had d c ex_ops_order] c d show ?thesis by blast
qed

theorem discovery_never_fails_witness:
  "\<exists>c. discoverCapabilitiesWithRetry ex_net 1 ''http://x'' = Inr c \<and> MF_Tools c = []"
proof -
  have "se_InterrogateServer ex_net ''http://x'' 0 = Inl ''connection refused''" by (simp add: ex_net_def)
  with discovery_never_fails [of ex_net 1 "''http://x''"] show ?thesis by blast
qed

end
