(* ===== verification/GoNet.thy ===== *)
theory GoNet
  imports GoStrings "HOL-Library.Word"
begin

unbundle bit_operations_syntax

section \<open>IP addresses: what the code uses of package net\<close>

text \<open>
  A \<open>net.IP\<close> is a byte slice of length 4 or 16, an IPv4 address of length 16 standing behind the
  prefix \<open>::ffff:0:0\<close>. \<open>ParseIP\<close> and \<open>ParseCIDR\<close> follow the grammar of package \<open>netip\<close> and return
  slices of length 16; zones are refused. \<open>IP_value\<close> reads a slice as a number, most significant
  byte first, which is how the lemmas count addresses.
\<close>

type_synonym IP = "8 word list"

definition v4InV6Prefix :: IP where
  "v4InV6Prefix = replicate 10 0 @ [0xff, 0xff]"

definition To4 :: "IP \<Rightarrow> IP option" where
  "To4 ip = (if length ip = 4 then Some ip
             else if length ip = 16 \<and> take 12 ip = v4InV6Prefix then Some (drop 12 ip)
             else None)"

text \<open>\<open>ip.Equal(x)\<close>: an IPv4 address is the same in both lengths.\<close>

definition IP_Equal :: "IP \<Rightarrow> IP \<Rightarrow> bool" where
  "IP_Equal a b =
     (if length a = length b then a = b
      else if length a = 4 \<and> length b = 16 then take 12 b = v4InV6Prefix \<and> a = drop 12 b
      else if length a = 16 \<and> length b = 4 then take 12 a = v4InV6Prefix \<and> drop 12 a = b
      else False)"

fun IP_value :: "IP \<Rightarrow> nat" where
  "IP_value [] = 0"
| "IP_value (b # bs) = unat b * 256 ^ length bs + IP_value bs"

subsection \<open>Parsing\<close>

text \<open>A field of an IPv4 address: decimal digits without a leading zero, at most 255.\<close>

definition parse_octet :: "string \<Rightarrow> 8 word option" where
  "parse_octet s =
     (if s = [] \<or> \<not> list_all is_digit s \<or> (length s > 1 \<and> hd s = CHR ''0'') \<or> read_nat s > 255
      then None else Some (of_nat (read_nat s)))"

definition parseIPv4 :: "string \<Rightarrow> IP option" where
  "parseIPv4 s =
     (case map parse_octet (Split s CHR ''.'') of
        [Some a, Some b, Some c, Some d] \<Rightarrow> Some [a, b, c, d]
      | _ \<Rightarrow> None)"

definition hex_digit :: "char \<Rightarrow> nat option" where
  "hex_digit c = (let n = (of_char c :: nat) in
     if 48 \<le> n \<and> n \<le> 57 then Some (n - 48)
     else if 97 \<le> n \<and> n \<le> 102 then Some (n - 87)
     else if 65 \<le> n \<and> n \<le> 70 then Some (n - 55)
     else None)"

definition read_hex :: "string \<Rightarrow> nat" where
  "read_hex s = foldl (\<lambda>n c. 16 * n + (case hex_digit c of None \<Rightarrow> 0 | Some d \<Rightarrow> d)) 0 s"

text \<open>The groups of an IPv6 address. \<open>bs\<close> holds the bytes read so far and \<open>ell\<close> the place of \<open>::\<close>
  among them. The result is the rest of the text with both.\<close>

function parse_groups :: "string \<Rightarrow> IP \<Rightarrow> nat option \<Rightarrow> (string \<times> IP \<times> nat option) option" where
  "parse_groups s bs ell =
     (if length bs \<ge> 16 then Some (s, bs, ell)
      else let ds = takeWhile (\<lambda>c. hex_digit c \<noteq> None) s; r = drop (length ds) s in
        if ds = [] \<or> length ds > 4 then None
        else if r \<noteq> [] \<and> hd r = CHR ''.'' then
          (if (ell = None \<and> length bs \<noteq> 12) \<or> length bs + 4 > 16 then None
           else map_option (\<lambda>v4. ([], bs @ v4, ell)) (parseIPv4 s))
        else let bs' = bs @ [of_nat (read_hex ds div 256), of_nat (read_hex ds mod 256)] in
          if r = [] then Some ([], bs', ell)
          else if hd r \<noteq> CHR '':'' \<or> length r = 1 then None
          else if r ! 1 = CHR '':'' then
            (if ell \<noteq> None then None
             else if length r = 2 then Some ([], bs', Some (length bs'))
             else parse_groups (drop 2 r) bs' (Some (length bs')))
          else parse_groups (drop 1 r) bs' ell)"
  by pat_completeness auto
termination
proof (relation "measure (\<lambda>(s, _, _). length s)", goal_cases)
  case 1
  then show ?case by simp
next
  case (2 s bs ell ds r bs')
  then have "0 < length s" "r \<noteq> []" by auto
  with 2 show ?case by simp
next
  case (3 s bs ell ds r bs')
  then have "0 < length s" "r \<noteq> []" by auto
  with 3 show ?case by simp
qed

declare parse_groups.simps [simp del]

definition parseIPv6 :: "string \<Rightarrow> IP option" where
  "parseIPv6 s =
     (if s = ''::'' then Some (replicate 16 0)
      else case (if HasPrefix s ''::'' then parse_groups (drop 2 s) [] (Some 0)
                 else parse_groups s [] None) of
             None \<Rightarrow> None
           | Some (rest, bs, ell) \<Rightarrow>
               if rest \<noteq> [] then None
               else if length bs < 16 then
                 (case ell of
                    None \<Rightarrow> None
                  | Some e \<Rightarrow> Some (take e bs @ replicate (16 - length bs) 0 @ drop e bs))
               else if ell \<noteq> None then None else Some bs)"

text \<open>The first of the two separators tells the families apart.\<close>

definition ParseIP :: "string \<Rightarrow> IP option" where
  "ParseIP s =
     (case filter (\<lambda>c. c = CHR ''.'' \<or> c = CHR '':'' \<or> c = CHR ''%'') s of
        [] \<Rightarrow> None
      | c # _ \<Rightarrow> if c = CHR ''.'' then map_option (\<lambda>v4. v4InV6Prefix @ v4) (parseIPv4 s)
                 else if c = CHR '':'' then parseIPv6 s
                 else None)"

subsection \<open>Text of an address\<close>

definition show_v4 :: "IP \<Rightarrow> string" where
  "show_v4 ip = Join (map (\<lambda>b. show_nat (unat b)) ip) ''.''"

fun show_hex :: "nat \<Rightarrow> string" where
  "show_hex n = (let d = n mod 16; c = (if d < 10 then char_of (48 + d) else char_of (87 + d)) in
     if n < 16 then [c] else show_hex (n div 16) @ [c])"

declare show_hex.simps [simp del]

fun groups :: "IP \<Rightarrow> nat list" where
  "groups (a # b # bs) = (unat a * 256 + unat b) # groups bs"
| "groups _ = []"

definition zero_run :: "nat list \<Rightarrow> nat" where
  "zero_run gs = length (takeWhile (\<lambda>g. g = 0) gs)"

text \<open>The first longest run of at least two zero groups, as its place and length.\<close>

fun longest_run :: "nat list \<Rightarrow> nat \<Rightarrow> nat \<times> nat \<Rightarrow> nat \<times> nat" where
  "longest_run [] i best = best"
| "longest_run (g # gs) i best =
     longest_run gs (Suc i)
       (if zero_run (g # gs) \<ge> 2 \<and> zero_run (g # gs) > snd best then (i, zero_run (g # gs)) else best)"

definition show_v6 :: "IP \<Rightarrow> string" where
  "show_v6 ip =
     (let gs = groups ip; (i, n) = longest_run gs 0 (0, 0) in
      if n = 0 then Join (map show_hex gs) '':''
      else Join (map show_hex (take i gs)) '':'' @ ''::'' @ Join (map show_hex (drop (i + n) gs)) '':'')"

definition IP_String :: "IP \<Rightarrow> string" where
  "IP_String ip =
     (case To4 ip of Some v4 \<Rightarrow> show_v4 v4
      | None \<Rightarrow> if length ip = 16 then show_v6 ip else ''?'')"

subsection \<open>Masks and networks\<close>

text \<open>\<open>CIDRMask(ones, bits)\<close>, byte by byte from the most significant.\<close>

fun mask_bytes :: "nat \<Rightarrow> nat \<Rightarrow> IP" where
  "mask_bytes ones 0 = []"
| "mask_bytes ones (Suc n) =
     (if ones \<ge> 8 then 0xff else push_bit (8 - ones) 0xff) # mask_bytes (ones - 8) n"

definition CIDRMask :: "nat \<Rightarrow> nat \<Rightarrow> IP" where
  "CIDRMask ones bits = mask_bytes ones (bits div 8)"

record IPNet =
  Net_IP :: IP
  Net_Mask :: IP

definition IP_Mask :: "IP \<Rightarrow> IP \<Rightarrow> IP option" where
  "IP_Mask ip msk =
     (let msk' = (if length msk = 16 \<and> length ip = 4 \<and> list_all (\<lambda>b. b = 0xff) (take 12 msk)
                   then drop 12 msk else msk);
          ip' = (if length msk' = 4 \<and> length ip = 16 \<and> take 12 ip = v4InV6Prefix
                 then drop 12 ip else ip)
      in if length ip' = length msk' then Some (map2 (AND) ip' msk') else None)"

text \<open>\<open>n.Contains(ip)\<close>; \<open>networkNumberAndMask\<close> brings the network's address and mask to one length.\<close>

definition networkNumberAndMask :: "IPNet \<Rightarrow> (IP \<times> IP) option" where
  "networkNumberAndMask n =
     (let ip = (case To4 (Net_IP n) of Some v4 \<Rightarrow> v4 | None \<Rightarrow> Net_IP n); m = Net_Mask n in
      if length ip \<noteq> 4 \<and> length ip \<noteq> 16 then None
      else if length m = 4 then (if length ip = 4 then Some (ip, m) else None)
      else if length m = 16 then Some (ip, if length ip = 4 then drop 12 m else m)
      else None)"

definition Net_Contains :: "IPNet \<Rightarrow> IP \<Rightarrow> bool" where
  "Net_Contains n ip =
     (case networkNumberAndMask n of
        None \<Rightarrow> False
      | Some (nn, m) \<Rightarrow>
          (let ip' = (case To4 ip of Some v4 \<Rightarrow> v4 | None \<Rightarrow> ip) in
           length ip' = length nn \<and> map2 (AND) nn m = map2 (AND) ip' m))"

text \<open>The prefix length: \<open>dtoi\<close> reads digits up to the first other byte, and stops at 0xFFFFFF.\<close>

definition parse_prefix_len :: "string \<Rightarrow> nat option" where
  "parse_prefix_len s =
     (if s = [] \<or> \<not> list_all is_digit s \<or> read_nat s \<ge> 0xFFFFFF then None else Some (read_nat s))"

definition ParseCIDR :: "string \<Rightarrow> (IP \<times> IPNet) option" where
  "ParseCIDR s =
     (case SplitN2 s CHR ''/'' of
        [addr, msk] \<Rightarrow>
          (case (ParseIP addr, parse_prefix_len msk) of
             (Some ip, Some n) \<Rightarrow>
               (let v4 = (CHR '':'' \<notin> set addr); bits = (if v4 then 32 else 128) in
                if n > bits then None
                else let m = CIDRMask n bits in
                  map_option (\<lambda>net. (ip, \<lparr>Net_IP = net, Net_Mask = m\<rparr>)) (IP_Mask ip m))
           | _ \<Rightarrow> None)
      | _ \<Rightarrow> None)"

text \<open>The number of ones that \<open>mask.Size()\<close> returns: those the mask begins with, when no other follows.\<close>

definition leading_ones :: "8 word \<Rightarrow> nat" where
  "leading_ones b = length (takeWhile (\<lambda>i. bit b i) [7, 6, 5, 4, 3, 2, 1, 0])"

fun Mask_ones :: "IP \<Rightarrow> nat option" where
  "Mask_ones [] = Some 0"
| "Mask_ones (b # bs) =
     (if b = 0xff then map_option (\<lambda>n. 8 + n) (Mask_ones bs)
      else if b = push_bit (8 - leading_ones b) 0xff \<and> list_all (\<lambda>x. x = 0) bs
      then Some (leading_ones b) else None)"

subsection \<open>Classes of addresses\<close>

definition IsLoopback :: "IP \<Rightarrow> bool" where
  "IsLoopback ip = (case To4 ip of Some v4 \<Rightarrow> v4 ! 0 = 127
                    | None \<Rightarrow> ip = replicate 15 0 @ [1])"

definition IsPrivate :: "IP \<Rightarrow> bool" where
  "IsPrivate ip =
     (case To4 ip of
        Some v4 \<Rightarrow> v4 ! 0 = 10 \<or> (v4 ! 0 = 172 \<and> v4 ! 1 AND 0xf0 = 16) \<or> (v4 ! 0 = 192 \<and> v4 ! 1 = 168)
      | None \<Rightarrow> length ip = 16 \<and> ip ! 0 AND 0xfe = 0xfc)"

definition IsUnspecified :: "IP \<Rightarrow> bool" where
  "IsUnspecified ip \<longleftrightarrow> IP_Equal ip (v4InV6Prefix @ [0, 0, 0, 0]) \<or> ip = replicate 16 0"

subsection \<open>Addresses as numbers\<close>

lemma byte_less [simp]: "unat (b :: 8 word) < 256"
  using unsigned_less [of b, where 'a = nat] by simp

lemma digit_less:
  fixes a n :: nat
  assumes "a < m" and "x < n"
  shows "a * n + x < m * n"
proof -
  have "a * n + x < Suc a * n" using assms(2) by simp
  also have "\<dots> \<le> m * n" using assms(1) by (intro mult_le_mono1) simp
  finally show ?thesis .
qed

lemma digit_unique:
  fixes a n :: nat
  assumes "x < n" and "y < n"
  shows "a * n + x = b * n + y \<longleftrightarrow> a = b \<and> x = y"
proof
  assume eq: "a * n + x = b * n + y"
  have "(a * n + x) div n = a" "(a * n + x) mod n = x" using assms(1) by simp_all
  moreover have "(b * n + y) div n = b" "(b * n + y) mod n = y" using assms(2) by simp_all
  ultimately show "a = b \<and> x = y" using eq by simp
qed simp

lemma IP_value_less: "IP_value ip < 256 ^ length ip"
proof (induction ip)
  case (Cons b bs)
  with digit_less [OF byte_less Cons] show ?case by simp
qed simp

lemma IP_value_inject:
  "length a = length b \<Longrightarrow> IP_value a = IP_value b \<longleftrightarrow> a = b"
proof (induction a b rule: list_induct2)
  case (Cons x xs y ys)
  then show ?case
    using digit_unique [OF IP_value_less [of xs], of "IP_value ys" "unat x" "unat y"] IP_value_less [of ys]
    by (auto simp: word_unat_eq_iff)
qed simp

lemma round_down_shift:
  fixes d :: nat
  assumes "q = c * d"
  shows "(u * q + x) div d * d = u * q + x div d * d"
proof (cases "d = 0")
  case False
  then have "(u * q + x) div d = u * c + x div d"
    using assms by (simp flip: mult.assoc)
  then show ?thesis using assms by (simp add: algebra_simps)
qed (use assms in simp)

lemma IP_value_append: "IP_value (a @ b) = IP_value a * 256 ^ length b + IP_value b"
  by (induction a) (simp_all add: algebra_simps power_add)

lemma IP_value_zeros [simp]: "IP_value (replicate n 0) = 0"
  by (induction n) simp_all

subsection \<open>Masks as arithmetic\<close>

lemma length_mask_bytes [simp]: "length (mask_bytes n k) = k"
  by (induction n k rule: mask_bytes.induct) simp_all

lemma mask_bytes_0: "mask_bytes 0 k = replicate k 0"
  by (induction k) (simp_all add: push_bit_eq_mult)

lemma byte_mask:
  fixes b :: "8 word"
  assumes "k \<le> 8"
  shows "unat (b AND push_bit k 0xff) = unat b div 2 ^ k * 2 ^ k"
proof -
  have ff: "(0xff :: 8 word) = - 1" by simp
  have eq: "b AND push_bit k (- 1) = push_bit k (drop_bit k b)"
    by (rule bit_word_eqI) (auto simp: bit_simps)
  have "unat b < 256" by simp
  moreover have "unat b div 2 ^ k * 2 ^ k \<le> unat b" by simp
  ultimately have "unat b div 2 ^ k * 2 ^ k < 256" by linarith
  then show ?thesis
    unfolding ff eq
    by (simp add: unsigned_push_bit_eq unsigned_drop_bit_eq take_bit_nat_eq_self push_bit_nat_def
        drop_bit_nat_def)
qed

lemma byte_ff: "b AND (0xff :: 8 word) = b"
proof -
  have "(0xff :: 8 word) = - 1" by simp
  then show ?thesis by (metis and.right_neutral)
qed

lemma masked_zeros: "length bs = n \<Longrightarrow> map2 (AND) bs (replicate n (0 :: 8 word)) = replicate n 0"
  by (induction bs arbitrary: n) auto

text \<open>Masking clears the host bits: it rounds down to a multiple of the size of the network.\<close>

lemma IP_value_masked:
  assumes "length ip = k" and "n \<le> 8 * k"
  shows "IP_value (map2 (AND) ip (mask_bytes n k)) = IP_value ip div 2 ^ (8 * k - n) * 2 ^ (8 * k - n)"
  using assms
proof (induction n k arbitrary: ip rule: mask_bytes.induct)
  case (1 n)
  then show ?case by simp
next
  case (2 n k)
  then obtain b bs where ip: "ip = b # bs" and len: "length bs = k" by (cases ip) auto
  have lt: "IP_value bs < 256 ^ k" using IP_value_less [of bs] len by simp
  have p: "(256 :: nat) ^ k = 2 ^ (8 * k)" by (simp add: power_mult)
  show ?case
  proof (cases "8 \<le> n")
    case True
    define h where "h = 8 * Suc k - n"
    have h: "h = 8 * k - (n - 8)" "h \<le> 8 * k" using True 2(3) by (simp_all add: h_def)
    have IH: "IP_value (map2 (AND) bs (mask_bytes (n - 8) k)) = IP_value bs div 2 ^ h * 2 ^ h"
      using 2(1) [OF len] 2(3) True h(1) by simp
    have "(256 :: nat) ^ k = 2 ^ (8 * k - h) * 2 ^ h"
      by (simp only: p power_add [symmetric] le_add_diff_inverse2 [OF h(2)])
    then have "(unat b * 256 ^ k + IP_value bs) div 2 ^ h * 2 ^ h =
        unat b * 256 ^ k + IP_value bs div 2 ^ h * 2 ^ h"
      by (rule round_down_shift)
    moreover have "b AND 0xff = b" using byte_ff by simp
    ultimately show ?thesis unfolding h_def [symmetric] using IH len True by (simp add: ip)
  next
    case False
    then have n: "n < 8" by simp
    have h: "8 * Suc k - n = 8 * k + (8 - n)" using n by simp
    have "(unat b * 256 ^ k + IP_value bs) div (256 ^ k * 2 ^ (8 - n)) = unat b div 2 ^ (8 - n)"
      using lt by (simp add: div_mult2_eq)
    then have "(unat b * 256 ^ k + IP_value bs) div 2 ^ (8 * Suc k - n) * 2 ^ (8 * Suc k - n)
        = unat b div 2 ^ (8 - n) * 2 ^ (8 - n) * 256 ^ k"
      by (simp only: h power_add p [symmetric]) (simp add: algebra_simps)
    moreover have "map2 (AND) bs (mask_bytes (n - 8) k) = replicate k 0"
      using n len by (simp add: mask_bytes_0 masked_zeros)
    ultimately show ?thesis
      using n len byte_mask [of "8 - n" b] by (simp add: ip)
  qed
qed

subsection \<open>IPv4 addresses as text\<close>

lemma hd_show_nat: "0 < n \<Longrightarrow> hd (show_nat n) \<noteq> CHR ''0''"
proof (induction n rule: show_nat.induct)
  case (1 n)
  show ?case
  proof (cases "n < 10")
    case True
    have "of_char (char_of (48 + n) :: char) = (48 + n :: nat)" using True by simp
    then have "char_of (48 + n) \<noteq> CHR ''0''" using 1(2) by fastforce
    with True show ?thesis by (simp add: show_nat.simps [of n])
  next
    case False
    then have "hd (show_nat (n div 10)) \<noteq> CHR ''0''" using 1 by simp
    with False show ?thesis by (simp add: show_nat.simps [of n])
  qed
qed

lemma length_show_nat: "1 < length (show_nat n) \<Longrightarrow> 0 < n"
  by (cases "n = 0") (simp_all add: show_nat.simps [of 0])

lemma parse_octet_show [simp]: "parse_octet (show_nat (unat (b :: 8 word))) = Some b"
proof -
  have "\<not> 255 < unat b" using byte_less [of b] by linarith
  then show ?thesis using hd_show_nat [of "unat b"] length_show_nat [of "unat b"]
    by (auto simp: parse_octet_def digits_show_nat)
qed

lemma show_v4_4: "show_v4 [a, b, c, d] =
    show_nat (unat a) @ ''.'' @ show_nat (unat b) @ ''.'' @ show_nat (unat c) @ ''.'' @ show_nat (unat d)"
  by (simp add: show_v4_def)

lemma show_v4_chars: "x \<in> set (show_v4 [a, b, c, d]) \<Longrightarrow> x = CHR ''.'' \<or> is_digit x"
  by (auto simp: show_v4_4 dest: show_nat_chars)

lemma not_digits: "\<not> is_digit CHR ''.''" "\<not> is_digit CHR ''/''" "\<not> is_digit CHR ''-''" "\<not> is_digit CHR '':''"
  "\<not> is_digit CHR ''%''"
  by (simp_all add: is_digit_def)

lemma not_in_show_v4:
  "CHR ''/'' \<notin> set (show_v4 [a, b, c, d])" "CHR ''-'' \<notin> set (show_v4 [a, b, c, d])"
  "CHR '':'' \<notin> set (show_v4 [a, b, c, d])"
  using show_v4_chars not_digits by blast+

lemma parseIPv4_show: "parseIPv4 (show_v4 [a, b, c, d]) = Some [a, b, c, d]"
  by (simp add: parseIPv4_def show_v4_4 Split_append Split_notin not_in_show_nat not_digits)

text \<open>The text of an IPv4 address parses to that address.\<close>

lemma ParseIP_show [simp]: "ParseIP (show_v4 [a, b, c, d]) = Some (v4InV6Prefix @ [a, b, c, d])"
proof -
  let ?P = "\<lambda>c. c = CHR ''.'' \<or> c = CHR '':'' \<or> c = CHR ''%''"
  have none: "filter ?P (show_nat n) = []" for n
    using not_in_show_nat not_digits by (fastforce simp: filter_empty_conv)
  have "filter ?P (show_v4 [a, b, c, d]) = ''...''"
    by (simp add: show_v4_4 none)
  then show ?thesis by (simp add: ParseIP_def parseIPv4_show)
qed

lemma SplitN2_append: "c \<notin> set a \<Longrightarrow> SplitN2 (a @ c # b) c = [a, b]"
  by (induction a) auto

lemma length_v4InV6Prefix [simp]: "length v4InV6Prefix = 12"
  by (simp add: v4InV6Prefix_def)

lemma To4_mapped [simp]: "length v4 = 4 \<Longrightarrow> To4 (v4InV6Prefix @ v4) = Some v4" 
  by (simp add: To4_def)

lemma To4_4 [simp]: "length v4 = 4 \<Longrightarrow> To4 v4 = Some v4"
  by (simp add: To4_def)

lemma IP_String_mapped [simp]: "length v4 = 4 \<Longrightarrow> IP_String (v4InV6Prefix @ v4) = show_v4 v4"
  by (simp add: IP_String_def)

lemma IP_String_4 [simp]: "length v4 = 4 \<Longrightarrow> IP_String v4 = show_v4 v4"
  by (simp add: IP_String_def)

lemma IP_Mask_mapped:
  "length v4 = 4 \<Longrightarrow> length m = 4 \<Longrightarrow> IP_Mask (v4InV6Prefix @ v4) m = Some (map2 (AND) v4 m)"
  by (simp add: IP_Mask_def)

lemma parse_prefix_len_show: "n < 0xFFFFFF \<Longrightarrow> parse_prefix_len (show_nat n) = Some n"
  by (simp add: parse_prefix_len_def digits_show_nat)

lemma ParseCIDR_show:
  assumes "n \<le> 32"
  shows "ParseCIDR (show_v4 [a, b, c, d] @ ''/'' @ show_nat n) =
    Some (v4InV6Prefix @ [a, b, c, d],
          \<lparr>Net_IP = map2 (AND) [a, b, c, d] (mask_bytes n 4), Net_Mask = mask_bytes n 4\<rparr>)"
  using assms IP_Mask_mapped [of "[a, b, c, d]" "mask_bytes n 4"]
  by (simp add: ParseCIDR_def SplitN2_append not_in_show_v4 parse_prefix_len_show CIDRMask_def Let_def)

lemma Mask_ones_v4: "n \<le> 32 \<Longrightarrow> Mask_ones (mask_bytes n 4) = Some n"
proof -
  have all: "list_all (\<lambda>n. Mask_ones (mask_bytes n 4) = Some n) [0..<33]"
    by code_simp
  assume "n \<le> 32"
  then have "n \<in> set [0..<33]" by simp
  with all show ?thesis by (simp only: list_all_iff)
qed


text \<open>Membership in an IPv4 network compares the numbers without their host bits.\<close>

lemma Net_Contains_v4:
  assumes len: "length net = 4" "length ip = 4" and n: "n \<le> 32"
    and net: "IP_value net div 2 ^ (32 - n) = q"
  shows "Net_Contains \<lparr>Net_IP = net, Net_Mask = mask_bytes n 4\<rparr> ip \<longleftrightarrow> IP_value ip div 2 ^ (32 - n) = q"
proof -
  have "Net_Contains \<lparr>Net_IP = net, Net_Mask = mask_bytes n 4\<rparr> ip \<longleftrightarrow>
      map2 (AND) net (mask_bytes n 4) = map2 (AND) ip (mask_bytes n 4)"
    using len by (simp add: Net_Contains_def networkNumberAndMask_def Let_def)
  also have "\<dots> \<longleftrightarrow> IP_value (map2 (AND) net (mask_bytes n 4)) = IP_value (map2 (AND) ip (mask_bytes n 4))"
    using len by (simp add: IP_value_inject)
  also have "\<dots> \<longleftrightarrow> IP_value net div 2 ^ (32 - n) = IP_value ip div 2 ^ (32 - n)"
    using len n IP_value_masked [of net 4 n] IP_value_masked [of ip 4 n] by simp
  finally show ?thesis using net by auto
qed

text \<open>The IPv4 address of a number.\<close>

definition v4_bytes :: "nat \<Rightarrow> IP" where
  "v4_bytes v = [of_nat (v div 16777216), of_nat (v div 65536), of_nat (v div 256), of_nat v]"

lemma length_v4_bytes [simp]: "length (v4_bytes v) = 4"
  by (simp add: v4_bytes_def)

lemma IP_value_v4_bytes: "IP_value (v4_bytes v) = v mod 2 ^ 32"
proof -
  have "v mod 2 ^ 32 = v div 16777216 mod 256 * 16777216 + v div 65536 mod 256 * 65536
      + v div 256 mod 256 * 256 + v mod 256"
    using mod_mult2_eq [of v 256 256] mod_mult2_eq [of v 65536 256] mod_mult2_eq [of v 16777216 256]
    by (simp add: mult.commute)
  then show ?thesis by (simp add: v4_bytes_def unat_of_nat)
qed

lemma v4_bytes_IP_value: "length ip = 4 \<Longrightarrow> v4_bytes (IP_value ip) = ip"
  using IP_value_inject [of "v4_bytes (IP_value ip)" ip] IP_value_less [of ip]
  by (simp add: IP_value_v4_bytes)

lemma v4_bytes_eqI: "length ip = 4 \<Longrightarrow> IP_value ip = v mod 2 ^ 32 \<Longrightarrow> ip = v4_bytes v"
  by (metis IP_value_inject IP_value_v4_bytes length_v4_bytes)

end
