(* ===== verification/ScanTargets.thy ===== *)
theory ScanTargets
  imports GoNet
begin

section \<open>The addresses and ports a scan visits\<close>

text \<open>
  A scan is given ranges of addresses and lists of ports as text. Two components read them: the
  scanner of \<open>pkg/scanner/network_scanner.go\<close> (definitions \<open>expandIPRange\<close>, \<open>expandCIDR\<close>,
  \<open>expandIPRangeNotation\<close>, \<open>expandPorts\<close>), behind the check of \<open>internal/handlers/discovery.go\<close>
  (\<open>isValidScanRange\<close>), and the older service of \<open>internal/service/discovery.go\<close> (definitions with the
  prefix \<open>DiscoveryService\<close>). A loop that may not end is a \<open>partial_function\<close>: \<open>None\<close> is a call
  that does not return.
\<close>

subsection \<open>The network scanner\<close>

text \<open>\<open>incIP\<close> increments in place, from the last byte with carry; \<open>inc_rev\<close> works on the reversed slice.\<close>

fun inc_rev :: "IP \<Rightarrow> IP" where
  "inc_rev [] = []"
| "inc_rev (b # bs) = (if b + 1 \<noteq> 0 then (b + 1) # bs else 0 # inc_rev bs)"

definition incIP :: "IP \<Rightarrow> IP" where
  "incIP ip = rev (inc_rev (rev ip))"

text \<open>The loop \<open>for ip := startIP; !ip.Equal(incIP(endIP)); incIP(ip)\<close>. The call in the condition changes \<open>endIP\<close>
  itself, each time the condition is evaluated.\<close>

partial_function (option) range_loop :: "IP \<Rightarrow> IP \<Rightarrow> string list option" where
  [code]: "range_loop ip endIP =
     (let endIP' = incIP endIP in
      if IP_Equal ip endIP' then Some []
      else Option.bind (range_loop (incIP ip) endIP') (\<lambda>ips. Some (IP_String ip # ips)))"

definition expandIPRangeNotation :: "string \<Rightarrow> (string list) result option" where
  "expandIPRangeNotation ipRange =
     (case Split ipRange CHR ''-'' of
        [p, q] \<Rightarrow>
          (case (ParseIP (TrimSpace p), ParseIP (TrimSpace q)) of
             (Some startIP, Some endIP) \<Rightarrow> map_option Inr (range_loop startIP endIP)
           | _ \<Rightarrow> Some (Inl (''invalid IP addresses in range: '' @ ipRange)))
      | _ \<Rightarrow> Some (Inl (''invalid IP range format: '' @ ipRange)))"

definition expandCIDR :: "string \<Rightarrow> (string list) result" where
  "expandCIDR cidr =
     (case ParseCIDR cidr of
        None \<Rightarrow> Inl (''invalid CIDR address: '' @ cidr)
      | Some (_, ipnet) \<Rightarrow> Inr [IP_String (Net_IP ipnet)])"

definition expandIPRange :: "string \<Rightarrow> (string list) result option" where
  "expandIPRange ipRange =
     (if Contains ipRange ''/'' then Some (expandCIDR ipRange)
      else if Contains ipRange ''-'' then expandIPRangeNotation ipRange
      else if ParseIP ipRange \<noteq> None then Some (Inr [ipRange])
      else Some (Inl (''invalid IP range format: '' @ ipRange)))"

text \<open>The ports from \<open>lo\<close> to \<open>hi\<close>. (A range that ends with the greatest 64-bit integer would wrap around
  and not end; like every range near it, it does not fit in memory.)\<close>

definition expandPortRange :: "string \<Rightarrow> (int list) result" where
  "expandPortRange portRange =
     (case Split portRange CHR ''-'' of
        [p, q] \<Rightarrow>
          (case Atoi (TrimSpace p) of
             Inl e \<Rightarrow> Inl e
           | Inr lo \<Rightarrow>
               (case Atoi (TrimSpace q) of
                  Inl e \<Rightarrow> Inl e
                | Inr hi \<Rightarrow>
                    if lo > hi then Inl ''invalid port range: start > end''
                    else Inr [lo..hi]))
      | _ \<Rightarrow> Inl (''invalid port range format: '' @ portRange))"

fun expandPorts :: "string list \<Rightarrow> (int list) result" where
  "expandPorts [] = Inr []"
| "expandPorts (spec # specs) =
     (if Contains spec ''-''
      then case expandPortRange spec of
             Inl e \<Rightarrow> Inl e
           | Inr rangePorts \<Rightarrow> map_sum id (\<lambda>ports. rangePorts @ ports) (expandPorts specs)
      else case Atoi spec of
             Inl _ \<Rightarrow> expandPorts specs
           | Inr port \<Rightarrow> map_sum id (\<lambda>ports. port # ports) (expandPorts specs))"

definition shouldExcludeAddress :: "string list \<Rightarrow> string \<Rightarrow> bool" where
  "shouldExcludeAddress excludes address = list_ex (\<lambda>exclude. address = exclude) excludes"

subsection \<open>The check of the discovery handler\<close>

definition isValidScanRange :: "string \<Rightarrow> bool" where
  "isValidScanRange scanRange =
     (if Contains scanRange ''/'' then ParseCIDR scanRange \<noteq> None
      else if Contains scanRange ''-''
      then (case Split scanRange CHR ''-'' of
              [p, q] \<Rightarrow> ParseIP (TrimSpace p) \<noteq> None \<and> ParseIP (TrimSpace q) \<noteq> None
            | _ \<Rightarrow> False)
      else ParseIP scanRange \<noteq> None)"

subsection \<open>The discovery service\<close>

text \<open>The loop over a network; \<open>count\<close> is the \<open>int\<close> of the number of its addresses.\<close>

function cidr_loop :: "IPNet \<Rightarrow> nat \<Rightarrow> IP \<Rightarrow> string list \<Rightarrow> string list" where
  "cidr_loop ipnet count ip ips =
     (if \<not> Net_Contains ipnet ip then ips
      else let ips' = ips @ [IP_String ip] in
        if length ips' \<ge> count then ips' else cidr_loop ipnet count (incIP ip) ips')"
  by pat_completeness auto
termination
  by (relation "measure (\<lambda>(_, count, _, ips). count - length ips)") auto

declare cidr_loop.simps [simp del]

definition maxIPs :: "64 word" where
  "maxIPs = 65536"

definition broadcast :: "nat \<Rightarrow> IP \<Rightarrow> IP \<Rightarrow> IP" where
  "broadcast ones net msk =
     take (ones div 8) net @ map2 (\<lambda>b m. b OR NOT m) (drop (ones div 8) net) (drop (ones div 8) msk)"

definition DiscoveryService_expandCIDR :: "string \<Rightarrow> (string list) result" where
  "DiscoveryService_expandCIDR cidr =
     (if Contains cidr ''/'' then
        (case ParseCIDR cidr of
           None \<Rightarrow> Inl (''invalid CIDR address: '' @ cidr)
         | Some (ip, ipnet) \<Rightarrow>
             (case Mask_ones (Net_Mask ipnet) of
                None \<Rightarrow> Inr []
              | Some ones \<Rightarrow>
                  (let bits = 8 * length (Net_Mask ipnet);
                       totalIPs = push_bit (bits - ones) (1 :: 64 word) in
                   if ones = bits then Inr [IP_String ip]
                   else if totalIPs > maxIPs then
                     Inl (''CIDR range too large: '' @ cidr @ '' ('' @ show_nat (unat totalIPs) @
                          '' IPs, max allowed: 65536)'')
                   else case IP_Mask ip (Net_Mask ipnet) of
                     None \<Rightarrow> Inr []
                   | Some networkIP \<Rightarrow>
                       if ones = bits - 1
                       then Inr [IP_String networkIP, IP_String (broadcast ones networkIP (Net_Mask ipnet))]
                       else Inr (cidr_loop ipnet (unat totalIPs) networkIP []))))
      else if ParseIP cidr \<noteq> None then Inr [cidr]
      else Inl (''invalid IP address or CIDR: '' @ cidr))"

definition DiscoveryService_expandPortRange :: "string \<Rightarrow> int list" where
  "DiscoveryService_expandPortRange portRange =
     (case Split portRange CHR ''-'' of
        [p, q] \<Rightarrow>
          (case (Atoi (TrimSpace p), Atoi (TrimSpace q)) of
             (Inr lo, Inr hi) \<Rightarrow> [lo..hi]
           | _ \<Rightarrow> [])
      | _ \<Rightarrow> [])"

fun DiscoveryService_expandPorts :: "string list \<Rightarrow> int list" where
  "DiscoveryService_expandPorts [] = []"
| "DiscoveryService_expandPorts (spec # specs) =
     (if Contains spec ''-'' then DiscoveryService_expandPortRange spec
      else case Atoi spec of Inl _ \<Rightarrow> [] | Inr port \<Rightarrow> [port]) @ DiscoveryService_expandPorts specs"

text \<open>\<open>generateTargets\<close>: every URL of an address and a port, without those that contain an excluded text.
  \<open>proxyAddrs\<close> is what \<open>getProxyAddresses\<close> finds on the machine.\<close>

definition generateTargets ::
    "string list \<Rightarrow> bool option \<Rightarrow> string list \<Rightarrow> string list \<Rightarrow> string list \<Rightarrow> string list" where
  "generateTargets proxyAddrs ExcludeProxy ExcludeAddresses ScanRanges Ports =
     (let excludeProxy = (case ExcludeProxy of None \<Rightarrow> True | Some b \<Rightarrow> b);
          excludedAddrs = (if excludeProxy then proxyAddrs else []) @ ExcludeAddresses;
          targets = concat (map (\<lambda>cidr.
            case DiscoveryService_expandCIDR cidr of
              Inl _ \<Rightarrow> []
            | Inr ips \<Rightarrow> concat (map (\<lambda>ip. concat (map (\<lambda>portStr.
                case Atoi portStr of
                  Inl _ \<Rightarrow> []
                | Inr port \<Rightarrow> [''http://'' @ ip @ '':'' @ show_int port]) Ports)) ips)) ScanRanges)
      in filter (\<lambda>target. \<not> list_ex (\<lambda>excluded. Contains target excluded) excludedAddrs) targets)"

text \<open>\<open>getProxyAddresses\<close>: \<open>interfaceAddrs\<close> are the addresses \<open>net.InterfaceAddrs\<close> reports (\<open>None\<close> when it fails).\<close>

definition getProxyAddresses :: "string \<Rightarrow> (IP list) option \<Rightarrow> string list" where
  "getProxyAddresses PORT interfaceAddrs =
     (let port = (if PORT = [] then ''8911'' else PORT) in
      case interfaceAddrs of
        None \<Rightarrow> [''127.0.0.1:'' @ port, ''localhost:'' @ port]
      | Some ips \<Rightarrow>
          map (\<lambda>ip. IP_String ip @ '':'' @ port) (filter (\<lambda>ip. \<not> IsLoopback ip \<and> To4 ip \<noteq> None) ips) @
          [''127.0.0.1:'' @ port, ''localhost:'' @ port])"

definition determineVulnerabilityScore :: "int \<Rightarrow> string" where
  "determineVulnerabilityScore port =
     (if port = 8001 then ''medium'' else if port = 8004 then ''low'' else ''high'')"

definition getAuthTypeFromPort :: "int \<Rightarrow> string" where
  "getAuthTypeFromPort port =
     (if port = 8001 then ''token'' else if port = 8004 then ''oauth'' else ''none'')"

subsection \<open>Incrementing addresses\<close>

lemma length_inc_rev [simp]: "length (inc_rev bs) = length bs"
  by (induction bs) simp_all

lemma length_incIP [simp]: "length (incIP ip) = length ip"
  by (simp add: incIP_def)

lemma byte_inc: "unat (b + 1 :: 8 word) = (if b + 1 = 0 then 0 else Suc (unat b))"
proof (cases "b + 1 = 0")
  case False
  then have "1 + b \<noteq> 0" by (simp add: add.commute)
  then have "unat (1 + b) = Suc (unat b)" by (rule unatSuc)
  with False show ?thesis by (simp add: add.commute)
qed simp

lemma byte_carry: "(b :: 8 word) + 1 = 0 \<Longrightarrow> unat b = 255"
proof -
  assume "b + 1 = 0"
  then have "b = - 1" by (simp only: eq_neg_iff_add_eq_0)
  moreover have "unat (- 1 :: 8 word) = 255" by (simp add: unsigned_minus_1_eq_mask mask_eq_exp_minus_1)
  ultimately show ?thesis by simp
qed

lemma IP_value_snoc: "IP_value (bs @ [b]) = IP_value bs * 256 + unat b"
  by (simp add: IP_value_append)

lemma IP_value_inc_rev: "IP_value (rev (inc_rev bs)) = (IP_value (rev bs) + 1) mod 256 ^ length bs"
proof (induction bs)
  case (Cons b bs)
  let ?n = "256 ^ length bs :: nat" and ?v = "IP_value (rev bs)"
  have v: "?v < ?n" using IP_value_less [of "rev bs"] by simp
  show ?case
  proof (cases "b + 1 = 0")
    case True
    then have "IP_value (rev (inc_rev (b # bs))) = (?v + 1) mod ?n * 256"
      by (simp add: IP_value_snoc Cons.IH)
    also have "\<dots> = (?v * 256 + 256) mod (256 * ?n)"
      using mult_mod_right [of 256 "?v + 1" ?n] by (simp only: mult.commute [of _ 256] distrib_left mult_1_right)
    finally show ?thesis using byte_carry [OF True] by (simp add: IP_value_snoc add.commute)
  next
    case False
    then have "unat b < 255" using byte_inc [of b] byte_less [of "b + 1"] by simp
    with v have "?v * 256 + Suc (unat b) < 256 * ?n" by simp
    with False show ?thesis by (simp add: IP_value_snoc byte_inc)
  qed
qed simp

text \<open>\<open>incIP\<close> counts, and wraps around at the end of the address space.\<close>

lemma IP_value_incIP: "IP_value (incIP ip) = (IP_value ip + 1) mod 256 ^ length ip"
  using IP_value_inc_rev [of "rev ip"] by (simp add: incIP_def)

lemma mod_Suc_inject:
  fixes a b n :: nat
  assumes "a < n" and "b < n" and "(a + 1) mod n = (b + 1) mod n"
  shows "a = b"
  using assms by (cases "a + 1 = n"; cases "b + 1 = n") auto

lemma incIP_inject: "length a = length b \<Longrightarrow> incIP a = incIP b \<longleftrightarrow> a = b"
  using mod_Suc_inject [of "IP_value a" "256 ^ length a" "IP_value b"] IP_value_less [of a] IP_value_less [of b]
  by (metis IP_value_incIP IP_value_inject)

lemma v4_incIP: "incIP (v4_bytes v) = v4_bytes (Suc v)"
proof (rule v4_bytes_eqI)
  show "IP_value (incIP (v4_bytes v)) = Suc v mod 2 ^ 32"
    by (simp add: IP_value_incIP IP_value_v4_bytes mod_Suc_eq)
qed simp

subsection \<open>A range of addresses\<close>

lemma IP_Equal_same: "length a = length b \<Longrightarrow> IP_Equal a b \<longleftrightarrow> a = b"
  by (simp add: IP_Equal_def)

text \<open>Both ends move in step: while the first address does not follow the last one, it never will.\<close>

lemma range_loop_SomeD:
  assumes "range_loop ip endIP = Some ips" and "length ip = length endIP"
  shows "ip = incIP endIP"
proof -
  have "length ip = length endIP \<longrightarrow> ip = incIP endIP"
    using _ assms(1)
  proof (rule range_loop.raw_induct)
    fix loop ip endIP ips
    assume IH: "\<And>ip endIP ips. loop ip endIP = Some ips \<Longrightarrow> length ip = length endIP \<longrightarrow> ip = incIP endIP"
      and body: "(let endIP' = incIP endIP in if IP_Equal ip endIP' then Some []
        else Option.bind (loop (incIP ip) endIP') (\<lambda>ips. Some (IP_String ip # ips))) = Some ips"
    show "length ip = length endIP \<longrightarrow> ip = incIP endIP"
    proof (intro impI, rule ccontr)
      assume len: "length ip = length endIP" and ne: "ip \<noteq> incIP endIP"
      then have "\<not> IP_Equal ip (incIP endIP)" by (simp add: IP_Equal_same)
      with body obtain ips' where "loop (incIP ip) (incIP endIP) = Some ips'"
        by (auto simp: Let_def bind_eq_Some_conv)
      then have "incIP ip = incIP (incIP endIP)" using IH len by simp
      with len ne show False by (simp add: incIP_inject)
    qed
  qed
  with assms(2) show ?thesis by simp
qed

lemma range_loop_eq:
  assumes "length ip = length endIP"
  shows "range_loop ip endIP = (if ip = incIP endIP then Some [] else None)"
proof (cases "ip = incIP endIP")
  case True
  then show ?thesis by (subst range_loop.simps) (simp add: IP_Equal_same)
next
  case False
  with range_loop_SomeD [OF _ assms] show ?thesis by (cases "range_loop ip endIP") auto
qed


lemma ParseIP_v4_16: "parseIPv4 s = Some v4 \<Longrightarrow> length v4 = 4"
  by (auto simp: parseIPv4_def split: list.splits option.splits)

lemma parse_groups_length:
  "parse_groups s bs ell = Some (r, bs', ell') \<Longrightarrow> even (length bs) \<Longrightarrow> length bs \<le> 16 \<Longrightarrow>
   length bs' \<le> 16"
proof (induction s bs ell rule: parse_groups.induct)
  case (1 s bs ell)
  show ?case
  proof (cases "length bs \<ge> 16")
    case True
    with 1(3-5) show ?thesis by (simp add: parse_groups.simps [of s bs ell])
  next
    case False
    with 1(4) have len: "length bs + 2 \<le> 16" by presburger
    define ds where "ds = takeWhile (\<lambda>c. hex_digit c \<noteq> None) s"
    define t where "t = drop (length ds) s"
    define b2 where "b2 = bs @ [of_nat (read_hex ds div 256), of_nat (read_hex ds mod 256)]"
    have b2: "even (length b2)" "length b2 \<le> 16" using len 1(4) by (simp_all add: b2_def)
    have eq: "parse_groups s bs ell =
      (if ds = [] \<or> length ds > 4 then None
       else if t \<noteq> [] \<and> hd t = CHR ''.'' then
         (if (ell = None \<and> length bs \<noteq> 12) \<or> length bs + 4 > 16 then None
          else map_option (\<lambda>v4. ([], bs @ v4, ell)) (parseIPv4 s))
       else if t = [] then Some ([], b2, ell)
       else if hd t \<noteq> CHR '':'' \<or> length t = 1 then None
       else if t ! 1 = CHR '':'' then
         (if ell \<noteq> None then None
          else if length t = 2 then Some ([], b2, Some (length b2))
          else parse_groups (drop 2 t) b2 (Some (length b2)))
       else parse_groups (drop 1 t) b2 ell)"
      using False by (subst parse_groups.simps) (simp add: Let_def ds_def t_def b2_def)
    note IH1 = 1(1) [OF False ds_def t_def _ _ b2_def] and IH2 = 1(2) [OF False ds_def t_def _ _ b2_def]
    show ?thesis
      using 1(3) b2 len
      by (auto simp: eq dest: ParseIP_v4_16 intro: IH1 IH2 split: if_splits)
  qed
qed

lemma ParseIP_length: "ParseIP s = Some ip \<Longrightarrow> length ip = 16"
proof -
  have v6: "length ip = 16" if p: "parseIPv6 s = Some ip" for s
  proof (cases "s = ''::''")
    case True
    with p show ?thesis by (auto simp: parseIPv6_def)
  next
    case False
    then obtain bs ell where
      g: "(if HasPrefix s ''::'' then parse_groups (drop 2 s) [] (Some 0) else parse_groups s [] None) = Some ([], bs, ell)"
      and ip: "(if length bs < 16 then
                 (case ell of None \<Rightarrow> None
                  | Some e \<Rightarrow> Some (take e bs @ replicate (16 - length bs) 0 @ drop e bs))
               else if ell \<noteq> None then None else Some bs) = Some ip"
      using p by (auto simp: parseIPv6_def split: option.splits if_splits)
    from g have "length bs \<le> 16"
      by (auto dest: parse_groups_length split: if_splits)
    with ip show ?thesis by (auto split: option.splits if_splits)
  qed
  assume "ParseIP s = Some ip"
  then show ?thesis
    by (auto simp: ParseIP_def dest: v6 ParseIP_v4_16 split: list.splits if_splits)
qed

lemma Contains_char: "Contains s [c] \<longleftrightarrow> c \<in> set s"
  by (auto simp: Contains_def sublist_def dest: split_list)

text \<open>A range \<open>a-b\<close> that the discovery handler accepts as valid never yields an address to scan: expanding
  it returns no address when \<open>a\<close> follows \<open>b\<close>, and otherwise does not return at all. The loop's condition increments
  the last address itself, so both ends move in step, and a scan job given such a range fills the memory.\<close>

theorem range_scan_never_ends:
  assumes valid: "isValidScanRange r" and dash: "Contains r ''-''" and slash: "\<not> Contains r ''/''"
  shows "\<exists>p q startIP endIP. Split r CHR ''-'' = [p, q] \<and>
    ParseIP (TrimSpace p) = Some startIP \<and> ParseIP (TrimSpace q) = Some endIP \<and>
    expandIPRange r = (if startIP = incIP endIP then Some (Inr []) else None)"
proof -
  from valid dash slash obtain p q s e where sp: "Split r CHR ''-'' = [p, q]"
    and ips: "ParseIP (TrimSpace p) = Some s" "ParseIP (TrimSpace q) = Some e"
    by (auto simp: isValidScanRange_def split: list.splits)
  moreover have "expandIPRange r = map_option Inr (range_loop s e)"
    using dash slash sp ips by (simp add: expandIPRange_def expandIPRangeNotation_def)
  ultimately show ?thesis
    using ParseIP_length [OF ips(1)] ParseIP_length [OF ips(2)] by (auto simp: range_loop_eq)
qed

theorem range_scan_never_ends_witness:
  "expandIPRange ''10.0.0.1-10.0.0.5'' = None"
proof -
  have 1: "ParseIP ''10.0.0.1'' = Some (v4InV6Prefix @ [10, 0, 0, 1])"
    and 2: "ParseIP ''10.0.0.5'' = Some (v4InV6Prefix @ [10, 0, 0, 5])"
    by code_simp+
  have 3: "Split ''10.0.0.1-10.0.0.5'' CHR ''-'' = [''10.0.0.1'', ''10.0.0.5'']"
    "TrimSpace ''10.0.0.1'' = ''10.0.0.1''" "TrimSpace ''10.0.0.5'' = ''10.0.0.5''"
    by code_simp+
  have c: "Contains ''10.0.0.1-10.0.0.5'' ''-''" "\<not> Contains ''10.0.0.1-10.0.0.5'' ''/''"
    by (simp_all add: Contains_char)
  have "isValidScanRange ''10.0.0.1-10.0.0.5''"
    using c 1 2 3 by (simp add: isValidScanRange_def)
  from range_scan_never_ends [OF this c] 1 2 3 show ?thesis
    by (auto simp: incIP_def v4InV6Prefix_def)
qed

subsection \<open>An IPv4 network\<close>

text \<open>The text of the IPv4 address with a given number.\<close>

abbreviation dotted :: "nat \<Rightarrow> string" where
  "dotted v \<equiv> IP_String (v4_bytes v)"

lemma cidr_loop_v4:
  assumes n: "n \<le> 32" and net: "length net = 4" "IP_value net = q * 2 ^ (32 - n)"
    and k: "k = length ips" "k < 2 ^ (32 - n)" and q: "q < 2 ^ n"
  shows "cidr_loop \<lparr>Net_IP = net, Net_Mask = mask_bytes n 4\<rparr> (2 ^ (32 - n)) (v4_bytes (q * 2 ^ (32 - n) + k)) ips
    = ips @ map dotted [q * 2 ^ (32 - n) + k..<(q + 1) * 2 ^ (32 - n)]"
  using k
proof (induction "2 ^ (32 - n) - k" arbitrary: k ips)
  case 0
  then show ?case by simp
next
  case (Suc j)
  let ?h = "2 ^ (32 - n) :: nat"
  let ?net = "\<lparr>Net_IP = net, Net_Mask = mask_bytes n 4\<rparr>"
  have "q * ?h + k < (q + 1) * ?h" using Suc by simp
  also have "\<dots> \<le> 2 ^ n * ?h" using q by (intro mult_le_mono1) simp
  finally have small: "q * ?h + k < 2 ^ 32" using n by (simp flip: power_add)
  then have "IP_value (v4_bytes (q * ?h + k)) = q * ?h + k" by (simp add: IP_value_v4_bytes)
  then have "Net_Contains ?net (v4_bytes (q * ?h + k))"
    using n net Suc by (subst Net_Contains_v4 [where q = q]) simp_all
  then have step: "cidr_loop ?net ?h (v4_bytes (q * ?h + k)) ips =
      (if Suc k \<ge> ?h then ips @ [dotted (q * ?h + k)]
       else cidr_loop ?net ?h (v4_bytes (q * ?h + Suc k)) (ips @ [dotted (q * ?h + k)]))"
    using Suc by (simp add: cidr_loop.simps [of ?net] v4_incIP Let_def)
  have rng: "[q * ?h + k..<(q + 1) * ?h] = (q * ?h + k) # [q * ?h + Suc k..<(q + 1) * ?h]"
    using Suc by (simp add: upt_conv_Cons)
  show ?case
  proof (cases "Suc k \<ge> ?h")
    case True
    with Suc have "Suc k = ?h" by simp
    with step True rng show ?thesis by simp
  next
    case False
    with Suc have "cidr_loop ?net ?h (v4_bytes (q * ?h + Suc k)) (ips @ [dotted (q * ?h + k)]) =
      (ips @ [dotted (q * ?h + k)]) @ map dotted [q * ?h + Suc k..<(q + 1) * ?h]"
      by (intro Suc.hyps(1)) simp_all
    with step False rng show ?thesis by simp
  qed
qed


lemma unat_shift_1: "k < 64 \<Longrightarrow> unat (push_bit k (1 :: 64 word)) = 2 ^ k"
  by (simp add: unsigned_push_bit_eq take_bit_nat_eq_self push_bit_nat_def del: push_bit_of_1)

lemma masked_v4:
  assumes "v < 2 ^ 32" and "n \<le> 32"
  shows "map2 (AND) (v4_bytes v) (mask_bytes n 4) = v4_bytes (v div 2 ^ (32 - n) * 2 ^ (32 - n))"
proof (rule v4_bytes_eqI)
  let ?w = "v div 2 ^ (32 - n) * 2 ^ (32 - n)"
  have "?w \<le> v" by simp
  then have "?w mod 2 ^ 32 = ?w" using assms(1) by (intro mod_less) linarith
  then show "IP_value (map2 (AND) (v4_bytes v) (mask_bytes n 4)) = ?w mod 2 ^ 32"
    using assms IP_value_masked [of "v4_bytes v" 4 n] by (simp add: IP_value_v4_bytes)
qed simp

lemma minus_255: "(- 255 :: 8 word) = 1"
  by simp

lemma broadcast_31:
  assumes "length ip = 4"
  shows "broadcast 31 (map2 (AND) ip (mask_bytes 31 4)) (mask_bytes 31 4) = incIP (map2 (AND) ip (mask_bytes 31 4))"
proof -
  from assms obtain a b c d where ip: "ip = [a, b, c, d]"
    by (auto simp: numeral_eq_Suc length_Suc_conv)
  have m: "mask_bytes 31 4 = [0xff, 0xff, 0xff, 0xfe :: 8 word]"
    by code_simp
  have "(d AND 0xfe) AND 1 = 0"
    by (simp add: and.assoc)
  then have or: "(d AND 0xfe) OR 1 = (d AND 0xfe) + 1"
    by (simp add: disjunctive_add_eq_or)
  have "\<not> bit (d AND 0xfe) 0" by (simp add: bit_simps)
  then have "(d AND 0xfe) \<noteq> - 1" by auto
  then have ne: "(d AND 0xfe) + 1 \<noteq> 0" by (simp add: eq_neg_iff_add_eq_0)
  show ?thesis
    using or ne by (simp add: ip m broadcast_def incIP_def byte_ff minus_255)
qed

lemma shift_gt_max: "n \<le> 32 \<Longrightarrow> push_bit (32 - n) (1 :: 64 word) > maxIPs \<longleftrightarrow> n < 16"
proof -
  assume n: "n \<le> 32"
  have "push_bit (32 - n) (1 :: 64 word) > maxIPs \<longleftrightarrow> (2 :: nat) ^ 16 < 2 ^ (32 - n)"
    using n by (simp add: word_less_nat_alt unat_shift_1 maxIPs_def del: push_bit_of_1)
  also have "\<dots> \<longleftrightarrow> n < 16"
    by (subst power_strict_increasing_iff) (use n in auto)
  finally show ?thesis .
qed

text \<open>The branches on the network of an IPv4 address \<open>v\<close>.\<close>

lemma DiscoveryService_expandCIDR_v4:
  assumes v: "v < 2 ^ 32" and n: "n \<le> 32"
  defines "size_n \<equiv> 2 ^ (32 - n)"
  defines "net \<equiv> v4_bytes (v div size_n * size_n)"
  shows "DiscoveryService_expandCIDR (dotted v @ ''/'' @ show_nat n) =
      (if n = 32 then Inr [dotted v]
       else if n < 16 then Inl (''CIDR range too large: '' @ dotted v @ ''/'' @ show_nat n @ '' ('' @
         show_nat size_n @ '' IPs, max allowed: 65536)'')
       else if n = 31 then Inr [IP_String net, IP_String (incIP net)]
       else Inr (cidr_loop \<lparr>Net_IP = net, Net_Mask = mask_bytes n 4\<rparr> size_n net []))"
proof -
  let ?m = "mask_bytes n 4"
  have net: "map2 (AND) (v4_bytes v) ?m = net"
    unfolding size_n_def net_def by (rule masked_v4 [OF v n])
  have "Contains (dotted v @ ''/'' @ show_nat n) ''/''" by (rule ContainsI)
  moreover have "ParseCIDR (dotted v @ ''/'' @ show_nat n) =
      Some (v4InV6Prefix @ v4_bytes v, \<lparr>Net_IP = net, Net_Mask = ?m\<rparr>)"
    using n net ParseCIDR_show [of n] by (simp add: v4_bytes_def)
  moreover have "unat (push_bit (32 - n) (1 :: 64 word)) = size_n"
    using n by (simp add: unat_shift_1 size_n_def del: push_bit_of_1)
  moreover have "IP_Mask (v4InV6Prefix @ v4_bytes v) ?m = Some net"
    using net by (simp add: IP_Mask_mapped)
  moreover have "n = 31 \<Longrightarrow> broadcast 31 net ?m = incIP net"
    using broadcast_31 [of "v4_bytes v"] net by auto
  ultimately show ?thesis
    using Mask_ones_v4 [OF n] shift_gt_max [OF n]
    by (simp add: DiscoveryService_expandCIDR_def Let_def del: push_bit_of_1)
qed

text \<open>The discovery service expands an IPv4 network in CIDR notation to exactly its addresses, in order, from
  the network address to the last, host bits of the given address ignored; a network of more than 65536 addresses is
  refused with an error that names its size.\<close>

theorem DiscoveryService_expandCIDR_exact:
  assumes v: "v < 2 ^ 32" and n: "n \<le> 32"
  defines "size_n \<equiv> 2 ^ (32 - n)"
  shows "DiscoveryService_expandCIDR (dotted v @ ''/'' @ show_nat n) =
    (if n < 16
     then Inl (''CIDR range too large: '' @ dotted v @ ''/'' @ show_nat n @ '' ('' @ show_nat size_n @
               '' IPs, max allowed: 65536)'')
     else Inr (map dotted [v div size_n * size_n..<(v div size_n + 1) * size_n]))"
proof -
  have q: "v div size_n < 2 ^ n"
    using v n by (simp add: size_n_def div_less_iff_less_mult flip: power_add)
  have net: "IP_value (v4_bytes (v div size_n * size_n)) = v div size_n * size_n"
  proof -
    have "v div size_n * size_n \<le> v" by simp
    then have "v div size_n * size_n < 2 ^ 32" using v by linarith
    then show ?thesis by (simp add: IP_value_v4_bytes)
  qed
  note eq = DiscoveryService_expandCIDR_v4 [OF v n, folded size_n_def]
  consider "n < 16" | "n = 32" | "n = 31" | "16 \<le> n" "n < 31" using n by linarith
  then show ?thesis
  proof cases
    case 1
    with eq show ?thesis by simp
  next
    case 2
    with eq show ?thesis by (simp add: size_n_def)
  next
    case 3
    with eq show ?thesis by (simp add: size_n_def upt_rec v4_incIP)
  next
    case 4
    have "cidr_loop \<lparr>Net_IP = v4_bytes (v div size_n * size_n), Net_Mask = mask_bytes n 4\<rparr> size_n
        (v4_bytes (v div size_n * size_n + 0)) [] =
      [] @ map dotted [v div size_n * size_n + 0..<(v div size_n + 1) * size_n]"
      unfolding size_n_def
      by (rule cidr_loop_v4) (use n net q in \<open>simp_all add: size_n_def\<close>)
    with 4 eq show ?thesis by simp
  qed
qed

theorem DiscoveryService_expandCIDR_exact_witness:
  "DiscoveryService_expandCIDR ''192.168.7.9/30'' =
    Inr [''192.168.7.8'', ''192.168.7.9'', ''192.168.7.10'', ''192.168.7.11'']"
proof -
  have t: "dotted 3232237321 = ''192.168.7.9''" "show_nat 30 = ''30''"
    "dotted 3232237320 = ''192.168.7.8''" "dotted 3232237322 = ''192.168.7.10''" "dotted 3232237323 = ''192.168.7.11''"
    by (simp_all add: v4_bytes_def show_v4_def show_nat.simps digit_chars)
  have "DiscoveryService_expandCIDR (dotted 3232237321 @ ''/'' @ show_nat 30) =
      Inr (map dotted [3232237320..<3232237324])"
    by (subst DiscoveryService_expandCIDR_exact) simp_all
  moreover have "[3232237320..<3232237324] = [3232237320, 3232237321, 3232237322, 3232237323 :: nat]"
    by simp
  ultimately show ?thesis by (simp only: t list.map append.simps)
qed

text \<open>The network scanner expands every IPv4 network in CIDR notation, whatever its size, to one address, the
  network address: a scan of a /24 looks at one host, which is usually none.\<close>

theorem expandCIDR_one_address:
  assumes v: "v < 2 ^ 32" and n: "n \<le> 32"
  shows "expandIPRange (dotted v @ ''/'' @ show_nat n) = Some (Inr [dotted (v div 2 ^ (32 - n) * 2 ^ (32 - n))])"
proof -
  let ?s = "dotted v @ ''/'' @ show_nat n" and ?m = "mask_bytes n 4"
  let ?net = "map2 (AND) (v4_bytes v) ?m"
  have "Contains ?s ''/''" by (rule ContainsI)
  moreover have "ParseCIDR ?s = Some (v4InV6Prefix @ v4_bytes v, \<lparr>Net_IP = ?net, Net_Mask = ?m\<rparr>)"
    using n ParseCIDR_show [of n] by (simp add: v4_bytes_def)
  moreover have "?net = v4_bytes (v div 2 ^ (32 - n) * 2 ^ (32 - n))"
    by (rule masked_v4 [OF v n])
  ultimately show ?thesis by (simp add: expandIPRange_def expandCIDR_def)
qed

theorem expandCIDR_one_address_witness: "expandIPRange ''10.1.2.3/24'' = Some (Inr [''10.1.2.0''])"
proof -
  have t: "dotted 167838211 = ''10.1.2.3''" "show_nat 24 = ''24''" "dotted 167838208 = ''10.1.2.0''"
    by (simp_all add: v4_bytes_def show_v4_def show_nat.simps digit_chars)
  have "expandIPRange (dotted 167838211 @ ''/'' @ show_nat 24) = Some (Inr [dotted 167838208])"
    by (subst expandCIDR_one_address) simp_all
  then show ?thesis by (simp only: t append.simps)
qed

end
