(* ===== verification/DiscoveryStore.thy ===== *)
theory DiscoveryStore
  imports Models
begin

section \<open>The store of discovered servers\<close>

text \<open>
  \<open>InMemoryDiscoveryStore\<close> of \<open>pkg/scanner/discovery_store.go\<close>: a map from IDs to servers. A server
  is stored once per fingerprint: saving one that is already known updates the stored one. The first
  part models what each operation does to the map; servers are values, as every lookup hands out
  a copy. The second part models the mutex of the store, which \<open>Save\<close> acquires twice.

  \<open>md5hex\<close> is the MD5 digest in hexadecimal, and \<open>ks\<close> the order of a loop over the map.
\<close>

subsection \<open>The operations on the map\<close>

type_synonym discovery_map = "string \<rightharpoonup> DiscoveredServer"

definition show_bool :: "bool \<Rightarrow> string" where
  "show_bool b = (if b then ''true'' else ''false'')"

text \<open>\<open>fmt.Sprintf("%v", server.Capabilities)\<close>, of a pointer to the struct.\<close>

definition show_capabilities :: "McpCapabilities \<Rightarrow> string" where
  "show_capabilities c = ''&{'' @ Join (map show_bool [McC_Tools c, McC_Prompts c, McC_Resources c,
     McC_Logging c, McC_Completions c, McC_Experimental c]) '' '' @ ''}''"

definition generateFingerprint :: "(string \<Rightarrow> string) \<Rightarrow> DiscoveredServer \<Rightarrow> string" where
  "generateFingerprint md5hex server =
     (let parts =
        (if DS_Name server \<noteq> [] \<and> DS_Name server \<noteq> ''Unknown MCP Server'' then [DS_Name server] else []) @
        (if DS_ServerVersion server \<noteq> [] then [DS_ServerVersion server] else []) @
        (if DS_ProtocolVersion server \<noteq> [] then [DS_ProtocolVersion server] else []) @
        (case DS_Capabilities server of
           None \<Rightarrow> [] | Some c \<Rightarrow> [take 8 (md5hex (show_capabilities c))])
      in if parts = [] then ''address-'' @ ReplaceAll (DS_Address server) ''/'' ''-''
         else Join parts ''|'')"

definition FindByFingerprint ::
    "(string \<Rightarrow> string) \<Rightarrow> string list \<Rightarrow> string \<Rightarrow> discovery_map \<Rightarrow> DiscoveredServer result" where
  "FindByFingerprint md5hex ks fingerprint m =
     (case find (\<lambda>server. generateFingerprint md5hex server = fingerprint) (range_values m ks) of
        Some server \<Rightarrow> Inr server
      | None \<Rightarrow> Inl (''server with fingerprint not found: '' @ fingerprint))"

text \<open>What a new discovery adds to the stored server: the fields that it has.\<close>

definition merge_server :: "DiscoveredServer \<Rightarrow> DiscoveredServer \<Rightarrow> DiscoveredServer" where
  "merge_server server existing = existing
     \<lparr>DS_Capabilities := (case DS_Capabilities server of None \<Rightarrow> DS_Capabilities existing | c \<Rightarrow> c),
      DS_Tools := (case DS_Tools server of None \<Rightarrow> DS_Tools existing | t \<Rightarrow> t),
      DS_Resources := (case DS_Resources server of None \<Rightarrow> DS_Resources existing | r \<Rightarrow> r),
      DS_Prompts := (case DS_Prompts server of None \<Rightarrow> DS_Prompts existing | p \<Rightarrow> p),
      DS_AuthInfo := (case DS_AuthInfo server of None \<Rightarrow> DS_AuthInfo existing | a \<Rightarrow> a),
      DS_ServerVersion := (if DS_ServerVersion server \<noteq> [] then DS_ServerVersion server else DS_ServerVersion existing),
      DS_ProtocolVersion := (if DS_ProtocolVersion server \<noteq> [] then DS_ProtocolVersion server else DS_ProtocolVersion existing),
      DS_Metadata := (case DS_Metadata server of None \<Rightarrow> DS_Metadata existing | d \<Rightarrow> d),
      DS_VulnerabilityScore := (if DS_VulnerabilityScore server \<noteq> [] then DS_VulnerabilityScore server
                                else DS_VulnerabilityScore existing),
      DS_LastSeen := DS_LastSeen server\<rparr>"

text \<open>The search for an unused ID. It has no bound, so it need not end.\<close>

definition numbered_ID :: "string \<Rightarrow> nat \<Rightarrow> string" where
  "numbered_ID sid counter = sid @ ''-'' @ show_nat counter"

partial_function (option) fresh_ID :: "discovery_map \<Rightarrow> string \<Rightarrow> nat \<Rightarrow> string option" where
  [code]: "fresh_ID m sid counter =
     (if m (numbered_ID sid counter) = None then Some (numbered_ID sid counter)
      else fresh_ID m sid (counter + 1))"

text \<open>The body of \<open>Save\<close> for a server that is not nil; \<open>None\<close> is a search that does not end.\<close>

definition Save :: "(string \<Rightarrow> string) \<Rightarrow> gotime \<Rightarrow> string list \<Rightarrow> DiscoveredServer \<Rightarrow> discovery_map \<Rightarrow> discovery_map option" where
  "Save md5hex now ks server0 m =
     (let server = server0\<lparr>DS_LastSeen := now\<rparr>;
          fingerprint = generateFingerprint md5hex server in
      case FindByFingerprint md5hex ks fingerprint m of
        Inr existing \<Rightarrow> Some (m(DS_ID existing \<mapsto> merge_server server existing))
      | Inl _ \<Rightarrow>
          (if m (DS_ID server) \<noteq> None
           then map_option (\<lambda>newID. m(newID \<mapsto> server\<lparr>DS_ID := newID\<rparr>)) (fresh_ID m (DS_ID server) 1)
           else Some (m(DS_ID server \<mapsto> server))))"

definition GetAll :: "string list \<Rightarrow> discovery_map \<Rightarrow> DiscoveredServer list" where
  "GetAll ks m = range_values m ks"

definition GetByID :: "string \<Rightarrow> discovery_map \<Rightarrow> DiscoveredServer result" where
  "GetByID sid m = (case m sid of None \<Rightarrow> Inl (''server not found: '' @ sid) | Some server \<Rightarrow> Inr server)"

definition UpdateLastSeen :: "string \<Rightarrow> gotime \<Rightarrow> discovery_map \<Rightarrow> discovery_map \<times> error option" where
  "UpdateLastSeen sid lastSeen m =
     (case m sid of
        None \<Rightarrow> (m, Some (''server not found: '' @ sid))
      | Some server \<Rightarrow> (m(sid \<mapsto> server\<lparr>DS_LastSeen := lastSeen\<rparr>), None))"

definition RemoveStale :: "gotime \<Rightarrow> string list \<Rightarrow> duration \<Rightarrow> discovery_map \<Rightarrow> discovery_map" where
  "RemoveStale now ks threshold m = range_delete (\<lambda>server. DS_LastSeen server < now - threshold) ks m"

definition Delete_server :: "string \<Rightarrow> discovery_map \<Rightarrow> discovery_map \<times> error option" where
  "Delete_server sid m =
     (if m sid = None then (m, Some (''server not found: '' @ sid)) else (m(sid := None), None))"

definition GetServerCount :: "string list \<Rightarrow> discovery_map \<Rightarrow> nat" where
  "GetServerCount ks m = length (range_values m ks)"

definition Clear :: "discovery_map \<Rightarrow> discovery_map" where
  "Clear m = Map.empty"

subsection \<open>Saving a server\<close>

lemma numbered_ID_inj [simp]: "numbered_ID sid i = numbered_ID sid j \<longleftrightarrow> i = j"
  by (simp add: numbered_ID_def)

text \<open>A finite map leaves some number unused, so the search ends, at the least of them.\<close>

lemma fresh_ID_finds:
  assumes "m (numbered_ID sid j) = None" and "i \<le> j" and "\<And>k. i \<le> k \<Longrightarrow> k < j \<Longrightarrow> m (numbered_ID sid k) \<noteq> None"
  shows "fresh_ID m sid i = Some (numbered_ID sid j)"
  using assms(2,3)
proof (induction "j - i" arbitrary: i)
  case 0
  with assms(1) show ?case by (simp add: fresh_ID.simps [of m sid i])
next
  case (Suc d)
  then have "fresh_ID m sid (i + 1) = Some (numbered_ID sid j)" by (intro Suc.hyps(1)) simp_all
  moreover have "m (numbered_ID sid i) \<noteq> None" using Suc.prems(2) [of i] Suc.hyps(2) by simp
  ultimately show ?case by (subst fresh_ID.simps) auto
qed

lemma fresh_ID_ex:
  assumes "finite (dom m)"
  obtains j where "i \<le> j" "m (numbered_ID sid j) = None"
    "fresh_ID m sid i = Some (numbered_ID sid j)"
proof -
  have "infinite (numbered_ID sid ` {i..})"
    by (subst finite_image_iff) (auto simp: inj_on_def infinite_Ici)
  then have "\<not> numbered_ID sid ` {i..} \<subseteq> dom m"
    using assms finite_subset by blast
  then have ex: "\<exists>j. i \<le> j \<and> m (numbered_ID sid j) = None" by auto
  define j where "j = (LEAST j. i \<le> j \<and> m (numbered_ID sid j) = None)"
  have j: "i \<le> j" "m (numbered_ID sid j) = None"
    using LeastI_ex [OF ex] by (simp_all add: j_def)
  have "m (numbered_ID sid k) \<noteq> None" if "i \<le> k" "k < j" for k
    using not_less_Least [of k "\<lambda>j. i \<le> j \<and> m (numbered_ID sid j) = None"] that by (auto simp: j_def)
  with j have "fresh_ID m sid i = Some (numbered_ID sid j)" by (intro fresh_ID_finds) auto
  with j that show thesis by blast
qed

definition IDs_ok :: "discovery_map \<Rightarrow> bool" where
  "IDs_ok m \<longleftrightarrow> (\<forall>k server. m k = Some server \<longrightarrow> DS_ID server = k)"

lemma FindByFingerprint_ok:
  "FindByFingerprint md5hex ks f m = Inr server \<Longrightarrow> server \<in> ran m \<and> generateFingerprint md5hex server = f"
  by (auto simp: FindByFingerprint_def dest: find_range_valuesD split: option.splits)

lemma FindByFingerprint_none:
  "range_order m ks \<Longrightarrow> FindByFingerprint md5hex ks f m = Inl e \<Longrightarrow> server \<in> ran m \<Longrightarrow>
   generateFingerprint md5hex server \<noteq> f"
  by (auto simp: FindByFingerprint_def find_None_iff set_range_values split: option.splits)

lemma merge_server_ID [simp]: "DS_ID (merge_server server existing) = DS_ID existing"
  by (simp add: merge_server_def)

lemma fingerprint_LastSeen [simp]:
  "generateFingerprint md5hex (server\<lparr>DS_LastSeen := t\<rparr>) = generateFingerprint md5hex server"
  by (simp add: generateFingerprint_def)

text \<open>C27. In a store whose servers are filed under their IDs, the body of \<open>Save\<close> always finishes and changes one entry:
  a stored server with the same fingerprint is updated in place and keeps its ID; when no stored server has the
  fingerprint, the server is added under its own ID if that is free, and under an unused one otherwise.\<close>

theorem Save_one_entry:
  assumes ro: "range_order m ks" and ok: "IDs_ok m"
  shows "\<exists>sid entry. Save md5hex now ks server m = Some (m(sid \<mapsto> entry)) \<and> DS_ID entry = sid \<and>
    (case m sid of
       Some existing \<Rightarrow> generateFingerprint md5hex existing = generateFingerprint md5hex server \<and>
         entry = merge_server (server\<lparr>DS_LastSeen := now\<rparr>) existing
     | None \<Rightarrow> (\<forall>other \<in> ran m. generateFingerprint md5hex other \<noteq> generateFingerprint md5hex server) \<and>
         entry = server\<lparr>DS_LastSeen := now, DS_ID := sid\<rparr> \<and>
         (m (DS_ID server) = None \<longrightarrow> sid = DS_ID server))"
proof (cases "FindByFingerprint md5hex ks (generateFingerprint md5hex server) m")
  case (Inr existing)
  from FindByFingerprint_ok [OF Inr] ok have "m (DS_ID existing) = Some existing"
    "generateFingerprint md5hex existing = generateFingerprint md5hex server"
    by (auto simp: IDs_ok_def ran_def)
  with Inr show ?thesis
    by (intro exI [of _ "DS_ID existing"] exI [of _ "merge_server (server\<lparr>DS_LastSeen := now\<rparr>) existing"])
      (simp add: Save_def Let_def)
next
  case (Inl e)
  note new = FindByFingerprint_none [OF ro Inl]
  have fin: "finite (dom m)" using ro by (rule range_order_finite)
  show ?thesis
  proof (cases "m (DS_ID server)")
    case None
    with Inl new show ?thesis
      by (intro exI [of _ "DS_ID server"] exI [of _ "server\<lparr>DS_LastSeen := now\<rparr>"]) (simp add: Save_def Let_def)
  next
    case (Some old)
    from fresh_ID_ex [OF fin, of 1 "DS_ID server"] obtain j where
      "m (numbered_ID (DS_ID server) j) = None"
      "fresh_ID m (DS_ID server) 1 = Some (numbered_ID (DS_ID server) j)" by blast
    with Inl Some new show ?thesis
      by (intro exI [of _ "numbered_ID (DS_ID server) j"]
          exI [of _ "server\<lparr>DS_LastSeen := now, DS_ID := numbered_ID (DS_ID server) j\<rparr>"])
        (simp add: Save_def Let_def)
  qed
qed

definition ex_found :: DiscoveredServer where
  "ex_found = zero_DiscoveredServer\<lparr>DS_ID := ''mcp-1'', DS_Name := ''files''\<rparr>"

theorem Save_one_entry_witness:
  "\<exists>sid entry. Save (\<lambda>s. s) 7 [''mcp-1''] ex_found [''mcp-1'' \<mapsto> ex_found] =
     Some ([''mcp-1'' \<mapsto> ex_found](sid \<mapsto> entry)) \<and> DS_ID entry = sid"
proof -
  have "range_order [''mcp-1'' \<mapsto> ex_found] [''mcp-1'']" "IDs_ok [''mcp-1'' \<mapsto> ex_found]"
    by (auto simp: range_order_def IDs_ok_def ex_found_def)
  from Save_one_entry [OF this, of "\<lambda>s. s" 7 ex_found] show ?thesis by blast
qed

subsection \<open>The mutex of the store\<close>

text \<open>
  A call of an operation acquires and releases the store's \<open>sync.RWMutex\<close> in the order below, the
  deferred releases at its end. \<open>Save\<close> calls \<open>FindByFingerprint\<close> between its own two actions.
\<close>

datatype lock_action = Lock | Unlock | RLock | RUnlock

datatype store_call =
    Call_Save "DiscoveredServer option"
  | Call_GetAll
  | Call_GetByID
  | Call_FindByFingerprint
  | Call_UpdateLastSeen
  | Call_RemoveStale
  | Call_Delete
  | Call_GetServerCount
  | Call_Clear

abbreviation FindByFingerprint_actions :: "lock_action list" where
  "FindByFingerprint_actions \<equiv> [RLock, RUnlock]"

fun lock_actions :: "store_call \<Rightarrow> lock_action list" where
  "lock_actions Call_FindByFingerprint = FindByFingerprint_actions"
| "lock_actions (Call_Save None) = []"
| "lock_actions (Call_Save (Some server)) = [Lock] @ FindByFingerprint_actions @ [Unlock]"
| "lock_actions Call_GetAll = [RLock, RUnlock]"
| "lock_actions Call_GetByID = [RLock, RUnlock]"
| "lock_actions Call_UpdateLastSeen = [Lock, Unlock]"
| "lock_actions Call_RemoveStale = [Lock, Unlock]"
| "lock_actions Call_Delete = [Lock, Unlock]"
| "lock_actions Call_GetServerCount = [RLock, RUnlock]"
| "lock_actions Call_Clear = [Lock, Unlock]"

text \<open>The mutex and the calls in progress, each with the actions it has still to do; a call without any
  has returned, or can. A new call may begin at any time. An \<open>RWMutex\<close> does not know who holds it, and
  \<open>RLock\<close> waits for a writer.\<close>

record lock_state =
  ls_writer :: bool
  ls_readers :: nat
  ls_calls :: "nat \<rightharpoonup> store_call \<times> lock_action list"

definition lock_init :: lock_state where
  "lock_init = \<lparr>ls_writer = False, ls_readers = 0, ls_calls = Map.empty\<rparr>"

inductive lock_step :: "lock_state \<Rightarrow> lock_state \<Rightarrow> bool" where
  begin_call: "ls_calls st t = None \<Longrightarrow>
     lock_step st (st\<lparr>ls_calls := (ls_calls st)(t \<mapsto> (c, lock_actions c))\<rparr>)"
| lock: "ls_calls st t = Some (c, Lock # as) \<Longrightarrow> \<not> ls_writer st \<Longrightarrow> ls_readers st = 0 \<Longrightarrow>
     lock_step st (st\<lparr>ls_writer := True, ls_calls := (ls_calls st)(t \<mapsto> (c, as))\<rparr>)"
| unlock: "ls_calls st t = Some (c, Unlock # as) \<Longrightarrow>
     lock_step st (st\<lparr>ls_writer := False, ls_calls := (ls_calls st)(t \<mapsto> (c, as))\<rparr>)"
| rlock: "ls_calls st t = Some (c, RLock # as) \<Longrightarrow> \<not> ls_writer st \<Longrightarrow>
     lock_step st (st\<lparr>ls_readers := Suc (ls_readers st), ls_calls := (ls_calls st)(t \<mapsto> (c, as))\<rparr>)"
| runlock: "ls_calls st t = Some (c, RUnlock # as) \<Longrightarrow>
     lock_step st (st\<lparr>ls_readers := ls_readers st - 1, ls_calls := (ls_calls st)(t \<mapsto> (c, as))\<rparr>)"

text \<open>What a call holds, by the actions left to it. No call is ever at \<open>[RUnlock, Unlock]\<close>.\<close>

definition shapes :: "lock_action list set" where
  "shapes = {[], [Lock, Unlock], [RLock, RUnlock], [Lock, RLock, RUnlock, Unlock],
     [Unlock], [RLock, RUnlock, Unlock], [RUnlock]}"

definition writes :: "lock_state \<Rightarrow> nat \<Rightarrow> bool" where
  "writes st t \<longleftrightarrow> (\<exists>c. ls_calls st t = Some (c, [Unlock]) \<or> ls_calls st t = Some (c, [RLock, RUnlock, Unlock]))"

definition reads :: "lock_state \<Rightarrow> nat \<Rightarrow> bool" where
  "reads st t \<longleftrightarrow> (\<exists>c. ls_calls st t = Some (c, [RUnlock]))"

definition lock_inv :: "lock_state \<Rightarrow> bool" where
  "lock_inv st \<longleftrightarrow>
     (\<forall>t c as. ls_calls st t = Some (c, as) \<longrightarrow> as \<in> shapes) \<and>
     (\<forall>t. writes st t \<longrightarrow> ls_writer st \<and> (\<forall>t'. \<not> reads st t') \<and> (\<forall>t'. writes st t' \<longrightarrow> t' = t)) \<and>
     finite {t. reads st t} \<and> ls_readers st = card {t. reads st t}"

lemma lock_actions_shape: "lock_actions c \<in> shapes"
  by (cases c rule: lock_actions.cases) (simp_all add: shapes_def)

lemma lock_actions_not_held: "lock_actions c \<noteq> [Unlock]" "lock_actions c \<noteq> [RLock, RUnlock, Unlock]"
    "lock_actions c \<noteq> [RUnlock]"
  by (cases c rule: lock_actions.cases; simp)+

lemma lock_inv_step:
  assumes "lock_step st st'" and "lock_inv st"
  shows "lock_inv st'"
  using assms
proof (induction rule: lock_step.induct)
  case (begin_call st t c)
  let ?st = "st\<lparr>ls_calls := (ls_calls st)(t \<mapsto> (c, lock_actions c))\<rparr>"
  have "writes ?st = writes st" "reads ?st = reads st"
    using begin_call(1) by (auto simp: fun_eq_iff writes_def reads_def lock_actions_not_held)
  with begin_call(2) show ?case
    using lock_actions_shape [of c] by (simp add: lock_inv_def)
next
  case (lock st t c as)
  let ?st = "st\<lparr>ls_writer := True, ls_calls := (ls_calls st)(t \<mapsto> (c, as))\<rparr>"
  have "\<not> reads st t'" for t' using lock(3,4) by (auto simp: lock_inv_def)
  moreover have "\<not> writes st t'" for t' using lock(2,4) by (auto simp: lock_inv_def)
  moreover have "as = [Unlock] \<or> as = [RLock, RUnlock, Unlock]"
    using lock(1,4) by (auto simp: lock_inv_def shapes_def)
  ultimately have "reads ?st t' = False" "writes ?st t' \<longleftrightarrow> t' = t" for t'
    by (auto simp: writes_def reads_def)
  with lock(3,4) \<open>as = _ \<or> as = _\<close> show ?case by (auto simp: lock_inv_def shapes_def)
next
  case (unlock st t c as)
  let ?st = "st\<lparr>ls_writer := False, ls_calls := (ls_calls st)(t \<mapsto> (c, as))\<rparr>"
  have as: "as = []" using unlock by (auto simp: lock_inv_def shapes_def)
  have "writes st t" using unlock(1) as by (auto simp: writes_def)
  with unlock(2) have "\<not> reads st t'" "writes st t' \<Longrightarrow> t' = t" for t'
    by (auto simp: lock_inv_def)
  with as have "\<not> reads ?st t'" "\<not> writes ?st t'" for t'
    by (auto simp: writes_def reads_def)
  with unlock(2) as show ?case
    using \<open>\<And>t'. \<not> reads st t'\<close> by (auto simp: lock_inv_def shapes_def)
next
  case (rlock st t c as)
  let ?st = "st\<lparr>ls_readers := Suc (ls_readers st), ls_calls := (ls_calls st)(t \<mapsto> (c, as))\<rparr>"
  have nw: "\<not> writes st t'" for t' using rlock(2,3) by (auto simp: lock_inv_def)
  have "RLock # as \<in> shapes" using rlock(1,3) by (auto simp: lock_inv_def)
  moreover have "as \<noteq> [RUnlock, Unlock]" using nw [of t] rlock(1) by (auto simp: writes_def)
  ultimately have as: "as = [RUnlock]" by (auto simp: shapes_def)
  have "\<not> reads st t" using rlock(1) by (simp add: reads_def)
  moreover have "{t. reads ?st t} = insert t {t. reads st t}"
    using as by (auto simp: reads_def)
  moreover have "\<not> writes ?st t'" for t' using nw as by (auto simp: writes_def)
  ultimately show ?case using rlock(3) as by (auto simp: lock_inv_def shapes_def)
next
  case (runlock st t c as)
  let ?st = "st\<lparr>ls_readers := ls_readers st - 1, ls_calls := (ls_calls st)(t \<mapsto> (c, as))\<rparr>"
  have as: "as = []" using runlock by (auto simp: lock_inv_def shapes_def)
  have r: "reads st t" using runlock(1) as by (auto simp: reads_def)
  then have "\<not> writes st t'" for t' using runlock(2) by (auto simp: lock_inv_def)
  with as have "\<not> writes ?st t'" for t' by (auto simp: writes_def)
  moreover have "{t. reads ?st t} = {t. reads st t} - {t}" using as by (auto simp: reads_def)
  ultimately show ?case using runlock(2) r as by (auto simp: lock_inv_def shapes_def)
qed

lemma lock_inv_reachable: "lock_step\<^sup>*\<^sup>* lock_init st \<Longrightarrow> lock_inv st"
proof (induction rule: rtranclp_induct)
  case base
  then show ?case by (simp add: lock_inv_def lock_init_def writes_def reads_def)
next
  case (step st1 st2)
  then show ?case using lock_inv_step by blast
qed

text \<open>The state after a \<open>Save\<close> took the lock: it waits for itself, and everyone for it.\<close>

definition frozen :: "lock_state \<Rightarrow> bool" where
  "frozen st \<longleftrightarrow> ls_writer st \<and>
     (\<forall>t c as. ls_calls st t = Some (c, as) \<longrightarrow> as = [] \<or> hd as = Lock \<or> hd as = RLock)"

lemma frozen_step:
  assumes "lock_step st st'" and "frozen st"
  shows "frozen st' \<and> (\<exists>t c. ls_calls st t = None \<and> ls_calls st' = (ls_calls st)(t \<mapsto> (c, lock_actions c)))"
  using assms
proof (cases rule: lock_step.cases)
  case (begin_call t c)
  have "lock_actions c = [] \<or> hd (lock_actions c) = Lock \<or> hd (lock_actions c) = RLock"
    by (cases c rule: lock_actions.cases) simp_all
  with begin_call assms(2) show ?thesis by (auto simp: frozen_def)
qed (use assms(2) in \<open>fastforce simp: frozen_def\<close>)+

lemma lock_actions_Nil: "lock_actions c = [] \<longleftrightarrow> c = Call_Save None"
  by (cases c rule: lock_actions.cases) simp_all

lemma frozen_forever:
  assumes "lock_step\<^sup>*\<^sup>* st st'" and "frozen st"
  shows "frozen st' \<and> ls_calls st \<subseteq>\<^sub>m ls_calls st' \<and>
    (\<forall>t c as. ls_calls st t = None \<longrightarrow> ls_calls st' t = Some (c, as) \<longrightarrow> as = lock_actions c)"
  using assms
proof (induction rule: rtranclp_induct)
  case base
  then show ?case by simp
next
  case (step st1 st2)
  then have IH: "frozen st1" "ls_calls st \<subseteq>\<^sub>m ls_calls st1"
    "\<forall>t c as. ls_calls st t = None \<longrightarrow> ls_calls st1 t = Some (c, as) \<longrightarrow> as = lock_actions c" by simp_all
  from frozen_step [OF step(2) IH(1)] obtain t c where "frozen st2" "ls_calls st1 t = None"
    "ls_calls st2 = (ls_calls st1)(t \<mapsto> (c, lock_actions c))" by blast
  then show ?case using IH(2,3) by (auto simp: map_le_def dom_def)
qed

text \<open>A \<open>Save\<close> is either before its first action or waits for itself.\<close>

lemma Save_stages:
  assumes "lock_step\<^sup>*\<^sup>* lock_init st" and "ls_calls st t = Some (Call_Save (Some server), as)"
  shows "as = lock_actions (Call_Save (Some server)) \<or> (as = [RLock, RUnlock, Unlock] \<and> frozen st)"
proof -
  define stages where "stages st \<longleftrightarrow> (\<forall>t server as. ls_calls st t = Some (Call_Save (Some server), as) \<longrightarrow>
    as = lock_actions (Call_Save (Some server)) \<or> as = [RLock, RUnlock, Unlock])" for st :: lock_state
  have "stages st"
    using assms(1)
  proof (induction rule: rtranclp_induct)
    case base
    then show ?case by (simp add: stages_def lock_init_def)
  next
    case (step st1 st2)
    have inv: "lock_inv st1" using step(1) by (rule lock_inv_reachable)
    from step(2) show ?case
    proof (cases rule: lock_step.cases)
      case (rlock t c as)
      have "\<not> writes st1 t" using inv rlock(3) by (auto simp: lock_inv_def)
      with rlock step(3) show ?thesis by (auto simp: stages_def writes_def)
    qed (use step(3) in \<open>auto simp: stages_def\<close>)
  qed
  with assms(2) have as: "as = lock_actions (Call_Save (Some server)) \<or> as = [RLock, RUnlock, Unlock]"
    by (simp add: stages_def)
  have "frozen st" if stuck: "as = [RLock, RUnlock, Unlock]"
  proof -
    have inv: "lock_inv st" using assms(1) by (rule lock_inv_reachable)
    have w: "writes st t" using assms(2) stuck by (simp add: writes_def)
    with inv have "ls_writer st" and nr: "\<And>t'. \<not> reads st t'" and one: "\<And>t'. writes st t' \<Longrightarrow> t' = t"
      by (auto simp: lock_inv_def)
    moreover have "rest = [] \<or> hd rest = Lock \<or> hd rest = RLock" if r: "ls_calls st t' = Some (c, rest)" for t' c rest
    proof -
      have "rest \<in> shapes" using inv r by (simp add: lock_inv_def)
      moreover have "rest \<noteq> [RUnlock]" using nr [of t'] r by (auto simp: reads_def)
      moreover have "rest \<noteq> [Unlock]" using one [of t'] r assms(2) stuck by (auto simp: writes_def)
      ultimately show ?thesis by (auto simp: shapes_def)
    qed
    ultimately show ?thesis by (auto simp: frozen_def)
  qed
  with as show ?thesis by blast
qed

text \<open>C28. Once a call of \<open>Save\<close> for a server has taken the store's lock, no call on the store that had not returned
  by then ever returns, whatever steps follow and whichever calls begin (a \<open>Save\<close> of nil apart, which takes no lock):
  \<open>Save\<close> looks for the fingerprint under the lock it holds itself, and the mutex is not reentrant.\<close>

theorem Save_blocks_the_store:
  assumes "lock_step\<^sup>*\<^sup>* lock_init st"
    and "ls_calls st t = Some (Call_Save (Some server), as)" and "as \<noteq> lock_actions (Call_Save (Some server))"
    and "lock_step\<^sup>*\<^sup>* st st'"
    and "ls_calls st' t' = Some (c, rest)" and "c \<noteq> Call_Save None" and "ls_calls st t' \<noteq> Some (c, [])"
  shows "rest \<noteq> []"
proof -
  from Save_stages [OF assms(1,2)] assms(3) have "frozen st" by blast
  from frozen_forever [OF assms(4) this] have le: "ls_calls st \<subseteq>\<^sub>m ls_calls st'"
    and new: "ls_calls st t' = None \<Longrightarrow> rest = lock_actions c" using assms(5) by blast+
  show ?thesis
  proof (cases "ls_calls st t'")
    case None
    with new assms(6) show ?thesis by (simp add: lock_actions_Nil)
  next
    case (Some x)
    with le have "ls_calls st' t' = Some x" by (metis domI map_le_def)
    with Some assms(5,7) show ?thesis by auto
  qed
qed

theorem Save_blocks_the_store_witness:
  "\<exists>st st'. lock_step\<^sup>*\<^sup>* lock_init st \<and> lock_step\<^sup>*\<^sup>* st st' \<and>
     snd (the (ls_calls st' 0)) \<noteq> [] \<and> snd (the (ls_calls st' 1)) \<noteq> []"
proof -
  let ?c = "Call_Save (Some ex_found)"
  let ?s1 = "lock_init\<lparr>ls_calls := [0 \<mapsto> (?c, lock_actions ?c)]\<rparr>"
  let ?s2 = "?s1\<lparr>ls_writer := True, ls_calls := [0 \<mapsto> (?c, [RLock, RUnlock, Unlock])]\<rparr>"
  let ?s3 = "?s2\<lparr>ls_calls := (ls_calls ?s2)(1 \<mapsto> (Call_GetAll, lock_actions Call_GetAll))\<rparr>"
  have 1: "lock_step lock_init ?s1"
    using lock_step.begin_call [of lock_init 0 ?c] by (simp add: lock_init_def)
  have 2: "lock_step ?s1 ?s2"
    using lock_step.lock [of ?s1 0 ?c "[RLock, RUnlock, Unlock]"] by (simp add: lock_init_def)
  have 3: "lock_step ?s2 ?s3"
    using lock_step.begin_call [of ?s2 1 Call_GetAll] by simp
  have r: "lock_step\<^sup>*\<^sup>* lock_init ?s2" "lock_step\<^sup>*\<^sup>* ?s2 ?s3" using 1 2 3 by auto
  have "[RLock, RUnlock, Unlock] \<noteq> []" 
    by (rule Save_blocks_the_store [OF r(1) _ _ r(2), of 0 ex_found "[RLock, RUnlock, Unlock]" 0 ?c]) simp_all
  moreover have "lock_actions Call_GetAll \<noteq> []"
    by (rule Save_blocks_the_store [OF r(1) _ _ r(2), of 0 ex_found "[RLock, RUnlock, Unlock]" 1 Call_GetAll]) simp_all
  ultimately show ?thesis using r by (intro exI [of _ ?s2] exI [of _ ?s3]) simp
qed

end
