(* ===== verification/ScanManager.thy ===== *)
theory ScanManager
  imports DiscoveryStore
begin

section \<open>Scan jobs\<close>

text \<open>
  \<open>pkg/scanner/scan_manager.go\<close>. A job is started by a request and run by a goroutine of its own, in
  two critical sections: one marks the job as running, the other, after the scan, stores its outcome;
  requests that list, cancel and clean up jobs come in between. The state holds the jobs and the
  goroutines that have not stored an outcome yet. A goroutine updates its job through a pointer;
  here it looks the job up, which is the same job as long as the job is in the map. What the
  network scanner returns for a job is an argument of the last section.
\<close>

abbreviation ScanStatusPending :: string where "ScanStatusPending \<equiv> ''pending''"
abbreviation ScanStatusRunning :: string where "ScanStatusRunning \<equiv> ''running''"
abbreviation ScanStatusCompleted :: string where "ScanStatusCompleted \<equiv> ''completed''"
abbreviation ScanStatusFailed :: string where "ScanStatusFailed \<equiv> ''failed''"
abbreviation ScanStatusCancelled :: string where "ScanStatusCancelled \<equiv> ''cancelled''"

record ScanJob =
  SJ_ID :: string
  SJ_Status :: string
  SJ_Config :: ScanConfig
  SJ_Results :: "DiscoveredServer list"
  SJ_Errors :: "error list"
  SJ_StartTime :: gotime
  SJ_EndTime :: "gotime option"
  SJ_Progress :: int
  SJ_Message :: string

text \<open>What is left of a goroutine \<open>runScan\<close>: all of it, or the part after the scan.\<close>

datatype goroutine = Queued | Scanning

record ScanManager =
  sm_jobs :: "string \<rightharpoonup> ScanJob"
  sm_nextJobID :: nat
  sm_running :: "string \<rightharpoonup> goroutine"

definition NewScanManager :: ScanManager where
  "NewScanManager = \<lparr>sm_jobs = Map.empty, sm_nextJobID = 1, sm_running = Map.empty\<rparr>"

definition job_ID :: "nat \<Rightarrow> string" where
  "job_ID n = ''scan-'' @ show_nat n"

definition StartScan :: "gotime \<Rightarrow> ScanConfig \<Rightarrow> ScanManager \<Rightarrow> ScanManager \<times> ScanJob" where
  "StartScan now config sm =
     (let jobID = job_ID (sm_nextJobID sm);
          job = \<lparr>SJ_ID = jobID, SJ_Status = ScanStatusPending, SJ_Config = config, SJ_Results = [],
                 SJ_Errors = [], SJ_StartTime = now, SJ_EndTime = None, SJ_Progress = 0,
                 SJ_Message = ''Scan queued''\<rparr>
      in (\<lparr>sm_jobs = (sm_jobs sm)(jobID \<mapsto> job), sm_nextJobID = sm_nextJobID sm + 1,
           sm_running = (sm_running sm)(jobID \<mapsto> Queued)\<rparr>, job))"

definition GetJob :: "string \<Rightarrow> ScanManager \<Rightarrow> ScanJob result" where
  "GetJob jobID sm =
     (case sm_jobs sm jobID of None \<Rightarrow> Inl (''scan job not found: '' @ jobID) | Some job \<Rightarrow> Inr job)"

definition ListJobs :: "string list \<Rightarrow> ScanManager \<Rightarrow> ScanJob list" where
  "ListJobs ks sm = range_values (sm_jobs sm) ks"

definition CancelJob :: "gotime \<Rightarrow> string \<Rightarrow> ScanManager \<Rightarrow> ScanManager \<times> error option" where
  "CancelJob now jobID sm =
     (case sm_jobs sm jobID of
        None \<Rightarrow> (sm, Some (''scan job not found: '' @ jobID))
      | Some job \<Rightarrow>
          (if SJ_Status job = ScanStatusRunning
           then sm\<lparr>sm_jobs := (sm_jobs sm)(jobID \<mapsto> job\<lparr>SJ_Status := ScanStatusCancelled,
                    SJ_Message := ''Scan cancelled by user'', SJ_EndTime := Some now\<rparr>)\<rparr>
           else sm, None))"

text \<open>The two critical sections of \<open>runScan\<close>.\<close>

definition runScan_begin :: "string \<Rightarrow> ScanManager \<Rightarrow> ScanManager" where
  "runScan_begin jobID sm =
     sm\<lparr>sm_jobs := (case sm_jobs sm jobID of
          None \<Rightarrow> sm_jobs sm
        | Some job \<Rightarrow> (sm_jobs sm)(jobID \<mapsto>
            job\<lparr>SJ_Status := ScanStatusRunning, SJ_Message := ''Scan in progress''\<rparr>)),
        sm_running := (sm_running sm)(jobID \<mapsto> Scanning)\<rparr>"

definition scan_outcome :: "gotime \<Rightarrow> DiscoveredServer list \<Rightarrow> error list \<Rightarrow> ScanJob \<Rightarrow> ScanJob" where
  "scan_outcome now results errors job =
     (let job1 = job\<lparr>SJ_EndTime := Some now, SJ_Results := results, SJ_Errors := errors, SJ_Progress := 1\<rparr> in
      if errors \<noteq> [] \<and> results = []
      then job1\<lparr>SJ_Status := ScanStatusFailed,
                SJ_Message := ''Scan failed with '' @ show_nat (length errors) @ '' errors''\<rparr>
      else job1\<lparr>SJ_Status := ScanStatusCompleted,
                SJ_Message := ''Scan completed: found '' @ show_nat (length results) @ '' servers''\<rparr>)"

definition runScan_finish ::
    "gotime \<Rightarrow> string \<Rightarrow> DiscoveredServer list \<Rightarrow> error list \<Rightarrow> ScanManager \<Rightarrow> ScanManager" where
  "runScan_finish now jobID results errors sm =
     sm\<lparr>sm_jobs := (case sm_jobs sm jobID of
          None \<Rightarrow> sm_jobs sm
        | Some job \<Rightarrow> (sm_jobs sm)(jobID \<mapsto> scan_outcome now results errors job)),
        sm_running := (sm_running sm)(jobID := None)\<rparr>"

text \<open>The copy of a result that \<open>runScan\<close> then saves in the store.\<close>

definition truncated :: "nat \<Rightarrow> 'a list option \<Rightarrow> 'a list option" where
  "truncated n xs = Some (take n (case xs of None \<Rightarrow> [] | Some ys \<Rightarrow> ys))"

definition safeServer :: "DiscoveredServer \<Rightarrow> DiscoveredServer" where
  "safeServer server = server\<lparr>DS_Tools := truncated 10 (DS_Tools server),
     DS_Resources := truncated 10 (DS_Resources server), DS_Prompts := truncated 5 (DS_Prompts server)\<rparr>"

definition CleanupOldJobs :: "gotime \<Rightarrow> string list \<Rightarrow> duration \<Rightarrow> ScanManager \<Rightarrow> ScanManager" where
  "CleanupOldJobs now ks maxAge sm =
     sm\<lparr>sm_jobs := range_delete (\<lambda>job.
          (SJ_Status job = ScanStatusCompleted \<or> SJ_Status job = ScanStatusFailed) \<and>
          (case SJ_EndTime job of None \<Rightarrow> False | Some t \<Rightarrow> t < now - maxAge)) ks (sm_jobs sm)\<rparr>"

subsection \<open>The steps of the manager\<close>

inductive scan_step :: "ScanManager \<Rightarrow> ScanManager \<Rightarrow> bool" where
  start: "scan_step sm (fst (StartScan now config sm))"
| cancel: "scan_step sm (fst (CancelJob now jobID sm))"
| cleanup: "range_order (sm_jobs sm) ks \<Longrightarrow> scan_step sm (CleanupOldJobs now ks maxAge sm)"
| run_begin: "sm_running sm jobID = Some Queued \<Longrightarrow> scan_step sm (runScan_begin jobID sm)"
| run_finish: "sm_running sm jobID = Some Scanning \<Longrightarrow>
    scan_step sm (runScan_finish now jobID results errors sm)"

abbreviation scan_reachable :: "ScanManager \<Rightarrow> bool" where
  "scan_reachable sm \<equiv> scan_step\<^sup>*\<^sup>* NewScanManager sm"

text \<open>The status of a job, by what its goroutine has still to do.\<close>

fun status_ok :: "goroutine option \<Rightarrow> string \<Rightarrow> bool" where
  "status_ok (Some Queued) s \<longleftrightarrow> s = ScanStatusPending"
| "status_ok (Some Scanning) s \<longleftrightarrow> s = ScanStatusRunning \<or> s = ScanStatusCancelled"
| "status_ok None s \<longleftrightarrow> s = ScanStatusCompleted \<or> s = ScanStatusFailed"

definition scan_inv :: "ScanManager \<Rightarrow> bool" where
  "scan_inv sm \<longleftrightarrow>
     (\<forall>jid job. sm_jobs sm jid = Some job \<longrightarrow>
        SJ_ID job = jid \<and> (\<exists>n < sm_nextJobID sm. jid = job_ID n) \<and> status_ok (sm_running sm jid) (SJ_Status job) \<and>
        (SJ_EndTime job = None \<longleftrightarrow> SJ_Status job = ScanStatusPending \<or> SJ_Status job = ScanStatusRunning)) \<and>
     dom (sm_running sm) \<subseteq> dom (sm_jobs sm)"

lemma job_ID_inj [simp]: "job_ID i = job_ID j \<longleftrightarrow> i = j"
  by (simp add: job_ID_def)

lemma scan_invD:
  assumes "scan_inv sm" and "sm_jobs sm jid = Some job"
  shows "SJ_ID job = jid" "\<exists>n < sm_nextJobID sm. jid = job_ID n" "status_ok (sm_running sm jid) (SJ_Status job)"
    "SJ_EndTime job = None \<longleftrightarrow> SJ_Status job = ScanStatusPending \<or> SJ_Status job = ScanStatusRunning"
  using assms by (simp_all add: scan_inv_def)

lemma running_has_job: "scan_inv sm \<Longrightarrow> sm_running sm jid = Some g \<Longrightarrow> \<exists>job. sm_jobs sm jid = Some job"
  by (auto simp: scan_inv_def)

text \<open>A new ID is the ID of no job.\<close>

lemma new_job_ID: "scan_inv sm \<Longrightarrow> sm_jobs sm (job_ID (sm_nextJobID sm)) = None"
  by (cases "sm_jobs sm (job_ID (sm_nextJobID sm))") (auto dest: scan_invD(2))

lemma status_scan_outcome: "SJ_Status (scan_outcome now results errors job) \<in> {ScanStatusCompleted, ScanStatusFailed}"
  by (simp add: scan_outcome_def Let_def)

lemma scan_outcome_simps [simp]:
  "SJ_ID (scan_outcome now results errors job) = SJ_ID job"
  "SJ_EndTime (scan_outcome now results errors job) = Some now"
  by (simp_all add: scan_outcome_def Let_def)

lemma scan_inv_update:
  assumes inv: "scan_inv sm" and job: "sm_jobs sm jid = Some job"
    and new: "SJ_ID job' = SJ_ID job" "status_ok g (SJ_Status job')"
      "SJ_EndTime job' = None \<longleftrightarrow> SJ_Status job' = ScanStatusPending \<or> SJ_Status job' = ScanStatusRunning"
  shows "scan_inv (sm\<lparr>sm_jobs := (sm_jobs sm)(jid \<mapsto> job'), sm_running := (sm_running sm)(jid := g)\<rparr>)"
proof -
  have "dom (sm_running sm) \<subseteq> dom (sm_jobs sm)" using inv by (simp add: scan_inv_def)
  then have "dom ((sm_running sm)(jid := g)) \<subseteq> dom ((sm_jobs sm)(jid \<mapsto> job'))" by auto
  then show ?thesis
    using scan_invD [OF inv] job new by (auto simp: scan_inv_def)
qed

lemma scan_inv_step:
  assumes "scan_step sm sm'" and "scan_inv sm"
  shows "scan_inv sm'"
  using assms
proof (induction rule: scan_step.induct)
  case (start sm now config)
  note D = scan_invD [OF start]
  have "\<exists>n < Suc (sm_nextJobID sm). jid = job_ID n" if "sm_jobs sm jid = Some job" for jid job
    using D(2) [OF that] less_SucI by blast
  then show ?case
    using start D(1,3,4) new_job_ID [OF start] by (auto simp: scan_inv_def StartScan_def Let_def)
next
  case (cancel sm now jobID)
  show ?case
  proof (cases "sm_jobs sm jobID")
    case (Some job)
    show ?thesis
    proof (cases "SJ_Status job = ScanStatusRunning")
      case True
      then have "sm_running sm jobID = Some Scanning"
        using scan_invD(3) [OF cancel Some] by (cases "(sm_running sm jobID, SJ_Status job)" rule: status_ok.cases) auto
      then show ?thesis
        using scan_inv_update [OF cancel Some, of "job\<lparr>SJ_Status := ScanStatusCancelled,
          SJ_Message := ''Scan cancelled by user'', SJ_EndTime := Some now\<rparr>" "Some Scanning"] Some True
        by (simp add: CancelJob_def fun_upd_idem)
    qed (use cancel Some in \<open>simp add: CancelJob_def\<close>)
  qed (use cancel in \<open>simp add: CancelJob_def\<close>)
next
  case (cleanup sm ks now maxAge)
  note D = scan_invD [OF cleanup(2)]
  let ?sm = "CleanupOldJobs now ks maxAge sm"
  have sub: "sm_jobs ?sm jid = Some job \<Longrightarrow> sm_jobs sm jid = Some job" for jid job
    by (simp add: CleanupOldJobs_def range_delete_eq [OF cleanup(1)])
  have keep: "\<exists>job. sm_jobs ?sm jid = Some job" if g: "sm_running sm jid = Some g" for jid g
  proof -
    from running_has_job [OF cleanup(2) g] obtain job where job: "sm_jobs sm jid = Some job" by blast
    from D(3) [OF job] g have "SJ_Status job \<noteq> ScanStatusCompleted" "SJ_Status job \<noteq> ScanStatusFailed"
      by (cases g; auto)+
    with job show ?thesis by (simp add: CleanupOldJobs_def range_delete_eq [OF cleanup(1)])
  qed
  have same: "sm_running ?sm = sm_running sm" "sm_nextJobID ?sm = sm_nextJobID sm"
    by (simp_all add: CleanupOldJobs_def)
  show ?case
    unfolding scan_inv_def same
    using D(1) [OF sub] D(2) [OF sub] D(3) [OF sub] D(4) [OF sub] keep by (simp add: subset_iff dom_def) blast
next
  case (run_begin sm jobID)
  then obtain job where "sm_jobs sm jobID = Some job" by (blast dest: running_has_job)
  with run_begin scan_invD(3,4) [OF run_begin(2) this] show ?case
    using scan_inv_update [OF run_begin(2), of jobID job "job\<lparr>SJ_Status := ScanStatusRunning, SJ_Message := ''Scan in progress''\<rparr>" "Some Scanning"]
    by (simp add: runScan_begin_def)
next
  case (run_finish sm jobID now results errors)
  then obtain job where "sm_jobs sm jobID = Some job" by (blast dest: running_has_job)
  with run_finish status_scan_outcome [of now results errors job] show ?case
    using scan_inv_update [OF run_finish(2), of jobID job "scan_outcome now results errors job" None]
    by (auto simp: runScan_finish_def)
qed


lemma scan_inv_reachable: "scan_reachable sm \<Longrightarrow> scan_inv sm"
proof (induction rule: rtranclp_induct)
  case base
  then show ?case by (simp add: scan_inv_def NewScanManager_def)
next
  case (step sm1 sm2)
  then show ?case using scan_inv_step by blast
qed

lemma GetJob_iff: "GetJob jobID sm = Inr job \<longleftrightarrow> sm_jobs sm jobID = Some job"
  by (simp add: GetJob_def split: option.splits)

text \<open>C24. In every reachable state a job is found under its own ID, has an end time unless it is pending or running,
  and is completed or failed exactly when its goroutine has stored an outcome.\<close>

theorem jobs_follow_their_scans:
  assumes "scan_reachable sm" and "GetJob jobID sm = Inr job"
  shows "SJ_ID job = jobID \<and>
    (SJ_EndTime job = None \<longleftrightarrow> SJ_Status job = ScanStatusPending \<or> SJ_Status job = ScanStatusRunning) \<and>
    (SJ_Status job = ScanStatusCompleted \<or> SJ_Status job = ScanStatusFailed \<longleftrightarrow> sm_running sm jobID = None)"
  using scan_invD [OF scan_inv_reachable [OF assms(1)], of jobID job] assms(2)
  by (cases "(sm_running sm jobID, SJ_Status job)" rule: status_ok.cases) (auto simp: GetJob_iff)

definition ex_config :: ScanConfig where
  "ex_config = \<lparr>SCfg_ScanRanges = [''10.0.0.1''], SCfg_Ports = [''8000''], SCfg_Timeout = [],
     SCfg_MaxConcurrent = 1, SCfg_ExcludeProxy = None, SCfg_ExcludeAddresses = []\<rparr>"

definition ex_scan :: ScanManager where
  "ex_scan = runScan_begin ''scan-1'' (fst (StartScan 5 ex_config NewScanManager))"

definition ex_cancelled :: ScanManager where
  "ex_cancelled = fst (CancelJob 6 ''scan-1'' ex_scan)"

lemma job_ID_1: "job_ID 1 = ''scan-1''"
  by code_simp

lemma ex_scan_reachable: "scan_reachable ex_scan" "scan_reachable ex_cancelled"
proof -
  have "scan_step NewScanManager (fst (StartScan 5 ex_config NewScanManager))" by (rule scan_step.start)
  moreover have "scan_step (fst (StartScan 5 ex_config NewScanManager)) ex_scan"
    unfolding ex_scan_def
    by (rule scan_step.run_begin) (simp add: StartScan_def NewScanManager_def Let_def job_ID_1 [simplified])
  ultimately show 1: "scan_reachable ex_scan" by auto
  have "scan_step ex_scan ex_cancelled" unfolding ex_cancelled_def by (rule scan_step.cancel)
  with 1 show "scan_reachable ex_cancelled" by auto
qed

theorem jobs_follow_their_scans_witness:
  "\<exists>job. GetJob ''scan-1'' ex_scan = Inr job \<and> SJ_EndTime job = None"
proof -
  obtain job where j: "GetJob ''scan-1'' ex_scan = Inr job" "SJ_Status job = ScanStatusRunning"
    by (simp add: GetJob_def ex_scan_def runScan_begin_def StartScan_def NewScanManager_def Let_def job_ID_1 [simplified])
  with jobs_follow_their_scans [OF ex_scan_reachable(1) j(1)] show ?thesis by blast
qed

text \<open>Cancelling a job does not stop its scan: whatever the scan of a cancelled job then returns is stored as the
  job's results, and the job's status becomes completed (or failed) again.\<close>

theorem cancelled_scan_completes:
  assumes "scan_reachable sm" and "GetJob jobID sm = Inr job" and "SJ_Status job = ScanStatusCancelled"
  shows "scan_step sm (runScan_finish now jobID results errors sm) \<and>
    (\<exists>job'. GetJob jobID (runScan_finish now jobID results errors sm) = Inr job' \<and> SJ_Results job' = results \<and>
       SJ_Status job' = (if errors \<noteq> [] \<and> results = [] then ScanStatusFailed else ScanStatusCompleted))"
proof -
  have "status_ok (sm_running sm jobID) ScanStatusCancelled"
    using scan_invD(3) [OF scan_inv_reachable [OF assms(1)], of jobID job] assms(2,3) by (simp add: GetJob_iff)
  then have "sm_running sm jobID = Some Scanning"
    by (cases "(sm_running sm jobID, ScanStatusCancelled)" rule: status_ok.cases) auto
  then have "scan_step sm (runScan_finish now jobID results errors sm)" by (rule scan_step.run_finish)
  moreover have "GetJob jobID (runScan_finish now jobID results errors sm) = Inr (scan_outcome now results errors job)"
    using assms(2) by (simp add: GetJob_iff runScan_finish_def)
  ultimately show ?thesis by (simp add: scan_outcome_def Let_def)
qed

theorem cancelled_scan_completes_witness:
  "\<exists>job'. GetJob ''scan-1'' (runScan_finish 9 ''scan-1'' [] [] ex_cancelled) = Inr job' \<and>
     SJ_Status job' = ScanStatusCompleted"
proof -
  obtain job where j: "GetJob ''scan-1'' ex_cancelled = Inr job" "SJ_Status job = ScanStatusCancelled"
    by (simp add: GetJob_def ex_cancelled_def CancelJob_def ex_scan_def runScan_begin_def StartScan_def NewScanManager_def
        Let_def job_ID_1 [simplified])
  show ?thesis
    using cancelled_scan_completes [OF ex_scan_reachable(2) j, of 9 "[]" "[]"] by auto
qed

end
