(* ===== verification/MCPClient.thy ===== *)
theory MCPClient
  imports Models
begin

section \<open>The interrogation of an MCP server\<close>

text \<open>
  The client of \<open>pkg/mcp/client.go\<close>, which asks a discovered server for its capabilities, tools,
  resources and prompts. What the network answers is the function \<open>do\<close>, of the URL, the message and the
  session ID that the client has; what \<open>json.Unmarshal\<close> makes of a body is in the record \<open>json_env\<close>,
  one decoder for each type of response. The messages themselves are constants and are named by
  \<open>mcp_message\<close>.
\<close>

datatype mcp_message = Msg_initialize | Msg_initialized | Msg_tools | Msg_resources | Msg_prompts

record http_response =
  HR_StatusCode :: int
  HR_Header :: "string \<Rightarrow> string"
  HR_Body :: "string result"

text \<open>A request cannot be made, fails, or is answered.\<close>

datatype http_outcome = No_request error | No_response error | Response http_response

type_synonym http_do = "string \<Rightarrow> mcp_message \<Rightarrow> string \<Rightarrow> http_outcome"

record InitializeResponse =
  IR_Capabilities :: "string \<rightharpoonup> any"
  IR_ProtocolVersion :: string
  IR_ServerName :: string
  IR_ServerVersion :: string
  IR_Error :: "(int \<times> string) option"

record json_env =
  je_initialize :: "string \<Rightarrow> InitializeResponse result"
  je_tools :: "string \<Rightarrow> (McpTool list \<times> string option) result"
  je_resources :: "string \<Rightarrow> (McpResource list \<times> string option) result"
  je_prompts :: "string \<Rightarrow> (McpPrompt list \<times> string option) result"

text \<open>\<open>NewClient\<close>: the base URL without a trailing slash, and no session. (The timeout is left to \<open>do\<close>.)\<close>

record Client =
  Cl_baseURL :: string
  Cl_sessionID :: string

definition NewClient :: "string \<Rightarrow> Client" where
  "NewClient baseURL = \<lparr>Cl_baseURL = TrimSuffix baseURL ''/'', Cl_sessionID = []\<rparr>"

subsection \<open>Authentication\<close>

definition no_auth :: "string \<Rightarrow> string \<Rightarrow> AuthAnalysis" where
  "no_auth t confidence = \<lparr>AA_Required = False, AA_Type = t, AA_DetectedMechanisms = [],
     AA_Vulnerabilities = [], AA_Confidence = confidence\<rparr>"

definition analyzeHTTPResponse :: "http_response \<Rightarrow> AuthAnalysis" where
  "analyzeHTTPResponse resp =
     (let analysis = no_auth ''none'' ''high'' in
      if HR_StatusCode resp = 401 \<or> HR_StatusCode resp = 403 then
        (let authHeader = ToLower (HR_Header resp ''WWW-Authenticate'');
             a1 = analysis\<lparr>AA_Required := True, AA_Vulnerabilities := [''authentication_required'']\<rparr>;
             a2 = (if Contains authHeader ''basic''
                   then a1\<lparr>AA_Type := ''basic'', AA_DetectedMechanisms := [''basic'']\<rparr>
                   else if Contains authHeader ''bearer''
                   then a1\<lparr>AA_Type := ''bearer'', AA_DetectedMechanisms := [''bearer'']\<rparr>
                   else a1);
             a3 = (if HR_Header resp ''X-API-Key'' \<noteq> []
                   then a2\<lparr>AA_Type := (if AA_Type a2 = ''none'' then ''apikey'' else AA_Type a2),
                           AA_DetectedMechanisms := AA_DetectedMechanisms a2 @ [''api_key'']\<rparr>
                   else a2)
         in if HR_Header resp ''Authorization'' \<noteq> []
            then a3\<lparr>AA_Type := (if AA_Type a3 = ''none'' then ''bearer'' else AA_Type a3),
                    AA_DetectedMechanisms := AA_DetectedMechanisms a3 @ [''bearer'']\<rparr>
            else a3)
      else analysis)"

definition contains_any :: "string \<Rightarrow> string list \<Rightarrow> bool" where
  "contains_any s subs = list_ex (\<lambda>sub. Contains s sub) subs"

definition analyzeMCPError :: "int \<times> string \<Rightarrow> AuthAnalysis" where
  "analyzeMCPError mcpError =
     (let a0 = no_auth ''missing'' ''medium'';
          a1 = (if fst mcpError = -32602 \<or> fst mcpError = -32000
                then a0\<lparr>AA_Required := True, AA_Vulnerabilities := [''authentication_required'']\<rparr> else a0);
          msg = ToLower (snd mcpError);
          a2 = (if contains_any msg [''auth'', ''token'', ''credential'', ''unauthorized'']
                then a1\<lparr>AA_Required := True, AA_Type := ''bearer'',
                        AA_DetectedMechanisms := AA_DetectedMechanisms a1 @ [''bearer'']\<rparr> else a1)
      in if contains_any msg [''api_key'', ''api-key'', ''api key'']
         then a2\<lparr>AA_Required := True, AA_Type := ''missing'',
                 AA_DetectedMechanisms := AA_DetectedMechanisms a2 @ [''api_key''],
                 AA_Vulnerabilities := AA_Vulnerabilities a2 @ [''missing_api_key'']\<rparr>
         else a2)"

definition analyzeNonJSONResponse :: "string \<Rightarrow> AuthAnalysis" where
  "analyzeNonJSONResponse bodyStr =
     (let a0 = no_auth ''missing'' ''low''; bodyLower = ToLower bodyStr;
          a1 = (if contains_any bodyLower [''unauthorized'', ''401'']
                then a0\<lparr>AA_Required := True, AA_Type := ''missing'',
                        AA_Vulnerabilities := AA_Vulnerabilities a0 @ [''authentication_required'']\<rparr> else a0);
          a2 = (if contains_any bodyLower [''forbidden'', ''403'']
                then a1\<lparr>AA_Required := True, AA_Type := ''missing'',
                        AA_Vulnerabilities := AA_Vulnerabilities a1 @ [''access_forbidden'']\<rparr> else a1)
      in if contains_any bodyLower [''api_key'', ''api-key'']
         then a2\<lparr>AA_Required := True, AA_Type := ''missing'',
                 AA_DetectedMechanisms := AA_DetectedMechanisms a2 @ [''api_key''],
                 AA_Vulnerabilities := AA_Vulnerabilities a2 @ [''missing_api_key'']\<rparr>
         else a2)"

subsection \<open>Requests\<close>

text \<open>The loop over the endpoints. Only an answer outside of 200 to 599 or none at all leads to the next one.\<close>

fun try_endpoints ::
    "http_do \<Rightarrow> Client \<Rightarrow> mcp_message \<Rightarrow> string list \<Rightarrow> http_response option \<Rightarrow> error option \<Rightarrow>
     http_response option \<times> AuthAnalysis option \<times> error option" where
  "try_endpoints do c msg [] lastResp lastErr =
     (lastResp, map_option analyzeHTTPResponse lastResp, lastErr)"
| "try_endpoints do c msg (endpoint # endpoints) lastResp lastErr =
     (let url = Cl_baseURL c @ endpoint in
      case do url msg (Cl_sessionID c) of
        No_request e \<Rightarrow> try_endpoints do c msg endpoints lastResp (Some (''failed to create request: '' @ e))
      | No_response e \<Rightarrow> try_endpoints do c msg endpoints lastResp (Some (''request failed: '' @ e))
      | Response resp \<Rightarrow>
          if 200 \<le> HR_StatusCode resp \<and> HR_StatusCode resp < 600
          then (Some resp, Some (analyzeHTTPResponse resp), None)
          else try_endpoints do c msg endpoints (Some resp)
                 (Some (''HTTP '' @ show_int (HR_StatusCode resp) @ '' from '' @ url)))"

definition makeMCPRequest ::
    "http_do \<Rightarrow> Client \<Rightarrow> mcp_message \<Rightarrow> http_response option \<times> AuthAnalysis option \<times> error option" where
  "makeMCPRequest do c msg = try_endpoints do c msg [''/mcp'', ''/''] None None"

definition sse_data :: "string \<Rightarrow> string option" where
  "sse_data bodyStr =
     (case filter (\<lambda>line. HasPrefix line ''data: '') (map TrimSpace (Split bodyStr (CHR 0x0A))) of
        [] \<Rightarrow> None | line # _ \<Rightarrow> Some (TrimPrefix line ''data: ''))"

definition extractJSONFromResponse :: "string \<Rightarrow> string result" where
  "extractJSONFromResponse bodyStr =
     (if Contains bodyStr ''event:'' \<and> Contains bodyStr ''data: '' then
        (case sse_data bodyStr of
           None \<Rightarrow> Inl ''no JSON data found in SSE response'' | Some jsonData \<Rightarrow> Inr jsonData)
      else Inr bodyStr)"

subsection \<open>Initialization\<close>

definition has_capability :: "(string \<rightharpoonup> any) \<Rightarrow> string \<Rightarrow> bool" where
  "has_capability m k = (case m k of None \<Rightarrow> False | Some Nil_value \<Rightarrow> False | Some _ \<Rightarrow> True)"

definition init_capabilities :: "InitializeResponse \<Rightarrow> McpCapabilities" where
  "init_capabilities r = (let m = IR_Capabilities r in
     \<lparr>McC_Tools = has_capability m ''tools'', McC_Prompts = has_capability m ''prompts'',
      McC_Resources = has_capability m ''resources'', McC_Logging = has_capability m ''logging'',
      McC_Completions = has_capability m ''completions'', McC_Experimental = has_capability m ''experimental''\<rparr>)"

definition init_serverInfo :: "InitializeResponse \<Rightarrow> (string \<rightharpoonup> any) \<Rightarrow> MCPServerInfo" where
  "init_serverInfo r m = \<lparr>MSI_Name = IR_ServerName r, MSI_Version = IR_ServerVersion r,
     MSI_Protocol = IR_ProtocolVersion r, MSI_Capabilities = m\<rparr>"

type_synonym init_result = "(McpCapabilities \<times> MCPServerInfo) result \<times> AuthAnalysis option"

definition handleSSEResponse :: "json_env \<Rightarrow> string \<Rightarrow> init_result" where
  "handleSSEResponse J bodyStr =
     (case sse_data bodyStr of
        None \<Rightarrow> (Inl ''no JSON data found in SSE response'', Some (no_auth ''none'' ''low''))
      | Some jsonData \<Rightarrow>
          if jsonData = [] then (Inl ''no JSON data found in SSE response'', Some (no_auth ''none'' ''low''))
          else case je_initialize J jsonData of
            Inl e \<Rightarrow> (Inl (''failed to unmarshal SSE JSON data: '' @ e @ ''. Data: '' @ take 500 jsonData),
                      Some (no_auth ''none'' ''low''))
          | Inr initResp \<Rightarrow>
              (case IR_Error initResp of
                 Some err \<Rightarrow> (Inl (''MCP initialize error: '' @ snd err), Some (analyzeMCPError err))
               | None \<Rightarrow> (Inr (init_capabilities initResp, init_serverInfo initResp (IR_Capabilities initResp)),
                          Some (no_auth ''none'' ''low''))))"

definition capability_map :: "McpCapabilities \<Rightarrow> (string \<rightharpoonup> any)" where
  "capability_map c = [''tools'' \<mapsto> Bool_value (McC_Tools c), ''prompts'' \<mapsto> Bool_value (McC_Prompts c),
     ''resources'' \<mapsto> Bool_value (McC_Resources c), ''logging'' \<mapsto> Bool_value (McC_Logging c),
     ''completions'' \<mapsto> Bool_value (McC_Completions c), ''experimental'' \<mapsto> Bool_value (McC_Experimental c)]"

definition initialize_body :: "json_env \<Rightarrow> string \<Rightarrow> AuthAnalysis option \<Rightarrow> init_result" where
  "initialize_body J bodyStr authAnalysis =
     (if Contains bodyStr ''event:'' \<and> Contains bodyStr ''data:'' then handleSSEResponse J bodyStr
      else if \<not> HasPrefix (TrimSpace bodyStr) ''{'' then
        (Inl (''non-JSON response received - server may not be MCP compatible: '' @ take 200 bodyStr),
         Some (analyzeNonJSONResponse bodyStr))
      else case je_initialize J bodyStr of
        Inl e \<Rightarrow> (Inl (''failed to unmarshal initialize response: '' @ e @ ''. Response: '' @ take 500 bodyStr),
                  authAnalysis)
      | Inr initResp \<Rightarrow>
          (case IR_Error initResp of
             Some err \<Rightarrow> (Inl (''MCP initialize error: '' @ snd err), Some (analyzeMCPError err))
           | None \<Rightarrow> (let capabilities = init_capabilities initResp in
               (Inr (capabilities, init_serverInfo initResp (capability_map capabilities)), authAnalysis))))"

text \<open>The client keeps the session ID of the response. Without an error there is a response.\<close>

definition initialize :: "http_do \<Rightarrow> json_env \<Rightarrow> Client \<Rightarrow> Client \<times> init_result" where
  "initialize do J c =
     (case makeMCPRequest do c Msg_initialize of
        (_, authAnalysis, Some err) \<Rightarrow> (c, Inl err, authAnalysis)
      | (None, authAnalysis, None) \<Rightarrow> (c, Inl [], authAnalysis)
      | (Some resp, authAnalysis, None) \<Rightarrow>
          (let sid = HR_Header resp ''Mcp-Session-Id'';
               c' = (if sid \<noteq> [] then c\<lparr>Cl_sessionID := sid\<rparr> else c) in
           case HR_Body resp of
             Inl e \<Rightarrow> (c', Inl (''failed to read response: '' @ e), authAnalysis)
           | Inr bodyStr \<Rightarrow> (c', initialize_body J bodyStr authAnalysis)))"

subsection \<open>The lists\<close>

text \<open>\<open>listTools\<close>, \<open>listResources\<close> and \<open>listPrompts\<close> differ in the message, the decoder, the name in their errors
  and the number of entries they keep.\<close>

definition list_entries ::
    "mcp_message \<Rightarrow> (string \<Rightarrow> ('a list \<times> string option) result) \<Rightarrow> string \<Rightarrow> nat \<Rightarrow> http_do \<Rightarrow> Client \<Rightarrow>
     'a list result" where
  "list_entries msg decode name maxEntries do c =
     (case makeMCPRequest do c msg of
        (_, _, Some err) \<Rightarrow> Inl err
      | (None, _, None) \<Rightarrow> Inl []
      | (Some resp, _, None) \<Rightarrow>
          (case HR_Body resp of
             Inl e \<Rightarrow> Inl (''failed to read '' @ name @ '' response: '' @ e)
           | Inr body \<Rightarrow>
               (case extractJSONFromResponse body of
                  Inl e \<Rightarrow> Inl (''failed to extract JSON from '' @ name @ '' response: '' @ e)
                | Inr bodyStr \<Rightarrow>
                    if \<not> HasPrefix (TrimSpace bodyStr) ''{''
                    then Inl (''non-JSON response for '' @ name @ '' list: '' @ take 200 bodyStr)
                    else case decode bodyStr of
                      Inl e \<Rightarrow> Inl (''failed to unmarshal '' @ name @ '' response: '' @ e @ ''. Response: '' @ take 300 bodyStr)
                    | Inr (_, Some message) \<Rightarrow> Inl (name @ '' list error: '' @ message)
                    | Inr (entries, None) \<Rightarrow> Inr (take maxEntries entries))))"

definition listTools :: "http_do \<Rightarrow> json_env \<Rightarrow> Client \<Rightarrow> McpTool list result" where
  "listTools do J c = list_entries Msg_tools (je_tools J) ''tools'' 100 do c"

definition listResources :: "http_do \<Rightarrow> json_env \<Rightarrow> Client \<Rightarrow> McpResource list result" where
  "listResources do J c = list_entries Msg_resources (je_resources J) ''resources'' 100 do c"

definition listPrompts :: "http_do \<Rightarrow> json_env \<Rightarrow> Client \<Rightarrow> McpPrompt list result" where
  "listPrompts do J c = list_entries Msg_prompts (je_prompts J) ''prompts'' 50 do c"

text \<open>A list that cannot be had is empty. \<open>sendInitialized\<close> changes nothing in the client, and its error is only
  logged.\<close>

definition list_or_empty :: "bool \<Rightarrow> 'a list result \<Rightarrow> 'a list" where
  "list_or_empty supported r = (if supported then (case r of Inl _ \<Rightarrow> [] | Inr xs \<Rightarrow> xs) else [])"

definition InterrogateServer ::
    "http_do \<Rightarrow> json_env \<Rightarrow> Client \<Rightarrow>
     Client \<times> (McpCapabilities \<times> MCPServerInfo \<times> McpTool list \<times> McpResource list \<times> McpPrompt list) result \<times>
       AuthAnalysis option" where
  "InterrogateServer do J c =
     (case initialize do J c of
        (c', Inl err, authAnalysis) \<Rightarrow> (c', Inl err, authAnalysis)
      | (c', Inr (capabilities, serverInfo), authAnalysis) \<Rightarrow>
          (c', Inr (capabilities, serverInfo,
             list_or_empty (McC_Tools capabilities) (listTools do J c'),
             list_or_empty (McC_Resources capabilities) (listResources do J c'),
             list_or_empty (McC_Prompts capabilities) (listPrompts do J c')), authAnalysis))"

subsection \<open>Validation\<close>

definition ValidateCapabilities ::
    "McpCapabilities \<Rightarrow> McpTool list \<Rightarrow> McpResource list \<Rightarrow> McpPrompt list \<Rightarrow> CapabilityValidation" where
  "ValidateCapabilities capabilities tools resources prompts =
     (let bad_schemas = map (\<lambda>tool. ''tool '' @ [CHR 0x27] @ McT_Name tool @ [CHR 0x27] @ '' missing input schema'')
            (filter (\<lambda>tool. McT_InputSchema tool = None) tools);
          bad_args = map (\<lambda>arg. ''required prompt argument '' @ [CHR 0x27] @ McA_Name arg @ [CHR 0x27] @
              '' missing description'')
            (filter (\<lambda>arg. McA_Required arg \<and> McA_Description arg = []) (concat (map McP_Arguments prompts)));
          no_tools = McC_Tools capabilities \<and> tools = [];
          no_resources = McC_Resources capabilities \<and> resources = [];
          no_prompts = McC_Prompts capabilities \<and> prompts = []
      in \<lparr>CV_ToolsValid = (\<not> no_tools \<and> bad_schemas = []), CV_ResourcesValid = (\<not> no_resources),
          CV_PromptsValid = (\<not> no_prompts \<and> bad_args = []),
          CV_Issues =
            (if no_tools then [''server claims to support tools but returned empty list''] else []) @
            (if no_resources then [''server claims to support resources but returned empty list''] else []) @
            (if no_prompts then [''server claims to support prompts but returned empty list''] else []) @
            bad_schemas @ bad_args\<rparr>)"

end
