(* ===== verification/NetworkScanner.thy ===== *)
theory NetworkScanner
  imports ScanTargets ScanManager MCPClient
begin

section \<open>The network scanner\<close>

text \<open>
  \<open>pkg/scanner/network_scanner.go\<close>: how a response is recognized as an MCP server's, how a server is
  interrogated, and what a whole scan returns. The network is a pair of functions: \<open>probe\<close> gives the
  response to the scanner's own request to a URL, \<open>do\<close> those to the client's (theory \<open>MCPClient\<close>).
  \<open>unmarshal_object\<close> decodes a JSON object, \<open>None\<close> on an error; \<open>J\<close> decodes the client's responses.
\<close>

subsection \<open>The scan cache\<close>

record ScanCache =
  sc_scannedAddresses :: "string \<rightharpoonup> gotime"
  sc_maxAge :: duration

definition NewScanCache :: "duration \<Rightarrow> ScanCache" where
  "NewScanCache maxAge = \<lparr>sc_scannedAddresses = Map.empty, sc_maxAge = maxAge\<rparr>"

definition IsRecentlyScanned :: "gotime \<Rightarrow> string \<Rightarrow> ScanCache \<Rightarrow> bool" where
  "IsRecentlyScanned now address sc =
     (case sc_scannedAddresses sc address of None \<Rightarrow> False | Some t \<Rightarrow> now - t < sc_maxAge sc)"

definition MarkScanned :: "gotime \<Rightarrow> string \<Rightarrow> ScanCache \<Rightarrow> ScanCache" where
  "MarkScanned now address sc = sc\<lparr>sc_scannedAddresses := (sc_scannedAddresses sc)(address \<mapsto> now)\<rparr>"

definition ScanCache_Cleanup :: "gotime \<Rightarrow> string list \<Rightarrow> ScanCache \<Rightarrow> ScanCache" where
  "ScanCache_Cleanup now ks sc =
     sc\<lparr>sc_scannedAddresses := range_delete (\<lambda>t. t < now - sc_maxAge sc) ks (sc_scannedAddresses sc)\<rparr>"

subsection \<open>Recognizing a server\<close>

definition truncateString :: "string \<Rightarrow> nat \<Rightarrow> string" where
  "truncateString s maxLen = (if length s \<le> maxLen then s else take maxLen s)"

abbreviation field :: "(string \<rightharpoonup> any) \<Rightarrow> string \<Rightarrow> any" where
  "field m k \<equiv> (case m k of None \<Rightarrow> Nil_value | Some v \<Rightarrow> v)"

text \<open>The object in a response: of the first event whose data decodes, or the body itself. Without any event that
  does, it stays nil, which reads like an empty map.\<close>

fun first_object :: "(string \<Rightarrow> (string \<rightharpoonup> any) option) \<Rightarrow> string list \<Rightarrow> (string \<rightharpoonup> any)" where
  "first_object unmarshal_object [] = Map.empty"
| "first_object unmarshal_object (line # lines) =
     (if HasPrefix line ''data: '' then
        (case unmarshal_object (TrimPrefix line ''data: '') of
           None \<Rightarrow> first_object unmarshal_object lines | Some m \<Rightarrow> m)
      else first_object unmarshal_object lines)"

definition response_object :: "(string \<Rightarrow> (string \<rightharpoonup> any) option) \<Rightarrow> string \<Rightarrow> (string \<rightharpoonup> any) option" where
  "response_object unmarshal_object bodyStr =
     (if Contains bodyStr ''event: message'' \<and> Contains bodyStr ''data: ''
      then Some (first_object unmarshal_object (Split bodyStr (CHR 0x0A)))
      else unmarshal_object bodyStr)"

text \<open>What an answer to \<open>initialize\<close> says of the server: its information, how it authenticates and the score. The
  strings are empty when the code does not set them.\<close>

definition assess_error :: "int \<Rightarrow> (string \<rightharpoonup> any) \<Rightarrow> string \<times> string" where
  "assess_error status err =
     (let errorCode = (case any_float (field err ''code'') of None \<Rightarrow> 0 | Some x \<Rightarrow> int_of_float x);
          errorMessage = ToLower (case any_string (field err ''message'') of None \<Rightarrow> [] | Some s \<Rightarrow> s)
      in if status = 401 \<or> status = 403 then (''required'', ''low'')
         else if errorCode = -32600 \<and> Contains errorMessage ''not acceptable'' then (''none'', ''high'')
         else if errorCode = -32600 \<and> Contains errorMessage ''missing session id''
         then (''session_required'', ''medium'')
         else if errorCode = -32602 then (''protocol_mismatch'', ''medium'')
         else (''unknown'', ''medium''))"

definition assess_response ::
    "int \<Rightarrow> (string \<rightharpoonup> any) \<Rightarrow> (string \<rightharpoonup> any) option \<times> string \<times> string" where
  "assess_response status jsonResponse =
     (case any_map (field jsonResponse ''result'') of
        Some result \<Rightarrow>
          (case any_map (field result ''serverInfo'') of
             Some server \<Rightarrow> (Some server, ''none'', ''high'') | None \<Rightarrow> (None, [], []))
      | None \<Rightarrow>
          (case any_map (field jsonResponse ''error'') of
             Some err \<Rightarrow>
               (case any_map (field err ''data'') of
                  Some data \<Rightarrow> any_map (field data ''serverInfo'') | None \<Rightarrow> None,
                assess_error status err)
           | None \<Rightarrow> (None, [], [])))"

definition serverID :: "string \<Rightarrow> string \<Rightarrow> string" where
  "serverID address endpoint =
     ''mcp-'' @ ReplaceAll address '':'' ''-'' @ ''-'' @ ReplaceAll endpoint ''/'' ''-''"

definition found_server ::
    "gotime \<Rightarrow> string \<Rightarrow> string \<Rightarrow> string \<Rightarrow> (string \<rightharpoonup> string) \<Rightarrow> string \<Rightarrow> DiscoveredServer" where
  "found_server now address endpoint name metadata score = zero_DiscoveredServer
     \<lparr>DS_ID := serverID address endpoint, DS_Address := ''http://'' @ address, DS_Protocol := ServerProtocolMCP,
      DS_Connection := ConnectionTypeStreamableHttp, DS_Status := ''discovered'', DS_LastSeen := now,
      DS_Name := name, DS_Metadata := Some metadata, DS_VulnerabilityScore := score\<rparr>"

definition server_metadata :: "string \<Rightarrow> string \<Rightarrow> string \<Rightarrow> string \<Rightarrow> string \<Rightarrow> (string \<rightharpoonup> string)" where
  "server_metadata portStr endpoint serverName authType score =
     [''port'' \<mapsto> portStr, ''endpoint'' \<mapsto> endpoint, ''server_name'' \<mapsto> serverName,
      ''auth_type'' \<mapsto> authType, ''vulnerability_score'' \<mapsto> score]"

definition parse_jsonrpc ::
    "(string \<Rightarrow> (string \<rightharpoonup> any) option) \<Rightarrow> gotime \<Rightarrow> http_response \<Rightarrow> string \<Rightarrow> string \<Rightarrow> string \<Rightarrow> string \<Rightarrow>
     DiscoveredServer option" where
  "parse_jsonrpc unmarshal_object now resp bodyStr address portStr endpoint =
     (case response_object unmarshal_object bodyStr of
        None \<Rightarrow> None
      | Some jsonResponse \<Rightarrow>
          if any_string (field jsonResponse ''jsonrpc'') \<noteq> Some ''2.0'' then None
          else (let (serverInfo, authType, score) = assess_response (HR_StatusCode resp) jsonResponse in
            if serverInfo \<noteq> None \<or> has_capability jsonResponse ''result'' \<or> has_capability jsonResponse ''error''
            then (let serverName = (case Option.bind serverInfo (\<lambda>si. any_string (field si ''name'')) of
                        None \<Rightarrow> ''Unknown MCP Server'' | Some name \<Rightarrow> name)
              in Some (found_server now address endpoint
                   (if serverName \<noteq> ''Unknown MCP Server'' then serverName else [])
                   ((server_metadata portStr endpoint serverName authType score)
                      (''sse_supported'' \<mapsto> show_bool (HR_Header resp ''Content-Type'' = ''text/event-stream'')))
                   score))
            else None))"

definition parse_client_error ::
    "(string \<Rightarrow> (string \<rightharpoonup> any) option) \<Rightarrow> gotime \<Rightarrow> http_response \<Rightarrow> string \<Rightarrow> string \<Rightarrow> string \<Rightarrow> string \<Rightarrow>
     DiscoveredServer option" where
  "parse_client_error unmarshal_object now resp bodyStr address portStr endpoint =
     (let status = HR_StatusCode resp in
      case unmarshal_object bodyStr of
        Some errorResponse \<Rightarrow>
          (if errorResponse ''error'' \<noteq> None then
             (let (authType, score, serverName) =
                (if status = 401 \<or> status = 403 then (''required'', ''low'', ''Unknown MCP Server (Auth Required)'')
                 else if status = 400
                 then (''protocol_mismatch'', ''medium'', ''Unknown MCP Server (Protocol Error)'')
                 else (''unknown'', ''medium'', ''Unknown MCP Server (Auth Required)''))
              in Some (found_server now address endpoint serverName
                   ((server_metadata portStr endpoint serverName authType score)
                      (''http_status'' \<mapsto> show_int status)) score))
           else None)
      | None \<Rightarrow>
          (if contains_any (ToLower bodyStr) [''mcp'', ''jsonrpc'', ''protocol''] \<or> status = 405
           then Some (found_server now address endpoint ''Unknown MCP Server (Error Response)''
                  ((server_metadata portStr endpoint ''Unknown MCP Server (Error Response)'' ''unknown'' ''medium'')
                     (''http_status'' \<mapsto> show_int status, ''error_response'' \<mapsto> truncateString bodyStr 200))
                  ''medium'')
           else None))"

definition parseMCPResponse ::
    "(string \<Rightarrow> (string \<rightharpoonup> any) option) \<Rightarrow> gotime \<Rightarrow> http_response \<Rightarrow> string \<Rightarrow> string \<Rightarrow> string \<Rightarrow> string \<Rightarrow>
     DiscoveredServer option" where
  "parseMCPResponse unmarshal_object now resp bodyStr address portStr endpoint =
     (if Contains bodyStr (Quote ''jsonrpc'')
      then parse_jsonrpc unmarshal_object now resp bodyStr address portStr endpoint
      else if 400 \<le> HR_StatusCode resp \<and> HR_StatusCode resp < 500 \<and> endpoint = ''/mcp''
      then parse_client_error unmarshal_object now resp bodyStr address portStr endpoint
      else None)"

definition isMCPServerResponse :: "http_response \<Rightarrow> bool" where
  "isMCPServerResponse resp =
     (if HR_StatusCode resp < 200 \<or> HR_StatusCode resp \<ge> 300 then False
      else Contains (HR_Header resp ''Content-Type'') ''application/json'' \<or>
           HR_Header resp ''X-MCP-Protocol'' \<noteq> [] \<or>
           HR_Header resp ''Content-Type'' = ''text/event-stream'')"

definition detectProtocol :: "http_response \<Rightarrow> string" where
  "detectProtocol resp =
     (let contentType = HR_Header resp ''Content-Type'' in
      if contentType = ''text/event-stream'' then ''sse''
      else if Contains contentType ''application/json'' then ''http'' else ''unknown'')"

subsection \<open>Interrogating a server\<close>

definition raise_score :: "string \<Rightarrow> string" where
  "raise_score s = (if s = ''low'' then ''medium'' else if s = ''medium'' then ''high'' else s)"

definition auth_score :: "AuthAnalysis \<Rightarrow> string" where
  "auth_score a = (if AA_Required a then ''low'' else ''high'')"

definition performDeepInterrogation :: "http_do \<Rightarrow> json_env \<Rightarrow> gotime \<Rightarrow> DiscoveredServer \<Rightarrow> DiscoveredServer" where
  "performDeepInterrogation do J now server =
     (let metadata = (case DS_Metadata server of None \<Rightarrow> Map.empty | Some m \<Rightarrow> m) in
      case InterrogateServer do J (NewClient (DS_Address server)) of
        (_, Inl err, authAnalysis) \<Rightarrow>
          (let server1 = server\<lparr>DS_LastDeepScan := Some now,
                 DS_Metadata := Some (metadata(''deep_scan_error'' \<mapsto> err, ''deep_scan_status'' \<mapsto> ''failed''))\<rparr>
           in case authAnalysis of
                None \<Rightarrow> server1
              | Some a \<Rightarrow> server1\<lparr>DS_AuthInfo := Some a, DS_VulnerabilityScore := auth_score a\<rparr>)
      | (_, Inr (capabilities, serverInfo, tools, resources, prompts), authAnalysis) \<Rightarrow>
          (let validation = ValidateCapabilities capabilities tools resources prompts;
               metadata1 = metadata(''deep_scan_status'' \<mapsto> ''success'',
                 ''capability_validation'' \<mapsto> ''tools:'' @ show_bool (CV_ToolsValid validation) @
                    '',resources:'' @ show_bool (CV_ResourcesValid validation) @
                    '',prompts:'' @ show_bool (CV_PromptsValid validation));
               issues = length (CV_Issues validation);
               score = (case authAnalysis of None \<Rightarrow> ''medium'' | Some a \<Rightarrow> auth_score a)
           in server\<lparr>DS_Capabilities := Some capabilities, DS_Tools := Some tools, DS_Resources := Some resources,
                DS_Prompts := Some prompts, DS_ResourceTemplates := [], DS_AuthInfo := authAnalysis,
                DS_LastDeepScan := Some now,
                DS_Metadata := Some (if issues > 0
                  then metadata1(''validation_issues'' \<mapsto> show_nat issues @ '' issues found'') else metadata1),
                DS_ServerVersion := MSI_Version serverInfo, DS_ProtocolVersion := MSI_Protocol serverInfo,
                DS_VulnerabilityScore :=
                  (if \<not> CV_ToolsValid validation \<or> \<not> CV_ResourcesValid validation \<or> \<not> CV_PromptsValid validation
                   then raise_score score else score)\<rparr>))"

text \<open>\<open>detectMCPServer\<close> sends each server it finds to the results itself, and always returns an error, so that its
  caller never sends one. The list is what it sends.\<close>

record network =
  net_probe :: "string \<Rightarrow> http_response option"
  net_do :: http_do
  net_json :: json_env
  net_unmarshal :: "string \<Rightarrow> (string \<rightharpoonup> any) option"

definition probe_endpoint :: "network \<Rightarrow> gotime \<Rightarrow> string \<Rightarrow> int \<Rightarrow> string \<Rightarrow> DiscoveredServer option" where
  "probe_endpoint net now ip port endpoint =
     (let address = ip @ '':'' @ show_int port in
      case net_probe net (''http://'' @ address @ endpoint) of
        None \<Rightarrow> None
      | Some resp \<Rightarrow>
          (case HR_Body resp of
             Inl _ \<Rightarrow> None
           | Inr body \<Rightarrow>
               map_option (performDeepInterrogation (net_do net) (net_json net) now)
                 (parseMCPResponse (net_unmarshal net) now resp body address (show_int port) endpoint)))"

definition detectMCPServer :: "network \<Rightarrow> gotime \<Rightarrow> string \<Rightarrow> int \<Rightarrow> DiscoveredServer list" where
  "detectMCPServer net now ip port = List.map_filter (probe_endpoint net now ip port) [''/mcp'', ''/'']"

subsection \<open>A scan\<close>

text \<open>A scan returns its results and errors, panics, or does not return.\<close>

datatype scan_run = Scan_returns "DiscoveredServer list" "error list" | Scan_panics | Scan_hangs

text \<open>The ranges, with the errors of those that cannot be parsed; \<open>None\<close> when one does not end. The errors are sent
  to a channel that holds 100 and is read only afterwards.\<close>

fun expand_ranges :: "string list \<Rightarrow> (string list \<times> error list) option" where
  "expand_ranges [] = Some ([], [])"
| "expand_ranges (scanRange # ranges) =
     (case expandIPRange scanRange of
        None \<Rightarrow> None
      | Some r \<Rightarrow> map_option (\<lambda>(ips, errors).
          (case r of
             Inl e \<Rightarrow> (ips, (''failed to parse IP range '' @ scanRange @ '': '' @ e) # errors)
           | Inr ips' \<Rightarrow> (ips' @ ips, errors))) (expand_ranges ranges))"

text \<open>The targets for which a goroutine is started. Whether an earlier goroutine for the same address has marked it
  as scanned by then is up to the scheduler: \<open>race i\<close> says so for the pair with number \<open>i\<close>.\<close>

definition scan_pairs :: "ScanConfig \<Rightarrow> string list \<Rightarrow> int list \<Rightarrow> (string \<times> int) list" where
  "scan_pairs cfg ips ports =
     filter (\<lambda>(ip, port). \<not> shouldExcludeAddress (SCfg_ExcludeAddresses cfg) ip) (List.product ips ports)"

fun scan_targets :: "(nat \<Rightarrow> bool) \<Rightarrow> nat \<Rightarrow> (string \<times> int) set \<Rightarrow> (string \<times> int) list \<Rightarrow> (string \<times> int) list" where
  "scan_targets race i started [] = []"
| "scan_targets race i started (p # ps) =
     (if p \<in> started \<and> race i then scan_targets race (Suc i) started ps
      else p # scan_targets race (Suc i) (insert p started) ps)"

text \<open>A scan by a new scanner, whose cache is empty. A semaphore of capacity 0 admits no goroutine. (The results come
  in the order of the goroutines; here in the order of the targets.)\<close>

definition Scan :: "network \<Rightarrow> gotime \<Rightarrow> (nat \<Rightarrow> bool) \<Rightarrow> ScanConfig \<Rightarrow> scan_run" where
  "Scan net now race cfg =
     (case expandPorts (SCfg_Ports cfg) of
        Inl e \<Rightarrow> Scan_returns [] []
      | Inr ports \<Rightarrow>
          if SCfg_MaxConcurrent cfg < 0 then Scan_panics
          else case expand_ranges (SCfg_ScanRanges cfg) of
            None \<Rightarrow> Scan_hangs
          | Some (ips, errors) \<Rightarrow>
              (let targets = scan_targets race 0 {} (scan_pairs cfg ips ports) in
               if length errors > 100 \<or> (SCfg_MaxConcurrent cfg = 0 \<and> targets \<noteq> []) then Scan_hangs
               else Scan_returns (concat (map (\<lambda>(ip, port). detectMCPServer net now ip port) targets)) errors))"

text \<open>\<open>discoveredServers\<close> collects the results of the scanner's scans.\<close>

definition GetDiscoveredServer :: "DiscoveredServer list \<Rightarrow> string \<Rightarrow> DiscoveredServer option" where
  "GetDiscoveredServer discoveredServers sid = find (\<lambda>server. DS_ID server = sid) discoveredServers"

definition GetAllDiscoveredServers :: "DiscoveredServer list \<Rightarrow> DiscoveredServer list" where
  "GetAllDiscoveredServers discoveredServers = discoveredServers"

subsection \<open>Lemmas\<close>

lemma found_server_simps [simp]:
  "DS_VulnerabilityScore (found_server now address endpoint name metadata score) = score"
  "DS_Address (found_server now address endpoint name metadata score) = ''http://'' @ address"
  "DS_Tools (found_server now address endpoint name metadata score) = None"
  "DS_Resources (found_server now address endpoint name metadata score) = None"
  "DS_Prompts (found_server now address endpoint name metadata score) = None"
  by (simp_all add: found_server_def zero_DiscoveredServer_def)

text \<open>Whatever is recognized is a server of \<open>found_server\<close>, with the score low only for 401 and 403.\<close>

lemma parseMCPResponse_cases:
  assumes "parseMCPResponse U now resp body address portStr endpoint = Some server"
  obtains name metadata score where "server = found_server now address endpoint name metadata score"
    "score = ''low'' \<Longrightarrow> HR_StatusCode resp = 401 \<or> HR_StatusCode resp = 403"
proof -
  have assess: "score = ''low'' \<Longrightarrow> HR_StatusCode resp = 401 \<or> HR_StatusCode resp = 403"
    if "assess_response (HR_StatusCode resp) m = (si, kind, score)" for m si kind score
    using that by (auto simp: assess_response_def assess_error_def Let_def split: option.splits if_splits)
  show thesis
  proof (cases "Contains body (Quote ''jsonrpc'')")
    case True
    with assms have p: "parse_jsonrpc U now resp body address portStr endpoint = Some server"
      by (simp add: parseMCPResponse_def)
    then obtain m where m: "response_object U body = Some m" by (auto simp: parse_jsonrpc_def split: option.splits)
    obtain si kind score where a: "assess_response (HR_StatusCode resp) m = (si, kind, score)"
      by (metis prod_cases3)
    from p m a obtain name metadata where "server = found_server now address endpoint name metadata score"
      by (auto simp: parse_jsonrpc_def Let_def split: if_splits)
    then show thesis using assess [OF a] by (rule that)
  next
    case False
    with assms have p: "parse_client_error U now resp body address portStr endpoint = Some server"
      by (simp add: parseMCPResponse_def split: if_splits)
    show thesis
    proof (cases "U body")
      case None
      with p show thesis by (auto simp: parse_client_error_def Let_def split: if_splits intro!: that)
    next
      case (Some m)
      with p show thesis by (auto simp: parse_client_error_def Let_def split: if_splits intro!: that)
    qed
  qed
qed

lemma list_entries_bound: "list_entries msg decode name n do c = Inr xs \<Longrightarrow> length xs \<le> n"
  by (auto simp: list_entries_def split: prod.splits sum.splits if_splits option.splits)

lemma list_or_empty_bound: "(\<And>xs. r = Inr xs \<Longrightarrow> length xs \<le> n) \<Longrightarrow> length (list_or_empty b r) \<le> n"
  by (simp add: list_or_empty_def split: sum.splits)

lemma InterrogateServer_bounds:
  assumes "InterrogateServer do J c = (c', Inr (capabilities, serverInfo, tools, resources, prompts), auth)"
  shows "length tools \<le> 100" "length resources \<le> 100" "length prompts \<le> 50"
proof -
  from assms obtain b1 b2 b3 where
    "tools = list_or_empty b1 (listTools do J c')" "resources = list_or_empty b2 (listResources do J c')"
    "prompts = list_or_empty b3 (listPrompts do J c')"
    by (auto simp: InterrogateServer_def split: prod.splits sum.splits)
  then show "length tools \<le> 100" "length resources \<le> 100" "length prompts \<le> 50"
    by (auto simp: listTools_def listResources_def listPrompts_def intro: list_or_empty_bound list_entries_bound)
qed

lemma raise_score_not_low: "raise_score s \<noteq> ''low''"
  by (simp add: raise_score_def)

lemma auth_score_low: "auth_score a = ''low'' \<longleftrightarrow> AA_Required a"
  by (simp add: auth_score_def)

text \<open>What the interrogation leaves: the score of the detection, or one that its analysis justifies.\<close>

lemma performDeepInterrogation_score:
  assumes "DS_VulnerabilityScore (performDeepInterrogation do J now server) = ''low''"
  shows "DS_VulnerabilityScore server = ''low'' \<or>
    (\<exists>a. DS_AuthInfo (performDeepInterrogation do J now server) = Some a \<and> AA_Required a)"
proof -
  obtain c r auth where I: "InterrogateServer do J (NewClient (DS_Address server)) = (c, r, auth)"
    by (metis prod_cases3)
  show ?thesis
  proof (cases r)
    case (Inl err)
    with I assms show ?thesis
      by (cases auth) (simp_all add: performDeepInterrogation_def auth_score_low)
  next
    case (Inr x)
    obtain cap si tools res pr where x: "x = (cap, si, tools, res, pr)" by (metis prod_cases5)
    from I Inr x assms show ?thesis
      by (cases auth) (auto simp: performDeepInterrogation_def Let_def auth_score_low raise_score_not_low split: if_splits)
  qed
qed

lemma performDeepInterrogation_Address [simp]:
  "DS_Address (performDeepInterrogation do J now server) = DS_Address server"
  by (auto simp: performDeepInterrogation_def Let_def split: prod.splits sum.splits option.splits)

lemma detectMCPServer_iff:
  "server \<in> set (detectMCPServer net now ip port) \<longleftrightarrow>
    (\<exists>endpoint \<in> {''/mcp'', ''/''}. probe_endpoint net now ip port endpoint = Some server)"
  by (auto simp: detectMCPServer_def List.map_filter_def)

lemma probe_endpoint_cases:
  assumes "probe_endpoint net now ip port endpoint = Some server"
  obtains resp body found where
    "net_probe net (''http://'' @ ip @ '':'' @ show_int port @ endpoint) = Some resp" "HR_Body resp = Inr body"
    "parseMCPResponse (net_unmarshal net) now resp body (ip @ '':'' @ show_int port) (show_int port) endpoint = Some found"
    "server = performDeepInterrogation (net_do net) (net_json net) now found"
  using assms by (auto simp: probe_endpoint_def Let_def split: option.splits sum.splits)

text \<open>A server that a scan scores as low risk asks for authentication: the scanner's own request to one of its
  endpoints was answered with 401 or 403, or the interrogation found that authentication is required.\<close>

theorem low_score_needs_auth:
  assumes "server \<in> set (detectMCPServer net now ip port)" and "DS_VulnerabilityScore server = ''low''"
  shows "(\<exists>endpoint \<in> {''/mcp'', ''/''}. \<exists>resp.
      net_probe net (''http://'' @ ip @ '':'' @ show_int port @ endpoint) = Some resp \<and>
      (HR_StatusCode resp = 401 \<or> HR_StatusCode resp = 403)) \<or>
    (\<exists>a. DS_AuthInfo server = Some a \<and> AA_Required a)"
proof -
  from assms(1) obtain endpoint where e: "endpoint \<in> {''/mcp'', ''/''}"
    and p: "probe_endpoint net now ip port endpoint = Some server" by (auto simp: detectMCPServer_iff)
  from p show ?thesis
  proof (cases rule: probe_endpoint_cases)
    case (1 resp body found)
    from 1(3) show ?thesis
    proof (cases rule: parseMCPResponse_cases)
      case (1 name metadata score)
      with performDeepInterrogation_score [of "net_do net" "net_json net" now found] assms(2) e
        \<open>net_probe net _ = Some resp\<close> \<open>server = _\<close>
      show ?thesis by auto
    qed
  qed
qed

text \<open>Of what a server returns, the record of a detected server keeps at most 100 tools, 100 resources and 50
  prompts.\<close>

theorem detected_server_bounded:
  assumes "server \<in> set (detectMCPServer net now ip port)"
  shows "(case DS_Tools server of None \<Rightarrow> True | Some ts \<Rightarrow> length ts \<le> 100) \<and>
    (case DS_Resources server of None \<Rightarrow> True | Some rs \<Rightarrow> length rs \<le> 100) \<and>
    (case DS_Prompts server of None \<Rightarrow> True | Some ps \<Rightarrow> length ps \<le> 50)"
proof -
  from assms obtain endpoint where "probe_endpoint net now ip port endpoint = Some server"
    by (auto simp: detectMCPServer_iff)
  then show ?thesis
  proof (cases rule: probe_endpoint_cases)
    case (1 resp body found)
    have none: "DS_Tools found = None" "DS_Resources found = None" "DS_Prompts found = None"
      using 1(3) by (auto elim!: parseMCPResponse_cases)
    show ?thesis
      unfolding 1(4) performDeepInterrogation_def Let_def
      using InterrogateServer_bounds [of "net_do net" "net_json net" "NewClient (DS_Address found)"] none
      by (auto split: prod.splits sum.splits option.splits)
  qed
qed

lemma set_scan_targets: "set (scan_targets race i started ps) \<subseteq> set ps"
  by (induction ps arbitrary: i started) (auto split: if_splits)

text \<open>Whatever the scheduler does, every target is scanned, at least once.\<close>

lemma scan_targets_complete: "p \<in> set ps \<Longrightarrow> p \<in> started \<or> p \<in> set (scan_targets race i started ps)"
proof (induction ps arbitrary: i started)
  case (Cons q ps)
  show ?case
  proof (cases "p = q")
    case False
    with Cons have "p \<in> started' \<or> p \<in> set (scan_targets race (Suc i) started' ps)" for started' by simp
    from this [of started] this [of "insert q started"] False show ?thesis by auto
  qed auto
qed simp


text \<open>A scan whose ports cannot be parsed contacts nobody, and its error is lost: the scan returns without results
  and without errors, and its job is reported as completed.\<close>

theorem bad_ports_reported_completed:
  assumes "expandPorts (SCfg_Ports cfg) = Inl e"
  shows "\<exists>results errors. Scan net now race cfg = Scan_returns results errors \<and> results = [] \<and>
    SJ_Errors (scan_outcome t results errors job) = [] \<and>
    SJ_Status (scan_outcome t results errors job) = ScanStatusCompleted"
  using assms by (simp add: Scan_def scan_outcome_def)

definition ex_network :: network where
  "ex_network = \<lparr>net_probe = (\<lambda>url. if url = ''http://10.0.0.1:7/mcp''
       then Some \<lparr>HR_StatusCode = 401, HR_Header = (\<lambda>k. []), HR_Body = Inr ''denied''\<rparr> else None),
     net_do = (\<lambda>url msg sid. No_response ''refused''),
     net_json = \<lparr>je_initialize = (\<lambda>s. Inl []), je_tools = (\<lambda>s. Inl []), je_resources = (\<lambda>s. Inl []), je_prompts = (\<lambda>s. Inl [])\<rparr>,
     net_unmarshal = (\<lambda>s. Some [''error'' \<mapsto> String_value s])\<rparr>"

lemma ex_net_detect: "map DS_VulnerabilityScore (detectMCPServer ex_network 0 ''10.0.0.1'' 7) = [''low'']"
  by code_simp

theorem low_score_needs_auth_witness:
  "\<exists>server \<in> set (detectMCPServer ex_network 0 ''10.0.0.1'' 7).
     (\<exists>endpoint \<in> {''/mcp'', ''/''}. \<exists>resp.
        net_probe ex_network (''http://'' @ ''10.0.0.1'' @ '':'' @ show_int 7 @ endpoint) = Some resp \<and>
        (HR_StatusCode resp = 401 \<or> HR_StatusCode resp = 403)) \<or>
     (\<exists>a. DS_AuthInfo server = Some a \<and> AA_Required a)"
proof -
  obtain server where s: "server \<in> set (detectMCPServer ex_network 0 ''10.0.0.1'' 7)"
    "DS_VulnerabilityScore server = ''low''"
    using ex_net_detect by auto
  from low_score_needs_auth [OF s] s(1) show ?thesis by blast
qed

theorem detected_server_bounded_witness:
  "\<exists>server \<in> set (detectMCPServer ex_network 0 ''10.0.0.1'' 7).
    (case DS_Tools server of None \<Rightarrow> True | Some ts \<Rightarrow> length ts \<le> 100)"
proof -
  obtain server where s: "server \<in> set (detectMCPServer ex_network 0 ''10.0.0.1'' 7)"
    using ex_net_detect by auto
  from detected_server_bounded [OF s] s show ?thesis by blast
qed

definition ex_scan_config :: ScanConfig where
  "ex_scan_config = \<lparr>SCfg_ScanRanges = [''10.0.0.1''], SCfg_Ports = [''7''], SCfg_Timeout = [],
     SCfg_MaxConcurrent = 1, SCfg_ExcludeProxy = None, SCfg_ExcludeAddresses = [''10.0.0.9'']\<rparr>"

lemma ex_scan_config_targets: "expandPorts (SCfg_Ports ex_scan_config) = Inr [7]"
  "expand_ranges (SCfg_ScanRanges ex_scan_config) = Some ([''10.0.0.1''], [])"
  by (code_simp, code_simp)


theorem bad_ports_reported_completed_witness:
  "\<forall>job. \<exists>results errors.
     Scan ex_network 0 (\<lambda>i. True) (ex_scan_config\<lparr>SCfg_Ports := [''9-8'']\<rparr>) = Scan_returns results errors \<and>
     results = [] \<and> SJ_Status (scan_outcome 0 results errors job) = ScanStatusCompleted"
proof -
  have "expandPorts (SCfg_Ports (ex_scan_config\<lparr>SCfg_Ports := [''9-8'']\<rparr>)) = Inl ''invalid port range: start > end''"
    by code_simp
  from bad_ports_reported_completed [OF this, of ex_network 0 "\<lambda>i. True" 0] show ?thesis by auto
qed

end
