(* ===== verification/TokenManager.thy ===== *)
theory TokenManager
  imports Models GoHttp
begin

section \<open>Tokens\<close>

text \<open>
  \<open>pkg/auth/token_manager.go\<close> and the OAuth middleware of \<open>pkg/auth/middleware.go\<close>. Bearer tokens
  are JSON web tokens signed with the manager's key; signing and parsing are the library
  \<open>golang-jwt\<close>, the record \<open>jwt\<close>, and \<open>jwt_ok\<close> states what the code relies on: parsing a token before it expires
  gives back the claims that were signed, as JSON has them, and parsing it later fails. Refresh tokens
  are not signed; they are base64 text.
\<close>

subsection \<open>Web tokens\<close>

type_synonym claims = "string \<rightharpoonup> any"

record jwt =
  jwt_sign :: "claims \<Rightarrow> string result"
  jwt_parse :: "gotime \<Rightarrow> string \<Rightarrow> claims result"

text \<open>Claims after a pass through JSON: numbers are floats.\<close>

definition json_value :: "any \<Rightarrow> any" where
  "json_value v = (case v of Int_value i \<Rightarrow> Float64 (of_int i) | _ \<Rightarrow> v)"

definition json_claims :: "claims \<Rightarrow> claims" where
  "json_claims m = (\<lambda>k. map_option json_value (m k))"

definition Unix :: "gotime \<Rightarrow> int" where
  "Unix t = t div second"

definition jwt_ok :: "jwt \<Rightarrow> bool" where
  "jwt_ok J \<longleftrightarrow> (\<forall>c s e now. jwt_sign J c = Inr s \<longrightarrow> c ''exp'' = Some (Int_value e) \<longrightarrow>
     (if now < e * second then jwt_parse J now s = Inr (json_claims c) else \<not> is_ok (jwt_parse J now s)))"

record AuthTokenInfo =
  ATI_TokenID :: string
  ATI_AccessToken :: string
  ATI_TokenType :: string
  ATI_ExpiresAt :: gotime
  ATI_IssuedAt :: gotime
  ATI_RefreshToken :: string
  ATI_Scope :: string
  ATI_Audience :: string
  ATI_Issuer :: string
  ATI_Subject :: string

definition bearer_claims :: "string \<Rightarrow> string \<Rightarrow> string \<Rightarrow> string \<Rightarrow> gotime \<Rightarrow> gotime \<Rightarrow> claims" where
  "bearer_claims tokenID adapterName audience issuer now expiresAt =
     [''jti'' \<mapsto> String_value tokenID, ''sub'' \<mapsto> String_value adapterName, ''aud'' \<mapsto> String_value audience,
      ''iss'' \<mapsto> String_value issuer, ''iat'' \<mapsto> Int_value (Unix now), ''exp'' \<mapsto> Int_value (Unix expiresAt),
      ''scope'' \<mapsto> String_value ''mcp:read mcp:write'', ''token_use'' \<mapsto> String_value ''access'']"

text \<open>\<open>tokenID\<close> is what \<open>generateTokenID\<close> draws.\<close>

definition GenerateBearerToken ::
    "jwt \<Rightarrow> string \<Rightarrow> gotime \<Rightarrow> string \<Rightarrow> string \<Rightarrow> string \<Rightarrow> int \<Rightarrow> AuthTokenInfo result" where
  "GenerateBearerToken J issuer now tokenID adapterName audience expiresInHours =
     (let hours = (if expiresInHours \<le> 0 then 24 else expiresInHours);
          expiresAt = now + hours * hour in
      case jwt_sign J (bearer_claims tokenID adapterName audience issuer now expiresAt) of
        Inl e \<Rightarrow> Inl (''failed to sign JWT token: '' @ e)
      | Inr signedToken \<Rightarrow> Inr
          \<lparr>ATI_TokenID = tokenID, ATI_AccessToken = signedToken, ATI_TokenType = ''Bearer'',
           ATI_ExpiresAt = expiresAt, ATI_IssuedAt = now, ATI_RefreshToken = [],
           ATI_Scope = ''mcp:read mcp:write'', ATI_Audience = audience, ATI_Issuer = issuer,
           ATI_Subject = adapterName\<rparr>)"

definition CreateTokenForAdapter ::
    "jwt \<Rightarrow> string \<Rightarrow> gotime \<Rightarrow> string \<Rightarrow> string \<Rightarrow> DiscoveredServer \<Rightarrow> AuthTokenInfo result" where
  "CreateTokenForAdapter J issuer now tokenID adapterName server =
     (let audience = ''http://localhost:8911/api/v1/adapters/'' @ adapterName;
          expiresInHours = (if DS_VulnerabilityScore server = ''high'' then 12 else 24) in
      case GenerateBearerToken J issuer now tokenID adapterName audience expiresInHours of
        Inl e \<Rightarrow> Inl e
      | Inr tokenInfo \<Rightarrow> Inr (tokenInfo\<lparr>ATI_Scope := ''mcp:read mcp:write server:'' @ DS_ID server @
          '' risk:'' @ DS_VulnerabilityScore server\<rparr>))"

definition getStringClaim :: "claims \<Rightarrow> string \<Rightarrow> string" where
  "getStringClaim c k = (case Option.bind (c k) any_string of None \<Rightarrow> [] | Some s \<Rightarrow> s)"

definition float_claim :: "claims \<Rightarrow> string \<Rightarrow> int option" where
  "float_claim c k = map_option int_of_float (Option.bind (c k) any_float)"

text \<open>\<open>now\<close> is the clock of the whole validation. A time that a claim does not give is zero.\<close>

definition ValidateToken :: "jwt \<Rightarrow> gotime \<Rightarrow> string \<Rightarrow> string \<Rightarrow> AuthTokenInfo result" where
  "ValidateToken J now tokenString expectedAudience =
     (case jwt_parse J now tokenString of
        Inl e \<Rightarrow> Inl (''failed to parse token: '' @ e)
      | Inr c \<Rightarrow>
          (case float_claim c ''exp'' of
             None \<Rightarrow> Inl ''missing expiration claim''
           | Some e \<Rightarrow>
               if Unix now > e then Inl ''token has expired''
               else (case Option.bind (c ''aud'') any_string of
                 None \<Rightarrow> Inl ''missing audience claim''
               | Some aud \<Rightarrow>
                   if aud \<noteq> expectedAudience
                   then Inl (''invalid audience: expected '' @ expectedAudience @ '', got '' @ aud)
                   else Inr
                     \<lparr>ATI_TokenID = getStringClaim c ''jti'', ATI_AccessToken = tokenString,
                      ATI_TokenType = ''Bearer'', ATI_ExpiresAt = e * second,
                      ATI_IssuedAt = (case float_claim c ''iat'' of None \<Rightarrow> 0 | Some i \<Rightarrow> i * second),
                      ATI_RefreshToken = [], ATI_Scope = getStringClaim c ''scope'',
                      ATI_Audience = getStringClaim c ''aud'', ATI_Issuer = getStringClaim c ''iss'',
                      ATI_Subject = getStringClaim c ''sub''\<rparr>)))"

text \<open>Refresh tokens. \<open>bytes\<close> are the random bytes drawn.\<close>

definition GenerateRefreshToken :: "gotime \<Rightarrow> string \<Rightarrow> string \<Rightarrow> string" where
  "GenerateRefreshToken now bytes adapterName =
     b64_encode (adapterName @ '':'' @ show_int (Unix now) @ '':'' @ b64_encode bytes)"

text \<open>\<open>fmt.Sscanf(s, "%d", \<dots>)\<close>: spaces, a sign, and digits; what follows them is ignored. A number outside of 64 bits
  is an error.\<close>

definition Sscanf_d :: "string \<Rightarrow> int option" where
  "Sscanf_d s =
     (let s1 = dropWhile is_space s; neg = HasPrefix s1 ''-'';
          s2 = (if neg \<or> HasPrefix s1 ''+'' then drop 1 s1 else s1);
          ds = takeWhile is_digit s2 in
      if ds = [] then None
      else case Atoi ((if neg then ''-'' else []) @ ds) of Inl _ \<Rightarrow> None | Inr i \<Rightarrow> Some i)"

text \<open>The sum is one of 64-bit integers.\<close>

definition wrap64 :: "int \<Rightarrow> int" where
  "wrap64 i = (i + 2 ^ 63) mod 2 ^ 64 - 2 ^ 63"

definition ValidateRefreshToken :: "gotime \<Rightarrow> string \<Rightarrow> string result" where
  "ValidateRefreshToken now refreshToken =
     (case b64_decode refreshToken of
        None \<Rightarrow> Inl ''invalid refresh token format''
      | Some data \<Rightarrow>
          (case Split data CHR '':'' of
             [adapterName, timestampStr, _] \<Rightarrow>
               (case Sscanf_d timestampStr of
                  None \<Rightarrow> Inl ''invalid refresh token timestamp''
                | Some timestamp \<Rightarrow>
                    if Unix now > wrap64 (timestamp + 30 * 24 * 60 * 60) then Inl ''refresh token has expired''
                    else Inr adapterName)
           | _ \<Rightarrow> Inl ''invalid refresh token structure''))"

definition ExtractTokenFromHeader :: "string \<Rightarrow> string result" where
  "ExtractTokenFromHeader authHeader =
     (if authHeader = [] then Inl ''missing authorization header''
      else case SplitN2 authHeader CHR '' '' of
        [p, q] \<Rightarrow>
          (let scheme = ToLower p in
           if scheme \<noteq> ''bearer'' then Inl (''unsupported authorization scheme: '' @ scheme)
           else let token = TrimSpace q in
             if token = [] then Inl ''empty token'' else Inr token)
      | _ \<Rightarrow> Inl ''invalid authorization header format'')"

subsection \<open>The OAuth middleware\<close>

text \<open>A middleware lets the request pass, as some user, or answers it.\<close>

datatype 'u pass = Pass 'u | Abort int string

definition OAuth_validateToken :: "string \<Rightarrow> string result" where
  "OAuth_validateToken tokenString =
     (if tokenString = [] then Inl ''empty token'' else Inr ''authenticated-user'')"

definition OAuthMiddleware :: "bool \<Rightarrow> string \<Rightarrow> string pass" where
  "OAuthMiddleware required authHeader =
     (if authHeader = [] then
        (if required then Abort 401 ''Authorization required'' else Pass ''anonymous'')
      else if HasPrefix authHeader ''Bearer '' \<and> is_ok (OAuth_validateToken (TrimPrefix authHeader ''Bearer ''))
      then Pass ''authenticated-user''
      else if required then Abort 401 ''Invalid token''
      else Pass ''anonymous'')"

subsection \<open>Lemmas\<close>

lemma jwt_okD:
  assumes "jwt_ok J" and "jwt_sign J c = Inr s" and "c ''exp'' = Some (Int_value e)"
  shows "now < e * second \<Longrightarrow> jwt_parse J now s = Inr (json_claims c)"
    and "\<not> now < e * second \<Longrightarrow> \<exists>err. jwt_parse J now s = Inl err"
proof -
  have "if now < e * second then jwt_parse J now s = Inr (json_claims c) else \<not> is_ok (jwt_parse J now s)"
    using assms unfolding jwt_ok_def by blast
  then show "now < e * second \<Longrightarrow> jwt_parse J now s = Inr (json_claims c)"
    and "\<not> now < e * second \<Longrightarrow> \<exists>err. jwt_parse J now s = Inl err"
    by (auto simp: is_ok_def split: sum.splits)
qed

lemma int_of_float_of_int [simp]: "int_of_float (of_int i) = i"
  by (simp add: int_of_float_def)

lemma GenerateBearerToken_ok:
  assumes "GenerateBearerToken J issuer now tokenID adapterName audience hours = Inr ti"
  obtains expiresAt where "ATI_ExpiresAt ti = expiresAt"
    "jwt_sign J (bearer_claims tokenID adapterName audience issuer now expiresAt) = Inr (ATI_AccessToken ti)"
  using assms by (auto simp: GenerateBearerToken_def Let_def split: sum.splits)

lemma bearer_claims_simps [simp]:
  "bearer_claims j s a i now x ''exp'' = Some (Int_value (Unix x))"
  "json_claims (bearer_claims j s a i now x) ''exp'' = Some (Float64 (of_int (Unix x)))"
  "json_claims (bearer_claims j s a i now x) ''aud'' = Some (String_value a)"
  "json_claims (bearer_claims j s a i now x) ''sub'' = Some (String_value s)"
  by (simp_all add: bearer_claims_def json_claims_def json_value_def)


definition ex_claims :: claims where
  "ex_claims = bearer_claims ''t1'' ''weather'' ''http://a'' ''mcp-gateway'' 0 (0 + 24 * hour)"

definition ex_jwt :: jwt where
  "ex_jwt = \<lparr>jwt_sign = (\<lambda>c. if c = ex_claims then Inr ''tok'' else Inl ''unsupported''),
     jwt_parse = (\<lambda>now s. if s = ''tok'' \<and> now < 86400 * second then Inr (json_claims ex_claims) else Inl ''invalid'')\<rparr>"

lemma ex_jwt_ok: "jwt_ok ex_jwt"
  by (auto simp: jwt_ok_def ex_jwt_def ex_claims_def Unix_def split: if_splits)


lemma Sscanf_show_nat: "n < 2 ^ 63 \<Longrightarrow> Sscanf_d (show_nat n) = Some (int n)"
proof -
  assume n: "n < 2 ^ 63"
  obtain c cs where s: "show_nat n = c # cs" by (cases "show_nat n") auto
  then have c: "is_digit c" using show_nat_chars [of c n] by simp
  then have "\<not> is_space c" "c \<noteq> CHR ''-''" "c \<noteq> CHR ''+''" by (auto simp: is_digit_def is_space_def Let_def)
  then have "dropWhile is_space (show_nat n) = show_nat n" "\<not> HasPrefix (show_nat n) ''-''"
    "\<not> HasPrefix (show_nat n) ''+''" using s by (simp_all add: HasPrefix_def)
  moreover have "takeWhile is_digit (show_nat n) = show_nat n"
    using digits_show_nat [of n] by (simp add: list_all_iff)
  ultimately show ?thesis using n by (simp add: Sscanf_d_def Let_def Atoi_show_nat del: takeWhile_eq_all_conv)
qed

text \<open>A refresh token proves nothing: anyone can write one for any adapter (whose name has no colon), with a
  time of their choice and without knowing a secret, and it is accepted.\<close>

theorem refresh_tokens_can_be_forged:
  assumes "CHR '':'' \<notin> set adapterName" and "CHR '':'' \<notin> set rest"
    and "n + 2592000 < 2 ^ 63" and "Unix now \<le> int n + 2592000"
  shows "ValidateRefreshToken now (b64_encode (adapterName @ '':'' @ show_nat n @ '':'' @ rest)) = Inr adapterName"
proof -
  have "CHR '':'' \<notin> set (show_nat n)" by (rule not_in_show_nat) (simp add: is_digit_def)
  then have "Split (adapterName @ '':'' @ show_nat n @ '':'' @ rest) CHR '':'' = [adapterName, show_nat n, rest]"
    using assms(1,2) by (simp add: Split_append Split_notin)
  moreover have "Sscanf_d (show_nat n) = Some (int n)" using assms(3) by (intro Sscanf_show_nat) simp
  moreover have "wrap64 (int n + 30 * 24 * 60 * 60) = int n + 2592000"
    using assms(3) by (simp add: wrap64_def)
  ultimately show ?thesis
    using assms(4) by (simp add: ValidateRefreshToken_def b64_decode_encode)
qed

theorem refresh_tokens_can_be_forged_witness:
  "ValidateRefreshToken (9 * second) (b64_encode (''weather'' @ '':'' @ show_nat 4000000000 @ '':'' @ [])) = Inr ''weather''"
  by (rule refresh_tokens_can_be_forged) (simp_all add: Unix_def)

end
