(* ===== verification/UserAuth.thy ===== *)
theory UserAuth
  imports TokenManager UserGroupStore
begin

section \<open>User authentication\<close>

text \<open>
  \<open>pkg/auth/user_middleware.go\<close> and the handlers of \<open>internal/handlers/auth.go\<close>: logins with a
  password or through GitHub and Rancher, the web tokens they give, and the middleware that asks for
  one. \<open>U\<close> are the operations of the user store and \<open>st\<close> its state. \<open>hash\<close> and \<open>cmp\<close> are
  \<open>bcrypt\<close>; what GitHub and Rancher answer is a function of the code.
\<close>

record LocalAuthConfig =
  LAC_DefaultAdminPassword :: string
  LAC_ForcePasswordChange :: bool
  LAC_PasswordMinLength :: int

record GitHubAuthConfig =
  GAC_ClientID :: string
  GAC_ClientSecret :: string
  GAC_RedirectURI :: string
  GAC_AllowedOrgs :: "string list"
  GAC_AdminTeams :: "string list"

record RancherAuthConfig =
  RAC_IssuerURL :: string
  RAC_ClientID :: string
  RAC_ClientSecret :: string
  RAC_RedirectURI :: string
  RAC_AdminGroups :: "string list"
  RAC_FallbackLocal :: bool

record UserAuthConfig =
  UAC_Mode :: string
  UAC_DevMode :: bool
  UAC_Local :: "LocalAuthConfig option"
  UAC_GitHub :: "GitHubAuthConfig option"
  UAC_Rancher :: "RancherAuthConfig option"

record AuthToken =
  AT_Token :: string
  AT_TokenType :: string
  AT_ExpiresAt :: gotime
  AT_UserID :: string
  AT_Provider :: string

subsection \<open>The authentication service\<close>

definition UserAuthService_CreateUser ::
    "'s UserStore \<Rightarrow> (string \<Rightarrow> string result) \<Rightarrow> env \<Rightarrow> gotime \<Rightarrow> User \<Rightarrow> string \<Rightarrow> 's \<Rightarrow> 's \<times> error option" where
  "UserAuthService_CreateUser U hash e now user password st =
     (if User_AuthProvider user = ''local'' \<and> password \<noteq> [] then
        (case hash password of
           Inl err \<Rightarrow> (st, Some (''failed to hash password: '' @ err))
         | Inr h \<Rightarrow> us_Create U e (user\<lparr>User_PasswordHash := h, User_PasswordChangedAt := Some now\<rparr>) st)
      else us_Create U e user st)"

text \<open>A failed update of the last login is only logged.\<close>

definition AuthenticateUser ::
    "'s UserStore \<Rightarrow> (string \<Rightarrow> string \<Rightarrow> bool) \<Rightarrow> env \<Rightarrow> gotime \<Rightarrow> string \<Rightarrow> string \<Rightarrow> 's \<Rightarrow> 's \<times> User result" where
  "AuthenticateUser U cmp e now userID password st =
     (case us_Authenticate U cmp st userID password of
        Inl err \<Rightarrow> (st, Inl err)
      | Inr user \<Rightarrow>
          (let user' = user\<lparr>User_LastLoginAt := Some now\<rparr> in (fst (us_Update U e user' st), Inr user')))"

definition generateUserID :: "string \<Rightarrow> string \<Rightarrow> string" where
  "generateUserID provider externalID = provider @ ''_'' @ ReplaceAll externalID ''-'' ''_''"

text \<open>The administrators' group is added once for each team or group of the configuration that matches.\<close>

definition mapExternalGroupsToLocal :: "UserAuthConfig \<Rightarrow> string \<Rightarrow> string list \<Rightarrow> string list" where
  "mapExternalGroupsToLocal config provider externalGroups = ''mcp-users'' #
     (if provider = ''github'' then
        (case UAC_GitHub config of
           None \<Rightarrow> []
         | Some g \<Rightarrow> map (\<lambda>_. ''mcp-admins'')
             (filter (\<lambda>team. list_ex (\<lambda>extGroup. Contains extGroup team) externalGroups) (GAC_AdminTeams g)))
      else if provider = ''rancher'' then
        (case UAC_Rancher config of
           None \<Rightarrow> []
         | Some r \<Rightarrow> map (\<lambda>_. ''mcp-admins'')
             (filter (\<lambda>adminGroup. list_ex (\<lambda>extGroup. extGroup = adminGroup) externalGroups) (RAC_AdminGroups r)))
      else [])"

definition new_external_user ::
    "UserAuthConfig \<Rightarrow> string \<Rightarrow> string \<Rightarrow> string \<Rightarrow> string \<Rightarrow> string list \<Rightarrow> User" where
  "new_external_user config provider externalID email name groups =
     \<lparr>User_ID = generateUserID provider externalID, User_Name = name, User_Email = email,
      User_Groups = mapExternalGroupsToLocal config provider groups, User_AuthProvider = provider,
      User_ExternalID = externalID, User_ProviderGroups = groups, User_PasswordHash = [],
      User_PasswordChangedAt = None, User_LastLoginAt = None, User_CreatedAt = 0, User_UpdatedAt = 0\<rparr>"

definition AuthenticateExternalUser ::
    "'s UserStore \<Rightarrow> UserAuthConfig \<Rightarrow> env \<Rightarrow> gotime \<Rightarrow> string list \<Rightarrow>
     string \<Rightarrow> string \<Rightarrow> string \<Rightarrow> string \<Rightarrow> string list \<Rightarrow> 's \<Rightarrow> 's \<times> User result" where
  "AuthenticateExternalUser U config e now ks provider externalID email name groups st =
     (case us_GetByExternalID U ks st provider externalID of
        Inr user \<Rightarrow>
          (let user' = user\<lparr>User_Name := name, User_Email := email, User_ProviderGroups := groups,
                 User_LastLoginAt := Some now\<rparr> in
           case us_Update U e user' st of
             (st', Some err) \<Rightarrow> (st', Inl (''failed to update user: '' @ err))
           | (st', None) \<Rightarrow> (st', Inr user'))
      | Inl _ \<Rightarrow>
          (let user = new_external_user config provider externalID email name groups in
           case us_Create U e user st of
             (st', Some err) \<Rightarrow> (st', Inl (''failed to create user: '' @ err))
           | (st', None) \<Rightarrow> (st', Inr user)))"

definition user_claims :: "User \<Rightarrow> gotime \<Rightarrow> claims" where
  "user_claims user now =
     [''sub'' \<mapsto> String_value (User_ID user), ''email'' \<mapsto> String_value (User_Email user),
      ''name'' \<mapsto> String_value (User_Name user), ''provider'' \<mapsto> String_value (User_AuthProvider user),
      ''groups'' \<mapsto> Slice (map String_value (User_Groups user)), ''iat'' \<mapsto> Int_value (Unix now),
      ''exp'' \<mapsto> Int_value (Unix (now + 24 * hour))]"

definition GenerateJWT :: "jwt \<Rightarrow> gotime \<Rightarrow> User \<Rightarrow> AuthToken result" where
  "GenerateJWT J now user =
     (case jwt_sign J (user_claims user now) of
        Inl e \<Rightarrow> Inl (''failed to sign token: '' @ e)
      | Inr signedToken \<Rightarrow> Inr
          \<lparr>AT_Token = signedToken, AT_TokenType = ''Bearer'', AT_ExpiresAt = now + 24 * hour,
           AT_UserID = User_ID user, AT_Provider = User_AuthProvider user\<rparr>)"

definition ValidateJWT :: "jwt \<Rightarrow> 's UserStore \<Rightarrow> 's \<Rightarrow> gotime \<Rightarrow> string \<Rightarrow> User result" where
  "ValidateJWT J U st now tokenString =
     (case jwt_parse J now tokenString of
        Inl e \<Rightarrow> Inl (''failed to parse token: '' @ e)
      | Inr c \<Rightarrow>
          (case Option.bind (c ''sub'') any_string of
             None \<Rightarrow> Inl ''invalid token: missing subject''
           | Some userID \<Rightarrow>
               (case us_Get U st userID of
                  Inl e \<Rightarrow> Inl (''user not found: '' @ e) | Inr user \<Rightarrow> Inr user)))"

subsection \<open>The middleware\<close>

text \<open>It passes the request on with a user and its headers, of which it may set \<open>X-User-ID\<close>, or answers it.\<close>

definition dev_admin :: User where
  "dev_admin = \<lparr>User_ID = ''dev-admin'', User_Name = ''Dev Admin'', User_Email = [], User_Groups = [],
     User_AuthProvider = ''dev'', User_ExternalID = [], User_ProviderGroups = [], User_PasswordHash = [],
     User_PasswordChangedAt = None, User_LastLoginAt = None, User_CreatedAt = 0, User_UpdatedAt = 0\<rparr>"

definition UserAuthMiddleware ::
    "jwt \<Rightarrow> 's UserStore \<Rightarrow> UserAuthConfig \<Rightarrow> 's \<Rightarrow> gotime \<Rightarrow> (string \<Rightarrow> string) \<Rightarrow>
     (User \<times> (string \<Rightarrow> string)) pass" where
  "UserAuthMiddleware J U config st now headers =
     (if UAC_DevMode config then
        (let userID = headers ''X-User-ID''; admin = Pass (dev_admin, headers(''X-User-ID'' := ''dev-admin'')) in
         if userID \<noteq> [] then
           (case us_Get U st userID of Inr user \<Rightarrow> Pass (user, headers) | Inl _ \<Rightarrow> admin)
         else admin)
      else if headers ''Authorization'' = [] then Abort 401 ''Authorization required''
      else case ExtractTokenFromHeader (headers ''Authorization'') of
        Inl err \<Rightarrow> Abort 401 err
      | Inr tokenString \<Rightarrow>
          (case ValidateJWT J U st now tokenString of
             Inl _ \<Rightarrow> Abort 401 ''Invalid token'' | Inr user \<Rightarrow> Pass (user, headers)))"

subsection \<open>The handlers\<close>

text \<open>An answer is a status with an error text, or a value.\<close>

type_synonym 'a answer = "(int \<times> string) + 'a"

definition Login ::
    "jwt \<Rightarrow> 's UserStore \<Rightarrow> UserAuthConfig \<Rightarrow> (string \<Rightarrow> string \<Rightarrow> bool) \<Rightarrow> env \<Rightarrow> gotime \<Rightarrow> string \<Rightarrow> string \<Rightarrow> 's \<Rightarrow>
     's \<times> (AuthToken \<times> User) answer" where
  "Login J U config cmp e now userID password st =
     (if userID = [] \<or> password = [] then (st, Inl (400, ''user_id and password are required''))
      else case AuthenticateUser U cmp e now userID password st of
        (st', Inl _) \<Rightarrow> (st', Inl (401, ''Invalid credentials''))
      | (st', Inr user) \<Rightarrow>
          if (case UAC_Local config of None \<Rightarrow> False | Some l \<Rightarrow> LAC_ForcePasswordChange l) \<and>
             (User_PasswordChangedAt user = None \<or> User_AuthProvider user \<noteq> ''local'')
          then (st', Inl (401, ''Password change required''))
          else (case GenerateJWT J now user of
                  Inl _ \<Rightarrow> (st', Inl (500, ''Failed to generate token''))
                | Inr token \<Rightarrow> (st', Inr (token, user))))"

text \<open>\<open>ctx\<close> is the user that a middleware has set, if any.\<close>

definition ChangePassword ::
    "'s UserStore \<Rightarrow> (string \<Rightarrow> string \<Rightarrow> bool) \<Rightarrow> (string \<Rightarrow> string result) \<Rightarrow> env \<Rightarrow> gotime \<Rightarrow> User option \<Rightarrow>
     string \<Rightarrow> string \<Rightarrow> 's \<Rightarrow> 's \<times> string answer" where
  "ChangePassword U cmp hash e now ctx currentPassword newPassword st =
     (case ctx of
        None \<Rightarrow> (st, Inl (401, ''Not authenticated''))
      | Some user \<Rightarrow>
          if newPassword = [] then (st, Inl (400, ''New password is required''))
          else if User_AuthProvider user = ''local'' \<and> \<not> cmp (User_PasswordHash user) currentPassword
          then (st, Inl (401, ''Current password is incorrect''))
          else (case hash newPassword of
                  Inl _ \<Rightarrow> (st, Inl (500, ''Failed to hash password''))
                | Inr h \<Rightarrow>
                    (case us_Update U e (user\<lparr>User_PasswordHash := h, User_PasswordChangedAt := Some now,
                            User_UpdatedAt := now\<rparr>) st of
                       (st', Some _) \<Rightarrow> (st', Inl (500, ''Failed to update password''))
                     | (st', None) \<Rightarrow> (st', Inr ''Password changed successfully''))))"

text \<open>The routes below \<open>/api/v1/auth\<close> carry no middleware (\<open>cmd/uniproxy/main.go\<close>): no user is set.\<close>

definition route_password ::
    "'s UserStore \<Rightarrow> (string \<Rightarrow> string \<Rightarrow> bool) \<Rightarrow> (string \<Rightarrow> string result) \<Rightarrow> env \<Rightarrow> gotime \<Rightarrow>
     string \<Rightarrow> string \<Rightarrow> 's \<Rightarrow> 's \<times> string answer" where
  "route_password U cmp hash e now currentPassword newPassword st =
     ChangePassword U cmp hash e now None currentPassword newPassword st"

definition buildGitHubAuthURL :: "GitHubAuthConfig \<Rightarrow> string" where
  "buildGitHubAuthURL config = ''https://github.com/login/oauth/authorize'' @ ''?client_id='' @ GAC_ClientID config @
     ''&redirect_uri='' @ GAC_RedirectURI config @ ''&scope=user:email,read:org''"

definition buildRancherAuthURL :: "RancherAuthConfig \<Rightarrow> string" where
  "buildRancherAuthURL config = RAC_IssuerURL config @ ''/oauth2/authorize'' @ ''?client_id='' @ RAC_ClientID config @
     ''&redirect_uri='' @ RAC_RedirectURI config @ ''&response_type=code&scope=openid profile email groups''"

definition OAuthLogin :: "UserAuthConfig \<Rightarrow> string \<Rightarrow> string answer" where
  "OAuthLogin config provider =
     (if provider = ''github'' then
        (case UAC_GitHub config of
           None \<Rightarrow> Inl (400, ''GitHub auth not configured'') | Some g \<Rightarrow> Inr (buildGitHubAuthURL g))
      else if provider = ''rancher'' then
        (case UAC_Rancher config of
           None \<Rightarrow> Inl (400, ''Rancher auth not configured'') | Some r \<Rightarrow> Inr (buildRancherAuthURL r))
      else Inl (400, ''Unsupported provider''))"

text \<open>\<open>github code\<close> is the outcome of the exchange of the code and of the requests to GitHub's API: an ID, email, name and
  the logins of the organizations.\<close>

definition handleGitHubCallback ::
    "'s UserStore \<Rightarrow> UserAuthConfig \<Rightarrow> env \<Rightarrow> gotime \<Rightarrow> string list \<Rightarrow>
     (string \<Rightarrow> (string \<times> string \<times> string \<times> string list) result) \<Rightarrow> string \<Rightarrow> 's \<Rightarrow> 's \<times> User result" where
  "handleGitHubCallback U config e now ks github code st =
     (if UAC_GitHub config = None then (st, Inl ''GitHub auth not configured'')
      else case github code of
        Inl err \<Rightarrow> (st, Inl err)
      | Inr (uid, email, name, orgs) \<Rightarrow>
          AuthenticateExternalUser U config e now ks ''github'' uid email name orgs st)"

text \<open>\<open>idToken[:8]\<close> panics on a shorter token: \<open>None\<close>.\<close>

definition parseRancherIDToken :: "RancherAuthConfig \<Rightarrow> string \<Rightarrow> (string \<times> string \<times> string \<times> string list) option" where
  "parseRancherIDToken config idToken =
     (if length idToken < 8 then None
      else let userID = ''rancher_'' @ ReplaceAll (take 8 idToken) ''-'' ''_'' in
        Some (userID, ''user+'' @ userID @ ''@rancher.local'', ''Rancher User '' @ userID, RAC_AdminGroups config))"

text \<open>\<open>rancher code\<close> is the ID token that the exchange of the code returns.\<close>

definition handleRancherCallback ::
    "'s UserStore \<Rightarrow> UserAuthConfig \<Rightarrow> env \<Rightarrow> gotime \<Rightarrow> string list \<Rightarrow> (string \<Rightarrow> string result) \<Rightarrow> string \<Rightarrow> 's \<Rightarrow>
     ('s \<times> User result) option" where
  "handleRancherCallback U config e now ks rancher code st =
     (case UAC_Rancher config of
        None \<Rightarrow> Some (st, Inl ''Rancher auth not configured'')
      | Some r \<Rightarrow>
          (case rancher code of
             Inl err \<Rightarrow> Some (st, Inl err)
           | Inr idToken \<Rightarrow>
               (case parseRancherIDToken r idToken of
                  None \<Rightarrow> None
                | Some (uid, email, name, groups) \<Rightarrow>
                    Some (AuthenticateExternalUser U config e now ks ''rancher'' uid email name groups st))))"

definition OAuthCallback ::
    "jwt \<Rightarrow> 's UserStore \<Rightarrow> UserAuthConfig \<Rightarrow> env \<Rightarrow> gotime \<Rightarrow> string list \<Rightarrow>
     (string \<Rightarrow> (string \<times> string \<times> string \<times> string list) result) \<Rightarrow> (string \<Rightarrow> string result) \<Rightarrow>
     string \<Rightarrow> string \<Rightarrow> 's \<Rightarrow> ('s \<times> (AuthToken \<times> User) answer) option" where
  "OAuthCallback J U config e now ks github rancher provider code st =
     (if provider = [] then Some (st, Inl (400, ''Provider not specified''))
      else map_option (\<lambda>(st', r).
        (st', case r of
           Inl err \<Rightarrow> Inl (if provider = ''github'' \<or> provider = ''rancher''
             then (401, ''Authentication failed: '' @ err) else (400, err))
         | Inr user \<Rightarrow>
             (case GenerateJWT J now user of
                Inl _ \<Rightarrow> Inl (500, ''Failed to generate token'') | Inr token \<Rightarrow> Inr (token, user))))
        (if provider = ''github'' then Some (handleGitHubCallback U config e now ks github code st)
         else if provider = ''rancher'' then handleRancherCallback U config e now ks rancher code st
         else Some (st, Inl ''Unsupported provider'')))"

text \<open>What \<open>GET /auth/mode\<close> tells anyone of the local configuration: all of it.\<close>

definition GetAuthMode_Local :: "UserAuthConfig \<Rightarrow> LocalAuthConfig option" where
  "GetAuthMode_Local config = UAC_Local config"

subsection \<open>Lemmas\<close>

lemma user_claims_simps [simp]:
  "user_claims user now ''exp'' = Some (Int_value (Unix (now + 24 * hour)))"
  "json_claims (user_claims user now) ''sub'' = Some (String_value (User_ID user))"
  by (simp_all add: user_claims_def json_claims_def json_value_def)

lemma ToLower_Bearer: "ToLower ''Bearer'' = ''bearer''"
  by code_simp

lemma ExtractTokenFromHeader_bearer:
  assumes "CHR '' '' \<notin> set token" and "TrimSpace token = token" and "token \<noteq> []"
  shows "ExtractTokenFromHeader (''Bearer '' @ token) = Inr token"
  using assms by (simp add: ExtractTokenFromHeader_def ToLower_Bearer Let_def)

text \<open>The first login through a provider makes the account, a later one finds it.\<close>

lemma first_external_login:
  assumes "\<forall>u \<in> ran (imus_users st). \<not> (User_AuthProvider u = p \<and> User_ExternalID u = x)"
    and "AuthenticateExternalUser InMemoryUserStore_ops config e now ks p x email name groups st = (st1, Inr u1)"
  shows "u1 = new_external_user config p x email name groups"
    and "imus_users st1 = (imus_users st)(User_ID u1 \<mapsto> stamp_user_created e u1)"
proof -
  have "find (\<lambda>u. User_AuthProvider u = p \<and> User_ExternalID u = x) (range_values (imus_users st) ks) = None"
    using assms(1) set_range_values_subset [of "imus_users st" ks] by (auto simp: find_None_iff)
  then show "u1 = new_external_user config p x email name groups"
    and "imus_users st1 = (imus_users st)(User_ID u1 \<mapsto> stamp_user_created e u1)"
    using assms(2)
    by (auto simp: AuthenticateExternalUser_def InMemoryUserStore_ops_def InMemoryUserStore_GetByExternalID_def
      InMemoryUserStore_Create_def Let_def split: if_splits)
qed

lemma new_external_user_simps [simp]:
  "User_AuthProvider (new_external_user config p x email name groups) = p"
  "User_ExternalID (new_external_user config p x email name groups) = x"
  "User_ID (new_external_user config p x email name groups) = generateUserID p x"
  "User_Groups (new_external_user config p x email name groups) = mapExternalGroupsToLocal config p groups"
  by (simp_all add: new_external_user_def)

lemma later_external_login:
  assumes new: "\<forall>u \<in> ran (imus_users st). \<not> (User_AuthProvider u = p \<and> User_ExternalID u = x)"
    and first: "AuthenticateExternalUser InMemoryUserStore_ops config e now ks p x email name groups st = (st1, Inr u1)"
    and order: "range_order (imus_users st1) ks'"
  shows "\<exists>st2. AuthenticateExternalUser InMemoryUserStore_ops config' e' now' ks' p x email' name' groups' st1 =
    (st2, Inr ((stamp_user_created e u1)\<lparr>User_Name := name', User_Email := email', User_ProviderGroups := groups',
       User_LastLoginAt := Some now'\<rparr>))"
proof -
  note F = first_external_login [OF new first]
  let ?P = "\<lambda>u. User_AuthProvider u = p \<and> User_ExternalID u = x"
  have u1: "?P u1" "User_ID u1 = generateUserID p x" using F(1) by simp_all
  have ran: "y = stamp_user_created e u1" if "y \<in> ran (imus_users st1)" "?P y" for y
    using that F(2) new by (auto simp: ran_def split: if_splits)
  have "stamp_user_created e u1 \<in> ran (imus_users st1)" using F(2) by (auto simp: ran_def)
  then have "find ?P (range_values (imus_users st1) ks') = Some (stamp_user_created e u1)"
    by (rule find_range_values_unique [OF order]) (use u1 ran in auto)
  then show ?thesis
    using F(2) by (simp add: AuthenticateExternalUser_def InMemoryUserStore_ops_def
      InMemoryUserStore_GetByExternalID_def InMemoryUserStore_Update_def Let_def)
qed

subsection \<open>Properties\<close>

lemma Login_ok_mem:
  assumes "Login J InMemoryUserStore_ops config cmp e now userID password st = (st', Inr (token, user))"
  obtains u where "imus_users st userID = Some u" "user = u\<lparr>User_LastLoginAt := Some now\<rparr>"
    "st' = fst (InMemoryUserStore_Update e user st)" "GenerateJWT J now user = Inr token"
  using assms
  by (auto simp: Login_def AuthenticateUser_def InMemoryUserStore_ops_def InMemoryUserStore_Authenticate_def Let_def
    split: if_splits sum.splits option.splits)


text \<open>A token that was made for an adapter also opens the API as the user whose ID is the adapter's name: the
  check of user tokens looks neither at the audience nor at the scope.\<close>

theorem adapter_tokens_are_user_tokens:
  assumes "jwt_ok J" and "GenerateBearerToken J issuer now tokenID adapterName audience hours = Inr ti"
    and "us_Get U st adapterName = Inr user" and "now' < Unix (ATI_ExpiresAt ti) * second"
  shows "ValidateJWT J U st now' (ATI_AccessToken ti) = Inr user"
  using assms(2)
proof (rule GenerateBearerToken_ok)
  fix x
  assume x: "ATI_ExpiresAt ti = x"
    and sign: "jwt_sign J (bearer_claims tokenID adapterName audience issuer now x) = Inr (ATI_AccessToken ti)"
  then show ?thesis
    using jwt_okD(1) [OF assms(1) sign bearer_claims_simps(1), of now'] assms(3,4)
    by (simp add: ValidateJWT_def)
qed

text \<open>What a user of GitHub or Rancher may do is settled by the first login: the local groups are made from the
  groups that the provider gives then, and no later login changes them, whatever the provider gives. An
  administrator who left the administrators' team stays one.\<close>

theorem external_groups_frozen:
  assumes "\<forall>u \<in> ran (imus_users st). \<not> (User_AuthProvider u = p \<and> User_ExternalID u = x)"
    and "AuthenticateExternalUser InMemoryUserStore_ops config e now ks p x email name groups st = (st1, Inr u1)"
    and "range_order (imus_users st1) ks'"
  shows "\<exists>st2 u2. AuthenticateExternalUser InMemoryUserStore_ops config' e' now' ks' p x email' name' groups' st1 =
      (st2, Inr u2) \<and> User_ProviderGroups u2 = groups' \<and> User_Groups u2 = mapExternalGroupsToLocal config p groups"
  using later_external_login [OF assms] first_external_login(1) [OF assms(1,2)] by force

text \<open>Once Rancher has administrators' groups, the first user who logs in through it becomes an administrator,
  and every user whose ID token begins with the same eight characters (those of all web tokens with the same
  header) shares that account.\<close>

theorem rancher_logins_share_an_admin:
  assumes "UAC_Rancher config = Some r" and "RAC_AdminGroups r \<noteq> []"
    and "rancher code = Inr t" and "rancher code' = Inr t'" and "8 \<le> length t" and "take 8 t' = take 8 t"
    and "\<forall>u \<in> ran (imus_users st). User_AuthProvider u \<noteq> ''rancher''"
    and first: "handleRancherCallback InMemoryUserStore_ops config e now ks rancher code st = Some (st1, Inr u1)"
    and "range_order (imus_users st1) ks'"
  shows "\<exists>st2 u2. handleRancherCallback InMemoryUserStore_ops config e' now' ks' rancher code' st1 = Some (st2, Inr u2) \<and>
    User_ID u2 = User_ID u1 \<and> ''mcp-admins'' \<in> set (User_Groups u2)"
proof -
  obtain x email name where P: "parseRancherIDToken r t = Some (x, email, name, RAC_AdminGroups r)"
    using assms(5) by (simp add: parseRancherIDToken_def Let_def)
  have "8 \<le> length t'" using assms(5,6) by (metis length_take min.absorb2 min.cobounded1)
  then have P': "parseRancherIDToken r t' = Some (x, email, name, RAC_AdminGroups r)"
    using P assms(5) unfolding parseRancherIDToken_def Let_def assms(6) by (auto split: if_splits)
  have A: "AuthenticateExternalUser InMemoryUserStore_ops config e now ks ''rancher'' x email name (RAC_AdminGroups r) st
      = (st1, Inr u1)"
    using first assms(1,3) P by (simp add: handleRancherCallback_def)
  have new: "\<forall>u \<in> ran (imus_users st). \<not> (User_AuthProvider u = ''rancher'' \<and> User_ExternalID u = x)"
    using assms(7) by blast
  have "''mcp-admins'' \<in> set (User_Groups u1)"
    using first_external_login(1) [OF new A] assms(1,2)
    by (cases "RAC_AdminGroups r") (auto simp: mapExternalGroupsToLocal_def list_ex_iff)
  then show ?thesis
    using later_external_login [OF new A assms(9)] assms(1,4) P' by (force simp: handleRancherCallback_def)
qed

subsection \<open>Witnesses\<close>

text \<open>A library of web tokens that signs just one set of claims.\<close>

definition ex_sign_only :: "claims \<Rightarrow> int \<Rightarrow> jwt" where
  "ex_sign_only c x = \<lparr>jwt_sign = (\<lambda>c'. if c' = c then Inr ''tok'' else Inl ''unsupported''),
     jwt_parse = (\<lambda>now s. if s = ''tok'' \<and> now < x * second then Inr (json_claims c) else Inl ''invalid'')\<rparr>"

lemma ex_sign_only_ok: "c ''exp'' = Some (Int_value x) \<Longrightarrow> jwt_ok (ex_sign_only c x)"
  by (auto simp: jwt_ok_def ex_sign_only_def split: if_splits)

definition ex_alice :: User where
  "ex_alice = \<lparr>User_ID = ''alice'', User_Name = ''Alice'', User_Email = [], User_Groups = [],
     User_AuthProvider = ''local'', User_ExternalID = [], User_ProviderGroups = [], User_PasswordHash = ''h'',
     User_PasswordChangedAt = Some 0, User_LastLoginAt = None, User_CreatedAt = 0, User_UpdatedAt = 0\<rparr>"

definition ex_auth_config :: UserAuthConfig where
  "ex_auth_config = \<lparr>UAC_Mode = ''local'', UAC_DevMode = False, UAC_Local = None, UAC_GitHub = Some
     \<lparr>GAC_ClientID = [], GAC_ClientSecret = [], GAC_RedirectURI = [], GAC_AllowedOrgs = [], GAC_AdminTeams = [''admins'']\<rparr>,
     UAC_Rancher = Some \<lparr>RAC_IssuerURL = [], RAC_ClientID = [], RAC_ClientSecret = [], RAC_RedirectURI = [],
       RAC_AdminGroups = [''admins''], RAC_FallbackLocal = False\<rparr>\<rparr>"

abbreviation ex_users :: InMemoryUserStore where
  "ex_users \<equiv> \<lparr>imus_users = [''alice'' \<mapsto> ex_alice]\<rparr>"

abbreviation ex_user_jwt :: jwt where
  "ex_user_jwt \<equiv> ex_sign_only (user_claims ex_alice 0) (Unix (0 + 24 * hour))"

abbreviation ex_auth_env :: env where
  "ex_auth_env \<equiv> \<lparr>env_now = 0, env_now' = 0, env_order = []\<rparr>"

lemma user_claims_last_login [simp]: "user_claims (u\<lparr>User_LastLoginAt := x\<rparr>) now = user_claims u now"
  by (simp add: user_claims_def)


theorem adapter_tokens_are_user_tokens_witness:
  "\<exists>ti. GenerateBearerToken ex_jwt ''mcp-gateway'' 0 ''t1'' ''weather'' ''http://a'' 0 = Inr ti \<and>
    ValidateJWT ex_jwt InMemoryUserStore_ops \<lparr>imus_users = [''weather'' \<mapsto> ex_alice]\<rparr> second (ATI_AccessToken ti) =
      Inr ex_alice"
proof -
  obtain ti where ti: "GenerateBearerToken ex_jwt ''mcp-gateway'' 0 ''t1'' ''weather'' ''http://a'' 0 = Inr ti"
    "ATI_ExpiresAt ti = 24 * hour"
    by (simp add: GenerateBearerToken_def ex_jwt_def ex_claims_def Let_def)
  have "us_Get InMemoryUserStore_ops \<lparr>imus_users = [''weather'' \<mapsto> ex_alice]\<rparr> ''weather'' = Inr ex_alice"
    by (simp add: InMemoryUserStore_ops_def InMemoryUserStore_Get_def)
  from adapter_tokens_are_user_tokens [OF ex_jwt_ok ti(1) this, of second] ti show ?thesis
    by (simp add: Unix_def)
qed

text \<open>The first login of a store without users.\<close>

lemma ex_first_login:
  "AuthenticateExternalUser InMemoryUserStore_ops config ex_auth_env 0 [] p x email name groups NewInMemoryUserStore =
    (\<lparr>imus_users = [generateUserID p x \<mapsto> new_external_user config p x email name groups]\<rparr>,
     Inr (new_external_user config p x email name groups))"
  by (simp add: AuthenticateExternalUser_def InMemoryUserStore_ops_def InMemoryUserStore_GetByExternalID_def
    InMemoryUserStore_Create_def NewInMemoryUserStore_def new_external_user_def Let_def)

lemma ex_order: "range_order [k \<mapsto> v] [k]"
  by (simp add: range_order_def)

theorem external_groups_frozen_witness:
  "\<exists>st1 u1 st2 u2. AuthenticateExternalUser InMemoryUserStore_ops ex_auth_config ex_auth_env 0 [] ''github'' ''7'' [] ''bob''
       [''acme-admins''] NewInMemoryUserStore = (st1, Inr u1) \<and>
     AuthenticateExternalUser InMemoryUserStore_ops ex_auth_config ex_auth_env 5 [''github_7''] ''github'' ''7'' [] ''bob''
       [] st1 = (st2, Inr u2) \<and> User_ProviderGroups u2 = [] \<and> User_Groups u2 = [''mcp-users'', ''mcp-admins'']"
proof -
  have m: "mapExternalGroupsToLocal ex_auth_config ''github'' [''acme-admins''] = [''mcp-users'', ''mcp-admins'']"
    by code_simp
  have g: "generateUserID ''github'' ''7'' = ''github_7''" by code_simp
  note E = external_groups_frozen [OF _ ex_first_login, where p = "''github''" and x = "''7''" and config = ex_auth_config
    and groups = "[''acme-admins'']" and config' = ex_auth_config and e' = ex_auth_env and now' = 5
    and ks' = "[''github_7'']" and email = "[]" and email' = "[]" and name = "''bob''" and name' = "''bob''" and groups' = "[]"]
  have "\<exists>st2 u2. AuthenticateExternalUser InMemoryUserStore_ops ex_auth_config ex_auth_env 5 [''github_7''] ''github'' ''7'' []
      ''bob'' [] \<lparr>imus_users = [''github_7'' \<mapsto> new_external_user ex_auth_config ''github'' ''7'' [] ''bob'' [''acme-admins'']]\<rparr> =
      (st2, Inr u2) \<and> User_ProviderGroups u2 = [] \<and> User_Groups u2 = [''mcp-users'', ''mcp-admins'']"
    using E by (simp add: NewInMemoryUserStore_def g m ex_order)
  then show ?thesis using ex_first_login [of ex_auth_config "''github''" "''7''" "[]" "''bob''" "[''acme-admins'']"]
    unfolding g by blast
qed

theorem rancher_logins_share_an_admin_witness:
  "\<exists>st1 u1 st2 u2. handleRancherCallback InMemoryUserStore_ops ex_auth_config ex_auth_env 0 []
       (\<lambda>code. Inr (''eyJhbGci'' @ code)) ''alice'' NewInMemoryUserStore = Some (st1, Inr u1) \<and>
     handleRancherCallback InMemoryUserStore_ops ex_auth_config ex_auth_env 5 [''rancher_rancher_eyJhbGci'']
       (\<lambda>code. Inr (''eyJhbGci'' @ code)) ''mallory'' st1 = Some (st2, Inr u2) \<and>
     User_ID u2 = User_ID u1 \<and> ''mcp-admins'' \<in> set (User_Groups u2)"
proof -
  obtain r where r: "UAC_Rancher ex_auth_config = Some r" "RAC_AdminGroups r \<noteq> []" by (simp add: ex_auth_config_def)
  have p: "ReplaceAll ''eyJhbGci'' ''-'' ''_'' = ''eyJhbGci''" by code_simp
  have g: "generateUserID ''rancher'' ''rancher_eyJhbGci'' = ''rancher_rancher_eyJhbGci''" by code_simp
  have "\<exists>u1. handleRancherCallback InMemoryUserStore_ops ex_auth_config ex_auth_env 0 []
      (\<lambda>code. Inr (''eyJhbGci'' @ code)) ''alice'' NewInMemoryUserStore =
      Some (\<lparr>imus_users = [''rancher_rancher_eyJhbGci'' \<mapsto> u1]\<rparr>, Inr u1)"
    by (simp add: handleRancherCallback_def r parseRancherIDToken_def Let_def p ex_first_login g)
  then obtain u1 where A: "handleRancherCallback InMemoryUserStore_ops ex_auth_config ex_auth_env 0 []
      (\<lambda>code. Inr (''eyJhbGci'' @ code)) ''alice'' NewInMemoryUserStore =
      Some (\<lparr>imus_users = [''rancher_rancher_eyJhbGci'' \<mapsto> u1]\<rparr>, Inr u1)" by blast
  show ?thesis
    using rancher_logins_share_an_admin [OF r _ _ _ _ _ A, where code' = "''mallory''" and e' = ex_auth_env and now' = 5
      and ks' = "[''rancher_rancher_eyJhbGci'']"] A
    by (auto simp: NewInMemoryUserStore_def ex_order)
qed

end
