(* ===== verification/UserGroupHandlers.thy ===== *)
theory UserGroupHandlers
  imports AdapterService UserAuth
begin

section \<open>The routes of users and groups\<close>

text \<open>
  \<open>internal/handlers/user_group.go\<close> and its routes in \<open>cmd/uniproxy/main.go\<close>. A handler gets the
  request and the state of the service, and gives the state after it, the status and either an error text
  or what it writes. What JSON makes of a body is in \<open>json_bodies\<close>. \<open>U\<close>, \<open>G\<close> and \<open>S\<close> are the operations of
  the stores of users, groups and assignments.
\<close>

record http_request =
  HQ_Method :: string
  HQ_Path :: string
  HQ_Header :: "string \<Rightarrow> string"
  HQ_Body :: string

record CreateUserRequest =
  CUR_ID :: string
  CUR_Name :: string
  CUR_Email :: string
  CUR_Groups :: "string list"

record UpdateUserRequest =
  UUR_Name :: string
  UUR_Email :: string
  UUR_Groups :: "string list option"

record CreateGroupRequest =
  CGR_ID :: string
  CGR_Name :: string
  CGR_Description :: string
  CGR_Permissions :: "string list"

record UpdateGroupRequest =
  UGR_Name :: string
  UGR_Description :: string
  UGR_Permissions :: "string list option"

record json_bodies =
  jb_CreateUser :: "string \<Rightarrow> CreateUserRequest result"
  jb_UpdateUser :: "string \<Rightarrow> UpdateUserRequest result"
  jb_CreateGroup :: "string \<Rightarrow> CreateGroupRequest result"
  jb_UpdateGroup :: "string \<Rightarrow> UpdateGroupRequest result"
  jb_AddUserToGroup :: "string \<Rightarrow> string result"

datatype payload = P_user User | P_users "User list" | P_created_user User | P_group Group | P_groups "Group list"
  | P_created_group Group | P_status string string | P_assignments "AdapterGroupAssignment list" | P_none

type_synonym reply = "int \<times> (string + payload)"

text \<open>The runtime's part in a request: the calls of the stores, the order of the iterations.\<close>

type_synonym request_env = "(nat \<Rightarrow> env) \<times> string list"

definition request_user :: "http_request \<Rightarrow> string" where
  "request_user q = (if HQ_Header q ''X-User-ID'' = [] then ''default-user'' else HQ_Header q ''X-User-ID'')"

definition path_parts :: "http_request \<Rightarrow> string \<Rightarrow> string list" where
  "path_parts q pre = Split (TrimPrefix (HQ_Path q) pre) CHR ''/''"

abbreviation users_ID :: "http_request \<Rightarrow> string" where
  "users_ID q \<equiv> path_parts q ''/api/v1/users/'' ! 0"

abbreviation groups_ID :: "http_request \<Rightarrow> string" where
  "groups_ID q \<equiv> path_parts q ''/api/v1/groups/'' ! 0"

abbreviation method_not_allowed :: reply where
  "method_not_allowed \<equiv> (405, Inl ''Method not allowed'')"

abbreviation page_not_found :: reply where
  "page_not_found \<equiv> (404, Inl ''404 page not found'')"

subsection \<open>Users\<close>

definition UserGroupHandler_CreateUser ::
    "'us UserStore \<Rightarrow> 'gs GroupStore \<Rightarrow> json_bodies \<Rightarrow> request_env \<Rightarrow> http_request \<Rightarrow> ('us, 'gs) UserGroupService \<Rightarrow>
     ('us, 'gs) UserGroupService \<times> reply" where
  "UserGroupHandler_CreateUser U G B e q st =
     (if HQ_Method q \<noteq> ''POST'' then (st, method_not_allowed)
      else case jb_CreateUser B (HQ_Body q) of
        Inl err \<Rightarrow> (st, 400, Inl (''Invalid JSON: '' @ err))
      | Inr req \<Rightarrow>
          if CUR_ID req = [] \<or> CUR_Name req = [] \<or> CUR_Email req = []
          then (st, 400, Inl ''id, name, and email are required'')
          else if CanManageUsers U G st (request_user q) \<noteq> Inr True
          then (st, 403, Inl ''Insufficient permissions to manage users'')
          else (let user = \<lparr>User_ID = CUR_ID req, User_Name = CUR_Name req, User_Email = CUR_Email req,
                  User_Groups = CUR_Groups req, User_AuthProvider = [], User_ExternalID = [], User_ProviderGroups = [],
                  User_PasswordHash = [], User_PasswordChangedAt = None, User_LastLoginAt = None,
                  User_CreatedAt = 0, User_UpdatedAt = 0\<rparr> in
                case CreateUser U (fst e 0) user st of
                  (st', Some err) \<Rightarrow> (st', 500, Inl (''Failed to create user: '' @ err))
                | (st', None) \<Rightarrow> (st', 201, Inr (P_created_user user))))"

definition UserGroupHandler_ListUsers ::
    "'us UserStore \<Rightarrow> request_env \<Rightarrow> http_request \<Rightarrow> ('us, 'gs) UserGroupService \<Rightarrow> reply" where
  "UserGroupHandler_ListUsers U e q st =
     (if HQ_Method q \<noteq> ''GET'' then method_not_allowed
      else case ListUsers U (snd e) st of
        Inl err \<Rightarrow> (500, Inl (''Failed to list users: '' @ err)) | Inr users \<Rightarrow> (200, Inr (P_users users)))"

definition HandleUsers ::
    "'us UserStore \<Rightarrow> 'gs GroupStore \<Rightarrow> json_bodies \<Rightarrow> request_env \<Rightarrow> http_request \<Rightarrow> ('us, 'gs) UserGroupService \<Rightarrow>
     ('us, 'gs) UserGroupService \<times> reply" where
  "HandleUsers U G B e q st =
     (if HQ_Method q = ''GET'' then (st, UserGroupHandler_ListUsers U e q st)
      else if HQ_Method q = ''POST'' then UserGroupHandler_CreateUser U G B e q st
      else (st, method_not_allowed))"

definition UserGroupHandler_GetUser ::
    "'us UserStore \<Rightarrow> http_request \<Rightarrow> ('us, 'gs) UserGroupService \<Rightarrow> reply" where
  "UserGroupHandler_GetUser U q st =
     (if HQ_Method q \<noteq> ''GET'' then method_not_allowed
      else case GetUser U st (users_ID q) of
        Inr user \<Rightarrow> (200, Inr (P_user user))
      | Inl err \<Rightarrow> if Contains err ''not found'' then (404, Inl ''User not found'')
          else (500, Inl (''Failed to get user: '' @ err)))"

text \<open>The user that the service returns is a copy, so writing its fields changes nothing in the store. A missing
  \<open>groups\<close> is a nil slice, \<open>None\<close>; an empty list is not.\<close>

definition UserGroupHandler_UpdateUser ::
    "'us UserStore \<Rightarrow> 'gs GroupStore \<Rightarrow> json_bodies \<Rightarrow> request_env \<Rightarrow> http_request \<Rightarrow> ('us, 'gs) UserGroupService \<Rightarrow>
     ('us, 'gs) UserGroupService \<times> reply" where
  "UserGroupHandler_UpdateUser U G B e q st =
     (if HQ_Method q \<noteq> ''PUT'' then (st, method_not_allowed)
      else case jb_UpdateUser B (HQ_Body q) of
        Inl err \<Rightarrow> (st, 400, Inl (''Invalid JSON: '' @ err))
      | Inr req \<Rightarrow>
          if CanManageUsers U G st (request_user q) \<noteq> Inr True
          then (st, 403, Inl ''Insufficient permissions to manage users'')
          else case GetUser U st (users_ID q) of
            Inl err \<Rightarrow> (st, 404, Inl ''User not found'')
          | Inr user \<Rightarrow>
              (let user1 = (if UUR_Name req \<noteq> [] then user\<lparr>User_Name := UUR_Name req\<rparr> else user);
                   user2 = (if UUR_Email req \<noteq> [] then user1\<lparr>User_Email := UUR_Email req\<rparr> else user1);
                   user3 = (case UUR_Groups req of None \<Rightarrow> user2 | Some gs \<Rightarrow> user2\<lparr>User_Groups := gs\<rparr>) in
               case UpdateUser U (fst e 0) user3 st of
                 (st', Some err) \<Rightarrow> (st', 500, Inl (''Failed to update user: '' @ err))
               | (st', None) \<Rightarrow> (st', 200, Inr (P_user user3))))"

definition UserGroupHandler_DeleteUser ::
    "'us UserStore \<Rightarrow> 'gs GroupStore \<Rightarrow> request_env \<Rightarrow> http_request \<Rightarrow> ('us, 'gs) UserGroupService \<Rightarrow>
     ('us, 'gs) UserGroupService \<times> reply" where
  "UserGroupHandler_DeleteUser U G e q st =
     (if HQ_Method q \<noteq> ''DELETE'' then (st, method_not_allowed)
      else if CanManageUsers U G st (request_user q) \<noteq> Inr True
      then (st, 403, Inl ''Insufficient permissions to manage users'')
      else case DeleteUser U (fst e 0) (users_ID q) st of
        (st', None) \<Rightarrow> (st', 204, Inr P_none)
      | (st', Some err) \<Rightarrow>
          if Contains err ''not found'' then (st', 404, Inl ''User not found'')
          else (st', 500, Inl (''Failed to delete user: '' @ err)))"

subsection \<open>Groups\<close>

definition UserGroupHandler_CreateGroup ::
    "'us UserStore \<Rightarrow> 'gs GroupStore \<Rightarrow> json_bodies \<Rightarrow> request_env \<Rightarrow> http_request \<Rightarrow> ('us, 'gs) UserGroupService \<Rightarrow>
     ('us, 'gs) UserGroupService \<times> reply" where
  "UserGroupHandler_CreateGroup U G B e q st =
     (if HQ_Method q \<noteq> ''POST'' then (st, method_not_allowed)
      else case jb_CreateGroup B (HQ_Body q) of
        Inl err \<Rightarrow> (st, 400, Inl (''Invalid JSON: '' @ err))
      | Inr req \<Rightarrow>
          if CGR_ID req = [] \<or> CGR_Name req = [] then (st, 400, Inl ''id and name are required'')
          else if CanManageGroups U G st (request_user q) \<noteq> Inr True
          then (st, 403, Inl ''Insufficient permissions to manage groups'')
          else (let grp = zero_Group\<lparr>Group_ID := CGR_ID req, Group_Name := CGR_Name req,
                  Group_Description := CGR_Description req, Group_Permissions := CGR_Permissions req\<rparr> in
                case CreateGroup G (fst e 0) grp st of
                  (st', Some err) \<Rightarrow> (st', 500, Inl (''Failed to create group: '' @ err))
                | (st', None) \<Rightarrow> (st', 201, Inr (P_created_group grp))))"

definition UserGroupHandler_ListGroups ::
    "'gs GroupStore \<Rightarrow> request_env \<Rightarrow> http_request \<Rightarrow> ('us, 'gs) UserGroupService \<Rightarrow> reply" where
  "UserGroupHandler_ListGroups G e q st =
     (if HQ_Method q \<noteq> ''GET'' then method_not_allowed
      else case ListGroups G (snd e) st of
        Inl err \<Rightarrow> (500, Inl (''Failed to list groups: '' @ err)) | Inr groups \<Rightarrow> (200, Inr (P_groups groups)))"

definition HandleGroups ::
    "'us UserStore \<Rightarrow> 'gs GroupStore \<Rightarrow> json_bodies \<Rightarrow> request_env \<Rightarrow> http_request \<Rightarrow> ('us, 'gs) UserGroupService \<Rightarrow>
     ('us, 'gs) UserGroupService \<times> reply" where
  "HandleGroups U G B e q st =
     (if HQ_Method q = ''GET'' then (st, UserGroupHandler_ListGroups G e q st)
      else if HQ_Method q = ''POST'' then UserGroupHandler_CreateGroup U G B e q st
      else (st, method_not_allowed))"

definition UserGroupHandler_GetGroup ::
    "'gs GroupStore \<Rightarrow> http_request \<Rightarrow> ('us, 'gs) UserGroupService \<Rightarrow> reply" where
  "UserGroupHandler_GetGroup G q st =
     (if HQ_Method q \<noteq> ''GET'' then method_not_allowed
      else case GetGroup G st (groups_ID q) of
        Inr grp \<Rightarrow> (200, Inr (P_group grp))
      | Inl err \<Rightarrow> if Contains err ''not found'' then (404, Inl ''Group not found'')
          else (500, Inl (''Failed to get group: '' @ err)))"

definition UserGroupHandler_UpdateGroup ::
    "'us UserStore \<Rightarrow> 'gs GroupStore \<Rightarrow> json_bodies \<Rightarrow> request_env \<Rightarrow> http_request \<Rightarrow> ('us, 'gs) UserGroupService \<Rightarrow>
     ('us, 'gs) UserGroupService \<times> reply" where
  "UserGroupHandler_UpdateGroup U G B e q st =
     (if HQ_Method q \<noteq> ''PUT'' then (st, method_not_allowed)
      else case jb_UpdateGroup B (HQ_Body q) of
        Inl err \<Rightarrow> (st, 400, Inl (''Invalid JSON: '' @ err))
      | Inr req \<Rightarrow>
          if CanManageGroups U G st (request_user q) \<noteq> Inr True
          then (st, 403, Inl ''Insufficient permissions to manage groups'')
          else case GetGroup G st (groups_ID q) of
            Inl err \<Rightarrow> (st, 404, Inl ''Group not found'')
          | Inr grp \<Rightarrow>
              (let grp1 = (if UGR_Name req \<noteq> [] then grp\<lparr>Group_Name := UGR_Name req\<rparr> else grp);
                   grp2 = (if UGR_Description req \<noteq> [] then grp1\<lparr>Group_Description := UGR_Description req\<rparr> else grp1);
                   grp3 = (case UGR_Permissions req of None \<Rightarrow> grp2 | Some ps \<Rightarrow> grp2\<lparr>Group_Permissions := ps\<rparr>) in
               case UpdateGroup G (fst e 0) grp3 st of
                 (st', Some err) \<Rightarrow> (st', 500, Inl (''Failed to update group: '' @ err))
               | (st', None) \<Rightarrow> (st', 200, Inr (P_group grp3))))"

definition UserGroupHandler_DeleteGroup ::
    "'us UserStore \<Rightarrow> 'gs GroupStore \<Rightarrow> request_env \<Rightarrow> http_request \<Rightarrow> ('us, 'gs) UserGroupService \<Rightarrow>
     ('us, 'gs) UserGroupService \<times> reply" where
  "UserGroupHandler_DeleteGroup U G e q st =
     (if HQ_Method q \<noteq> ''DELETE'' then (st, method_not_allowed)
      else if CanManageGroups U G st (request_user q) \<noteq> Inr True
      then (st, 403, Inl ''Insufficient permissions to manage groups'')
      else case DeleteGroup G (fst e 0) (groups_ID q) st of
        (st', None) \<Rightarrow> (st', 204, Inr P_none)
      | (st', Some err) \<Rightarrow>
          if Contains err ''not found'' then (st', 404, Inl ''Group not found'')
          else (st', 500, Inl (''Failed to delete group: '' @ err)))"

subsection \<open>Members\<close>

definition UserGroupHandler_AddUserToGroup ::
    "'us UserStore \<Rightarrow> 'gs GroupStore \<Rightarrow> json_bodies \<Rightarrow> request_env \<Rightarrow> http_request \<Rightarrow> ('us, 'gs) UserGroupService \<Rightarrow>
     ('us, 'gs) UserGroupService \<times> reply" where
  "UserGroupHandler_AddUserToGroup U G B e q st =
     (if HQ_Method q \<noteq> ''POST'' then (st, method_not_allowed)
      else let parts = path_parts q ''/api/v1/groups/'' in
      if length parts < 2 \<or> parts ! 1 \<noteq> ''members'' then (st, page_not_found)
      else case jb_AddUserToGroup B (HQ_Body q) of
        Inl err \<Rightarrow> (st, 400, Inl (''Invalid JSON: '' @ err))
      | Inr userID \<Rightarrow>
          if userID = [] then (st, 400, Inl ''userId is required'')
          else if CanManageGroups U G st (request_user q) \<noteq> Inr True
          then (st, 403, Inl ''Insufficient permissions to manage groups'')
          else case AddUserToGroup U G (fst e) (parts ! 0) userID st of
            (st', Some err) \<Rightarrow> (st', 500, Inl (''Failed to add user to group: '' @ err))
          | (st', None) \<Rightarrow> (st', 200, Inr (P_status ''user_added''
              (''User '' @ userID @ '' added to group '' @ parts ! 0))))"

definition UserGroupHandler_RemoveUserFromGroup ::
    "'us UserStore \<Rightarrow> 'gs GroupStore \<Rightarrow> request_env \<Rightarrow> http_request \<Rightarrow> ('us, 'gs) UserGroupService \<Rightarrow>
     ('us, 'gs) UserGroupService \<times> reply" where
  "UserGroupHandler_RemoveUserFromGroup U G e q st =
     (if HQ_Method q \<noteq> ''DELETE'' then (st, method_not_allowed)
      else let parts = path_parts q ''/api/v1/groups/'' in
      if length parts < 3 \<or> parts ! 1 \<noteq> ''members'' then (st, page_not_found)
      else if CanManageGroups U G st (request_user q) \<noteq> Inr True
      then (st, 403, Inl ''Insufficient permissions to manage groups'')
      else case RemoveUserFromGroup U G (fst e) (parts ! 0) (parts ! 2) st of
        (st', Some err) \<Rightarrow> (st', 500, Inl (''Failed to remove user from group: '' @ err))
      | (st', None) \<Rightarrow> (st', 200, Inr (P_status ''user_removed''
          (''User '' @ parts ! 2 @ '' removed from group '' @ parts ! 0))))"

definition UserGroupHandler_ListGroupAdapters ::
    "'us UserStore \<Rightarrow> 'gs GroupStore \<Rightarrow> 's AdapterGroupAssignmentStore \<Rightarrow> ('a, 's, 't) AdapterService option \<Rightarrow>
     request_env \<Rightarrow> http_request \<Rightarrow> ('us, 'gs) UserGroupService \<Rightarrow> reply" where
  "UserGroupHandler_ListGroupAdapters U G S adapterService e q st =
     (if HQ_Method q \<noteq> ''GET'' then method_not_allowed
      else let parts = path_parts q ''/api/v1/groups/'' in
      if length parts < 2 \<or> parts ! 1 \<noteq> ''adapters'' then page_not_found
      else case adapterService of
        None \<Rightarrow> (500, Inl ''Adapter service not available'')
      | Some as \<Rightarrow>
          (case ListGroupAdapters S U G (Some st) (snd e) as (request_user q) (parts ! 0) of
             Inr assignments \<Rightarrow> (200, Inr (P_assignments assignments))
           | Inl err \<Rightarrow> if Contains err ''denied'' then (403, Inl ''Access denied'')
               else (500, Inl (''Failed to list group adapters: '' @ err))))"

subsection \<open>The routes\<close>

text \<open>Reading is open to anyone; the other routes are behind the middleware, which hands on the request with the
  headers it has set. \<open>None\<close>: the path and method belong to no route of this group.\<close>

definition require_user ::
    "jwt \<Rightarrow> 'us UserStore \<Rightarrow> UserAuthConfig \<Rightarrow> gotime \<Rightarrow> (http_request \<Rightarrow> ('us, 'gs) UserGroupService \<times> reply) \<Rightarrow>
     http_request \<Rightarrow> ('us, 'gs) UserGroupService \<Rightarrow> ('us, 'gs) UserGroupService \<times> reply" where
  "require_user J U config now handler q st =
     (case UserAuthMiddleware J U config (ugs_userStore st) now (HQ_Header q) of
        Abort code err \<Rightarrow> (st, code, Inl err)
      | Pass (_, headers) \<Rightarrow> handler (q\<lparr>HQ_Header := headers\<rparr>))"

definition user_group_route ::
    "jwt \<Rightarrow> 'us UserStore \<Rightarrow> 'gs GroupStore \<Rightarrow> 's AdapterGroupAssignmentStore \<Rightarrow> ('a, 's, 't) AdapterService option \<Rightarrow>
     UserAuthConfig \<Rightarrow> json_bodies \<Rightarrow> gotime \<Rightarrow> request_env \<Rightarrow> http_request \<Rightarrow> ('us, 'gs) UserGroupService \<Rightarrow>
     (('us, 'gs) UserGroupService \<times> reply) option" where
  "user_group_route J U G S as config B now e q st =
     (let m = HQ_Method q; protected = (\<lambda>h. Some (require_user J U config now (\<lambda>q. h q st) q st)) in
      case path_parts q ''/api/v1/'' of
        [r] \<Rightarrow>
          (if r = ''users'' then
             (if m = ''GET'' then Some (st, UserGroupHandler_ListUsers U e q st)
              else if m = ''POST'' then protected (HandleUsers U G B e) else None)
           else if r = ''groups'' then
             (if m = ''GET'' then Some (HandleGroups U G B e q st)
              else if m = ''POST'' then protected (HandleGroups U G B e) else None)
           else None)
      | [r, i] \<Rightarrow>
          (if i = [] then None
           else if r = ''users'' then
             (if m = ''GET'' then Some (st, UserGroupHandler_GetUser U q st)
              else if m = ''PUT'' then protected (UserGroupHandler_UpdateUser U G B e)
              else if m = ''DELETE'' then protected (UserGroupHandler_DeleteUser U G e) else None)
           else if r = ''groups'' then
             (if m = ''GET'' then Some (st, UserGroupHandler_GetGroup G q st)
              else if m = ''PUT'' then protected (UserGroupHandler_UpdateGroup U G B e)
              else if m = ''DELETE'' then protected (UserGroupHandler_DeleteGroup U G e) else None)
           else None)
      | [r, i, s] \<Rightarrow>
          (if r \<noteq> ''groups'' \<or> i = [] then None
           else if s = ''adapters'' \<and> m = ''GET'' then Some (st, UserGroupHandler_ListGroupAdapters U G S as e q st)
           else if s = ''members'' \<and> m = ''POST'' then protected (UserGroupHandler_AddUserToGroup U G B e)
           else None)
      | [r, i, s, u] \<Rightarrow>
          (if r = ''groups'' \<and> i \<noteq> [] \<and> s = ''members'' \<and> u \<noteq> [] \<and> m = ''DELETE''
           then protected (UserGroupHandler_RemoveUserFromGroup U G e) else None)
      | _ \<Rightarrow> None)"

subsection \<open>Lemmas\<close>

definition has_valid_token :: "jwt \<Rightarrow> 'us UserStore \<Rightarrow> 'us \<Rightarrow> gotime \<Rightarrow> string \<Rightarrow> bool" where
  "has_valid_token J U us now authHeader =
     (case ExtractTokenFromHeader authHeader of Inl _ \<Rightarrow> False | Inr token \<Rightarrow> is_ok (ValidateJWT J U us now token))"

lemma UserAuthMiddleware_production:
  assumes "\<not> UAC_DevMode config"
  shows "if has_valid_token J U us now (headers ''Authorization'')
    then \<exists>u. UserAuthMiddleware J U config us now headers = Pass (u, headers)
    else \<exists>err. UserAuthMiddleware J U config us now headers = Abort 401 err"
  using assms
  by (auto simp: UserAuthMiddleware_def has_valid_token_def is_ok_def ExtractTokenFromHeader_def split: sum.splits)

lemma require_user_production:
  assumes "\<not> UAC_DevMode config"
  shows "has_valid_token J U (ugs_userStore st) now (HQ_Header q ''Authorization'') \<Longrightarrow>
      require_user J U config now h q st = h q"
    and "\<not> has_valid_token J U (ugs_userStore st) now (HQ_Header q ''Authorization'') \<Longrightarrow>
      fst (require_user J U config now h q st) = st"
  using UserAuthMiddleware_production [OF assms, of J U "ugs_userStore st" now "HQ_Header q"]
  by (auto simp: require_user_def)

text \<open>No handler looks at the header \<open>Authorization\<close>.\<close>

lemma request_user_auth [simp]:
  "request_user (q\<lparr>HQ_Header := (HQ_Header q)(''Authorization'' := a)\<rparr>) = request_user q"
  "path_parts (q\<lparr>HQ_Header := h\<rparr>) pre = path_parts q pre"
  "HQ_Method (q\<lparr>HQ_Header := h\<rparr>) = HQ_Method q"
  "HQ_Body (q\<lparr>HQ_Header := h\<rparr>) = HQ_Body q"
  by (simp_all add: request_user_def path_parts_def)

lemmas handler_defs = UserGroupHandler_CreateUser_def UserGroupHandler_ListUsers_def HandleUsers_def
  UserGroupHandler_GetUser_def UserGroupHandler_UpdateUser_def UserGroupHandler_DeleteUser_def
  UserGroupHandler_CreateGroup_def UserGroupHandler_ListGroups_def HandleGroups_def UserGroupHandler_GetGroup_def
  UserGroupHandler_UpdateGroup_def UserGroupHandler_DeleteGroup_def UserGroupHandler_AddUserToGroup_def
  UserGroupHandler_RemoveUserFromGroup_def UserGroupHandler_ListGroupAdapters_def

lemma handlers_auth:
  fixes q :: http_request
  defines "q' \<equiv> \<lambda>a. q\<lparr>HQ_Header := (HQ_Header q)(''Authorization'' := a)\<rparr>"
  shows "UserGroupHandler_ListUsers U e (q' a) st = UserGroupHandler_ListUsers U e q st"
    and "UserGroupHandler_GetUser U (q' a) st = UserGroupHandler_GetUser U q st"
    and "UserGroupHandler_GetGroup G (q' a) st = UserGroupHandler_GetGroup G q st"
    and "UserGroupHandler_ListGroupAdapters U G S as e (q' a) st = UserGroupHandler_ListGroupAdapters U G S as e q st"
    and "HandleUsers U G B e (q' a) st = HandleUsers U G B e q st"
    and "HandleGroups U G B e (q' a) st = HandleGroups U G B e q st"
    and "UserGroupHandler_UpdateUser U G B e (q' a) st = UserGroupHandler_UpdateUser U G B e q st"
    and "UserGroupHandler_DeleteUser U G e (q' a) st = UserGroupHandler_DeleteUser U G e q st"
    and "UserGroupHandler_UpdateGroup U G B e (q' a) st = UserGroupHandler_UpdateGroup U G B e q st"
    and "UserGroupHandler_DeleteGroup U G e (q' a) st = UserGroupHandler_DeleteGroup U G e q st"
    and "UserGroupHandler_AddUserToGroup U G B e (q' a) st = UserGroupHandler_AddUserToGroup U G B e q st"
    and "UserGroupHandler_RemoveUserFromGroup U G e (q' a) st = UserGroupHandler_RemoveUserFromGroup U G e q st"
  unfolding q'_def handler_defs request_user_auth by (rule refl)+

subsection \<open>Properties\<close>


text \<open>Who makes a request is told by the header \<open>X-User-ID\<close> alone: outside development mode, two requests that
  differ in their token only have the same outcome as long as both tokens are valid, whoever they belong to.\<close>

theorem identity_is_a_header:
  assumes "\<not> UAC_DevMode config"
    and "has_valid_token J U (ugs_userStore st) now (HQ_Header q ''Authorization'')"
    and "has_valid_token J U (ugs_userStore st) now a"
  shows "user_group_route J U G S as config B now e (q\<lparr>HQ_Header := (HQ_Header q)(''Authorization'' := a)\<rparr>) st =
    user_group_route J U G S as config B now e q st"
proof -
  let ?q = "q\<lparr>HQ_Header := (HQ_Header q)(''Authorization'' := a)\<rparr>"
  have R: "require_user J U config now h q st = h q" "require_user J U config now h ?q st = h ?q" for h
    using require_user_production(1) [OF assms(1), of J U st now q h]
      require_user_production(1) [OF assms(1), of J U st now ?q h] assms(2,3) by simp_all
  show ?thesis by (simp add: user_group_route_def R handlers_auth Let_def cong: list.case_cong if_cong)
qed

lemma TrimPrefix_append [simp]: "TrimPrefix (p @ s) p = s"
  by (simp add: TrimPrefix_def HasPrefix_def)

lemma users_path:
  assumes "HQ_Path q = ''/api/v1/users/'' @ i" and "CHR ''/'' \<notin> set i"
  shows "path_parts q ''/api/v1/'' = [''users'', i]" and "path_parts q ''/api/v1/users/'' = [i]"
proof -
  have s: "''/api/v1/users/'' @ i = ''/api/v1/'' @ ''users'' @ CHR ''/'' # i" by simp
  show "path_parts q ''/api/v1/'' = [''users'', i]"
    unfolding path_parts_def assms(1) s TrimPrefix_append using assms(2) by (simp add: Split_append Split_notin)
  show "path_parts q ''/api/v1/users/'' = [i]"
    unfolding path_parts_def assms(1) TrimPrefix_append using assms(2) by (simp add: Split_notin)
qed

text \<open>The header \<open>X-User-ID: dev-admin\<close> makes an administrator of anyone with a valid token, outside
  development mode too: with it, any user can be deleted.\<close>

theorem dev_admin_header_deletes_anyone:
  assumes "\<not> UAC_DevMode config"
    and "has_valid_token J InMemoryUserStore_ops (ugs_userStore st) now (HQ_Header q ''Authorization'')"
    and "HQ_Header q ''X-User-ID'' = ''dev-admin''" and "HQ_Method q = ''DELETE''"
    and "HQ_Path q = ''/api/v1/users/'' @ victim" and "CHR ''/'' \<notin> set victim" and "victim \<noteq> []"
    and "imus_users (ugs_userStore st) victim = Some user" and "User_ID user = victim"
  shows "\<exists>st'. user_group_route J InMemoryUserStore_ops G S as config B now e q st = Some (st', 204, Inr P_none) \<and>
    imus_users (ugs_userStore st') victim = None"
proof -
  have "CanManageUsers InMemoryUserStore_ops G st (request_user q) = Inr True"
    using assms(3) by (simp add: CanManageUsers_def request_user_def)
  moreover have "DeleteUser InMemoryUserStore_ops (fst e 0) victim st =
      (st\<lparr>ugs_userStore := \<lparr>imus_users = (imus_users (ugs_userStore st))(victim := None)\<rparr>\<rparr>, None)"
    using assms(8,9) by (simp add: DeleteUser_def InMemoryUserStore_ops_def InMemoryUserStore_Get_def InMemoryUserStore_Delete_def)
  ultimately show ?thesis
    using assms(4,7) users_path [OF assms(5,6)] require_user_production(1) [OF assms(1,2)]
    by (simp add: user_group_route_def UserGroupHandler_DeleteUser_def Let_def)
qed

text \<open>A user that \<open>POST /api/v1/users\<close> has created can never log in with a password: no authentication provider
  is stored for it.\<close>

theorem created_user_cannot_log_in:
  assumes "UserGroupHandler_CreateUser InMemoryUserStore_ops G B e q st = (st', 201, r)"
    and "jb_CreateUser B (HQ_Body q) = Inr req"
  shows "\<exists>code err. Login J InMemoryUserStore_ops config cmp e' now (CUR_ID req) password (ugs_userStore st') =
    (ugs_userStore st', Inl (code, err))"
proof -
  obtain user where "imus_users (ugs_userStore st') (CUR_ID req) = Some user" "User_AuthProvider user = []"
    using assms
    by (auto simp: UserGroupHandler_CreateUser_def CreateUser_def InMemoryUserStore_ops_def InMemoryUserStore_Create_def
      Let_def split: if_splits)
  then show ?thesis
    by (simp add: Login_def AuthenticateUser_def InMemoryUserStore_ops_def InMemoryUserStore_Authenticate_def)
qed

text \<open>\<open>PUT /api/v1/users/{id}\<close> writes a user's groups without the groups' members: given a group that the user is not in,
  it breaks the agreement of both sides that the membership routes keep.\<close>

theorem UpdateUser_breaks_memberships:
  assumes "memberships_ok (imus_users (ugs_userStore st)) (imgs_groups (ugs_groupStore st))"
    and "CanManageUsers InMemoryUserStore_ops InMemoryGroupStore_ops st (request_user q) = Inr True"
    and "HQ_Method q = ''PUT''" and "HQ_Path q = ''/api/v1/users/'' @ i" and "CHR ''/'' \<notin> set i"
    and "imus_users (ugs_userStore st) i = Some user" and "imgs_groups (ugs_groupStore st) g = Some grp"
    and "i \<notin> set (Group_Members grp)"
    and "jb_UpdateUser B (HQ_Body q) = Inr req" and "UUR_Groups req = Some gs" and "g \<in> set gs"
  shows "\<exists>st' user'. UserGroupHandler_UpdateUser InMemoryUserStore_ops InMemoryGroupStore_ops B e q st =
      (st', 200, Inr (P_user user')) \<and>
    \<not> memberships_ok (imus_users (ugs_userStore st')) (imgs_groups (ugs_groupStore st'))"
proof -
  have ID: "User_ID user = i" using memberships_okD(1) [OF assms(1,6)] .
  obtain st' user' where r: "UserGroupHandler_UpdateUser InMemoryUserStore_ops InMemoryGroupStore_ops B e q st =
      (st', 200, Inr (P_user user'))"
    and u: "\<exists>u. imus_users (ugs_userStore st') i = Some u \<and> User_Groups u = gs" and "ugs_groupStore st' = ugs_groupStore st"
    using assms(2,3,6,9,10) users_path(2) [OF assms(4,5)] ID
    by (cases "UUR_Name req = []"; cases "UUR_Email req = []")
      (simp_all add: UserGroupHandler_UpdateUser_def GetUser_def UpdateUser_def InMemoryUserStore_ops_def
        InMemoryUserStore_Get_def InMemoryUserStore_Update_def Let_def)
  with assms(7,8,11) have "\<not> memberships_ok (imus_users (ugs_userStore st')) (imgs_groups (ugs_groupStore st'))"
    by (metis memberships_okD(4))
  with r show ?thesis by blast
qed

subsection \<open>Witnesses\<close>

definition ex_tokens :: jwt where
  "ex_tokens = \<lparr>jwt_sign = (\<lambda>c. Inl ''unsupported''),
     jwt_parse = (\<lambda>now s. if s = ''t1'' then Inr [''sub'' \<mapsto> String_value ''ann'']
       else if s = ''t2'' then Inr [''sub'' \<mapsto> String_value ''bob''] else Inl ''invalid'')\<rparr>"

abbreviation ex_people :: "(InMemoryUserStore, InMemoryGroupStore) UserGroupService" where
  "ex_people \<equiv> NewUserGroupService
     \<lparr>imus_users = [''ann'' \<mapsto> ex_user ''ann'' [], ''bob'' \<mapsto> ex_user ''bob'' [''admins'']]\<rparr>
     \<lparr>imgs_groups = [''admins'' \<mapsto> zero_Group\<lparr>Group_ID := ''admins'', Group_Members := [''bob''],
        Group_Permissions := [''user:manage'']\<rparr>]\<rparr>"

definition ex_bodies :: json_bodies where
  "ex_bodies = \<lparr>jb_CreateUser = (\<lambda>b. Inr \<lparr>CUR_ID = ''eve'', CUR_Name = ''Eve'', CUR_Email = ''e@x'', CUR_Groups = []\<rparr>),
     jb_UpdateUser = (\<lambda>b. Inr \<lparr>UUR_Name = [], UUR_Email = [], UUR_Groups = Some [''admins'']\<rparr>),
     jb_CreateGroup = (\<lambda>b. Inl b), jb_UpdateGroup = (\<lambda>b. Inl b), jb_AddUserToGroup = (\<lambda>b. Inl b)\<rparr>"

definition ex_request :: "string \<Rightarrow> string \<Rightarrow> string \<Rightarrow> string \<Rightarrow> http_request" where
  "ex_request m p auth uid = \<lparr>HQ_Method = m, HQ_Path = p,
     HQ_Header = (\<lambda>k. if k = ''Authorization'' then auth else if k = ''X-User-ID'' then uid else []), HQ_Body = []\<rparr>"

lemma ex_request_simps [simp]:
  "HQ_Method (ex_request m p a uid) = m" "HQ_Path (ex_request m p a uid) = p"
  "HQ_Header (ex_request m p a uid) ''Authorization'' = a" "HQ_Header (ex_request m p a uid) ''X-User-ID'' = uid"
  by (simp_all add: ex_request_def)

lemma ex_extract: "ExtractTokenFromHeader ''Bearer t1'' = Inr ''t1''" "ExtractTokenFromHeader ''Bearer t2'' = Inr ''t2''"
  "ExtractTokenFromHeader ''Bearer t3'' = Inr ''t3''"
  by code_simp+

lemma ex_tokens_valid:
  "has_valid_token ex_tokens InMemoryUserStore_ops (ugs_userStore ex_people) now ''Bearer t1''"
  "has_valid_token ex_tokens InMemoryUserStore_ops (ugs_userStore ex_people) now ''Bearer t2''"
  "\<not> has_valid_token ex_tokens InMemoryUserStore_ops (ugs_userStore ex_people) now ''Bearer t3''"
  by (simp_all add: has_valid_token_def ex_extract ValidateJWT_def ex_tokens_def InMemoryUserStore_ops_def
    InMemoryUserStore_Get_def NewUserGroupService_def is_ok_def)

lemma ex_production: "\<not> UAC_DevMode ex_auth_config"
  by (simp add: ex_auth_config_def)

abbreviation ex_request_env :: request_env where
  "ex_request_env \<equiv> (\<lambda>i. ex_env, [])"


theorem identity_is_a_header_witness:
  "user_group_route ex_tokens InMemoryUserStore_ops InMemoryGroupStore_ops InMemoryAdapterGroupAssignmentStore_ops
      (None :: (unit, _, unit) AdapterService option) ex_auth_config ex_bodies 0 ex_request_env
      ((ex_request ''DELETE'' ''/api/v1/users/bob'' ''Bearer t2'' ''bob'')\<lparr>HQ_Header :=
        (HQ_Header (ex_request ''DELETE'' ''/api/v1/users/bob'' ''Bearer t2'' ''bob''))(''Authorization'' := ''Bearer t1'')\<rparr>) ex_people =
    user_group_route ex_tokens InMemoryUserStore_ops InMemoryGroupStore_ops InMemoryAdapterGroupAssignmentStore_ops
      (None :: (unit, _, unit) AdapterService option) ex_auth_config ex_bodies 0 ex_request_env
      (ex_request ''DELETE'' ''/api/v1/users/bob'' ''Bearer t2'' ''bob'') ex_people"
  by (rule identity_is_a_header [OF ex_production]) (use ex_tokens_valid in simp_all)

theorem dev_admin_header_deletes_anyone_witness:
  "\<exists>st'. user_group_route ex_tokens InMemoryUserStore_ops InMemoryGroupStore_ops InMemoryAdapterGroupAssignmentStore_ops
      (None :: (unit, _, unit) AdapterService option) ex_auth_config ex_bodies 0 ex_request_env
      (ex_request ''DELETE'' (''/api/v1/users/'' @ ''bob'') ''Bearer t1'' ''dev-admin'') ex_people = Some (st', 204, Inr P_none) \<and>
    imus_users (ugs_userStore st') ''bob'' = None"
  by (rule dev_admin_header_deletes_anyone [OF ex_production, where user = "ex_user ''bob'' [''admins'']"])
    (use ex_tokens_valid in \<open>simp_all add: NewUserGroupService_def ex_user_def\<close>)

lemma ex_bob_manages: "CanManageUsers InMemoryUserStore_ops InMemoryGroupStore_ops ex_people ''bob'' = Inr True"
proof -
  have "permissionMatches ''user:manage'' ''user:manage''" by (simp add: permissionMatches_def)
  then show ?thesis
    by (simp add: CanManageUsers_def InMemoryUserStore_ops_def InMemoryGroupStore_ops_def InMemoryUserStore_Get_def
      InMemoryGroupStore_Get_def NewUserGroupService_def ex_user_def)
qed

theorem created_user_cannot_log_in_witness:
  "\<exists>st' r code err. UserGroupHandler_CreateUser InMemoryUserStore_ops InMemoryGroupStore_ops ex_bodies ex_request_env
      (ex_request ''POST'' ''/api/v1/users'' ''Bearer t2'' ''bob'') ex_people = (st', 201, r) \<and>
    Login ex_tokens InMemoryUserStore_ops ex_auth_config (\<lambda>h p. True) ex_env 0 ''eve'' ''secret'' (ugs_userStore st') =
      (ugs_userStore st', Inl (code, err))"
proof -
  let ?q = "ex_request ''POST'' ''/api/v1/users'' ''Bearer t2'' ''bob''"
  have "request_user ?q = ''bob''" by (simp add: request_user_def)
  then obtain st' r where C: "UserGroupHandler_CreateUser InMemoryUserStore_ops InMemoryGroupStore_ops ex_bodies
      ex_request_env ?q ex_people = (st', 201, r)"
    using ex_bob_manages
    by (simp add: UserGroupHandler_CreateUser_def ex_bodies_def CreateUser_def InMemoryUserStore_ops_def
      InMemoryUserStore_Create_def NewUserGroupService_def Let_def)
  have "jb_CreateUser ex_bodies (HQ_Body ?q) =
      Inr \<lparr>CUR_ID = ''eve'', CUR_Name = ''Eve'', CUR_Email = ''e@x'', CUR_Groups = []\<rparr>"
    by (simp add: ex_bodies_def)
  from created_user_cannot_log_in [OF C this] C show ?thesis by auto
qed

theorem UpdateUser_breaks_memberships_witness:
  "\<exists>st' user'. UserGroupHandler_UpdateUser InMemoryUserStore_ops InMemoryGroupStore_ops ex_bodies ex_request_env
      (ex_request ''PUT'' (''/api/v1/users/'' @ ''ann'') ''Bearer t2'' ''bob'') ex_people = (st', 200, Inr (P_user user')) \<and>
    \<not> memberships_ok (imus_users (ugs_userStore st')) (imgs_groups (ugs_groupStore st'))"
proof (rule UpdateUser_breaks_memberships)
  show "memberships_ok (imus_users (ugs_userStore ex_people)) (imgs_groups (ugs_groupStore ex_people))"
    by (auto simp: memberships_ok_def NewUserGroupService_def ex_user_def zero_Group_def split: if_splits)
  show "CanManageUsers InMemoryUserStore_ops InMemoryGroupStore_ops ex_people
      (request_user (ex_request ''PUT'' (''/api/v1/users/'' @ ''ann'') ''Bearer t2'' ''bob'')) = Inr True"
    using ex_bob_manages by (simp add: request_user_def)
  show "imgs_groups (ugs_groupStore ex_people) ''admins'' = Some (zero_Group\<lparr>Group_ID := ''admins'',
      Group_Members := [''bob''], Group_Permissions := [''user:manage'']\<rparr>)"
    by (simp add: NewUserGroupService_def)
  show "imus_users (ugs_userStore ex_people) ''ann'' = Some (ex_user ''ann'' [])"
    by (simp add: NewUserGroupService_def)
  show "CHR ''/'' \<notin> set ''ann''" by simp
  show "''admins'' \<in> set [''admins'']" by simp
  show "UUR_Groups \<lparr>UUR_Name = [], UUR_Email = [], UUR_Groups = Some [''admins'']\<rparr> = Some [''admins'']" by simp
qed (simp_all add: ex_bodies_def)

end
