(* ===== verification/TokenHandlers.thy ===== *)
theory TokenHandlers
  imports AdapterStores TokenManager
begin

section \<open>The tokens of adapters\<close>

text \<open>
  The handlers of \<open>internal/handlers/token_handler.go\<close> and the middleware of
  \<open>pkg/auth/adapter_middleware.go\<close>, on the adapter store in a file, which the program uses.
  \<open>Get\<close> copies an adapter, but the copy shares what \<open>Authentication\<close> points to with the stored adapter: writing the
  token of the copy writes the token in the store's memory too (not in its file), before \<open>UpsertAsync\<close> is called
  and whatever it answers. \<open>tm\<close> is the library of web tokens if there is a token manager.
\<close>

subsection \<open>Writing a token through the shared pointer\<close>

definition set_bearer_token :: "string \<Rightarrow> AdapterResource \<Rightarrow> AdapterResource" where
  "set_bearer_token token adapter = adapter\<lparr>AD_Authentication := map_option (\<lambda>a. a\<lparr>AAC_BearerToken := Some
     ((case AAC_BearerToken a of None \<Rightarrow> \<lparr>BT_Token = [], BT_Dynamic = False, BT_ExpiresAt = 0\<rparr> | Some b \<Rightarrow> b)
        \<lparr>BT_Token := token\<rparr>)\<rparr>) (AD_Authentication adapter)\<rparr>"

definition save_bearer_token ::
    "env \<Rightarrow> string \<Rightarrow> string \<Rightarrow> AdapterResource \<Rightarrow> FileAdapterStore \<Rightarrow> FileAdapterStore \<times> error option" where
  "save_bearer_token e name token adapter s =
     (let adapter' = set_bearer_token token adapter in
      FileAdapterStore_UpsertAsync e adapter' (s\<lparr>fs_entries := (fs_entries s)(name \<mapsto> adapter')\<rparr>))"

definition bearer_token :: "AdapterResource \<Rightarrow> string option" where
  "bearer_token adapter = map_option BT_Token (Option.bind (AD_Authentication adapter) AAC_BearerToken)"

definition requires_auth :: "AdapterResource \<Rightarrow> bool" where
  "requires_auth adapter = (case AD_Authentication adapter of None \<Rightarrow> False | Some a \<Rightarrow> AAC_Required a)"

subsection \<open>The handlers\<close>

datatype token_answer = Jwt_token AuthTokenInfo string | Legacy_token string string | Token_valid "AuthTokenInfo option" | Token_invalid

type_synonym token_reply = "int \<times> (string + token_answer)"

definition DefaultQuery :: "(string \<rightharpoonup> string) \<Rightarrow> string \<Rightarrow> string \<Rightarrow> string" where
  "DefaultQuery query k d = (case query k of None \<Rightarrow> d | Some v \<Rightarrow> v)"

definition GetAdapterToken ::
    "jwt option \<Rightarrow> string \<Rightarrow> env \<Rightarrow> gotime \<Rightarrow> string \<Rightarrow> (string \<rightharpoonup> string) \<Rightarrow> string \<Rightarrow> FileAdapterStore \<Rightarrow>
     FileAdapterStore \<times> token_reply" where
  "GetAdapterToken tm issuer e now tokenID query name s =
     (if name = [] then (s, 400, Inl ''Adapter name is required'')
      else case FileAdapterStore_Get s name of
        Inl _ \<Rightarrow> (s, 404, Inl ''Adapter not found'')
      | Inr adapter \<Rightarrow>
          if \<not> requires_auth adapter then (s, 400, Inl ''Adapter does not require authentication'')
          else case Atoi (DefaultQuery query ''expiresIn'' ''24'') of
            Inl _ \<Rightarrow> (s, 400, Inl ''Invalid expiresIn parameter'')
          | Inr expiresIn \<Rightarrow>
              (let generateNew = (DefaultQuery query ''generate'' ''true'' = ''true'');
                   token = (case bearer_token adapter of None \<Rightarrow> [] | Some t \<Rightarrow> t);
                   fallback = (if token \<noteq> [] then (s, 200, Inr (Legacy_token token ''Legacy token retrieved''))
                               else (s, 404, Inl ''No token available for adapter''))
               in case tm of
                 None \<Rightarrow> fallback
               | Some J \<Rightarrow>
                   (case (if token \<noteq> [] then ValidateToken J now token (AD_RemoteUrl adapter) else Inl []) of
                      Inr existing \<Rightarrow> (s, 200, Inr (Jwt_token existing ''Existing valid JWT token retrieved''))
                    | Inl _ \<Rightarrow>
                        if \<not> generateNew then fallback
                        else (case GenerateBearerToken J issuer now tokenID name (AD_RemoteUrl adapter) expiresIn of
                          Inl _ \<Rightarrow> (s, 500, Inl ''Failed to generate token'')
                        | Inr new \<Rightarrow>
                            (case save_bearer_token e name (ATI_AccessToken new) adapter s of
                               (s', Some _) \<Rightarrow> (s', 500, Inl ''Failed to update adapter with new token'')
                             | (s', None) \<Rightarrow>
                                 (s', 200, Inr (Jwt_token new ''New JWT token generated and saved to adapter'')))))))"

definition TokenHandler_ValidateToken ::
    "jwt option \<Rightarrow> gotime \<Rightarrow> string \<Rightarrow> string \<Rightarrow> FileAdapterStore \<Rightarrow> token_reply" where
  "TokenHandler_ValidateToken tm now token name s =
     (if name = [] then (400, Inl ''Adapter name is required'')
      else if token = [] then (400, Inl ''Token parameter is required'')
      else case FileAdapterStore_Get s name of
        Inl _ \<Rightarrow> (404, Inl ''Adapter not found'')
      | Inr adapter \<Rightarrow>
          (let legacy = (200, Inr (if bearer_token adapter = Some token then Token_valid None else Token_invalid)) in
           case tm of
             None \<Rightarrow> legacy
           | Some J \<Rightarrow>
               (case ValidateToken J now token (AD_RemoteUrl adapter) of
                  Inr info \<Rightarrow> (200, Inr (Token_valid (Some info))) | Inl _ \<Rightarrow> legacy)))"

text \<open>\<open>nano\<close> is what the clock gives in nanoseconds, in base 36.\<close>

definition generateLegacyToken :: "string \<Rightarrow> string" where
  "generateLegacyToken nano = ''legacy-token-'' @ nano"

definition TokenHandler_RefreshToken ::
    "jwt option \<Rightarrow> string \<Rightarrow> env \<Rightarrow> gotime \<Rightarrow> string \<Rightarrow> string \<Rightarrow> (string \<rightharpoonup> string) \<Rightarrow> string \<Rightarrow> FileAdapterStore \<Rightarrow>
     FileAdapterStore \<times> token_reply" where
  "TokenHandler_RefreshToken tm issuer e now tokenID nano query name s =
     (if name = [] then (s, 400, Inl ''Adapter name is required'')
      else case FileAdapterStore_Get s name of
        Inl _ \<Rightarrow> (s, 404, Inl ''Adapter not found'')
      | Inr adapter \<Rightarrow>
          if \<not> requires_auth adapter then (s, 400, Inl ''Adapter does not require authentication'')
          else case Atoi (DefaultQuery query ''expiresIn'' ''24'') of
            Inl _ \<Rightarrow> (s, 400, Inl ''Invalid expiresIn parameter'')
          | Inr expiresIn \<Rightarrow>
              (case tm of
                 Some J \<Rightarrow>
                   (case GenerateBearerToken J issuer now tokenID name (AD_RemoteUrl adapter) expiresIn of
                      Inl _ \<Rightarrow> (s, 500, Inl ''Failed to generate new token'')
                    | Inr new \<Rightarrow>
                        (case save_bearer_token e name (ATI_AccessToken new) adapter s of
                           (s', Some _) \<Rightarrow> (s', 500, Inl ''Failed to update adapter with new token'')
                         | (s', None) \<Rightarrow> (s', 200, Inr (Jwt_token new ''Token refreshed successfully''))))
               | None \<Rightarrow>
                   (case save_bearer_token e name (generateLegacyToken nano) adapter s of
                      (s', Some _) \<Rightarrow> (s', 500, Inl ''Failed to update adapter with new token'')
                    | (s', None) \<Rightarrow> (s', 200, Inr (Legacy_token (generateLegacyToken nano)
                        ''Legacy token refreshed successfully'')))))"

subsection \<open>The middleware\<close>

text \<open>A request passes as a user with a kind of authentication, or as nobody when the adapter does not exist.\<close>

definition AdapterAuthMiddleware ::
    "jwt option \<Rightarrow> gotime \<Rightarrow> string \<Rightarrow> string \<Rightarrow> string \<Rightarrow> FileAdapterStore \<Rightarrow> (string \<times> string) option pass" where
  "AdapterAuthMiddleware tm now url name authHeader s =
     (case FileAdapterStore_Get s name of
        Inl _ \<Rightarrow> Pass None
      | Inr adapter \<Rightarrow>
          (case AD_Authentication adapter of
             None \<Rightarrow> Pass (Some (''anonymous'', ''none''))
           | Some a \<Rightarrow>
               if \<not> AAC_Required a then Pass (Some (''anonymous'', ''none''))
               else if authHeader = [] then Abort 401 ''MISSING_AUTH_HEADER''
               else if AAC_Type a = ''bearer'' then
                 (case ExtractTokenFromHeader authHeader of
                    Inl _ \<Rightarrow> Abort 401 ''INVALID_AUTH_FORMAT''
                  | Inr token \<Rightarrow>
                      (let legacy = (if bearer_token adapter = Some token
                             then Pass (Some (''authenticated-user'', ''bearer_legacy''))
                             else Abort 401 ''INVALID_TOKEN'') in
                       case tm of
                         None \<Rightarrow> legacy
                       | Some J \<Rightarrow>
                           (case ValidateToken J now token url of
                              Inr info \<Rightarrow> Pass (Some (ATI_Subject info, ''bearer_jwt'')) | Inl _ \<Rightarrow> legacy)))
               else if AAC_Type a = ''oauth'' then
                 (case OAuthMiddleware True authHeader of
                    Abort code err \<Rightarrow> Abort code err | Pass user \<Rightarrow> Pass (Some (user, [])))
               else Abort 401 ''UNSUPPORTED_AUTH_TYPE''))"

subsection \<open>Lemmas\<close>

lemma set_bearer_token_simps [simp]:
  "AR_ID (set_bearer_token t a) = AR_ID a"
  "AD_RemoteUrl (set_bearer_token t a) = AD_RemoteUrl a"
  "requires_auth (set_bearer_token t a) = requires_auth a"
  "AD_Authentication a \<noteq> None \<Longrightarrow> bearer_token (set_bearer_token t a) = Some t"
  by (auto simp: set_bearer_token_def requires_auth_def bearer_token_def split: option.splits)

text \<open>\<open>UpsertAsync\<close> refuses every adapter that is there.\<close>

lemma save_bearer_token_fails:
  assumes "fs_entries s name = Some adapter" and "AR_ID adapter = name"
  shows "save_bearer_token e name token adapter s =
    (s\<lparr>fs_entries := (fs_entries s)(name \<mapsto> set_bearer_token token adapter)\<rparr>,
     Some (''adapter with ID '' @ name @ '' already exists''))"
  using assms by (simp add: save_bearer_token_def FileAdapterStore_UpsertAsync_def FileAdapterStore_Create_def Let_def)

lemma GenerateBearerToken_audience:
  assumes "jwt_ok J" and "GenerateBearerToken J issuer now tokenID name audience hours = Inr ti"
    and "now' < Unix (ATI_ExpiresAt ti) * second"
  shows "\<exists>info. ValidateToken J now' (ATI_AccessToken ti) audience = Inr info \<and> ATI_AccessToken info = ATI_AccessToken ti"
  using assms(2)
proof (rule GenerateBearerToken_ok)
  fix x
  assume x: "ATI_ExpiresAt ti = x"
    and sign: "jwt_sign J (bearer_claims tokenID name audience issuer now x) = Inr (ATI_AccessToken ti)"
  have "\<not> Unix now' > Unix x" using assms(3) x by (simp add: Unix_def)
  then show ?thesis
    using jwt_okD(1) [OF assms(1) sign bearer_claims_simps(1), of now'] assms(3) x
    by (simp add: ValidateToken_def float_claim_def getStringClaim_def)
qed

subsection \<open>Properties\<close>

text \<open>A refresh never succeeds: with a token manager, the refresh of any adapter in the store is answered with an
  error. The token in the store's memory is replaced all the same, so that the old one is void.\<close>

theorem token_refresh_fails_and_replaces:
  assumes "fs_entries s name = Some adapter" and "AR_ID adapter = name" and "name \<noteq> []" and "requires_auth adapter"
    and "Atoi (DefaultQuery query ''expiresIn'' ''24'') = Inr hours"
    and "GenerateBearerToken J issuer now tokenID name (AD_RemoteUrl adapter) hours = Inr new"
  shows "\<exists>s'. TokenHandler_RefreshToken (Some J) issuer e now tokenID nano query name s =
      (s', 500, Inl ''Failed to update adapter with new token'') \<and>
    map_option bearer_token (fs_entries s' name) = Some (Some (ATI_AccessToken new)) \<and> fs_disk s' = fs_disk s"
proof -
  have "AD_Authentication adapter \<noteq> None" using assms(4) by (auto simp: requires_auth_def split: option.splits)
  then show ?thesis
    using assms by (simp add: TokenHandler_RefreshToken_def FileAdapterStore_Get_def save_bearer_token_fails)
qed

text \<open>Anyone may ask for an adapter's token, and gets it: a first request without a stored token fails, but leaves a
  new token in the store, and a second request before it expires is answered with that token, which the
  middleware then accepts for any URL.\<close>

theorem second_token_request_opens_adapter:
  assumes "jwt_ok J" and "fs_entries s name = Some adapter" and "AR_ID adapter = name" and "name \<noteq> []"
    and "AD_Authentication adapter = Some a" and "AAC_Required a" and "AAC_Type a = ''bearer''" and "AAC_BearerToken a = None"
    and "GenerateBearerToken J issuer now tokenID name (AD_RemoteUrl adapter) 24 = Inr new"
    and "ATI_AccessToken new \<noteq> []" and "now' < Unix (ATI_ExpiresAt new) * second"
    and "ExtractTokenFromHeader header = Inr (ATI_AccessToken new)"
  shows "\<exists>s1 msg info msg' user kind.
    GetAdapterToken (Some J) issuer e now tokenID Map.empty name s = (s1, 500, Inl msg) \<and>
    GetAdapterToken (Some J) issuer e' now' tokenID' Map.empty name s1 = (s1, 200, Inr (Jwt_token info msg')) \<and>
    ATI_AccessToken info = ATI_AccessToken new \<and>
    AdapterAuthMiddleware (Some J) now'' url name header s1 = Pass (Some (user, kind))"
proof -
  let ?a = "set_bearer_token (ATI_AccessToken new) adapter"
  let ?s = "s\<lparr>fs_entries := (fs_entries s)(name \<mapsto> ?a)\<rparr>"
  have n: "Atoi ''24'' = Inr 24" by code_simp
  have r: "requires_auth adapter" using assms(5,6) by (simp add: requires_auth_def)
  obtain info where I: "ValidateToken J now' (ATI_AccessToken new) (AD_RemoteUrl adapter) = Inr info"
    "ATI_AccessToken info = ATI_AccessToken new"
    using GenerateBearerToken_audience [OF assms(1,9,11)] by blast
  have "GetAdapterToken (Some J) issuer e now tokenID Map.empty name s =
      (?s, 500, Inl ''Failed to update adapter with new token'')"
    using assms(2-5,8,9) r
    by (simp add: GetAdapterToken_def FileAdapterStore_Get_def DefaultQuery_def n bearer_token_def save_bearer_token_fails
      Let_def)
  moreover have "GetAdapterToken (Some J) issuer e' now' tokenID' Map.empty name ?s =
      (?s, 200, Inr (Jwt_token info ''Existing valid JWT token retrieved''))"
    using assms(4,5,10) r I(1) by (simp add: GetAdapterToken_def FileAdapterStore_Get_def DefaultQuery_def n Let_def)
  moreover have "\<exists>user kind. AdapterAuthMiddleware (Some J) now'' url name header ?s = Pass (Some (user, kind))"
  proof -
    have "header \<noteq> []" using assms(12) by (auto simp: ExtractTokenFromHeader_def)
    moreover have "\<exists>a'. AD_Authentication ?a = Some a' \<and> AAC_Required a' \<and> AAC_Type a' = ''bearer''"
      using assms(5-7) by (simp add: set_bearer_token_def)
    moreover have "bearer_token ?a = Some (ATI_AccessToken new)" using assms(5) by simp
    ultimately show ?thesis
      using assms(12) by (auto simp: AdapterAuthMiddleware_def FileAdapterStore_Get_def Let_def split: sum.split)
  qed
  ultimately show ?thesis using I(2) by blast
qed

text \<open>The token that is stored with an adapter never expires for the middleware, whatever its claims say: what
  is no longer valid as a web token still is as a legacy token.\<close>

theorem stored_token_never_expires:
  assumes "fs_entries s name = Some adapter" and "AD_Authentication adapter = Some a" and "AAC_Required a"
    and "AAC_Type a = ''bearer''" and "bearer_token adapter = Some token"
    and "ExtractTokenFromHeader header = Inr token"
  shows "\<exists>user kind. AdapterAuthMiddleware tm now url name header s = Pass (Some (user, kind))"
proof -
  have "header \<noteq> []" using assms(6) by (auto simp: ExtractTokenFromHeader_def)
  then show ?thesis
    using assms by (auto simp: AdapterAuthMiddleware_def FileAdapterStore_Get_def Let_def split: sum.split option.split)
qed

subsection \<open>Witnesses\<close>

definition ex_secured_auth :: AdapterAuthConfig where
  "ex_secured_auth = \<lparr>AAC_Required = True, AAC_Type = ''bearer'', AAC_BearerToken = None, AAC_OAuth = None,
     AAC_Basic = None, AAC_APIKey = None\<rparr>"

definition ex_secured :: AdapterResource where
  "ex_secured = AdapterData.extend (zero_AdapterData\<lparr>AD_Name := ''weather'', AD_RemoteUrl := ''http://a'',
     AD_Authentication := Some ex_secured_auth\<rparr>)
     (AdapterResource.fields ''weather'' ''ann'' 0 0)"

abbreviation ex_adapters :: "AdapterResource \<Rightarrow> FileAdapterStore" where
  "ex_adapters a \<equiv> \<lparr>fs_filePath = ''a'', fs_entries = [''weather'' \<mapsto> a], fs_crypto = None, fs_disk = healthy_disk\<rparr>"

abbreviation ex_token_env :: env where
  "ex_token_env \<equiv> \<lparr>env_now = 0, env_now' = 0, env_order = []\<rparr>"

lemma ex_secured_simps [simp]:
  "AR_ID ex_secured = ''weather''" "AD_RemoteUrl ex_secured = ''http://a''"
  "AD_Authentication ex_secured = Some ex_secured_auth" "requires_auth ex_secured"
  "AAC_Required ex_secured_auth" "AAC_Type ex_secured_auth = ''bearer''" "AAC_BearerToken ex_secured_auth = None"
  by (simp_all add: ex_secured_def ex_secured_auth_def AdapterData.defs AdapterResource.defs zero_AdapterData_def requires_auth_def)

lemma ex_generated: "\<exists>ti. GenerateBearerToken ex_jwt ''mcp-gateway'' 0 ''t1'' ''weather'' (AD_RemoteUrl ex_secured) 24 = Inr ti \<and>
    ATI_AccessToken ti = ''tok'' \<and> ATI_ExpiresAt ti = 24 * hour"
  by (simp add: GenerateBearerToken_def ex_jwt_def ex_claims_def Let_def)

lemma ex_bearer_tok: "ExtractTokenFromHeader ''Bearer tok'' = Inr ''tok''" "Atoi ''24'' = Inr 24"
  by code_simp+

theorem token_refresh_fails_and_replaces_witness:
  "\<exists>s'. TokenHandler_RefreshToken (Some ex_jwt) ''mcp-gateway'' ex_token_env 0 ''t1'' [] Map.empty ''weather'' (ex_adapters ex_secured) =
      (s', 500, Inl ''Failed to update adapter with new token'') \<and>
    map_option bearer_token (fs_entries s' ''weather'') = Some (Some ''tok'') \<and>
    fs_disk s' = fs_disk (ex_adapters ex_secured)"
proof -
  obtain ti where "GenerateBearerToken ex_jwt ''mcp-gateway'' 0 ''t1'' ''weather'' (AD_RemoteUrl ex_secured) 24 = Inr ti"
    "ATI_AccessToken ti = ''tok''" using ex_generated by blast
  from token_refresh_fails_and_replaces [where s = "ex_adapters ex_secured", OF _ _ _ _ _ this(1), of Map.empty ex_token_env "[]"] this(2)
  show ?thesis by (auto simp: DefaultQuery_def ex_bearer_tok)
qed

theorem second_token_request_opens_adapter_witness:
  "\<exists>s1 msg info msg' user kind.
    GetAdapterToken (Some ex_jwt) ''mcp-gateway'' ex_token_env 0 ''t1'' Map.empty ''weather'' (ex_adapters ex_secured) = (s1, 500, Inl msg) \<and>
    GetAdapterToken (Some ex_jwt) ''mcp-gateway'' ex_token_env second ''t2'' Map.empty ''weather'' s1 = (s1, 200, Inr (Jwt_token info msg')) \<and>
    AdapterAuthMiddleware (Some ex_jwt) (2 * second) ''/api/v1/adapters/weather/mcp'' ''weather'' ''Bearer tok'' s1 =
      Pass (Some (user, kind))"
proof -
  obtain ti where ti: "GenerateBearerToken ex_jwt ''mcp-gateway'' 0 ''t1'' ''weather'' (AD_RemoteUrl ex_secured) 24 = Inr ti"
    "ATI_AccessToken ti = ''tok''" "ATI_ExpiresAt ti = 24 * hour" using ex_generated by blast
  have "second < Unix (ATI_ExpiresAt ti) * second" using ti(3) by (simp add: Unix_def)
  from second_token_request_opens_adapter [OF ex_jwt_ok, where s = "ex_adapters ex_secured", OF _ _ _ _ _ _ _ ti(1) _ this,
      where header = "''Bearer tok''" and e = ex_token_env and e' = ex_token_env and tokenID' = "''t2''" and now'' = "2 * second"
      and url = "''/api/v1/adapters/weather/mcp''"] ti(2) ex_bearer_tok(1)
  show ?thesis by fastforce
qed

theorem stored_token_never_expires_witness:
  "\<exists>user kind. AdapterAuthMiddleware (Some ex_jwt) (99999999 * hour) ''/mcp'' ''weather'' ''Bearer tok''
      (ex_adapters (set_bearer_token ''tok'' ex_secured)) = Pass (Some (user, kind))"
proof (rule stored_token_never_expires [where token = "''tok''"])
  show "AD_Authentication (set_bearer_token ''tok'' ex_secured) =
      Some (ex_secured_auth\<lparr>AAC_BearerToken := Some \<lparr>BT_Token = ''tok'', BT_Dynamic = False, BT_ExpiresAt = 0\<rparr>\<rparr>)"
    by (simp add: set_bearer_token_def)
qed (simp_all add: ex_bearer_tok)

end
