(* ===== verification/AdapterHandlers.thy ===== *)
theory AdapterHandlers
  imports AdapterCreation UserGroupHandlers
begin

section \<open>The routes of adapters\<close>

text \<open>
  \<open>internal/handlers/adapters.go\<close>: the REST interface of the adapter service, the client configurations, and the
  proxies in front of remote servers and sidecars. The routes carry no middleware (\<open>cmd/uniproxy/main.go\<close>): the
  user is who the header says. \<open>X\<close> are the operations of the stores that the services were given, \<open>us\<close> the state of
  the user and group service, which the handlers only read. What JSON makes of a body is an argument.
\<close>

record ('a, 's, 't, 'us, 'gs, 'r) service_ops =
  so_adapters :: "'a AdapterResourceStore"
  so_assignments :: "'s AdapterGroupAssignmentStore"
  so_tokens :: "'t UserAdapterTokenStore"
  so_users :: "'us UserStore"
  so_groups :: "'gs GroupStore"
  so_registry :: "'r MCPServerStore"

record CreateAdapterRequest =
  CAR_MCPServerID :: string
  CAR_Name :: string
  CAR_Description :: string
  CAR_EnvironmentVariables :: "string \<rightharpoonup> string"
  CAR_Authentication :: "AdapterAuthConfig option"
  CAR_DeploymentMethod :: string

text \<open>The configuration of a client for one adapter. The maps for Gemini and for VSCode hold the same name, URL and
  headers; both are absent without a URL.\<close>

record client_entry =
  CE_Name :: string
  CE_URL :: string
  CE_Headers :: "string \<rightharpoonup> string"

record CreateAdapterResponse =
  CARes_ID :: string
  CARes_MCPServerID :: string
  CARes_MCPClientConfig :: "client_entry option"
  CARes_Capabilities :: "MCPFunctionality option"
  CARes_Status :: string
  CARes_CreatedAt :: gotime

datatype adapter_payload = AP_created CreateAdapterResponse | AP_list "(AdapterResource \<times> client_entry option) list"
  | AP_adapter AdapterResource | AP_status string string | AP_assignments "AdapterGroupAssignment list"
  | AP_config "string \<rightharpoonup> client_entry" | AP_initialized string | AP_response "string \<rightharpoonup> string list" string | AP_none

type_synonym adapter_reply = "int \<times> (string + adapter_payload)"

abbreviation bad_method :: adapter_reply where
  "bad_method \<equiv> (405, Inl ''Method not allowed'')"

abbreviation no_page :: adapter_reply where
  "no_page \<equiv> (404, Inl ''404 page not found'')"

definition adapter_parts :: "http_request \<Rightarrow> string list" where
  "adapter_parts q = path_parts q ''/api/v1/adapters/''"

subsection \<open>Client configurations\<close>

definition parseTrentoConfig :: "string \<Rightarrow> (string \<times> string) result" where
  "parseTrentoConfig config =
     (if config = [] then Inl ''TRENTO_CONFIG cannot be empty''
      else let parts = Split config CHR '','' in
      if length parts \<noteq> 2
      then Inl (''invalid TRENTO_CONFIG format, expected '' @ [CHR 0x27] @ ''TRENTO_URL={url},TOKEN={pat}'' @ [CHR 0x27])
      else let (urlPart, tokenPart) = foldl (\<lambda>(u, t) part0.
                 let part = TrimSpace part0 in
                 if HasPrefix part ''TRENTO_URL='' then (TrimPrefix part ''TRENTO_URL='', t)
                 else if HasPrefix part ''TOKEN='' then (u, TrimPrefix part ''TOKEN='') else (u, t)) ([], []) parts in
      if urlPart = [] then Inl ''TRENTO_URL not found in TRENTO_CONFIG''
      else if tokenPart = [] then Inl ''TOKEN not found in TRENTO_CONFIG''
      else Inr (urlPart, tokenPart))"

text \<open>The entry under the adapter's name, or any (the first that the iteration \<open>ks\<close> gives). With secrets, a token of
  the user's own is put into the headers, or else the adapter's token. \<open>token_env\<close>: the clock readings, the
  runtime's part and the random string of \<open>GetOrCreateUserAdapterToken\<close>.\<close>

record token_env =
  te_now :: gotime
  te_now' :: gotime
  te_now'' :: gotime
  te_env :: env
  te_random :: string

definition stored_server_config :: "string list \<Rightarrow> AdapterResource \<Rightarrow> MCPServerConfig option" where
  "stored_server_config ks adapter =
     (let servers = MCC_MCPServers (AD_MCPClientConfig adapter) in
      case servers (AD_Name adapter) of
        Some config \<Rightarrow> Some config
      | None \<Rightarrow> (case range_values servers ks of [] \<Rightarrow> None | cfg # _ \<Rightarrow> Some cfg))"

definition client_headers ::
    "('a, 's, 't, 'us, 'gs, 'r) service_ops \<Rightarrow> token_env \<Rightarrow> AdapterResource \<Rightarrow> string \<Rightarrow> bool \<Rightarrow>
     ('a, 's, 't) AdapterService \<Rightarrow> ('a, 's, 't) AdapterService \<times> (string \<rightharpoonup> string)" where
  "client_headers X te adapter userID includeSecrets st =
     (if includeSecrets then
        (case GetOrCreateUserAdapterToken (so_adapters X) (so_tokens X) (te_now te) (te_now' te) (te_now'' te) (te_env te)
                (te_random te) userID (AR_ID adapter) st of
           (st', Inr userToken) \<Rightarrow>
             (st', [''Authorization'' \<mapsto> ''Bearer '' @ userToken, ''X-User-ID'' \<mapsto> userID])
         | (st', Inl _) \<Rightarrow>
             (st', [''Authorization'' \<mapsto>
                (case Option.bind (AD_Authentication adapter) AAC_BearerToken of
                   Some b \<Rightarrow> ''Bearer '' @ BT_Token b | None \<Rightarrow> ''Bearer adapter-session-token''),
                ''X-User-ID'' \<mapsto> userID]))
      else (st, [''Authorization'' \<mapsto> ''Bearer adapter-session-token'', ''X-User-ID'' \<mapsto> userID]))"

definition generateClientConfig ::
    "('a, 's, 't, 'us, 'gs, 'r) service_ops \<Rightarrow> token_env \<Rightarrow> string list \<Rightarrow> AdapterResource \<Rightarrow> string \<Rightarrow> bool \<Rightarrow>
     ('a, 's, 't) AdapterService \<Rightarrow> ('a, 's, 't) AdapterService \<times> client_entry option" where
  "generateClientConfig X te ks adapter userID includeSecrets st =
     (case stored_server_config ks adapter of
        None \<Rightarrow> (st, None)
      | Some serverConfig \<Rightarrow>
          if MSC_URL serverConfig = [] \<and> MSC_Command serverConfig = [] then (st, None)
          else (case client_headers X te adapter userID includeSecrets st of
            (st', headers) \<Rightarrow>
              (st', if MSC_URL serverConfig = [] then None
                    else Some \<lparr>CE_Name = AD_Name adapter, CE_URL = MSC_URL serverConfig, CE_Headers = headers\<rparr>)))"

subsection \<open>Creating and listing\<close>

record create_env =
  ce_writes :: "nat \<Rightarrow> env"
  ce_assigns :: "nat \<Rightarrow> env"
  ce_now :: gotime
  ce_now' :: gotime
  ce_servers :: "string list"
  ce_groups :: "string list"
  ce_token :: string
  ce_sidecars :: sidecar_env
  ce_manager :: "(AdapterResource \<Rightarrow> error option) option"

text \<open>The rewriting of the request for the server \<open>suse-trento\<close>: the combined variable is split, its URL becomes a
  variable and its token goes to the authentication.\<close>

definition trento_request :: "CreateAdapterRequest \<Rightarrow> CreateAdapterRequest result" where
  "trento_request req =
     (if CAR_MCPServerID req \<noteq> ''suse-trento'' then Inr req
      else case CAR_EnvironmentVariables req ''TRENTO_CONFIG'' of
        None \<Rightarrow> Inr req
      | Some trentoConfig \<Rightarrow>
          if trentoConfig = [] then Inr req
          else case parseTrentoConfig trentoConfig of
            Inl err \<Rightarrow> Inl err
          | Inr (trentoURL, token) \<Rightarrow>
              (let auth0 = (case CAR_Authentication req of
                     None \<Rightarrow> \<lparr>AAC_Required = False, AAC_Type = [], AAC_BearerToken = None, AAC_OAuth = None,
                               AAC_Basic = None, AAC_APIKey = None\<rparr>
                   | Some a \<Rightarrow> a) in
               Inr (req\<lparr>CAR_EnvironmentVariables := (CAR_EnvironmentVariables req)
                      (''TRENTO_URL'' \<mapsto> trentoURL, ''TRENTO_CONFIG'' := None),
                    CAR_Authentication := Some (auth0\<lparr>AAC_Type := ''bearer'', AAC_BearerToken := Some
                      \<lparr>BT_Token = token, BT_Dynamic = False, BT_ExpiresAt = 0\<rparr>\<rparr>)\<rparr>)))"

definition AdapterHandler_CreateAdapter ::
    "('a, 's, 't, 'us, 'gs, 'r) service_ops \<Rightarrow> create_env \<Rightarrow> token_env \<Rightarrow> string list \<Rightarrow> 'r \<Rightarrow>
     (string \<Rightarrow> CreateAdapterRequest result) \<Rightarrow> http_request \<Rightarrow> ('us, 'gs) UserGroupService \<Rightarrow>
     ('a, 's, 't) AdapterService \<Rightarrow> (('a, 's, 't) AdapterService \<times> adapter_reply) option" where
  "AdapterHandler_CreateAdapter X ce te ks rs decode q us st =
     (case decode (HQ_Body q) of
        Inl err \<Rightarrow> Some (st, 400, Inl (''Invalid JSON: '' @ err))
      | Inr req \<Rightarrow>
          if CAR_MCPServerID req = [] \<or> CAR_Name req = []
          then Some (st, 400, Inl ''mcpServerId and name are required'')
          else case trento_request req of
            Inl err \<Rightarrow> Some (st, 400, Inl (''Invalid TRENTO_CONFIG format: '' @ err))
          | Inr req' \<Rightarrow>
              (case CreateAdapter (so_adapters X) (so_assignments X) (so_registry X) (so_groups X) (Some us)
                      (ce_writes ce) (ce_assigns ce) (ce_now ce) (ce_now' ce) (ce_servers ce) (ce_groups ce) (ce_token ce)
                      (ce_sidecars ce) (ce_manager ce) rs (request_user q) (CAR_MCPServerID req') (CAR_Name req')
                      (CAR_EnvironmentVariables req') (CAR_Authentication req') st of
                 None \<Rightarrow> None
               | Some (st', Inl err) \<Rightarrow> Some (st', 500, Inl (''Failed to create adapter: '' @ err))
               | Some (st', Inr adapter) \<Rightarrow>
                   (case generateClientConfig X te ks adapter (request_user q) False st' of
                      (st'', config) \<Rightarrow> Some (st'', 201, Inr (AP_created
                        \<lparr>CARes_ID = AR_ID adapter, CARes_MCPServerID = CAR_MCPServerID req', CARes_MCPClientConfig = config,
                         CARes_Capabilities = AD_MCPFunctionality adapter, CARes_Status = ''ready'',
                         CARes_CreatedAt = AR_CreatedAt adapter\<rparr>)))))"

text \<open>The orders of the iterations of a listing, and of the map of servers of each adapter.\<close>

record list_env =
  le_adapters :: "string list"
  le_assignments :: "nat \<Rightarrow> string list"
  le_granted :: "string list"
  le_servers :: "string list"

abbreviation service_list ::
    "('a, 's, 't, 'us, 'gs, 'r) service_ops \<Rightarrow> list_env \<Rightarrow> string \<Rightarrow> ('us, 'gs) UserGroupService \<Rightarrow>
     ('a, 's, 't) AdapterService \<Rightarrow> ((AdapterResource list) result) option" where
  "service_list X le userID us st \<equiv> ListAdapters (so_adapters X) (so_assignments X) (so_users X) (so_groups X) (Some us)
     (le_adapters le) (le_assignments le) (le_granted le) st userID"

abbreviation service_get ::
    "('a, 's, 't, 'us, 'gs, 'r) service_ops \<Rightarrow> string \<Rightarrow> string \<Rightarrow> ('us, 'gs) UserGroupService \<Rightarrow>
     ('a, 's, 't) AdapterService \<Rightarrow> AdapterResource result" where
  "service_get X userID adapterID us st \<equiv>
     GetAdapter (so_adapters X) (so_assignments X) (so_users X) (so_groups X) (Some us) st userID adapterID"

text \<open>Without secrets a client configuration changes nothing.\<close>

definition AdapterHandler_ListAdapters ::
    "('a, 's, 't, 'us, 'gs, 'r) service_ops \<Rightarrow> list_env \<Rightarrow> token_env \<Rightarrow> http_request \<Rightarrow> ('us, 'gs) UserGroupService \<Rightarrow>
     ('a, 's, 't) AdapterService \<Rightarrow> adapter_reply option" where
  "AdapterHandler_ListAdapters X le te q us st =
     (if HQ_Method q \<noteq> ''GET'' then Some bad_method
      else case service_list X le (request_user q) us st of
        None \<Rightarrow> None
      | Some (Inl err) \<Rightarrow> Some (500, Inl (''Failed to list adapters: '' @ err))
      | Some (Inr adapters) \<Rightarrow> Some (200, Inr (AP_list (map (\<lambda>adapter. (adapter,
          snd (generateClientConfig X te (le_servers le) adapter (request_user q) False st))) adapters))))"

definition AdapterHandler_GetAdapter ::
    "('a, 's, 't, 'us, 'gs, 'r) service_ops \<Rightarrow> http_request \<Rightarrow> ('us, 'gs) UserGroupService \<Rightarrow>
     ('a, 's, 't) AdapterService \<Rightarrow> adapter_reply" where
  "AdapterHandler_GetAdapter X q us st =
     (if HQ_Method q \<noteq> ''GET'' then bad_method
      else case service_get X (request_user q) (adapter_parts q ! 0) us st of
        Inr adapter \<Rightarrow> (200, Inr (AP_adapter adapter))
      | Inl err \<Rightarrow> if err = ''adapter not found'' then (404, Inl ''Adapter not found'')
          else (500, Inl (''Failed to get adapter: '' @ err)))"

definition AdapterHandler_UpdateAdapter ::
    "('a, 's, 't, 'us, 'gs, 'r) service_ops \<Rightarrow> env \<Rightarrow> gotime \<Rightarrow> (string \<Rightarrow> AdapterResource result) \<Rightarrow> http_request \<Rightarrow>
     ('us, 'gs) UserGroupService \<Rightarrow> ('a, 's, 't) AdapterService \<Rightarrow> ('a, 's, 't) AdapterService \<times> adapter_reply" where
  "AdapterHandler_UpdateAdapter X e now decode q us st =
     (if HQ_Method q \<noteq> ''PUT'' then (st, bad_method)
      else case service_get X (request_user q) (adapter_parts q ! 0) us st of
        Inl err \<Rightarrow> (st, if err = ''adapter not found'' then (404, Inl ''Adapter not found'')
          else (500, Inl (''Failed to get adapter: '' @ err)))
      | Inr currentAdapter \<Rightarrow>
          (case decode (HQ_Body q) of
             Inl err \<Rightarrow> (st, 400, Inl (''Invalid JSON: '' @ err))
           | Inr body \<Rightarrow>
               (let updateAdapter = body\<lparr>AR_ID := AR_ID currentAdapter, AR_CreatedBy := AR_CreatedBy currentAdapter,
                      AR_CreatedAt := AR_CreatedAt currentAdapter, AR_LastUpdatedAt := now\<rparr> in
                case UpdateAdapter (so_adapters X) (so_assignments X) (so_users X) (so_groups X) (Some us) e
                       (request_user q) updateAdapter st of
                  (st', Some err) \<Rightarrow> (st', 500, Inl (''Failed to update adapter: '' @ err))
                | (st', None) \<Rightarrow> (st', 200, Inr (AP_adapter updateAdapter)))))"

definition AdapterHandler_CheckAdapterHealth ::
    "('a, 's, 't, 'us, 'gs, 'r) service_ops \<Rightarrow> env \<Rightarrow> sidecar_env \<Rightarrow> (AdapterResource \<Rightarrow> error option) option \<Rightarrow>
     http_request \<Rightarrow> ('us, 'gs) UserGroupService \<Rightarrow> ('a, 's, 't) AdapterService \<Rightarrow>
     ('a, 's, 't) AdapterService \<times> adapter_reply" where
  "AdapterHandler_CheckAdapterHealth X e W sm q us st =
     (if HQ_Method q \<noteq> ''POST'' then (st, bad_method)
      else let adapterID = adapter_parts q ! 0 in
      case CheckAdapterHealth (so_adapters X) (so_assignments X) (so_users X) (so_groups X) (Some us) e W sm
             (request_user q) adapterID st of
        (st', Some err) \<Rightarrow> (st', if Contains err ''not found'' then (404, Inl ''Adapter not found'')
          else (500, Inl (''Failed to check adapter health: '' @ err)))
      | (st', None) \<Rightarrow> (st', 200, Inr (AP_status ''Adapter health check completed'' adapterID)))"

definition AdapterHandler_DeleteAdapter ::
    "('a, 's, 't, 'us, 'gs, 'r) service_ops \<Rightarrow> env \<Rightarrow> http_request \<Rightarrow> ('us, 'gs) UserGroupService \<Rightarrow>
     ('a, 's, 't) AdapterService \<Rightarrow> ('a, 's, 't) AdapterService \<times> adapter_reply" where
  "AdapterHandler_DeleteAdapter X e q us st =
     (if HQ_Method q \<noteq> ''DELETE'' then (st, bad_method)
      else case DeleteAdapter (so_adapters X) (so_assignments X) (so_users X) (so_groups X) (Some us) e
             (request_user q) (adapter_parts q ! 0) st of
        (st', Some err) \<Rightarrow> (st', if err = ''adapter not found'' then (404, Inl ''Adapter not found'')
          else (500, Inl (''Failed to delete adapter: '' @ err)))
      | (st', None) \<Rightarrow> (st', 204, Inr AP_none))"

subsection \<open>The proxies\<close>

text \<open>The headers for a remote server: those of the client, but for \<open>Authorization\<close>, which is replaced by a token of
  the adapter's environment, if there is one.\<close>

definition remote_headers :: "(string \<rightharpoonup> string) \<Rightarrow> (string \<rightharpoonup> string list) \<Rightarrow> (string \<rightharpoonup> string list)" where
  "remote_headers envs h =
     (let var = (\<lambda>k. case envs k of None \<Rightarrow> [] | Some v \<Rightarrow> v);
          token = (if var ''GITHUB_PERSONAL_ACCESS_TOKEN'' \<noteq> [] then var ''GITHUB_PERSONAL_ACCESS_TOKEN''
                   else var ''GITHUB_ACCESS_TOKEN'');
          h' = h(''Authorization'' :=
            (if h ''Authorization'' \<noteq> None \<and> token \<noteq> [] then Some [''Bearer '' @ token] else None))
      in header_default ''Content-Type'' ''application/json'' h')"

definition proxyToRemoteMCP ::
    "('a, 's, 't, 'us, 'gs, 'r) service_ops \<Rightarrow> (forwarded \<Rightarrow> sent) \<Rightarrow> http_request \<Rightarrow> (string \<rightharpoonup> string list) \<Rightarrow> string \<Rightarrow>
     ('us, 'gs) UserGroupService \<Rightarrow> ('a, 's, 't) AdapterService \<Rightarrow> adapter_reply" where
  "proxyToRemoteMCP X send q h remoteURL us st =
     (case service_get X (request_user q) (adapter_parts q ! 0) us st of
        Inl _ \<Rightarrow> (404, Inl ''Adapter not found'')
      | Inr adapter \<Rightarrow>
          (case send \<lparr>FW_Method = HQ_Method q, FW_URL = remoteURL,
                  FW_Header = remote_headers (AD_EnvironmentVariables adapter) h, FW_Body = HQ_Body q\<rparr> of
             Bad_request _ \<Rightarrow> (500, Inl ''Failed to create remote request'')
           | Unreachable _ \<Rightarrow> (502, Inl ''Failed to connect to remote MCP server'')
           | Answered resp \<Rightarrow> (PX_Status resp, Inr (AP_response (PX_Header resp) (PX_Body resp)))))"

definition sidecar_base :: "string \<Rightarrow> string" where
  "sidecar_base adapterID = ''http://mcp-sidecar-'' @ adapterID @ ''.suse-ai-up-mcp.svc.cluster.local''"

definition proxy_base :: "string \<Rightarrow> string" where
  "proxy_base adapterID = ''http://localhost:8911/api/v1/adapters/'' @ adapterID"

definition rewriteSidecarURLs :: "string \<Rightarrow> string \<Rightarrow> string" where
  "rewriteSidecarURLs responseBody adapterID = ReplaceAll responseBody (sidecar_base adapterID) (proxy_base adapterID)"

text \<open>A body that cannot be read whole is not written if it is JSON, else what was read of it.\<close>

definition proxyToSidecar ::
    "(forwarded \<Rightarrow> sent) \<Rightarrow> http_request \<Rightarrow> (string \<rightharpoonup> string list) \<Rightarrow> string \<Rightarrow> adapter_reply" where
  "proxyToSidecar send q h sidecarURL =
     (let adapterID = adapter_parts q ! 0;
          h' = header_default ''Content-Type'' ''application/json''
                 (header_default ''Accept'' ''application/json, text/event-stream'' h) in
      case send \<lparr>FW_Method = HQ_Method q, FW_URL = sidecarURL, FW_Header = h', FW_Body = HQ_Body q\<rparr> of
        Bad_request _ \<Rightarrow> (500, Inl ''Failed to create sidecar request'')
      | Unreachable err \<Rightarrow> (502, Inl (''UNIQUE_ERROR: Failed to connect to sidecar: '' @ err))
      | Answered resp \<Rightarrow>
          if 300 \<le> PX_Status resp \<and> PX_Status resp < 400
          then (502, Inl ''Sidecar returned redirect - internal routing issue'')
          else (PX_Status resp, Inr (AP_response ((PX_Header resp)(''Location'' := None))
            (if Contains (header_Get (PX_Header resp) ''Content-Type'') ''application/json''
             then (if PX_Error resp = None then rewriteSidecarURLs (PX_Body resp) adapterID else [])
             else PX_Body resp))))"

definition HandleMCPProtocol ::
    "('a, 's, 't, 'us, 'gs, 'r) service_ops \<Rightarrow> (forwarded \<Rightarrow> sent) \<Rightarrow> (forwarded \<Rightarrow> sent) \<Rightarrow> http_request \<Rightarrow>
     (string \<rightharpoonup> string list) \<Rightarrow> ('us, 'gs) UserGroupService \<Rightarrow> ('a, 's, 't) AdapterService \<Rightarrow> adapter_reply" where
  "HandleMCPProtocol X sendRemote sendSidecar q h us st =
     (let parts = adapter_parts q in
      if length parts < 2 \<or> parts ! 1 \<noteq> ''mcp'' then no_page
      else case service_get X (request_user q) (parts ! 0) us st of
        Inl _ \<Rightarrow> (404, Inl ''Adapter not found'')
      | Inr adapter \<Rightarrow>
          (case (if AD_ConnectionType adapter = ConnectionTypeStreamableHttp then AD_SidecarConfig adapter else None) of
             Some sc \<Rightarrow> proxyToSidecar sendSidecar q h
                  (sidecar_base (parts ! 0) @ '':'' @ show_int (SC_Port sc) @ ''/mcp'')
           | None \<Rightarrow>
               if AD_ConnectionType adapter = ConnectionTypeLocalStdio \<or> AD_ConnectionType adapter = ConnectionTypeStreamableHttp
               then (200, Inr (AP_initialized (AD_Name adapter)))
               else if AD_ConnectionType adapter = ConnectionTypeRemoteHttp then
                 (if AD_RemoteUrl adapter = [] then (400, Inl ''Remote URL not configured for adapter'')
                  else proxyToRemoteMCP X sendRemote q h (AD_RemoteUrl adapter) us st)
               else (501, Inl ''MCP protocol not supported for this adapter type'')))"

subsection \<open>Capabilities and assignments\<close>

definition AdapterHandler_SyncAdapterCapabilities ::
    "('a, 's, 't, 'us, 'gs, 'r) service_ops \<Rightarrow> env \<Rightarrow> gotime \<Rightarrow> http_request \<Rightarrow> ('us, 'gs) UserGroupService \<Rightarrow>
     ('a, 's, 't) AdapterService \<Rightarrow> ('a, 's, 't) AdapterService \<times> adapter_reply" where
  "AdapterHandler_SyncAdapterCapabilities X e now q us st =
     (if HQ_Method q \<noteq> ''POST'' then (st, bad_method)
      else let parts = adapter_parts q in
      if length parts < 2 \<or> parts ! 1 \<noteq> ''sync'' then (st, no_page)
      else case SyncAdapterCapabilities (so_adapters X) (so_assignments X) (so_users X) (so_groups X) (Some us) e now
             (request_user q) (parts ! 0) st of
        (st', Some err) \<Rightarrow> (st', if err = ''adapter not found'' then (404, Inl ''Adapter not found'')
          else (500, Inl (''Failed to sync capabilities: '' @ err)))
      | (st', None) \<Rightarrow> (st', 200, Inr (AP_status ''capabilities_synced'' ''Adapter capabilities have been synchronized'')))"

definition assignment_error :: "string \<Rightarrow> bool \<Rightarrow> error \<Rightarrow> adapter_reply" where
  "assignment_error what conflicts err =
     (if Contains err ''not found'' then (404, Inl (''Resource not found: '' @ err))
      else if Contains err ''permissions'' then (403, Inl err)
      else if conflicts \<and> Contains err ''already exists'' then (409, Inl err)
      else (500, Inl (what @ err)))"

text \<open>The body is a group's ID and a permission.\<close>

definition AdapterHandler_AssignAdapterToGroup ::
    "('a, 's, 't, 'us, 'gs, 'r) service_ops \<Rightarrow> env \<Rightarrow> (string \<Rightarrow> (string \<times> string) result) \<Rightarrow> http_request \<Rightarrow>
     ('us, 'gs) UserGroupService \<Rightarrow> ('a, 's, 't) AdapterService \<Rightarrow> ('a, 's, 't) AdapterService \<times> adapter_reply" where
  "AdapterHandler_AssignAdapterToGroup X e decode q us st =
     (if HQ_Method q \<noteq> ''POST'' then (st, bad_method)
      else let parts = adapter_parts q in
      if length parts < 2 \<or> parts ! 1 \<noteq> ''groups'' then (st, no_page)
      else case decode (HQ_Body q) of
        Inl err \<Rightarrow> (st, 400, Inl (''Invalid JSON: '' @ err))
      | Inr (groupID, permission0) \<Rightarrow>
          if groupID = [] then (st, 400, Inl ''groupId is required'')
          else let permission = (if permission0 = [] then ''read'' else permission0) in
          case AssignAdapterToGroup (so_adapters X) (so_assignments X) (so_users X) (so_groups X) (Some us) e
                 (request_user q) (parts ! 0) groupID permission st of
            (st', Some err) \<Rightarrow> (st', assignment_error ''Failed to assign adapter: '' True err)
          | (st', None) \<Rightarrow> (st', 201, Inr (AP_status ''assigned''
              (''Adapter '' @ parts ! 0 @ '' assigned to group '' @ groupID))))"

definition AdapterHandler_RemoveAdapterFromGroup ::
    "('a, 's, 't, 'us, 'gs, 'r) service_ops \<Rightarrow> env \<Rightarrow> http_request \<Rightarrow> ('us, 'gs) UserGroupService \<Rightarrow>
     ('a, 's, 't) AdapterService \<Rightarrow> ('a, 's, 't) AdapterService \<times> adapter_reply" where
  "AdapterHandler_RemoveAdapterFromGroup X e q us st =
     (if HQ_Method q \<noteq> ''DELETE'' then (st, bad_method)
      else let parts = adapter_parts q in
      if length parts < 3 \<or> parts ! 1 \<noteq> ''groups'' then (st, no_page)
      else case RemoveAdapterFromGroup (so_adapters X) (so_assignments X) (so_users X) (so_groups X) (Some us) e
             (request_user q) (parts ! 0) (parts ! 2) st of
        (st', Some err) \<Rightarrow> (st', assignment_error ''Failed to remove assignment: '' False err)
      | (st', None) \<Rightarrow> (st', 204, Inr AP_none))"

definition AdapterHandler_ListAdapterGroupAssignments ::
    "('a, 's, 't, 'us, 'gs, 'r) service_ops \<Rightarrow> string list \<Rightarrow> http_request \<Rightarrow> ('us, 'gs) UserGroupService \<Rightarrow>
     ('a, 's, 't) AdapterService \<Rightarrow> adapter_reply" where
  "AdapterHandler_ListAdapterGroupAssignments X ks q us st =
     (if HQ_Method q \<noteq> ''GET'' then bad_method
      else let parts = adapter_parts q in
      if length parts < 2 \<or> parts ! 1 \<noteq> ''groups'' then no_page
      else case ListAdapterAssignments (so_adapters X) (so_assignments X) (so_users X) (so_groups X) (Some us) ks st
             (request_user q) (parts ! 0) of
        Inr assignments \<Rightarrow> (200, Inr (AP_assignments assignments))
      | Inl err \<Rightarrow> if Contains err ''not found'' then (404, Inl ''Adapter not found'')
          else if Contains err ''denied'' then (403, Inl ''Access denied'')
          else (500, Inl (''Failed to list assignments: '' @ err)))"

subsection \<open>The configuration of all adapters\<close>

text \<open>A later adapter of the same name replaces an earlier one. \<open>tes i\<close> is for the \<open>i\<close>-th adapter.\<close>

fun client_configs ::
    "('a, 's, 't, 'us, 'gs, 'r) service_ops \<Rightarrow> (nat \<Rightarrow> token_env) \<Rightarrow> nat \<Rightarrow> string list \<Rightarrow> string \<Rightarrow> AdapterResource list \<Rightarrow>
     (string \<rightharpoonup> client_entry) \<Rightarrow> ('a, 's, 't) AdapterService \<Rightarrow> ('a, 's, 't) AdapterService \<times> (string \<rightharpoonup> client_entry)" where
  "client_configs X tes i ks userID [] final st = (st, final)"
| "client_configs X tes i ks userID (adapter # adapters) final st =
     (case generateClientConfig X (tes i) ks adapter userID True st of
        (st', config) \<Rightarrow> client_configs X tes (Suc i) ks userID adapters
          (case config of None \<Rightarrow> final | Some c \<Rightarrow> final(CE_Name c \<mapsto> c)) st')"

definition GetClientConfig ::
    "('a, 's, 't, 'us, 'gs, 'r) service_ops \<Rightarrow> list_env \<Rightarrow> (nat \<Rightarrow> token_env) \<Rightarrow> http_request \<Rightarrow>
     ('us, 'gs) UserGroupService \<Rightarrow> ('a, 's, 't) AdapterService \<Rightarrow> (('a, 's, 't) AdapterService \<times> adapter_reply) option" where
  "GetClientConfig X le tes q us st =
     (if HQ_Method q \<noteq> ''GET'' then Some (st, bad_method)
      else case service_list X le (request_user q) us st of
        None \<Rightarrow> None
      | Some (Inl err) \<Rightarrow> Some (st, 500, Inl (''Failed to list adapters: '' @ err))
      | Some (Inr adapters) \<Rightarrow>
          (case client_configs X tes 0 (le_servers le) (request_user q) adapters Map.empty st of
             (st', final) \<Rightarrow> Some (st', 200, Inr (AP_config final))))"

subsection \<open>Internal URLs stay inside\<close>

lemma colon_positions:
  assumes "CHR '':'' \<notin> set i" and "k < length (proxy_base i)" and "proxy_base i ! k = CHR '':''"
  shows "k = 4 \<or> k = 16"
proof -
  let ?p = "''http://localhost:8911/api/v1/adapters/''"
  have "list_all (\<lambda>k. ?p ! k = CHR '':'' \<longrightarrow> k = 4 \<or> k = 16) [0..<length ?p]" by code_simp
  then have p: "k < length ?p \<Longrightarrow> ?p ! k = CHR '':'' \<Longrightarrow> k = 4 \<or> k = 16" by (simp only: list_all_iff set_upt) auto
  have "k < length ?p"
  proof (rule ccontr)
    assume "\<not> k < length ?p"
    then have "proxy_base i ! k = i ! (k - length ?p)" "k - length ?p < length i"
      using assms(2) by (simp_all add: proxy_base_def nth_append del: append.simps)
    with assms(1,3) show False by (metis nth_mem)
  qed
  with p assms(3) show ?thesis by (simp add: proxy_base_def nth_append del: append.simps)
qed

lemma prefix_nth: "prefix u v \<Longrightarrow> k < length u \<Longrightarrow> u ! k = v ! k"
  by (auto simp: prefix_def nth_append)

lemma compatible_nth: "\<not> incompatible u v \<Longrightarrow> k < length u \<Longrightarrow> k < length v \<Longrightarrow> u ! k = v ! k"
  unfolding incompatible_def using prefix_nth by metis

lemma sidecar_colon:
  assumes "CHR '':'' \<notin> set i" and "k < length (sidecar_base i)" and "sidecar_base i ! k = CHR '':''"
  shows "k = 4"
proof -
  let ?p = "''http://mcp-sidecar-''" and ?s = "''.suse-ai-up-mcp.svc.cluster.local''"
  have "list_all (\<lambda>k. ?p ! k = CHR '':'' \<longrightarrow> k = 4) [0..<length ?p]" by code_simp
  then have p: "k < length ?p \<Longrightarrow> ?p ! k = CHR '':'' \<Longrightarrow> k = 4" by (simp only: list_all_iff set_upt) auto
  have "k < length ?p"
  proof (rule ccontr)
    assume "\<not> k < length ?p"
    then have "sidecar_base i ! k = (i @ ?s) ! (k - length ?p)" "k - length ?p < length (i @ ?s)"
      using assms(2) by (simp_all add: sidecar_base_def nth_append [of ?p] del: append.simps)
    moreover have "CHR '':'' \<notin> set (i @ ?s)" using assms(1) by simp
    ultimately show False using assms(3) nth_mem by metis
  qed
  with p assms(3) show ?thesis by (simp add: sidecar_base_def nth_append [of ?p] del: append.simps)
qed

lemma sidecar_base_nth: "k < 19 \<Longrightarrow> sidecar_base i ! k = ''http://mcp-sidecar-'' ! k"
  by (simp add: sidecar_base_def nth_append [of "''http://mcp-sidecar-''"] del: append.simps)

lemma proxy_base_nth: "k < 38 \<Longrightarrow> proxy_base i ! k = ''http://localhost:8911/api/v1/adapters/'' ! k"
  by (simp add: proxy_base_def nth_append [of "''http://localhost:8911/api/v1/adapters/''"] del: append.simps)

lemma base_lengths [simp]: "length (sidecar_base i) = 52 + length i" "length (proxy_base i) = 38 + length i"
  by (simp_all add: sidecar_base_def proxy_base_def)

lemma http_letters: "k < 4 \<Longrightarrow> ''http'' ! k \<in> set ''htp''"
  by (auto simp: less_Suc_eq numeral_eq_Suc)

lemma bases_incompatible:
  assumes i: "CHR '':'' \<notin> set i" "i = [] \<or> last i \<notin> set ''htp''"
  shows "0 < k \<Longrightarrow> k < length (sidecar_base i) \<Longrightarrow> incompatible (drop k (sidecar_base i)) (proxy_base i)"
    and "j < length (proxy_base i) \<Longrightarrow> incompatible (sidecar_base i) (drop j (proxy_base i))"
proof -
  let ?P = "sidecar_base i" and ?Q = "proxy_base i"
  have http: "?P ! m = ''http'' ! m" "?Q ! m = ''http'' ! m" if "m < 4" for m
    using that by (auto simp: sidecar_base_nth proxy_base_nth less_Suc_eq numeral_eq_Suc)
  have colon: "?P ! 4 = CHR '':''" "?Q ! 4 = CHR '':''" by (simp_all add: sidecar_base_nth proxy_base_nth)
  show "incompatible (drop k ?P) ?Q" if k: "0 < k" "k < length ?P"
  proof (rule ccontr)
    assume "\<not> incompatible (drop k ?P) ?Q"
    then have same: "m < length ?P - k \<Longrightarrow> m < length ?Q \<Longrightarrow> ?P ! (k + m) = ?Q ! m" for m
      using compatible_nth [of "drop k ?P" ?Q m] k by simp
    show False
    proof (cases "4 < length ?P - k")
      case True
      then have "?P ! (k + 4) = CHR '':''" using same [of 4] colon by simp
      then show False using sidecar_colon [OF i(1), of "k + 4"] True k by (simp add: less_diff_conv add.commute)
    next
      case False
      define m where "m = length ?P - k - 1"
      have m: "m < 4" "k + m = length ?P - 1" using False k by (simp_all add: m_def)
      then have "?P ! (length ?P - 1) = ''http'' ! m" using same [of m] http(2) k by simp
      moreover have "?P ! (length ?P - 1) = last ?P" by (simp add: last_conv_nth sidecar_base_def)
      moreover have "last ?P = CHR ''l''" by (simp add: sidecar_base_def)
      ultimately show False using http_letters [OF m(1)] by simp
    qed
  qed
  show "incompatible ?P (drop j ?Q)" if j: "j < length ?Q"
  proof (rule ccontr)
    assume "\<not> incompatible ?P (drop j ?Q)"
    then have same: "m < length ?P \<Longrightarrow> m < length ?Q - j \<Longrightarrow> ?P ! m = ?Q ! (j + m)" for m
      using compatible_nth [of ?P "drop j ?Q" m] j by simp
    show False
    proof (cases "4 < length ?Q - j")
      case True
      then have "?Q ! (j + 4) = CHR '':''" using same [of 4] colon by simp
      moreover have "j + 4 < length ?Q" using True by simp
      ultimately have "j + 4 = 4 \<or> j + 4 = 16" using colon_positions [OF i(1)] by blast
      then have "j = 0 \<or> j = 12" by simp
      then show False
      proof
        assume "j = 0"
        then have "?P ! 7 = ?Q ! 7" using same [of 7] True j by simp
        then show False by (simp add: sidecar_base_nth proxy_base_nth)
      next
        assume "j = 12"
        then have "?P ! 1 = ?Q ! 13" using same [of 1] True j by simp
        then show False by (simp add: sidecar_base_nth proxy_base_nth)
      qed
    next
      case False
      define m where "m = length ?Q - j - 1"
      have m: "m < 4" "j + m = length ?Q - 1" using False j by (simp_all add: m_def)
      then have "?Q ! (length ?Q - 1) = ''http'' ! m" using same [of m] http(1) j by simp
      moreover have "?Q ! (length ?Q - 1) = last ?Q" by (simp add: last_conv_nth proxy_base_def)
      moreover have "last ?Q \<notin> set ''htp''" using i(2) by (auto simp: proxy_base_def)
      ultimately show False using http_letters [OF m(1)] by simp
    qed
  qed
qed

lemma sidecar_answer:
  assumes "proxyToSidecar send q h url = (code, Inr (AP_response headers body))"
  obtains resp :: proxied where "\<not> (300 \<le> PX_Status resp \<and> PX_Status resp < 400)" "code = PX_Status resp"
    "headers = (PX_Header resp)(''Location'' := None)"
    "body = (if Contains (header_Get (PX_Header resp) ''Content-Type'') ''application/json''
       then (if PX_Error resp = None then rewriteSidecarURLs (PX_Body resp) (adapter_parts q ! 0) else []) else PX_Body resp)"
proof (cases "send \<lparr>FW_Method = HQ_Method q, FW_URL = url, FW_Header = header_default ''Content-Type'' ''application/json''
    (header_default ''Accept'' ''application/json, text/event-stream'' h), FW_Body = HQ_Body q\<rparr>")
  case (Answered resp)
  show ?thesis
  proof (rule that [of resp])
    show "\<not> (300 \<le> PX_Status resp \<and> PX_Status resp < 400)"
      using assms Answered unfolding proxyToSidecar_def Let_def by (simp only: sent.case split: if_split_asm) simp_all
  qed (use assms Answered in \<open>unfold proxyToSidecar_def Let_def, simp only: sent.case split: if_split_asm, simp_all\<close>)+
qed (use assms in \<open>simp_all add: proxyToSidecar_def Let_def\<close>)

text \<open>The answer of a sidecar never shows the internal URL of the sidecar or redirects there: a redirect becomes an
  error, the header \<open>Location\<close> is dropped, and the address of the sidecar is not in a JSON body, unless the name of
  the adapter has a colon or ends in a letter of \<open>http\<close> (when a replaced address and the text behind it may form it
  again).\<close>

theorem sidecar_address_hidden:
  assumes "CHR '':'' \<notin> set (adapter_parts q ! 0)"
    and "adapter_parts q ! 0 = [] \<or> last (adapter_parts q ! 0) \<notin> set ''htp''"
    and "proxyToSidecar send q h url = (code, Inr (AP_response headers body))"
    and "Contains (header_Get headers ''Content-Type'') ''application/json''"
  shows "\<not> Contains body (sidecar_base (adapter_parts q ! 0)) \<and> headers ''Location'' = None \<and> \<not> (300 \<le> code \<and> code < 400)"
proof -
  obtain resp :: proxied where r: "\<not> (300 \<le> PX_Status resp \<and> PX_Status resp < 400)" "code = PX_Status resp"
    "headers = (PX_Header resp)(''Location'' := None)"
    "body = (if Contains (header_Get (PX_Header resp) ''Content-Type'') ''application/json''
       then (if PX_Error resp = None then rewriteSidecarURLs (PX_Body resp) (adapter_parts q ! 0) else []) else PX_Body resp)"
    by (rule sidecar_answer [OF assms(3)])
  have "header_Get headers ''Content-Type'' = header_Get (PX_Header resp) ''Content-Type''"
    by (simp add: r(3) header_Get_def)
  then have "body = [] \<or> body = rewriteSidecarURLs (PX_Body resp) (adapter_parts q ! 0)" using r(4) assms(4) by auto
  moreover have "\<not> sublist (sidecar_base (adapter_parts q ! 0)) (rewriteSidecarURLs (PX_Body resp) (adapter_parts q ! 0))"
    unfolding rewriteSidecarURLs_def
    by (rule ReplaceAll_removes) (use bases_incompatible [OF assms(1,2)] in \<open>auto simp: sidecar_base_def\<close>)
  ultimately have "\<not> Contains body (sidecar_base (adapter_parts q ! 0))"
    by (auto simp: Contains_def sidecar_base_def)
  with r show ?thesis by simp
qed

definition ex_sidecar_body :: string where
  "ex_sidecar_body = ''['' @ sidecar_base ''files'' @ '']''"

definition ex_sidecar :: "forwarded \<Rightarrow> sent" where
  "ex_sidecar f = Answered \<lparr>PX_Status = 200, PX_Header = [''Content-Type'' \<mapsto> [''application/json''], ''Location'' \<mapsto> [''/x'']],
     PX_Body = ex_sidecar_body, PX_Error = None\<rparr>"

theorem sidecar_address_hidden_witness:
  "\<exists>headers body. proxyToSidecar ex_sidecar (ex_request ''POST'' ''/api/v1/adapters/files/mcp'' [] ''ann'') Map.empty
       ''http://x'' = (200, Inr (AP_response headers body)) \<and>
     Contains ex_sidecar_body (sidecar_base ''files'') \<and> \<not> Contains body (sidecar_base ''files'') \<and> headers ''Location'' = None"
proof -
  let ?q = "ex_request ''POST'' ''/api/v1/adapters/files/mcp'' [] ''ann''"
    and ?headers = "[''Content-Type'' \<mapsto> [''application/json'']] :: string \<rightharpoonup> string list"
  have parts: "adapter_parts ?q ! 0 = ''files''" by code_simp
  have json: "Contains (header_Get ?headers ''Content-Type'') ''application/json''"
    by (simp add: header_Get_def Contains_def)
  have "proxyToSidecar ex_sidecar ?q Map.empty ''http://x'' =
      (200, Inr (AP_response ?headers (rewriteSidecarURLs ex_sidecar_body ''files'')))"
    using json by (simp add: proxyToSidecar_def ex_sidecar_def parts header_Get_def Let_def fun_upd_twist)
  moreover from this have "\<not> Contains (rewriteSidecarURLs ex_sidecar_body ''files'') (sidecar_base ''files'') \<and>
      ?headers ''Location'' = None \<and> \<not> (300 \<le> (200::int) \<and> (200::int) < 400)"
    using sidecar_address_hidden [of ?q ex_sidecar Map.empty "''http://x''" 200 ?headers
        "rewriteSidecarURLs ex_sidecar_body ''files''"] parts json by simp
  moreover have "Contains ex_sidecar_body (sidecar_base ''files'')" unfolding ex_sidecar_body_def by (rule ContainsI)
  ultimately show ?thesis by blast
qed

subsection \<open>Who may use an adapter\<close>

text \<open>The proxy of a remote adapter does not look at the token that the client sends: two requests with the same
  \<open>X-User-ID\<close> (no token is needed to send any) have the same outcome, whatever tokens they carry, and the remote
  server gets the same request, with the token of the adapter. Only whether there is a token at all makes a difference:
  without one the adapter's is not sent either.\<close>

theorem remote_proxy_ignores_tokens:
  assumes "service_get X (request_user q) (adapter_parts q ! 0) us st = Inr adapter"
    and "AD_ConnectionType adapter = ConnectionTypeRemoteHttp"
    and "request_user q' = request_user q" "HQ_Method q' = HQ_Method q" "HQ_Path q' = HQ_Path q" "HQ_Body q' = HQ_Body q"
    and "\<And>k. k \<noteq> ''Authorization'' \<Longrightarrow> h' k = h k"
    and "h' ''Authorization'' = None \<longleftrightarrow> h ''Authorization'' = None"
  shows "HandleMCPProtocol X remote sidecar q' h' us st = HandleMCPProtocol X remote sidecar q h us st"
proof -
  have "h'(''Authorization'' := x) = h(''Authorization'' := x)" for x using assms(7) by auto
  then have "remote_headers e h' = remote_headers e h" for e using assms(8) by (simp add: remote_headers_def Let_def)
  moreover have "adapter_parts q' = adapter_parts q" using assms(5) by (simp add: adapter_parts_def path_parts_def)
  ultimately show ?thesis
    using assms(1-6) by (simp add: HandleMCPProtocol_def proxyToRemoteMCP_def Let_def)
qed

definition ex_remote_adapter :: AdapterResource where
  "ex_remote_adapter = (ex_adapter ''w'' ''bob'')\<lparr>AD_ConnectionType := ConnectionTypeRemoteHttp, AD_RemoteUrl := ''http://r'',
     AD_EnvironmentVariables := [''GITHUB_ACCESS_TOKEN'' \<mapsto> ''secret'']\<rparr>"

definition ex_operations :: "(InMemoryAdapterStore, InMemoryAdapterGroupAssignmentStore, InMemoryUserAdapterTokenStore,
    InMemoryUserStore, InMemoryGroupStore, InMemoryMCPServerStore) service_ops" where
  "ex_operations = \<lparr>so_adapters = InMemoryAdapterStore_ops, so_assignments = InMemoryAdapterGroupAssignmentStore_ops,
     so_tokens = InMemoryUserAdapterTokenStore_ops, so_users = InMemoryUserStore_ops, so_groups = InMemoryGroupStore_ops,
     so_registry = InMemoryMCPServerStore_ops\<rparr>"

definition ex_remote_adapters :: "(InMemoryAdapterStore, InMemoryAdapterGroupAssignmentStore,
    InMemoryUserAdapterTokenStore) AdapterService" where
  "ex_remote_adapters = ex_mem_adapters\<lparr>as_store := \<lparr>imas_adapters = [''w'' \<mapsto> ex_remote_adapter]\<rparr>\<rparr>"

text \<open>A remote server that repeats the token it is sent.\<close>

definition ex_echo :: "forwarded \<Rightarrow> sent" where
  "ex_echo f = Answered \<lparr>PX_Status = 200, PX_Header = Map.empty, PX_Body = header_Get (FW_Header f) ''Authorization'',
     PX_Error = None\<rparr>"

theorem remote_proxy_ignores_tokens_witness:
  "HandleMCPProtocol ex_operations ex_echo ex_echo (ex_request ''POST'' ''/api/v1/adapters/w/mcp'' ''Bearer forged'' ''bob'')
     [''Authorization'' \<mapsto> [''Bearer forged'']] ex_mem_users ex_remote_adapters = (200, Inr (AP_response Map.empty ''Bearer secret''))"
proof -
  let ?q = "ex_request ''POST'' ''/api/v1/adapters/w/mcp'' ''Bearer t1'' ''bob''"
    and ?q' = "ex_request ''POST'' ''/api/v1/adapters/w/mcp'' ''Bearer forged'' ''bob''"
    and ?h = "[''Authorization'' \<mapsto> [''Bearer t1'']] :: string \<rightharpoonup> string list"
    and ?h' = "[''Authorization'' \<mapsto> [''Bearer forged'']] :: string \<rightharpoonup> string list"
  have parts: "adapter_parts ?q = [''w'', ''mcp'']" by code_simp
  have get: "service_get ex_operations (request_user ?q) (adapter_parts ?q ! 0) ex_mem_users ex_remote_adapters =
      Inr ex_remote_adapter"
    by (simp add: parts request_user_def GetAdapter_def ex_operations_def ex_remote_adapters_def ex_remote_adapter_def
        ex_adapter_def eval_mem_adapters)
  have "HandleMCPProtocol ex_operations ex_echo ex_echo ?q ?h ex_mem_users ex_remote_adapters =
      (200, Inr (AP_response Map.empty ''Bearer secret''))"
    using get by (simp add: HandleMCPProtocol_def proxyToRemoteMCP_def parts ex_echo_def ex_remote_adapter_def
        remote_headers_def header_Get_def header_default_def Let_def)
  moreover have "HandleMCPProtocol ex_operations ex_echo ex_echo ?q' ?h' ex_mem_users ex_remote_adapters =
      HandleMCPProtocol ex_operations ex_echo ex_echo ?q ?h ex_mem_users ex_remote_adapters"
    by (rule remote_proxy_ignores_tokens [OF get])
      (simp_all add: request_user_def ex_remote_adapter_def, simp_all add: ex_request_def)
  ultimately show ?thesis by simp
qed

end
