(* ===== verification/MCPProtocol.thy ===== *)
theory MCPProtocol
  imports GoHttp ErrorHandler
begin

section \<open>The protocol handler and the cache of capabilities\<close>

text \<open>
  \<open>pkg/mcp/capability_cache.go\<close> and \<open>pkg/mcp/protocol_handler.go\<close>. What JSON makes of a text and of a message are
  arguments, \<open>decode\<close> and \<open>marshal\<close>; what the network answers is \<open>send\<close>. The goroutine that cleans the cache appears
  as steps of the cache.
\<close>

abbreviation ProtocolVersion :: string where "ProtocolVersion \<equiv> ''2025-06-18''"

subsection \<open>The cache of capabilities\<close>

record CachedCapabilities =
  CCap_Capabilities :: "string \<rightharpoonup> any"
  CCap_ExpiresAt :: gotime
  CCap_ServerInfo :: MCPServerInfo

type_synonym CapabilityCache = "string \<rightharpoonup> CachedCapabilities"

definition getCacheKey :: "AdapterResource \<Rightarrow> string" where
  "getCacheKey adapter = AD_Name adapter @ ''-'' @ AD_ConnectionType adapter @ ''-'' @ AD_RemoteUrl adapter"

abbreviation list_changed :: any where
  "list_changed \<equiv> Object [''listChanged'' \<mapsto> Bool_value True]"

abbreviation subscribe_and_list_changed :: any where
  "subscribe_and_list_changed \<equiv> Object [''subscribe'' \<mapsto> Bool_value True, ''listChanged'' \<mapsto> Bool_value True]"

definition buildCapabilitiesFromFunctionality :: "MCPFunctionality \<Rightarrow> (string \<rightharpoonup> any)" where
  "buildCapabilitiesFromFunctionality functionality =
     (let c0 = Map.empty;
          c1 = (if MF_Tools functionality \<noteq> [] then c0(''tools'' \<mapsto> list_changed) else c0);
          c2 = (if MF_Resources functionality \<noteq> [] then c1(''resources'' \<mapsto> subscribe_and_list_changed) else c1);
          c3 = (if MF_Prompts functionality \<noteq> [] then c2(''prompts'' \<mapsto> list_changed) else c2)
      in if MF_Tools functionality \<noteq> [] \<or> MF_Resources functionality \<noteq> [] \<or> MF_Prompts functionality \<noteq> []
         then c3(''completion'' \<mapsto> Object Map.empty) else c3)"

definition CapabilityCache_discoverCapabilities :: "AdapterResource \<Rightarrow> (string \<rightharpoonup> any) result" where
  "CapabilityCache_discoverCapabilities adapter =
     Inr (case AD_MCPFunctionality adapter of
            None \<Rightarrow> [''tools'' \<mapsto> list_changed, ''resources'' \<mapsto> subscribe_and_list_changed, ''prompts'' \<mapsto> list_changed,
                     ''completion'' \<mapsto> Object Map.empty]
          | Some functionality \<Rightarrow> buildCapabilitiesFromFunctionality functionality)"

text \<open>The two readings of the clock: for the lookup, and for the new entry.\<close>

definition GetCapabilities ::
    "gotime \<Rightarrow> gotime \<Rightarrow> AdapterResource \<Rightarrow> CapabilityCache \<Rightarrow> CapabilityCache \<times> (string \<rightharpoonup> any) result" where
  "GetCapabilities now now' adapter cc =
     (let cacheKey = getCacheKey adapter;
          discover = (case CapabilityCache_discoverCapabilities adapter of
            Inl err \<Rightarrow> (cc, Inl (''failed to discover capabilities: '' @ err))
          | Inr capabilities \<Rightarrow>
              (cc(cacheKey \<mapsto> \<lparr>CCap_Capabilities = capabilities, CCap_ExpiresAt = now' + 5 * minute,
                 CCap_ServerInfo = \<lparr>MSI_Name = AD_Name adapter, MSI_Version = ''1.0.0'', MSI_Protocol = ''MCP'',
                   MSI_Capabilities = Map.empty\<rparr>\<rparr>), Inr capabilities))
      in case cc cacheKey of
           None \<Rightarrow> discover
         | Some cached \<Rightarrow> if now < CCap_ExpiresAt cached then (cc, Inr (CCap_Capabilities cached)) else discover)"

definition InvalidateCache :: "AdapterResource \<Rightarrow> CapabilityCache \<Rightarrow> CapabilityCache" where
  "InvalidateCache adapter cc = cc(getCacheKey adapter := None)"

definition CapabilityCache_cleanup :: "gotime \<Rightarrow> string list \<Rightarrow> CapabilityCache \<Rightarrow> CapabilityCache" where
  "CapabilityCache_cleanup now ks cc = range_delete (\<lambda>cached. CCap_ExpiresAt cached < now) ks cc"

definition GetCachedCapabilities :: "gotime \<Rightarrow> AdapterResource \<Rightarrow> CapabilityCache \<Rightarrow> CachedCapabilities option" where
  "GetCachedCapabilities now adapter cc =
     (case cc (getCacheKey adapter) of
        None \<Rightarrow> None
      | Some cached \<Rightarrow> if now < CCap_ExpiresAt cached then Some cached else None)"

definition SetCapabilities ::
    "gotime \<Rightarrow> AdapterResource \<Rightarrow> (string \<rightharpoonup> any) \<Rightarrow> MCPServerInfo \<Rightarrow> CapabilityCache \<Rightarrow> CapabilityCache" where
  "SetCapabilities now adapter capabilities serverInfo cc =
     cc(getCacheKey adapter \<mapsto> \<lparr>CCap_Capabilities = capabilities, CCap_ExpiresAt = now + 5 * minute,
       CCap_ServerInfo = serverInfo\<rparr>)"

subsection \<open>Messages\<close>

definition CreateErrorResponse :: "any \<Rightarrow> int \<Rightarrow> string \<Rightarrow> any \<Rightarrow> JSONRPCMessage" where
  "CreateErrorResponse i code message data =
     \<lparr>JM_JSONRPC = ''2.0'', JM_ID = i, JM_Method = [], JM_Params = Nil_value, JM_Result = Nil_value,
      JM_Error = Some \<lparr>JE_Code = code, JE_Message = message, JE_Data = data\<rparr>\<rparr>"

definition CreateSuccessResponse :: "any \<Rightarrow> any \<Rightarrow> JSONRPCMessage" where
  "CreateSuccessResponse i r =
     \<lparr>JM_JSONRPC = ''2.0'', JM_ID = i, JM_Method = [], JM_Params = Nil_value, JM_Result = r, JM_Error = None\<rparr>"

definition CreateNotification :: "string \<Rightarrow> any \<Rightarrow> JSONRPCMessage" where
  "CreateNotification method params =
     \<lparr>JM_JSONRPC = ''2.0'', JM_ID = Nil_value, JM_Method = method, JM_Params = params, JM_Result = Nil_value, JM_Error = None\<rparr>"

text \<open>\<open>json\<close>: what \<open>json.Unmarshal\<close> gives for a map. An absent key reads as nil. Whatever the method is called, it is
  allowed; the list of known methods only decides about a line in the log.\<close>

definition ValidateMCPMessage :: "(string \<Rightarrow> (string \<rightharpoonup> any) result) \<Rightarrow> string \<Rightarrow> error option" where
  "ValidateMCPMessage json data =
     (case json data of
        Inl err \<Rightarrow> Some (''invalid JSON: '' @ err)
      | Inr message \<Rightarrow>
          (let field = (\<lambda>k. case message k of None \<Rightarrow> Nil_value | Some v \<Rightarrow> v);
               quote = (\<lambda>s. [CHR 0x27] @ s @ [CHR 0x27]) in
           case message ''jsonrpc'' of
             None \<Rightarrow> Some (''missing '' @ quote ''jsonrpc'' @ '' field'')
           | Some jsonrpc \<Rightarrow>
               if any_string jsonrpc \<noteq> Some ''2.0''
               then Some (''invalid or missing '' @ quote ''jsonrpc'' @ '' version, expected '' @ quote ''2.0'')
               else if field ''method'' = Nil_value \<and> field ''result'' = Nil_value \<and> field ''error'' = Nil_value
               then Some (''invalid MCP message: must have '' @ quote ''method'' @ '', '' @ quote ''result'' @ '', or '' @
                 quote ''error'' @ '' field'')
               else if field ''method'' \<noteq> Nil_value \<and> any_string (field ''method'') = None
               then Some (quote ''method'' @ '' must be a string'')
               else None))"

subsection \<open>The protocol handler\<close>

record ProtocolHandler =
  ph_sessionStore :: InMemorySessionStore
  ph_capabilityCache :: CapabilityCache

definition NewProtocolHandler :: "InMemorySessionStore \<Rightarrow> CapabilityCache \<Rightarrow> ProtocolHandler" where
  "NewProtocolHandler sessionStore capabilityCache =
     \<lparr>ph_sessionStore = sessionStore, ph_capabilityCache = capabilityCache\<rparr>"

record protocol_env =
  pe_marshal :: "JSONRPCMessage \<Rightarrow> string result"
  pe_decode :: "string \<Rightarrow> JSONRPCMessage result"
  pe_send :: "forwarded \<Rightarrow> sent"
  pe_now :: gotime
  pe_now' :: gotime
  pe_now'' :: gotime

definition forwardToSidecar :: "protocol_env \<Rightarrow> JSONRPCMessage \<Rightarrow> string \<Rightarrow> JSONRPCMessage result" where
  "forwardToSidecar E message sidecarURL =
     (case pe_marshal E message of
        Inl err \<Rightarrow> Inl (''failed to marshal message: '' @ err)
      | Inr messageBytes \<Rightarrow>
          (case pe_send E \<lparr>FW_Method = ''POST'', FW_URL = sidecarURL,
                  FW_Header = header_Set ''MCP-Protocol-Version'' ProtocolVersion
                    (header_Set ''Content-Type'' ''application/json'' Map.empty), FW_Body = messageBytes\<rparr> of
             Bad_request err \<Rightarrow> Inl (''failed to create request: '' @ err)
           | Unreachable err \<Rightarrow> Inl (''failed to send request to sidecar: '' @ err)
           | Answered resp \<Rightarrow>
               (case PX_Error resp of
                  Some err \<Rightarrow> Inl (''failed to read response from sidecar: '' @ err)
                | None \<Rightarrow> (case pe_decode E (PX_Body resp) of
                    Inl err \<Rightarrow> Inl (''failed to unmarshal response from sidecar: '' @ err)
                  | Inr response \<Rightarrow> Inr response))))"

text \<open>The result of an initialization, as JSON has it.\<close>

definition initialize_result :: "AdapterResource \<Rightarrow> (string \<rightharpoonup> any) \<Rightarrow> any" where
  "initialize_result adapter capabilities = Object
     [''protocolVersion'' \<mapsto> String_value ProtocolVersion, ''capabilities'' \<mapsto> Object capabilities,
      ''serverInfo'' \<mapsto> Object [''name'' \<mapsto> String_value (''MCP Proxy for '' @ AD_Name adapter),
                             ''version'' \<mapsto> String_value ''1.0.0'']]"

definition handleInitialize ::
    "protocol_env \<Rightarrow> JSONRPCMessage \<Rightarrow> AdapterResource \<Rightarrow> string \<Rightarrow> ProtocolHandler \<Rightarrow>
     ProtocolHandler \<times> JSONRPCMessage option result" where
  "handleInitialize E message adapter sid ph =
     (let forwarded = (if AD_ConnectionType adapter = ''StreamableHttp'' then
            (case AD_SidecarConfig adapter of
               None \<Rightarrow> None
             | Some sc \<Rightarrow> (case forwardToSidecar E message (''http://mcp-sidecar-'' @ AR_ID adapter @ ''.'' @ ''suse-ai-up-mcp'' @
                   ''.svc.cluster.local:'' @ show_int (SC_Port sc) @ ''/mcp'') of
                 Inl err \<Rightarrow> None
               | Inr response \<Rightarrow> Some response))
          else None)
      in case forwarded of
           Some response \<Rightarrow> (ph, Inr (Some response))
         | None \<Rightarrow>
             (let (cc, caps) = GetCapabilities (pe_now E) (pe_now' E) adapter (ph_capabilityCache ph);
                  capabilities = (case caps of
                      Inl err \<Rightarrow> [''tools'' \<mapsto> list_changed, ''resources'' \<mapsto> subscribe_and_list_changed, ''prompts'' \<mapsto> list_changed]
                    | Inr c \<Rightarrow> c);
                  sessions = (if sid \<noteq> [] then
                      fst (SetMCPServerInfo sid (Some \<lparr>SSI_Name = ''MCP Proxy for '' @ AD_Name adapter,
                          SSI_Version = ''1.0.0'', SSI_Protocol = ProtocolVersion\<rparr>)
                        (fst (SetWithDetails (pe_now'' E) sid (AD_Name adapter) [] ''MCP'' (ph_sessionStore ph))))
                    else ph_sessionStore ph)
              in (\<lparr>ph_sessionStore = sessions, ph_capabilityCache = cc\<rparr>,
                  Inr (Some (CreateSuccessResponse (JM_ID message) (initialize_result adapter capabilities))))))"

definition handleInitialized ::
    "protocol_env \<Rightarrow> JSONRPCMessage \<Rightarrow> AdapterResource \<Rightarrow> string \<Rightarrow> ProtocolHandler \<Rightarrow>
     ProtocolHandler \<times> JSONRPCMessage option result" where
  "handleInitialized E message adapter sid ph =
     (if sid \<noteq> []
      then (ph\<lparr>ph_sessionStore := fst (UpdateActivity (pe_now E) sid (ph_sessionStore ph))\<rparr>, Inr None)
      else (ph, Inr None))"

definition handleResponse :: "JSONRPCMessage \<Rightarrow> AdapterResource \<Rightarrow> string \<Rightarrow> JSONRPCMessage option result" where
  "handleResponse message adapter sid = Inr (Some message)"

definition proxyRequest :: "JSONRPCMessage \<Rightarrow> AdapterResource \<Rightarrow> string \<Rightarrow> JSONRPCMessage option result" where
  "proxyRequest message adapter sid =
     Inl (''method '' @ [CHR 0x27] @ JM_Method message @ [CHR 0x27] @ '' not yet implemented in proxy'')"

definition HandleMessage ::
    "protocol_env \<Rightarrow> string \<Rightarrow> AdapterResource \<Rightarrow> string \<Rightarrow> ProtocolHandler \<Rightarrow>
     ProtocolHandler \<times> JSONRPCMessage option result" where
  "HandleMessage E messageBytes adapter sid ph =
     (case pe_decode E messageBytes of
        Inl err \<Rightarrow> (ph, Inl (''failed to parse MCP message: '' @ err))
      | Inr message \<Rightarrow>
          if JM_Method message = ''initialize'' then handleInitialize E message adapter sid ph
          else if JM_Method message = ''initialized'' then handleInitialized E message adapter sid ph
          else (ph, proxyRequest message adapter sid))"

subsection \<open>Server-sent events\<close>

text \<open>What is written (a write that fails ends the writing), and the messages that are read from a text.\<close>

definition WriteSSEEvent :: "string \<Rightarrow> string \<Rightarrow> string" where
  "WriteSSEEvent event data =
     (if event \<noteq> [] then ''event: '' @ event @ [CHR 0x0A] else []) @
     concat (map (\<lambda>line. ''data: '' @ line @ [CHR 0x0A]) (Split data CHR 0x0A)) @ [CHR 0x0A]"

definition StreamSSEMessage :: "(JSONRPCMessage \<Rightarrow> string result) \<Rightarrow> JSONRPCMessage \<Rightarrow> string result" where
  "StreamSSEMessage marshal message =
     (case marshal message of Inl err \<Rightarrow> Inl err | Inr data \<Rightarrow> Inr (WriteSSEEvent ''message'' data))"

definition read_line :: "(string \<Rightarrow> JSONRPCMessage result) \<Rightarrow> string \<Rightarrow> JSONRPCMessage list \<times> string \<Rightarrow>
    JSONRPCMessage list \<times> string" where
  "read_line decode line0 st =
     (let (messages, current) = st; line = TrimSpace line0 in
      if HasPrefix line ''data: '' then
        (let messageData = TrimPrefix line ''data: '' in
         if messageData = [] then
           (if current \<noteq> [] then
              (case decode current of Inl _ \<Rightarrow> messages | Inr rpcMessage \<Rightarrow> messages @ [rpcMessage], [])
            else (messages, current))
         else (messages, (if current \<noteq> [] then current @ [CHR 0x0A] else current) @ messageData))
      else (messages, current))"

definition ReadSSEMessage :: "(string \<Rightarrow> JSONRPCMessage result) \<Rightarrow> string \<Rightarrow> JSONRPCMessage list" where
  "ReadSSEMessage decode data =
     (let (messages, current) = fold (read_line decode) (Split data CHR 0x0A) ([], []) in
      if current \<noteq> [] then (case decode current of Inl _ \<Rightarrow> messages | Inr rpcMessage \<Rightarrow> messages @ [rpcMessage])
      else messages)"

subsection \<open>Lemmas\<close>

lemma event_line: "read_line decode ''event: message'' st = st" "read_line decode [] st = st"
proof -
  have "\<not> HasPrefix (TrimSpace ''event: message'') ''data: ''" "\<not> HasPrefix (TrimSpace []) ''data: ''" by code_simp+
  then show "read_line decode ''event: message'' st = st" "read_line decode [] st = st"
    by (simp_all add: read_line_def case_prod_beta Let_def)
qed

lemma TrimSpace_data:
  assumes "d \<noteq> []" and "TrimSpace d = d"
  shows "TrimSpace (''data: '' @ d) = ''data: '' @ d"
proof -
  have "\<not> is_space (last d)"
  proof
    assume l: "is_space (last d)"
    let ?u = "rev (dropWhile is_space d)"
    have d: "rev (dropWhile is_space ?u) = d" using assms(2) by (simp add: TrimSpace_def)
    then have "dropWhile is_space ?u = rev d" by (metis rev_rev_ident)
    moreover from this have "dropWhile is_space ?u \<noteq> []" using assms(1) by simp
    then have "\<not> is_space (hd (dropWhile is_space ?u))" by (rule hd_dropWhile)
    ultimately show False using l assms(1) by (simp add: hd_rev)
  qed
  then have "dropWhile is_space (rev d @ x) = rev d @ x" for x
    using assms(1) by (cases d rule: rev_cases) auto
  moreover have "\<not> is_space CHR ''d''" by code_simp
  ultimately show ?thesis by (simp add: TrimSpace_def)
qed

lemma data_line:
  assumes "d \<noteq> []" and "TrimSpace d = d"
  shows "read_line decode (''data: '' @ d) (messages, current) =
    (messages, if current = [] then d else current @ [CHR 0x0A] @ d)"
  unfolding read_line_def using TrimSpace_data [OF assms] assms(1)
  by (simp add: HasPrefix_def TrimPrefix_def)

text \<open>An event adds its line to the text of the current message, and does not end it.\<close>

lemma read_event:
  assumes "d \<noteq> []" and "TrimSpace d = d" and "CHR 0x0A \<notin> set d"
  shows "fold (read_line decode) (Split (WriteSSEEvent ''message'' d @ rest) CHR 0x0A) (messages, current) =
    fold (read_line decode) (Split rest CHR 0x0A) (messages, if current = [] then d else current @ [CHR 0x0A] @ d)"
proof -
  have "WriteSSEEvent ''message'' d @ rest =
      ''event: message'' @ CHR 0x0A # (''data: '' @ d) @ CHR 0x0A # [] @ CHR 0x0A # rest"
    using assms(3) by (simp add: WriteSSEEvent_def Split_notin)
  then have "Split (WriteSSEEvent ''message'' d @ rest) CHR 0x0A =
      ''event: message'' # (''data: '' @ d) # [] # Split rest CHR 0x0A"
    using assms(3) by (simp only: Split_append set_append) (simp add: Split_append)
  then show ?thesis using data_line [OF assms(1,2)] by (simp only: fold_simps event_line)
qed

lemma read_events:
  assumes "\<forall>d \<in> set ds. d \<noteq> [] \<and> TrimSpace d = d \<and> CHR 0x0A \<notin> set d" and "current \<noteq> []"
  shows "fold (read_line decode) (Split (concat (map (WriteSSEEvent ''message'') ds)) CHR 0x0A) (messages, current) =
    (messages, Join (current # ds) [CHR 0x0A])"
  using assms
proof (induction ds arbitrary: current)
  case Nil
  then show ?case by (simp add: event_line)
next
  case (Cons d ds)
  then have "fold (read_line decode) (Split (concat (map (WriteSSEEvent ''message'') (d # ds))) CHR 0x0A) (messages, current) =
      (messages, Join ((current @ [CHR 0x0A] @ d) # ds) [CHR 0x0A])"
    by (simp add: read_event)
  then show ?case by (cases ds) simp_all
qed

subsection \<open>Properties\<close>

text \<open>Reading back server-sent events. One event gives the message that was written, if its text is one line
  without surrounding spaces (as JSON writes it). The texts of several events run together, since the reader trims
  the blank lines that would part them: it decodes one text with all of them, and that gives one message or none.\<close>

theorem SSE_events_run_together:
  assumes "ds \<noteq> []" and "\<forall>d \<in> set ds. d \<noteq> [] \<and> TrimSpace d = d \<and> CHR 0x0A \<notin> set d"
  shows "ReadSSEMessage decode (concat (map (WriteSSEEvent ''message'') ds)) =
    (case decode (Join ds [CHR 0x0A]) of Inl _ \<Rightarrow> [] | Inr message \<Rightarrow> [message])"
proof (cases ds)
  case Nil
  with assms(1) show ?thesis by simp
next
  case (Cons d es)
  then have d: "d \<noteq> []" "TrimSpace d = d" "CHR 0x0A \<notin> set d"
    and es: "\<forall>d \<in> set es. d \<noteq> [] \<and> TrimSpace d = d \<and> CHR 0x0A \<notin> set d" using assms(2) by auto
  have "fold (read_line decode) (Split (concat (map (WriteSSEEvent ''message'') ds)) CHR 0x0A) ([], []) =
      ([], Join ds [CHR 0x0A])"
    using read_events [OF es d(1), of decode "[]"] read_event [OF d, of decode _ "[]" "[]"] Cons by simp
  moreover have "Join ds [CHR 0x0A] \<noteq> []" using Cons d(1) by (cases es) simp_all
  ultimately show ?thesis by (simp add: ReadSSEMessage_def split: sum.splits)
qed

text \<open>A decoder that takes one object and nothing behind it.\<close>

definition ex_decode :: "string \<Rightarrow> JSONRPCMessage result" where
  "ex_decode s = (if s = ''{ping}'' then Inr (CreateNotification ''ping'' Nil_value) else Inl ''invalid JSON'')"

theorem SSE_events_run_together_witness:
  "ReadSSEMessage ex_decode (WriteSSEEvent ''message'' ''{ping}'') = [CreateNotification ''ping'' Nil_value] \<and>
   ReadSSEMessage ex_decode (WriteSSEEvent ''message'' ''{ping}'' @ WriteSSEEvent ''message'' ''{ping}'') = []"
proof -
  have t: "TrimSpace ''{ping}'' = ''{ping}''" by code_simp
  have "ReadSSEMessage ex_decode (WriteSSEEvent ''message'' ''{ping}'') = [CreateNotification ''ping'' Nil_value]"
    using SSE_events_run_together [of "[''{ping}'']" ex_decode] t by (simp add: ex_decode_def)
  moreover have "ReadSSEMessage ex_decode (WriteSSEEvent ''message'' ''{ping}'' @ WriteSSEEvent ''message'' ''{ping}'') = []"
    using SSE_events_run_together [of "[''{ping}'', ''{ping}'']" ex_decode] t by (simp add: ex_decode_def)
  ultimately show ?thesis by simp
qed

end
