(* ===== verification/MessageRouter.thy ===== *)
theory MessageRouter
  imports MCPProtocol MCPCache Monitoring
begin

section \<open>The message router\<close>

text \<open>
  \<open>pkg/mcp/message_router.go\<close>. The router answers the lists of tools, resources and prompts from the response cache, or
  from what is known of the adapter, or by asking the adapter's server, and sends every other message there. The cache
  and the monitor may be absent.
\<close>

record MessageRouter =
  mr_sessionStore :: InMemorySessionStore
  mr_capabilityCache :: CapabilityCache
  mr_cache :: "MCPCache option"
  mr_monitor :: "MCPMonitor option"

definition NewMessageRouter ::
    "InMemorySessionStore \<Rightarrow> CapabilityCache \<Rightarrow> MCPCache option \<Rightarrow> MCPMonitor option \<Rightarrow> MessageRouter" where
  "NewMessageRouter sessionStore capabilityCache cache monitor =
     \<lparr>mr_sessionStore = sessionStore, mr_capabilityCache = capabilityCache, mr_cache = cache, mr_monitor = monitor\<rparr>"

text \<open>What a call depends on: the digest and JSON, the network, the readings of the clock, and the orders of the cache
  before and after an entry is set.\<close>

record router_env =
  rt_sha :: "string \<Rightarrow> string"
  rt_mj :: "any \<Rightarrow> string"
  rt_jsize :: "CacheEntry \<Rightarrow> int option"
  rt_fmt_T :: "any \<Rightarrow> string"
  rt_marshal :: "JSONRPCMessage \<Rightarrow> string result"
  rt_decode :: "string \<Rightarrow> JSONRPCMessage result"
  rt_send :: "forwarded \<Rightarrow> sent"
  rt_start :: gotime
  rt_get :: gotime
  rt_get_elapsed :: duration
  rt_lookup_elapsed :: duration
  rt_set :: gotime
  rt_log :: gotime
  rt_done :: gotime
  rt_record :: gotime
  rt_ks :: "string list"
  rt_ks' :: "string list"

subsection \<open>The target server\<close>

definition MessageRouter_buildTargetURL :: "AdapterResource \<Rightarrow> string result" where
  "MessageRouter_buildTargetURL adapter =
     (let t = AD_ConnectionType adapter in
      if t = ConnectionTypeRemoteHttp then
        (if AD_RemoteUrl adapter = [] then Inl ''remote URL is required for RemoteHttp connection''
         else Inr (AD_RemoteUrl adapter))
      else if t = ConnectionTypeStreamableHttp \<or> t = ConnectionTypeSSE then
        (if AD_RemoteUrl adapter \<noteq> [] then Inr (AD_RemoteUrl adapter)
         else case AD_SidecarConfig adapter of
           Some sc \<Rightarrow> Inr (''http://mcp-sidecar-'' @ AR_ID adapter @ ''.suse-ai-up-mcp.svc.cluster.local:'' @
             show_int (if SC_Port sc = 0 then 8000 else SC_Port sc) @ ''/mcp'')
         | None \<Rightarrow> Inr (''http://'' @ AD_Name adapter @ ''-service.adapter.svc.cluster.local:8000/mcp''))
      else if t = ConnectionTypeLocalStdio
      then Inl ''local stdio connections not yet supported in message router''
      else Inl (''unsupported connection type: '' @ t))"

definition applyBearerAuth :: "AdapterAuthConfig \<Rightarrow> forwarded \<Rightarrow> forwarded result" where
  "applyBearerAuth auth req =
     (let token = (case AAC_BearerToken auth of None \<Rightarrow> [] | Some b \<Rightarrow> BT_Token b) in
      if token = [] then Inl ''no bearer token available''
      else Inr (req\<lparr>FW_Header := header_Set ''Authorization'' (''Bearer '' @ token) (FW_Header req)\<rparr>))"

definition applyBasicAuth :: "AdapterAuthConfig \<Rightarrow> forwarded \<Rightarrow> forwarded result" where
  "applyBasicAuth auth req =
     (case AAC_Basic auth of
        None \<Rightarrow> Inl ''basic authentication configuration not found''
      | Some b \<Rightarrow> Inr (req\<lparr>FW_Header := SetBasicAuth (BA_Username b) (BA_Password b) (FW_Header req)\<rparr>))"

definition applyAPIKeyAuth :: "AdapterAuthConfig \<Rightarrow> forwarded \<Rightarrow> forwarded result" where
  "applyAPIKeyAuth auth req =
     (case AAC_APIKey auth of
        None \<Rightarrow> Inl ''API key configuration not found''
      | Some k \<Rightarrow>
          if AK_Location k = ''header''
          then Inr (req\<lparr>FW_Header := header_Set (AK_Name k) (AK_Key k) (FW_Header req)\<rparr>)
          else if AK_Location k = ''query''
          then Inr (req\<lparr>FW_URL := url_set_query (FW_URL req)
                 (query_Encode (query_Set (AK_Name k) (AK_Key k) (ParseQuery (url_query (FW_URL req)))))\<rparr>)
          else if AK_Location k = ''cookie''
          then Inr (req\<lparr>FW_Header := AddCookie (AK_Name k) (AK_Key k) (FW_Header req)\<rparr>)
          else Inl (''unsupported API key location: '' @ AK_Location k))"

text \<open>The transport (\<open>pkg/mcp/streamable_http.go\<close>) has the same functions; only its error for OAuth differs.\<close>

definition apply_authentication :: "error \<Rightarrow> forwarded \<Rightarrow> AdapterResource \<Rightarrow> forwarded result" where
  "apply_authentication no_oauth req adapter =
     (case AD_Authentication adapter of
        None \<Rightarrow> Inr req
      | Some auth \<Rightarrow>
          if \<not> AAC_Required auth then Inr req
          else if AAC_Type auth = ''bearer'' then applyBearerAuth auth req
          else if AAC_Type auth = ''oauth'' then Inl no_oauth
          else if AAC_Type auth = ''basic'' then applyBasicAuth auth req
          else if AAC_Type auth = ''apikey'' then applyAPIKeyAuth auth req
          else Inl (''unsupported authentication type: '' @ AAC_Type auth))"

definition MessageRouter_applyAuthentication :: "forwarded \<Rightarrow> AdapterResource \<Rightarrow> forwarded result" where
  "MessageRouter_applyAuthentication = apply_authentication ''OAuth authentication not yet implemented in message router''"

definition proxyToTarget :: "router_env \<Rightarrow> JSONRPCMessage \<Rightarrow> AdapterResource \<Rightarrow> string \<Rightarrow> JSONRPCMessage result" where
  "proxyToTarget E message adapter sid =
     (case MessageRouter_buildTargetURL adapter of
        Inl err \<Rightarrow> Inl (''failed to build target URL: '' @ err)
      | Inr targetURL \<Rightarrow>
     case rt_marshal E message of
        Inl err \<Rightarrow> Inl (''failed to marshal message: '' @ err)
      | Inr messageBytes \<Rightarrow>
          (let h = header_Set ''MCP-Protocol-Version'' ProtocolVersion
                 (header_Set ''Accept'' ''application/json, text/event-stream''
                   (header_Set ''Content-Type'' ''application/json'' Map.empty));
               h' = (if sid \<noteq> [] then header_Set ''Mcp-Session-Id'' sid h else h) in
           case MessageRouter_applyAuthentication
                  \<lparr>FW_Method = ''POST'', FW_URL = targetURL, FW_Header = h', FW_Body = messageBytes\<rparr> adapter of
             Inl err \<Rightarrow> Inl (''failed to apply authentication: '' @ err)
           | Inr req \<Rightarrow>
               (case rt_send E req of
                  Bad_request err \<Rightarrow> Inl (''failed to create request: '' @ err)
                | Unreachable err \<Rightarrow> Inl (''failed to send request: '' @ err)
                | Answered resp \<Rightarrow>
                    if PX_Status resp \<noteq> 200
                    then Inl (''target server returned status '' @ show_int (PX_Status resp))
                    else (case rt_decode E (PX_Body resp) of
                      Inl err \<Rightarrow> Inl (''failed to decode response: '' @ err)
                    | Inr response \<Rightarrow> Inr response))))"

subsection \<open>Lists\<close>

text \<open>What the adapter is known to have, as the objects that JSON makes of it.\<close>

definition tool_value :: "MCPTool \<Rightarrow> any" where
  "tool_value t = Object ([''name'' \<mapsto> String_value (MT_Name t), ''description'' \<mapsto> String_value (MT_Description t),
       ''input_schema'' \<mapsto> Object (MT_InputSchema t)] ++
     (if MT_SourceType t = [] then Map.empty else [''source_type'' \<mapsto> String_value (MT_SourceType t)]) ++
     (if dom (MT_Config t) = {} then Map.empty else [''config'' \<mapsto> Object (MT_Config t)]))"

definition resource_value :: "MCPResource \<Rightarrow> any" where
  "resource_value r = Object ([''uri'' \<mapsto> String_value (MR_URI r), ''name'' \<mapsto> String_value (MR_Name r)] ++
     (if MR_Description r = [] then Map.empty else [''description'' \<mapsto> String_value (MR_Description r)]) ++
     (if MR_MimeType r = [] then Map.empty else [''mimeType'' \<mapsto> String_value (MR_MimeType r)]))"

definition argument_value :: "MCPArgument \<Rightarrow> any" where
  "argument_value a = Object [''name'' \<mapsto> String_value (MA_Name a), ''description'' \<mapsto> String_value (MA_Description a),
     ''required'' \<mapsto> Bool_value (MA_Required a)]"

definition prompt_value :: "MCPPrompt \<Rightarrow> any" where
  "prompt_value p = Object ([''name'' \<mapsto> String_value (MP_Name p), ''description'' \<mapsto> String_value (MP_Description p)] ++
     (if MP_Arguments p = [] then Map.empty else [''arguments'' \<mapsto> Slice (map argument_value (MP_Arguments p))]))"

definition set_response :: "router_env \<Rightarrow> string \<Rightarrow> string \<Rightarrow> any \<Rightarrow> any \<Rightarrow> MessageRouter \<Rightarrow> MessageRouter" where
  "set_response E name method params data mr =
     mr\<lparr>mr_cache := map_option (MCPCache_Set (rt_sha E) (rt_mj E) (rt_jsize E) (rt_set E) (rt_ks E) (rt_ks' E) name method
          params data []) (mr_cache mr)\<rparr>"

text \<open>The common part of the three handlers: \<open>known\<close> is what the adapter is known to have, \<open>log_lookup\<close> the entry about
  the lookup, which only the list of tools has.\<close>

definition handle_list ::
    "string \<Rightarrow> string \<Rightarrow> any list \<Rightarrow> (bool \<Rightarrow> MCPMonitor \<Rightarrow> MCPMonitor) \<Rightarrow> router_env \<Rightarrow> JSONRPCMessage \<Rightarrow> AdapterResource \<Rightarrow>
     string \<Rightarrow> MessageRouter \<Rightarrow> MessageRouter \<times> JSONRPCMessage result" where
  "handle_list method key known log_lookup E message adapter sid mr =
     (let (cache, cached, found) = (case mr_cache mr of
            None \<Rightarrow> (None, Nil_value, False)
          | Some c \<Rightarrow> (case MCPCache_Get (rt_sha E) (rt_mj E) (rt_get E) (rt_get_elapsed E) (AD_Name adapter) method
              (JM_Params message) c of (c', v, b) \<Rightarrow> (Some c', v, b)));
          mr1 = mr\<lparr>mr_cache := cache, mr_monitor := (if mr_cache mr = None then mr_monitor mr
                    else map_option (log_lookup found) (mr_monitor mr))\<rparr>
      in if found then (mr1, Inr (CreateSuccessResponse (JM_ID message) cached))
         else if known \<noteq> [] then
           (let r = Object [key \<mapsto> Slice known] in
            (set_response E (AD_Name adapter) method (JM_Params message) r mr1, Inr (CreateSuccessResponse (JM_ID message) r)))
         else case proxyToTarget E message adapter sid of
           Inl err \<Rightarrow> (mr1, Inl err)
         | Inr response \<Rightarrow>
             (if JM_Result response \<noteq> Nil_value
              then set_response E (AD_Name adapter) method (JM_Params message) (JM_Result response) mr1 else mr1,
              Inr response))"

definition handleToolsList ::
    "router_env \<Rightarrow> JSONRPCMessage \<Rightarrow> AdapterResource \<Rightarrow> string \<Rightarrow> MessageRouter \<Rightarrow> MessageRouter \<times> JSONRPCMessage result" where
  "handleToolsList E message adapter sid mr =
     handle_list ''tools/list'' ''tools''
       (case AD_MCPFunctionality adapter of None \<Rightarrow> [] | Some f \<Rightarrow> map tool_value (MF_Tools f))
       (\<lambda>hit. LogCacheOperation (rt_log E) ''get'' (AD_Name adapter) ''tools/list'' hit (rt_lookup_elapsed E))
       E message adapter sid mr"

definition handleResourcesList ::
    "router_env \<Rightarrow> JSONRPCMessage \<Rightarrow> AdapterResource \<Rightarrow> string \<Rightarrow> MessageRouter \<Rightarrow> MessageRouter \<times> JSONRPCMessage result" where
  "handleResourcesList E message adapter sid mr =
     handle_list ''resources/list'' ''resources''
       (case AD_MCPFunctionality adapter of None \<Rightarrow> [] | Some f \<Rightarrow> map resource_value (MF_Resources f))
       (\<lambda>hit m. m) E message adapter sid mr"

definition handlePromptsList ::
    "router_env \<Rightarrow> JSONRPCMessage \<Rightarrow> AdapterResource \<Rightarrow> string \<Rightarrow> MessageRouter \<Rightarrow> MessageRouter \<times> JSONRPCMessage result" where
  "handlePromptsList E message adapter sid mr =
     handle_list ''prompts/list'' ''prompts''
       (case AD_MCPFunctionality adapter of None \<Rightarrow> [] | Some f \<Rightarrow> map prompt_value (MF_Prompts f))
       (\<lambda>hit m. m) E message adapter sid mr"

subsection \<open>Routing\<close>

definition handleToolsCall :: "router_env \<Rightarrow> JSONRPCMessage \<Rightarrow> AdapterResource \<Rightarrow> string \<Rightarrow> JSONRPCMessage result" where
  "handleToolsCall E message adapter sid = proxyToTarget E message adapter sid"

definition handleResourcesRead :: "router_env \<Rightarrow> JSONRPCMessage \<Rightarrow> AdapterResource \<Rightarrow> string \<Rightarrow> JSONRPCMessage result" where
  "handleResourcesRead E message adapter sid = proxyToTarget E message adapter sid"

definition handleResourcesSubscribe :: "router_env \<Rightarrow> JSONRPCMessage \<Rightarrow> AdapterResource \<Rightarrow> string \<Rightarrow> JSONRPCMessage result" where
  "handleResourcesSubscribe E message adapter sid = proxyToTarget E message adapter sid"

definition handlePromptsGet :: "router_env \<Rightarrow> JSONRPCMessage \<Rightarrow> AdapterResource \<Rightarrow> string \<Rightarrow> JSONRPCMessage result" where
  "handlePromptsGet E message adapter sid = proxyToTarget E message adapter sid"

definition handleCompletionComplete :: "router_env \<Rightarrow> JSONRPCMessage \<Rightarrow> AdapterResource \<Rightarrow> string \<Rightarrow> JSONRPCMessage result" where
  "handleCompletionComplete E message adapter sid = proxyToTarget E message adapter sid"

definition route_message ::
    "router_env \<Rightarrow> JSONRPCMessage \<Rightarrow> AdapterResource \<Rightarrow> string \<Rightarrow> MessageRouter \<Rightarrow> MessageRouter \<times> JSONRPCMessage result" where
  "route_message E message adapter sid mr =
     (let m = JM_Method message in
      if m = ''tools/list'' then handleToolsList E message adapter sid mr
      else if m = ''tools/call'' then (mr, handleToolsCall E message adapter sid)
      else if m = ''resources/list'' then handleResourcesList E message adapter sid mr
      else if m = ''resources/read'' then (mr, handleResourcesRead E message adapter sid)
      else if m = ''resources/subscribe'' then (mr, handleResourcesSubscribe E message adapter sid)
      else if m = ''prompts/list'' then handlePromptsList E message adapter sid mr
      else if m = ''prompts/get'' then (mr, handlePromptsGet E message adapter sid)
      else if m = ''completion/complete'' then (mr, handleCompletionComplete E message adapter sid)
      else (mr, proxyToTarget E message adapter sid))"

lemmas proxied_methods = handleToolsCall_def handleResourcesRead_def handleResourcesSubscribe_def handlePromptsGet_def
  handleCompletionComplete_def

text \<open>The pointer that is logged as the result is never a nil interface.\<close>

definition RouteMessage ::
    "router_env \<Rightarrow> JSONRPCMessage \<Rightarrow> AdapterResource \<Rightarrow> string \<Rightarrow> MessageRouter \<Rightarrow> MessageRouter \<times> JSONRPCMessage result" where
  "RouteMessage E message adapter sid mr =
     (let mr0 = mr\<lparr>mr_monitor := map_option (LogRequest (rt_start E) sid (AD_Name adapter) (JM_Method message)
             (JM_Params message)) (mr_monitor mr)\<rparr>;
          (mr1, response) = route_message E message adapter sid mr0;
          duration = rt_done E - rt_start E;
          success = is_ok response
      in (mr1\<lparr>mr_monitor := map_option (RecordOperation (rt_record E) (JM_Method message) sid (AD_Name adapter) success duration
              \<circ> LogResponse (\<lambda>_. ''*mcp.JSONRPCMessage'') (rt_done E) sid (AD_Name adapter) (JM_Method message) success duration
                  (Object Map.empty)) (mr_monitor mr1)\<rparr>, response))"

subsection \<open>Notifications\<close>

text \<open>The three notifications of changed lists differ in the method whose responses they invalidate. \<open>rt_ks\<close> is the order
  of the response cache.\<close>

definition handle_list_changed :: "string \<Rightarrow> router_env \<Rightarrow> AdapterResource \<Rightarrow> string \<Rightarrow> MessageRouter \<Rightarrow> MessageRouter" where
  "handle_list_changed method E adapter sid mr =
     (let cc = InvalidateCache adapter (mr_capabilityCache mr);
          mr1 = mr\<lparr>mr_capabilityCache := cc, mr_cache := map_option (MCPCache_Invalidate (rt_sha E) (rt_mj E) (rt_jsize E)
            (rt_ks E) (rt_ks' E) (AD_Name adapter) method) (mr_cache mr)\<rparr>
      in if sid \<noteq> [] then
           (case GetCapabilities (rt_get E) (rt_set E) adapter cc of
              (cc', Inl err) \<Rightarrow> mr1\<lparr>mr_capabilityCache := cc'\<rparr>
            | (cc', Inr freshCapabilities) \<Rightarrow>
                mr1\<lparr>mr_capabilityCache := cc',
                    mr_sessionStore := fst (SetMCPCapabilities sid freshCapabilities (mr_sessionStore mr))\<rparr>)
         else mr1)"

definition handleToolsListChanged :: "router_env \<Rightarrow> AdapterResource \<Rightarrow> string \<Rightarrow> MessageRouter \<Rightarrow> MessageRouter" where
  "handleToolsListChanged = handle_list_changed ''tools/list''"

definition handleResourcesListChanged :: "router_env \<Rightarrow> AdapterResource \<Rightarrow> string \<Rightarrow> MessageRouter \<Rightarrow> MessageRouter" where
  "handleResourcesListChanged = handle_list_changed ''resources/list''"

definition handlePromptsListChanged :: "router_env \<Rightarrow> AdapterResource \<Rightarrow> string \<Rightarrow> MessageRouter \<Rightarrow> MessageRouter" where
  "handlePromptsListChanged = handle_list_changed ''prompts/list''"

text \<open>The other notifications (an updated resource, cancellation, progress) are only logged.\<close>

definition HandleNotification :: "router_env \<Rightarrow> JSONRPCMessage \<Rightarrow> AdapterResource \<Rightarrow> string \<Rightarrow> MessageRouter \<Rightarrow>
    MessageRouter \<times> error option" where
  "HandleNotification E notification adapter sid mr =
     ((if JM_Method notification = ''notifications/tools/list_changed'' then handleToolsListChanged E adapter sid mr
       else if JM_Method notification = ''notifications/resources/list_changed''
       then handleResourcesListChanged E adapter sid mr
       else if JM_Method notification = ''notifications/prompts/list_changed'' then handlePromptsListChanged E adapter sid mr
       else mr), None)"

text \<open>\<open>show_float\<close>: the verb for a float64 without decimals (\<open>strconv.FormatFloat(v, 'f', 0, 64)\<close>), which rounds half to even.\<close>

definition show_float :: "rat \<Rightarrow> string" where
  "show_float x =
     (let n = \<lfloor>\<bar>x\<bar>\<rfloor>; d = \<bar>x\<bar> - of_int n;
          r = (if d > 1 / 2 \<or> d = 1 / 2 \<and> odd n then n + 1 else n)
      in (if x < 0 then ''-'' else []) @ show_int r)"

definition ParseCursor :: "(any \<Rightarrow> string) \<Rightarrow> (string \<rightharpoonup> any) option \<Rightarrow> string result" where
  "ParseCursor fmt_T params =
     (case params of
        None \<Rightarrow> Inr []
      | Some p \<Rightarrow> (case p ''cursor'' of
          None \<Rightarrow> Inr []
        | Some cursor \<Rightarrow> (case cursor of
            String_value v \<Rightarrow> Inr v
          | Float64 v \<Rightarrow> Inr (show_float v)
          | Int_value v \<Rightarrow> Inr (show_int v)
          | _ \<Rightarrow> Inl (''invalid cursor type: '' @ fmt_T cursor))))"

definition GetCacheMetrics :: "MessageRouter \<Rightarrow> CacheMetrics option" where
  "GetCacheMetrics mr =
     (case mr_cache mr of
        None \<Rightarrow> None
      | Some c \<Rightarrow> if CC_EnableMetrics (mc_config c) then Some (mc_metrics c) else None)"

subsection \<open>Credentials\<close>

text \<open>That a request carries what the configuration asks for.\<close>

definition carries_credentials :: "AdapterAuthConfig \<Rightarrow> forwarded \<Rightarrow> bool" where
  "carries_credentials auth req \<longleftrightarrow>
     (if AAC_Type auth = ''bearer'' then
        (case AAC_BearerToken auth of None \<Rightarrow> False
         | Some b \<Rightarrow> BT_Token b \<noteq> [] \<and> FW_Header req ''Authorization'' = Some [''Bearer '' @ BT_Token b])
      else if AAC_Type auth = ''basic'' then
        (case AAC_Basic auth of None \<Rightarrow> False
         | Some b \<Rightarrow> FW_Header req ''Authorization'' =
             Some [''Basic '' @ b64_std_encode (BA_Username b @ '':'' @ BA_Password b)])
      else if AAC_Type auth = ''apikey'' then
        (case AAC_APIKey auth of None \<Rightarrow> False
         | Some k \<Rightarrow>
             if AK_Location k = ''header'' then FW_Header req (CanonicalHeaderKey (AK_Name k)) = Some [AK_Key k]
             else if AK_Location k = ''query'' then query_values (ParseQuery (url_query (FW_URL req))) (AK_Name k) = [AK_Key k]
             else AK_Location k = ''cookie'' \<and> Contains (header_Get (FW_Header req) ''Cookie'') (cookie_text (AK_Name k) (AK_Key k)))
      else False)"

lemma canonical_keys: "CanonicalHeaderKey ''Authorization'' = ''Authorization''" "CanonicalHeaderKey ''Cookie'' = ''Cookie''"
  by code_simp+

lemma AddCookie_contains: "Contains (header_Get (AddCookie n v h) ''Cookie'') (cookie_text n v)"
proof -
  have "Contains (x @ cookie_text n v) (cookie_text n v)" for x
    using ContainsI [of x "cookie_text n v" "[]"] by simp
  from this [of "[]"] this [of "header_Get h ''Cookie'' @ ''; ''"] show ?thesis
    by (simp add: AddCookie_def Let_def header_Set_def canonical_keys header_Get_def)
qed

lemma query_key_set: "query_values (ParseQuery (url_query (url_set_query url (query_Encode (query_Set n k q))))) n = [k]"
proof -
  have "query_values (sort_key fst (query_Set n k q)) n = [k]"
    by (simp add: query_values_def filter_sort_key query_Set_def)
  moreover have "query_Encode (query_Set n k q) \<noteq> []" by (rule query_Encode_nonempty) (simp add: query_Set_def)
  ultimately show ?thesis by (simp add: url_query_set query_Encode_chars ParseQuery_Encode query_Set_def)
qed

lemma apply_authentication_carries:
  assumes "apply_authentication e req adapter = Inr req'"
    and "AD_Authentication adapter = Some auth" and "AAC_Required auth"
  shows "carries_credentials auth req'"
proof -
  consider (bearer) "AAC_Type auth = ''bearer''" "applyBearerAuth auth req = Inr req'"
    | (basic) "AAC_Type auth = ''basic''" "applyBasicAuth auth req = Inr req'"
    | (apikey) "AAC_Type auth = ''apikey''" "applyAPIKeyAuth auth req = Inr req'"
    using assms by (auto simp: apply_authentication_def split: if_splits)
  then show ?thesis
  proof cases
    case bearer
    then show ?thesis
      by (auto simp: applyBearerAuth_def carries_credentials_def Let_def header_Set_def canonical_keys
          split: option.splits if_splits)
  next
    case basic
    then show ?thesis
      by (auto simp: applyBasicAuth_def carries_credentials_def SetBasicAuth_def header_Set_def canonical_keys
          split: option.splits)
  next
    case apikey
    then obtain k where k: "AAC_APIKey auth = Some k" by (auto simp: applyAPIKeyAuth_def split: option.splits)
    consider "AK_Location k = ''header''" | "AK_Location k = ''query''" | "AK_Location k = ''cookie''"
      using apikey k by (auto simp: applyAPIKeyAuth_def split: if_splits)
    then show ?thesis
      using apikey k by cases
        (auto simp: applyAPIKeyAuth_def carries_credentials_def header_Set_def query_key_set AddCookie_contains)
  qed
qed

lemma MessageRouter_carries:
  "MessageRouter_applyAuthentication req adapter = Inr req' \<Longrightarrow> AD_Authentication adapter = Some auth \<Longrightarrow>
   AAC_Required auth \<Longrightarrow> carries_credentials auth req'"
  unfolding MessageRouter_applyAuthentication_def by (rule apply_authentication_carries)

lemma env_send:
  "rt_sha (E\<lparr>rt_send := x\<rparr>) = rt_sha E"
  "rt_mj (E\<lparr>rt_send := x\<rparr>) = rt_mj E"
  "rt_jsize (E\<lparr>rt_send := x\<rparr>) = rt_jsize E"
  "rt_fmt_T (E\<lparr>rt_send := x\<rparr>) = rt_fmt_T E"
  "rt_marshal (E\<lparr>rt_send := x\<rparr>) = rt_marshal E"
  "rt_decode (E\<lparr>rt_send := x\<rparr>) = rt_decode E"
  "rt_start (E\<lparr>rt_send := x\<rparr>) = rt_start E"
  "rt_get (E\<lparr>rt_send := x\<rparr>) = rt_get E"
  "rt_get_elapsed (E\<lparr>rt_send := x\<rparr>) = rt_get_elapsed E"
  "rt_lookup_elapsed (E\<lparr>rt_send := x\<rparr>) = rt_lookup_elapsed E"
  "rt_set (E\<lparr>rt_send := x\<rparr>) = rt_set E"
  "rt_log (E\<lparr>rt_send := x\<rparr>) = rt_log E"
  "rt_done (E\<lparr>rt_send := x\<rparr>) = rt_done E"
  "rt_record (E\<lparr>rt_send := x\<rparr>) = rt_record E"
  "rt_ks (E\<lparr>rt_send := x\<rparr>) = rt_ks E"
  "rt_ks' (E\<lparr>rt_send := x\<rparr>) = rt_ks' E"
  "rt_send (E\<lparr>rt_send := x\<rparr>) = x"
  by simp_all

lemma proxyToTarget_carries:
  assumes "AD_Authentication adapter = Some auth" and "AAC_Required auth"
    and "\<And>f. carries_credentials auth f \<Longrightarrow> other f = rt_send E f"
  shows "proxyToTarget (E\<lparr>rt_send := other\<rparr>) message adapter sid = proxyToTarget E message adapter sid"
proof -
  let ?E = "E\<lparr>rt_send := other\<rparr>"
  define h :: "string \<rightharpoonup> string list" where "h = header_Set ''MCP-Protocol-Version'' ProtocolVersion
    (header_Set ''Accept'' ''application/json, text/event-stream'' (header_Set ''Content-Type'' ''application/json'' Map.empty))"
  define h' where "h' = (if sid \<noteq> [] then header_Set ''Mcp-Session-Id'' sid h else h)"
  have same: "other req = rt_send E req" if "MessageRouter_applyAuthentication r adapter = Inr req" for r req
    using assms(3) [OF MessageRouter_carries [OF that assms(1,2)]] .
  show ?thesis
    unfolding proxyToTarget_def Let_def env_send h_def [symmetric] h'_def [symmetric]
    by (auto split: sum.split dest: same)
qed

lemmas list_handlers = handleToolsList_def handleResourcesList_def handlePromptsList_def

lemma route_message_proxied:
  assumes "proxyToTarget (E\<lparr>rt_send := other\<rparr>) message adapter sid = proxyToTarget E message adapter sid"
  shows "route_message (E\<lparr>rt_send := other\<rparr>) message adapter sid mr = route_message E message adapter sid mr"
  unfolding route_message_def list_handlers handle_list_def proxied_methods set_response_def env_send assms by (rule refl)

subsection \<open>The lists\<close>

abbreviation list_method :: "string \<Rightarrow> bool" where
  "list_method m \<equiv> m \<in> {''tools/list'', ''resources/list'', ''prompts/list''}"

text \<open>The response that the cache holds at a time for an adapter's name and a message.\<close>

definition cached_answer :: "router_env \<Rightarrow> string \<Rightarrow> JSONRPCMessage \<Rightarrow> MessageRouter \<Rightarrow> any option" where
  "cached_answer E name message mr =
     (case mr_cache mr of
        None \<Rightarrow> None
      | Some c \<Rightarrow> (case mc_cache c (generateCacheKey (rt_sha E) (rt_mj E) name (JM_Method message) (JM_Params message)) of
          None \<Rightarrow> None
        | Some e \<Rightarrow> if CacheEntry_IsValid (rt_get E) e then Some (CE_Data e) else None))"

lemma cached_answer_monitor [simp]: "cached_answer E name message (mr\<lparr>mr_monitor := x\<rparr>) = cached_answer E name message mr"
  by (simp add: cached_answer_def)

lemma route_list:
  assumes "list_method (JM_Method message)"
  shows "\<exists>key known lg. route_message E message adapter sid mr =
    handle_list (JM_Method message) key known lg E message adapter sid mr"
proof -
  have "route_message E message adapter sid mr = handleToolsList E message adapter sid mr \<and> JM_Method message = ''tools/list'' \<or>
    route_message E message adapter sid mr = handleResourcesList E message adapter sid mr \<and> JM_Method message = ''resources/list'' \<or>
    route_message E message adapter sid mr = handlePromptsList E message adapter sid mr \<and> JM_Method message = ''prompts/list''"
    using assms by (auto simp: route_message_def Let_def)
  then show ?thesis unfolding list_handlers by (elim disjE conjE) metis+
qed

text \<open>A response in the cache is the answer.\<close>

lemma handle_list_cached:
  assumes "cached_answer E (AD_Name adapter) message mr = Some v"
  shows "snd (handle_list (JM_Method message) key known lg E message adapter sid mr) =
    Inr (CreateSuccessResponse (JM_ID message) v)"
proof -
  obtain c where c: "mr_cache mr = Some c" using assms by (auto simp: cached_answer_def split: option.splits)
  then obtain e where e: "mc_cache c (generateCacheKey (rt_sha E) (rt_mj E) (AD_Name adapter) (JM_Method message) (JM_Params message)) = Some e"
    "CacheEntry_IsValid (rt_get E) e" "v = CE_Data e"
    using assms by (auto simp: cached_answer_def split: option.splits if_splits)
  show ?thesis
    by (simp add: handle_list_def c MCPCache_Get_def e Let_def)
qed

text \<open>Otherwise the answer comes from the adapter or its server, and goes into the cache if it has a result.\<close>

lemma mc_config_Set [simp]: "mc_config (MCPCache_Set sha mj jsize now ks ks' a m p d etag c) = mc_config c"
  by (simp add: MCPCache_Set_def Let_def evictLRU_def)

lemma mc_config_Get [simp]: "mc_config (fst (MCPCache_Get sha mj now elapsed a m p c)) = mc_config c"
  by (simp add: MCPCache_Get_def Let_def split: option.split)

lemma handle_list_fresh:
  assumes "mr_cache mr = Some c" and "cached_answer E (AD_Name adapter) message mr = None"
    and "handle_list (JM_Method message) key known lg E message adapter sid mr = (mr', Inr response)"
    and "JM_Result response \<noteq> Nil_value"
  shows "\<exists>c'. mc_config c' = mc_config c \<and> mr_cache mr' = Some (MCPCache_Set (rt_sha E) (rt_mj E) (rt_jsize E) (rt_set E) (rt_ks E)
    (rt_ks' E) (AD_Name adapter) (JM_Method message) (JM_Params message) (JM_Result response) [] c')"
proof -
  let ?get = "MCPCache_Get (rt_sha E) (rt_mj E) (rt_get E) (rt_get_elapsed E) (AD_Name adapter) (JM_Method message)
    (JM_Params message) c"
  obtain c' v b where get: "?get = (c', v, b)" by (metis prod_cases3)
  have "\<not> b" using assms(1,2) get
    by (auto simp: cached_answer_def MCPCache_Get_def Let_def split: option.splits if_splits)
  moreover have "mc_config c' = mc_config c" using mc_config_Get [of _ _ _ _ _ _ _ c] get by (metis fst_conv)
  ultimately show ?thesis
    using assms(1,3,4) get
    by (auto simp: handle_list_def Let_def set_response_def CreateSuccessResponse_def split: if_splits sum.splits)
qed

lemma Set_answers:
  assumes "mr_cache mr' = Some (MCPCache_Set (rt_sha E) (rt_mj E) jsize now ks ks' name (JM_Method message) (JM_Params message) v [] c)"
    and "v \<noteq> Nil_value" and "rt_get E - now \<le> getTTLForMethod (mc_config c) (JM_Method message)"
  shows "cached_answer E name message mr' = Some v"
  using assms(2,3)
  by (cases v) (simp_all add: cached_answer_def assms(1) MCPCache_Set_def Let_def CacheEntry_IsValid_def CacheEntry_IsExpired_def)

lemma RouteMessage_snd: "snd (RouteMessage E message adapter sid mr) = snd (route_message E message adapter sid
    (mr\<lparr>mr_monitor := map_option (LogRequest (rt_start E) sid (AD_Name adapter) (JM_Method message) (JM_Params message))
      (mr_monitor mr)\<rparr>))"
  by (simp add: RouteMessage_def Let_def case_prod_beta)

lemma RouteMessage_cache: "mr_cache (fst (RouteMessage E message adapter sid mr)) = mr_cache (fst (route_message E message adapter sid
    (mr\<lparr>mr_monitor := map_option (LogRequest (rt_start E) sid (AD_Name adapter) (JM_Method message) (JM_Params message))
      (mr_monitor mr)\<rparr>)))"
  by (simp add: RouteMessage_def Let_def case_prod_beta)

lemma RouteMessage_cached:
  assumes "list_method (JM_Method message)" and "cached_answer E (AD_Name adapter) message mr = Some v"
  shows "snd (RouteMessage E message adapter sid mr) = Inr (CreateSuccessResponse (JM_ID message) v)"
proof -
  let ?mr = "mr\<lparr>mr_monitor := map_option (LogRequest (rt_start E) sid (AD_Name adapter) (JM_Method message) (JM_Params message))
      (mr_monitor mr)\<rparr>"
  obtain key known lg where "route_message E message adapter sid ?mr =
      handle_list (JM_Method message) key known lg E message adapter sid ?mr"
    using route_list [OF assms(1)] by blast
  then show ?thesis using assms(2) by (simp add: RouteMessage_snd handle_list_cached)
qed

subsection \<open>Properties\<close>


text \<open>The lists are cached under the name of the adapter. When a list of one adapter was not answered from the cache
  and has a result, then within the time to live the same request to any adapter of that name (whoever owns it,
  whatever server it stands for and whatever authentication that requires), in any session, gets the first adapter's
  list, and no server is asked.\<close>

theorem lists_shared_by_name:
  assumes "list_method (JM_Method message)" and "mr_cache mr = Some c"
    and "cached_answer E (AD_Name adapter) message mr = None"
    and "RouteMessage E message adapter sid mr = (mr', Inr response)" and "JM_Result response \<noteq> Nil_value"
    and "JM_Method message' = JM_Method message" "JM_Params message' = JM_Params message" "AD_Name adapter' = AD_Name adapter"
    and "rt_sha E' = rt_sha E" "rt_mj E' = rt_mj E"
    and "rt_get E' - rt_set E \<le> getTTLForMethod (mc_config c) (JM_Method message)"
  shows "snd (RouteMessage E' message' adapter' sid' mr') =
    Inr (CreateSuccessResponse (JM_ID message') (JM_Result response))"
proof -
  let ?mr = "mr\<lparr>mr_monitor := map_option (LogRequest (rt_start E) sid (AD_Name adapter) (JM_Method message) (JM_Params message))
      (mr_monitor mr)\<rparr>"
  obtain key known lg where r: "route_message E message adapter sid ?mr =
      handle_list (JM_Method message) key known lg E message adapter sid ?mr"
    using route_list [OF assms(1)] by blast
  obtain mr1 where mr1: "handle_list (JM_Method message) key known lg E message adapter sid ?mr = (mr1, Inr response)"
    "mr_cache mr' = mr_cache mr1"
    using assms(4) RouteMessage_snd [of E message adapter sid mr] RouteMessage_cache [of E message adapter sid mr] r
    by (metis fst_conv prod.collapse snd_conv)
  have "mr_cache ?mr = Some c" "cached_answer E (AD_Name adapter) message ?mr = None" using assms(2,3) by simp_all
  from handle_list_fresh [OF this mr1(1) assms(5)] mr1(2) obtain c' where c': "mc_config c' = mc_config c"
    "mr_cache mr' = Some (MCPCache_Set (rt_sha E) (rt_mj E) (rt_jsize E) (rt_set E) (rt_ks E) (rt_ks' E) (AD_Name adapter)
       (JM_Method message) (JM_Params message) (JM_Result response) [] c')" by auto
  have "cached_answer E' (AD_Name adapter') message' mr' = Some (JM_Result response)"
    by (rule Set_answers [where jsize = "rt_jsize E" and now = "rt_set E" and ks = "rt_ks E" and ks' = "rt_ks' E" and c = c'])
      (use c' assms in simp_all)
  then show ?thesis using assms(1,6) by (intro RouteMessage_cached) simp_all
qed

text \<open>No notification, not even that a list has changed, removes a cached list that was asked for with parameters (a
  page of the list): unless the digests collide, it stays the answer until its time is over.\<close>

theorem list_changed_keeps_pages:
  assumes "HandleNotification E notification adapter sid mr = (mr', err)"
    and "list_method (JM_Method message)" and "AD_Name adapter \<noteq> []"
    and "cached_answer E' (AD_Name adapter) message mr = Some v"
    and "\<And>m. list_method m \<Longrightarrow> generateCacheKey (rt_sha E) (rt_mj E) (AD_Name adapter) (JM_Method message) (JM_Params message) \<noteq>
      generateCacheKey (rt_sha E) (rt_mj E) (AD_Name adapter) m Nil_value"
    and "rt_sha E' = rt_sha E" "rt_mj E' = rt_mj E"
  shows "snd (RouteMessage E' message adapter sid' mr') = Inr (CreateSuccessResponse (JM_ID message) v)"
proof -
  let ?key = "generateCacheKey (rt_sha E) (rt_mj E) (AD_Name adapter) (JM_Method message) (JM_Params message)"
  have "mc_cache (MCPCache_Invalidate (rt_sha E) (rt_mj E) (rt_jsize E) (rt_ks E) (rt_ks' E) (AD_Name adapter) m c) ?key =
      mc_cache c ?key" if "list_method m" for m c
    using assms(3) assms(5) [OF that] that by (auto simp: MCPCache_Invalidate_def Let_def keyMatches_def restrict_map_def)
  then have "cached_answer E' (AD_Name adapter) message (handle_list_changed m E adapter sid mr) =
      cached_answer E' (AD_Name adapter) message mr" if "list_method m" for m
    using that assms(6,7)
    by (auto simp: cached_answer_def handle_list_changed_def Let_def split: option.split prod.split sum.split)
  then have "cached_answer E' (AD_Name adapter) message mr' = Some v"
    using assms(1,4)
    by (auto simp: HandleNotification_def handleToolsListChanged_def handleResourcesListChanged_def
        handlePromptsListChanged_def split: if_splits)
  with assms(2) show ?thesis by (rule RouteMessage_cached)
qed

text \<open>A digest that keeps its text, a network that answers with the URL it was asked at, and a message that asks for a
  list of tools with parameters.\<close>

definition ex_router_env :: router_env where
  "ex_router_env = \<lparr>rt_sha = (\<lambda>s. s), rt_mj = (\<lambda>_. ''p''), rt_jsize = (\<lambda>_. None), rt_fmt_T = (\<lambda>_. []),
     rt_marshal = (\<lambda>m. Inr (JM_Method m)), rt_decode = (\<lambda>b. Inr (CreateSuccessResponse Nil_value (String_value b))),
     rt_send = (\<lambda>f. Answered \<lparr>PX_Status = 200, PX_Header = Map.empty, PX_Body = FW_URL f, PX_Error = None\<rparr>),
     rt_start = 0, rt_get = 1, rt_get_elapsed = 1, rt_lookup_elapsed = 1, rt_set = 2, rt_log = 2, rt_done = 3, rt_record = 3,
     rt_ks = [], rt_ks' = []\<rparr>"

lemma ex_router_env_simps [simp]:
  "rt_sha ex_router_env = (\<lambda>s. s)" "rt_mj ex_router_env = (\<lambda>_. ''p'')" "rt_marshal ex_router_env = (\<lambda>m. Inr (JM_Method m))"
  "rt_decode ex_router_env = (\<lambda>b. Inr (CreateSuccessResponse Nil_value (String_value b)))"
  "rt_send ex_router_env = (\<lambda>f. Answered \<lparr>PX_Status = 200, PX_Header = Map.empty, PX_Body = FW_URL f, PX_Error = None\<rparr>)"
  "rt_get ex_router_env = 1" "rt_set ex_router_env = 2" "rt_ks ex_router_env = []" "rt_ks' ex_router_env = []"
  by (simp_all add: ex_router_env_def)

definition ex_list :: "string \<Rightarrow> JSONRPCMessage" where
  "ex_list method = CreateNotification method (Object [''cursor'' \<mapsto> String_value ''2''])"

lemma ex_list_simps [simp]: "JM_Method (ex_list m) = m" "JM_Params (ex_list m) = Object [''cursor'' \<mapsto> String_value ''2'']"
  "JM_ID (ex_list m) = Nil_value"
  by (simp_all add: ex_list_def CreateNotification_def)

definition ex_target :: "string \<Rightarrow> string \<Rightarrow> AdapterAuthConfig option \<Rightarrow> AdapterResource" where
  "ex_target owner url auth = AdapterResource_Create 1 []
     (zero_AdapterData\<lparr>AD_Name := ''w'', AD_ConnectionType := ConnectionTypeRemoteHttp, AD_RemoteUrl := url,
        AD_Authentication := auth\<rparr>) owner 1"

lemma ex_target_simps [simp]:
  "AD_Name (ex_target owner url auth) = ''w''" "AD_ConnectionType (ex_target owner url auth) = ConnectionTypeRemoteHttp"
  "AD_RemoteUrl (ex_target owner url auth) = url" "AD_Authentication (ex_target owner url auth) = auth"
  "AD_MCPFunctionality (ex_target owner url auth) = None"
  by (simp_all add: ex_target_def zero_AdapterData_def AdapterResource_Create_def AdapterData.defs)

definition ex_api_key :: AdapterAuthConfig where
  "ex_api_key = \<lparr>AAC_Required = True, AAC_Type = ''apikey'', AAC_BearerToken = None, AAC_OAuth = None, AAC_Basic = None,
     AAC_APIKey = Some \<lparr>AK_Key = ''a&b'', AK_Location = ''query'', AK_Name = ''key''\<rparr>\<rparr>"

definition ex_router :: MessageRouter where
  "ex_router = NewMessageRouter NewInMemorySessionStore Map.empty (Some (NewMCPCache None)) None"

lemma ex_first_answer:
  "snd (RouteMessage ex_router_env (ex_list ''tools/list'') (ex_target ''ann'' ''http://a'' None) ''s1'' ex_router) =
    Inr (CreateSuccessResponse Nil_value (String_value ''http://a''))"
  by (simp add: RouteMessage_snd route_message_def list_handlers handle_list_def proxyToTarget_def MessageRouter_buildTargetURL_def
      MessageRouter_applyAuthentication_def apply_authentication_def ex_router_def NewMessageRouter_def MCPCache_Get_def
      NewMCPCache_def Let_def CreateSuccessResponse_def)


theorem lists_shared_by_name_witness:
  "snd (RouteMessage ex_router_env (ex_list ''tools/list'') (ex_target ''bob'' ''http://b'' (Some ex_api_key)) ''s2''
      (fst (RouteMessage ex_router_env (ex_list ''tools/list'') (ex_target ''ann'' ''http://a'' None) ''s1'' ex_router))) =
    Inr (CreateSuccessResponse Nil_value (String_value ''http://a''))"
proof -
  let ?r = "CreateSuccessResponse Nil_value (String_value ''http://a'')"
  have c: "mr_cache ex_router = Some (NewMCPCache None)" by (simp add: ex_router_def NewMessageRouter_def)
  have "cached_answer ex_router_env (AD_Name (ex_target ''ann'' ''http://a'' None)) (ex_list ''tools/list'') ex_router = None"
    by (simp add: cached_answer_def c NewMCPCache_def)
  moreover have "RouteMessage ex_router_env (ex_list ''tools/list'') (ex_target ''ann'' ''http://a'' None) ''s1'' ex_router =
      (fst (RouteMessage ex_router_env (ex_list ''tools/list'') (ex_target ''ann'' ''http://a'' None) ''s1'' ex_router), Inr ?r)"
    using ex_first_answer by (simp add: prod_eq_iff)
  moreover have "rt_get ex_router_env - rt_set ex_router_env \<le> getTTLForMethod (mc_config (NewMCPCache None)) ''tools/list''"
    by (simp add: getTTLForMethod_def NewMCPCache_def DefaultCacheConfig_def)
  ultimately show ?thesis
    using lists_shared_by_name [of "ex_list ''tools/list''" ex_router "NewMCPCache None" ex_router_env
        "ex_target ''ann'' ''http://a'' None" "''s1''" _ ?r "ex_list ''tools/list''"
        "ex_target ''bob'' ''http://b'' (Some ex_api_key)" ex_router_env "''s2''"] c
    by (simp add: CreateSuccessResponse_def)
qed

theorem list_changed_keeps_pages_witness:
  "snd (RouteMessage ex_router_env (ex_list ''tools/list'') (ex_target ''ann'' ''http://a'' None) ''s1''
      (fst (HandleNotification ex_router_env (CreateNotification ''notifications/tools/list_changed'' Nil_value)
        (ex_target ''ann'' ''http://a'' None) ''s1'' (ex_router\<lparr>mr_cache := Some ((NewMCPCache None)\<lparr>mc_cache :=
          [''w:tools/list:p'' \<mapsto> \<lparr>CE_Data = String_value ''page'', CE_Timestamp = 0, CE_TTL = 9, CE_HitCount = 0, CE_ETag = []\<rparr>]\<rparr>)\<rparr>)))) =
    Inr (CreateSuccessResponse Nil_value (String_value ''page''))"
proof -
  let ?mr = "ex_router\<lparr>mr_cache := Some ((NewMCPCache None)\<lparr>mc_cache :=
      [''w:tools/list:p'' \<mapsto> \<lparr>CE_Data = String_value ''page'', CE_Timestamp = 0, CE_TTL = 9, CE_HitCount = 0, CE_ETag = []\<rparr>]\<rparr>)\<rparr>"
  have "cached_answer ex_router_env ''w'' (ex_list ''tools/list'') ?mr = Some (String_value ''page'')"
    by (simp add: cached_answer_def generateCacheKey_def CacheEntry_IsValid_def CacheEntry_IsExpired_def)
  moreover have "generateCacheKey (\<lambda>s. s) (\<lambda>_. ''p'') ''w'' ''tools/list'' (Object x) \<noteq>
      generateCacheKey (\<lambda>s. s) (\<lambda>_. ''p'') ''w'' m Nil_value"
    if "list_method m" for m x using that by (auto simp: generateCacheKey_def)
  ultimately show ?thesis
    using list_changed_keeps_pages [OF prod.collapse [symmetric], of "ex_list ''tools/list''" "ex_target ''ann'' ''http://a'' None"
        ex_router_env ?mr "String_value ''page''" ex_router_env]
    by simp
qed

end
