(* ===== verification/StreamableHTTP.thy ===== *)
theory StreamableHTTP
  imports MessageRouter
begin

section \<open>The streamable HTTP transport\<close>

text \<open>
  \<open>pkg/mcp/streamable_http.go\<close>: a client posts messages, or opens a stream of server-sent events that repeats the
  stream of the adapter's server. The session store and the cache of capabilities of the transport are those of its
  router and its protocol handler, so the state is the router's. A response is its status, its headers and what is
  written to its body.
\<close>

record client_request =
  CQ_Method :: string
  CQ_Header :: "string \<Rightarrow> string"
  CQ_Query :: "string \<Rightarrow> string"
  CQ_Body :: "string result"

record client_response =
  CS_Status :: int
  CS_Header :: "string \<rightharpoonup> string list"
  CS_Body :: string

text \<open>\<open>te_json\<close> decodes into a map, \<open>te_marshal_any\<close> encodes the map of an error, \<open>te_fmt_v\<close> is the verb \<open>%v\<close> and
  \<open>te_timestamp\<close> the time in an error; \<open>te_nano\<close> is the reading of the clock for a new session ID.\<close>

record transport_env =
  te_router :: router_env
  te_protocol :: protocol_env
  te_json :: "string \<Rightarrow> (string \<rightharpoonup> any) result"
  te_marshal_any :: "any \<Rightarrow> string result"
  te_fmt_v :: "any \<Rightarrow> string"
  te_timestamp :: string
  te_nano :: gotime
  te_nano' :: gotime
  te_set :: gotime
  te_health :: "forwarded \<Rightarrow> sent"
  te_stream :: "forwarded \<Rightarrow> sent"

subsection \<open>Answers\<close>

definition encoded :: "(JSONRPCMessage \<Rightarrow> string result) \<Rightarrow> JSONRPCMessage \<Rightarrow> string" where
  "encoded marshal message = (case marshal message of Inl _ \<Rightarrow> [] | Inr s \<Rightarrow> s @ [CHR 0x0A])"

definition writeJSONResponse ::
    "transport_env \<Rightarrow> (string \<rightharpoonup> string list) \<Rightarrow> JSONRPCMessage \<Rightarrow> client_response" where
  "writeJSONResponse E h message =
     \<lparr>CS_Status = (if JM_Error message \<noteq> None then 400 else 200),
      CS_Header = header_Set ''Content-Type'' ''application/json'' h, CS_Body = encoded (rt_marshal (te_router E)) message\<rparr>"

definition writeErrorResponse ::
    "transport_env \<Rightarrow> (string \<rightharpoonup> string list) \<Rightarrow> any \<Rightarrow> int \<Rightarrow> string \<Rightarrow> client_response" where
  "writeErrorResponse E h i code message =
     \<lparr>CS_Status = 400, CS_Header = header_Set ''Content-Type'' ''application/json'' h,
      CS_Body = encoded (rt_marshal (te_router E)) (CreateErrorResponse i code message Nil_value)\<rparr>"

definition writeSSEError :: "transport_env \<Rightarrow> any \<Rightarrow> int \<Rightarrow> string \<Rightarrow> string" where
  "writeSSEError E i code message =
     (let errorData = Object [''jsonrpc'' \<mapsto> String_value ''2.0'', ''id'' \<mapsto> i,
            ''error'' \<mapsto> Object [''code'' \<mapsto> Int_value code, ''message'' \<mapsto> String_value message,
              ''data'' \<mapsto> Object [''timestamp'' \<mapsto> String_value (te_timestamp E), ''transport'' \<mapsto> String_value ''streamable-http'']]]
      in case te_marshal_any E errorData of
           Inl _ \<Rightarrow> ''data: {'' @ [CHR 0x22] @ ''error'' @ [CHR 0x22] @ '': '' @ [CHR 0x22] @
             ''Internal error marshaling response'' @ [CHR 0x22] @ ''}'' @ [CHR 0x0A, CHR 0x0A]
         | Inr errorJSON \<Rightarrow> ''data: '' @ errorJSON @ [CHR 0x0A, CHR 0x0A])"

subsection \<open>The target server\<close>

definition StreamableHTTP_buildTargetURL :: "AdapterResource \<Rightarrow> string result" where
  "StreamableHTTP_buildTargetURL adapter =
     (let t = AD_ConnectionType adapter in
      if t = ConnectionTypeRemoteHttp then
        (if AD_RemoteUrl adapter = [] then Inl ''remote URL is required for RemoteHttp connection''
         else Inr (AD_RemoteUrl adapter))
      else if t = ConnectionTypeStreamableHttp \<or> t = ConnectionTypeSSE then
        (if AD_RemoteUrl adapter \<noteq> [] then Inr (AD_RemoteUrl adapter)
         else case AD_SidecarConfig adapter of
           Some sc \<Rightarrow> Inr (''http://mcp-sidecar-'' @ AR_ID adapter @ ''.suse-ai-up-mcp.svc.cluster.local:'' @
             show_int (if SC_Port sc > 0 then SC_Port sc else 8000) @ ''/mcp'')
         | None \<Rightarrow>
             if Contains (AD_Name adapter) ''local'' \<or> Contains (AD_Name adapter) ''dev''
             then Inr (''http://'' @ AD_Name adapter @ '':'' @ show_int 8000 @ ''/mcp'')
             else Inr (''http://'' @ AD_Name adapter @ ''-service.adapter.svc.cluster.local:'' @ show_int 8000 @ ''/mcp''))
      else Inl (''unsupported connection type: '' @ t))"

definition StreamableHTTP_applyAuthentication :: "forwarded \<Rightarrow> AdapterResource \<Rightarrow> forwarded result" where
  "StreamableHTTP_applyAuthentication =
     apply_authentication ''OAuth authentication not yet implemented in streamable HTTP transport''"

definition validateTargetConnection :: "transport_env \<Rightarrow> string \<Rightarrow> error option" where
  "validateTargetConnection E targetURL =
     (let healthURL = TrimSuffix targetURL ''/mcp'' @ ''/health'' in
      case te_health E \<lparr>FW_Method = ''HEAD'', FW_URL = healthURL, FW_Header = Map.empty, FW_Body = []\<rparr> of
        Bad_request err \<Rightarrow> Some (''failed to create health check request: '' @ err)
      | Unreachable err \<Rightarrow> Some (''target server health check failed: '' @ err)
      | Answered resp \<Rightarrow>
          if PX_Status resp < 200 \<or> PX_Status resp \<ge> 300
          then Some (''target server returned unhealthy status: '' @ show_int (PX_Status resp)) else None)"

text \<open>The lines of \<open>bufio.Scanner\<close>: a line of 64 KB ends the scan, and a carriage return at the end is dropped.\<close>

definition scanned_lines :: "string \<Rightarrow> string list" where
  "scanned_lines s =
     (let ls = Split s CHR 0x0A; ls' = (if last ls = [] then butlast ls else ls)
      in map (\<lambda>l. if l \<noteq> [] \<and> last l = CHR 0x0D then butlast l else l) (takeWhile (\<lambda>l. length l < 65536) ls'))"

fun proxy_lines :: "int \<Rightarrow> string list \<Rightarrow> string" where
  "proxy_lines eventID [] = []"
| "proxy_lines eventID (line # ls) =
     (if HasPrefix line ''data: '' then
        WriteSSEEvent [] (''{'' @ [CHR 0x22] @ ''id'' @ [CHR 0x22] @ '':'' @ [CHR 0x22] @ show_int eventID @ [CHR 0x22] @
          '','' @ [CHR 0x22] @ ''data'' @ [CHR 0x22] @ '':'' @ TrimPrefix line ''data: '' @ ''}'') @ proxy_lines (eventID + 1) ls
      else if line = [] then [CHR 0x0A] @ proxy_lines eventID ls
      else line @ [CHR 0x0A] @ proxy_lines eventID ls)"

definition proxySSEStream :: "string \<Rightarrow> string" where
  "proxySSEStream targetBody = proxy_lines 1 (scanned_lines targetBody)"

subsection \<open>Sessions\<close>

definition extractSessionID :: "client_request \<Rightarrow> string" where
  "extractSessionID r =
     (if CQ_Header r ''Mcp-Session-Id'' \<noteq> [] then CQ_Header r ''Mcp-Session-Id'' else CQ_Query r ''sessionId'')"

definition StreamableHTTP_generateSessionID :: "gotime \<Rightarrow> string" where
  "StreamableHTTP_generateSessionID nano = ''mcp-sess-'' @ show_int nano"

definition ensureSession :: "transport_env \<Rightarrow> client_request \<Rightarrow> string" where
  "ensureSession E r = (if extractSessionID r = [] then StreamableHTTP_generateSessionID (te_nano E) else extractSessionID r)"

definition allowed_origin :: "client_request \<Rightarrow> string" where
  "allowed_origin r =
     (let origin = CQ_Header r ''Origin'' in
      if origin \<noteq> [] \<and> (Contains origin ''localhost'' \<or> Contains origin ''127.0.0.1'') then origin else ''*'')"

text \<open>The part of the stream behind the answer to the initialization: from the target's URL on.\<close>

definition target_stream :: "transport_env \<Rightarrow> AdapterResource \<Rightarrow> string \<Rightarrow> string" where
  "target_stream E adapter sid =
     (case StreamableHTTP_buildTargetURL adapter of
        Inl err \<Rightarrow> writeSSEError E Nil_value (-32603) (''Failed to build target URL: '' @ err)
      | Inr targetURL \<Rightarrow>
     case validateTargetConnection E targetURL of
        Some err \<Rightarrow> writeSSEError E Nil_value (-32603) (''Target server unreachable: '' @ err)
      | None \<Rightarrow>
          (let h = header_Set ''Cache-Control'' ''no-cache'' (header_Set ''Accept'' ''text/event-stream'' Map.empty);
               h' = (if sid \<noteq> [] then header_Set ''Mcp-Session-Id'' sid h else h) in
           case StreamableHTTP_applyAuthentication
                  \<lparr>FW_Method = ''GET'', FW_URL = targetURL, FW_Header = h', FW_Body = []\<rparr> adapter of
             Inl err \<Rightarrow> writeSSEError E Nil_value (-32603) (''Failed to apply authentication: '' @ err)
           | Inr req \<Rightarrow>
               (case te_stream E req of
                  Bad_request err \<Rightarrow> writeSSEError E Nil_value (-32603) (''Failed to create streaming request: '' @ err)
                | Unreachable err \<Rightarrow> writeSSEError E Nil_value (-32603) (''Failed to connect to target: '' @ err)
                | Answered resp \<Rightarrow>
                    if PX_Status resp \<noteq> 200
                    then writeSSEError E Nil_value (-32603) (''Target server returned status '' @ show_int (PX_Status resp))
                    else proxySSEStream (PX_Body resp))))"

definition initialize_text :: "transport_env \<Rightarrow> any \<Rightarrow> string" where
  "initialize_text E i =
     (let quote = (\<lambda>s. [CHR 0x22] @ s @ [CHR 0x22]) in
      ''{'' @ quote ''jsonrpc'' @ '':'' @ quote ''2.0'' @ '','' @ quote ''id'' @ '':'' @ te_fmt_v E i @ '','' @
      quote ''method'' @ '':'' @ quote ''initialize'' @ '','' @ quote ''params'' @ '':{}}'')"

definition handleSSEStream ::
    "transport_env \<Rightarrow> (string \<rightharpoonup> string list) \<Rightarrow> client_request \<Rightarrow> AdapterResource \<Rightarrow> string \<Rightarrow> JSONRPCMessage option \<Rightarrow>
     MessageRouter \<Rightarrow> MessageRouter \<times> client_response" where
  "handleSSEStream E h r adapter sid0 initMessage mr =
     (let sid = (if sid0 = [] then StreamableHTTP_generateSessionID (te_nano' E) else sid0);
          h' = header_Set ''Mcp-Session-Id'' sid (header_Set ''Access-Control-Allow-Origin'' (allowed_origin r)
                 (header_Set ''Connection'' ''keep-alive'' (header_Set ''Cache-Control'' ''no-cache''
                   (header_Set ''Content-Type'' ''text/event-stream'' h))));
          sessions = fst (SetMCPSessionID sid sid (fst (SetWithDetails (te_set E) sid (AD_Name adapter) [] ''SSE'' (mr_sessionStore mr))));
          mr1 = mr\<lparr>mr_sessionStore := sessions\<rparr>;
          answer = (\<lambda>mr body. (mr, \<lparr>CS_Status = 200, CS_Header = h', CS_Body = body\<rparr>))
      in case initMessage of
           None \<Rightarrow> answer mr1 (target_stream E adapter sid)
         | Some m \<Rightarrow>
             (case HandleMessage (te_protocol E) (initialize_text E (JM_ID m)) adapter sid
                     \<lparr>ph_sessionStore = mr_sessionStore mr1, ph_capabilityCache = mr_capabilityCache mr1\<rparr> of
                (ph, response) \<Rightarrow>
                  (let mr2 = mr1\<lparr>mr_sessionStore := ph_sessionStore ph, mr_capabilityCache := ph_capabilityCache ph\<rparr> in
                   case response of
                     Inl err \<Rightarrow> answer mr2 (writeSSEError E (JM_ID m) (-32603) (''Initialize failed: '' @ err))
                   | Inr None \<Rightarrow> answer mr2 (WriteSSEEvent ''message'' ''null'' @ target_stream E adapter sid)
                   | Inr (Some message) \<Rightarrow>
                       (case StreamSSEMessage (pe_marshal (te_protocol E)) message of
                          Inl err \<Rightarrow> answer mr2 []
                        | Inr s \<Rightarrow> answer mr2 (s @ target_stream E adapter sid)))))"

subsection \<open>Requests\<close>

definition shouldOpenSSEStream :: "JSONRPCMessage \<Rightarrow> bool" where
  "shouldOpenSSEStream message \<longleftrightarrow> JM_Method message = ''initialize''"

definition handlePostRequest ::
    "transport_env \<Rightarrow> (string \<rightharpoonup> string list) \<Rightarrow> client_request \<Rightarrow> AdapterResource \<Rightarrow> string \<Rightarrow> MessageRouter \<Rightarrow>
     MessageRouter \<times> client_response" where
  "handlePostRequest E h r adapter sid mr =
     (case CQ_Body r of
        Inl err \<Rightarrow> (mr, writeErrorResponse E h Nil_value (-32700) (''Failed to read request body: '' @ err))
      | Inr body \<Rightarrow>
     case ValidateMCPMessage (te_json E) body of
        Some err \<Rightarrow> (mr, writeErrorResponse E h Nil_value (-32600) (''Invalid MCP message: '' @ err))
      | None \<Rightarrow>
     case rt_decode (te_router E) body of
        Inl err \<Rightarrow> (mr, writeErrorResponse E h Nil_value (-32700) (''Failed to parse JSON-RPC message: '' @ err))
      | Inr message \<Rightarrow>
          (case RouteMessage (te_router E) message adapter sid mr of
             (mr', Inl err) \<Rightarrow> (mr', writeErrorResponse E h (JM_ID message) (-32603) (''Failed to route message: '' @ err))
           | (mr', Inr response) \<Rightarrow>
               if shouldOpenSSEStream message then handleSSEStream E h r adapter sid (Some message) mr'
               else (mr', writeJSONResponse E h response)))"

definition handleGetRequest ::
    "transport_env \<Rightarrow> (string \<rightharpoonup> string list) \<Rightarrow> client_request \<Rightarrow> AdapterResource \<Rightarrow> string \<Rightarrow> MessageRouter \<Rightarrow>
     MessageRouter \<times> client_response" where
  "handleGetRequest E h r adapter sid mr =
     (if \<not> Contains (CQ_Header r ''Accept'') ''text/event-stream''
      then (mr, writeErrorResponse E h Nil_value (-32600) ''GET requests must accept text/event-stream'')
      else handleSSEStream E h r adapter sid None mr)"

definition HandleRequest ::
    "transport_env \<Rightarrow> client_request \<Rightarrow> AdapterResource \<Rightarrow> MessageRouter \<Rightarrow> MessageRouter \<times> client_response" where
  "HandleRequest E r adapter mr =
     (let sid = ensureSession E r; version = CQ_Header r ''MCP-Protocol-Version'' in
      if version \<noteq> [] \<and> version \<noteq> ProtocolVersion
      then (mr, writeErrorResponse E Map.empty Nil_value (-32600) (''Unsupported protocol version: '' @ version))
      else let h = header_Set ''Access-Control-Allow-Headers''
                     ''Origin, Content-Type, Accept, Authorization, MCP-Protocol-Version, Mcp-Session-Id''
                   (header_Set ''Access-Control-Allow-Methods'' ''GET, POST, OPTIONS''
                     (header_Set ''Access-Control-Allow-Origin'' (allowed_origin r) Map.empty)) in
      if CQ_Method r = ''OPTIONS'' then (mr, \<lparr>CS_Status = 204, CS_Header = h, CS_Body = []\<rparr>)
      else if CQ_Method r = ''POST'' then handlePostRequest E h r adapter sid mr
      else if CQ_Method r = ''GET'' then handleGetRequest E h r adapter sid mr
      else (mr, writeErrorResponse E h Nil_value (-32601) (''Method not allowed: '' @ CQ_Method r)))"

subsection \<open>Lemmas\<close>

definition wrapped :: "int \<Rightarrow> string \<Rightarrow> string" where
  "wrapped i d = ''{'' @ [CHR 0x22] @ ''id'' @ [CHR 0x22] @ '':'' @ [CHR 0x22] @ show_int i @ [CHR 0x22] @
     '','' @ [CHR 0x22] @ ''data'' @ [CHR 0x22] @ '':'' @ d @ ''}''"

text \<open>An event of one line of data.\<close>

definition data_event :: "string \<Rightarrow> string" where
  "data_event d = ''data: '' @ d @ [CHR 0x0A, CHR 0x0A]"

definition plain_data :: "string \<Rightarrow> bool" where
  "plain_data d \<longleftrightarrow> CHR 0x0A \<notin> set d \<and> (d = [] \<or> last d \<noteq> CHR 0x0D) \<and> length d < 65530"

lemma Split_event: "CHR 0x0A \<notin> set d \<Longrightarrow> Split (data_event d @ rest) CHR 0x0A = (''data: '' @ d) # [] # Split rest CHR 0x0A"
proof -
  assume d: "CHR 0x0A \<notin> set d"
  have "data_event d @ rest = (''data: '' @ d) @ CHR 0x0A # [] @ CHR 0x0A # rest" by (simp add: data_event_def)
  then show ?thesis using d by (simp only: Split_append set_append) (simp add: Split_append)
qed

lemma Split_events:
  assumes "\<forall>d \<in> set ds. plain_data d"
  shows "Split (concat (map data_event ds)) CHR 0x0A = concat (map (\<lambda>d. [''data: '' @ d, []]) ds) @ [[]]"
  using assms by (induction ds) (simp_all add: Split_event plain_data_def)

lemma scanned_events:
  assumes "\<forall>d \<in> set ds. plain_data d"
  shows "scanned_lines (concat (map data_event ds)) = concat (map (\<lambda>d. [''data: '' @ d, []]) ds)"
proof -
  let ?ls = "concat (map (\<lambda>d. [''data: '' @ d, []]) ds)"
  have "\<forall>l \<in> set ?ls. length l < 65536 \<and> (l = [] \<or> last l \<noteq> CHR 0x0D)"
    using assms by (auto simp: plain_data_def)
  then have "takeWhile (\<lambda>l. length l < 65536) ?ls = ?ls"
    "map (\<lambda>l. if l \<noteq> [] \<and> last l = CHR 0x0D then butlast l else l) ?ls = ?ls"
    by (simp_all only: takeWhile_eq_all_conv) (blast, rule map_idI, auto)
  then show ?thesis by (simp only: scanned_lines_def Split_events [OF assms] Let_def last_snoc butlast_snoc if_True simp_thms)
qed

lemma proxy_lines_data: "proxy_lines i ((''data: '' @ d) # [] # ls) =
    WriteSSEEvent [] (wrapped i d) @ [CHR 0x0A] @ proxy_lines (i + 1) ls"
  by (simp add: HasPrefix_def TrimPrefix_def wrapped_def)

lemma proxy_lines_events: "proxy_lines i (concat (map (\<lambda>d. [''data: '' @ d, []]) ds)) =
    concat (map (\<lambda>(n, d). WriteSSEEvent [] (wrapped (i + int n) d) @ [CHR 0x0A]) (enumerate 0 ds))"
proof (induction ds arbitrary: i)
  case Nil
  then show ?case by simp
next
  case (Cons d ds)
  have "enumerate (Suc 0) ds = map (\<lambda>(n, d). (Suc n, d)) (enumerate 0 ds)" by (auto simp: enumerate_Suc_eq)
  then have "concat (map (\<lambda>(n, d). WriteSSEEvent [] (wrapped (i + int n) d) @ [CHR 0x0A]) (enumerate (Suc 0) ds)) =
      concat (map (\<lambda>(n, d). WriteSSEEvent [] (wrapped (i + 1 + int n) d) @ [CHR 0x0A]) (enumerate 0 ds))"
    by (simp add: split_def comp_def ac_simps)
  then show ?case using Cons.IH [of "i + 1"] proxy_lines_data [of i d "concat (map (\<lambda>d. [''data: '' @ d, []]) ds)"]
    by (simp only: list.map concat.simps append.simps enumerate_simps case_prod_conv of_nat_0 add_0_right append_assoc)
qed

text \<open>Opening a stream replaces the session.\<close>

lemma handleSSEStream_session:
  assumes "handleSSEStream E h r adapter sid None mr = (mr', answer)" and "sid \<noteq> []"
  shows "\<exists>d. iss_sessions (mr_sessionStore mr') = (iss_sessions (mr_sessionStore mr))(sid \<mapsto> d) \<and>
    SD_AdapterName d = AD_Name adapter \<and> SD_TokenInfo d = None \<and> SD_AuthorizationInfo d = None \<and> SD_ConnectionType d = ''SSE''"
  using assms by (auto simp: handleSSEStream_def Let_def SetWithDetails_def SetMCPSessionID_def set_session_def)

subsection \<open>Properties\<close>

text \<open>A stream takes over the session it names. Whoever opens a stream on any adapter with the ID of a session leaves
  the session of that ID with this adapter, and without the token and the authorization it had; no other session
  changes. The ID is taken from the request and never checked against the adapter or the client.\<close>

theorem stream_takes_over_session:
  assumes "HandleRequest E r adapter mr = (mr', answer)"
    and "CQ_Method r = ''GET''" and "Contains (CQ_Header r ''Accept'') ''text/event-stream''"
    and "CQ_Header r ''MCP-Protocol-Version'' \<in> {[], ProtocolVersion}"
    and "CQ_Header r ''Mcp-Session-Id'' = sid" and "sid \<noteq> []"
  shows "\<exists>d. iss_sessions (mr_sessionStore mr') = (iss_sessions (mr_sessionStore mr))(sid \<mapsto> d) \<and>
    SD_AdapterName d = AD_Name adapter \<and> SD_TokenInfo d = None \<and> SD_AuthorizationInfo d = None \<and> SD_ConnectionType d = ''SSE''"
proof -
  have "ensureSession E r = sid" using assms(5,6) by (simp add: ensureSession_def extractSessionID_def)
  then obtain h where "handleSSEStream E h r adapter sid None mr = (mr', answer)"
    using assms(1-4) by (auto simp: HandleRequest_def handleGetRequest_def Let_def)
  then show ?thesis using assms(6) by (rule handleSSEStream_session)
qed

text \<open>The stream of a server whose events are single lines of data reaches the client event by event and in order,
  each as an object with the number of the event, counted from 1, and the server's data under the key \<open>data\<close>.\<close>

theorem stream_numbers_events:
  assumes "\<forall>d \<in> set ds. plain_data d"
  shows "proxySSEStream (concat (map data_event ds)) =
    concat (map (\<lambda>(n, d). WriteSSEEvent [] (wrapped (1 + int n) d) @ [CHR 0x0A]) (enumerate 0 ds))"
  unfolding proxySSEStream_def scanned_events [OF assms] by (rule proxy_lines_events)

theorem stream_numbers_events_witness:
  "proxySSEStream (data_event ''{}'' @ data_event ''[]'') =
    ''data: '' @ wrapped 1 ''{}'' @ [CHR 0x0A, CHR 0x0A, CHR 0x0A] @ ''data: '' @ wrapped 2 ''[]'' @ [CHR 0x0A, CHR 0x0A, CHR 0x0A]"
proof -
  have w: "WriteSSEEvent [] (wrapped 1 ''{}'') = ''data: '' @ wrapped 1 ''{}'' @ [CHR 0x0A, CHR 0x0A]"
    "WriteSSEEvent [] (wrapped 2 ''[]'') = ''data: '' @ wrapped 2 ''[]'' @ [CHR 0x0A, CHR 0x0A]" by code_simp+
  have "\<forall>d \<in> set [''{}'', ''[]'']. plain_data d" by (simp add: plain_data_def)
  from stream_numbers_events [OF this] w show ?thesis by simp
qed

definition ex_transport_env :: transport_env where
  "ex_transport_env = \<lparr>te_router = ex_router_env,
     te_protocol = \<lparr>pe_marshal = (\<lambda>m. Inr (JM_Method m)), pe_decode = (\<lambda>b. Inl ''invalid JSON''),
       pe_send = (\<lambda>f. Unreachable ''no route''), pe_now = 5, pe_now' = 5, pe_now'' = 5\<rparr>,
     te_json = (\<lambda>b. Inl ''invalid JSON''), te_marshal_any = (\<lambda>x. Inl ''no JSON''), te_fmt_v = (\<lambda>x. []), te_timestamp = [],
     te_nano = 5, te_nano' = 5, te_set = 5, te_health = (\<lambda>f. Unreachable ''no route''), te_stream = (\<lambda>f. Unreachable ''no route'')\<rparr>"

definition ex_stream_request :: client_request where
  "ex_stream_request = \<lparr>CQ_Method = ''GET'', CQ_Header = (\<lambda>k. if k = ''Accept'' then ''text/event-stream''
     else if k = ''Mcp-Session-Id'' then ''s1'' else []), CQ_Query = (\<lambda>k. []), CQ_Body = Inr []\<rparr>"

definition ex_session_router :: MessageRouter where
  "ex_session_router = ex_router\<lparr>mr_sessionStore :=
     fst (SetTokenInfo ''s1'' (Some 7) (fst (SetWithDetails 1 ''s1'' ''bank'' [] ''MCP'' NewInMemorySessionStore)))\<rparr>"

theorem stream_takes_over_session_witness:
  "\<exists>d. iss_sessions (mr_sessionStore ex_session_router) ''s1'' \<noteq> None \<and>
     iss_sessions (mr_sessionStore (fst (HandleRequest ex_transport_env ex_stream_request (ex_target ''eve'' ''http://e'' None)
       ex_session_router))) ''s1'' = Some d \<and> SD_AdapterName d = ''w'' \<and> SD_TokenInfo d = None"
proof -
  have "Contains (CQ_Header ex_stream_request ''Accept'') ''text/event-stream''"
    by (simp add: ex_stream_request_def Contains_def)
  moreover have "CQ_Method ex_stream_request = ''GET''" "CQ_Header ex_stream_request ''MCP-Protocol-Version'' = []"
    "CQ_Header ex_stream_request ''Mcp-Session-Id'' = ''s1''"
    by (simp_all add: ex_stream_request_def)
  moreover have "iss_sessions (mr_sessionStore ex_session_router) ''s1'' \<noteq> None"
    by (simp add: ex_session_router_def SetTokenInfo_def SetWithDetails_def NewInMemorySessionStore_def set_session_def)
  ultimately show ?thesis
    using stream_takes_over_session [where E = ex_transport_env and r = ex_stream_request and sid = "''s1''"
        and adapter = "ex_target ''eve'' ''http://e'' None" and mr = ex_session_router, OF prod.collapse [symmetric]]
    by auto
qed

end
