(* ===== verification/MCPService.thy ===== *)
theory MCPService
  imports ErrorHandler
begin

section \<open>The MCP service and its sessions\<close>

text \<open>
  \<open>pkg/mcp/session_manager.go\<close> and \<open>pkg/mcp/service.go\<close>. The service answers with fixed contents; what it keeps is
  its sessions, and an operation looks its session up, checks the capability it needs, and notes the activity.
  \<open>clock\<close> is the format of a time up to the second, which depends on the time zone.
\<close>

abbreviation MCP_RESOURCE_NOT_FOUND :: int where "MCP_RESOURCE_NOT_FOUND \<equiv> -32003"
abbreviation MCP_CAPABILITY_NOT_SUPPORTED :: int where "MCP_CAPABILITY_NOT_SUPPORTED \<equiv> -32004"

text \<open>The pointers to structs: resources with \<open>subscribe\<close> and \<open>listChanged\<close>, prompts and tools with \<open>listChanged\<close>.\<close>

record MCPCapabilities =
  MC_Resources :: "(bool \<times> bool) option"
  MC_Prompts :: "bool option"
  MC_Tools :: "bool option"
  MC_Logging :: "unit option"
  MC_Sampling :: "unit option"

record MCPSession =
  MS_ID :: string
  MS_AdapterName :: string
  MS_Initialized :: bool
  MS_Capabilities :: MCPCapabilities
  MS_ServerInfo :: "MCPClientInfo option"
  MS_ClientInfo :: MCPClientInfo
  MS_CreatedAt :: gotime
  MS_LastActivity :: gotime

type_synonym MCPSessionManager = "string \<rightharpoonup> MCPSession"

subsection \<open>The session manager\<close>

definition NewMCPSessionManager :: MCPSessionManager where
  "NewMCPSessionManager = Map.empty"

definition no_capabilities :: MCPCapabilities where
  "no_capabilities = \<lparr>MC_Resources = None, MC_Prompts = None, MC_Tools = None, MC_Logging = None, MC_Sampling = None\<rparr>"

definition generateSessionID :: "(gotime \<Rightarrow> string) \<Rightarrow> gotime \<Rightarrow> gotime \<Rightarrow> string" where
  "generateSessionID clock now now' = ''session-'' @ clock now @ ''-'' @ show_int (now' mod 1000)"

text \<open>Four readings of the clock: two for the ID, two for the session.\<close>

definition CreateSession ::
    "(gotime \<Rightarrow> string) \<Rightarrow> gotime \<Rightarrow> gotime \<Rightarrow> gotime \<Rightarrow> gotime \<Rightarrow> string \<Rightarrow> MCPClientInfo \<Rightarrow> MCPSessionManager \<Rightarrow>
     MCPSessionManager \<times> MCPSession" where
  "CreateSession clock t1 t2 t3 t4 adapterName clientInfo sm =
     (let sid = generateSessionID clock t1 t2;
          session = \<lparr>MS_ID = sid, MS_AdapterName = adapterName, MS_Initialized = False, MS_Capabilities = no_capabilities,
            MS_ServerInfo = None, MS_ClientInfo = clientInfo, MS_CreatedAt = t3, MS_LastActivity = t4\<rparr>
      in (sm(sid \<mapsto> session), session))"

definition GetSession :: "MCPSessionManager \<Rightarrow> string \<Rightarrow> MCPSession option" where
  "GetSession sm sid = sm sid"

definition no_session :: "gotime \<Rightarrow> MCPError" where
  "no_session now = CreateMCPError now MCP_RESOURCE_NOT_FOUND ''Session not found'' Nil_value"

definition UpdateSessionCapabilities ::
    "gotime \<Rightarrow> string \<Rightarrow> MCPCapabilities \<Rightarrow> MCPClientInfo option \<Rightarrow> MCPSessionManager \<Rightarrow> MCPSessionManager \<times> MCPError option" where
  "UpdateSessionCapabilities now sid capabilities serverInfo sm =
     (case sm sid of
        None \<Rightarrow> (sm, Some (no_session now))
      | Some session \<Rightarrow> (sm(sid \<mapsto> session\<lparr>MS_Capabilities := capabilities, MS_ServerInfo := serverInfo,
          MS_Initialized := True, MS_LastActivity := now\<rparr>), None))"

definition UpdateSessionActivity :: "gotime \<Rightarrow> string \<Rightarrow> MCPSessionManager \<Rightarrow> MCPSessionManager" where
  "UpdateSessionActivity now sid sm =
     (case sm sid of None \<Rightarrow> sm | Some session \<Rightarrow> sm(sid \<mapsto> session\<lparr>MS_LastActivity := now\<rparr>))"

definition CloseSession :: "string \<Rightarrow> MCPSessionManager \<Rightarrow> MCPSessionManager" where
  "CloseSession sid sm = sm(sid := None)"

definition ListSessions :: "string list \<Rightarrow> MCPSessionManager \<Rightarrow> MCPSession list" where
  "ListSessions ks sm = range_values sm ks"

text \<open>The loop, with the count of the removed sessions.\<close>

fun remove_expired :: "gotime \<Rightarrow> string list \<Rightarrow> MCPSessionManager \<times> int \<Rightarrow> MCPSessionManager \<times> int" where
  "remove_expired cutoff [] st = st"
| "remove_expired cutoff (sid # ks) (sm, removed) = remove_expired cutoff ks
     (case sm sid of
        None \<Rightarrow> (sm, removed)
      | Some session \<Rightarrow> if MS_LastActivity session < cutoff then (sm(sid := None), removed + 1) else (sm, removed))"

definition CleanupExpiredSessions :: "gotime \<Rightarrow> string list \<Rightarrow> duration \<Rightarrow> MCPSessionManager \<Rightarrow> MCPSessionManager \<times> int" where
  "CleanupExpiredSessions now ks maxAge sm = (let cutoff = now - maxAge in remove_expired cutoff ks (sm, 0))"

subsection \<open>The service\<close>

definition serverCapabilities :: MCPCapabilities where
  "serverCapabilities = \<lparr>MC_Resources = Some (True, True), MC_Prompts = Some True, MC_Tools = Some True,
     MC_Logging = Some (), MC_Sampling = Some ()\<rparr>"

record MCPInitializeResponse =
  MIR_ProtocolVersion :: string
  MIR_Capabilities :: MCPCapabilities
  MIR_ServerInfo :: MCPClientInfo

definition proxy_info :: MCPClientInfo where
  "proxy_info = \<lparr>MCI_Name = ''SUSE AI Universal Proxy'', MCI_Version = ''1.0.0''\<rparr>"

definition InitializeMCPConnection ::
    "(gotime \<Rightarrow> string) \<Rightarrow> gotime \<Rightarrow> gotime \<Rightarrow> gotime \<Rightarrow> gotime \<Rightarrow> gotime \<Rightarrow> string \<Rightarrow> MCPClientInfo \<Rightarrow> MCPSessionManager \<Rightarrow>
     MCPSessionManager \<times> MCPInitializeResponse result" where
  "InitializeMCPConnection clock t1 t2 t3 t4 t5 adapterName clientInfo sm =
     (let (sm1, session) = CreateSession clock t1 t2 t3 t4 adapterName clientInfo sm in
      case UpdateSessionCapabilities t5 (MS_ID session) serverCapabilities (Some proxy_info) sm1 of
        (sm2, Some err) \<Rightarrow> (sm2, Inl (''failed to update session capabilities: '' @ MCPError_Error err))
      | (sm2, None) \<Rightarrow> (sm2, Inr \<lparr>MIR_ProtocolVersion = ''2025-11-25'', MIR_Capabilities = serverCapabilities,
          MIR_ServerInfo = proxy_info\<rparr>))"

text \<open>The beginning of every operation on a session: \<open>supports\<close> names the capability it checks, if any.\<close>

definition on_session ::
    "gotime \<Rightarrow> gotime \<Rightarrow> string \<Rightarrow> (MCPCapabilities \<Rightarrow> bool) \<Rightarrow> string \<Rightarrow> (MCPSession \<Rightarrow> MCPError + 'a) \<Rightarrow> MCPSessionManager \<Rightarrow>
     MCPSessionManager \<times> (MCPError + 'a)" where
  "on_session now now' sid supports unsupported f sm =
     (case GetSession sm sid of
        None \<Rightarrow> (sm, Inl (no_session now))
      | Some session \<Rightarrow>
          if \<not> supports (MS_Capabilities session)
          then (sm, Inl (CreateMCPError now MCP_CAPABILITY_NOT_SUPPORTED unsupported Nil_value))
          else (UpdateSessionActivity now' sid sm, f session))"

definition ListMCPCapabilities ::
    "gotime \<Rightarrow> gotime \<Rightarrow> string \<Rightarrow> MCPSessionManager \<Rightarrow> MCPSessionManager \<times> (MCPError + MCPCapabilities)" where
  "ListMCPCapabilities now now' sid = on_session now now' sid (\<lambda>c. True) [] (\<lambda>session. Inr (MS_Capabilities session))"

definition ListMCPResources ::
    "gotime \<Rightarrow> gotime \<Rightarrow> string \<Rightarrow> MCPSessionManager \<Rightarrow> MCPSessionManager \<times> (MCPError + MCPResource list)" where
  "ListMCPResources now now' sid = on_session now now' sid (\<lambda>c. MC_Resources c \<noteq> None) ''Resources capability not supported''
     (\<lambda>session. Inr [\<lparr>MR_URI = ''file:///example.txt'', MR_Name = ''Example Text File'',
        MR_Description = ''A sample text file'', MR_MimeType = ''text/plain''\<rparr>])"

text \<open>The content of a resource: its URI, type and text.\<close>

definition ReadMCPResource ::
    "gotime \<Rightarrow> gotime \<Rightarrow> string \<Rightarrow> string \<Rightarrow> MCPSessionManager \<Rightarrow> MCPSessionManager \<times> (MCPError + string \<times> string \<times> string)" where
  "ReadMCPResource now now' sid uri = on_session now now' sid (\<lambda>c. True) []
     (\<lambda>session. Inr (uri, ''text/plain'', ''This is mock content for the resource.''))"

definition ListMCPPrompts ::
    "gotime \<Rightarrow> gotime \<Rightarrow> string \<Rightarrow> MCPSessionManager \<Rightarrow> MCPSessionManager \<times> (MCPError + MCPPrompt list)" where
  "ListMCPPrompts now now' sid = on_session now now' sid (\<lambda>c. MC_Prompts c \<noteq> None) ''Prompts capability not supported''
     (\<lambda>session. Inr [\<lparr>MP_Name = ''code-review'', MP_Description = ''Review code for best practices and potential issues'',
        MP_Arguments = [\<lparr>MA_Name = ''code'', MA_Description = ''The code to review'', MA_Required = True\<rparr>,
          \<lparr>MA_Name = ''language'', MA_Description = ''Programming language'', MA_Required = False\<rparr>]\<rparr>])"

definition argument_text :: "(string \<rightharpoonup> any) \<Rightarrow> string \<Rightarrow> string option" where
  "argument_text args k = Option.bind (args k) any_string"

definition GetMCPPrompt ::
    "gotime \<Rightarrow> gotime \<Rightarrow> string \<Rightarrow> string \<Rightarrow> (string \<rightharpoonup> any) \<Rightarrow> MCPSessionManager \<Rightarrow> MCPSessionManager \<times> (MCPError + string)" where
  "GetMCPPrompt now now' sid name args = on_session now now' sid (\<lambda>c. True) []
     (\<lambda>session. if name = ''code-review''
        then Inr (''Code Review for:'' @ [CHR 0x0A] @ (case argument_text args ''code'' of None \<Rightarrow> [] | Some c \<Rightarrow> c) @
          [CHR 0x0A, CHR 0x0A] @ ''This appears to be well-structured code with good practices.'')
        else Inl (CreateMCPError now MCP_RESOURCE_NOT_FOUND ''Prompt not found'' Nil_value))"

definition string_schema :: "string \<Rightarrow> string \<Rightarrow> (string \<rightharpoonup> any)" where
  "string_schema k description = [''type'' \<mapsto> String_value ''object'',
     ''properties'' \<mapsto> Object [k \<mapsto> Object [''type'' \<mapsto> String_value ''string'', ''description'' \<mapsto> String_value description]],
     ''required'' \<mapsto> Slice [String_value k]]"

definition ListMCPTools ::
    "gotime \<Rightarrow> gotime \<Rightarrow> string \<Rightarrow> MCPSessionManager \<Rightarrow> MCPSessionManager \<times> (MCPError + (string \<times> string \<times> (string \<rightharpoonup> any)) list)" where
  "ListMCPTools now now' sid = on_session now now' sid (\<lambda>c. MC_Tools c \<noteq> None) ''Tools capability not supported''
     (\<lambda>session. Inr
        [(''calculate'', ''Perform mathematical calculations'', string_schema ''expression'' ''Mathematical expression to evaluate''),
         (''search'', ''Search for information'', string_schema ''query'' ''Search query'')])"

text \<open>The result of a tool: its text, and whether it is an error.\<close>

definition CallMCPTool ::
    "gotime \<Rightarrow> gotime \<Rightarrow> string \<Rightarrow> string \<Rightarrow> (string \<rightharpoonup> any) \<Rightarrow> MCPSessionManager \<Rightarrow> MCPSessionManager \<times> (MCPError + string \<times> bool)" where
  "CallMCPTool now now' sid name args = on_session now now' sid (\<lambda>c. True) []
     (\<lambda>session.
        if name = ''calculate'' then
          (case argument_text args ''expression'' of
             Some expr \<Rightarrow> Inr (''Result of '' @ [CHR 0x27] @ expr @ [CHR 0x27] @ '' = 42'', False)
           | None \<Rightarrow> Inr (''Invalid expression provided'', True))
        else if name = ''search'' then
          (case argument_text args ''query'' of
             Some query \<Rightarrow> Inr (''Search results for '' @ [CHR 0x27] @ query @ [CHR 0x27] @ '': Found 5 relevant documents'', False)
           | None \<Rightarrow> Inr (''Invalid search query provided'', True))
        else Inl (CreateMCPError now MCP_RESOURCE_NOT_FOUND ''Tool not found'' Nil_value))"

definition CreateMCPSamplingRequest ::
    "gotime \<Rightarrow> gotime \<Rightarrow> string \<Rightarrow> MCPSessionManager \<Rightarrow> MCPSessionManager \<times> (MCPError + any)" where
  "CreateMCPSamplingRequest now now' sid = on_session now now' sid (\<lambda>c. MC_Sampling c \<noteq> None) ''Sampling capability not supported''
     (\<lambda>session. Inr (Object [''role'' \<mapsto> String_value ''assistant'',
        ''content'' \<mapsto> String_value ''This is a mock response from the sampling feature.'',
        ''usage'' \<mapsto> Object [''prompt_tokens'' \<mapsto> Int_value 10, ''completion_tokens'' \<mapsto> Int_value 20, ''total_tokens'' \<mapsto> Int_value 30]]))"

definition RequestUserInput ::
    "(gotime \<Rightarrow> string) \<Rightarrow> gotime \<Rightarrow> gotime \<Rightarrow> gotime \<Rightarrow> string \<Rightarrow> string \<Rightarrow> MCPSessionManager \<Rightarrow>
     MCPSessionManager \<times> (MCPError + any)" where
  "RequestUserInput rfc3339 now now' now'' sid inputType = on_session now now' sid (\<lambda>c. True) []
     (\<lambda>session. Inr (Object [''input'' \<mapsto> String_value ''mock user input'', ''inputType'' \<mapsto> String_value inputType,
        ''timestamp'' \<mapsto> String_value (rfc3339 now'')]))"

text \<open>Progress, cancellation and log messages change nothing but the activity; the last needs the capability.\<close>

definition ReportProgress :: "gotime \<Rightarrow> gotime \<Rightarrow> string \<Rightarrow> MCPSessionManager \<Rightarrow> MCPSessionManager \<times> (MCPError + unit)" where
  "ReportProgress now now' sid = on_session now now' sid (\<lambda>c. True) [] (\<lambda>session. Inr ())"

definition CancelRequest :: "gotime \<Rightarrow> gotime \<Rightarrow> string \<Rightarrow> MCPSessionManager \<Rightarrow> MCPSessionManager \<times> (MCPError + unit)" where
  "CancelRequest now now' sid = on_session now now' sid (\<lambda>c. True) [] (\<lambda>session. Inr ())"

definition SendLogMessage :: "gotime \<Rightarrow> gotime \<Rightarrow> string \<Rightarrow> MCPSessionManager \<Rightarrow> MCPSessionManager \<times> (MCPError + unit)" where
  "SendLogMessage now now' sid = on_session now now' sid (\<lambda>c. MC_Logging c \<noteq> None) ''Logging capability not supported''
     (\<lambda>session. Inr ())"

subsection \<open>Lemmas\<close>

text \<open>What an operation on a session does to the sessions.\<close>

lemma on_session_frame:
  "fst (on_session now now' sid supports unsupported f sm) =
     (case sm sid of
        Some session \<Rightarrow> if supports (MS_Capabilities session) then sm(sid \<mapsto> session\<lparr>MS_LastActivity := now'\<rparr>) else sm
      | None \<Rightarrow> sm)"
  by (simp add: on_session_def GetSession_def UpdateSessionActivity_def split: option.split)

lemma remove_expired_eq:
  assumes "distinct ks"
  shows "fst (remove_expired cutoff ks (sm, n)) = range_delete (\<lambda>s. MS_LastActivity s < cutoff) ks sm \<and>
    snd (remove_expired cutoff ks (sm, n)) = n + int (length (filter (\<lambda>s. MS_LastActivity s < cutoff) (range_values sm ks)))"
  using assms
proof (induction ks arbitrary: sm n)
  case Nil
  then show ?case by simp
next
  case (Cons k ks)
  have "range_values (sm(k := None)) ks = range_values sm ks"
    using Cons.prems by (auto simp: range_values_def List.map_filter_def intro!: map_cong filter_cong)
  then show ?case using Cons by (simp add: range_values_Cons split: option.split)
qed

text \<open>The cleanup removes the sessions without activity within the last \<open>maxAge\<close>, and counts them.\<close>

lemma CleanupExpiredSessions_exact:
  assumes "range_order sm ks"
  shows "fst (CleanupExpiredSessions now ks maxAge sm) = map_restrict_val (\<lambda>s. now - maxAge \<le> MS_LastActivity s) sm"
    and "snd (CleanupExpiredSessions now ks maxAge sm) =
      int (length (filter (\<lambda>s. MS_LastActivity s < now - maxAge) (range_values sm ks)))"
  using remove_expired_eq [of ks "now - maxAge" sm 0] assms range_delete_eq [OF assms]
  by (simp_all add: CleanupExpiredSessions_def range_order_def not_less)

subsection \<open>Properties\<close>

text \<open>A new connection may end another. The ID of a session is the time up to the second and the last three digits of
  the nanoseconds: a connection made in the same second as an earlier one, with the same digits, replaces its session,
  and the first client continues in the session of the second, with another adapter.\<close>

theorem connections_share_a_session:
  assumes "InitializeMCPConnection clock t1 t2 t3 t4 t5 adapter client sm = (sm1, r1)"
    and "InitializeMCPConnection clock u1 u2 u3 u4 u5 adapter' client' sm1 = (sm2, r2)"
    and "clock u1 = clock t1" and "u2 mod 1000 = t2 mod 1000"
  shows "\<exists>s. sm2 (generateSessionID clock t1 t2) = Some s \<and> MS_AdapterName s = adapter' \<and> MS_ClientInfo s = client' \<and>
    MS_Initialized s \<and> is_ok r1 \<and> is_ok r2 \<and> dom sm2 = dom sm1"
  using assms
  by (auto simp: InitializeMCPConnection_def CreateSession_def UpdateSessionCapabilities_def generateSessionID_def Let_def)

text \<open>A clock that stands still.\<close>

theorem connections_share_a_session_witness:
  "\<exists>sm s. snd (InitializeMCPConnection (\<lambda>_. ''20250101120000'') 0 7 0 0 0 ''a'' proxy_info NewMCPSessionManager) = Inr sm \<and>
     fst (InitializeMCPConnection (\<lambda>_. ''20250101120000'') 0 1007 0 0 0 ''b'' proxy_info
       (fst (InitializeMCPConnection (\<lambda>_. ''20250101120000'') 0 7 0 0 0 ''a'' proxy_info NewMCPSessionManager)))
       (generateSessionID (\<lambda>_. ''20250101120000'') 0 7) = Some s \<and> MS_AdapterName s = ''b''"
  using connections_share_a_session [OF prod.collapse [symmetric] prod.collapse [symmetric],
      of "\<lambda>_. ''20250101120000''" 0 0 1007 7 0 0 0 "''b''" proxy_info 0 0 0 "''a''" proxy_info NewMCPSessionManager]
  by (auto simp: is_ok_iff)

end
