(* ===== verification/Registry.thy ===== *)
theory Registry
  imports AdapterStores UserGroupHandlers
begin

section \<open>The registry of servers\<close>

text \<open>
  \<open>internal/handlers/registry_manager.go\<close>, \<open>registry.go\<close> and \<open>route_assignment.go\<close>, and the loading of the registry in
  \<open>cmd/uniproxy/main.go\<close>. \<open>R\<close> are the operations of the store of servers; the \<open>i\<close>-th call of the store in an operation
  has the environment \<open>fst (es i)\<close>, with \<open>snd (es i)\<close> the identifier the store would draw. Decoders of JSON and YAML, the
  network and the file system are arguments. No route of the registry has a middleware.
\<close>

type_synonym store_env = "nat \<Rightarrow> env \<times> string"

subsection \<open>Entries\<close>

definition put :: "string \<Rightarrow> any option \<Rightarrow> (string \<rightharpoonup> any) \<Rightarrow> (string \<rightharpoonup> any)" where
  "put k v m = (case v of None \<Rightarrow> m | Some x \<Rightarrow> m(k \<mapsto> x))"

definition zero_MCPServer :: MCPServer where
  "zero_MCPServer = \<lparr>Srv_ID = [], Srv_Name = [], Srv_Image = [], Srv_Description = [], Srv_Version = [],
     Srv_Repository = \<lparr>Repo_URL = [], Repo_Source = []\<rparr>, Srv_Packages = [], Srv_Tools = [], Srv_ValidationStatus = [],
     Srv_DiscoveredAt = 0, Srv_URL = [], Srv_Meta = Map.empty, Srv_GitHubConfig = None, Srv_RouteAssignments = [],
     Srv_AutoSpawn = None\<rparr>"

text \<open>What the loops make of one entry of a registry file. The map under \<open>meta\<close> is extended.\<close>

definition registry_entry :: "(string \<rightharpoonup> any) \<Rightarrow> MCPServer option" where
  "registry_entry serverData =
     (let str = (\<lambda>k. Option.bind (serverData k) any_string);
          obj = (\<lambda>k. map_option Object (Option.bind (serverData k) any_map)) in
      case str ''name'' of
        None \<Rightarrow> None
      | Some name \<Rightarrow>
          (let meta = (case Option.bind (serverData ''meta'') any_map of None \<Rightarrow> Map.empty | Some m \<Rightarrow> m) in
           Some (zero_MCPServer\<lparr>Srv_ID := name, Srv_Name := name,
             Srv_Description := (case str ''description'' of None \<Rightarrow> [] | Some d \<Rightarrow> d),
             Srv_Packages := (case str ''image'' of None \<Rightarrow> []
               | Some img \<Rightarrow> [\<lparr>Pkg_RegistryType = [], Pkg_Identifier = img, Pkg_Transport = \<lparr>Tr_Type = ''stdio''\<rparr>,
                   Pkg_EnvironmentVariables = []\<rparr>]),
             Srv_Meta := put ''type'' (map_option String_value (str ''type'')) (put ''config'' (obj ''config'')
               (put ''source_info'' (obj ''source'') (put ''about'' (obj ''about'')
                 (meta(''source'' \<mapsto> String_value ''yaml'')))))\<rparr>)))"

definition registry_entries :: "(string \<rightharpoonup> any) list \<Rightarrow> MCPServer list" where
  "registry_entries servers = List.map_filter registry_entry servers"

subsection \<open>The registry manager\<close>

text \<open>The entries come back as the caller sees them, with the identifiers that the store gave them.\<close>

fun UploadRegistryEntries ::
    "'r MCPServerStore \<Rightarrow> store_env \<Rightarrow> nat \<Rightarrow> MCPServer list \<Rightarrow> 'r \<Rightarrow> 'r \<times> MCPServer list \<times> error option" where
  "UploadRegistryEntries R es i [] s = (s, [], None)"
| "UploadRegistryEntries R es i (server # entries) s =
     (case mss_CreateMCPServer R (fst (es i)) (snd (es i)) server s of
        (s', server', Some err) \<Rightarrow>
          (s', server' # entries, Some (''failed to create server '' @ Srv_ID server' @ '': '' @ err))
      | (s', server', None) \<Rightarrow>
          (case UploadRegistryEntries R es (Suc i) entries s' of
             (s'', entries', err) \<Rightarrow> (s'', server' # entries', err)))"

fun clear_servers :: "'r MCPServerStore \<Rightarrow> store_env \<Rightarrow> nat \<Rightarrow> MCPServer list \<Rightarrow> 'r \<Rightarrow> 'r \<times> error option" where
  "clear_servers R es i [] s = (s, None)"
| "clear_servers R es i (server # servers) s =
     (case mss_DeleteMCPServer R (fst (es i)) (Srv_ID server) s of
        (s', Some err) \<Rightarrow> (s', Some (''failed to delete server '' @ Srv_ID server @ '': '' @ err))
      | (s', None) \<Rightarrow> clear_servers R es (Suc i) servers s')"

definition Registry_Clear :: "'r MCPServerStore \<Rightarrow> store_env \<Rightarrow> string list \<Rightarrow> 'r \<Rightarrow> 'r \<times> error option" where
  "Registry_Clear R es ks s = clear_servers R es 0 (mss_ListMCPServers R ks s) s"

definition get_url :: "string \<Rightarrow> forwarded" where
  "get_url url = \<lparr>FW_Method = ''GET'', FW_URL = url, FW_Header = Map.empty, FW_Body = []\<rparr>"

text \<open>An element of the decoded list may be nil, which a dereference does not survive: the result is then \<open>None\<close>, and
  the elements before it are uploaded.\<close>

fun non_nil :: "'a option list \<Rightarrow> 'a list \<times> bool" where
  "non_nil [] = ([], True)"
| "non_nil (None # xs) = ([], False)"
| "non_nil (Some x # xs) = (case non_nil xs of (ys, b) \<Rightarrow> (x # ys, b))"

definition LoadFromCustomSource ::
    "'r MCPServerStore \<Rightarrow> store_env \<Rightarrow> (forwarded \<Rightarrow> sent) \<Rightarrow> (string \<Rightarrow> (MCPServer option list) result) \<Rightarrow> string \<Rightarrow> 'r \<Rightarrow>
     'r \<times> error option option" where
  "LoadFromCustomSource R es send decode sourceURL s =
     (case send (get_url sourceURL) of
        Bad_request err \<Rightarrow> (s, Some (Some (''failed to fetch from source '' @ sourceURL @ '': '' @ err)))
      | Unreachable err \<Rightarrow> (s, Some (Some (''failed to fetch from source '' @ sourceURL @ '': '' @ err)))
      | Answered resp \<Rightarrow>
          if PX_Status resp \<noteq> 200
          then (s, Some (Some (''source returned status '' @ show_int (PX_Status resp))))
          else (case PX_Error resp of
            Some err \<Rightarrow> (s, Some (Some (''failed to read response body: '' @ err)))
          | None \<Rightarrow> (case decode (PX_Body resp) of
              Inl err \<Rightarrow> (s, Some (Some (''failed to unmarshal servers: '' @ err)))
            | Inr servers \<Rightarrow>
                (case UploadRegistryEntries R es 0 (fst (non_nil servers)) s of
                   (s', _, Some err) \<Rightarrow> (s', Some (Some err))
                 | (s', _, None) \<Rightarrow> (s', if snd (non_nil servers) then Some None else None)))))"

text \<open>A filter is a map, \<open>None\<close> for nil. Its values are compared with strings: only a string is equal to one. Keys other
  than the four are ignored. The order of the iteration does not matter.\<close>

definition matchesFilters :: "MCPServer \<Rightarrow> (string \<rightharpoonup> any) option \<Rightarrow> bool" where
  "matchesFilters server filters =
     (case filters of
        None \<Rightarrow> True
      | Some f \<Rightarrow>
          (let ok = (\<lambda>k P. case f k of None \<Rightarrow> True | Some v \<Rightarrow> P (any_string v)) in
           ok ''transport'' (\<lambda>v. Srv_Packages server = [] \<or>
             list_ex (\<lambda>pkg. Some (Tr_Type (Pkg_Transport pkg)) = v) (Srv_Packages server)) \<and>
           ok ''registryType'' (\<lambda>v. Srv_Packages server = [] \<or>
             list_ex (\<lambda>pkg. Some (Pkg_RegistryType pkg) = v) (Srv_Packages server)) \<and>
           ok ''validationStatus'' (\<lambda>v. Some (Srv_ValidationStatus server) = v) \<and>
           ok ''source'' (\<lambda>v. case Option.bind (Srv_Meta server ''source'') any_string of
             None \<Rightarrow> False | Some source \<Rightarrow> Some source = v)))"

definition search_text :: "MCPServer \<Rightarrow> string" where
  "search_text server = ToLower (Srv_Name server @ '' '' @ Srv_Description server) @
     (if Repo_Source (Srv_Repository server) \<noteq> [] then '' '' @ ToLower (Repo_Source (Srv_Repository server)) else [])"

definition SearchServers ::
    "'r MCPServerStore \<Rightarrow> string list \<Rightarrow> string \<Rightarrow> (string \<rightharpoonup> any) option \<Rightarrow> 'r \<Rightarrow> MCPServer list" where
  "SearchServers R ks query filters s =
     filter (\<lambda>server. (query = [] \<or> Contains (search_text server) (ToLower query)) \<and> matchesFilters server filters)
       (mss_ListMCPServers R ks s)"

subsection \<open>Loading\<close>

definition parseAndUploadRegistryYAML ::
    "'r MCPServerStore \<Rightarrow> store_env \<Rightarrow> (string \<Rightarrow> ((string \<rightharpoonup> any) list) result) \<Rightarrow> string \<Rightarrow> string \<Rightarrow> 'r \<Rightarrow> 'r \<times> error option" where
  "parseAndUploadRegistryYAML R es yaml data source s =
     (case yaml data of
        Inl err \<Rightarrow> (s, Some (''could not parse registry YAML from '' @ source @ '': '' @ err))
      | Inr servers \<Rightarrow>
          (case UploadRegistryEntries R es 0 (registry_entries servers) s of
             (s', _, Some err) \<Rightarrow> (s', Some (''could not upload registry entries: '' @ err))
           | (s', _, None) \<Rightarrow> (s', None)))"

abbreviation registry_file :: string where
  "registry_file \<equiv> ''config/mcp_registry.yaml''"

text \<open>\<open>rl_url\<close> is the configured URL, empty for none, and \<open>rl_file\<close> what reading the local file gives. The timeout is left
  to \<open>rl_send\<close>.\<close>

record registry_env =
  rl_url :: string
  rl_send :: "forwarded \<Rightarrow> sent"
  rl_json :: "string \<Rightarrow> ((string \<rightharpoonup> any) list) result"
  rl_yaml :: "string \<Rightarrow> ((string \<rightharpoonup> any) list) result"
  rl_file :: "string result"
  rl_clear :: store_env
  rl_upload :: store_env
  rl_fallback :: store_env
  rl_order :: "string list"
  rl_order' :: "string list"

definition loadRegistryFromURL :: "'r MCPServerStore \<Rightarrow> registry_env \<Rightarrow> string \<Rightarrow> 'r \<Rightarrow> 'r \<times> error option" where
  "loadRegistryFromURL R E url s =
     (case rl_send E (get_url url) of
        Bad_request err \<Rightarrow> (s, Some (''failed to fetch from URL '' @ url @ '': '' @ err))
      | Unreachable err \<Rightarrow> (s, Some (''failed to fetch from URL '' @ url @ '': '' @ err))
      | Answered resp \<Rightarrow>
          if PX_Status resp \<noteq> 200 then (s, Some (''URL returned status '' @ show_int (PX_Status resp)))
          else (case PX_Error resp of
            Some err \<Rightarrow> (s, Some (''failed to read response body: '' @ err))
          | None \<Rightarrow> parseAndUploadRegistryYAML R (rl_upload E) (rl_yaml E) (PX_Body resp) url s))"

text \<open>At the start. Errors are only logged.\<close>

definition loadRegistryFromFile :: "'r MCPServerStore \<Rightarrow> registry_env \<Rightarrow> 'r \<Rightarrow> 'r" where
  "loadRegistryFromFile R E s =
     (let s1 = fst (Registry_Clear R (rl_clear E) (rl_order E) s);
          local = (\<lambda>s. case rl_file E of
            Inl err \<Rightarrow> s
          | Inr data \<Rightarrow> fst (parseAndUploadRegistryYAML R (rl_fallback E) (rl_yaml E) data registry_file s))
      in if rl_url E \<noteq> [] then
           (case loadRegistryFromURL R E (rl_url E) s1 of (s2, None) \<Rightarrow> s2 | (s2, Some err) \<Rightarrow> local s2)
         else local s1)"

text \<open>The part of \<open>ReloadRegistry\<close> for a URL: JSON first, then YAML; the registry is cleared before the upload. The update
  of the config map of the cluster does not touch the registry, and its failure is ignored.\<close>

definition reload_from_url :: "'r MCPServerStore \<Rightarrow> registry_env \<Rightarrow> 'r \<Rightarrow> 'r \<times> int result" where
  "reload_from_url R E s =
     (let source = rl_url E in
      case rl_send E (get_url source) of
        Bad_request err \<Rightarrow> (s, Inl (''failed to fetch from URL '' @ source @ '': '' @ err))
      | Unreachable err \<Rightarrow> (s, Inl (''failed to fetch from URL '' @ source @ '': '' @ err))
      | Answered resp \<Rightarrow>
          if PX_Status resp \<noteq> 200 then (s, Inl (''URL returned status '' @ show_int (PX_Status resp)))
          else case PX_Error resp of
            Some err \<Rightarrow> (s, Inl (''failed to read response body: '' @ err))
          | None \<Rightarrow>
              (let data = PX_Body resp in
               case (case rl_json E data of Inr servers \<Rightarrow> Inr servers | Inl _ \<Rightarrow> rl_yaml E data) of
                 Inl yamlErr \<Rightarrow>
                   (s, Inl (''could not parse registry data from '' @ source @ '' as JSON or YAML: '' @ yamlErr))
               | Inr servers \<Rightarrow>
                   (let mcpServers = registry_entries servers;
                        s1 = fst (Registry_Clear R (rl_clear E) (rl_order E) s) in
                    case UploadRegistryEntries R (rl_upload E) 0 mcpServers s1 of
                      (s2, _, Some uploadErr) \<Rightarrow> (s2, Inl (''could not upload registry entries: '' @ uploadErr))
                    | (s2, _, None) \<Rightarrow> (s2, Inr (int (length mcpServers))))))"

text \<open>The response has the source and the number of servers.\<close>

definition ReloadRegistry :: "'r MCPServerStore \<Rightarrow> registry_env \<Rightarrow> 'r \<Rightarrow> 'r \<times> int \<times> (string + string \<times> int)" where
  "ReloadRegistry R E s =
     (let (s1, outcome) = (if rl_url E \<noteq> [] then (case reload_from_url R E s of (s1, r) \<Rightarrow> (s1, Some r)) else (s, None)) in
      case outcome of
        Some (Inr serverCount) \<Rightarrow> (s1, 200, Inr (rl_url E, serverCount))
      | _ \<Rightarrow>
          (case rl_file E of
             Inl readErr \<Rightarrow> (s1, 500, Inl (''failed to read local file '' @ registry_file @ '': '' @ readErr))
           | Inr data \<Rightarrow>
               (case parseAndUploadRegistryYAML R (rl_fallback E) (rl_yaml E) data registry_file s1 of
                  (s2, Some parseErr) \<Rightarrow>
                    (s2, 500, Inl (''failed to parse local file '' @ registry_file @ '': '' @ parseErr))
                | (s2, None) \<Rightarrow>
                    (s2, 200, Inr (registry_file, int (length (mss_ListMCPServers R (rl_order' E) s2)))))))"

subsection \<open>The routes of the registry\<close>

datatype registry_payload = RP_server MCPServer | RP_servers "MCPServer list" | RP_uploaded string int | RP_routes "RouteAssignment list"
  | RP_route RouteAssignment | RP_none

type_synonym registry_reply = "int \<times> (string + registry_payload)"

definition DetectServerType :: "MCPServer \<Rightarrow> string" where
  "DetectServerType server =
     (let source = Option.bind (Srv_Meta server ''source'') any_string; lower = map_option ToLower source in
      if Srv_GitHubConfig server \<noteq> None \<or> source = Some ''github'' then ''github''
      else if lower \<in> {Some ''localstdio'', Some ''stdio'', Some ''local''} then ''localstdio''
      else if lower \<in> {Some ''remote'', Some ''remotehttp'', Some ''http''} then ''remotehttp''
      else case (case Srv_Packages server of [] \<Rightarrow> None | pkg # _ \<Rightarrow> Some (ToLower (Tr_Type (Pkg_Transport pkg)))) of
        Some t \<Rightarrow>
          if t = ''stdio'' then ''localstdio''
          else if t \<in> {''http'', ''sse'', ''websocket''} then ''remotehttp''
          else if Srv_URL server \<noteq> [] then ''remotehttp'' else ''localstdio''
      | None \<Rightarrow> if Srv_URL server \<noteq> [] then ''remotehttp'' else ''localstdio'')"

text \<open>The namespace and the name of the config map: \<open>getenv\<close> is the environment, \<open>account\<close> the file with the namespace of
  the service account.\<close>

definition registry_configmap :: "(string \<Rightarrow> string) \<Rightarrow> string result \<Rightarrow> string \<times> string" where
  "registry_configmap getenv account =
     ((if getenv ''NAMESPACE'' \<noteq> [] then getenv ''NAMESPACE''
       else case account of
         Inr data \<Rightarrow> data
       | Inl _ \<Rightarrow> if getenv ''POD_NAMESPACE'' \<noteq> [] then getenv ''POD_NAMESPACE'' else ''default''),
      (if getenv ''REGISTRY_CONFIGMAP_NAME'' \<noteq> [] then getenv ''REGISTRY_CONFIGMAP_NAME''
       else (if getenv ''DEPLOYMENT_NAME'' \<noteq> [] then getenv ''DEPLOYMENT_NAME''
             else if getenv ''HOSTNAME'' \<noteq> [] then getenv ''HOSTNAME'' else ''suse-ai-up'') @ ''-registry''))"

definition RegistryHandler_GetMCPServer :: "'r MCPServerStore \<Rightarrow> string \<Rightarrow> 'r \<Rightarrow> registry_reply" where
  "RegistryHandler_GetMCPServer R sid s =
     (case mss_GetMCPServer R s sid of Inl err \<Rightarrow> (404, Inl err) | Inr server \<Rightarrow> (200, Inr (RP_server server)))"

definition RegistryHandler_UpdateMCPServer ::
    "'r MCPServerStore \<Rightarrow> env \<Rightarrow> string \<Rightarrow> MCPServer result \<Rightarrow> 'r \<Rightarrow> 'r \<times> registry_reply" where
  "RegistryHandler_UpdateMCPServer R e sid body s =
     (case body of
        Inl err \<Rightarrow> (s, 400, Inl err)
      | Inr updated \<Rightarrow>
          (case mss_UpdateMCPServer R e sid updated s of
             (s', _, Some err) \<Rightarrow> (s', 404, Inl err)
           | (s', updated', None) \<Rightarrow> (s', 200, Inr (RP_server updated'))))"

definition RegistryHandler_DeleteMCPServer :: "'r MCPServerStore \<Rightarrow> env \<Rightarrow> string \<Rightarrow> 'r \<Rightarrow> 'r \<times> registry_reply" where
  "RegistryHandler_DeleteMCPServer R e sid s =
     (case mss_DeleteMCPServer R e sid s of
        (s', Some err) \<Rightarrow> (s', 404, Inl err)
      | (s', None) \<Rightarrow> (s', 204, Inr RP_none))"

definition validateMCPServer :: "(forwarded \<Rightarrow> sent) \<Rightarrow> string \<Rightarrow> bool" where
  "validateMCPServer send url =
     (case send (get_url url) of Answered resp \<Rightarrow> PX_Status resp = 200 | _ \<Rightarrow> False)"

definition enumerateTools :: "string \<Rightarrow> (MCPTool list) result" where
  "enumerateTools url = Inr []"

text \<open>The service of users and groups is there (\<open>main.go\<close> passes it).\<close>

definition ListMCPServersFiltered ::
    "'r MCPServerStore \<Rightarrow> 'us UserStore \<Rightarrow> 'gs GroupStore \<Rightarrow> string list \<Rightarrow> http_request \<Rightarrow> ('us, 'gs) UserGroupService \<Rightarrow> 'r \<Rightarrow>
     registry_reply" where
  "ListMCPServersFiltered R U G ks q us s =
     (let userID = request_user q; allServers = mss_ListMCPServers R ks s in
      if CanManageGroups U G us userID = Inr True then (200, Inr (RP_servers allServers))
      else (200, Inr (RP_servers (filter (\<lambda>server. CanAccessServer U G us userID (Srv_ID server) = Inr True) allServers))))"

text \<open>The time up to the second, and the microseconds in six digits.\<close>

definition pad6 :: "nat \<Rightarrow> string" where
  "pad6 n = replicate (6 - length (show_nat n)) CHR ''0'' @ show_nat n"

definition generate_server_ID :: "(gotime \<Rightarrow> string) \<Rightarrow> gotime \<times> gotime \<Rightarrow> string" where
  "generate_server_ID clock t = clock (fst t) @ pad6 (nat (snd t mod second div 1000))"

definition with_ID :: "(gotime \<Rightarrow> string) \<Rightarrow> gotime \<times> gotime \<Rightarrow> MCPServer \<Rightarrow> MCPServer" where
  "with_ID clock t server = (if Srv_ID server = [] then server\<lparr>Srv_ID := generate_server_ID clock t\<rparr> else server)"

definition UploadRegistryEntry ::
    "'r MCPServerStore \<Rightarrow> store_env \<Rightarrow> (gotime \<Rightarrow> string) \<Rightarrow> gotime \<times> gotime \<Rightarrow> MCPServer result \<Rightarrow> 'r \<Rightarrow> 'r \<times> registry_reply" where
  "UploadRegistryEntry R es clock t body s =
     (case body of
        Inl err \<Rightarrow> (s, 400, Inl ''Invalid JSON'')
      | Inr server0 \<Rightarrow>
          if Srv_Name server0 = [] then (s, 400, Inl ''MCP server name is required'')
          else let server = with_ID clock t server0 in
          case UploadRegistryEntries R es 0 [server] s of
            (s', _, Some err) \<Rightarrow> (s', 500, Inl err)
          | (s', servers, None) \<Rightarrow> (s', 201, Inr (RP_server (hd servers))))"

text \<open>A nil element panics before anything is uploaded: the answer \<open>None\<close>. \<open>ts\<close> has the readings of the clock for each
  entry.\<close>

definition UploadBulkRegistryEntries ::
    "'r MCPServerStore \<Rightarrow> store_env \<Rightarrow> (gotime \<Rightarrow> string) \<Rightarrow> (nat \<Rightarrow> gotime \<times> gotime) \<Rightarrow> (MCPServer option list) result \<Rightarrow> 'r \<Rightarrow>
     ('r \<times> registry_reply) option" where
  "UploadBulkRegistryEntries R es clock ts body s =
     (case body of
        Inl err \<Rightarrow> Some (s, 400, Inl ''Invalid JSON'')
      | Inr elements \<Rightarrow>
          if \<not> snd (non_nil elements) then None
          else let servers = map (\<lambda>(i, server). with_ID clock (ts i) server) (enumerate 0 (fst (non_nil elements))) in
          case UploadRegistryEntries R es 0 servers s of
            (s', _, Some err) \<Rightarrow> Some (s', 500, Inl err)
          | (s', _, None) \<Rightarrow> Some (s', 200, Inr (RP_uploaded
              (''Successfully uploaded '' @ show_int (int (length servers)) @ '' MCP servers'') (int (length servers)))))"

record browse_query =
  BQ_q :: string
  BQ_transport :: string
  BQ_registryType :: string
  BQ_validationStatus :: string
  BQ_source :: string

definition browse_match :: "browse_query \<Rightarrow> MCPServer \<Rightarrow> bool" where
  "browse_match b server \<longleftrightarrow>
     (BQ_q b = [] \<or> Contains (ToLower (Srv_Name server)) (ToLower (BQ_q b)) \<or>
       Contains (ToLower (Srv_Description server)) (ToLower (BQ_q b))) \<and>
     (BQ_transport b = [] \<or> list_ex (\<lambda>pkg. Tr_Type (Pkg_Transport pkg) = BQ_transport b) (Srv_Packages server)) \<and>
     (BQ_registryType b = [] \<or> list_ex (\<lambda>pkg. Pkg_RegistryType pkg = BQ_registryType b) (Srv_Packages server)) \<and>
     (BQ_validationStatus b = [] \<or> Srv_ValidationStatus server = BQ_validationStatus b)"

definition BrowseRegistry :: "'r MCPServerStore \<Rightarrow> string list \<Rightarrow> browse_query \<Rightarrow> 'r \<Rightarrow> registry_reply" where
  "BrowseRegistry R ks b s = (200, Inr (RP_servers (filter (browse_match b) (mss_ListMCPServers R ks s))))"

definition isValidMCPFile :: "string \<Rightarrow> bool" where
  "isValidMCPFile filename = list_ex (HasSuffix filename) [''.py'', ''.txt'', ''.md'', ''.json'']"

text \<open>The form: its fields, the decoder of the configuration, the files with what opening and reading them gives.\<close>

record upload_form =
  UF_name :: string
  UF_description :: string
  UF_config :: string
  UF_files :: "((string \<times> string result result) list) result"

text \<open>The configuration as a value of the metadata, as JSON has it.\<close>

definition server_config_value :: "MCPServerConfig \<Rightarrow> any" where
  "server_config_value c =
     (let texts = (\<lambda>m. Object (\<lambda>k. map_option String_value (m k))) in
      Object (put ''headers'' (if dom (MSC_Headers c) = {} then None else Some (texts (MSC_Headers c)))
        (put ''url'' (if MSC_URL c = [] then None else Some (String_value (MSC_URL c)))
          (put ''env'' (if dom (MSC_Env c) = {} then None else Some (texts (MSC_Env c)))
            (put ''args'' (if MSC_Args c = [] then None else Some (Slice (map String_value (MSC_Args c))))
              (put ''command'' (if MSC_Command c = [] then None else Some (String_value (MSC_Command c))) Map.empty))))))"

definition client_config_value :: "MCPClientConfig \<Rightarrow> any" where
  "client_config_value c = Object [''mcpServers'' \<mapsto> Object (\<lambda>k. map_option server_config_value (MCC_MCPServers c k))]"

fun read_files :: "(string \<times> string result result) list \<Rightarrow> (string \<rightharpoonup> any) \<Rightarrow> (int \<times> string) + (string \<rightharpoonup> any)" where
  "read_files [] contents = Inr contents"
| "read_files ((filename, opened) # files) contents =
     (if \<not> isValidMCPFile filename then Inl (400, ''Invalid file type: '' @ filename)
      else case opened of
        Inl err \<Rightarrow> Inl (500, ''Failed to open uploaded file'')
      | Inr (Inl err) \<Rightarrow> Inl (500, ''Failed to read uploaded file'')
      | Inr (Inr content) \<Rightarrow> read_files files (contents(filename \<mapsto> String_value content)))"

definition UploadLocalMCP ::
    "'r MCPServerStore \<Rightarrow> env \<Rightarrow> string \<Rightarrow> (gotime \<Rightarrow> string) \<Rightarrow> gotime \<times> gotime \<Rightarrow> gotime \<Rightarrow> string list \<Rightarrow>
     (string \<Rightarrow> MCPClientConfig result) \<Rightarrow> upload_form \<Rightarrow> 'r \<Rightarrow> 'r \<times> registry_reply" where
  "UploadLocalMCP R e fresh clock t now ks decode form s =
     (if UF_name form = [] then (s, 400, Inl ''name is required'')
      else if UF_config form = [] then (s, 400, Inl ''config is required'')
      else case decode (UF_config form) of
        Inl err \<Rightarrow> (s, 400, Inl ''Invalid MCP client configuration JSON'')
      | Inr mcpConfig \<Rightarrow>
      if range_values (MCC_MCPServers mcpConfig) ks = []
      then (s, 400, Inl ''MCP client config must contain at least one server'')
      else case UF_files form of
        Inl err \<Rightarrow> (s, 400, Inl ''Failed to parse multipart form'')
      | Inr files \<Rightarrow>
      if files = [] then (s, 400, Inl ''At least one file must be uploaded'')
      else case read_files files Map.empty of
        Inl (code, err) \<Rightarrow> (s, code, Inl err)
      | Inr fileContents \<Rightarrow>
          (let serverName = hd (filter (\<lambda>k. MCC_MCPServers mcpConfig k \<noteq> None) ks);
               server = zero_MCPServer\<lparr>Srv_ID := generate_server_ID clock t, Srv_Name := UF_name form,
                 Srv_Description := UF_description form, Srv_ValidationStatus := ''uploaded'', Srv_DiscoveredAt := now,
                 Srv_Meta := [''isLocalMCP'' \<mapsto> Bool_value True, ''mcpClientConfig'' \<mapsto> client_config_value mcpConfig,
                   ''uploadedFiles'' \<mapsto> Object fileContents],
                 Srv_Packages := [\<lparr>Pkg_RegistryType = ''local'', Pkg_Identifier = serverName,
                   Pkg_Transport = \<lparr>Tr_Type = ''stdio''\<rparr>, Pkg_EnvironmentVariables = []\<rparr>]\<rparr> in
           case mss_CreateMCPServer R e fresh server s of
             (s', _, Some err) \<Rightarrow> (s', 500, Inl ''Failed to store MCP server'')
           | (s', server', None) \<Rightarrow> (s', 201, Inr (RP_server server'))))"

subsection \<open>Route assignments\<close>

record CreateRouteAssignmentRequest =
  CRA_UserIDs :: "string list"
  CRA_GroupIDs :: "string list"
  CRA_AutoSpawn :: bool
  CRA_Permissions :: string

abbreviation registry_parts :: "http_request \<Rightarrow> string list" where
  "registry_parts q \<equiv> path_parts q ''/api/v1/registry/''"

definition generateRouteAssignmentID :: "string \<Rightarrow> gotime \<Rightarrow> string" where
  "generateRouteAssignmentID serverID nano = ''assignment-'' @ serverID @ ''-'' @ show_int nano"

abbreviation cannot_manage_routes :: string where
  "cannot_manage_routes \<equiv> ''Insufficient permissions to manage route assignments''"

text \<open>Three readings of the clock.\<close>

definition CreateRouteAssignment ::
    "'r MCPServerStore \<Rightarrow> 'us UserStore \<Rightarrow> 'gs GroupStore \<Rightarrow> env \<Rightarrow> gotime \<Rightarrow> gotime \<Rightarrow> gotime \<Rightarrow>
     (string \<Rightarrow> CreateRouteAssignmentRequest result) \<Rightarrow> http_request \<Rightarrow> ('us, 'gs) UserGroupService \<Rightarrow> 'r \<Rightarrow> 'r \<times> registry_reply" where
  "CreateRouteAssignment R U G e t1 t2 t3 decode q us s =
     (if HQ_Method q \<noteq> ''POST'' then (s, 405, Inl ''Method not allowed'')
      else let parts = registry_parts q in
      if length parts < 2 \<or> parts ! 1 \<noteq> ''routes'' then (s, 404, Inl ''404 page not found'')
      else let serverID = parts ! 0 in
      case decode (HQ_Body q) of
        Inl err \<Rightarrow> (s, 400, Inl (''Invalid JSON: '' @ err))
      | Inr req \<Rightarrow>
      if CRA_Permissions req \<notin> {[], ''read'', ''write'', ''admin''}
      then (s, 400, Inl (''permissions must be '' @ [CHR 0x27] @ ''read'' @ [CHR 0x27] @ '', '' @ [CHR 0x27] @ ''write'' @ [CHR 0x27] @
        '', or '' @ [CHR 0x27] @ ''admin'' @ [CHR 0x27]))
      else if CanManageGroups U G us (request_user q) \<noteq> Inr True then (s, 403, Inl cannot_manage_routes)
      else case find (\<lambda>uid. ValidateUserID U us uid \<noteq> None) (CRA_UserIDs req) of
        Some uid \<Rightarrow> (s, 400, Inl (''Invalid user ID: '' @ uid))
      | None \<Rightarrow>
      case find (\<lambda>gid. ValidateGroupID G us gid \<noteq> None) (CRA_GroupIDs req) of
        Some gid \<Rightarrow> (s, 400, Inl (''Invalid group ID: '' @ gid))
      | None \<Rightarrow>
      case mss_GetMCPServer R s serverID of
        Inl err \<Rightarrow> (s, 404, Inl ''Server not found'')
      | Inr server \<Rightarrow>
          (let assignment = \<lparr>RA_ID = generateRouteAssignmentID serverID t1, RA_ServerID = serverID,
                 RA_UserIDs = CRA_UserIDs req, RA_GroupIDs = CRA_GroupIDs req, RA_AutoSpawn = CRA_AutoSpawn req,
                 RA_Permissions = CRA_Permissions req, RA_CreatedAt = t2, RA_UpdatedAt = t3\<rparr> in
           case mss_UpdateMCPServer R e serverID
                  (server\<lparr>Srv_RouteAssignments := Srv_RouteAssignments server @ [assignment]\<rparr>) s of
             (s', _, Some err) \<Rightarrow> (s', 500, Inl (''Failed to update server route assignments: '' @ err))
           | (s', _, None) \<Rightarrow> (s', 201, Inr (RP_route assignment))))"

definition ListRouteAssignments :: "'r MCPServerStore \<Rightarrow> http_request \<Rightarrow> 'r \<Rightarrow> registry_reply" where
  "ListRouteAssignments R q s =
     (if HQ_Method q \<noteq> ''GET'' then (405, Inl ''Method not allowed'')
      else let parts = registry_parts q in
      if length parts < 2 \<or> parts ! 1 \<noteq> ''routes'' then (404, Inl ''404 page not found'')
      else case mss_GetMCPServer R s (parts ! 0) of
        Inl err \<Rightarrow> (404, Inl ''Server not found'')
      | Inr server \<Rightarrow> (200, Inr (RP_routes (Srv_RouteAssignments server))))"

text \<open>The loops over the assignments stop at the first with the ID.\<close>

fun update_first :: "('a \<Rightarrow> bool) \<Rightarrow> ('a \<Rightarrow> 'a) \<Rightarrow> 'a list \<Rightarrow> 'a list" where
  "update_first P f [] = []"
| "update_first P f (x # xs) = (if P x then f x # xs else x # update_first P f xs)"

fun remove_first :: "('a \<Rightarrow> bool) \<Rightarrow> 'a list \<Rightarrow> 'a list" where
  "remove_first P [] = []"
| "remove_first P (x # xs) = (if P x then xs else x # remove_first P xs)"

definition UpdateRouteAssignment ::
    "'r MCPServerStore \<Rightarrow> 'us UserStore \<Rightarrow> 'gs GroupStore \<Rightarrow> env \<Rightarrow> gotime \<Rightarrow> (string \<Rightarrow> CreateRouteAssignmentRequest result) \<Rightarrow>
     http_request \<Rightarrow> ('us, 'gs) UserGroupService \<Rightarrow> 'r \<Rightarrow> 'r \<times> registry_reply" where
  "UpdateRouteAssignment R U G e now decode q us s =
     (if HQ_Method q \<noteq> ''PUT'' then (s, 405, Inl ''Method not allowed'')
      else let parts = registry_parts q in
      if length parts < 3 \<or> parts ! 1 \<noteq> ''routes'' then (s, 404, Inl ''404 page not found'')
      else let serverID = parts ! 0; assignmentID = parts ! 2 in
      case decode (HQ_Body q) of
        Inl err \<Rightarrow> (s, 400, Inl (''Invalid JSON: '' @ err))
      | Inr req \<Rightarrow>
      if CanManageGroups U G us (request_user q) \<noteq> Inr True then (s, 403, Inl cannot_manage_routes)
      else case mss_GetMCPServer R s serverID of
        Inl err \<Rightarrow> (s, 404, Inl ''Server not found'')
      | Inr server \<Rightarrow>
      if \<not> list_ex (\<lambda>a. RA_ID a = assignmentID) (Srv_RouteAssignments server)
      then (s, 404, Inl ''Route assignment not found'')
      else let routes = update_first (\<lambda>a. RA_ID a = assignmentID) (\<lambda>a. a\<lparr>RA_UserIDs := CRA_UserIDs req,
             RA_GroupIDs := CRA_GroupIDs req, RA_AutoSpawn := CRA_AutoSpawn req, RA_Permissions := CRA_Permissions req,
             RA_UpdatedAt := now\<rparr>) (Srv_RouteAssignments server) in
      case mss_UpdateMCPServer R e serverID (server\<lparr>Srv_RouteAssignments := routes\<rparr>) s of
        (s', _, Some err) \<Rightarrow> (s', 500, Inl (''Failed to update server route assignments: '' @ err))
      | (s', _, None) \<Rightarrow> (s', 200, Inr (RP_routes routes)))"

definition DeleteRouteAssignment ::
    "'r MCPServerStore \<Rightarrow> 'us UserStore \<Rightarrow> 'gs GroupStore \<Rightarrow> env \<Rightarrow> http_request \<Rightarrow> ('us, 'gs) UserGroupService \<Rightarrow> 'r \<Rightarrow>
     'r \<times> registry_reply" where
  "DeleteRouteAssignment R U G e q us s =
     (if HQ_Method q \<noteq> ''DELETE'' then (s, 405, Inl ''Method not allowed'')
      else let parts = registry_parts q in
      if length parts < 3 \<or> parts ! 1 \<noteq> ''routes'' then (s, 404, Inl ''404 page not found'')
      else let serverID = parts ! 0; assignmentID = parts ! 2 in
      if CanManageGroups U G us (request_user q) \<noteq> Inr True then (s, 403, Inl cannot_manage_routes)
      else case mss_GetMCPServer R s serverID of
        Inl err \<Rightarrow> (s, 404, Inl ''Server not found'')
      | Inr server \<Rightarrow>
      if \<not> list_ex (\<lambda>a. RA_ID a = assignmentID) (Srv_RouteAssignments server)
      then (s, 404, Inl ''Route assignment not found'')
      else case mss_UpdateMCPServer R e serverID (server\<lparr>Srv_RouteAssignments :=
                  remove_first (\<lambda>a. RA_ID a = assignmentID) (Srv_RouteAssignments server)\<rparr>) s of
        (s', _, Some err) \<Rightarrow> (s', 500, Inl (''Failed to update server route assignments: '' @ err))
      | (s', _, None) \<Rightarrow> (s', 204, Inr RP_none))"

subsection \<open>The contract of the store of servers\<close>

locale server_store =
  fixes R :: "'r MCPServerStore" and contents :: "'r \<Rightarrow> (string \<rightharpoonup> MCPServer)"
  assumes get_eq: "mss_GetMCPServer R s sid = (case contents s sid of None \<Rightarrow> Inl ErrNotFound | Some server \<Rightarrow> Inr server)"
    and list_eq: "mss_ListMCPServers R ks s = range_values (contents s) ks"
    and create_server: "fst (snd (mss_CreateMCPServer R e fresh server s)) =
      (if Srv_ID server = [] then server\<lparr>Srv_ID := fresh\<rparr> else server)"
    and create_contents: "contents (fst (mss_CreateMCPServer R e fresh server s)) =
      (let server' = if Srv_ID server = [] then server\<lparr>Srv_ID := fresh\<rparr> else server in (contents s)(Srv_ID server' \<mapsto> server'))"
    and update_absent: "contents s sid = None \<Longrightarrow> mss_UpdateMCPServer R e sid server s = (s, server, Some ErrNotFound)"
    and update_contents: "contents s sid \<noteq> None \<Longrightarrow>
      contents (fst (mss_UpdateMCPServer R e sid server s)) = (contents s)(sid \<mapsto> server\<lparr>Srv_ID := sid\<rparr>)"
    and delete_absent: "contents s sid = None \<Longrightarrow> mss_DeleteMCPServer R e sid s = (s, Some ErrNotFound)"
    and delete_contents: "contents s sid \<noteq> None \<Longrightarrow> contents (fst (mss_DeleteMCPServer R e sid s)) = (contents s)(sid := None)"
begin

text \<open>One call of the store that changes it.\<close>

inductive call :: "'r \<Rightarrow> 'r \<Rightarrow> bool" where
  create: "call s (fst (mss_CreateMCPServer R e fresh server s))"
| update: "call s (fst (mss_UpdateMCPServer R e sid server s))"
| delete: "call s (fst (mss_DeleteMCPServer R e sid s))"

definition keys_are_IDs :: "'r \<Rightarrow> bool" where
  "keys_are_IDs s \<longleftrightarrow> (\<forall>k server. contents s k = Some server \<longrightarrow> Srv_ID server = k)"

lemma call_keys: "call s s' \<Longrightarrow> keys_are_IDs s \<Longrightarrow> keys_are_IDs s'"
proof (induction rule: call.induct)
  case (create s e fresh server)
  then show ?case by (auto simp: keys_are_IDs_def create_contents Let_def)
next
  case (update s e sid server)
  then show ?case
    by (cases "contents s sid = None") (auto simp: keys_are_IDs_def update_absent update_contents)
next
  case (delete s e sid)
  then show ?case
    by (cases "contents s sid = None") (auto simp: keys_are_IDs_def delete_absent delete_contents split: if_splits)
qed

lemma calls_keys: "call\<^sup>*\<^sup>* s s' \<Longrightarrow> keys_are_IDs s \<Longrightarrow> keys_are_IDs s'"
  by (induction rule: rtranclp_induct) (auto intro: call_keys)

text \<open>Every operation of the manager and of the handlers is a sequence of calls.\<close>

lemma call_create: "mss_CreateMCPServer R e fresh server s = (s', x) \<Longrightarrow> call\<^sup>*\<^sup>* s s'"
  using call.create [of s e fresh server] by auto

lemma call_update: "mss_UpdateMCPServer R e sid server s = (s', x) \<Longrightarrow> call\<^sup>*\<^sup>* s s'"
  using call.update [of s e sid server] by auto

lemma call_delete: "mss_DeleteMCPServer R e sid s = (s', x) \<Longrightarrow> call\<^sup>*\<^sup>* s s'"
  using call.delete [of s e sid] by auto

lemma upload_calls: "UploadRegistryEntries R es i entries s = (s', x) \<Longrightarrow> call\<^sup>*\<^sup>* s s'"
proof (induction entries arbitrary: i s s' x)
  case (Cons server entries)
  show ?case
    using Cons.prems Cons.IH by (auto split: prod.splits option.splits dest!: call_create intro: rtranclp_trans)
qed simp

lemma clear_calls: "clear_servers R es i servers s = (s', x) \<Longrightarrow> call\<^sup>*\<^sup>* s s'"
proof (induction servers arbitrary: i s s' x)
  case (Cons server servers)
  show ?case
    using Cons.prems Cons.IH by (auto split: prod.splits option.splits dest!: call_delete intro: rtranclp_trans)
qed simp

lemma clear_registry_calls: "call\<^sup>*\<^sup>* s (fst (Registry_Clear R es ks s))"
  by (cases "Registry_Clear R es ks s") (auto simp: Registry_Clear_def dest: clear_calls)

lemma parse_calls: "parseAndUploadRegistryYAML R es yaml data source s = (s', x) \<Longrightarrow> call\<^sup>*\<^sup>* s s'"
  by (auto simp: parseAndUploadRegistryYAML_def split: sum.splits prod.splits option.splits dest: upload_calls)

lemma reload_url_calls: "reload_from_url R E s = (s', x) \<Longrightarrow> call\<^sup>*\<^sup>* s s'"
  using clear_registry_calls [of s "rl_clear E" "rl_order E"]
  by (auto simp: reload_from_url_def Let_def split: sum.splits prod.splits option.splits sent.splits if_splits
      dest!: upload_calls intro: rtranclp_trans)

lemma reload_calls: "ReloadRegistry R E s = (s', x) \<Longrightarrow> call\<^sup>*\<^sup>* s s'"
  by (auto simp: ReloadRegistry_def Let_def split: sum.splits prod.splits option.splits if_splits
      dest!: parse_calls reload_url_calls intro: rtranclp_trans)

lemma handler_calls:
  "call\<^sup>*\<^sup>* s (fst (RegistryHandler_UpdateMCPServer R e sid body s))"
  "call\<^sup>*\<^sup>* s (fst (RegistryHandler_DeleteMCPServer R e sid s))"
  "call\<^sup>*\<^sup>* s (fst (UploadRegistryEntry R es clock t body s))"
  "call\<^sup>*\<^sup>* s (fst (UploadLocalMCP R e fresh clock t now ks decode form s))"
  "UploadBulkRegistryEntries R es clock ts bulk s = Some answer \<Longrightarrow> call\<^sup>*\<^sup>* s (fst answer)"
  by (auto simp: RegistryHandler_UpdateMCPServer_def RegistryHandler_DeleteMCPServer_def UploadRegistryEntry_def
      UploadLocalMCP_def UploadBulkRegistryEntries_def Let_def split: sum.splits prod.splits option.splits if_splits
      dest!: call_update call_delete call_create upload_calls)

lemma route_calls:
  "call\<^sup>*\<^sup>* s (fst (CreateRouteAssignment R U G e t1 t2 t3 d q us s))"
  "call\<^sup>*\<^sup>* s (fst (UpdateRouteAssignment R U G e now d q us s))"
  "call\<^sup>*\<^sup>* s (fst (DeleteRouteAssignment R U G e q us s))"
  by (auto simp: CreateRouteAssignment_def UpdateRouteAssignment_def DeleteRouteAssignment_def Let_def
      split: sum.splits prod.splits option.splits if_splits dest!: call_update)

text \<open>What an upload without an error, and a clearing without an error, leave.\<close>

lemma upload_contents:
  assumes "\<forall>v \<in> set entries. Srv_ID v \<noteq> []" and "UploadRegistryEntries R es i entries s = (s', entries', None)"
  shows "contents s' = contents s ++ map_of (rev (map (\<lambda>v. (Srv_ID v, v)) entries)) \<and> entries' = entries"
  using assms
proof (induction entries arbitrary: i s entries')
  case (Cons server entries)
  obtain s1 server1 err where c: "mss_CreateMCPServer R (fst (es i)) (snd (es i)) server s = (s1, server1, err)"
    by (metis prod_cases3)
  have "server1 = server" "contents s1 = (contents s)(Srv_ID server \<mapsto> server)"
    using create_server [of "fst (es i)" "snd (es i)" server s] create_contents [of "fst (es i)" "snd (es i)" server s] c Cons.prems(1)
    by (simp_all add: Let_def)
  moreover obtain es' where "UploadRegistryEntries R es (Suc i) entries s1 = (s', es', None)" "entries' = server1 # es'"
    using Cons.prems(2) c by (auto split: option.splits prod.splits)
  moreover have "contents s ++ map_of (rev (map (\<lambda>v. (Srv_ID v, v)) (server # entries))) =
      (contents s)(Srv_ID server \<mapsto> server) ++ map_of (rev (map (\<lambda>v. (Srv_ID v, v)) entries))"
    by (simp add: map_add_assoc [symmetric])
  moreover have "contents s' = contents s1 ++ map_of (rev (map (\<lambda>v. (Srv_ID v, v)) entries)) \<and> es' = entries"
    using Cons.IH [OF _ calculation(3)] Cons.prems(1) by simp
  ultimately show ?case by metis
qed simp

lemma clear_contents:
  assumes "keys_are_IDs s" and "distinct (map Srv_ID servers)" and "set servers \<subseteq> ran (contents s)"
    and "clear_servers R es i servers s = (s', None)"
  shows "contents s' = contents s |` (- set (map Srv_ID servers))"
  using assms
proof (induction servers arbitrary: i s)
  case (Cons server servers)
  obtain k where "contents s k = Some server" using Cons.prems(3) by (auto simp: ran_def)
  then have present: "contents s (Srv_ID server) = Some server" using Cons.prems(1) by (simp add: keys_are_IDs_def)
  let ?d = "mss_DeleteMCPServer R (fst (es i)) (Srv_ID server) s"
  have c: "contents (fst ?d) = (contents s)(Srv_ID server := None)" using delete_contents present by simp
  have "keys_are_IDs (fst ?d)" using Cons.prems(1) call_keys [OF call.delete] by blast
  moreover have "set servers \<subseteq> ran (contents (fst ?d))"
  proof
    fix x assume x: "x \<in> set servers"
    then obtain j where j: "contents s j = Some x" using Cons.prems(3) by (auto simp: ran_def)
    then have "Srv_ID x = j" using Cons.prems(1) by (simp add: keys_are_IDs_def)
    then have "j \<noteq> Srv_ID server" using Cons.prems(2) x by (auto simp: image_iff)
    then show "x \<in> ran (contents (fst ?d))" using j c by (auto simp: ran_def)
  qed
  moreover have "clear_servers R es (Suc i) servers (fst ?d) = (s', None)"
    using Cons.prems(4) by (cases ?d) (auto split: option.splits)
  ultimately have "contents s' = contents (fst ?d) |` (- set (map Srv_ID servers))" using Cons.IH Cons.prems(2) by simp
  then show ?case unfolding c by (auto simp: restrict_map_def fun_eq_iff)
qed (simp add: restrict_map_def)

lemma Registry_Clear_contents:
  assumes "keys_are_IDs s" and "range_order (contents s) ks" and "snd (Registry_Clear R es ks s) = None"
  shows "contents (fst (Registry_Clear R es ks s)) = Map.empty"
proof -
  let ?vs = "range_values (contents s) ks"
  have ids: "map Srv_ID ?vs = ks"
    using assms(1,2) unfolding range_order_def
  proof (induction ks arbitrary: s)
    case Nil
    then show ?case by simp
  next
    case (Cons k ks)
    then obtain v where "contents s k = Some v" by auto
    have "map Srv_ID (range_values (contents s) js) = js" if "set js \<subseteq> dom (contents s)" for js
      using that Cons.prems(1) by (induction js) (auto simp: range_values_Cons keys_are_IDs_def)
    then show ?case using Cons.prems(2) by blast
  qed
  have "contents (fst (Registry_Clear R es ks s)) = contents s |` (- set (map Srv_ID ?vs))"
    by (rule clear_contents [OF assms(1), of _ es 0])
      (use assms ids set_range_values_subset [of "contents s" ks] in \<open>simp_all add: range_order_def Registry_Clear_def list_eq prod_eq_iff\<close>)
  moreover have "contents s |` (- set ks) = Map.empty"
    using assms(2) by (auto simp: range_order_def restrict_map_def fun_eq_iff domIff)
  ultimately show ?thesis using ids by simp
qed

lemma reload_replaces:
  assumes "keys_are_IDs s" and "range_order (contents s) (rl_order E)"
    and "snd (Registry_Clear R (rl_clear E) (rl_order E) s) = None"
    and "rl_send E (get_url (rl_url E)) = Answered resp"
    and "rl_json E (PX_Body resp) = Inr servers \<or> (\<exists>e. rl_json E (PX_Body resp) = Inl e) \<and> rl_yaml E (PX_Body resp) = Inr servers"
    and "\<forall>v \<in> set (registry_entries servers). Srv_ID v \<noteq> []"
    and "reload_from_url R E s = (s', Inr n)"
  shows "contents s' = map_of (rev (map (\<lambda>v. (Srv_ID v, v)) (registry_entries servers))) \<and> n = int (length (registry_entries servers))"
proof -
  let ?s1 = "fst (Registry_Clear R (rl_clear E) (rl_order E) s)"
  have "PX_Status resp = 200 \<and> PX_Error resp = None" using assms(4,7) by (auto simp: reload_from_url_def split: if_splits option.splits)
  then obtain es' where "UploadRegistryEntries R (rl_upload E) 0 (registry_entries servers) ?s1 = (s', es', None)"
    "n = int (length (registry_entries servers))"
    using assms(4,5,7) by (auto simp: reload_from_url_def Let_def split: prod.splits option.splits)
  with upload_contents [OF assms(6)] Registry_Clear_contents [OF assms(1-3)] show ?thesis by fastforce
qed

end

interpretation mem_servers: server_store InMemoryMCPServerStore_ops imss_servers
  by unfold_locales (auto simp: InMemoryMCPServerStore_ops_def InMemoryMCPServerStore_CreateMCPServer_def
      InMemoryMCPServerStore_GetMCPServer_def InMemoryMCPServerStore_UpdateMCPServer_def
      InMemoryMCPServerStore_DeleteMCPServer_def InMemoryMCPServerStore_ListMCPServers_def Let_def)

interpretation file_servers: server_store FileMCPServerStore_ops fs_entries
  by unfold_locales (auto simp: FileMCPServerStore_ops_def FileMCPServerStore_CreateMCPServer_def
      FileMCPServerStore_GetMCPServer_def FileMCPServerStore_UpdateMCPServer_def FileMCPServerStore_DeleteMCPServer_def
      FileMCPServerStore_ListMCPServers_def FileMCPServerStore_saveToFile_def Let_def case_prod_beta)

subsection \<open>Properties\<close>

text \<open>The operations on the registry that is kept in a file, whatever the disk does.\<close>

inductive registry_step :: "'us UserStore \<Rightarrow> 'gs GroupStore \<Rightarrow> FileMCPServerStore \<Rightarrow> FileMCPServerStore \<Rightarrow> bool"
  for U :: "'us UserStore" and G :: "'gs GroupStore" where
  put_server: "registry_step U G s (fst (RegistryHandler_UpdateMCPServer FileMCPServerStore_ops e sid body s))"
| delete_server: "registry_step U G s (fst (RegistryHandler_DeleteMCPServer FileMCPServerStore_ops e sid s))"
| upload: "registry_step U G s (fst (UploadRegistryEntry FileMCPServerStore_ops es clock t body s))"
| bulk: "UploadBulkRegistryEntries FileMCPServerStore_ops es clock ts bulk s = Some answer \<Longrightarrow> registry_step U G s (fst answer)"
| local: "registry_step U G s (fst (UploadLocalMCP FileMCPServerStore_ops e fresh clock t now ks decode form s))"
| reload: "registry_step U G s (fst (ReloadRegistry FileMCPServerStore_ops E s))"
| add_route: "registry_step U G s (fst (CreateRouteAssignment FileMCPServerStore_ops U G e t1 t2 t3 d q us s))"
| put_route: "registry_step U G s (fst (UpdateRouteAssignment FileMCPServerStore_ops U G e now d q us s))"
| delete_route: "registry_step U G s (fst (DeleteRouteAssignment FileMCPServerStore_ops U G e q us s))"

lemma registry_step_calls: "registry_step U G s s' \<Longrightarrow> file_servers.call\<^sup>*\<^sup>* s s'"
  by (induction rule: registry_step.induct)
    (auto intro: file_servers.handler_calls file_servers.route_calls file_servers.reload_calls [OF prod.collapse [symmetric]])

lemma loadFromFile_entries:
  "fs_entries (fst (loadFromFile noun key s)) = fs_entries s \<or>
   (\<exists>vs. fs_entries (fst (loadFromFile noun key s)) = load_entries key vs (fs_entries s))"
  unfolding loadFromFile_def by (simp split: option.split sum.split) blast

lemma file_servers_new: "file_servers.keys_are_IDs (NewFileMCPServerStore path crypto d)"
proof -
  have "\<forall>k v. load_entries Srv_ID vs m k = Some v \<longrightarrow> Srv_ID v = k" if "\<forall>k v. m k = Some v \<longrightarrow> Srv_ID v = k"
    for vs :: "MCPServer list" and m
    using that
  proof (induction vs arbitrary: m)
    case (Cons v vs)
    have "\<forall>k w. (m(Srv_ID v \<mapsto> v)) k = Some w \<longrightarrow> Srv_ID w = k" using Cons.prems by (auto split: if_splits)
    from Cons.IH [OF this] show ?case unfolding load_entries_Cons .
  qed simp
  from this [of Map.empty] have loaded: "\<forall>k v. load_entries Srv_ID vs Map.empty k = Some v \<longrightarrow> Srv_ID v = k"
    for vs :: "MCPServer list" by simp
  let ?s = "\<lparr>fs_filePath = path, fs_entries = Map.empty, fs_crypto = crypto, fs_disk = d\<rparr>"
  have "fs_entries ?s = Map.empty" by simp
  with loadFromFile_entries [of "''MCP server''" Srv_ID ?s] loaded
  have "\<forall>k v. fs_entries (fst (loadFromFile ''MCP server'' Srv_ID ?s)) k = Some v \<longrightarrow> Srv_ID v = k"
    by (elim disjE exE) (simp_all only: option.simps simp_thms)
  then show ?thesis
    unfolding file_servers.keys_are_IDs_def NewFileMCPServerStore_def NewFileStore_def .
qed


text \<open>C21. Reloading from the configured source replaces the registry: when that source gives a list and the clearing had no
  error, the registry then has exactly the entries of the list that have a name, the last of each name, as
  \<open>registry_entry\<close> reads them, and nothing that was there before.\<close>

theorem reload_replaces_registry:
  assumes "\<And>k v. fs_entries s k = Some v \<Longrightarrow> Srv_ID v = k" and "range_order (fs_entries s) (rl_order E)"
    and "snd (Registry_Clear FileMCPServerStore_ops (rl_clear E) (rl_order E) s) = None"
    and "rl_send E (get_url (rl_url E)) = Answered resp"
    and "rl_json E (PX_Body resp) = Inr servers \<or> (\<exists>e. rl_json E (PX_Body resp) = Inl e) \<and> rl_yaml E (PX_Body resp) = Inr servers"
    and "\<forall>v \<in> set (registry_entries servers). Srv_ID v \<noteq> []"
    and "ReloadRegistry FileMCPServerStore_ops E s = (s', 200, Inr (rl_url E, n))" and "rl_url E \<notin> {[], registry_file}"
  shows "fs_entries s' = map_of (rev (map (\<lambda>v. (Srv_ID v, v)) (registry_entries servers))) \<and>
    n = int (length (registry_entries servers))"
proof -
  have "reload_from_url FileMCPServerStore_ops E s = (s', Inr n)"
    using assms(7,8) by (auto simp: ReloadRegistry_def Let_def split: prod.splits sum.splits option.splits)
  then show ?thesis
    by (intro file_servers.reload_replaces [OF _ assms(2-6)]) (simp_all add: file_servers.keys_are_IDs_def assms(1))
qed

text \<open>The permissions on servers hide nothing. The filtered list has exactly the servers its user may access (all, for
  who may manage groups); but every server of the registry, with its configuration, is shown to everybody by browsing
  without filters and by its identifier, and whatever source is asked for makes no difference.\<close>

theorem registry_hides_nothing:
  assumes "range_order (fs_entries s) ks"
  shows "\<exists>listed shown. ListMCPServersFiltered FileMCPServerStore_ops U G ks q us s = (200, Inr (RP_servers listed)) \<and>
      set listed = {v \<in> ran (fs_entries s). CanManageGroups U G us (request_user q) = Inr True \<or>
        CanAccessServer U G us (request_user q) (Srv_ID v) = Inr True} \<and>
      BrowseRegistry FileMCPServerStore_ops ks
        \<lparr>BQ_q = [], BQ_transport = [], BQ_registryType = [], BQ_validationStatus = [], BQ_source = source\<rparr> s =
        (200, Inr (RP_servers shown)) \<and>
      set shown = ran (fs_entries s) \<and>
      (\<forall>k v. fs_entries s k = Some v \<longrightarrow> RegistryHandler_GetMCPServer FileMCPServerStore_ops k s = (200, Inr (RP_server v)))"
  by (auto simp: ListMCPServersFiltered_def BrowseRegistry_def browse_match_def RegistryHandler_GetMCPServer_def
      file_servers.list_eq file_servers.get_eq set_range_values [OF assms] Let_def)

text \<open>Route assignments are checked when they are made and not when they are changed. A successful \<open>POST\<close> appends one whose
  users and groups exist and whose permission is one of the four; a \<open>PUT\<close> by anyone who may manage groups stores any
  users, groups and permission in an assignment that exists.\<close>

theorem routes_checked_only_at_creation:
  assumes "CreateRouteAssignment R U G e t1 t2 t3 decode q us s = (s', 201, Inr (RP_route a))"
    and "HQ_Method p = ''PUT''" and "registry_parts p = [serverID, ''routes'', aid]"
    and "CanManageGroups U G us' (request_user p) = Inr True" and "decode' (HQ_Body p) = Inr req"
    and "fs_entries f serverID = Some server" and "b \<in> set (Srv_RouteAssignments server)" and "RA_ID b = aid"
    and "UpdateRouteAssignment FileMCPServerStore_ops U G e now decode' p us' f = (f', r)"
  shows "(\<forall>u \<in> set (RA_UserIDs a). ValidateUserID U us u = None) \<and> (\<forall>g \<in> set (RA_GroupIDs a). ValidateGroupID G us g = None) \<and>
     RA_Permissions a \<in> {[], ''read'', ''write'', ''admin''} \<and>
    (\<exists>server' b'. fs_entries f' serverID = Some server' \<and> b' \<in> set (Srv_RouteAssignments server') \<and> RA_ID b' = aid \<and>
       RA_UserIDs b' = CRA_UserIDs req \<and> RA_GroupIDs b' = CRA_GroupIDs req \<and> RA_Permissions b' = CRA_Permissions req)"
proof (intro conjI)
  show "\<forall>u \<in> set (RA_UserIDs a). ValidateUserID U us u = None" "\<forall>g \<in> set (RA_GroupIDs a). ValidateGroupID G us g = None"
    "RA_Permissions a \<in> {[], ''read'', ''write'', ''admin''}"
    using assms(1) by (auto simp: CreateRouteAssignment_def Let_def find_None_iff
        split: if_splits sum.splits option.splits prod.splits)
  have ex: "list_ex (\<lambda>a. RA_ID a = aid) (Srv_RouteAssignments server)" using assms(7,8) by (auto simp: list_ex_iff)
  define f0 where "f0 = (\<lambda>a. a\<lparr>RA_UserIDs := CRA_UserIDs req, RA_GroupIDs := CRA_GroupIDs req, RA_AutoSpawn := CRA_AutoSpawn req,
    RA_Permissions := CRA_Permissions req, RA_UpdatedAt := now\<rparr> :: RouteAssignment)"
  have first: "\<exists>x \<in> set xs. f0 x \<in> set (update_first (\<lambda>a. RA_ID a = aid) f0 xs) \<and> RA_ID x = aid"
    if "list_ex (\<lambda>a. RA_ID a = aid) xs" for xs using that by (induction xs) auto
  have "f' = fst (mss_UpdateMCPServer FileMCPServerStore_ops e serverID
      (server\<lparr>Srv_RouteAssignments := update_first (\<lambda>a. RA_ID a = aid) f0 (Srv_RouteAssignments server)\<rparr>) f)"
    using assms(2-6,9) ex
    by (auto simp: UpdateRouteAssignment_def Let_def file_servers.get_eq f0_def split: prod.splits option.splits)
  then have "fs_entries f' serverID = Some (server\<lparr>Srv_ID := serverID,
      Srv_RouteAssignments := update_first (\<lambda>a. RA_ID a = aid) f0 (Srv_RouteAssignments server)\<rparr>)"
    using assms(6) by (simp add: file_servers.update_contents)
  then show "\<exists>server' b'. fs_entries f' serverID = Some server' \<and> b' \<in> set (Srv_RouteAssignments server') \<and> RA_ID b' = aid \<and>
       RA_UserIDs b' = CRA_UserIDs req \<and> RA_GroupIDs b' = CRA_GroupIDs req \<and> RA_Permissions b' = CRA_Permissions req"
    using first [OF ex] by (auto simp: f0_def)
qed

subsection \<open>Examples\<close>

definition ex_entry :: "string \<Rightarrow> MCPServer" where
  "ex_entry name = zero_MCPServer\<lparr>Srv_ID := name, Srv_Name := name\<rparr>"

lemma ex_entry_simps [simp]: "Srv_ID (ex_entry n) = n" "Srv_Name (ex_entry n) = n"
  by (simp_all add: ex_entry_def)

definition ex_servers :: "string list \<Rightarrow> FileMCPServerStore" where
  "ex_servers ks = \<lparr>fs_filePath = ''servers.json'', fs_entries = (\<lambda>k. if k \<in> set ks then Some (ex_entry k) else None),
     fs_crypto = None, fs_disk = healthy_disk\<rparr>"

lemma ex_servers_simps [simp]: "fs_entries (ex_servers ks) = (\<lambda>k. if k \<in> set ks then Some (ex_entry k) else None)"
  by (simp add: ex_servers_def)

lemma ex_servers_order: "distinct ks \<Longrightarrow> range_order (fs_entries (ex_servers ks)) ks"
  by (auto simp: range_order_def dom_def)


definition ex_source :: registry_env where
  "ex_source = \<lparr>rl_url = ''http://list'', rl_send = (\<lambda>f. Answered \<lparr>PX_Status = 200, PX_Header = Map.empty, PX_Body = [], PX_Error = None\<rparr>),
     rl_json = (\<lambda>b. Inr [[''name'' \<mapsto> String_value ''new'']]), rl_yaml = (\<lambda>b. Inl ''no YAML''), rl_file = Inl ''no file'',
     rl_clear = (\<lambda>i. (ex_env, [])), rl_upload = (\<lambda>i. (ex_env, [])), rl_fallback = (\<lambda>i. (ex_env, [])),
     rl_order = [''old''], rl_order' = []\<rparr>"

lemma ex_source_simps [simp]: "rl_url ex_source = ''http://list''" "rl_order ex_source = [''old'']"
  "rl_send ex_source f = Answered \<lparr>PX_Status = 200, PX_Header = Map.empty, PX_Body = [], PX_Error = None\<rparr>"
  "rl_json ex_source b = Inr [[''name'' \<mapsto> String_value ''new'']]" "rl_clear ex_source i = (ex_env, [])"
  "rl_upload ex_source i = (ex_env, [])"
  by (simp_all add: ex_source_def)

definition healthy :: "FileMCPServerStore \<Rightarrow> bool" where
  "healthy s \<longleftrightarrow> fs_crypto s = None \<and> d_mkdir_err (fs_disk s) = None \<and> d_marshal_err (fs_disk s) = None \<and>
     d_write_err (fs_disk s) = None \<and> d_rename_err (fs_disk s) = None"

lemma healthy_save:
  "healthy s \<Longrightarrow> snd (FileMCPServerStore_saveToFile ks s) = None \<and> healthy (fst (FileMCPServerStore_saveToFile ks s))"
  by (simp add: healthy_def FileMCPServerStore_saveToFile_def saveToFile_def Let_def)

lemma healthy_delete:
  assumes "healthy s" and "fs_entries s k = Some v"
  shows "snd (FileMCPServerStore_DeleteMCPServer e k s) = None \<and> healthy (fst (FileMCPServerStore_DeleteMCPServer e k s))"
  using healthy_save [of "s\<lparr>fs_entries := (fs_entries s)(k := None)\<rparr>"] assms
  by (simp add: FileMCPServerStore_DeleteMCPServer_def healthy_def)

lemma healthy_create:
  assumes "healthy s" and "Srv_ID v \<noteq> []"
  shows "snd (snd (FileMCPServerStore_CreateMCPServer e fresh v s)) = None"
  using healthy_save [of "s\<lparr>fs_entries := (fs_entries s)(Srv_ID v \<mapsto> v)\<rparr>"] assms
  by (simp add: FileMCPServerStore_CreateMCPServer_def healthy_def case_prod_beta)

lemma mss_ops_simps:
  "mss_DeleteMCPServer FileMCPServerStore_ops = FileMCPServerStore_DeleteMCPServer"
  "mss_CreateMCPServer FileMCPServerStore_ops = FileMCPServerStore_CreateMCPServer"
  by (simp_all add: FileMCPServerStore_ops_def)

theorem reload_replaces_registry_witness:
  "\<exists>s'. ReloadRegistry FileMCPServerStore_ops ex_source (ex_servers [''old'']) = (s', 200, Inr (''http://list'', 1)) \<and>
     fs_entries s' ''old'' = None \<and> fs_entries s' ''new'' \<noteq> None"
proof -
  let ?E = "registry_entries [[''name'' \<mapsto> String_value ''new'']]" and ?old = "ex_servers [''old'']"
    and ?c = "Registry_Clear FileMCPServerStore_ops (rl_clear ex_source) (rl_order ex_source) (ex_servers [''old''])"
  have h: "healthy ?old" by (simp add: healthy_def ex_servers_def healthy_disk_def)
  let ?d = "FileMCPServerStore_DeleteMCPServer ex_env ''old'' ?old"
  have d: "snd ?d = None" "healthy (fst ?d)" using healthy_delete [OF h, of "''old''"] by simp_all
  have "?c = (fst ?d, None)"
    using d by (simp add: Registry_Clear_def file_servers.list_eq range_values_Cons mss_ops_simps case_prod_beta)
  then have c: "snd ?c = None" "healthy (fst ?c)" using d by simp_all
  obtain n where n: "?E = [n]" "Srv_ID n = ''new''"
    by (simp add: registry_entries_def registry_entry_def List.map_filter_simps Let_def)
  obtain s' n' where create: "FileMCPServerStore_CreateMCPServer ex_env [] n (fst ?c) = (s', n', None)"
    using healthy_create [OF c(2), of n] n(2) by (metis list.distinct(1) prod.collapse)
  then have r: "ReloadRegistry FileMCPServerStore_ops ex_source ?old = (s', 200, Inr (rl_url ex_source, 1))"
    using n by (simp add: ReloadRegistry_def reload_from_url_def mss_ops_simps Let_def)
  have "fs_entries s' = map_of (rev (map (\<lambda>v. (Srv_ID v, v)) ?E)) \<and> (1::int) = int (length ?E)"
  proof (rule reload_replaces_registry [where E = ex_source and s = "?old"])
    show "ReloadRegistry FileMCPServerStore_ops ex_source ?old = (s', 200, Inr (rl_url ex_source, 1))" by (rule r)
    show "rl_send ex_source (get_url (rl_url ex_source)) = Answered \<lparr>PX_Status = 200, PX_Header = Map.empty, PX_Body = [], PX_Error = None\<rparr>"
      by simp
  qed (use c n ex_servers_order [of "[''old'']"] in \<open>auto split: if_splits\<close>)
  with r n show ?thesis by simp
qed

theorem registry_hides_nothing_witness:
  "\<exists>listed shown. ListMCPServersFiltered FileMCPServerStore_ops InMemoryUserStore_ops InMemoryGroupStore_ops [''w'']
       (ex_request ''GET'' ''/api/v1/registry'' [] ''ann'') ex_people (ex_servers [''w'']) = (200, Inr (RP_servers listed)) \<and>
     set listed = {} \<and>
     BrowseRegistry FileMCPServerStore_ops [''w'']
        \<lparr>BQ_q = [], BQ_transport = [], BQ_registryType = [], BQ_validationStatus = [], BQ_source = ''github''\<rparr> (ex_servers [''w'']) =
        (200, Inr (RP_servers shown)) \<and> ex_entry ''w'' \<in> set shown"
proof -
  let ?q = "ex_request ''GET'' ''/api/v1/registry'' [] ''ann''"
  have "request_user ?q = ''ann''" by (simp add: request_user_def)
  then have no: "CanManageGroups InMemoryUserStore_ops InMemoryGroupStore_ops ex_people (request_user ?q) \<noteq> Inr True"
    "CanAccessServer InMemoryUserStore_ops InMemoryGroupStore_ops ex_people (request_user ?q) sid \<noteq> Inr True" for sid
    by (simp_all add: CanManageGroups_def CanAccessServer_def InMemoryUserStore_ops_def InMemoryUserStore_Get_def
        NewUserGroupService_def ex_user_def)
  have "ex_entry ''w'' \<in> ran (fs_entries (ex_servers [''w'']))" by (auto simp: ran_def)
  with registry_hides_nothing [OF ex_servers_order [of "[''w'']"], of InMemoryUserStore_ops InMemoryGroupStore_ops ?q ex_people "''github''"] no
  show ?thesis by auto
qed

definition ex_route_body :: "string \<Rightarrow> CreateRouteAssignmentRequest result" where
  "ex_route_body b = Inr \<lparr>CRA_UserIDs = [''nobody''], CRA_GroupIDs = [], CRA_AutoSpawn = False, CRA_Permissions = ''root''\<rparr>"

definition ex_routed :: FileMCPServerStore where
  "ex_routed = \<lparr>fs_filePath = ''servers.json'', fs_entries = [''w'' \<mapsto> (ex_entry ''w'')\<lparr>Srv_RouteAssignments := [\<lparr>RA_ID = ''a1'',
     RA_ServerID = ''w'', RA_UserIDs = [''ann''], RA_GroupIDs = [], RA_AutoSpawn = False, RA_Permissions = ''read'', RA_CreatedAt = 0,
     RA_UpdatedAt = 0\<rparr>]\<rparr>], fs_crypto = None, fs_disk = healthy_disk\<rparr>"

theorem routes_checked_only_at_creation_witness:
  "\<exists>server b. fs_entries (fst (UpdateRouteAssignment FileMCPServerStore_ops InMemoryUserStore_ops InMemoryGroupStore_ops ex_env 9
       ex_route_body (ex_request ''PUT'' ''/api/v1/registry/w/routes/a1'' [] ''dev-admin'') ex_people ex_routed)) ''w'' = Some server \<and>
     b \<in> set (Srv_RouteAssignments server) \<and> RA_UserIDs b = [''nobody''] \<and> RA_Permissions b = ''root''"
proof -
  let ?p = "ex_request ''PUT'' ''/api/v1/registry/w/routes/a1'' [] ''dev-admin''"
    and ?q = "ex_request ''POST'' ''/api/v1/registry/w/routes'' [] ''dev-admin''"
    and ?U = InMemoryUserStore_ops and ?G = InMemoryGroupStore_ops
    and ?body = "\<lambda>b. Inr \<lparr>CRA_UserIDs = [''ann''], CRA_GroupIDs = [], CRA_AutoSpawn = False, CRA_Permissions = ''read''\<rparr>"
  have parts: "registry_parts ?p = [''w'', ''routes'', ''a1'']" "registry_parts ?q = [''w'', ''routes'']" by code_simp+
  have m: "CanManageGroups ?U ?G ex_people (request_user ?p) = Inr True" "CanManageGroups ?U ?G ex_people (request_user ?q) = Inr True"
    by (simp_all add: request_user_def CanManageGroups_def)
  have "ValidateUserID ?U ex_people ''ann'' = None"
    by (simp add: ValidateUserID_def InMemoryUserStore_ops_def InMemoryUserStore_Get_def NewUserGroupService_def)
  then obtain s' a where post: "CreateRouteAssignment InMemoryMCPServerStore_ops ?U ?G ex_env 0 0 0 ?body ?q ex_people
      \<lparr>imss_servers = [''w'' \<mapsto> ex_entry ''w'']\<rparr> = (s', 201, Inr (RP_route a))"
    using m parts by (simp add: CreateRouteAssignment_def InMemoryMCPServerStore_ops_def InMemoryMCPServerStore_GetMCPServer_def
        InMemoryMCPServerStore_UpdateMCPServer_def Let_def)
  have "fs_entries ex_routed ''w'' = Some ((ex_entry ''w'')\<lparr>Srv_RouteAssignments := [\<lparr>RA_ID = ''a1'',
     RA_ServerID = ''w'', RA_UserIDs = [''ann''], RA_GroupIDs = [], RA_AutoSpawn = False, RA_Permissions = ''read'', RA_CreatedAt = 0,
     RA_UpdatedAt = 0\<rparr>]\<rparr>)" by (simp add: ex_routed_def)
  from routes_checked_only_at_creation [OF post _ parts(1) m(1) _ this _ _ prod.collapse [symmetric],
      where decode' = ex_route_body and b = "\<lparr>RA_ID = ''a1'', RA_ServerID = ''w'', RA_UserIDs = [''ann''],
        RA_GroupIDs = [], RA_AutoSpawn = False, RA_Permissions = ''read'', RA_CreatedAt = 0, RA_UpdatedAt = 0\<rparr>"
        and now = 9]
  show ?thesis by (auto simp: ex_route_body_def)
qed

end
