(* ===== verification/SidecarManager.thy ===== *)
theory SidecarManager
  imports PortManager MessageRouter AdapterCreation "HOL-Library.Word"
begin

section \<open>The sidecar manager\<close>

text \<open>
  \<open>pkg/proxy/sidecar_manager.go\<close> and \<open>pkg/deployer/docker_deployer.go\<close>: a sidecar is deployed as a deployment and a
  service of a Kubernetes cluster, through the Go client when there is one, otherwise by running \<open>kubectl\<close>. The cluster
  is not code of this repository: its state is a type variable \<open>'c\<close> and its calls are the fields of a record. \<open>ks\<close> is
  the order in which the map of environment variables is visited.
\<close>

subsection \<open>Strings\<close>

text \<open>\<open>strings.Fields\<close>.\<close>

fun fields_from :: "string \<Rightarrow> string \<Rightarrow> string list" where
  "fields_from word [] = (if word = [] then [] else [rev word])"
| "fields_from word (c # cs) =
     (if is_space c then (if word = [] then [] else [rev word]) @ fields_from [] cs else fields_from (c # word) cs)"

definition Fields :: "string \<Rightarrow> string list" where
  "Fields s = fields_from [] s"

text \<open>\<open>strings.Index\<close> with one character, \<open>None\<close> for -1, and the two parts around it.\<close>

definition cut_pair :: "string \<Rightarrow> (string \<times> string) option" where
  "cut_pair s = (if CHR ''='' \<in> set s
     then Some (takeWhile (\<lambda>c. c \<noteq> CHR ''='') s, tl (dropWhile (\<lambda>c. c \<noteq> CHR ''='') s)) else None)"

text \<open>The conversion \<open>int32\<close>.\<close>

definition int32 :: "int \<Rightarrow> int" where
  "int32 n = sint (word_of_int n :: 32 word)"

lemma int32_port: "0 \<le> n \<Longrightarrow> n < 2 ^ 31 \<Longrightarrow> int32 n = n"
  by (simp add: int32_def int_word_sint)

text \<open>Text with double quotes, written here as backquotes.\<close>

definition dq :: "string \<Rightarrow> string" where
  "dq s = map (\<lambda>c. if c = CHR ''`'' then CHR 0x22 else c) s"

definition unlines :: "string list \<Rightarrow> string" where
  "unlines ls = Join ls [CHR 0x0A]"

subsection \<open>The cluster\<close>

record container =
  CT_Name :: string
  CT_Image :: string
  CT_Command :: "string list"
  CT_ContainerPort :: int
  CT_Protocol :: string
  CT_Env :: "(string \<times> string) list"
  CT_Limits :: "string \<rightharpoonup> string"

record deployment =
  DP_Name :: string
  DP_Namespace :: string
  DP_Labels :: "string \<rightharpoonup> string"
  DP_Replicas :: int
  DP_MatchLabels :: "string \<rightharpoonup> string"
  DP_PodLabels :: "string \<rightharpoonup> string"
  DP_Container :: container

record kube_service =
  KS_Name :: string
  KS_Namespace :: string
  KS_Labels :: "string \<rightharpoonup> string"
  KS_Selector :: "string \<rightharpoonup> string"
  KS_PortName :: string
  KS_Port :: int
  KS_TargetPort :: int
  KS_Protocol :: string
  KS_Type :: string

text \<open>The calls of the Go client. Getting a deployment gives the image of its first container and the number of ready
  replicas, or an error and whether it is \<open>NotFound\<close>; the logs fail when they are opened or when they are read.\<close>

record 'c kube =
  kc_create_deployment :: "deployment \<Rightarrow> 'c \<Rightarrow> 'c \<times> error option"
  kc_create_service :: "kube_service \<Rightarrow> 'c \<Rightarrow> 'c \<times> error option"
  kc_delete_deployment :: "string \<Rightarrow> string \<Rightarrow> 'c \<Rightarrow> 'c \<times> error option"
  kc_delete_service :: "string \<Rightarrow> string \<Rightarrow> 'c \<Rightarrow> 'c \<times> error option"
  kc_get_deployment :: "string \<Rightarrow> string \<Rightarrow> 'c \<Rightarrow> (bool \<times> error) + (string \<times> int)"
  kc_get_logs :: "string \<Rightarrow> string \<Rightarrow> string \<Rightarrow> int \<Rightarrow> 'c \<Rightarrow> string result result"

text \<open>The process: \<open>os.Getenv\<close> and running \<open>kubectl\<close> with arguments and a value of \<open>KUBECONFIG\<close>, which gives its
  output and its error.\<close>

record 'c shell =
  sh_getenv :: "string \<Rightarrow> string"
  sh_kubectl :: "string list \<Rightarrow> string \<Rightarrow> 'c \<Rightarrow> 'c \<times> string \<times> error option"

subsection \<open>Docker commands\<close>

text \<open>The loop over the words behind \<open>docker run\<close>; both files have it.\<close>

fun docker_loop :: "string list \<Rightarrow> string \<Rightarrow> (string \<rightharpoonup> string) \<Rightarrow> string \<times> (string \<rightharpoonup> string)" where
  "docker_loop [] img envVars = (img, envVars)"
| "docker_loop [arg] img envVars =
     (if \<not> HasPrefix arg ''-'' \<and> img = [] then arg else img, envVars)"
| "docker_loop (arg # next # parts) img envVars =
     (if arg = ''-e'' then docker_loop parts img
        (case cut_pair next of
           Some (key, val) \<Rightarrow> if key \<noteq> [] then envVars(key \<mapsto> val) else envVars
         | None \<Rightarrow> envVars)
      else docker_loop (next # parts) (if \<not> HasPrefix arg ''-'' \<and> img = [] then arg else img) envVars)"

definition parseDockerCommand :: "string \<Rightarrow> (string \<times> (string \<rightharpoonup> string) \<times> int) result" where
  "parseDockerCommand command =
     (let parts = Fields command in
      if length parts < 2 \<or> parts ! 0 \<noteq> ''docker'' \<or> parts ! 1 \<noteq> ''run''
      then Inl ''invalid docker run command format''
      else case docker_loop (drop 2 parts) [] Map.empty of
        (img, envVars) \<Rightarrow>
          if img = [] then Inl ''no image found in docker command'' else Inr (img, envVars, 8000))"

subsection \<open>The deployer, which runs kubectl\<close>

definition insecure :: "'c shell \<Rightarrow> string list \<Rightarrow> string list" where
  "insecure W args =
     (let kubeconfig = sh_getenv W ''KUBECONFIG'' in
      if kubeconfig = [] \<or> Contains kubeconfig ''localhost'' \<or> Contains kubeconfig ''127.0.0.1''
      then ''--insecure-skip-tls-verify'' # args else args)"

definition env_options :: "(string \<rightharpoonup> string) \<Rightarrow> string list \<Rightarrow> string list" where
  "env_options envVars ks = map (\<lambda>k. ''--env='' @ k @ ''='' @ the (envVars k)) ks"

definition docker_args_of :: "string \<Rightarrow> string \<Rightarrow> string \<Rightarrow> int \<Rightarrow> string list" where
  "docker_args_of namespace name img port =
     [''run'', ''mcp-sidecar-'' @ name, ''--image='' @ img, ''--port='' @ show_int port, ''--expose'', ''--namespace'', namespace]"

definition run_kubectl :: "'c shell \<Rightarrow> string list \<Rightarrow> 'c \<Rightarrow> 'c \<times> error option" where
  "run_kubectl W args c =
     (case sh_kubectl W args (sh_getenv W ''KUBECONFIG'') c of
        (c', output, Some err) \<Rightarrow> (c', Some (''failed to execute kubectl run: '' @ err @ '', output: '' @ output))
      | (c', output, None) \<Rightarrow> (c', None))"

definition deployFromDockerCommand ::
    "'c shell \<Rightarrow> string \<Rightarrow> string list \<Rightarrow> string \<Rightarrow> string \<Rightarrow> (string \<rightharpoonup> string) \<Rightarrow> bool \<Rightarrow> 'c \<Rightarrow> 'c \<times> error option" where
  "deployFromDockerCommand W namespace ks dockerCommand name additionalEnv dryRun c =
     (case parseDockerCommand dockerCommand of
        Inl err \<Rightarrow> (c, Some (''failed to parse docker command: '' @ err))
      | Inr (img, envVars, port) \<Rightarrow>
          (let args = insecure W (docker_args_of namespace name img port @ env_options (envVars ++ additionalEnv) ks)
           in if dryRun then (c, None) else run_kubectl W args c))"

definition DeployFromDockerCommand :: "'c shell \<Rightarrow> string \<Rightarrow> string list \<Rightarrow> string \<Rightarrow> string \<Rightarrow> 'c \<Rightarrow> 'c \<times> error option" where
  "DeployFromDockerCommand W namespace ks dockerCommand name = deployFromDockerCommand W namespace ks dockerCommand name Map.empty False"

definition DeployFromDockerCommandWithEnv ::
    "'c shell \<Rightarrow> string \<Rightarrow> string list \<Rightarrow> string \<Rightarrow> string \<Rightarrow> (string \<rightharpoonup> string) \<Rightarrow> 'c \<Rightarrow> 'c \<times> error option" where
  "DeployFromDockerCommandWithEnv W namespace ks dockerCommand name additionalEnv =
     deployFromDockerCommand W namespace ks dockerCommand name additionalEnv False"

definition DryRunFromDockerCommand :: "'c shell \<Rightarrow> string \<Rightarrow> string list \<Rightarrow> string \<Rightarrow> string \<Rightarrow> 'c \<Rightarrow> 'c" where
  "DryRunFromDockerCommand W namespace ks dockerCommand name c =
     fst (deployFromDockerCommand W namespace ks dockerCommand name Map.empty True c)"

definition delete_args :: "'c shell \<Rightarrow> string \<Rightarrow> string \<Rightarrow> string \<Rightarrow> string list" where
  "delete_args W what name namespace =
     insecure W [''delete'', what, name, ''--namespace'', namespace, ''--ignore-not-found=true'']"

definition DockerDeployer_Cleanup :: "'c shell \<Rightarrow> string \<Rightarrow> string \<Rightarrow> 'c \<Rightarrow> 'c \<times> error option" where
  "DockerDeployer_Cleanup W namespace name c =
     (let kubectl = (\<lambda>what. sh_kubectl W (delete_args W what (''mcp-sidecar-'' @ name) namespace) (sh_getenv W ''KUBECONFIG'')) in
      case kubectl ''deployment'' c of
        (c1, output, Some err) \<Rightarrow> (c1, Some (''failed to delete deployment: '' @ err @ '', output: '' @ output))
      | (c1, _, None) \<Rightarrow>
          (case kubectl ''service'' c1 of
             (c2, output, Some err) \<Rightarrow> (c2, Some (''failed to delete service: '' @ err @ '', output: '' @ output))
           | (c2, _, None) \<Rightarrow> (c2, None)))"

subsection \<open>Commands of sidecars\<close>

text \<open>The last part of the path of a project's URL.\<close>

definition repo_name :: "string \<Rightarrow> string" where
  "repo_name projectURL = (let repoName = last (Split projectURL CHR ''/'') in
     if HasSuffix repoName ''.git'' then take (length repoName - 4) repoName else repoName)"

definition python_command :: "SidecarConfig \<Rightarrow> string \<Rightarrow> string" where
  "python_command sc command =
     (if SC_ProjectURL sc \<noteq> []
      then ''pip install uv && zypper -n in git && git clone '' @ SC_ProjectURL sc @ '' && cd '' @ repo_name (SC_ProjectURL sc) @
        '' && uv sync && '' @ command
      else ''pip install uv && '' @ command)"

text \<open>The owner, the repository and the address of the interface of the two forges.\<close>

definition forge :: "string \<Rightarrow> string \<times> string \<times> string" where
  "forge projectURL =
     (let parts = Split (TrimSuffix projectURL ''.git'') CHR ''/'';
          names = (\<lambda>api. if 2 \<le> length parts then (parts ! (length parts - 2), parts ! (length parts - 1), api) else ([], [], []))
      in if Contains projectURL ''github.com'' then names ''https://api.github.com''
         else if Contains projectURL ''gitea.com'' then names ''https://gitea.com/api/v1''
         else ([], [], []))"

definition build_step :: "string \<Rightarrow> string \<Rightarrow> string \<Rightarrow> string \<Rightarrow> string" where
  "build_step projectURL repo binaryName originalCommand =
     ''zypper -n in git && git clone '' @ projectURL @ '' && cd '' @ repo @ '' && go build -o '' @ binaryName @ '' && ./'' @ originalCommand"

text \<open>A command without a word panics, which is \<open>None\<close>.\<close>

definition prepareGoReleaseCommand :: "SidecarConfig \<Rightarrow> string \<Rightarrow> string option" where
  "prepareGoReleaseCommand sc originalCommand =
     (let projectURL = SC_ProjectURL sc; (owner, repo, apiBase) = forge projectURL; quote = [CHR 0x27] in
      if owner = [] \<or> repo = []
      then Some (''bash -c '' @ quote @ dq ''echo `Failed to parse repo, falling back to build` && '' @
        build_step projectURL repo originalCommand originalCommand @ quote)
      else case Fields originalCommand of
        [] \<Rightarrow> None
      | binaryName # _ \<Rightarrow>
          (let build = build_step projectURL repo binaryName originalCommand in
           Some (unlines
             [''bash -c '' @ quote,
              dq ''echo `Downloading pre-built binary for '' @ owner @ ''/'' @ repo @ dq ''...`'',
              dq ''echo `API Base: '' @ apiBase @ dq ''`'', [],
              ''zypper -n in curl tar unzip'', [],
              dq ''RELEASE_INFO=$(curl -s `'' @ apiBase @ ''/repos/'' @ owner @ ''/'' @ repo @ dq ''/releases/latest`)'', [],
              dq ''PLATFORM=`Linux_arm64`'',
              dq ''ARCHIVE_NAME=`'' @ binaryName @ dq ''_${PLATFORM}.tar.gz`'', [],
              dq ''echo `Looking for archive: $ARCHIVE_NAME`'', [],
              dq ''DOWNLOAD_URL=$(echo `$RELEASE_INFO` | grep -o `https://[^'' @ [CHR 0x5C] @ dq ''`]*${ARCHIVE_NAME}` | head -1)'', [],
              dq ''if [ -n `$DOWNLOAD_URL` ]; then'',
              dq ''    echo `Found binary archive: $DOWNLOAD_URL`'',
              dq ''    curl -L -o binary.tar.gz `$DOWNLOAD_URL`'',
              ''    if [ $? -eq 0 ]; then'',
              dq ''        echo `Download successful, extracting...`'',
              ''        tar -xzf binary.tar.gz'',
              dq ''        if [ -f `'' @ binaryName @ dq ''` ]; then'',
              ''            chmod +x '' @ binaryName,
              dq ''            echo `Moving binary to /usr/bin...`'',
              ''            mv '' @ binaryName @ '' /usr/bin/'',
              dq ''            echo `Binary extracted successfully, starting server...`'',
              ''            '' @ originalCommand,
              ''        else'',
              dq ''            echo `Binary '' @ binaryName @ dq '' not found, falling back to build...`'',
              ''            '' @ build,
              ''        fi'',
              ''    else'',
              dq ''        echo `Download failed, falling back to build...`'',
              ''        '' @ build,
              ''    fi'',
              ''else'',
              dq ''    echo `No suitable binary found, falling back to build...`'',
              ''    '' @ build,
              ''fi'',
              quote])))"

text \<open>The command that the container runs when the Go client deploys it: outside a panic, or inside an error.\<close>

definition go_command :: "SidecarConfig \<Rightarrow> string \<Rightarrow> string result option" where
  "go_command sc command =
     (if SC_ReleaseURL sc \<noteq> [] then map_option Inr (prepareGoReleaseCommand sc command)
      else case Fields command of
        [] \<Rightarrow> Some (Inl (''invalid Go command: '' @ command))
      | binaryName # _ \<Rightarrow>
          Some (Inr (if SC_ProjectURL sc \<noteq> []
            then ''bash -c '' @ [CHR 0x27] @ ''zypper -n in git && git clone '' @ SC_ProjectURL sc @ '' && cd '' @
              repo_name (SC_ProjectURL sc) @ dq '' && echo `Building...` && go build -o '' @ binaryName @
              dq '' && echo `Build complete, starting server...` && ./'' @ command @ [CHR 0x27]
            else ''go build -o '' @ binaryName @ '' && ./'' @ command)))"

definition client_command :: "SidecarConfig \<Rightarrow> string \<Rightarrow> string result option" where
  "client_command sc command =
     (if SC_CommandType sc = ''python'' then Some (Inr (python_command sc command))
      else if SC_CommandType sc = ''go'' then go_command sc command
      else Some (Inr command))"

definition sidecar_port :: "SidecarConfig \<Rightarrow> int" where
  "sidecar_port sc = (if SC_Port sc = 0 then 8000 else SC_Port sc)"

definition getImageForCommandType :: "string \<Rightarrow> string" where
  "getImageForCommandType commandType =
     (if commandType = ''python'' then ''registry.suse.com/bci/python:3.11''
      else if commandType = ''npx'' then ''registry.suse.com/bci/nodejs:22''
      else if commandType = ''go'' then ''registry.suse.com/bci/golang:1.25''
      else ''python:3.11-slim'')"


subsection \<open>The manager\<close>

text \<open>\<open>sg_dockerDeployer\<close> is the deployer's namespace.\<close>

record 'c SidecarManager =
  sg_kubeClient :: "'c kube option"
  sg_namespace :: string
  sg_portManager :: PortManager
  sg_baseImage :: string
  sg_defaultLimits :: "string \<rightharpoonup> string"
  sg_dockerDeployer :: string

definition sidecar_limits :: "string \<rightharpoonup> string" where
  "sidecar_limits = [''memory'' \<mapsto> ''512Mi'', ''cpu'' \<mapsto> ''500m'']"

definition NewSidecarManager :: "'c kube option \<Rightarrow> string \<Rightarrow> 'c SidecarManager" where
  "NewSidecarManager kubeClient namespace =
     \<lparr>sg_kubeClient = kubeClient, sg_namespace = ''suse-ai-up-mcp'', sg_portManager = NewPortManager 8000 9000,
      sg_baseImage = ''python:3.11-slim'', sg_defaultLimits = sidecar_limits, sg_dockerDeployer = ''suse-ai-up-mcp''\<rparr>"

definition NewSidecarManagerWithoutClient :: "string \<Rightarrow> 'c SidecarManager" where
  "NewSidecarManagerWithoutClient namespace =
     \<lparr>sg_kubeClient = None, sg_namespace = ''suse-ai-up-mcp'', sg_portManager = NewPortManager 8000 9000,
      sg_baseImage = ''python:3.11-slim'', sg_defaultLimits = sidecar_limits, sg_dockerDeployer = ''suse-ai-up-mcp''\<rparr>"

definition isInCluster :: "'c shell \<Rightarrow> bool" where
  "isInCluster W \<longleftrightarrow> sh_getenv W ''KUBERNETES_SERVICE_HOST'' \<noteq> [] \<and> sh_getenv W ''KUBERNETES_SERVICE_PORT'' \<noteq> []"

definition GetSidecarEndpoint :: "'c SidecarManager \<Rightarrow> string \<Rightarrow> string" where
  "GetSidecarEndpoint sm adapterID = ''http://mcp-sidecar-'' @ adapterID @ ''.'' @ sg_namespace sm @ ''.svc.cluster.local''"

definition buildEnvVarsWithOverrides :: "(string \<rightharpoonup> string) \<Rightarrow> string list \<Rightarrow> (string \<times> string) list" where
  "buildEnvVarsWithOverrides envMap ks = map (\<lambda>k. (k, the (envMap k))) ks @ [(''UVICORN_HOST'', ''0.0.0.0'')]"

definition buildEnvVars :: "(string \<rightharpoonup> string) \<Rightarrow> string list \<Rightarrow> (string \<times> string) list" where
  "buildEnvVars = buildEnvVarsWithOverrides"

text \<open>The objects of a sidecar. Only the container differs between the kinds of sidecars.\<close>

definition sidecar_labels :: "string \<Rightarrow> (string \<rightharpoonup> string)" where
  "sidecar_labels adapterID = [''app'' \<mapsto> ''mcp-sidecar'', ''adapterId'' \<mapsto> adapterID]"

definition sidecar_container ::
    "'c SidecarManager \<Rightarrow> string \<Rightarrow> string list \<Rightarrow> int \<Rightarrow> (string \<times> string) list \<Rightarrow> container" where
  "sidecar_container sm img command port envs =
     \<lparr>CT_Name = ''mcp-server'', CT_Image = img, CT_Command = command, CT_ContainerPort = int32 port, CT_Protocol = ''TCP'',
      CT_Env = envs, CT_Limits = sg_defaultLimits sm\<rparr>"

definition sidecar_deployment :: "'c SidecarManager \<Rightarrow> string \<Rightarrow> container \<Rightarrow> deployment" where
  "sidecar_deployment sm adapterID cont =
     \<lparr>DP_Name = ''mcp-sidecar-'' @ adapterID, DP_Namespace = sg_namespace sm, DP_Labels = sidecar_labels adapterID,
      DP_Replicas = 1, DP_MatchLabels = sidecar_labels adapterID, DP_PodLabels = sidecar_labels adapterID,
      DP_Container = cont\<rparr>"

definition sidecar_service :: "'c SidecarManager \<Rightarrow> string \<Rightarrow> int \<Rightarrow> kube_service" where
  "sidecar_service sm adapterID port =
     \<lparr>KS_Name = ''mcp-sidecar-'' @ adapterID, KS_Namespace = sg_namespace sm, KS_Labels = sidecar_labels adapterID,
      KS_Selector = sidecar_labels adapterID, KS_PortName = ''http'', KS_Port = int32 port, KS_TargetPort = int32 port,
      KS_Protocol = ''TCP'', KS_Type = ''ClusterIP''\<rparr>"

definition create_workload ::
    "'c kube \<Rightarrow> 'c SidecarManager \<Rightarrow> deployment \<Rightarrow> kube_service \<Rightarrow> 'c \<Rightarrow> 'c \<times> error option" where
  "create_workload K sm dep svc c =
     (case kc_create_deployment K dep c of
        (c1, Some err) \<Rightarrow> (c1, Some (''failed to create deployment: '' @ err))
      | (c1, None) \<Rightarrow>
          (case kc_create_service K svc c1 of
             (c2, Some err) \<Rightarrow>
               (fst (kc_delete_deployment K (sg_namespace sm) (DP_Name dep) c2), Some (''failed to create service: '' @ err))
           | (c2, None) \<Rightarrow> (c2, None)))"

definition deployDockerWithKubeClient ::
    "'c kube \<Rightarrow> 'c SidecarManager \<Rightarrow> string list \<Rightarrow> AdapterResource \<Rightarrow> SidecarConfig \<Rightarrow> 'c \<Rightarrow> 'c \<times> error option" where
  "deployDockerWithKubeClient K sm ks adapter sc c =
     (case parseDockerCommand (SC_Command sc) of
        Inl err \<Rightarrow> (c, Some (''failed to parse docker command: '' @ err))
      | Inr (img, envVars, port) \<Rightarrow>
          create_workload K sm
            (sidecar_deployment sm (AR_ID adapter) (sidecar_container sm img [] port
               (buildEnvVarsWithOverrides (envVars ++ AD_EnvironmentVariables adapter) ks)))
            (sidecar_service sm (AR_ID adapter) port) c)"

definition deployGenericWithKubeClient ::
    "'c kube \<Rightarrow> 'c SidecarManager \<Rightarrow> string list \<Rightarrow> AdapterResource \<Rightarrow> SidecarConfig \<Rightarrow> string \<Rightarrow> string \<Rightarrow> 'c \<Rightarrow>
     ('c \<times> error option) option" where
  "deployGenericWithKubeClient K sm ks adapter sc img command c =
     (case client_command sc command of
        None \<Rightarrow> None
      | Some (Inl err) \<Rightarrow> Some (c, Some err)
      | Some (Inr finalCommand) \<Rightarrow>
          Some (create_workload K sm
            (sidecar_deployment sm (AR_ID adapter) (sidecar_container sm img [''sh'', ''-c'', finalCommand] (sidecar_port sc)
               (buildEnvVarsWithOverrides (AD_EnvironmentVariables adapter) ks)))
            (sidecar_service sm (AR_ID adapter) (sidecar_port sc)) c))"

definition deployWithKubeClient ::
    "'c kube \<Rightarrow> 'c SidecarManager \<Rightarrow> string list \<Rightarrow> AdapterResource \<Rightarrow> SidecarConfig \<Rightarrow> 'c \<Rightarrow> ('c \<times> error option) option" where
  "deployWithKubeClient K sm ks adapter sc c =
     (if SC_CommandType sc = ''docker'' then Some (deployDockerWithKubeClient K sm ks adapter sc c)
      else if SC_CommandType sc \<in> {''python'', ''npx'', ''go''}
      then deployGenericWithKubeClient K sm ks adapter sc (getImageForCommandType (SC_CommandType sc)) (SC_Command sc) c
      else Some (c, Some (''unsupported command type: '' @ SC_CommandType sc)))"

text \<open>The arguments of \<open>kubectl run\<close>; the options with the environment are appended behind the command.\<close>

definition generic_args :: "'c SidecarManager \<Rightarrow> string list \<Rightarrow> AdapterResource \<Rightarrow> SidecarConfig \<Rightarrow> string \<Rightarrow> string \<Rightarrow> string list" where
  "generic_args sm ks adapter sc img command =
     [''run'', ''mcp-sidecar-'' @ AR_ID adapter, ''--image='' @ img, ''--port='' @ show_int (sidecar_port sc), ''--expose'',
      ''--namespace'', sg_namespace sm, ''--command'', ''--'', ''sh'', ''-c'',
      (if SC_CommandType sc = ''python'' then python_command sc command else command)] @
     env_options (AD_EnvironmentVariables adapter) ks"

definition deployGenericWithKubectl ::
    "'c shell \<Rightarrow> 'c SidecarManager \<Rightarrow> string list \<Rightarrow> AdapterResource \<Rightarrow> SidecarConfig \<Rightarrow> string \<Rightarrow> string \<Rightarrow> 'c \<Rightarrow>
     'c \<times> error option" where
  "deployGenericWithKubectl W sm ks adapter sc img command =
     run_kubectl W (insecure W (generic_args sm ks adapter sc img command))"

definition deployGenericSidecar ::
    "'c shell \<Rightarrow> 'c SidecarManager \<Rightarrow> string list \<Rightarrow> AdapterResource \<Rightarrow> SidecarConfig \<Rightarrow> string \<Rightarrow> string \<Rightarrow> 'c \<Rightarrow>
     ('c \<times> error option) option" where
  "deployGenericSidecar W sm ks adapter sc img command c =
     (case sg_kubeClient sm of
        Some K \<Rightarrow> deployGenericWithKubeClient K sm ks adapter sc img command c
      | None \<Rightarrow> Some (deployGenericWithKubectl W sm ks adapter sc img command c))"

definition deployPythonSidecar ::
    "'c shell \<Rightarrow> 'c SidecarManager \<Rightarrow> string list \<Rightarrow> AdapterResource \<Rightarrow> SidecarConfig \<Rightarrow> 'c \<Rightarrow> ('c \<times> error option) option" where
  "deployPythonSidecar W sm ks adapter sc = deployGenericSidecar W sm ks adapter sc ''registry.suse.com/bci/python:3.11'' (SC_Command sc)"

definition deployNpxSidecar ::
    "'c shell \<Rightarrow> 'c SidecarManager \<Rightarrow> string list \<Rightarrow> AdapterResource \<Rightarrow> SidecarConfig \<Rightarrow> 'c \<Rightarrow> ('c \<times> error option) option" where
  "deployNpxSidecar W sm ks adapter sc = deployGenericSidecar W sm ks adapter sc ''registry.suse.com/bci/nodejs:22'' (SC_Command sc)"

definition deployGoSidecar ::
    "'c shell \<Rightarrow> 'c SidecarManager \<Rightarrow> string list \<Rightarrow> AdapterResource \<Rightarrow> SidecarConfig \<Rightarrow> 'c \<Rightarrow> ('c \<times> error option) option" where
  "deployGoSidecar W sm ks adapter sc = deployGenericSidecar W sm ks adapter sc ''registry.suse.com/bci/golang:1.25'' (SC_Command sc)"

text \<open>An adapter without a sidecar configuration panics.\<close>

definition DeploySidecar ::
    "'c shell \<Rightarrow> 'c SidecarManager \<Rightarrow> string list \<Rightarrow> AdapterResource \<Rightarrow> 'c \<Rightarrow> ('c \<times> error option) option" where
  "DeploySidecar W sm ks adapter c =
     (case AD_SidecarConfig adapter of
        None \<Rightarrow> None
      | Some sc \<Rightarrow>
          let t = SC_CommandType sc;
              nonempty = (\<lambda>d. if SC_Command sc \<noteq> [] then d
                else Some (c, Some (''empty command for sidecar configuration: commandType='' @ t))) in
          case sg_kubeClient sm of
            Some K \<Rightarrow> deployWithKubeClient K sm ks adapter sc c
          | None \<Rightarrow>
              if isInCluster W
              then Some (c, Some ''running in-cluster but no Kubernetes client available - check service account permissions'')
              else if t = ''docker'' then nonempty
                (case DeployFromDockerCommandWithEnv W (sg_dockerDeployer sm) ks (SC_Command sc) (AR_ID adapter)
                        (AD_EnvironmentVariables adapter) c of
                   (c', Some err) \<Rightarrow>
                     Some (c', Some (''kubectl deployment failed - ensure kubectl is configured and authenticated: '' @ err))
                 | (c', None) \<Rightarrow> Some (c', None))
              else if t = ''python'' then nonempty (deployPythonSidecar W sm ks adapter sc c)
              else if t = ''npx'' then nonempty (deployNpxSidecar W sm ks adapter sc c)
              else if t = ''go'' then nonempty (deployGoSidecar W sm ks adapter sc c)
              else if t = ''http'' then Some (c, None)
              else Some (c, Some (''unsupported sidecar configuration: commandType='' @ t)))"

text \<open>Both deletions are tried, and their errors are only logged.\<close>

definition cleanupWithKubeClient :: "'c kube \<Rightarrow> 'c SidecarManager \<Rightarrow> string \<Rightarrow> 'c \<Rightarrow> 'c \<times> error option" where
  "cleanupWithKubeClient K sm adapterID c =
     (let name = ''mcp-sidecar-'' @ adapterID
      in (fst (kc_delete_deployment K (sg_namespace sm) name (fst (kc_delete_service K (sg_namespace sm) name c))), None))"

definition CleanupSidecar :: "'c shell \<Rightarrow> 'c SidecarManager \<Rightarrow> string \<Rightarrow> 'c \<Rightarrow> 'c \<times> error option" where
  "CleanupSidecar W sm adapterID c =
     (case sg_kubeClient sm of
        Some K \<Rightarrow> cleanupWithKubeClient K sm adapterID c
      | None \<Rightarrow> DockerDeployer_Cleanup W (sg_dockerDeployer sm) adapterID c)"

record AdapterStatus =
  AS_ReadyReplicas :: "int option"
  AS_UpdatedReplicas :: "int option"
  AS_AvailableReplicas :: "int option"
  AS_Image :: string
  AS_ReplicaStatus :: string

definition status_only :: "string \<Rightarrow> AdapterStatus" where
  "status_only r = \<lparr>AS_ReadyReplicas = None, AS_UpdatedReplicas = None, AS_AvailableReplicas = None, AS_Image = [],
     AS_ReplicaStatus = r\<rparr>"

definition SidecarManager_GetStatus :: "'c SidecarManager \<Rightarrow> string \<Rightarrow> 'c \<Rightarrow> AdapterStatus result" where
  "SidecarManager_GetStatus sm adapterID c =
     (case sg_kubeClient sm of
        None \<Rightarrow> Inr (status_only ''unknown (no k8s client)'')
      | Some K \<Rightarrow>
          (case kc_get_deployment K (sg_namespace sm) (''mcp-sidecar-'' @ adapterID) c of
             Inl (True, _) \<Rightarrow> Inr (status_only ''not_found'')
           | Inl (False, err) \<Rightarrow> Inl (''failed to get deployment status: '' @ err)
           | Inr (img, ready) \<Rightarrow>
               Inr (if 0 < ready
                 then (status_only ''Ready'')\<lparr>AS_Image := img, AS_ReadyReplicas := Some ready\<rparr>
                 else (status_only ''Pending'')\<lparr>AS_Image := img\<rparr>)))"

definition getLogsViaKubectl :: "'c shell \<Rightarrow> 'c SidecarManager \<Rightarrow> string \<Rightarrow> int \<Rightarrow> 'c \<Rightarrow> 'c \<times> string result" where
  "getLogsViaKubectl W sm adapterID lines c =
     (case sh_kubectl W [''logs'', ''mcp-sidecar-'' @ adapterID, ''--namespace'', sg_namespace sm, ''--tail'', show_int lines,
             ''--ignore-errors''] (sh_getenv W ''KUBECONFIG'') c of
        (c', output, Some err) \<Rightarrow> (c', Inl (''failed to get logs via kubectl: '' @ err @ '', output: '' @ output))
      | (c', output, None) \<Rightarrow> (c', Inr output))"

definition SidecarManager_GetLogs :: "'c shell \<Rightarrow> 'c SidecarManager \<Rightarrow> string \<Rightarrow> int \<Rightarrow> 'c \<Rightarrow> 'c \<times> string result" where
  "SidecarManager_GetLogs W sm adapterID lines c =
     (case sg_kubeClient sm of
        None \<Rightarrow> getLogsViaKubectl W sm adapterID lines c
      | Some K \<Rightarrow>
          (case kc_get_logs K (sg_namespace sm) (''mcp-sidecar-'' @ adapterID) (''mcp-sidecar-'' @ adapterID) lines c of
             Inl err \<Rightarrow> (c, Inl (''failed to get logs: '' @ err))
           | Inr (Inl err) \<Rightarrow> (c, Inl (''failed to read logs: '' @ err))
           | Inr (Inr logs) \<Rightarrow> (c, Inr logs)))"

subsection \<open>Words of commands\<close>

definition plain_word :: "string \<Rightarrow> bool" where
  "plain_word w \<longleftrightarrow> w \<noteq> [] \<and> (\<forall>c \<in> set w. \<not> is_space c)"

lemma fields_from_word: "\<forall>c \<in> set w. \<not> is_space c \<Longrightarrow> fields_from acc (w @ s) = fields_from (rev w @ acc) s"
  by (induction w arbitrary: acc) auto

lemma Fields_Join: "\<forall>w \<in> set ws. plain_word w \<Longrightarrow> Fields (Join ws '' '') = ws"
proof (induction ws)
  case (Cons w ws)
  then have w: "w \<noteq> []" "\<forall>c \<in> set w. \<not> is_space c" by (simp_all add: plain_word_def)
  have space: "is_space CHR '' ''" by (simp add: is_space_def)
  show ?case
  proof (cases ws)
    case Nil
    then show ?thesis using w fields_from_word [OF w(2), of "[]" "[]"] by (simp add: Fields_def)
  next
    case (Cons v vs)
    have "Fields (Join (w # ws) '' '') = fields_from (rev w) (CHR '' '' # Join ws '' '')"
      using fields_from_word [OF w(2), of "[]"] Cons by (simp add: Fields_def)
    also have "\<dots> = w # Fields (Join ws '' '')" using w space by (simp add: Fields_def)
    finally show ?thesis using Cons.IH Cons.prems by simp
  qed
qed (simp add: Fields_def)

fun image_of :: "docker_arg list \<Rightarrow> string" where
  "image_of [] = []"
| "image_of (Env_flag k v # as) = image_of as"
| "image_of (Other_arg a # as) = (if HasPrefix a ''-'' then image_of as else a)"

fun env_of :: "docker_arg list \<Rightarrow> (string \<rightharpoonup> string) \<Rightarrow> (string \<rightharpoonup> string)" where
  "env_of [] m = m"
| "env_of (Env_flag k v # as) m = env_of as (m(k \<mapsto> v))"
| "env_of (Other_arg a # as) m = env_of as m"

definition docker_arg_ok :: "docker_arg \<Rightarrow> bool" where
  "docker_arg_ok a = (case a of
     Env_flag k v \<Rightarrow> plain_word k \<and> CHR ''='' \<notin> set k \<and> (\<forall>c \<in> set v. \<not> is_space c)
   | Other_arg w \<Rightarrow> plain_word w \<and> w \<noteq> ''-e'')"

lemma docker_loop_other:
  "a \<noteq> ''-e'' \<Longrightarrow> docker_loop (a # parts) img e = docker_loop parts (if \<not> HasPrefix a ''-'' \<and> img = [] then a else img) e"
  by (cases parts) simp_all

lemma cut_pair_flag: "CHR ''='' \<notin> set k \<Longrightarrow> cut_pair (k @ ''='' @ v) = Some (k, v)"
  by (induction k) (auto simp: cut_pair_def)

lemma docker_loop_args:
  "\<forall>a \<in> set as. docker_arg_ok a \<Longrightarrow>
   docker_loop (docker_args as) img e = (if img = [] then image_of as else img, env_of as e)"
proof (induction as arbitrary: img e rule: docker_args.induct)
  case (2 k v as)
  then have "k \<noteq> []" "cut_pair (k @ ''='' @ v) = Some (k, v)"
    using cut_pair_flag [of k v] by (auto simp: docker_arg_ok_def plain_word_def)
  with 2 show ?case by simp
next
  case (3 a as)
  then have "a \<noteq> ''-e''" "a \<noteq> []" by (auto simp: docker_arg_ok_def plain_word_def)
  with 3 show ?case by (auto simp: docker_loop_other)
qed simp

lemma docker_args_words: "\<forall>a \<in> set as. docker_arg_ok a \<Longrightarrow> \<forall>w \<in> set (docker_args as). plain_word w"
  by (induction as rule: docker_args.induct) (auto simp: docker_arg_ok_def plain_word_def is_space_def)

text \<open>C18. The parser of docker commands. Of a command written from variables and other words, the variables are those
  written, the last of each name; the image is the first other word that does not begin with a hyphen, so the value of an
  option that stands in a word of its own is taken for the image; the port is 8000, whatever the command publishes.\<close>

theorem docker_command_parsed:
  assumes "\<forall>a \<in> set as. docker_arg_ok a"
  shows "parseDockerCommand (Join (''docker'' # ''run'' # docker_args as) '' '') =
    (if image_of as = [] then Inl ''no image found in docker command'' else Inr (image_of as, env_of as Map.empty, 8000))"
proof -
  have "Fields (Join (''docker'' # ''run'' # docker_args as) '' '') = ''docker'' # ''run'' # docker_args as"
    by (rule Fields_Join) (use docker_args_words [OF assms] in \<open>auto simp: plain_word_def is_space_def\<close>)
  then show ?thesis using docker_loop_args [OF assms, of "[]" Map.empty] by (simp add: parseDockerCommand_def)
qed

theorem docker_command_parsed_witness:
  "parseDockerCommand ''docker run -p 8080:80 -e URL=a=b acme/server'' = Inr (''8080:80'', [''URL'' \<mapsto> ''a=b''], 8000)"
proof -
  let ?as = "[Other_arg ''-p'', Other_arg ''8080:80'', Env_flag ''URL'' ''a=b'', Other_arg ''acme/server'']"
  have "\<forall>a \<in> set ?as. docker_arg_ok a" by (simp add: docker_arg_ok_def plain_word_def is_space_def)
  from docker_command_parsed [OF this] show ?thesis by (simp add: HasPrefix_def)
qed

subsection \<open>Deployment\<close>

text \<open>What the cluster promises: an object is created only if there is none of its name, a deletion removes at most that
  object, and a call that fails changes nothing. \<open>deps\<close> and \<open>svcs\<close> read the deployments and services by namespace and
  name.\<close>

definition kube_laws :: "'c kube \<Rightarrow> ('c \<Rightarrow> string \<times> string \<rightharpoonup> deployment) \<Rightarrow> ('c \<Rightarrow> string \<times> string \<rightharpoonup> kube_service) \<Rightarrow> bool" where
  "kube_laws K deps svcs \<longleftrightarrow>
     (\<forall>d c c' r. kc_create_deployment K d c = (c', r) \<longrightarrow> svcs c' = svcs c \<and>
        (let k = (DP_Namespace d, DP_Name d) in
         if r = None then deps c k = None \<and> deps c' = (deps c)(k \<mapsto> d) else deps c' = deps c)) \<and>
     (\<forall>s c c' r. kc_create_service K s c = (c', r) \<longrightarrow> deps c' = deps c \<and>
        (let k = (KS_Namespace s, KS_Name s) in
         if r = None then svcs c k = None \<and> svcs c' = (svcs c)(k \<mapsto> s) else svcs c' = svcs c)) \<and>
     (\<forall>ns n c c' r. kc_delete_deployment K ns n c = (c', r) \<longrightarrow> svcs c' = svcs c \<and>
        deps c' = (if r = None then (deps c)((ns, n) := None) else deps c)) \<and>
     (\<forall>ns n c c' r. kc_delete_service K ns n c = (c', r) \<longrightarrow> deps c' = deps c \<and>
        svcs c' = (if r = None then (svcs c)((ns, n) := None) else svcs c))"

lemma kube_lawsD:
  assumes "kube_laws K deps svcs"
  shows "kc_create_deployment K d c = (c', r) \<Longrightarrow> svcs c' = svcs c \<and> (if r = None
      then deps c (DP_Namespace d, DP_Name d) = None \<and> deps c' = (deps c)((DP_Namespace d, DP_Name d) \<mapsto> d) else deps c' = deps c)"
    and "kc_create_service K s c = (c', r) \<Longrightarrow> deps c' = deps c \<and> (if r = None
      then svcs c (KS_Namespace s, KS_Name s) = None \<and> svcs c' = (svcs c)((KS_Namespace s, KS_Name s) \<mapsto> s) else svcs c' = svcs c)"
    and "kc_delete_deployment K ns n c = (c', r) \<Longrightarrow> svcs c' = svcs c \<and>
      deps c' = (if r = None then (deps c)((ns, n) := None) else deps c)"
    and "kc_delete_service K ns n c = (c', r) \<Longrightarrow> deps c' = deps c \<and>
      svcs c' = (if r = None then (svcs c)((ns, n) := None) else svcs c)"
  using assms unfolding kube_laws_def Let_def by blast+

lemma create_workload_outcome:
  assumes "kube_laws K deps svcs" and "DP_Namespace d = sg_namespace sm"
    and "\<And>x. deps x (sg_namespace sm, DP_Name d) \<noteq> None \<Longrightarrow> snd (kc_delete_deployment K (sg_namespace sm) (DP_Name d) x) = None"
    and "create_workload K sm d s c = (c', r)"
  shows "if r = None
    then deps c (DP_Namespace d, DP_Name d) = None \<and> svcs c (KS_Namespace s, KS_Name s) = None \<and>
      deps c' = (deps c)((DP_Namespace d, DP_Name d) \<mapsto> d) \<and> svcs c' = (svcs c)((KS_Namespace s, KS_Name s) \<mapsto> s)
    else deps c' = deps c \<and> svcs c' = svcs c"
proof -
  obtain c1 r1 where d: "kc_create_deployment K d c = (c1, r1)" by force
  note D = kube_lawsD(1) [OF assms(1) d]
  obtain c2 r2 where s: "kc_create_service K s c1 = (c2, r2)" by force
  note S = kube_lawsD(2) [OF assms(1) s]
  obtain c3 r3 where u: "kc_delete_deployment K (sg_namespace sm) (DP_Name d) c2 = (c3, r3)" by force
  note X = kube_lawsD(3) [OF assms(1) u]
  consider "r1 \<noteq> None" | "r1 = None" "r2 \<noteq> None" | "r1 = None" "r2 = None" by blast
  then show ?thesis
  proof cases
    case 1
    then show ?thesis using assms(4) d D by (auto simp: create_workload_def)
  next
    case 2
    then have "deps c2 (sg_namespace sm, DP_Name d) \<noteq> None" using D S assms(2) by simp
    then have "r3 = None" using assms(3) u by (metis snd_conv)
    then have "deps c3 = deps c \<and> svcs c3 = svcs c" using 2 D S X assms(2) by auto
    then show ?thesis using 2 assms(4) d s u by (auto simp: create_workload_def)
  next
    case 3
    then show ?thesis using assms(4) d s D S by (auto simp: create_workload_def)
  qed
qed

definition workload_port :: "SidecarConfig \<Rightarrow> int" where
  "workload_port sc = (if SC_CommandType sc = ''docker'' then 8000 else sidecar_port sc)"

lemma parseDockerCommand_port: "parseDockerCommand cmd = Inr (img, e, p) \<Longrightarrow> p = 8000"
  by (auto simp: parseDockerCommand_def Let_def split: if_splits prod.splits)

lemma sidecar_names [simp]:
  "CT_ContainerPort (sidecar_container sm i cmd p e) = int32 p"
  "DP_Name (sidecar_deployment sm a ct) = ''mcp-sidecar-'' @ a" "DP_Namespace (sidecar_deployment sm a ct) = sg_namespace sm"
  "KS_Name (sidecar_service sm a p) = ''mcp-sidecar-'' @ a" "KS_Namespace (sidecar_service sm a p) = sg_namespace sm"
  by (simp_all add: sidecar_deployment_def sidecar_service_def sidecar_container_def)

text \<open>Through the client, a deployment is an error that is found before the cluster is asked, or a workload.\<close>

lemma DeploySidecar_client:
  assumes "sg_kubeClient sm = Some K" and "AD_SidecarConfig adapter = Some sc" and "DeploySidecar W sm ks adapter c = Some (c', r)"
  obtains err where "c' = c" "r = Some err"
    | ct where "CT_ContainerPort ct = int32 (workload_port sc)"
      "create_workload K sm (sidecar_deployment sm (AR_ID adapter) ct) (sidecar_service sm (AR_ID adapter) (workload_port sc)) c = (c', r)"
proof -
  have d: "deployWithKubeClient K sm ks adapter sc c = Some (c', r)" using assms by (simp add: DeploySidecar_def)
  consider "SC_CommandType sc = ''docker''" | "SC_CommandType sc \<in> {''python'', ''npx'', ''go''}"
    | "SC_CommandType sc \<notin> {''docker'', ''python'', ''npx'', ''go''}" by blast
  then show thesis
  proof cases
    case 1
    show thesis
    proof (cases "parseDockerCommand (SC_Command sc)")
      case (Inl err)
      then show thesis using that(1) d 1 by (auto simp: deployWithKubeClient_def deployDockerWithKubeClient_def)
    next
      case (Inr x)
      obtain img e p where x: "x = (img, e, p)" by (cases x)
      then have "p = 8000" using Inr parseDockerCommand_port by blast
      with d 1 Inr x have "create_workload K sm (sidecar_deployment sm (AR_ID adapter) (sidecar_container sm img [] 8000
          (buildEnvVarsWithOverrides (e ++ AD_EnvironmentVariables adapter) ks))) (sidecar_service sm (AR_ID adapter) 8000) c = (c', r)"
        by (simp add: deployWithKubeClient_def deployDockerWithKubeClient_def)
      then show thesis using 1 by (intro that(2)) (simp_all add: workload_port_def sidecar_container_def)
    qed
  next
    case 2
    let ?ct = "\<lambda>cmd. sidecar_container sm (getImageForCommandType (SC_CommandType sc)) [''sh'', ''-c'', cmd] (sidecar_port sc)
        (buildEnvVarsWithOverrides (AD_EnvironmentVariables adapter) ks)"
    have w: "workload_port sc = sidecar_port sc" using 2 by (auto simp: workload_port_def)
    consider err where "c' = c" "r = Some err"
      | cmd where "create_workload K sm (sidecar_deployment sm (AR_ID adapter) (?ct cmd))
          (sidecar_service sm (AR_ID adapter) (sidecar_port sc)) c = (c', r)"
      using 2 d by (auto simp: deployWithKubeClient_def deployGenericWithKubeClient_def split: option.splits sum.splits)
    then show thesis
    proof cases
      case (2 cmd)
      show thesis by (rule that(2) [of "?ct cmd"]) (use 2 w in simp_all)
    qed (rule that(1))
  next
    case 3
    then show thesis using that(1) d by (auto simp: deployWithKubeClient_def)
  qed
qed



text \<open>Cleaning up hides its failures. When the cluster refuses to delete a sidecar's deployment the cleanup reports success
  with the deployment still there, and every later attempt to deploy a sidecar for that adapter fails.\<close>

theorem cleanup_hides_failure:
  assumes "kube_laws K deps svcs" and "sg_kubeClient sm = Some K" and "AD_SidecarConfig adapter = Some sc"
    and "deps c (sg_namespace sm, ''mcp-sidecar-'' @ AR_ID adapter) \<noteq> None"
    and "snd (kc_delete_deployment K (sg_namespace sm) (''mcp-sidecar-'' @ AR_ID adapter)
      (fst (kc_delete_service K (sg_namespace sm) (''mcp-sidecar-'' @ AR_ID adapter) c))) \<noteq> None"
    and "CleanupSidecar W sm (AR_ID adapter) c = (c', r)"
  shows "r = None \<and> deps c' = deps c \<and> (\<forall>c'' r'. DeploySidecar W sm ks adapter c' = Some (c'', r') \<longrightarrow> r' \<noteq> None)"
proof -
  let ?n = "''mcp-sidecar-'' @ AR_ID adapter"
  obtain c1 r1 where s: "kc_delete_service K (sg_namespace sm) ?n c = (c1, r1)" by force
  obtain c2 r2 where d: "kc_delete_deployment K (sg_namespace sm) ?n c1 = (c2, r2)" by force
  have c': "c' = c2" "r = None" using assms(2,6) s d by (auto simp: CleanupSidecar_def cleanupWithKubeClient_def Let_def)
  have same: "deps c2 = deps c"
    using kube_lawsD(3) [OF assms(1) d] kube_lawsD(4) [OF assms(1) s] assms(5) s d by auto
  have "r' \<noteq> None" if "DeploySidecar W sm ks adapter c2 = Some (c'', r')" for c'' r'
    using assms(2,3) that
  proof (cases rule: DeploySidecar_client)
    case (2 ct)
    obtain c3 r3 where "kc_create_deployment K (sidecar_deployment sm (AR_ID adapter) ct) c2 = (c3, r3)" by force
    then show ?thesis
      using 2(2) kube_lawsD(1) [OF assms(1)] assms(4) same by (fastforce simp: create_workload_def split: option.splits)
  qed simp
  with c' same show ?thesis by blast
qed

text \<open>Without a client the environment of an adapter is lost. For a python, npx or go sidecar \<open>kubectl run\<close> gets the
  variables behind the command, as arguments of the shell, and none among its options; for a docker sidecar each of them is
  an option.\<close>

theorem kubectl_loses_environment:
  assumes "\<not> isInCluster W" and "AD_SidecarConfig adapter = Some sc" and "SC_Command sc \<noteq> []"
    and "range_order (AD_EnvironmentVariables adapter) ks"
  shows "(SC_CommandType sc \<in> {''python'', ''npx'', ''go''} \<longrightarrow>
      (\<exists>options command. DeploySidecar W (NewSidecarManagerWithoutClient ns) ks adapter c =
         Some (run_kubectl W (insecure W (options @ [''--'', ''sh'', ''-c'', command] @
           map (\<lambda>k. ''--env='' @ k @ ''='' @ the (AD_EnvironmentVariables adapter k)) ks)) c) \<and>
         (\<forall>x \<in> set options. \<not> HasPrefix x ''--env''))) \<and>
    (SC_CommandType sc = ''docker'' \<and> parseDockerCommand (SC_Command sc) = Inr (img, Map.empty, port) \<longrightarrow>
      (\<exists>args. (\<forall>k v. AD_EnvironmentVariables adapter k = Some v \<longrightarrow> ''--env='' @ k @ ''='' @ v \<in> set args) \<and> ''--'' \<notin> set args \<and>
         fst (the (DeploySidecar W (NewSidecarManagerWithoutClient ns) ks adapter c)) = fst (run_kubectl W args c)))"
proof (intro conjI impI)
  assume t: "SC_CommandType sc \<in> {''python'', ''npx'', ''go''}"
  let ?img = "getImageForCommandType (SC_CommandType sc)"
  let ?options = "[''run'', ''mcp-sidecar-'' @ AR_ID adapter, ''--image='' @ ?img, ''--port='' @ show_int (sidecar_port sc), ''--expose'',
      ''--namespace'', ''suse-ai-up-mcp'', ''--command'']"
  let ?command = "if SC_CommandType sc = ''python'' then python_command sc (SC_Command sc) else SC_Command sc"
  have "DeploySidecar W (NewSidecarManagerWithoutClient ns) ks adapter c =
     Some (run_kubectl W (insecure W (?options @ [''--'', ''sh'', ''-c'', ?command] @
       map (\<lambda>k. ''--env='' @ k @ ''='' @ the (AD_EnvironmentVariables adapter k)) ks)) c)"
    using t assms(1-3)
    by (auto simp: DeploySidecar_def NewSidecarManagerWithoutClient_def deployPythonSidecar_def deployNpxSidecar_def
        deployGoSidecar_def deployGenericSidecar_def deployGenericWithKubectl_def generic_args_def env_options_def
        getImageForCommandType_def)
  moreover have "\<forall>x \<in> set ?options. \<not> HasPrefix x ''--env''" by (simp add: HasPrefix_def)
  ultimately show "\<exists>options command. DeploySidecar W (NewSidecarManagerWithoutClient ns) ks adapter c =
         Some (run_kubectl W (insecure W (options @ [''--'', ''sh'', ''-c'', command] @
           map (\<lambda>k. ''--env='' @ k @ ''='' @ the (AD_EnvironmentVariables adapter k)) ks)) c) \<and>
         (\<forall>x \<in> set options. \<not> HasPrefix x ''--env'')" by blast
next
  assume t: "SC_CommandType sc = ''docker'' \<and> parseDockerCommand (SC_Command sc) = Inr (img, Map.empty, port)"
  let ?args = "insecure W (docker_args_of ''suse-ai-up-mcp'' (AR_ID adapter) img port @ env_options (AD_EnvironmentVariables adapter) ks)"
  have "fst (the (DeploySidecar W (NewSidecarManagerWithoutClient ns) ks adapter c)) = fst (run_kubectl W ?args c)"
    using t assms(1-3)
    by (auto simp: DeploySidecar_def NewSidecarManagerWithoutClient_def DeployFromDockerCommandWithEnv_def
        deployFromDockerCommand_def Let_def split: prod.splits option.splits)
  moreover have "''--env='' @ k @ ''='' @ v \<in> set ?args" if "AD_EnvironmentVariables adapter k = Some v" for k v
    using that assms(4) by (force simp: insecure_def env_options_def range_order_def Let_def)
  moreover have "''--'' \<notin> set ?args" by (auto simp: insecure_def env_options_def docker_args_of_def Let_def)
  ultimately show "\<exists>args. (\<forall>k v. AD_EnvironmentVariables adapter k = Some v \<longrightarrow> ''--env='' @ k @ ''='' @ v \<in> set args) \<and>
      ''--'' \<notin> set args \<and>
      fst (the (DeploySidecar W (NewSidecarManagerWithoutClient ns) ks adapter c)) = fst (run_kubectl W args c)" by blast
qed

subsection \<open>Examples\<close>

text \<open>A cluster that is the pair of its maps; it may refuse services, or to delete deployments.\<close>

type_synonym ex_cluster = "(string \<times> string \<rightharpoonup> deployment) \<times> (string \<times> string \<rightharpoonup> kube_service)"

definition ex_kube :: "bool \<Rightarrow> bool \<Rightarrow> ex_cluster kube" where
  "ex_kube full protected = \<lparr>
     kc_create_deployment = (\<lambda>d c. if fst c (DP_Namespace d, DP_Name d) \<noteq> None then (c, Some ''already exists'')
       else (((fst c)((DP_Namespace d, DP_Name d) \<mapsto> d), snd c), None)),
     kc_create_service = (\<lambda>s c. if full \<or> snd c (KS_Namespace s, KS_Name s) \<noteq> None then (c, Some ''quota exceeded'')
       else ((fst c, (snd c)((KS_Namespace s, KS_Name s) \<mapsto> s)), None)),
     kc_delete_deployment = (\<lambda>ns n c. if protected \<or> fst c (ns, n) = None then (c, Some ''refused'')
       else (((fst c)((ns, n) := None), snd c), None)),
     kc_delete_service = (\<lambda>ns n c. if snd c (ns, n) = None then (c, Some ''not found'')
       else ((fst c, (snd c)((ns, n) := None)), None)),
     kc_get_deployment = (\<lambda>ns n c. Inl (True, ''not found'')), kc_get_logs = (\<lambda>ns p ct n c. Inl ''not found'')\<rparr>"

lemma ex_kube_laws: "kube_laws (ex_kube full protected) fst snd"
  unfolding kube_laws_def ex_kube_def by (auto simp: Let_def split: if_splits)

definition ex_shell :: "ex_cluster shell" where
  "ex_shell = \<lparr>sh_getenv = (\<lambda>k. []), sh_kubectl = (\<lambda>args kc c. (c, concat args, None))\<rparr>"

definition ex_npx :: SidecarConfig where
  "ex_npx = \<lparr>SC_CommandType = ''npx'', SC_Command = ''server'', SC_Args = [], SC_Env = [], SC_Port = 9000, SC_Source = [],
     SC_LastUpdated = [], SC_ProjectURL = [], SC_ReleaseURL = []\<rparr>"

definition ex_docker :: SidecarConfig where
  "ex_docker = ex_npx\<lparr>SC_CommandType := ''docker'', SC_Command := ''docker run img''\<rparr>"

definition ex_sidecar_adapter :: "SidecarConfig \<Rightarrow> AdapterResource" where
  "ex_sidecar_adapter sc = AdapterResource_Create 1 []
     (zero_AdapterData\<lparr>AD_Name := ''w'', AD_ConnectionType := ConnectionTypeStreamableHttp, AD_SidecarConfig := Some sc,
        AD_EnvironmentVariables := [''KEY'' \<mapsto> ''v'']\<rparr>) ''ann'' 1"

lemma ex_sidecar_adapter_simps [simp]:
  "AD_SidecarConfig (ex_sidecar_adapter sc) = Some sc" "AR_ID (ex_sidecar_adapter sc) = ''w''"
  "AD_ConnectionType (ex_sidecar_adapter sc) = ConnectionTypeStreamableHttp" "AD_RemoteUrl (ex_sidecar_adapter sc) = []"
  "AD_EnvironmentVariables (ex_sidecar_adapter sc) = [''KEY'' \<mapsto> ''v'']"
  by (simp_all add: ex_sidecar_adapter_def zero_AdapterData_def AdapterResource_Create_def AdapterData.defs AdapterResource.defs merge_first_env_def)

lemma ex_docker_parse: "parseDockerCommand ''docker run img'' = Inr (''img'', Map.empty, 8000)"
  by (simp add: parseDockerCommand_def Fields_def is_space_def HasPrefix_def)

lemma ex_npx_deploy:
  "DeploySidecar ex_shell (NewSidecarManager (Some (ex_kube full p)) ns) ks (ex_sidecar_adapter ex_npx) (Map.empty, Map.empty) =
   Some (let d = sidecar_deployment (NewSidecarManager (Some (ex_kube full p)) ns) ''w''
       (sidecar_container (NewSidecarManager (Some (ex_kube full p)) ns) ''registry.suse.com/bci/nodejs:22'' [''sh'', ''-c'', ''server''] 9000
         (buildEnvVarsWithOverrides [''KEY'' \<mapsto> ''v''] ks)) in
     create_workload (ex_kube full p) (NewSidecarManager (Some (ex_kube full p)) ns) d
       (sidecar_service (NewSidecarManager (Some (ex_kube full p)) ns) ''w'' 9000) (Map.empty, Map.empty))"
  by (simp add: DeploySidecar_def NewSidecarManager_def deployWithKubeClient_def deployGenericWithKubeClient_def ex_npx_def
      client_command_def sidecar_port_def getImageForCommandType_def Let_def)



theorem cleanup_hides_failure_witness:
  "\<exists>c c'. fst c (''suse-ai-up-mcp'', ''mcp-sidecar-w'') \<noteq> None \<and>
     CleanupSidecar ex_shell (NewSidecarManager (Some (ex_kube False True)) []) ''w'' c = (c', None) \<and> fst c' = fst c \<and>
     (\<forall>c'' r'. DeploySidecar ex_shell (NewSidecarManager (Some (ex_kube False True)) []) [''KEY''] (ex_sidecar_adapter ex_npx) c' =
       Some (c'', r') \<longrightarrow> r' \<noteq> None)"
proof -
  let ?sm = "NewSidecarManager (Some (ex_kube False True)) []"
  obtain c where d: "DeploySidecar ex_shell ?sm [''KEY''] (ex_sidecar_adapter ex_npx) (Map.empty, Map.empty) = Some (c, None)"
    "fst c (''suse-ai-up-mcp'', ''mcp-sidecar-w'') \<noteq> None"
    unfolding ex_npx_deploy by (simp add: create_workload_def ex_kube_def Let_def NewSidecarManager_def)
  obtain c' r where c': "CleanupSidecar ex_shell ?sm (AR_ID (ex_sidecar_adapter ex_npx)) c = (c', r)" by (metis surj_pair)
  have "r = None \<and> fst c' = fst c \<and>
      (\<forall>c'' r'. DeploySidecar ex_shell ?sm [''KEY''] (ex_sidecar_adapter ex_npx) c' = Some (c'', r') \<longrightarrow> r' \<noteq> None)"
    by (rule cleanup_hides_failure [OF ex_kube_laws [of False True] _ _ _ _ c'])
      (use d in \<open>auto simp: NewSidecarManager_def ex_kube_def\<close>)
  with c' d(2) show ?thesis by (intro exI [of _ c] exI [of _ c']) simp
qed

theorem kubectl_loses_environment_witness:
  "\<exists>options command. DeploySidecar ex_shell (NewSidecarManagerWithoutClient []) [''KEY''] (ex_sidecar_adapter ex_npx)
       (Map.empty, Map.empty) =
     Some (run_kubectl ex_shell (insecure ex_shell (options @ [''--'', ''sh'', ''-c'', command, ''--env=KEY=v''])) (Map.empty, Map.empty)) \<and>
     (\<forall>x \<in> set options. \<not> HasPrefix x ''--env'')"
  using kubectl_loses_environment [of ex_shell "ex_sidecar_adapter ex_npx" ex_npx "[''KEY'']" "[]" "(Map.empty, Map.empty)"]
  by (auto simp: isInCluster_def ex_shell_def ex_npx_def range_order_def)

end
