(* ===== verification/Correlation.thy ===== *)
theory Correlation
  imports MCPProtocol
begin

section \<open>Matching responses with requests\<close>

text \<open>
  \<open>pkg/proxy/stdio_to_http.go\<close> and \<open>pkg/proxy/remote_http_proxy_adapter.go\<close> share this mechanism. A handler registers its
  request in \<open>pendingRequests\<close> under the text of its ID, with a channel of one place, and waits; whatever goroutine
  reads a message from a server puts it in the channel that is registered under the message's ID. The map is the
  adapter's, not the session's. Requests are numbered by the handlers that run them; \<open>fmt\<close> is the verb \<open>%v\<close>.
\<close>

subsection \<open>Identifiers\<close>

text \<open>\<open>strconv.FormatFloat\<close> without decimals: to the nearest integer, halves to the even one.\<close>

definition round_even :: "rat \<Rightarrow> int" where
  "round_even x = (let n = \<lfloor>x\<rfloor>; d = x - of_int n in
     if d < 1 / 2 then n else if 1 / 2 < d then n + 1 else if even n then n else n + 1)"

definition format_float0 :: "rat \<Rightarrow> string" where
  "format_float0 x = (if x < 0 then ''-'' @ show_int (round_even (- x)) else show_int (round_even x))"

definition getRequestID :: "(any \<Rightarrow> string) \<Rightarrow> JSONRPCMessage \<Rightarrow> string" where
  "getRequestID fmt message =
     (case JM_ID message of
        Nil_value \<Rightarrow> []
      | String_value v \<Rightarrow> v
      | Float64 v \<Rightarrow> format_float0 v
      | Int_value v \<Rightarrow> show_int v
      | v \<Rightarrow> fmt v)"

subsection \<open>Pending requests\<close>

record correlation =
  co_pending :: "string \<rightharpoonup> nat"
  co_buffer :: "nat \<rightharpoonup> JSONRPCMessage option"

definition no_pending :: correlation where
  "no_pending = \<lparr>co_pending = Map.empty, co_buffer = Map.empty\<rparr>"

definition register_request :: "string \<Rightarrow> nat \<Rightarrow> correlation \<Rightarrow> correlation" where
  "register_request key r co =
     co\<lparr>co_pending := (co_pending co)(key \<mapsto> r), co_buffer := (co_buffer co)(r \<mapsto> None)\<rparr>"

definition unregister_request :: "string \<Rightarrow> correlation \<Rightarrow> correlation" where
  "unregister_request key co = co\<lparr>co_pending := (co_pending co)(key := None)\<rparr>"

text \<open>\<open>None\<close> is a message that nobody waits for. A message for a full channel is dropped.\<close>

definition deliver_response :: "(any \<Rightarrow> string) \<Rightarrow> JSONRPCMessage \<Rightarrow> correlation \<Rightarrow> correlation option" where
  "deliver_response fmt message co =
     (if JM_ID message = Nil_value then None
      else case co_pending co (getRequestID fmt message) of
        None \<Rightarrow> None
      | Some r \<Rightarrow> Some (if co_buffer co r = Some None then co\<lparr>co_buffer := (co_buffer co)(r \<mapsto> Some message)\<rparr> else co))"

definition receive_response :: "nat \<Rightarrow> correlation \<Rightarrow> correlation \<times> JSONRPCMessage option" where
  "receive_response r co =
     (case co_buffer co r of
        Some (Some message) \<Rightarrow> (co\<lparr>co_buffer := (co_buffer co)(r \<mapsto> None)\<rparr>, Some message)
      | _ \<Rightarrow> (co, None))"

subsection \<open>Handlers that run at once\<close>

text \<open>A handler begins for a session, ends with an answer or without one (an error in sending, the timeout, a client that is
  gone), and then removes the entry under its ID. Between these, messages arrive from the servers of the sessions.\<close>

datatype exchange_event = Begin nat string JSONRPCMessage | Arrive string JSONRPCMessage | Answer nat JSONRPCMessage | Give_up nat

record exchange =
  xc_co :: correlation
  xc_requests :: "nat \<rightharpoonup> string \<times> JSONRPCMessage"
  xc_live :: "nat set"

definition no_exchange :: exchange where
  "no_exchange = \<lparr>xc_co = no_pending, xc_requests = Map.empty, xc_live = {}\<rparr>"

inductive exchange_step :: "(any \<Rightarrow> string) \<Rightarrow> exchange \<Rightarrow> exchange_event \<Rightarrow> exchange \<Rightarrow> bool" for fmt where
  begin_request: "xc_requests s r = None \<Longrightarrow>
    exchange_step fmt s (Begin r sid m)
      (s\<lparr>xc_co := register_request (getRequestID fmt m) r (xc_co s), xc_requests := (xc_requests s)(r \<mapsto> (sid, m)),
         xc_live := insert r (xc_live s)\<rparr>)"
| message_arrives: "exchange_step fmt s (Arrive sid m)
      (case deliver_response fmt m (xc_co s) of None \<Rightarrow> s | Some co \<Rightarrow> s\<lparr>xc_co := co\<rparr>)"
| request_answered: "r \<in> xc_live s \<Longrightarrow> xc_requests s r = Some (sid, m) \<Longrightarrow>
    receive_response r (xc_co s) = (co, Some answer) \<Longrightarrow>
    exchange_step fmt s (Answer r answer)
      (s\<lparr>xc_co := unregister_request (getRequestID fmt m) co, xc_live := xc_live s - {r}\<rparr>)"
| request_fails: "r \<in> xc_live s \<Longrightarrow> xc_requests s r = Some (sid, m) \<Longrightarrow>
    exchange_step fmt s (Give_up r)
      (s\<lparr>xc_co := unregister_request (getRequestID fmt m) (xc_co s), xc_live := xc_live s - {r}\<rparr>)"

inductive exchange_run :: "(any \<Rightarrow> string) \<Rightarrow> exchange_event list \<Rightarrow> exchange \<Rightarrow> bool" for fmt where
  no_events: "exchange_run fmt [] no_exchange"
| next_event: "exchange_run fmt es s \<Longrightarrow> exchange_step fmt s e s' \<Longrightarrow> exchange_run fmt (es @ [e]) s'"

inductive_cases exchange_stepE:
  "exchange_step fmt s (Begin r sid m) s'" "exchange_step fmt s (Arrive sid m) s'" "exchange_step fmt s (Answer r m) s'"
  "exchange_step fmt s (Give_up r) s'"

subsection \<open>Lemmas\<close>

lemma register_simps [simp]:
  "co_pending (register_request k r co) = (co_pending co)(k \<mapsto> r)" "co_buffer (register_request k r co) = (co_buffer co)(r \<mapsto> None)"
  "co_pending (unregister_request k co) = (co_pending co)(k := None)" "co_buffer (unregister_request k co) = co_buffer co"
  by (simp_all add: register_request_def unregister_request_def)

lemma no_exchange_simps [simp]:
  "xc_requests no_exchange = Map.empty" "xc_live no_exchange = {}" "xc_co no_exchange = no_pending"
  "co_pending no_pending = Map.empty" "co_buffer no_pending = Map.empty"
  by (simp_all add: no_exchange_def no_pending_def)

lemma deliver_response_Some:
  "deliver_response fmt m co = Some co' \<Longrightarrow> co_pending co' = co_pending co \<and>
    (\<exists>r. co_pending co (getRequestID fmt m) = Some r \<and> JM_ID m \<noteq> Nil_value \<and>
      co_buffer co' = (if co_buffer co r = Some None then (co_buffer co)(r \<mapsto> Some m) else co_buffer co))"
  by (auto simp: deliver_response_def split: if_splits option.splits)

lemma receive_response_Some:
  "receive_response r co = (co', Some a) \<Longrightarrow>
    co_buffer co r = Some (Some a) \<and> co_pending co' = co_pending co \<and> co_buffer co' = (co_buffer co)(r \<mapsto> None)"
  by (auto simp: receive_response_def split: option.splits)

text \<open>What is registered, waiting or full, belongs to a request with the ID.\<close>

definition exchange_inv :: "(any \<Rightarrow> string) \<Rightarrow> exchange_event list \<Rightarrow> exchange \<Rightarrow> bool" where
  "exchange_inv fmt es s \<longleftrightarrow>
     (\<forall>r sid m. xc_requests s r = Some (sid, m) \<longleftrightarrow> Begin r sid m \<in> set es) \<and>
     (\<forall>k r. co_pending (xc_co s) k = Some r \<longrightarrow> (\<exists>sid m. xc_requests s r = Some (sid, m) \<and> getRequestID fmt m = k)) \<and>
     (\<forall>r a. co_buffer (xc_co s) r = Some (Some a) \<longrightarrow> (\<exists>sid m sid'. xc_requests s r = Some (sid, m) \<and>
        getRequestID fmt a = getRequestID fmt m \<and> JM_ID a \<noteq> Nil_value \<and> Arrive sid' a \<in> set es)) \<and>
     xc_live s \<subseteq> dom (xc_requests s)"

lemma exchange_invD:
  assumes "exchange_inv fmt es s"
  shows "xc_requests s r = Some (sid, m) \<longleftrightarrow> Begin r sid m \<in> set es"
    and "co_pending (xc_co s) k = Some r \<Longrightarrow> \<exists>sid m. xc_requests s r = Some (sid, m) \<and> getRequestID fmt m = k"
    and "co_buffer (xc_co s) r = Some (Some a) \<Longrightarrow> \<exists>sid m sid'. xc_requests s r = Some (sid, m) \<and>
        getRequestID fmt a = getRequestID fmt m \<and> JM_ID a \<noteq> Nil_value \<and> Arrive sid' a \<in> set es"
    and "xc_live s \<subseteq> dom (xc_requests s)"
  using assms unfolding exchange_inv_def by blast+

lemma exchange_inv_step:
  assumes "exchange_step fmt s e s'" and "exchange_inv fmt es s"
  shows "exchange_inv fmt (es @ [e]) s'"
  using assms(1)
proof cases
  case (begin_request r sid m)
  have fresh: "Begin r sid' m' \<notin> set es" for sid' m'
    using exchange_invD(1) [OF assms(2)] begin_request(3) by (metis option.distinct(1))
  show ?thesis
    using assms(2) begin_request fresh unfolding exchange_inv_def
    by (auto split: if_splits) metis+
next
  case (message_arrives sid m)
  show ?thesis
  proof (cases "deliver_response fmt m (xc_co s)")
    case None
    then show ?thesis using assms(2) message_arrives unfolding exchange_inv_def by simp blast
  next
    case (Some co)
    note d = deliver_response_Some [OF Some]
    then show ?thesis using assms(2) message_arrives Some unfolding exchange_inv_def
      by (auto split: if_splits) (metis option.inject)+
  qed
next
  case (request_answered r sid m co answer)
  then show ?thesis using assms(2) receive_response_Some [OF request_answered(5)] unfolding exchange_inv_def
    by (auto split: if_splits)
next
  case (request_fails r sid m)
  then show ?thesis using assms(2) unfolding exchange_inv_def by (auto split: if_splits)
qed

lemma exchange_run_inv: "exchange_run fmt es s \<Longrightarrow> exchange_inv fmt es s"
proof (induction rule: exchange_run.induct)
  case no_events
  show ?case by (simp add: exchange_inv_def)
next
  case (next_event es s e s')
  show ?case by (rule exchange_inv_step [OF next_event.hyps(2) next_event.IH])
qed

lemma exchange_run_snoc:
  assumes "exchange_run fmt (es @ [e]) s'"
  obtains s where "exchange_run fmt es s" "exchange_step fmt s e s'"
  using assms by cases auto

lemma exchange_run_append: "exchange_run fmt (es @ es') s' \<Longrightarrow> \<exists>s. exchange_run fmt es s"
proof (induction es' arbitrary: s' rule: rev_induct)
  case (snoc e es')
  then have "exchange_run fmt ((es @ es') @ [e]) s'" by simp
  then show ?case using snoc.IH exchange_run_snoc by blast
qed auto

text \<open>With distinct IDs, a handler that waits is registered.\<close>

definition distinct_IDs :: "(any \<Rightarrow> string) \<Rightarrow> exchange_event list \<Rightarrow> bool" where
  "distinct_IDs fmt es \<longleftrightarrow> (\<forall>r sid m r' sid' m'. Begin r sid m \<in> set es \<longrightarrow> Begin r' sid' m' \<in> set es \<longrightarrow>
     getRequestID fmt m = getRequestID fmt m' \<longrightarrow> r = r')"

lemma live_registered:
  "exchange_run fmt es s \<Longrightarrow> distinct_IDs fmt es \<Longrightarrow> r \<in> xc_live s \<Longrightarrow> Begin r sid m \<in> set es \<Longrightarrow>
   co_pending (xc_co s) (getRequestID fmt m) = Some r"
proof (induction arbitrary: r sid m rule: exchange_run.induct)
  case (next_event es s e s')
  have dist: "distinct_IDs fmt es" using next_event.prems(1) unfolding distinct_IDs_def by auto
  note inv = exchange_run_inv [OF next_event.hyps(1)]
  have other: "getRequestID fmt m' \<noteq> getRequestID fmt m" if "Begin r' sid' m' \<in> set (es @ [e])" "r' \<noteq> r" for r' sid' m'
    using next_event.prems(1,3) that unfolding distinct_IDs_def by metis
  from next_event.hyps(2) show ?case
  proof cases
    case (begin_request r' sid' m')
    show ?thesis
    proof (cases "r' = r")
      case True
      then have "Begin r sid m \<notin> set es" using begin_request(3) exchange_invD(1) [OF inv] by (metis option.distinct(1))
      then have "m' = m" using next_event.prems(3) begin_request by auto
      then show ?thesis using begin_request True by simp
    next
      case False
      then show ?thesis using begin_request next_event other [of r' sid' m'] dist by auto
    qed
  next
    case (message_arrives sid' m')
    then show ?thesis using next_event dist deliver_response_Some by (auto split: option.splits)
  next
    case (request_answered r' sid' m' co a)
    then have "r' \<noteq> r" "Begin r' sid' m' \<in> set es" using next_event.prems(2) exchange_invD(1) [OF inv] by auto
    then show ?thesis
      using request_answered next_event other [of r' sid' m'] dist receive_response_Some [OF request_answered(5)] by auto
  next
    case (request_fails r' sid' m')
    then have "r' \<noteq> r" "Begin r' sid' m' \<in> set es" using next_event.prems(2) exchange_invD(1) [OF inv] by auto
    then show ?thesis using request_fails next_event other [of r' sid' m'] dist by auto
  qed
qed simp

lemma exchange_run_Cons:
  "exchange_run fmt es s \<Longrightarrow> exchange_step fmt s e s' \<Longrightarrow> exchange_step fmt s' e' s'' \<Longrightarrow> exchange_run fmt (es @ [e, e']) s''"
  using next_event [of fmt "es @ [e]" s' e' s''] next_event [of fmt es s e s'] by simp

subsection \<open>Properties\<close>

text \<open>C8. Every answer carries its request's ID. Whatever handlers run at once and whatever arrives from the servers, the answer
  that a handler gives to its client is a message that arrived from some server, that has an ID, and whose ID reads as
  that of the handler's request.\<close>

theorem answers_match_requests:
  assumes "exchange_run fmt es s" and "Answer r answer \<in> set es"
  shows "\<exists>sid m sid'. Begin r sid m \<in> set es \<and> Arrive sid' answer \<in> set es \<and> JM_ID answer \<noteq> Nil_value \<and>
    getRequestID fmt answer = getRequestID fmt m"
proof -
  from assms(2) obtain es1 es2 where es: "es = (es1 @ [Answer r answer]) @ es2" by (auto dest: split_list)
  with assms(1) obtain s1 where "exchange_run fmt (es1 @ [Answer r answer]) s1" using exchange_run_append by blast
  then obtain s0 where s0: "exchange_run fmt es1 s0" "exchange_step fmt s0 (Answer r answer) s1" by (rule exchange_run_snoc)
  from s0(2) have "co_buffer (xc_co s0) r = Some (Some answer)" by cases (auto dest: receive_response_Some)
  note inv = exchange_run_inv [OF s0(1)]
  from exchange_invD(3) [OF inv \<open>co_buffer (xc_co s0) r = Some (Some answer)\<close>] show ?thesis
    unfolding exchange_invD(1) [OF inv] es by auto
qed

text \<open>C9. With distinct IDs a request is answered: as long as no two handlers, of any sessions of the adapter, have requests
  whose IDs read alike, a handler that waits gets the first message that arrives with the ID of its request.\<close>

theorem distinct_requests_are_answered:
  assumes "exchange_run fmt es s" and "distinct_IDs fmt es" and "Begin r sid m \<in> set es" and "r \<in> xc_live s"
    and "co_buffer (xc_co s) r = Some None" and "JM_ID answer \<noteq> Nil_value" and "getRequestID fmt answer = getRequestID fmt m"
  shows "\<exists>s'. exchange_run fmt (es @ [Arrive sid' answer, Answer r answer]) s' \<and> r \<notin> xc_live s'"
proof -
  note pending = live_registered [OF assms(1,2,4,3)]
  let ?co = "(xc_co s)\<lparr>co_buffer := (co_buffer (xc_co s))(r \<mapsto> Some answer)\<rparr>"
  have d: "deliver_response fmt answer (xc_co s) = Some ?co"
    using assms(5-7) pending by (simp add: deliver_response_def)
  have 1: "exchange_step fmt s (Arrive sid' answer) (s\<lparr>xc_co := ?co\<rparr>)"
    using message_arrives [of fmt s sid' answer] unfolding d by simp
  have rec: "receive_response r (xc_co (s\<lparr>xc_co := ?co\<rparr>)) = (?co\<lparr>co_buffer := (co_buffer ?co)(r \<mapsto> None)\<rparr>, Some answer)"
    by (simp add: receive_response_def)
  have live: "r \<in> xc_live (s\<lparr>xc_co := ?co\<rparr>)" "xc_requests (s\<lparr>xc_co := ?co\<rparr>) r = Some (sid, m)"
    using assms(3,4) exchange_invD(1) [OF exchange_run_inv [OF assms(1)]] by simp_all
  from exchange_run_Cons [OF assms(1) 1 request_answered [OF live rec]] show ?thesis by fastforce
qed

text \<open>A handler that is not registered and whose channel is empty stays so.\<close>

definition cut_off :: "nat \<Rightarrow> exchange \<Rightarrow> bool" where
  "cut_off r s \<longleftrightarrow> r \<notin> ran (co_pending (xc_co s)) \<and> co_buffer (xc_co s) r = Some None \<and> xc_requests s r \<noteq> None"

lemma cut_off_step:
  assumes "exchange_step fmt s e s'" and "cut_off r s"
  shows "cut_off r s'" and "e \<noteq> Answer r answer"
proof -
  show "cut_off r s'"
    using assms(1)
  proof cases
    case (message_arrives sid m)
    show ?thesis
    proof (cases "deliver_response fmt m (xc_co s)")
      case (Some co)
      then show ?thesis
        using message_arrives assms(2) deliver_response_Some [OF Some] by (auto simp: cut_off_def ran_def split: if_splits)
    qed (use message_arrives assms(2) in simp)
  next
    case (request_answered r' sid m co a)
    then show ?thesis using assms(2) receive_response_Some [OF request_answered(5)]
      by (auto simp: cut_off_def ran_def split: if_splits)
  qed (use assms(2) in \<open>auto simp: cut_off_def ran_def split: if_splits\<close>)
  show "e \<noteq> Answer r answer"
  proof
    assume e: "e = Answer r answer"
    from assms(1) have "co_buffer (xc_co s) r = Some (Some answer)"
      unfolding e by cases (auto dest: receive_response_Some)
    then show False using assms(2) by (simp add: cut_off_def)
  qed
qed

lemma cut_off_forever:
  "exchange_run fmt (es @ es') s' \<Longrightarrow> (\<And>s. exchange_run fmt es s \<Longrightarrow> cut_off r s) \<Longrightarrow> cut_off r s' \<and> Answer r answer \<notin> set es'"
proof (induction es' arbitrary: s' rule: rev_induct)
  case (snoc e es')
  from snoc.prems(1) obtain s where s: "exchange_run fmt (es @ es') s" "exchange_step fmt s e s'"
    using exchange_run_snoc [of fmt "es @ es'" e s'] by auto
  with snoc.IH snoc.prems(2) have "cut_off r s" "Answer r answer \<notin> set es'" by blast+
  with cut_off_step [OF s(2)] show ?case by auto
qed simp

text \<open>Runs are deterministic.\<close>

lemma exchange_step_det: "exchange_step fmt s e s' \<Longrightarrow> exchange_step fmt s e s'' \<Longrightarrow> s' = s''"
  by (erule exchange_step.cases; erule exchange_step.cases) auto

lemma exchange_run_det: "exchange_run fmt es s \<Longrightarrow> exchange_run fmt es s' \<Longrightarrow> s = s'"
proof (induction arbitrary: s' rule: exchange_run.induct)
  case no_events
  then show ?case by cases auto
next
  case (next_event es s e s1)
  from next_event.prems obtain s0 where "exchange_run fmt es s0" "exchange_step fmt s0 e s'" by (rule exchange_run_snoc)
  with next_event.IH [of s0] next_event.hyps(2) exchange_step_det show ?case by blast
qed

lemma misdelivered_run:
  assumes "a \<noteq> b" and "getRequestID fmt m' = getRequestID fmt m" and "getRequestID fmt answer = getRequestID fmt m"
    and "JM_ID answer \<noteq> Nil_value"
  shows "\<exists>s. exchange_run fmt [Begin a sid m, Begin b sid' m', Arrive sid answer, Answer b answer] s \<and> cut_off a s"
proof -
  let ?k = "getRequestID fmt m"
  let ?s1 = "no_exchange\<lparr>xc_co := register_request ?k a no_pending, xc_requests := [a \<mapsto> (sid, m)], xc_live := {a}\<rparr>"
  let ?s2 = "?s1\<lparr>xc_co := register_request ?k b (xc_co ?s1), xc_requests := [a \<mapsto> (sid, m), b \<mapsto> (sid', m')], xc_live := {b, a}\<rparr>"
  let ?co = "(xc_co ?s2)\<lparr>co_buffer := (co_buffer (xc_co ?s2))(b \<mapsto> Some answer)\<rparr>"
  let ?s3 = "?s2\<lparr>xc_co := ?co\<rparr>"
  let ?co' = "?co\<lparr>co_buffer := (co_buffer ?co)(b \<mapsto> None)\<rparr>"
  let ?s4 = "?s3\<lparr>xc_co := unregister_request ?k ?co', xc_live := {a}\<rparr>"
  have 1: "exchange_step fmt no_exchange (Begin a sid m) ?s1"
    using begin_request [of no_exchange a fmt sid m] by simp
  have 2: "exchange_step fmt ?s1 (Begin b sid' m') ?s2"
    using begin_request [of ?s1 b fmt sid' m'] assms(1,2) by simp
  have "deliver_response fmt answer (xc_co ?s2) = Some ?co"
    using assms(3,4) by (simp add: deliver_response_def)
  then have 3: "exchange_step fmt ?s2 (Arrive sid answer) ?s3"
    using message_arrives [of fmt ?s2 sid answer] by simp
  have "receive_response b (xc_co ?s3) = (?co', Some answer)" by (simp add: receive_response_def)
  then have "exchange_step fmt ?s3 (Answer b answer)
      (?s3\<lparr>xc_co := unregister_request (getRequestID fmt m') ?co', xc_live := xc_live ?s3 - {b}\<rparr>)"
    by (intro request_answered [where sid = sid']) simp_all
  then have 4: "exchange_step fmt ?s3 (Answer b answer) ?s4" using assms(1,2) by (simp add: insert_Diff_if)
  have run: "exchange_run fmt [Begin a sid m, Begin b sid' m', Arrive sid answer, Answer b answer] ?s4"
    using exchange_run_Cons [OF exchange_run_Cons [OF no_events 1 2] 3 4] by simp
  moreover have "cut_off a ?s4" using assms(1) by (simp add: cut_off_def)
  ultimately show ?thesis by blast
qed

text \<open>A response can reach the client of another session. When a second handler, of any session, begins a request with the ID
  of one that waits, the message that the first one's server sends with that ID is the answer of the second; and the first
  is never answered, whatever else arrives.\<close>

theorem response_reaches_other_session:
  assumes "a \<noteq> b" and "getRequestID fmt m' = getRequestID fmt m" and "getRequestID fmt answer = getRequestID fmt m"
    and "JM_ID answer \<noteq> Nil_value"
  shows "(\<exists>s. exchange_run fmt [Begin a sid m, Begin b sid' m', Arrive sid answer, Answer b answer] s) \<and>
    (\<forall>es s. exchange_run fmt ([Begin a sid m, Begin b sid' m', Arrive sid answer, Answer b answer] @ es) s \<longrightarrow>
      (\<forall>x. Answer a x \<notin> set es))"
proof -
  obtain s where run: "exchange_run fmt [Begin a sid m, Begin b sid' m', Arrive sid answer, Answer b answer] s" and "cut_off a s"
    using misdelivered_run [OF assms] by blast
  then have "\<And>s. exchange_run fmt [Begin a sid m, Begin b sid' m', Arrive sid answer, Answer b answer] s \<Longrightarrow> cut_off a s"
    using exchange_run_det [OF run] by metis
  with cut_off_forever run show ?thesis by blast
qed

subsection \<open>Examples\<close>

definition ex_call :: "rat \<Rightarrow> JSONRPCMessage" where
  "ex_call n = \<lparr>JM_JSONRPC = ''2.0'', JM_ID = Float64 n, JM_Method = ''tools/call'', JM_Params = Nil_value, JM_Result = Nil_value,
     JM_Error = None\<rparr>"

definition ex_reply :: "any \<Rightarrow> JSONRPCMessage" where
  "ex_reply i = \<lparr>JM_JSONRPC = ''2.0'', JM_ID = i, JM_Method = [], JM_Params = Nil_value, JM_Result = String_value ''secret'',
     JM_Error = None\<rparr>"

lemma show_one: "show_int 1 = ''1''"
  by code_simp

lemma ex_IDs: "getRequestID fmt (ex_call 1) = ''1''" "getRequestID fmt (ex_reply (String_value ''1'')) = ''1''"
  "JM_ID (ex_reply i) = i"
  by (simp_all add: getRequestID_def ex_call_def ex_reply_def format_float0_def round_even_def show_one Let_def)

definition ex_verb :: "any \<Rightarrow> string" where
  "ex_verb v = ''map[]''"

theorem answers_match_requests_witness:
  "\<exists>es s sid m sid'. exchange_run ex_verb es s \<and> Answer 1 (ex_reply (String_value ''1'')) \<in> set es \<and> Begin 1 sid m \<in> set es \<and>
     Arrive sid' (ex_reply (String_value ''1'')) \<in> set es"
proof -
  let ?es = "[Begin 0 ''A'' (ex_call 1), Begin 1 ''B'' (ex_call 1), Arrive ''A'' (ex_reply (String_value ''1'')),
    Answer 1 (ex_reply (String_value ''1''))]"
  obtain s where run: "exchange_run ex_verb ?es s"
    using misdelivered_run [of 0 1 ex_verb "ex_call 1" "ex_call 1" "ex_reply (String_value ''1'')" "''A''" "''B''"]
    by (auto simp: ex_IDs)
  have answer: "Answer 1 (ex_reply (String_value ''1'')) \<in> set ?es" by simp
  from answers_match_requests [OF run answer] run answer show ?thesis by blast
qed

theorem distinct_requests_are_answered_witness:
  "\<exists>s. exchange_run ex_verb [Begin 0 ''A'' (ex_call 1), Arrive ''B'' (ex_reply (String_value ''1'')),
     Answer 0 (ex_reply (String_value ''1''))] s"
proof -
  let ?s = "no_exchange\<lparr>xc_co := register_request ''1'' 0 no_pending, xc_requests := [0 \<mapsto> (''A'', ex_call 1)], xc_live := {0}\<rparr>"
  have "exchange_run ex_verb [Begin 0 ''A'' (ex_call 1)] ?s"
    using next_event [OF no_events begin_request [of no_exchange 0 ex_verb "''A''" "ex_call 1"]] by (simp add: ex_IDs)
  from distinct_requests_are_answered [OF this, of 0 "''A''" "ex_call 1" "ex_reply (String_value ''1'')" "''B''"]
  show ?thesis by (auto simp: distinct_IDs_def ex_IDs)
qed

theorem response_reaches_other_session_witness:
  "(\<exists>s. exchange_run ex_verb [Begin 0 ''A'' (ex_call 1), Begin 1 ''B'' (ex_call 1), Arrive ''A'' (ex_reply (String_value ''1'')),
       Answer 1 (ex_reply (String_value ''1''))] s) \<and>
   (\<forall>s x. \<not> exchange_run ex_verb [Begin 0 ''A'' (ex_call 1), Begin 1 ''B'' (ex_call 1), Arrive ''A'' (ex_reply (String_value ''1'')),
       Answer 1 (ex_reply (String_value ''1'')), Answer 0 x] s)"
proof -
  have *: "getRequestID ex_verb (ex_call 1) = getRequestID ex_verb (ex_call 1)"
    "getRequestID ex_verb (ex_reply (String_value ''1'')) = getRequestID ex_verb (ex_call 1)"
    "JM_ID (ex_reply (String_value ''1'')) \<noteq> Nil_value" by (simp_all add: ex_IDs)
  have "(0::nat) \<noteq> 1" by simp
  from response_reaches_other_session [OF this *, of "''A''" "''B''"]
  show ?thesis by (auto dest!: spec [where x = "[Answer 0 x]" for x])
qed

end
