(* ===== verification/ProxySessions.thy ===== *)
theory ProxySessions
  imports Correlation StreamableHTTP
begin

section \<open>What the two session proxies share\<close>

text \<open>
  The parts that \<open>pkg/proxy/stdio_to_http.go\<close> and \<open>pkg/proxy/remote_http_proxy_adapter.go\<close> have in common: the state
  on which a handler and the goroutines that read from servers work, a request that waits for its response, the streams of
  server-sent events. The state of each adapter extends the record \<open>proxy_adapter\<close>. A stream is known by its connection
  ID, with the text that was written to it.
\<close>

record proxy_adapter =
  pa_sessionStore :: InMemorySessionStore
  pa_co :: correlation
  pa_streams :: "string \<rightharpoonup> string"

text \<open>What a handler writes for its client: a JSON body, the note for a notification, or the start of a stream.\<close>

datatype proxy_reply = Json_reply JSONRPCMessage | Notification_sent | Stream_opened string

type_synonym headers = "string \<rightharpoonup> string list"

subsection \<open>Requests\<close>

definition proxy_session_ID :: "client_request \<Rightarrow> string" where
  "proxy_session_ID c =
     (if CQ_Header c ''Mcp-Session-Id'' \<noteq> [] then CQ_Header c ''Mcp-Session-Id''
      else if CQ_Header c ''mcp-session-id'' \<noteq> [] then CQ_Header c ''mcp-session-id''
      else CQ_Query c ''sessionId'')"

text \<open>The end of the wait: which case of the \<open>select\<close> is taken.\<close>

datatype select_case = Response_ready | Timed_out | Client_gone

text \<open>A request is registered, sent and waited for, and its entry is removed however the handler ends. \<open>wait\<close> is what the
  other goroutines make of the state until the \<open>select\<close> is decided. The result is \<open>None\<close> while it is not.\<close>

definition await_response ::
    "(any \<Rightarrow> string) \<Rightarrow> nat \<Rightarrow> JSONRPCMessage \<Rightarrow> string \<Rightarrow> string \<Rightarrow> string \<Rightarrow>
     ('a proxy_adapter_scheme \<Rightarrow> 'a proxy_adapter_scheme \<times> error option) \<Rightarrow>
     ('a proxy_adapter_scheme \<Rightarrow> 'a proxy_adapter_scheme \<times> select_case) \<Rightarrow> 'a proxy_adapter_scheme \<Rightarrow>
     ('a proxy_adapter_scheme \<times> JSONRPCMessage result) option" where
  "await_response fmt r message not_sent late gone send wait st =
     (let key = getRequestID fmt message;
          done = (\<lambda>s. s\<lparr>pa_co := unregister_request key (pa_co s)\<rparr>);
          st1 = st\<lparr>pa_co := register_request key r (pa_co st)\<rparr>
      in case send st1 of
           (st2, Some err) \<Rightarrow> Some (done st2, Inl (not_sent @ err))
         | (st2, None) \<Rightarrow>
             (case wait st2 of
                (st3, Timed_out) \<Rightarrow> Some (done st3, Inl late)
              | (st3, Client_gone) \<Rightarrow> Some (done st3, Inl gone)
              | (st3, Response_ready) \<Rightarrow>
                  (case receive_response r (pa_co st3) of
                     (co, Some response) \<Rightarrow> Some (done (st3\<lparr>pa_co := co\<rparr>), Inr response)
                   | (co, None) \<Rightarrow> None)))"

subsection \<open>Streams\<close>

text \<open>\<open>writeSSEEvent\<close>; unlike that of package \<open>mcp\<close> it writes no line for empty data.\<close>

definition sse_event :: "string \<Rightarrow> string \<Rightarrow> string" where
  "sse_event event data =
     (if event \<noteq> [] then ''event: '' @ event @ [CHR 0x0A] else []) @
     (if data \<noteq> [] then concat (map (\<lambda>line. ''data: '' @ line @ [CHR 0x0A]) (Split data CHR 0x0A)) else []) @ [CHR 0x0A]"

definition write_stream :: "string \<Rightarrow> string \<Rightarrow> 'a proxy_adapter_scheme \<Rightarrow> 'a proxy_adapter_scheme" where
  "write_stream conn text st =
     (case pa_streams st conn of None \<Rightarrow> st | Some old \<Rightarrow> st\<lparr>pa_streams := (pa_streams st)(conn \<mapsto> old @ text)\<rparr>)"

text \<open>To every connection of a session. A message that cannot be encoded is logged.\<close>

definition broadcastToSSE ::
    "(JSONRPCMessage \<Rightarrow> string result) \<Rightarrow> string list \<Rightarrow> JSONRPCMessage \<Rightarrow> 'a proxy_adapter_scheme \<Rightarrow> 'a proxy_adapter_scheme" where
  "broadcastToSSE marshal conns message st =
     (case marshal message of
        Inl err \<Rightarrow> st
      | Inr data \<Rightarrow> fold (\<lambda>conn. write_stream conn (sse_event ''message'' data)) conns st)"

text \<open>A message from a server of a session with the connections \<open>conns\<close>.\<close>

definition handle_server_message ::
    "(any \<Rightarrow> string) \<Rightarrow> (JSONRPCMessage \<Rightarrow> string result) \<Rightarrow> string list \<Rightarrow> JSONRPCMessage \<Rightarrow> 'a proxy_adapter_scheme \<Rightarrow>
     'a proxy_adapter_scheme" where
  "handle_server_message fmt marshal conns message st =
     (case deliver_response fmt message (pa_co st) of
        Some co \<Rightarrow> st\<lparr>pa_co := co\<rparr>
      | None \<Rightarrow> broadcastToSSE marshal conns message st)"

text \<open>The headers of a stream; \<open>allowed_origin\<close> is the same choice as in the transport.\<close>

definition stream_headers :: "client_request \<Rightarrow> headers \<Rightarrow> headers" where
  "stream_headers c h =
     header_Set ''Access-Control-Allow-Origin'' (allowed_origin c) (header_Set ''Connection'' ''keep-alive''
       (header_Set ''Cache-Control'' ''no-cache'' (header_Set ''Content-Type'' ''text/event-stream'' h)))"

definition keep_alive :: "string \<Rightarrow> 'a proxy_adapter_scheme \<Rightarrow> 'a proxy_adapter_scheme" where
  "keep_alive conn st = write_stream conn (sse_event ''keepalive'' []) st"

subsection \<open>The status of an adapter\<close>

text \<open>From the last activities of its sessions; how often a session is active decides.\<close>

definition proxy_status :: "gotime \<Rightarrow> gotime list \<Rightarrow> string" where
  "proxy_status now activities =
     (let activeSessions = length (filter (\<lambda>t. now - t < 5 * minute) activities)
      in if activeSessions = 0 then ''Idle'' else if 10 < activeSessions then ''Busy'' else ''Ready'')"

subsection \<open>Lemmas\<close>

lemma write_stream_keeps [simp]:
  "pa_sessionStore (write_stream conn t st) = pa_sessionStore st" "pa_co (write_stream conn t st) = pa_co st"
  "proxy_adapter.more (write_stream conn t st) = proxy_adapter.more st"
  by (simp_all add: write_stream_def split: option.split)

lemma fold_write_keeps [simp]:
  "pa_sessionStore (fold (\<lambda>conn. write_stream conn t) conns st) = pa_sessionStore st"
  "pa_co (fold (\<lambda>conn. write_stream conn t) conns st) = pa_co st"
  "proxy_adapter.more (fold (\<lambda>conn. write_stream conn t) conns st) = proxy_adapter.more st"
  by (induction conns arbitrary: st) simp_all

lemma handle_server_message_keeps [simp]:
  "pa_sessionStore (handle_server_message fmt marshal conns m st) = pa_sessionStore st"
  "proxy_adapter.more (handle_server_message fmt marshal conns m st) = proxy_adapter.more st"
  by (simp_all add: handle_server_message_def broadcastToSSE_def split: option.split sum.split)

text \<open>The table of the sessions of an adapter: \<open>find\<close> looks one up and \<open>make\<close> gets or creates the one of an ID for an
  adapter; \<open>owner\<close> is the name of the adapter for which it was made.\<close>

locale session_table =
  fixes find_session :: "string \<Rightarrow> 's \<Rightarrow> 'x option"
    and make_session :: "string \<Rightarrow> AdapterResource \<Rightarrow> 's \<Rightarrow> 's \<times> 'x"
    and owner :: "'x \<Rightarrow> string"
  assumes make_found: "find_session sid s = Some x \<Longrightarrow> owner (snd (make_session sid a s)) = owner x"
    and make_new: "find_session sid s = None \<Longrightarrow> owner (snd (make_session sid a s)) = AD_Name a"
    and find_made: "find_session sid (fst (make_session sid a s)) = Some (snd (make_session sid a s))"
    and find_other: "sid' \<noteq> sid \<Longrightarrow> find_session sid' (fst (make_session sid a s)) = find_session sid' s"
begin

text \<open>A session belongs to the adapter whose request made it, whatever adapters the later requests go to.\<close>

lemma owner_of_first:
  "find_session sid s = None \<Longrightarrow>
   map_option owner (find_session sid (fold (\<lambda>a s. fst (make_session sid a s)) (a # as) s)) = Some (AD_Name a)"
proof (induction as rule: rev_induct)
  case Nil
  then show ?case using find_made make_new by simp
next
  case (snoc b as)
  then obtain x where "find_session sid (fold (\<lambda>a s. fst (make_session sid a s)) (a # as) s) = Some x" "owner x = AD_Name a"
    by auto
  then show ?case using find_made make_found by (simp add: fold_append)
qed

end

subsection \<open>An example\<close>

definition ex_w_adapter :: "string \<Rightarrow> AdapterResource" where
  "ex_w_adapter url = AdapterResource_Create 1 [] (zero_AdapterData\<lparr>AD_Name := ''w'', AD_RemoteUrl := url\<rparr>) ''u'' 0"

end
