(* ===== verification/StdioProxy.thy ===== *)
theory StdioProxy
  imports ProxySessions
begin

section \<open>Servers that are processes\<close>

text \<open>
  \<open>pkg/proxy/local_stdio.go\<close> runs the servers of local adapters as processes that read and write lines, one process for
  each name of an adapter; \<open>pkg/proxy/stdio_to_http.go\<close> serves them over HTTP, with sessions of its own. The operating
  system is in the records of environments. A process is known by a number, under which its struct is kept.
\<close>

subsection \<open>Processes\<close>

record runningProcess =
  RP_Command :: string
  RP_Args :: "string list"
  RP_Env :: "string list"
  RP_tempDir :: string
  RP_stdin :: "string list"
  RP_stdin_open :: bool

record LocalStdioProxyPlugin =
  ls_processes :: "string \<rightharpoonup> nat"
  ls_table :: "nat \<rightharpoonup> runningProcess"

definition NewLocalStdioProxyPlugin :: LocalStdioProxyPlugin where
  "NewLocalStdioProxyPlugin = \<lparr>ls_processes = Map.empty, ls_table = Map.empty\<rparr>"

text \<open>\<open>so_servers\<close>, \<open>so_vars\<close> and \<open>so_mcp_vars\<close> are the orders in which the maps are visited, \<open>so_pid\<close> the number of the
  process that is started.\<close>

record stdio_env =
  so_environ :: "string list"
  so_mkdirtemp :: "string result"
  so_extract :: "string \<Rightarrow> error option"
  so_exists :: "string \<Rightarrow> bool"
  so_stdin_err :: "error option"
  so_stdout_err :: "error option"
  so_stderr_err :: "error option"
  so_start_err :: "error option"
  so_write_err :: "nat \<Rightarrow> error option"
  so_servers :: "string list"
  so_vars :: "string list"
  so_mcp_vars :: "string list"
  so_pid :: nat

text \<open>The command of an adapter: the first server of its client configuration in the order of the runtime, or a script of
  the program in a new directory.\<close>

definition process_command :: "stdio_env \<Rightarrow> AdapterResource \<Rightarrow> (string \<times> string list \<times> string \<times> (string \<rightharpoonup> string)) result" where
  "process_command E adapter =
     (case range_values (MCC_MCPServers (AD_MCPClientConfig adapter)) (so_servers E) of
        serverConfig # _ \<Rightarrow> Inr (MSC_Command serverConfig, MSC_Args serverConfig, [], MSC_Env serverConfig)
      | [] \<Rightarrow>
          (case so_mkdirtemp E of
             Inl err \<Rightarrow> Inl (''failed to create temp directory: '' @ err)
           | Inr tempDir \<Rightarrow>
               (case so_extract E tempDir of
                  Some err \<Rightarrow> Inl (''failed to extract scripts: '' @ err)
                | None \<Rightarrow>
                    (let scriptName = (if AD_Command adapter \<noteq> [] then AD_Command adapter else ''main.py'');
                         scriptPath = tempDir @ ''/src/'' @ scriptName
                     in if \<not> so_exists E scriptPath then Inl (''script '' @ scriptName @ '' not found'')
                        else Inr (''python3'', scriptPath # AD_Args adapter, tempDir, Map.empty)))))"

definition process_environ :: "stdio_env \<Rightarrow> AdapterResource \<Rightarrow> (string \<rightharpoonup> string) \<Rightarrow> string list" where
  "process_environ E adapter mcpEnvVars =
     so_environ E @
     map (\<lambda>k. k @ ''='' @ the (AD_EnvironmentVariables adapter k)) (filter (\<lambda>k. k \<noteq> ''MCP_TRANSPORT'') (so_vars E)) @
     map (\<lambda>k. k @ ''='' @ the (mcpEnvVars k)) (so_mcp_vars E)"

definition getOrStartProcess ::
    "stdio_env \<Rightarrow> AdapterResource \<Rightarrow> LocalStdioProxyPlugin \<Rightarrow> LocalStdioProxyPlugin \<times> nat result" where
  "getOrStartProcess E adapter p =
     (case ls_processes p (AD_Name adapter) of
        Some pid \<Rightarrow> (p, Inr pid)
      | None \<Rightarrow>
          (case process_command E adapter of
             Inl err \<Rightarrow> (p, Inl err)
           | Inr (command, args, tempDir, mcpEnvVars) \<Rightarrow>
               (case (so_stdin_err E, so_stdout_err E, so_stderr_err E, so_start_err E) of
                  (Some err, _, _, _) \<Rightarrow> (p, Inl (''failed to get stdin pipe: '' @ err))
                | (None, Some err, _, _) \<Rightarrow> (p, Inl (''failed to get stdout pipe: '' @ err))
                | (None, None, Some err, _) \<Rightarrow> (p, Inl (''failed to get stderr pipe: '' @ err))
                | (None, None, None, Some err) \<Rightarrow> (p, Inl (''failed to start subprocess: '' @ err))
                | (None, None, None, None) \<Rightarrow>
                    (\<lparr>ls_processes = (ls_processes p)(AD_Name adapter \<mapsto> so_pid E),
                      ls_table = (ls_table p)(so_pid E \<mapsto> \<lparr>RP_Command = command, RP_Args = args,
                        RP_Env = process_environ E adapter mcpEnvVars, RP_tempDir = tempDir, RP_stdin = [], RP_stdin_open = True\<rparr>)\<rparr>,
                     Inr (so_pid E)))))"

text \<open>The goroutine of a process when the process has exited.\<close>

definition process_exited :: "string \<Rightarrow> LocalStdioProxyPlugin \<Rightarrow> LocalStdioProxyPlugin" where
  "process_exited name p = p\<lparr>ls_processes := (ls_processes p)(name := None)\<rparr>"

definition write_stdin :: "nat \<Rightarrow> string \<Rightarrow> LocalStdioProxyPlugin \<Rightarrow> LocalStdioProxyPlugin" where
  "write_stdin pid line p =
     (case ls_table p pid of
        None \<Rightarrow> p
      | Some proc \<Rightarrow> p\<lparr>ls_table := (ls_table p)(pid \<mapsto> proc\<lparr>RP_stdin := RP_stdin proc @ [line]\<rparr>)\<rparr>)"

text \<open>\<open>read\<close> is what scanning the output gives: a line, an error, or the end.\<close>

definition sendMessage ::
    "stdio_env \<Rightarrow> nat \<Rightarrow> string \<Rightarrow> string result option \<Rightarrow> LocalStdioProxyPlugin \<Rightarrow> LocalStdioProxyPlugin \<times> string result" where
  "sendMessage E pid message read p =
     (case so_write_err E pid of
        Some err \<Rightarrow> (p, Inl (''failed to send message to subprocess: '' @ err))
      | None \<Rightarrow> (write_stdin pid message p,
          case read of
            Some (Inr response) \<Rightarrow> Inr response
          | Some (Inl err) \<Rightarrow> Inl (''error reading from subprocess: '' @ err)
          | None \<Rightarrow> Inl ''no response from subprocess''))"

definition LocalStdio_Cleanup :: "string \<Rightarrow> LocalStdioProxyPlugin \<Rightarrow> LocalStdioProxyPlugin" where
  "LocalStdio_Cleanup adapterID p =
     (case ls_processes p adapterID of
        None \<Rightarrow> p
      | Some pid \<Rightarrow> p\<lparr>ls_processes := (ls_processes p)(adapterID := None),
          ls_table := (ls_table p)(pid := map_option (\<lambda>proc. proc\<lparr>RP_stdin_open := False\<rparr>) (ls_table p pid))\<rparr>)"

text \<open>The plugin as a proxy: \<open>Unix\<close> is the time in seconds and \<open>digits\<close> the sixteen random digits.\<close>

definition LocalStdio_generateSessionID :: "string \<Rightarrow> int \<Rightarrow> string \<Rightarrow> string" where
  "LocalStdio_generateSessionID adapterName unix digits = ''stdio-'' @ adapterName @ ''-'' @ show_int unix @ ''-'' @ digits"

definition isInitializeCall :: "string \<Rightarrow> bool" where
  "isInitializeCall requestBody \<longleftrightarrow>
     Contains requestBody ([CHR 0x22] @ ''method'' @ [CHR 0x22] @ '': '' @ [CHR 0x22] @ ''initialize'' @ [CHR 0x22])"

text \<open>The new session ID is a header; an answer is status 200 with the line as its body.\<close>

definition LocalStdio_ProxyRequest ::
    "stdio_env \<Rightarrow> gotime \<Rightarrow> int \<Rightarrow> string \<Rightarrow> string result option \<Rightarrow> client_request \<Rightarrow> AdapterResource \<Rightarrow> InMemorySessionStore \<Rightarrow>
     LocalStdioProxyPlugin \<Rightarrow> LocalStdioProxyPlugin \<times> InMemorySessionStore \<times> headers \<times> string result" where
  "LocalStdio_ProxyRequest E now unix digits read c adapter ss p =
     (case CQ_Body c of
        Inl err \<Rightarrow> (p, ss, Map.empty, Inl err)
      | Inr body \<Rightarrow>
          (let newID = LocalStdio_generateSessionID (AD_Name adapter) unix digits;
               sid = (if CQ_Header c ''mcp-session-id'' \<noteq> [] then CQ_Header c ''mcp-session-id'' else CQ_Header c ''session-id'');
               (ss1, h) =
                 (if isInitializeCall body
                  then (fst (SetWithDetails now newID (AD_Name adapter) ''local'' (AD_ConnectionType adapter) ss),
                        header_Set ''mcp-session-id'' newID Map.empty)
                  else (if sid = [] then ss
                        else (case GetDetails ss sid of
                          Inl err \<Rightarrow> ss
                        | Inr details \<Rightarrow>
                            if SD_AdapterName details \<noteq> AD_Name adapter then ss else fst (UpdateActivity now sid ss)), Map.empty))
           in case getOrStartProcess E adapter p of
                (p1, Inl err) \<Rightarrow> (p1, ss1, h, Inl (''failed to get/start process: '' @ err))
              | (p1, Inr pid) \<Rightarrow>
                  (case sendMessage E pid body read p1 of
                     (p2, Inl err) \<Rightarrow> (p2, ss1, h, Inl err)
                   | (p2, Inr response) \<Rightarrow>
                       (p2, ss1, header_Set ''Content-Type'' ''application/json'' h, Inr response))))"

subsection \<open>Sessions over processes\<close>

record StdioSession =
  SS_ID :: string
  SS_AdapterName :: string
  SS_Process :: "nat option"
  SS_CreatedAt :: gotime
  SS_LastActivity :: gotime
  SS_IsInitialized :: bool
  SS_SSEConnections :: "string list"

text \<open>\<open>sa_listeners\<close> are the goroutines that read a process for a session.\<close>

record StdioToHTTPAdapter = proxy_adapter +
  sa_stdioProxy :: LocalStdioProxyPlugin
  sa_sessions :: "string \<rightharpoonup> StdioSession"
  sa_listeners :: "(string \<times> nat) list"

definition NewStdioToHTTPAdapter :: "LocalStdioProxyPlugin \<Rightarrow> InMemorySessionStore \<Rightarrow> StdioToHTTPAdapter" where
  "NewStdioToHTTPAdapter stdioProxy sessionStore =
     \<lparr>pa_sessionStore = sessionStore, pa_co = no_pending, pa_streams = Map.empty, sa_stdioProxy = stdioProxy,
      sa_sessions = Map.empty, sa_listeners = []\<rparr>"

text \<open>\<open>sx_nano\<close> is the clock for a new session ID, \<open>sx_now\<close> to \<open>sx_now''\<close> and \<open>sx_set\<close> the other readings, \<open>sx_request\<close> the
  number of the handler, \<open>sx_conn\<close> a new connection ID. \<open>sx_missing\<close> is the error when the proxy or the router is nil.\<close>

record stdio_http_env =
  sx_os :: stdio_env
  sx_missing :: "error option"
  sx_decode :: "string \<Rightarrow> JSONRPCMessage result"
  sx_marshal :: "JSONRPCMessage \<Rightarrow> string result"
  sx_fmt :: "any \<Rightarrow> string"
  sx_nano :: int
  sx_now :: gotime
  sx_now' :: gotime
  sx_set :: gotime
  sx_request :: nat
  sx_conn :: string
  sx_wait :: "StdioToHTTPAdapter \<Rightarrow> StdioToHTTPAdapter \<times> select_case"

definition Stdio_generateSessionID :: "int \<Rightarrow> string" where
  "Stdio_generateSessionID nano = ''stdio-http-'' @ show_int nano"

definition Stdio_getSession :: "string \<Rightarrow> StdioToHTTPAdapter \<Rightarrow> StdioSession option" where
  "Stdio_getSession sid st = sa_sessions st sid"

definition Stdio_getOrCreateSession ::
    "gotime \<Rightarrow> gotime \<Rightarrow> gotime \<Rightarrow> string \<Rightarrow> AdapterResource \<Rightarrow> StdioToHTTPAdapter \<Rightarrow> StdioToHTTPAdapter \<times> StdioSession" where
  "Stdio_getOrCreateSession now now' now'' sid adapter st =
     (case sa_sessions st sid of
        Some session \<Rightarrow>
          (let session' = session\<lparr>SS_LastActivity := now\<rparr> in (st\<lparr>sa_sessions := (sa_sessions st)(sid \<mapsto> session')\<rparr>, session'))
      | None \<Rightarrow>
          (let session = \<lparr>SS_ID = sid, SS_AdapterName = AD_Name adapter, SS_Process = None, SS_CreatedAt = now,
                 SS_LastActivity = now', SS_IsInitialized = False, SS_SSEConnections = []\<rparr>
           in (st\<lparr>sa_sessions := (sa_sessions st)(sid \<mapsto> session),
                  pa_sessionStore := fst (SetWithDetails now'' sid (AD_Name adapter) [] ''stdio-http'' (pa_sessionStore st))\<rparr>, session)))"

text \<open>A write on a stdin that was closed, or whose process is gone, is an error of \<open>so_write_err\<close>.\<close>

definition sendToStdio ::
    "stdio_http_env \<Rightarrow> nat option \<Rightarrow> JSONRPCMessage \<Rightarrow> StdioToHTTPAdapter \<Rightarrow> StdioToHTTPAdapter \<times> error option" where
  "sendToStdio E proc message st =
     (case proc of
        None \<Rightarrow> (st, Some ''stdio process not available'')
      | Some pid \<Rightarrow>
          (case sx_marshal E message of
             Inl err \<Rightarrow> (st, Some (''failed to marshal message: '' @ err))
           | Inr data \<Rightarrow>
               (case so_write_err (sx_os E) pid of
                  Some err \<Rightarrow> (st, Some (''failed to write to stdin: '' @ err))
                | None \<Rightarrow> (st\<lparr>sa_stdioProxy := write_stdin pid data (sa_stdioProxy st)\<rparr>, None))))"

definition set_stdio_session :: "string \<Rightarrow> (StdioSession \<Rightarrow> StdioSession) \<Rightarrow> StdioToHTTPAdapter \<Rightarrow> StdioToHTTPAdapter" where
  "set_stdio_session sid f st = st\<lparr>sa_sessions := (sa_sessions st)(sid := map_option f (sa_sessions st sid))\<rparr>"

definition json_headers :: "headers \<Rightarrow> headers" where
  "json_headers h = header_Set ''Content-Type'' ''application/json'' h"

definition Stdio_handleNotification ::
    "stdio_http_env \<Rightarrow> JSONRPCMessage \<Rightarrow> string \<Rightarrow> StdioToHTTPAdapter \<Rightarrow> StdioToHTTPAdapter \<times> headers \<times> proxy_reply result" where
  "Stdio_handleNotification E message sid st =
     (if sid = [] then (st, Map.empty, Inl ''session ID required for notifications'')
      else case Stdio_getSession sid st of
        None \<Rightarrow> (st, Map.empty, Inl (''session not found: '' @ sid))
      | Some session \<Rightarrow>
          (case sendToStdio E (SS_Process session) message (set_stdio_session sid (\<lambda>s. s\<lparr>SS_LastActivity := sx_now E\<rparr>) st) of
             (st', Some err) \<Rightarrow> (st', Map.empty, Inl (''failed to send notification to stdio: '' @ err))
           | (st', None) \<Rightarrow> (st', json_headers Map.empty, Inr Notification_sent)))"

definition Stdio_handleRegularRequest ::
    "stdio_http_env \<Rightarrow> JSONRPCMessage \<Rightarrow> string \<Rightarrow> StdioToHTTPAdapter \<Rightarrow>
     (StdioToHTTPAdapter \<times> headers \<times> proxy_reply result) option" where
  "Stdio_handleRegularRequest E message sid st =
     (if sid = [] then Some (st, Map.empty, Inl ''session ID required for non-initialize requests'')
      else case Stdio_getSession sid st of
        None \<Rightarrow> Some (st, Map.empty, Inl (''session not found: '' @ sid))
      | Some session \<Rightarrow>
          map_option (\<lambda>(st', r). case r of
              Inl err \<Rightarrow> (st', Map.empty, Inl err)
            | Inr response \<Rightarrow> (st', json_headers Map.empty, Inr (Json_reply response)))
            (await_response (sx_fmt E) (sx_request E) message ''failed to send to stdio: '' ''request timeout after 1m0s''
               ''client disconnected'' (sendToStdio E (SS_Process session) message) (sx_wait E)
               (set_stdio_session sid (\<lambda>s. s\<lparr>SS_LastActivity := sx_now E\<rparr>) st)))"

definition forwardInitializeToStdio ::
    "stdio_http_env \<Rightarrow> headers \<Rightarrow> nat option \<Rightarrow> JSONRPCMessage \<Rightarrow> StdioToHTTPAdapter \<Rightarrow>
     (StdioToHTTPAdapter \<times> headers \<times> proxy_reply result) option" where
  "forwardInitializeToStdio E h proc message st =
     map_option (\<lambda>(st', r). case r of
         Inl err \<Rightarrow> (st', h, Inl err)
       | Inr response \<Rightarrow> (st', json_headers h, Inr (Json_reply response)))
       (await_response (sx_fmt E) (sx_request E) message ''failed to send initialize to stdio: '' ''initialize timeout after 1m0s''
          ''client disconnected during initialize'' (sendToStdio E proc message) (sx_wait E) st)"

definition Stdio_handleInitialize ::
    "stdio_http_env \<Rightarrow> JSONRPCMessage \<Rightarrow> AdapterResource \<Rightarrow> string \<Rightarrow> StdioToHTTPAdapter \<Rightarrow>
     (StdioToHTTPAdapter \<times> headers \<times> proxy_reply result) option" where
  "Stdio_handleInitialize E message adapter sid0 st =
     (let sid = (if sid0 = [] then Stdio_generateSessionID (sx_nano E) else sid0);
          h = (if sid0 = [] then header_Set ''Mcp-Session-Id'' sid Map.empty else Map.empty);
          (st1, session) = Stdio_getOrCreateSession (sx_now E) (sx_now' E) (sx_set E) sid adapter st;
          (p, started) = (case SS_Process session of
             Some pid \<Rightarrow> (sa_stdioProxy st1, Inr pid)
           | None \<Rightarrow> getOrStartProcess (sx_os E) adapter (sa_stdioProxy st1));
          st2 = st1\<lparr>sa_stdioProxy := p\<rparr>
      in case started of
           Inl err \<Rightarrow> Some (st2, h, Inl (''failed to start stdio process: '' @ err))
         | Inr pid \<Rightarrow>
             (let st3 = set_stdio_session sid (\<lambda>s. s\<lparr>SS_Process := Some pid, SS_IsInitialized := True\<rparr>) st2;
                  st4 = (if SS_IsInitialized session then st3 else st3\<lparr>sa_listeners := (sid, pid) # sa_listeners st3\<rparr>)
              in forwardInitializeToStdio E h (Some pid) message st4))"

text \<open>The handler of a stream opens it; when its client is gone the connection is removed.\<close>

definition Stdio_handleSSEStream ::
    "stdio_http_env \<Rightarrow> client_request \<Rightarrow> AdapterResource \<Rightarrow> string \<Rightarrow> StdioToHTTPAdapter \<Rightarrow>
     StdioToHTTPAdapter \<times> headers \<times> proxy_reply result" where
  "Stdio_handleSSEStream E c adapter sid0 st =
     (let sid = (if sid0 = [] then Stdio_generateSessionID (sx_nano E) else sid0);
          h = (if sid0 = [] then header_Set ''Mcp-Session-Id'' sid Map.empty else Map.empty);
          (st1, session) = Stdio_getOrCreateSession (sx_now E) (sx_now' E) (sx_set E) sid adapter st
      in ((set_stdio_session sid (\<lambda>s. s\<lparr>SS_SSEConnections := sx_conn E # SS_SSEConnections s\<rparr>) st1)
            \<lparr>pa_streams := (pa_streams st1)(sx_conn E \<mapsto> [])\<rparr>, stream_headers c h, Inr (Stream_opened (sx_conn E))))"

definition Stdio_stream_closed :: "string \<Rightarrow> string \<Rightarrow> StdioToHTTPAdapter \<Rightarrow> StdioToHTTPAdapter" where
  "Stdio_stream_closed sid conn st =
     set_stdio_session sid (\<lambda>s. s\<lparr>SS_SSEConnections := removeAll conn (SS_SSEConnections s)\<rparr>) st"

definition Stdio_HandleRequest ::
    "stdio_http_env \<Rightarrow> client_request \<Rightarrow> AdapterResource \<Rightarrow> StdioToHTTPAdapter \<Rightarrow>
     (StdioToHTTPAdapter \<times> headers \<times> proxy_reply result) option" where
  "Stdio_HandleRequest E c adapter st =
     (case sx_missing E of
        Some err \<Rightarrow> Some (st, Map.empty, Inl err)
      | None \<Rightarrow>
     (let sid = proxy_session_ID c in
      if CQ_Header c ''Accept'' = ''text/event-stream'' then Some (Stdio_handleSSEStream E c adapter sid st)
      else case CQ_Body c of
        Inl err \<Rightarrow> Some (st, Map.empty, Inl (''failed to read request body: '' @ err))
      | Inr body \<Rightarrow>
          (case sx_decode E body of
             Inl err \<Rightarrow> Some (st, Map.empty, Inl (''failed to parse JSON-RPC message: '' @ err))
           | Inr message \<Rightarrow>
               if JM_Method message = ''initialize'' then Stdio_handleInitialize E message adapter sid st
               else if HasPrefix (JM_Method message) ''notifications/'' then Some (Stdio_handleNotification E message sid st)
               else Stdio_handleRegularRequest E message sid st)))"

text \<open>A listener, for a line that its scanner gives it.\<close>

definition handleStdioMessage :: "stdio_http_env \<Rightarrow> string \<Rightarrow> JSONRPCMessage \<Rightarrow> StdioToHTTPAdapter \<Rightarrow> StdioToHTTPAdapter" where
  "handleStdioMessage E sid message st =
     handle_server_message (sx_fmt E) (sx_marshal E)
       (case sa_sessions st sid of None \<Rightarrow> [] | Some session \<Rightarrow> SS_SSEConnections session) message st"

definition listener_line :: "stdio_http_env \<Rightarrow> string \<Rightarrow> string \<Rightarrow> StdioToHTTPAdapter \<Rightarrow> StdioToHTTPAdapter" where
  "listener_line E sid line st =
     (if line = [] then st else case sx_decode E line of Inl err \<Rightarrow> st | Inr message \<Rightarrow> handleStdioMessage E sid message st)"

definition Stdio_CanHandle :: "string \<Rightarrow> bool" where
  "Stdio_CanHandle connectionType \<longleftrightarrow> connectionType = ConnectionTypeLocalStdio"

definition Stdio_GetStatus :: "gotime \<Rightarrow> string list \<Rightarrow> StdioToHTTPAdapter \<Rightarrow> string" where
  "Stdio_GetStatus now ks st = proxy_status now (map SS_LastActivity (range_values (sa_sessions st) ks))"

definition Stdio_GetLogs :: "AdapterResource \<Rightarrow> StdioToHTTPAdapter \<Rightarrow> string" where
  "Stdio_GetLogs adapter st = ''Stdio-to-HTTP Adapter for '' @ AD_Name adapter @ [CHR 0x0A] @ ''Active Sessions: '' @
     show_int (int (card (dom (sa_sessions st)))) @ [CHR 0x0A]"

text \<open>The argument is an adapter's ID, the map's keys are session IDs.\<close>

definition Stdio_Cleanup :: "string \<Rightarrow> StdioToHTTPAdapter \<Rightarrow> StdioToHTTPAdapter" where
  "Stdio_Cleanup adapterID st =
     (case sa_sessions st adapterID of
        None \<Rightarrow> st
      | Some session \<Rightarrow>
          st\<lparr>sa_stdioProxy := (if SS_Process session \<noteq> None then LocalStdio_Cleanup adapterID (sa_stdioProxy st) else sa_stdioProxy st),
             sa_sessions := (sa_sessions st)(adapterID := None)\<rparr>)"

subsection \<open>Lemmas\<close>

interpretation stdio_sessions: session_table Stdio_getSession "Stdio_getOrCreateSession t1 t2 t3" SS_AdapterName
  for t1 t2 t3
  by unfold_locales (auto simp: Stdio_getSession_def Stdio_getOrCreateSession_def Let_def split: option.splits)

lemma set_stdio_session_simps [simp]:
  "sa_sessions (set_stdio_session sid f st) = (sa_sessions st)(sid := map_option f (sa_sessions st sid))"
  "sa_stdioProxy (set_stdio_session sid f st) = sa_stdioProxy st" "pa_co (set_stdio_session sid f st) = pa_co st"
  "sa_listeners (set_stdio_session sid f st) = sa_listeners st"
  by (simp_all add: set_stdio_session_def)

lemma sendToStdio_dead:
  "so_write_err (sx_os E) pid = Some err \<Longrightarrow> \<exists>e. sendToStdio E (Some pid) message st = (st, Some e)"
  by (simp add: sendToStdio_def split: sum.split)

lemma await_unsent:
  "send (st\<lparr>pa_co := register_request (getRequestID fmt m) r (pa_co st)\<rparr>) = (st2, Some e) \<Longrightarrow>
   await_response fmt r m a b c send w st =
     Some (st2\<lparr>pa_co := unregister_request (getRequestID fmt m) (pa_co st2)\<rparr>, Inl (a @ e))"
  by (simp add: await_response_def Let_def)

lemma forwardInitialize_dead:
  assumes "so_write_err (sx_os E) pid = Some err"
  shows "\<exists>s' e. forwardInitializeToStdio E h (Some pid) message st = Some (s', h, Inl e) \<and>
    sa_stdioProxy s' = sa_stdioProxy st \<and> sa_sessions s' = sa_sessions st"
proof -
  let ?st1 = "st\<lparr>pa_co := register_request (getRequestID (sx_fmt E) message) (sx_request E) (pa_co st)\<rparr>"
  obtain e where "sendToStdio E (Some pid) message ?st1 = (?st1, Some e)" using sendToStdio_dead [OF assms] by blast
  from await_unsent [of "sendToStdio E (Some pid) message", OF this] show ?thesis
    by (simp add: forwardInitializeToStdio_def)
qed

text \<open>A session whose process is gone stays useless. As long as its process cannot be written to, every message of the session
  is an error, an initialization too: no other process is started for it, though the adapter's name may have none, and
  the session keeps the process that it had.\<close>

theorem dead_session_never_recovers:
  assumes "sx_missing E = None" and "CQ_Header c ''Accept'' \<noteq> ''text/event-stream''" and "proxy_session_ID c = sid" and "sid \<noteq> []"
    and "CQ_Body c = Inr body" and "sx_decode E body = Inr message"
    and "sa_sessions st sid = Some session" and "SS_Process session = Some pid" and "so_write_err (sx_os E) pid = Some err"
  shows "\<exists>st' h e session'. Stdio_HandleRequest E c adapter st = Some (st', h, Inl e) \<and> sa_stdioProxy st' = sa_stdioProxy st \<and>
    sa_sessions st' sid = Some session' \<and> SS_Process session' = Some pid"
proof -
  have dead: "\<exists>e. sendToStdio E (Some pid) message x = (x, Some e)" for x by (rule sendToStdio_dead [OF assms(9)])
  consider "JM_Method message = ''initialize''" | "JM_Method message \<noteq> ''initialize''" "HasPrefix (JM_Method message) ''notifications/''"
    | "JM_Method message \<noteq> ''initialize''" "\<not> HasPrefix (JM_Method message) ''notifications/''" by blast
  then show ?thesis
  proof cases
    case 1
    obtain st1 session1 where mk: "Stdio_getOrCreateSession (sx_now E) (sx_now' E) (sx_set E) sid adapter st = (st1, session1)"
      and "sa_sessions st1 sid = Some session1" and "SS_Process session1 = Some pid" and "sa_stdioProxy st1 = sa_stdioProxy st"
      using assms(7,8) by (simp add: Stdio_getOrCreateSession_def Let_def)
    then have s3: "sa_sessions (set_stdio_session sid (\<lambda>s. s\<lparr>SS_Process := Some pid, SS_IsInitialized := True\<rparr>)
        (st1\<lparr>sa_stdioProxy := sa_stdioProxy st1\<rparr>)) sid = Some (session1\<lparr>SS_Process := Some pid, SS_IsInitialized := True\<rparr>)"
      by simp
    have h: "Stdio_HandleRequest E c adapter st = Stdio_handleInitialize E message adapter sid st"
      using assms(1-6) 1 by (simp add: Stdio_HandleRequest_def Let_def)
    obtain x where x: "Stdio_handleInitialize E message adapter sid st = forwardInitializeToStdio E Map.empty (Some pid) message x" "sa_stdioProxy x = sa_stdioProxy st"
      "sa_sessions x sid = Some (session1\<lparr>SS_Process := Some pid, SS_IsInitialized := True\<rparr>)"
      using assms(4) mk \<open>SS_Process session1 = Some pid\<close> \<open>sa_stdioProxy st1 = sa_stdioProxy st\<close> s3
      unfolding Stdio_handleInitialize_def Let_def by (auto split: if_splits)
    then show ?thesis using forwardInitialize_dead [OF assms(9), of Map.empty message x] unfolding h by auto
  next
    case 2
    obtain e where "sendToStdio E (Some pid) message (set_stdio_session sid (\<lambda>s. s\<lparr>SS_LastActivity := sx_now E\<rparr>) st) =
        (set_stdio_session sid (\<lambda>s. s\<lparr>SS_LastActivity := sx_now E\<rparr>) st, Some e)" using dead by blast
    with 2 assms show ?thesis
      by (simp add: Stdio_HandleRequest_def Stdio_handleNotification_def Stdio_getSession_def)
  next
    case 3
    let ?st1 = "set_stdio_session sid (\<lambda>s. s\<lparr>SS_LastActivity := sx_now E\<rparr>) st"
    let ?st2 = "?st1\<lparr>pa_co := register_request (getRequestID (sx_fmt E) message) (sx_request E) (pa_co ?st1)\<rparr>"
    obtain e where "sendToStdio E (Some pid) message ?st2 = (?st2, Some e)" using dead by blast
    from await_unsent [of "sendToStdio E (Some pid) message", OF this] 3 assms show ?thesis
      by (simp add: Stdio_HandleRequest_def Stdio_handleRegularRequest_def Stdio_getSession_def)
  qed
qed

text \<open>A request gets its process's response. A request of a session with a process that takes its line is written to that
  process as one line; if then one line comes back, whose ID reads as the request's, the client gets its message as JSON,
  and nothing is pending under the ID any more.\<close>

theorem stdio_request_response:
  assumes "sx_missing E = None" and "CQ_Header c ''Accept'' \<noteq> ''text/event-stream''" and "proxy_session_ID c = sid" and "sid \<noteq> []"
    and "CQ_Body c = Inr body" and "sx_decode E body = Inr message" and "sx_marshal E message = Inr data"
    and "JM_Method message \<noteq> ''initialize''" and "\<not> HasPrefix (JM_Method message) ''notifications/''"
    and "sa_sessions st sid = Some session" and "SS_Process session = Some pid" and "so_write_err (sx_os E) pid = None"
    and "ls_table (sa_stdioProxy st) pid = Some proc"
    and "\<And>s. sx_wait E s = (listener_line E sid line s, Response_ready)"
    and "line \<noteq> []" and "sx_decode E line = Inr response" and "JM_ID response \<noteq> Nil_value"
    and "getRequestID (sx_fmt E) response = getRequestID (sx_fmt E) message"
  shows "\<exists>st'. Stdio_HandleRequest E c adapter st = Some (st', json_headers Map.empty, Inr (Json_reply response)) \<and>
    map_option RP_stdin (ls_table (sa_stdioProxy st') pid) = Some (RP_stdin proc @ [data]) \<and>
    co_pending (pa_co st') = (co_pending (pa_co st))(getRequestID (sx_fmt E) message := None)"
proof -
  let ?k = "getRequestID (sx_fmt E) message" and ?r = "sx_request E"
  let ?st1 = "set_stdio_session sid (\<lambda>s. s\<lparr>SS_LastActivity := sx_now E\<rparr>) st"
  let ?st2 = "?st1\<lparr>pa_co := register_request ?k ?r (pa_co ?st1)\<rparr>"
  let ?st3 = "?st2\<lparr>sa_stdioProxy := write_stdin pid data (sa_stdioProxy st)\<rparr>"
  let ?co = "(pa_co ?st3)\<lparr>co_buffer := (co_buffer (pa_co ?st3))(?r \<mapsto> Some response)\<rparr>"
  have send: "sendToStdio E (Some pid) message ?st2 = (?st3, None)" using assms(7,12) by (simp add: sendToStdio_def)
  have "deliver_response (sx_fmt E) response (pa_co ?st3) = Some ?co" using assms(17,18) by (simp add: deliver_response_def)
  then have wait: "sx_wait E ?st3 = (?st3\<lparr>pa_co := ?co\<rparr>, Response_ready)"
    using assms(14-16) by (simp add: listener_line_def handleStdioMessage_def handle_server_message_def)
  have "Stdio_HandleRequest E c adapter st = Stdio_handleRegularRequest E message sid st"
    using assms(1-6,8,9) by (simp add: Stdio_HandleRequest_def Let_def)
  then have "Stdio_HandleRequest E c adapter st = Some (?st3\<lparr>pa_co := unregister_request ?k (?co\<lparr>co_buffer := (co_buffer ?co)(?r \<mapsto> None)\<rparr>)\<rparr>,
      json_headers Map.empty, Inr (Json_reply response))"
    using assms(4,10,11) send wait
    by (simp add: Stdio_handleRegularRequest_def Stdio_getSession_def await_response_def receive_response_def Let_def)
  then show ?thesis using assms(13) by (simp add: write_stdin_def)
qed

subsection \<open>Examples\<close>

definition ex_stdio_env :: stdio_http_env where
  "ex_stdio_env = \<lparr>sx_os = \<lparr>so_environ = [], so_mkdirtemp = Inl ''no space'', so_extract = (\<lambda>d. None), so_exists = (\<lambda>f. False),
       so_stdin_err = None, so_stdout_err = None, so_stderr_err = None, so_start_err = None,
       so_write_err = (\<lambda>pid. if pid = 7 then None else Some ''broken pipe''), so_servers = [], so_vars = [], so_mcp_vars = [], so_pid = 8\<rparr>,
     sx_missing = None, sx_decode = (\<lambda>b. Inr (ex_call 1)), sx_marshal = (\<lambda>m. Inr ''call''), sx_fmt = (\<lambda>x. []), sx_nano = 5, sx_now = 5,
     sx_now' = 5, sx_set = 5, sx_request = 0, sx_conn = ''c'', sx_wait = (\<lambda>s. (s, Timed_out))\<rparr>"

lemma ex_stdio_env_simps [simp]:
  "sx_missing ex_stdio_env = None" "sx_decode ex_stdio_env b = Inr (ex_call 1)" "sx_marshal ex_stdio_env m = Inr ''call''"
  "so_write_err (sx_os ex_stdio_env) pid = (if pid = 7 then None else Some ''broken pipe'')"
  by (simp_all add: ex_stdio_env_def)

definition ex_stdio_request :: client_request where
  "ex_stdio_request = \<lparr>CQ_Method = ''POST'', CQ_Header = (\<lambda>k. if k = ''Mcp-Session-Id'' then ''s1'' else []), CQ_Query = (\<lambda>k. []),
     CQ_Body = Inr ''body''\<rparr>"

lemma ex_stdio_request_simps [simp]:
  "CQ_Header ex_stdio_request ''Accept'' = []" "proxy_session_ID ex_stdio_request = ''s1''" "CQ_Body ex_stdio_request = Inr ''body''"
  by (simp_all add: ex_stdio_request_def proxy_session_ID_def)

definition ex_stdio_state :: "nat \<Rightarrow> StdioToHTTPAdapter" where
  "ex_stdio_state pid = (NewStdioToHTTPAdapter NewLocalStdioProxyPlugin NewInMemorySessionStore)
     \<lparr>sa_sessions := [''s1'' \<mapsto> \<lparr>SS_ID = ''s1'', SS_AdapterName = ''w'', SS_Process = Some pid, SS_CreatedAt = 1, SS_LastActivity = 1,
        SS_IsInitialized = True, SS_SSEConnections = []\<rparr>],
      sa_stdioProxy := \<lparr>ls_processes = Map.empty, ls_table = [pid \<mapsto> \<lparr>RP_Command = ''srv'', RP_Args = [], RP_Env = [], RP_tempDir = [],
        RP_stdin = [], RP_stdin_open = True\<rparr>]\<rparr>\<rparr>"

lemma ex_stdio_state_simps [simp]:
  "sa_sessions (ex_stdio_state pid) ''s1'' = Some \<lparr>SS_ID = ''s1'', SS_AdapterName = ''w'', SS_Process = Some pid, SS_CreatedAt = 1,
     SS_LastActivity = 1, SS_IsInitialized = True, SS_SSEConnections = []\<rparr>"
  "ls_table (sa_stdioProxy (ex_stdio_state pid)) = [pid \<mapsto> \<lparr>RP_Command = ''srv'', RP_Args = [], RP_Env = [], RP_tempDir = [],
     RP_stdin = [], RP_stdin_open = True\<rparr>]" "ls_processes (sa_stdioProxy (ex_stdio_state pid)) = Map.empty"
  by (simp_all add: ex_stdio_state_def)

theorem dead_session_never_recovers_witness:
  "\<exists>st' h e. Stdio_HandleRequest ex_stdio_env ex_stdio_request (ex_w_adapter []) (ex_stdio_state 3) = Some (st', h, Inl e) \<and>
     ls_processes (sa_stdioProxy st') = Map.empty"
  using dead_session_never_recovers [of ex_stdio_env ex_stdio_request "''s1''" "''body''" "ex_call 1" "ex_stdio_state 3" _ 3 "''broken pipe''" "ex_w_adapter []"]
  by fastforce

definition ex_decode_line :: "string \<Rightarrow> JSONRPCMessage result" where
  "ex_decode_line b = (if b = ''body'' then Inr (ex_call 1) else Inr (ex_reply (Float64 1)))"

definition ex_echo_env :: stdio_http_env where
  "ex_echo_env = ex_stdio_env\<lparr>sx_decode := ex_decode_line,
     sx_wait := \<lambda>s. (listener_line (ex_stdio_env\<lparr>sx_decode := ex_decode_line\<rparr>) ''s1'' ''line'' s, Response_ready)\<rparr>"

lemma ex_echo_env_simps:
  "sx_missing ex_echo_env = None" "sx_decode ex_echo_env = ex_decode_line" "sx_marshal ex_echo_env m = Inr ''call''"
  "so_write_err (sx_os ex_echo_env) 7 = None"
  "sx_wait ex_echo_env s = (listener_line ex_echo_env ''s1'' ''line'' s, Response_ready)"
  by (simp_all add: ex_echo_env_def listener_line_def handleStdioMessage_def split: sum.split)

theorem stdio_request_response_witness:
  "\<exists>st'. Stdio_HandleRequest ex_echo_env ex_stdio_request (ex_w_adapter []) (ex_stdio_state 7) =
      Some (st', json_headers Map.empty, Inr (Json_reply (ex_reply (Float64 1)))) \<and>
     map_option RP_stdin (ls_table (sa_stdioProxy st') 7) = Some [''call'']"
proof -
  let ?session = "\<lparr>SS_ID = ''s1'', SS_AdapterName = ''w'', SS_Process = Some 7, SS_CreatedAt = 1, SS_LastActivity = 1,
     SS_IsInitialized = True, SS_SSEConnections = []\<rparr>"
  let ?proc = "\<lparr>RP_Command = ''srv'', RP_Args = [], RP_Env = [], RP_tempDir = [], RP_stdin = [], RP_stdin_open = True\<rparr>"
  have "\<exists>st'. Stdio_HandleRequest ex_echo_env ex_stdio_request (ex_w_adapter []) (ex_stdio_state 7) =
      Some (st', json_headers Map.empty, Inr (Json_reply (ex_reply (Float64 1)))) \<and>
    map_option RP_stdin (ls_table (sa_stdioProxy st') 7) = Some (RP_stdin ?proc @ [''call'']) \<and>
    co_pending (pa_co st') = (co_pending (pa_co (ex_stdio_state 7)))(getRequestID (sx_fmt ex_echo_env) (ex_call 1) := None)"
  proof (rule stdio_request_response)
    show "sx_decode ex_echo_env ''body'' = Inr (ex_call 1)" "sx_decode ex_echo_env ''line'' = Inr (ex_reply (Float64 1))"
      by (simp_all add: ex_echo_env_simps ex_decode_line_def)
    show "JM_Method (ex_call 1) \<noteq> ''initialize''" "\<not> HasPrefix (JM_Method (ex_call 1)) ''notifications/''"
      by (simp_all add: ex_call_def HasPrefix_def)
    show "getRequestID (sx_fmt ex_echo_env) (ex_reply (Float64 1)) = getRequestID (sx_fmt ex_echo_env) (ex_call 1)"
      by (simp add: getRequestID_def ex_call_def ex_reply_def)
    show "sa_sessions (ex_stdio_state 7) ''s1'' = Some ?session" "ls_table (sa_stdioProxy (ex_stdio_state 7)) 7 = Some ?proc" by simp_all
  qed (simp_all add: ex_echo_env_simps ex_IDs)
  then show ?thesis by auto
qed

end
