(* ===== verification/RemoteProxy.thy ===== *)
theory RemoteProxy
  imports ProxySessions
begin

section \<open>Servers that are remote\<close>

text \<open>
  Two proxies for remote servers. \<open>RemoteHTTPProxyAdapter\<close> (\<open>pkg/proxy/remote_http_proxy_adapter.go\<close>) keeps sessions, each
  with the URL and the credentials of the adapter that it was made for, matches responses with requests and relays the
  server's stream of events. \<open>RemoteHttpProxyPlugin\<close> (\<open>pkg/proxy/remote_http.go\<close>) keeps no state and passes a client's
  request on. The network is a function of the environment.
\<close>

subsection \<open>Authentication\<close>

text \<open>Both have the functions of the message router, but read the location of an API key without regard to case, and have
  errors of their own for OAuth.\<close>

definition lower_location :: "AdapterAuthConfig \<Rightarrow> AdapterAuthConfig" where
  "lower_location auth = auth\<lparr>AAC_APIKey := map_option (\<lambda>k. k\<lparr>AK_Location := ToLower (AK_Location k)\<rparr>) (AAC_APIKey auth)\<rparr>"

definition remote_applyAuthentication ::
    "(AdapterAuthConfig \<Rightarrow> error) \<Rightarrow> AdapterAuthConfig option \<Rightarrow> forwarded \<Rightarrow> forwarded result" where
  "remote_applyAuthentication applyOAuthAuth config req =
     (case config of
        None \<Rightarrow> Inr req
      | Some auth \<Rightarrow>
          if \<not> AAC_Required auth then Inr req
          else if AAC_Type auth = ''bearer'' then applyBearerAuth auth req
          else if AAC_Type auth = ''oauth'' then Inl (applyOAuthAuth auth)
          else if AAC_Type auth = ''basic'' then applyBasicAuth auth req
          else if AAC_Type auth = ''apikey'' then applyAPIKeyAuth (lower_location auth) req
          else Inl (''unsupported authentication type: '' @ AAC_Type auth))"

definition RemoteHTTP_applyAuthentication :: "AdapterAuthConfig option \<Rightarrow> forwarded \<Rightarrow> forwarded result" where
  "RemoteHTTP_applyAuthentication =
     remote_applyAuthentication (\<lambda>auth. ''OAuth authentication not yet implemented for request signing'')"

definition plugin_applyOAuthAuth :: "AdapterAuthConfig \<Rightarrow> error" where
  "plugin_applyOAuthAuth auth =
     (case AAC_OAuth auth of
        None \<Rightarrow> ''OAuth configuration not found''
      | Some oauth \<Rightarrow>
          if OA_ClientID oauth = [] \<or> OA_ClientSecret oauth = [] \<or> OA_TokenURL oauth = []
          then ''OAuth configuration incomplete: missing client credentials or token URL''
          else ''OAuth token acquisition not yet implemented - configure with pre-acquired access token using bearer auth type'')"

definition applyBackendAuthentication :: "AdapterAuthConfig option \<Rightarrow> forwarded \<Rightarrow> forwarded result" where
  "applyBackendAuthentication = remote_applyAuthentication plugin_applyOAuthAuth"

subsection \<open>Sessions of the adapter\<close>

record RemoteHTTPSession =
  RS_ID :: string
  RS_AdapterName :: string
  RS_RemoteURL :: string
  RS_CreatedAt :: gotime
  RS_LastActivity :: gotime
  RS_IsInitialized :: bool
  RS_SSEConnections :: "string list"
  RS_AuthConfig :: "AdapterAuthConfig option"

record RemoteHTTPProxyAdapter = proxy_adapter +
  rh_sessions :: "string \<rightharpoonup> RemoteHTTPSession"

definition NewRemoteHTTPProxyAdapter :: "InMemorySessionStore \<Rightarrow> RemoteHTTPProxyAdapter" where
  "NewRemoteHTTPProxyAdapter sessionStore =
     \<lparr>pa_sessionStore = sessionStore, pa_co = no_pending, pa_streams = Map.empty, rh_sessions = Map.empty\<rparr>"

text \<open>\<open>rx_missing\<close> is the error when the session store or the router is nil, \<open>rx_new_request\<close> that of making a request for a
  URL, \<open>rx_uuid\<close> and \<open>rx_conn\<close> new identifiers, \<open>rx_request\<close> the number of the handler; \<open>rx_now\<close>, \<open>rx_now'\<close> and \<open>rx_set\<close>
  are the readings of the clock. A server answers a request while nothing else happens.\<close>

record remote_env =
  rx_missing :: "error option"
  rx_decode :: "string \<Rightarrow> JSONRPCMessage result"
  rx_marshal :: "JSONRPCMessage \<Rightarrow> string result"
  rx_fmt :: "any \<Rightarrow> string"
  rx_uuid :: string
  rx_now :: gotime
  rx_now' :: gotime
  rx_set :: gotime
  rx_request :: nat
  rx_conn :: string
  rx_new_request :: "string \<Rightarrow> error option"
  rx_send :: "forwarded \<Rightarrow> sent"
  rx_wait :: "RemoteHTTPProxyAdapter \<Rightarrow> RemoteHTTPProxyAdapter \<times> select_case"

definition RemoteHTTP_generateSessionID :: "string \<Rightarrow> string" where
  "RemoteHTTP_generateSessionID uuid = ''remote-http-'' @ uuid"

definition RemoteHTTP_getSession :: "string \<Rightarrow> RemoteHTTPProxyAdapter \<Rightarrow> RemoteHTTPSession option" where
  "RemoteHTTP_getSession sid st = rh_sessions st sid"

definition RemoteHTTP_getOrCreateSession ::
    "gotime \<Rightarrow> gotime \<Rightarrow> gotime \<Rightarrow> string \<Rightarrow> AdapterResource \<Rightarrow> RemoteHTTPProxyAdapter \<Rightarrow>
     RemoteHTTPProxyAdapter \<times> RemoteHTTPSession" where
  "RemoteHTTP_getOrCreateSession now now' now'' sid adapter st =
     (case rh_sessions st sid of
        Some session \<Rightarrow>
          (let session' = session\<lparr>RS_LastActivity := now\<rparr> in (st\<lparr>rh_sessions := (rh_sessions st)(sid \<mapsto> session')\<rparr>, session'))
      | None \<Rightarrow>
          (let session = \<lparr>RS_ID = sid, RS_AdapterName = AD_Name adapter, RS_RemoteURL = AD_RemoteUrl adapter, RS_CreatedAt = now,
                 RS_LastActivity = now', RS_IsInitialized = False, RS_SSEConnections = [],
                 RS_AuthConfig = AD_Authentication adapter\<rparr>
           in (st\<lparr>rh_sessions := (rh_sessions st)(sid \<mapsto> session),
                  pa_sessionStore := fst (SetWithDetails now'' sid (AD_Name adapter) [] ''remote-http'' (pa_sessionStore st))\<rparr>, session)))"

definition set_remote_session :: "string \<Rightarrow> (RemoteHTTPSession \<Rightarrow> RemoteHTTPSession) \<Rightarrow> RemoteHTTPProxyAdapter \<Rightarrow> RemoteHTTPProxyAdapter" where
  "set_remote_session sid f st = st\<lparr>rh_sessions := (rh_sessions st)(sid := map_option f (rh_sessions st sid))\<rparr>"

definition handleRemoteMessage :: "remote_env \<Rightarrow> string \<Rightarrow> JSONRPCMessage \<Rightarrow> RemoteHTTPProxyAdapter \<Rightarrow> RemoteHTTPProxyAdapter" where
  "handleRemoteMessage E sid message st =
     handle_server_message (rx_fmt E) (rx_marshal E)
       (case rh_sessions st sid of None \<Rightarrow> [] | Some session \<Rightarrow> RS_SSEConnections session) message st"

subsection \<open>Requests to the server\<close>

text \<open>The guard before the credentials is the one that \<open>applyAuthentication\<close> repeats. \<open>proxyToRemote\<close> is only called for
  messages, not for streams.\<close>

definition authenticated :: "remote_env \<Rightarrow> RemoteHTTPSession \<Rightarrow> string \<Rightarrow> headers \<Rightarrow> string \<Rightarrow> sent result" where
  "authenticated E session httpMethod h body =
     (case RemoteHTTP_applyAuthentication (RS_AuthConfig session)
             \<lparr>FW_Method = httpMethod, FW_URL = RS_RemoteURL session, FW_Header = h, FW_Body = body\<rparr> of
        Inl err \<Rightarrow> Inl (''failed to apply authentication: '' @ err)
      | Inr req \<Rightarrow> Inr (rx_send E req))"

definition proxyToRemote ::
    "remote_env \<Rightarrow> RemoteHTTPSession \<Rightarrow> JSONRPCMessage \<Rightarrow> RemoteHTTPProxyAdapter \<Rightarrow> RemoteHTTPProxyAdapter \<times> error option" where
  "proxyToRemote E session message st =
     (case rx_marshal E message of
        Inl err \<Rightarrow> (st, Some (''failed to marshal message: '' @ err))
      | Inr data \<Rightarrow>
     case rx_new_request E (RS_RemoteURL session) of
        Some err \<Rightarrow> (st, Some (''failed to create request: '' @ err))
      | None \<Rightarrow>
     case authenticated E session ''POST''
            (header_Set ''Mcp-Session-Id'' (RS_ID session) (header_Set ''Accept'' ''application/json, text/event-stream''
              (header_Set ''Content-Type'' ''application/json'' Map.empty))) data of
        Inl err \<Rightarrow> (st, Some err)
      | Inr (Bad_request err) \<Rightarrow> (st, Some (''failed to send request: '' @ err))
      | Inr (Unreachable err) \<Rightarrow> (st, Some (''failed to send request: '' @ err))
      | Inr (Answered resp) \<Rightarrow>
          if PX_Status resp < 200 \<or> 300 \<le> PX_Status resp
          then (st, Some (''remote server returned status '' @ show_int (PX_Status resp)))
          else (case PX_Error resp of
            Some err \<Rightarrow> (st, Some (''failed to read response: '' @ err))
          | None \<Rightarrow>
              (case rx_decode E (PX_Body resp) of
                 Inl err \<Rightarrow> (st, Some (''failed to parse response: '' @ err))
               | Inr response \<Rightarrow> (handleRemoteMessage E (RS_ID session) response st, None))))"

definition RemoteHTTP_handleNotification ::
    "remote_env \<Rightarrow> JSONRPCMessage \<Rightarrow> string \<Rightarrow> RemoteHTTPProxyAdapter \<Rightarrow> RemoteHTTPProxyAdapter \<times> headers \<times> proxy_reply result" where
  "RemoteHTTP_handleNotification E message sid st =
     (if sid = [] then (st, Map.empty, Inl ''session ID required for notifications'')
      else case RemoteHTTP_getSession sid st of
        None \<Rightarrow> (st, Map.empty, Inl (''session not found: '' @ sid))
      | Some session \<Rightarrow>
          (case proxyToRemote E session message (set_remote_session sid (\<lambda>s. s\<lparr>RS_LastActivity := rx_now E\<rparr>) st) of
             (st', Some err) \<Rightarrow> (st', Map.empty, Inl (''failed to send notification to remote server: '' @ err))
           | (st', None) \<Rightarrow> (st', header_Set ''Content-Type'' ''application/json'' Map.empty, Inr Notification_sent)))"

definition RemoteHTTP_handleRegularRequest ::
    "remote_env \<Rightarrow> JSONRPCMessage \<Rightarrow> string \<Rightarrow> RemoteHTTPProxyAdapter \<Rightarrow>
     (RemoteHTTPProxyAdapter \<times> headers \<times> proxy_reply result) option" where
  "RemoteHTTP_handleRegularRequest E message sid st =
     (if sid = [] then Some (st, Map.empty, Inl ''session ID required for non-initialize requests'')
      else case RemoteHTTP_getSession sid st of
        None \<Rightarrow> Some (st, Map.empty, Inl (''session not found: '' @ sid))
      | Some session \<Rightarrow>
          map_option (\<lambda>(st', r). case r of
              Inl err \<Rightarrow> (st', Map.empty, Inl err)
            | Inr response \<Rightarrow> (st', header_Set ''Content-Type'' ''application/json'' Map.empty, Inr (Json_reply response)))
            (await_response (rx_fmt E) (rx_request E) message ''failed to send to remote server: '' ''request timeout after 30s''
               ''client disconnected'' (proxyToRemote E session message) (rx_wait E)
               (set_remote_session sid (\<lambda>s. s\<lparr>RS_LastActivity := rx_now E\<rparr>) st)))"

definition forwardInitializeToRemote ::
    "remote_env \<Rightarrow> headers \<Rightarrow> RemoteHTTPSession \<Rightarrow> JSONRPCMessage \<Rightarrow> RemoteHTTPProxyAdapter \<Rightarrow>
     (RemoteHTTPProxyAdapter \<times> headers \<times> proxy_reply result) option" where
  "forwardInitializeToRemote E h session message st =
     map_option (\<lambda>(st', r). case r of
         Inl err \<Rightarrow> (st', h, Inl err)
       | Inr response \<Rightarrow> (st', header_Set ''Content-Type'' ''application/json'' h, Inr (Json_reply response)))
       (await_response (rx_fmt E) (rx_request E) message ''failed to send initialize to remote server: ''
          ''initialize timeout after 30s'' ''client disconnected during initialize'' (proxyToRemote E session message) (rx_wait E) st)"

definition RemoteHTTP_handleInitialize ::
    "remote_env \<Rightarrow> JSONRPCMessage \<Rightarrow> AdapterResource \<Rightarrow> string \<Rightarrow> RemoteHTTPProxyAdapter \<Rightarrow>
     (RemoteHTTPProxyAdapter \<times> headers \<times> proxy_reply result) option" where
  "RemoteHTTP_handleInitialize E message adapter sid0 st =
     (let sid = (if sid0 = [] then RemoteHTTP_generateSessionID (rx_uuid E) else sid0);
          h = (if sid0 = [] then header_Set ''Mcp-Session-Id'' sid Map.empty else Map.empty);
          (st1, session) = RemoteHTTP_getOrCreateSession (rx_now E) (rx_now' E) (rx_set E) sid adapter st
      in forwardInitializeToRemote E h session message st1)"

subsection \<open>Streams\<close>

text \<open>The handler of a stream opens it and starts a goroutine that relays the server's; when its client is gone the connection
  is removed.\<close>

definition RemoteHTTP_handleSSEStream ::
    "remote_env \<Rightarrow> client_request \<Rightarrow> AdapterResource \<Rightarrow> string \<Rightarrow> RemoteHTTPProxyAdapter \<Rightarrow>
     RemoteHTTPProxyAdapter \<times> headers \<times> proxy_reply result" where
  "RemoteHTTP_handleSSEStream E c adapter sid0 st =
     (let sid = (if sid0 = [] then RemoteHTTP_generateSessionID (rx_uuid E) else sid0);
          h = (if sid0 = [] then header_Set ''Mcp-Session-Id'' sid Map.empty else Map.empty);
          (st1, session) = RemoteHTTP_getOrCreateSession (rx_now E) (rx_now' E) (rx_set E) sid adapter st
      in ((set_remote_session sid (\<lambda>s. s\<lparr>RS_SSEConnections := rx_conn E # RS_SSEConnections s\<rparr>) st1)
            \<lparr>pa_streams := (pa_streams st1)(rx_conn E \<mapsto> [])\<rparr>, stream_headers c h, Inr (Stream_opened (rx_conn E))))"

definition RemoteHTTP_stream_closed :: "string \<Rightarrow> string \<Rightarrow> RemoteHTTPProxyAdapter \<Rightarrow> RemoteHTTPProxyAdapter" where
  "RemoteHTTP_stream_closed sid conn st =
     set_remote_session sid (\<lambda>s. s\<lparr>RS_SSEConnections := removeAll conn (RS_SSEConnections s)\<rparr>) st"

definition relay_line :: "remote_env \<Rightarrow> string \<Rightarrow> string \<Rightarrow> string \<Rightarrow> RemoteHTTPProxyAdapter \<Rightarrow> RemoteHTTPProxyAdapter" where
  "relay_line E sid conn line st =
     (if line = [] then st
      else if HasPrefix line ''data: '' then
        (case rx_decode E (TrimPrefix line ''data: '') of
           Inl err \<Rightarrow> st
         | Inr message \<Rightarrow> write_stream conn (line @ [CHR 0x0A]) (handleRemoteMessage E sid message st))
      else write_stream conn (line @ [CHR 0x0A]) st)"

definition startSSEProxy :: "remote_env \<Rightarrow> RemoteHTTPSession \<Rightarrow> string \<Rightarrow> RemoteHTTPProxyAdapter \<Rightarrow> RemoteHTTPProxyAdapter" where
  "startSSEProxy E session conn st =
     (case rx_new_request E (RS_RemoteURL session) of
        Some err \<Rightarrow> st
      | None \<Rightarrow>
     case authenticated E session ''GET''
            (header_Set ''Mcp-Session-Id'' (RS_ID session) (header_Set ''Cache-Control'' ''no-cache''
              (header_Set ''Accept'' ''text/event-stream'' Map.empty))) [] of
        Inr (Answered resp) \<Rightarrow>
          if PX_Status resp \<noteq> 200 then st else fold (relay_line E (RS_ID session) conn) (scanned_lines (PX_Body resp)) st
      | _ \<Rightarrow> st)"

subsection \<open>Requests of clients\<close>

definition RemoteHTTP_HandleRequest ::
    "remote_env \<Rightarrow> client_request \<Rightarrow> AdapterResource \<Rightarrow> RemoteHTTPProxyAdapter \<Rightarrow>
     (RemoteHTTPProxyAdapter \<times> headers \<times> proxy_reply result) option" where
  "RemoteHTTP_HandleRequest E c adapter st =
     (case rx_missing E of
        Some err \<Rightarrow> Some (st, Map.empty, Inl err)
      | None \<Rightarrow>
     (let sid = proxy_session_ID c in
      if CQ_Header c ''Accept'' = ''text/event-stream'' then Some (RemoteHTTP_handleSSEStream E c adapter sid st)
      else case CQ_Body c of
        Inl err \<Rightarrow> Some (st, Map.empty, Inl (''failed to read request body: '' @ err))
      | Inr body \<Rightarrow>
          (case rx_decode E body of
             Inl err \<Rightarrow> Some (st, Map.empty, Inl (''failed to parse JSON-RPC message: '' @ err))
           | Inr message \<Rightarrow>
               if JM_Method message = ''initialize'' then RemoteHTTP_handleInitialize E message adapter sid st
               else if HasPrefix (JM_Method message) ''notifications/'' then Some (RemoteHTTP_handleNotification E message sid st)
               else RemoteHTTP_handleRegularRequest E message sid st)))"

definition RemoteHTTP_CanHandle :: "string \<Rightarrow> bool" where
  "RemoteHTTP_CanHandle connectionType \<longleftrightarrow> connectionType = ConnectionTypeRemoteHttp"

definition RemoteHTTP_GetStatus :: "gotime \<Rightarrow> string list \<Rightarrow> RemoteHTTPProxyAdapter \<Rightarrow> string" where
  "RemoteHTTP_GetStatus now ks st = proxy_status now (map RS_LastActivity (range_values (rh_sessions st) ks))"

definition RemoteHTTP_GetLogs :: "AdapterResource \<Rightarrow> RemoteHTTPProxyAdapter \<Rightarrow> string" where
  "RemoteHTTP_GetLogs adapter st = ''Remote HTTP Proxy Adapter for '' @ AD_Name adapter @ [CHR 0x0A] @ ''Active Sessions: '' @
     show_int (int (card (dom (rh_sessions st)))) @ [CHR 0x0A]"

text \<open>The argument is an adapter's ID, the map's keys are session IDs. The writers' status cannot change any more.\<close>

definition RemoteHTTP_Cleanup :: "string \<Rightarrow> RemoteHTTPProxyAdapter \<Rightarrow> RemoteHTTPProxyAdapter" where
  "RemoteHTTP_Cleanup adapterID st =
     (case rh_sessions st adapterID of
        None \<Rightarrow> st
      | Some session \<Rightarrow> st\<lparr>rh_sessions := (rh_sessions st)(adapterID := None)\<rparr>)"

subsection \<open>Lemmas\<close>

interpretation remote_sessions: session_table RemoteHTTP_getSession "RemoteHTTP_getOrCreateSession t1 t2 t3" RS_AdapterName
  for t1 t2 t3
  by unfold_locales (auto simp: RemoteHTTP_getSession_def RemoteHTTP_getOrCreateSession_def Let_def split: option.splits)

lemma set_remote_session_simps [simp]:
  "rh_sessions (set_remote_session sid f st) = (rh_sessions st)(sid := map_option f (rh_sessions st sid))"
  "pa_co (set_remote_session sid f st) = pa_co st" "pa_streams (set_remote_session sid f st) = pa_streams st"
  by (simp_all add: set_remote_session_def)

lemma get_existing_session:
  "rh_sessions st sid = Some session \<Longrightarrow>
   RemoteHTTP_getOrCreateSession t1 t2 t3 sid adapter st = RemoteHTTP_getOrCreateSession t1 t2 t3 sid adapter' st"
  by (simp add: RemoteHTTP_getOrCreateSession_def)

lemma rh_sessions_write_stream [simp]: "rh_sessions (write_stream conn t st) = rh_sessions st"
  by (simp add: write_stream_def split: option.split)

lemma rh_sessions_fold [simp]: "rh_sessions (fold (\<lambda>conn. write_stream conn t) conns st) = rh_sessions st"
  by (induction conns arbitrary: st) simp_all

lemma rh_sessions_broadcast [simp]: "rh_sessions (broadcastToSSE marshal conns m st) = rh_sessions st"
  by (simp add: broadcastToSSE_def split: sum.split)

lemma rh_sessions_handleRemoteMessage [simp]: "rh_sessions (handleRemoteMessage E sid m st) = rh_sessions st"
  by (simp add: handleRemoteMessage_def handle_server_message_def split: option.split)

text \<open>What a request of a session sends.\<close>

lemma proxyToRemote_answered:
  assumes "rx_marshal E message = Inr data" and "rx_new_request E (RS_RemoteURL session) = None"
    and "authenticated E session ''POST'' (header_Set ''Mcp-Session-Id'' (RS_ID session)
       (header_Set ''Accept'' ''application/json, text/event-stream'' (header_Set ''Content-Type'' ''application/json'' Map.empty))) data
       = Inr (Answered resp)"
    and "200 \<le> PX_Status resp" and "PX_Status resp < 300" and "PX_Error resp = None"
  shows "proxyToRemote E session message st =
    (case rx_decode E (PX_Body resp) of
       Inl err \<Rightarrow> (st, Some (''failed to parse response: '' @ err))
     | Inr response \<Rightarrow> (handleRemoteMessage E (RS_ID session) response st, None))"
  using assms by (simp add: proxyToRemote_def)

text \<open>A session stays with the adapter that it was made for. Whatever adapter a later request with its ID is for, the
  outcome is the same: the message goes to the URL of the first adapter, with that adapter's credentials, and the
  answer comes from there.\<close>

theorem remote_session_keeps_first_adapter:
  assumes "proxy_session_ID c = sid" and "sid \<noteq> []" and "rh_sessions st sid = Some session"
  shows "RemoteHTTP_HandleRequest E c adapter st = RemoteHTTP_HandleRequest E c adapter' st"
proof -
  note same = get_existing_session [OF assms(3), of _ _ _ adapter adapter']
  have "RemoteHTTP_handleInitialize E m adapter sid st = RemoteHTTP_handleInitialize E m adapter' sid st" for m
    using assms(2) by (simp add: RemoteHTTP_handleInitialize_def same)
  moreover have "RemoteHTTP_handleSSEStream E c adapter sid st = RemoteHTTP_handleSSEStream E c adapter' sid st"
    using assms(2) by (simp add: RemoteHTTP_handleSSEStream_def same)
  ultimately show ?thesis using assms(1) by (simp add: RemoteHTTP_HandleRequest_def split: option.split sum.split)
qed

text \<open>A server that accepts a notification has it reported as failed. The protocol's answer to a notification is status 202
  without a body; the proxy decodes the body of every response, and an empty text is no JSON.\<close>

theorem accepted_notification_is_an_error:
  assumes "rx_missing E = None" and "CQ_Header c ''Accept'' \<noteq> ''text/event-stream''" and "proxy_session_ID c = sid" and "sid \<noteq> []"
    and "CQ_Body c = Inr body" and "rx_decode E body = Inr message" and "HasPrefix (JM_Method message) ''notifications/''"
    and "rh_sessions st sid = Some session" and "rx_marshal E message = Inr data"
    and "rx_new_request E (RS_RemoteURL session) = None" and "\<And>req. rx_send E req = Answered resp"
    and "RS_AuthConfig session = None" and "PX_Status resp = 202" and "PX_Body resp = []" and "PX_Error resp = None"
    and "rx_decode E [] = Inl no_json"
  shows "\<exists>st'. RemoteHTTP_HandleRequest E c adapter st =
    Some (st', Map.empty, Inl (''failed to send notification to remote server: failed to parse response: '' @ no_json))"
proof -
  have m: "JM_Method message \<noteq> ''initialize''" using assms(7) by (auto simp: HasPrefix_def)
  have "authenticated E session ''POST'' h data = Inr (Answered resp)" for h
    using assms(11,12) by (simp add: authenticated_def RemoteHTTP_applyAuthentication_def remote_applyAuthentication_def)
  from proxyToRemote_answered [OF assms(9,10) this] assms(13-16)
  have "proxyToRemote E session message s = (s, Some (''failed to parse response: '' @ no_json))" for s by simp
  then show ?thesis using assms m by (simp add: RemoteHTTP_HandleRequest_def RemoteHTTP_handleNotification_def RemoteHTTP_getSession_def)
qed

text \<open>A request gets its server's response. If the server of the session answers with a success whose body is a message with
  an ID that reads as the request's, the client gets this message, and nothing is pending under the ID any more.\<close>

theorem remote_request_response:
  assumes "rx_missing E = None" and "CQ_Header c ''Accept'' \<noteq> ''text/event-stream''" and "proxy_session_ID c = sid" and "sid \<noteq> []"
    and "CQ_Body c = Inr body" and "rx_decode E body = Inr message"
    and "JM_Method message \<noteq> ''initialize''" and "\<not> HasPrefix (JM_Method message) ''notifications/''"
    and "rh_sessions st sid = Some session" and "rx_marshal E message = Inr data"
    and "rx_new_request E (RS_RemoteURL session) = None"
    and "authenticated E session ''POST'' (header_Set ''Mcp-Session-Id'' (RS_ID session)
       (header_Set ''Accept'' ''application/json, text/event-stream'' (header_Set ''Content-Type'' ''application/json'' Map.empty))) data
       = Inr (Answered resp)"
    and "200 \<le> PX_Status resp" and "PX_Status resp < 300" and "PX_Error resp = None"
    and "rx_decode E (PX_Body resp) = Inr response" and "JM_ID response \<noteq> Nil_value"
    and "getRequestID (rx_fmt E) response = getRequestID (rx_fmt E) message"
    and "\<And>s. rx_wait E s = (s, Response_ready)"
  shows "\<exists>st'. RemoteHTTP_HandleRequest E c adapter st =
      Some (st', header_Set ''Content-Type'' ''application/json'' Map.empty, Inr (Json_reply response)) \<and>
    co_pending (pa_co st') = (co_pending (pa_co st))(getRequestID (rx_fmt E) message := None)"
proof -
  let ?k = "getRequestID (rx_fmt E) message" and ?r = "rx_request E"
  let ?st1 = "set_remote_session sid (\<lambda>s. s\<lparr>RS_LastActivity := rx_now E\<rparr>) st"
  let ?st2 = "?st1\<lparr>pa_co := register_request ?k ?r (pa_co ?st1)\<rparr>"
  let ?co = "(pa_co ?st2)\<lparr>co_buffer := (co_buffer (pa_co ?st2))(?r \<mapsto> Some response)\<rparr>"
  have "deliver_response (rx_fmt E) response (pa_co ?st2) = Some ?co" using assms(17,18) by (simp add: deliver_response_def)
  then have "handleRemoteMessage E (RS_ID session) response ?st2 = ?st2\<lparr>pa_co := ?co\<rparr>"
    by (simp add: handleRemoteMessage_def handle_server_message_def)
  with proxyToRemote_answered [OF assms(10-15)] assms(16)
  have send: "proxyToRemote E session message ?st2 = (?st2\<lparr>pa_co := ?co\<rparr>, None)" by simp
  have "RemoteHTTP_HandleRequest E c adapter st = RemoteHTTP_handleRegularRequest E message sid st"
    using assms(1-8) by (simp add: RemoteHTTP_HandleRequest_def Let_def)
  then have "RemoteHTTP_HandleRequest E c adapter st =
      Some (?st2\<lparr>pa_co := unregister_request ?k (?co\<lparr>co_buffer := (co_buffer ?co)(?r \<mapsto> None)\<rparr>)\<rparr>,
        header_Set ''Content-Type'' ''application/json'' Map.empty, Inr (Json_reply response))"
    using assms(4,9,19) send
    by (simp add: RemoteHTTP_handleRegularRequest_def RemoteHTTP_getSession_def await_response_def receive_response_def Let_def)
  then show ?thesis by simp
qed

subsection \<open>The relayed stream\<close>

lemma handleRemoteMessage_unsolicited:
  assumes "rh_sessions st sid = Some session" and "RS_SSEConnections session = [conn]" and "pa_streams st conn = Some old"
    and "JM_ID message = Nil_value" and "rx_marshal E message = Inr data"
  shows "pa_streams (handleRemoteMessage E sid message st) conn = Some (old @ sse_event ''message'' data)"
  using assms by (simp add: handleRemoteMessage_def handle_server_message_def deliver_response_def broadcastToSSE_def write_stream_def)

lemma relay_line_sessions [simp]: "rh_sessions (relay_line E sid conn line st) = rh_sessions st"
  by (simp add: relay_line_def split: sum.split)

lemma relay_unsolicited:
  assumes "rh_sessions st sid = Some session" and "RS_SSEConnections session = [conn]" and "pa_streams st conn = Some old"
    and "HasPrefix line ''data: ''" and "rx_decode E (TrimPrefix line ''data: '') = Inr message"
    and "JM_ID message = Nil_value" and "rx_marshal E message = Inr data"
  shows "pa_streams (relay_line E sid conn line st) conn = Some (old @ sse_event ''message'' data @ line @ [CHR 0x0A])"
  using handleRemoteMessage_unsolicited [OF assms(1-3,6,7)] assms(4,5)
  by (simp add: relay_line_def write_stream_def HasPrefix_def) auto

lemma relay_lines:
  assumes "rh_sessions st sid = Some session" and "RS_SSEConnections session = [conn]" and "pa_streams st conn = Some old"
    and "\<And>line. line \<in> set ls \<Longrightarrow> line \<noteq> [] \<Longrightarrow> HasPrefix line ''data: '' \<and>
      (\<exists>m. rx_decode E (TrimPrefix line ''data: '') = Inr m \<and> JM_ID m = Nil_value \<and> rx_marshal E m = Inr (text_of line))"
  shows "pa_streams (fold (relay_line E sid conn) ls st) conn =
    Some (old @ concat (map (\<lambda>line. sse_event ''message'' (text_of line) @ line @ [CHR 0x0A]) (filter (\<lambda>l. l \<noteq> []) ls)))"
  using assms
proof (induction ls arbitrary: st old)
  case Nil
  then show ?case by simp
next
  case (Cons line ls)
  show ?case
  proof (cases "line = []")
    case True
    then have "relay_line E sid conn line st = st" by (simp add: relay_line_def)
    then show ?thesis using True Cons by simp
  next
    case False
    with Cons.prems(4) obtain m where m: "HasPrefix line ''data: ''" "rx_decode E (TrimPrefix line ''data: '') = Inr m"
      "JM_ID m = Nil_value" "rx_marshal E m = Inr (text_of line)" by auto
    from relay_unsolicited [OF Cons.prems(1-3) m]
      Cons.IH [of "relay_line E sid conn line st" "old @ sse_event ''message'' (text_of line) @ line @ [CHR 0x0A]"]
    show ?thesis using False Cons.prems by simp
  qed
qed

text \<open>A client of a relayed stream sees each message of its server twice. If the lines of the server's stream, its blank lines
  apart, are messages that nobody waits for, the only client of the session gets for each line a complete event with the
  message and then the line again; the blank lines, which end an event, are left out.\<close>

theorem relayed_stream_repeats_messages:
  assumes "rh_sessions st (RS_ID session) = Some session" and "RS_SSEConnections session = [conn]" and "pa_streams st conn = Some old"
    and "rx_new_request E (RS_RemoteURL session) = None" and "RS_AuthConfig session = None"
    and "\<And>req. rx_send E req = Answered resp" and "PX_Status resp = 200"
    and "\<And>line. line \<in> set (scanned_lines (PX_Body resp)) \<Longrightarrow> line \<noteq> [] \<Longrightarrow> HasPrefix line ''data: '' \<and>
      (\<exists>m. rx_decode E (TrimPrefix line ''data: '') = Inr m \<and> JM_ID m = Nil_value \<and> rx_marshal E m = Inr (text_of line))"
  shows "pa_streams (startSSEProxy E session conn st) conn = Some (old @ concat (map
    (\<lambda>line. sse_event ''message'' (text_of line) @ line @ [CHR 0x0A]) (filter (\<lambda>l. l \<noteq> []) (scanned_lines (PX_Body resp)))))"
proof -
  have "authenticated E session ''GET'' h [] = Inr (Answered resp)" for h
    using assms(5,6) by (simp add: authenticated_def RemoteHTTP_applyAuthentication_def remote_applyAuthentication_def)
  then have "startSSEProxy E session conn st = fold (relay_line E (RS_ID session) conn) (scanned_lines (PX_Body resp)) st"
    using assms(4,7) by (simp add: startSSEProxy_def)
  then show ?thesis using relay_lines [OF assms(1-3,8)] by simp
qed

subsection \<open>Examples\<close>

definition ex_remote_session :: RemoteHTTPSession where
  "ex_remote_session = \<lparr>RS_ID = ''s1'', RS_AdapterName = ''w'', RS_RemoteURL = ''http://w/mcp'', RS_CreatedAt = 1, RS_LastActivity = 1,
     RS_IsInitialized = False, RS_SSEConnections = [''c''], RS_AuthConfig = None\<rparr>"

definition ex_remote_state :: RemoteHTTPProxyAdapter where
  "ex_remote_state = (NewRemoteHTTPProxyAdapter NewInMemorySessionStore)
     \<lparr>rh_sessions := [''s1'' \<mapsto> ex_remote_session], pa_streams := [''c'' \<mapsto> []]\<rparr>"

definition ex_note :: JSONRPCMessage where
  "ex_note = (ex_call 1)\<lparr>JM_ID := Nil_value, JM_Method := ''notifications/progress''\<rparr>"

definition ex_remote_env :: "JSONRPCMessage \<Rightarrow> int \<Rightarrow> string \<Rightarrow> remote_env" where
  "ex_remote_env sent status body = \<lparr>rx_missing = None,
     rx_decode = (\<lambda>b. if b = [] then Inl ''unexpected end of JSON input'' else if b = ''call'' then Inr sent
       else if b = ''note'' then Inr ex_note else Inr (ex_reply (Float64 1))),
     rx_marshal = (\<lambda>m. Inr (if m = ex_note then ''note'' else ''call'')), rx_fmt = (\<lambda>x. []), rx_uuid = ''u'', rx_now = 5, rx_now' = 5, rx_set = 5,
     rx_request = 0, rx_conn = ''c'', rx_new_request = (\<lambda>u. None),
     rx_send = (\<lambda>f. Answered \<lparr>PX_Status = status, PX_Header = Map.empty, PX_Body = body, PX_Error = None\<rparr>),
     rx_wait = (\<lambda>s. (s, Response_ready))\<rparr>"

definition ex_remote_request :: client_request where
  "ex_remote_request = \<lparr>CQ_Method = ''POST'', CQ_Header = (\<lambda>k. if k = ''Mcp-Session-Id'' then ''s1'' else []), CQ_Query = (\<lambda>k. []),
     CQ_Body = Inr ''call''\<rparr>"

lemma ex_remote_request_simps [simp]:
  "CQ_Header ex_remote_request ''Accept'' = []" "proxy_session_ID ex_remote_request = ''s1''" "CQ_Body ex_remote_request = Inr ''call''"
  by (simp_all add: ex_remote_request_def proxy_session_ID_def)

lemma ex_remote_simps [simp]:
  "rh_sessions ex_remote_state ''s1'' = Some ex_remote_session" "pa_streams ex_remote_state ''c'' = Some []"
  "RS_ID ex_remote_session = ''s1''" "RS_RemoteURL ex_remote_session = ''http://w/mcp''" "RS_AuthConfig ex_remote_session = None"
  "RS_SSEConnections ex_remote_session = [''c'']" "JM_ID ex_note = Nil_value" "JM_Method ex_note = ''notifications/progress''"
  by (simp_all add: ex_remote_state_def ex_remote_session_def ex_note_def)

lemma ex_remote_env_simps [simp]:
  "rx_missing (ex_remote_env m n b) = None" "rx_new_request (ex_remote_env m n b) u = None"
  "rx_decode (ex_remote_env m n b) ''call'' = Inr m" "rx_decode (ex_remote_env m n b) [] = Inl ''unexpected end of JSON input''"
  "rx_decode (ex_remote_env m n b) ''note'' = Inr ex_note" "rx_decode (ex_remote_env m n b) ''reply'' = Inr (ex_reply (Float64 1))"
  "rx_marshal (ex_remote_env m n b) ex_note = Inr ''note''"
  "rx_marshal (ex_remote_env m n b) m' = Inr (if m' = ex_note then ''note'' else ''call'')"
  "rx_send (ex_remote_env m n b) f = Answered \<lparr>PX_Status = n, PX_Header = Map.empty, PX_Body = b, PX_Error = None\<rparr>"
  "rx_wait (ex_remote_env m n b) s = (s, Response_ready)"
  by (simp_all add: ex_remote_env_def)

theorem remote_session_keeps_first_adapter_witness:
  "RemoteHTTP_HandleRequest (ex_remote_env (ex_call 1) 200 ''reply'') ex_remote_request (ex_w_adapter ''http://other/mcp'') ex_remote_state =
   RemoteHTTP_HandleRequest (ex_remote_env (ex_call 1) 200 ''reply'') ex_remote_request (ex_w_adapter ''http://w/mcp'') ex_remote_state"
  by (rule remote_session_keeps_first_adapter [of _ "''s1''" _ ex_remote_session]) simp_all

theorem accepted_notification_is_an_error_witness:
  "\<exists>st'. RemoteHTTP_HandleRequest (ex_remote_env ex_note 202 []) ex_remote_request (ex_w_adapter ''http://w/mcp'') ex_remote_state = Some (st', Map.empty,
     Inl ''failed to send notification to remote server: failed to parse response: unexpected end of JSON input'')"
  using accepted_notification_is_an_error [of "ex_remote_env ex_note 202 []" ex_remote_request "''s1''" "''call''" ex_note
      ex_remote_state ex_remote_session "''note''" "\<lparr>PX_Status = 202, PX_Header = Map.empty, PX_Body = [], PX_Error = None\<rparr>"
      "''unexpected end of JSON input''"]
  by (simp add: HasPrefix_def)

theorem remote_request_response_witness:
  "\<exists>st'. RemoteHTTP_HandleRequest (ex_remote_env (ex_call 1) 200 ''reply'') ex_remote_request (ex_w_adapter ''http://w/mcp'') ex_remote_state =
     Some (st', header_Set ''Content-Type'' ''application/json'' Map.empty, Inr (Json_reply (ex_reply (Float64 1))))"
proof -
  let ?E = "ex_remote_env (ex_call 1) 200 ''reply''"
  have "\<exists>st'. RemoteHTTP_HandleRequest ?E ex_remote_request (ex_w_adapter ''http://w/mcp'') ex_remote_state =
      Some (st', header_Set ''Content-Type'' ''application/json'' Map.empty, Inr (Json_reply (ex_reply (Float64 1)))) \<and>
    co_pending (pa_co st') = (co_pending (pa_co ex_remote_state))(getRequestID (rx_fmt ?E) (ex_call 1) := None)"
  proof (rule remote_request_response)
    show "JM_Method (ex_call 1) \<noteq> ''initialize''" "\<not> HasPrefix (JM_Method (ex_call 1)) ''notifications/''"
      by (simp_all add: ex_call_def HasPrefix_def)
    show "getRequestID (rx_fmt ?E) (ex_reply (Float64 1)) = getRequestID (rx_fmt ?E) (ex_call 1)"
      by (simp add: getRequestID_def ex_call_def ex_reply_def)
    show "rh_sessions ex_remote_state ''s1'' = Some ex_remote_session" by simp
    show "rx_marshal ?E (ex_call 1) = Inr ''call''" by (simp add: ex_call_def ex_note_def)
    show "authenticated ?E ex_remote_session ''POST'' (header_Set ''Mcp-Session-Id'' (RS_ID ex_remote_session)
       (header_Set ''Accept'' ''application/json, text/event-stream'' (header_Set ''Content-Type'' ''application/json'' Map.empty))) ''call'' =
       Inr (Answered \<lparr>PX_Status = 200, PX_Header = Map.empty, PX_Body = ''reply'', PX_Error = None\<rparr>)"
      by (simp add: authenticated_def RemoteHTTP_applyAuthentication_def remote_applyAuthentication_def)
    show "rx_decode ?E ''call'' = Inr (ex_call 1)" by (rule ex_remote_env_simps)
    show "CQ_Body ex_remote_request = Inr ''call''" by simp
  qed (simp_all add: ex_IDs)
  then show ?thesis by auto
qed

lemma ex_relay_lines: "scanned_lines (''data: note'' @ [CHR 0x0A, CHR 0x0A] @ ''data: note'' @ [CHR 0x0A, CHR 0x0A]) =
    [''data: note'', [], ''data: note'', []]"
  by (simp add: scanned_lines_def Let_def)

theorem relayed_stream_repeats_messages_witness:
  "pa_streams (startSSEProxy (ex_remote_env ex_note 200 (''data: note'' @ [CHR 0x0A, CHR 0x0A] @ ''data: note'' @ [CHR 0x0A, CHR 0x0A]))
      ex_remote_session ''c'' ex_remote_state) ''c'' =
   Some (sse_event ''message'' ''note'' @ ''data: note'' @ [CHR 0x0A] @ sse_event ''message'' ''note'' @ ''data: note'' @ [CHR 0x0A])"
proof -
  let ?body = "''data: note'' @ [CHR 0x0A, CHR 0x0A] @ ''data: note'' @ [CHR 0x0A, CHR 0x0A]"
  let ?resp = "\<lparr>PX_Status = 200, PX_Header = Map.empty, PX_Body = ?body, PX_Error = None\<rparr>"
  have "pa_streams (startSSEProxy (ex_remote_env ex_note 200 ?body) ex_remote_session ''c'' ex_remote_state) ''c'' =
    Some ([] @ concat (map (\<lambda>line. sse_event ''message'' ''note'' @ line @ [CHR 0x0A])
      (filter (\<lambda>l. l \<noteq> []) (scanned_lines (PX_Body ?resp)))))"
  proof (rule relayed_stream_repeats_messages)
    fix line assume "line \<in> set (scanned_lines (PX_Body ?resp))" and "line \<noteq> []"
    then have "line = ''data: note''" using ex_relay_lines by auto
    then show "HasPrefix line ''data: '' \<and> (\<exists>m. rx_decode (ex_remote_env ex_note 200 ?body) (TrimPrefix line ''data: '') = Inr m \<and>
        JM_ID m = Nil_value \<and> rx_marshal (ex_remote_env ex_note 200 ?body) m = Inr ''note'')"
      by (simp add: HasPrefix_def TrimPrefix_def)
  qed (simp_all add: ex_relay_lines)
  moreover have "scanned_lines (PX_Body ?resp) = [''data: note'', [], ''data: note'', []]" using ex_relay_lines by simp
  ultimately show ?thesis by simp
qed

section \<open>The plugin for remote servers\<close>

text \<open>A URL is its text; its path is what is behind the authority up to the query or the fragment.\<close>

fun after_scheme :: "string \<Rightarrow> string option" where
  "after_scheme [] = None"
| "after_scheme (c # cs) = (if HasPrefix (c # cs) ''://'' then Some (drop 2 cs) else after_scheme cs)"

definition url_base :: "string \<Rightarrow> string" where
  "url_base u = fst (cut_at CHR ''?'' (fst (cut_at CHR ''#'' u)))"

definition url_path :: "string \<Rightarrow> string" where
  "url_path u =
     (case after_scheme (url_base u) of
        None \<Rightarrow> url_base u
      | Some rest \<Rightarrow> dropWhile (\<lambda>c. c \<noteq> CHR ''/'') rest)"

definition url_default_path :: "string \<Rightarrow> string \<Rightarrow> string" where
  "url_default_path p u = (if url_path u = [] then url_base u @ p @ drop (length (url_base u)) u else u)"

text \<open>The request of a client with all its headers and its query as text. A body may break off.\<close>

record plugin_request =
  PR_Method :: string
  PR_Header :: headers
  PR_RawQuery :: string
  PR_Body :: "string result"

text \<open>\<open>pl_parse\<close> is the error of parsing a URL, \<open>pl_new_request\<close> that of making a request with a method, \<open>pl_json\<close> decodes an
  object, \<open>pl_broken\<close> is the client's error when the body that it sends breaks off.\<close>

record plugin_env =
  pl_parse :: "string \<Rightarrow> error option"
  pl_new_request :: "string \<Rightarrow> string \<Rightarrow> error option"
  pl_json :: "string \<Rightarrow> (string \<rightharpoonup> any) result"
  pl_send :: "forwarded \<Rightarrow> sent"
  pl_broken :: "error \<Rightarrow> error"

definition quoted :: "string \<Rightarrow> string" where
  "quoted s = [CHR 0x27] @ s @ [CHR 0x27]"

definition is_string :: "any option \<Rightarrow> bool" where
  "is_string m = (case m of Some (String_value s) \<Rightarrow> True | _ \<Rightarrow> False)"

text \<open>Methods that are not known are only logged.\<close>

definition validateMCPMessage :: "plugin_env \<Rightarrow> string \<Rightarrow> error option" where
  "validateMCPMessage E body =
     (case pl_json E body of
        Inl err \<Rightarrow> Some (''invalid JSON: '' @ err)
      | Inr message \<Rightarrow>
          (let has = (\<lambda>k. case message k of None \<Rightarrow> False | Some v \<Rightarrow> v \<noteq> Nil_value) in
           if message ''jsonrpc'' = None then Some (''missing '' @ quoted ''jsonrpc'' @ '' field'')
           else if message ''jsonrpc'' \<noteq> Some (String_value ''2.0'')
           then Some (''invalid or missing '' @ quoted ''jsonrpc'' @ '' version, expected '' @ quoted ''2.0'')
           else if \<not> has ''method'' \<and> \<not> has ''result'' \<and> \<not> has ''error''
           then Some (''invalid MCP message: must have '' @ quoted ''method'' @ '', '' @ quoted ''result'' @ '', or '' @ quoted ''error'' @ '' field'')
           else if has ''method'' \<and> \<not> is_string (message ''method'')
           then Some (quoted ''method'' @ '' must be a string'') else None))"

text \<open>The first line of a stream with data that is not its end.\<close>

fun first_data :: "string list \<Rightarrow> string" where
  "first_data [] = []"
| "first_data (line # ls) =
     (let l = TrimSpace line; d = TrimPrefix l ''data: '' in
      if HasPrefix l ''data: '' \<and> d \<noteq> [] \<and> d \<noteq> ''[DONE]'' then d else first_data ls)"

text \<open>The request that is sent to the adapter's server.\<close>

definition plugin_target :: "plugin_env \<Rightarrow> plugin_request \<Rightarrow> AdapterResource \<Rightarrow> string result" where
  "plugin_target E c adapter =
     (let github = HasPrefix (AD_Name adapter) ''github-'';
          raw = (if github then ''https://api.githubcopilot.com/mcp/'' else AD_RemoteUrl adapter)
      in case pl_parse E raw of
           Some err \<Rightarrow> Inl err
         | None \<Rightarrow>
             (let u = (if \<not> github \<and> AD_Protocol adapter = ServerProtocolMCP then url_default_path ''/mcp'' raw else raw)
              in Inr (if PR_RawQuery c \<noteq> [] then url_set_query u (PR_RawQuery c) else u)))"

definition plugin_credentials :: "AdapterResource \<Rightarrow> forwarded \<Rightarrow> forwarded result" where
  "plugin_credentials adapter req =
     (case (if AD_EnvironmentVariables adapter ''MCP_BACKEND_AUTH_REQUIRED'' = Some ''true''
            then applyBackendAuthentication (AD_Authentication adapter) req else Inr req) of
        Inl err \<Rightarrow> Inl (''failed to apply backend authentication: '' @ err)
      | Inr req1 \<Rightarrow>
          if HasPrefix (AD_Name adapter) ''github-'' then
            (case AD_EnvironmentVariables adapter ''GITHUB_PAT'' of
               None \<Rightarrow> Inl ''GitHub adapter requires GITHUB_PAT environment variable''
             | Some token \<Rightarrow>
                 if token = [] then Inl ''GitHub adapter requires GITHUB_PAT environment variable''
                 else Inr (req1\<lparr>FW_Header := header_Set ''X-GitHub-Api-Version'' ''2022-11-28''
                        (header_Set ''Authorization'' (''Bearer '' @ token) (FW_Header req1))\<rparr>))
          else Inr req1)"

definition plugin_request_for :: "plugin_env \<Rightarrow> plugin_request \<Rightarrow> AdapterResource \<Rightarrow> forwarded result" where
  "plugin_request_for E c adapter =
     (case plugin_target E c adapter of
        Inl err \<Rightarrow> Inl err
      | Inr target \<Rightarrow>
     case (if header_Get (PR_Header c) ''Content-Type'' = ''application/json'' then
             (case PR_Body c of
                Inl err \<Rightarrow> Some (''failed to read request body: '' @ err)
              | Inr body \<Rightarrow>
                  (case validateMCPMessage E body of
                     Some err \<Rightarrow> Some (''invalid MCP protocol message: '' @ err)
                   | None \<Rightarrow> None))
           else None) of
        Some err \<Rightarrow> Inl err
      | None \<Rightarrow>
     case pl_new_request E (PR_Method c) target of
        Some err \<Rightarrow> Inl err
      | None \<Rightarrow>
          (case plugin_credentials adapter \<lparr>FW_Method = PR_Method c, FW_URL = target,
                  FW_Header = (PR_Header c)(''Host'' := None), FW_Body = (case PR_Body c of Inl err \<Rightarrow> [] | Inr body \<Rightarrow> body)\<rparr> of
             Inl err \<Rightarrow> Inl err
           | Inr req \<Rightarrow> Inr (req\<lparr>FW_Header := header_Set ''Accept'' ''application/json, text/event-stream'' (FW_Header req)\<rparr>)))"

text \<open>Each header of the response replaces one of \<open>h\<close>; an empty value removes it.\<close>

definition copied_headers :: "headers \<Rightarrow> headers \<Rightarrow> headers" where
  "copied_headers from h k =
     (case from k of
        None \<Rightarrow> h k
      | Some vs \<Rightarrow> if Join vs '','' = [] then None else Some [Join vs '',''])"

text \<open>What was set and written before an error stays.\<close>

definition plugin_response :: "proxied \<Rightarrow> headers \<Rightarrow> client_response \<times> error option" where
  "plugin_response resp h =
     (let h' = copied_headers (PX_Header resp) h in
      if Contains (header_Get (PX_Header resp) ''Content-Type'') ''text/event-stream'' then
        (case PX_Error resp of
           Some err \<Rightarrow> (\<lparr>CS_Status = PX_Status resp, CS_Header = h', CS_Body = []\<rparr>,
             Some (''failed to parse SSE response: failed to read response body: '' @ err))
         | None \<Rightarrow> (\<lparr>CS_Status = PX_Status resp, CS_Header = header_Set ''Content-Type'' ''application/json'' h',
             CS_Body = first_data (Split (PX_Body resp) CHR 0x0A)\<rparr>, None))
      else (\<lparr>CS_Status = PX_Status resp, CS_Header = h', CS_Body = PX_Body resp\<rparr>,
            map_option (\<lambda>err. ''failed to copy response body: '' @ err) (PX_Error resp)))"

text \<open>The plugin: \<open>h\<close> are the headers that the response has already. Nothing is written before the server has answered.\<close>

definition RemoteHttp_ProxyRequest ::
    "plugin_env \<Rightarrow> headers \<Rightarrow> plugin_request \<Rightarrow> AdapterResource \<Rightarrow> (client_response \<times> error option) result" where
  "RemoteHttp_ProxyRequest E h c adapter =
     (case plugin_request_for E c adapter of
        Inl err \<Rightarrow> Inl err
      | Inr req \<Rightarrow>
          (case PR_Body c of
             Inl err \<Rightarrow> Inl (pl_broken E err)
           | Inr body \<Rightarrow>
               (case pl_send E req of
                  Bad_request err \<Rightarrow> Inl err
                | Unreachable err \<Rightarrow> Inl err
                | Answered resp \<Rightarrow> Inr (plugin_response resp h))))"

definition RemoteHttp_CanHandle :: "string \<Rightarrow> bool" where
  "RemoteHttp_CanHandle connectionType \<longleftrightarrow> connectionType = ConnectionTypeRemoteHttp"

definition RemoteHttp_GetStatus :: "(forwarded \<Rightarrow> sent) \<Rightarrow> AdapterResource \<Rightarrow> string" where
  "RemoteHttp_GetStatus send adapter =
     (case send \<lparr>FW_Method = ''GET'', FW_URL = AD_RemoteUrl adapter, FW_Header = Map.empty, FW_Body = []\<rparr> of
        Answered resp \<Rightarrow> if PX_Status resp = 200 then ''Healthy'' else ''Degraded''
      | _ \<Rightarrow> ''Unavailable'')"

subsection \<open>Lemmas\<close>

lemma lower_location_simps [simp]:
  "AAC_Required (lower_location auth) = AAC_Required auth" "AAC_Type (lower_location auth) = AAC_Type auth"
  "AAC_BearerToken (lower_location auth) = AAC_BearerToken auth" "AAC_Basic (lower_location auth) = AAC_Basic auth"
  by (simp_all add: lower_location_def)

lemma remote_credentials:
  assumes "remote_applyAuthentication oauth (Some auth) req = Inr req'" and "AAC_Required auth"
  shows "carries_credentials (lower_location auth) req'"
proof (rule apply_authentication_carries)
  let ?adapter = "(ex_w_adapter [])\<lparr>AD_Authentication := Some (lower_location auth)\<rparr>"
  have "applyBearerAuth (lower_location auth) r = applyBearerAuth auth r" "applyBasicAuth (lower_location auth) r = applyBasicAuth auth r"
    for r by (simp_all add: applyBearerAuth_def applyBasicAuth_def)
  then show "apply_authentication (oauth auth) req ?adapter = Inr req'"
    using assms by (auto simp: apply_authentication_def remote_applyAuthentication_def split: if_splits)
qed (simp_all add: assms)

lemma plugin_request_credentials:
  assumes "plugin_request_for E c adapter = Inr req"
  shows "\<exists>target req'. plugin_target E c adapter = Inr target \<and>
    plugin_credentials adapter \<lparr>FW_Method = PR_Method c, FW_URL = target, FW_Header = (PR_Header c)(''Host'' := None),
      FW_Body = (case PR_Body c of Inl err \<Rightarrow> [] | Inr body \<Rightarrow> body)\<rparr> = Inr req' \<and>
    req = req'\<lparr>FW_Header := header_Set ''Accept'' ''application/json, text/event-stream'' (FW_Header req')\<rparr>"
  using assms by (auto simp: plugin_request_for_def split: sum.splits option.splits)

lemma Accept_key: "CanonicalHeaderKey ''Accept'' = ''Accept''"
  by code_simp

lemma header_Get_Set_other: "CanonicalHeaderKey k \<noteq> j \<Longrightarrow> header_Get (header_Set k v h) j = header_Get h j"
  by (simp add: header_Get_def header_Set_def)

text \<open>The credentials that an adapter is configured with are only used on demand. Unless the adapter's environment sets
  \<open>MCP_BACKEND_AUTH_REQUIRED\<close> to \<open>true\<close>, a request to the server has the headers of its client, the accepted types apart: what
  the client sent as its own \<open>Authorization\<close> goes to the server, and no authentication of the adapter is added.\<close>

theorem client_credentials_go_to_the_server:
  assumes "plugin_request_for E c adapter = Inr req" and "\<not> HasPrefix (AD_Name adapter) ''github-''"
    and "AD_EnvironmentVariables adapter ''MCP_BACKEND_AUTH_REQUIRED'' \<noteq> Some ''true''"
  shows "FW_Header req = (PR_Header c)(''Host'' := None, ''Accept'' \<mapsto> [''application/json, text/event-stream''])"
  using plugin_request_credentials [OF assms(1)] assms(2,3)
  by (auto simp: plugin_credentials_def header_Set_def Accept_key)

text \<open>On demand the request carries them. If the adapter's environment asks for it and its authentication is required, every
  request to the server carries the configured credentials, whatever the client sent; only an API key for the header of the
  accepted types is lost.\<close>

theorem backend_credentials_are_carried:
  assumes "plugin_request_for E c adapter = Inr req" and "\<not> HasPrefix (AD_Name adapter) ''github-''"
    and "AD_EnvironmentVariables adapter ''MCP_BACKEND_AUTH_REQUIRED'' = Some ''true''"
    and "AD_Authentication adapter = Some auth" and "AAC_Required auth"
    and "\<And>k. AAC_APIKey auth = Some k \<Longrightarrow> CanonicalHeaderKey (AK_Name k) \<noteq> ''Accept''"
  shows "carries_credentials (lower_location auth) req"
proof -
  from plugin_request_credentials [OF assms(1)] obtain target req' where
    r: "plugin_credentials adapter \<lparr>FW_Method = PR_Method c, FW_URL = target, FW_Header = (PR_Header c)(''Host'' := None),
      FW_Body = (case PR_Body c of Inl err \<Rightarrow> [] | Inr body \<Rightarrow> body)\<rparr> = Inr req'"
      "req = req'\<lparr>FW_Header := header_Set ''Accept'' ''application/json, text/event-stream'' (FW_Header req')\<rparr>" by blast
  then have "carries_credentials (lower_location auth) req'"
    using assms(2-5) unfolding plugin_credentials_def applyBackendAuthentication_def
    by (auto split: sum.splits intro: remote_credentials)
  then show ?thesis using assms(6) unfolding r(2)
    by (auto simp: carries_credentials_def lower_location_def header_Set_def Accept_key header_Get_def split: option.splits if_splits)
qed

text \<open>Of a server's stream only the first message arrives. If the text of a stream begins with a line of data, the client gets
  this line's data as its JSON, and all that follows, such as the response behind a notification of progress, is dropped.\<close>

theorem stream_cut_to_first_message:
  assumes "Contains (header_Get (PX_Header resp) ''Content-Type'') ''text/event-stream''" and "PX_Error resp = None"
    and "PX_Body resp = event @ [CHR 0x0A] @ ''data: '' @ data @ CHR 0x0A # rest"
    and "CHR 0x0A \<notin> set event" and "CHR 0x0A \<notin> set data" and "\<not> HasPrefix (TrimSpace event) ''data: ''"
    and "TrimSpace (''data: '' @ data) = ''data: '' @ data" and "data \<noteq> []" and "data \<noteq> ''[DONE]''"
  shows "CS_Body (fst (plugin_response resp h)) = data"
proof -
  have "Split (PX_Body resp) CHR 0x0A = event # (''data: '' @ data) # Split rest CHR 0x0A"
    using assms(3-5) Split_append [of "CHR 0x0A" event "''data: '' @ data @ CHR 0x0A # rest"]
      Split_append [of "CHR 0x0A" "''data: '' @ data" rest] by simp
  moreover have "HasPrefix (''data: '' @ data) ''data: ''" "TrimPrefix (''data: '' @ data) ''data: '' = data"
    by (simp_all add: HasPrefix_def TrimPrefix_def)
  ultimately show ?thesis using assms(1,2,6-9) by (simp add: plugin_response_def Let_def del: append.simps)
qed

subsection \<open>Examples of the plugin\<close>

definition ex_plugin_env :: plugin_env where
  "ex_plugin_env = \<lparr>pl_parse = (\<lambda>u. None), pl_new_request = (\<lambda>m u. None), pl_json = (\<lambda>b. Inr Map.empty),
     pl_send = (\<lambda>f. Unreachable ''no route''), pl_broken = (\<lambda>e. e)\<rparr>"

definition ex_plugin_request :: plugin_request where
  "ex_plugin_request = \<lparr>PR_Method = ''POST'', PR_Header = [''Authorization'' \<mapsto> [''Bearer client'']], PR_RawQuery = [], PR_Body = Inr ''{}''\<rparr>"

definition ex_plugin_auth :: AdapterAuthConfig where
  "ex_plugin_auth = \<lparr>AAC_Required = True, AAC_Type = ''bearer'',
     AAC_BearerToken = Some \<lparr>BT_Token = ''backend'', BT_Dynamic = False, BT_ExpiresAt = 0\<rparr>, AAC_OAuth = None, AAC_Basic = None,
     AAC_APIKey = None\<rparr>"

definition ex_plugin_adapter :: "string \<Rightarrow> AdapterResource" where
  "ex_plugin_adapter required = (ex_w_adapter ''http://w/mcp'')\<lparr>AD_Authentication := Some ex_plugin_auth,
     AD_EnvironmentVariables := [''MCP_BACKEND_AUTH_REQUIRED'' \<mapsto> required]\<rparr>"

lemma ex_plugin_simps [simp]:
  "AD_Name (ex_plugin_adapter v) = ''w''" "AD_EnvironmentVariables (ex_plugin_adapter v) = [''MCP_BACKEND_AUTH_REQUIRED'' \<mapsto> v]"
  "AD_RemoteUrl (ex_plugin_adapter v) = ''http://w/mcp''" "AD_Authentication (ex_plugin_adapter v) = Some ex_plugin_auth"
  by (simp_all add: ex_plugin_adapter_def ex_w_adapter_def)

lemma ex_plugin_target: "plugin_target ex_plugin_env ex_plugin_request (ex_plugin_adapter v) = Inr ''http://w/mcp''"
  by (simp add: plugin_target_def ex_plugin_env_def ex_plugin_request_def HasPrefix_def url_default_path_def url_path_def url_base_def
      cut_at_def Let_def)

lemma ex_plugin_request_for: "\<exists>req. plugin_request_for ex_plugin_env ex_plugin_request (ex_plugin_adapter v) = Inr req"
  by (simp add: plugin_request_for_def ex_plugin_target)
    (simp add: ex_plugin_env_def ex_plugin_request_def plugin_credentials_def applyBackendAuthentication_def
      remote_applyAuthentication_def ex_plugin_auth_def applyBearerAuth_def header_Get_def HasPrefix_def)

theorem client_credentials_go_to_the_server_witness:
  "\<exists>req. plugin_request_for ex_plugin_env ex_plugin_request (ex_plugin_adapter ''false'') = Inr req \<and>
     FW_Header req ''Authorization'' = Some [''Bearer client'']"
proof -
  obtain req where r: "plugin_request_for ex_plugin_env ex_plugin_request (ex_plugin_adapter ''false'') = Inr req"
    using ex_plugin_request_for by blast
  from client_credentials_go_to_the_server [OF r]
  have "FW_Header req ''Authorization'' = Some [''Bearer client'']" by (simp add: HasPrefix_def ex_plugin_request_def)
  with r show ?thesis by blast
qed

theorem backend_credentials_are_carried_witness:
  "\<exists>req. plugin_request_for ex_plugin_env ex_plugin_request (ex_plugin_adapter ''true'') = Inr req \<and>
     FW_Header req ''Authorization'' = Some [''Bearer backend'']"
proof -
  obtain req where r: "plugin_request_for ex_plugin_env ex_plugin_request (ex_plugin_adapter ''true'') = Inr req"
    using ex_plugin_request_for by blast
  from backend_credentials_are_carried [OF r, of ex_plugin_auth]
  have "FW_Header req ''Authorization'' = Some [''Bearer backend'']"
    by (simp add: HasPrefix_def ex_plugin_auth_def carries_credentials_def)
  with r show ?thesis by blast
qed

definition ex_event_stream :: proxied where
  "ex_event_stream = \<lparr>PX_Status = 200, PX_Header = [''Content-Type'' \<mapsto> [''text/event-stream'']],
     PX_Body = ''event: message'' @ [CHR 0x0A] @ ''data: progress'' @ CHR 0x0A # CHR 0x0A # ''data: result'', PX_Error = None\<rparr>"

theorem stream_cut_to_first_message_witness:
  "CS_Body (fst (plugin_response ex_event_stream Map.empty)) = ''progress''"
  by (rule stream_cut_to_first_message [of ex_event_stream "''event: message''" "''progress''" "CHR 0x0A # ''data: result''"])
    (simp_all add: ex_event_stream_def header_Get_def Contains_def HasPrefix_def TrimSpace_def is_space_def)

end
