(* ===== verification/RestApi.thy ===== *)
theory RestApi
  imports StdioProxy RemoteProxy AdapterHandlers
begin

section \<open>The REST routes of an adapter's server\<close>

text \<open>
  The handlers of \<open>cmd/uniproxy/main.go\<close> behind \<open>/api/v1/adapters/:name\<close> that turn a REST request into a message: the tools, a
  call of one, the resources, one of them, the prompts, one of them, and \<open>handleMCPProxy\<close>, which passes the client's message
  on. They take the adapter from its store, check the client's credentials against the adapter's, and give the message
  to the proxy for processes or to the plugin for remote servers. A handler's model returns the requests that it sends to
  servers over HTTP, the state of the proxy for processes, and the reply; it is \<open>None\<close> while a response is awaited. \<open>MCPMessage\<close>
  has the fields of \<open>JSONRPCMessage\<close>.
\<close>

text \<open>A request with the parameters of its route and its cookies as package \<open>net/http\<close> reads them.\<close>

record rest_request = plugin_request +
  RQ_Param :: "string \<Rightarrow> string"
  RQ_Cookie :: "string \<Rightarrow> string option"

definition rest_GetHeader :: "('a) plugin_request_scheme \<Rightarrow> string \<Rightarrow> string" where
  "rest_GetHeader c k = header_Get (PR_Header c) (CanonicalHeaderKey k)"

definition rest_Query :: "('a) plugin_request_scheme \<Rightarrow> string \<Rightarrow> string" where
  "rest_Query c k = (case query_values (ParseQuery (PR_RawQuery c)) k of [] \<Rightarrow> [] | v # _ \<Rightarrow> v)"

subsection \<open>The client's credentials\<close>

definition b64_std_decode :: "string \<Rightarrow> string option" where
  "b64_std_decode s =
     (if CHR ''-'' \<in> set s \<or> CHR ''_'' \<in> set s then None
      else b64_decode (map (\<lambda>c. if c = CHR ''+'' then CHR ''-'' else if c = CHR ''/'' then CHR ''_'' else c) s))"

text \<open>\<open>BasicAuth\<close> of a request: the scheme's name without regard to case, and the user's name up to the first colon.\<close>

definition BasicAuth :: "string \<Rightarrow> (string \<times> string) option" where
  "BasicAuth auth =
     (if ToLower (take 6 auth) \<noteq> ''basic '' then None
      else case b64_std_decode (drop 6 auth) of
        None \<Rightarrow> None
      | Some text \<Rightarrow> if CHR '':'' \<in> set text then Some (cut_at CHR '':'' text) else None)"

definition validateBearerAuth :: "('a) plugin_request_scheme \<Rightarrow> AdapterAuthConfig \<Rightarrow> error option" where
  "validateBearerAuth c auth =
     (let authHeader = rest_GetHeader c ''Authorization'';
          expectedToken = (case AAC_BearerToken auth of None \<Rightarrow> [] | Some b \<Rightarrow> BT_Token b)
      in if authHeader = [] then Some ''missing Authorization header''
         else if \<not> HasPrefix authHeader ''Bearer '' then Some ''invalid Authorization header format''
         else if TrimPrefix authHeader ''Bearer '' \<noteq> expectedToken then Some ''invalid token'' else None)"

definition validateBasicAuth :: "('a) plugin_request_scheme \<Rightarrow> AdapterAuthConfig \<Rightarrow> error option" where
  "validateBasicAuth c auth =
     (case AAC_Basic auth of
        None \<Rightarrow> Some ''basic authentication configuration not found''
      | Some b \<Rightarrow>
          (case BasicAuth (rest_GetHeader c ''Authorization'') of
             None \<Rightarrow> Some ''missing or invalid Basic authentication header''
           | Some (username, password) \<Rightarrow>
               if username \<noteq> BA_Username b \<or> password \<noteq> BA_Password b then Some ''invalid username or password'' else None))"

definition validateAPIKeyAuth :: "rest_request \<Rightarrow> AdapterAuthConfig \<Rightarrow> error option" where
  "validateAPIKeyAuth c auth =
     (case AAC_APIKey auth of
        None \<Rightarrow> Some ''API key configuration not found''
      | Some k \<Rightarrow>
          (let location = ToLower (AK_Location k);
               nonempty = (\<lambda>v. if v = [] then None else Some v);
               provided = (if location = ''header'' then nonempty (rest_GetHeader c (AK_Name k))
                 else if location = ''query'' then nonempty (rest_Query c (AK_Name k)) else RQ_Cookie c (AK_Name k))
           in if location \<notin> {''header'', ''query'', ''cookie''} then Some (''unsupported API key location: '' @ location)
              else case provided of
                None \<Rightarrow> Some (''API key not found in '' @ location @ '' '' @ quoted (AK_Name k))
              | Some providedKey \<Rightarrow> if providedKey \<noteq> AK_Key k then Some ''invalid API key'' else None))"

definition validateClientAuthentication :: "rest_request \<Rightarrow> AdapterAuthConfig option \<Rightarrow> error option" where
  "validateClientAuthentication c config =
     (case config of
        None \<Rightarrow> None
      | Some auth \<Rightarrow>
          if \<not> AAC_Required auth then None
          else if AAC_Type auth = ''bearer'' then validateBearerAuth c auth
          else if AAC_Type auth = ''basic'' then validateBasicAuth c auth
          else if AAC_Type auth = ''apikey'' then validateAPIKeyAuth c auth
          else Some (''unsupported authentication type: '' @ AAC_Type auth))"

subsection \<open>A session for one request\<close>

text \<open>\<open>re_json\<close> decodes an object, \<open>re_bind\<close> the body of a call; the proxies' environments have the rest. \<open>re_no_stdio\<close> and
  \<open>re_no_plugin\<close> are set if the proxies are nil.\<close>

record rest_env =
  re_marshal :: "JSONRPCMessage \<Rightarrow> string result"
  re_new_request :: "string \<Rightarrow> error option"
  re_send :: "forwarded \<Rightarrow> sent"
  re_json :: "string \<Rightarrow> (string \<rightharpoonup> any) result"
  re_bind :: "string result \<Rightarrow> any result"
  re_plugin :: plugin_env
  re_stdio :: stdio_http_env
  re_no_stdio :: bool
  re_no_plugin :: bool

definition rest_message :: "any \<Rightarrow> string \<Rightarrow> (string \<rightharpoonup> any) \<Rightarrow> JSONRPCMessage" where
  "rest_message i mcpMethod params = \<lparr>JM_JSONRPC = ''2.0'', JM_ID = i, JM_Method = mcpMethod, JM_Params = Object params,
     JM_Result = Nil_value, JM_Error = None\<rparr>"

text \<open>The configuration's token is used whatever its type is, required or not. The session ID replaces the query of the URL.\<close>

definition makeRawMCPRequestWithSession ::
    "rest_env \<Rightarrow> string \<Rightarrow> JSONRPCMessage \<Rightarrow> AdapterAuthConfig option \<Rightarrow> string \<Rightarrow> forwarded list \<times> proxied result" where
  "makeRawMCPRequestWithSession E mcpURL request auth sid =
     (case re_marshal E request of
        Inl err \<Rightarrow> ([], Inl (''failed to marshal request: '' @ err))
      | Inr body \<Rightarrow>
     case re_new_request E mcpURL of
        Some err \<Rightarrow> ([], Inl (''failed to create request: '' @ err))
      | None \<Rightarrow>
          (let h = header_Set ''Accept'' ''application/json, text/event-stream''
                     (header_Set ''Content-Type'' ''application/json'' Map.empty);
               token = (case auth of None \<Rightarrow> [] | Some a \<Rightarrow> (case AAC_BearerToken a of None \<Rightarrow> [] | Some b \<Rightarrow> BT_Token b));
               h1 = (if sid \<noteq> [] then header_Set ''mcp-session-id'' sid h else h);
               req = \<lparr>FW_Method = ''POST'',
                 FW_URL = (if sid \<noteq> [] then url_set_query mcpURL (query_Encode [(''sessionId'', sid)]) else mcpURL),
                 FW_Header = (if token \<noteq> [] then header_Set ''Authorization'' (''Bearer '' @ token) h1 else h1), FW_Body = body\<rparr>
           in ([req], case re_send E req of Bad_request err \<Rightarrow> Inl err | Unreachable err \<Rightarrow> Inl err | Answered resp \<Rightarrow> Inr resp)))"

definition makeRawMCPRequest ::
    "rest_env \<Rightarrow> string \<Rightarrow> JSONRPCMessage \<Rightarrow> AdapterAuthConfig option \<Rightarrow> forwarded list \<times> proxied result" where
  "makeRawMCPRequest E mcpURL request auth = makeRawMCPRequestWithSession E mcpURL request auth []"

definition rest_init_message :: JSONRPCMessage where
  "rest_init_message = rest_message (Int_value 1) ''initialize'' [''protocolVersion'' \<mapsto> String_value ''2024-11-05'',
     ''capabilities'' \<mapsto> Object Map.empty, ''clientInfo'' \<mapsto> Object [''name'' \<mapsto> String_value ''suse-ai-up-rest-api'',
       ''version'' \<mapsto> String_value ''1.0.0'']]"

definition rest_initialized_message :: JSONRPCMessage where
  "rest_initialized_message = rest_message Nil_value ''notifications/initialized'' Map.empty"

text \<open>The JSON of a response that is an event of a stream.\<close>

definition event_json :: "string \<Rightarrow> string" where
  "event_json body =
     (if Contains body (''event: message'' @ [CHR 0x0A] @ ''data: '') then
        (case filter (\<lambda>line. HasPrefix line ''data: '') (Split body CHR 0x0A) of
           [] \<Rightarrow> []
         | line # _ \<Rightarrow> TrimPrefix line ''data: '')
      else body)"

definition rest_session_ID :: "(string \<rightharpoonup> any) \<Rightarrow> string" where
  "rest_session_ID initResult =
     (case initResult ''result'' of
        Some (Object result) \<Rightarrow>
          (case result ''serverInfo'' of
             Some (Object serverInfo) \<Rightarrow>
               (case serverInfo ''name'' of Some (String_value name) \<Rightarrow> ''rest-api-'' @ name | _ \<Rightarrow> ''rest-api-session'')
           | _ \<Rightarrow> ''rest-api-session'')
      | _ \<Rightarrow> ''rest-api-session'')"

text \<open>A notification that fails is not an error.\<close>

definition makeMCPRequestWithSession ::
    "rest_env \<Rightarrow> string \<Rightarrow> JSONRPCMessage \<Rightarrow> AdapterAuthConfig option \<Rightarrow> forwarded list \<times> proxied result" where
  "makeMCPRequestWithSession E mcpURL request auth =
     (case makeRawMCPRequest E mcpURL rest_init_message auth of
        (fs, Inl err) \<Rightarrow> (fs, Inl (''failed to initialize MCP session: '' @ err))
      | (fs, Inr initResp) \<Rightarrow>
          (case PX_Error initResp of
             Some err \<Rightarrow> (fs, Inl (''failed to read initialize response: '' @ err))
           | None \<Rightarrow>
          if PX_Status initResp \<noteq> 200
          then (fs, Inl (''initialize failed with status '' @ show_int (PX_Status initResp) @ '': '' @ PX_Body initResp))
          else case re_json E (event_json (PX_Body initResp)) of
             Inl err \<Rightarrow> (fs, Inl (''failed to parse initialize response: '' @ err))
           | Inr initResult \<Rightarrow>
               (let sid = rest_session_ID initResult;
                    fs1 = fst (makeRawMCPRequestWithSession E mcpURL rest_initialized_message auth sid);
                    (fs2, resp) = makeRawMCPRequestWithSession E mcpURL request auth sid
                in (fs @ fs1 @ fs2, resp))))"

subsection \<open>Replies\<close>

text \<open>An error with its status and the headers set before it, behind which its JSON's type is set if there is none yet; a body;
  part of a body, with the JSON of an error behind it; or what the proxy for processes writes.\<close>

datatype rest_reply = Rest_error int headers string | Rest_data client_response | Rest_cut client_response string
  | Rest_stdio headers proxy_reply

type_synonym rest_outcome = "(forwarded list \<times> StdioToHTTPAdapter \<times> rest_reply) option"

text \<open>The status of a context that the handler made itself is only sent when something is written to its body; without a body
  the reply is that of the route's own context, whose status is 200.\<close>

definition plugin_reply :: "bool \<Rightarrow> client_response \<times> error option \<Rightarrow> rest_reply" where
  "plugin_reply mock out =
     (case out of
        (resp, None) \<Rightarrow> Rest_data (if mock \<and> CS_Body resp = [] then resp\<lparr>CS_Status := 200\<rparr> else resp)
      | (resp, Some err) \<Rightarrow>
          if CS_Body resp = [] then Rest_error 500 (CS_Header resp) (''Remote HTTP plugin error: '' @ err)
          else Rest_cut resp (''Remote HTTP plugin error: '' @ err))"

definition stdio_client :: "rest_request \<Rightarrow> client_request" where
  "stdio_client c = \<lparr>CQ_Method = PR_Method c, CQ_Header = rest_GetHeader c, CQ_Query = rest_Query c, CQ_Body = PR_Body c\<rparr>"

definition plugin_client :: "rest_request \<Rightarrow> plugin_request" where
  "plugin_client c = \<lparr>PR_Method = PR_Method c, PR_Header = PR_Header c, PR_RawQuery = PR_RawQuery c, PR_Body = PR_Body c\<rparr>"

definition rest_route_adapter ::
    "rest_env \<Rightarrow> bool \<Rightarrow> headers \<Rightarrow> rest_request \<Rightarrow> AdapterResource \<Rightarrow> StdioToHTTPAdapter \<Rightarrow> rest_outcome" where
  "rest_route_adapter E mock h c adapter st =
     (if AD_ConnectionType adapter = ConnectionTypeLocalStdio then
        (if re_no_stdio E then Some ([], st, Rest_error 503 h ''Stdio to HTTP adapter not initialized'')
         else map_option (\<lambda>(st', h', r). case r of
             Inl err \<Rightarrow> ([], st', Rest_error 500 (h ++ h') (''Stdio adapter error: '' @ err))
           | Inr reply \<Rightarrow> ([], st', Rest_stdio (h ++ h') reply)) (Stdio_HandleRequest (re_stdio E) (stdio_client c) adapter st))
      else if AD_ConnectionType adapter \<in> {ConnectionTypeRemoteHttp, ConnectionTypeStreamableHttp, ConnectionTypeSSE} then
        (if re_no_plugin E then Some ([], st, Rest_error 503 h ''Remote HTTP plugin not initialized'')
         else Some (case plugin_request_for (re_plugin E) (plugin_client c) adapter of Inl err \<Rightarrow> [] | Inr req \<Rightarrow> [req], st,
           case RemoteHttp_ProxyRequest (re_plugin E) h (plugin_client c) adapter of
             Inl err \<Rightarrow> Rest_error 500 h (''Remote HTTP plugin error: '' @ err)
           | Inr out \<Rightarrow> plugin_reply mock out))
      else Some ([], st, Rest_error 400 h (''Unsupported connection type: '' @ AD_ConnectionType adapter)))"

text \<open>A message in the place of the client's own.\<close>

definition rest_call ::
    "rest_env \<Rightarrow> headers \<Rightarrow> rest_request \<Rightarrow> JSONRPCMessage \<Rightarrow> AdapterResource \<Rightarrow> StdioToHTTPAdapter \<Rightarrow> rest_outcome" where
  "rest_call E h c message adapter st =
     (case re_marshal E message of
        Inl err \<Rightarrow> Some ([], st, Rest_error 500 h ''Failed to create request'')
      | Inr body \<Rightarrow> rest_route_adapter E True h (c\<lparr>PR_Method := ''POST'',
          PR_Header := header_Set ''Content-Type'' ''application/json'' (PR_Header c), PR_Body := Inr body\<rparr>) adapter st)"

subsection \<open>The handlers\<close>

text \<open>What they begin with; \<open>get\<close> looks an adapter up in the store.\<close>

definition rest_adapter ::
    "(string \<Rightarrow> AdapterResource result) \<Rightarrow> headers \<Rightarrow> rest_request \<Rightarrow> StdioToHTTPAdapter \<Rightarrow>
     (AdapterResource \<Rightarrow> rest_outcome) \<Rightarrow> rest_outcome" where
  "rest_adapter get h c st handle =
     (case get (RQ_Param c ''name'') of
        Inl err \<Rightarrow> Some ([], st, Rest_error 404 h ''Adapter not found'')
      | Inr adapter \<Rightarrow>
          (case validateClientAuthentication c (AD_Authentication adapter) of
             Some err \<Rightarrow> Some ([], st, Rest_error 401 h (''Authentication required: '' @ err))
           | None \<Rightarrow> handle adapter))"

definition handleMCPToolsList ::
    "rest_env \<Rightarrow> (string \<Rightarrow> AdapterResource result) \<Rightarrow> headers \<Rightarrow> rest_request \<Rightarrow> StdioToHTTPAdapter \<Rightarrow> rest_outcome" where
  "handleMCPToolsList E get h c st = rest_adapter get h c st (\<lambda>adapter.
     case makeMCPRequestWithSession E (AD_URL adapter) (rest_message (Int_value 1) ''tools/list'' Map.empty) (AD_Authentication adapter) of
       (fs, Inl err) \<Rightarrow> Some (fs, st, Rest_error 500 h (''MCP request failed: '' @ err))
     | (fs, Inr resp) \<Rightarrow>
         Some (fs, st, if PX_Error resp \<noteq> None then Rest_error 500 h ''Failed to read response''
           else Rest_data \<lparr>CS_Status = PX_Status resp, CS_Header = header_default ''Content-Type'' ''application/json'' h,
             CS_Body = PX_Body resp\<rparr>))"

definition handleMCPToolCall ::
    "rest_env \<Rightarrow> (string \<Rightarrow> AdapterResource result) \<Rightarrow> headers \<Rightarrow> rest_request \<Rightarrow> StdioToHTTPAdapter \<Rightarrow> rest_outcome" where
  "handleMCPToolCall E get h c st = rest_adapter get h c st (\<lambda>adapter.
     case re_bind E (PR_Body c) of
       Inl err \<Rightarrow> Some ([], st, Rest_error 400 h ''Invalid request body'')
     | Inr args \<Rightarrow> rest_call E h c (rest_message (Int_value 2) ''tools/call''
         [''name'' \<mapsto> String_value (RQ_Param c ''toolName''), ''arguments'' \<mapsto> args]) adapter st)"

definition handleMCPResourcesList ::
    "rest_env \<Rightarrow> (string \<Rightarrow> AdapterResource result) \<Rightarrow> headers \<Rightarrow> rest_request \<Rightarrow> StdioToHTTPAdapter \<Rightarrow> rest_outcome" where
  "handleMCPResourcesList E get h c st = rest_adapter get h c st (\<lambda>adapter.
     rest_call E h c (rest_message (Int_value 3) ''resources/list'' Map.empty) adapter st)"

definition handleMCPResourceRead ::
    "rest_env \<Rightarrow> (string \<Rightarrow> AdapterResource result) \<Rightarrow> headers \<Rightarrow> rest_request \<Rightarrow> StdioToHTTPAdapter \<Rightarrow> rest_outcome" where
  "handleMCPResourceRead E get h c st = rest_adapter get h c st (\<lambda>adapter.
     rest_call E h c (rest_message (Int_value 4) ''resources/read'' [''uri'' \<mapsto> String_value (RQ_Param c ''uri'')]) adapter st)"

definition handleMCPPromptsList ::
    "rest_env \<Rightarrow> (string \<Rightarrow> AdapterResource result) \<Rightarrow> headers \<Rightarrow> rest_request \<Rightarrow> StdioToHTTPAdapter \<Rightarrow> rest_outcome" where
  "handleMCPPromptsList E get h c st = rest_adapter get h c st (\<lambda>adapter.
     rest_call E h c (rest_message (Int_value 5) ''prompts/list'' Map.empty) adapter st)"

text \<open>The arguments are the first values of the query.\<close>

definition handleMCPPromptGet ::
    "rest_env \<Rightarrow> (string \<Rightarrow> AdapterResource result) \<Rightarrow> headers \<Rightarrow> rest_request \<Rightarrow> StdioToHTTPAdapter \<Rightarrow> rest_outcome" where
  "handleMCPPromptGet E get h c st = rest_adapter get h c st (\<lambda>adapter.
     rest_call E h c (rest_message (Int_value 6) ''prompts/get'' [''name'' \<mapsto> String_value (RQ_Param c ''promptName''),
       ''arguments'' \<mapsto> Object (\<lambda>k. case query_values (ParseQuery (PR_RawQuery c)) k of
          [] \<Rightarrow> None | v # _ \<Rightarrow> Some (String_value v))]) adapter st)"

definition handleMCPProxy ::
    "rest_env \<Rightarrow> (string \<Rightarrow> AdapterResource result) \<Rightarrow> headers \<Rightarrow> rest_request \<Rightarrow> StdioToHTTPAdapter \<Rightarrow> rest_outcome" where
  "handleMCPProxy E get h c st = rest_adapter get h c st (\<lambda>adapter. rest_route_adapter E False h c adapter st)"

text \<open>The routes.\<close>

datatype rest_route = Tools_list | Tool_call | Resources_list | Resource_read | Prompts_list | Prompt_get | Mcp_proxy

fun rest_handler ::
    "rest_route \<Rightarrow> rest_env \<Rightarrow> (string \<Rightarrow> AdapterResource result) \<Rightarrow> headers \<Rightarrow> rest_request \<Rightarrow> StdioToHTTPAdapter \<Rightarrow> rest_outcome" where
  "rest_handler Tools_list = handleMCPToolsList"
| "rest_handler Tool_call = handleMCPToolCall"
| "rest_handler Resources_list = handleMCPResourcesList"
| "rest_handler Resource_read = handleMCPResourceRead"
| "rest_handler Prompts_list = handleMCPPromptsList"
| "rest_handler Prompt_get = handleMCPPromptGet"
| "rest_handler Mcp_proxy = handleMCPProxy"

subsection \<open>Lemmas on credentials\<close>

text \<open>What it is to present the credentials of a configuration.\<close>

definition presents :: "rest_request \<Rightarrow> AdapterAuthConfig \<Rightarrow> bool" where
  "presents c auth \<longleftrightarrow>
     (if AAC_Type auth = ''bearer'' then
        rest_GetHeader c ''Authorization'' = ''Bearer '' @ (case AAC_BearerToken auth of None \<Rightarrow> [] | Some b \<Rightarrow> BT_Token b)
      else if AAC_Type auth = ''basic'' then
        (case AAC_Basic auth of None \<Rightarrow> False
         | Some b \<Rightarrow> BasicAuth (rest_GetHeader c ''Authorization'') = Some (BA_Username b, BA_Password b))
      else if AAC_Type auth = ''apikey'' then
        (case AAC_APIKey auth of None \<Rightarrow> False
         | Some k \<Rightarrow>
             if ToLower (AK_Location k) = ''header'' then AK_Key k \<noteq> [] \<and> rest_GetHeader c (AK_Name k) = AK_Key k
             else if ToLower (AK_Location k) = ''query'' then AK_Key k \<noteq> [] \<and> rest_Query c (AK_Name k) = AK_Key k
             else ToLower (AK_Location k) = ''cookie'' \<and> RQ_Cookie c (AK_Name k) = Some (AK_Key k))
      else False)"

lemma bearer_presented: "HasPrefix h ''Bearer '' \<Longrightarrow> TrimPrefix h ''Bearer '' = t \<longleftrightarrow> h = ''Bearer '' @ t"
  by (auto simp: HasPrefix_def TrimPrefix_def elim!: prefixE)

lemma validateBearerAuth_iff:
  "validateBearerAuth c auth = None \<longleftrightarrow>
   rest_GetHeader c ''Authorization'' = ''Bearer '' @ (case AAC_BearerToken auth of None \<Rightarrow> [] | Some b \<Rightarrow> BT_Token b)"
  by (auto simp: validateBearerAuth_def Let_def bearer_presented) (simp_all add: HasPrefix_def TrimPrefix_def)

lemma validateBasicAuth_iff:
  "validateBasicAuth c auth = None \<longleftrightarrow>
   (case AAC_Basic auth of None \<Rightarrow> False
    | Some b \<Rightarrow> BasicAuth (rest_GetHeader c ''Authorization'') = Some (BA_Username b, BA_Password b))"
  by (auto simp: validateBasicAuth_def split: option.split)

lemma validateAPIKeyAuth_iff:
  "validateAPIKeyAuth c auth = None \<longleftrightarrow>
   (case AAC_APIKey auth of None \<Rightarrow> False
    | Some k \<Rightarrow>
        if ToLower (AK_Location k) = ''header'' then AK_Key k \<noteq> [] \<and> rest_GetHeader c (AK_Name k) = AK_Key k
        else if ToLower (AK_Location k) = ''query'' then AK_Key k \<noteq> [] \<and> rest_Query c (AK_Name k) = AK_Key k
        else ToLower (AK_Location k) = ''cookie'' \<and> RQ_Cookie c (AK_Name k) = Some (AK_Key k))"
  by (auto simp: validateAPIKeyAuth_def Let_def split: option.splits if_splits)

lemma validate_iff:
  "validateClientAuthentication c (Some auth) = None \<longleftrightarrow> \<not> AAC_Required auth \<or> presents c auth"
  by (simp add: validateClientAuthentication_def presents_def validateBearerAuth_iff validateBasicAuth_iff validateAPIKeyAuth_iff)

lemma rest_refused:
  assumes "get (RQ_Param c ''name'') = Inr adapter" and "validateClientAuthentication c (AD_Authentication adapter) = Some why"
  shows "rest_handler route E get h c st = Some ([], st, Rest_error 401 h (''Authentication required: '' @ why))"
  using assms by (cases route) (simp_all add: rest_adapter_def handleMCPToolsList_def handleMCPToolCall_def handleMCPResourcesList_def
    handleMCPResourceRead_def handleMCPPromptsList_def handleMCPPromptGet_def handleMCPProxy_def)


subsection \<open>Basic credentials\<close>

lemma b64_encode_std: "CHR ''+'' \<notin> set (b64_encode s) \<and> CHR ''/'' \<notin> set (b64_encode s)"
proof -
  have char: "CHR ''+'' \<noteq> b64_char n" "CHR ''/'' \<noteq> b64_char n" if "n < 64" for n
  proof -
    have "b64_digit CHR ''+'' = None" "b64_digit CHR ''/'' = None" by code_simp+
    then show "CHR ''+'' \<noteq> b64_char n" "CHR ''/'' \<noteq> b64_char n" using b64_digit_char [OF that] by fastforce+
  qed
  note d = char [OF less_mult_imp_div_less]
  show ?thesis
  proof (induction s rule: b64_encode.induct)
    case (2 a)
    then show ?case using of_char_less [of a] by (simp add: Let_def char d del: of_char_less)
  next
    case (3 a b)
    then show ?case using of_char_less [of a] of_char_less [of b] by (simp add: Let_def char d del: of_char_less)
  next
    case (4 a b c s)
    then show ?case using of_char_less [of a] of_char_less [of b] of_char_less [of c]
      by (simp add: Let_def char d del: of_char_less)
  qed simp
qed

lemma b64_std_roundtrip: "b64_std_decode (b64_std_encode s) = Some s"
proof -
  have "map (\<lambda>c. if c = CHR ''+'' then CHR ''-'' else if c = CHR ''/'' then CHR ''_'' else c) (b64_std_encode s) = b64_encode s"
    unfolding b64_std_encode_def map_map comp_def using b64_encode_std [of s] by (intro map_idI) auto
  moreover have "CHR ''-'' \<notin> set (b64_std_encode s)" "CHR ''_'' \<notin> set (b64_std_encode s)" by (auto simp: b64_std_encode_def)
  ultimately show ?thesis by (simp add: b64_std_decode_def b64_decode_encode)
qed

text \<open>The credentials that one part of the program sends are those that the other reads. From a header with a user's name
  and password, as the message router and the proxies set it, the check of a REST route gets back both, for every password
  and every name without a colon.\<close>

theorem basic_credentials_roundtrip:
  assumes "CHR '':'' \<notin> set username"
  shows "BasicAuth (header_Get (SetBasicAuth username password h) ''Authorization'') = Some (username, password)"
proof -
  have "header_Get (SetBasicAuth username password h) ''Authorization'' = ''Basic '' @ b64_std_encode (username @ '':'' @ password)"
    by (simp add: SetBasicAuth_def header_Set_def canonical_keys header_Get_def)
  moreover have "ToLower ''Basic '' = ''basic ''" by code_simp
  ultimately show ?thesis using cut_at_append [OF assms, of password] by (simp add: BasicAuth_def b64_std_roundtrip)
qed

subsection \<open>What is sent\<close>

lemmas rest_handlers = handleMCPToolsList_def handleMCPToolCall_def handleMCPResourcesList_def handleMCPResourceRead_def
  handleMCPPromptsList_def handleMCPPromptGet_def handleMCPProxy_def

text \<open>A handler whose adapter is served comes to a list of tools, an error of its own, or the proxies with some message.\<close>

lemma rest_served:
  assumes "get (RQ_Param c ''name'') = Inr adapter" and "validateClientAuthentication c (AD_Authentication adapter) = None"
    and "rest_handler route E get h c st = Some (fs, st', reply)"
  shows "(route = Tools_list \<and> (\<exists>m. fs = fst (makeMCPRequestWithSession E (AD_URL adapter) m (AD_Authentication adapter)))) \<or> fs = [] \<or>
    (\<exists>mock c'. rest_route_adapter E mock h c' adapter st = Some (fs, st', reply) \<and>
       header_Get (PR_Header c') ''Authorization'' = header_Get (PR_Header c) ''Authorization'')"
proof -
  have key: "CanonicalHeaderKey ''Content-Type'' \<noteq> ''Authorization''" by code_simp
  have call: "rest_call E h c m adapter st = Some (fs, st', reply) \<Longrightarrow> fs = [] \<or>
      (\<exists>mock c'. rest_route_adapter E mock h c' adapter st = Some (fs, st', reply) \<and>
         header_Get (PR_Header c') ''Authorization'' = header_Get (PR_Header c) ''Authorization'')" for m
    by (cases "re_marshal E m") (auto simp: rest_call_def intro!: exI [of _ True] header_Get_Set_other [OF key])
  show ?thesis
  proof (cases "route = Tools_list")
    case True
    then have "fs = fst (makeMCPRequestWithSession E (AD_URL adapter) (rest_message (Int_value 1) ''tools/list'' Map.empty) (AD_Authentication adapter))"
      using assms by (auto simp: rest_adapter_def handleMCPToolsList_def split: prod.splits sum.splits)
    then show ?thesis using True by blast
  next
    case False
    then consider m where "rest_call E h c m adapter st = Some (fs, st', reply)" | "fs = []"
      | "rest_route_adapter E False h c adapter st = Some (fs, st', reply)"
      using assms by (cases route) (auto simp: rest_adapter_def rest_handlers split: sum.splits)
    then show ?thesis using call by cases auto
  qed
qed

lemma Authorization_sent:
  "FW_Header (req\<lparr>FW_Header := header_Set ''Authorization'' v h\<rparr>) ''Authorization'' = Some [v]"
  by (simp add: header_Set_def canonical_keys)

lemma raw_request_token:
  assumes "f \<in> set (fst (makeRawMCPRequestWithSession E url m (Some auth) sid))" and "AAC_BearerToken auth = Some b" and "BT_Token b \<noteq> []"
  shows "header_Get (FW_Header f) ''Authorization'' = ''Bearer '' @ BT_Token b"
  using assms by (auto simp: makeRawMCPRequestWithSession_def Let_def header_Get_def header_Set_def canonical_keys split: sum.splits option.splits)

lemma session_request_token:
  assumes "f \<in> set (fst (makeMCPRequestWithSession E url m (Some auth)))" and "AAC_BearerToken auth = Some b" and "BT_Token b \<noteq> []"
  shows "header_Get (FW_Header f) ''Authorization'' = ''Bearer '' @ BT_Token b"
proof -
  have "\<exists>m' sid. f \<in> set (fst (makeRawMCPRequestWithSession E url m' (Some auth) sid))"
    using assms(1) unfolding makeMCPRequestWithSession_def makeRawMCPRequest_def
    by (auto simp: Let_def split: prod.splits sum.splits option.splits if_splits) (metis fst_conv)+
  then show ?thesis using raw_request_token [OF _ assms(2,3)] by blast
qed

lemma route_adapter_sends:
  assumes "rest_route_adapter E mock h c adapter st = Some (fs, st', reply)" and "f \<in> set fs"
  shows "plugin_request_for (re_plugin E) (plugin_client c) adapter = Inr f"
proof (cases "AD_ConnectionType adapter = ConnectionTypeLocalStdio")
  case True
  then have "fs = []" using assms(1)
    by (cases "Stdio_HandleRequest (re_stdio E) (stdio_client c) adapter st")
      (auto simp: rest_route_adapter_def split: if_splits sum.splits)
  then show ?thesis using assms(2) by simp
next
  case False
  then show ?thesis using assms by (auto simp: rest_route_adapter_def split: if_splits sum.splits)
qed

lemma plugin_request_token:
  assumes "plugin_request_for E c adapter = Inr req" and "\<not> HasPrefix (AD_Name adapter) ''github-''"
    and "AD_Authentication adapter = Some auth" and "AAC_Required auth" and "AAC_Type auth = ''bearer''"
    and "AAC_BearerToken auth = Some b" and "BT_Token b \<noteq> []"
    and "header_Get (PR_Header c) ''Authorization'' = ''Bearer '' @ BT_Token b"
  shows "header_Get (FW_Header req) ''Authorization'' = ''Bearer '' @ BT_Token b"
proof -
  from plugin_request_credentials [OF assms(1)] obtain target req' where
    r: "plugin_credentials adapter \<lparr>FW_Method = PR_Method c, FW_URL = target, FW_Header = (PR_Header c)(''Host'' := None),
      FW_Body = (case PR_Body c of Inl err \<Rightarrow> [] | Inr body \<Rightarrow> body)\<rparr> = Inr req'"
      "req = req'\<lparr>FW_Header := header_Set ''Accept'' ''application/json, text/event-stream'' (FW_Header req')\<rparr>" by blast
  then have "header_Get (FW_Header req') ''Authorization'' = ''Bearer '' @ BT_Token b"
    using assms(2-8) unfolding plugin_credentials_def applyBackendAuthentication_def
    by (auto simp: remote_applyAuthentication_def applyBearerAuth_def header_Get_def header_Set_def canonical_keys split: if_splits)
  then show ?thesis unfolding r(2) by (simp add: header_Get_def header_Set_def Accept_key)
qed

text \<open>The client's token is the server's. If an adapter requires a bearer token, and its server is no remote one of GitHub, every
  request that any route sends to a server carries the configured token, the one that the client must present.\<close>

theorem rest_requests_carry_the_token:
  assumes "get (RQ_Param c ''name'') = Inr adapter" and "AD_Authentication adapter = Some auth" and "AAC_Required auth"
    and "AAC_Type auth = ''bearer''" and "AAC_BearerToken auth = Some b" and "BT_Token b \<noteq> []"
    and "\<not> HasPrefix (AD_Name adapter) ''github-''"
    and "rest_handler route E get h c st = Some (fs, st', reply)" and "f \<in> set fs"
  shows "header_Get (FW_Header f) ''Authorization'' = ''Bearer '' @ BT_Token b"
proof (cases "validateClientAuthentication c (AD_Authentication adapter)")
  case (Some why)
  from rest_refused [where get = get and c = c, OF assms(1) this] assms(8,9) show ?thesis by auto
next
  case None
  then have token: "header_Get (PR_Header c) ''Authorization'' = ''Bearer '' @ BT_Token b"
    using validate_iff [of c auth] assms(2-5) by (simp add: presents_def rest_GetHeader_def canonical_keys)
  from rest_served [where get = get and c = c, OF assms(1) None assms(8)] assms(9)
  consider m where "fs = fst (makeMCPRequestWithSession E (AD_URL adapter) m (AD_Authentication adapter))"
    | mock c' where "rest_route_adapter E mock h c' adapter st = Some (fs, st', reply)"
      "header_Get (PR_Header c') ''Authorization'' = header_Get (PR_Header c) ''Authorization''" by auto
  then show ?thesis
  proof cases
    case 1
    then show ?thesis using session_request_token assms(2,5,6,9) by metis
  next
    case 2
    show ?thesis
      by (rule plugin_request_token [OF route_adapter_sends [OF 2(1) assms(9)] assms(7,2-6)]) (simp add: plugin_client_def 2(2) token)
  qed
qed

subsection \<open>What is answered\<close>

lemma plugin_reply_status:
  "plugin_reply True out = Rest_data resp \<Longrightarrow> CS_Body resp = [] \<Longrightarrow> CS_Status resp = 200"
  by (auto simp: plugin_reply_def split: prod.splits option.splits if_splits)

lemma rest_call_status:
  assumes "rest_call E h c m adapter st = Some (fs, st', Rest_data resp)" and "CS_Body resp = []"
  shows "CS_Status resp = 200"
proof -
  obtain body where b: "re_marshal E m = Inr body" using assms(1) by (auto simp: rest_call_def split: sum.splits)
  let ?c = "c\<lparr>PR_Method := ''POST'', PR_Header := header_Set ''Content-Type'' ''application/json'' (PR_Header c), PR_Body := Inr body\<rparr>"
  have r: "rest_route_adapter E True h ?c adapter st = Some (fs, st', Rest_data resp)" using assms(1) b by (simp add: rest_call_def)
  show ?thesis
  proof (cases "AD_ConnectionType adapter = ConnectionTypeLocalStdio")
    case True
    then show ?thesis using r
      by (cases "Stdio_HandleRequest (re_stdio E) (stdio_client ?c) adapter st") (auto simp: rest_route_adapter_def split: if_splits sum.splits)
  next
    case False
    then obtain out where "plugin_reply True out = Rest_data resp"
      using r by (auto simp: rest_route_adapter_def split: if_splits sum.splits)
    then show ?thesis using plugin_reply_status assms(2) by blast
  qed
qed

text \<open>Failures without a body become successes. Whatever status a remote server answers with, if its answer has no body, the
  client of a route that builds the message gets status 200.\<close>

theorem empty_answers_become_success:
  assumes "route \<noteq> Tools_list" and "route \<noteq> Mcp_proxy"
    and "rest_handler route E get h c st = Some (fs, st', Rest_data resp)" and "CS_Body resp = []"
  shows "CS_Status resp = 200"
proof -
  have "\<exists>m adapter. rest_call E h c m adapter st = Some (fs, st', Rest_data resp)"
    using assms(1-3) by (cases route) (auto simp: rest_adapter_def rest_handlers split: sum.splits option.splits)
  then show ?thesis using rest_call_status assms(4) by blast
qed

text \<open>The groups of a user do not count for the routes. For a user to whom the adapter's service does not give a remote adapter,
  so that the MCP route does not find it, a REST route sends the message and passes on what the server answers.\<close>

theorem rest_routes_skip_groups:
  assumes "service_get X (request_user q) name us sst = Inl refused" and "adapter_parts q = [name, ''mcp'']"
    and "ars_Get (so_adapters X) (as_store sst) name = Inr adapter" and "RQ_Param c ''name'' = name"
    and "AD_Authentication adapter = None" and "AD_ConnectionType adapter = ConnectionTypeRemoteHttp" and "\<not> re_no_plugin E"
    and "\<And>m. re_marshal E m = Inr body"
    and "plugin_request_for (re_plugin E) \<lparr>PR_Method = ''POST'', PR_Header = header_Set ''Content-Type'' ''application/json'' (PR_Header c),
      PR_RawQuery = PR_RawQuery c, PR_Body = Inr body\<rparr> adapter = Inr req"
    and "pl_send (re_plugin E) req = Answered resp" and "PX_Error resp = None" and "PX_Body resp \<noteq> []"
    and "\<not> Contains (header_Get (PX_Header resp) ''Content-Type'') ''text/event-stream''"
  shows "HandleMCPProtocol X remote sidecar q ph us sst = (404, Inl ''Adapter not found'') \<and>
    rest_handler Resources_list E (ars_Get (so_adapters X) (as_store sst)) h c st = Some ([req], st,
      Rest_data \<lparr>CS_Status = PX_Status resp, CS_Header = copied_headers (PX_Header resp) h, CS_Body = PX_Body resp\<rparr>)"
proof
  show "HandleMCPProtocol X remote sidecar q ph us sst = (404, Inl ''Adapter not found'')"
    using assms(1,2) by (simp add: HandleMCPProtocol_def Let_def)
  have "validateClientAuthentication c (AD_Authentication adapter) = None" using assms(5) by (simp add: validateClientAuthentication_def)
  then show "rest_handler Resources_list E (ars_Get (so_adapters X) (as_store sst)) h c st = Some ([req], st,
      Rest_data \<lparr>CS_Status = PX_Status resp, CS_Header = copied_headers (PX_Header resp) h, CS_Body = PX_Body resp\<rparr>)"
    using assms(3,4,6-13) by (simp add: handleMCPResourcesList_def rest_adapter_def rest_call_def rest_route_adapter_def
      RemoteHttp_ProxyRequest_def plugin_client_def plugin_response_def plugin_reply_def Let_def)
qed

subsection \<open>Sessions\<close>

lemma stdio_session_any_adapter:
  assumes "proxy_session_ID c = sid" and "sid \<noteq> []" and "sa_sessions st sid = Some session" and "SS_Process session = Some pid"
  shows "Stdio_HandleRequest E c adapter st = Stdio_HandleRequest E c adapter' st"
proof -
  have same: "Stdio_getOrCreateSession t1 t2 t3 sid adapter st = Stdio_getOrCreateSession t1 t2 t3 sid adapter' st" for t1 t2 t3
    using assms(3) by (simp add: Stdio_getOrCreateSession_def)
  moreover have "SS_Process (snd (Stdio_getOrCreateSession t1 t2 t3 sid adapter' st)) = Some pid" for t1 t2 t3
    using assms(3,4) by (simp add: Stdio_getOrCreateSession_def Let_def)
  ultimately have "Stdio_handleInitialize E m adapter sid st = Stdio_handleInitialize E m adapter' sid st" for m
    using assms(2) by (simp add: Stdio_handleInitialize_def Let_def case_prod_beta)
  moreover have "Stdio_handleSSEStream E c adapter sid st = Stdio_handleSSEStream E c adapter' sid st"
    using assms(2) by (simp add: Stdio_handleSSEStream_def same)
  ultimately show ?thesis using assms(1) by (simp add: Stdio_HandleRequest_def split: option.split sum.split)
qed

lemma built_session_ID:
  "proxy_session_ID (stdio_client (c\<lparr>PR_Method := m, PR_Header := header_Set ''Content-Type'' v (PR_Header c), PR_Body := b\<rparr>)) =
   proxy_session_ID (stdio_client c)"
proof -
  have "CanonicalHeaderKey ''Content-Type'' \<noteq> CanonicalHeaderKey ''Mcp-Session-Id''"
    "CanonicalHeaderKey ''Content-Type'' \<noteq> CanonicalHeaderKey ''mcp-session-id''" by code_simp+
  then show ?thesis by (simp add: proxy_session_ID_def stdio_client_def rest_GetHeader_def rest_Query_def header_Get_Set_other)
qed


lemma rest_session_ID_nonempty: "rest_session_ID r \<noteq> []"
  by (simp add: rest_session_ID_def split: option.split any.split)

text \<open>The server's session ID is not used. Once the server has answered the initialization, the notification and the message
  are sent with an ID made of the server's name, whatever session ID the headers of its answer gave; two clients get the
  same ID.\<close>

theorem rest_session_ID_is_invented:
  assumes "\<And>m. re_marshal E m = Inr body" and "re_new_request E url = None"
    and "\<And>f. re_send E f = Answered resp" and "PX_Status resp = 200" and "PX_Error resp = None"
    and "re_json E (event_json (PX_Body resp)) = Inr initResult"
  shows "map (\<lambda>f. header_Get (FW_Header f) ''Mcp-Session-Id'') (fst (makeMCPRequestWithSession E url request auth)) =
      [[], rest_session_ID initResult, rest_session_ID initResult] \<and>
    snd (makeMCPRequestWithSession E url request auth) = Inr resp"
proof -
  have keys: "CanonicalHeaderKey ''mcp-session-id'' = ''Mcp-Session-Id''" "CanonicalHeaderKey ''Authorization'' = ''Authorization''"
    "CanonicalHeaderKey ''Content-Type'' = ''Content-Type''" "CanonicalHeaderKey ''Accept'' = ''Accept''" by code_simp+
  have "snd (makeRawMCPRequestWithSession E url m auth sid) = Inr resp \<and>
      map (\<lambda>f. header_Get (FW_Header f) ''Mcp-Session-Id'') (fst (makeRawMCPRequestWithSession E url m auth sid)) = [sid]" for m sid
    using assms(1-3) by (auto simp: makeRawMCPRequestWithSession_def Let_def header_Get_def header_Set_def keys)
  then have raw: "\<exists>fs. makeRawMCPRequestWithSession E url m auth sid = (fs, Inr resp) \<and>
      map (\<lambda>f. header_Get (FW_Header f) ''Mcp-Session-Id'') fs = [sid]" for m sid by (metis prod.collapse)
  obtain f0 where "makeRawMCPRequestWithSession E url rest_init_message auth [] = (f0, Inr resp)"
    "map (\<lambda>f. header_Get (FW_Header f) ''Mcp-Session-Id'') f0 = [[]]"
    using raw [of rest_init_message "[]"] by (elim exE conjE) (rule that)
  moreover obtain f1 where "makeRawMCPRequestWithSession E url rest_initialized_message auth (rest_session_ID initResult) = (f1, Inr resp)"
    "map (\<lambda>f. header_Get (FW_Header f) ''Mcp-Session-Id'') f1 = [(rest_session_ID initResult)]"
    using raw [of rest_initialized_message "rest_session_ID initResult"] by (elim exE conjE) (rule that)
  moreover obtain f2 where "makeRawMCPRequestWithSession E url request auth (rest_session_ID initResult) = (f2, Inr resp)"
    "map (\<lambda>f. header_Get (FW_Header f) ''Mcp-Session-Id'') f2 = [(rest_session_ID initResult)]"
    using raw [of request "rest_session_ID initResult"] by (elim exE conjE) (rule that)
  ultimately show ?thesis using assms(4-6) by (simp add: makeMCPRequestWithSession_def makeRawMCPRequest_def Let_def)
qed

subsection \<open>Examples\<close>

definition ex_rest_adapter :: "string \<Rightarrow> AdapterAuthConfig option \<Rightarrow> AdapterResource" where
  "ex_rest_adapter t auth = (ex_w_adapter ''http://w/mcp'')\<lparr>AD_ConnectionType := t, AD_Authentication := auth\<rparr>"

definition ex_rest_request :: "headers \<Rightarrow> rest_request" where
  "ex_rest_request h = \<lparr>PR_Method = ''GET'', PR_Header = h, PR_RawQuery = [], PR_Body = Inr [],
     RQ_Param = (\<lambda>k. if k = ''name'' then ''w'' else []), RQ_Cookie = (\<lambda>k. None)\<rparr>"

definition ex_rest_env :: "proxied \<Rightarrow> rest_env" where
  "ex_rest_env resp = \<lparr>re_marshal = (\<lambda>m. Inr ''call''), re_new_request = (\<lambda>u. None), re_send = (\<lambda>f. Answered resp),
     re_json = (\<lambda>b. Inr [''result'' \<mapsto> Object [''serverInfo'' \<mapsto> Object [''name'' \<mapsto> String_value ''srv'']]]), re_bind = (\<lambda>b. Inr Nil_value),
     re_plugin = ex_plugin_env\<lparr>pl_json := (\<lambda>b. Inr [''jsonrpc'' \<mapsto> String_value ''2.0'', ''method'' \<mapsto> String_value ''resources/list'']),
       pl_send := (\<lambda>f. Answered resp)\<rparr>, re_stdio = ex_stdio_env, re_no_stdio = False, re_no_plugin = False\<rparr>"

definition ex_rest_response :: "int \<Rightarrow> string \<Rightarrow> proxied" where
  "ex_rest_response status body = \<lparr>PX_Status = status, PX_Header = Map.empty, PX_Body = body, PX_Error = None\<rparr>"

lemma ex_rest_simps [simp]:
  "AD_Authentication (ex_rest_adapter t auth) = auth" "AD_ConnectionType (ex_rest_adapter t auth) = t"
  "AD_Name (ex_rest_adapter t auth) = ''w''" "RQ_Param (ex_rest_request h) ''name'' = ''w''" "PR_Header (ex_rest_request h) = h"
  "PR_RawQuery (ex_rest_request h) = []"
  "re_marshal (ex_rest_env r) m = Inr ''call''" "re_new_request (ex_rest_env r) u = None" "re_send (ex_rest_env r) f = Answered r"
  "re_json (ex_rest_env r) b = Inr [''result'' \<mapsto> Object [''serverInfo'' \<mapsto> Object [''name'' \<mapsto> String_value ''srv'']]]"
  "pl_send (re_plugin (ex_rest_env r)) f = Answered r" "re_no_plugin (ex_rest_env r) = False"
  "PX_Status (ex_rest_response n b) = n" "PX_Body (ex_rest_response n b) = b" "PX_Error (ex_rest_response n b) = None"
  "PX_Header (ex_rest_response n b) = Map.empty"
  by (simp_all add: ex_rest_adapter_def ex_w_adapter_def ex_rest_request_def ex_rest_env_def ex_rest_response_def)

lemma ex_rest_sends:
  assumes "AD_EnvironmentVariables adapter ''MCP_BACKEND_AUTH_REQUIRED'' = None" and "AD_Name adapter = ''w''" and "PR_Body c = Inr b"
  shows "\<exists>req. plugin_request_for (re_plugin (ex_rest_env r)) c adapter = Inr req"
  using assms by (simp add: plugin_request_for_def plugin_target_def ex_rest_env_def ex_plugin_env_def HasPrefix_def validateMCPMessage_def
      is_string_def plugin_credentials_def Let_def)

lemma ex_rest_variables [simp]: "AD_EnvironmentVariables (ex_rest_adapter t auth) = Map.empty"
  by (simp add: ex_rest_adapter_def ex_w_adapter_def AdapterResource_Create_def zero_AdapterData_def AdapterData.defs merge_first_env_def)

lemma ex_bearer_accepted:
  "validateClientAuthentication (ex_rest_request [''Authorization'' \<mapsto> [''Bearer backend'']]) (Some ex_plugin_auth) = None"
  by (simp add: validate_iff presents_def rest_GetHeader_def canonical_keys header_Get_def ex_plugin_auth_def)

text \<open>What the list of resources comes to for a remote adapter.\<close>

lemma ex_rest_resources:
  assumes "validateClientAuthentication (ex_rest_request hs) auth = None"
  shows "\<exists>req. rest_handler Resources_list (ex_rest_env (ex_rest_response status body)) (\<lambda>name. Inr (ex_rest_adapter ConnectionTypeRemoteHttp auth))
      Map.empty (ex_rest_request hs) st = Some ([req], st, Rest_data \<lparr>CS_Status = (if body = [] then 200 else status),
        CS_Header = Map.empty, CS_Body = body\<rparr>)"
proof -
  let ?E = "ex_rest_env (ex_rest_response status body)" and ?a = "ex_rest_adapter ConnectionTypeRemoteHttp auth"
  let ?c = "\<lparr>PR_Method = ''POST'', PR_Header = header_Set ''Content-Type'' ''application/json'' hs, PR_RawQuery = [], PR_Body = Inr ''call''\<rparr>"
  obtain req where req: "plugin_request_for (re_plugin ?E) ?c ?a = Inr req"
    using ex_rest_sends [of ?a ?c "''call''" "ex_rest_response status body"] by auto
  have h: "copied_headers Map.empty Map.empty = Map.empty" by (rule ext) (simp add: copied_headers_def)
  have "\<not> Contains (header_Get Map.empty ''Content-Type'') ''text/event-stream''" by code_simp
  then have "RemoteHttp_ProxyRequest (re_plugin ?E) Map.empty ?c ?a =
      Inr (\<lparr>CS_Status = status, CS_Header = Map.empty, CS_Body = body\<rparr>, None)"
    using req by (simp add: RemoteHttp_ProxyRequest_def plugin_response_def h Let_def)
  then show ?thesis using assms req
    by (simp add: handleMCPResourcesList_def rest_adapter_def rest_call_def rest_route_adapter_def plugin_client_def plugin_reply_def)
qed


theorem basic_credentials_roundtrip_witness:
  "BasicAuth (header_Get (SetBasicAuth ''ann'' ''a:b'' Map.empty) ''Authorization'') = Some (''ann'', ''a:b'')"
  by (rule basic_credentials_roundtrip) simp

theorem rest_requests_carry_the_token_witness:
  "\<exists>req reply. rest_handler Resources_list (ex_rest_env (ex_rest_response 200 ''{}'')) (\<lambda>name. Inr (ex_rest_adapter ConnectionTypeRemoteHttp (Some ex_plugin_auth)))
     Map.empty (ex_rest_request [''Authorization'' \<mapsto> [''Bearer backend'']]) (ex_stdio_state 7) = Some ([req], ex_stdio_state 7, reply) \<and>
     header_Get (FW_Header req) ''Authorization'' = ''Bearer backend''"
proof -
  obtain req reply where r: "rest_handler Resources_list (ex_rest_env (ex_rest_response 200 ''{}''))
      (\<lambda>name. Inr (ex_rest_adapter ConnectionTypeRemoteHttp (Some ex_plugin_auth))) Map.empty
      (ex_rest_request [''Authorization'' \<mapsto> [''Bearer backend'']]) (ex_stdio_state 7) = Some ([req], ex_stdio_state 7, reply)"
    using ex_rest_resources [OF ex_bearer_accepted] by blast
  have "header_Get (FW_Header req) ''Authorization'' = ''Bearer '' @ BT_Token \<lparr>BT_Token = ''backend'', BT_Dynamic = False, BT_ExpiresAt = 0\<rparr>"
    by (rule rest_requests_carry_the_token [where auth = ex_plugin_auth
          and adapter = "ex_rest_adapter ConnectionTypeRemoteHttp (Some ex_plugin_auth)", OF _ _ _ _ _ _ _ r])
      (simp_all add: ex_plugin_auth_def HasPrefix_def)
  then show ?thesis using r by auto
qed

theorem empty_answers_become_success_witness:
  "\<exists>req resp. rest_handler Resources_list (ex_rest_env (ex_rest_response 404 [])) (\<lambda>name. Inr (ex_rest_adapter ConnectionTypeRemoteHttp None))
     Map.empty (ex_rest_request Map.empty) (ex_stdio_state 7) = Some ([req], ex_stdio_state 7, Rest_data resp) \<and> CS_Status resp = 200"
proof -
  have "validateClientAuthentication (ex_rest_request Map.empty) None = None" by (simp add: validateClientAuthentication_def)
  from ex_rest_resources [OF this, of 404 "[]"] obtain req resp where r: "rest_handler Resources_list (ex_rest_env (ex_rest_response 404 []))
      (\<lambda>name. Inr (ex_rest_adapter ConnectionTypeRemoteHttp None)) Map.empty (ex_rest_request Map.empty) (ex_stdio_state 7) =
      Some ([req], ex_stdio_state 7, Rest_data resp)" and "CS_Body resp = []" by fastforce
  then have "CS_Status resp = 200" by (intro empty_answers_become_success [OF _ _ r]) simp_all
  then show ?thesis using r by blast
qed

theorem rest_session_ID_is_invented_witness:
  "map (\<lambda>f. header_Get (FW_Header f) ''Mcp-Session-Id'')
     (fst (makeMCPRequestWithSession (ex_rest_env (ex_rest_response 200 ''{}'')) ''http://w/mcp'' (rest_message (Int_value 1) ''tools/list'' Map.empty) None)) =
   [[], ''rest-api-srv'', ''rest-api-srv'']"
  using rest_session_ID_is_invented [of "ex_rest_env (ex_rest_response 200 ''{}'')" "''call''" "''http://w/mcp''" "ex_rest_response 200 ''{}''"
      "[''result'' \<mapsto> Object [''serverInfo'' \<mapsto> Object [''name'' \<mapsto> String_value ''srv'']]]"
      "rest_message (Int_value 1) ''tools/list'' Map.empty" None]
  by (simp add: rest_session_ID_def)


definition ex_stranger :: http_request where
  "ex_stranger = ex_request ''GET'' ''/api/v1/adapters/w/mcp'' [] ''eve''"

theorem rest_routes_skip_groups_witness:
  "\<exists>req. HandleMCPProtocol ex_operations ex_echo ex_echo ex_stranger Map.empty ex_mem_users ex_remote_adapters = (404, Inl ''Adapter not found'') \<and>
     rest_handler Resources_list (ex_rest_env (ex_rest_response 200 ''{}'')) (ars_Get (so_adapters ex_operations) (as_store ex_remote_adapters))
       Map.empty (ex_rest_request [''X-User-Id'' \<mapsto> [''eve'']]) (ex_stdio_state 7) = Some ([req], ex_stdio_state 7,
         Rest_data \<lparr>CS_Status = 200, CS_Header = copied_headers Map.empty Map.empty, CS_Body = ''{}''\<rparr>)"
proof -
  let ?E = "ex_rest_env (ex_rest_response 200 ''{}'')" and ?h = "[''X-User-Id'' \<mapsto> [''eve'']]"
  let ?c = "\<lparr>PR_Method = ''POST'', PR_Header = header_Set ''Content-Type'' ''application/json'' (PR_Header (ex_rest_request ?h)),
      PR_RawQuery = PR_RawQuery (ex_rest_request ?h), PR_Body = Inr ''call''\<rparr>"
  have parts: "adapter_parts ex_stranger = [''w'', ''mcp'']" by code_simp
  have "request_user ex_stranger = ''eve''" by (simp add: request_user_def ex_stranger_def ex_request_def)
  then have refused: "service_get ex_operations (request_user ex_stranger) ''w'' ex_mem_users ex_remote_adapters = Inl ''adapter not found''"
    by (simp add: GetAdapter_def ex_operations_def ex_remote_adapters_def ex_remote_adapter_def ex_adapter_def eval_mem_adapters)
  have get: "ars_Get (so_adapters ex_operations) (as_store ex_remote_adapters) ''w'' = Inr ex_remote_adapter"
    by (simp add: ex_operations_def ex_remote_adapters_def eval_mem_adapters)
  have adapter: "AD_Authentication ex_remote_adapter = None" "AD_ConnectionType ex_remote_adapter = ConnectionTypeRemoteHttp"
    "AD_EnvironmentVariables ex_remote_adapter ''MCP_BACKEND_AUTH_REQUIRED'' = None" "AD_Name ex_remote_adapter = ''w''"
    by (simp_all add: ex_remote_adapter_def ex_adapter_def zero_AdapterData_def)
  have plain: "\<not> Contains (header_Get (PX_Header (ex_rest_response 200 ''{}'')) ''Content-Type'') ''text/event-stream''"
    by (simp add: header_Get_def Contains_def)
  obtain req where req: "plugin_request_for (re_plugin ?E) ?c ex_remote_adapter = Inr req"
    using ex_rest_sends [of ex_remote_adapter ?c "''call''" "ex_rest_response 200 ''{}''"] adapter by auto
  from rest_routes_skip_groups [where remote = ex_echo and sidecar = ex_echo and ph = Map.empty and h = Map.empty and st = "ex_stdio_state 7",
      OF refused parts get _ adapter(1,2) _ _ req, of "ex_rest_response 200 ''{}''"] plain
  show ?thesis by auto
qed

end
