(* ===== verification/Plugins.thy ===== *)
theory Plugins
  imports Registry
begin

section \<open>Plugin services\<close>

text \<open>
  \<open>pkg/plugins/interface.go\<close>, \<open>manager.go\<close> and \<open>internal/handlers/plugin.go\<close>: the registrations of plugin services, their
  health, and the discovery of the implementations behind a VirtualMCP service, which are uploaded to the registry. The
  configuration is the map from the type of a service to whether it is enabled; \<open>main.go\<close> always gives one, so \<open>nil\<close> is
  \<open>None\<close>. The zero time is 0. \<open>send\<close> is the client, with its timeouts; the decoders of JSON are arguments.
\<close>

abbreviation ServiceTypeVirtualMCP :: string where "ServiceTypeVirtualMCP \<equiv> ''virtualmcp''"

record ServiceCapability =
  SC_Path :: string
  SC_Methods :: "string list"
  SC_Description :: string

record ServiceRegistration =
  SR_ServiceID :: string
  SR_ServiceType :: string
  SR_ServiceURL :: string
  SR_Capabilities :: "ServiceCapability list"
  SR_Version :: string
  SR_RegisteredAt :: gotime
  SR_LastHeartbeat :: gotime

record ServiceHealth =
  SH_Status :: string
  SH_Message :: string
  SH_LastChecked :: gotime
  SH_ResponseTime :: int

record ServiceManager =
  SM_services :: "string \<rightharpoonup> ServiceRegistration"
  SM_serviceHealth :: "string \<rightharpoonup> ServiceHealth"

type_synonym service_config = "(string \<rightharpoonup> bool) option"

subsection \<open>Registrations\<close>

definition NewServiceManager :: ServiceManager where
  "NewServiceManager = \<lparr>SM_services = Map.empty, SM_serviceHealth = Map.empty\<rparr>"

definition IsServiceEnabled :: "service_config \<Rightarrow> string \<Rightarrow> bool" where
  "IsServiceEnabled config serviceType =
     (case config of
        None \<Rightarrow> True
      | Some services \<Rightarrow> (case services serviceType of Some enabled \<Rightarrow> enabled | None \<Rightarrow> True))"

text \<open>Three readings of the clock. With a success comes the registration for which the discovery is started, if any.\<close>

definition RegisterService ::
    "service_config \<Rightarrow> gotime \<Rightarrow> gotime \<Rightarrow> gotime \<Rightarrow> ServiceRegistration \<Rightarrow> ServiceManager \<Rightarrow>
     ServiceManager \<times> (ServiceRegistration option) result" where
  "RegisterService config t1 t2 t3 registration sm =
     (if \<not> IsServiceEnabled config (SR_ServiceType registration)
      then (sm, Inl (''service type '' @ SR_ServiceType registration @ '' is not enabled in configuration''))
      else let r = registration\<lparr>SR_RegisteredAt := t1, SR_LastHeartbeat := t2\<rparr> in
        (sm\<lparr>SM_services := (SM_services sm)(SR_ServiceID r \<mapsto> r),
            SM_serviceHealth := (SM_serviceHealth sm)(SR_ServiceID r \<mapsto>
              \<lparr>SH_Status = ''unknown'', SH_Message = [], SH_LastChecked = t3, SH_ResponseTime = 0\<rparr>)\<rparr>,
         Inr (if SR_ServiceType r = ServiceTypeVirtualMCP then Some r else None)))"

definition UnregisterService :: "string \<Rightarrow> ServiceManager \<Rightarrow> ServiceManager \<times> error option" where
  "UnregisterService serviceID sm =
     (if SM_services sm serviceID = None then (sm, Some (''service '' @ serviceID @ '' not found''))
      else (sm\<lparr>SM_services := (SM_services sm)(serviceID := None),
               SM_serviceHealth := (SM_serviceHealth sm)(serviceID := None)\<rparr>, None))"

definition ServiceManager_GetService :: "ServiceManager \<Rightarrow> string \<Rightarrow> ServiceRegistration option" where
  "ServiceManager_GetService sm serviceID = SM_services sm serviceID"

definition GetServicesByType :: "string list \<Rightarrow> string \<Rightarrow> ServiceManager \<Rightarrow> ServiceRegistration list" where
  "GetServicesByType ks serviceType sm =
     filter (\<lambda>service. SR_ServiceType service = serviceType) (range_values (SM_services sm) ks)"

definition GetAllServices :: "string list \<Rightarrow> ServiceManager \<Rightarrow> ServiceRegistration list" where
  "GetAllServices ks sm = range_values (SM_services sm) ks"

definition UpdateServiceHealth :: "string \<Rightarrow> ServiceHealth \<Rightarrow> ServiceManager \<Rightarrow> ServiceManager" where
  "UpdateServiceHealth serviceID health sm =
     sm\<lparr>SM_serviceHealth := (SM_serviceHealth sm)(serviceID \<mapsto> health)\<rparr>"

definition ServiceManager_GetServiceHealth :: "ServiceManager \<Rightarrow> string \<Rightarrow> ServiceHealth option" where
  "ServiceManager_GetServiceHealth sm serviceID = SM_serviceHealth sm serviceID"

subsection \<open>Paths\<close>

definition pathMatchesCapability :: "string \<Rightarrow> string \<Rightarrow> bool" where
  "pathMatchesCapability path pattern =
     (if pattern = [] then False
      else if 1 < length pattern \<and> pattern ! (length pattern - 1) = CHR ''*'' then
        (let prefix = take (length pattern - 1) pattern
         in length prefix \<le> length path \<and> take (length prefix) path = prefix)
      else path = pattern)"

fun first_service :: "(ServiceRegistration \<Rightarrow> bool) \<Rightarrow> ServiceRegistration list \<Rightarrow> ServiceRegistration option" where
  "first_service P [] = None"
| "first_service P (service # services) = (if P service then Some service else first_service P services)"

definition GetServiceForPath :: "string list \<Rightarrow> string \<Rightarrow> ServiceManager \<Rightarrow> ServiceRegistration option" where
  "GetServiceForPath ks path sm =
     first_service (\<lambda>service. list_ex (\<lambda>capability. pathMatchesCapability path (SC_Path capability)) (SR_Capabilities service))
       (range_values (SM_services sm) ks)"

subsection \<open>Health\<close>

definition checkBasicServiceHealth :: "ServiceRegistration \<Rightarrow> ServiceHealth" where
  "checkBasicServiceHealth service =
     \<lparr>SH_Status = ''healthy'', SH_Message = ''Service is registered'', SH_LastChecked = 0, SH_ResponseTime = 0\<rparr>"

definition health_of :: "string \<Rightarrow> string \<Rightarrow> ServiceHealth" where
  "health_of status message = \<lparr>SH_Status = status, SH_Message = message, SH_LastChecked = 0, SH_ResponseTime = 0\<rparr>"

text \<open>\<open>count\<close> is the decoded count of a body, 0 when there is none.\<close>

definition checkVirtualMCPHealth :: "(forwarded \<Rightarrow> sent) \<Rightarrow> (string \<Rightarrow> int) \<Rightarrow> ServiceRegistration \<Rightarrow> ServiceHealth" where
  "checkVirtualMCPHealth send count service =
     (case send (get_url (SR_ServiceURL service @ ''/health'')) of
        Bad_request err \<Rightarrow> health_of ''unhealthy'' (''Failed to create health check request: '' @ err)
      | Unreachable err \<Rightarrow> health_of ''unhealthy'' (''Health check failed: '' @ err)
      | Answered resp \<Rightarrow>
          if PX_Status resp \<noteq> 200
          then health_of ''unhealthy'' (''Health check returned status '' @ show_int (PX_Status resp))
          else (case send (get_url (SR_ServiceURL service @ ''/api/v1/mcps'')) of
            Bad_request err \<Rightarrow> health_of ''degraded'' ''Basic health OK but MCP discovery check failed''
          | Unreachable err \<Rightarrow> health_of ''degraded'' (''Basic health OK but MCP discovery failed: '' @ err)
          | Answered resp2 \<Rightarrow>
              if PX_Status resp2 \<noteq> 200
              then health_of ''degraded'' (''Basic health OK but MCP discovery returned status '' @ show_int (PX_Status resp2))
              else let n = (if PX_Error resp2 = None then count (PX_Body resp2) else 0) in
                health_of ''healthy'' (''VirtualMCP service healthy with '' @ show_int n @ '' MCP implementations'')))"

text \<open>The time of the check is put into a variable that the result of the check then replaces.\<close>

definition checkServiceHealth ::
    "(forwarded \<Rightarrow> sent) \<Rightarrow> (string \<Rightarrow> int) \<Rightarrow> gotime \<Rightarrow> gotime \<Rightarrow> ServiceRegistration \<Rightarrow> ServiceHealth" where
  "checkServiceHealth send count start_time end_time service =
     (let health = (if SR_ServiceType service = ServiceTypeVirtualMCP then checkVirtualMCPHealth send count service
                    else checkBasicServiceHealth service)
      in health\<lparr>SH_ResponseTime := end_time - start_time\<rparr>)"

text \<open>\<open>performHealthChecks\<close> when nothing comes between: \<open>ks\<close> is the order in which the services are read; the clock gives
  the start and the end of each check.\<close>

fun performHealthChecks ::
    "(string \<Rightarrow> (forwarded \<Rightarrow> sent) \<times> gotime \<times> gotime) \<Rightarrow> (string \<Rightarrow> int) \<Rightarrow> string list \<Rightarrow> ServiceManager \<Rightarrow> ServiceManager" where
  "performHealthChecks E count [] sm = sm"
| "performHealthChecks E count (serviceID # serviceIDs) sm =
     performHealthChecks E count serviceIDs
       (case ServiceManager_GetService sm serviceID of
          None \<Rightarrow> sm
        | Some service \<Rightarrow>
            (case E serviceID of (send, t, t') \<Rightarrow>
               UpdateServiceHealth serviceID (checkServiceHealth send count t t' service) sm))"

subsection \<open>The implementations of a VirtualMCP service\<close>

definition any_text :: "(string \<rightharpoonup> any) \<Rightarrow> string \<Rightarrow> string" where
  "any_text m k = (case Option.bind (m k) any_string of Some s \<Rightarrow> s | None \<Rightarrow> [])"

definition any_object :: "(string \<rightharpoonup> any) \<Rightarrow> string \<Rightarrow> (string \<rightharpoonup> any)" where
  "any_object m k = (case Option.bind (m k) any_map of Some x \<Rightarrow> x | None \<Rightarrow> Map.empty)"

definition virtual_tool :: "(string \<rightharpoonup> any) \<Rightarrow> MCPTool" where
  "virtual_tool toolMap = \<lparr>MT_Name = any_text toolMap ''name'', MT_Description = any_text toolMap ''description'',
     MT_InputSchema = any_object toolMap ''input_schema'', MT_SourceType = any_text toolMap ''source_type'',
     MT_Config = any_object toolMap ''config''\<rparr>"

text \<open>\<open>rfc\<close> is the format of a time.\<close>

definition convertMCPImplementationToMCPServer ::
    "(gotime \<Rightarrow> string) \<Rightarrow> gotime \<Rightarrow> gotime \<Rightarrow> (string \<rightharpoonup> any) \<Rightarrow> ServiceRegistration \<Rightarrow> MCPServer option" where
  "convertMCPImplementationToMCPServer rfc t1 t2 impl service =
     (case Option.bind (impl ''id'') any_string of
        None \<Rightarrow> None
      | Some iid \<Rightarrow>
          (let sid = ''virtualmcp-'' @ SR_ServiceID service @ ''-'' @ iid in
           Some (zero_MCPServer\<lparr>Srv_ID := sid, Srv_Name := any_text impl ''name'',
             Srv_Description := any_text impl ''description'',
             Srv_Version := (case Option.bind (impl ''version'') any_string of Some v \<Rightarrow> v | None \<Rightarrow> ''1.0.0''),
             Srv_Packages := [\<lparr>Pkg_RegistryType = ''virtualmcp'', Pkg_Identifier = sid, Pkg_Transport = \<lparr>Tr_Type = ''http''\<rparr>,
               Pkg_EnvironmentVariables = []\<rparr>],
             Srv_Tools := (case Option.bind (impl ''tools'') any_slice of
                 None \<Rightarrow> []
               | Some tools \<Rightarrow> map virtual_tool (List.map_filter any_map tools)),
             Srv_ValidationStatus := ''new'', Srv_DiscoveredAt := t1,
             Srv_Meta := [''source'' \<mapsto> String_value ''virtualmcp'', ''service_id'' \<mapsto> String_value (SR_ServiceID service),
               ''service_url'' \<mapsto> String_value (SR_ServiceURL service), ''discovery_time'' \<mapsto> String_value (rfc t2)]\<rparr>)))"

text \<open>\<open>decode\<close> gives the implementations of a body; \<open>ts\<close> the readings of the clock for each. An implementation that is
  \<open>null\<close> is the nil map, which has no ID. All errors are only logged.\<close>

definition discovered_servers ::
    "(gotime \<Rightarrow> string) \<Rightarrow> (nat \<Rightarrow> gotime \<times> gotime) \<Rightarrow> ServiceRegistration \<Rightarrow> (string \<rightharpoonup> any) list \<Rightarrow> MCPServer list" where
  "discovered_servers rfc ts service impls =
     List.map_filter (\<lambda>(i, impl). convertMCPImplementationToMCPServer rfc (fst (ts i)) (snd (ts i)) impl service)
       (enumerate 0 impls)"

definition discoverMCPImplementations ::
    "'r MCPServerStore \<Rightarrow> store_env \<Rightarrow> (forwarded \<Rightarrow> sent) \<Rightarrow> (string \<Rightarrow> ((string \<rightharpoonup> any) list) result) \<Rightarrow> (gotime \<Rightarrow> string) \<Rightarrow>
     (nat \<Rightarrow> gotime \<times> gotime) \<Rightarrow> ServiceRegistration \<Rightarrow> 'r \<Rightarrow> 'r" where
  "discoverMCPImplementations R es send decode rfc ts service s =
     (case send (get_url (SR_ServiceURL service @ ''/api/v1/mcps'')) of
        Bad_request err \<Rightarrow> s
      | Unreachable err \<Rightarrow> s
      | Answered resp \<Rightarrow>
          if PX_Status resp \<noteq> 200 then s
          else if PX_Error resp \<noteq> None then s
          else (case decode (PX_Body resp) of
            Inl err \<Rightarrow> s
          | Inr impls \<Rightarrow>
              (let mcpServers = discovered_servers rfc ts service impls in
               if mcpServers \<noteq> [] then fst (UploadRegistryEntries R es 0 mcpServers s) else s)))"

text \<open>\<open>performMCPSync\<close> when nothing comes between and the context lives on: \<open>ks\<close> is the order in which the services are
  read, and the VirtualMCP services among them are asked again.\<close>

fun sync_services ::
    "'r MCPServerStore \<Rightarrow> (string \<Rightarrow> store_env \<times> (forwarded \<Rightarrow> sent) \<times> (nat \<Rightarrow> gotime \<times> gotime)) \<Rightarrow>
     (string \<Rightarrow> ((string \<rightharpoonup> any) list) result) \<Rightarrow> (gotime \<Rightarrow> string) \<Rightarrow> ServiceManager \<Rightarrow> string list \<Rightarrow> 'r \<Rightarrow> 'r" where
  "sync_services R E decode rfc sm [] s = s"
| "sync_services R E decode rfc sm (serviceID # serviceIDs) s =
     sync_services R E decode rfc sm serviceIDs
       (case ServiceManager_GetService sm serviceID of
          None \<Rightarrow> s
        | Some service \<Rightarrow>
            (case E serviceID of (es, send, ts) \<Rightarrow> discoverMCPImplementations R es send decode rfc ts service s))"

definition performMCPSync ::
    "'r MCPServerStore \<Rightarrow> (string \<Rightarrow> store_env \<times> (forwarded \<Rightarrow> sent) \<times> (nat \<Rightarrow> gotime \<times> gotime)) \<Rightarrow>
     (string \<Rightarrow> ((string \<rightharpoonup> any) list) result) \<Rightarrow> (gotime \<Rightarrow> string) \<Rightarrow> string list \<Rightarrow> ServiceManager \<Rightarrow> 'r \<Rightarrow> 'r" where
  "performMCPSync R E decode rfc ks sm s =
     sync_services R E decode rfc sm
       (filter (\<lambda>k. map_option SR_ServiceType (SM_services sm k) = Some ServiceTypeVirtualMCP) ks) s"

subsection \<open>The routes\<close>

record RegisterServiceRequest =
  RSQ_ServiceID :: string
  RSQ_ServiceType :: string
  RSQ_ServiceURL :: string
  RSQ_Version :: string
  RSQ_Capabilities :: "ServiceCapability list"

text \<open>An answer is a status with an error and its details, or with the payload.\<close>

datatype plugin_payload = PP_registered string | PP_services "ServiceRegistration list" | PP_service ServiceRegistration
  | PP_health ServiceHealth | PP_none

type_synonym plugin_route_reply = "int \<times> (string \<times> string + plugin_payload)"

text \<open>\<open>bind\<close> decodes the body; the three required fields are then checked, and \<open>invalid\<close> is what the validator says of
  them.\<close>

definition PluginHandler_RegisterService ::
    "service_config \<Rightarrow> (string \<Rightarrow> RegisterServiceRequest result) \<Rightarrow> (RegisterServiceRequest \<Rightarrow> string) \<Rightarrow> gotime \<Rightarrow> gotime \<Rightarrow> gotime \<Rightarrow>
     string \<Rightarrow> ServiceManager \<Rightarrow> ServiceManager \<times> ServiceRegistration option \<times> plugin_route_reply" where
  "PluginHandler_RegisterService config bind invalid t1 t2 t3 body sm =
     (case bind body of
        Inl err \<Rightarrow> (sm, None, 400, Inl (''Invalid request body'', err))
      | Inr req \<Rightarrow>
          if RSQ_ServiceID req = [] \<or> RSQ_ServiceType req = [] \<or> RSQ_ServiceURL req = []
          then (sm, None, 400, Inl (''Invalid request body'', invalid req))
          else (case RegisterService config t1 t2 t3
              \<lparr>SR_ServiceID = RSQ_ServiceID req, SR_ServiceType = RSQ_ServiceType req, SR_ServiceURL = RSQ_ServiceURL req,
               SR_Capabilities = RSQ_Capabilities req, SR_Version = RSQ_Version req, SR_RegisteredAt = 0, SR_LastHeartbeat = 0\<rparr> sm of
            (sm', Inl err) \<Rightarrow> (sm', None, 409, Inl (''Failed to register service'', err))
          | (sm', Inr started) \<Rightarrow> (sm', started, 201, Inr (PP_registered (RSQ_ServiceID req)))))"

definition PluginHandler_UnregisterService :: "string \<Rightarrow> ServiceManager \<Rightarrow> ServiceManager \<times> plugin_route_reply" where
  "PluginHandler_UnregisterService serviceID sm =
     (case UnregisterService serviceID sm of
        (sm', Some err) \<Rightarrow> (sm', 404, Inl (''Service not found'', err))
      | (sm', None) \<Rightarrow> (sm', 204, Inr PP_none))"

definition ListServices :: "string list \<Rightarrow> ServiceManager \<Rightarrow> plugin_route_reply" where
  "ListServices ks sm = (200, Inr (PP_services (GetAllServices ks sm)))"

definition service_missing :: "string \<Rightarrow> plugin_route_reply" where
  "service_missing serviceID = (404, Inl (''Service not found'', ''Service '' @ [CHR 0x27] @ serviceID @ [CHR 0x27] @ '' not found''))"

definition PluginHandler_GetService :: "string \<Rightarrow> ServiceManager \<Rightarrow> plugin_route_reply" where
  "PluginHandler_GetService serviceID sm =
     (case ServiceManager_GetService sm serviceID of
        None \<Rightarrow> service_missing serviceID
      | Some service \<Rightarrow> (200, Inr (PP_service service)))"

definition ListServicesByType :: "string list \<Rightarrow> string \<Rightarrow> ServiceManager \<Rightarrow> plugin_route_reply" where
  "ListServicesByType ks serviceType sm = (200, Inr (PP_services (GetServicesByType ks serviceType sm)))"

definition PluginHandler_GetServiceHealth :: "string \<Rightarrow> ServiceManager \<Rightarrow> plugin_route_reply" where
  "PluginHandler_GetServiceHealth serviceID sm =
     (case ServiceManager_GetServiceHealth sm serviceID of
        None \<Rightarrow> service_missing serviceID
      | Some health \<Rightarrow> (200, Inr (PP_health health)))"


subsection \<open>The manager with its checks in between\<close>

text \<open>The health checks take the lock for each of their steps only: the identifiers are read, then for each its service is
  read, checked without the lock, and the result is written. \<open>PS_ids\<close> are the identifiers still to come and
  \<open>PS_checking\<close> the service that is being checked. Any handler may come between.\<close>

record plugin_state =
  PS_manager :: ServiceManager
  PS_ids :: "string list"
  PS_checking :: "(string \<times> ServiceRegistration) option"

inductive plugin_step :: "service_config \<Rightarrow> plugin_state \<Rightarrow> plugin_state \<Rightarrow> bool" for config :: service_config where
  register: "plugin_step config st (st\<lparr>PS_manager :=
      fst (PluginHandler_RegisterService config bind invalid t1 t2 t3 body (PS_manager st))\<rparr>)"
| unregister: "plugin_step config st (st\<lparr>PS_manager := fst (PluginHandler_UnregisterService serviceID (PS_manager st))\<rparr>)"
| snapshot: "PS_ids st = [] \<Longrightarrow> PS_checking st = None \<Longrightarrow> range_order (SM_services (PS_manager st)) ks \<Longrightarrow>
    plugin_step config st (st\<lparr>PS_ids := ks\<rparr>)"
| gone: "PS_ids st = serviceID # ks \<Longrightarrow> PS_checking st = None \<Longrightarrow> ServiceManager_GetService (PS_manager st) serviceID = None \<Longrightarrow>
    plugin_step config st (st\<lparr>PS_ids := ks\<rparr>)"
| check: "PS_ids st = serviceID # ks \<Longrightarrow> PS_checking st = None \<Longrightarrow>
    ServiceManager_GetService (PS_manager st) serviceID = Some service \<Longrightarrow>
    plugin_step config st (st\<lparr>PS_ids := ks, PS_checking := Some (serviceID, service)\<rparr>)"
| checked: "PS_checking st = Some (serviceID, service) \<Longrightarrow>
    plugin_step config st (st\<lparr>PS_checking := None, PS_manager :=
      UpdateServiceHealth serviceID (checkServiceHealth send count t t' service) (PS_manager st)\<rparr>)"

definition plugin_start :: plugin_state where
  "plugin_start = \<lparr>PS_manager = NewServiceManager, PS_ids = [], PS_checking = None\<rparr>"

text \<open>What every reachable state keeps: a service is filed under its ID, has an ID, a type and an address, its type is enabled,
  and its health is known.\<close>

definition plugins_ok :: "service_config \<Rightarrow> ServiceManager \<Rightarrow> bool" where
  "plugins_ok config sm \<longleftrightarrow>
     (\<forall>k service. SM_services sm k = Some service \<longrightarrow>
        SR_ServiceID service = k \<and> k \<noteq> [] \<and> SR_ServiceType service \<noteq> [] \<and> SR_ServiceURL service \<noteq> [] \<and>
        IsServiceEnabled config (SR_ServiceType service) \<and> SM_serviceHealth sm k \<noteq> None)"

lemma plugins_ok_register:
  "plugins_ok config sm \<Longrightarrow> plugins_ok config (fst (PluginHandler_RegisterService config bind invalid t1 t2 t3 body sm))"
  by (auto simp: PluginHandler_RegisterService_def RegisterService_def plugins_ok_def Let_def split: sum.split)

lemma plugins_ok_unregister: "plugins_ok config sm \<Longrightarrow> plugins_ok config (fst (PluginHandler_UnregisterService serviceID sm))"
  by (auto simp: PluginHandler_UnregisterService_def UnregisterService_def plugins_ok_def)

lemma plugins_ok_health: "plugins_ok config sm \<Longrightarrow> plugins_ok config (UpdateServiceHealth serviceID health sm)"
  by (auto simp: UpdateServiceHealth_def plugins_ok_def)

lemma plugin_step_ok: "plugin_step config st st' \<Longrightarrow> plugins_ok config (PS_manager st) \<Longrightarrow> plugins_ok config (PS_manager st')"
  by (induction rule: plugin_step.induct)
    (simp_all add: plugins_ok_register plugins_ok_unregister plugins_ok_health)

lemma plugins_ok_start: "plugins_ok config (PS_manager plugin_start)"
  by (simp add: plugin_start_def NewServiceManager_def plugins_ok_def)

lemma plugin_steps_ok: "(plugin_step config)\<^sup>*\<^sup>* plugin_start st \<Longrightarrow> plugins_ok config (PS_manager st)"
  by (induction rule: rtranclp_induct)
    (simp_all add: plugins_ok_start plugin_step_ok)

subsection \<open>Properties\<close>

text \<open>C36. The registrations are well-formed: however registrations, removals and health checks follow each other or come
  between the steps of a check, a listed service is found under its ID, its health is known, and its type is enabled.\<close>

theorem plugins_well_formed:
  assumes "(plugin_step config)\<^sup>*\<^sup>* plugin_start st"
    and "service \<in> set (GetAllServices ks (PS_manager st))"
  shows "PluginHandler_GetService (SR_ServiceID service) (PS_manager st) = (200, Inr (PP_service service)) \<and>
    (\<exists>health. PluginHandler_GetServiceHealth (SR_ServiceID service) (PS_manager st) = (200, Inr (PP_health health))) \<and>
    IsServiceEnabled config (SR_ServiceType service)"
proof -
  obtain k where k: "SM_services (PS_manager st) k = Some service"
    using assms(2) set_range_values_subset [of "SM_services (PS_manager st)" ks] by (auto simp: GetAllServices_def ran_def)
  with plugin_steps_ok [OF assms(1)] have "SR_ServiceID service = k" "IsServiceEnabled config (SR_ServiceType service)"
    "\<exists>health. SM_serviceHealth (PS_manager st) k = Some health"
    by (auto simp: plugins_ok_def)
  with k show ?thesis
    by (auto simp: PluginHandler_GetService_def ServiceManager_GetService_def
        PluginHandler_GetServiceHealth_def ServiceManager_GetServiceHealth_def)
qed

text \<open>An answer of the health route does not mean that the service is there. In every reachable state in which no check is
  going on, a registered service can be checked, removed while its check is under way, and then its health is written
  back: the service is not found any more, the removal says the same, but its health is still answered.\<close>

theorem ghost_health:
  assumes "(plugin_step config)\<^sup>*\<^sup>* plugin_start st" and "PS_ids st = []" and "PS_checking st = None"
    and "range_order (SM_services (PS_manager st)) (serviceID # ks)"
  shows "\<exists>st'. (plugin_step config)\<^sup>*\<^sup>* plugin_start st' \<and>
    PluginHandler_GetService serviceID (PS_manager st') = service_missing serviceID \<and>
    fst (snd (PluginHandler_UnregisterService serviceID (PS_manager st'))) = 404 \<and>
    (\<exists>health. PluginHandler_GetServiceHealth serviceID (PS_manager st') = (200, Inr (PP_health health)))"
proof -
  obtain service where service: "SM_services (PS_manager st) serviceID = Some service"
    using assms(4) by (auto simp: range_order_def dom_def)
  define st1 where "st1 = st\<lparr>PS_ids := serviceID # ks\<rparr>"
  define st2 where "st2 = st1\<lparr>PS_ids := ks, PS_checking := Some (serviceID, service)\<rparr>"
  define st3 where "st3 = st2\<lparr>PS_manager := fst (PluginHandler_UnregisterService serviceID (PS_manager st2))\<rparr>"
  define st4 where "st4 = st3\<lparr>PS_checking := None, PS_manager :=
      UpdateServiceHealth serviceID (checkServiceHealth (\<lambda>w. Unreachable []) (\<lambda>b. 0) 0 0 service) (PS_manager st3)\<rparr>"
  have "plugin_step config st st1" unfolding st1_def by (rule plugin_step.snapshot) (use assms(2-4) in simp_all)
  moreover have "plugin_step config st1 st2" unfolding st2_def
    by (rule plugin_step.check) (use assms(3) service in \<open>simp_all add: st1_def ServiceManager_GetService_def\<close>)
  moreover have "plugin_step config st2 st3" unfolding st3_def by (rule plugin_step.unregister)
  moreover have "plugin_step config st3 st4" unfolding st4_def
    by (rule plugin_step.checked) (simp add: st3_def st2_def)
  ultimately have "(plugin_step config)\<^sup>*\<^sup>* plugin_start st4" using assms(1) by (meson rtranclp.rtrancl_into_rtrancl)
  moreover have "SM_services (PS_manager st4) serviceID = None"
    by (simp add: st4_def st3_def st2_def st1_def UpdateServiceHealth_def PluginHandler_UnregisterService_def UnregisterService_def
        service)
  moreover have "SM_serviceHealth (PS_manager st4) serviceID \<noteq> None" by (simp add: st4_def UpdateServiceHealth_def)
  ultimately show ?thesis
    by (intro exI [of _ st4]) (auto simp: PluginHandler_GetService_def ServiceManager_GetService_def
        PluginHandler_UnregisterService_def UnregisterService_def PluginHandler_GetServiceHealth_def
        ServiceManager_GetServiceHealth_def)
qed

lemma performHealthChecks_services [simp]: "SM_services (performHealthChecks E count ks sm) = SM_services sm"
  by (induction ks arbitrary: sm) (simp_all add: UpdateServiceHealth_def split: option.split prod.split)

lemma performHealthChecks_health:
  assumes "range_order (SM_services sm) ks"
  shows "SM_serviceHealth (performHealthChecks E count ks sm) =
    (\<lambda>k. case SM_services sm k of
       None \<Rightarrow> SM_serviceHealth sm k
     | Some service \<Rightarrow> (case E k of (send, t, t') \<Rightarrow> Some (checkServiceHealth send count t t' service)))"
proof -
  have "SM_serviceHealth (performHealthChecks E count js sm) =
    (\<lambda>k. if k \<in> set js then (case SM_services sm k of
       None \<Rightarrow> SM_serviceHealth sm k
     | Some service \<Rightarrow> (case E k of (send, t, t') \<Rightarrow> Some (checkServiceHealth send count t t' service))) else SM_serviceHealth sm k)"
    for js
  proof (induction js arbitrary: sm)
    case (Cons j js)
    show ?case
      by (auto simp: Cons.IH fun_eq_iff UpdateServiceHealth_def ServiceManager_GetService_def split: option.split prod.split)
  qed simp
  then show ?thesis
    using assms by (auto simp: range_order_def fun_eq_iff dom_def split: option.split)
qed

text \<open>When nothing comes between, the checks give every service its health of the moment, and they leave the other entries as
  they are; but the time of the check is never shown: it is the zero time after every check.\<close>

theorem health_checks_cover_services:
  assumes "range_order (SM_services sm) ks"
  shows "SM_serviceHealth (performHealthChecks E count ks sm) =
    (\<lambda>k. case SM_services sm k of
       None \<Rightarrow> SM_serviceHealth sm k
     | Some service \<Rightarrow> (case E k of (send, t, t') \<Rightarrow> Some (checkServiceHealth send count t t' service))) \<and>
   SH_LastChecked (checkServiceHealth send count t t' service) = 0"
  by (simp add: performHealthChecks_health [OF assms])
    (simp add: checkServiceHealth_def checkVirtualMCPHealth_def checkBasicServiceHealth_def health_of_def Let_def split: sent.split)

text \<open>A pattern with a star at its end and something before it stands for the paths that start with what is before the star;
  every other pattern, \<open>*\<close> alone among them, stands for itself, the empty pattern for nothing.\<close>

definition path_pattern :: "string \<Rightarrow> string set" where
  "path_pattern pattern =
     (if pattern = [] then {} else if pattern \<noteq> ''*'' \<and> (\<exists>prefix. pattern = prefix @ ''*'')
      then {path. \<exists>rest. butlast pattern @ rest = path} else {pattern})"

lemma pathMatches_pattern: "pathMatchesCapability path pattern \<longleftrightarrow> path \<in> path_pattern pattern"
proof (cases pattern rule: rev_cases)
  case (snoc prefix c)
  have "length prefix \<le> length path \<and> take (length prefix) path = prefix \<longleftrightarrow> (\<exists>rest. prefix @ rest = path)"
    by (metis append_eq_conv_conj append_take_drop_id length_append le_add1)
  then show ?thesis using snoc by (cases "prefix = []") (auto simp: pathMatchesCapability_def path_pattern_def Let_def)
qed (simp add: pathMatchesCapability_def path_pattern_def)

lemma first_service_Some: "first_service P xs = Some x \<Longrightarrow> x \<in> set xs \<and> P x"
  by (induction xs) (auto split: if_splits)

lemma first_service_None: "first_service P xs = None \<longleftrightarrow> (\<forall>x \<in> set xs. \<not> P x)"
  by (induction xs) auto

text \<open>A path has a service exactly when the pattern of some capability of a registered service stands for it, and the service
  it gets is one of these (which one depends on the order of the map).\<close>

theorem GetServiceForPath_exact:
  assumes "range_order (SM_services sm) ks"
  shows "case GetServiceForPath ks path sm of
      Some service \<Rightarrow> service \<in> ran (SM_services sm) \<and> (\<exists>c \<in> set (SR_Capabilities service). path \<in> path_pattern (SC_Path c))
    | None \<Rightarrow> \<forall>service \<in> ran (SM_services sm). \<forall>c \<in> set (SR_Capabilities service). path \<notin> path_pattern (SC_Path c)"
  unfolding GetServiceForPath_def
  by (auto simp: first_service_None list_ex_iff pathMatches_pattern set_range_values [OF assms] split: option.split
      dest!: first_service_Some)

subsection \<open>What a discovery does to the registry\<close>

definition virtual_prefix :: "string \<Rightarrow> string" where
  "virtual_prefix serviceID = ''virtualmcp-'' @ serviceID @ ''-''"

lemma converted_ID: "convertMCPImplementationToMCPServer rfc t1 t2 impl service = Some server \<Longrightarrow>
    \<exists>iid. impl ''id'' = Some (String_value iid) \<and> Srv_ID server = virtual_prefix (SR_ServiceID service) @ iid"
proof -
  have "any_string v = Some x \<Longrightarrow> v = String_value x" for v x by (cases v) simp_all
  then show "convertMCPImplementationToMCPServer rfc t1 t2 impl service = Some server \<Longrightarrow> ?thesis"
    by (auto simp: convertMCPImplementationToMCPServer_def virtual_prefix_def Let_def bind_eq_Some_conv split: option.splits)
qed

lemma discovered_IDs:
  assumes "server \<in> set (discovered_servers rfc ts service impls)"
  shows "\<exists>iid. Srv_ID server = virtual_prefix (SR_ServiceID service) @ iid"
proof -
  obtain i impl where "convertMCPImplementationToMCPServer rfc (fst (ts i)) (snd (ts i)) impl service = Some server"
    using assms by (force simp: discovered_servers_def List.map_filter_def)
  then show ?thesis by (blast dest: converted_ID)
qed

context server_store
begin

lemma upload_others:
  assumes "\<forall>v \<in> set entries. Srv_ID v \<noteq> [] \<and> Srv_ID v \<noteq> k"
  shows "contents (fst (UploadRegistryEntries R es i entries s)) k = contents s k"
  using assms
proof (induction entries arbitrary: i s)
  case (Cons server entries)
  obtain s1 server1 err where c: "mss_CreateMCPServer R (fst (es i)) (snd (es i)) server s = (s1, server1, err)"
    by (metis prod_cases3)
  have "k \<noteq> Srv_ID server" "Srv_ID server \<noteq> []" using Cons.prems by auto
  then have "contents s1 k = contents s k"
    using create_contents [of "fst (es i)" "snd (es i)" server s] c by (simp add: Let_def)
  then show ?case using c Cons.IH [of "Suc i" s1] Cons.prems by (auto split: option.split prod.split)
qed simp

lemma discovery_others:
  assumes "\<not> HasPrefix k (virtual_prefix (SR_ServiceID service))"
  shows "contents (discoverMCPImplementations R es send decode rfc ts service s) k = contents s k"
proof -
  have "contents (fst (UploadRegistryEntries R es 0 (discovered_servers rfc ts service impls) s)) k = contents s k" for impls
    by (rule upload_others) (use assms in \<open>auto simp: HasPrefix_def virtual_prefix_def dest!: discovered_IDs\<close>)
  then show ?thesis
    by (simp add: discoverMCPImplementations_def Let_def split: sent.split sum.split)
qed

lemma discovery_calls: "call\<^sup>*\<^sup>* s (discoverMCPImplementations R es send decode rfc ts service s)"
  by (auto simp: discoverMCPImplementations_def Let_def split: sent.split sum.split
      intro: upload_calls [OF prod.collapse [symmetric]])

lemma discovery_contents:
  assumes "send (get_url (SR_ServiceURL service @ ''/api/v1/mcps'')) = Answered resp" and "PX_Status resp = 200"
    and "PX_Error resp = None" and "decode (PX_Body resp) = Inr impls"
    and "snd (snd (UploadRegistryEntries R es 0 (discovered_servers rfc ts service impls) s)) = None"
  shows "contents (discoverMCPImplementations R es send decode rfc ts service s) =
    contents s ++ map_of (rev (map (\<lambda>v. (Srv_ID v, v)) (discovered_servers rfc ts service impls)))"
proof -
  let ?vs = "discovered_servers rfc ts service impls"
  obtain s' entries' where u: "UploadRegistryEntries R es 0 ?vs s = (s', entries', None)"
    using assms(5) by (metis prod.collapse)
  have "\<forall>v \<in> set ?vs. Srv_ID v \<noteq> []" by (auto simp: virtual_prefix_def dest!: discovered_IDs)
  from upload_contents [OF this u] show ?thesis
    using assms(1-4) u by (auto simp: discoverMCPImplementations_def Let_def)
qed

end

text \<open>What a VirtualMCP service can put into the registry: a discovery touches only the entries whose ID starts with
  \<open>virtualmcp-\<close>, the ID of the service and a dash, whatever its address answers and whatever the disk does; the registry
  stays well-formed; and when the answer is a list and the uploads have no error, the registry gets exactly the
  implementations with an ID, the last of each ID.\<close>

theorem discovery_keeps_others:
  assumes "\<And>k v. fs_entries s k = Some v \<Longrightarrow> Srv_ID v = k"
    and discovered: "s' = discoverMCPImplementations FileMCPServerStore_ops es send decode rfc ts service s"
  shows "(\<forall>k. \<not> HasPrefix k (virtual_prefix (SR_ServiceID service)) \<longrightarrow> fs_entries s' k = fs_entries s k) \<and>
    (\<forall>k v. fs_entries s' k = Some v \<longrightarrow> Srv_ID v = k) \<and>
    (\<forall>resp impls. send (get_url (SR_ServiceURL service @ ''/api/v1/mcps'')) = Answered resp \<and> PX_Status resp = 200 \<and>
       PX_Error resp = None \<and> decode (PX_Body resp) = Inr impls \<and>
       snd (snd (UploadRegistryEntries FileMCPServerStore_ops es 0 (discovered_servers rfc ts service impls) s)) = None \<longrightarrow>
       fs_entries s' = fs_entries s ++ map_of (rev (map (\<lambda>v. (Srv_ID v, v)) (discovered_servers rfc ts service impls))))"
proof -
  have "file_servers.keys_are_IDs s'"
    unfolding discovered by (rule file_servers.calls_keys [OF file_servers.discovery_calls])
      (simp add: file_servers.keys_are_IDs_def assms(1))
  then have keys: "\<forall>k v. fs_entries s' k = Some v \<longrightarrow> Srv_ID v = k" by (simp add: file_servers.keys_are_IDs_def)
  have others: "\<forall>k. \<not> HasPrefix k (virtual_prefix (SR_ServiceID service)) \<longrightarrow> fs_entries s' k = fs_entries s k"
    unfolding discovered by (blast intro: file_servers.discovery_others)
  show ?thesis
    by (intro conjI keys others allI impI) (unfold discovered, rule file_servers.discovery_contents, blast+)
qed

text \<open>The IDs do not tell the services apart: a service whose ID is another's with a dash and more after it shares the prefix,
  and the implementation \<open>c\<close> of the service \<open>a-b\<close> replaces the implementation \<open>b-c\<close> of the service \<open>a\<close>.\<close>

lemma virtual_IDs_collide:
  "HasPrefix (virtual_prefix (a @ ''-'' @ b)) (virtual_prefix a)"
  "virtual_prefix (a @ ''-'' @ b) @ c = virtual_prefix a @ (b @ ''-'' @ c)"
  by (simp_all add: HasPrefix_def virtual_prefix_def)

subsection \<open>Examples\<close>

definition ex_service :: ServiceRegistration where
  "ex_service = \<lparr>SR_ServiceID = ''w'', SR_ServiceType = ServiceTypeVirtualMCP, SR_ServiceURL = ''http://w'',
     SR_Capabilities = [\<lparr>SC_Path = ''/v1/*'', SC_Methods = [], SC_Description = []\<rparr>], SR_Version = [],
     SR_RegisteredAt = 1, SR_LastHeartbeat = 1\<rparr>"

definition ex_registration :: RegisterServiceRequest where
  "ex_registration = \<lparr>RSQ_ServiceID = ''w'', RSQ_ServiceType = ServiceTypeVirtualMCP, RSQ_ServiceURL = ''http://w'',
     RSQ_Version = [], RSQ_Capabilities = [\<lparr>SC_Path = ''/v1/*'', SC_Methods = [], SC_Description = []\<rparr>]\<rparr>"

definition ex_plugins :: plugin_state where
  "ex_plugins = plugin_start\<lparr>PS_manager :=
     fst (PluginHandler_RegisterService None (\<lambda>b. Inr ex_registration) (\<lambda>r. []) 1 1 1 [] (PS_manager plugin_start))\<rparr>"

lemma ex_plugins_reachable: "(plugin_step None)\<^sup>*\<^sup>* plugin_start ex_plugins"
  unfolding ex_plugins_def by (rule r_into_rtranclp) (rule plugin_step.register)

lemma ex_plugins_simps: "SM_services (PS_manager ex_plugins) = [''w'' \<mapsto> ex_service]" "PS_ids ex_plugins = []"
    "PS_checking ex_plugins = None"
  by (simp_all add: ex_plugins_def plugin_start_def NewServiceManager_def PluginHandler_RegisterService_def
      RegisterService_def IsServiceEnabled_def ex_registration_def ex_service_def Let_def)

lemma ex_plugins_order: "range_order (SM_services (PS_manager ex_plugins)) [''w'']"
  by (simp add: ex_plugins_simps range_order_def)

theorem plugins_well_formed_witness:
  "PluginHandler_GetService (SR_ServiceID ex_service) (PS_manager ex_plugins) = (200, Inr (PP_service ex_service)) \<and>
    (\<exists>health. PluginHandler_GetServiceHealth (SR_ServiceID ex_service) (PS_manager ex_plugins) = (200, Inr (PP_health health))) \<and>
    IsServiceEnabled None (SR_ServiceType ex_service)"
  by (rule plugins_well_formed [OF ex_plugins_reachable, where ks = "[''w'']"])
    (simp add: GetAllServices_def ex_plugins_simps range_values_Cons)

theorem ghost_health_witness:
  "\<exists>st'. (plugin_step None)\<^sup>*\<^sup>* plugin_start st' \<and>
    PluginHandler_GetService ''w'' (PS_manager st') = service_missing ''w'' \<and>
    fst (snd (PluginHandler_UnregisterService ''w'' (PS_manager st'))) = 404 \<and>
    (\<exists>health. PluginHandler_GetServiceHealth ''w'' (PS_manager st') = (200, Inr (PP_health health)))"
  by (rule ghost_health [OF ex_plugins_reachable _ _ ex_plugins_order]) (simp_all add: ex_plugins_simps)

theorem health_checks_cover_services_witness:
  "SM_serviceHealth (performHealthChecks (\<lambda>i. (\<lambda>w. Unreachable ''refused'', 3, 5)) (\<lambda>b. 0) [''w''] (PS_manager ex_plugins)) ''w'' =
    Some \<lparr>SH_Status = ''unhealthy'', SH_Message = ''Health check failed: refused'', SH_LastChecked = 0, SH_ResponseTime = 2\<rparr>"
  using health_checks_cover_services [OF ex_plugins_order, where E = "\<lambda>i. (\<lambda>w. Unreachable ''refused'', 3, 5)" and count = "\<lambda>b. 0"
      and send = "\<lambda>w. Unreachable []" and t = 0 and t' = 0 and service = ex_service]
  by (simp add: ex_plugins_simps checkServiceHealth_def checkVirtualMCPHealth_def health_of_def ex_service_def)

theorem GetServiceForPath_exact_witness:
  "GetServiceForPath [''w''] ''/v1/x'' (PS_manager ex_plugins) = Some ex_service"
  using GetServiceForPath_exact [OF ex_plugins_order, of "''/v1/x''"]
  by (auto simp: ex_plugins_simps ex_service_def path_pattern_def split: option.splits)

definition ex_listing :: "forwarded \<Rightarrow> sent" where
  "ex_listing w = Answered \<lparr>PX_Status = 200, PX_Header = Map.empty, PX_Body = [], PX_Error = None\<rparr>"

definition ex_impls :: "string \<Rightarrow> ((string \<rightharpoonup> any) list) result" where
  "ex_impls b = Inr [[''id'' \<mapsto> String_value ''q'']]"

theorem discovery_keeps_others_witness:
  "fs_entries (discoverMCPImplementations FileMCPServerStore_ops (\<lambda>i. (ex_env, [])) ex_listing ex_impls (\<lambda>t. []) (\<lambda>i. (0, 0))
     ex_service (ex_servers [''k''])) ''k'' = Some (ex_entry ''k'')"
proof -
  have "fs_entries (discoverMCPImplementations FileMCPServerStore_ops (\<lambda>i. (ex_env, [])) ex_listing ex_impls (\<lambda>t. []) (\<lambda>i. (0, 0))
     ex_service (ex_servers [''k''])) ''k'' = fs_entries (ex_servers [''k'']) ''k''"
    by (rule discovery_keeps_others [OF _ refl, THEN conjunct1, rule_format])
      (auto simp: HasPrefix_def virtual_prefix_def split: if_splits)
  then show ?thesis by simp
qed

end
