(* ===== verification/Startup.thy ===== *)
theory Startup
  imports UserAuth UserGroupService GoNet "HOL-Library.Multiset"
begin

section \<open>The start of the program\<close>

text \<open>
  \<open>internal/config/config.go\<close>, \<open>pkg/network/utils.go\<close>, and the part of \<open>RunUniproxy\<close> in \<open>cmd/uniproxy/main.go\<close> that opens
  the stores of users and groups and fills them: the first groups and users come from the configuration. \<open>getenv\<close> is the
  environment, empty for a variable that is not set; the decoders of JSON are arguments, and so is what the system says of
  its network interfaces. \<open>sort.Slice\<close> may order equal elements in any way: \<open>srt\<close> is the order it makes.
\<close>

subsection \<open>Addresses of the machine\<close>

record NetworkAddress =
  NA_IP :: string
  NA_Interface :: string
  NA_IsPublic :: bool
  NA_IsLocal :: bool
  NA_Priority :: int

text \<open>An interface: its addresses, \<open>None\<close> if they cannot be read; an address that is no \<open>IPNet\<close> is \<open>None\<close>.\<close>

record net_interface =
  NI_Name :: string
  NI_Loopback :: bool
  NI_Up :: bool
  NI_Addrs :: "(IP option list) option"

definition isPrivateIP :: "IP \<Rightarrow> bool" where
  "isPrivateIP ip =
     list_ex (\<lambda>cidr. case ParseCIDR cidr of None \<Rightarrow> False | Some (_, network) \<Rightarrow> Net_Contains network ip)
       [''10.0.0.0/8'', ''172.16.0.0/12'', ''192.168.0.0/16'', ''127.0.0.0/8'']"

definition isPublicIP :: "IP \<Rightarrow> bool" where
  "isPublicIP ip \<longleftrightarrow> \<not> IsLoopback ip \<and> \<not> IsPrivate ip \<and> \<not> IsUnspecified ip \<and> To4 ip \<noteq> None"

definition localhost_addresses :: "NetworkAddress list" where
  "localhost_addresses =
     [\<lparr>NA_IP = ''127.0.0.1'', NA_Interface = ''localhost'', NA_IsPublic = False, NA_IsLocal = True, NA_Priority = 0\<rparr>,
      \<lparr>NA_IP = ''localhost'', NA_Interface = ''localhost'', NA_IsPublic = False, NA_IsLocal = True, NA_Priority = 1\<rparr>]"

definition interface_addresses :: "net_interface \<Rightarrow> NetworkAddress list" where
  "interface_addresses iface =
     (if NI_Loopback iface \<or> \<not> NI_Up iface then []
      else case NI_Addrs iface of
        None \<Rightarrow> []
      | Some addrs \<Rightarrow>
          map (\<lambda>ip. \<lparr>NA_IP = IP_String ip, NA_Interface = NI_Name iface, NA_IsPublic = isPublicIP ip, NA_IsLocal = isPrivateIP ip,
              NA_Priority = (if isPublicIP ip then 2 else 3)\<rparr>)
            (filter (\<lambda>ip. To4 ip \<noteq> None \<and> \<not> IsLoopback ip) (List.map_filter (\<lambda>a. a) addrs)))"

text \<open>With an error come the addresses found so far.\<close>

definition GetAvailableAddresses ::
    "(NetworkAddress list \<Rightarrow> NetworkAddress list) \<Rightarrow> (net_interface list) result \<Rightarrow> NetworkAddress list \<times> error option" where
  "GetAvailableAddresses srt interfaces =
     (case interfaces of
        Inl err \<Rightarrow> (localhost_addresses, Some (''failed to get network interfaces: '' @ err))
      | Inr ifaces \<Rightarrow> (srt (localhost_addresses @ concat (map interface_addresses ifaces)), None))"

definition GetAvailableHosts ::
    "(NetworkAddress list \<Rightarrow> NetworkAddress list) \<Rightarrow> (net_interface list) result \<Rightarrow> (string list) result" where
  "GetAvailableHosts srt interfaces =
     (case GetAvailableAddresses srt interfaces of
        (_, Some err) \<Rightarrow> Inl err
      | (addresses, None) \<Rightarrow> Inr (map NA_IP addresses))"

definition GetPrimaryHost ::
    "(NetworkAddress list \<Rightarrow> NetworkAddress list) \<Rightarrow> (net_interface list) result \<Rightarrow> string \<times> error option" where
  "GetPrimaryHost srt interfaces =
     (case GetAvailableAddresses srt interfaces of
        (_, Some err) \<Rightarrow> (''localhost'', Some err)
      | (addresses, None) \<Rightarrow> (case addresses of [] \<Rightarrow> ''localhost'' | a # _ \<Rightarrow> NA_IP a, None))"

definition FormatHostURL :: "string \<Rightarrow> string \<Rightarrow> string" where
  "FormatHostURL host port =
     (if Contains host '':'' then ''['' @ host @ '']:'' @ port else host @ '':'' @ port)"

definition network_GetServerURLs ::
    "(NetworkAddress list \<Rightarrow> NetworkAddress list) \<Rightarrow> (net_interface list) result \<Rightarrow> string \<Rightarrow> string list \<times> error option" where
  "network_GetServerURLs srt interfaces port =
     (case GetAvailableAddresses srt interfaces of
        (_, Some err) \<Rightarrow> ([''http://localhost:'' @ port], Some err)
      | (addresses, None) \<Rightarrow> (map (\<lambda>addr. ''http://'' @ FormatHostURL (NA_IP addr) port) addresses, None))"

subsection \<open>The configuration\<close>

record ServiceConfig =
  SCF_Enabled :: bool
  SCF_URL :: string
  SCF_Timeout :: string

record InitialUser =
  IU_ID :: string
  IU_Name :: string
  IU_Email :: string
  IU_Password :: string
  IU_Groups :: string
  IU_AuthProvider :: string

record InitialGroup =
  IG_ID :: string
  IG_Name :: string
  IG_Description :: string
  IG_Permissions :: string

record Config =
  CFG_Host :: string
  CFG_Port :: string
  CFG_APIKey :: string
  CFG_AvailableHosts :: "NetworkAddress list"
  CFG_PrimaryHost :: string
  CFG_Services :: "string \<rightharpoonup> ServiceConfig"
  CFG_RegistrySyncInterval :: string
  CFG_RegistryCustomSources :: "string list"
  CFG_MCPRegistryURL :: string
  CFG_RegistryTimeout :: string
  CFG_LocalDeployment :: "int \<times> int"
  CFG_AuthMode :: string
  CFG_DevMode :: bool
  CFG_AdminPassword :: string
  CFG_ForcePasswordChange :: bool
  CFG_PasswordMinLength :: int
  CFG_GitHubClientID :: string
  CFG_GitHubClientSecret :: string
  CFG_GitHubRedirectURI :: string
  CFG_GitHubAllowedOrgs :: "string list"
  CFG_GitHubAdminTeams :: "string list"
  CFG_RancherIssuerURL :: string
  CFG_RancherClientID :: string
  CFG_RancherClientSecret :: string
  CFG_RancherRedirectURI :: string
  CFG_RancherAdminGroups :: "string list"
  CFG_RancherFallbackLocal :: bool
  CFG_CreateInitialUsers :: bool
  CFG_InitialUsers :: "InitialUser list"
  CFG_CreateInitialGroups :: bool
  CFG_InitialGroups :: "InitialGroup list"
  CFG_DataDir :: string
  CFG_StorageEncryptionKey :: string
  CFG_OtelEnabled :: bool
  CFG_OtelEndpoint :: string
  CFG_OtelProtocol :: string

definition ParseBool :: "string \<Rightarrow> bool option" where
  "ParseBool s =
     (if s \<in> set [''1'', ''t'', ''T'', ''TRUE'', ''true'', ''True''] then Some True
      else if s \<in> set [''0'', ''f'', ''F'', ''FALSE'', ''false'', ''False''] then Some False else None)"

definition getEnv :: "(string \<Rightarrow> string) \<Rightarrow> string \<Rightarrow> string \<Rightarrow> string" where
  "getEnv getenv key defaultValue = (if getenv key \<noteq> [] then getenv key else defaultValue)"

definition getEnvBool :: "(string \<Rightarrow> string) \<Rightarrow> string \<Rightarrow> bool \<Rightarrow> bool" where
  "getEnvBool getenv key defaultValue =
     (if getenv key \<noteq> [] then (case ParseBool (getenv key) of Some parsed \<Rightarrow> parsed | None \<Rightarrow> defaultValue) else defaultValue)"

definition getEnvInt :: "(string \<Rightarrow> string) \<Rightarrow> string \<Rightarrow> int \<Rightarrow> int" where
  "getEnvInt getenv key defaultValue =
     (if getenv key \<noteq> [] then (case Atoi (getenv key) of Inr parsed \<Rightarrow> parsed | Inl _ \<Rightarrow> defaultValue) else defaultValue)"

definition parseStringSlice :: "string \<Rightarrow> string list" where
  "parseStringSlice v = (if v = [] then [] else filter (\<lambda>item. item \<noteq> []) (map TrimSpace (Split v CHR '','')))"

definition defaultInitialUsers :: "InitialUser list" where
  "defaultInitialUsers =
     [\<lparr>IU_ID = ''admin'', IU_Name = ''System Administrator'', IU_Email = ''admin@suse.ai'', IU_Password = [],
       IU_Groups = ''mcp-admins'', IU_AuthProvider = ''local''\<rparr>]"

definition defaultInitialGroups :: "InitialGroup list" where
  "defaultInitialGroups =
     [\<lparr>IG_ID = ''mcp-admins'', IG_Name = ''MCP Administrators'',
       IG_Description = ''Full administrative access to all MCP proxy features'',
       IG_Permissions = ''user:create,user:read,user:update,user:delete,group:create,group:read,group:update,group:delete,'' @
         ''adapter:create,adapter:read,adapter:update,adapter:delete,adapter:assign,'' @
         ''server:create,server:read,server:update,server:delete,'' @
         ''discovery:create,discovery:read,discovery:update,discovery:delete,'' @
         ''registry:create,registry:read,registry:update,registry:delete''\<rparr>,
      \<lparr>IG_ID = ''mcp-users'', IG_Name = ''MCP Users'',
       IG_Description = ''Basic access to MCP servers with limited adapter operations'',
       IG_Permissions = ''server:read,adapter:read,adapter:create,adapter:assign''\<rparr>]"

definition parseInitialUsers :: "(string \<Rightarrow> (InitialUser list) result) \<Rightarrow> string \<Rightarrow> InitialUser list" where
  "parseInitialUsers decode jsonStr =
     (if jsonStr = [] then defaultInitialUsers
      else case decode jsonStr of Inl err \<Rightarrow> defaultInitialUsers | Inr users \<Rightarrow> users)"

definition parseInitialGroups :: "(string \<Rightarrow> (InitialGroup list) result) \<Rightarrow> string \<Rightarrow> InitialGroup list" where
  "parseInitialGroups decode jsonStr =
     (if jsonStr = [] then defaultInitialGroups
      else case decode jsonStr of Inl err \<Rightarrow> defaultInitialGroups | Inr igs \<Rightarrow> igs)"

text \<open>The surroundings: the environment, the decoders, and what each of the two readings of the interfaces gives.\<close>

record config_env =
  cfg_getenv :: "string \<Rightarrow> string"
  cfg_users :: "string \<Rightarrow> (InitialUser list) result"
  cfg_groups :: "string \<Rightarrow> (InitialGroup list) result"
  cfg_sort :: "NetworkAddress list \<Rightarrow> NetworkAddress list"
  cfg_interfaces :: "(net_interface list) result"
  cfg_interfaces' :: "(net_interface list) result"

definition LoadConfig :: "config_env \<Rightarrow> Config" where
  "LoadConfig C =
     (let availableHosts = (case GetAvailableAddresses (cfg_sort C) (cfg_interfaces C) of
            (_, Some err) \<Rightarrow> localhost_addresses | (addresses, None) \<Rightarrow> addresses);
          primaryHost = (case GetPrimaryHost (cfg_sort C) (cfg_interfaces' C) of (_, Some err) \<Rightarrow> ''localhost'' | (host, None) \<Rightarrow> host);
          g = getEnv (cfg_getenv C); b = getEnvBool (cfg_getenv C); n = getEnvInt (cfg_getenv C)
      in \<lparr>CFG_Host = g ''HOST'' primaryHost,
         CFG_Port = g ''PORT'' ''8911'',
         CFG_APIKey = g ''API_KEY'' [],
         CFG_AvailableHosts = availableHosts,
         CFG_PrimaryHost = primaryHost,
         CFG_Services = [''smartagents'' \<mapsto> \<lparr>SCF_Enabled = b ''SMARTAGENTS_ENABLED'' True,
           SCF_URL = g ''SMARTAGENTS_URL'' ''http://localhost:8910'', SCF_Timeout = g ''SMARTAGENTS_TIMEOUT'' ''30s''\<rparr>,
         ''registry'' \<mapsto> \<lparr>SCF_Enabled = b ''REGISTRY_ENABLED'' True,
           SCF_URL = g ''REGISTRY_URL'' ''http://localhost:8912'', SCF_Timeout = g ''REGISTRY_TIMEOUT'' ''30s''\<rparr>],
         CFG_RegistrySyncInterval = g ''REGISTRY_SYNC_INTERVAL'' ''1h'',
         CFG_RegistryCustomSources = [],
         CFG_MCPRegistryURL = g ''MCP_REGISTRY_URL'' [],
         CFG_RegistryTimeout = g ''REGISTRY_TIMEOUT'' ''30s'',
         CFG_LocalDeployment = (n ''LOCAL_DEPLOYMENT_MIN_PORT'' 8000, n ''LOCAL_DEPLOYMENT_MAX_PORT'' 19999),
         CFG_AuthMode = g ''AUTH_MODE'' ''development'',
         CFG_DevMode = b ''DEV_MODE'' True,
         CFG_AdminPassword = g ''ADMIN_PASSWORD'' ''admin'',
         CFG_ForcePasswordChange = b ''FORCE_PASSWORD_CHANGE'' True,
         CFG_PasswordMinLength = n ''PASSWORD_MIN_LENGTH'' 8,
         CFG_GitHubClientID = g ''GITHUB_CLIENT_ID'' [],
         CFG_GitHubClientSecret = g ''GITHUB_CLIENT_SECRET'' [],
         CFG_GitHubRedirectURI = g ''GITHUB_REDIRECT_URI'' [],
         CFG_GitHubAllowedOrgs = parseStringSlice (g ''GITHUB_ALLOWED_ORGS'' []),
         CFG_GitHubAdminTeams = parseStringSlice (g ''GITHUB_ADMIN_TEAMS'' []),
         CFG_RancherIssuerURL = g ''RANCHER_ISSUER_URL'' [],
         CFG_RancherClientID = g ''RANCHER_CLIENT_ID'' [],
         CFG_RancherClientSecret = g ''RANCHER_CLIENT_SECRET'' [],
         CFG_RancherRedirectURI = g ''RANCHER_REDIRECT_URI'' [],
         CFG_RancherAdminGroups = parseStringSlice (g ''RANCHER_ADMIN_GROUPS'' []),
         CFG_RancherFallbackLocal = b ''RANCHER_FALLBACK_LOCAL'' True,
         CFG_CreateInitialUsers = b ''CREATE_INITIAL_USERS'' True,
         CFG_InitialUsers = parseInitialUsers (cfg_users C) (g ''INITIAL_USERS'' []),
         CFG_CreateInitialGroups = b ''CREATE_INITIAL_GROUPS'' True,
         CFG_InitialGroups = parseInitialGroups (cfg_groups C) (g ''INITIAL_GROUPS'' []),
         CFG_DataDir = g ''DATA_DIR'' ''/data'',
         CFG_StorageEncryptionKey = g ''STORAGE_ENCRYPTION_KEY'' [],
         CFG_OtelEnabled = b ''OTEL_ENABLED'' False,
         CFG_OtelEndpoint = g ''OTEL_ENDPOINT'' ''http://localhost:4318'',
         CFG_OtelProtocol = g ''OTEL_PROTOCOL'' ''grpc''\<rparr>)"

definition Config_GetServerURLs :: "Config \<Rightarrow> string list" where
  "Config_GetServerURLs c = map (\<lambda>addr. ''http://'' @ FormatHostURL (NA_IP addr) (CFG_Port c)) (CFG_AvailableHosts c)"

subsection \<open>The first groups and users\<close>

text \<open>A key that is refused leaves the files unencrypted.\<close>

definition startup_crypto :: "Config \<Rightarrow> string option" where
  "startup_crypto cfg = (case NewStorageCrypto (CFG_StorageEncryptionKey cfg) of Inl err \<Rightarrow> None | Inr crypto \<Rightarrow> crypto)"

definition startup_auth_config :: "Config \<Rightarrow> UserAuthConfig" where
  "startup_auth_config cfg =
     \<lparr>UAC_Mode = CFG_AuthMode cfg, UAC_DevMode = CFG_DevMode cfg,
      UAC_Local = Some \<lparr>LAC_DefaultAdminPassword = CFG_AdminPassword cfg, LAC_ForcePasswordChange = CFG_ForcePasswordChange cfg,
        LAC_PasswordMinLength = CFG_PasswordMinLength cfg\<rparr>,
      UAC_GitHub = Some \<lparr>GAC_ClientID = CFG_GitHubClientID cfg, GAC_ClientSecret = CFG_GitHubClientSecret cfg,
        GAC_RedirectURI = CFG_GitHubRedirectURI cfg, GAC_AllowedOrgs = CFG_GitHubAllowedOrgs cfg,
        GAC_AdminTeams = CFG_GitHubAdminTeams cfg\<rparr>,
      UAC_Rancher = Some \<lparr>RAC_IssuerURL = CFG_RancherIssuerURL cfg, RAC_ClientID = CFG_RancherClientID cfg,
        RAC_ClientSecret = CFG_RancherClientSecret cfg, RAC_RedirectURI = CFG_RancherRedirectURI cfg,
        RAC_AdminGroups = CFG_RancherAdminGroups cfg, RAC_FallbackLocal = CFG_RancherFallbackLocal cfg\<rparr>\<rparr>"

text \<open>The loops go on after an error. \<open>es i\<close> is the environment of the creation of the \<open>i\<close>-th group or user.\<close>

definition initial_group :: "InitialGroup \<Rightarrow> Group" where
  "initial_group ig = zero_Group\<lparr>Group_ID := IG_ID ig, Group_Name := IG_Name ig, Group_Description := IG_Description ig,
     Group_Permissions := Split (IG_Permissions ig) CHR '',''\<rparr>"

fun create_initial_groups ::
    "'gs GroupStore \<Rightarrow> (nat \<Rightarrow> env) \<Rightarrow> nat \<Rightarrow> InitialGroup list \<Rightarrow> ('us, 'gs) UserGroupService \<Rightarrow> ('us, 'gs) UserGroupService" where
  "create_initial_groups G es i [] st = st"
| "create_initial_groups G es i (ig # igs) st =
     create_initial_groups G es (Suc i) igs (fst (CreateGroup G (es i) (initial_group ig) st))"

definition initial_user :: "InitialUser \<Rightarrow> User" where
  "initial_user iu = \<lparr>User_ID = IU_ID iu, User_Name = IU_Name iu, User_Email = IU_Email iu,
     User_Groups = Split (IU_Groups iu) CHR '','', User_AuthProvider = IU_AuthProvider iu, User_ExternalID = [],
     User_ProviderGroups = [], User_PasswordHash = [], User_PasswordChangedAt = None, User_LastLoginAt = None,
     User_CreatedAt = 0, User_UpdatedAt = 0\<rparr>"

definition initial_password :: "Config \<Rightarrow> InitialUser \<Rightarrow> string" where
  "initial_password cfg iu =
     (if IU_Password iu = [] \<and> IU_AuthProvider iu = ''local'' then CFG_AdminPassword cfg else IU_Password iu)"

fun create_initial_users ::
    "'us UserStore \<Rightarrow> (string \<Rightarrow> string result) \<Rightarrow> Config \<Rightarrow> (nat \<Rightarrow> env \<times> gotime) \<Rightarrow> nat \<Rightarrow> InitialUser list \<Rightarrow>
     ('us, 'gs) UserGroupService \<Rightarrow> ('us, 'gs) UserGroupService" where
  "create_initial_users U hash cfg es i [] st = st"
| "create_initial_users U hash cfg es i (iu # ius) st =
     create_initial_users U hash cfg es (Suc i) ius
       (case GetUser U st (IU_ID iu) of
          Inr _ \<Rightarrow> st
        | Inl _ \<Rightarrow> st\<lparr>ugs_userStore := fst (UserAuthService_CreateUser U hash (fst (es i)) (snd (es i)) (initial_user iu)
            (initial_password cfg iu) (ugs_userStore st))\<rparr>)"

text \<open>\<open>filepath.Join\<close> of a directory and a name, for a directory in its shortest form.\<close>

definition startup_users ::
    "(string \<Rightarrow> string result) \<Rightarrow> (nat \<Rightarrow> env) \<Rightarrow> (nat \<Rightarrow> env \<times> gotime) \<Rightarrow> Config \<Rightarrow> User disk \<Rightarrow> Group disk \<Rightarrow>
     (FileUserStore, FileGroupStore) UserGroupService" where
  "startup_users hash es es' cfg ud gd =
     (let crypto = startup_crypto cfg;
          st = NewUserGroupService (NewFileUserStore (CFG_DataDir cfg @ ''/users.json'') crypto ud)
            (NewFileGroupStore (CFG_DataDir cfg @ ''/groups.json'') crypto gd);
          st1 = (if CFG_CreateInitialGroups cfg then create_initial_groups FileGroupStore_ops es 0 (CFG_InitialGroups cfg) st else st)
      in if CFG_CreateInitialUsers cfg then create_initial_users FileUserStore_ops hash cfg es' 0 (CFG_InitialUsers cfg) st1 else st1)"


subsection \<open>Which addresses the program announces\<close>

text \<open>What the code relies on of \<open>sort.Slice\<close>.\<close>

definition sorts_by_priority :: "(NetworkAddress list \<Rightarrow> NetworkAddress list) \<Rightarrow> bool" where
  "sorts_by_priority srt \<longleftrightarrow> (\<forall>xs. mset (srt xs) = mset xs \<and> sorted (map NA_Priority (srt xs)))"

lemma interface_priority: "a \<in> set (interface_addresses iface) \<Longrightarrow> 2 \<le> NA_Priority a"
  by (auto simp: interface_addresses_def split: if_splits option.splits)

lemma available_first:
  assumes "sorts_by_priority srt" and "GetAvailableAddresses srt (Inr ifaces) = (addresses, err)"
  shows "\<exists>rest. addresses = hd localhost_addresses # rest"
proof -
  let ?xs = "localhost_addresses @ concat (map interface_addresses ifaces)"
  have eq: "addresses = srt ?xs" using assms(2) by (simp add: GetAvailableAddresses_def)
  have perm: "set addresses = set ?xs" unfolding eq by (rule mset_eq_setD) (use assms(1) in \<open>simp add: sorts_by_priority_def\<close>)
  have sorted: "sorted (map NA_Priority addresses)" using assms(1) by (simp add: eq sorts_by_priority_def)
  have lo: "hd localhost_addresses \<in> set addresses" "NA_Priority (hd localhost_addresses) = 0"
    unfolding perm by (simp_all add: localhost_addresses_def)
  then obtain a rest where a: "addresses = a # rest" by (cases addresses) auto
  then have "NA_Priority a \<le> 0" using sorted lo by (auto simp: le_less)
  moreover have "a \<in> set ?xs" unfolding perm [symmetric] a by simp
  ultimately have "a = hd localhost_addresses"
    by (auto simp: localhost_addresses_def dest: interface_priority)
  with a show ?thesis by simp
qed

text \<open>The best address to bind to is always the local one: whatever interfaces the machine has, the primary host is
  \<open>127.0.0.1\<close>, or \<open>localhost\<close> when the interfaces cannot be read, and so it is the host of the configuration unless \<open>HOST\<close>
  says otherwise; a public or private address never is.\<close>

theorem primary_host_is_local:
  assumes "sorts_by_priority (cfg_sort C)"
  shows "CFG_PrimaryHost (LoadConfig C) = (if is_ok (cfg_interfaces' C) then ''127.0.0.1'' else ''localhost'') \<and>
    CFG_Host (LoadConfig C) = (if cfg_getenv C ''HOST'' \<noteq> [] then cfg_getenv C ''HOST'' else CFG_PrimaryHost (LoadConfig C))"
proof -
  have "GetPrimaryHost (cfg_sort C) (Inr ifaces) = (''127.0.0.1'', None)" for ifaces
  proof -
    obtain rest where "fst (GetAvailableAddresses (cfg_sort C) (Inr ifaces)) = hd localhost_addresses # rest"
      using available_first [OF assms] by (metis prod.collapse)
    then show ?thesis by (simp add: GetPrimaryHost_def GetAvailableAddresses_def localhost_addresses_def)
  qed
  then show ?thesis
    by (cases "cfg_interfaces' C") (simp_all add: LoadConfig_def Let_def getEnv_def is_ok_def GetPrimaryHost_def GetAvailableAddresses_def)
qed

text \<open>A list of words without commas and without space at their ends survives the way through one variable.\<close>

lemma Split_no_sep: "c \<notin> set s \<Longrightarrow> Split s c = [s]"
  by (induction s) auto

lemma parseStringSlice_Join:
  assumes "\<And>x. x \<in> set xs \<Longrightarrow> x \<noteq> [] \<and> CHR '','' \<notin> set x \<and> TrimSpace x = x"
  shows "parseStringSlice (Join xs '','') = xs"
proof (cases xs)
  case (Cons y ys)
  have "Join xs '','' \<noteq> []" using assms [of y] Cons by (cases ys) auto
  moreover have "Split (Join xs '','') CHR '','' = xs"
    using assms Cons by (intro Split_Join) auto
  moreover have "map TrimSpace xs = xs" "filter (\<lambda>x. x \<noteq> []) xs = xs"
    using assms by (auto intro!: map_idI filter_True)
  ultimately show ?thesis by (simp add: parseStringSlice_def)
qed (simp add: parseStringSlice_def)

subsection \<open>The stores after the start\<close>

text \<open>Creations change the memory whether the file can be written or not, and they keep what is there.\<close>

lemma create_groups_entries:
  "fs_entries (ugs_groupStore (create_initial_groups FileGroupStore_ops es i igs st)) k =
    (case fs_entries (ugs_groupStore st) k of
       Some g \<Rightarrow> Some g
     | None \<Rightarrow> (case find (\<lambda>(j, ig). IG_ID ig = k) (enumerate i igs) of
         None \<Rightarrow> None | Some (j, ig) \<Rightarrow> Some (stamp_group_created (es j) (initial_group ig))))"
proof (induction igs arbitrary: i st)
  case (Cons ig igs)
  then show ?case
    by (auto simp: CreateGroup_def FileGroupStore_ops_def FileGroupStore_Create_def FileGroupStore_saveToFile_def
        initial_group_def split: option.split)
qed (simp split: option.split)

lemma create_groups_users [simp]:
  "ugs_userStore (create_initial_groups G es i igs st) = ugs_userStore st"
  by (induction igs arbitrary: i st) (simp_all add: CreateGroup_def)

lemma create_users_groups [simp]:
  "ugs_groupStore (create_initial_users U hash cfg es i ius st) = ugs_groupStore st"
  by (induction ius arbitrary: i st) (simp_all split: sum.split)

lemma create_user_keeps:
  "fs_entries s k = Some u \<Longrightarrow> fs_entries (fst (UserAuthService_CreateUser FileUserStore_ops hash e now user password s)) k = Some u"
  by (auto simp: UserAuthService_CreateUser_def FileUserStore_ops_def FileUserStore_Create_def FileUserStore_saveToFile_def
      split: sum.split)

lemma create_users_keep:
  "fs_entries (ugs_userStore st) k = Some u \<Longrightarrow>
   fs_entries (ugs_userStore (create_initial_users FileUserStore_ops hash cfg es i ius st)) k = Some u"
proof (induction ius arbitrary: i st)
  case (Cons iu ius)
  then show ?case
    by (simp add: create_user_keeps split: sum.split)
qed simp

text \<open>The permissions of the first administrators' group: each has one colon and no star.\<close>

definition first_admin_permissions :: "string list" where
  "first_admin_permissions = Split (IG_Permissions (hd defaultInitialGroups)) CHR '',''"

lemma first_admin_permissions_eq: "first_admin_permissions =
    [''user:create'', ''user:read'', ''user:update'', ''user:delete'', ''group:create'', ''group:read'',
     ''group:update'', ''group:delete'', ''adapter:create'', ''adapter:read'', ''adapter:update'',
     ''adapter:delete'', ''adapter:assign'', ''server:create'', ''server:read'', ''server:update'',
     ''server:delete'', ''discovery:create'', ''discovery:read'', ''discovery:update'', ''discovery:delete'',
     ''registry:create'', ''registry:read'', ''registry:update'', ''registry:delete'']"
  unfolding first_admin_permissions_def defaultInitialGroups_def by code_simp

lemma first_admin_permissions_shape:
  "\<forall>p \<in> set first_admin_permissions. count_list p CHR '':'' = 1 \<and> CHR ''*'' \<notin> set p"
  unfolding first_admin_permissions_eq list_all_iff [symmetric] by code_simp

lemma first_admin_permissions_lack:
  "''user:manage'' \<notin> set first_admin_permissions" "''group:manage'' \<notin> set first_admin_permissions"
  "''server:*'' \<notin> set first_admin_permissions" "''adapter:create'' \<in> set first_admin_permissions"
  unfolding first_admin_permissions_eq by code_simp+

lemma first_admin_matches:
  "list_ex (\<lambda>p. permissionMatches p required) first_admin_permissions \<longleftrightarrow> required \<in> set first_admin_permissions"
  using first_admin_permissions_shape by (auto simp: list_ex_iff permissionMatches_no_star)

lemma count_list_append [simp]: "count_list (xs @ ys) x = count_list xs x + count_list ys x"
  by (induction xs) auto

lemma first_admin_no_server: "(''server:'' @ s @ '':'' @ t) \<notin> set first_admin_permissions"
  using first_admin_permissions_shape by (fastforce simp del: append.simps)

text \<open>An environment in which the first groups and users are not set.\<close>

definition default_users_and_groups :: "config_env \<Rightarrow> bool" where
  "default_users_and_groups C \<longleftrightarrow> (\<forall>k \<in> {''CREATE_INITIAL_USERS'', ''INITIAL_USERS'', ''CREATE_INITIAL_GROUPS'', ''INITIAL_GROUPS''}.
     cfg_getenv C k = [])"

lemma default_config:
  assumes "default_users_and_groups C"
  shows "CFG_CreateInitialUsers (LoadConfig C)" "CFG_CreateInitialGroups (LoadConfig C)"
    "CFG_InitialUsers (LoadConfig C) = defaultInitialUsers" "CFG_InitialGroups (LoadConfig C) = defaultInitialGroups"
    "CFG_AdminPassword (LoadConfig C) \<noteq> []"
  using assms by (simp_all add: default_users_and_groups_def LoadConfig_def Let_def getEnv_def getEnvBool_def
      parseInitialUsers_def parseInitialGroups_def)

text \<open>The administrator of a new installation.\<close>

definition first_admin :: "env \<Rightarrow> gotime \<Rightarrow> string \<Rightarrow> User" where
  "first_admin e now h = stamp_user_created e
     ((initial_user (hd defaultInitialUsers))\<lparr>User_PasswordHash := h, User_PasswordChangedAt := Some now\<rparr>)"

lemma new_store_empty: "d_files d path = None \<Longrightarrow> fs_entries (NewFileStore noun key path crypto d) = Map.empty"
  by (simp add: NewFileStore_def loadFromFile_def)

lemma first_start:
  assumes "default_users_and_groups C" and "cfg = LoadConfig C"
    and "d_files ud (CFG_DataDir cfg @ ''/users.json'') = None" and "d_files gd (CFG_DataDir cfg @ ''/groups.json'') = None"
    and "hash (CFG_AdminPassword cfg) = Inr h"
  shows "fs_entries (ugs_userStore (startup_users hash es es' cfg ud gd)) = [''admin'' \<mapsto> first_admin (fst (es' 0)) (snd (es' 0)) h]"
    and "fs_entries (ugs_groupStore (startup_users hash es es' cfg ud gd)) ''mcp-admins'' =
      Some (stamp_group_created (es 0) (initial_group (hd defaultInitialGroups)))"
proof -
  let ?st = "create_initial_groups FileGroupStore_ops es 0 defaultInitialGroups (NewUserGroupService
      (NewFileUserStore (CFG_DataDir cfg @ ''/users.json'') (startup_crypto cfg) ud)
      (NewFileGroupStore (CFG_DataDir cfg @ ''/groups.json'') (startup_crypto cfg) gd))"
  have st: "startup_users hash es es' cfg ud gd = create_initial_users FileUserStore_ops hash cfg es' 0 defaultInitialUsers ?st"
    using default_config [OF assms(1)] by (simp add: startup_users_def Let_def assms(2))
  have empty: "fs_entries (ugs_userStore ?st) = Map.empty"
    using assms(3) by (simp add: NewUserGroupService_def NewFileUserStore_def new_store_empty del: create_initial_groups.simps)
  have user: "initial_user (hd defaultInitialUsers) = initial_user iu" "User_AuthProvider (initial_user iu) = ''local''"
    "User_ID (initial_user iu) = ''admin''" "IU_ID iu = ''admin''" "initial_password cfg iu = CFG_AdminPassword cfg"
    if "defaultInitialUsers = [iu]" for iu
    using that by (auto simp: defaultInitialUsers_def initial_user_def initial_password_def)
  obtain iu where iu: "defaultInitialUsers = [iu]" by (simp add: defaultInitialUsers_def)
  show "fs_entries (ugs_userStore (startup_users hash es es' cfg ud gd)) = [''admin'' \<mapsto> first_admin (fst (es' 0)) (snd (es' 0)) h]"
    using user [OF iu] empty assms(5) default_config(5) [OF assms(1), folded assms(2)]
    by (simp add: st iu first_admin_def GetUser_def FileUserStore_ops_def FileUserStore_Get_def UserAuthService_CreateUser_def
        FileUserStore_Create_def FileUserStore_saveToFile_def del: create_initial_groups.simps)
  show "fs_entries (ugs_groupStore (startup_users hash es es' cfg ud gd)) ''mcp-admins'' =
      Some (stamp_group_created (es 0) (initial_group (hd defaultInitialGroups)))"
    using assms(4) by (simp add: st create_groups_entries NewUserGroupService_def NewFileGroupStore_def new_store_empty
        defaultInitialGroups_def del: create_initial_users.simps create_initial_groups.simps)
qed

subsection \<open>Properties\<close>


text \<open>The first password need not be changed. On the same new installation \<open>admin\<close> logs in with the password of the
  configuration (\<open>admin\<close> if \<open>ADMIN_PASSWORD\<close> is not set) and gets a token, although \<open>FORCE_PASSWORD_CHANGE\<close> is on by default:
  the creation of the user has stamped the password as changed.\<close>

theorem first_login_succeeds:
  assumes "default_users_and_groups C" and "cfg = LoadConfig C"
    and "d_files ud (CFG_DataDir cfg @ ''/users.json'') = None" and "d_files gd (CFG_DataDir cfg @ ''/groups.json'') = None"
    and "hash (CFG_AdminPassword cfg) = Inr h" and "h \<noteq> []" and "cmp h (CFG_AdminPassword cfg)"
    and "\<And>c. is_ok (jwt_sign J c)"
  shows "\<exists>st' token user. Login J FileUserStore_ops (startup_auth_config cfg) cmp e now ''admin'' (CFG_AdminPassword cfg)
    (ugs_userStore (startup_users hash es es' cfg ud gd)) = (st', Inr (token, user)) \<and> AT_UserID token = ''admin''"
proof -
  let ?a = "first_admin (fst (es' 0)) (snd (es' 0)) h"
  have a: "User_ID ?a = ''admin''" "User_AuthProvider ?a = ''local''" "User_PasswordHash ?a = h"
      "User_PasswordChangedAt ?a = Some (snd (es' 0))"
    by (simp_all add: first_admin_def initial_user_def defaultInitialUsers_def)
  have auth: "us_Authenticate FileUserStore_ops cmp (ugs_userStore (startup_users hash es es' cfg ud gd)) ''admin'' (CFG_AdminPassword cfg) = Inr ?a"
    using first_start(1) [where hash = hash and h = h, OF assms(1-5)] assms(6,7) a by (simp add: FileUserStore_ops_def FileUserStore_Authenticate_def)
  have "CFG_AdminPassword cfg \<noteq> []" using default_config(5) [OF assms(1)] assms(2) by simp
  moreover obtain signed where "jwt_sign J (user_claims (?a\<lparr>User_LastLoginAt := Some now\<rparr>) now) = Inr signed"
    using assms(8) by (metis is_ok_iff)
  ultimately show ?thesis
    using auth a by (simp add: Login_def AuthenticateUser_def Let_def GenerateJWT_def startup_auth_config_def)
qed

text \<open>C39. A restart locks out everybody with a local password. When the program starts again, on a file of users that an earlier
  run saved under the same key, every local user of that run is there, is not made anew whatever the configuration says of
  the first users, and is refused whatever the password: the passwords were never written.\<close>

theorem restart_locks_out_local_users:
  assumes "range_order (fs_entries s) ks" and "\<And>k u. fs_entries s k = Some u \<Longrightarrow> User_ID u = k"
    and "snd (FileUserStore_saveToFile ks s) = None" and "fs_crypto s = startup_crypto cfg"
    and "d_files ud (CFG_DataDir cfg @ ''/users.json'') = Some (saved_content User_json ks s)" and "d_read_err ud = None"
    and "fs_entries s k = Some u" and "User_AuthProvider u = ''local''"
  shows "AuthenticateUser FileUserStore_ops cmp e now k password (ugs_userStore (startup_users hash es es' cfg ud gd)) =
      (ugs_userStore (startup_users hash es es' cfg ud gd), Inl ''password not set'') \<and>
    (\<exists>st' code err. Login J FileUserStore_ops (startup_auth_config cfg) cmp e now k password
       (ugs_userStore (startup_users hash es es' cfg ud gd)) = (st', Inl (code, err)))"
proof -
  let ?users = "NewFileUserStore (CFG_DataDir cfg @ ''/users.json'') (startup_crypto cfg) ud"
  have "fs_entries ?users = map_option User_json \<circ> fs_entries s"
    unfolding NewFileUserStore_def assms(4) [symmetric]
    by (rule load_saved [OF assms(1) _ assms(3) [unfolded FileUserStore_saveToFile_def] assms(6,5)])
      (simp add: assms(2) User_json_def)
  then have "fs_entries ?users k = Some (User_json u)" using assms(7) by simp
  then have "fs_entries (ugs_userStore (startup_users hash es es' cfg ud gd)) k = Some (User_json u)"
    by (auto simp: startup_users_def Let_def NewUserGroupService_def intro!: create_users_keep)
  then have "us_Authenticate FileUserStore_ops cmp (ugs_userStore (startup_users hash es es' cfg ud gd)) k password =
      Inl ''password not set''"
    using assms(8) by (simp add: FileUserStore_ops_def FileUserStore_Authenticate_def User_json_def)
  then show ?thesis by (simp add: AuthenticateUser_def Login_def)
qed

text \<open>A second start is a first one that finds everything: no user that the file has is changed, and no group, whatever the
  configuration says now.\<close>

theorem start_keeps_what_is_stored:
  shows "(\<forall>k u. fs_entries (NewFileUserStore (CFG_DataDir cfg @ ''/users.json'') (startup_crypto cfg) ud) k = Some u \<longrightarrow>
      fs_entries (ugs_userStore (startup_users hash es es' cfg ud gd)) k = Some u) \<and>
    (\<forall>k g. fs_entries (NewFileGroupStore (CFG_DataDir cfg @ ''/groups.json'') (startup_crypto cfg) gd) k = Some g \<longrightarrow>
      fs_entries (ugs_groupStore (startup_users hash es es' cfg ud gd)) k = Some g)"
  by (auto simp: startup_users_def Let_def NewUserGroupService_def create_groups_entries intro!: create_users_keep)

subsection \<open>Examples\<close>

definition ex_config_env :: config_env where
  "ex_config_env = \<lparr>cfg_getenv = (\<lambda>k. []), cfg_users = (\<lambda>j. Inl []), cfg_groups = (\<lambda>j. Inl []), cfg_sort = sort_key NA_Priority,
     cfg_interfaces = Inr [], cfg_interfaces' = Inr [\<lparr>NI_Name = ''eth0'', NI_Loopback = False, NI_Up = True,
       NI_Addrs = Some [Some [8, 8, 4, 4]]\<rparr>]\<rparr>"

lemma ex_config_default: "default_users_and_groups ex_config_env"
  by (simp add: default_users_and_groups_def ex_config_env_def)

lemma ex_config_simps: "CFG_DataDir (LoadConfig ex_config_env) = ''/data''" "CFG_AdminPassword (LoadConfig ex_config_env) = ''admin''"
    "startup_crypto (LoadConfig ex_config_env) = None"
  by (simp_all add: LoadConfig_def Let_def getEnv_def ex_config_env_def startup_crypto_def NewStorageCrypto_def)

theorem primary_host_is_local_witness: "CFG_PrimaryHost (LoadConfig ex_config_env) = ''127.0.0.1''"
proof -
  have "sorts_by_priority (cfg_sort ex_config_env)" by (simp add: sorts_by_priority_def ex_config_env_def)
  from primary_host_is_local [OF this] show ?thesis by (simp add: ex_config_env_def)
qed


theorem first_login_succeeds_witness:
  "\<exists>st' token user. Login \<lparr>jwt_sign = (\<lambda>c. Inr ''t''), jwt_parse = (\<lambda>t s. Inl [])\<rparr> FileUserStore_ops
     (startup_auth_config (LoadConfig ex_config_env)) (=) ex_env 9 ''admin'' ''admin''
     (ugs_userStore (startup_users Inr (\<lambda>i. ex_env) (\<lambda>i. (ex_env, 5)) (LoadConfig ex_config_env) healthy_disk healthy_disk)) =
     (st', Inr (token, user)) \<and> AT_UserID token = ''admin''"
  by (rule first_login_succeeds [OF ex_config_default refl, where h = "''admin''" and hash = Inr, unfolded ex_config_simps])
    (simp_all add: healthy_disk_def)

theorem restart_locks_out_local_users_witness:
  "AuthenticateUser FileUserStore_ops (=) ex_env 9 ''ann'' ''secret'' (ugs_userStore (startup_users Inr (\<lambda>i. ex_env) (\<lambda>i. (ex_env, 5))
     (LoadConfig ex_config_env)
     (healthy_disk\<lparr>d_files := [''/data/users.json'' \<mapsto> saved_content User_json [''ann''] (ex_user_file None)]\<rparr>) healthy_disk)) =
   (ugs_userStore (startup_users Inr (\<lambda>i. ex_env) (\<lambda>i. (ex_env, 5)) (LoadConfig ex_config_env)
     (healthy_disk\<lparr>d_files := [''/data/users.json'' \<mapsto> saved_content User_json [''ann''] (ex_user_file None)]\<rparr>) healthy_disk),
    Inl ''password not set'')"
proof -
  let ?ud = "healthy_disk\<lparr>d_files := [''/data/users.json'' \<mapsto> saved_content User_json [''ann''] (ex_user_file None)]\<rparr>"
  have "range_order (fs_entries (ex_user_file None)) [''ann'']" by (simp add: range_order_def ex_user_file_def)
  moreover have "fs_entries (ex_user_file None) k = Some u \<Longrightarrow> User_ID u = k" for k u
    by (auto simp: ex_user_file_def ex_local_user_def split: if_splits)
  moreover have "snd (FileUserStore_saveToFile [''ann''] (ex_user_file None)) = None"
    by (simp add: FileUserStore_saveToFile_def saveToFile_ok ex_user_file_def healthy_disk_def)
  moreover have "fs_crypto (ex_user_file None) = startup_crypto (LoadConfig ex_config_env)"
    by (simp add: ex_config_simps ex_user_file_def)
  moreover have "d_files ?ud (CFG_DataDir (LoadConfig ex_config_env) @ ''/users.json'') = Some (saved_content User_json [''ann''] (ex_user_file None))"
    by (simp add: ex_config_simps)
  moreover have "d_read_err ?ud = None" by (simp add: healthy_disk_def)
  moreover have "fs_entries (ex_user_file None) ''ann'' = Some ex_local_user" "User_AuthProvider ex_local_user = ''local''"
    by (simp_all add: ex_user_file_def ex_local_user_def)
  ultimately show ?thesis by (rule restart_locks_out_local_users [THEN conjunct1])
qed

end
