(* ===== verification/AuthIntegration.thy ===== *)
theory AuthIntegration
  imports RestApi TokenManager
begin

section \<open>Credentials of an adapter, for clients and for requests\<close>

text \<open>
  \<open>internal/service/mcp_auth_integration.go\<close> and \<open>internal/handlers/mcp_auth_handler.go\<close>: the token a client is given for an
  adapter, the check of a configuration, and the credentials put into a request. The service has a token manager or none:
  its key and issuer are \<open>tm\<close>, the clock \<open>now\<close> and the next identifier \<open>tokenID\<close> come with a call. \<open>main.go\<close> makes the handler
  without a service.
\<close>

type_synonym token_manager = "(jwt \<times> string) option"

record ClientTokenResponse =
  CTR_Token :: string
  CTR_Type :: string
  CTR_ExpiresAt :: gotime
  CTR_Message :: string

subsection \<open>The token of a client\<close>

definition getBearerToken :: "token_manager \<Rightarrow> gotime \<Rightarrow> string \<Rightarrow> AdapterResource \<Rightarrow> AdapterAuthConfig \<Rightarrow> ClientTokenResponse result" where
  "getBearerToken tm now tokenID adapter auth =
     (let none = Inl ''no bearer token configuration found'' in
      case AAC_BearerToken auth of
        None \<Rightarrow> none
      | Some b \<Rightarrow>
          if BT_Token b \<noteq> [] then Inr \<lparr>CTR_Token = BT_Token b, CTR_Type = ''bearer'', CTR_ExpiresAt = BT_ExpiresAt b,
            CTR_Message = ''Using bearer token''\<rparr>
          else if BT_Dynamic b then
            (case tm of
               None \<Rightarrow> none
             | Some (J, issuer) \<Rightarrow>
                 (case GenerateBearerToken J issuer now tokenID (AD_Name adapter) (AD_RemoteUrl adapter) 24 of
                    Inl err \<Rightarrow> Inl (''failed to generate dynamic bearer token: '' @ err)
                  | Inr tokenInfo \<Rightarrow> Inr \<lparr>CTR_Token = ATI_AccessToken tokenInfo, CTR_Type = ''bearer'',
                      CTR_ExpiresAt = ATI_ExpiresAt tokenInfo, CTR_Message = ''Using dynamic bearer token''\<rparr>))
          else none)"

definition getOAuthToken :: "AdapterAuthConfig \<Rightarrow> ClientTokenResponse result" where
  "getOAuthToken auth =
     (case AAC_OAuth auth of
        None \<Rightarrow> Inl ''OAuth configuration not found''
      | Some oauthConfig \<Rightarrow> Inr \<lparr>CTR_Token = [], CTR_Type = ''oauth'', CTR_ExpiresAt = 0,
          CTR_Message = ''OAuth authentication configured for client ID: '' @ OA_ClientID oauthConfig @
            ''. Please use OAuth flow to obtain token.''\<rparr>)"

definition getBasicAuth :: "AdapterAuthConfig \<Rightarrow> ClientTokenResponse result" where
  "getBasicAuth auth =
     (case AAC_Basic auth of
        None \<Rightarrow> Inl ''Basic authentication configuration not found''
      | Some b \<Rightarrow> Inr \<lparr>CTR_Token = BA_Username b @ '':'' @ BA_Password b, CTR_Type = ''basic'', CTR_ExpiresAt = 0,
          CTR_Message = ''Basic authentication credentials''\<rparr>)"

definition getAPIKey :: "AdapterAuthConfig \<Rightarrow> ClientTokenResponse result" where
  "getAPIKey auth =
     (case AAC_APIKey auth of
        None \<Rightarrow> Inl ''API key configuration not found''
      | Some k \<Rightarrow> Inr \<lparr>CTR_Token = AK_Key k, CTR_Type = ''apikey'', CTR_ExpiresAt = 0,
          CTR_Message = ''API key authentication (location: '' @ AK_Location k @ '', name: '' @ AK_Name k @ '')''\<rparr>)"

definition GetClientToken :: "token_manager \<Rightarrow> gotime \<Rightarrow> string \<Rightarrow> AdapterResource \<Rightarrow> ClientTokenResponse result" where
  "GetClientToken tm now tokenID adapter =
     (let open_access = Inr \<lparr>CTR_Token = [], CTR_Type = ''none'', CTR_ExpiresAt = 0, CTR_Message = ''No authentication required''\<rparr> in
      case AD_Authentication adapter of
        None \<Rightarrow> open_access
      | Some auth \<Rightarrow>
          if \<not> AAC_Required auth then open_access
          else if AAC_Type auth = ''bearer'' then getBearerToken tm now tokenID adapter auth
          else if AAC_Type auth = ''oauth'' then getOAuthToken auth
          else if AAC_Type auth = ''basic'' then getBasicAuth auth
          else if AAC_Type auth = ''apikey'' then getAPIKey auth
          else Inl (''unsupported authentication type: '' @ AAC_Type auth))"

subsection \<open>The check of a configuration\<close>

definition validateBearerConfig :: "AdapterAuthConfig \<Rightarrow> error option" where
  "validateBearerConfig auth =
     (case AAC_BearerToken auth of
        None \<Rightarrow> Some ''bearer token configuration is required''
      | Some b \<Rightarrow> if BT_Token b = [] \<and> \<not> BT_Dynamic b
          then Some ''either static token or dynamic token generation must be configured'' else None)"

definition validateOAuthConfig :: "AdapterAuthConfig \<Rightarrow> error option" where
  "validateOAuthConfig auth =
     (case AAC_OAuth auth of
        None \<Rightarrow> Some ''OAuth configuration is required''
      | Some c \<Rightarrow>
          if OA_ClientID c = [] then Some ''OAuth client ID is required''
          else if OA_AuthURL c = [] then Some ''OAuth authorization URL is required''
          else if OA_TokenURL c = [] then Some ''OAuth token URL is required'' else None)"

definition validateBasicConfig :: "AdapterAuthConfig \<Rightarrow> error option" where
  "validateBasicConfig auth =
     (case AAC_Basic auth of
        None \<Rightarrow> Some ''Basic authentication configuration is required''
      | Some b \<Rightarrow>
          if BA_Username b = [] then Some ''username is required for basic authentication''
          else if BA_Password b = [] then Some ''password is required for basic authentication'' else None)"

text \<open>The defaults are written into the configuration that is checked.\<close>

definition validateAPIKeyConfig :: "AdapterAuthConfig \<Rightarrow> AdapterAuthConfig \<times> error option" where
  "validateAPIKeyConfig auth =
     (case AAC_APIKey auth of
        None \<Rightarrow> (auth, Some ''API key configuration is required'')
      | Some k \<Rightarrow>
          if AK_Key k = [] then (auth, Some ''API key is required'')
          else let location = (if AK_Location k = [] then ''header'' else AK_Location k);
                 name = (if AK_Name k = [] then ''X-API-Key'' else AK_Name k) in
            (auth\<lparr>AAC_APIKey := Some (k\<lparr>AK_Location := location, AK_Name := name\<rparr>)\<rparr>,
             if location \<in> set [''header'', ''query'', ''cookie''] then None
             else Some (''invalid API key location: '' @ location @ ''. Valid options: [header query cookie]'')))"

definition ValidateAuthConfig :: "AdapterAuthConfig \<Rightarrow> AdapterAuthConfig \<times> error option" where
  "ValidateAuthConfig auth =
     (if AAC_Type auth = ''none'' then (auth, None)
      else if AAC_Type auth = ''bearer'' then (auth, validateBearerConfig auth)
      else if AAC_Type auth = ''oauth'' then (auth, validateOAuthConfig auth)
      else if AAC_Type auth = ''basic'' then (auth, validateBasicConfig auth)
      else if AAC_Type auth = ''apikey'' then validateAPIKeyConfig auth
      else (auth, Some (''unsupported authentication type: '' @ AAC_Type auth)))"

subsection \<open>The credentials of a request\<close>

text \<open>Basic credentials and keys are put in as the proxies do it. A dynamic token is for no adapter and no audience.\<close>

definition MAIS_applyBearerAuth ::
    "token_manager \<Rightarrow> gotime \<Rightarrow> string \<Rightarrow> AdapterAuthConfig \<Rightarrow> forwarded \<Rightarrow> forwarded result" where
  "MAIS_applyBearerAuth tm now tokenID auth req =
     (let with_token = (\<lambda>token. if token = [] then Inl ''no bearer token available''
            else Inr (req\<lparr>FW_Header := header_Set ''Authorization'' (''Bearer '' @ token) (FW_Header req)\<rparr>)) in
      case AAC_BearerToken auth of
        None \<Rightarrow> with_token []
      | Some b \<Rightarrow>
          if BT_Token b \<noteq> [] then with_token (BT_Token b)
          else (case tm of
              Some (J, issuer) \<Rightarrow>
                if \<not> BT_Dynamic b then with_token []
                else (case GenerateBearerToken J issuer now tokenID [] [] 24 of
                    Inl err \<Rightarrow> Inl (''failed to generate dynamic bearer token: '' @ err)
                  | Inr tokenInfo \<Rightarrow> with_token (ATI_AccessToken tokenInfo))
            | None \<Rightarrow> with_token []))"

definition ApplyAuthToRequest ::
    "token_manager \<Rightarrow> gotime \<Rightarrow> string \<Rightarrow> AdapterAuthConfig option \<Rightarrow> forwarded \<Rightarrow> forwarded result" where
  "ApplyAuthToRequest tm now tokenID config req =
     (case config of
        None \<Rightarrow> Inr req
      | Some auth \<Rightarrow>
          if \<not> AAC_Required auth then Inr req
          else if AAC_Type auth = ''bearer'' then MAIS_applyBearerAuth tm now tokenID auth req
          else if AAC_Type auth = ''oauth'' then Inl ''OAuth authentication not yet implemented for request signing''
          else if AAC_Type auth = ''basic'' then applyBasicAuth auth req
          else if AAC_Type auth = ''apikey'' then applyAPIKeyAuth (lower_location auth) req
          else Inl (''unsupported authentication type: '' @ AAC_Type auth))"

subsection \<open>The handler\<close>

datatype auth_payload = AP_token ClientTokenResponse | AP_valid bool string | AP_tested string

type_synonym auth_reply = "int \<times> (string + auth_payload)"

text \<open>\<open>service\<close> is what \<open>authIntegration\<close> points to, \<open>None\<close> if it is nil.\<close>

definition MCPAuthHandler_GetClientToken ::
    "'s AdapterResourceStore \<Rightarrow> token_manager option \<Rightarrow> gotime \<Rightarrow> string \<Rightarrow> 's \<Rightarrow> string \<Rightarrow> auth_reply" where
  "MCPAuthHandler_GetClientToken A service now tokenID s name =
     (case ars_Get A s name of
        Inl err \<Rightarrow> (404, Inl ''Adapter not found'')
      | Inr adapter \<Rightarrow>
          (case service of
             None \<Rightarrow> (503, Inl ''Authentication integration not available'')
           | Some tm \<Rightarrow>
               (case GetClientToken tm now tokenID adapter of
                  Inl err \<Rightarrow> (500, Inl err)
                | Inr response \<Rightarrow> (200, Inr (AP_token response)))))"

text \<open>The body is read into the configuration, but the expiry of a token in it is dropped.\<close>

definition MCPAuthHandler_ValidateAuthConfig :: "token_manager option \<Rightarrow> AdapterAuthConfig result \<Rightarrow> string \<Rightarrow> auth_reply" where
  "MCPAuthHandler_ValidateAuthConfig service body name =
     (case body of
        Inl err \<Rightarrow> (400, Inl err)
      | Inr authConfig \<Rightarrow>
          (case service of
             None \<Rightarrow> (503, Inl ''Authentication integration not available'')
           | Some tm \<Rightarrow>
               (case ValidateAuthConfig (authConfig\<lparr>AAC_BearerToken :=
                    map_option (\<lambda>b. b\<lparr>BT_ExpiresAt := 0\<rparr>) (AAC_BearerToken authConfig)\<rparr>) of
                  (_, Some err) \<Rightarrow> (400, Inr (AP_valid False err))
                | (_, None) \<Rightarrow> (200, Inr (AP_valid True name)))))"

definition TestAuthConnection :: "'s AdapterResourceStore \<Rightarrow> 's \<Rightarrow> string \<Rightarrow> auth_reply" where
  "TestAuthConnection A s name =
     (case ars_Get A s name of
        Inl err \<Rightarrow> (404, Inl ''Adapter not found'')
      | Inr adapter \<Rightarrow> (200, Inr (AP_tested name)))"

subsection \<open>Properties\<close>

text \<open>What it takes for a bearer configuration to give a token.\<close>

definition can_make_tokens :: "token_manager \<Rightarrow> gotime \<Rightarrow> string \<Rightarrow> bool" where
  "can_make_tokens tm now tokenID \<longleftrightarrow>
     (case tm of None \<Rightarrow> False
      | Some (J, issuer) \<Rightarrow> \<exists>ti. GenerateBearerToken J issuer now tokenID [] [] 24 = Inr ti \<and> ATI_AccessToken ti \<noteq> [])"

text \<open>A configuration that passes the check can be applied. If the check has no error, then the configuration that it leaves
  behind puts credentials into every request, unless it is for OAuth or says \<open>none\<close> while requiring authentication; a
  token that is to be made needs a manager that can make one.\<close>

theorem checked_config_applies:
  assumes "ValidateAuthConfig auth = (auth', None)" and "AAC_Type auth \<notin> {''oauth'', ''none''}"
    and "AAC_Type auth = ''bearer'' \<Longrightarrow> (\<exists>b. AAC_BearerToken auth = Some b \<and> BT_Token b \<noteq> []) \<or> can_make_tokens tm now tokenID"
  shows "\<exists>req'. ApplyAuthToRequest tm now tokenID (Some auth') req = Inr req' \<and>
    (\<not> AAC_Required auth' \<longrightarrow> req' = req)"
proof -
  consider (bearer) b where "AAC_Type auth = ''bearer''" "auth' = auth" "AAC_BearerToken auth = Some b" "BT_Token b \<noteq> [] \<or> BT_Dynamic b"
    | (basic) b where "AAC_Type auth = ''basic''" "auth' = auth" "AAC_Basic auth = Some b"
    | (apikey) k where "AAC_Type auth' = ''apikey''" "AAC_APIKey auth' = Some k" "AK_Location k \<in> {''header'', ''query'', ''cookie''}"
    using assms(1,2) by (auto simp: ValidateAuthConfig_def validateBearerConfig_def validateBasicConfig_def validateAPIKeyConfig_def
        Let_def split: if_splits option.splits)
  then show ?thesis
  proof cases
    case bearer
    then show ?thesis
      using assms(3) by (auto simp: ApplyAuthToRequest_def MAIS_applyBearerAuth_def Let_def can_make_tokens_def split: option.splits)
  next
    case basic
    then show ?thesis by (simp add: ApplyAuthToRequest_def applyBasicAuth_def)
  next
    case apikey
    have "ToLower (AK_Location k) \<in> {''header'', ''query'', ''cookie''}"
      using apikey(3) by (auto simp: ToLower_def lower_char_def)
    then show ?thesis
      using apikey by (auto simp: ApplyAuthToRequest_def applyAPIKeyAuth_def lower_location_def)
  qed
qed

text \<open>C16. What one side sends the other side accepts. A request with the credentials of a configuration in its headers and its
  query, as this service (and in the same way the proxies) puts them in, passes the check that the REST routes make of
  their clients against that configuration: for fixed bearer tokens, for users' names without a colon, and for keys in a
  header or in the query.\<close>

theorem applied_credentials_are_accepted:
  assumes "ApplyAuthToRequest tm now tokenID (Some auth) req = Inr req'"
    and "PR_Header c = FW_Header req'" and "PR_RawQuery c = url_query (FW_URL req')"
    and "case AAC_BearerToken auth of None \<Rightarrow> AAC_Type auth \<noteq> ''bearer'' | Some b \<Rightarrow> BT_Token b \<noteq> []"
    and "case AAC_Basic auth of None \<Rightarrow> True | Some b \<Rightarrow> CHR '':'' \<notin> set (BA_Username b)"
    and "case AAC_APIKey auth of None \<Rightarrow> True | Some k \<Rightarrow> AK_Key k \<noteq> [] \<and> ToLower (AK_Location k) \<noteq> ''cookie''"
  shows "validateClientAuthentication c (Some auth) = None"
proof (cases "AAC_Required auth")
  case True
  have header: "rest_GetHeader c k = v" if "FW_Header req' = header_Set k v (FW_Header req)" for k v
    using that assms(2) by (simp add: rest_GetHeader_def header_Set_def header_Get_def)
  consider (bearer) b where "AAC_Type auth = ''bearer''" "AAC_BearerToken auth = Some b" "BT_Token b \<noteq> []"
      "FW_Header req' = header_Set ''Authorization'' (''Bearer '' @ BT_Token b) (FW_Header req)"
    | (basic) b where "AAC_Type auth = ''basic''" "AAC_Basic auth = Some b"
      "FW_Header req' = SetBasicAuth (BA_Username b) (BA_Password b) (FW_Header req)"
    | (apikey) k where "AAC_Type auth = ''apikey''" "AAC_APIKey auth = Some k"
      "applyAPIKeyAuth (lower_location auth) req = Inr req'"
    using True assms(1,4)
    by (auto simp: ApplyAuthToRequest_def MAIS_applyBearerAuth_def applyBasicAuth_def applyAPIKeyAuth_def lower_location_def Let_def
        split: if_splits option.splits)
  then have "presents c auth"
  proof cases
    case bearer
    then show ?thesis by (simp add: presents_def header)
  next
    case basic
    have "header_Get (FW_Header req') ''Authorization'' = ''Basic '' @ b64_std_encode (BA_Username b @ '':'' @ BA_Password b)"
      by (simp add: basic SetBasicAuth_def header_Set_def canonical_keys header_Get_def)
    moreover have "ToLower ''Basic '' = ''basic ''" by code_simp
    moreover have "CHR '':'' \<notin> set (BA_Username b)" using assms(5) basic by simp
    ultimately have "BasicAuth (header_Get (FW_Header req') ''Authorization'') = Some (BA_Username b, BA_Password b)"
      using cut_at_append [of "CHR '':''" "BA_Username b" "BA_Password b"] by (simp add: BasicAuth_def b64_std_roundtrip)
    then show ?thesis using basic assms(2) by (simp add: presents_def rest_GetHeader_def canonical_keys)
  next
    case apikey
    have key: "AK_Key k \<noteq> []" "ToLower (AK_Location k) \<noteq> ''cookie''" using assms(6) apikey by simp_all
    consider "ToLower (AK_Location k) = ''header''" "FW_Header req' = header_Set (AK_Name k) (AK_Key k) (FW_Header req)"
      | "ToLower (AK_Location k) = ''query''" "query_values (ParseQuery (url_query (FW_URL req'))) (AK_Name k) = [AK_Key k]"
      using apikey key by (auto simp: applyAPIKeyAuth_def lower_location_def query_key_set split: if_splits)
    then show ?thesis
      using apikey key by cases (simp_all add: presents_def header rest_Query_def assms(3))
  qed
  then show ?thesis by (simp add: validate_iff)
qed (simp add: validate_iff)

text \<open>The routes for the credentials of an adapter do nothing. With the handler that \<open>main.go\<close> makes, a client never gets a
  token and a configuration is never checked, and a test of the connection succeeds for every adapter that exists,
  whatever its server.\<close>

theorem auth_routes_do_nothing:
  shows "fst (MCPAuthHandler_GetClientToken A None now tokenID s name) \<in> {404, 503} \<and>
    fst (MCPAuthHandler_ValidateAuthConfig None body name) \<in> {400, 503} \<and>
    (TestAuthConnection A s name = (200, Inr (AP_tested name)) \<longleftrightarrow> is_ok (ars_Get A s name))"
  by (auto simp: MCPAuthHandler_GetClientToken_def MCPAuthHandler_ValidateAuthConfig_def TestAuthConnection_def split: sum.split)

subsection \<open>Examples\<close>

definition ex_key_auth :: AdapterAuthConfig where
  "ex_key_auth = \<lparr>AAC_Required = True, AAC_Type = ''apikey'', AAC_BearerToken = None, AAC_OAuth = None, AAC_Basic = None,
     AAC_APIKey = Some \<lparr>AK_Key = ''k1'', AK_Location = [], AK_Name = []\<rparr>\<rparr>"

definition ex_forwarded :: forwarded where
  "ex_forwarded = \<lparr>FW_Method = ''GET'', FW_URL = ''http://w'', FW_Header = Map.empty, FW_Body = []\<rparr>"

theorem checked_config_applies_witness:
  "\<exists>req'. ApplyAuthToRequest None 0 [] (Some (fst (ValidateAuthConfig ex_key_auth))) ex_forwarded = Inr req' \<and>
    (\<not> AAC_Required (fst (ValidateAuthConfig ex_key_auth)) \<longrightarrow> req' = ex_forwarded)"
  by (rule checked_config_applies [where auth = ex_key_auth])
    (simp_all add: ValidateAuthConfig_def validateAPIKeyConfig_def ex_key_auth_def)

definition ex_header_auth :: AdapterAuthConfig where
  "ex_header_auth = ex_key_auth\<lparr>AAC_APIKey := Some \<lparr>AK_Key = ''k1'', AK_Location = ''Header'', AK_Name = ''x-key''\<rparr>\<rparr>"

definition ex_key_request :: rest_request where
  "ex_key_request = \<lparr>PR_Method = ''GET'', PR_Header = [''X-Key'' \<mapsto> [''k1'']], PR_RawQuery = [], PR_Body = Inr [],
     RQ_Param = (\<lambda>k. []), RQ_Cookie = (\<lambda>k. None)\<rparr>"

theorem applied_credentials_are_accepted_witness: "validateClientAuthentication ex_key_request (Some ex_header_auth) = None"
proof (rule applied_credentials_are_accepted)
  have "ToLower ''Header'' = ''header''" "CanonicalHeaderKey ''x-key'' = ''X-Key''" by code_simp+
  then show "ApplyAuthToRequest None 0 [] (Some ex_header_auth) ex_forwarded =
      Inr (ex_forwarded\<lparr>FW_Header := [''X-Key'' \<mapsto> [''k1'']]\<rparr>)"
    by (simp add: ApplyAuthToRequest_def ex_header_auth_def ex_key_auth_def applyAPIKeyAuth_def lower_location_def header_Set_def
        ex_forwarded_def)
  show "PR_RawQuery ex_key_request = url_query (FW_URL (ex_forwarded\<lparr>FW_Header := [''X-Key'' \<mapsto> [''k1'']]\<rparr>))"
    by (simp add: ex_key_request_def ex_forwarded_def url_query_def cut_at_def)
  have "ToLower ''Header'' \<noteq> ''cookie''" by code_simp
  then show "case AAC_APIKey ex_header_auth of None \<Rightarrow> True | Some k \<Rightarrow> AK_Key k \<noteq> [] \<and> ToLower (AK_Location k) \<noteq> ''cookie''"
    by (simp add: ex_header_auth_def)
qed (simp_all add: ex_key_request_def ex_header_auth_def ex_key_auth_def)

end
