(* ===== verification/DiscoveryHandlers.thy ===== *)
theory DiscoveryHandlers
  imports ScanManager ScanTargets Startup "HOL-Library.List_Lexorder" "HOL-Library.Char_ord"
begin

section \<open>The routes of discovery\<close>

text \<open>
  The handlers of \<open>internal/handlers/discovery.go\<close> (the check of a range is \<open>isValidScanRange\<close> in \<open>ScanTargets\<close>). \<open>rfc\<close> is
  the format of a time; the interfaces of the machine are an argument, as in \<open>Startup\<close>.
\<close>

subsection \<open>Starting a scan\<close>

definition interface_ranges :: "net_interface \<Rightarrow> string list" where
  "interface_ranges iface =
     (if NI_Loopback iface \<or> \<not> NI_Up iface then []
      else case NI_Addrs iface of
        None \<Rightarrow> []
      | Some addrs \<Rightarrow>
          List.map_filter (\<lambda>ip.
            if To4 ip = None \<or> IsLoopback ip then None
            else case Option.bind (ParseIP (IP_String ip)) To4 of
              None \<Rightarrow> None
            | Some parts \<Rightarrow> Some (show_nat (unat (parts ! 0)) @ ''.'' @ show_nat (unat (parts ! 1)) @ ''.'' @
                show_nat (unat (parts ! 2)) @ ''.0/24'')) (List.map_filter (\<lambda>a. a) addrs))"

definition getDefaultScanRanges :: "(net_interface list) result \<Rightarrow> string list \<times> error option" where
  "getDefaultScanRanges interfaces =
     (case interfaces of
        Inl err \<Rightarrow> ([''127.0.0.1/32''], Some err)
      | Inr ifaces \<Rightarrow> (''127.0.0.1/32'' # concat (map interface_ranges ifaces), None))"

datatype discovery_payload =
    DP_started string string string
  | DP_jobs "ScanJob list"
  | DP_job ScanJob
  | DP_cancelled

type_synonym discovery_reply = "int \<times> (string + discovery_payload)"

definition scan_request_defaults :: "ScanConfig \<Rightarrow> ScanConfig" where
  "scan_request_defaults c = c\<lparr>SCfg_Timeout := (if SCfg_Timeout c = [] then ''30s'' else SCfg_Timeout c),
     SCfg_MaxConcurrent := (if SCfg_MaxConcurrent c = 0 then 10 else SCfg_MaxConcurrent c),
     SCfg_ExcludeProxy := (if SCfg_ExcludeProxy c = None then Some True else SCfg_ExcludeProxy c)\<rparr>"

definition scan_request_targets :: "(net_interface list) result \<Rightarrow> ScanConfig \<Rightarrow> ScanConfig" where
  "scan_request_targets interfaces c =
     (let c2 = (if SCfg_ScanRanges c = [] then
            (case getDefaultScanRanges interfaces of
               (_, Some err) \<Rightarrow> c\<lparr>SCfg_ScanRanges := [''127.0.0.1/32'']\<rparr>
             | (defaultRanges, None) \<Rightarrow> c\<lparr>SCfg_ScanRanges := defaultRanges\<rparr>)
            else c)
      in if SCfg_Ports c2 = [] then c2\<lparr>SCfg_Ports := [''8000'', ''8001'', ''8002'', ''8003'', ''8004'', ''8080'', ''8888'']\<rparr> else c2)"

definition ScanForMCPServers ::
    "ScanConfig result \<Rightarrow> (net_interface list) result \<Rightarrow> gotime \<Rightarrow> ScanManager \<Rightarrow> ScanManager \<times> discovery_reply" where
  "ScanForMCPServers body interfaces now sm =
     (case body of
        Inl err \<Rightarrow> (sm, 400, Inl (''Invalid scan configuration: '' @ err))
      | Inr c0 \<Rightarrow>
          (let c1 = scan_request_defaults c0 in
           case (if SCfg_ScanRanges c1 = [] then None else find (\<lambda>r. \<not> isValidScanRange r) (SCfg_ScanRanges c1)) of
             Some scanRange \<Rightarrow> (sm, 400, Inl (''Invalid scan range format: '' @ scanRange))
           | None \<Rightarrow>
               (let (sm', job) = StartScan now (scan_request_targets interfaces c1) sm
                in (sm', 200, Inr (DP_started (SJ_ID job) (SJ_Status job) (SJ_Message job))))))"

subsection \<open>Jobs\<close>

definition ListScanJobs :: "string list \<Rightarrow> ScanManager \<Rightarrow> discovery_reply" where
  "ListScanJobs ks sm = (200, Inr (DP_jobs (ListJobs ks sm)))"

definition GetScanJob :: "string \<Rightarrow> ScanManager \<Rightarrow> discovery_reply" where
  "GetScanJob jobID sm =
     (if jobID = [] then (400, Inl ''Job ID is required'')
      else case GetJob jobID sm of
        Inl err \<Rightarrow> (404, Inl ''Scan job not found'')
      | Inr job \<Rightarrow> (200, Inr (DP_job job)))"

definition CancelScanJob :: "gotime \<Rightarrow> string \<Rightarrow> ScanManager \<Rightarrow> ScanManager \<times> discovery_reply" where
  "CancelScanJob now jobID sm =
     (if jobID = [] then (sm, 400, Inl ''Job ID is required'')
      else case CancelJob now jobID sm of
        (sm', Some err) \<Rightarrow> (sm', 404, Inl ''Scan job not found'')
      | (sm', None) \<Rightarrow> (sm', 200, Inr DP_cancelled))"

text \<open>The two routes that are switched off.\<close>

definition ListDiscoveredServers :: "int \<times> string" where
  "ListDiscoveredServers = (410, ''GET /api/v1/discovery/results'')"

definition GetDeprecatedServer :: "int \<times> string" where
  "GetDeprecatedServer = (410, ''GET /api/v1/discovery/results/{id}'')"

subsection \<open>Results\<close>

definition extractCountFromMetadata :: "(string \<rightharpoonup> string) option \<Rightarrow> string \<Rightarrow> int" where
  "extractCountFromMetadata metadata key =
     (case metadata of
        None \<Rightarrow> 0
      | Some m \<Rightarrow> (case m key of None \<Rightarrow> 0 | Some v \<Rightarrow> (case Atoi v of Inr n \<Rightarrow> n | Inl _ \<Rightarrow> 0)))"

text \<open>What is shown of a server. Members that may be missing are options.\<close>

record safe_server =
  SF_ID :: string
  SF_Name :: string
  SF_Address :: string
  SF_Protocol :: string
  SF_Connection :: string
  SF_Status :: string
  SF_LastSeen :: string
  SF_VulnerabilityScore :: string
  SF_ServerVersion :: string
  SF_ProtocolVersion :: string
  SF_Metadata :: "(string \<rightharpoonup> string) option"
  SF_Capabilities :: "McpCapabilities option"
  SF_ToolsCount :: "int option"
  SF_ResourcesCount :: "int option"
  SF_PromptsCount :: "int option"

definition safe_server_of :: "(gotime \<Rightarrow> string) \<Rightarrow> DiscoveredServer \<Rightarrow> safe_server" where
  "safe_server_of rfc server =
     (let shown = (\<lambda>k. let n = extractCountFromMetadata (DS_Metadata server) k in if 0 < n then Some n else None) in
      \<lparr>SF_ID = DS_ID server, SF_Name = DS_Name server, SF_Address = DS_Address server, SF_Protocol = DS_Protocol server,
       SF_Connection = DS_Connection server, SF_Status = DS_Status server, SF_LastSeen = rfc (DS_LastSeen server),
       SF_VulnerabilityScore = DS_VulnerabilityScore server, SF_ServerVersion = DS_ServerVersion server,
       SF_ProtocolVersion = DS_ProtocolVersion server,
       SF_Metadata = (case DS_Metadata server of None \<Rightarrow> None | Some m \<Rightarrow> if m = Map.empty then None else Some m),
       SF_Capabilities = DS_Capabilities server, SF_ToolsCount = shown ''tools_count'',
       SF_ResourcesCount = shown ''resources_count'', SF_PromptsCount = shown ''prompts_count''\<rparr>)"

definition safeServerList :: "(gotime \<Rightarrow> string) \<Rightarrow> DiscoveredServer list \<Rightarrow> safe_server list" where
  "safeServerList rfc servers = map (safe_server_of rfc) servers"

fun newest :: "DiscoveredServer list \<Rightarrow> (string \<rightharpoonup> DiscoveredServer) \<Rightarrow> (string \<rightharpoonup> DiscoveredServer)" where
  "newest [] seen = seen"
| "newest (server # servers) seen = newest servers
     (case seen (DS_ID server) of
        None \<Rightarrow> seen(DS_ID server \<mapsto> server)
      | Some existing \<Rightarrow> if DS_LastSeen existing < DS_LastSeen server then seen(DS_ID server \<mapsto> server) else seen)"

text \<open>\<open>order\<close> gives the order in which a map is read.\<close>

definition deduplicateServers ::
    "((string \<rightharpoonup> DiscoveredServer) \<Rightarrow> string list) \<Rightarrow> DiscoveredServer list \<Rightarrow> DiscoveredServer list" where
  "deduplicateServers order servers = (let seen = newest servers Map.empty in range_values seen (order seen))"

record scan_summary =
  SS_ScanID :: string
  SS_StartTime :: gotime
  SS_EndTime :: "gotime option"
  SS_ServersFound :: nat
  SS_Config :: ScanConfig

record scan_results =
  SR_TotalScans :: nat
  SR_TotalServers :: nat
  SR_Summaries :: "scan_summary list"
  SR_Servers :: "safe_server list"

definition GetAllScanResults ::
    "(gotime \<Rightarrow> string) \<Rightarrow> ((string \<rightharpoonup> DiscoveredServer) \<Rightarrow> string list) \<Rightarrow> string list \<Rightarrow> ScanManager \<Rightarrow> int \<times> scan_results" where
  "GetAllScanResults rfc order ks sm =
     (let completed = filter (\<lambda>job. SJ_Status job = ScanStatusCompleted \<and> SJ_Results job \<noteq> []) (ListJobs ks sm);
          uniqueResults = deduplicateServers order (concat (map SJ_Results completed))
      in (200, \<lparr>SR_TotalScans = length completed, SR_TotalServers = length uniqueResults,
           SR_Summaries = map (\<lambda>job. \<lparr>SS_ScanID = SJ_ID job, SS_StartTime = SJ_StartTime job, SS_EndTime = SJ_EndTime job,
             SS_ServersFound = length (SJ_Results job), SS_Config = SJ_Config job\<rparr>) completed,
           SR_Servers = safeServerList rfc uniqueResults\<rparr>))"

text \<open>The first server with the ID, in the order of the jobs.\<close>

definition GetServerFromResults :: "(gotime \<Rightarrow> string) \<Rightarrow> string list \<Rightarrow> string \<Rightarrow> ScanManager \<Rightarrow> int \<times> (string + safe_server)" where
  "GetServerFromResults rfc ks serverID sm =
     (if serverID = [] then (400, Inl ''Server ID is required'')
      else case find (\<lambda>server. DS_ID server = serverID)
          (concat (map SJ_Results (filter (\<lambda>job. SJ_Status job = ScanStatusCompleted) (ListJobs ks sm)))) of
        None \<Rightarrow> (404, Inl ''Server not found'')
      | Some server \<Rightarrow> (200, Inr (safe_server_of rfc server)))"

subsection \<open>Properties\<close>

lemma default_range_valid:
  fixes a b c :: "8 word"
  shows
  "isValidScanRange (show_nat (unat a) @ ''.'' @ show_nat (unat b) @ ''.'' @ show_nat (unat c) @ ''.0/24'')"
proof -
  have "show_nat (unat a) @ ''.'' @ show_nat (unat b) @ ''.'' @ show_nat (unat c) @ ''.0/24'' =
      show_v4 [a, b, c, 0] @ ''/'' @ show_nat 24"
    by (simp add: show_v4_4 show_nat.simps digit_chars)
  moreover have "Contains (x @ ''/'' @ y) ''/''" for x y by (rule ContainsI)
  ultimately show ?thesis by (simp add: isValidScanRange_def ParseCIDR_show del: append.simps)
qed

lemma localhost_range_valid: "isValidScanRange ''127.0.0.1/32''"
proof -
  have "''127.0.0.1/32'' = show_v4 [127, 0, 0, 1] @ ''/'' @ show_nat 32" by code_simp
  moreover have "Contains (x @ ''/'' @ y) ''/''" for x y by (rule ContainsI)
  ultimately show ?thesis by (simp only: isValidScanRange_def ParseCIDR_show) simp
qed

lemma interface_ranges_valid: "r \<in> set (interface_ranges iface) \<Longrightarrow> isValidScanRange r"
  by (auto simp: interface_ranges_def List.map_filter_def default_range_valid [simplified] split: if_splits option.splits)

text \<open>A scan that is accepted is complete. When the route answers 200, a job has been started whose configuration has at least
  one range, all of them well-formed, at least one port, a timeout, and a choice about the program's own addresses, whatever
  the client left out and whatever interfaces the machine has.\<close>

theorem accepted_scan_is_complete:
  assumes "ScanForMCPServers body interfaces now sm = (sm', 200, reply)"
  shows "\<exists>jid job. reply = Inr (DP_started jid ScanStatusPending (SJ_Message job)) \<and> sm_jobs sm' jid = Some job \<and>
    sm_running sm' jid = Some Queued \<and> SCfg_ScanRanges (SJ_Config job) \<noteq> [] \<and>
    (\<forall>r \<in> set (SCfg_ScanRanges (SJ_Config job)). isValidScanRange r) \<and> SCfg_Ports (SJ_Config job) \<noteq> [] \<and>
    SCfg_Timeout (SJ_Config job) \<noteq> [] \<and> SCfg_MaxConcurrent (SJ_Config job) \<noteq> 0 \<and> SCfg_ExcludeProxy (SJ_Config job) \<noteq> None"
proof -
  have ranges: "\<forall>r \<in> set (fst (getDefaultScanRanges interfaces)). isValidScanRange r" "fst (getDefaultScanRanges interfaces) \<noteq> []"
    by (auto simp: getDefaultScanRanges_def localhost_range_valid dest: interface_ranges_valid split: sum.splits)
  obtain c0 where body: "body = Inr c0" using assms by (auto simp: ScanForMCPServers_def split: sum.splits)
  let ?c1 = "scan_request_defaults c0"
  let ?c = "scan_request_targets interfaces ?c1"
  have valid: "\<forall>r \<in> set (SCfg_ScanRanges ?c1). isValidScanRange r"
    using assms body by (auto simp: ScanForMCPServers_def Let_def find_None_iff split: if_splits option.splits)
  have started: "sm' = fst (StartScan now ?c sm)" "reply = Inr (DP_started (SJ_ID (snd (StartScan now ?c sm)))
      (SJ_Status (snd (StartScan now ?c sm))) (SJ_Message (snd (StartScan now ?c sm))))"
    using assms body by (auto simp: ScanForMCPServers_def Let_def split: if_splits option.splits prod.splits)
  have "SCfg_Timeout ?c = SCfg_Timeout ?c1" "SCfg_MaxConcurrent ?c = SCfg_MaxConcurrent ?c1" "SCfg_ExcludeProxy ?c = SCfg_ExcludeProxy ?c1"
    by (auto simp: scan_request_targets_def Let_def split: prod.split option.split)
  moreover have "SCfg_Timeout ?c1 \<noteq> []" "SCfg_MaxConcurrent ?c1 \<noteq> 0" "SCfg_ExcludeProxy ?c1 \<noteq> None"
    by (auto simp: scan_request_defaults_def)
  moreover have "SCfg_ScanRanges ?c \<noteq> [] \<and> (\<forall>r \<in> set (SCfg_ScanRanges ?c). isValidScanRange r)"
    using valid ranges localhost_range_valid by (auto simp: scan_request_targets_def Let_def split: prod.split option.split)
  moreover have "SCfg_Ports ?c \<noteq> []" by (simp add: scan_request_targets_def Let_def)
  ultimately show ?thesis unfolding started by (simp add: StartScan_def Let_def)
qed

text \<open>The newest of the servers with an ID.\<close>

lemma newest_Some:
  "newest xs seen k = Some s \<Longrightarrow> (\<forall>j v. seen j = Some v \<longrightarrow> DS_ID v = j) \<Longrightarrow>
    DS_ID s = k \<and> (s \<in> set xs \<or> seen k = Some s) \<and>
    (\<forall>x \<in> set xs. DS_ID x = k \<longrightarrow> DS_LastSeen x \<le> DS_LastSeen s) \<and>
    (\<forall>v. seen k = Some v \<longrightarrow> DS_LastSeen v \<le> DS_LastSeen s)"
proof (induction xs arbitrary: seen)
  case (Cons x xs)
  let ?seen = "case seen (DS_ID x) of None \<Rightarrow> seen(DS_ID x \<mapsto> x)
    | Some existing \<Rightarrow> if DS_LastSeen existing < DS_LastSeen x then seen(DS_ID x \<mapsto> x) else seen"
  have keys: "\<forall>j v. ?seen j = Some v \<longrightarrow> DS_ID v = j" using Cons.prems(2) by (auto split: option.split)
  from Cons.prems(1) have "newest xs ?seen k = Some s" by simp
  from Cons.IH [OF this keys] have ih: "DS_ID s = k" "s \<in> set xs \<or> ?seen k = Some s"
    "\<forall>x \<in> set xs. DS_ID x = k \<longrightarrow> DS_LastSeen x \<le> DS_LastSeen s" "\<forall>v. ?seen k = Some v \<longrightarrow> DS_LastSeen v \<le> DS_LastSeen s"
    by blast+
  have from_seen: "?seen k = Some v \<Longrightarrow> v = x \<or> seen k = Some v" for v by (auto split: option.splits if_splits)
  have old: "seen k = Some v \<Longrightarrow> \<exists>w. ?seen k = Some w \<and> DS_LastSeen v \<le> DS_LastSeen w" for v
    by (cases "k = DS_ID x") (auto split: option.split)
  have new: "DS_ID x = k \<Longrightarrow> \<exists>w. ?seen k = Some w \<and> DS_LastSeen x \<le> DS_LastSeen w"
    by (auto split: option.split)
  have "DS_ID x = k \<longrightarrow> DS_LastSeen x \<le> DS_LastSeen s" using new ih(4) by fastforce
  moreover have "seen k = Some v \<longrightarrow> DS_LastSeen v \<le> DS_LastSeen s" for v using old ih(4) by fastforce
  ultimately show ?case using ih(1-3) from_seen by auto
qed simp

lemma newest_dom: "dom (newest xs seen) = dom seen \<union> DS_ID ` set xs"
  by (induction xs arbitrary: seen) (auto split: option.split)

definition found_servers :: "string list \<Rightarrow> ScanManager \<Rightarrow> DiscoveredServer set" where
  "found_servers ks sm = {server. \<exists>job \<in> set (ListJobs ks sm). SJ_Status job = ScanStatusCompleted \<and> server \<in> set (SJ_Results job)}"

lemma found_servers_eq:
  "found_servers ks sm = set (concat (map SJ_Results (filter (\<lambda>job. SJ_Status job = ScanStatusCompleted) (ListJobs ks sm))))"
  "found_servers ks sm =
    set (concat (map SJ_Results (filter (\<lambda>job. SJ_Status job = ScanStatusCompleted \<and> SJ_Results job \<noteq> []) (ListJobs ks sm))))"
  by (auto simp: found_servers_def)

text \<open>C26. The results show every server once, in its newest form: the IDs shown are those of the servers that completed scans
  found, none twice, and each entry is what a scan found last of its server.\<close>

theorem results_show_the_newest:
  assumes "\<And>m. finite (dom m) \<Longrightarrow> range_order m (order m)" and "GetAllScanResults rfc order ks sm = (code, r)"
  shows "code = 200 \<and> SR_TotalServers r = length (SR_Servers r) \<and> SR_TotalScans r = length (SR_Summaries r) \<and>
    distinct (map SF_ID (SR_Servers r)) \<and> set (map SF_ID (SR_Servers r)) = DS_ID ` found_servers ks sm \<and>
    (\<forall>x \<in> set (SR_Servers r). \<exists>s \<in> found_servers ks sm. x = safe_server_of rfc s \<and>
       (\<forall>t \<in> found_servers ks sm. DS_ID t = DS_ID s \<longrightarrow> DS_LastSeen t \<le> DS_LastSeen s))"
proof -
  let ?xs = "concat (map SJ_Results (filter (\<lambda>job. SJ_Status job = ScanStatusCompleted \<and> SJ_Results job \<noteq> []) (ListJobs ks sm)))"
  let ?m = "newest ?xs Map.empty"
  have dom: "dom ?m = DS_ID ` found_servers ks sm" by (simp only: newest_dom found_servers_eq(2)) simp
  then have ord: "range_order ?m (order ?m)" using assms(1) by (simp add: found_servers_eq(2))
  have shown: "SR_Servers r = map (safe_server_of rfc) (range_values ?m (order ?m))"
    using assms(2) by (auto simp: GetAllScanResults_def deduplicateServers_def safeServerList_def Let_def)
  have m: "?m k = Some s \<Longrightarrow> DS_ID s = k \<and> s \<in> found_servers ks sm \<and>
      (\<forall>t \<in> found_servers ks sm. DS_ID t = k \<longrightarrow> DS_LastSeen t \<le> DS_LastSeen s)" for k s
    using newest_Some [of ?xs Map.empty k s] unfolding found_servers_eq(2) by simp
  have sid: "SF_ID (safe_server_of rfc s) = DS_ID s" for s by (simp add: safe_server_of_def Let_def)
  have "map DS_ID (range_values ?m js) = js" if "set js \<subseteq> dom ?m" for js
    using that m by (induction js) (auto simp: range_values_Cons)
  then have ids: "map SF_ID (SR_Servers r) = order ?m"
    using ord by (simp add: shown sid comp_def range_order_def)
  have "\<exists>s \<in> found_servers ks sm. x = safe_server_of rfc s \<and>
       (\<forall>t \<in> found_servers ks sm. DS_ID t = DS_ID s \<longrightarrow> DS_LastSeen t \<le> DS_LastSeen s)" if "x \<in> set (SR_Servers r)" for x
    using that m set_range_values_subset [of ?m "order ?m"] by (fastforce simp: shown ran_def)
  moreover have "code = 200" "SR_TotalServers r = length (SR_Servers r)" "SR_TotalScans r = length (SR_Summaries r)"
    using assms(2) by (auto simp: GetAllScanResults_def safeServerList_def Let_def)
  ultimately show ?thesis using ids ord dom by (simp add: range_order_def)
qed

text \<open>One result is found exactly when a completed scan has a server with its ID; which scan it comes from depends on the
  order of the jobs, so it need not be the newest form that the list shows.\<close>

theorem one_result_is_any:
  assumes "serverID \<noteq> []"
  shows "case GetServerFromResults rfc ks serverID sm of
      (code, Inr x) \<Rightarrow> code = 200 \<and> (\<exists>s \<in> found_servers ks sm. DS_ID s = serverID \<and> x = safe_server_of rfc s)
    | (code, Inl err) \<Rightarrow> code = 404 \<and> serverID \<notin> DS_ID ` found_servers ks sm"
proof -
  have some: "find P xs = Some x \<Longrightarrow> x \<in> set xs \<and> P x" for P :: "DiscoveredServer \<Rightarrow> bool" and xs x
    by (induction xs) (auto split: if_splits)
  show ?thesis
  proof (cases "find (\<lambda>server. DS_ID server = serverID)
          (concat (map SJ_Results (filter (\<lambda>job. SJ_Status job = ScanStatusCompleted) (ListJobs ks sm))))")
    case None
    then have "\<forall>s \<in> found_servers ks sm. DS_ID s \<noteq> serverID" unfolding found_servers_eq(1) find_None_iff by blast
    then show ?thesis using None assms by (auto simp: GetServerFromResults_def)
  next
    case (Some s)
    then have "s \<in> found_servers ks sm" "DS_ID s = serverID" unfolding found_servers_eq(1) by (blast dest: some)+
    then show ?thesis using Some assms by (auto simp: GetServerFromResults_def)
  qed
qed

subsection \<open>Examples\<close>

definition ex_found :: "gotime \<Rightarrow> DiscoveredServer" where
  "ex_found t = zero_DiscoveredServer\<lparr>DS_ID := ''w'', DS_LastSeen := t\<rparr>"

definition ex_completed :: "string \<Rightarrow> gotime \<Rightarrow> ScanJob" where
  "ex_completed jid t = \<lparr>SJ_ID = jid, SJ_Status = ScanStatusCompleted, SJ_Config = ex_config, SJ_Results = [ex_found t], SJ_Errors = [],
     SJ_StartTime = t, SJ_EndTime = Some t, SJ_Progress = 1, SJ_Message = []\<rparr>"

definition ex_jobs :: ScanManager where
  "ex_jobs = \<lparr>sm_jobs = [''scan-1'' \<mapsto> ex_completed ''scan-1'' 3, ''scan-2'' \<mapsto> ex_completed ''scan-2'' 8], sm_nextJobID = 3,
     sm_running = Map.empty\<rparr>"

lemma ex_jobs_found: "found_servers [''scan-1'', ''scan-2''] ex_jobs = {ex_found 3, ex_found 8}"
  by (auto simp: found_servers_def ListJobs_def ex_jobs_def range_values_Cons ex_completed_def)

definition ex_order :: "(string \<rightharpoonup> DiscoveredServer) \<Rightarrow> string list" where
  "ex_order m = sorted_list_of_set (dom m)"

theorem accepted_scan_is_complete_witness:
  "let r = ScanForMCPServers (Inr (ex_config\<lparr>SCfg_ScanRanges := []\<rparr>)) (Inr []) 0 NewScanManager in
    \<exists>jid job. sm_jobs (fst r) jid = Some job \<and> SCfg_ScanRanges (SJ_Config job) \<noteq> [] \<and>
      (\<forall>r \<in> set (SCfg_ScanRanges (SJ_Config job)). isValidScanRange r)"
proof -
  let ?r = "ScanForMCPServers (Inr (ex_config\<lparr>SCfg_ScanRanges := []\<rparr>)) (Inr []) 0 NewScanManager"
  have "?r = (fst ?r, 200, snd (snd ?r))" by (simp add: ScanForMCPServers_def scan_request_defaults_def Let_def split: prod.split)
  from accepted_scan_is_complete [OF this] show ?thesis unfolding Let_def by blast
qed

theorem results_show_the_newest_witness:
  "SR_Servers (snd (GetAllScanResults show_int ex_order [''scan-1'', ''scan-2''] ex_jobs)) = [safe_server_of show_int (ex_found 8)]"
proof -
  let ?r = "GetAllScanResults show_int ex_order [''scan-1'', ''scan-2''] ex_jobs"
  have "\<And>m :: string \<rightharpoonup> DiscoveredServer. finite (dom m) \<Longrightarrow> range_order m (ex_order m)"
    by (simp add: range_order_def ex_order_def)
  from results_show_the_newest [where order = ex_order and rfc = show_int and ks = "[''scan-1'', ''scan-2'']" and sm = ex_jobs,
      OF this prod.collapse [symmetric]]
  have ids: "distinct (map SF_ID (SR_Servers (snd ?r)))" "set (map SF_ID (SR_Servers (snd ?r))) = {''w''}"
    and each: "\<And>x. x \<in> set (SR_Servers (snd ?r)) \<Longrightarrow> x = safe_server_of show_int (ex_found 8)"
    by (auto simp: ex_jobs_found) (auto simp: ex_found_def)
  then obtain x xs where xs: "SR_Servers (snd ?r) = x # xs" by (cases "SR_Servers (snd ?r)") auto
  then have "xs = []" using ids by (cases xs) auto
  then show ?thesis using xs each by simp
qed

theorem one_result_is_any_witness:
  "GetServerFromResults show_int [''scan-1'', ''scan-2''] ''w'' ex_jobs \<in>
    {(200, Inr (safe_server_of show_int (ex_found 3))), (200, Inr (safe_server_of show_int (ex_found 8)))}"
  using one_result_is_any [where serverID = "''w''" and rfc = show_int and ks = "[''scan-1'', ''scan-2'']" and sm = ex_jobs]
  by (auto simp: ex_jobs_found ex_found_def split: prod.splits sum.splits)

end
