(* ===== verification/PluginRouting.thy ===== *)
theory PluginRouting
  imports Plugins
begin

section \<open>Routes to plugin services\<close>

text \<open>
  \<open>internal/service/plugin_registration.go\<close>, \<open>route_manager.go\<close> and \<open>dynamic_router.go\<close>: another set of handlers for the
  registrations, a manager that adds a route to the router for every capability, and a middleware that finds the service of a
  path. The router is package \<open>gin\<close>: \<open>add\<close> is the addition of a route, \<open>None\<close> if it panics, and \<open>gin_laws\<close> states what is
  documented of it. \<open>main.go\<close> uses none of the three.
\<close>

subsection \<open>The handlers for registrations\<close>

type_synonym registration_reply = "int \<times> (string + plugin_payload)"

text \<open>The body is decoded into a registration; \<open>PP_service\<close> is the registration with its times.\<close>

definition PRS_RegisterService ::
    "service_config \<Rightarrow> gotime \<Rightarrow> gotime \<Rightarrow> gotime \<Rightarrow> ServiceRegistration result \<Rightarrow> ServiceManager \<Rightarrow>
     ServiceManager \<times> ServiceRegistration option \<times> registration_reply" where
  "PRS_RegisterService config t1 t2 t3 body sm =
     (case body of
        Inl err \<Rightarrow> (sm, None, 400, Inl ''Invalid registration data'')
      | Inr registration \<Rightarrow>
          if SR_ServiceID registration = [] then (sm, None, 400, Inl ''Service ID is required'')
          else if SR_ServiceType registration = [] then (sm, None, 400, Inl ''Service type is required'')
          else if SR_ServiceURL registration = [] then (sm, None, 400, Inl ''Service URL is required'')
          else (case RegisterService config t1 t2 t3 registration sm of
            (sm', Inl err) \<Rightarrow> (sm', None, 409, Inl err)
          | (sm', Inr started) \<Rightarrow> (sm', started, 201,
              Inr (PP_service (registration\<lparr>SR_RegisteredAt := t1, SR_LastHeartbeat := t2\<rparr>)))))"

definition PRS_UnregisterService :: "string \<Rightarrow> ServiceManager \<Rightarrow> ServiceManager \<times> registration_reply" where
  "PRS_UnregisterService serviceID sm =
     (case UnregisterService serviceID sm of
        (sm', Some err) \<Rightarrow> (sm', 404, Inl err)
      | (sm', None) \<Rightarrow> (sm', 204, Inr PP_none))"

definition PRS_ListServices :: "string list \<Rightarrow> ServiceManager \<Rightarrow> registration_reply" where
  "PRS_ListServices ks sm = (200, Inr (PP_services (GetAllServices ks sm)))"

definition PRS_GetService :: "string \<Rightarrow> ServiceManager \<Rightarrow> registration_reply" where
  "PRS_GetService serviceID sm =
     (case ServiceManager_GetService sm serviceID of
        None \<Rightarrow> (404, Inl ''Service not found'') | Some service \<Rightarrow> (200, Inr (PP_service service)))"

definition PRS_GetServiceHealth :: "string \<Rightarrow> ServiceManager \<Rightarrow> registration_reply" where
  "PRS_GetServiceHealth serviceID sm =
     (case ServiceManager_GetServiceHealth sm serviceID of
        None \<Rightarrow> (404, Inl ''Service not found'') | Some health \<Rightarrow> (200, Inr (PP_health health)))"

definition PRS_ListServicesByType :: "string list \<Rightarrow> string \<Rightarrow> ServiceManager \<Rightarrow> registration_reply" where
  "PRS_ListServicesByType ks serviceType sm =
     (if serviceType = ''smartagents'' \<or> serviceType = ''registry''
      then (200, Inr (PP_services (GetServicesByType ks serviceType sm)))
      else (400, Inl ''Invalid service type''))"

subsection \<open>The route manager\<close>

record RouteMapping =
  RMp_Path :: string
  RMp_ServiceID :: string
  RMp_ServiceURL :: string
  RMp_Methods :: "string list"

record 'g RouteManager =
  rm_router :: 'g
  rm_routeMappings :: "string \<rightharpoonup> RouteMapping"

definition generateRouteKey :: "string \<Rightarrow> string list \<Rightarrow> string" where
  "generateRouteKey path methods = Join methods '','' @ '':'' @ path"

definition ToUpper :: "string \<Rightarrow> string" where
  "ToUpper s = map upper_char s"

definition route_methods :: "string list" where
  "route_methods = [''GET'', ''POST'', ''PUT'', ''DELETE'', ''PATCH'', ''HEAD'', ''OPTIONS'']"

text \<open>A handler in the router is known by its mapping.\<close>

definition registerRouteWithGin ::
    "(string \<Rightarrow> string \<Rightarrow> RouteMapping \<Rightarrow> 'g \<Rightarrow> 'g option) \<Rightarrow> string \<Rightarrow> string \<Rightarrow> RouteMapping \<Rightarrow> 'g \<Rightarrow> 'g option" where
  "registerRouteWithGin add path m mapping router =
     (if ToUpper m \<in> set route_methods then add (ToUpper m) path mapping router else Some router)"

fun add_methods ::
    "(string \<Rightarrow> string \<Rightarrow> RouteMapping \<Rightarrow> 'g \<Rightarrow> 'g option) \<Rightarrow> string \<Rightarrow> RouteMapping \<Rightarrow> string list \<Rightarrow> 'g \<Rightarrow> 'g option" where
  "add_methods add path mapping [] router = Some router"
| "add_methods add path mapping (m # ms) router =
     Option.bind (registerRouteWithGin add path m mapping router) (add_methods add path mapping ms)"

definition mapping_of :: "ServiceRegistration \<Rightarrow> ServiceCapability \<Rightarrow> RouteMapping" where
  "mapping_of service capability = \<lparr>RMp_Path = SC_Path capability, RMp_ServiceID = SR_ServiceID service,
     RMp_ServiceURL = SR_ServiceURL service, RMp_Methods = SC_Methods capability\<rparr>"

fun add_capabilities ::
    "(string \<Rightarrow> string \<Rightarrow> RouteMapping \<Rightarrow> 'g \<Rightarrow> 'g option) \<Rightarrow> ServiceRegistration \<Rightarrow> ServiceCapability list \<Rightarrow> 'g RouteManager \<Rightarrow>
     'g RouteManager option" where
  "add_capabilities add service [] rm = Some rm"
| "add_capabilities add service (capability # capabilities) rm =
     (let mapping = mapping_of service capability;
          mappings = (rm_routeMappings rm)(generateRouteKey (SC_Path capability) (SC_Methods capability) \<mapsto> mapping) in
      case add_methods add (SC_Path capability) mapping (SC_Methods capability) (rm_router rm) of
        None \<Rightarrow> None
      | Some router \<Rightarrow> add_capabilities add service capabilities \<lparr>rm_router = router, rm_routeMappings = mappings\<rparr>)"

text \<open>\<open>parse\<close> is the error of parsing a URL.\<close>

definition RegisterServiceRoutes ::
    "(string \<Rightarrow> string \<Rightarrow> RouteMapping \<Rightarrow> 'g \<Rightarrow> 'g option) \<Rightarrow> (string \<Rightarrow> error option) \<Rightarrow> ServiceRegistration \<Rightarrow> 'g RouteManager \<Rightarrow>
     ('g RouteManager \<times> error option) option" where
  "RegisterServiceRoutes add parse service rm =
     (case parse (SR_ServiceURL service) of
        Some err \<Rightarrow> Some (rm, Some (''invalid service URL '' @ SR_ServiceURL service @ '': '' @ err))
      | None \<Rightarrow> map_option (\<lambda>rm'. (rm', None)) (add_capabilities add service (SR_Capabilities service) rm))"

definition UnregisterServiceRoutes :: "string \<Rightarrow> 'g RouteManager \<Rightarrow> 'g RouteManager" where
  "UnregisterServiceRoutes serviceID rm =
     rm\<lparr>rm_routeMappings := map_restrict_val (\<lambda>mapping. RMp_ServiceID mapping \<noteq> serviceID) (rm_routeMappings rm)\<rparr>"

definition GetRouteMapping :: "string \<Rightarrow> string \<Rightarrow> 'g RouteManager \<Rightarrow> RouteMapping option" where
  "GetRouteMapping path m rm = rm_routeMappings rm (generateRouteKey path [m])"

definition GetAllRouteMappings :: "string list \<Rightarrow> 'g RouteManager \<Rightarrow> RouteMapping list" where
  "GetAllRouteMappings ks rm = range_values (rm_routeMappings rm) ks"

fun register_all ::
    "(string \<Rightarrow> string \<Rightarrow> RouteMapping \<Rightarrow> 'g \<Rightarrow> 'g option) \<Rightarrow> (string \<Rightarrow> error option) \<Rightarrow> ServiceRegistration list \<Rightarrow> 'g RouteManager \<Rightarrow>
     'g RouteManager option" where
  "register_all add parse [] rm = Some rm"
| "register_all add parse (service # services) rm =
     (case RegisterServiceRoutes add parse service rm of
        None \<Rightarrow> None
      | Some (rm', _) \<Rightarrow> register_all add parse services rm')"

definition UpdateRoutes ::
    "(string \<Rightarrow> string \<Rightarrow> RouteMapping \<Rightarrow> 'g \<Rightarrow> 'g option) \<Rightarrow> (string \<Rightarrow> error option) \<Rightarrow> string list \<Rightarrow> ServiceManager \<Rightarrow>
     'g RouteManager \<Rightarrow> 'g RouteManager option" where
  "UpdateRoutes add parse ks sm rm =
     register_all add parse (GetAllServices ks sm) (rm\<lparr>rm_routeMappings := Map.empty\<rparr>)"

text \<open>What the handler of a mapping does: an answer of its own, or the two headers it sets before the reverse proxy. A service
  that is registered has a health entry (\<open>plugins_well_formed\<close>), so the nil pointer the code would follow without one is not a case.\<close>

definition route_handler :: "ServiceManager \<Rightarrow> RouteMapping \<Rightarrow> (int \<times> string) + (string \<times> string)" where
  "route_handler sm mapping =
     (case ServiceManager_GetService sm (RMp_ServiceID mapping) of
        None \<Rightarrow> Inl (404, ''Service not available'')
      | Some service \<Rightarrow>
          if map_option SH_Status (ServiceManager_GetServiceHealth sm (RMp_ServiceID mapping)) \<noteq> Some ''healthy''
          then Inl (503, ''Service temporarily unavailable'')
          else Inr (SR_ServiceID service, SR_ServiceType service))"

subsection \<open>The dynamic router\<close>

definition DynamicRouter_pathMatchesCapability :: "string \<Rightarrow> string \<Rightarrow> bool" where
  "DynamicRouter_pathMatchesCapability path pattern =
     (if pattern = [] then False
      else if 1 < length pattern \<and> pattern ! (length pattern - 1) = CHR ''*'' then
        (let prefix = take (length pattern - 1) pattern
         in length prefix \<le> length path \<and> take (length prefix) path = prefix)
      else if CHR ''{'' \<in> set pattern \<and> CHR ''}'' \<in> set pattern \<and> hd pattern \<noteq> CHR ''{'' then
        (let prefix = takeWhile (\<lambda>c. c \<noteq> CHR ''{'') pattern
         in length prefix \<le> length path \<and> take (length prefix) path = prefix)
      else path = pattern)"

definition isMethodSupported :: "ServiceRegistration \<Rightarrow> string \<Rightarrow> string \<Rightarrow> bool" where
  "isMethodSupported service path m =
     list_ex (\<lambda>capability. DynamicRouter_pathMatchesCapability path (SC_Path capability) \<and> m \<in> set (SC_Methods capability))
       (SR_Capabilities service)"

definition isPluginManagementEndpoint :: "string \<Rightarrow> bool" where
  "isPluginManagementEndpoint path = list_ex (HasPrefix path) [''/plugins/register'', ''/plugins/services'']"

record routed_request =
  RR_Method :: string
  RR_Path :: string
  RR_RawQuery :: string
  RR_Header :: "string \<rightharpoonup> string list"
  RR_Host :: string
  RR_Proto :: string
  RR_Body :: string

definition service_request :: "ServiceRegistration \<Rightarrow> routed_request \<Rightarrow> forwarded" where
  "service_request service c =
     \<lparr>FW_Method = RR_Method c,
      FW_URL = SR_ServiceURL service @ RR_Path c @ (if RR_RawQuery c \<noteq> [] then ''?'' @ RR_RawQuery c else []),
      FW_Header = header_Set ''X-Plugin-Type'' (SR_ServiceType service) (header_Set ''X-Plugin-Service'' (SR_ServiceID service)
        (header_Set ''X-Forwarded-Proto'' (RR_Proto c) (header_Set ''X-Forwarded-Host'' (RR_Host c) (RR_Header c)))),
      FW_Body = RR_Body c\<rparr>"

datatype routed = Next_handler | Answered_here int string | Forwarded_response proxied

text \<open>gin's \<open>Header\<close> replaces the values a header has, and an empty value deletes it: of several the last one is passed on.\<close>

definition relayed_header :: "(string \<rightharpoonup> string list) \<Rightarrow> string \<rightharpoonup> string list" where
  "relayed_header h = (\<lambda>k. case h k of None \<Rightarrow> None | Some values \<Rightarrow>
     if values = [] \<or> List.last values = [] then None else Some [List.last values])"

text \<open>A body that breaks off is passed on up to there.\<close>

definition proxyToService :: "(forwarded \<Rightarrow> sent) \<Rightarrow> ServiceRegistration \<Rightarrow> routed_request \<Rightarrow> routed" where
  "proxyToService send service c =
     (case send (service_request service c) of
        Bad_request err \<Rightarrow> Answered_here 500 ''Failed to create proxy request''
      | Unreachable err \<Rightarrow> Answered_here 502 ''Failed to proxy request to plugin service''
      | Answered resp \<Rightarrow> Forwarded_response (resp\<lparr>PX_Header := relayed_header (PX_Header resp)\<rparr>))"

definition DynamicRouter_Middleware ::
    "(forwarded \<Rightarrow> sent) \<Rightarrow> string list \<Rightarrow> ServiceManager \<Rightarrow> routed_request \<Rightarrow> routed" where
  "DynamicRouter_Middleware send ks sm c =
     (if isPluginManagementEndpoint (RR_Path c) then Next_handler
      else case GetServiceForPath ks (RR_Path c) sm of
        None \<Rightarrow> Next_handler
      | Some service \<Rightarrow>
          if map_option SH_Status (ServiceManager_GetServiceHealth sm (SR_ServiceID service)) \<noteq> Some ''healthy''
          then Answered_here 503 ''Plugin service temporarily unavailable''
          else if \<not> isMethodSupported service (RR_Path c) (RR_Method c)
          then Answered_here 405 ''Method not allowed for this endpoint''
          else proxyToService send service c)"

subsection \<open>What is documented of the router\<close>

definition gin_laws :: "('g \<Rightarrow> (string \<times> string) set) \<Rightarrow> (string \<Rightarrow> string \<Rightarrow> RouteMapping \<Rightarrow> 'g \<Rightarrow> 'g option) \<Rightarrow> bool" where
  "gin_laws routes add \<longleftrightarrow>
     (\<forall>m p h g. (m, p) \<in> routes g \<longrightarrow> add m p h g = None) \<and>
     (\<forall>m p h g g'. add m p h g = Some g' \<longrightarrow> routes g' = insert (m, p) (routes g))"

lemma gin_add_twice: "gin_laws routes add \<Longrightarrow> (m, p) \<in> routes g \<Longrightarrow> add m p h g = None"
  by (simp add: gin_laws_def)

lemma gin_added: "gin_laws routes add \<Longrightarrow> add m p h g = Some g' \<Longrightarrow> routes g' = insert (m, p) (routes g)"
  by (simp add: gin_laws_def)

lemma add_methods_routes:
  assumes "gin_laws routes add" and "add_methods add path mapping ms g = Some g'"
  shows "routes g' = routes g \<union> {(ToUpper m, path) |m. m \<in> set ms \<and> ToUpper m \<in> set route_methods}"
  using assms(2)
proof (induction ms arbitrary: g)
  case (Cons m ms)
  from Cons.prems obtain g1 where g1: "registerRouteWithGin add path m mapping g = Some g1" "add_methods add path mapping ms g1 = Some g'"
    by (auto simp: bind_eq_Some_conv)
  have "routes g1 = routes g \<union> (if ToUpper m \<in> set route_methods then {(ToUpper m, path)} else {})"
    using g1(1) gin_added [OF assms(1)] by (auto simp: registerRouteWithGin_def split: if_splits)
  then show ?case using Cons.IH [OF g1(2)] by auto
qed simp

definition service_routes :: "ServiceRegistration \<Rightarrow> (string \<times> string) set" where
  "service_routes service = {(ToUpper m, SC_Path c) |m c. c \<in> set (SR_Capabilities service) \<and> m \<in> set (SC_Methods c) \<and>
     ToUpper m \<in> set route_methods}"

lemma add_capabilities_routes:
  assumes "gin_laws routes add" and "add_capabilities add service cs rm = Some rm'"
  shows "routes (rm_router rm') = routes (rm_router rm) \<union>
    {(ToUpper m, SC_Path c) |m c. c \<in> set cs \<and> m \<in> set (SC_Methods c) \<and> ToUpper m \<in> set route_methods}"
  using assms(2)
proof (induction cs arbitrary: rm)
  case (Cons c cs)
  from Cons.prems obtain g where
    g: "add_methods add (SC_Path c) (mapping_of service c) (SC_Methods c) (rm_router rm) = Some g" and
    rest: "add_capabilities add service cs \<lparr>rm_router = g, rm_routeMappings =
      (rm_routeMappings rm)(generateRouteKey (SC_Path c) (SC_Methods c) \<mapsto> mapping_of service c)\<rparr> = Some rm'"
    by (auto simp: Let_def split: option.splits)
  show ?case using Cons.IH [OF rest] add_methods_routes [OF assms(1) g] by auto
qed simp

lemma add_methods_panic:
  assumes "gin_laws routes add" and "m \<in> set ms" and "ToUpper m \<in> set route_methods" and "(ToUpper m, path) \<in> routes g"
  shows "add_methods add path mapping ms g = None"
proof (rule ccontr)
  assume "add_methods add path mapping ms g \<noteq> None"
  then obtain g' where "add_methods add path mapping ms g = Some g'" by blast
  then show False using assms(2-4)
  proof (induction ms arbitrary: g)
    case (Cons n ms)
    from Cons.prems(1) obtain g1 where g1: "registerRouteWithGin add path n mapping g = Some g1" "add_methods add path mapping ms g1 = Some g'"
      by (auto simp: bind_eq_Some_conv)
    show False
    proof (cases "n = m")
      case True
      then show False using g1(1) gin_add_twice [OF assms(1) Cons.prems(4)] Cons.prems(3) by (simp add: registerRouteWithGin_def)
    next
      case False
      have "(ToUpper m, path) \<in> routes g1"
        using g1(1) gin_added [OF assms(1)] Cons.prems(4) by (auto simp: registerRouteWithGin_def split: if_splits)
      then show False using Cons.IH [OF g1(2)] Cons.prems False by auto
    qed
  qed simp
qed

lemma add_capabilities_panic:
  assumes "gin_laws routes add" and "c \<in> set cs" and "m \<in> set (SC_Methods c)" and "ToUpper m \<in> set route_methods"
    and "(ToUpper m, SC_Path c) \<in> routes (rm_router rm)"
  shows "add_capabilities add service cs rm = None"
proof (rule ccontr)
  assume "add_capabilities add service cs rm \<noteq> None"
  then obtain rm' where "add_capabilities add service cs rm = Some rm'" by blast
  then show False using assms(2,5)
  proof (induction cs arbitrary: rm)
    case (Cons d cs)
    from Cons.prems(1) obtain g where
      g: "add_methods add (SC_Path d) (mapping_of service d) (SC_Methods d) (rm_router rm) = Some g" and
      rest: "add_capabilities add service cs \<lparr>rm_router = g, rm_routeMappings =
        (rm_routeMappings rm)(generateRouteKey (SC_Path d) (SC_Methods d) \<mapsto> mapping_of service d)\<rparr> = Some rm'"
      by (auto simp: Let_def split: option.splits)
    show False
    proof (cases "d = c")
      case True
      then show False using g add_methods_panic [OF assms(1,3,4)] Cons.prems(3) by simp
    next
      case False
      have "(ToUpper m, SC_Path c) \<in> routes g" using add_methods_routes [OF assms(1) g] Cons.prems(3) by simp
      then show False using Cons.IH [OF rest] Cons.prems(2) False by simp
    qed
  qed simp
qed

subsection \<open>Properties\<close>

lemma RegisterServiceRoutes_routes:
  assumes "gin_laws routes add" and "RegisterServiceRoutes add parse service rm = Some (rm', err)"
  shows "routes (rm_router rm) \<subseteq> routes (rm_router rm')" and "err = None \<Longrightarrow> service_routes service \<subseteq> routes (rm_router rm')"
  using assms add_capabilities_routes [OF assms(1), of service "SR_Capabilities service" rm rm']
  by (auto simp: RegisterServiceRoutes_def service_routes_def split: option.splits)

lemma register_all_panic:
  assumes "gin_laws routes add" and "service \<in> set services" and "parse (SR_ServiceURL service) = None"
    and "r \<in> service_routes service" and "r \<in> routes (rm_router rm)"
  shows "register_all add parse services rm = None"
  using assms(2,5)
proof (induction services arbitrary: rm)
  case (Cons s services)
  show ?case
  proof (cases "RegisterServiceRoutes add parse s rm")
    case (Some x)
    obtain rm' err where x: "RegisterServiceRoutes add parse s rm = Some (rm', err)" using Some by (cases x) simp
    have "r \<in> routes (rm_router rm')" using RegisterServiceRoutes_routes(1) [OF assms(1) x] Cons.prems(2) by blast
    moreover have "s \<noteq> service"
    proof
      assume "s = service"
      moreover obtain c m where "c \<in> set (SR_Capabilities service)" "m \<in> set (SC_Methods c)" "ToUpper m \<in> set route_methods"
          "r = (ToUpper m, SC_Path c)"
        using assms(4) by (auto simp: service_routes_def)
      ultimately show False
        using add_capabilities_panic [OF assms(1)] x assms(3) Cons.prems(2) by (auto simp: RegisterServiceRoutes_def)
    qed
    ultimately show ?thesis using Cons.IH Cons.prems(1) x by simp
  qed simp
qed simp

text \<open>Routes cannot be updated. The router does not take the same route twice and forgets none, and \<open>UpdateRoutes\<close> only
  forgets the mappings: once the routes of a registered service with at least one route have been added, every update
  panics.\<close>

theorem updating_routes_panics:
  assumes "gin_laws routes add" and "RegisterServiceRoutes add parse service rm = Some (rm', None)"
    and "service_routes service \<noteq> {}" and "service \<in> set (GetAllServices ks sm)"
  shows "UpdateRoutes add parse ks sm rm' = None"
proof -
  obtain r where r: "r \<in> service_routes service" using assms(3) by blast
  have "parse (SR_ServiceURL service) = None" using assms(2) by (auto simp: RegisterServiceRoutes_def split: option.splits)
  moreover have "r \<in> routes (rm_router rm')" using RegisterServiceRoutes_routes(2) [OF assms(1,2)] r by blast
  ultimately show ?thesis
    unfolding UpdateRoutes_def by (intro register_all_panic [OF assms(1,4) _ r]) simp_all
qed

lemma comma_in_Join: "2 \<le> length ms \<Longrightarrow> CHR '','' \<in> set (Join ms '','')"
proof (cases ms)
  case (Cons a rest)
  moreover assume "2 \<le> length ms"
  ultimately show ?thesis by (cases rest) auto
qed simp

text \<open>The mapping of a route is not found by its method when the capability has two methods or more: the key has them all.\<close>

theorem two_methods_have_no_mapping:
  assumes "SR_Capabilities service = [c]" and "2 \<le> length (SC_Methods c)" and "CHR '','' \<notin> set m"
    and "RegisterServiceRoutes add parse service \<lparr>rm_router = g, rm_routeMappings = Map.empty\<rparr> = Some (rm', None)"
  shows "GetRouteMapping (SC_Path c) m rm' = None"
proof -
  have "rm_routeMappings rm' = [generateRouteKey (SC_Path c) (SC_Methods c) \<mapsto> mapping_of service c]"
    using assms(1,4) by (auto simp: RegisterServiceRoutes_def Let_def split: option.splits)
  moreover have "generateRouteKey (SC_Path c) (SC_Methods c) \<noteq> generateRouteKey (SC_Path c) [m]"
    using comma_in_Join [OF assms(2)] assms(3) by (auto simp: generateRouteKey_def)
  ultimately show ?thesis by (simp add: GetRouteMapping_def)
qed


subsection \<open>Examples\<close>

type_synonym ex_gin = "(string \<times> string) list"

definition ex_add :: "string \<Rightarrow> string \<Rightarrow> RouteMapping \<Rightarrow> ex_gin \<Rightarrow> ex_gin option" where
  "ex_add m p h g = (if (m, p) \<in> set g then None else Some ((m, p) # g))"

lemma ex_gin_laws: "gin_laws set ex_add"
  by (simp add: gin_laws_def ex_add_def)

definition ex_agent :: "string list \<Rightarrow> ServiceRegistration" where
  "ex_agent ms = \<lparr>SR_ServiceID = ''w'', SR_ServiceType = ''smartagents'', SR_ServiceURL = ''http://w'',
     SR_Capabilities = [\<lparr>SC_Path = ''/v1/*'', SC_Methods = ms, SC_Description = []\<rparr>], SR_Version = [],
     SR_RegisteredAt = 0, SR_LastHeartbeat = 0\<rparr>"

definition ex_manager :: "string list \<Rightarrow> ServiceManager" where
  "ex_manager ms = fst (RegisterService None 0 0 0 (ex_agent ms) NewServiceManager)"

lemma ex_upper: "ToUpper ''GET'' = ''GET''" "ToUpper ''POST'' = ''POST''"
  by code_simp+

theorem updating_routes_panics_witness:
  "UpdateRoutes ex_add (\<lambda>u. None) [''w''] (ex_manager [''GET''])
     (fst (the (RegisterServiceRoutes ex_add (\<lambda>u. None) (ex_agent [''GET'']) \<lparr>rm_router = [], rm_routeMappings = Map.empty\<rparr>))) = None"
proof (rule updating_routes_panics [OF ex_gin_laws])
  show "RegisterServiceRoutes ex_add (\<lambda>u. None) (ex_agent [''GET'']) \<lparr>rm_router = [], rm_routeMappings = Map.empty\<rparr> =
      Some (fst (the (RegisterServiceRoutes ex_add (\<lambda>u. None) (ex_agent [''GET'']) \<lparr>rm_router = [], rm_routeMappings = Map.empty\<rparr>)), None)"
    by (simp add: RegisterServiceRoutes_def ex_agent_def registerRouteWithGin_def ex_upper route_methods_def ex_add_def Let_def)
  show "service_routes (ex_agent [''GET'']) \<noteq> {}"
    by (auto simp: service_routes_def ex_agent_def ex_upper route_methods_def)
  show "ex_agent [''GET''] \<in> set (GetAllServices [''w''] (ex_manager [''GET'']))"
    by (simp add: GetAllServices_def ex_manager_def RegisterService_def IsServiceEnabled_def NewServiceManager_def ex_agent_def
        range_values_Cons Let_def)
qed

theorem two_methods_have_no_mapping_witness:
  "GetRouteMapping ''/v1/*'' ''GET'' (fst (the (RegisterServiceRoutes ex_add (\<lambda>u. None) (ex_agent [''GET'', ''POST''])
     \<lparr>rm_router = [], rm_routeMappings = Map.empty\<rparr>))) = None"
proof -
  let ?r = "RegisterServiceRoutes ex_add (\<lambda>u. None) (ex_agent [''GET'', ''POST'']) \<lparr>rm_router = [], rm_routeMappings = Map.empty\<rparr>"
  have "?r = Some (fst (the ?r), None)"
    by (simp add: RegisterServiceRoutes_def ex_agent_def registerRouteWithGin_def ex_upper route_methods_def ex_add_def Let_def)
  from two_methods_have_no_mapping [OF _ _ _ this, of "\<lparr>SC_Path = ''/v1/*'', SC_Methods = [''GET'', ''POST''], SC_Description = []\<rparr>" "''GET''"]
  show ?thesis by (simp add: ex_agent_def)
qed

definition ex_routed :: routed_request where
  "ex_routed = \<lparr>RR_Method = ''GET'', RR_Path = ''/v1/x'', RR_RawQuery = [], RR_Header = Map.empty, RR_Host = ''h'',
     RR_Proto = ''HTTP/1.1'', RR_Body = []\<rparr>"


end
