(* ===== verification/MainRoutes.thy ===== *)
theory MainRoutes
  imports UserGroupHandlers RestApi
begin

section \<open>The routes of the program\<close>

text \<open>
  \<open>cmd/uniproxy/main.go\<close>: the middleware and the table of routes that \<open>RunUniproxy\<close> gives to the router, and the two
  functions about VirtualMCP adapters, which nothing calls. A handler is known by the name it has in the source. The router
  (gin) is a parameter \<open>router\<close>: what is documented of it is that it serves a request with a route of the request's method
  whose pattern matches the path, if there is one; of several it may take any.
\<close>

subsection \<open>The middleware\<close>

definition cors_origin :: "string \<Rightarrow> string" where
  "cors_origin origin =
     (if origin \<noteq> [] \<and> list_ex (Contains origin) [''localhost'', ''127.0.0.1'', ''192.168.'', ''10.''] then origin else ''*'')"

definition cors_headers :: "string \<Rightarrow> (string \<times> string) list" where
  "cors_headers origin =
     [(''Access-Control-Allow-Origin'', cors_origin origin),
      (''Access-Control-Allow-Methods'', ''GET, POST, PUT, DELETE, OPTIONS''),
      (''Access-Control-Allow-Headers'', ''Origin, Content-Type, Accept, Authorization, MCP-Protocol-Version, Mcp-Session-Id, X-User-Id, x-user-id'')]"

subsection \<open>The table\<close>

record gin_route =
  GR_Method :: string
  GR_Pattern :: string
  GR_Handler :: string
  GR_Guarded :: bool

text \<open>The routes of a group; those of a guarded group have \<open>UserAuthMiddleware\<close> before their handlers.\<close>

definition group_routes :: "bool \<Rightarrow> string \<Rightarrow> (string \<times> string \<times> string) list \<Rightarrow> gin_route list" where
  "group_routes guarded pre routes =
     map (\<lambda>(m, p, h). \<lparr>GR_Method = m, GR_Pattern = pre @ p, GR_Handler = h, GR_Guarded = guarded\<rparr>) routes"

definition discovery_routes :: "gin_route list" where
  "discovery_routes = group_routes False ''/api/v1/discovery''
     [(''POST'', ''/scan'', ''discoveryHandler.ScanForMCPServers''),
      (''GET'', ''/scan'', ''discoveryHandler.ListScanJobs''),
      (''GET'', ''/scan/:jobId'', ''discoveryHandler.GetScanJob''),
      (''DELETE'', ''/scan/:jobId'', ''discoveryHandler.CancelScanJob''),
      (''GET'', ''/servers'', ''discoveryHandler.ListDiscoveredServers''),
      (''GET'', ''/servers/:id'', ''discoveryHandler.GetDeprecatedServer''),
      (''GET'', ''/results'', ''discoveryHandler.GetAllScanResults''),
      (''GET'', ''/results/:id'', ''discoveryHandler.GetServerFromResults'')]"

text \<open>\<open>Any\<close> registers its handler for gin's nine methods.\<close>

definition any_methods :: "string list" where
  "any_methods = [''GET'', ''POST'', ''PUT'', ''PATCH'', ''HEAD'', ''OPTIONS'', ''DELETE'', ''CONNECT'', ''TRACE'']"

definition adapter_routes :: "gin_route list" where
  "adapter_routes = group_routes False ''/api/v1/adapters''
     [(''GET'', [], ''adapterHandler.ListAdapters''),
      (''POST'', [], ''adapterHandler.CreateAdapter''),
      (''GET'', ''/:name'', ''adapterHandler.GetAdapter''),
      (''PUT'', ''/:name'', ''adapterHandler.UpdateAdapter''),
      (''DELETE'', ''/:name'', ''adapterHandler.DeleteAdapter''),
      (''POST'', ''/:name/health'', ''adapterHandler.CheckAdapterHealth''),
      (''POST'', ''/:name/groups'', ''adapterHandler.AssignAdapterToGroup''),
      (''DELETE'', ''/:name/groups/:groupId'', ''adapterHandler.RemoveAdapterFromGroup''),
      (''GET'', ''/:name/groups'', ''adapterHandler.ListAdapterGroupAssignments''),
      (''GET'', ''/:name/token'', ''tokenHandler.GetAdapterToken''),
      (''POST'', ''/:name/token/validate'', ''tokenHandler.ValidateToken''),
      (''POST'', ''/:name/token/refresh'', ''tokenHandler.RefreshToken''),
      (''GET'', ''/:name/client-token'', ''mcpAuthHandler.GetClientToken''),
      (''POST'', ''/:name/validate-auth'', ''mcpAuthHandler.ValidateAuthConfig''),
      (''POST'', ''/:name/test-auth'', ''mcpAuthHandler.TestAuthConnection''),
      (''GET'', ''/:name/status'', ''adapter status''),
      (''POST'', ''/:name/sync'', ''adapterHandler.SyncAdapterCapabilities''),
      (''GET'', ''/:name/tools'', ''handleMCPToolsList''),
      (''POST'', ''/:name/tools/:toolName/call'', ''handleMCPToolCall''),
      (''GET'', ''/:name/resources'', ''handleMCPResourcesList''),
      (''GET'', ''/:name/resources/*uri'', ''handleMCPResourceRead''),
      (''GET'', ''/:name/prompts'', ''handleMCPPromptsList''),
      (''GET'', ''/:name/prompts/:promptName'', ''handleMCPPromptGet'')]"

definition mcp_routes :: "gin_route list" where
  "mcp_routes = group_routes False ''/api/v1/adapters'' (map (\<lambda>m. (m, ''/:name/mcp'', ''adapterHandler.HandleMCPProtocol'')) any_methods)"

definition registry_routes :: "gin_route list" where
  "registry_routes = group_routes False ''/api/v1/registry''
     [(''GET'', [], ''registryHandler.ListMCPServersFiltered''),
      (''POST'', ''/upload'', ''registryHandler.UploadRegistryEntry''),
      (''POST'', ''/upload/bulk'', ''registryHandler.UploadBulkRegistryEntries''),
      (''POST'', ''/upload/local-mcp'', ''registryHandler.UploadLocalMCP''),
      (''POST'', ''/reload'', ''registryHandler.ReloadRegistry''),
      (''GET'', ''/browse'', ''registryHandler.BrowseRegistry''),
      (''GET'', ''/:id'', ''registryHandler.GetMCPServer''),
      (''PUT'', ''/:id'', ''registryHandler.UpdateMCPServer''),
      (''DELETE'', ''/:id'', ''registryHandler.DeleteMCPServer''),
      (''POST'', ''/:id/routes'', ''routeAssignmentHandler.CreateRouteAssignment''),
      (''GET'', ''/:id/routes'', ''routeAssignmentHandler.ListRouteAssignments''),
      (''PUT'', ''/:id/routes/:assignmentId'', ''routeAssignmentHandler.UpdateRouteAssignment''),
      (''DELETE'', ''/:id/routes/:assignmentId'', ''routeAssignmentHandler.DeleteRouteAssignment'')]"

definition plugin_routes :: "gin_route list" where
  "plugin_routes = group_routes False ''/api/v1/plugins''
     [(''POST'', ''/register'', ''pluginHandler.RegisterService''),
      (''DELETE'', ''/register/:serviceId'', ''pluginHandler.UnregisterService''),
      (''GET'', ''/services'', ''pluginHandler.ListServices''),
      (''GET'', ''/services/:serviceId'', ''pluginHandler.GetService''),
      (''GET'', ''/services/type/:serviceType'', ''pluginHandler.ListServicesByType''),
      (''GET'', ''/services/:serviceId/health'', ''pluginHandler.GetServiceHealth'')]"

definition auth_routes :: "gin_route list" where
  "auth_routes = group_routes False ''/api/v1/auth''
     [(''POST'', ''/login'', ''authHandler.Login''),
      (''POST'', ''/oauth/login'', ''authHandler.OAuthLogin''),
      (''POST'', ''/oauth/callback'', ''authHandler.OAuthCallback''),
      (''PUT'', ''/password'', ''authHandler.ChangePassword''),
      (''POST'', ''/logout'', ''authHandler.Logout'')]"

definition open_user_routes :: "gin_route list" where
  "open_user_routes = group_routes False ''/api/v1/users''
     [(''GET'', [], ''userGroupHandler.ListUsers''),
      (''GET'', ''/:id'', ''userGroupHandler.GetUser'')]"

definition guarded_user_routes :: "gin_route list" where
  "guarded_user_routes = group_routes True ''/api/v1/users''
     [(''POST'', [], ''userGroupHandler.HandleUsers''),
      (''PUT'', ''/:id'', ''userGroupHandler.UpdateUser''),
      (''DELETE'', ''/:id'', ''userGroupHandler.DeleteUser'')]"

definition open_group_routes :: "gin_route list" where
  "open_group_routes = group_routes False ''/api/v1/groups''
     [(''GET'', [], ''userGroupHandler.HandleGroups''),
      (''GET'', ''/:id'', ''userGroupHandler.GetGroup''),
      (''GET'', ''/:id/adapters'', ''userGroupHandler.ListGroupAdapters'')]"

definition guarded_group_routes :: "gin_route list" where
  "guarded_group_routes = group_routes True ''/api/v1/groups''
     [(''POST'', [], ''userGroupHandler.HandleGroups''),
      (''PUT'', ''/:id'', ''userGroupHandler.UpdateGroup''),
      (''DELETE'', ''/:id'', ''userGroupHandler.DeleteGroup''),
      (''POST'', ''/:id/members'', ''userGroupHandler.AddUserToGroup''),
      (''DELETE'', ''/:id/members/:userId'', ''userGroupHandler.RemoveUserFromGroup'')]"

definition other_routes :: "gin_route list" where
  "other_routes = group_routes False []
     [(''GET'', ''/health'', ''health''),
      (''GET'', ''/docs/*any'', ''ginSwagger''),
      (''GET'', ''/api/v1/user/config'', ''adapterHandler.GetClientConfig''),
      (''GET'', ''/auth/mode'', ''authHandler.GetAuthMode'')]"

definition program_routes :: "gin_route list" where
  "program_routes = other_routes @ discovery_routes @ adapter_routes @ mcp_routes @ registry_routes @ plugin_routes @ auth_routes @
     open_user_routes @ guarded_user_routes @ open_group_routes @ guarded_group_routes"

subsection \<open>Serving a request\<close>

text \<open>The documented patterns: \<open>:x\<close> is one segment that is not empty, and \<open>*x\<close> all that is left, its slash included.\<close>

fun match_segments :: "string list \<Rightarrow> string list \<Rightarrow> ((string \<times> string) list) option" where
  "match_segments [] ps = (if ps = [] then Some [] else None)"
| "match_segments (s # ss) ps =
     (case s of
        CHR '':'' # x \<Rightarrow> (case ps of p # ps' \<Rightarrow> if p = [] then None else map_option ((#) (x, p)) (match_segments ss ps') | [] \<Rightarrow> None)
      | CHR ''*'' # x \<Rightarrow> if ps = [] then None else Some [(x, CHR ''/'' # Join ps ''/'')]
      | _ \<Rightarrow> (case ps of p # ps' \<Rightarrow> if p = s then match_segments ss ps' else None | [] \<Rightarrow> None))"

definition route_matches :: "gin_route \<Rightarrow> string \<Rightarrow> string \<Rightarrow> ((string \<times> string) list) option" where
  "route_matches r m path =
     (if GR_Method r = m then match_segments (Split (GR_Pattern r) CHR ''/'') (Split path CHR ''/'') else None)"

definition gin_finds :: "(gin_route list \<Rightarrow> string \<Rightarrow> string \<Rightarrow> (gin_route \<times> (string \<times> string) list) option) \<Rightarrow> bool" where
  "gin_finds router \<longleftrightarrow>
     (\<forall>rs m path r params. router rs m path = Some (r, params) \<longrightarrow> r \<in> set rs \<and> route_matches r m path = Some params) \<and>
     (\<forall>rs m path. router rs m path = None \<longrightarrow> (\<forall>r \<in> set rs. route_matches r m path = None))"

text \<open>What a request comes to: an answer to a preflight, an answer of the middleware, a handler with the parameters of the path and the
  headers it sees, or, where no route matches, an answer of the router itself.\<close>

datatype served = Preflight | Turned_away int string | Handled string "(string \<times> string) list" "string \<Rightarrow> string" | No_route

definition serve ::
    "(gin_route list \<Rightarrow> string \<Rightarrow> string \<Rightarrow> (gin_route \<times> (string \<times> string) list) option) \<Rightarrow> jwt \<Rightarrow> 'us UserStore \<Rightarrow>
     UserAuthConfig \<Rightarrow> 'us \<Rightarrow> gotime \<Rightarrow> http_request \<Rightarrow> served" where
  "serve router J U config us now q =
     (if HQ_Method q = ''OPTIONS'' then Preflight
      else case router program_routes (HQ_Method q) (HQ_Path q) of
        None \<Rightarrow> No_route
      | Some (r, params) \<Rightarrow>
          if GR_Guarded r then
            (case UserAuthMiddleware J U config us now (HQ_Header q) of
               Abort code err \<Rightarrow> Turned_away code err
             | Pass (_, headers) \<Rightarrow> Handled (GR_Handler r) params headers)
          else Handled (GR_Handler r) params (HQ_Header q))"

subsection \<open>VirtualMCP adapters\<close>

definition virtual_text :: "string \<Rightarrow> bool" where
  "virtual_text s = list_ex (Contains (ToLower s)) [''@suse'', ''virtual-mcp'', ''virtualmcp'', ''virtual'']"

text \<open>\<open>ks\<close> and \<open>es\<close> are the orders in which the servers and their variables come.\<close>

definition isVirtualMCPAdapter :: "string list \<Rightarrow> string list \<Rightarrow> AdapterData \<Rightarrow> bool" where
  "isVirtualMCPAdapter ks es data =
     (list_ex (\<lambda>serverConfig. virtual_text (MSC_Command serverConfig) \<or> list_ex virtual_text (MSC_Args serverConfig) \<or>
         list_ex virtual_text (range_values (MSC_Env serverConfig) es)) (range_values (MCC_MCPServers (AD_MCPClientConfig data)) ks) \<or>
      list_ex (\<lambda>w. Contains (ToLower (AD_Name data)) w \<or> Contains (ToLower (AD_Description data)) w) [''virtual'', ''suse'', ''mcp''])"

definition virtualmcp_config :: "string \<Rightarrow> string \<Rightarrow> string \<Rightarrow> MCPClientConfig" where
  "virtualmcp_config name toolsConfig apiBaseUrl = \<lparr>MCC_MCPServers = [''virtualmcp'' \<mapsto>
     \<lparr>MSC_Command = ''tsx'', MSC_Args = [''templates/virtualmcp-server.ts''],
      MSC_Env = [''SERVER_NAME'' \<mapsto> name, ''TOOLS_CONFIG'' \<mapsto> toolsConfig, ''API_BASE_URL'' \<mapsto> apiBaseUrl],
      MSC_URL = [], MSC_Headers = Map.empty\<rparr>]\<rparr>"

definition virtualmcp_auth :: "gotime \<Rightarrow> AdapterAuthConfig" where
  "virtualmcp_auth now = \<lparr>AAC_Required = True, AAC_Type = ''bearer'',
     AAC_BearerToken = Some \<lparr>BT_Token = ''virtualmcp-token'', BT_Dynamic = False, BT_ExpiresAt = now + 365 * 24 * hour\<rparr>,
     AAC_OAuth = None, AAC_Basic = None, AAC_APIKey = None\<rparr>"

text \<open>\<open>marshal\<close> writes tools as JSON.\<close>

definition reconfigureVirtualMCPAdapter :: "(any list \<Rightarrow> string result) \<Rightarrow> gotime \<Rightarrow> AdapterData \<Rightarrow> AdapterData" where
  "reconfigureVirtualMCPAdapter marshal now data =
     (if AD_ConnectionType data = ConnectionTypeStreamableHttp then data
      else let apiBaseUrl = (if AD_ApiBaseUrl data = [] then ''http://localhost:8000'' else AD_ApiBaseUrl data);
        toolsConfig = (if AD_Tools data = [] then ''[]'' else case marshal (AD_Tools data) of Inr tools \<Rightarrow> tools | Inl _ \<Rightarrow> ''[]'')
      in data\<lparr>AD_ConnectionType := ConnectionTypeLocalStdio,
           AD_MCPClientConfig := virtualmcp_config (AD_Name data) toolsConfig apiBaseUrl,
           AD_Authentication := Some (virtualmcp_auth now),
           AD_Description := ''VirtualMCP adapter: '' @ AD_Description data\<rparr>)"

subsection \<open>Lemmas\<close>

text \<open>What of the paths the routes are grouped by: the third segment.\<close>

definition path_area :: "string \<Rightarrow> string" where
  "path_area path = (case Split path CHR ''/'' of _ # _ # _ # a # _ \<Rightarrow> a | _ \<Rightarrow> [])"

definition static_segment :: "string \<Rightarrow> bool" where
  "static_segment s \<longleftrightarrow> (case s of [] \<Rightarrow> True | c # _ \<Rightarrow> c \<noteq> CHR '':'' \<and> c \<noteq> CHR ''*'')"

lemma match_static:
  assumes "match_segments (s # ss) ps = Some params" and "static_segment s"
  obtains ps' where "ps = s # ps'" "match_segments ss ps' = Some params"
  using assms by (cases s; cases ps) (auto simp: static_segment_def split: if_splits char.splits bool.splits)

definition changes_state :: "string \<Rightarrow> bool" where
  "changes_state m \<longleftrightarrow> m \<in> {''POST'', ''PUT'', ''DELETE''}"

definition guarded_by_area :: "gin_route \<Rightarrow> bool" where
  "guarded_by_area r =
     (case Split (GR_Pattern r) CHR ''/'' of
        s1 # s2 # s3 # a # _ \<Rightarrow> static_segment s1 \<and> static_segment s2 \<and> static_segment s3 \<and> static_segment a \<and>
          (GR_Guarded r \<longleftrightarrow> a = ''users'' \<or> a = ''groups'')
      | _ \<Rightarrow> False)"

lemma program_routes_guarded: "list_all (\<lambda>r. changes_state (GR_Method r) \<longrightarrow> guarded_by_area r) program_routes"
  by code_simp

lemma route_area:
  assumes "guarded_by_area r" and "route_matches r m path = Some params"
  shows "GR_Guarded r \<longleftrightarrow> path_area path = ''users'' \<or> path_area path = ''groups''"
proof -
  from assms(1) obtain s1 s2 s3 a ss where p: "Split (GR_Pattern r) CHR ''/'' = s1 # s2 # s3 # a # ss"
    and st: "static_segment s1" "static_segment s2" "static_segment s3" "static_segment a"
    and g: "GR_Guarded r \<longleftrightarrow> a = ''users'' \<or> a = ''groups''"
    by (auto simp: guarded_by_area_def split: list.splits)
  from assms(2) have "match_segments (s1 # s2 # s3 # a # ss) (Split path CHR ''/'') = Some params"
    by (simp add: route_matches_def p split: if_splits)
  then obtain ps where "Split path CHR ''/'' = s1 # s2 # s3 # a # ps"
    using st by (metis match_static)
  then show ?thesis using g by (simp add: path_area_def)
qed

subsection \<open>Properties\<close>

text \<open>C14. Where a token is needed. Outside development mode, whatever the router does within its documentation, a request that
  changes something (by POST, PUT or DELETE) and that a route is for gets to its handler, with the headers its client sent, exactly
  if it carries a valid token or is about neither users nor groups: adapters, the registry, plugins and scans are open to everybody.\<close>

theorem token_needed_for_users_and_groups_only:
  assumes "gin_finds router" and "\<not> UAC_DevMode config" and "changes_state (HQ_Method q)"
    and "serve router J U config us now q \<noteq> No_route"
  shows "(\<exists>handler params. serve router J U config us now q = Handled handler params (HQ_Header q)) \<longleftrightarrow>
    has_valid_token J U us now (HQ_Header q ''Authorization'') \<or> path_area (HQ_Path q) \<notin> {''users'', ''groups''}"
proof -
  have m: "HQ_Method q \<noteq> ''OPTIONS''" using assms(3) by (auto simp: changes_state_def)
  with assms(4) obtain r params where r: "router program_routes (HQ_Method q) (HQ_Path q) = Some (r, params)"
    by (auto simp: serve_def split: option.splits)
  then have r': "r \<in> set program_routes" "route_matches r (HQ_Method q) (HQ_Path q) = Some params"
    using assms(1) by (auto simp: gin_finds_def)
  then have "GR_Method r = HQ_Method q" by (simp add: route_matches_def split: if_splits)
  with r'(1) have "guarded_by_area r" using program_routes_guarded assms(3) by (auto simp: list_all_iff)
  from route_area [OF this r'(2)] show ?thesis
    using UserAuthMiddleware_production [OF assms(2), of J U us now "HQ_Header q"] m r
    by (cases "has_valid_token J U us now (HQ_Header q ''Authorization'')") (auto simp: serve_def)
qed

text \<open>A VirtualMCP adapter opens with a token that is written in the source: after its reconfiguration a client is
  accepted exactly with the bearer token \<open>virtualmcp-token\<close>, now and ever, whatever authentication the adapter had.\<close>

theorem virtual_adapter_has_a_known_token:
  assumes "AD_ConnectionType data \<noteq> ConnectionTypeStreamableHttp"
  shows "validateClientAuthentication c (AD_Authentication (reconfigureVirtualMCPAdapter marshal now data)) = None \<longleftrightarrow>
    rest_GetHeader c ''Authorization'' = ''Bearer virtualmcp-token''"
  using assms
  by (auto simp: reconfigureVirtualMCPAdapter_def virtualmcp_auth_def validateClientAuthentication_def validateBearerAuth_def Let_def
      HasPrefix_def TrimPrefix_def prefix_def split: option.splits if_splits)

subsection \<open>Examples\<close>

definition ex_gin :: "gin_route list \<Rightarrow> string \<Rightarrow> string \<Rightarrow> (gin_route \<times> (string \<times> string) list) option" where
  "ex_gin rs m path = map_option (\<lambda>r. (r, the (route_matches r m path))) (find (\<lambda>r. route_matches r m path \<noteq> None) rs)"

lemma ex_gin_finds: "gin_finds ex_gin"
  by (auto simp: gin_finds_def ex_gin_def find_Some_iff find_None_iff)

lemma ex_gin_delete: "map_option (GR_Guarded \<circ> fst) (ex_gin program_routes ''DELETE'' ''/api/v1/registry/fetch'') = Some False"
  by code_simp

theorem token_needed_for_users_and_groups_only_witness:
  "\<exists>handler params. serve ex_gin ex_tokens InMemoryUserStore_ops ex_auth_config (ugs_userStore ex_people) 0
     (ex_request ''DELETE'' ''/api/v1/registry/fetch'' [] ''eve'') =
     Handled handler params (HQ_Header (ex_request ''DELETE'' ''/api/v1/registry/fetch'' [] ''eve''))"
proof -
  let ?q = "ex_request ''DELETE'' ''/api/v1/registry/fetch'' [] ''eve''"
  have q: "HQ_Method ?q = ''DELETE''" "HQ_Path ?q = ''/api/v1/registry/fetch''" by (simp_all add: ex_request_def)
  have "changes_state (HQ_Method ?q)" by (simp add: q changes_state_def)
  moreover have "serve ex_gin ex_tokens InMemoryUserStore_ops ex_auth_config (ugs_userStore ex_people) 0 ?q \<noteq> No_route"
    using ex_gin_delete by (auto simp: serve_def q)
  moreover have "path_area (HQ_Path ?q) = ''registry''" unfolding q by code_simp
  ultimately show ?thesis
    using token_needed_for_users_and_groups_only [OF ex_gin_finds ex_production, of ?q ex_tokens InMemoryUserStore_ops
        "ugs_userStore ex_people" 0] by simp
qed

definition ex_tool_adapter :: AdapterData where
  "ex_tool_adapter = (NewAdapterData ''tools'' ''img'' ''1'')\<lparr>AD_ConnectionType := ConnectionTypeLocalStdio\<rparr>"

theorem virtual_adapter_has_a_known_token_witness:
  "validateClientAuthentication (ex_rest_request [''Authorization'' \<mapsto> [''Bearer virtualmcp-token'']])
     (AD_Authentication (reconfigureVirtualMCPAdapter (\<lambda>tools. Inl []) 0 ex_tool_adapter)) = None"
proof -
  have "AD_ConnectionType ex_tool_adapter \<noteq> ConnectionTypeStreamableHttp" by (simp add: ex_tool_adapter_def)
  from virtual_adapter_has_a_known_token [OF this, of "ex_rest_request [''Authorization'' \<mapsto> [''Bearer virtualmcp-token'']]"]
  show ?thesis by (simp add: rest_GetHeader_def canonical_keys header_Get_def)
qed

end
