(* ===== verification/Authorization.thy ===== *)
theory Authorization
  imports SessionStore TokenManager Registry
begin

section \<open>Authorizing adapters\<close>

text \<open>
  \<open>internal/service/authorization.go\<close>: the routes over the sessions of an adapter and their authorization, and the steps of
  OAuth that the routes do not take yet: discovery of metadata, registration of a client and the URL to which a user is sent.
  The store is the one of \<open>pkg/session\<close>; a handler's calls to it follow each other undisturbed. A bad body is an error of
  \<open>binding\<close>; the fields that a handler reads of its body it does not use.
\<close>

datatype authz_payload =
    AZ_unauthorized string
  | AZ_authorized string string gotime gotime "(gotime \<times> bool) option"
  | AZ_authorizing string string string
  | AZ_refreshed string
  | AZ_revoked string int
  | AZ_sessions string "SessionDetails list"
  | AZ_session SessionDetails
  | AZ_deleted string string
  | AZ_deleted_all string int
  | AZ_completed string string
  | AZ_refused string string

type_synonym authz_reply = "int \<times> (string + authz_payload)"

subsection \<open>The status\<close>

definition session_authorized :: "SessionDetails \<Rightarrow> bool" where
  "session_authorized session =
     (case SD_AuthorizationInfo session of None \<Rightarrow> False | Some info \<Rightarrow> AI_Status info = ''authorized'')"

fun latest_authorized :: "SessionDetails option \<Rightarrow> SessionDetails list \<Rightarrow> SessionDetails option" where
  "latest_authorized found [] = found"
| "latest_authorized found (session # sessions) =
     latest_authorized
       (if session_authorized session \<and>
           (case found of None \<Rightarrow> True | Some x \<Rightarrow> SD_LastActivity x < SD_LastActivity session)
        then Some session else found) sessions"

text \<open>\<open>now\<close> is the time at which the token is checked.\<close>

definition GetAuthorizationStatus ::
    "string list \<Rightarrow> gotime \<Rightarrow> string \<Rightarrow> InMemorySessionStore \<Rightarrow> authz_reply" where
  "GetAuthorizationStatus ks now adapterName s =
     (case ListByAdapter ks s adapterName of
        Inl err \<Rightarrow> (500, Inl ''Failed to retrieve sessions'')
      | Inr sessions \<Rightarrow>
          (case latest_authorized None sessions of
             None \<Rightarrow> (200, Inr (AZ_unauthorized adapterName))
           | Some session \<Rightarrow>
               (case SD_AuthorizationInfo session of
                  None \<Rightarrow> (200, Inr (AZ_unauthorized adapterName))
                | Some info \<Rightarrow> (200, Inr (AZ_authorized adapterName (SD_SessionID session) (AI_AuthorizedAt info) (SD_LastActivity session)
                    (map_option (\<lambda>p. (TI_ExpiresAt (token_at s p), IsTokenValid now s (SD_SessionID session))) (SD_TokenInfo session)))))))"

subsection \<open>Starting an authorization\<close>

text \<open>\<open>now\<close>, \<open>now'\<close> and \<open>now''\<close> are the times of the identifier, of the session and of the authorization.\<close>

definition authorization_session_ID :: "gotime \<Rightarrow> string" where
  "authorization_session_ID now = ''auth-session-'' @ show_int (Unix now)"

definition authorizing_info :: "string \<Rightarrow> string \<Rightarrow> gotime \<Rightarrow> AuthorizationInfo" where
  "authorizing_info baseURL sid now =
     \<lparr>AI_Status = ''authorizing'', AI_AuthorizationURL = baseURL @ ''/oauth/authorize?session='' @ sid, AI_ErrorMessage = [],
      AI_AuthorizedAt = now, AI_ExpiresAt = 0, AI_AccessToken = [], AI_RefreshToken = [], AI_TokenType = [], AI_Scope = []\<rparr>"

definition StartAuthorization ::
    "string \<Rightarrow> (string \<Rightarrow> error option) \<Rightarrow> gotime \<Rightarrow> gotime \<Rightarrow> gotime \<Rightarrow> string \<Rightarrow> string \<Rightarrow> InMemorySessionStore \<Rightarrow>
     InMemorySessionStore \<times> authz_reply" where
  "StartAuthorization baseURL binding now now' now'' adapterName body s =
     (case binding body of
        Some err \<Rightarrow> (s, 400, Inl err)
      | None \<Rightarrow>
          (let sid = authorization_session_ID now in
           case SetWithDetails now' sid adapterName [] ''oauth'' s of
             (s1, Some err) \<Rightarrow> (s1, 500, Inl ''Failed to create authorization session'')
           | (s1, None) \<Rightarrow>
               (let info = authorizing_info baseURL sid now'' in
                case SetAuthorizationInfo sid (Some info) s1 of
                  (s2, Some err) \<Rightarrow> (s2, 500, Inl ''Failed to start authorization'')
                | (s2, None) \<Rightarrow> (s2, 200, Inr (AZ_authorizing adapterName sid (AI_AuthorizationURL info))))))"

definition AuthorizeAdapter :: "string \<Rightarrow> (string \<Rightarrow> error option) \<Rightarrow> gotime \<Rightarrow> string \<Rightarrow> string \<Rightarrow> authz_reply" where
  "AuthorizeAdapter baseURL binding now adapterName body =
     (case binding body of
        Some err \<Rightarrow> (400, Inl err)
      | None \<Rightarrow> (200, Inr (AZ_authorizing adapterName (authorization_session_ID now)
          (baseURL @ ''/oauth/authorize?client_id=mcp-proxy&response_type=code&scope=read%20write&state=test-state&redirect_uri='' @
           baseURL @ ''/oauth/callback''))))"

text \<open>\<open>query\<close> is the callback's query.\<close>

definition Authorization_OAuthCallback :: "(string \<Rightarrow> string) \<Rightarrow> authz_reply" where
  "Authorization_OAuthCallback query =
     (if query ''error'' \<noteq> [] then (400, Inr (AZ_refused (query ''error'') (query ''error_description'')))
      else if query ''code'' = [] then (400, Inl ''authorization_code_required'')
      else (200, Inr (AZ_completed (query ''code'') (query ''state''))))"

subsection \<open>Tokens\<close>

definition Authorization_RefreshToken :: "string list \<Rightarrow> string \<Rightarrow> InMemorySessionStore \<Rightarrow> authz_reply" where
  "Authorization_RefreshToken ks name s =
     (case ListByAdapter ks s name of
        Inl err \<Rightarrow> (500, Inl ''Failed to retrieve sessions'')
      | Inr sessions \<Rightarrow>
          (case find session_authorized sessions of
             None \<Rightarrow> (404, Inl ''No authorized session found'')
           | Some session \<Rightarrow> (200, Inr (AZ_refreshed (SD_SessionID session)))))"

text \<open>The loop over the listed sessions. When a token cannot be cleared the session's authorization is left alone.\<close>

definition revoke_authorization :: "SessionDetails \<Rightarrow> InMemorySessionStore \<Rightarrow> InMemorySessionStore" where
  "revoke_authorization session s =
     (case SD_AuthorizationInfo session of
        None \<Rightarrow> s
      | Some info \<Rightarrow> fst (SetAuthorizationInfo (SD_SessionID session) (Some (info\<lparr>AI_Status := ''unauthorized''\<rparr>)) s))"

fun revoke_sessions :: "SessionDetails list \<Rightarrow> int \<Rightarrow> InMemorySessionStore \<Rightarrow> InMemorySessionStore \<times> int" where
  "revoke_sessions [] n s = (s, n)"
| "revoke_sessions (session # sessions) n s =
     (if SD_TokenInfo session \<noteq> None then
        (case SetTokenInfo (SD_SessionID session) None s of
           (s1, Some err) \<Rightarrow> revoke_sessions sessions n s1
         | (s1, None) \<Rightarrow> revoke_sessions sessions (n + 1) (revoke_authorization session s1))
      else revoke_sessions sessions n (revoke_authorization session s))"

definition RevokeTokens :: "string list \<Rightarrow> string \<Rightarrow> InMemorySessionStore \<Rightarrow> InMemorySessionStore \<times> authz_reply" where
  "RevokeTokens ks name s =
     (case ListByAdapter ks s name of
        Inl err \<Rightarrow> (s, 500, Inl ''Failed to retrieve sessions'')
      | Inr sessions \<Rightarrow> (let (s', revokedCount) = revoke_sessions sessions 0 s in (s', 200, Inr (AZ_revoked name revokedCount))))"

subsection \<open>Sessions\<close>

definition Authorization_ListSessions :: "string list \<Rightarrow> string \<Rightarrow> InMemorySessionStore \<Rightarrow> authz_reply" where
  "Authorization_ListSessions ks adapterName s =
     (case ListByAdapter ks s adapterName of
        Inl err \<Rightarrow> (500, Inl ''Failed to retrieve sessions'') | Inr sessions \<Rightarrow> (200, Inr (AZ_sessions adapterName sessions)))"

text \<open>The reply is made of the times \<open>now'\<close> and \<open>now''\<close>, not of what is stored at \<open>now3\<close>.\<close>

definition zero_SessionDetails :: SessionDetails where
  "zero_SessionDetails = \<lparr>SD_SessionID = [], SD_AdapterName = [], SD_TargetAddress = [], SD_ConnectionType = [],
     SD_CreatedAt = 0, SD_LastActivity = 0, SD_Status = [], SD_TokenInfo = None, SD_AuthorizationInfo = None,
     SD_MCPSessionID = [], SD_MCPCapabilities = Map.empty, SD_MCPClientInfo = None, SD_MCPServerInfo = None\<rparr>"

definition Authorization_CreateSession ::
    "(string \<Rightarrow> error option) \<Rightarrow> gotime \<Rightarrow> gotime \<Rightarrow> gotime \<Rightarrow> gotime \<Rightarrow> string \<Rightarrow> string \<Rightarrow> InMemorySessionStore \<Rightarrow>
     InMemorySessionStore \<times> authz_reply" where
  "Authorization_CreateSession binding now now' now'' now3 adapterName body s =
     (case binding body of
        Some err \<Rightarrow> (s, 400, Inl err)
      | None \<Rightarrow>
          (let sid = ''session-'' @ show_int (Unix now);
               details = zero_SessionDetails\<lparr>SD_SessionID := sid, SD_AdapterName := adapterName,
                 SD_TargetAddress := ''http://localhost:8001'', SD_ConnectionType := ''StreamableHttp'',
                 SD_CreatedAt := now', SD_LastActivity := now''\<rparr> in
           case SetWithDetails now3 sid adapterName (SD_TargetAddress details) (SD_ConnectionType details) s of
             (s1, Some err) \<Rightarrow> (s1, 500, Inl ''Failed to create session'')
           | (s1, None) \<Rightarrow> (s1, 201, Inr (AZ_session details))))"

definition DeleteSession :: "string \<Rightarrow> string \<Rightarrow> InMemorySessionStore \<Rightarrow> InMemorySessionStore \<times> authz_reply" where
  "DeleteSession adapterName sid s =
     (case GetDetails s sid of
        Inl err \<Rightarrow> (s, 404, Inl ''Session not found'')
      | Inr details \<Rightarrow>
          if SD_AdapterName details \<noteq> adapterName then (s, 404, Inl ''Session not found for this adapter'')
          else (case InMemorySessionStore_Delete sid s of
                  (s', Some err) \<Rightarrow> (s', 500, Inl ''Failed to delete session'')
                | (s', None) \<Rightarrow> (s', 200, Inr (AZ_deleted adapterName sid))))"

text \<open>The order of the deletion is another than that of the listing.\<close>

definition DeleteAllSessions ::
    "string list \<Rightarrow> string list \<Rightarrow> string \<Rightarrow> InMemorySessionStore \<Rightarrow> InMemorySessionStore \<times> authz_reply" where
  "DeleteAllSessions ks ks' adapterName s =
     (let count = (case ListByAdapter ks s adapterName of Inl err \<Rightarrow> 0 | Inr sessions \<Rightarrow> int (length sessions)) in
      case DeleteByAdapter ks' adapterName s of
        (s', Some err) \<Rightarrow> (s', 500, Inl ''Failed to delete sessions'')
      | (s', None) \<Rightarrow> (s', 200, Inr (AZ_deleted_all adapterName count)))"

subsection \<open>OAuth\<close>

record OAuthClient =
  OC_ClientID :: string
  OC_ClientSecret :: string
  OC_RedirectURIs :: "string list"

record OAuthServerMetadata =
  OM_Issuer :: string
  OM_AuthorizationEndpoint :: string
  OM_TokenEndpoint :: string
  OM_JWKSURI :: string
  OM_RegistrationEndpoint :: string
  OM_ScopesSupported :: "string list"
  OM_ResponseTypesSupported :: "string list"
  OM_GrantTypesSupported :: "string list"

record ProtectedResourceMetadata =
  PM_Resource :: string
  PM_AuthorizationServers :: "string list"
  PM_ResourceDocumentation :: string
  PM_Scopes :: "string list"
  PM_AuthorizationServerMetadata :: "string \<rightharpoonup> any"

text \<open>What the two discoveries share; \<open>decode\<close> reads a value from the stream of a body, which may break off.\<close>

definition fetch_metadata ::
    "string \<Rightarrow> string \<Rightarrow> (forwarded \<Rightarrow> sent) \<Rightarrow> (proxied \<Rightarrow> 'm result) \<Rightarrow> string \<Rightarrow> 'm result" where
  "fetch_metadata what path send decode baseURL =
     (case send (get_url (TrimSuffix baseURL ''/'' @ path)) of
        Bad_request err \<Rightarrow> Inl (''failed to fetch '' @ what @ '': '' @ err)
      | Unreachable err \<Rightarrow> Inl (''failed to fetch '' @ what @ '': '' @ err)
      | Answered resp \<Rightarrow>
          if PX_Status resp \<noteq> 200 then Inl (what @ '' returned status '' @ show_int (PX_Status resp))
          else (case decode resp of Inl err \<Rightarrow> Inl (''failed to decode '' @ what @ '': '' @ err) | Inr metadata \<Rightarrow> Inr metadata))"

definition discoverProtectedResourceMetadata ::
    "(forwarded \<Rightarrow> sent) \<Rightarrow> (proxied \<Rightarrow> ProtectedResourceMetadata result) \<Rightarrow> string \<Rightarrow> ProtectedResourceMetadata result" where
  "discoverProtectedResourceMetadata =
     fetch_metadata ''protected resource metadata'' ''/.well-known/oauth-protected-resource''"

definition discoverAuthorizationServerMetadata ::
    "(forwarded \<Rightarrow> sent) \<Rightarrow> (proxied \<Rightarrow> OAuthServerMetadata result) \<Rightarrow> string \<Rightarrow> OAuthServerMetadata result" where
  "discoverAuthorizationServerMetadata =
     fetch_metadata ''authorization server metadata'' ''/.well-known/oauth-authorization-server''"

definition client_registration :: "string \<Rightarrow> (string \<rightharpoonup> any) \<Rightarrow> (string \<rightharpoonup> any)" where
  "client_registration baseURL clientInfo =
     [''redirect_uris'' \<mapsto> Slice [String_value (baseURL @ ''/oauth/callback'')],
      ''client_name'' \<mapsto> String_value ''SUSE AI Universal Proxy'',
      ''grant_types'' \<mapsto> Slice [String_value ''authorization_code'', String_value ''refresh_token''],
      ''response_types'' \<mapsto> Slice [String_value ''code''],
      ''token_endpoint_auth_method'' \<mapsto> String_value ''client_secret_basic''] ++ clientInfo"

definition registerOAuthClient ::
    "((string \<rightharpoonup> any) \<Rightarrow> string result) \<Rightarrow> (forwarded \<Rightarrow> sent) \<Rightarrow> (proxied \<Rightarrow> OAuthClient result) \<Rightarrow> string \<Rightarrow> string \<Rightarrow>
     (string \<rightharpoonup> any) \<Rightarrow> OAuthClient result" where
  "registerOAuthClient marshal send decode baseURL registrationURL clientInfo =
     (case marshal (client_registration baseURL clientInfo) of
        Inl err \<Rightarrow> Inl (''failed to marshal client registration data: '' @ err)
      | Inr jsonData \<Rightarrow>
          (case send \<lparr>FW_Method = ''POST'', FW_URL = registrationURL,
               FW_Header = header_Set ''Content-Type'' ''application/json'' Map.empty, FW_Body = jsonData\<rparr> of
             Bad_request err \<Rightarrow> Inl (''failed to create registration request: '' @ err)
           | Unreachable err \<Rightarrow> Inl (''failed to register client: '' @ err)
           | Answered resp \<Rightarrow>
               if PX_Status resp \<noteq> 201
               then Inl (''client registration failed with status '' @ show_int (PX_Status resp) @ '': '' @ PX_Body resp)
               else (case decode resp of
                       Inl err \<Rightarrow> Inl (''failed to decode client registration response: '' @ err) | Inr client \<Rightarrow> Inr client)))"

text \<open>\<open>random\<close> is what reading 32 random bytes gives, \<open>sha256\<close> the library's hash.\<close>

definition raw_url_encode :: "string \<Rightarrow> string" where
  "raw_url_encode s = takeWhile (\<lambda>c. c \<noteq> CHR ''='') (b64_encode s)"

definition generatePKCE :: "string result \<Rightarrow> (string \<Rightarrow> string) \<Rightarrow> (string \<times> string) result" where
  "generatePKCE random sha256 =
     (case random of
        Inl err \<Rightarrow> Inl (''failed to generate PKCE verifier: '' @ err)
      | Inr verifierBytes \<Rightarrow> (let verifier = raw_url_encode verifierBytes in Inr (verifier, raw_url_encode (sha256 verifier))))"

definition authorization_params :: "gotime \<Rightarrow> string \<Rightarrow> string \<Rightarrow> string \<Rightarrow> (string \<times> string) list" where
  "authorization_params now clientID redirectURI resource =
     (let params = query_Set ''state'' (''state-'' @ show_int (Unix now)) (query_Set ''scope'' ''openid profile''
            (query_Set ''redirect_uri'' redirectURI (query_Set ''response_type'' ''code'' (query_Set ''client_id'' clientID []))))
      in if resource \<noteq> [] then query_Set ''resource'' resource params else params)"

text \<open>\<open>None\<close> is the panic for a client without a redirection. \<open>parse\<close> is the error of parsing a URL. The verifier is dropped.\<close>

definition buildAuthorizationURL ::
    "(string \<Rightarrow> error option) \<Rightarrow> gotime \<Rightarrow> string result \<Rightarrow> (string \<Rightarrow> string) \<Rightarrow> OAuthServerMetadata \<Rightarrow> OAuthClient \<Rightarrow> string \<Rightarrow>
     string result option" where
  "buildAuthorizationURL parse now random sha256 authServer client resource =
     (case parse (OM_AuthorizationEndpoint authServer) of
        Some err \<Rightarrow> Some (Inl (''invalid authorization endpoint: '' @ err))
      | None \<Rightarrow>
          (case OC_RedirectURIs client of
             [] \<Rightarrow> None
           | redirectURI # _ \<Rightarrow>
               (case generatePKCE random sha256 of
                  Inl err \<Rightarrow> Some (Inl err)
                | Inr (verifier, challenge) \<Rightarrow>
                    Some (Inr (url_set_query (OM_AuthorizationEndpoint authServer)
                      (query_Encode (query_Set ''code_challenge_method'' ''S256'' (query_Set ''code_challenge'' challenge
                         (authorization_params now (OC_ClientID client) redirectURI resource)))))))))"

subsection \<open>Lemmas\<close>

lemma revoke_authorization_other [simp]:
  "SD_SessionID x \<noteq> sid \<Longrightarrow> iss_sessions (revoke_authorization x t) sid = iss_sessions t sid"
  by (auto simp: revoke_authorization_def SetAuthorizationInfo_def set_session_def split: option.splits)

lemma SetTokenInfo_other [simp]: "k \<noteq> sid \<Longrightarrow> iss_sessions (fst (SetTokenInfo k p t)) sid = iss_sessions t sid"
  by (auto simp: SetTokenInfo_def set_session_def split: option.splits)

lemma revoke_sessions_other:
  "\<lbrakk>\<And>x. x \<in> set sessions \<Longrightarrow> SD_SessionID x \<noteq> sid; revoke_sessions sessions n s = (s', n')\<rbrakk> \<Longrightarrow>
   iss_sessions s' sid = iss_sessions s sid"
proof (induction sessions arbitrary: n s)
  case (Cons x sessions)
  obtain t e where t: "SetTokenInfo (SD_SessionID x) None s = (t, e)" by fastforce
  have x: "SD_SessionID x \<noteq> sid" using Cons.prems(1) by simp
  then have "iss_sessions t sid = iss_sessions s sid" using SetTokenInfo_other [of "SD_SessionID x" sid None s] t by simp
  then obtain m u where u: "revoke_sessions (x # sessions) n s = revoke_sessions sessions m u" "iss_sessions u sid = iss_sessions s sid"
    using x t by (cases e; cases "SD_TokenInfo x") auto
  then show ?case using Cons.IH [of m u] Cons.prems by simp
qed simp

definition revoked :: "SessionDetails \<Rightarrow> SessionDetails" where
  "revoked session = session\<lparr>SD_TokenInfo := None,
     SD_AuthorizationInfo := map_option (\<lambda>info. info\<lparr>AI_Status := ''unauthorized''\<rparr>) (SD_AuthorizationInfo session)\<rparr>"

lemma revoke_authorization_stored:
  assumes "iss_sessions s (SD_SessionID x) = Some y" and "SD_AuthorizationInfo y = SD_AuthorizationInfo x"
  shows "revoke_authorization x s = s\<lparr>iss_sessions := (iss_sessions s)(SD_SessionID x \<mapsto>
    y\<lparr>SD_AuthorizationInfo := map_option (\<lambda>info. info\<lparr>AI_Status := ''unauthorized''\<rparr>) (SD_AuthorizationInfo x)\<rparr>)\<rparr>"
proof (cases "SD_AuthorizationInfo x")
  case None
  then have "y\<lparr>SD_AuthorizationInfo := None\<rparr> = y" using assms(2) by (cases y) simp
  then have "(iss_sessions s)(SD_SessionID x \<mapsto> y\<lparr>SD_AuthorizationInfo := None\<rparr>) = iss_sessions s"
    using assms(1) by (simp add: fun_upd_idem)
  then show ?thesis by (simp add: revoke_authorization_def None)
next
  case (Some info)
  then show ?thesis using assms(1) by (simp add: revoke_authorization_def SetAuthorizationInfo_def set_session_def)
qed

lemma revoke_one:
  assumes "iss_sessions s (SD_SessionID x) = Some x"
  shows "revoke_sessions (x # sessions) n s =
    revoke_sessions sessions (if SD_TokenInfo x \<noteq> None then n + 1 else n)
      (s\<lparr>iss_sessions := (iss_sessions s)(SD_SessionID x \<mapsto> revoked x)\<rparr>)"
proof (cases "SD_TokenInfo x")
  case None
  then have "revoked x = x\<lparr>SD_AuthorizationInfo := map_option (\<lambda>info. info\<lparr>AI_Status := ''unauthorized''\<rparr>) (SD_AuthorizationInfo x)\<rparr>"
    by (cases x) (simp add: revoked_def)
  then show ?thesis using revoke_authorization_stored [OF assms refl] None by simp
next
  case (Some p)
  let ?s = "s\<lparr>iss_sessions := (iss_sessions s)(SD_SessionID x \<mapsto> x\<lparr>SD_TokenInfo := None\<rparr>)\<rparr>"
  have "SetTokenInfo (SD_SessionID x) None s = (?s, None)" using assms by (simp add: SetTokenInfo_def set_session_def)
  then show ?thesis
    using Some revoke_authorization_stored [of ?s x "x\<lparr>SD_TokenInfo := None\<rparr>"] by (simp add: revoked_def)
qed

text \<open>The loop over distinct sessions, as they are stored.\<close>

lemma revoke_sessions_all:
  assumes "distinct (map SD_SessionID sessions)" and "\<And>x. x \<in> set sessions \<Longrightarrow> iss_sessions s (SD_SessionID x) = Some x"
    and "revoke_sessions sessions n s = (s', n')"
  shows "x \<in> set sessions \<Longrightarrow> iss_sessions s' (SD_SessionID x) = Some (revoked x)"
    and "n' = n + int (length (filter (\<lambda>x. SD_TokenInfo x \<noteq> None) sessions))" and "iss_tokens s' = iss_tokens s"
proof -
  have "(\<forall>x \<in> set sessions. iss_sessions s' (SD_SessionID x) = Some (revoked x)) \<and>
      n' = n + int (length (filter (\<lambda>x. SD_TokenInfo x \<noteq> None) sessions)) \<and> iss_tokens s' = iss_tokens s"
    using assms
  proof (induction sessions arbitrary: n s)
    case (Cons x sessions)
    have x: "iss_sessions s (SD_SessionID x) = Some x" using Cons.prems(2) by simp
    define t where "t = s\<lparr>iss_sessions := (iss_sessions s)(SD_SessionID x \<mapsto> revoked x)\<rparr>"
    define n1 where "n1 = (if SD_TokenInfo x \<noteq> None then n + 1 else n)"
    have step: "revoke_sessions (x # sessions) n s = revoke_sessions sessions n1 t"
      using revoke_one [OF x] by (simp only: t_def n1_def)
    have rest: "revoke_sessions sessions n1 t = (s', n')" using Cons.prems(3) unfolding step .
    have apart: "SD_SessionID y \<noteq> SD_SessionID x" if "y \<in> set sessions" for y
    proof -
      have "SD_SessionID y \<in> SD_SessionID ` set sessions" using that by (rule imageI)
      then show ?thesis using Cons.prems(1) by auto
    qed
    have keep: "iss_sessions t (SD_SessionID y) = Some y" if "y \<in> set sessions" for y
      using that Cons.prems(2) [of y] apart [OF that] by (simp add: t_def)
    have IH: "(\<forall>x \<in> set sessions. iss_sessions s' (SD_SessionID x) = Some (revoked x)) \<and>
        n' = n1 + int (length (filter (\<lambda>x. SD_TokenInfo x \<noteq> None) sessions)) \<and> iss_tokens s' = iss_tokens t"
      using Cons.IH [OF _ keep rest] Cons.prems(1) by simp
    moreover have "iss_sessions s' (SD_SessionID x) = iss_sessions t (SD_SessionID x)"
      using apart rest by (rule revoke_sessions_other)
    ultimately show ?case by (auto simp: t_def n1_def)
  qed simp
  then show "x \<in> set sessions \<Longrightarrow> iss_sessions s' (SD_SessionID x) = Some (revoked x)"
    and "n' = n + int (length (filter (\<lambda>x. SD_TokenInfo x \<noteq> None) sessions))" and "iss_tokens s' = iss_tokens s"
    by blast+
qed

lemma distinct_range_values_keys:
  assumes "distinct ks" and "\<And>k v. m k = Some v \<Longrightarrow> f v = k"
  shows "distinct (map f (range_values m ks))"
proof -
  have "map f (range_values m ks) = filter (\<lambda>k. m k \<noteq> None) ks"
    by (induction ks) (auto simp: range_values_Cons assms(2) split: option.splits)
  then show ?thesis using assms(1) by simp
qed

lemma adapter_sessions:
  assumes "range_order (iss_sessions s) ks" and "sessions_ok s" and "ListByAdapter ks s name = Inr sessions"
  shows "x \<in> set sessions \<longleftrightarrow> iss_sessions s (SD_SessionID x) = Some x \<and> SD_AdapterName x = name"
    and "distinct (map SD_SessionID sessions)"
proof -
  have s: "sessions = filter (\<lambda>session. SD_AdapterName session = name) (range_values (iss_sessions s) ks)"
    using assms(3) by (simp add: ListByAdapter_def)
  have key: "iss_sessions s k = Some d \<Longrightarrow> SD_SessionID d = k" for k d using sessions_okD(1) [OF assms(2)] by blast
  show "x \<in> set sessions \<longleftrightarrow> iss_sessions s (SD_SessionID x) = Some x \<and> SD_AdapterName x = name"
    using key unfolding s by (auto simp: set_range_values [OF assms(1)] ran_def)
  have "distinct (map SD_SessionID (range_values (iss_sessions s) ks))"
    by (rule distinct_range_values_keys) (use assms(1) key in \<open>auto simp: range_order_def\<close>)
  then show "distinct (map SD_SessionID sessions)" unfolding s by (simp add: distinct_map_filter)
qed

subsection \<open>Properties\<close>

text \<open>Revoking leaves no credentials. On a store whose sessions are well-formed, every session of the adapter is then without a
  token and no longer authorized, what else it holds is as before, every other session is untouched, and the number reported is that of
  the sessions that had a token.\<close>

theorem revoked_tokens_are_gone:
  assumes "session_step\<^sup>*\<^sup>* NewInMemorySessionStore s" and "range_order (iss_sessions s) ks"
    and "RevokeTokens ks name s = (s', code, r)"
  shows "code = 200 \<and>
    r = Inr (AZ_revoked name (int (length (filter (\<lambda>x. SD_AdapterName x = name \<and> SD_TokenInfo x \<noteq> None) (range_values (iss_sessions s) ks))))) \<and>
    (\<forall>sid. iss_sessions s' sid = map_option (\<lambda>x. if SD_AdapterName x = name then revoked x else x) (iss_sessions s sid))"
proof -
  have ok: "sessions_ok s" using assms(1) sessions_ok_New by (rule sessions_ok_reachable)
  let ?xs = "filter (\<lambda>x. SD_AdapterName x = name) (range_values (iss_sessions s) ks)"
  have list: "ListByAdapter ks s name = Inr ?xs" by (simp add: ListByAdapter_def)
  note xs = adapter_sessions [OF assms(2) ok list]
  obtain n where n: "revoke_sessions ?xs 0 s = (s', n)" "code = 200" "r = Inr (AZ_revoked name n)"
    using assms(3) by (auto simp: RevokeTokens_def list split: prod.splits)
  have all: "y \<in> set ?xs \<Longrightarrow> iss_sessions s' (SD_SessionID y) = Some (revoked y)"
    and count: "n = 0 + int (length (filter (\<lambda>x. SD_TokenInfo x \<noteq> None) ?xs))" for y
    using revoke_sessions_all [OF xs(2) _ n(1)] xs(1) by blast+
  have other: "iss_sessions s' sid = iss_sessions s sid" if "\<And>x. x \<in> set ?xs \<Longrightarrow> SD_SessionID x \<noteq> sid" for sid
    using that n(1) by (rule revoke_sessions_other)
  have "iss_sessions s' sid = map_option (\<lambda>x. if SD_AdapterName x = name then revoked x else x) (iss_sessions s sid)" for sid
  proof (cases "\<exists>x \<in> set ?xs. SD_SessionID x = sid")
    case True
    then obtain x where x: "x \<in> set ?xs" "SD_SessionID x = sid" by blast
    then show ?thesis using all [OF x(1)] xs(1) [of x] by auto
  next
    case False
    then have "SD_AdapterName y \<noteq> name" if "iss_sessions s sid = Some y" for y
      using that xs(1) [of y] sessions_okD(1) [OF ok that] by blast
    then show ?thesis using other [of sid] False by (cases "iss_sessions s sid") auto
  qed
  then show ?thesis using n(2,3) count by (simp add: conj_commute)
qed

text \<open>The changes that the routes make, one after the other.\<close>

inductive authz_step :: "InMemorySessionStore \<Rightarrow> InMemorySessionStore \<Rightarrow> bool" where
  start: "authz_step s (fst (StartAuthorization baseURL binding t t' t'' name body s))"
| revoke: "authz_step s (fst (RevokeTokens ks name s))"
| create: "authz_step s (fst (Authorization_CreateSession binding t t' t'' t3 name body s))"
| delete: "authz_step s (fst (DeleteSession name sid s))"
| delete_all: "authz_step s (fst (DeleteAllSessions ks ks' name s))"

lemma range_delete_Some: "range_delete P ks m k = Some v \<Longrightarrow> m k = Some v"
  by (induction P ks m rule: range_delete.induct) (auto split: option.splits if_splits)

definition none_authorized :: "InMemorySessionStore \<Rightarrow> bool" where
  "none_authorized s \<longleftrightarrow> (\<forall>d \<in> ran (iss_sessions s). \<not> session_authorized d)"

lemma none_authorized_update:
  "\<lbrakk>none_authorized s; \<not> session_authorized d\<rbrakk> \<Longrightarrow> none_authorized (s\<lparr>iss_sessions := (iss_sessions s)(sid \<mapsto> d)\<rparr>)"
  by (auto simp: none_authorized_def ran_def)

lemma none_authorized_set_session:
  "\<lbrakk>none_authorized s; \<And>d. \<not> session_authorized d \<Longrightarrow> \<not> session_authorized (f d)\<rbrakk> \<Longrightarrow> none_authorized (fst (set_session sid f s))"
  by (auto simp: set_session_def intro!: none_authorized_update split: option.splits)
    (auto simp: none_authorized_def ran_def)

lemma none_authorized_revoke: "none_authorized s \<Longrightarrow> none_authorized (revoke_authorization x s)"
  by (auto simp: revoke_authorization_def SetAuthorizationInfo_def session_authorized_def split: option.splits
      intro!: none_authorized_set_session)

lemma none_authorized_revoke_all: "none_authorized s \<Longrightarrow> none_authorized (fst (revoke_sessions sessions n s))"
proof (induction sessions arbitrary: n s)
  case (Cons x sessions)
  have "none_authorized (fst (SetTokenInfo (SD_SessionID x) None s))"
    unfolding SetTokenInfo_def by (rule none_authorized_set_session [OF Cons.prems]) (simp add: session_authorized_def)
  then show ?case using Cons by (auto intro!: Cons.IH none_authorized_revoke split: prod.split option.split)
qed simp

lemma authz_step_none: "authz_step s s' \<Longrightarrow> none_authorized s \<Longrightarrow> none_authorized s'"
proof (induction rule: authz_step.induct)
  case (start s baseURL binding t t' t'' name body)
  then show ?case
    by (auto simp: StartAuthorization_def SetWithDetails_def SetAuthorizationInfo_def set_session_def Let_def
        intro!: none_authorized_update split: option.split)
      (simp add: session_authorized_def authorizing_info_def)
next
  case (revoke s ks name)
  then show ?case by (auto simp: RevokeTokens_def ListByAdapter_def Let_def none_authorized_revoke_all split: prod.split)
      (metis fst_conv none_authorized_revoke_all)
next
  case (create s binding t t' t'' t3 name body)
  then show ?case
    by (auto simp: Authorization_CreateSession_def SetWithDetails_def Let_def intro!: none_authorized_update split: option.split)
      (simp add: session_authorized_def)
next
  case (delete s name sid)
  then show ?case
    by (auto simp: DeleteSession_def InMemorySessionStore_Delete_def none_authorized_def ran_def split: sum.split)
next
  case (delete_all s ks ks' name)
  then show ?case
    by (auto simp: DeleteAllSessions_def DeleteByAdapter_def ListByAdapter_def none_authorized_def ran_def Let_def
        dest!: range_delete_Some)
qed

text \<open>No authorization ever completes. Whatever the routes are asked, in whatever order, no adapter is reported as authorized and no
  token is refreshed: nothing sets the status that both look for.\<close>

theorem authorizations_never_complete:
  assumes "authz_step\<^sup>*\<^sup>* NewInMemorySessionStore s"
  shows "GetAuthorizationStatus ks now name s = (200, Inr (AZ_unauthorized name)) \<and>
    Authorization_RefreshToken ks name s = (404, Inl ''No authorized session found'')"
proof -
  have "none_authorized s"
    using assms
  proof (induction rule: rtranclp_induct)
    case base
    show ?case by (simp add: none_authorized_def NewInMemorySessionStore_def)
  qed (rule authz_step_none)
  then have "\<not> session_authorized d" if "d \<in> set (range_values (iss_sessions s) ks)" for d
    using that set_range_values_subset by (fastforce simp: none_authorized_def)
  then have none: "\<forall>d \<in> set (filter (\<lambda>d. SD_AdapterName d = name) (range_values (iss_sessions s) ks)). \<not> session_authorized d" by simp
  have "latest_authorized None xs = None" if "\<forall>d \<in> set xs. \<not> session_authorized d" for xs
    using that by (induction xs) simp_all
  then show ?thesis
    using none by (auto simp: GetAuthorizationStatus_def Authorization_RefreshToken_def ListByAdapter_def find_None_iff split: option.split)
qed

text \<open>Authorizations that start in the same second share a session. The identifier has the seconds only: the second start
  replaces the session of the first, whose adapter then has no such session.\<close>

theorem starts_in_a_second_collide:
  assumes "Unix now1 = Unix now2" and "a \<noteq> b"
    and "StartAuthorization baseURL binding now1 t1 t1' a body1 s = (s1, 200, Inr (AZ_authorizing a sid1 url1))"
    and "StartAuthorization baseURL binding now2 t2 t2' b body2 s1 = (s2, 200, Inr (AZ_authorizing b sid2 url2))"
  shows "sid1 = sid2 \<and> url1 = url2 \<and> DeleteSession a sid1 s2 = (s2, 404, Inl ''Session not found for this adapter'')"
  using assms
  by (auto simp: StartAuthorization_def SetWithDetails_def SetAuthorizationInfo_def set_session_def Let_def authorization_session_ID_def
      authorizing_info_def DeleteSession_def GetDetails_def get_session_def split: option.splits)

lemma query_values_Set [simp]:
  "query_values (query_Set k v q) k' = (if k = k' then [v] else query_values q k')"
  by (auto simp: query_values_def query_Set_def filter_empty_conv intro!: arg_cong [where f = "map snd"] filter_cong)

text \<open>The server of an authorization reads what the client is. In the query of the URL to which a user is sent the parameters are
  those of the client, each once; the query that the endpoint itself had is gone; the state is the time in seconds, which
  anybody knows; and the verifier of the challenge is returned to nobody.\<close>

theorem authorization_URL_reads_back:
  assumes "buildAuthorizationURL parse now random sha256 authServer client resource = Some (Inr url)"
  shows "\<exists>bytes. random = Inr bytes \<and>
    (\<forall>k. query_values (ParseQuery (url_query url)) k =
      (if k = ''client_id'' then [OC_ClientID client] else if k = ''response_type'' then [''code'']
       else if k = ''redirect_uri'' then [hd (OC_RedirectURIs client)] else if k = ''scope'' then [''openid profile'']
       else if k = ''state'' then [''state-'' @ show_int (Unix now)]
       else if k = ''code_challenge'' then [raw_url_encode (sha256 (raw_url_encode bytes))]
       else if k = ''code_challenge_method'' then [''S256'']
       else if k = ''resource'' \<and> resource \<noteq> [] then [resource] else []))"
proof -
  obtain redirect rest bytes where r: "OC_RedirectURIs client = redirect # rest" "random = Inr bytes" and
    url: "url = url_set_query (OM_AuthorizationEndpoint authServer)
      (query_Encode (query_Set ''code_challenge_method'' ''S256'' (query_Set ''code_challenge'' (raw_url_encode (sha256 (raw_url_encode bytes)))
         (authorization_params now (OC_ClientID client) redirect resource))))" (is "url = url_set_query _ (query_Encode ?q)")
    using assms by (auto simp: buildAuthorizationURL_def generatePKCE_def Let_def split: option.splits list.splits sum.splits)
  have ne: "?q \<noteq> []" by (simp add: query_Set_def)
  then have "ParseQuery (url_query url) = sort_key fst ?q"
    unfolding url by (simp add: url_query_set query_Encode_chars query_Encode_nonempty ParseQuery_Encode)
  then have "query_values (ParseQuery (url_query url)) k = query_values ?q k" for k
    by (simp add: query_values_def filter_sort_key)
  then show ?thesis using r by (simp add: authorization_params_def Let_def query_values_def [of "[]"])
qed

subsection \<open>Examples\<close>

theorem authorizations_never_complete_witness:
  "GetAuthorizationStatus [''auth-session-0''] 5 ''a''
     (fst (StartAuthorization ''http://p'' (\<lambda>b. None) 0 1 2 ''a'' [] NewInMemorySessionStore)) = (200, Inr (AZ_unauthorized ''a''))"
proof -
  have "authz_step NewInMemorySessionStore (fst (StartAuthorization ''http://p'' (\<lambda>b. None) 0 1 2 ''a'' [] NewInMemorySessionStore))"
    by (rule authz_step.start)
  from authorizations_never_complete [where s = "fst (StartAuthorization ''http://p'' (\<lambda>b. None) 0 1 2 ''a'' [] NewInMemorySessionStore)",
      OF r_into_rtranclp [where r = authz_step, OF this]]
  show ?thesis by blast
qed

theorem starts_in_a_second_collide_witness:
  "\<exists>s1 s2 sid url. StartAuthorization ''http://p'' (\<lambda>b. None) 7 8 9 ''a'' [] NewInMemorySessionStore =
       (s1, 200, Inr (AZ_authorizing ''a'' sid url)) \<and>
     StartAuthorization ''http://p'' (\<lambda>b. None) 17 18 19 ''b'' [] s1 = (s2, 200, Inr (AZ_authorizing ''b'' sid url)) \<and>
     DeleteSession ''a'' sid s2 = (s2, 404, Inl ''Session not found for this adapter'')"
proof -
  have start: "\<exists>s' sid url. StartAuthorization ''http://p'' (\<lambda>b. None) t t' t'' n [] s = (s', 200, Inr (AZ_authorizing n sid url))"
    for t t' t'' n s
    by (simp add: StartAuthorization_def SetWithDetails_def SetAuthorizationInfo_def set_session_def Let_def)
  obtain s1 sid1 url1 where 1: "StartAuthorization ''http://p'' (\<lambda>b. None) 7 8 9 ''a'' [] NewInMemorySessionStore =
      (s1, 200, Inr (AZ_authorizing ''a'' sid1 url1))" using start by blast
  obtain s2 sid2 url2 where 2: "StartAuthorization ''http://p'' (\<lambda>b. None) 17 18 19 ''b'' [] s1 =
      (s2, 200, Inr (AZ_authorizing ''b'' sid2 url2))" using start by blast
  have "Unix 7 = Unix 17" by (simp add: Unix_def)
  from starts_in_a_second_collide [OF this _ 1 2] 1 2 show ?thesis by auto
qed

definition ex_oauth_server :: OAuthServerMetadata where
  "ex_oauth_server = \<lparr>OM_Issuer = ''i'', OM_AuthorizationEndpoint = ''http://i/a?tenant=t'', OM_TokenEndpoint = [], OM_JWKSURI = [],
     OM_RegistrationEndpoint = [], OM_ScopesSupported = [], OM_ResponseTypesSupported = [], OM_GrantTypesSupported = []\<rparr>"

definition ex_oauth_client :: OAuthClient where
  "ex_oauth_client = \<lparr>OC_ClientID = ''c1'', OC_ClientSecret = [], OC_RedirectURIs = [''http://p/oauth/callback'']\<rparr>"

theorem authorization_URL_reads_back_witness:
  "\<exists>url. buildAuthorizationURL (\<lambda>u. None) 0 (Inr ''r'') (\<lambda>v. v) ex_oauth_server ex_oauth_client [] = Some (Inr url) \<and>
     query_values (ParseQuery (url_query url)) ''client_id'' = [''c1''] \<and> query_values (ParseQuery (url_query url)) ''tenant'' = []"
proof -
  obtain url where url: "buildAuthorizationURL (\<lambda>u. None) 0 (Inr ''r'') (\<lambda>v. v) ex_oauth_server ex_oauth_client [] = Some (Inr url)"
    by (simp add: buildAuthorizationURL_def generatePKCE_def ex_oauth_client_def Let_def)
  with authorization_URL_reads_back [OF url] show ?thesis by (auto simp: ex_oauth_client_def)
qed

theorem revoked_tokens_are_gone_witness:
  "\<exists>s' code r. RevokeTokens [''s1''] ''weather'' ex_sessions = (s', code, r) \<and>
     r = Inr (AZ_revoked ''weather'' 1) \<and> map_option SD_TokenInfo (iss_sessions s' ''s1'') = Some None"
proof -
  obtain d where d: "iss_sessions ex_sessions ''s1'' = Some d" "SD_AdapterName d = ''weather''" "SD_TokenInfo d = Some 0"
    by (simp add: ex_sessions_def RefreshToken_def SetWithDetails_def NewInMemorySessionStore_def)
  have ro: "range_order (iss_sessions ex_sessions) [''s1'']"
    by (simp add: ex_sessions_def RefreshToken_def SetWithDetails_def NewInMemorySessionStore_def range_order_def)
  obtain s' code r where r: "RevokeTokens [''s1''] ''weather'' ex_sessions = (s', code, r)"
    by (cases "RevokeTokens [''s1''] ''weather'' ex_sessions")
  from revoked_tokens_are_gone [OF ex_sessions_reachable ro r] r d show ?thesis
    by (simp add: range_values_Cons revoked_def)
qed

end
