(* ===== verification/RegistryService.thy ===== *)
theory RegistryService
  imports Registry
begin

section \<open>The registry service\<close>

text \<open>
  \<open>cmd/registry\<close> is a program of its own around \<open>pkg/services/registry\<close>, with the middleware of \<open>pkg/middleware\<close> (\<open>apikey.go\<close>,
  \<open>cors.go\<close>). Modelled: the configuration, the routes (the standard library's \<open>ServeMux\<close>), which handler gets a request and
  with which path, the handlers of the registry, and the synchronisation with the official registry in \<open>sync_manager.go\<close>, which
  no route starts. The handlers of adapters, users and groups are those of \<open>internal/handlers\<close>.
\<close>

subsection \<open>The configuration\<close>

record RegistryConfig =
  RC_Port :: int
  RC_TLSPort :: int
  RC_ConfigFile :: string
  RC_RemoteServersFile :: string
  RC_AutoTLS :: bool
  RC_CertFile :: string
  RC_KeyFile :: string

text \<open>\<open>getenv\<close> is the environment, \<open>atoi\<close> reads a number.\<close>

definition env_port :: "(string \<Rightarrow> string) \<Rightarrow> (string \<Rightarrow> int result) \<Rightarrow> string \<Rightarrow> int \<Rightarrow> int" where
  "env_port getenv atoi name port =
     (if getenv name = [] then port else case atoi (getenv name) of Inr p \<Rightarrow> p | Inl err \<Rightarrow> port)"

definition registry_main_config :: "(string \<Rightarrow> string) \<Rightarrow> (string \<Rightarrow> int result) \<Rightarrow> RegistryConfig" where
  "registry_main_config getenv atoi =
     \<lparr>RC_Port = env_port getenv atoi ''REGISTRY_PORT'' 8913, RC_TLSPort = env_port getenv atoi ''REGISTRY_TLS_PORT'' 38913,
      RC_ConfigFile = [], RC_RemoteServersFile = ''config/comprehensive_mcp_servers.yaml'', RC_AutoTLS = True,
      RC_CertFile = [], RC_KeyFile = []\<rparr>"

subsection \<open>The middleware\<close>

text \<open>\<open>validKeys\<close> is the variable \<open>SERVICE_API_KEYS\<close>; the result is the error of status 401.\<close>

definition APIKeyAuthMiddleware :: "string \<Rightarrow> string \<Rightarrow> string option" where
  "APIKeyAuthMiddleware validKeys apiKey =
     (if validKeys = [] then None
      else if apiKey = [] then Some ''Missing API key''
      else if list_ex (\<lambda>key. TrimSpace key = apiKey) (Split validKeys CHR '','') then None
      else Some ''Invalid API key'')"

text \<open>\<open>parse\<close> gives the scheme of a URL.\<close>

definition isOriginAllowed :: "(string \<Rightarrow> string result) \<Rightarrow> string \<Rightarrow> string list \<Rightarrow> string" where
  "isOriginAllowed parse origin allowedOrigins =
     (if origin = [] then []
      else case parse origin of
        Inl err \<Rightarrow> []
      | Inr scheme \<Rightarrow>
          if list_ex (\<lambda>allowed. TrimSpace allowed = ''*'') allowedOrigins then origin
          else if list_ex (\<lambda>allowed. TrimSpace allowed = origin) allowedOrigins then origin
          else if scheme = ''http'' \<or> scheme = ''https'' then origin
          else [])"

text \<open>The headers that are set; \<open>allowed\<close> is the variable \<open>CORS_ALLOWED_ORIGINS\<close>.\<close>

definition CORSMiddleware_headers :: "(string \<Rightarrow> string result) \<Rightarrow> string \<Rightarrow> string \<Rightarrow> (string \<times> string) list" where
  "CORSMiddleware_headers parse allowed origin =
     (let allowedOriginsStr = (if allowed = [] then ''http://localhost:3000,http://localhost:8080,http://127.0.0.1:3000,*'' else allowed);
          allowOrigin = isOriginAllowed parse origin (Split allowedOriginsStr CHR '','') in
      (if allowOrigin \<noteq> [] then [(''Access-Control-Allow-Origin'', allowOrigin)] else []) @
      [(''Access-Control-Allow-Methods'', ''GET, POST, PUT, DELETE, OPTIONS''),
       (''Access-Control-Allow-Headers'', ''Content-Type, Authorization, X-API-Key, X-User-ID''),
       (''Access-Control-Allow-Credentials'', ''true'')])"

subsection \<open>The routes\<close>

text \<open>A pattern that ends with a slash is for everything below it; the longest pattern wins.\<close>

definition mux_matches :: "string \<Rightarrow> string \<Rightarrow> bool" where
  "mux_matches pattern path = (if HasSuffix pattern ''/'' then HasPrefix path pattern else path = pattern)"

fun mux_longest :: "string \<Rightarrow> (string \<times> 'h) option \<Rightarrow> (string \<times> 'h) list \<Rightarrow> (string \<times> 'h) option" where
  "mux_longest path found [] = found"
| "mux_longest path found ((pattern, h) # rest) =
     mux_longest path
       (if mux_matches pattern path \<and> (case found of None \<Rightarrow> True | Some (p, _) \<Rightarrow> length p < length pattern)
        then Some (pattern, h) else found) rest"

datatype registry_route =
    Health_page | Docs_page | Swagger_page
  | Browse_servers | Server_by_ID | Upload_server | Bulk_upload | Reload_servers
  | Adapters_root | Adapters_below | Users_root | Users_below | Groups_root | Groups_below

definition registry_mux :: "(string \<times> registry_route) list" where
  "registry_mux =
     [(''/health'', Health_page), (''/docs'', Docs_page), (''/swagger.json'', Swagger_page),
      (''/api/v1/registry/browse'', Browse_servers), (''/api/v1/registry/'', Server_by_ID),
      (''/api/v1/registry/upload'', Upload_server), (''/api/v1/registry/upload/bulk'', Bulk_upload),
      (''/api/v1/registry/reload'', Reload_servers),
      (''/api/v1/adapters'', Adapters_root), (''/api/v1/adapters/'', Adapters_below),
      (''/api/v1/users'', Users_root), (''/api/v1/users/'', Users_below),
      (''/api/v1/groups'', Groups_root), (''/api/v1/groups/'', Groups_below)]"

text \<open>The three routes below a root: the handler and the path that it sees.\<close>

definition first_part :: "string \<Rightarrow> string" where
  "first_part path = hd (Split path CHR ''/'')"

definition adapters_below :: "string \<Rightarrow> string \<Rightarrow> (string \<times> string) option" where
  "adapters_below m urlPath =
     (let path = TrimPrefix urlPath ''/api/v1/adapters/'' in
      if path = [] then (if m = ''GET'' then Some (''ListAdapters'', urlPath) else None)
      else let parts = Split path CHR ''/'';
               adapter = ''/api/v1/adapters/'' @ parts ! 0;
               mcp = (1 < length parts \<and> parts ! 1 = ''mcp'') in
        if m = ''GET'' then Some (if mcp then (''HandleMCPProtocol'', adapter @ ''/mcp'') else (''GetAdapter'', adapter))
        else if m = ''PUT'' then Some (''UpdateAdapter'', adapter)
        else if m = ''DELETE'' then Some (''DeleteAdapter'', adapter)
        else if m = ''POST'' then
          (if 1 < length parts \<and> parts ! 1 = ''sync'' then Some (''SyncAdapterCapabilities'', adapter @ ''/sync'')
           else if mcp then Some (''HandleMCPProtocol'', adapter @ ''/mcp'') else None)
        else None)"

definition users_below :: "string \<Rightarrow> string \<Rightarrow> (string \<times> string) option" where
  "users_below m urlPath =
     (let path = TrimPrefix urlPath ''/api/v1/users/''; user = ''/api/v1/users/'' @ first_part path in
      if path = [] then (if m = ''GET'' then Some (''ListUsers'', urlPath) else None)
      else if m = ''GET'' then Some (''GetUser'', user)
      else if m = ''PUT'' then Some (''UpdateUser'', user)
      else if m = ''DELETE'' then Some (''DeleteUser'', user)
      else None)"

definition groups_below :: "string \<Rightarrow> string \<Rightarrow> (string \<times> string) option" where
  "groups_below m urlPath =
     (let path = TrimPrefix urlPath ''/api/v1/groups/''; grp = ''/api/v1/groups/'' @ first_part path in
      if path = [] then (if m = ''GET'' then Some (''ListGroups'', urlPath) else None)
      else if m = ''GET'' then Some (''GetGroup'', grp)
      else if m = ''PUT'' then Some (''UpdateGroup'', grp)
      else if m = ''DELETE'' then Some (''DeleteGroup'', grp)
      else None)"

text \<open>What a request comes to: no route or none of a route's methods, the answer to a preflight, a refusal, or a route.\<close>

datatype registry_served = Page_not_found | Cors_preflight | Key_refused string | Route_called registry_route

definition needs_key :: "registry_route \<Rightarrow> bool" where
  "needs_key route \<longleftrightarrow> route \<notin> {Health_page, Docs_page, Swagger_page}"

definition registry_serve :: "string \<Rightarrow> http_request \<Rightarrow> registry_served" where
  "registry_serve validKeys q =
     (case mux_longest (HQ_Path q) None registry_mux of
        None \<Rightarrow> Page_not_found
      | Some (_, route) \<Rightarrow>
          if HQ_Method q = ''OPTIONS'' then Cors_preflight
          else if \<not> needs_key route then Route_called route
          else (case APIKeyAuthMiddleware validKeys (HQ_Header q ''X-API-Key'') of
                  Some err \<Rightarrow> Key_refused err
                | None \<Rightarrow> Route_called route))"

subsection \<open>The handlers of the registry\<close>

text \<open>The loop over new servers. A server that cannot be stored is only logged; \<open>i\<close> counts the calls.\<close>

fun store_servers :: "'r MCPServerStore \<Rightarrow> store_env \<Rightarrow> nat \<Rightarrow> MCPServer list \<Rightarrow> 'r \<Rightarrow> 'r" where
  "store_servers R es i [] s = s"
| "store_servers R es i (server # servers) s =
     store_servers R es (Suc i) servers (fst (mss_CreateMCPServer R (fst (es i)) (snd (es i)) server s))"

text \<open>What the file system says of a path: whether it exists, and what reading it gives.\<close>

record server_files =
  sf_exists :: "string \<Rightarrow> bool"
  sf_read :: "string \<Rightarrow> string result"
  sf_yaml :: "string \<Rightarrow> (MCPServer list) result"
  sf_json :: "string \<Rightarrow> (MCPServer list) result"

definition loadServersFromFile ::
    "'r MCPServerStore \<Rightarrow> store_env \<Rightarrow> server_files \<Rightarrow> string \<Rightarrow> 'r \<Rightarrow> 'r \<times> error option" where
  "loadServersFromFile R es F filePath s =
     (if \<not> sf_exists F filePath then (s, Some (''file does not exist: '' @ filePath))
      else case sf_read F filePath of
        Inl err \<Rightarrow> (s, Some (''failed to read file: '' @ err))
      | Inr data \<Rightarrow>
          (if HasSuffix filePath ''.yaml'' \<or> HasSuffix filePath ''.yml'' then
             (case sf_yaml F data of
                Inl err \<Rightarrow> (s, Some (''failed to parse YAML: '' @ err)) | Inr servers \<Rightarrow> (store_servers R es 0 servers s, None))
           else
             (case sf_json F data of
                Inl err \<Rightarrow> (s, Some (''failed to parse JSON: '' @ err)) | Inr servers \<Rightarrow> (store_servers R es 0 servers s, None))))"

datatype service_payload = SP_servers "MCPServer list" | SP_server MCPServer | SP_status string | SP_count string int

type_synonym service_reply = "int \<times> (string + service_payload)"

definition handleBrowse :: "'r MCPServerStore \<Rightarrow> string list \<Rightarrow> 'r \<Rightarrow> service_reply" where
  "handleBrowse R ks s = (200, Inr (SP_servers (mss_ListMCPServers R ks s)))"

definition handleRegistryByID :: "'r MCPServerStore \<Rightarrow> http_request \<Rightarrow> 'r \<Rightarrow> service_reply" where
  "handleRegistryByID R q s =
     (case mss_GetMCPServer R s (TrimPrefix (HQ_Path q) ''/api/v1/registry/'') of
        Inl err \<Rightarrow> (404, Inl ''Server not found'') | Inr server \<Rightarrow> (200, Inr (SP_server server)))"

definition handleUpload ::
    "'r MCPServerStore \<Rightarrow> store_env \<Rightarrow> (string \<Rightarrow> MCPServer result) \<Rightarrow> http_request \<Rightarrow> 'r \<Rightarrow> 'r \<times> service_reply" where
  "handleUpload R es decode q s =
     (case decode (HQ_Body q) of
        Inl err \<Rightarrow> (s, 400, Inl ''Invalid JSON'')
      | Inr server \<Rightarrow>
          (case mss_CreateMCPServer R (fst (es 0)) (snd (es 0)) server s of
             (s', _, Some err) \<Rightarrow> (s', 500, Inl ''Failed to store server'')
           | (s', _, None) \<Rightarrow> (s', 200, Inr (SP_status ''success''))))"

definition handleBulkUpload ::
    "'r MCPServerStore \<Rightarrow> store_env \<Rightarrow> (string \<Rightarrow> (MCPServer list) result) \<Rightarrow> http_request \<Rightarrow> 'r \<Rightarrow> 'r \<times> service_reply" where
  "handleBulkUpload R es decode q s =
     (case decode (HQ_Body q) of
        Inl err \<Rightarrow> (s, 400, Inl ''Invalid JSON'')
      | Inr servers \<Rightarrow> (store_servers R es 0 servers s, 200, Inr (SP_count ''success'' (int (length servers)))))"

definition handleReloadRemoteServers ::
    "'r MCPServerStore \<Rightarrow> store_env \<Rightarrow> server_files \<Rightarrow> RegistryConfig \<Rightarrow> 'r \<Rightarrow> 'r \<times> service_reply" where
  "handleReloadRemoteServers R es F config s =
     (if RC_RemoteServersFile config = [] then (s, 200, Inr (SP_status ''reload completed''))
      else case loadServersFromFile R es F (RC_RemoteServersFile config) s of
        (s', Some err) \<Rightarrow> (s', 500, Inl ''Failed to reload servers'')
      | (s', None) \<Rightarrow> (s', 200, Inr (SP_status ''reload completed'')))"

text \<open>The store that \<open>Start\<close> begins with: an empty one, with the servers of the file if it can be loaded.\<close>

definition registry_service_start :: "store_env \<Rightarrow> server_files \<Rightarrow> RegistryConfig \<Rightarrow> InMemoryMCPServerStore" where
  "registry_service_start es F config =
     (if RC_RemoteServersFile config = [] then NewInMemoryMCPServerStore
      else fst (loadServersFromFile InMemoryMCPServerStore_ops es F (RC_RemoteServersFile config) NewInMemoryMCPServerStore))"

subsection \<open>Synchronisation\<close>

definition well_known :: "string \<Rightarrow> string \<Rightarrow> string \<Rightarrow> string \<Rightarrow> string \<Rightarrow> string list \<Rightarrow> MCPServer" where
  "well_known i name description identifier category tags =
     zero_MCPServer\<lparr>Srv_ID := i, Srv_Name := name, Srv_Description := description, Srv_Version := ''1.0.0'',
       Srv_Packages := [\<lparr>Pkg_RegistryType = ''npm'', Pkg_Identifier = identifier, Pkg_Transport = \<lparr>Tr_Type = ''stdio''\<rparr>,
         Pkg_EnvironmentVariables = []\<rparr>],
       Srv_ValidationStatus := ''approved'',
       Srv_Meta := [''source'' \<mapsto> String_value ''well-known'', ''category'' \<mapsto> String_value category,
         ''tags'' \<mapsto> Slice (map String_value tags)]\<rparr>"

text \<open>\<open>t\<close> and \<open>t'\<close> are the times of the assignment's creation.\<close>

definition wellKnownServers :: "gotime \<Rightarrow> gotime \<Rightarrow> MCPServer list" where
  "wellKnownServers t t' =
     [(well_known ''filesystem'' ''File System'' ''MCP server for file system operations'' ''@modelcontextprotocol/server-filesystem''
         ''utility'' [''filesystem'', ''files'', ''directories''])
        \<lparr>Srv_RouteAssignments := [\<lparr>RA_ID = ''filesystem-default'', RA_ServerID = [], RA_UserIDs = [], RA_GroupIDs = [''mcp-users''],
           RA_AutoSpawn = True, RA_Permissions = ''read'', RA_CreatedAt = t, RA_UpdatedAt = t'\<rparr>],
         Srv_AutoSpawn := Some \<lparr>AS_Enabled = True, AS_ConnectionType = ConnectionTypeLocalStdio, AS_Command = ''npx'',
           AS_Args = [''@modelcontextprotocol/server-filesystem'', ''--help''], AS_ImageName = [], AS_ImageVersion = [],
           AS_DefaultEnv = Map.empty, AS_DeploymentMethod = []\<rparr>\<rparr>,
      well_known ''git'' ''Git'' ''MCP server for Git repository operations'' ''@modelcontextprotocol/server-git''
        ''development'' [''git'', ''version-control'', ''repository''],
      well_known ''sqlite'' ''SQLite'' ''MCP server for SQLite database operations'' ''@modelcontextprotocol/server-sqlite''
        ''database'' [''sqlite'', ''database'', ''sql''],
      well_known ''everything'' ''Everything'' ''MCP server providing access to a variety of tools and resources''
        ''@modelcontextprotocol/server-everything'' ''utility'' [''everything'', ''comprehensive'', ''tools'']]"

definition sync_urls :: "string list" where
  "sync_urls = [''https://mcpservers.org/remote-mcp-servers.json'',
     ''https://raw.githubusercontent.com/modelcontextprotocol/registry/main/index.json'',
     ''https://raw.githubusercontent.com/modelcontextprotocol/examples/main/README.md'']"

text \<open>The decoders of a list of servers, of an object with \<open>servers\<close> and of one with \<open>data\<close>; \<open>sy_now\<close> is the time of the \<open>i\<close>-th entry.\<close>

record sync_env =
  sy_send :: "forwarded \<Rightarrow> sent"
  sy_list :: "string \<Rightarrow> (MCPServer list) result"
  sy_servers :: "string \<Rightarrow> (MCPServer list) result"
  sy_data :: "string \<Rightarrow> (MCPServer list) result"
  sy_now :: "nat \<Rightarrow> gotime"
  sy_store :: store_env

definition remote_ID :: "string \<Rightarrow> MCPServer \<Rightarrow> MCPServer" where
  "remote_ID pre server =
     (if Srv_ID server = [] then server\<lparr>Srv_ID := pre @ ''-'' @ ToLower (ReplaceAll (Srv_Name server) '' '' ''-'')\<rparr> else server)"

definition synced_entry :: "string \<Rightarrow> gotime \<Rightarrow> MCPServer \<Rightarrow> MCPServer" where
  "synced_entry url now server =
     remote_ID ''remote'' (server\<lparr>Srv_Meta := (Srv_Meta server)(''source'' \<mapsto> String_value url),
       Srv_ValidationStatus := ''approved'', Srv_DiscoveredAt := now\<rparr>)"

text \<open>The loop over the entries of one source, made ready by \<open>f\<close>; the count of those that were stored.\<close>

fun sync_entries ::
    "'r MCPServerStore \<Rightarrow> sync_env \<Rightarrow> (gotime \<Rightarrow> MCPServer \<Rightarrow> MCPServer) \<Rightarrow> nat \<Rightarrow> MCPServer list \<Rightarrow> int \<Rightarrow> 'r \<Rightarrow> 'r \<times> nat \<times> int" where
  "sync_entries R E f i [] n s = (s, i, n)"
| "sync_entries R E f i (server # servers) n s =
     (case mss_CreateMCPServer R (fst (sy_store E i)) (snd (sy_store E i)) (f (sy_now E i) server) s of
        (s', _, Some err) \<Rightarrow> sync_entries R E f (Suc i) servers n s'
      | (s', _, None) \<Rightarrow> sync_entries R E f (Suc i) servers (n + 1) s')"

definition fetch_servers :: "sync_env \<Rightarrow> string \<Rightarrow> (MCPServer list) result" where
  "fetch_servers E url =
     (case sy_send E (get_url url) of
        Bad_request err \<Rightarrow> Inl (''failed to create request for '' @ url @ '': '' @ err)
      | Unreachable err \<Rightarrow> Inl (''failed to fetch from '' @ url @ '': '' @ err)
      | Answered resp \<Rightarrow>
          if PX_Status resp \<noteq> 200 then Inl (url @ '' returned status '' @ show_int (PX_Status resp))
          else case PX_Error resp of
            Some err \<Rightarrow> Inl (''failed to read response from '' @ url @ '': '' @ err)
          | None \<Rightarrow>
              (case sy_list E (PX_Body resp) of
                 Inr servers \<Rightarrow> Inr servers
               | Inl _ \<Rightarrow>
                   (case sy_servers E (PX_Body resp) of
                      Inr servers \<Rightarrow> Inr servers
                    | Inl _ \<Rightarrow>
                        (case sy_data E (PX_Body resp) of
                           Inr servers \<Rightarrow> Inr servers
                         | Inl err \<Rightarrow> Inl (''failed to parse data from '' @ url @ '': '' @ err)))))"

fun sync_sources ::
    "'r MCPServerStore \<Rightarrow> sync_env \<Rightarrow> nat \<Rightarrow> string list \<Rightarrow> int \<Rightarrow> error \<Rightarrow> 'r \<Rightarrow> 'r \<times> nat \<times> int \<times> error" where
  "sync_sources R E i [] n lastErr s = (s, i, n, lastErr)"
| "sync_sources R E i (url # urls) n lastErr s =
     (case fetch_servers E url of
        Inl err \<Rightarrow> sync_sources R E i urls n err s
      | Inr servers \<Rightarrow>
          (case sync_entries R E (synced_entry url) i servers n s of (s', i', n') \<Rightarrow> sync_sources R E i' urls n' lastErr s'))"

text \<open>A nil \<open>lastErr\<close> is printed as \<open>%!w(<nil>)\<close>.\<close>

definition SyncOfficialRegistry :: "'r MCPServerStore \<Rightarrow> sync_env \<Rightarrow> gotime \<Rightarrow> gotime \<Rightarrow> 'r \<Rightarrow> 'r \<times> error option" where
  "SyncOfficialRegistry R E t t' s =
     (case sync_sources R E 0 sync_urls 0 ''%!w(<nil>)'' s of
        (s1, i, n, lastErr) \<Rightarrow>
          (let (s2, _, n2) =
             (if n = 0 then sync_entries R E (\<lambda>now server. remote_ID ''wellknown'' (server\<lparr>Srv_DiscoveredAt := now\<rparr>)) i (wellKnownServers t t') 0 s1
              else (s1, i, n)) in
           if n2 = 0 then (s2, Some (''failed to sync from any registry or add well-known servers, last error: '' @ lastErr))
           else (s2, None)))"

subsection \<open>Lemmas\<close>

abbreviation memory :: "InMemoryMCPServerStore MCPServerStore" where
  "memory \<equiv> InMemoryMCPServerStore_ops"

definition entry_with_ID :: "string \<Rightarrow> MCPServer \<Rightarrow> MCPServer" where
  "entry_with_ID fresh server = (if Srv_ID server = [] then server\<lparr>Srv_ID := fresh\<rparr> else server)"

lemma memory_create:
  "mss_CreateMCPServer memory e fresh server s =
     (s\<lparr>imss_servers := (imss_servers s)(Srv_ID (entry_with_ID fresh server) \<mapsto> entry_with_ID fresh server)\<rparr>, entry_with_ID fresh server, None)"
  by (simp add: InMemoryMCPServerStore_ops_def InMemoryMCPServerStore_CreateMCPServer_def entry_with_ID_def Let_def)

definition by_ID :: "MCPServer list \<Rightarrow> (string \<rightharpoonup> MCPServer)" where
  "by_ID servers = map_of (rev (map (\<lambda>v. (Srv_ID v, v)) servers))"

lemma by_ID_Cons: "by_ID (v # vs) = [Srv_ID v \<mapsto> v] ++ by_ID vs"
  by (simp add: by_ID_def map_add_def fun_eq_iff map_of_append split: option.split)

lemma memory_store_servers:
  assumes "\<forall>v \<in> set servers. Srv_ID v \<noteq> []"
  shows "imss_servers (store_servers memory es i servers s) = imss_servers s ++ by_ID servers"
  using assms
proof (induction servers arbitrary: i s)
  case Nil
  show ?case by (simp add: by_ID_def)
next
  case (Cons v vs)
  then show ?case
    by (simp add: memory_create entry_with_ID_def by_ID_Cons del: map_add_assoc)
      (simp add: fun_eq_iff map_add_def split: option.split)
qed

lemma memory_sync_entries:
  assumes "\<forall>v \<in> set servers. \<forall>t. Srv_ID (f t v) \<noteq> []" and "sync_entries memory E f i servers n s = (s', i', n')"
  shows "n' = n + int (length servers) \<and>
    imss_servers s' = imss_servers s ++ by_ID (map2 (\<lambda>v j. f (sy_now E j) v) servers [i..<i + length servers])"
  using assms
proof (induction servers arbitrary: i n s)
  case Nil
  then show ?case by (simp add: by_ID_def)
next
  case (Cons v vs)
  have "[i..<i + length (v # vs)] = i # [Suc i..<Suc i + length vs]" by (subst upt_conv_Cons) simp_all
  with Cons show ?case
    by (simp add: memory_create entry_with_ID_def by_ID_Cons del: map_add_assoc upt_Suc)
      (fastforce simp: fun_eq_iff map_add_def split: option.split)
qed

lemma remote_ID_nonempty: "pre \<noteq> [] \<Longrightarrow> Srv_ID (remote_ID pre server) \<noteq> []"
  by (simp add: remote_ID_def)

lemma sync_sources_count: "sync_sources memory E i urls n err s = (s', i', n', err') \<Longrightarrow> n \<le> n'"
proof (induction urls arbitrary: i n err s)
  case (Cons url urls)
  have ne: "\<forall>v \<in> set servers. \<forall>t. Srv_ID (synced_entry url t v) \<noteq> []" for servers
    by (simp add: synced_entry_def remote_ID_nonempty)
  show ?case
  proof (cases "fetch_servers E url")
    case (Inr servers)
    obtain s1 i1 n1 where e: "sync_entries memory E (synced_entry url) i servers n s = (s1, i1, n1)" by (metis prod_cases3)
    from memory_sync_entries [OF ne e] Cons.IH [of i1 n1] Cons.prems Inr e show ?thesis by fastforce
  qed (use Cons in auto)
qed simp

lemma sync_sources_unread:
  "\<forall>url \<in> set urls. \<exists>err. fetch_servers E url = Inl err \<Longrightarrow> \<exists>err'. sync_sources R E i urls n err s = (s, i, n, err')"
  by (induction urls arbitrary: err) auto

subsection \<open>Properties\<close>

text \<open>The configured origins have no effect. Every origin with the scheme \<open>http\<close> or \<open>https\<close> is allowed, with credentials, whatever
  \<open>CORS_ALLOWED_ORIGINS\<close> says.\<close>

theorem cors_list_is_ignored:
  assumes "origin \<noteq> []" and "parse origin = Inr scheme" and "scheme \<in> {''http'', ''https''}"
  shows "(''Access-Control-Allow-Origin'', origin) \<in> set (CORSMiddleware_headers parse allowed origin) \<and>
    (''Access-Control-Allow-Credentials'', ''true'') \<in> set (CORSMiddleware_headers parse allowed origin)"
  using assms by (auto simp: CORSMiddleware_headers_def isOriginAllowed_def Let_def)

text \<open>A key opens the service. A request that a route with a key is for, and that is no preflight, gets to the route exactly if no keys
  are configured or it has one of them, up to the spaces around it, in \<open>X-API-Key\<close>; no user is ever asked for.\<close>

theorem service_key_opens:
  assumes "mux_longest (HQ_Path q) None registry_mux = Some (pattern, route)" and "needs_key route" and "HQ_Method q \<noteq> ''OPTIONS''"
  shows "registry_serve validKeys q = Route_called route \<longleftrightarrow>
    validKeys = [] \<or> HQ_Header q ''X-API-Key'' \<noteq> [] \<and> HQ_Header q ''X-API-Key'' \<in> TrimSpace ` set (Split validKeys CHR '','')"
  using assms by (auto simp: registry_serve_def APIKeyAuthMiddleware_def list_ex_iff dest!: sym [of "TrimSpace _"])

text \<open>A reload of the service only adds. The servers of the file replace those of the same identifier, and every other server that was
  uploaded stays (the other program, by contrast, clears its registry).\<close>

theorem service_reload_only_adds:
  assumes "handleReloadRemoteServers memory es F config s = (s', 200, r)" and "RC_RemoteServersFile config \<noteq> []"
    and "sf_read F (RC_RemoteServersFile config) = Inr data"
    and "(if HasSuffix (RC_RemoteServersFile config) ''.yaml'' \<or> HasSuffix (RC_RemoteServersFile config) ''.yml''
      then sf_yaml F data else sf_json F data) = Inr servers"
    and "\<forall>v \<in> set servers. Srv_ID v \<noteq> []"
  shows "imss_servers s' = imss_servers s ++ by_ID servers"
proof -
  have "s' = store_servers memory es 0 servers s"
    using assms(1-4) by (auto simp: handleReloadRemoteServers_def loadServersFromFile_def split: if_splits)
  then show ?thesis using memory_store_servers [OF assms(5)] by simp
qed

text \<open>Synchronising the service's registry never fails: some server is always added, and when no source can be read these are the four
  that the source names, next to the servers that were there.\<close>

theorem sync_never_fails:
  assumes "SyncOfficialRegistry memory E t t' s = (s', err)"
  shows "err = None \<and>
    ((\<forall>url \<in> set sync_urls. \<exists>e. fetch_servers E url = Inl e) \<longrightarrow>
     dom (imss_servers s') = dom (imss_servers s) \<union> {''filesystem'', ''git'', ''sqlite'', ''everything''} \<and>
     (\<forall>k. k \<notin> {''filesystem'', ''git'', ''sqlite'', ''everything''} \<longrightarrow> imss_servers s' k = imss_servers s k))"
proof -
  obtain s1 i n lastErr where src: "sync_sources memory E 0 sync_urls 0 ''%!w(<nil>)'' s = (s1, i, n, lastErr)" by (metis prod_cases4)
  let ?f = "\<lambda>now server. remote_ID ''wellknown'' (server\<lparr>Srv_DiscoveredAt := now\<rparr>)"
  obtain s2 i2 n2 where known: "sync_entries memory E ?f i (wellKnownServers t t') 0 s1 = (s2, i2, n2)" by (metis prod_cases3)
  have "\<forall>v \<in> set (wellKnownServers t t'). \<forall>now. Srv_ID (?f now v) \<noteq> []" by (simp add: remote_ID_nonempty)
  note m = memory_sync_entries [OF this known]
  have four: "n2 = 4" using m by (simp add: wellKnownServers_def)
  have "0 \<le> n" using sync_sources_count [OF src] by simp
  then have "err = None" and s': "n = 0 \<Longrightarrow> s' = s2"
    using assms by (auto simp: SyncOfficialRegistry_def src known four split: if_splits)
  moreover have "dom (imss_servers s') = dom (imss_servers s) \<union> {''filesystem'', ''git'', ''sqlite'', ''everything''} \<and>
      (\<forall>k. k \<notin> {''filesystem'', ''git'', ''sqlite'', ''everything''} \<longrightarrow> imss_servers s' k = imss_servers s k)"
    if "\<forall>url \<in> set sync_urls. \<exists>e. fetch_servers E url = Inl e"
  proof -
    have s1: "s1 = s" "n = 0" using sync_sources_unread [OF that, of memory 0 0 "''%!w(<nil>)''" s] src by auto
    have u: "[i..<i + 4] = [i, i + 1, i + 2, i + 3]" by (simp add: upt_rec)
    have "dom (by_ID (map2 (\<lambda>v j. ?f (sy_now E j) v) (wellKnownServers t t') [i..<i + length (wellKnownServers t t')])) =
        {''filesystem'', ''git'', ''sqlite'', ''everything''}"
      by (auto simp: by_ID_def dom_map_of_conv_image_fst wellKnownServers_def u well_known_def remote_ID_def zero_MCPServer_def)
    then show ?thesis using m s' s1 by (auto simp: map_add_dom_app_simps)
  qed
  ultimately show ?thesis by blast
qed

subsection \<open>Examples\<close>

theorem cors_list_is_ignored_witness:
  "(''Access-Control-Allow-Origin'', ''https://evil'') \<in>
     set (CORSMiddleware_headers (\<lambda>u. Inr ''https'') ''https://ours'' ''https://evil'')"
  using cors_list_is_ignored [of "''https://evil''" "\<lambda>u. Inr ''https''" "''https''" "''https://ours''"] by simp

definition ex_service_request :: "string \<Rightarrow> string \<Rightarrow> http_request" where
  "ex_service_request m key = \<lparr>HQ_Method = m, HQ_Path = ''/api/v1/registry/git'',
     HQ_Header = (\<lambda>k. if k = ''X-API-Key'' then key else []), HQ_Body = []\<rparr>"

lemma ex_service_route:
  "mux_longest ''/api/v1/registry/git'' None registry_mux = Some (''/api/v1/registry/'', Server_by_ID)"
  by code_simp

theorem service_key_opens_witness:
  "registry_serve ''k1, k2'' (ex_service_request ''DELETE'' ''k2'') = Route_called Server_by_ID"
proof -
  have q: "HQ_Path (ex_service_request ''DELETE'' ''k2'') = ''/api/v1/registry/git''"
    "HQ_Method (ex_service_request ''DELETE'' ''k2'') = ''DELETE''" "HQ_Header (ex_service_request ''DELETE'' ''k2'') ''X-API-Key'' = ''k2''"
    by (simp_all add: ex_service_request_def)
  have "''k2'' \<in> TrimSpace ` set (Split ''k1, k2'' CHR '','')"
    by (rule image_eqI [of _ _ "'' k2''"]) (simp_all add: TrimSpace_def is_space_def)
  then show ?thesis
    using service_key_opens [of "ex_service_request ''DELETE'' ''k2''" "''/api/v1/registry/''" Server_by_ID "''k1, k2''"]
    by (simp add: q ex_service_route needs_key_def)
qed

definition ex_service_files :: server_files where
  "ex_service_files = \<lparr>sf_exists = (\<lambda>p. True), sf_read = (\<lambda>p. Inr []), sf_yaml = (\<lambda>d. Inr [zero_MCPServer\<lparr>Srv_ID := ''a''\<rparr>]),
     sf_json = (\<lambda>d. Inl [])\<rparr>"

definition ex_registry_config :: RegistryConfig where
  "ex_registry_config = registry_main_config (\<lambda>n. []) (\<lambda>s. Inl [])"

lemma ex_registry_file: "HasSuffix ''config/comprehensive_mcp_servers.yaml'' ''.yaml''"
  by code_simp

theorem service_reload_only_adds_witness:
  "imss_servers (fst (handleReloadRemoteServers memory (\<lambda>i. (ex_env, [])) ex_service_files ex_registry_config
     \<lparr>imss_servers = [''b'' \<mapsto> zero_MCPServer\<lparr>Srv_ID := ''b''\<rparr>]\<rparr>)) ''b'' \<noteq> None"
proof -
  let ?s = "\<lparr>imss_servers = [''b'' \<mapsto> zero_MCPServer\<lparr>Srv_ID := ''b''\<rparr>]\<rparr>"
  obtain s' r where r: "handleReloadRemoteServers memory (\<lambda>i. (ex_env, [])) ex_service_files ex_registry_config ?s = (s', 200, r)"
    by (simp add: handleReloadRemoteServers_def loadServersFromFile_def ex_registry_config_def registry_main_config_def
        ex_service_files_def ex_registry_file)
  have "imss_servers s' = imss_servers ?s ++ by_ID [zero_MCPServer\<lparr>Srv_ID := ''a''\<rparr>]"
    by (rule service_reload_only_adds [OF r, where data = "[]"])
      (simp_all add: ex_registry_config_def registry_main_config_def ex_service_files_def ex_registry_file)
  then show ?thesis using r by (simp add: by_ID_def)
qed

definition ex_offline :: sync_env where
  "ex_offline = \<lparr>sy_send = (\<lambda>f. Unreachable ''no route''), sy_list = (\<lambda>b. Inl []), sy_servers = (\<lambda>b. Inl []), sy_data = (\<lambda>b. Inl []),
     sy_now = (\<lambda>i. 0), sy_store = (\<lambda>i. (ex_env, []))\<rparr>"

theorem sync_never_fails_witness:
  "dom (imss_servers (fst (SyncOfficialRegistry memory ex_offline 0 0 NewInMemoryMCPServerStore))) =
     {''filesystem'', ''git'', ''sqlite'', ''everything''}"
proof -
  have "\<forall>url \<in> set sync_urls. \<exists>e. fetch_servers ex_offline url = Inl e" by (simp add: fetch_servers_def ex_offline_def)
  with sync_never_fails [OF prod.collapse [symmetric], of ex_offline 0 0 NewInMemoryMCPServerStore] show ?thesis
    by (simp add: NewInMemoryMCPServerStore_def)
qed

end
