(* ===== verification/RegistrySources.thy ===== *)
theory RegistrySources
  imports RegistryService
begin

section \<open>Registry sources\<close>

text \<open>
  \<open>internal/service/registry_manager.go\<close>: the manager of registry entries with sources of its own, whose credentials are in secrets of
  the cluster. The program does not use it; it is kept beside the manager of \<open>internal/handlers\<close> (\<open>Registry\<close>). A secret, a file, the
  parser of URLs and the decoders are parameters. The manager's configuration other than the custom sources is never read.
\<close>

record RegistrySourceAuth =
  RSA_Type :: string
  RSA_SecretName :: string
  RSA_SecretKey :: string

record RegistrySourceConfig =
  RSC_URL :: string
  RSC_Auth :: "RegistrySourceAuth option"

subsection \<open>Servers of the official registry\<close>

definition text_at :: "(string \<rightharpoonup> any) \<Rightarrow> string \<Rightarrow> string" where
  "text_at m k = (case Option.bind (m k) any_string of None \<Rightarrow> [] | Some x \<Rightarrow> x)"

definition objects :: "any list \<Rightarrow> (string \<rightharpoonup> any) list" where
  "objects xs = List.map_filter any_map xs"

definition official_variable :: "(string \<rightharpoonup> any) \<Rightarrow> EnvironmentVariable" where
  "official_variable envMap = \<lparr>EV_Name = text_at envMap ''name'', EV_Description = text_at envMap ''description'', EV_Format = [],
     EV_IsSecret = (Option.bind (envMap ''isSecret'') any_bool = Some True), EV_Default = []\<rparr>"

definition official_package :: "(string \<rightharpoonup> any) \<Rightarrow> Package" where
  "official_package pkgMap =
     \<lparr>Pkg_RegistryType = text_at pkgMap ''registryType'', Pkg_Identifier = text_at pkgMap ''identifier'',
      Pkg_Transport = \<lparr>Tr_Type = (case Option.bind (pkgMap ''transport'') any_map of None \<Rightarrow> [] | Some t \<Rightarrow> text_at t ''type'')\<rparr>,
      Pkg_EnvironmentVariables = (case Option.bind (pkgMap ''environmentVariables'') any_slice of
        None \<Rightarrow> [] | Some xs \<Rightarrow> map official_variable (objects xs))\<rparr>"

definition parseOfficialServer :: "(string \<rightharpoonup> any) \<Rightarrow> MCPServer result" where
  "parseOfficialServer data =
     (case Option.bind (data ''server'') any_map of
        None \<Rightarrow> Inl ''invalid server data format''
      | Some serverData \<Rightarrow> Inr (zero_MCPServer\<lparr>
          Srv_Meta := (case Option.bind (data ''_meta'') any_map of None \<Rightarrow> Map.empty | Some m \<Rightarrow> m),
          Srv_ID := text_at serverData ''name'', Srv_Name := text_at serverData ''name'',
          Srv_Description := text_at serverData ''description'', Srv_Version := text_at serverData ''version'',
          Srv_Repository := (case Option.bind (serverData ''repository'') any_map of
             None \<Rightarrow> \<lparr>Repo_URL = [], Repo_Source = []\<rparr>
           | Some r \<Rightarrow> \<lparr>Repo_URL = text_at r ''url'', Repo_Source = text_at r ''source''\<rparr>),
          Srv_Packages := (case Option.bind (serverData ''packages'') any_slice of
             None \<Rightarrow> [] | Some xs \<Rightarrow> map official_package (objects xs))\<rparr>))"

subsection \<open>Sources\<close>

text \<open>\<open>sc_parse\<close> gives the scheme and the path of a URL, \<open>sc_secret\<close> the data of a secret if there is a client for the cluster,
  \<open>sc_new_request\<close> the error of making a request, \<open>sc_list\<close> and \<open>sc_wrapped\<close> decode a list of servers and an object with one (an element
  may be nil), \<open>sc_now\<close> is the time of the \<open>i\<close>-th entry.\<close>

record source_env =
  sc_parse :: "string \<Rightarrow> (string \<times> string) result"
  sc_namespace :: string
  sc_secret :: "(string \<Rightarrow> string \<Rightarrow> (string \<rightharpoonup> string) result) option"
  sc_read :: "string \<Rightarrow> string result"
  sc_new_request :: "string \<Rightarrow> error option"
  sc_send :: "forwarded \<Rightarrow> sent"
  sc_list :: "string \<Rightarrow> (MCPServer option list) result"
  sc_wrapped :: "string \<Rightarrow> (MCPServer option list) result"
  sc_now :: "nat \<Rightarrow> gotime"
  sc_store :: store_env

text \<open>Errors of the store are only logged.\<close>

fun source_entries :: "(nat \<Rightarrow> gotime) \<Rightarrow> nat \<Rightarrow> MCPServer list \<Rightarrow> MCPServer list" where
  "source_entries now i [] = []"
| "source_entries now i (entry # entries) =
     entry\<lparr>Srv_ValidationStatus := ''uploaded'', Srv_DiscoveredAt := now i\<rparr> # source_entries now (Suc i) entries"

definition RegistryManager_UploadRegistryEntries :: "'r MCPServerStore \<Rightarrow> source_env \<Rightarrow> MCPServer list \<Rightarrow> 'r \<Rightarrow> 'r" where
  "RegistryManager_UploadRegistryEntries R E entries s = store_servers R (sc_store E) 0 (source_entries (sc_now E) 0 entries) s"

definition source_token :: "source_env \<Rightarrow> RegistrySourceConfig \<Rightarrow> string result" where
  "source_token E source =
     (case RSC_Auth source of
        None \<Rightarrow> Inr []
      | Some auth \<Rightarrow>
          if RSA_SecretName auth = [] \<or> RSA_SecretKey auth = [] then Inr []
          else (case sc_secret E of
            None \<Rightarrow> Inl (''kubernetes client is not configured to fetch auth token for source: '' @ RSC_URL source)
          | Some secret \<Rightarrow>
              (let namespace = (if sc_namespace E = [] then ''default'' else sc_namespace E) in
               case secret namespace (RSA_SecretName auth) of
                 Inl err \<Rightarrow> Inl (''failed to get secret '' @ namespace @ ''/'' @ RSA_SecretName auth @ '' for registry source '' @
                   RSC_URL source @ '': '' @ err)
               | Inr data \<Rightarrow>
                   (case data (RSA_SecretKey auth) of
                      None \<Rightarrow> Inl (''secret '' @ namespace @ ''/'' @ RSA_SecretName auth @ '' does not contain key '' @ RSA_SecretKey auth @
                        '' for registry source '' @ RSC_URL source)
                    | Some token \<Rightarrow> Inr token))))"

definition source_headers :: "string \<Rightarrow> string \<Rightarrow> (string \<rightharpoonup> string list) result" where
  "source_headers authToken authType =
     (let h = header_Set ''Pragma'' ''no-cache'' (header_Set ''Cache-Control'' ''no-cache, no-store, must-revalidate'' Map.empty) in
      if authToken = [] then Inr h
      else if ToLower authType = ''basic'' then Inr (header_Set ''Authorization'' (''Basic '' @ authToken) h)
      else if ToLower authType = ''bearer'' \<or> ToLower authType = [] then Inr (header_Set ''Authorization'' (''Bearer '' @ authToken) h)
      else Inl (''unsupported authentication type for HTTP source: '' @ authType))"

definition loadFromHTTP :: "source_env \<Rightarrow> string \<Rightarrow> string \<Rightarrow> string \<Rightarrow> string result" where
  "loadFromHTTP E url authToken authType =
     (case sc_new_request E url of
        Some err \<Rightarrow> Inl (''failed to create HTTP request: '' @ err)
      | None \<Rightarrow>
          (case source_headers authToken authType of
             Inl err \<Rightarrow> Inl err
           | Inr h \<Rightarrow>
               (case sc_send E \<lparr>FW_Method = ''GET'', FW_URL = url, FW_Header = h, FW_Body = []\<rparr> of
                  Bad_request err \<Rightarrow> Inl err
                | Unreachable err \<Rightarrow> Inl err
                | Answered resp \<Rightarrow>
                    if PX_Status resp \<noteq> 200 then Inl (''HTTP request failed with status '' @ show_int (PX_Status resp))
                    else (case PX_Error resp of Some err \<Rightarrow> Inl err | None \<Rightarrow> Inr (PX_Body resp)))))"

text \<open>What is loaded; \<open>None\<close> is the panic for a source on the network without \<open>auth\<close>, whose type is read nevertheless.\<close>

definition source_data :: "source_env \<Rightarrow> RegistrySourceConfig \<Rightarrow> string result option" where
  "source_data E source =
     (case sc_parse E (RSC_URL source) of
        Inl err \<Rightarrow> Some (Inl (''invalid source URL: '' @ err))
      | Inr (scheme, path) \<Rightarrow>
          (case source_token E source of
             Inl err \<Rightarrow> Some (Inl err)
           | Inr authToken \<Rightarrow>
               (let wrap = (\<lambda>r. case r of Inl err \<Rightarrow> Inl (''failed to load from source: '' @ err) | Inr data \<Rightarrow> Inr data) in
                if scheme = ''file'' then Some (wrap (sc_read E path))
                else if scheme = ''http'' \<or> scheme = ''https'' then
                  map_option (\<lambda>auth. wrap (loadFromHTTP E (RSC_URL source) authToken (RSA_Type auth))) (RSC_Auth source)
                else Some (Inl (''unsupported source scheme: '' @ scheme)))))"

definition RegistryManager_LoadFromCustomSource ::
    "'r MCPServerStore \<Rightarrow> source_env \<Rightarrow> RegistrySourceConfig \<Rightarrow> 'r \<Rightarrow> 'r \<times> error option option" where
  "RegistryManager_LoadFromCustomSource R E source s =
     (case source_data E source of
        None \<Rightarrow> (s, None)
      | Some (Inl err) \<Rightarrow> (s, Some (Some err))
      | Some (Inr data) \<Rightarrow>
          (case (case sc_list E data of Inr entries \<Rightarrow> Inr entries | Inl _ \<Rightarrow> sc_wrapped E data) of
             Inl err \<Rightarrow> (s, Some (Some (''failed to parse registry data: '' @ err)))
           | Inr entries \<Rightarrow>
               (RegistryManager_UploadRegistryEntries R E (fst (non_nil entries)) s, if snd (non_nil entries) then Some None else None)))"

text \<open>Source after source, each in an environment of its own; \<open>False\<close> after a panic.\<close>

fun load_sources :: "'r MCPServerStore \<Rightarrow> (nat \<Rightarrow> source_env) \<Rightarrow> nat \<Rightarrow> RegistrySourceConfig list \<Rightarrow> 'r \<Rightarrow> 'r \<times> bool" where
  "load_sources R E i [] s = (s, True)"
| "load_sources R E i (source # sources) s =
     (case RegistryManager_LoadFromCustomSource R (E i) source s of
        (s', None) \<Rightarrow> (s', False)
      | (s', Some err) \<Rightarrow> load_sources R E (Suc i) sources s')"

record sources_file =
  sx_path :: string
  sx_read :: "string \<Rightarrow> string result"
  sx_decode :: "string \<Rightarrow> (RegistrySourceConfig list) result"

text \<open>The sources of the file, if there is one that can be read, are appended to those of the manager.\<close>

definition SyncAllSources ::
    "'r MCPServerStore \<Rightarrow> (nat \<Rightarrow> source_env) \<Rightarrow> sources_file \<Rightarrow> RegistrySourceConfig list \<Rightarrow> 'r \<Rightarrow>
     RegistrySourceConfig list \<times> 'r \<times> bool" where
  "SyncAllSources R E F customSources s =
     (let fromFile =
        (if sx_path F = [] then []
         else case sx_read F (sx_path F) of
           Inl err \<Rightarrow> []
         | Inr data \<Rightarrow> (case sx_decode F data of Inl err \<Rightarrow> [] | Inr sources \<Rightarrow> sources));
          sources = customSources @ fromFile
      in (sources, load_sources R E 0 sources s))"

subsection \<open>Search\<close>

definition RegistryManager_matchesFilters :: "MCPServer \<Rightarrow> string \<Rightarrow> (string \<rightharpoonup> any) \<Rightarrow> bool" where
  "RegistryManager_matchesFilters server query filters =
     ((query = [] \<or> Contains (ToLower (Srv_Name server)) (ToLower query) \<or> Contains (ToLower (Srv_Description server)) (ToLower query)) \<and>
      (let ok = (\<lambda>k P. case Option.bind (filters k) any_string of None \<Rightarrow> True | Some v \<Rightarrow> P v) in
       ok ''transport'' (\<lambda>v. list_ex (\<lambda>pkg. Tr_Type (Pkg_Transport pkg) = v) (Srv_Packages server)) \<and>
       ok ''registryType'' (\<lambda>v. list_ex (\<lambda>pkg. Pkg_RegistryType pkg = v) (Srv_Packages server)) \<and>
       ok ''validationStatus'' (\<lambda>v. Srv_ValidationStatus server = v)))"

definition RegistryManager_SearchServers ::
    "'r MCPServerStore \<Rightarrow> string list \<Rightarrow> string \<Rightarrow> (string \<rightharpoonup> any) \<Rightarrow> 'r \<Rightarrow> MCPServer list" where
  "RegistryManager_SearchServers R ks query filters s =
     filter (\<lambda>server. RegistryManager_matchesFilters server query filters) (mss_ListMCPServers R ks s)"

subsection \<open>Properties\<close>

text \<open>Several synchronisations in a row.\<close>

fun sync_times ::
    "'r MCPServerStore \<Rightarrow> (nat \<Rightarrow> nat \<Rightarrow> source_env) \<Rightarrow> sources_file \<Rightarrow> nat \<Rightarrow> RegistrySourceConfig list \<times> 'r \<Rightarrow>
     RegistrySourceConfig list \<times> 'r" where
  "sync_times R E F 0 (sources, s) = (sources, s)"
| "sync_times R E F (Suc n) (sources, s) =
     (case SyncAllSources R (E n) F sources s of (sources', s', _) \<Rightarrow> sync_times R E F n (sources', s'))"

text \<open>Every synchronisation repeats the sources of the file. They are appended to the manager's own, which are never shortened: at the
  \<open>n\<close>-th synchronisation every source of the file is loaded \<open>n\<close> times.\<close>

theorem syncs_repeat_sources:
  assumes "sx_path F \<noteq> []" and "sx_read F (sx_path F) = Inr data" and "sx_decode F data = Inr fromFile"
  shows "fst (sync_times R E F n (sources, s)) = sources @ concat (replicate n fromFile)"
proof (induction n arbitrary: sources s)
  case (Suc n)
  obtain s' ok where "SyncAllSources R (E n) F sources s = (sources @ fromFile, s', ok)"
    using assms by (cases "load_sources R (E n) 0 (sources @ fromFile) s") (simp add: SyncAllSources_def)
  then show ?case using Suc.IH [of "sources @ fromFile" s'] by simp
qed simp

text \<open>A source on the network must have an \<open>auth\<close>. One without panics before anything is fetched, and the sources behind it
  are not loaded; the type of the authentication is read though there is none.\<close>

theorem open_network_source_panics:
  assumes "sc_parse (E i) (RSC_URL source) = Inr (scheme, path)" and "scheme \<in> {''http'', ''https''}" and "RSC_Auth source = None"
  shows "load_sources R E i (source # sources) s = (s, False)"
  using assms by (auto simp: RegistryManager_LoadFromCustomSource_def source_data_def source_token_def Let_def)

lemma Contains_append: "Contains a q \<or> Contains b q \<Longrightarrow> Contains (a @ b) q"
  by (auto simp: Contains_def sublist_append)

text \<open>The two searches. What this manager finds the manager of the handlers finds too, for filters with texts as values and without a
  source.\<close>

theorem search_is_narrower:
  assumes "ran filters \<subseteq> range String_value" and "filters ''source'' = None"
  shows "set (RegistryManager_SearchServers R ks query filters s) \<subseteq> set (SearchServers R ks query (Some filters) s)"
proof -
  have found: "Contains (search_text server) q"
    if "Contains (ToLower (Srv_Name server)) q \<or> Contains (ToLower (Srv_Description server)) q" for server q
    using that unfolding search_text_def ToLower_append by (blast intro: Contains_append)
  have val: "filters k = None \<or> (\<exists>x. filters k = Some (String_value x))" for k
    using assms(1) by (cases "filters k") (auto simp: ran_def)
  have "matchesFilters server (Some filters)" if m: "RegistryManager_matchesFilters server query filters" for server
    using val [of "''transport''"] val [of "''registryType''"] val [of "''validationStatus''"]
    by (elim disjE exE)
      (use m assms(2) in \<open>simp_all add: RegistryManager_matchesFilters_def matchesFilters_def Let_def list_ex_iff\<close>)
  then show ?thesis
    by (auto simp: RegistryManager_SearchServers_def SearchServers_def intro!: found) (auto simp: RegistryManager_matchesFilters_def)
qed

subsection \<open>Examples\<close>

definition ex_sources_file :: sources_file where
  "ex_sources_file = \<lparr>sx_path = ''/sources.json'', sx_read = (\<lambda>p. Inr []), sx_decode = (\<lambda>d. Inr [\<lparr>RSC_URL = ''http://s'', RSC_Auth = None\<rparr>])\<rparr>"

definition ex_source_env :: source_env where
  "ex_source_env = \<lparr>sc_parse = (\<lambda>u. Inr (''http'', [])), sc_namespace = [], sc_secret = None, sc_read = (\<lambda>p. Inl []),
     sc_new_request = (\<lambda>u. None), sc_send = (\<lambda>f. Unreachable []), sc_list = (\<lambda>d. Inl []), sc_wrapped = (\<lambda>d. Inl []),
     sc_now = (\<lambda>i. 0), sc_store = (\<lambda>i. (ex_env, []))\<rparr>"

theorem syncs_repeat_sources_witness:
  "length (fst (sync_times memory (\<lambda>n i. ex_source_env) ex_sources_file 3 ([], NewInMemoryMCPServerStore))) = 3"
proof -
  have "sx_path ex_sources_file \<noteq> []" "sx_read ex_sources_file (sx_path ex_sources_file) = Inr []"
    "sx_decode ex_sources_file [] = Inr [\<lparr>RSC_URL = ''http://s'', RSC_Auth = None\<rparr>]"
    by (simp_all add: ex_sources_file_def)
  from syncs_repeat_sources [OF this, of memory "\<lambda>n i. ex_source_env" 3 "[]" NewInMemoryMCPServerStore] show ?thesis
    by (simp add: eval_nat_numeral)
qed

theorem open_network_source_panics_witness:
  "load_sources memory (\<lambda>i. ex_source_env) 0 [\<lparr>RSC_URL = ''http://s'', RSC_Auth = None\<rparr>] NewInMemoryMCPServerStore =
     (NewInMemoryMCPServerStore, False)"
  by (rule open_network_source_panics [where scheme = "''http''" and path = "[]"]) (simp_all add: ex_source_env_def)

theorem search_is_narrower_witness:
  "set (RegistryManager_SearchServers memory [''a''] ''a'' Map.empty \<lparr>imss_servers = [''a'' \<mapsto> zero_MCPServer\<lparr>Srv_Name := ''a''\<rparr>]\<rparr>) \<subseteq>
   set (SearchServers memory [''a''] ''a'' (Some Map.empty) \<lparr>imss_servers = [''a'' \<mapsto> zero_MCPServer\<lparr>Srv_Name := ''a''\<rparr>]\<rparr>)"
  by (rule search_is_narrower) simp_all

end
