(* ===== verification/CapabilityClient.thy ===== *)
theory CapabilityClient
  imports Registry SidecarManager
begin

section \<open>The discovery of the capabilities of an adapter's server\<close>

text \<open>
  \<open>internal/service/mcp_discovery.go\<close>: the client that the management service asks what the server of an adapter can do.
  The JSON of a request is \<open>marshal\<close>, \<open>unmarshal\<close> reads the JSON of an answer (\<open>null\<close> is the empty map), \<open>send\<close> is the
  client. A type assertion without its second result panics when the value has another type: \<open>None\<close>.
\<close>

type_synonym 'a or_panic = "'a option"

record discovery_net =
  dn_marshal :: "any \<Rightarrow> string"
  dn_unmarshal :: "string \<Rightarrow> (string \<rightharpoonup> any) result"
  dn_send :: "forwarded \<Rightarrow> sent"

subsection \<open>Values of maps\<close>

definition mds_getString :: "(string \<rightharpoonup> any) \<Rightarrow> string \<Rightarrow> string \<Rightarrow> string" where
  "mds_getString m key defaultValue =
     (case Option.bind (m key) any_string of Some v \<Rightarrow> v | None \<Rightarrow> defaultValue)"

definition mds_getBool :: "(string \<rightharpoonup> any) \<Rightarrow> string \<Rightarrow> bool \<Rightarrow> bool" where
  "mds_getBool m key defaultValue =
     (case Option.bind (m key) any_bool of Some v \<Rightarrow> v | None \<Rightarrow> defaultValue)"

definition mds_getInt :: "(string \<rightharpoonup> any) \<Rightarrow> string \<Rightarrow> int \<Rightarrow> int" where
  "mds_getInt m key defaultValue =
     (case Option.bind (m key) any_float of Some v \<Rightarrow> int_of_float v | None \<Rightarrow> defaultValue)"

text \<open>What a map has under a key, \<open>nil\<close> if nothing.\<close>

definition index :: "(string \<rightharpoonup> any) \<Rightarrow> string \<Rightarrow> any" where
  "index m k = (case m k of None \<Rightarrow> Nil_value | Some v \<Rightarrow> v)"

subsection \<open>Requests\<close>

definition mds_request :: "int \<Rightarrow> string \<Rightarrow> (string \<rightharpoonup> any) \<Rightarrow> any" where
  "mds_request n method params = Object [''jsonrpc'' \<mapsto> String_value ''2.0'', ''id'' \<mapsto> Int_value n,
     ''method'' \<mapsto> String_value method, ''params'' \<mapsto> Object params]"

definition mds_headers :: "AdapterAuthConfig option \<Rightarrow> (string \<rightharpoonup> string list)" where
  "mds_headers auth =
     (let h = [''Content-Type'' \<mapsto> [''application/json''], ''Accept'' \<mapsto> [''application/json, text/event-stream'']] in
      case auth of
        None \<Rightarrow> h
      | Some a \<Rightarrow>
          if AAC_Required a \<and> AAC_Type a = ''bearer'' then
            (case AAC_BearerToken a of
               Some t \<Rightarrow> if BT_Token t \<noteq> [] then h(''Authorization'' \<mapsto> [''Bearer '' @ BT_Token t]) else h
             | None \<Rightarrow> h)
          else h)"

definition sendMCPRequest ::
    "discovery_net \<Rightarrow> string \<Rightarrow> any \<Rightarrow> AdapterAuthConfig option \<Rightarrow> (string \<rightharpoonup> any) result or_panic" where
  "sendMCPRequest N mcpURL request auth =
     (case dn_send N \<lparr>FW_Method = ''POST'', FW_URL = mcpURL, FW_Header = mds_headers auth, FW_Body = dn_marshal N request\<rparr> of
        Bad_request err \<Rightarrow> Some (Inl (''failed to create HTTP request: '' @ err))
      | Unreachable err \<Rightarrow> Some (Inl (''failed to send request: '' @ err))
      | Answered resp \<Rightarrow>
          (case PX_Error resp of
             Some err \<Rightarrow> Some (Inl (''failed to read response: '' @ err))
           | None \<Rightarrow>
               if PX_Status resp \<ge> 400
               then Some (Inl (''MCP server returned status '' @ show_int (PX_Status resp) @ '': '' @ PX_Body resp))
               else (case dn_unmarshal N (PX_Body resp) of
                  Inl err \<Rightarrow> Some (Inl (''failed to parse response: '' @ err))
                | Inr response \<Rightarrow>
                    (case index response ''error'' of
                       Nil_value \<Rightarrow> Some (Inr response)
                     | Object errorData \<Rightarrow>
                         Some (Inl (''MCP server error (code '' @ show_int (mds_getInt errorData ''code'' (-1)) @ ''): '' @
                           mds_getString errorData ''message'' ''Unknown error''))
                     | _ \<Rightarrow> None))))"

text \<open>The beginning of the four requests: the result of the answer.\<close>

definition request_result ::
    "discovery_net \<Rightarrow> string \<Rightarrow> AdapterAuthConfig option \<Rightarrow> string \<Rightarrow> any \<Rightarrow> (string \<rightharpoonup> any) result or_panic" where
  "request_result N mcpURL auth what request =
     (case sendMCPRequest N mcpURL request auth of
        None \<Rightarrow> None
      | Some (Inl err) \<Rightarrow> Some (Inl err)
      | Some (Inr response) \<Rightarrow>
          (case index response ''result'' of
             Nil_value \<Rightarrow> Some (Inl (what @ '' response missing result''))
           | Object r \<Rightarrow> Some (Inr r)
           | _ \<Rightarrow> None))"

definition initializeServer ::
    "discovery_net \<Rightarrow> string \<Rightarrow> AdapterAuthConfig option \<Rightarrow> MCPServerInfo result or_panic" where
  "initializeServer N mcpURL auth =
     (case request_result N mcpURL auth ''initialize''
         (mds_request 1 ''initialize'' [''protocolVersion'' \<mapsto> String_value ''2024-11-05'', ''capabilities'' \<mapsto> Object Map.empty,
            ''clientInfo'' \<mapsto> Object [''name'' \<mapsto> String_value ''mcp-discovery'', ''version'' \<mapsto> String_value ''1.0.0'']]) of
        None \<Rightarrow> None
      | Some (Inl err) \<Rightarrow> Some (Inl err)
      | Some (Inr r) \<Rightarrow>
          (case any_map (index r ''serverInfo'') of
             None \<Rightarrow> Some (Inl ''server info not found in initialize response'')
           | Some info \<Rightarrow> Some (Inr
               \<lparr>MSI_Name = mds_getString info ''name'' ''Unknown Server'', MSI_Version = mds_getString info ''version'' ''unknown'',
                MSI_Protocol = mds_getString info ''protocol'' ''unknown'',
                MSI_Capabilities = (case any_map (index info ''capabilities'') of Some caps \<Rightarrow> caps | None \<Rightarrow> Map.empty)\<rparr>)))"

text \<open>The three loops over the entries of a list: an entry that is no map is left out.\<close>

definition mds_entries :: "((string \<rightharpoonup> any) \<Rightarrow> 'a) \<Rightarrow> any \<Rightarrow> 'a list" where
  "mds_entries entry v =
     (case any_slice v of None \<Rightarrow> [] | Some xs \<Rightarrow> List.map_filter (\<lambda>x. map_option entry (any_map x)) xs)"

definition mds_list ::
    "discovery_net \<Rightarrow> string \<Rightarrow> AdapterAuthConfig option \<Rightarrow> int \<Rightarrow> string \<Rightarrow> string \<Rightarrow> ((string \<rightharpoonup> any) \<Rightarrow> 'a) \<Rightarrow>
     'a list result or_panic" where
  "mds_list N mcpURL auth n method key entry =
     (case request_result N mcpURL auth method (mds_request n method Map.empty) of
        None \<Rightarrow> None
      | Some (Inl err) \<Rightarrow> Some (Inl err)
      | Some (Inr r) \<Rightarrow> Some (Inr (mds_entries entry (index r key))))"

definition mds_tool :: "(string \<rightharpoonup> any) \<Rightarrow> MCPTool" where
  "mds_tool m = \<lparr>MT_Name = mds_getString m ''name'' [], MT_Description = mds_getString m ''description'' [],
     MT_InputSchema = (case any_map (index m ''inputSchema'') of Some schema \<Rightarrow> schema | None \<Rightarrow> Map.empty),
     MT_SourceType = [], MT_Config = Map.empty\<rparr>"

definition mds_argument :: "(string \<rightharpoonup> any) \<Rightarrow> MCPArgument" where
  "mds_argument m = \<lparr>MA_Name = mds_getString m ''name'' [], MA_Description = mds_getString m ''description'' [],
     MA_Required = mds_getBool m ''required'' False\<rparr>"

definition mds_prompt :: "(string \<rightharpoonup> any) \<Rightarrow> MCPPrompt" where
  "mds_prompt m = \<lparr>MP_Name = mds_getString m ''name'' [], MP_Description = mds_getString m ''description'' [],
     MP_Arguments = mds_entries mds_argument (index m ''arguments'')\<rparr>"

definition mds_resource :: "(string \<rightharpoonup> any) \<Rightarrow> MCPResource" where
  "mds_resource m = \<lparr>MR_URI = mds_getString m ''uri'' [], MR_Name = mds_getString m ''name'' [],
     MR_Description = mds_getString m ''description'' [], MR_MimeType = mds_getString m ''mimeType'' []\<rparr>"

definition discoverTools :: "discovery_net \<Rightarrow> string \<Rightarrow> AdapterAuthConfig option \<Rightarrow> MCPTool list result or_panic" where
  "discoverTools N mcpURL auth = mds_list N mcpURL auth 2 ''tools/list'' ''tools'' mds_tool"

definition discoverPrompts :: "discovery_net \<Rightarrow> string \<Rightarrow> AdapterAuthConfig option \<Rightarrow> MCPPrompt list result or_panic" where
  "discoverPrompts N mcpURL auth = mds_list N mcpURL auth 3 ''prompts/list'' ''prompts'' mds_prompt"

definition discoverResources :: "discovery_net \<Rightarrow> string \<Rightarrow> AdapterAuthConfig option \<Rightarrow> MCPResource list result or_panic" where
  "discoverResources N mcpURL auth = mds_list N mcpURL auth 4 ''resources/list'' ''resources'' mds_resource"

definition getMCPURL :: "AdapterResource \<Rightarrow> string result" where
  "getMCPURL adapter =
     (if AD_ConnectionType adapter = ConnectionTypeRemoteHttp then
        (if AD_RemoteUrl adapter = [] then Inl ''remote URL is required for RemoteHttp connection type''
         else (let url = TrimSuffix (AD_RemoteUrl adapter) ''/'' in
               Inr (if HasSuffix url ''/mcp'' then url else url @ ''/mcp'')))
      else if AD_ConnectionType adapter = ConnectionTypeStreamableHttp
      then Inr (''http://localhost:8911/adapters/'' @ AD_Name adapter @ ''/mcp'')
      else Inl (''unsupported connection type for MCP discovery: '' @ AD_ConnectionType adapter))"

text \<open>A list that cannot be had is empty; \<open>now\<close> is the reading of the clock at the end.\<close>

abbreviation or_none :: "'a list result \<Rightarrow> 'a list" where
  "or_none r \<equiv> (case r of Inl err \<Rightarrow> [] | Inr xs \<Rightarrow> xs)"

definition mds_DiscoverCapabilities :: "discovery_net \<Rightarrow> gotime \<Rightarrow> AdapterResource \<Rightarrow> MCPFunctionality result or_panic" where
  "mds_DiscoverCapabilities N now adapter =
     (case getMCPURL adapter of
        Inl err \<Rightarrow> Some (Inl (''failed to determine MCP URL: '' @ err))
      | Inr url \<Rightarrow>
          let auth = AD_Authentication adapter in
          (case initializeServer N url auth of
             None \<Rightarrow> None
           | Some (Inl err) \<Rightarrow> Some (Inl (''failed to initialize MCP server: '' @ err))
           | Some (Inr serverInfo) \<Rightarrow>
               Option.bind (discoverTools N url auth) (\<lambda>tools.
               Option.bind (discoverPrompts N url auth) (\<lambda>prompts.
               Option.bind (discoverResources N url auth) (\<lambda>resources.
                 Some (Inr \<lparr>MF_ServerInfo = serverInfo, MF_Tools = or_none tools, MF_Prompts = or_none prompts,
                   MF_Resources = or_none resources, MF_LastRefreshed = now\<rparr>))))))"


subsection \<open>What is discovered\<close>

text \<open>The JSON of a tool, as a server writes it.\<close>

definition tool_object :: "MCPTool \<Rightarrow> any" where
  "tool_object t = Object [''name'' \<mapsto> String_value (MT_Name t), ''description'' \<mapsto> String_value (MT_Description t),
     ''inputSchema'' \<mapsto> Object (MT_InputSchema t)]"

lemma mds_tool_object: "mds_tool (the (any_map (tool_object t))) = t\<lparr>MT_SourceType := [], MT_Config := Map.empty\<rparr>"
  by (cases t) (simp add: tool_object_def mds_tool_def mds_getString_def index_def)

lemma mds_entries_objects:
  "mds_entries mds_tool (Slice (map tool_object ts)) = map (\<lambda>t. t\<lparr>MT_SourceType := [], MT_Config := Map.empty\<rparr>) ts"
proof -
  note tool = mds_tool_object [unfolded tool_object_def, simplified]
  have "List.map_filter (\<lambda>x. map_option mds_tool (any_map x)) (map tool_object ts) =
      map (\<lambda>t. t\<lparr>MT_SourceType := [], MT_Config := Map.empty\<rparr>) ts"
    by (induction ts) (simp_all add: List.map_filter_simps tool_object_def tool)
  then show ?thesis by (simp add: mds_entries_def)
qed

lemma answered_result:
  assumes "dn_send N \<lparr>FW_Method = ''POST'', FW_URL = url, FW_Header = mds_headers auth, FW_Body = dn_marshal N request\<rparr> =
      Answered \<lparr>PX_Status = 200, PX_Header = h, PX_Body = body, PX_Error = None\<rparr>"
    and "dn_unmarshal N body = Inr response" and "response ''error'' = None"
  shows "request_result N url auth what request =
    (case index response ''result'' of Nil_value \<Rightarrow> Some (Inl (what @ '' response missing result''))
     | Object r \<Rightarrow> Some (Inr r) | _ \<Rightarrow> None)"
  using assms by (simp add: request_result_def sendMCPRequest_def index_def)

text \<open>The tools that a server lists are the tools that are discovered, with their names, descriptions and schemas, in
  the order of the list.\<close>

theorem listed_tools_are_discovered:
  assumes "\<And>q. FW_Body q = dn_marshal N (mds_request 2 ''tools/list'' Map.empty) \<Longrightarrow>
      dn_send N q = Answered \<lparr>PX_Status = 200, PX_Header = Map.empty, PX_Body = body, PX_Error = None\<rparr>"
    and "dn_unmarshal N body = Inr [''result'' \<mapsto> Object [''tools'' \<mapsto> Slice (map tool_object ts)]]"
  shows "discoverTools N url auth = Some (Inr (map (\<lambda>t. t\<lparr>MT_SourceType := [], MT_Config := Map.empty\<rparr>) ts))"
proof -
  have sent: "dn_send N \<lparr>FW_Method = ''POST'', FW_URL = url, FW_Header = mds_headers auth,
        FW_Body = dn_marshal N (mds_request 2 ''tools/list'' Map.empty)\<rparr> =
      Answered \<lparr>PX_Status = 200, PX_Header = Map.empty, PX_Body = body, PX_Error = None\<rparr>"
    by (rule assms(1)) simp
  show ?thesis
    unfolding discoverTools_def mds_list_def
    by (subst answered_result [OF sent assms(2)]) (simp_all add: index_def mds_entries_objects)
qed

text \<open>A server whose answer to the initialization has a result that is no object makes the discovery panic.\<close>

theorem malformed_result_panics:
  assumes "getMCPURL adapter = Inr url"
    and "\<And>q. FW_URL q = url \<Longrightarrow>
      dn_send N q = Answered \<lparr>PX_Status = 200, PX_Header = Map.empty, PX_Body = body, PX_Error = None\<rparr>"
    and "dn_unmarshal N body = Inr [''result'' \<mapsto> v]"
    and "v \<noteq> Nil_value" and "any_map v = None"
  shows "mds_DiscoverCapabilities N now adapter = None"
proof -
  have "request_result N url (AD_Authentication adapter) what request = None" for what request
    by (subst answered_result [OF assms(2) assms(3)]) (use assms(4,5) in \<open>cases v; simp add: index_def\<close>)+
  then show ?thesis by (simp add: mds_DiscoverCapabilities_def assms(1) initializeServer_def)
qed

text \<open>A server that answers every request with one text.\<close>

definition ex_text_net :: "string \<Rightarrow> (string \<rightharpoonup> any) \<Rightarrow> discovery_net" where
  "ex_text_net body m = \<lparr>dn_marshal = (\<lambda>v. ''{}''), dn_unmarshal = (\<lambda>t. Inr m),
     dn_send = (\<lambda>q. Answered \<lparr>PX_Status = 200, PX_Header = Map.empty, PX_Body = body, PX_Error = None\<rparr>)\<rparr>"

definition ex_remote :: AdapterResource where
  "ex_remote = AdapterResource_Create 0 [] (zero_AdapterData\<lparr>AD_Name := ''search'',
     AD_ConnectionType := ConnectionTypeRemoteHttp, AD_RemoteUrl := ''http://search:8000/''\<rparr>) ''ann'' 0"

lemma ex_remote_URL: "getMCPURL ex_remote = Inr ''http://search:8000/mcp''"
  by code_simp

theorem malformed_result_panics_witness:
  "mds_DiscoverCapabilities (ex_text_net ''x'' [''result'' \<mapsto> String_value ''ok'']) 5 ex_remote = None"
  by (rule malformed_result_panics [OF ex_remote_URL, where v = "String_value ''ok''" and body = "''x''"])
    (simp_all add: ex_text_net_def)

definition ex_tool :: MCPTool where
  "ex_tool = \<lparr>MT_Name = ''grep'', MT_Description = ''finds lines'', MT_InputSchema = Map.empty, MT_SourceType = [],
     MT_Config = Map.empty\<rparr>"

theorem listed_tools_are_discovered_witness:
  "discoverTools (ex_text_net ''x'' [''result'' \<mapsto> Object [''tools'' \<mapsto> Slice [tool_object ex_tool]]]) ''http://search:8000/mcp'' None =
     Some (Inr [ex_tool])"
proof -
  have "discoverTools (ex_text_net ''x'' [''result'' \<mapsto> Object [''tools'' \<mapsto> Slice [tool_object ex_tool]]]) ''http://search:8000/mcp'' None =
      Some (Inr (map (\<lambda>t. t\<lparr>MT_SourceType := [], MT_Config := Map.empty\<rparr>) [ex_tool]))"
    by (rule listed_tools_are_discovered [where body = "''x''"]) (simp_all add: ex_text_net_def)
  then show ?thesis by (simp add: ex_tool_def)
qed

end
