(* ===== verification/Management.thy ===== *)
theory Management
  imports CapabilityClient
begin

section \<open>The management service\<close>

text \<open>
  \<open>internal/service/management.go\<close> and \<open>session.go\<close>, over \<open>pkg/clients/kubernetes_wrapper.go\<close>: another set of handlers
  for adapters, which deploys them itself. No program installs it. The state is the store of adapters, whose operations are
  \<open>A\<close>, the sessions and the cluster, whose state is a type variable. \<open>user\<close> and \<open>userId\<close> are what the middleware put under
  these keys of the request, empty if nothing; \<open>es i\<close> is what the runtime gives to the \<open>i\<close>-th call of the store. A handler
  that panics gives \<open>None\<close>; \<open>CreateAdapter\<close> recovers.
\<close>

subsection \<open>The wrapper of the Kubernetes client\<close>

record stateful_set =
  SS_Name :: string
  SS_Labels :: "string \<rightharpoonup> string"
  SS_ServiceName :: string
  SS_Replicas :: int
  SS_MatchLabels :: "string \<rightharpoonup> string"
  SS_PodLabels :: "string \<rightharpoonup> string"
  SS_ContainerName :: string
  SS_Image :: string
  SS_ImagePullPolicy :: string
  SS_ContainerPort :: int
  SS_ContainerProtocol :: string
  SS_Env :: "(string \<times> string) list"
  SS_Limits :: "string \<rightharpoonup> string"
  SS_Requests :: "string \<rightharpoonup> string"

record headless_service =
  HS_Name :: string
  HS_ClusterIP :: string
  HS_Selector :: "string \<rightharpoonup> string"
  HS_Port :: int
  HS_TargetPort :: int
  HS_Protocol :: string

text \<open>What is read of a stateful set: the images of its containers, its replicas and those that are ready, updated and
  available. A pod is its name and its conditions, with type and status.\<close>

record stateful_status =
  ST_Images :: "string list"
  ST_Replicas :: "int option"
  ST_Ready :: int
  ST_Updated :: int
  ST_Available :: int

type_synonym pod = "string \<times> (string \<times> string) list"

text \<open>The client. Creating fails with an error and whether it is \<open>AlreadyExists\<close>; the logs are what is read until an error.\<close>

record 'c clientset =
  cs_CreateStatefulSet :: "stateful_set \<Rightarrow> string \<Rightarrow> 'c \<Rightarrow> 'c \<times> (bool \<times> error) option"
  cs_UpdateStatefulSet :: "stateful_set \<Rightarrow> string \<Rightarrow> 'c \<Rightarrow> 'c \<times> error option"
  cs_CreateService :: "headless_service \<Rightarrow> string \<Rightarrow> 'c \<Rightarrow> 'c \<times> (bool \<times> error) option"
  cs_UpdateService :: "headless_service \<Rightarrow> string \<Rightarrow> 'c \<Rightarrow> 'c \<times> error option"
  cs_GetStatefulSet :: "string \<Rightarrow> string \<Rightarrow> 'c \<Rightarrow> stateful_status result"
  cs_DeleteStatefulSet :: "string \<Rightarrow> string \<Rightarrow> 'c \<Rightarrow> 'c \<times> error option"
  cs_ListPods :: "string \<Rightarrow> string \<Rightarrow> string \<Rightarrow> 'c \<Rightarrow> pod list result"
  cs_Logs :: "string \<Rightarrow> int \<Rightarrow> string \<Rightarrow> 'c \<Rightarrow> string result"

definition upsert ::
    "('c \<Rightarrow> 'c \<times> (bool \<times> error) option) \<Rightarrow> ('c \<Rightarrow> 'c \<times> error option) \<Rightarrow> 'c \<Rightarrow> 'c \<times> error option" where
  "upsert create update c =
     (case create c of
        (c', Some (True, err)) \<Rightarrow> update c'
      | (c', r) \<Rightarrow> (c', map_option snd r))"

definition UpsertStatefulSet :: "'c clientset \<Rightarrow> stateful_set \<Rightarrow> string \<Rightarrow> 'c \<Rightarrow> 'c \<times> error option" where
  "UpsertStatefulSet K ss namespace = upsert (cs_CreateStatefulSet K ss namespace) (cs_UpdateStatefulSet K ss namespace)"

definition UpsertService :: "'c clientset \<Rightarrow> headless_service \<Rightarrow> string \<Rightarrow> 'c \<Rightarrow> 'c \<times> error option" where
  "UpsertService K svc namespace = upsert (cs_CreateService K svc namespace) (cs_UpdateService K svc namespace)"

definition ReadStatefulSet :: "'c clientset \<Rightarrow> string \<Rightarrow> string \<Rightarrow> 'c \<Rightarrow> stateful_status result" where
  "ReadStatefulSet K name namespace c = cs_GetStatefulSet K name namespace c"

definition DeleteStatefulSet :: "'c clientset \<Rightarrow> string \<Rightarrow> string \<Rightarrow> 'c \<Rightarrow> 'c \<times> error option" where
  "DeleteStatefulSet K name namespace c = cs_DeleteStatefulSet K name namespace c"

definition GetContainerLogStream :: "'c clientset \<Rightarrow> string \<Rightarrow> int \<Rightarrow> string \<Rightarrow> 'c \<Rightarrow> string result" where
  "GetContainerLogStream K podName lines namespace c =
     (case cs_Logs K podName lines namespace c of
        Inl err \<Rightarrow> Inl (''failed to get logs: '' @ err) | Inr logData \<Rightarrow> Inr logData)"

subsection \<open>Deployment\<close>

definition adapter_set :: "string list \<Rightarrow> AdapterData \<Rightarrow> stateful_set" where
  "adapter_set ks data =
     \<lparr>SS_Name = AD_Name data, SS_Labels = [''app'' \<mapsto> AD_Name data, ''type'' \<mapsto> ''mcp-adapter''],
      SS_ServiceName = AD_Name data @ ''-service'', SS_Replicas = int32 (AD_ReplicaCount data),
      SS_MatchLabels = [''app'' \<mapsto> AD_Name data], SS_PodLabels = [''app'' \<mapsto> AD_Name data, ''type'' \<mapsto> ''mcp-adapter''],
      SS_ContainerName = AD_Name data @ ''-container'', SS_Image = AD_ImageName data @ '':'' @ AD_ImageVersion data,
      SS_ImagePullPolicy = ''Always'', SS_ContainerPort = 8000, SS_ContainerProtocol = ''TCP'',
      SS_Env = map (\<lambda>k. (k, the (AD_EnvironmentVariables data k))) (filter (\<lambda>k. AD_EnvironmentVariables data k \<noteq> None) ks),
      SS_Limits = [''cpu'' \<mapsto> ''1'', ''memory'' \<mapsto> ''512Mi''],
      SS_Requests = [''cpu'' \<mapsto> ''250m'', ''memory'' \<mapsto> ''256Mi'']\<rparr>"

definition adapter_service_of :: "AdapterData \<Rightarrow> headless_service" where
  "adapter_service_of data = \<lparr>HS_Name = AD_Name data @ ''-service'', HS_ClusterIP = ''None'',
     HS_Selector = [''app'' \<mapsto> AD_Name data], HS_Port = 8000, HS_TargetPort = 8000, HS_Protocol = ''TCP''\<rparr>"

definition deployAdapter :: "'c clientset \<Rightarrow> string list \<Rightarrow> AdapterData \<Rightarrow> 'c \<Rightarrow> 'c \<times> error option" where
  "deployAdapter K ks data c =
     (case UpsertStatefulSet K (adapter_set ks data) ''adapter'' c of
        (c1, Some err) \<Rightarrow> (c1, Some (''failed to create StatefulSet: '' @ err))
      | (c1, None) \<Rightarrow>
          (case UpsertService K (adapter_service_of data) ''adapter'' c1 of
             (c2, Some err) \<Rightarrow> (c2, Some (''failed to create Service: '' @ err))
           | (c2, None) \<Rightarrow> (c2, None)))"

definition isPodReady :: "pod \<Rightarrow> bool" where
  "isPodReady p = list_ex (\<lambda>(t, status). t = ''Ready'' \<and> status = ''True'') (snd p)"

text \<open>Without a client the wrapper is \<open>nil\<close> and the call panics.\<close>

definition getPodAddresses :: "'c clientset option \<Rightarrow> string \<Rightarrow> 'c \<Rightarrow> string list result or_panic" where
  "getPodAddresses kube adapterName c =
     (case kube of
        None \<Rightarrow> None
      | Some K \<Rightarrow> Some
          (case cs_ListPods K ''adapter'' (''app='' @ adapterName @ '',type=mcp-adapter'') ''status.phase=Running'' c of
             Inl err \<Rightarrow> Inl (''failed to list pods: '' @ err)
           | Inr pods \<Rightarrow> Inr (map (\<lambda>p. ''http://'' @ fst p @ ''.'' @ adapterName @ ''-service.adapter.svc.cluster.local:8000'')
               (filter isPodReady pods))))"

definition deleteDeployment :: "'c clientset option \<Rightarrow> string \<Rightarrow> 'c \<Rightarrow> 'c \<times> error option" where
  "deleteDeployment kube name c =
     (case kube of None \<Rightarrow> (c, None) | Some K \<Rightarrow> DeleteStatefulSet K name ''adapter'' c)"

definition local_status :: AdapterStatus where
  "local_status = \<lparr>AS_ReadyReplicas = Some 1, AS_UpdatedReplicas = Some 1, AS_AvailableReplicas = Some 1,
     AS_Image = ''local-development'', AS_ReplicaStatus = ''Running (local mode)''\<rparr>"

definition getDeploymentStatus :: "'c clientset option \<Rightarrow> string \<Rightarrow> 'c \<Rightarrow> AdapterStatus result or_panic" where
  "getDeploymentStatus kube name c =
     (case kube of
        None \<Rightarrow> Some (Inr local_status)
      | Some K \<Rightarrow>
          (case ReadStatefulSet K name ''adapter'' c of
             Inl err \<Rightarrow> Some (Inl (''failed to get StatefulSet: '' @ err))
           | Inr sts \<Rightarrow>
               (case ST_Images sts of
                  [] \<Rightarrow> None
                | img # imgs \<Rightarrow> Some (Inr
                    \<lparr>AS_ReadyReplicas = Some (ST_Ready sts), AS_UpdatedReplicas = Some (ST_Updated sts),
                     AS_AvailableReplicas = Some (ST_Available sts), AS_Image = img,
                     AS_ReplicaStatus = (case ST_Replicas sts of
                        None \<Rightarrow> []
                      | Some n \<Rightarrow> if ST_Ready sts = n then ''Healthy''
                          else ''Degraded: '' @ show_int (ST_Ready sts) @ ''/'' @ show_int n @ '' ready'')\<rparr>))))"

text \<open>\<open>now\<close> is the time as RFC 3339 text.\<close>

definition getDeploymentLogs :: "'c clientset option \<Rightarrow> string \<Rightarrow> string \<Rightarrow> int \<Rightarrow> 'c \<Rightarrow> string result" where
  "getDeploymentLogs kube now name ordinal c =
     (case kube of
        None \<Rightarrow> Inr (''Mock logs for adapter '' @ name @ '' (running in local development mode)'' @ [CHR 0x0A] @ ''Started at: '' @
          now @ [CHR 0x0A] @ ''Status: Running'' @ [CHR 0x0A] @ ''No actual container logs available.'')
      | Some K \<Rightarrow> GetContainerLogStream K (name @ ''-'' @ show_int ordinal) 1000 ''adapter'' c)"

definition needsDeploymentUpdate :: "AdapterResource \<Rightarrow> AdapterData \<Rightarrow> bool" where
  "needsDeploymentUpdate existing new \<longleftrightarrow>
     AD_ReplicaCount existing \<noteq> AD_ReplicaCount new \<or> AD_ImageName existing \<noteq> AD_ImageName new \<or>
     AD_ImageVersion existing \<noteq> AD_ImageVersion new"

subsection \<open>Handlers\<close>

record ('s, 'c) ManagementService =
  ms_store :: 's
  ms_sessions :: InMemorySessionStore
  ms_cluster :: 'c

datatype management_payload =
  MGP_adapter AdapterResource | MGP_adapters "AdapterResource list" | MGP_status AdapterStatus | MGP_none

type_synonym management_reply = "int \<times> (string + management_payload)"

record CreateAdapterBody =
  CAB_Name :: string
  CAB_ImageName :: string
  CAB_ImageVersion :: string
  CAB_Protocol :: string
  CAB_ConnectionType :: string
  CAB_EnvironmentVariables :: "string \<rightharpoonup> string"
  CAB_ReplicaCount :: int
  CAB_Description :: string
  CAB_UseWorkloadIdentity :: bool
  CAB_RemoteUrl :: string
  CAB_Command :: string
  CAB_Args :: "string list"
  CAB_MCPClientConfig :: MCPClientConfig
  CAB_Authentication :: "AdapterAuthConfig option"

definition created_data :: "CreateAdapterBody \<Rightarrow> AdapterData" where
  "created_data req = zero_AdapterData
     \<lparr>AD_Name := CAB_Name req, AD_ImageName := CAB_ImageName req, AD_ImageVersion := CAB_ImageVersion req,
      AD_Protocol := (if CAB_Protocol req = [] then ServerProtocolMCP else CAB_Protocol req),
      AD_ConnectionType := (if CAB_ConnectionType req = [] then ConnectionTypeStreamableHttp else CAB_ConnectionType req),
      AD_EnvironmentVariables := CAB_EnvironmentVariables req,
      AD_ReplicaCount := (if CAB_ReplicaCount req = 0 then 1 else CAB_ReplicaCount req),
      AD_Description := CAB_Description req, AD_UseWorkloadIdentity := CAB_UseWorkloadIdentity req,
      AD_RemoteUrl := CAB_RemoteUrl req, AD_Command := CAB_Command req, AD_Args := CAB_Args req,
      AD_MCPClientConfig := CAB_MCPClientConfig req, AD_Authentication := CAB_Authentication req\<rparr>"

text \<open>The pattern \<open>^[a-z0-9-]+$\<close>.\<close>

definition valid_adapter_name :: "string \<Rightarrow> bool" where
  "valid_adapter_name name \<longleftrightarrow>
     name \<noteq> [] \<and> list_all (\<lambda>c. let n = (of_char c :: nat) in 97 \<le> n \<and> n \<le> 122 \<or> 48 \<le> n \<and> n \<le> 57 \<or> n = 45) name"

definition invalid_data :: "AdapterData \<Rightarrow> error option" where
  "invalid_data data =
     (let t = AD_ConnectionType data in
      if t = ConnectionTypeRemoteHttp then
        (if AD_RemoteUrl data = [] then Some ''RemoteUrl is required for RemoteHttp adapters'' else None)
      else if t = ConnectionTypeLocalStdio then
        (if AD_Command data = [] \<and> MCC_MCPServers (AD_MCPClientConfig data) = Map.empty
         then Some ''Either command or mcpClientConfig is required for LocalStdio adapters'' else None)
      else if t = ConnectionTypeSSE \<or> t = ConnectionTypeStreamableHttp then
        (if AD_ImageName data = [] then Some ''ImageName is required for K8s adapters'' else None)
      else None)"

abbreviation kube_type :: "string \<Rightarrow> bool" where
  "kube_type t \<equiv> t = ConnectionTypeSSE \<or> t = ConnectionTypeStreamableHttp"

abbreviation discoverable_type :: "string \<Rightarrow> bool" where
  "discoverable_type t \<equiv> t = ConnectionTypeRemoteHttp \<or> t = ConnectionTypeStreamableHttp"

text \<open>The times and orders a handler gets from the runtime: of the creation, of the record's update, of the discovery; of the
  loops over configured servers and over the environment.\<close>

record handler_env =
  he_now :: gotime
  he_now' :: gotime
  he_now'' :: gotime
  he_servers :: "string list"
  he_vars :: "string list"
  he_store :: env

text \<open>A pointer to the data's map of variables is in the resource too, so what is deployed has the variables that
  \<open>Create\<close> adds.\<close>

definition deploy_created ::
    "'c clientset option \<Rightarrow> handler_env \<Rightarrow> AdapterData \<Rightarrow> AdapterResource \<Rightarrow> 'c \<Rightarrow> 'c \<times> error option" where
  "deploy_created kube e data resource c =
     (if kube_type (AD_ConnectionType data) then
        (case kube of
           Some K \<Rightarrow> deployAdapter K (he_vars e) (data\<lparr>AD_EnvironmentVariables := AD_EnvironmentVariables resource\<rparr>) c
         | None \<Rightarrow> (c, None))
      else (c, None))"

text \<open>The resource with what is discovered; \<open>None\<close> is a panic.\<close>

definition with_functionality :: "AdapterResource \<Rightarrow> MCPFunctionality result \<Rightarrow> AdapterResource" where
  "with_functionality a r = (case r of Inl err \<Rightarrow> a | Inr functionality \<Rightarrow> a\<lparr>AD_MCPFunctionality := Some functionality\<rparr>)"

lemma with_functionality_simps [simp]:
  "AR_ID (with_functionality a r) = AR_ID a" "AR_CreatedBy (with_functionality a r) = AR_CreatedBy a"
  "AD_Authentication (with_functionality a r) = AD_Authentication a"
  by (simp_all add: with_functionality_def split: sum.split)

definition discover_created :: "discovery_net \<Rightarrow> gotime \<Rightarrow> AdapterResource \<Rightarrow> AdapterResource or_panic" where
  "discover_created N now resource =
     (if discoverable_type (AD_ConnectionType resource) then
        map_option (with_functionality resource) (mds_DiscoverCapabilities N now resource)
      else Some resource)"

definition create_valid ::
    "'s AdapterResourceStore \<Rightarrow> 'c clientset option \<Rightarrow> discovery_net \<Rightarrow> handler_env \<Rightarrow> string \<Rightarrow> AdapterData \<Rightarrow>
     ('s, 'c) ManagementService \<Rightarrow> ('s, 'c) ManagementService \<times> management_reply" where
  "create_valid A kube N e user data st =
     (let resource = AdapterResource_Create (he_now' e) (he_servers e) data user (he_now e) in
      case deploy_created kube e data resource (ms_cluster st) of
        (c, Some err) \<Rightarrow> (st\<lparr>ms_cluster := c\<rparr>, 500, Inl (''Failed to deploy adapter: '' @ err))
      | (c, None) \<Rightarrow>
          (case discover_created N (he_now'' e) resource of
             None \<Rightarrow> (st\<lparr>ms_cluster := c\<rparr>, 500, Inl ''Internal server error'')
           | Some resource' \<Rightarrow>
               (case ars_UpsertAsync A (he_store e) resource' (ms_store st) of
                  (s, Some err) \<Rightarrow> (st\<lparr>ms_cluster := c, ms_store := s\<rparr>, 500, Inl (''Failed to store adapter: '' @ err))
                | (s, None) \<Rightarrow> (st\<lparr>ms_cluster := c, ms_store := s\<rparr>, 201, Inr (MGP_adapter resource')))))"

definition Management_CreateAdapter ::
    "'s AdapterResourceStore \<Rightarrow> 'c clientset option \<Rightarrow> discovery_net \<Rightarrow> handler_env \<Rightarrow> string \<Rightarrow>
     string result \<Rightarrow> (string \<Rightarrow> CreateAdapterBody result) \<Rightarrow> ('s, 'c) ManagementService \<Rightarrow>
     ('s, 'c) ManagementService \<times> management_reply" where
  "Management_CreateAdapter A kube N e user body read_body st =
     (case body of
        Inl err \<Rightarrow> (st, 400, Inl ''Failed to read request body'')
      | Inr b \<Rightarrow>
          (case read_body b of
             Inl err \<Rightarrow> (st, 400, Inl err)
           | Inr req \<Rightarrow>
               let data = created_data req in
               if \<not> valid_adapter_name (AD_Name data)
               then (st, 400, Inl ''Name must contain only lowercase letters, numbers, and dashes.'')
               else (case invalid_data data of
                  Some err \<Rightarrow> (st, 400, Inl err)
                | None \<Rightarrow>
                    if is_ok (ars_Get A (ms_store st) (AD_Name data))
                    then (st, 400, Inl ''The adapter with the same name already exists.'')
                    else create_valid A kube N e user data st)))"

definition effective_user :: "string \<Rightarrow> string" where
  "effective_user userId = (if userId = [] then ''default-user'' else userId)"

definition Management_ListAdapters ::
    "'s AdapterResourceStore \<Rightarrow> string list \<Rightarrow> string \<Rightarrow> ('s, 'c) ManagementService \<Rightarrow> management_reply" where
  "Management_ListAdapters A ks userId st =
     (case ars_List A ks (ms_store st) (effective_user userId) of
        Inl err \<Rightarrow> (500, Inl err) | Inr adapters \<Rightarrow> (200, Inr (MGP_adapters adapters)))"

definition own_adapter ::
    "'s AdapterResourceStore \<Rightarrow> string \<Rightarrow> string \<Rightarrow> ('s, 'c) ManagementService \<Rightarrow> AdapterResource option" where
  "own_adapter A userId name st =
     (case ars_Get A (ms_store st) name of
        Inl err \<Rightarrow> None
      | Inr adapter \<Rightarrow> if AR_CreatedBy adapter = effective_user userId then Some adapter else None)"

text \<open>\<open>refresh\<close> is the parameter of the query.\<close>

definition Management_GetAdapter ::
    "'s AdapterResourceStore \<Rightarrow> discovery_net \<Rightarrow> handler_env \<Rightarrow> string \<Rightarrow> string \<Rightarrow> string \<Rightarrow> ('s, 'c) ManagementService \<Rightarrow>
     (('s, 'c) ManagementService \<times> management_reply) or_panic" where
  "Management_GetAdapter A N e userId name refresh st =
     (case own_adapter A userId name st of
        None \<Rightarrow> Some (st, 404, Inr MGP_none)
      | Some adapter \<Rightarrow>
          if refresh = ''true'' \<and> discoverable_type (AD_ConnectionType adapter) then
            (case mds_DiscoverCapabilities N (he_now e) adapter of
               None \<Rightarrow> None
             | Some (Inl err) \<Rightarrow> Some (st, 200, Inr (MGP_adapter adapter))
             | Some (Inr functionality) \<Rightarrow>
                 let adapter' = adapter\<lparr>AD_MCPFunctionality := Some functionality\<rparr> in
                 Some (st\<lparr>ms_store := fst (ars_UpsertAsync A (he_store e) adapter' (ms_store st))\<rparr>, 200, Inr (MGP_adapter adapter')))
          else Some (st, 200, Inr (MGP_adapter adapter)))"

text \<open>The body of an update with whether its map of variables is \<open>nil\<close>; if it is, \<open>Create\<close> makes a map that the data does
  not share. An authentication in the body is never the pointer in the store. A rediscovery that fails leaves what the body
  says of the capabilities.\<close>

definition deploy_update ::
    "'c clientset option \<Rightarrow> handler_env \<Rightarrow> AdapterResource \<Rightarrow> AdapterData \<Rightarrow> (string \<rightharpoonup> string) \<Rightarrow> 'c \<Rightarrow>
     'c \<times> error option \<times> bool" where
  "deploy_update kube e existing data vars c =
     (if kube_type (AD_ConnectionType existing) \<and> needsDeploymentUpdate existing data then
        (case kube of
           Some K \<Rightarrow> (case deployAdapter K (he_vars e) (data\<lparr>AD_EnvironmentVariables := vars\<rparr>) c of (c', err) \<Rightarrow> (c', err, True))
         | None \<Rightarrow> (c, None, False))
      else (c, None, False))"

definition rediscover ::
    "discovery_net \<Rightarrow> gotime \<Rightarrow> AdapterResource \<Rightarrow> AdapterData \<Rightarrow> bool \<Rightarrow> AdapterResource \<Rightarrow> AdapterResource or_panic" where
  "rediscover N now existing data deploymentUpdated updated =
     (if (AD_ConnectionType existing \<noteq> AD_ConnectionType data \<or> AD_RemoteUrl existing \<noteq> AD_RemoteUrl data \<or>
          AD_Authentication data \<noteq> None \<or> deploymentUpdated) \<and> discoverable_type (AD_ConnectionType data)
      then map_option (with_functionality updated) (mds_DiscoverCapabilities N now updated)
      else Some (updated\<lparr>AD_MCPFunctionality := AD_MCPFunctionality existing\<rparr>))"

definition Management_UpdateAdapter ::
    "'s AdapterResourceStore \<Rightarrow> 'c clientset option \<Rightarrow> discovery_net \<Rightarrow> handler_env \<Rightarrow> string \<Rightarrow> string \<Rightarrow>
     (AdapterData \<times> bool) result \<Rightarrow> ('s, 'c) ManagementService \<Rightarrow>
     (('s, 'c) ManagementService \<times> management_reply) or_panic" where
  "Management_UpdateAdapter A kube N e userId name body st =
     (case body of
        Inl err \<Rightarrow> Some (st, 400, Inl err)
      | Inr (data, nil_vars) \<Rightarrow>
          if ToLower name \<noteq> ToLower (AD_Name data) then Some (st, 400, Inl ''Adapter name in URL and body must match.'')
          else case own_adapter A userId name st of
            None \<Rightarrow> Some (st, 400, Inl ''The adapter does not exist.'')
          | Some existing \<Rightarrow>
              let updated = AdapterResource_Create (he_now' e) (he_servers e) data (AR_CreatedBy existing) (AR_CreatedAt existing);
                  vars = (if nil_vars then Map.empty else AD_EnvironmentVariables updated)
              in (case deploy_update kube e existing data vars (ms_cluster st) of
                    (c, Some err, _) \<Rightarrow> Some (st\<lparr>ms_cluster := c\<rparr>, 500, Inl (''Failed to update deployment: '' @ err))
                  | (c, None, deploymentUpdated) \<Rightarrow>
                      (case rediscover N (he_now'' e) existing data deploymentUpdated updated of
                         None \<Rightarrow> None
                       | Some updated' \<Rightarrow>
                           (case ars_UpsertAsync A (he_store e) updated' (ms_store st) of
                              (s, Some err) \<Rightarrow> Some (st\<lparr>ms_cluster := c, ms_store := s\<rparr>, 500, Inl err)
                            | (s, None) \<Rightarrow> Some (st\<lparr>ms_cluster := c, ms_store := s\<rparr>, 200, Inr (MGP_adapter updated'))))))"

definition Management_DeleteAdapter ::
    "'s AdapterResourceStore \<Rightarrow> 'c clientset option \<Rightarrow> handler_env \<Rightarrow> string \<Rightarrow> string \<Rightarrow> ('s, 'c) ManagementService \<Rightarrow>
     ('s, 'c) ManagementService \<times> management_reply" where
  "Management_DeleteAdapter A kube e userId name st =
     (case own_adapter A userId name st of
        None \<Rightarrow> (st, 400, Inl ''The adapter does not exist.'')
      | Some adapter \<Rightarrow>
          (case ars_Delete A (he_store e) name (ms_store st) of
             (s, Some err) \<Rightarrow> (st\<lparr>ms_store := s\<rparr>, 500, Inl err)
           | (s, None) \<Rightarrow>
               let st1 = st\<lparr>ms_store := s, ms_sessions := fst (DeleteByAdapter (he_vars e) name (ms_sessions st))\<rparr> in
               if kube_type (AD_ConnectionType adapter) then
                 (case deleteDeployment kube name (ms_cluster st1) of
                    (c, Some err) \<Rightarrow> (st1\<lparr>ms_cluster := c\<rparr>, 500, Inl err)
                  | (c, None) \<Rightarrow> (st1\<lparr>ms_cluster := c\<rparr>, 204, Inr MGP_none))
               else (st1, 204, Inr MGP_none)))"

definition Management_GetAdapterStatus ::
    "'s AdapterResourceStore \<Rightarrow> 'c clientset option \<Rightarrow> string \<Rightarrow> string \<Rightarrow> ('s, 'c) ManagementService \<Rightarrow>
     management_reply or_panic" where
  "Management_GetAdapterStatus A kube userId name st =
     (case own_adapter A userId name st of
        None \<Rightarrow> Some (404, Inl ''Adapter not found'')
      | Some adapter \<Rightarrow>
          if kube_type (AD_ConnectionType adapter) then
            map_option (\<lambda>r. case r of Inl err \<Rightarrow> (500, Inl err) | Inr status \<Rightarrow> (200, Inr (MGP_status status)))
              (getDeploymentStatus kube name (ms_cluster st))
          else Some (200, Inr (MGP_status (status_only ''Available''))))"

text \<open>\<open>session.go\<close>: a bad body is an error of \<open>binding\<close>; \<open>now\<close> names the session, \<open>now'\<close> is when it is made.\<close>

definition ReinitializeSession ::
    "'s AdapterResourceStore \<Rightarrow> gotime \<Rightarrow> gotime \<Rightarrow> error option \<Rightarrow> string \<Rightarrow> 's \<Rightarrow> InMemorySessionStore \<Rightarrow>
     InMemorySessionStore \<times> int \<times> (string + string \<times> string)" where
  "ReinitializeSession A now now' binding name store s =
     (case binding of
        Some err \<Rightarrow> (s, 400, Inl err)
      | None \<Rightarrow>
          (case ars_Get A store name of
             Inl err \<Rightarrow> (s, 404, Inl ''Adapter not found'')
           | Inr adapter \<Rightarrow>
               let sessionID = ''session-'' @ show_int (Unix now) in
               (case SetWithDetails now' sessionID name ''reinitialized'' (AD_ConnectionType adapter) s of
                  (s', Some err) \<Rightarrow> (s', 500, Inl ''Failed to create session'')
                | (s', None) \<Rightarrow> (s', 200, Inr (sessionID, name)))))"

subsection \<open>Management over any store of adapters\<close>

text \<open>What the service assumes of its store, beyond the store's contract: \<open>UpsertAsync\<close> is \<open>Create\<close>, as in both stores.\<close>

locale managed_store =
  adapters: adapter_store "ars_Create A" "ars_Update A" "ars_Delete A" acont "ars_Get A" "ars_List A" "ars_ListAll A"
  for A :: "'a AdapterResourceStore" and acont :: "'a \<Rightarrow> (string \<rightharpoonup> AdapterResource)" +
  assumes upsert_creates: "ars_UpsertAsync A = ars_Create A"
begin

lemma own_adapter_iff:
  "own_adapter A userId name st = Some adapter \<longleftrightarrow>
     acont (ms_store st) name = Some adapter \<and> AR_CreatedBy adapter = effective_user userId"
  by (cases rule: adapters.get_cases [of "ms_store st" name]) (auto simp: own_adapter_def)

lemma discovered_same: "discover_created N now a = Some b \<Longrightarrow>
    AR_ID b = AR_ID a \<and> AR_CreatedBy b = AR_CreatedBy a \<and> AD_Authentication b = AD_Authentication a"
  by (auto simp: discover_created_def split: if_splits)

lemma rediscovered_ID: "rediscover N now existing data d a = Some b \<Longrightarrow> AR_ID b = AR_ID a"
  by (auto simp: rediscover_def split: if_splits)

text \<open>A response that reports success has the adapter stored as it reports it, and nothing else changed.\<close>

lemma create_valid_ok:
  assumes "create_valid A kube N e user data st = (st', 201, r)" and "acont (ms_store st) (AD_Name data) = None"
  obtains a where "r = Inr (MGP_adapter a)" "AR_ID a = AD_Name data" "AR_CreatedBy a = user"
    "AD_Authentication a = AD_Authentication data" "acont (ms_store st') = (acont (ms_store st))(AR_ID a \<mapsto> a)"
proof -
  define resource where "resource = AdapterResource_Create (he_now' e) (he_servers e) data user (he_now e)"
  obtain c failed where c: "deploy_created kube e data resource (ms_cluster st) = (c, failed)" by fastforce
  obtain a where a: "failed = None" "discover_created N (he_now'' e) resource = Some a"
    using assms(1) by (auto simp: create_valid_def resource_def [symmetric] c split: option.splits)
  obtain s err where s: "ars_UpsertAsync A (he_store e) a (ms_store st) = (s, err)" by fastforce
  have "err = None" "r = Inr (MGP_adapter a)" "ms_store st' = s"
    using assms(1) by (auto simp: create_valid_def resource_def [symmetric] c a s split: option.splits)
  moreover have "AR_ID a = AD_Name data" "AR_CreatedBy a = user" "AD_Authentication a = AD_Authentication data"
    using discovered_same [OF a(2)] by (simp_all add: resource_def)
  moreover have "acont s = (acont (ms_store st))(AR_ID a \<mapsto> a)"
    using adapters.create_contents [of "he_store e" a "ms_store st"] s assms(2) \<open>AR_ID a = AD_Name data\<close>
    by (simp add: upsert_creates domIff)
  ultimately show thesis using that by blast
qed

lemma created:
  assumes "Management_CreateAdapter A kube N e user body read_body st = (st', 201, r)"
  obtains a bytes req where "r = Inr (MGP_adapter a)" "valid_adapter_name (AR_ID a)" "AR_CreatedBy a = user"
    "body = Inr bytes" "read_body bytes = Inr req" "AD_Authentication a = CAB_Authentication req"
    "acont (ms_store st) (AR_ID a) = None" "acont (ms_store st') = (acont (ms_store st))(AR_ID a \<mapsto> a)"
proof -
  obtain bytes req where req: "body = Inr bytes" "read_body bytes = Inr req"
      "create_valid A kube N e user (created_data req) st = (st', 201, r)" "valid_adapter_name (AD_Name (created_data req))"
      "acont (ms_store st) (AD_Name (created_data req)) = None"
    using assms by (auto simp: Management_CreateAdapter_def Let_def adapters.get_ok_iff domIff
        split: sum.splits if_splits option.splits)
  from req(3,5) obtain a where "r = Inr (MGP_adapter a)" "AR_ID a = AD_Name (created_data req)" "AR_CreatedBy a = user"
      "AD_Authentication a = AD_Authentication (created_data req)"
      "acont (ms_store st') = (acont (ms_store st))(AR_ID a \<mapsto> a)"
    by (rule create_valid_ok)
  with req show thesis by (intro that [of a bytes req]) (simp_all add: created_data_def)
qed

lemma never_reached:
  assumes "Management_CreateAdapter A kube N e user body read_body st = (st', 201, Inr (MGP_adapter a))"
    and "user \<noteq> effective_user userId"
  shows "own_adapter A userId (AR_ID a) st' = None"
proof -
  obtain a' where a': "Inr (MGP_adapter a) = (Inr (MGP_adapter a') :: string + management_payload)" "AR_CreatedBy a' = user"
      "acont (ms_store st') = (acont (ms_store st))(AR_ID a' \<mapsto> a')"
    using assms(1) by (rule created) blast
  show ?thesis
  proof (cases "own_adapter A userId (AR_ID a) st'")
    case (Some x)
    with a' assms(2) show ?thesis by (simp add: own_adapter_iff)
  qed
qed

text \<open>An update under the name of the adapter is refused by the store.\<close>

lemma updates_fail:
  assumes "Management_UpdateAdapter A kube N e userId name (Inr (data, nil_vars)) st = Some (st', status, r)"
    and "AD_Name data = name"
  shows "status \<noteq> 200 \<and> acont (ms_store st') = acont (ms_store st)"
proof (cases "own_adapter A userId name st")
  case (Some existing)
  then have there: "acont (ms_store st) name \<noteq> None" by (simp add: own_adapter_iff)
  define updated where
    "updated = AdapterResource_Create (he_now' e) (he_servers e) data (AR_CreatedBy existing) (AR_CreatedAt existing)"
  define vars where "vars = (if nil_vars then Map.empty else AD_EnvironmentVariables updated)"
  obtain c failed d where c: "deploy_update kube e existing data vars (ms_cluster st) = (c, failed, d)"
    by (cases "deploy_update kube e existing data vars (ms_cluster st)") auto
  note body = Management_UpdateAdapter_def Some assms(2) Let_def updated_def [symmetric] vars_def [symmetric] c
  show ?thesis
  proof (cases failed)
    case None
    with assms(1) obtain u where u: "rediscover N (he_now'' e) existing data d updated = Some u"
      by (auto simp: body split: option.splits)
    have ID: "AR_ID u = name" using rediscovered_ID [OF u] assms(2) by (simp add: updated_def)
    obtain s err where s: "ars_UpsertAsync A (he_store e) u (ms_store st) = (s, err)" by fastforce
    have "err \<noteq> None" "acont s = acont (ms_store st)"
      using adapters.create_dup [of u "ms_store st" "he_store e"] adapters.create_contents [of "he_store e" u "ms_store st"]
        s there ID by (auto simp: upsert_creates domIff)
    with assms(1) show ?thesis by (auto simp: body None u s)
  qed (use assms(1) in \<open>auto simp: body\<close>)
qed (use assms in \<open>auto simp: Management_UpdateAdapter_def\<close>)

end

lemma upsert_is_create:
  "InMemoryAdapterStore_UpsertAsync = InMemoryAdapterStore_Create" "FileAdapterStore_UpsertAsync = FileAdapterStore_Create"
  by (simp_all add: InMemoryAdapterStore_UpsertAsync_def FileAdapterStore_UpsertAsync_def fun_eq_iff)

interpretation mem_management: managed_store InMemoryAdapterStore_ops imas_adapters
  unfolding managed_store_def managed_store_axioms_def adapter_vtables AdapterResourceStore.simps
  by (intro conjI upsert_is_create; unfold_locales)

interpretation file_management: managed_store FileAdapterStore_ops fs_entries
  unfolding managed_store_def managed_store_axioms_def adapter_vtables AdapterResourceStore.simps
  by (intro conjI upsert_is_create; unfold_locales)

subsection \<open>Properties\<close>

text \<open>What is created cannot be reached. The handler that creates an adapter takes its owner from the key \<open>user\<close> of the
  request; the others take the user from the key \<open>userId\<close>, which nothing sets, and so are asked by \<open>default-user\<close>. A user who has another
  name neither reads, updates nor deletes what the service has just stored for them.\<close>

theorem created_adapters_are_out_of_reach:
  assumes "Management_CreateAdapter InMemoryAdapterStore_ops kube N e user body read_body st = (st', 201, Inr (MGP_adapter a))"
    and "user \<noteq> ''default-user''"
  shows "Management_GetAdapter InMemoryAdapterStore_ops N e' [] (AR_ID a) refresh st' = Some (st', 404, Inr MGP_none)"
    and "Management_DeleteAdapter InMemoryAdapterStore_ops kube e' [] (AR_ID a) st' = (st', 400, Inl ''The adapter does not exist.'')"
    and "ToLower (AR_ID a) = ToLower (AD_Name data) \<Longrightarrow>
      Management_UpdateAdapter InMemoryAdapterStore_ops kube N e' [] (AR_ID a) (Inr (data, nil_vars)) st' =
        Some (st', 400, Inl ''The adapter does not exist.'')"
proof -
  have "own_adapter InMemoryAdapterStore_ops [] (AR_ID a) st' = None"
    using assms by (intro mem_management.never_reached) (simp_all add: effective_user_def)
  then show
    "Management_GetAdapter InMemoryAdapterStore_ops N e' [] (AR_ID a) refresh st' = Some (st', 404, Inr MGP_none)"
    "Management_DeleteAdapter InMemoryAdapterStore_ops kube e' [] (AR_ID a) st' = (st', 400, Inl ''The adapter does not exist.'')"
    "ToLower (AR_ID a) = ToLower (AD_Name data) \<Longrightarrow>
      Management_UpdateAdapter InMemoryAdapterStore_ops kube N e' [] (AR_ID a) (Inr (data, nil_vars)) st' =
        Some (st', 400, Inl ''The adapter does not exist.'')"
    by (simp_all add: Management_GetAdapter_def Management_DeleteAdapter_def Management_UpdateAdapter_def)
qed

text \<open>An update that keeps the adapter's name never succeeds, on stores kept in files too: it asks the store to insert what
  is there. The entries stay as they were, while the deployment may have been changed.\<close>

theorem updates_never_succeed:
  assumes "Management_UpdateAdapter FileAdapterStore_ops kube N e userId name (Inr (data, nil_vars)) st = Some (st', status, r)"
    and "AD_Name data = name"
  shows "status \<noteq> 200 \<and> fs_entries (ms_store st') = fs_entries (ms_store st)"
  using assms by (rule file_management.updates_fail)

subsection \<open>Concrete values\<close>

definition ex_local_body :: CreateAdapterBody where
  "ex_local_body = \<lparr>CAB_Name = ''notes'', CAB_ImageName = [], CAB_ImageVersion = [], CAB_Protocol = [],
     CAB_ConnectionType = ConnectionTypeLocalStdio, CAB_EnvironmentVariables = Map.empty, CAB_ReplicaCount = 0,
     CAB_Description = [], CAB_UseWorkloadIdentity = False, CAB_RemoteUrl = [], CAB_Command = ''notes-server'', CAB_Args = [],
     CAB_MCPClientConfig = \<lparr>MCC_MCPServers = Map.empty\<rparr>, CAB_Authentication = None\<rparr>"

definition ex_handler_env :: handler_env where
  "ex_handler_env = \<lparr>he_now = 0, he_now' = 0, he_now'' = 0, he_servers = [], he_vars = [],
     he_store = \<lparr>env_now = 0, env_now' = 0, env_order = []\<rparr>\<rparr>"

definition ex_management :: "(InMemoryAdapterStore, unit) ManagementService" where
  "ex_management = \<lparr>ms_store = NewInMemoryAdapterStore, ms_sessions = NewInMemorySessionStore, ms_cluster = ()\<rparr>"

definition ex_creation :: "(InMemoryAdapterStore, unit) ManagementService \<times> management_reply" where
  "ex_creation = Management_CreateAdapter InMemoryAdapterStore_ops None (ex_text_net [] Map.empty) ex_handler_env ''ann'' (Inr [])
     (\<lambda>t. Inr ex_local_body) ex_management"

definition ex_created :: AdapterResource where
  "ex_created = AdapterResource_Create 0 [] (created_data ex_local_body) ''ann'' 0"

lemma ex_creation_ok: "snd ex_creation = (201, Inr (MGP_adapter ex_created)) \<and> AR_ID ex_created = ''notes''"
  by (simp add: ex_creation_def Management_CreateAdapter_def create_valid_def deploy_created_def discover_created_def
      created_data_def ex_local_body_def ex_created_def ex_handler_env_def ex_management_def valid_adapter_name_def
      invalid_data_def InMemoryAdapterStore_ops_def InMemoryAdapterStore_Get_def InMemoryAdapterStore_UpsertAsync_def
      InMemoryAdapterStore_Create_def NewInMemoryAdapterStore_def is_ok_def Let_def)

theorem created_adapters_are_out_of_reach_witness:
  "Management_GetAdapter InMemoryAdapterStore_ops (ex_text_net [] Map.empty) ex_handler_env [] ''notes'' [] (fst ex_creation) =
     Some (fst ex_creation, 404, Inr MGP_none)"
proof -
  have "Management_CreateAdapter InMemoryAdapterStore_ops None (ex_text_net [] Map.empty) ex_handler_env ''ann'' (Inr [])
     (\<lambda>t. Inr ex_local_body) ex_management = (fst ex_creation, 201, Inr (MGP_adapter ex_created))"
    using ex_creation_ok by (metis ex_creation_def prod.collapse)
  from created_adapters_are_out_of_reach(1) [OF this] show ?thesis using ex_creation_ok by simp
qed

definition ex_file_management :: "(FileAdapterStore, unit) ManagementService" where
  "ex_file_management = \<lparr>ms_store = (NewFileAdapterStore ''f'' None healthy_disk)\<lparr>fs_entries := [''notes'' \<mapsto> ex_created]\<rparr>,
     ms_sessions = NewInMemorySessionStore, ms_cluster = ()\<rparr>"

definition ex_update where
  "ex_update = Management_UpdateAdapter FileAdapterStore_ops None (ex_text_net [] Map.empty) ex_handler_env ''ann'' ''notes''
     (Inr (created_data ex_local_body, False)) ex_file_management"

lemma ex_update_answers: "\<exists>st status r. ex_update = Some (st, status, r)"
  by (simp add: ex_update_def Management_UpdateAdapter_def own_adapter_def ex_file_management_def FileAdapterStore_ops_def
      FileAdapterStore_Get_def ex_created_def effective_user_def created_data_def ex_local_body_def deploy_update_def
      rediscover_def Let_def split: prod.split option.split)

theorem updates_never_succeed_witness:
  "\<exists>st status r. ex_update = Some (st, status, r) \<and> status \<noteq> 200 \<and> fs_entries (ms_store st) = fs_entries (ms_store ex_file_management)"
proof -
  obtain st status r where run: "ex_update = Some (st, status, r)" using ex_update_answers by blast
  have "AD_Name (created_data ex_local_body) = ''notes''" by (simp add: created_data_def ex_local_body_def)
  from updates_never_succeed [OF run [unfolded ex_update_def] this] run show ?thesis by blast
qed

end
