(* ===== verification/AdapterFactory.thy ===== *)
theory AdapterFactory
  imports AdapterStores
begin

section \<open>Adapters made from registry entries\<close>

text \<open>
  \<open>internal/service/adapter_factory.go\<close>, and the store of servers of \<open>internal/service/mcp_store.go\<close>. No program uses them.
  The client of the registry is an argument, and so is the way of a configuration through JSON.
\<close>

subsection \<open>Entries\<close>

record RegistryEnvironmentVariable =
  REV_Name :: string
  REV_IsSecret :: bool

record RegistryPackage =
  RGP_RegistryType :: string
  RGP_Identifier :: string
  RGP_TransportType :: string
  RGP_EnvironmentVariables :: "RegistryEnvironmentVariable list"

record RegistryServer =
  RGS_ID :: string
  RGS_Name :: string
  RGS_Description :: string
  RGS_Packages :: "RegistryPackage list"
  RGS_Meta :: "string \<rightharpoonup> any"

record registry_client =
  rc_GetServer :: "string \<Rightarrow> RegistryServer result"
  rc_SearchServers :: "string \<Rightarrow> (string \<rightharpoonup> any) \<Rightarrow> (RegistryServer list) result"

text \<open>What \<open>json.Marshal\<close> and \<open>json.Unmarshal\<close> make of a map that should be a configuration.\<close>

datatype config_json = Marshal_fails error | Unmarshal_fails error | Configuration MCPClientConfig

subsection \<open>Conversion\<close>

text \<open>The text before the last occurrence of a character, if it occurs.\<close>

definition before_last :: "char \<Rightarrow> string \<Rightarrow> string option" where
  "before_last c s = (if c \<in> set s then Some (rev (tl (dropWhile (\<lambda>x. x \<noteq> c) (rev s)))) else None)"

definition configureStdioAdapter :: "RegistryPackage \<Rightarrow> AdapterData \<Rightarrow> AdapterData result" where
  "configureStdioAdapter pkg data =
     (if RGP_RegistryType pkg = ''oci'' then
        (let parts = Split (RGP_Identifier pkg) CHR ''/'' in
         if length parts \<ge> 2 then
           (let imageName = Join (tl parts) ''/'' in
            Inr (data\<lparr>AD_ImageName := (case before_last CHR '':'' imageName of Some name \<Rightarrow> name | None \<Rightarrow> imageName),
                      AD_ImageVersion := ''latest''\<rparr>))
         else Inl (''invalid OCI identifier format: '' @ RGP_Identifier pkg))
      else if RGP_RegistryType pkg = ''npm'' then Inl ''npm registry type not yet supported for stdio''
      else Inl (''unsupported registry type for stdio: '' @ RGP_RegistryType pkg))"

definition url_or_image :: "string \<Rightarrow> RegistryPackage \<Rightarrow> AdapterData \<Rightarrow> AdapterData" where
  "url_or_image pre pkg data =
     (if HasPrefix (RGP_Identifier pkg) pre then data\<lparr>AD_RemoteUrl := RGP_Identifier pkg\<rparr>
      else data\<lparr>AD_ImageName := RGP_Identifier pkg, AD_ImageVersion := ''latest''\<rparr>)"

definition configureSSEAdapter :: "RegistryPackage \<Rightarrow> AdapterData \<Rightarrow> AdapterData" where
  "configureSSEAdapter pkg data = url_or_image ''http'' pkg data"

definition configureWebSocketAdapter :: "RegistryPackage \<Rightarrow> AdapterData \<Rightarrow> AdapterData" where
  "configureWebSocketAdapter pkg data = url_or_image ''ws'' pkg data"

definition convertLocalMCPToAdapter ::
    "((string \<rightharpoonup> any) \<Rightarrow> config_json) \<Rightarrow> RegistryServer \<Rightarrow> AdapterData \<Rightarrow> AdapterData result" where
  "convertLocalMCPToAdapter json server data =
     (let local = data\<lparr>AD_ConnectionType := ConnectionTypeLocalStdio\<rparr> in
      case Option.bind (RGS_Meta server ''mcpClientConfig'') any_map of
        None \<Rightarrow> Inr local
      | Some m \<Rightarrow>
          (case json m of
             Marshal_fails err \<Rightarrow> Inl (''failed to marshal MCP client config: '' @ err)
           | Unmarshal_fails err \<Rightarrow> Inl (''failed to unmarshal MCP client config: '' @ err)
           | Configuration c \<Rightarrow> Inr (local\<lparr>AD_MCPClientConfig := c\<rparr>)))"

text \<open>The loop over the variables of a package.\<close>

definition package_variables :: "RegistryEnvironmentVariable list \<Rightarrow> (string \<rightharpoonup> string) \<Rightarrow> (string \<rightharpoonup> string)" where
  "package_variables vars m =
     foldl (\<lambda>m env. m(REV_Name env \<mapsto> if REV_IsSecret env then ''***SECRET:'' @ REV_Name env @ ''***'' else [])) m vars"

definition convertRegistryToAdapter ::
    "((string \<rightharpoonup> any) \<Rightarrow> config_json) \<Rightarrow> RegistryServer \<Rightarrow> string \<Rightarrow> AdapterData result" where
  "convertRegistryToAdapter json server adapterName =
     (let data = zero_AdapterData\<lparr>AD_Name := adapterName, AD_Description := RGS_Description server,
            AD_Protocol := ServerProtocolMCP, AD_ReplicaCount := 1\<rparr> in
      if Option.bind (RGS_Meta server ''isLocalMCP'') any_bool = Some True then convertLocalMCPToAdapter json server data
      else case RGS_Packages server of
        [] \<Rightarrow> Inl ''server has no packages''
      | pkg # pkgs \<Rightarrow>
          (case (if RGP_TransportType pkg = ''stdio''
                 then configureStdioAdapter pkg (data\<lparr>AD_ConnectionType := ConnectionTypeLocalStdio\<rparr>)
                 else if RGP_TransportType pkg = ''sse''
                 then Inr (configureSSEAdapter pkg (data\<lparr>AD_ConnectionType := ConnectionTypeSSE\<rparr>))
                 else if RGP_TransportType pkg = ''websocket''
                 then Inr (configureWebSocketAdapter pkg (data\<lparr>AD_ConnectionType := ConnectionTypeRemoteHttp\<rparr>))
                 else Inl (''unsupported transport type: '' @ RGP_TransportType pkg)) of
             Inl err \<Rightarrow> Inl err
           | Inr configured \<Rightarrow> Inr (configured\<lparr>AD_EnvironmentVariables :=
               package_variables (RGP_EnvironmentVariables pkg) (AD_EnvironmentVariables configured)\<rparr>)))"

text \<open>The time of creation is the zero time, 0, of the new resource. \<open>ks\<close> is the order of the servers of the configuration.\<close>

definition CreateAdapterFromRegistry ::
    "registry_client \<Rightarrow> ((string \<rightharpoonup> any) \<Rightarrow> config_json) \<Rightarrow> gotime \<Rightarrow> string list \<Rightarrow> string \<Rightarrow> string \<Rightarrow> AdapterResource result" where
  "CreateAdapterFromRegistry RC json now ks serverID adapterName =
     (case rc_GetServer RC serverID of
        Inl err \<Rightarrow> Inl (''failed to get server from registry: '' @ err)
      | Inr server \<Rightarrow>
          (case convertRegistryToAdapter json server adapterName of
             Inl err \<Rightarrow> Inl (''failed to convert registry server to adapter: '' @ err)
           | Inr data \<Rightarrow> Inr (AdapterResource_Create now ks data ''registry-import'' 0)))"

definition InstallServerFromRegistry ::
    "'s AdapterResourceStore \<Rightarrow> registry_client \<Rightarrow> ((string \<rightharpoonup> any) \<Rightarrow> config_json) \<Rightarrow> env \<Rightarrow> gotime \<Rightarrow> string list \<Rightarrow>
     string \<Rightarrow> string \<Rightarrow> 's \<Rightarrow> 's \<times> error option" where
  "InstallServerFromRegistry A RC json e now ks serverID adapterName s =
     (case CreateAdapterFromRegistry RC json now ks serverID adapterName of
        Inl err \<Rightarrow> (s, Some (''failed to create adapter: '' @ err))
      | Inr adapter \<Rightarrow>
          (case ars_UpsertAsync A e adapter s of
             (s', Some err) \<Rightarrow> (s', Some (''failed to store adapter: '' @ err))
           | (s', None) \<Rightarrow> (s', None)))"

definition ListAvailableServers :: "registry_client \<Rightarrow> string \<Rightarrow> (string \<rightharpoonup> any) \<Rightarrow> (RegistryServer list) result" where
  "ListAvailableServers RC query filters = rc_SearchServers RC query filters"

subsection \<open>The store of servers\<close>

record service_server_store =
  sss_servers :: "string \<rightharpoonup> MCPServer"

definition service_NewInMemoryMCPServerStore :: service_server_store where
  "service_NewInMemoryMCPServerStore = \<lparr>sss_servers = Map.empty\<rparr>"

definition service_CreateMCPServer :: "MCPServer \<Rightarrow> service_server_store \<Rightarrow> service_server_store \<times> error option" where
  "service_CreateMCPServer server s =
     (if sss_servers s (Srv_ID server) \<noteq> None then (s, Some (''MCP server with ID '' @ Srv_ID server @ '' already exists''))
      else (s\<lparr>sss_servers := (sss_servers s)(Srv_ID server \<mapsto> server)\<rparr>, None))"

definition service_GetMCPServer :: "service_server_store \<Rightarrow> string \<Rightarrow> MCPServer result" where
  "service_GetMCPServer s i =
     (case sss_servers s i of None \<Rightarrow> Inl (''MCP server with ID '' @ i @ '' not found'') | Some server \<Rightarrow> Inr server)"

definition service_UpdateMCPServer :: "string \<times> MCPServer \<Rightarrow> service_server_store \<Rightarrow> service_server_store \<times> error option" where
  "service_UpdateMCPServer u s =
     (case u of (i, updated) \<Rightarrow>
      if sss_servers s i = None then (s, Some (''MCP server with ID '' @ i @ '' not found''))
      else (s\<lparr>sss_servers := (sss_servers s)(i \<mapsto> updated\<lparr>Srv_ID := i\<rparr>)\<rparr>, None))"

definition service_DeleteMCPServer :: "string \<Rightarrow> service_server_store \<Rightarrow> service_server_store \<times> error option" where
  "service_DeleteMCPServer i s =
     (if sss_servers s i = None then (s, Some (''MCP server with ID '' @ i @ '' not found''))
      else (s\<lparr>sss_servers := (sss_servers s)(i := None)\<rparr>, None))"

definition service_ListMCPServers :: "string list \<Rightarrow> service_server_store \<Rightarrow> MCPServer list" where
  "service_ListMCPServers ks s = range_values (sss_servers s) ks"

text \<open>It keeps the contract of the other stores.\<close>

interpretation service_servers: reliable_store
  "\<lambda>e. service_CreateMCPServer" "\<lambda>e server. service_UpdateMCPServer (Srv_ID server, server)" "\<lambda>e. service_DeleteMCPServer"
  sss_servers Srv_ID "\<lambda>i. i" "\<lambda>e server. server" "\<lambda>e server. server" service_GetMCPServer "\<lambda>i. i"
  by unfold_locales (auto simp: service_CreateMCPServer_def service_UpdateMCPServer_def service_DeleteMCPServer_def
      service_GetMCPServer_def)

subsection \<open>Images\<close>

lemma before_last_append: "c \<notin> set b \<Longrightarrow> before_last c (a @ c # b) = Some a"
proof -
  assume "c \<notin> set b"
  then have "dropWhile (\<lambda>x. x \<noteq> c) (rev b @ c # rev a) = c # rev a"
    by (subst dropWhile_append2) auto
  then show ?thesis by (simp add: before_last_def)
qed

text \<open>An image of a registry loses the registry's host and its tag: whatever the tag of the entry, the adapter runs the
  version \<open>latest\<close> of the rest of the name.\<close>

theorem image_host_and_tag_are_lost:
  assumes "RGP_RegistryType pkg = ''oci''" and "RGP_Identifier pkg = host @ ''/'' @ path @ '':'' @ tag"
    and "CHR ''/'' \<notin> set host" and "CHR '':'' \<notin> set tag"
  shows "configureStdioAdapter pkg data = Inr (data\<lparr>AD_ImageName := path, AD_ImageVersion := ''latest''\<rparr>)"
proof -
  have parts: "Split (RGP_Identifier pkg) CHR ''/'' = host # Split (path @ '':'' @ tag) CHR ''/''"
    using Split_append [OF assms(3), of "path @ '':'' @ tag"] assms(2) by simp
  have joined: "Join (Split (path @ '':'' @ tag) CHR ''/'') ''/'' = path @ '':'' @ tag" by (rule Join_Split)
  have "length (Split (path @ '':'' @ tag) CHR ''/'') \<ge> 1" by (cases "Split (path @ '':'' @ tag) CHR ''/''") auto
  moreover have "before_last CHR '':'' (path @ '':'' @ tag) = Some path"
    using before_last_append [OF assms(4), of path] by simp
  ultimately show ?thesis
    unfolding configureStdioAdapter_def parts by (simp add: assms(1) joined [simplified])
qed

text \<open>A server is installed under a name once. Installing anything under the name of an adapter that is there fails and
  changes nothing.\<close>

theorem install_once:
  assumes "imas_adapters s adapterName \<noteq> None"
  shows "\<exists>err. InstallServerFromRegistry InMemoryAdapterStore_ops RC json e now ks serverID adapterName s = (s, Some err)"
proof (cases "CreateAdapterFromRegistry RC json now ks serverID adapterName")
  case (Inr adapter)
  have name: "AD_Name d = adapterName" if "convertRegistryToAdapter json server adapterName = Inr d" for server d
    using that
    by (auto simp: convertRegistryToAdapter_def convertLocalMCPToAdapter_def configureStdioAdapter_def configureSSEAdapter_def
        configureWebSocketAdapter_def url_or_image_def Let_def
        split: if_splits option.splits list.splits config_json.splits sum.splits)
  have "AR_ID adapter = adapterName"
    using Inr name by (auto simp: CreateAdapterFromRegistry_def split: sum.splits)
  with assms Inr show ?thesis
    by (simp add: InstallServerFromRegistry_def InMemoryAdapterStore_ops_def InMemoryAdapterStore_UpsertAsync_def
        InMemoryAdapterStore_Create_def)
qed (simp add: InstallServerFromRegistry_def)

definition ex_package :: RegistryPackage where
  "ex_package = \<lparr>RGP_RegistryType = ''oci'', RGP_Identifier = ''ghcr.io/acme/notes:2.1'', RGP_TransportType = ''stdio'',
     RGP_EnvironmentVariables = []\<rparr>"

theorem image_host_and_tag_are_lost_witness:
  "configureStdioAdapter ex_package zero_AdapterData =
     Inr (zero_AdapterData\<lparr>AD_ImageName := ''acme/notes'', AD_ImageVersion := ''latest''\<rparr>)"
  by (rule image_host_and_tag_are_lost [where host = "''ghcr.io''" and tag = "''2.1''"]) (simp_all add: ex_package_def)

definition ex_installed :: InMemoryAdapterStore where
  "ex_installed = \<lparr>imas_adapters = [''notes'' \<mapsto> AdapterResource_Create 0 [] zero_AdapterData ''ann'' 0]\<rparr>"

theorem install_once_witness:
  "\<exists>err. InstallServerFromRegistry InMemoryAdapterStore_ops
     \<lparr>rc_GetServer = \<lambda>i. Inl ''no server'', rc_SearchServers = \<lambda>q f. Inr []\<rparr> (\<lambda>m. Marshal_fails [])
     \<lparr>env_now = 0, env_now' = 0, env_order = []\<rparr> 0 [] ''x'' ''notes'' ex_installed = (ex_installed, Some err)"
  by (rule install_once) (simp add: ex_installed_def)

end
