(* ===== verification/ProxyService.thy ===== *)
theory ProxyService
  imports RegistryService
begin

section \<open>The proxy service\<close>

text \<open>
  \<open>pkg/services/proxy/service.go\<close> and \<open>pkg/middleware/client.go\<close>: a service with a small store of adapters of its own, which
  relays the requests to an adapter. It asks the registry service for the adapter, not its store. No program starts it. \<open>send\<close> is the
  HTTP client; the decoders are arguments. The self-signed certificate, which nothing uses, and the stopping of servers that are never
  started are not modelled.
\<close>

record proxy_request =
  PQ_Method :: string
  PQ_Path :: string
  PQ_RawQuery :: string
  PQ_Header :: "string \<rightharpoonup> string list"
  PQ_Body :: string

record create_request =
  CRQ_MCPServerID :: string
  CRQ_Name :: string
  CRQ_Description :: string
  CRQ_EnvironmentVariables :: "string \<rightharpoonup> string"

text \<open>What is written: adapters, what was created (identifier, server and the URL for clients), the servers of the registry file, a
  fixed status, a relayed response, or nothing.\<close>

datatype proxy_payload =
    PSP_adapters "AdapterResource list" | PSP_adapter AdapterResource | PSP_created string string string
  | PSP_servers "(string \<rightharpoonup> any) list" | PSP_status string | PSP_relayed "string \<rightharpoonup> string list" string | PSP_none

type_synonym proxy_reply = "int \<times> (string + proxy_payload)"

record proxy_service =
  ps_port :: int
  ps_adapters :: "string \<rightharpoonup> AdapterResource"

definition ProxyService_NewService :: "int \<Rightarrow> proxy_service" where
  "ProxyService_NewService port = \<lparr>ps_port = port, ps_adapters = Map.empty\<rparr>"

subsection \<open>The store of adapters\<close>

definition handleListAdapters :: "string list \<Rightarrow> proxy_service \<Rightarrow> proxy_reply" where
  "handleListAdapters ks s = (200, Inr (PSP_adapters (range_values (ps_adapters s) ks)))"

text \<open>\<open>now\<close> and \<open>now'\<close> are the two readings of the clock.\<close>

definition handleCreateAdapter ::
    "(string \<Rightarrow> create_request result) \<Rightarrow> gotime \<Rightarrow> gotime \<Rightarrow> proxy_request \<Rightarrow> proxy_service \<Rightarrow> proxy_service \<times> proxy_reply" where
  "handleCreateAdapter decode now now' q s =
     (case decode (PQ_Body q) of
        Inl err \<Rightarrow> (s, 400, Inl ''Invalid JSON'')
      | Inr req \<Rightarrow>
          if CRQ_Name req = [] then (s, 400, Inl ''Adapter name is required'')
          else if ps_adapters s (CRQ_Name req) \<noteq> None then (s, 409, Inl ''Adapter already exists'')
          else
            let data = zero_AdapterData\<lparr>AD_Name := CRQ_Name req, AD_ConnectionType := ConnectionTypeStreamableHttp,
                  AD_EnvironmentVariables := CRQ_EnvironmentVariables req, AD_Description := CRQ_Description req\<rparr>;
                adapter = AdapterResource_Create now' [] data ''system'' now
            in (s\<lparr>ps_adapters := (ps_adapters s)(CRQ_Name req \<mapsto> adapter)\<rparr>, 201,
                Inr (PSP_created (AR_ID adapter) (CRQ_MCPServerID req)
                  (''http://localhost:'' @ show_int (ps_port s) @ ''/api/v1/adapters/'' @ CRQ_Name req @ ''/mcp''))))"

definition handleGetAdapter :: "string \<Rightarrow> proxy_service \<Rightarrow> proxy_reply" where
  "handleGetAdapter adapterName s =
     (case ps_adapters s adapterName of None \<Rightarrow> (404, Inl ''Adapter not found'') | Some adapter \<Rightarrow> (200, Inr (PSP_adapter adapter)))"

definition handleUpdateAdapter :: proxy_reply where
  "handleUpdateAdapter = (501, Inl ''Adapter update not implemented'')"

definition handleDeleteAdapter :: "string \<Rightarrow> proxy_service \<Rightarrow> proxy_service \<times> proxy_reply" where
  "handleDeleteAdapter adapterName s =
     (if ps_adapters s adapterName = None then (s, 404, Inl ''Adapter not found'')
      else (s\<lparr>ps_adapters := (ps_adapters s)(adapterName := None)\<rparr>, 204, Inr PSP_none))"

definition handleMCPProtocol :: proxy_reply where
  "handleMCPProtocol = (501, Inl ''MCP protocol not implemented'')"

definition handleSyncCapabilities :: proxy_reply where
  "handleSyncCapabilities = (200, Inr (PSP_status ''synced''))"

definition handleAdapterListCreate ::
    "(string \<Rightarrow> create_request result) \<Rightarrow> gotime \<Rightarrow> gotime \<Rightarrow> string list \<Rightarrow> proxy_request \<Rightarrow> proxy_service \<Rightarrow>
     proxy_service \<times> proxy_reply" where
  "handleAdapterListCreate decode now now' ks q s =
     (if PQ_Method q = ''GET'' then (s, handleListAdapters ks s)
      else if PQ_Method q = ''POST'' then handleCreateAdapter decode now now' q s
      else (s, 405, Inl ''Method not allowed''))"

definition handleAdapterByID :: "proxy_request \<Rightarrow> proxy_service \<Rightarrow> proxy_service \<times> proxy_reply" where
  "handleAdapterByID q s =
     (let path = TrimPrefix (PQ_Path q) ''/api/v1/adapters/'' in
      if path = [] then (s, 400, Inl ''Adapter ID required'')
      else
        let adapterID = SplitN2 path CHR ''/'' ! 0 in
        if PQ_Method q = ''GET'' then (s, handleGetAdapter adapterID s)
        else if PQ_Method q = ''PUT'' then (s, handleUpdateAdapter)
        else if PQ_Method q = ''DELETE'' then handleDeleteAdapter adapterID s
        else (s, 405, Inl ''Method not allowed''))"

subsection \<open>Relaying\<close>

text \<open>The key that services show each other: the first of \<open>SERVICE_API_KEYS\<close>.\<close>

definition AddAPIKeyAuth :: "string \<Rightarrow> (string \<rightharpoonup> string list) \<Rightarrow> (string \<rightharpoonup> string list)" where
  "AddAPIKeyAuth keys h = (if keys = [] then h else header_Set ''X-API-Key'' (TrimSpace (Split keys CHR '','' ! 0)) h)"

definition relay_URL :: "proxy_request \<Rightarrow> string \<Rightarrow> string \<Rightarrow> string" where
  "relay_URL q serviceURL basePath =
     (let rest = TrimPrefix (PQ_Path q) basePath;
          targetPath = (if basePath = [] then PQ_Path q else if HasPrefix rest ''/'' then rest else ''/'' @ rest)
      in serviceURL @ targetPath @ (if PQ_RawQuery q \<noteq> [] then ''?'' @ PQ_RawQuery q else []))"

definition relayed :: "string \<Rightarrow> proxy_request \<Rightarrow> string \<Rightarrow> string \<Rightarrow> forwarded" where
  "relayed keys q serviceURL basePath = \<lparr>FW_Method = PQ_Method q, FW_URL = relay_URL q serviceURL basePath,
     FW_Header = AddAPIKeyAuth keys (PQ_Header q), FW_Body = PQ_Body q\<rparr>"

definition proxyRequest :: "(forwarded \<Rightarrow> sent) \<Rightarrow> string \<Rightarrow> proxy_request \<Rightarrow> string \<Rightarrow> string \<Rightarrow> proxy_reply" where
  "proxyRequest send keys q serviceURL basePath =
     (case send (relayed keys q serviceURL basePath) of
        Bad_request err \<Rightarrow> (500, Inl ''Failed to create request'')
      | Unreachable err \<Rightarrow> (503, Inl ''Service unavailable'')
      | Answered resp \<Rightarrow> (PX_Status resp, Inr (PSP_relayed (PX_Header resp) (PX_Body resp))))"

definition handleSidecarMCP :: "(forwarded \<Rightarrow> sent) \<Rightarrow> string \<Rightarrow> proxy_request \<Rightarrow> AdapterResource \<Rightarrow> proxy_reply" where
  "handleSidecarMCP send keys q adapter =
     (case AD_SidecarConfig adapter of
        None \<Rightarrow> (500, Inl ''Sidecar configuration missing'')
      | Some sc \<Rightarrow> proxyRequest send keys q
          (''http://mcp-sidecar-'' @ AR_ID adapter @ ''.default.svc.cluster.local:'' @ show_int (SC_Port sc) @ ''/mcp'')
          (''/api/v1/adapters/'' @ AR_ID adapter @ ''/mcp''))"

definition handleRemoteHttpMCP :: "(forwarded \<Rightarrow> sent) \<Rightarrow> string \<Rightarrow> proxy_request \<Rightarrow> AdapterResource \<Rightarrow> proxy_reply" where
  "handleRemoteHttpMCP send keys q adapter =
     (if AD_RemoteUrl adapter = [] then (500, Inl ''Remote URL not configured'')
      else proxyRequest send keys q (AD_RemoteUrl adapter) (''/api/v1/adapters/'' @ AR_ID adapter @ ''/mcp''))"

definition handleStreamableHttpMCP :: "(forwarded \<Rightarrow> sent) \<Rightarrow> string \<Rightarrow> proxy_request \<Rightarrow> AdapterResource \<Rightarrow> proxy_reply" where
  "handleStreamableHttpMCP send keys q adapter =
     (let port = (case AD_SidecarConfig adapter of None \<Rightarrow> 8000 | Some sc \<Rightarrow> SC_Port sc) in
      proxyRequest send keys q
        (''http://mcp-sidecar-'' @ AR_ID adapter @ ''.suse-ai-up-mcp.svc.cluster.local:'' @ show_int port)
        (''/api/v1/adapters/'' @ AR_ID adapter))"

definition handleLocalStdioMCP :: proxy_reply where
  "handleLocalStdioMCP = (501, Inl ''Local stdio MCP not yet implemented'')"

text \<open>The request for the adapter: a plain \<open>http.Get\<close>.\<close>

definition registry_lookup :: "string \<Rightarrow> forwarded" where
  "registry_lookup adapterID = \<lparr>FW_Method = ''GET'', FW_URL = ''http://localhost:8913/api/v1/adapters/'' @ adapterID,
     FW_Header = Map.empty, FW_Body = []\<rparr>"

definition HandleAdapterMCP ::
    "(forwarded \<Rightarrow> sent) \<Rightarrow> (string \<Rightarrow> AdapterResource result) \<Rightarrow> string \<Rightarrow> proxy_request \<Rightarrow> proxy_reply" where
  "HandleAdapterMCP send decode keys q =
     (let adapterID = TrimSuffix (TrimPrefix (PQ_Path q) ''/api/v1/adapters/'') ''/mcp'' in
      if adapterID = [] then (400, Inl ''Adapter ID not found in path'')
      else case send (registry_lookup adapterID) of
        Bad_request err \<Rightarrow> (404, Inl ''Adapter not found'')
      | Unreachable err \<Rightarrow> (404, Inl ''Adapter not found'')
      | Answered resp \<Rightarrow>
          if PX_Status resp \<noteq> 200 then (404, Inl ''Adapter not found'')
          else (case decode (PX_Body resp) of
             Inl err \<Rightarrow> (500, Inl ''Failed to parse adapter'')
           | Inr adapter \<Rightarrow>
               if AD_ConnectionType adapter = ConnectionTypeSidecarStdio then handleSidecarMCP send keys q adapter
               else if AD_ConnectionType adapter = ConnectionTypeRemoteHttp then handleRemoteHttpMCP send keys q adapter
               else if AD_ConnectionType adapter = ConnectionTypeStreamableHttp then handleStreamableHttpMCP send keys q adapter
               else (400, Inl (''Unsupported connection type: '' @ AD_ConnectionType adapter))))"

subsection \<open>The other services\<close>

definition handleAdapterCreation :: "(string \<Rightarrow> create_request result) \<Rightarrow> proxy_request \<Rightarrow> proxy_reply" where
  "handleAdapterCreation decode q =
     (case decode (PQ_Body q) of
        Inl err \<Rightarrow> (400, Inl ''Invalid JSON'')
      | Inr req \<Rightarrow>
          if CRQ_MCPServerID req \<noteq> ''d0e6a34b749ba1f6'' \<and> CRQ_MCPServerID req \<noteq> ''uyuni'' then (404, Inl ''Server not found'')
          else (200, Inr (PSP_created (CRQ_Name req) (CRQ_MCPServerID req)
            (''http://localhost:8911/api/v1/adapters/'' @ CRQ_Name req @ ''/mcp''))))"

text \<open>The file \<open>config/mcp_registry.yaml\<close>: what reading it gives, and what YAML makes of that.\<close>

definition loadRegistryServers ::
    "string result \<Rightarrow> (string \<Rightarrow> ((string \<rightharpoonup> any) list) result) \<Rightarrow> (string \<rightharpoonup> any) list" where
  "loadRegistryServers file_read yaml =
     (case file_read of
        Inl err \<Rightarrow> []
      | Inr data \<Rightarrow> (case yaml data of Inl err \<Rightarrow> [] | Inr servers \<Rightarrow> servers))"

definition proxyToRegistry ::
    "(string \<Rightarrow> create_request result) \<Rightarrow> string result \<Rightarrow> (string \<Rightarrow> ((string \<rightharpoonup> any) list) result) \<Rightarrow> proxy_request \<Rightarrow>
     proxy_reply" where
  "proxyToRegistry decode file_read yaml q =
     (if PQ_Method q = ''POST'' \<and> PQ_Path q = ''/api/v1/adapters'' then handleAdapterCreation decode q
      else if PQ_Method q = ''GET'' \<and> PQ_Path q = ''/api/v1/adapters'' then (200, Inr (PSP_adapters []))
      else if PQ_Method q \<noteq> ''GET'' then (405, Inl ''Method not allowed'')
      else if Contains (PQ_Path q) ''/browse'' then (200, Inr (PSP_servers (loadRegistryServers file_read yaml)))
      else (501, Inl ''Registry functionality not fully implemented in unified service''))"

definition proxyToDiscovery :: "(forwarded \<Rightarrow> sent) \<Rightarrow> string \<Rightarrow> proxy_request \<Rightarrow> proxy_reply" where
  "proxyToDiscovery send keys q = proxyRequest send keys q ''http://127.0.0.1:8912'' []"

definition proxyToPlugins :: "(forwarded \<Rightarrow> sent) \<Rightarrow> string \<Rightarrow> proxy_request \<Rightarrow> proxy_reply" where
  "proxyToPlugins send keys q = proxyRequest send keys q ''http://127.0.0.1:8914'' []"

subsection \<open>Properties\<close>

text \<open>The key that a relayed request carries is one that a service with the same keys accepts, unless the list of keys begins with
  a blank one.\<close>

theorem relayed_key_is_accepted:
  assumes "TrimSpace (Split keys CHR '','' ! 0) \<noteq> []"
  shows "APIKeyAuthMiddleware keys (header_Get (FW_Header (relayed keys q serviceURL basePath)) ''X-Api-Key'') = None"
proof (cases "keys = []")
  case False
  have key: "CanonicalHeaderKey ''X-API-Key'' = ''X-Api-Key''" by code_simp
  have "TrimSpace (Split keys CHR '','' ! 0) \<in> TrimSpace ` set (Split keys CHR '','')"
    by (intro imageI nth_mem) simp
  with False assms show ?thesis
    by (auto simp: APIKeyAuthMiddleware_def relayed_def AddAPIKeyAuth_def header_Set_def header_Get_def key list_ex_iff)
qed (simp add: APIKeyAuthMiddleware_def)

text \<open>A request as the services' \<open>net/http\<close> gets it.\<close>

definition received :: "forwarded \<Rightarrow> http_request" where
  "received f = \<lparr>HQ_Method = FW_Method f, HQ_Path = TrimPrefix (FW_URL f) ''http://localhost:8913'',
     HQ_Header = (\<lambda>k. header_Get (FW_Header f) (CanonicalHeaderKey k)), HQ_Body = FW_Body f\<rparr>"

lemma adapters_route:
  "mux_longest (''/api/v1/adapters/'' @ i) None registry_mux = Some (''/api/v1/adapters/'', Adapters_below)"
  by (simp add: registry_mux_def mux_matches_def HasPrefix_def HasSuffix_def suffix_def)

text \<open>With keys in place the proxy finds no adapter. It asks the registry service for an adapter without a key, and where the service has
  keys it refuses; so every request to an adapter is answered with 404, whatever key it came with. (The identifier has no character that would
  end the path of a URL.)\<close>

theorem adapters_are_lost_behind_keys:
  assumes "PQ_Path q = ''/api/v1/adapters/'' @ adapterID @ ''/mcp''" and "adapterID \<noteq> []" and "validKeys \<noteq> []"
    and "\<And>f err. registry_serve validKeys (received f) = Key_refused err \<Longrightarrow>
      \<exists>resp. send f = Answered resp \<and> PX_Status resp = 401"
  shows "HandleAdapterMCP send decode keys q = (404, Inl ''Adapter not found'')"
proof -
  have adapter: "TrimSuffix (TrimPrefix (PQ_Path q) ''/api/v1/adapters/'') ''/mcp'' = adapterID"
    using assms(1) by (simp add: TrimPrefix_def TrimSuffix_def suffix_def)
  have path: "HQ_Path (received (registry_lookup adapterID)) = ''/api/v1/adapters/'' @ adapterID"
    by (simp add: received_def registry_lookup_def TrimPrefix_def)
  have "registry_serve validKeys (received (registry_lookup adapterID)) = Key_refused ''Missing API key''"
    using assms(3) adapters_route [of adapterID]
    by (simp add: registry_serve_def path needs_key_def APIKeyAuthMiddleware_def)
      (simp add: received_def registry_lookup_def header_Get_def)
  from assms(4) [OF this] obtain resp where "send (registry_lookup adapterID) = Answered resp" "PX_Status resp = 401" by blast
  with assms(2) show ?thesis by (simp add: HandleAdapterMCP_def Let_def adapter)
qed

text \<open>Where the requests to the endpoint of an adapter go. The sidecar of a streamable adapter gets them at \<open>/mcp\<close>; for a remote server
  and for the sidecar of a local command the whole path is cut off, and a slash is put behind their URL.\<close>

theorem relayed_to:
  assumes "PQ_Path q = ''/api/v1/adapters/'' @ AR_ID adapter @ ''/mcp''" and "PQ_RawQuery q = []"
  shows "relay_URL q serviceURL (''/api/v1/adapters/'' @ AR_ID adapter) = serviceURL @ ''/mcp''"
    and "relay_URL q serviceURL (''/api/v1/adapters/'' @ AR_ID adapter @ ''/mcp'') = serviceURL @ ''/''"
  using assms by (simp_all add: relay_URL_def TrimPrefix_def HasPrefix_def)

text \<open>A name is taken once, and until it is deleted: creating an adapter under the name of one that is there answers 409 and changes
  nothing, and after a deletion the adapter is not found.\<close>

theorem proxy_names_are_unique:
  assumes "decode (PQ_Body q) = Inr req" and "CRQ_Name req \<noteq> []" and "ps_adapters s (CRQ_Name req) = None"
  shows "\<exists>s1 r. handleCreateAdapter decode now now' q s = (s1, 201, r) \<and>
      handleCreateAdapter decode t t' q s1 = (s1, 409, Inl ''Adapter already exists'') \<and>
      handleDeleteAdapter (CRQ_Name req) s1 = (s, 204, Inr PSP_none)"
proof -
  have "(ps_adapters s)(CRQ_Name req := None) = ps_adapters s" using assms(3) by (simp add: fun_eq_iff)
  then show ?thesis using assms by (simp add: handleCreateAdapter_def handleDeleteAdapter_def Let_def)
qed

definition ex_mcp_request :: proxy_request where
  "ex_mcp_request = \<lparr>PQ_Method = ''POST'', PQ_Path = ''/api/v1/adapters/notes/mcp'', PQ_RawQuery = [], PQ_Header = Map.empty, PQ_Body = []\<rparr>"

theorem relayed_key_is_accepted_witness:
  "APIKeyAuthMiddleware ''k1,k2'' (header_Get (FW_Header (relayed ''k1,k2'' ex_mcp_request ''http://s'' [])) ''X-Api-Key'') = None"
  by (rule relayed_key_is_accepted) (simp add: TrimSpace_def is_space_def)

definition ex_keyed_registry :: "forwarded \<Rightarrow> sent" where
  "ex_keyed_registry f = (case registry_serve ''k1'' (received f) of
     Key_refused err \<Rightarrow> Answered \<lparr>PX_Status = 401, PX_Header = Map.empty, PX_Body = err, PX_Error = None\<rparr>
   | _ \<Rightarrow> Unreachable [])"

theorem adapters_are_lost_behind_keys_witness:
  "HandleAdapterMCP ex_keyed_registry (\<lambda>b. Inl []) ''k1'' ex_mcp_request = (404, Inl ''Adapter not found'')"
  by (rule adapters_are_lost_behind_keys [where adapterID = "''notes''" and validKeys = "''k1''"])
    (simp_all add: ex_mcp_request_def ex_keyed_registry_def)

theorem relayed_to_witness:
  "relay_URL ex_mcp_request ''http://s:8000'' (''/api/v1/adapters/'' @ AR_ID (AdapterResource_Create 0 [] (zero_AdapterData\<lparr>AD_Name := ''notes''\<rparr>) [] 0)) =
     ''http://s:8000'' @ ''/mcp''"
  by (rule relayed_to(1)) (simp_all add: ex_mcp_request_def)

theorem proxy_names_are_unique_witness:
  "\<exists>s1 r. handleCreateAdapter (\<lambda>b. Inr \<lparr>CRQ_MCPServerID = [], CRQ_Name = ''notes'', CRQ_Description = [], CRQ_EnvironmentVariables = Map.empty\<rparr>)
      1 1 ex_mcp_request (ProxyService_NewService 8911) = (s1, 201, r) \<and>
    handleDeleteAdapter ''notes'' s1 = (ProxyService_NewService 8911, 204, Inr PSP_none)"
  using proxy_names_are_unique [of
      "\<lambda>b. Inr \<lparr>CRQ_MCPServerID = [], CRQ_Name = ''notes'', CRQ_Description = [], CRQ_EnvironmentVariables = Map.empty\<rparr>" ex_mcp_request
      "\<lparr>CRQ_MCPServerID = [], CRQ_Name = ''notes'', CRQ_Description = [], CRQ_EnvironmentVariables = Map.empty\<rparr>" "ProxyService_NewService 8911" 1 1 2 2]
  by (auto simp: ProxyService_NewService_def)

end
