(* ===== verification/DiscoveryDetection.thy ===== *)
theory DiscoveryDetection
  imports ScanTargets MCPClient Management
begin

section \<open>Detection in the discovery service\<close>

text \<open>
  The scanning half of \<open>internal/service/discovery.go\<close>: how it recognises a server, what a scan comes to, and how a discovered server
  becomes an adapter of the management service. No program starts it. Names that the network scanner has too have the prefix \<open>ds\<close>.
  \<open>send\<close> is the client, \<open>read_json\<close> reads the JSON of an object, and \<open>clk\<close> gives for a URL the two readings of the clock that a detection
  there makes.
\<close>

type_synonym clock = "string \<Rightarrow> gotime \<times> gotime"

type_synonym json_reader = "string \<Rightarrow> (string \<rightharpoonup> any) result"

subsection \<open>Addresses\<close>

text \<open>\<open>net.SplitHostPort\<close>; which error it is does not matter.\<close>

definition last_index :: "char \<Rightarrow> string \<Rightarrow> nat option" where
  "last_index c s = (if c \<in> set s then Some (length s - 1 - length (takeWhile (\<lambda>x. x \<noteq> c) (rev s))) else None)"

definition first_index :: "char \<Rightarrow> string \<Rightarrow> nat option" where
  "first_index c s = (if c \<in> set s then Some (length (takeWhile (\<lambda>x. x \<noteq> c) s)) else None)"

definition SplitHostPort :: "string \<Rightarrow> (string \<times> string) option" where
  "SplitHostPort hostport =
     (case last_index CHR '':'' hostport of
        None \<Rightarrow> None
      | Some i \<Rightarrow>
          (case (if hostport ! 0 = CHR ''['' then
                   (case first_index CHR '']'' hostport of
                      None \<Rightarrow> None
                    | Some e \<Rightarrow> if e + 1 = i then Some (take (e - 1) (drop 1 hostport), 1, e + 1) else None)
                 else if CHR '':'' \<in> set (take i hostport) then None
                 else Some (take i hostport, 0, 0)) of
             None \<Rightarrow> None
           | Some (host, j, k) \<Rightarrow>
               if CHR ''['' \<in> set (drop j hostport) \<or> CHR '']'' \<in> set (drop k hostport) then None
               else Some (host, drop (i + 1) hostport)))"

text \<open>\<open>lookup\<close> is \<open>net.LookupPort\<close>.\<close>

definition ds_parseAddress :: "(string \<Rightarrow> int result) \<Rightarrow> string \<Rightarrow> (string \<times> int) option" where
  "ds_parseAddress lookup address =
     (case SplitHostPort (TrimPrefix address ''http://'') of
        None \<Rightarrow> None
      | Some (host, portStr) \<Rightarrow>
          Some (host, if portStr = [] then 80 else case lookup portStr of Inl err \<Rightarrow> 80 | Inr p \<Rightarrow> p))"

subsection \<open>What an answer is taken for\<close>

definition resp_header :: "proxied \<Rightarrow> string \<Rightarrow> string" where
  "resp_header resp k = header_Get (PX_Header resp) (CanonicalHeaderKey k)"

text \<open>Text with double quotes is written with backquotes.\<close>

definition analyzeAuthType :: "proxied \<Rightarrow> string \<Rightarrow> string \<times> string" where
  "analyzeAuthType resp bodyStr =
     (let h = resp_header resp ''WWW-Authenticate'' in
      if Contains h ''resource_metadata'' \<or> Contains bodyStr ''oauth-protected-resource'' \<or>
         Contains h ''scope='' \<and> Contains h ''openid'' then (''oauth'', ''low'')
      else if Contains h ''openid'' \<or> contains_any bodyStr [''openid'', ''.well-known/openid-configuration'', ''openid-connect'']
      then (''openid'', ''low'')
      else if Contains h ''Bearer'' then (''bearer'', ''medium'')
      else if Contains h ''Basic'' then (''basic'', ''high'')
      else if Contains h ''Digest'' then (''digest'', ''medium'')
      else if Contains h ''Negotiate'' then (''negotiate'', ''low'')
      else if contains_any bodyStr [''api_key'', ''api-key'', ''x-api-key'', ''apikey''] \<or> Contains h ''ApiKey'' then (''api_key'', ''medium'')
      else if contains_any bodyStr [''jwt'', ''JWT''] \<or> Contains h ''JWT'' then (''jwt'', ''medium'')
      else if contains_any bodyStr [''saml'', ''SAML''] \<or> Contains h ''SAML'' then (''saml'', ''low'')
      else (''other'', ''medium''))"

definition discovered_ID :: "string \<Rightarrow> int \<Rightarrow> gotime \<Rightarrow> string" where
  "discovered_ID address port now =
     ''mcp-'' @ ReplaceAll (TrimPrefix address ''http://'') ''.'' ''-'' @ ''-'' @ show_int port @ ''-'' @ show_int now"

definition discovered_server ::
    "string \<Rightarrow> string \<Rightarrow> string \<Rightarrow> string \<Rightarrow> gotime \<Rightarrow> (string \<rightharpoonup> string) \<Rightarrow> string \<Rightarrow> DiscoveredServer" where
  "discovered_server i name address connection now metadata score = zero_DiscoveredServer
     \<lparr>DS_ID := i, DS_Name := name, DS_Address := address, DS_Protocol := ServerProtocolMCP, DS_Connection := connection,
      DS_Status := ''discovered'', DS_LastSeen := now, DS_Metadata := Some metadata, DS_VulnerabilityScore := score\<rparr>"

text \<open>The loop over the lines of an event stream: the first one with an object that can be read.\<close>

fun sse_object :: "json_reader \<Rightarrow> string list \<Rightarrow> (string \<rightharpoonup> any) option" where
  "sse_object read_json [] = None"
| "sse_object read_json (line # ls) =
     (let jsonData = TrimPrefix line ''data: '' in
      if HasPrefix line ''data: '' \<and> Contains jsonData (dq ''`jsonrpc`'') then
        (case read_json jsonData of Inl err \<Rightarrow> sse_object read_json ls | Inr m \<Rightarrow> Some m)
      else sse_object read_json ls)"

definition rpc_object :: "json_reader \<Rightarrow> string \<Rightarrow> (string \<rightharpoonup> any) option" where
  "rpc_object read_json bodyStr =
     (if Contains bodyStr ''event: message'' \<and> Contains bodyStr ''data: '' then sse_object read_json (Split bodyStr (CHR 0x0A))
      else if Contains bodyStr (dq ''`jsonrpc`'') then (case read_json bodyStr of Inl err \<Rightarrow> None | Inr m \<Rightarrow> Some m)
      else None)"

text \<open>The server's description, the kind of authentication and the score.\<close>

definition rpc_assessment :: "proxied \<Rightarrow> string \<Rightarrow> (string \<rightharpoonup> any) \<Rightarrow> (string \<rightharpoonup> any) option \<times> string \<times> string" where
  "rpc_assessment resp bodyStr m =
     (case any_map (index m ''result'') of
        Some r \<Rightarrow>
          (case any_map (index r ''serverInfo'') of Some server \<Rightarrow> (Some server, ''none'', ''high'') | None \<Rightarrow> (None, [], []))
      | None \<Rightarrow>
          (case any_map (index m ''error'') of
             None \<Rightarrow> (None, [], [])
           | Some err \<Rightarrow>
               (Option.bind (any_map (index err ''data'')) (\<lambda>data. any_map (index data ''serverInfo'')),
                if PX_Status resp = 401 \<or> PX_Status resp = 403 then analyzeAuthType resp bodyStr else (''unknown'', ''medium''))))"

definition not_nil :: "any \<Rightarrow> bool" where
  "not_nil v = (case v of Nil_value \<Rightarrow> False | _ \<Rightarrow> True)"

definition ds_parseMCPResponse ::
    "json_reader \<Rightarrow> gotime \<times> gotime \<Rightarrow> proxied \<Rightarrow> string \<Rightarrow> int \<Rightarrow> string \<Rightarrow> DiscoveredServer option" where
  "ds_parseMCPResponse read_json t resp address port endpoint =
     (let bodyStr = PX_Body resp in
      case rpc_object read_json bodyStr of
        None \<Rightarrow> None
      | Some m \<Rightarrow>
          if any_string (index m ''jsonrpc'') \<noteq> Some ''2.0'' then None
          else (case rpc_assessment resp bodyStr m of
            (serverInfo, authType, score) \<Rightarrow>
              if serverInfo \<noteq> None \<or> not_nil (index m ''result'') \<or> not_nil (index m ''error'') then
                (let connectionType = (if resp_header resp ''Content-Type'' = ''text/event-stream''
                       then ConnectionTypeSSE else ConnectionTypeStreamableHttp);
                     serverName = (case Option.bind serverInfo (\<lambda>s. any_string (index s ''name'')) of
                       Some name \<Rightarrow> name | None \<Rightarrow> ''Unknown MCP Server'')
                 in Some (discovered_server (discovered_ID address port (fst t)) serverName address connectionType (snd t)
                      [''port'' \<mapsto> show_int port, ''endpoint'' \<mapsto> endpoint, ''server_name'' \<mapsto> serverName,
                       ''auth_type'' \<mapsto> authType, ''vulnerability_score'' \<mapsto> score] score))
              else None))"

subsection \<open>Answers that are no messages\<close>

definition mcp_indicators :: "string list" where
  "mcp_indicators = [''MCP'', ''mcp'', ''Model Context Protocol'', ''server'', ''Server'', ''authentication'', ''auth'',
     ''token'', ''Token'', ''bearer'', ''Bearer'', ''unauthorized'', ''Unauthorized'', ''forbidden'', ''Forbidden'']"

definition has_mcp_indicator :: "proxied \<Rightarrow> bool" where
  "has_mcp_indicator resp \<longleftrightarrow>
     contains_any (PX_Body resp) mcp_indicators \<or>
     list_ex (\<lambda>header. contains_any (resp_header resp header) [''MCP'', ''mcp'']) [''Server'', ''X-MCP-Protocol'', ''WWW-Authenticate'']"

definition named_in_page :: "string \<Rightarrow> string" where
  "named_in_page bodyStr =
     (case find (\<lambda>line. Contains line ''MCP'' \<and> Contains line ''Server'') (Split bodyStr (CHR 0x0A)) of
        Some line \<Rightarrow> TrimSpace line
      | None \<Rightarrow> ''MCP Server (Authenticated)'')"

text \<open>The text behind the first occurrence of \<open>p\<close>.\<close>

fun after_first :: "string \<Rightarrow> string \<Rightarrow> string option" where
  "after_first p [] = (if p = [] then Some [] else None)"
| "after_first p (c # s) = (if HasPrefix (c # s) p then Some (drop (length p) (c # s)) else after_first p s)"

definition auth_realm :: "string \<Rightarrow> string" where
  "auth_realm rest =
     (case after_first (dq ''realm=`'') rest of
        None \<Rightarrow> []
      | Some s \<Rightarrow> if CHR 0x22 \<in> set s then takeWhile (\<lambda>c. c \<noteq> CHR 0x22) s else [])"

definition auth_scheme_realm :: "string \<Rightarrow> string \<times> string" where
  "auth_scheme_realm authHeader =
     (if Contains authHeader '' '' then
        (let parts = SplitN2 authHeader CHR '' '' in
         (parts ! 0, if Contains (parts ! 1) ''realm='' then auth_realm (parts ! 1) else []))
      else (''unknown'', []))"

definition detectMCPFromHTTPResponse ::
    "gotime \<times> gotime \<Rightarrow> proxied \<Rightarrow> string \<Rightarrow> int \<Rightarrow> string \<Rightarrow> DiscoveredServer option" where
  "detectMCPFromHTTPResponse t resp address port endpoint =
     (if (PX_Status resp = 401 \<or> PX_Status resp = 403) \<and> has_mcp_indicator resp then
        (let bodyStr = PX_Body resp;
             serverName = (if Contains bodyStr ''MCP'' \<and> Contains bodyStr ''Server'' then named_in_page bodyStr
               else ''MCP Server (Authenticated)'');
             (authType, score) = analyzeAuthType resp bodyStr;
             (authScheme, authRealm) = auth_scheme_realm (resp_header resp ''WWW-Authenticate'')
         in Some (discovered_server (discovered_ID address port (fst t)) serverName address ConnectionTypeStreamableHttp (snd t)
              [''port'' \<mapsto> show_int port, ''endpoint'' \<mapsto> endpoint, ''server_name'' \<mapsto> serverName, ''auth_type'' \<mapsto> authType,
               ''auth_scheme'' \<mapsto> authScheme, ''auth_realm'' \<mapsto> authRealm, ''vulnerability_score'' \<mapsto> score,
               ''detection_method'' \<mapsto> ''http-auth-response''] score))
      else if 200 \<le> PX_Status resp \<and> PX_Status resp < 300 \<and>
        (resp_header resp ''X-MCP-Protocol'' \<noteq> [] \<or> Contains (resp_header resp ''Server'') ''MCP'' \<or>
         Contains (resp_header resp ''Content-Type'') ''mcp'')
      then Some (discovered_server (discovered_ID address port (fst t)) ''MCP Server'' address ConnectionTypeStreamableHttp (snd t)
             [''port'' \<mapsto> show_int port, ''endpoint'' \<mapsto> endpoint, ''server_name'' \<mapsto> ''MCP Server'', ''auth_type'' \<mapsto> ''unknown'',
              ''vulnerability_score'' \<mapsto> ''medium'', ''detection_method'' \<mapsto> ''http-headers''] ''medium'')
      else None)"

definition ds_isMCPServerResponse :: "proxied \<Rightarrow> bool" where
  "ds_isMCPServerResponse resp =
     (if PX_Status resp < 200 \<or> PX_Status resp \<ge> 300 then False
      else Contains (resp_header resp ''Content-Type'') ''application/json'' \<or>
           resp_header resp ''Content-Type'' = ''text/event-stream'' \<or> resp_header resp ''X-MCP-Protocol'' \<noteq> [])"

subsection \<open>A detection\<close>

text \<open>The text of the first request, indented by tabs.\<close>

definition tabs :: "nat \<Rightarrow> string \<Rightarrow> string" where
  "tabs n s = replicate n (CHR 0x09) @ dq s"

definition detection_payload :: string where
  "detection_payload = unlines
     [''{'', tabs 2 ''`jsonrpc`: `2.0`,'', tabs 2 ''`id`: 1,'', tabs 2 ''`method`: `initialize`,'', tabs 2 ''`params`: {'',
      tabs 3 ''`protocolVersion`: `2024-11-05`,'', tabs 3 ''`capabilities`: {},'', tabs 3 ''`clientInfo`: {'',
      tabs 4 ''`name`: `mcp-scanner`,'', tabs 4 ''`version`: `1.0`'', tabs 3 ''}'', tabs 2 ''}'', tabs 1 ''}'']"

definition detection_request :: "string \<Rightarrow> forwarded" where
  "detection_request url = \<lparr>FW_Method = ''POST'', FW_URL = url,
     FW_Header = [''User-Agent'' \<mapsto> [''MCP-Discovery/1.0''], ''Content-Type'' \<mapsto> [''application/json''],
       ''Accept'' \<mapsto> [''application/json, text/event-stream'']],
     FW_Body = detection_payload\<rparr>"

definition detect_answer ::
    "json_reader \<Rightarrow> gotime \<times> gotime \<Rightarrow> proxied \<Rightarrow> string \<Rightarrow> int \<Rightarrow> string \<Rightarrow> DiscoveredServer option" where
  "detect_answer read_json t resp address port endpoint =
     (case ds_parseMCPResponse read_json t resp address port endpoint of
        Some server \<Rightarrow> Some server
      | None \<Rightarrow> detectMCPFromHTTPResponse t resp address port endpoint)"

text \<open>The loop over the endpoints. A request that cannot be made, is not answered or whose body cannot be read leads to the next.\<close>

fun detect_endpoints ::
    "(forwarded \<Rightarrow> sent) \<Rightarrow> json_reader \<Rightarrow> clock \<Rightarrow> string \<Rightarrow> int \<Rightarrow> string list \<Rightarrow> DiscoveredServer option" where
  "detect_endpoints send read_json clk address port [] = None"
| "detect_endpoints send read_json clk address port (endpoint # endpoints) =
     (case send (detection_request (address @ endpoint)) of
        Answered resp \<Rightarrow>
          (if PX_Error resp \<noteq> None then detect_endpoints send read_json clk address port endpoints
           else case detect_answer read_json (clk (address @ endpoint)) resp address port endpoint of
             Some server \<Rightarrow> Some server
           | None \<Rightarrow> detect_endpoints send read_json clk address port endpoints)
      | _ \<Rightarrow> detect_endpoints send read_json clk address port endpoints)"

definition ds_detectMCPServerAtAddress ::
    "(forwarded \<Rightarrow> sent) \<Rightarrow> json_reader \<Rightarrow> clock \<Rightarrow> string \<Rightarrow> int \<Rightarrow> DiscoveredServer option" where
  "ds_detectMCPServerAtAddress send read_json clk ip port =
     detect_endpoints send read_json clk (''http://'' @ ip @ '':'' @ show_int port) port [''/mcp'', ''/'']"

subsection \<open>Scans\<close>

record model_scan_job =
  MSJ_ID :: string
  MSJ_Status :: string
  MSJ_StartTime :: gotime
  MSJ_Config :: ScanConfig
  MSJ_Results :: "DiscoveredServer list"
  MSJ_Error :: string

record discovery_service =
  dsv_scans :: "string \<rightharpoonup> model_scan_job"
  dsv_cache :: "string \<rightharpoonup> DiscoveredServer"

definition NewDiscoveryService :: discovery_service where
  "NewDiscoveryService = \<lparr>dsv_scans = Map.empty, dsv_cache = Map.empty\<rparr>"

datatype discovery_payload = DSP_started string | DSP_job model_scan_job | DSP_jobs "model_scan_job list"
  | DSP_servers "DiscoveredServer list"

type_synonym discovery_reply = "int \<times> (string + discovery_payload)"

definition texts_of :: "any \<Rightarrow> string list" where
  "texts_of v = (case any_slice v of None \<Rightarrow> [] | Some xs \<Rightarrow> List.map_filter any_string xs)"

definition port_text :: "any \<Rightarrow> string option" where
  "port_text v = (case v of Float64 f \<Rightarrow> Some (show_int (int_of_float f)) | String_value t \<Rightarrow> Some t | _ \<Rightarrow> None)"

definition add_missing :: "string list \<Rightarrow> string \<Rightarrow> string list" where
  "add_missing ranges r = (if r \<in> set ranges then ranges else ranges @ [r])"

definition scan_config_of :: "(string \<rightharpoonup> any) \<Rightarrow> ScanConfig" where
  "scan_config_of req =
     \<lparr>SCfg_ScanRanges = add_missing (add_missing (texts_of (index req ''scanRanges'')) ''127.0.0.1/32'') ''localhost'',
      SCfg_Ports = (case any_slice (index req ''ports'') of None \<Rightarrow> [] | Some xs \<Rightarrow> List.map_filter port_text xs),
      SCfg_Timeout = (case any_string (index req ''timeout'') of None \<Rightarrow> [] | Some t \<Rightarrow> t),
      SCfg_MaxConcurrent = (case any_float (index req ''maxConcurrent'') of None \<Rightarrow> 10 | Some f \<Rightarrow> int_of_float f),
      SCfg_ExcludeProxy = None, SCfg_ExcludeAddresses = []\<rparr>"

text \<open>\<open>now\<close> names the scan, \<open>now'\<close> is its start. The goroutine is the step \<open>ds_runScan\<close>.\<close>

definition ds_StartScan ::
    "string result \<Rightarrow> json_reader \<Rightarrow> gotime \<Rightarrow> gotime \<Rightarrow> discovery_service \<Rightarrow> discovery_service \<times> discovery_reply" where
  "ds_StartScan body read_json now now' st =
     (case body of
        Inl err \<Rightarrow> (st, 400, Inl err)
      | Inr b \<Rightarrow>
          (case read_json b of
             Inl err \<Rightarrow> (st, 400, Inl err)
           | Inr req \<Rightarrow>
               let config = scan_config_of req in
               if SCfg_ScanRanges config = [] then (st, 400, Inl ''at least one scan range required'')
               else if SCfg_Ports config = [] then (st, 400, Inl ''at least one port required'')
               else
                 let scanId = ''scan-'' @ show_int now;
                     job = \<lparr>MSJ_ID = scanId, MSJ_Status = ''running'', MSJ_StartTime = now', MSJ_Config = config,
                       MSJ_Results = [], MSJ_Error = []\<rparr>
                 in (st\<lparr>dsv_scans := (dsv_scans st)(scanId \<mapsto> job)\<rparr>, 200, Inr (DSP_started scanId))))"

text \<open>The response shows the results of a completed job only, and an error only if there is one.\<close>

definition ds_GetScanStatus :: "string \<Rightarrow> discovery_service \<Rightarrow> discovery_reply" where
  "ds_GetScanStatus scanId st =
     (case dsv_scans st scanId of
        None \<Rightarrow> (404, Inl ''Scan not found'')
      | Some job \<Rightarrow> (200, Inr (DSP_job (if MSJ_Status job = ''completed'' then job else job\<lparr>MSJ_Results := []\<rparr>))))"

definition ds_ListScans :: "string list \<Rightarrow> discovery_service \<Rightarrow> discovery_reply" where
  "ds_ListScans ks st = (200, Inr (DSP_jobs (range_values (dsv_scans st) ks)))"

definition ds_ListDiscoveredServers :: "string list \<Rightarrow> discovery_service \<Rightarrow> discovery_reply" where
  "ds_ListDiscoveredServers ks st = (200, Inr (DSP_servers (range_values (dsv_cache st) ks)))"

text \<open>\<open>valid_duration\<close> is \<open>time.ParseDuration\<close>. The configuration with its default, or the error.\<close>

definition validateScanConfig :: "(string \<Rightarrow> bool) \<Rightarrow> ScanConfig \<Rightarrow> ScanConfig result" where
  "validateScanConfig valid_duration config =
     (if SCfg_ScanRanges config = [] then Inl ''at least one scan range required''
      else case find (\<lambda>cidr. ParseCIDR cidr = None) (SCfg_ScanRanges config) of
        Some cidr \<Rightarrow> Inl (''invalid CIDR range: '' @ cidr)
      | None \<Rightarrow>
          if SCfg_Ports config = [] then Inl ''at least one port required''
          else if SCfg_Timeout config \<noteq> [] \<and> \<not> valid_duration (SCfg_Timeout config)
          then Inl (''invalid timeout format: '' @ SCfg_Timeout config)
          else
            let config' = (if SCfg_MaxConcurrent config = 0 then config\<lparr>SCfg_MaxConcurrent := 10\<rparr> else config) in
            if SCfg_MaxConcurrent config' < 1 \<or> SCfg_MaxConcurrent config' > 100
            then Inl ''maxConcurrent must be between 1 and 100'' else Inr config')"

text \<open>What the three loops find: ranges that cannot be expanded are passed over.\<close>

definition scan_addresses :: "ScanConfig \<Rightarrow> (string \<times> int) list" where
  "scan_addresses config =
     concat (map (\<lambda>scanRange. case DiscoveryService_expandCIDR scanRange of
         Inl err \<Rightarrow> []
       | Inr ips \<Rightarrow> List.product ips (DiscoveryService_expandPorts (SCfg_Ports config))) (SCfg_ScanRanges config))"

definition scan_detections ::
    "(forwarded \<Rightarrow> sent) \<Rightarrow> json_reader \<Rightarrow> clock \<Rightarrow> ScanConfig \<Rightarrow> DiscoveredServer list" where
  "scan_detections send read_json clk config =
     List.map_filter (\<lambda>(ip, port). ds_detectMCPServerAtAddress send read_json clk ip port) (scan_addresses config)"

definition cacheServers :: "DiscoveredServer list \<Rightarrow> discovery_service \<Rightarrow> discovery_service" where
  "cacheServers servers st = st\<lparr>dsv_cache := foldl (\<lambda>m server. m(DS_ID server \<mapsto> server)) (dsv_cache st) servers\<rparr>"

text \<open>No operation removes a job, so the job that the goroutine looked up is the one it completes. Nothing in it panics.\<close>

definition ds_runScan ::
    "(forwarded \<Rightarrow> sent) \<Rightarrow> json_reader \<Rightarrow> clock \<Rightarrow> string \<Rightarrow> ScanConfig \<Rightarrow> discovery_service \<Rightarrow> discovery_service" where
  "ds_runScan send read_json clk scanId config st =
     (case dsv_scans st scanId of
        None \<Rightarrow> st
      | Some job \<Rightarrow>
          let discovered = scan_detections send read_json clk config in
          cacheServers discovered
            (st\<lparr>dsv_scans := (dsv_scans st)(scanId \<mapsto> job\<lparr>MSJ_Results := discovered, MSJ_Status := ''completed''\<rparr>)\<rparr>))"

subsection \<open>Plain scans\<close>

record ScanResult =
  SR_Address :: string
  SR_Reachable :: bool
  SR_ResponseTime :: duration
  SR_Error :: string

text \<open>\<open>get\<close> is what a GET of the address comes to, \<open>time_of\<close> how long it takes.\<close>

definition scanTarget :: "(string \<Rightarrow> proxied result) \<Rightarrow> (string \<Rightarrow> duration) \<Rightarrow> string \<Rightarrow> ScanResult" where
  "scanTarget get time_of address =
     (case get address of
        Inl err \<Rightarrow> \<lparr>SR_Address = address, SR_Reachable = False, SR_ResponseTime = time_of address, SR_Error = err\<rparr>
      | Inr resp \<Rightarrow> \<lparr>SR_Address = address, SR_Reachable = True, SR_ResponseTime = time_of address, SR_Error = []\<rparr>)"

definition scanTargets :: "(string \<Rightarrow> proxied result) \<Rightarrow> (string \<Rightarrow> duration) \<Rightarrow> string list \<Rightarrow> ScanResult list" where
  "scanTargets get time_of targets = map (scanTarget get time_of) targets"

text \<open>The port in an address, 0 if it has none.\<close>

definition address_port :: "string \<Rightarrow> int" where
  "address_port address =
     (case SplitHostPort (TrimPrefix address ''http://'') of
        None \<Rightarrow> 0 | Some (_, portStr) \<Rightarrow> (case Atoi portStr of Inl err \<Rightarrow> 0 | Inr p \<Rightarrow> p))"

definition detectMCPServers :: "clock \<Rightarrow> ScanResult list \<Rightarrow> DiscoveredServer list" where
  "detectMCPServers clk results =
     map (\<lambda>result.
         let address = SR_Address result; port = address_port address in
         zero_DiscoveredServer
           \<lparr>DS_ID := ''mcp-'' @ ReplaceAll (TrimPrefix address ''http://'') ''.'' ''-'' @ ''-'' @ show_int (fst (clk address)),
            DS_Name := ''MCP Server at '' @ address, DS_Address := address, DS_Protocol := ServerProtocolMCP,
            DS_Connection := ConnectionTypeStreamableHttp, DS_Status := ''healthy'', DS_LastSeen := snd (clk address),
            DS_Metadata := Some [''detectionMethod'' \<mapsto> ''port-scan'', ''auth_type'' \<mapsto> getAuthTypeFromPort port],
            DS_VulnerabilityScore := determineVulnerabilityScore port\<rparr>)
       (filter SR_Reachable results)"

subsection \<open>Probes\<close>

record authDetectionResult =
  ADR_isMCP :: bool
  ADR_vulnerabilityScore :: string
  ADR_authType :: string
  ADR_serverName :: string

definition no_mcp :: authDetectionResult where
  "no_mcp = \<lparr>ADR_isMCP = False, ADR_vulnerabilityScore = [], ADR_authType = [], ADR_serverName = []\<rparr>"

abbreviation mcp_found :: "string \<Rightarrow> string \<Rightarrow> string \<Rightarrow> authDetectionResult" where
  "mcp_found score authType serverName \<equiv>
     \<lparr>ADR_isMCP = True, ADR_vulnerabilityScore = score, ADR_authType = authType, ADR_serverName = serverName\<rparr>"

definition probe_request :: "string \<Rightarrow> string \<Rightarrow> forwarded" where
  "probe_request client url = \<lparr>FW_Method = ''POST'', FW_URL = url,
     FW_Header = [''Content-Type'' \<mapsto> [''application/json''], ''Accept'' \<mapsto> [''application/json, text/event-stream'']],
     FW_Body = dq (''{`jsonrpc`:`2.0`,`id`:1,`method`:`initialize`,`params`:{`protocolVersion`:`2024-11-05`,`capabilities`:{},'' @
       ''`clientInfo`:{`name`:`'' @ client @ ''`,`version`:`1.0`}}}'')\<rparr>"

definition looks_like_mcp :: "string \<Rightarrow> bool" where
  "looks_like_mcp bodyStr \<longleftrightarrow>
     Contains bodyStr (dq ''`jsonrpc`'') \<and> (Contains bodyStr (dq ''`result`'') \<or> Contains bodyStr (dq ''`error`''))"

definition name_below :: "any \<Rightarrow> string option" where
  "name_below v = Option.bind (any_map v) (\<lambda>m. Option.bind (any_map (index m ''serverInfo'')) (\<lambda>info. any_string (index info ''name'')))"

text \<open>The name in a result, or else in the data of an error; if both are there, that of the error.\<close>

definition probed_name :: "json_reader \<Rightarrow> string \<Rightarrow> string" where
  "probed_name read_json bodyStr =
     (case read_json bodyStr of
        Inl err \<Rightarrow> []
      | Inr response \<Rightarrow>
          (let found = (case name_below (index response ''result'') of None \<Rightarrow> [] | Some name \<Rightarrow> name) in
           case Option.bind (any_map (index response ''error'')) (\<lambda>e. name_below (index e ''data'')) of
             None \<Rightarrow> found | Some name \<Rightarrow> name))"

text \<open>\<open>first_read\<close> is what one call of \<open>Read\<close> with a buffer of 1024 bytes gives of a body.\<close>

definition scanProxyEndpoint ::
    "(forwarded \<Rightarrow> sent) \<Rightarrow> json_reader \<Rightarrow> (string \<Rightarrow> string) \<Rightarrow> string \<Rightarrow> authDetectionResult" where
  "scanProxyEndpoint send read_json first_read url =
     (case send (probe_request ''mcp-scanner'' url) of
        Answered resp \<Rightarrow>
          (let bodyStr = first_read (PX_Body resp); serverName = probed_name read_json bodyStr;
               h = resp_header resp ''WWW-Authenticate'' in
           if \<not> looks_like_mcp bodyStr then no_mcp
           else if PX_Status resp = 401 \<or> PX_Status resp = 403 then
             (if Contains h ''resource_metadata'' then mcp_found ''low'' ''oauth'' serverName
              else if Contains h ''Bearer'' then mcp_found ''medium'' ''token'' serverName
              else mcp_found ''medium'' ''other'' serverName)
           else if PX_Status resp = 200 then mcp_found ''high'' ''none'' serverName
           else mcp_found ''medium'' ''unknown'' serverName)
      | _ \<Rightarrow> no_mcp)"

definition scanDirectMCPServer ::
    "(forwarded \<Rightarrow> sent) \<Rightarrow> json_reader \<Rightarrow> (string \<Rightarrow> string) \<Rightarrow> string \<Rightarrow> authDetectionResult" where
  "scanDirectMCPServer send read_json first_read url =
     (case send (probe_request ''mcp-discovery'' url) of
        Answered resp \<Rightarrow>
          (let bodyStr = first_read (PX_Body resp);
               serverName = (if looks_like_mcp bodyStr then probed_name read_json bodyStr else []) in
           if looks_like_mcp bodyStr then
             (if PX_Status resp = 200 then mcp_found ''high'' ''none'' serverName
              else if PX_Status resp = 401 \<or> PX_Status resp = 403 then
                (case analyzeAuthType resp bodyStr of (authType, score) \<Rightarrow> mcp_found score authType serverName)
              else mcp_found ''high'' ''none'' serverName)
           else if PX_Status resp = 200 then mcp_found ''high'' ''none'' serverName
           else no_mcp)
      | _ \<Rightarrow> no_mcp)"

definition testStreamableHTTPEndpoint ::
    "(forwarded \<Rightarrow> sent) \<Rightarrow> json_reader \<Rightarrow> (string \<Rightarrow> string) \<Rightarrow> string \<Rightarrow> authDetectionResult" where
  "testStreamableHTTPEndpoint send read_json first_read url =
     (if Contains url ''/adapters/'' \<and> Contains url ''/mcp'' then scanProxyEndpoint send read_json first_read url
      else scanDirectMCPServer send read_json first_read url)"

text \<open>The score is that of the port, not that of the probe.\<close>

definition testMCPServer ::
    "(forwarded \<Rightarrow> sent) \<Rightarrow> json_reader \<Rightarrow> (string \<Rightarrow> string) \<Rightarrow> gotime \<times> gotime \<Rightarrow> string \<Rightarrow> DiscoveredServer option" where
  "testMCPServer send read_json first_read t address =
     (let authResult = testStreamableHTTPEndpoint send read_json first_read (address @ ''/mcp'') in
      if ADR_isMCP authResult then Some (zero_DiscoveredServer
        \<lparr>DS_ID := ''mcp-'' @ show_int (fst t), DS_Name := ADR_serverName authResult, DS_Address := address,
         DS_Protocol := ServerProtocolMCP, DS_Connection := ConnectionTypeStreamableHttp, DS_Status := ''healthy'',
         DS_LastSeen := snd t,
         DS_Metadata := Some [''detectionMethod'' \<mapsto> ''streamable-http'', ''auth_type'' \<mapsto> ADR_authType authResult],
         DS_VulnerabilityScore := determineVulnerabilityScore (address_port address)\<rparr>)
      else None)"

subsection \<open>Registration\<close>

text \<open>The token of an adapter: signed when there is a manager that can, else random. \<open>tok\<close> is what the manager gives for the
  adapter's name and the address, \<open>None\<close> without a manager; \<open>random_token\<close> is what \<open>generateSecureToken\<close> draws.\<close>

definition secured_auth :: "AuthTokenInfo result option \<Rightarrow> string \<Rightarrow> AdapterAuthConfig" where
  "secured_auth tok random_token =
     (let config = (\<lambda>b. \<lparr>AAC_Required = True, AAC_Type = ''bearer'', AAC_BearerToken = Some b, AAC_OAuth = None,
            AAC_Basic = None, AAC_APIKey = None\<rparr>) in
      case tok of
        Some (Inr t) \<Rightarrow> config \<lparr>BT_Token = ATI_AccessToken t, BT_Dynamic = True, BT_ExpiresAt = ATI_ExpiresAt t\<rparr>
      | _ \<Rightarrow> config \<lparr>BT_Token = random_token, BT_Dynamic = False, BT_ExpiresAt = 0\<rparr>)"

definition generateSecureToken :: "string result \<Rightarrow> gotime \<Rightarrow> string" where
  "generateSecureToken random now =
     (case random of Inl err \<Rightarrow> ''fallback-token-'' @ show_int now | Inr bytes \<Rightarrow> b64_encode bytes)"

definition needs_securing :: "DiscoveredServer \<Rightarrow> bool" where
  "needs_securing server \<longleftrightarrow> DS_VulnerabilityScore server = ''high'' \<and>
     (case DS_Metadata server of None \<Rightarrow> False | Some m \<Rightarrow> m ''auth_type'' = Some ''none'')"

text \<open>\<open>now\<close> is the time in the name.\<close>

definition discovered_adapter :: "gotime \<Rightarrow> string \<Rightarrow> DiscoveredServer \<Rightarrow> AdapterData" where
  "discovered_adapter now host server =
     (let data = zero_AdapterData\<lparr>AD_Name := ''discovered-'' @ ReplaceAll host ''.'' ''-'' @ ''-'' @ show_int (Unix now),
            AD_Protocol := DS_Protocol server, AD_Description := ''Auto-discovered MCP server at '' @ DS_Address server\<rparr>;
          t = DS_Connection server in
      if t = ConnectionTypeRemoteHttp \<or> t = ConnectionTypeSSE \<or> t = ConnectionTypeStreamableHttp
      then data\<lparr>AD_ConnectionType := ConnectionTypeRemoteHttp, AD_RemoteUrl := DS_Address server\<rparr>
      else if t = ConnectionTypeLocalStdio
      then data\<lparr>AD_ConnectionType := ConnectionTypeLocalStdio, AD_Command := ''python'', AD_Args := [''discovered_server.py'']\<rparr>
      else data\<lparr>AD_ConnectionType := t, AD_ImageName := ''mcp-proxy'', AD_ImageVersion := ''1.0.0'',
        AD_EnvironmentVariables := [''MCP_PROXY_URL'' \<mapsto> DS_Address server @ ''/mcp'']\<rparr>)"

definition secured_adapter ::
    "(string \<Rightarrow> string \<Rightarrow> AuthTokenInfo result) option \<Rightarrow> string \<Rightarrow> DiscoveredServer \<Rightarrow> AdapterData \<Rightarrow> AdapterData" where
  "secured_adapter tokens random_token server data =
     (if needs_securing server
      then data\<lparr>AD_Authentication :=
             Some (secured_auth (map_option (\<lambda>f. f (AD_Name data) (DS_Address server)) tokens) random_token),
           AD_Description := AD_Description data @ '' (Automatically secured with bearer authentication)''\<rparr>
      else data)"

text \<open>The body of the request that is made for the other handler: the way through JSON changes nothing in it.\<close>

definition registration_body :: "AdapterData \<Rightarrow> CreateAdapterBody" where
  "registration_body data =
     \<lparr>CAB_Name = AD_Name data, CAB_ImageName = AD_ImageName data, CAB_ImageVersion = AD_ImageVersion data,
      CAB_Protocol = AD_Protocol data, CAB_ConnectionType = AD_ConnectionType data,
      CAB_EnvironmentVariables = AD_EnvironmentVariables data, CAB_ReplicaCount = AD_ReplicaCount data,
      CAB_Description = AD_Description data, CAB_UseWorkloadIdentity = AD_UseWorkloadIdentity data,
      CAB_RemoteUrl = AD_RemoteUrl data, CAB_Command = AD_Command data, CAB_Args = AD_Args data,
      CAB_MCPClientConfig = AD_MCPClientConfig data, CAB_Authentication = AD_Authentication data\<rparr>"

text \<open>\<open>user\<close> is what is under the key \<open>user\<close> of the request, if the key is there (empty if it is no text). The state that may change is that of the management
  service; the answer is its status with the adapter, whether it was secured, or the error.\<close>

definition ds_RegisterServer ::
    "'s AdapterResourceStore \<Rightarrow> 'c clientset option \<Rightarrow> discovery_net \<Rightarrow> handler_env \<Rightarrow>
     (string \<Rightarrow> string \<Rightarrow> AuthTokenInfo result) option \<Rightarrow> string \<Rightarrow> (string \<Rightarrow> int result) \<Rightarrow> gotime \<Rightarrow> string option \<Rightarrow>
     string result \<Rightarrow> discovery_service \<Rightarrow> ('s, 'c) ManagementService \<Rightarrow>
     ('s, 'c) ManagementService \<times> int \<times> (string + management_payload \<times> bool)" where
  "ds_RegisterServer A kube N e tokens random_token lookup now user req st ms =
     (case req of
        Inl err \<Rightarrow> (ms, 400, Inl err)
      | Inr serverId \<Rightarrow>
          (case dsv_cache st serverId of
             None \<Rightarrow> (ms, 404, Inl ''Discovered server not found'')
           | Some server \<Rightarrow>
               (case ds_parseAddress lookup (DS_Address server) of
                  None \<Rightarrow> (ms, 400, Inl ''Invalid server address'')
                | Some (host, _) \<Rightarrow>
                    let data = secured_adapter tokens random_token server (discovered_adapter now host server);
                        creator = (case user of Some u \<Rightarrow> u | None \<Rightarrow> ''discovered-server-user'')
                    in (case Management_CreateAdapter A kube N e creator (Inr []) (\<lambda>b. Inr (registration_body data)) ms of
                          (ms', status, Inr answer) \<Rightarrow> (ms', 201, Inr (answer, needs_securing server))
                        | (ms', status, Inl err) \<Rightarrow> (ms', status, Inl err)))))"

subsection \<open>Properties\<close>

lemma CanonicalHeaderKeys: "CanonicalHeaderKey ''WWW-Authenticate'' = ''Www-Authenticate''" "CanonicalHeaderKey ''Content-Type'' = ''Content-Type''"
  by code_simp+

text \<open>The first endpoint that is recognised gives the server.\<close>

lemma detect_endpoints_Some:
  assumes "detect_endpoints send read_json clk address port endpoints = Some server"
  obtains endpoint resp where "endpoint \<in> set endpoints" "send (detection_request (address @ endpoint)) = Answered resp"
    "detect_answer read_json (clk (address @ endpoint)) resp address port endpoint = Some server"
proof -
  have "\<exists>endpoint\<in>set endpoints. \<exists>resp. send (detection_request (address @ endpoint)) = Answered resp \<and>
      detect_answer read_json (clk (address @ endpoint)) resp address port endpoint = Some server"
    using assms by (induction endpoints) (auto split: sent.splits if_splits option.splits)
  with that show thesis by blast
qed

lemma low_means_refused:
  assumes "detect_answer read_json t resp address port endpoint = Some server" and "DS_VulnerabilityScore server = ''low''"
  shows "PX_Status resp = 401 \<or> PX_Status resp = 403"
proof (cases "ds_parseMCPResponse read_json t resp address port endpoint")
  case None
  with assms show ?thesis
    by (auto simp: detect_answer_def detectMCPFromHTTPResponse_def discovered_server_def Let_def split: if_splits prod.splits)
next
  case (Some s)
  with assms(1) have "s = server" by (simp add: detect_answer_def)
  with Some obtain m where m: "rpc_object read_json (PX_Body resp) = Some m"
      "snd (snd (rpc_assessment resp (PX_Body resp) m)) = DS_VulnerabilityScore server"
    by (auto simp: ds_parseMCPResponse_def Let_def discovered_server_def split: option.splits if_splits prod.splits)
  with assms(2) show ?thesis
    by (auto simp: rpc_assessment_def split: option.splits if_splits)
qed

lemma detected_first:
  assumes "send (detection_request (''http://'' @ ip @ '':'' @ show_int port @ ''/mcp'')) = Answered resp" and "PX_Error resp = None"
    and "detect_answer read_json (clk (''http://'' @ ip @ '':'' @ show_int port @ ''/mcp'')) resp
      (''http://'' @ ip @ '':'' @ show_int port) port ''/mcp'' = Some server"
  shows "ds_detectMCPServerAtAddress send read_json clk ip port = Some server"
  using assms by (simp add: ds_detectMCPServerAtAddress_def)

text \<open>A server is reported with a low risk only if it refused the request that the scan made, at one of its two endpoints, with the
  status 401 or 403.\<close>

theorem low_risk_servers_refuse:
  assumes "ds_detectMCPServerAtAddress send read_json clk ip port = Some server" and "DS_VulnerabilityScore server = ''low''"
  shows "\<exists>endpoint\<in>{''/mcp'', ''/''}. \<exists>resp. send (detection_request (''http://'' @ ip @ '':'' @ show_int port @ endpoint)) = Answered resp \<and>
    (PX_Status resp = 401 \<or> PX_Status resp = 403)"
proof -
  from assms(1) obtain endpoint resp where *: "endpoint \<in> {''/mcp'', ''/''}"
      "send (detection_request ((''http://'' @ ip @ '':'' @ show_int port) @ endpoint)) = Answered resp"
      "detect_answer read_json (clk ((''http://'' @ ip @ '':'' @ show_int port) @ endpoint)) resp
         (''http://'' @ ip @ '':'' @ show_int port) port endpoint = Some server"
    unfolding ds_detectMCPServerAtAddress_def by (rule detect_endpoints_Some) auto
  from low_means_refused [OF *(3) assms(2)] *(1,2) show ?thesis by auto
qed

lemma open_answer:
  assumes "rpc_object read_json (PX_Body resp) = Some m" and "any_string (index m ''jsonrpc'') = Some ''2.0''"
    and "any_map (index m ''result'') = Some r" and "any_map (index r ''serverInfo'') = Some info"
  obtains server where "ds_parseMCPResponse read_json t resp address port endpoint = Some server" "needs_securing server"
    "DS_Address server = address"
proof -
  from assms obtain server where "ds_parseMCPResponse read_json t resp address port endpoint = Some server" "needs_securing server"
      "DS_Address server = address"
    by (auto simp: ds_parseMCPResponse_def rpc_assessment_def needs_securing_def discovered_server_def Let_def)
  with that show thesis by blast
qed

lemma registered_secured:
  assumes "dsv_cache st i = Some server" and "needs_securing server"
    and "ds_RegisterServer InMemoryAdapterStore_ops kube N e tokens random_token lookup now user (Inr i) st ms =
      (ms', 201, Inr (MGP_adapter a, secured))"
  shows "secured \<and> imas_adapters (ms_store ms') (AR_ID a) = Some a \<and>
    (\<exists>c b. AD_Authentication a = Some c \<and> AAC_Required c \<and> AAC_Type c = ''bearer'' \<and> AAC_BearerToken c = Some b)"
proof -
  from assms obtain host p where host: "ds_parseAddress lookup (DS_Address server) = Some (host, p)"
    by (auto simp: ds_RegisterServer_def split: option.splits)
  define data where "data = secured_adapter tokens random_token server (discovered_adapter now host server)"
  define creator where "creator = (case user of Some u \<Rightarrow> u | None \<Rightarrow> ''discovered-server-user'')"
  obtain status r where run: "Management_CreateAdapter InMemoryAdapterStore_ops kube N e creator (Inr []) (\<lambda>b. Inr (registration_body data)) ms =
      (ms', status, r)" "r = Inr (MGP_adapter a)" "secured"
    using assms host by (auto simp: ds_RegisterServer_def data_def [symmetric] creator_def [symmetric] Let_def split: prod.splits sum.splits)
  have "status = 201"
    using run(1,2) by (auto simp: Management_CreateAdapter_def create_valid_def Let_def split: if_splits option.splits prod.splits)
  with run(1) have "Management_CreateAdapter InMemoryAdapterStore_ops kube N e creator (Inr []) (\<lambda>b. Inr (registration_body data)) ms =
      (ms', 201, r)" by simp
  then obtain a' where *: "r = Inr (MGP_adapter a')" "AD_Authentication a' = CAB_Authentication (registration_body data)"
      "imas_adapters (ms_store ms') = (imas_adapters (ms_store ms))(AR_ID a' \<mapsto> a')"
    by (rule mem_management.created) auto
  then have "a' = a" "CAB_Authentication (registration_body data) = AD_Authentication data"
    using run(2) by (auto simp: registration_body_def)
  with * run(3) assms(2) show ?thesis
    by (auto simp: data_def secured_adapter_def secured_auth_def Let_def split: option.splits sum.splits)
qed

text \<open>An open server gets a token. Where a server at the endpoint \<open>/mcp\<close> of an address answers the scan's request with a result that
  describes it, the scan reports a server; and if that is registered as an adapter with success, the adapter that is stored asks its clients
  for a bearer token.\<close>

theorem open_servers_are_secured:
  assumes "send (detection_request (''http://'' @ ip @ '':'' @ show_int port @ ''/mcp'')) = Answered resp" and "PX_Error resp = None"
    and "rpc_object read_json (PX_Body resp) = Some m" and "any_string (index m ''jsonrpc'') = Some ''2.0''"
    and "any_map (index m ''result'') = Some r" and "any_map (index r ''serverInfo'') = Some info"
  shows "\<exists>server. ds_detectMCPServerAtAddress send read_json clk ip port = Some server \<and>
    (\<forall>st ms ms' a secured. dsv_cache st i = Some server \<longrightarrow>
       ds_RegisterServer InMemoryAdapterStore_ops kube N e tokens random_token lookup now user (Inr i) st ms =
         (ms', 201, Inr (MGP_adapter a, secured)) \<longrightarrow>
       secured \<and> imas_adapters (ms_store ms') (AR_ID a) = Some a \<and>
       (\<exists>c b. AD_Authentication a = Some c \<and> AAC_Required c \<and> AAC_Type c = ''bearer'' \<and> AAC_BearerToken c = Some b))"
proof -
  obtain server where server: "needs_securing server"
      "ds_parseMCPResponse read_json (clk (''http://'' @ ip @ '':'' @ show_int port @ ''/mcp'')) resp
         (''http://'' @ ip @ '':'' @ show_int port) port ''/mcp'' = Some server"
    using open_answer [OF assms(3-6)] by blast
  then have "ds_detectMCPServerAtAddress send read_json clk ip port = Some server"
    by (intro detected_first [where send = send, OF assms(1,2)]) (simp add: detect_answer_def)
  moreover note registered_secured [OF _ server(1)]
  ultimately show ?thesis by blast
qed

text \<open>A page that refuses a request is reported as a server if it has the word \<open>unauthorized\<close> in it, whatever served it.\<close>

theorem refusing_pages_are_reported:
  assumes "send (detection_request (''http://'' @ ip @ '':'' @ show_int port @ ''/mcp'')) = Answered resp" and "PX_Error resp = None"
    and "PX_Status resp = 401" and "Contains (PX_Body resp) ''unauthorized''"
  shows "\<exists>server. ds_detectMCPServerAtAddress send read_json clk ip port = Some server"
proof -
  have "has_mcp_indicator resp"
    using assms(4) by (simp add: has_mcp_indicator_def contains_any_def mcp_indicators_def)
  then have "\<exists>server. detectMCPFromHTTPResponse t resp address port endpoint = Some server" for t address endpoint
    using assms(3) by (simp add: detectMCPFromHTTPResponse_def Let_def split: prod.split)
  then have "\<exists>server. detect_answer read_json t resp address port endpoint = Some server" for t address endpoint
    by (cases "ds_parseMCPResponse read_json t resp address port endpoint") (simp_all add: detect_answer_def)
  with detected_first [where send = send, OF assms(1,2)] show ?thesis by blast
qed

text \<open>Of the two local ranges that every scan gets, \<open>localhost\<close> adds no address.\<close>

lemma localhost_adds_nothing:
  "scan_addresses (config\<lparr>SCfg_ScanRanges := rs @ [''localhost'']\<rparr>) = scan_addresses (config\<lparr>SCfg_ScanRanges := rs\<rparr>)"
proof -
  have "ParseIP ''localhost'' = None" "\<not> Contains ''localhost'' ''/''" by code_simp+
  then have "DiscoveryService_expandCIDR ''localhost'' = Inl ''invalid IP address or CIDR: localhost''"
    by (simp add: DiscoveryService_expandCIDR_def)
  then show ?thesis by (simp add: scan_addresses_def cong: sum.case_cong)
qed

lemma cached: "server \<in> set servers \<Longrightarrow> \<exists>s. (foldl (\<lambda>m server. m(DS_ID server \<mapsto> server)) m servers) (DS_ID server) = Some s \<and> s \<in> set servers"
proof (induction servers rule: rev_induct)
  case (snoc x xs)
  then show ?case by (cases "DS_ID x = DS_ID server") auto
qed simp

text \<open>A scan completes with what is detected at its addresses, in their order, and the servers can be registered from then on.\<close>

theorem scans_complete:
  assumes "ds_StartScan body read_json now now' st = (st1, 200, Inr (DSP_started scanId))"
    and "config = MSJ_Config (the (dsv_scans st1 scanId))" and "st2 = ds_runScan send read_json clk scanId config st1"
  shows "\<exists>job. ds_GetScanStatus scanId st2 = (200, Inr (DSP_job job)) \<and> MSJ_Status job = ''completed'' \<and>
      MSJ_Results job = List.map_filter (\<lambda>(ip, port). ds_detectMCPServerAtAddress send read_json clk ip port) (scan_addresses config)"
    and "server \<in> set (scan_detections send read_json clk config) \<Longrightarrow>
      \<exists>s\<in>set (scan_detections send read_json clk config). dsv_cache st2 (DS_ID server) = Some s"
proof -
  from assms(1) obtain job where job: "dsv_scans st1 scanId = Some job"
    by (auto simp: ds_StartScan_def Let_def split: sum.splits if_splits)
  then show "\<exists>job. ds_GetScanStatus scanId st2 = (200, Inr (DSP_job job)) \<and> MSJ_Status job = ''completed'' \<and>
      MSJ_Results job = List.map_filter (\<lambda>(ip, port). ds_detectMCPServerAtAddress send read_json clk ip port) (scan_addresses config)"
    using assms(3) by (simp add: ds_runScan_def ds_GetScanStatus_def cacheServers_def Let_def scan_detections_def)
  show "server \<in> set (scan_detections send read_json clk config) \<Longrightarrow>
      \<exists>s\<in>set (scan_detections send read_json clk config). dsv_cache st2 (DS_ID server) = Some s"
    using cached job assms(3) by (fastforce simp: ds_runScan_def cacheServers_def Let_def)
qed

subsection \<open>Concrete values\<close>

definition ex_refusal :: proxied where
  "ex_refusal = \<lparr>PX_Status = 401, PX_Header = [''Www-Authenticate'' \<mapsto> [''Negotiate'']], PX_Body = ''unauthorized'', PX_Error = None\<rparr>"

definition ex_refused :: "DiscoveredServer option" where
  "ex_refused = ds_detectMCPServerAtAddress (\<lambda>q. Answered ex_refusal) (\<lambda>t. Inl []) (\<lambda>u. (7, 7)) ''10.0.0.5'' 80"

lemma ex_refused_low: "case ex_refused of None \<Rightarrow> False | Some server \<Rightarrow> DS_VulnerabilityScore server = ''low''"
  by code_simp

theorem low_risk_servers_refuse_witness:
  "\<exists>endpoint\<in>{''/mcp'', ''/''}. \<exists>resp. Answered ex_refusal = Answered resp \<and> (PX_Status resp = 401 \<or> PX_Status resp = 403)"
proof -
  from ex_refused_low obtain server where "ex_refused = Some server" "DS_VulnerabilityScore server = ''low''"
    by (auto split: option.splits)
  from low_risk_servers_refuse [OF this(1) [unfolded ex_refused_def] this(2)] show ?thesis .
qed

theorem refusing_pages_are_reported_witness: "\<exists>server. ex_refused = Some server"
  unfolding ex_refused_def
  by (rule refusing_pages_are_reported [where resp = ex_refusal]) (simp_all add: ex_refusal_def Contains_def)

definition ex_open_message :: "string \<rightharpoonup> any" where
  "ex_open_message = [''jsonrpc'' \<mapsto> String_value ''2.0'',
     ''result'' \<mapsto> Object [''serverInfo'' \<mapsto> Object [''name'' \<mapsto> String_value ''notes'']]]"

definition ex_open :: proxied where
  "ex_open = \<lparr>PX_Status = 200, PX_Header = Map.empty, PX_Body = dq ''{`jsonrpc`}'', PX_Error = None\<rparr>"

lemma ex_open_object: "rpc_object (\<lambda>t. Inr ex_open_message) (PX_Body ex_open) = Some ex_open_message"
proof -
  have "\<not> Contains (dq ''{`jsonrpc`}'') ''event: message''" "Contains (dq ''{`jsonrpc`}'') (dq ''`jsonrpc`'')" by code_simp+
  then show ?thesis by (simp add: rpc_object_def ex_open_def)
qed

lemma ex_open_parts:
  "any_string (index ex_open_message ''jsonrpc'') = Some ''2.0''"
  "any_map (index ex_open_message ''result'') = Some [''serverInfo'' \<mapsto> Object [''name'' \<mapsto> String_value ''notes'']]"
  "any_map (index [''serverInfo'' \<mapsto> Object [''name'' \<mapsto> String_value ''notes'']] ''serverInfo'') = Some [''name'' \<mapsto> String_value ''notes'']"
  by (simp_all add: ex_open_message_def index_def)

theorem open_servers_are_secured_witness:
  "\<exists>server. ds_detectMCPServerAtAddress (\<lambda>q. Answered ex_open) (\<lambda>t. Inr ex_open_message) (\<lambda>u. (7, 7)) ''10.0.0.5'' 80 = Some server"
proof -
  have "\<exists>server. ds_detectMCPServerAtAddress (\<lambda>q. Answered ex_open) (\<lambda>t. Inr ex_open_message) (\<lambda>u. (7, 7)) ''10.0.0.5'' 80 = Some server \<and>
    (\<forall>st ms ms' a secured. dsv_cache st ''s'' = Some server \<longrightarrow>
       ds_RegisterServer InMemoryAdapterStore_ops (None :: unit clientset option) (ex_text_net [] Map.empty) ex_handler_env None ''t''
         (\<lambda>p. Inl []) 0 None (Inr ''s'') st ms = (ms', 201, Inr (MGP_adapter a, secured)) \<longrightarrow>
       secured \<and> imas_adapters (ms_store ms') (AR_ID a) = Some a \<and>
       (\<exists>c b. AD_Authentication a = Some c \<and> AAC_Required c \<and> AAC_Type c = ''bearer'' \<and> AAC_BearerToken c = Some b))"
    by (rule open_servers_are_secured [OF _ _ ex_open_object ex_open_parts]) (simp_all add: ex_open_def)
  then show ?thesis by blast
qed

definition ex_started :: "discovery_service \<times> discovery_reply" where
  "ex_started = ds_StartScan (Inr []) (\<lambda>t. Inr [''ports'' \<mapsto> Slice [String_value ''8000'']]) 5 6 NewDiscoveryService"

lemma ex_started_answer:
  "case snd ex_started of (code, Inr (DSP_started i)) \<Rightarrow> code = 200 \<and> i = ''scan-5'' | _ \<Rightarrow> False"
  by code_simp

theorem scans_complete_witness:
  "\<exists>job. ds_GetScanStatus ''scan-5'' (ds_runScan (\<lambda>q. Answered ex_refusal) (\<lambda>t. Inr [''ports'' \<mapsto> Slice [String_value ''8000'']]) (\<lambda>u. (7, 7))
      ''scan-5'' (MSJ_Config (the (dsv_scans (fst ex_started) ''scan-5''))) (fst ex_started)) = (200, Inr (DSP_job job)) \<and>
    MSJ_Status job = ''completed''"
proof -
  have "snd ex_started = (200, Inr (DSP_started ''scan-5''))"
    using ex_started_answer by (auto split: prod.splits sum.splits discovery_payload.splits)
  then have "ds_StartScan (Inr []) (\<lambda>t. Inr [''ports'' \<mapsto> Slice [String_value ''8000'']]) 5 6 NewDiscoveryService =
      (fst ex_started, 200, Inr (DSP_started ''scan-5''))"
    by (metis ex_started_def prod.collapse)
  from scans_complete(1) [OF this refl refl] show ?thesis by blast
qed

end
