(* ===== verification/Registration.thy ===== *)
theory Registration
  imports NetworkScanner TokenManager DiscoveryDetection
begin

section \<open>Adapters from discovered servers, and their tools\<close>

text \<open>
  \<open>pkg/mcp/tool_discovery.go\<close>, the client that asks a server for its tools, and \<open>internal/handlers/registration.go\<close>, the handler that
  makes an adapter of a server that the network scanner found. The line of \<open>main.go\<close> that would make the handler is commented out. The JSON
  of a request is \<open>td_marshal\<close>; the readers of answers fill structs of Go, records here. A panic is \<open>None\<close>.
\<close>

subsection \<open>Discovery of tools\<close>

record listed_tool =
  LT_Name :: string
  LT_Description :: string
  LT_InputSchema :: "(string \<rightharpoonup> any) option"

record tools_response =
  TR_JSONRPC :: string
  TR_ID :: int
  TR_Tools :: "listed_tool list"
  TR_Error :: "(int \<times> string) option"

record initialize_response =
  IR_ProtocolVersion :: string
  IR_Capabilities :: "string \<rightharpoonup> any"
  IR_Name :: string
  IR_Version :: string
  IR_Error :: "(int \<times> string) option"

text \<open>\<open>td_error\<close> reads the message of the error in the answer of a request that failed.\<close>

record tool_net =
  td_marshal :: "any \<Rightarrow> string"
  td_send :: "forwarded \<Rightarrow> sent"
  td_tools :: "string \<Rightarrow> tools_response result"
  td_initialize :: "string \<Rightarrow> initialize_response result"
  td_error :: "string \<Rightarrow> string result"

definition tool_discovery_headers :: "AdapterAuthConfig option \<Rightarrow> (string \<rightharpoonup> string list)" where
  "tool_discovery_headers auth =
     (let h = [''Content-Type'' \<mapsto> [''application/json''], ''Accept'' \<mapsto> [''application/json''],
            ''User-Agent'' \<mapsto> [''suse-ai-up-tool-discovery/1.0'']] in
      case auth of
        None \<Rightarrow> h
      | Some a \<Rightarrow>
          if AAC_Required a \<and> AAC_Type a = ''bearer'' then
            (case AAC_BearerToken a of
               Some t \<Rightarrow> if BT_Token t \<noteq> [] then h(''Authorization'' \<mapsto> [''Bearer '' @ BT_Token t]) else h
             | None \<Rightarrow> h)
          else h)"

definition tool_discovery_request :: "tool_net \<Rightarrow> string \<Rightarrow> AdapterAuthConfig option \<Rightarrow> any \<Rightarrow> sent" where
  "tool_discovery_request N serverURL auth request =
     td_send N \<lparr>FW_Method = ''POST'', FW_URL = serverURL, FW_Header = tool_discovery_headers auth, FW_Body = td_marshal N request\<rparr>"

text \<open>A tool with its defaults.\<close>

definition empty_schema :: "string \<rightharpoonup> any" where
  "empty_schema = [''type'' \<mapsto> String_value ''object'', ''properties'' \<mapsto> Object Map.empty]"

definition discovered_tool :: "listed_tool \<Rightarrow> MCPTool" where
  "discovered_tool t = \<lparr>MT_Name = LT_Name t, MT_Description = LT_Description t,
     MT_InputSchema = (case LT_InputSchema t of None \<Rightarrow> empty_schema | Some schema \<Rightarrow> schema),
     MT_SourceType = ''api'', MT_Config = Map.empty\<rparr>"

definition validated_tools :: "listed_tool list \<Rightarrow> MCPTool list" where
  "validated_tools ts = map discovered_tool (filter (\<lambda>t. LT_Name t \<noteq> []) ts)"

definition DiscoverTools :: "tool_net \<Rightarrow> string \<Rightarrow> AdapterAuthConfig option \<Rightarrow> MCPTool list result option" where
  "DiscoverTools N serverURL auth =
     (if serverURL = [] then Some (Inl ''server URL cannot be empty'')
      else case tool_discovery_request N serverURL auth (mds_request 1 ''tools/list'' Map.empty) of
        Bad_request err \<Rightarrow> Some (Inl (''failed to create request: '' @ err))
      | Unreachable err \<Rightarrow> Some (Inl (''failed to connect to MCP server at '' @ serverURL @ '': '' @ err))
      | Answered resp \<Rightarrow>
          (case PX_Error resp of
             Some err \<Rightarrow> Some (Inl (''failed to read response body: '' @ err))
           | None \<Rightarrow>
               let body = take 10485760 (PX_Body resp) in
               if PX_Status resp < 200 \<or> 300 \<le> PX_Status resp then
                 (case td_error N body of
                    Inr message \<Rightarrow>
                      Some (Inl (''MCP server returned HTTP '' @ show_int (PX_Status resp) @ (if message \<noteq> [] then '': '' @ message else [])))
                  | Inl _ \<Rightarrow> Some (Inl (''MCP server returned HTTP '' @ show_int (PX_Status resp))))
               else case td_tools N body of
                 Inl err \<Rightarrow>
                   (if length body < 500 then None
                    else Some (Inl (''failed to parse JSON response: '' @ err @ '' (response: '' @ take 500 body @ '')'')))
               | Inr response \<Rightarrow>
                   (case TR_Error response of
                      Some (code, message) \<Rightarrow>
                        Some (Inl (''MCP server returned JSON-RPC error '' @ show_int code @ '': '' @ message))
                    | None \<Rightarrow>
                        if TR_JSONRPC response \<noteq> ''2.0'' then
                          Some (Inl (''invalid JSON-RPC version: expected '' @ [CHR 0x27] @ ''2.0'' @ [CHR 0x27] @
                            '', got '' @ [CHR 0x27] @ TR_JSONRPC response @ [CHR 0x27]))
                        else Some (Inr (validated_tools (TR_Tools response))))))"

definition DiscoverServerCapabilities ::
    "tool_net \<Rightarrow> gotime \<Rightarrow> string \<Rightarrow> AdapterAuthConfig option \<Rightarrow> MCPFunctionality result option" where
  "DiscoverServerCapabilities N now serverURL auth =
     (if serverURL = [] then Some (Inl ''server URL cannot be empty'')
      else case tool_discovery_request N serverURL auth
          (mds_request 1 ''initialize'' [''protocolVersion'' \<mapsto> String_value ''2024-11-05'', ''capabilities'' \<mapsto> Object Map.empty,
             ''clientInfo'' \<mapsto> Object [''name'' \<mapsto> String_value ''suse-ai-up-discovery'', ''version'' \<mapsto> String_value ''1.0.0'']]) of
        Bad_request err \<Rightarrow> Some (Inl (''failed to create initialize request: '' @ err))
      | Unreachable err \<Rightarrow> Some (Inl (''failed to connect to MCP server for initialization: '' @ err))
      | Answered resp \<Rightarrow>
          (case PX_Error resp of
             Some err \<Rightarrow> Some (Inl (''failed to read initialize response: '' @ err))
           | None \<Rightarrow>
               if PX_Status resp < 200 \<or> 300 \<le> PX_Status resp
               then Some (Inl (''initialize request failed with HTTP '' @ show_int (PX_Status resp)))
               else case td_initialize N (take 1048576 (PX_Body resp)) of
                 Inl err \<Rightarrow> Some (Inl (''failed to parse initialize response: '' @ err))
               | Inr response \<Rightarrow>
                   (case IR_Error response of
                      Some (code, message) \<Rightarrow>
                        Some (Inl (''MCP server initialize error '' @ show_int code @ '': '' @ message))
                    | None \<Rightarrow>
                        map_option (\<lambda>r. Inr
                          \<lparr>MF_ServerInfo =
                             \<lparr>MSI_Name = (if IR_Name response = [] then ''Unknown MCP Server'' else IR_Name response),
                              MSI_Version = (if IR_Version response = [] then ''1.0.0'' else IR_Version response),
                              MSI_Protocol = IR_ProtocolVersion response, MSI_Capabilities = IR_Capabilities response\<rparr>,
                           MF_Tools = (case r of Inl _ \<Rightarrow> [] | Inr tools \<Rightarrow> tools), MF_Prompts = [], MF_Resources = [],
                           MF_LastRefreshed = now\<rparr>)
                          (DiscoverTools N serverURL auth))))"

subsection \<open>Registration\<close>

text \<open>The name of an adapter: that of the server, or its host and port, or its ID.\<close>

definition generateAdapterName :: "DiscoveredServer \<Rightarrow> string" where
  "generateAdapterName server =
     (if DS_Name server \<noteq> [] \<and> DS_Name server \<noteq> ''Unknown MCP Server''
      then ToLower (ReplaceAll (DS_Name server) '' '' ''-'')
      else let parts = Split (DS_Address server) CHR '':'' in
        if length parts \<ge> 3 then ReplaceAll (parts ! 1) ''.'' ''-'' @ ''-'' @ parts ! 2 else DS_ID server)"

definition isVirtualMCP :: "DiscoveredServer \<Rightarrow> bool" where
  "isVirtualMCP server \<longleftrightarrow> (case DS_Metadata server of None \<Rightarrow> False | Some m \<Rightarrow> m ''source'' = Some ''virtualmcp'')"

definition createAdapterDataFromDiscovered :: "DiscoveredServer \<Rightarrow> AdapterData" where
  "createAdapterDataFromDiscovered server =
     (let adapterName = generateAdapterName server in
      if isVirtualMCP server then
        zero_AdapterData\<lparr>AD_Name := adapterName, AD_Protocol := ServerProtocolMCP,
          AD_ConnectionType := ConnectionTypeStreamableHttp, AD_ReplicaCount := 1,
          AD_Description := ''VirtualMCP server: '' @ DS_Name server, AD_RemoteUrl := DS_Address server\<rparr>
      else
        zero_AdapterData\<lparr>AD_Name := adapterName, AD_ImageName := ''mcp-proxy'', AD_ImageVersion := ''1.0.0'',
          AD_Protocol := ServerProtocolMCP,
          AD_ConnectionType := (if DS_Connection server \<noteq> [] then DS_Connection server else ConnectionTypeStreamableHttp),
          AD_EnvironmentVariables :=
            (let vars = [''MCP_PROXY_URL'' \<mapsto> DS_Address server] in
             case Option.bind (DS_Metadata server) (\<lambda>m. m ''auth_type'') of
               None \<Rightarrow> vars | Some t \<Rightarrow> vars(''MCP_SERVER_AUTH_TYPE'' \<mapsto> t)),
          AD_ReplicaCount := 1, AD_Description := ''Auto-discovered MCP server at '' @ DS_Address server,
          AD_RemoteUrl := DS_Address server\<rparr>)"

text \<open>What a registration reads: the manager of tokens with its issuer, if there is one, the identifier it draws, 32 random bytes, and the
  clock (when the bytes are drawn, when the token is made, for its times of issue and expiry, when the tools are there, and when the adapter is made).\<close>

record registration_env =
  re_tokens :: "(jwt \<times> string) option"
  re_tokenID :: string
  re_random :: "string result"
  re_drawn :: gotime
  re_now :: gotime
  re_issued :: gotime
  re_expires :: gotime
  re_refreshed :: gotime
  re_created :: gotime
  re_updated :: gotime

definition RegistrationHandler_generateSecureToken :: "registration_env \<Rightarrow> string" where
  "RegistrationHandler_generateSecureToken e =
     (case re_random e of Inl err \<Rightarrow> ''token-'' @ show_int (Unix (re_drawn e)) @ ''-fallback'' | Inr bytes \<Rightarrow> b64_encode bytes)"

definition registration_token :: "registration_env \<Rightarrow> string \<Rightarrow> AuthTokenInfo result" where
  "registration_token e name =
     (let audience = ''http://localhost:8911/api/v1/adapters/'' @ name in
      case re_tokens e of
        Some (J, issuer) \<Rightarrow>
          (case GenerateBearerToken J issuer (re_now e) (re_tokenID e) name audience 24 of
             Inl err \<Rightarrow> Inl (''failed to generate secure token: '' @ err) | Inr t \<Rightarrow> Inr t)
      | None \<Rightarrow> Inr
          \<lparr>ATI_TokenID = ''token-'' @ show_int (Unix (re_now e)), ATI_AccessToken = RegistrationHandler_generateSecureToken e,
           ATI_TokenType = ''Bearer'', ATI_ExpiresAt = re_expires e + 24 * hour, ATI_IssuedAt = re_issued e, ATI_RefreshToken = [],
           ATI_Scope = [], ATI_Audience = audience, ATI_Issuer = ''suse-ai-up'', ATI_Subject = ''adapter-'' @ name\<rparr>)"

text \<open>What the score of a server adds to its adapter: whether the server wants credentials of its own.\<close>

definition backend_auth :: "string \<Rightarrow> string \<times> string" where
  "backend_auth score =
     (if score = ''high'' then (''false'', '' [PROXY AUTH - BACKEND NO AUTH]'')
      else if score = ''low'' then (''true'', '' [PROXY AUTH - BACKEND HAS AUTH]'')
      else (''true'', '' [PROXY AUTH - BACKEND UNKNOWN]''))"

definition configureAuthentication ::
    "registration_env \<Rightarrow> DiscoveredServer \<Rightarrow> AdapterData \<Rightarrow> (AdapterData \<times> AuthTokenInfo) result" where
  "configureAuthentication e server data =
     (case registration_token e (AD_Name data) of
        Inl err \<Rightarrow> Inl err
      | Inr t \<Rightarrow>
          let (required, remark) = backend_auth (DS_VulnerabilityScore server) in
          Inr (data\<lparr>AD_Authentication := Some \<lparr>AAC_Required = True, AAC_Type = ''bearer'',
                AAC_BearerToken = Some \<lparr>BT_Token = ATI_AccessToken t, BT_Dynamic = re_tokens e \<noteq> None, BT_ExpiresAt = ATI_ExpiresAt t\<rparr>,
                AAC_OAuth = None, AAC_Basic = None, AAC_APIKey = None\<rparr>,
              AD_EnvironmentVariables := (AD_EnvironmentVariables data)(''MCP_BACKEND_AUTH_REQUIRED'' \<mapsto> required),
              AD_Description := AD_Description data @ remark\<rparr>, t))"

definition getSecurityNote :: "DiscoveredServer \<Rightarrow> string" where
  "getSecurityNote server =
     ''Adapter requires client authentication. Backend MCP server '' @
     (let score = DS_VulnerabilityScore server in
      if score = ''high'' then ''has no authentication - all security handled by proxy.''
      else if score = ''medium'' then ''has optional authentication.''
      else if score = ''low'' then ''has authentication - proxy provides additional security layer.''
      else ''security status unknown - conservative security applied.'')"

text \<open>The adapter with the tools of its server, as far as they can be found out.\<close>

definition tools_found :: "gotime \<Rightarrow> AdapterData \<Rightarrow> MCPTool list result \<Rightarrow> AdapterData" where
  "tools_found now data r =
     (case r of
        Inl _ \<Rightarrow> data
      | Inr tools \<Rightarrow> data\<lparr>AD_MCPFunctionality := Some
          \<lparr>MF_ServerInfo = \<lparr>MSI_Name = [], MSI_Version = [], MSI_Protocol = [], MSI_Capabilities = Map.empty\<rparr>,
           MF_Tools = tools, MF_Prompts = [], MF_Resources = [], MF_LastRefreshed = now\<rparr>\<rparr>)"

definition with_tools :: "tool_net \<Rightarrow> gotime \<Rightarrow> DiscoveredServer \<Rightarrow> AdapterData \<Rightarrow> AdapterData option" where
  "with_tools N now server data =
     (if AD_ConnectionType data = ConnectionTypeStreamableHttp
      then map_option (tools_found now data) (DiscoverTools N (DS_Address server) (AD_Authentication data))
      else Some data)"

record RegisterResponse =
  RR_Message :: string
  RR_Adapter :: AdapterResource
  RR_McpEndpoint :: string
  RR_SecurityNote :: string
  RR_TokenInfo :: AuthTokenInfo

text \<open>The answer is a status with the response, or with the two texts of an error.\<close>

definition RegisterDiscoveredServer ::
    "'s AdapterResourceStore \<Rightarrow> tool_net \<Rightarrow> env \<Rightarrow> registration_env \<Rightarrow> DiscoveredServer list \<Rightarrow> string result \<Rightarrow> 's \<Rightarrow>
     ('s \<times> int \<times> (string \<times> string + RegisterResponse)) option" where
  "RegisterDiscoveredServer A N se e discovered req s =
     (case req of
        Inl err \<Rightarrow> Some (s, 400, Inl (''Invalid request body'', err))
      | Inr sid \<Rightarrow>
          (case GetDiscoveredServer discovered sid of
             None \<Rightarrow> Some (s, 404, Inl (''Discovered server not found'',
                 ''Server ID '' @ [CHR 0x27] @ sid @ [CHR 0x27] @ '' not found in discovery results''))
           | Some server \<Rightarrow>
               (case configureAuthentication e server (createAdapterDataFromDiscovered server) of
                  Inl err \<Rightarrow> Some (s, 500, Inl (''Failed to configure authentication'', err))
                | Inr (data, t) \<Rightarrow>
                    map_option (\<lambda>data'.
                      let adapter = AdapterResource_Create (re_updated e) [] data' ''system'' (re_created e) in
                      case ars_UpsertAsync A se adapter s of
                        (s', Some err) \<Rightarrow> (s', 500, Inl (''Failed to create adapter'', err))
                      | (s', None) \<Rightarrow> (s', 200, Inr
                          \<lparr>RR_Message = ''Adapter created successfully'', RR_Adapter = adapter,
                           RR_McpEndpoint = ''http://localhost:8911/api/v1/adapters/'' @ AR_ID adapter @ ''/mcp'',
                           RR_SecurityNote = getSecurityNote server, RR_TokenInfo = t\<rparr>))
                      (with_tools N (re_refreshed e) server data))))"


subsection \<open>Properties\<close>

lemma RegisterDiscoveredServer_cases:
  assumes "RegisterDiscoveredServer A N se e discovered req s = Some (s', status, r)"
  obtains (refused) err where "r = Inl err" "s' = s" "status \<noteq> 200"
  | (made) i server data t data' where "req = Inr i" "GetDiscoveredServer discovered i = Some server"
      "configureAuthentication e server (createAdapterDataFromDiscovered server) = Inr (data, t)"
      "with_tools N (re_refreshed e) server data = Some data'"
      "(s', status, r) = (let adapter = AdapterResource_Create (re_updated e) [] data' ''system'' (re_created e) in
         case ars_UpsertAsync A se adapter s of
           (s', Some err) \<Rightarrow> (s', 500, Inl (''Failed to create adapter'', err))
         | (s', None) \<Rightarrow> (s', 200, Inr
             \<lparr>RR_Message = ''Adapter created successfully'', RR_Adapter = adapter,
              RR_McpEndpoint = ''http://localhost:8911/api/v1/adapters/'' @ AR_ID adapter @ ''/mcp'',
              RR_SecurityNote = getSecurityNote server, RR_TokenInfo = t\<rparr>))"
proof -
  show thesis
  proof (cases "\<exists>i server data t. req = Inr i \<and> GetDiscoveredServer discovered i = Some server \<and>
      configureAuthentication e server (createAdapterDataFromDiscovered server) = Inr (data, t)")
    case True
    with assms made show ?thesis by (auto simp: RegisterDiscoveredServer_def)
  next
    case False
    with assms refused show ?thesis
      by (auto simp: RegisterDiscoveredServer_def split: sum.splits option.splits)
  qed
qed

definition protected_by :: "string \<Rightarrow> AdapterAuthConfig option \<Rightarrow> bool" where
  "protected_by token auth \<longleftrightarrow>
     (\<exists>c b. auth = Some c \<and> AAC_Required c \<and> AAC_Type c = ''bearer'' \<and> AAC_BearerToken c = Some b \<and> BT_Token b = token)"

lemma configured:
  assumes "configureAuthentication e server data = Inr (data', t)"
  shows "protected_by (ATI_AccessToken t) (AD_Authentication data')" "AD_Name data' = AD_Name data"
    "registration_token e (AD_Name data) = Inr t" "AD_ConnectionType data' = AD_ConnectionType data"
  using assms by (auto simp: configureAuthentication_def protected_by_def split: sum.splits prod.splits)

lemma configure_ok:
  "registration_token e (AD_Name data) = Inr t \<Longrightarrow> \<exists>data'. configureAuthentication e server data = Inr (data', t)"
  by (cases "backend_auth (DS_VulnerabilityScore server)") (simp add: configureAuthentication_def)

lemma with_tools_keeps:
  assumes "with_tools N now server data = Some data'"
  shows "AD_Authentication data' = AD_Authentication data" "AD_Name data' = AD_Name data"
  using assms by (auto simp: with_tools_def tools_found_def split: if_splits sum.split)

text \<open>A registration makes a new adapter, which asks for the token that the answer contains, or leaves the store as it was. What the scan
  thinks of the server does not matter.\<close>

theorem registration_all_or_nothing:
  assumes "RegisterDiscoveredServer InMemoryAdapterStore_ops N se e discovered req s = Some (s', status, r)"
  shows "case r of
      Inl err \<Rightarrow> status \<noteq> 200 \<and> imas_adapters s' = imas_adapters s
    | Inr resp \<Rightarrow> status = 200 \<and> imas_adapters s (AR_ID (RR_Adapter resp)) = None \<and>
        imas_adapters s' = (imas_adapters s)(AR_ID (RR_Adapter resp) \<mapsto> RR_Adapter resp) \<and> AR_CreatedBy (RR_Adapter resp) = ''system'' \<and>
        protected_by (ATI_AccessToken (RR_TokenInfo resp)) (AD_Authentication (RR_Adapter resp))"
  using assms
proof (cases rule: RegisterDiscoveredServer_cases)
  case (made i server data t data')
  from made(5) configured(1) [OF made(3)] with_tools_keeps [OF made(4)] show ?thesis
    by (auto simp: Let_def InMemoryAdapterStore_ops_def InMemoryAdapterStore_UpsertAsync_def InMemoryAdapterStore_Create_def
        split: prod.splits option.splits if_splits)
qed simp

text \<open>Whoever runs the server gets the token that opens its adapter: nothing is sent to the server without it.\<close>

definition only_with :: "string \<Rightarrow> tool_net \<Rightarrow> tool_net" where
  "only_with token N = N\<lparr>td_send := \<lambda>q. if header_Get (FW_Header q) ''Authorization'' = ''Bearer '' @ token
     then td_send N q else Unreachable ''refused''\<rparr>"

lemma only_with_simps [simp]:
  "td_marshal (only_with token N) = td_marshal N" "td_tools (only_with token N) = td_tools N" "td_error (only_with token N) = td_error N"
  "td_send (only_with token N) q =
     (if header_Get (FW_Header q) ''Authorization'' = ''Bearer '' @ token then td_send N q else Unreachable ''refused'')"
  by (simp_all add: only_with_def)

lemma DiscoverTools_only_with:
  assumes "protected_by token auth" and "token \<noteq> []"
  shows "DiscoverTools (only_with token N) url auth = DiscoverTools N url auth"
proof -
  have "header_Get (tool_discovery_headers auth) ''Authorization'' = ''Bearer '' @ token"
    using assms by (auto simp: protected_by_def tool_discovery_headers_def header_Get_def)
  then have "tool_discovery_request (only_with token N) url auth request = tool_discovery_request N url auth request" for request
    by (simp add: tool_discovery_request_def)
  then show ?thesis by (simp add: DiscoverTools_def Let_def cong: sent.case_cong option.case_cong sum.case_cong if_cong)
qed

theorem server_gets_the_token:
  assumes "GetDiscoveredServer discovered i = Some server"
    and "registration_token e (generateAdapterName server) = Inr t" and "ATI_AccessToken t \<noteq> []"
  shows "RegisterDiscoveredServer A (only_with (ATI_AccessToken t) N) se e discovered (Inr i) s =
    RegisterDiscoveredServer A N se e discovered (Inr i) s"
proof (cases "configureAuthentication e server (createAdapterDataFromDiscovered server)")
  case (Inl err)
  then show ?thesis using assms(1) by (simp add: RegisterDiscoveredServer_def)
next
  case (Inr p)
  then obtain data t' where p: "configureAuthentication e server (createAdapterDataFromDiscovered server) = Inr (data, t')"
    by (cases p) auto
  have "AD_Name (createAdapterDataFromDiscovered server) = generateAdapterName server"
    by (simp add: createAdapterDataFromDiscovered_def Let_def)
  with configured(1,3) [OF p] assms(2) have "protected_by (ATI_AccessToken t) (AD_Authentication data)" by simp
  then have "with_tools (only_with (ATI_AccessToken t) N) (re_refreshed e) server data = with_tools N (re_refreshed e) server data"
    by (simp add: with_tools_def DiscoverTools_only_with [OF _ assms(3)])
  with assms(1) p show ?thesis by (simp add: RegisterDiscoveredServer_def)
qed

text \<open>An answer that is short and not what is expected (a page of text, say, or a message whose ID is a text) makes the handler
  panic: the message of the error wants its first 500 bytes.\<close>

theorem short_answers_panic:
  assumes "GetDiscoveredServer discovered i = Some server"
    and "registration_token e (generateAdapterName server) = Inr t"
    and "isVirtualMCP server \<or> DS_Connection server = [] \<or> DS_Connection server = ConnectionTypeStreamableHttp" and "DS_Address server \<noteq> []"
    and "\<And>h b. td_send N \<lparr>FW_Method = ''POST'', FW_URL = DS_Address server, FW_Header = h, FW_Body = b\<rparr> = Answered resp"
    and "PX_Error resp = None" and "200 \<le> PX_Status resp \<and> PX_Status resp < 300"
    and "td_tools N (PX_Body resp) = Inl err" and "length (PX_Body resp) < 500"
  shows "RegisterDiscoveredServer A N se e discovered (Inr i) s = None"
proof -
  have "AD_Name (createAdapterDataFromDiscovered server) = generateAdapterName server"
    "AD_ConnectionType (createAdapterDataFromDiscovered server) = ConnectionTypeStreamableHttp"
    using assms(3) by (auto simp: createAdapterDataFromDiscovered_def Let_def)
  then obtain data where c: "configureAuthentication e server (createAdapterDataFromDiscovered server) = Inr (data, t)"
    and "AD_ConnectionType (createAdapterDataFromDiscovered server) = ConnectionTypeStreamableHttp"
    using configure_ok assms(2) by metis
  moreover have "take 10485760 (PX_Body resp) = PX_Body resp" using assms(9) by simp
  then have "DiscoverTools N (DS_Address server) auth = None" for auth
    using assms(4-9) by (simp add: DiscoverTools_def tool_discovery_request_def)
  ultimately have "with_tools N (re_refreshed e) server data = None"
    using configured(4) [OF c] by (simp add: with_tools_def)
  with assms(1) c show ?thesis by (simp add: RegisterDiscoveredServer_def)
qed

text \<open>The name that is made of an address keeps the slashes of its scheme, so it is no segment of a path.\<close>

theorem address_names_have_slashes:
  assumes "DS_Name server = ''Unknown MCP Server''" and "DS_Address server = ''http://'' @ host @ '':'' @ port"
    and "CHR '':'' \<notin> set host" and "CHR '':'' \<notin> set port"
  shows "generateAdapterName server = ''//'' @ ReplaceAll host ''.'' ''-'' @ ''-'' @ port"
proof -
  have "Split (''http'' @ CHR '':'' # (''//'' @ host) @ CHR '':'' # port) CHR '':'' = [''http'', ''//'' @ host, port]"
    using Split_append [of "CHR '':''" "''http''" "(''//'' @ host) @ CHR '':'' # port"] assms(3,4)
      Split_append [of "CHR '':''" "''//'' @ host" port] Split_notin [of "CHR '':''" port] by simp
  moreover have "DS_Address server = ''http'' @ CHR '':'' # (''//'' @ host) @ CHR '':'' # port" using assms(2) by simp
  moreover have "ReplaceAll (''//'' @ host) ''.'' ''-'' = ''//'' @ ReplaceAll host ''.'' ''-''" by (simp add: prefix_def)
  ultimately show ?thesis using assms(1) by (simp add: generateAdapterName_def Let_def)
qed


subsection \<open>Concrete values\<close>

definition ex_scanned :: DiscoveredServer where
  "ex_scanned = zero_DiscoveredServer\<lparr>DS_ID := ''mcp-7'', DS_Name := ''Unknown MCP Server'', DS_Address := ''http://10.0.0.5:8000'',
     DS_VulnerabilityScore := ''high''\<rparr>"

definition ex_registration :: registration_env where
  "ex_registration = \<lparr>re_tokens = None, re_tokenID = ''t1'', re_random = Inr ''abc'', re_drawn = 0, re_now = 0, re_issued = 0,
     re_expires = 0, re_refreshed = 0, re_created = 0, re_updated = 0\<rparr>"

definition ex_tool_answer :: proxied where
  "ex_tool_answer = \<lparr>PX_Status = 200, PX_Header = Map.empty, PX_Body = ''hello'', PX_Error = None\<rparr>"

definition ex_tool_net :: "bool \<Rightarrow> tool_net" where
  "ex_tool_net speaks_mcp =
     \<lparr>td_marshal = (\<lambda>v. ''{}''), td_send = (\<lambda>q. Answered ex_tool_answer),
      td_tools = (\<lambda>b. if speaks_mcp then Inr \<lparr>TR_JSONRPC = ''2.0'', TR_ID = 1,
          TR_Tools = [\<lparr>LT_Name = ''search'', LT_Description = [], LT_InputSchema = None\<rparr>], TR_Error = None\<rparr>
        else Inl ''invalid character''),
      td_initialize = (\<lambda>b. Inl []), td_error = (\<lambda>b. Inl [])\<rparr>"

lemma ex_scanned_found: "GetDiscoveredServer [ex_scanned] ''mcp-7'' = Some ex_scanned"
  by (simp add: GetDiscoveredServer_def ex_scanned_def)

lemma b64_encode_nonempty: "b64_encode s = [] \<longleftrightarrow> s = []"
  by (cases s rule: b64_encode.cases) (simp_all add: Let_def)

lemma ex_registration_token: "\<exists>t. registration_token ex_registration name = Inr t \<and> ATI_AccessToken t \<noteq> []"
  by (simp add: registration_token_def ex_registration_def RegistrationHandler_generateSecureToken_def Let_def b64_encode_nonempty)

lemma ex_scanned_name: "generateAdapterName ex_scanned = ''//10-0-0-5-8000''"
  by code_simp

lemma ex_tools: "DiscoverTools (ex_tool_net True) (DS_Address ex_scanned) auth = Some (Inr
    [\<lparr>MT_Name = ''search'', MT_Description = [], MT_InputSchema = empty_schema, MT_SourceType = ''api'', MT_Config = Map.empty\<rparr>])"
  by (simp add: DiscoverTools_def tool_discovery_request_def ex_tool_net_def ex_tool_answer_def ex_scanned_def Let_def validated_tools_def
      discovered_tool_def)

lemma ex_registered:
  "\<exists>s' resp. RegisterDiscoveredServer InMemoryAdapterStore_ops (ex_tool_net True) se ex_registration [ex_scanned] (Inr ''mcp-7'')
      \<lparr>imas_adapters = Map.empty\<rparr> = Some (s', 200, Inr resp) \<and> AR_ID (RR_Adapter resp) = ''//10-0-0-5-8000''"
proof -
  obtain t where t: "registration_token ex_registration ''//10-0-0-5-8000'' = Inr t" using ex_registration_token by blast
  have name: "AD_Name (createAdapterDataFromDiscovered ex_scanned) = ''//10-0-0-5-8000''"
    using ex_scanned_name by (simp add: createAdapterDataFromDiscovered_def Let_def)
  obtain data where c: "configureAuthentication ex_registration ex_scanned (createAdapterDataFromDiscovered ex_scanned) = Inr (data, t)"
    using configure_ok t name by metis
  show ?thesis
    using c configured(2) [OF c] name
    by (simp add: RegisterDiscoveredServer_def ex_scanned_found with_tools_def tools_found_def ex_tools InMemoryAdapterStore_ops_def
        InMemoryAdapterStore_UpsertAsync_def InMemoryAdapterStore_Create_def Let_def split: if_split)
qed

theorem registration_all_or_nothing_witness:
  "\<exists>s' resp. RegisterDiscoveredServer InMemoryAdapterStore_ops (ex_tool_net True) undefined ex_registration [ex_scanned] (Inr ''mcp-7'')
      \<lparr>imas_adapters = Map.empty\<rparr> = Some (s', 200, Inr resp) \<and>
     imas_adapters s' = [''//10-0-0-5-8000'' \<mapsto> RR_Adapter resp] \<and>
     protected_by (ATI_AccessToken (RR_TokenInfo resp)) (AD_Authentication (RR_Adapter resp))"
proof -
  obtain s' resp where
    run: "RegisterDiscoveredServer InMemoryAdapterStore_ops (ex_tool_net True) undefined ex_registration [ex_scanned] (Inr ''mcp-7'')
      \<lparr>imas_adapters = Map.empty\<rparr> = Some (s', 200, Inr resp)"
    and "AR_ID (RR_Adapter resp) = ''//10-0-0-5-8000''"
    using ex_registered [of undefined] by blast
  moreover from registration_all_or_nothing [OF run] this(2) have "imas_adapters s' = [''//10-0-0-5-8000'' \<mapsto> RR_Adapter resp]"
    "protected_by (ATI_AccessToken (RR_TokenInfo resp)) (AD_Authentication (RR_Adapter resp))" by simp_all
  ultimately show ?thesis by blast
qed

theorem server_gets_the_token_witness:
  "\<exists>token. token \<noteq> [] \<and>
     RegisterDiscoveredServer InMemoryAdapterStore_ops (only_with token (ex_tool_net True)) undefined ex_registration [ex_scanned]
       (Inr ''mcp-7'') \<lparr>imas_adapters = Map.empty\<rparr> =
     RegisterDiscoveredServer InMemoryAdapterStore_ops (ex_tool_net True) undefined ex_registration [ex_scanned]
       (Inr ''mcp-7'') \<lparr>imas_adapters = Map.empty\<rparr>"
proof -
  obtain t where "registration_token ex_registration (generateAdapterName ex_scanned) = Inr t" "ATI_AccessToken t \<noteq> []"
    using ex_registration_token by blast
  with server_gets_the_token [OF ex_scanned_found this] show ?thesis by (intro exI [of _ "ATI_AccessToken t"] conjI)
qed

theorem short_answers_panic_witness:
  "RegisterDiscoveredServer InMemoryAdapterStore_ops (ex_tool_net False) undefined ex_registration [ex_scanned] (Inr ''mcp-7'')
     \<lparr>imas_adapters = Map.empty\<rparr> = None"
proof -
  obtain t where "registration_token ex_registration (generateAdapterName ex_scanned) = Inr t"
    using ex_registration_token by blast
  then show ?thesis
    by (rule short_answers_panic [OF ex_scanned_found, where resp = ex_tool_answer and err = "''invalid character''"])
      (simp_all add: ex_scanned_def zero_DiscoveredServer_def ex_tool_net_def ex_tool_answer_def)
qed

theorem address_names_have_slashes_witness: "generateAdapterName ex_scanned = ''//10-0-0-5-8000''"
proof -
  have "ReplaceAll ''10.0.0.5'' ''.'' ''-'' = ''10-0-0-5''" by code_simp
  with address_names_have_slashes [of ex_scanned "''10.0.0.5''" "''8000''"] show ?thesis by (simp add: ex_scanned_def)
qed

end
