(* ===== verification/ScanService.thy ===== *)
theory ScanService
  imports NetworkScanner
begin

section \<open>The service of scans\<close>

text \<open>
  \<open>pkg/services/discovery/service.go\<close>, a service for scans that stands alone, and the store of scans that it uses, the second half of
  \<open>pkg/clients/mcp_server_store.go\<close>. No program starts it, nor registers its handlers. A scan runs in a goroutine of its own: it scans, then
  reports, and at last is taken out of the table of active scans; requests come in between. Table and goroutine hold the same job, so the jobs
  live in a store of their own, under their IDs, and the table is a set of IDs. After \<open>Stop\<close> the table is \<open>nil\<close>: \<open>None\<close>. A panic is \<open>None\<close> too.
\<close>

subsection \<open>The store of scans\<close>

record ScanResult =
  SRes_Config :: ScanConfig
  SRes_Results :: "DiscoveredServer list"

record InMemoryScanStore =
  iscs_scans :: "string \<rightharpoonup> ScanResult"

definition NewInMemoryScanStore :: InMemoryScanStore where
  "NewInMemoryScanStore = \<lparr>iscs_scans = Map.empty\<rparr>"

definition SaveScan :: "string \<Rightarrow> ScanConfig \<Rightarrow> DiscoveredServer list \<Rightarrow> InMemoryScanStore \<Rightarrow> InMemoryScanStore" where
  "SaveScan scanID config results s =
     s\<lparr>iscs_scans := (iscs_scans s)(scanID \<mapsto> \<lparr>SRes_Config = config, SRes_Results = results\<rparr>)\<rparr>"

definition GetScan :: "string \<Rightarrow> InMemoryScanStore \<Rightarrow> (ScanConfig \<times> DiscoveredServer list) result" where
  "GetScan scanID s =
     (case iscs_scans s scanID of None \<Rightarrow> Inl ''resource not found'' | Some r \<Rightarrow> Inr (SRes_Config r, SRes_Results r))"

definition ListScans :: "string list \<Rightarrow> InMemoryScanStore \<Rightarrow> string list" where
  "ListScans ks s = filter (\<lambda>i. iscs_scans s i \<noteq> None) ks"

definition DeleteScan :: "string \<Rightarrow> InMemoryScanStore \<Rightarrow> InMemoryScanStore \<times> error option" where
  "DeleteScan scanID s =
     (if iscs_scans s scanID = None then (s, Some ''resource not found'') else (s\<lparr>iscs_scans := (iscs_scans s)(scanID := None)\<rparr>, None))"

subsection \<open>The service\<close>

record scan_service_config =
  SSC_DefaultTimeout :: int
  SSC_MaxConcurrency :: int
  SSC_ExcludeProxy :: bool

record service_job =
  SVJ_ID :: string
  SVJ_Config :: ScanConfig
  SVJ_StartTime :: gotime
  SVJ_Status :: string
  SVJ_Results :: "DiscoveredServer list"
  SVJ_Error :: string

text \<open>What a goroutine has left to do: all of it, or the removal of its job.\<close>

datatype scan_phase = Performing | Reported

record scan_service =
  svs_config :: scan_service_config
  svs_store :: InMemoryScanStore
  svs_active :: "string set option"
  svs_jobs :: "string \<rightharpoonup> service_job"
  svs_running :: "string \<rightharpoonup> scan_phase"
  svs_shutdown :: bool

definition ScanService_NewService :: "scan_service_config \<Rightarrow> scan_service" where
  "ScanService_NewService config =
     \<lparr>svs_config = config
        \<lparr>SSC_DefaultTimeout := (if SSC_DefaultTimeout config = 0 then 30 * second else SSC_DefaultTimeout config),
         SSC_MaxConcurrency := (if SSC_MaxConcurrency config = 0 then 10 else SSC_MaxConcurrency config)\<rparr>,
      svs_store = NewInMemoryScanStore, svs_active = Some {}, svs_jobs = Map.empty, svs_running = Map.empty, svs_shutdown = False\<rparr>"

text \<open>Closing a channel twice panics. The contexts that are cancelled are read by nobody.\<close>

definition ScanService_Stop :: "scan_service \<Rightarrow> scan_service option" where
  "ScanService_Stop st = (if svs_shutdown st then None else Some (st\<lparr>svs_active := None, svs_shutdown := True\<rparr>))"

datatype scan_service_payload =
    SSP_started string ScanConfig gotime
  | SSP_active string string gotime ScanConfig "string option"
  | SSP_completed string "DiscoveredServer list" ScanConfig
  | SSP_servers "DiscoveredServer list" nat

text \<open>\<open>duration\<close> is \<open>Duration.String\<close>; \<open>body\<close> is what the decoder makes of the body.\<close>

definition scan_defaults :: "(int \<Rightarrow> string) \<Rightarrow> scan_service_config \<Rightarrow> ScanConfig \<Rightarrow> ScanConfig" where
  "scan_defaults duration config c = c
     \<lparr>SCfg_Timeout := (if SCfg_Timeout c = [] then duration (SSC_DefaultTimeout config) else SCfg_Timeout c),
      SCfg_MaxConcurrent := (if SCfg_MaxConcurrent c = 0 then SSC_MaxConcurrency config else SCfg_MaxConcurrent c),
      SCfg_ExcludeProxy := (if SCfg_ExcludeProxy c = None then Some (SSC_ExcludeProxy config) else SCfg_ExcludeProxy c)\<rparr>"

definition handleStartScan ::
    "(int \<Rightarrow> string) \<Rightarrow> gotime \<Rightarrow> gotime \<Rightarrow> string \<Rightarrow> ScanConfig result \<Rightarrow> scan_service \<Rightarrow>
     (scan_service \<times> int \<times> (string + scan_service_payload)) option" where
  "handleStartScan duration now now' request_method body st =
     (if request_method \<noteq> ''POST'' then Some (st, 405, Inl ''Method not allowed'')
      else case body of
        Inl err \<Rightarrow> Some (st, 400, Inl ''Invalid JSON'')
      | Inr c \<Rightarrow>
          let config = scan_defaults duration (svs_config st) c; scanID = ''scan-'' @ show_int now;
              job = \<lparr>SVJ_ID = scanID, SVJ_Config = config, SVJ_StartTime = now', SVJ_Status = ''running'', SVJ_Results = [], SVJ_Error = []\<rparr>
          in map_option (\<lambda>active.
               (st\<lparr>svs_active := Some (insert scanID active), svs_jobs := (svs_jobs st)(scanID \<mapsto> job),
                   svs_running := (svs_running st)(scanID \<mapsto> Performing)\<rparr>, 200, Inr (SSP_started scanID config now')))
             (svs_active st))"

text \<open>The goroutine after its scan, which gave \<open>results\<close> and \<open>errors\<close>; then its deferred part.\<close>

definition reported_job :: "DiscoveredServer list \<Rightarrow> error list \<Rightarrow> service_job \<Rightarrow> service_job" where
  "reported_job results errors job =
     (if errors \<noteq> [] then job\<lparr>SVJ_Status := ''failed'', SVJ_Error := ''Scan errors: ['' @ Join errors '' '' @ '']''\<rparr>
      else job\<lparr>SVJ_Results := results, SVJ_Status := ''completed''\<rparr>)"

definition performScan_report :: "string \<Rightarrow> DiscoveredServer list \<Rightarrow> error list \<Rightarrow> scan_service \<Rightarrow> scan_service" where
  "performScan_report scanID results errors st =
     (case svs_jobs st scanID of
        None \<Rightarrow> st
      | Some job \<Rightarrow>
          st\<lparr>svs_jobs := (svs_jobs st)(scanID \<mapsto> reported_job results errors job),
             svs_running := (svs_running st)(scanID \<mapsto> Reported),
             svs_store := (if errors \<noteq> [] then svs_store st else SaveScan scanID (SVJ_Config job) results (svs_store st))\<rparr>)"

definition performScan_remove :: "string \<Rightarrow> scan_service \<Rightarrow> scan_service" where
  "performScan_remove scanID st =
     st\<lparr>svs_active := map_option (\<lambda>active. active - {scanID}) (svs_active st), svs_running := (svs_running st)(scanID := None)\<rparr>"

definition is_active :: "string \<Rightarrow> scan_service \<Rightarrow> bool" where
  "is_active scanID st \<longleftrightarrow> (case svs_active st of None \<Rightarrow> False | Some active \<Rightarrow> scanID \<in> active)"

definition handleGetScanStatus :: "string \<Rightarrow> scan_service \<Rightarrow> int \<times> (string + scan_service_payload)" where
  "handleGetScanStatus path st =
     (let scanID = TrimPrefix path ''/api/v1/scan/'' in
      if scanID = [] then (404, Inl ''404 page not found'')
      else case (if is_active scanID st then svs_jobs st scanID else None) of
        Some job \<Rightarrow> (200, Inr (SSP_active (SVJ_ID job) (SVJ_Status job) (SVJ_StartTime job) (SVJ_Config job)
          (if SVJ_Error job \<noteq> [] then Some (SVJ_Error job) else None)))
      | None \<Rightarrow>
          (case GetScan scanID (svs_store st) of
             Inl err \<Rightarrow> (404, Inl ''Scan not found'')
           | Inr (config, results) \<Rightarrow> (200, Inr (SSP_completed scanID results config))))"

definition scan_results :: "InMemoryScanStore \<Rightarrow> string \<Rightarrow> DiscoveredServer list" where
  "scan_results s scanID = (case GetScan scanID s of Inl err \<Rightarrow> [] | Inr (config, results) \<Rightarrow> results)"

definition handleListServers :: "string list \<Rightarrow> string \<Rightarrow> scan_service \<Rightarrow> int \<times> (string + scan_service_payload)" where
  "handleListServers ks request_method st =
     (if request_method \<noteq> ''GET'' then (405, Inl ''Method not allowed'')
      else let scans = ListScans ks (svs_store st) in
        (200, Inr (SSP_servers (concat (map (scan_results (svs_store st)) scans)) (length scans))))"


subsection \<open>Steps\<close>

text \<open>A request starts a scan, under an ID that none had before (the clock goes on between two requests); a goroutine
  reports what the scan of its configuration came to; a goroutine ends; the service is stopped.\<close>

inductive scan_service_step :: "scan_service \<Rightarrow> scan_service \<Rightarrow> bool" where
  scan_started: "handleStartScan duration now now' request_method body st = Some (st', 200, r) \<Longrightarrow>
    svs_jobs st (''scan-'' @ show_int now) = None \<Longrightarrow> scan_service_step st st'"
| scan_reported: "svs_running st scanID = Some Performing \<Longrightarrow> svs_jobs st scanID = Some job \<Longrightarrow>
    Scan net t race (SVJ_Config job) = Scan_returns results errors \<Longrightarrow>
    scan_service_step st (performScan_report scanID results errors st)"
| scan_removed: "svs_running st scanID = Some Reported \<Longrightarrow> scan_service_step st (performScan_remove scanID st)"
| service_stopped: "ScanService_Stop st = Some st' \<Longrightarrow> scan_service_step st st'"

abbreviation scan_service_reachable :: "scan_service \<Rightarrow> bool" where
  "scan_service_reachable st \<equiv> \<exists>config. scan_service_step\<^sup>*\<^sup>* (ScanService_NewService config) st"

text \<open>What a job says about its scan, and what the store has of it.\<close>

definition scan_gives :: "ScanConfig \<Rightarrow> DiscoveredServer list \<Rightarrow> error list \<Rightarrow> bool" where
  "scan_gives config results errors \<longleftrightarrow> (\<exists>net t race. Scan net t race config = Scan_returns results errors)"

definition job_ok :: "string \<Rightarrow> scan_phase option \<Rightarrow> ScanResult option \<Rightarrow> bool \<Rightarrow> service_job option \<Rightarrow> bool" where
  "job_ok scanID phase stored active job \<longleftrightarrow>
     (case job of
        None \<Rightarrow> phase = None \<and> stored = None \<and> \<not> active
      | Some j \<Rightarrow> SVJ_ID j = scanID \<and> (active \<longrightarrow> phase \<noteq> None) \<and>
          (if phase = Some Performing then SVJ_Status j = ''running'' \<and> SVJ_Error j = [] \<and> stored = None
           else if SVJ_Status j = ''completed'' then stored = Some \<lparr>SRes_Config = SVJ_Config j, SRes_Results = SVJ_Results j\<rparr> \<and>
             scan_gives (SVJ_Config j) (SVJ_Results j) []
           else SVJ_Status j = ''failed'' \<and> SVJ_Error j \<noteq> [] \<and> stored = None \<and>
             (\<exists>results errors. scan_gives (SVJ_Config j) results errors \<and> errors \<noteq> [])))"

definition scan_service_ok :: "scan_service \<Rightarrow> bool" where
  "scan_service_ok st \<longleftrightarrow>
     (\<forall>i. job_ok i (svs_running st i) (iscs_scans (svs_store st) i) (is_active i st) (svs_jobs st i))"

lemma scan_service_okD:
  "scan_service_ok st \<Longrightarrow> job_ok i (svs_running st i) (iscs_scans (svs_store st) i) (is_active i st) (svs_jobs st i)"
  by (simp add: scan_service_ok_def)

lemma is_active_simps [simp]:
  "is_active i (st\<lparr>svs_running := r\<rparr>) = is_active i st" "is_active i (st\<lparr>svs_jobs := j\<rparr>) = is_active i st"
  "is_active i (st\<lparr>svs_store := s\<rparr>) = is_active i st" "is_active i (st\<lparr>svs_shutdown := b\<rparr>) = is_active i st"
  "is_active i (st\<lparr>svs_active := None\<rparr>) = False"
  "is_active i (st\<lparr>svs_active := Some active\<rparr>) = (i \<in> active)"
  by (simp_all add: is_active_def)

lemma job_ok_inactive: "job_ok i phase stored active job \<Longrightarrow> job_ok i phase stored False job"
  by (auto simp: job_ok_def split: option.splits)

lemma ok_started:
  assumes "scan_service_ok st" and "handleStartScan duration now now' request_method body st = Some (st', 200, r)"
    and "svs_jobs st (''scan-'' @ show_int now) = None"
  shows "scan_service_ok st'"
proof -
  define k where "k = ''scan-'' @ show_int now"
  from assms(2) obtain active job where st': "svs_active st = Some active"
    "st' = st\<lparr>svs_active := Some (insert k active), svs_jobs := (svs_jobs st)(k \<mapsto> job), svs_running := (svs_running st)(k \<mapsto> Performing)\<rparr>"
    and job: "SVJ_ID job = k" "SVJ_Status job = ''running''" "SVJ_Error job = []"
    by (auto simp: handleStartScan_def Let_def k_def split: if_splits sum.splits)
  have "svs_jobs st k = None" using assms(3) by (simp add: k_def)
  then have "iscs_scans (svs_store st) k = None"
    using scan_service_okD [OF assms(1), of k] by (simp add: job_ok_def)
  with st' job have new: "job_ok k (svs_running st' k) (iscs_scans (svs_store st') k) (is_active k st') (svs_jobs st' k)"
    by (simp add: job_ok_def)
  have "job_ok i (svs_running st' i) (iscs_scans (svs_store st') i) (is_active i st') (svs_jobs st' i)" for i
    using scan_service_okD [OF assms(1), of i] new st' by (cases "i = k") (simp_all add: is_active_def [of i st])
  then show ?thesis by (simp add: scan_service_ok_def)
qed

lemma ok_reported:
  assumes "scan_service_ok st" and "svs_running st scanID = Some Performing" and "svs_jobs st scanID = Some job"
    and "Scan net t race (SVJ_Config job) = Scan_returns results errors"
  shows "scan_service_ok (performScan_report scanID results errors st)"
proof -
  let ?st = "performScan_report scanID results errors st"
  have job: "SVJ_ID job = scanID" "iscs_scans (svs_store st) scanID = None"
    using scan_service_okD [OF assms(1), of scanID] assms(2,3) by (simp_all add: job_ok_def)
  have given: "scan_gives (SVJ_Config job) results errors" using assms(4) by (auto simp: scan_gives_def)
  then have "job_ok scanID (svs_running ?st scanID) (iscs_scans (svs_store ?st) scanID) (is_active scanID ?st) (svs_jobs ?st scanID)"
    using assms(3) job by (cases "errors = []") (auto simp: performScan_report_def job_ok_def reported_job_def SaveScan_def)
  moreover have "job_ok i (svs_running ?st i) (iscs_scans (svs_store ?st) i) (is_active i ?st) (svs_jobs ?st i)" if "i \<noteq> scanID" for i
    using scan_service_okD [OF assms(1), of i] that assms(3) by (simp add: performScan_report_def SaveScan_def)
  ultimately show ?thesis unfolding scan_service_ok_def by metis
qed

lemma ok_removed:
  assumes "scan_service_ok st" and "svs_running st scanID = Some Reported"
  shows "scan_service_ok (performScan_remove scanID st)"
proof -
  let ?st = "performScan_remove scanID st"
  have active: "is_active i ?st \<longleftrightarrow> is_active i st \<and> i \<noteq> scanID" for i
    by (auto simp: performScan_remove_def is_active_def split: option.splits)
  have "job_ok scanID (svs_running ?st scanID) (iscs_scans (svs_store ?st) scanID) (is_active scanID ?st) (svs_jobs ?st scanID)"
    using scan_service_okD [OF assms(1), of scanID] assms(2) active
    by (auto simp: performScan_remove_def job_ok_def split: option.splits if_splits)
  moreover have "job_ok i (svs_running ?st i) (iscs_scans (svs_store ?st) i) (is_active i ?st) (svs_jobs ?st i)" if "i \<noteq> scanID" for i
    using scan_service_okD [OF assms(1), of i] that active by (simp add: performScan_remove_def)
  ultimately show ?thesis unfolding scan_service_ok_def by metis
qed

lemma scan_service_ok_step: "scan_service_step st st' \<Longrightarrow> scan_service_ok st \<Longrightarrow> scan_service_ok st'"
proof (induction rule: scan_service_step.induct)
  case (service_stopped st st')
  then show ?case
    by (auto simp: ScanService_Stop_def scan_service_ok_def split: if_splits) (blast intro: job_ok_inactive)
qed (blast intro: ok_started ok_reported ok_removed)+

lemma scan_service_reachable_ok: "scan_service_step\<^sup>*\<^sup>* (ScanService_NewService config) st \<Longrightarrow> scan_service_ok st"
proof (induction rule: rtranclp_induct)
  case base
  then show ?case by (simp add: scan_service_ok_def job_ok_def ScanService_NewService_def NewInMemoryScanStore_def is_active_def)
qed (rule scan_service_ok_step)

subsection \<open>Properties\<close>

text \<open>A scan whose goroutine has ended answers for ever with the results of its configuration, if it found nothing wrong. If there was one
  error, nothing is left of the scan: neither the servers that it found nor the error.\<close>

theorem ended_scans:
  assumes "scan_service_step\<^sup>*\<^sup>* (ScanService_NewService config) st" and "svs_jobs st scanID = Some job" and "svs_running st scanID = None"
    and "scanID \<noteq> []"
  shows "(scan_gives (SVJ_Config job) (SVJ_Results job) [] \<and>
        handleGetScanStatus (''/api/v1/scan/'' @ scanID) st = (200, Inr (SSP_completed scanID (SVJ_Results job) (SVJ_Config job)))) \<or>
      (\<exists>results errors. scan_gives (SVJ_Config job) results errors \<and> errors \<noteq> [] \<and>
        handleGetScanStatus (''/api/v1/scan/'' @ scanID) st = (404, Inl ''Scan not found''))"
proof -
  have path: "TrimPrefix (''/api/v1/scan/'' @ scanID) ''/api/v1/scan/'' = scanID" by (simp add: TrimPrefix_def)
  from scan_service_okD [OF scan_service_reachable_ok [OF assms(1)], of scanID] assms(2,3)
  have ok: "job_ok scanID None (iscs_scans (svs_store st) scanID) (is_active scanID st) (Some job)" by simp
  then have inactive: "\<not> is_active scanID st" by (auto simp: job_ok_def)
  show ?thesis
  proof (cases "SVJ_Status job = ''completed''")
    case True
    with ok have "iscs_scans (svs_store st) scanID = Some \<lparr>SRes_Config = SVJ_Config job, SRes_Results = SVJ_Results job\<rparr>"
      "scan_gives (SVJ_Config job) (SVJ_Results job) []"
      by (simp_all add: job_ok_def)
    with path inactive assms(4) show ?thesis by (auto simp: handleGetScanStatus_def Let_def GetScan_def)
  next
    case False
    with ok have "iscs_scans (svs_store st) scanID = None"
      "\<exists>results errors. scan_gives (SVJ_Config job) results errors \<and> errors \<noteq> []"
      by (simp_all add: job_ok_def)
    with path inactive assms(4) show ?thesis by (auto simp: handleGetScanStatus_def Let_def GetScan_def)
  qed
qed

text \<open>The list of servers has exactly those that a scan without errors found.\<close>

theorem listed_servers_were_found:
  assumes "scan_service_step\<^sup>*\<^sup>* (ScanService_NewService config) st" and "range_order (iscs_scans (svs_store st)) ks"
    and "handleListServers ks ''GET'' st = (200, Inr (SSP_servers servers n))"
  shows "server \<in> set servers \<longleftrightarrow>
    (\<exists>scanID job. svs_jobs st scanID = Some job \<and> SVJ_Status job = ''completed'' \<and> server \<in> set (SVJ_Results job))"
proof -
  note ok = scan_service_okD [OF scan_service_reachable_ok [OF assms(1)]]
  have stored: "iscs_scans (svs_store st) i = Some r \<longleftrightarrow>
      (\<exists>job. svs_jobs st i = Some job \<and> SVJ_Status job = ''completed'' \<and> r = \<lparr>SRes_Config = SVJ_Config job, SRes_Results = SVJ_Results job\<rparr>)" for i r
    using ok [of i] by (auto simp: job_ok_def split: option.splits if_splits)
  have results: "server \<in> set (scan_results (svs_store st) i) \<longleftrightarrow>
      (\<exists>r. iscs_scans (svs_store st) i = Some r \<and> server \<in> set (SRes_Results r))" for i
    by (simp add: scan_results_def GetScan_def split: option.split)
  have "servers = concat (map (scan_results (svs_store st)) (ListScans ks (svs_store st)))"
    using assms(3) by (simp add: handleListServers_def Let_def)
  then have "server \<in> set servers \<longleftrightarrow> (\<exists>i r. i \<in> set ks \<and> iscs_scans (svs_store st) i = Some r \<and> server \<in> set (SRes_Results r))"
    using results by (auto simp: ListScans_def)
  moreover have "set ks = dom (iscs_scans (svs_store st))" using assms(2) by (simp add: range_order_def)
  ultimately show ?thesis using stored by (fastforce simp: domIff)
qed

text \<open>After the service was stopped, a request for a scan panics: it writes to the map that is gone.\<close>

theorem no_scan_after_stop:
  assumes "ScanService_Stop st = Some st'"
  shows "handleStartScan duration now now' ''POST'' (Inr c) st' = None"
  using assms by (auto simp: ScanService_Stop_def handleStartScan_def Let_def split: if_splits)


subsection \<open>Concrete values\<close>

definition ex_scan_service_config :: scan_service_config where
  "ex_scan_service_config = \<lparr>SSC_DefaultTimeout = 0, SSC_MaxConcurrency = 0, SSC_ExcludeProxy = True\<rparr>"

text \<open>A scan of one address, and what comes of it when all steps are done.\<close>

definition ex_scan_started :: scan_service where
  "ex_scan_started =
     (case handleStartScan (\<lambda>d. ''30s'') 5 5 ''POST'' (Inr ex_scan_config) (ScanService_NewService ex_scan_service_config) of
        Some (st, _) \<Rightarrow> st | None \<Rightarrow> ScanService_NewService ex_scan_service_config)"

definition ex_service_job :: service_job where
  "ex_service_job = \<lparr>SVJ_ID = ''scan-5'', SVJ_Config = ex_scan_config\<lparr>SCfg_Timeout := ''30s'', SCfg_ExcludeProxy := Some True\<rparr>,
     SVJ_StartTime = 5, SVJ_Status = ''running'', SVJ_Results = [], SVJ_Error = []\<rparr>"

lemma show_five: "show_int 5 = ''5''"
  by code_simp

lemma ex_scan_start:
  "handleStartScan (\<lambda>d. ''30s'') 5 5 ''POST'' (Inr ex_scan_config) (ScanService_NewService ex_scan_service_config) =
     Some (ex_scan_started, 200, Inr (SSP_started ''scan-5'' (SVJ_Config ex_service_job) 5))"
  "ex_scan_started = (ScanService_NewService ex_scan_service_config)\<lparr>svs_active := Some {''scan-5''},
     svs_jobs := [''scan-5'' \<mapsto> ex_service_job], svs_running := [''scan-5'' \<mapsto> Performing]\<rparr>"
  by (simp_all add: ex_scan_started_def handleStartScan_def Let_def show_five ScanService_NewService_def ex_scan_service_config_def
      scan_defaults_def ex_scan_config_def ex_service_job_def)

lemma ex_service_scan: "Scan ex_network 0 (\<lambda>i. True) (SVJ_Config ex_service_job) =
    Scan_returns (detectMCPServer ex_network 0 ''10.0.0.1'' 7) []"
proof -
  have "SCfg_Ports (SVJ_Config ex_service_job) = SCfg_Ports ex_scan_config" "SCfg_MaxConcurrent (SVJ_Config ex_service_job) = 1"
    "SCfg_ScanRanges (SVJ_Config ex_service_job) = SCfg_ScanRanges ex_scan_config"
    "SCfg_ExcludeAddresses (SVJ_Config ex_service_job) = [''10.0.0.9'']"
    by (simp_all add: ex_service_job_def ex_scan_config_def)
  then show ?thesis
    using ex_scan_config_targets by (simp add: Scan_def Let_def scan_pairs_def shouldExcludeAddress_def)
qed

definition ex_scan_ended :: scan_service where
  "ex_scan_ended = performScan_remove ''scan-5''
     (performScan_report ''scan-5'' (detectMCPServer ex_network 0 ''10.0.0.1'' 7) [] ex_scan_started)"

lemma ex_scan_ended_reachable:
  "scan_service_step\<^sup>*\<^sup>* (ScanService_NewService ex_scan_service_config) ex_scan_ended"
proof -
  have "scan_service_step (ScanService_NewService ex_scan_service_config) ex_scan_started"
    by (rule scan_started [OF ex_scan_start(1)]) (simp add: ScanService_NewService_def)
  moreover have "scan_service_step ex_scan_started
      (performScan_report ''scan-5'' (detectMCPServer ex_network 0 ''10.0.0.1'' 7) [] ex_scan_started)"
    by (rule scan_reported [OF _ _ ex_service_scan]) (simp_all add: ex_scan_start(2))
  moreover have "scan_service_step
      (performScan_report ''scan-5'' (detectMCPServer ex_network 0 ''10.0.0.1'' 7) [] ex_scan_started) ex_scan_ended"
    unfolding ex_scan_ended_def by (rule scan_removed) (simp add: performScan_report_def ex_scan_start(2))
  ultimately show ?thesis by (meson converse_rtranclp_into_rtranclp r_into_rtranclp)
qed

lemma ex_scan_ended_job:
  "svs_jobs ex_scan_ended ''scan-5'' = Some (ex_service_job\<lparr>SVJ_Results := detectMCPServer ex_network 0 ''10.0.0.1'' 7,
     SVJ_Status := ''completed''\<rparr>)" "svs_running ex_scan_ended ''scan-5'' = None"
  by (simp_all add: ex_scan_ended_def performScan_remove_def performScan_report_def ex_scan_start(2) reported_job_def)

theorem ended_scans_witness:
  "(\<exists>job. svs_jobs ex_scan_ended ''scan-5'' = Some job \<and> SVJ_Results job = detectMCPServer ex_network 0 ''10.0.0.1'' 7) \<and>
   fst (handleGetScanStatus ''/api/v1/scan/scan-5'' ex_scan_ended) \<in> {200, 404}"
  using ended_scans [OF ex_scan_ended_reachable ex_scan_ended_job] ex_scan_ended_job(1) by auto

lemma ex_scan_ended_order: "range_order (iscs_scans (svs_store ex_scan_ended)) [''scan-5'']"
  by (simp add: range_order_def ex_scan_ended_def performScan_remove_def performScan_report_def ex_scan_start(2) SaveScan_def
      ScanService_NewService_def NewInMemoryScanStore_def)

theorem listed_servers_were_found_witness:
  "\<exists>servers n server. handleListServers [''scan-5''] ''GET'' ex_scan_ended = (200, Inr (SSP_servers servers n)) \<and> server \<in> set servers"
proof -
  obtain server where "server \<in> set (detectMCPServer ex_network 0 ''10.0.0.1'' 7)" using ex_net_detect by auto
  moreover obtain servers n where answer: "handleListServers [''scan-5''] ''GET'' ex_scan_ended = (200, Inr (SSP_servers servers n))"
    by (simp add: handleListServers_def Let_def)
  ultimately have "server \<in> set servers"
    unfolding listed_servers_were_found [OF ex_scan_ended_reachable ex_scan_ended_order answer]
    by (intro exI [of _ "''scan-5''"]) (simp add: ex_scan_ended_job)
  with answer show ?thesis by blast
qed

theorem no_scan_after_stop_witness:
  "\<exists>st. ScanService_Stop (ScanService_NewService ex_scan_service_config) = Some st \<and>
     handleStartScan (\<lambda>d. ''30s'') 5 5 ''POST'' (Inr ex_scan_config) st = None"
proof -
  obtain st where "ScanService_Stop (ScanService_NewService ex_scan_service_config) = Some st"
    by (simp add: ScanService_Stop_def ScanService_NewService_def)
  with no_scan_after_stop [OF this] show ?thesis by blast
qed

end
