(* ===== verification/PodProxy.thy ===== *)
theory PodProxy
  imports RestApi Management
begin

section \<open>The proxy to the pods of adapters\<close>

text \<open>
  \<open>internal/service/proxy.go\<close>, the handlers that relay requests to the pods which the management service deploys, and \<open>pkg/proxy/k8s.go\<close>,
  the plugin for such adapters. No program installs them. The state is the session store and the processes of the plugin for local adapters;
  the store of adapters is its operation \<open>get\<close>. What a client gets is a status alone, the JSON of an error behind headers that are already set, a
  response, a part of one with the JSON of an error behind it, or the answer that a server wants OAuth. URLs have a scheme and a host.
\<close>

subsection \<open>The plugin for pods\<close>

definition url_set_path :: "string \<Rightarrow> string \<Rightarrow> string" where
  "url_set_path p u = take (length (url_base u) - length (url_path u)) (url_base u) @ p @ drop (length (url_base u)) u"

definition K8s_CanHandle :: "string \<Rightarrow> bool" where
  "K8s_CanHandle connectionType \<longleftrightarrow> connectionType = ConnectionTypeSSE \<or> connectionType = ConnectionTypeStreamableHttp"

definition K8s_target :: "AdapterResource \<Rightarrow> string" where
  "K8s_target adapter =
     (case AD_EnvironmentVariables adapter ''MCP_PROXY_URL'' of
        None \<Rightarrow> ''http://localhost:8000/mcp'' | Some u \<Rightarrow> if u = [] then ''http://localhost:8000/mcp'' else u)"

text \<open>The headers of the client's request, without the host.\<close>

definition without_host :: "headers \<Rightarrow> headers" where
  "without_host h = h(''Host'' := None)"

text \<open>The response that is copied to the client. An error while its body is copied is ignored.\<close>

definition copied_response :: "proxied \<Rightarrow> client_response" where
  "copied_response resp = \<lparr>CS_Status = PX_Status resp, CS_Header = copied_headers (PX_Header resp) Map.empty, CS_Body = PX_Body resp\<rparr>"

definition K8s_ProxyRequest :: "plugin_env \<Rightarrow> plugin_request \<Rightarrow> AdapterResource \<Rightarrow> client_response result" where
  "K8s_ProxyRequest E c adapter =
     (case pl_parse E (K8s_target adapter) of
        Some err \<Rightarrow> Inl err
      | None \<Rightarrow>
          let u = url_set_path ''/mcp'' (K8s_target adapter);
              target = (if PR_RawQuery c \<noteq> [] then url_set_query u (PR_RawQuery c) else u) in
          case pl_new_request E (PR_Method c) target of
            Some err \<Rightarrow> Inl err
          | None \<Rightarrow>
              (case PR_Body c of
                 Inl err \<Rightarrow> Inl (pl_broken E err)
               | Inr body \<Rightarrow>
                   (case pl_send E \<lparr>FW_Method = PR_Method c, FW_URL = target, FW_Header = without_host (PR_Header c), FW_Body = body\<rparr> of
                      Bad_request err \<Rightarrow> Inl err
                    | Unreachable err \<Rightarrow> Inl err
                    | Answered resp \<Rightarrow> Inr (copied_response resp))))"

definition K8s_GetStatus :: "(forwarded \<Rightarrow> sent) \<Rightarrow> AdapterResource \<Rightarrow> AdapterStatus" where
  "K8s_GetStatus send adapter =
     (case send \<lparr>FW_Method = ''GET'', FW_URL = K8s_target adapter, FW_Header = Map.empty, FW_Body = []\<rparr> of
        Answered resp \<Rightarrow> status_only (if PX_Status resp = 200 then ''Healthy'' else ''Degraded'')
      | _ \<Rightarrow> status_only ''Unavailable'')"

subsection \<open>Requests through a session\<close>

record pod_proxy =
  pp_sessions :: InMemorySessionStore
  pp_local :: LocalStdioProxyPlugin

text \<open>What a request reads: the clients of the plugins, the processes, and the clock; \<open>pe_read\<close> is the next line of a process.\<close>

record pod_env =
  pe_plugin :: plugin_env
  pe_stdio :: stdio_env
  pe_now :: gotime
  pe_now' :: gotime
  pe_now'' :: gotime
  pe_unix :: int
  pe_digits :: string
  pe_read :: "string result option"

datatype pod_reply = Pod_status int | Pod_error int headers string | Pod_data client_response | Pod_cut client_response string
  | Pod_oauth string string

definition pod_session_ID :: "rest_request \<Rightarrow> string" where
  "pod_session_ID c =
     (if rest_GetHeader c ''mcp-session-id'' \<noteq> [] then rest_GetHeader c ''mcp-session-id''
      else if rest_GetHeader c ''session_id'' \<noteq> [] then rest_GetHeader c ''session_id'' else rest_Query c ''session_id'')"

text \<open>The address of the data of a protected resource, in quotes: \<open>resource_metadata=\<dots>\<close>.\<close>

definition extractResourceMetadataURL :: "string \<Rightarrow> string" where
  "extractResourceMetadataURL wwwAuth =
     (let pre = ''resource_metadata='' @ [CHR 0x22] in
      case filter (\<lambda>part. HasPrefix part pre) (map TrimSpace (Split wwwAuth CHR '','')) of
        [] \<Rightarrow> []
      | part # _ \<Rightarrow> TrimSuffix (TrimPrefix part pre) [CHR 0x22])"

definition pod_extractSessionID :: "proxied \<Rightarrow> string" where
  "pod_extractSessionID resp =
     (let sid = header_Get (PX_Header resp) ''Mcp-Session-Id'' in
      if sid = [] then header_Get (PX_Header resp) ''Session-Id'' else sid)"

text \<open>The token of a session, if it is valid, replaces what the client sent.\<close>

definition session_credentials :: "gotime \<Rightarrow> InMemorySessionStore \<Rightarrow> string \<Rightarrow> headers \<Rightarrow> headers" where
  "session_credentials now s sid h =
     (if sid \<noteq> [] \<and> IsTokenValid now s sid then
        (case GetTokenInfo s sid of
           Inl err \<Rightarrow> h
         | Inr p \<Rightarrow> header_Set ''Authorization'' (''Bearer '' @ TI_AccessToken (token_at s p)) h)
      else h)"

definition pod_request :: "gotime \<Rightarrow> InMemorySessionStore \<Rightarrow> rest_request \<Rightarrow> string \<Rightarrow> string \<Rightarrow> string \<Rightarrow> forwarded" where
  "pod_request now s c targetAddress sid body =
     \<lparr>FW_Method = PR_Method c,
      FW_URL = targetAddress @ ''/mcp'' @ (if PR_RawQuery c \<noteq> [] then ''?'' @ PR_RawQuery c else []),
      FW_Header = session_credentials now s sid (without_host (PR_Header c)), FW_Body = body\<rparr>"

definition pod_answer :: "rest_request \<Rightarrow> proxied \<Rightarrow> pod_reply" where
  "pod_answer c resp =
     (let wwwAuth = header_Get (PX_Header resp) ''Www-Authenticate''; url = extractResourceMetadataURL wwwAuth in
      if PX_Status resp = 401 \<and> Contains wwwAuth ''oauth-protected-resource'' \<and> url \<noteq> [] then Pod_oauth url (RQ_Param c ''name'')
      else Pod_data (copied_response resp))"

definition ProxyHandler_proxyRequest ::
    "pod_env \<Rightarrow> rest_request \<Rightarrow> string \<Rightarrow> string \<Rightarrow> pod_proxy \<Rightarrow> pod_proxy \<times> pod_reply" where
  "ProxyHandler_proxyRequest E c targetAddress sid st =
     (let req = pod_request (pe_now E) (pp_sessions st) c targetAddress sid in
      case pl_new_request (pe_plugin E) (PR_Method c) (FW_URL (req [])) of
        Some err \<Rightarrow> (st, Pod_status 500)
      | None \<Rightarrow>
          (case PR_Body c of
             Inl err \<Rightarrow> (st, Pod_status 503)
           | Inr body \<Rightarrow>
               (case pl_send (pe_plugin E) (req body) of
                  Answered resp \<Rightarrow>
                    (let newID = pod_extractSessionID resp in
                     case pod_answer c resp of
                       Pod_data r \<Rightarrow>
                         (if sid = [] \<and> newID \<noteq> []
                          then st\<lparr>pp_sessions := fst (InMemorySessionStore_Set (pe_now' E) newID targetAddress (pp_sessions st))\<rparr>
                          else st, Pod_data r)
                     | reply \<Rightarrow> (st, reply))
                | _ \<Rightarrow> (st, Pod_status 503))))"

definition ForwardMessages :: "pod_env \<Rightarrow> rest_request \<Rightarrow> pod_proxy \<Rightarrow> pod_proxy \<times> pod_reply" where
  "ForwardMessages E c st =
     (let sid = pod_session_ID c in
      if sid = [] then (st, Pod_status 400)
      else case InMemorySessionStore_Get (pp_sessions st) sid of
        (target, found) \<Rightarrow> if found then ProxyHandler_proxyRequest E c target sid st else (st, Pod_status 503))"

subsection \<open>Requests to an adapter\<close>

text \<open>A session that has no adapter yet is stored anew.\<close>

definition touched_session :: "pod_env \<Rightarrow> string \<Rightarrow> string \<Rightarrow> string \<Rightarrow> InMemorySessionStore \<Rightarrow> InMemorySessionStore" where
  "touched_session E sid name connectionType s =
     (if sid = [] then s
      else let s1 = fst (UpdateActivity (pe_now E) sid s) in
        case GetDetails s1 sid of
          Inl err \<Rightarrow> s1
        | Inr details \<Rightarrow>
            if SD_AdapterName details = [] then fst (SetWithDetails (pe_now' E) sid name (SD_TargetAddress details) connectionType s1)
            else s1)"

definition remote_pod_reply :: "(client_response \<times> error option) result \<Rightarrow> pod_reply" where
  "remote_pod_reply r =
     (case r of
        Inl err \<Rightarrow> Pod_error 503 Map.empty err
      | Inr (resp, None) \<Rightarrow> Pod_data resp
      | Inr (resp, Some err) \<Rightarrow> if CS_Body resp = [] then Pod_error 503 (CS_Header resp) err else Pod_cut resp err)"

definition ForwardStreamableHttp ::
    "pod_env \<Rightarrow> (string \<Rightarrow> AdapterResource result) \<Rightarrow> string \<Rightarrow> rest_request \<Rightarrow> pod_proxy \<Rightarrow> pod_proxy \<times> pod_reply" where
  "ForwardStreamableHttp E get userId c st =
     (let name = RQ_Param c ''name''; user = effective_user userId in
      case get name of
        Inl err \<Rightarrow> (st, Pod_error 404 Map.empty ''Adapter not found'')
      | Inr adapter \<Rightarrow>
          if AR_CreatedBy adapter \<noteq> user then (st, Pod_error 404 Map.empty ''Adapter not found'')
          else let t = AD_ConnectionType adapter;
                   st' = st\<lparr>pp_sessions := touched_session E (pod_session_ID c) name t (pp_sessions st)\<rparr> in
            if t = ConnectionTypeRemoteHttp
            then (st', remote_pod_reply (RemoteHttp_ProxyRequest (pe_plugin E) Map.empty (plugin_client c) adapter))
            else if t = ConnectionTypeLocalStdio
            then (case LocalStdio_ProxyRequest (pe_stdio E) (pe_now'' E) (pe_unix E) (pe_digits E) (pe_read E) (stdio_client c) adapter
                (pp_sessions st') (pp_local st') of
              (p, ss, h, Inl err) \<Rightarrow> (\<lparr>pp_sessions = ss, pp_local = p\<rparr>, Pod_error 503 h err)
            | (p, ss, h, Inr line) \<Rightarrow> (\<lparr>pp_sessions = ss, pp_local = p\<rparr>, Pod_data \<lparr>CS_Status = 200, CS_Header = h, CS_Body = line\<rparr>))
            else if K8s_CanHandle t
            then (st', case K8s_ProxyRequest (pe_plugin E) (plugin_client c) adapter of
              Inl err \<Rightarrow> Pod_error 503 Map.empty err | Inr resp \<Rightarrow> Pod_data resp)
            else (st, Pod_error 400 Map.empty ''Unsupported connection type''))"

subsection \<open>Streams\<close>

definition ProxyHandler_getPodAddresses :: "'c clientset option \<Rightarrow> string \<Rightarrow> 'c \<Rightarrow> string list result" where
  "ProxyHandler_getPodAddresses kube adapterName c =
     (case kube of
        None \<Rightarrow> Inr [''http://localhost:8000'']
      | Some K \<Rightarrow>
          (case cs_ListPods K ''adapter'' (''app='' @ adapterName @ '',type=mcp-adapter'') ''status.phase=Running'' c of
             Inl err \<Rightarrow> Inl (''failed to list pods: '' @ err)
           | Inr pods \<Rightarrow> Inr (map (\<lambda>p. ''http://'' @ fst p @ ''.'' @ adapterName @ ''-service.adapter.svc.cluster.local:8000'')
               (filter isPodReady pods))))"

definition getNewSessionTarget :: "'c clientset option \<Rightarrow> string \<Rightarrow> 'c \<Rightarrow> string result" where
  "getNewSessionTarget kube name c =
     (case ProxyHandler_getPodAddresses kube name c of
        Inl err \<Rightarrow> Inl err
      | Inr [] \<Rightarrow> Inl (''no healthy pods found for adapter '' @ name)
      | Inr (address # _) \<Rightarrow> Inr address)"

definition pod_init_body :: string where
  "pod_init_body = dq (''{`jsonrpc`:`2.0`,`id`:1,`method`:`initialize`,`params`:{`protocolVersion`:`2024-11-05`,`capabilities`:{},'' @
     ''`clientInfo`:{`name`:`mcp-gateway`,`version`:`1.0`}}}'')"

definition establishSession :: "plugin_env \<Rightarrow> string \<Rightarrow> string result" where
  "establishSession E targetAddress =
     (let targetURL = targetAddress @ ''/mcp'' in
      case pl_new_request E ''POST'' targetURL of
        Some err \<Rightarrow> Inl err
      | None \<Rightarrow>
          (case pl_send E \<lparr>FW_Method = ''POST'', FW_URL = targetURL, FW_Header =
              [''Content-Type'' \<mapsto> [''application/json''], ''Accept'' \<mapsto> [''application/json, text/event-stream'']], FW_Body = pod_init_body\<rparr> of
             Bad_request err \<Rightarrow> Inl err
           | Unreachable err \<Rightarrow> Inl err
           | Answered resp \<Rightarrow>
               if PX_Status resp \<noteq> 200 then Inl (''initialize request failed with status '' @ show_int (PX_Status resp))
               else if pod_extractSessionID resp = [] then Inl ''no session ID in initialize response''
               else Inr (pod_extractSessionID resp)))"

definition stream_response :: "proxied \<Rightarrow> client_response" where
  "stream_response resp = (copied_response resp)\<lparr>CS_Header := (copied_headers (PX_Header resp) Map.empty)
     (''Content-Type'' \<mapsto> [''text/event-stream''], ''Cache-Control'' \<mapsto> [''no-cache''], ''Connection'' \<mapsto> [''keep-alive''])\<rparr>"

definition stream_request :: "rest_request \<Rightarrow> string \<Rightarrow> string \<Rightarrow> forwarded" where
  "stream_request c targetURL sid = \<lparr>FW_Method = ''GET'', FW_URL = targetURL, FW_Header = header_Set ''mcp-session-id'' sid
     (header_Set ''Cache-Control'' ''no-cache'' (header_Set ''Accept'' ''text/event-stream'' (without_host (PR_Header c)))), FW_Body = []\<rparr>"

definition proxySSERequest ::
    "pod_env \<Rightarrow> rest_request \<Rightarrow> string \<Rightarrow> string \<Rightarrow> pod_proxy \<Rightarrow> pod_proxy \<times> pod_reply" where
  "proxySSERequest E c targetAddress adapterName st =
     (case establishSession (pe_plugin E) targetAddress of
        Inl err \<Rightarrow> (st, Pod_status 503)
      | Inr sid \<Rightarrow>
          let s1 = fst (SetWithDetails (pe_now E) sid adapterName targetAddress ''SSE'' (pp_sessions st));
              targetURL = targetAddress @ ''/mcp'' in
          case pl_new_request (pe_plugin E) ''GET'' targetURL of
            Some err \<Rightarrow> (st\<lparr>pp_sessions := s1\<rparr>, Pod_status 500)
          | None \<Rightarrow>
              (case pl_send (pe_plugin E) (stream_request c targetURL sid) of
                 Answered resp \<Rightarrow> (st\<lparr>pp_sessions := fst (InMemorySessionStore_Set (pe_now' E) sid targetAddress s1)\<rparr>,
                   Pod_data (stream_response resp))
               | _ \<Rightarrow> (st\<lparr>pp_sessions := s1\<rparr>, Pod_status 503)))"

definition ForwardSSE ::
    "pod_env \<Rightarrow> 'c clientset option \<Rightarrow> 'c \<Rightarrow> rest_request \<Rightarrow> pod_proxy \<Rightarrow> pod_proxy \<times> pod_reply" where
  "ForwardSSE E kube cluster c st =
     (let name = RQ_Param c ''name'' in
      case getNewSessionTarget kube name cluster of
        Inl err \<Rightarrow> (st, Pod_status 503)
      | Inr target \<Rightarrow> proxySSERequest E c target name st)"


subsection \<open>Properties\<close>

text \<open>The session of a stream loses the adapter that it was just given: when the server has answered, the session is stored a second time, with its
  target alone.\<close>

theorem streams_lose_their_adapter:
  assumes "ForwardSSE E kube cluster c st = (st', Pod_data r)"
  shows "\<exists>sid d. GetDetails (pp_sessions st') sid = Inr d \<and> SD_AdapterName d = [] \<and> SD_ConnectionType d = [] \<and>
    getNewSessionTarget kube (RQ_Param c ''name'') cluster = Inr (SD_TargetAddress d)"
proof -
  from assms obtain target where target: "getNewSessionTarget kube (RQ_Param c ''name'') cluster = Inr target"
    and "proxySSERequest E c target (RQ_Param c ''name'') st = (st', Pod_data r)"
    by (auto simp: ForwardSSE_def Let_def split: sum.splits)
  then obtain sid s where "pp_sessions st' = fst (InMemorySessionStore_Set (pe_now' E) sid target s)"
    by (auto simp: proxySSERequest_def Let_def split: sum.splits option.splits sent.splits)
  then have "\<exists>d. GetDetails (pp_sessions st') sid = Inr d \<and> SD_AdapterName d = [] \<and> SD_ConnectionType d = [] \<and> SD_TargetAddress d = target"
    by (simp add: InMemorySessionStore_Set_def SetWithDetails_def GetDetails_def get_session_def)
  with target show ?thesis by blast
qed

lemma touched_unnamed:
  assumes "GetDetails s sid = Inr d" and "SD_AdapterName d = []" and "sid \<noteq> []"
  shows "\<not> IsTokenValid now (touched_session E sid name t s) sid"
proof -
  from assms(1) have "iss_sessions s sid = Some d" by (simp add: GetDetails_def get_session_def split: option.splits)
  then have "touched_session E sid name t s =
      fst (SetWithDetails (pe_now' E) sid name (SD_TargetAddress d) t (fst (UpdateActivity (pe_now E) sid s)))"
    using assms(2,3) by (simp add: touched_session_def UpdateActivity_def set_session_def GetDetails_def get_session_def Let_def)
  then show ?thesis by (simp add: SetWithDetails_def IsTokenValid_def)
qed

text \<open>The first request to an adapter that runs elsewhere makes a session forget the token that OAuth gave it: the session is stored anew.\<close>

theorem first_use_forgets_the_token:
  assumes "get (RQ_Param c ''name'') = Inr adapter" and "AR_CreatedBy adapter = effective_user userId"
    and "AD_ConnectionType adapter = ConnectionTypeRemoteHttp \<or> K8s_CanHandle (AD_ConnectionType adapter)"
    and "GetDetails (pp_sessions st) (pod_session_ID c) = Inr d" and "SD_AdapterName d = []" and "pod_session_ID c \<noteq> []"
  shows "\<not> IsTokenValid now (pp_sessions (fst (ForwardStreamableHttp E get userId c st))) (pod_session_ID c)"
proof -
  have "pp_sessions (fst (ForwardStreamableHttp E get userId c st)) =
      touched_session E (pod_session_ID c) (RQ_Param c ''name'') (AD_ConnectionType adapter) (pp_sessions st)"
    using assms(1-3) by (auto simp: ForwardStreamableHttp_def Let_def K8s_CanHandle_def)
  with touched_unnamed [OF assms(4-6)] show ?thesis by simp
qed

text \<open>The route for messages knows its adapter's name and does not ask for it: a session is relayed to its own target under every name, whoever owns
  that adapter; with the token of the session.\<close>

theorem messages_follow_the_session:
  assumes "GetDetails (pp_sessions st) (pod_session_ID c) = Inr d" and "pod_session_ID c \<noteq> []" and "PR_Body c = Inr body"
    and "pl_new_request (pe_plugin E) (PR_Method c) (FW_URL req) = None"
    and req: "req = pod_request (pe_now E) (pp_sessions st) c (SD_TargetAddress d) (pod_session_ID c) body"
    and "pl_send (pe_plugin E) req = Answered resp" and "PX_Status resp \<noteq> 401"
  shows "ForwardMessages E (c\<lparr>RQ_Param := f\<rparr>) st = (st, Pod_data (copied_response resp))"
    and "IsTokenValid (pe_now E) (pp_sessions st) (pod_session_ID c) \<Longrightarrow> \<exists>p. SD_TokenInfo d = Some p \<and>
      FW_Header req ''Authorization'' = Some [''Bearer '' @ TI_AccessToken (token_at (pp_sessions st) p)]"
proof -
  from assms(1) have d: "iss_sessions (pp_sessions st) (pod_session_ID c) = Some d"
    by (simp add: GetDetails_def get_session_def split: option.splits)
  have same: "pod_session_ID (c\<lparr>RQ_Param := f\<rparr>) = pod_session_ID c"
    "pod_request n s (c\<lparr>RQ_Param := f\<rparr>) = pod_request n s c" for n s
    by (auto simp: pod_session_ID_def rest_GetHeader_def rest_Query_def pod_request_def fun_eq_iff)
  have url: "FW_URL (pod_request (pe_now E) (pp_sessions st) c (SD_TargetAddress d) (pod_session_ID c) b) = FW_URL req" for b
    by (simp add: req pod_request_def)
  show "ForwardMessages E (c\<lparr>RQ_Param := f\<rparr>) st = (st, Pod_data (copied_response resp))"
    using d same assms(2-4,6,7) url
    by (simp add: ForwardMessages_def Let_def InMemorySessionStore_Get_def ProxyHandler_proxyRequest_def pod_answer_def req [symmetric])
  assume "IsTokenValid (pe_now E) (pp_sessions st) (pod_session_ID c)"
  then obtain p where "SD_TokenInfo d = Some p" "GetTokenInfo (pp_sessions st) (pod_session_ID c) = Inr p"
    using d by (auto simp: IsTokenValid_def GetTokenInfo_def get_session_def split: option.splits)
  moreover have "CanonicalHeaderKey ''Authorization'' = ''Authorization''" by code_simp
  ultimately show "\<exists>p. SD_TokenInfo d = Some p \<and>
      FW_Header req ''Authorization'' = Some [''Bearer '' @ TI_AccessToken (token_at (pp_sessions st) p)]"
    using assms(2) \<open>IsTokenValid (pe_now E) (pp_sessions st) (pod_session_ID c)\<close>
    by (simp add: req pod_request_def session_credentials_def header_Set_def)
qed

text \<open>A stream goes to a pod that is ready, if there is a cluster.\<close>

theorem streams_reach_ready_pods:
  assumes "getNewSessionTarget (Some K) name cluster = Inr target"
  shows "\<exists>pods p. cs_ListPods K ''adapter'' (''app='' @ name @ '',type=mcp-adapter'') ''status.phase=Running'' cluster = Inr pods \<and>
    p \<in> set pods \<and> isPodReady p \<and> target = ''http://'' @ fst p @ ''.'' @ name @ ''-service.adapter.svc.cluster.local:8000''"
proof -
  from assms obtain pods where pods: "cs_ListPods K ''adapter'' (''app='' @ name @ '',type=mcp-adapter'') ''status.phase=Running'' cluster = Inr pods"
    by (auto simp: getNewSessionTarget_def ProxyHandler_getPodAddresses_def split: sum.splits)
  with assms obtain p ps where "filter isPodReady pods = p # ps"
    "target = ''http://'' @ fst p @ ''.'' @ name @ ''-service.adapter.svc.cluster.local:8000''"
    by (auto simp: getNewSessionTarget_def ProxyHandler_getPodAddresses_def split: sum.splits list.splits)
  moreover then have "p \<in> set (filter isPodReady pods)" by simp
  then have "p \<in> set pods \<and> isPodReady p" by simp
  ultimately show ?thesis using pods by blast
qed


subsection \<open>Concrete values\<close>

definition ex_pod_answer :: proxied where
  "ex_pod_answer = \<lparr>PX_Status = 200, PX_Header = [''Mcp-Session-Id'' \<mapsto> [''s1'']], PX_Body = [], PX_Error = None\<rparr>"

definition ex_pod_env :: pod_env where
  "ex_pod_env = \<lparr>pe_plugin = ex_plugin_env\<lparr>pl_send := \<lambda>q. Answered ex_pod_answer\<rparr>, pe_stdio = sx_os ex_stdio_env, pe_now = 0, pe_now' = 0,
     pe_now'' = 0, pe_unix = 0, pe_digits = [], pe_read = None\<rparr>"

definition ex_pod_request :: rest_request where
  "ex_pod_request = \<lparr>PR_Method = ''POST'', PR_Header = [''Mcp-Session-Id'' \<mapsto> [''s1'']], PR_RawQuery = [], PR_Body = Inr ''{}'',
     RQ_Param = (\<lambda>k. if k = ''name'' then ''w'' else []), RQ_Cookie = (\<lambda>k. None)\<rparr>"

definition ex_pod_session :: SessionDetails where
  "ex_pod_session = \<lparr>SD_SessionID = ''s1'', SD_AdapterName = [], SD_TargetAddress = ''http://pod'', SD_ConnectionType = [],
     SD_CreatedAt = 0, SD_LastActivity = 0, SD_Status = ''active'', SD_TokenInfo = Some 0, SD_AuthorizationInfo = None, SD_MCPSessionID = [],
     SD_MCPCapabilities = Map.empty, SD_MCPClientInfo = None, SD_MCPServerInfo = None\<rparr>"

definition ex_pod_proxy :: pod_proxy where
  "ex_pod_proxy = \<lparr>pp_sessions = \<lparr>iss_sessions = [''s1'' \<mapsto> ex_pod_session],
     iss_tokens = [0 \<mapsto> zero_TokenInfo\<lparr>TI_AccessToken := ''oauth'', TI_ExpiresAt := 10 * minute\<rparr>]\<rparr>, pp_local = NewLocalStdioProxyPlugin\<rparr>"

lemma ex_pod_session_ID: "pod_session_ID ex_pod_request = ''s1''"
  by code_simp

lemma ex_pod_details: "GetDetails (pp_sessions ex_pod_proxy) (pod_session_ID ex_pod_request) = Inr ex_pod_session"
  by (simp add: ex_pod_session_ID ex_pod_proxy_def GetDetails_def get_session_def)

lemma ex_pod_token: "IsTokenValid 0 (pp_sessions ex_pod_proxy) ''s1''"
  by (simp add: ex_pod_proxy_def ex_pod_session_def IsTokenValid_def token_at_def Let_def)

lemma ex_pod_env_simps [simp]:
  "pe_now ex_pod_env = 0" "pl_new_request (pe_plugin ex_pod_env) m u = None" "pl_send (pe_plugin ex_pod_env) q = Answered ex_pod_answer"
  by (simp_all add: ex_pod_env_def ex_plugin_env_def)

theorem streams_lose_their_adapter_witness:
  "\<exists>st' sid d. fst (ForwardSSE ex_pod_env (None :: unit clientset option) () ex_pod_request ex_pod_proxy) = st' \<and>
     GetDetails (pp_sessions st') sid = Inr d \<and> SD_AdapterName d = [] \<and> SD_TargetAddress d = ''http://localhost:8000''"
proof -
  have t: "getNewSessionTarget (None :: unit clientset option) name () = Inr ''http://localhost:8000''" for name
    by (simp add: getNewSessionTarget_def ProxyHandler_getPodAddresses_def)
  have "establishSession (pe_plugin ex_pod_env) u = Inr ''s1''" for u
    by (simp add: establishSession_def Let_def pod_extractSessionID_def ex_pod_answer_def header_Get_def)
  with t obtain st' r where run: "ForwardSSE ex_pod_env (None :: unit clientset option) () ex_pod_request ex_pod_proxy = (st', Pod_data r)"
    by (auto simp: ForwardSSE_def proxySSERequest_def Let_def)
  from streams_lose_their_adapter [OF run] obtain sid d where "GetDetails (pp_sessions st') sid = Inr d" "SD_AdapterName d = []"
    "SD_TargetAddress d = ''http://localhost:8000''" by (auto simp: t)
  with run show ?thesis by (metis fst_conv)
qed

definition ex_pod_adapter :: AdapterResource where
  "ex_pod_adapter = AdapterResource_Create 0 [] (NewAdapterData ''w'' [] []) ''ann'' 0"

theorem first_use_forgets_the_token_witness:
  "IsTokenValid 0 (pp_sessions ex_pod_proxy) ''s1'' \<and>
   \<not> IsTokenValid 0 (pp_sessions (fst (ForwardStreamableHttp ex_pod_env (\<lambda>name. Inr ex_pod_adapter) ''ann'' ex_pod_request ex_pod_proxy))) ''s1''"
proof -
  have "\<not> IsTokenValid 0 (pp_sessions (fst (ForwardStreamableHttp ex_pod_env (\<lambda>name. Inr ex_pod_adapter) ''ann'' ex_pod_request ex_pod_proxy)))
      (pod_session_ID ex_pod_request)"
    by (rule first_use_forgets_the_token [OF _ _ _ ex_pod_details, where adapter = ex_pod_adapter])
      (simp_all add: ex_pod_adapter_def effective_user_def K8s_CanHandle_def NewAdapterData_def ex_pod_session_def ex_pod_session_ID)
  with ex_pod_token show ?thesis by (simp add: ex_pod_session_ID)
qed

theorem messages_follow_the_session_witness:
  "ForwardMessages ex_pod_env (ex_pod_request\<lparr>RQ_Param := \<lambda>k. ''another''\<rparr>) ex_pod_proxy =
     (ex_pod_proxy, Pod_data (copied_response ex_pod_answer)) \<and>
   (\<exists>p. SD_TokenInfo ex_pod_session = Some p \<and> TI_AccessToken (token_at (pp_sessions ex_pod_proxy) p) = ''oauth'')"
proof -
  have facts: "pod_session_ID ex_pod_request \<noteq> []" "PR_Body ex_pod_request = Inr ''{}''" "PX_Status ex_pod_answer \<noteq> 401"
    by (simp add: ex_pod_session_ID, simp add: ex_pod_request_def, simp add: ex_pod_answer_def)
  note run = messages_follow_the_session [OF ex_pod_details facts(1,2) ex_pod_env_simps(2) refl ex_pod_env_simps(3) facts(3)]
  have "\<exists>p. SD_TokenInfo ex_pod_session = Some p \<and> TI_AccessToken (token_at (pp_sessions ex_pod_proxy) p) = ''oauth''"
    by (simp add: ex_pod_session_def ex_pod_proxy_def token_at_def)
  with run(1) show ?thesis by blast
qed

text \<open>A cluster of one pod, which is ready.\<close>

definition ex_pods :: "unit clientset" where
  "ex_pods = \<lparr>cs_CreateStatefulSet = (\<lambda>a b c. (c, None)), cs_UpdateStatefulSet = (\<lambda>a b c. (c, None)), cs_CreateService = (\<lambda>a b c. (c, None)),
     cs_UpdateService = (\<lambda>a b c. (c, None)), cs_GetStatefulSet = (\<lambda>a b c. Inl []), cs_DeleteStatefulSet = (\<lambda>a b c. (c, None)),
     cs_ListPods = (\<lambda>a b c d. Inr [(''w-1'', []), (''w-0'', [(''Ready'', ''True'')])]), cs_Logs = (\<lambda>a b c d. Inl [])\<rparr>"

theorem streams_reach_ready_pods_witness:
  "\<exists>p. isPodReady p \<and> getNewSessionTarget (Some ex_pods) ''w'' () =
     Inr (''http://'' @ fst p @ ''.'' @ ''w'' @ ''-service.adapter.svc.cluster.local:8000'')"
proof -
  obtain target where target: "getNewSessionTarget (Some ex_pods) ''w'' () = Inr target"
    by (simp add: getNewSessionTarget_def ProxyHandler_getPodAddresses_def ex_pods_def isPodReady_def)
  from streams_reach_ready_pods [OF this] target show ?thesis by auto
qed

end
