(* ===== verification/Spec2Isabelle.thy ===== *)
theory Spec2Isabelle
  imports Prelude GoStrings GoHttp KeyedStore FileStore UserGroupStore PortManager Models AdapterStores
    UserGroupService AdapterService SessionStore MCPCache ErrorHandler Security Monitoring Templates
    AdapterCreation GoNet ScanTargets DiscoveryStore ScanManager MCPClient NetworkScanner TokenManager
    UserAuth UserGroupHandlers TokenHandlers AdapterHandlers MCPProtocol MessageRouter StreamableHTTP
    MCPService Registry SidecarManager Correlation ProxySessions StdioProxy RemoteProxy RestApi Plugins
    Startup AuthIntegration DiscoveryHandlers PluginRouting MainRoutes Authorization RegistryService
    RegistrySources CapabilityClient Management AdapterFactory ProxyService DiscoveryDetection Registration ScanService PodProxy
begin

text \<open>
SUSE AI Universal Proxy: a program in Go that keeps adapters in front of MCP servers (servers of tools, resources and
  prompts for language models, which speak JSON-RPC), decides who may use which adapter, deploys the servers that need a
  process of their own, relays the messages, and finds servers on the network and in registries. This development
  translates its packages into HOL, one theory for each component, and proves what makes each of them correct, or says
  exactly how it falls short. Paths are below \<open>src/\<close>; a definition has the name of the function, method or type it
  models, with the receiver or a prefix in front of it where two of them share a name.

  \<^bold>\<open>The program.\<close>  \<open>cmd/uniproxy/main.go\<close> makes the stores, services and handlers, fills the stores of users and
  groups, loads the registry, and gives the router a table of routes. A request passes the middleware, reaches a handler
  of \<open>internal/handlers\<close> (or one of main.go's own), which calls a service (\<open>pkg/services\<close>), which calls stores
  (\<open>pkg/clients\<close>, \<open>pkg/session\<close>, \<open>pkg/scanner\<close>). Messages to servers go through the session proxies of \<open>pkg/proxy\<close> or the
  protocol layer of \<open>pkg/mcp\<close>. \<open>cmd/registry\<close> is a second program, the registry alone. Some packages under
  \<open>internal/service\<close> belong to no program; they are modelled as libraries, and their texts say so.

  \<^bold>\<open>How it is modelled.\<close>  A struct is a record, an interface a record of operations, an operation a function from the
  state before it to the state after it and its answer. An error is its text, \<open>Inl\<close> of the type \<open>result\<close>; a panic, or
  a loop that does not end, is \<open>None\<close> of an option. A pointer is the value it points to, except where the aliasing
  matters: the tokens of the session store, the adapters behind the token handlers and the copies of discovered servers
  live in a store of their own. An operation that holds a mutex is one step; where the code gives it up between two
  critical sections (scan jobs, health checks, the pending requests of the proxies, the discovery store's read lock) there
  are two steps, and a relation says in which orders they come. A loop over a Go map takes the order of its keys as a list
  \<open>ks\<close>, with \<open>range_order m ks\<close>. Readings of the clock, drawn identifiers, environment variables, files and the answers of
  other systems are arguments. JSON and YAML decoders, digests, bcrypt, the signing of web tokens, gin's router, the
  cluster's API, kubectl and the network are code that is not in the repository: they are parameters, and a theorem that
  rests on their documented behaviour states it as a hypothesis, with a witness that gives a function which has it. Time
  is an \<open>int\<close> in nanoseconds; addresses are bytes of \<open>8 word\<close>; a counter that Go keeps in 64 bits is an \<open>int\<close> where no run
  reaches the bound; the average of a metric is a rational number where the code rounds to float64.

  \<^bold>\<open>Ground.\<close>  \<open>Prelude\<close> (errors, time, maps and their ranges), \<open>GoStrings\<close> (package strings, ASCII), \<open>GoHttp\<close>
  (headers, URLs, base64, with the round trip of what is encoded), \<open>GoNet\<close> (package net: addresses, their text, networks
  and increments on bytes), \<open>Models\<close> (the structs of \<open>pkg/models\<close>).

  \<^bold>\<open>Stores.\<close>  \<open>KeyedStore\<close> is the contract of all stores: the locales \<open>keyed_map\<close>, \<open>keyed_store\<close>, \<open>reliable_map\<close> and
  \<open>reliable_store\<close>. \<open>FileStore\<close> is the persistence that the stores in files share (\<open>pkg/clients/crypto.go\<close> and
  loadFromFile, saveToFile). \<open>UserGroupStore\<close> (\<open>user_group_store.go\<close>) and \<open>AdapterStores\<close> (\<open>adapter_store.go\<close>,
  \<open>adapter_group_assignment_store.go\<close>, \<open>user_adapter_token_store.go\<close>, \<open>mcp_server_store.go\<close>, \<open>mcp_server_store_file.go\<close>)
  model both implementations of each store and interpret the locales on them; the services are proved once, over the locales. \<open>SessionStore\<close> (\<open>pkg/session/store.go\<close>),
  \<open>MCPCache\<close> (\<open>pkg/mcp/cache.go\<close>, with eviction: the bound is an invariant of its steps), \<open>DiscoveryStore\<close>
  (\<open>pkg/scanner/discovery_store.go\<close>: one entry for each fingerprint; its lock as a relation, which shows that a save of a
  new server blocks forever) and \<open>PortManager\<close> (\<open>pkg/proxy/port_manager.go\<close>: no two adapters share a port) are the other
  stores.

  \<^bold>\<open>Users and access.\<close>  \<open>UserGroupService\<close> (\<open>pkg/services/user_group.go\<close>): a user lists a group exactly if the group
  lists the user, an invariant of all calls, and which failures leave the stores as they were; permissions with a star
  against the globs they are meant to be. \<open>AdapterService\<close> (\<open>pkg/services/adapters/service.go\<close>): who gets an adapter, and
  that a listing shows nobody more than that. \<open>TokenManager\<close> (\<open>pkg/auth/token_manager.go\<close>, \<open>middleware.go\<close>), \<open>UserAuth\<close>
  (\<open>pkg/auth/user_middleware.go\<close>, \<open>internal/handlers/auth.go\<close>), \<open>TokenHandlers\<close> (\<open>internal/handlers/token_handler.go\<close>,
  \<open>pkg/auth/adapter_middleware.go\<close>), \<open>AuthIntegration\<close> (\<open>internal/service/mcp_auth_integration.go\<close>,
  \<open>internal/handlers/mcp_auth_handler.go\<close>) and \<open>Authorization\<close> (\<open>internal/service/authorization.go\<close>): what is issued is
  accepted, what is refused, what is left open. \<open>UserGroupHandlers\<close> (\<open>internal/handlers/user_group.go\<close>) and \<open>MainRoutes\<close>
  (the table of main.go): which routes ask for a token. \<open>Startup\<close> (\<open>internal/config\<close>, \<open>pkg/network\<close>, the first part of
  RunUniproxy): what the first users can do.

  \<^bold>\<open>Adapters.\<close>  \<open>Templates\<close> (the commands of sidecars), \<open>AdapterCreation\<close> (CreateAdapter, discovery with retries,
  health, \<open>pkg/mcp/capability_discovery.go\<close>): an adapter is made whole or not at all. \<open>AdapterHandlers\<close>
  (\<open>internal/handlers/adapters.go\<close>), \<open>RestApi\<close> (the REST handlers of main.go): the routes. \<open>SidecarManager\<close>
  (\<open>pkg/proxy/sidecar_manager.go\<close>, \<open>pkg/deployer\<close>): docker commands against a grammar of theirs, deployment over
  a cluster or a kubectl with documented laws, and that the router reaches what was deployed. Three theories hold the first
  design of the same, in \<open>internal/service\<close>, which no program installs: \<open>CapabilityClient\<close> (\<open>mcp_discovery.go\<close>),
  \<open>Management\<close> (\<open>management.go\<close>, \<open>session.go\<close>, \<open>pkg/clients/kubernetes_wrapper.go\<close>; the locale \<open>managed_store\<close> holds for both
  stores of adapters) and \<open>AdapterFactory\<close> (\<open>adapter_factory.go\<close>, \<open>mcp_store.go\<close>). \<open>ProxyService\<close>
  (\<open>pkg/services/proxy/service.go\<close>, \<open>pkg/middleware/client.go\<close>) is the relaying service that stands alone.

  \<^bold>\<open>Messages.\<close>  \<open>Correlation\<close> (the pending requests that \<open>stdio_to_http.go\<close> and \<open>remote_http_proxy_adapter.go\<close>
  share): the handlers and readers that run at once as the relation \<open>exchange_step\<close>; a request is given the answer to its
  own ID. \<open>ProxySessions\<close>, \<open>StdioProxy\<close> (\<open>local_stdio.go\<close>, \<open>stdio_to_http.go\<close>) and \<open>RemoteProxy\<close>
  (\<open>remote_http_proxy_adapter.go\<close>, \<open>remote_http.go\<close>): the sessions of both proxies, by the locale \<open>session_table\<close>.
  \<open>MCPProtocol\<close> (\<open>protocol_handler.go\<close>, \<open>capability_cache.go\<close>), \<open>MessageRouter\<close>, \<open>StreamableHTTP\<close>, \<open>MCPService\<close> (with
  \<open>session_manager.go\<close>), \<open>ErrorHandler\<close>, \<open>Security\<close> and \<open>Monitoring\<close> are the files of \<open>pkg/mcp\<close> of those names; the log is
  the window of the last entries of an unbounded one, and the metrics are the summary of all requests (refinements).

  \<^bold>\<open>Discovery.\<close>  \<open>ScanTargets\<close> (addresses and ports of a scan), \<open>MCPClient\<close> (\<open>pkg/mcp/client.go\<close>), \<open>NetworkScanner\<close>,
  \<open>ScanManager\<close> (\<open>pkg/scanner\<close>), \<open>DiscoveryHandlers\<close> (\<open>internal/handlers/discovery.go\<close>): a scan finds exactly the
  targets whose answers are taken for a server, and jobs follow their scans. \<open>DiscoveryDetection\<close>
  (\<open>internal/service/discovery.go\<close>) is the discovery service that no program starts, up to the registration of a server as
  an adapter of the management service: an open server is registered with a token of its own.

  \<^bold>\<open>Registry and plugins.\<close>  \<open>Registry\<close> (the registry handlers and main.go's loading, over the stores of \<open>AdapterStores\<close>), \<open>RegistryService\<close> (\<open>cmd/registry\<close>, \<open>pkg/services/registry\<close>, \<open>pkg/middleware/apikey.go\<close> and
  \<open>cors.go\<close>), \<open>RegistrySources\<close> (\<open>internal/service/registry_manager.go\<close>), \<open>Plugins\<close> (\<open>pkg/plugins\<close>,
  \<open>internal/handlers/plugin.go\<close>) and \<open>PluginRouting\<close> (\<open>plugin_registration.go\<close>, \<open>route_manager.go\<close>, \<open>dynamic_router.go\<close>).

  \<^bold>\<open>Lemmas.\<close>  In each theory the lemmas come after the operations they are about: first which branch an operation
  takes, then the invariant and that each step keeps it, then the properties, each behind a text that states it, then
  concrete values, and the witnesses, which apply a property at such a value.

  \<^bold>\<open>Fuel and termination.\<close>  No definition runs on fuel. Loops that the text of a program bounds are structural or
  have a measure (the rest of a string, the ports up to the last one, the attempts that are left: \<open>discover_attempts\<close>).
  The loops that may not end are partial functions into option: \<open>range_loop\<close> (a range of addresses up to the last address
  there is) and \<open>fresh_ID\<close> (the search for an identifier that is not taken).

  \<^bold>\<open>Not modelled.\<close>  \<open>docs/docs.go\<close> is generated. Logging, telemetry, signals, timeouts of the listener, pages of
  constant text, and the formatting of statistics change nothing that the program reads again. TLS (\<open>pkg/tls\<close>), the
  connection to a cluster (\<open>pkg/clients/kubernetes.go\<close>) and the templates of manifests are the edge to other systems. The
  rest of \<open>pkg/proxy\<close> (multi_server.go, http_handler.go, session.go, advanced_features.go, server.go, client.go, models.go,
  k8s.go, github_proxy_adapter.go, sidecar_proxy.go, plugin.go), the rest of \<open>pkg/middleware\<close>, \<open>internal/service/proxy.go\<close>,
  \<open>internal/handlers/registration.go\<close>, \<open>pkg/services/discovery\<close>, \<open>pkg/services/plugins\<close>, \<open>cmd/plugins\<close>,
  \<open>pkg/mcp/tool_discovery.go\<close> and \<open>pkg/discovery\<close> (regular expressions over README files) are not started by main.go, or are
  services of their own, and are left out. Within a modelled file the manifest's notes say what is missing.
\<close>

end
